(* ===== verification/HE_Prelude.thy ===== *)
theory HE_Prelude
  imports Main "HOL-Library.Word"
begin

text \<open>
  Shared vocabulary of the development: the C integer types, the memory primitives of the C
  library that the sources call (\<open>memcmp\<close>, \<open>memmove\<close>, a store of bytes into an array), each with
  its bounds check made explicit, the unsigned 64-bit arithmetic on \<open>size_t\<close> values with the
  wrap-around written out, the Linux error numbers the sources name, and decimal printing.
  The collection \<open>c_mem\<close> gathers the facts that let the component proofs go through by
  simplification.
\<close>

named_theorems c_mem \<open>facts on the C memory primitives, for the component proofs\<close>

type_synonym byte = "8 word"
type_synonym u16 = "16 word"
type_synonym u32 = "32 word"
type_synonym u64 = "64 word"

section \<open>How a C computation can go wrong\<close>

text \<open>
  A failed \<open>assert\<close> aborts the process; an access outside an object is undefined behaviour. Both
  are values of the model: a computation returns \<open>crash + 'a\<close>.
\<close>

datatype crash = Assert_failed | Mem_fault

section \<open>Arithmetic on size_t\<close>

definition c_add64 :: "nat \<Rightarrow> nat \<Rightarrow> nat" where
  "c_add64 a b = (a + b) mod 2 ^ 64"

definition c_sub64 :: "nat \<Rightarrow> nat \<Rightarrow> nat" where
  "c_sub64 a b = (a + 2 ^ 64 - b) mod 2 ^ 64"

lemma c_add64_exact [c_mem]: "a + b < 2 ^ 64 \<Longrightarrow> c_add64 a b = a + b"
  by (simp add: c_add64_def)

lemma c_sub64_exact [c_mem]:
  assumes "b \<le> a" and "a < 2 ^ 64"
  shows "c_sub64 a b = a - b"
proof -
  have "c_sub64 a b = ((a - b) + 2 ^ 64) mod 2 ^ 64"
    unfolding c_sub64_def using assms(1) by (metis Nat.add_diff_assoc2)
  also have "\<dots> = (a - b) mod 2 ^ 64"
    by (rule mod_add_self2)
  also have "\<dots> = a - b"
    using assms(2) by (intro mod_less) linarith
  finally show ?thesis .
qed

section \<open>Byte arrays\<close>

text \<open>
  A pointer into an array is its offset, an \<open>int\<close>, because C pointer arithmetic can leave the
  array on both sides. Each primitive checks that the bytes it touches are inside the array and
  is \<open>None\<close> where they are not.
\<close>

definition c_memcmp_eq :: "byte list \<Rightarrow> int \<Rightarrow> byte list \<Rightarrow> bool option" where
  "c_memcmp_eq buf p pat =
     (if 0 \<le> p \<and> p + int (length pat) \<le> int (length buf)
      then Some (take (length pat) (drop (nat p) buf) = pat)
      else None)"

definition c_memmove :: "byte list \<Rightarrow> int \<Rightarrow> int \<Rightarrow> nat \<Rightarrow> byte list option" where
  "c_memmove buf dst src n =
     (if 0 \<le> dst \<and> dst + int n \<le> int (length buf) \<and> 0 \<le> src \<and> src + int n \<le> int (length buf)
      then Some (take (nat dst) buf @ take n (drop (nat src) buf) @ drop (nat dst + n) buf)
      else None)"

definition c_store :: "byte list \<Rightarrow> nat \<Rightarrow> byte list \<Rightarrow> byte list option" where
  "c_store buf off bs =
     (if off + length bs \<le> length buf
      then Some (take off buf @ bs @ drop (off + length bs) buf)
      else None)"

lemma c_memcmp_eq_in [c_mem]:
  "p + length pat \<le> length buf \<Longrightarrow>
   c_memcmp_eq buf (int p) pat = Some (take (length pat) (drop p buf) = pat)"
  by (simp add: c_memcmp_eq_def flip: of_nat_add)

lemma c_memmove_head [c_mem]:
  assumes "src + n \<le> length buf"
  shows "c_memmove buf 0 (int src) n = Some (take n (drop src buf) @ drop n buf)"
  using assms by (simp add: c_memmove_def flip: of_nat_add)

lemma c_store_in [c_mem]:
  "off + length bs \<le> length buf \<Longrightarrow>
   c_store buf off bs = Some (take off buf @ bs @ drop (off + length bs) buf)"
  by (simp add: c_store_def)

lemma c_store_length: "c_store buf off bs = Some buf' \<Longrightarrow> length buf' = length buf"
  by (auto simp: c_store_def split: if_splits)

lemma c_memmove_length: "c_memmove buf dst src n = Some buf' \<Longrightarrow> length buf' = length buf"
  by (auto simp: c_memmove_def split: if_splits)

text \<open>The bytes of a C string literal, without its terminating NUL.\<close>

definition bytes_of :: "string \<Rightarrow> byte list" where
  "bytes_of = map of_char"

lemma length_bytes_of [simp]: "length (bytes_of s) = length s"
  by (simp add: bytes_of_def)

section \<open>Little-endian numbers\<close>

text \<open>The little-endian number in \<open>n\<close> bytes at an offset, and the \<open>n\<close> bytes of a number.\<close>

definition le_at :: "byte list \<Rightarrow> nat \<Rightarrow> nat \<Rightarrow> nat" where
  "le_at bs off n = foldr (\<lambda>b acc. unat b + 256 * acc) (take n (drop off bs)) 0"

primrec le_bytes :: "nat \<Rightarrow> nat \<Rightarrow> byte list" where
  "le_bytes 0 x = []"
| "le_bytes (Suc n) x = of_nat x # le_bytes n (x div 256)"

lemma le_at_append [simp]: "off + n \<le> length a \<Longrightarrow> le_at (a @ b) off n = le_at a off n"
  by (simp add: le_at_def)

lemma length_le_bytes [simp]: "length (le_bytes n x) = n"
  by (induction n arbitrary: x) simp_all

lemma le_at_le_bytes [simp]: "x < 256 ^ n \<Longrightarrow> le_at (le_bytes n x) 0 n = x"
proof (induction n arbitrary: x)
  case (Suc n)
  have "x div 256 < 256 ^ n"
    using Suc.prems by (simp add: less_mult_imp_div_less mult.commute)
  with Suc.IH have "foldr (\<lambda>b acc. unat b + 256 * acc) (le_bytes n (x div 256)) 0 = x div 256"
    by (simp add: le_at_def)
  then show ?case
    by (simp add: le_at_def unsigned_of_nat take_bit_eq_mod)
qed (simp add: le_at_def)

section \<open>Shifts\<close>

text \<open>A shift of a 64-bit number by a negative amount or by 64 and more is undefined in C.\<close>

definition c_shift :: "(nat \<Rightarrow> u64 \<Rightarrow> u64) \<Rightarrow> u64 \<Rightarrow> int \<Rightarrow> u64 option" where
  "c_shift f v n = (if 0 \<le> n \<and> n < 64 then Some (f (nat n) v) else None)"

lemma shift_up_down:
  fixes v :: u64
  assumes "n < 64"
  shows "drop_bit n (push_bit n v) = take_bit (64 - n) v"
    and "signed_drop_bit n (push_bit n v) = signed_take_bit (63 - n) v"
proof -
  show "drop_bit n (push_bit n v) = take_bit (64 - n) v"
    by (rule bit_word_eqI) (use assms in \<open>auto simp: bit_simps dest: bit_imp_le_length\<close>)
  show "signed_drop_bit n (push_bit n v) = signed_take_bit (63 - n) v"
  proof (rule bit_word_eqI)
    fix k
    assume "k < LENGTH(64)"
    then consider "k < 63 - n" | "k = 63 - n" | "63 - n < k"
      by linarith
    then show "bit (signed_drop_bit n (push_bit n v)) k = bit (signed_take_bit (63 - n) v) k"
      by cases (use assms \<open>k < LENGTH(64)\<close> in \<open>auto simp: bit_simps min_def\<close>)
  qed
qed

section \<open>Error numbers\<close>

text \<open>The Linux values of the error numbers named in the sources.\<close>

definition ENOENT :: int where "ENOENT = 2"
definition ESRCH :: int where "ESRCH = 3"
definition ENOMEM :: int where "ENOMEM = 12"
definition EINVAL :: int where "EINVAL = 22"

lemmas errno_defs = ENOENT_def ESRCH_def ENOMEM_def EINVAL_def

section \<open>Decimal printing\<close>

text \<open>The digits \<open>printf\<close> writes for \<open>%lu\<close> and \<open>%d\<close>.\<close>

definition digit_char :: "nat \<Rightarrow> char" where
  "digit_char d = char_of (48 + d)"

fun dec_nat :: "nat \<Rightarrow> string" where
  "dec_nat n = (if n < 10 then [digit_char n] else dec_nat (n div 10) @ [digit_char (n mod 10)])"

declare dec_nat.simps [simp del]

definition dec_int :: "int \<Rightarrow> string" where
  "dec_int i = (if i < 0 then CHR ''-'' # dec_nat (nat (- i)) else dec_nat (nat i))"

definition newline :: char where
  "newline = CHR 0x0A"

text \<open>Reading a digit string back, to show that printing loses nothing.\<close>

definition undec :: "string \<Rightarrow> nat" where
  "undec = foldl (\<lambda>n c. 10 * n + (of_char c - 48)) 0"

lemma undec_dec_nat [simp]: "undec (dec_nat n) = n"
proof (induction n rule: dec_nat.induct)
  case (1 n)
  have digit: "of_char (digit_char d) - 48 = d" if "d < 10" for d :: nat
    using that by (simp add: digit_char_def of_char_of)
  show ?case
  proof (cases "n < 10")
    case True
    then show ?thesis
      by (simp add: dec_nat.simps [of n] undec_def digit)
  next
    case False
    with "1.IH" have "undec (dec_nat (n div 10)) = n div 10"
      by simp
    with False show ?thesis
      by (simp add: dec_nat.simps [of n] undec_def digit)
  qed
qed

lemma dec_nat_inject [simp]: "dec_nat m = dec_nat n \<longleftrightarrow> m = n"
  by (metis undec_dec_nat)

end
