(* ===== verification/Occurrences.thy ===== *)
theory Occurrences
  imports HE_Prelude
begin

text \<open>
  The abstract specification of a search for a fixed pattern: the set of positions where the
  pattern occurs (overlapping ones included), and the interface a pattern has to satisfy so that
  a left-to-right scan which jumps over each match finds them all. The laws of the interface are
  that the pattern is not empty and has no border (no proper prefix that is also a suffix). The
  pattern of benchmarks/baseline.c provides it in \<open>Baseline_Scan\<close>.
\<close>

section \<open>Positions of a pattern\<close>

definition occurs_at :: "'a list \<Rightarrow> 'a list \<Rightarrow> nat \<Rightarrow> bool" where
  "occurs_at pat xs i \<longleftrightarrow> take (length pat) (drop i xs) = pat"

definition occurrences :: "'a list \<Rightarrow> 'a list \<Rightarrow> nat set" where
  "occurrences pat xs = {i. i < length xs \<and> occurs_at pat xs i}"

definition occ_count :: "'a list \<Rightarrow> 'a list \<Rightarrow> nat" where
  "occ_count pat xs = card (occurrences pat xs)"

lemma occ_count_code [code]:
  "occ_count pat xs = length (filter (occurs_at pat xs) [0..<length xs])"
proof -
  have "occurrences pat xs = set (filter (occurs_at pat xs) [0..<length xs])"
    by (auto simp: occurrences_def)
  then show ?thesis
    by (simp only: occ_count_def distinct_card distinct_filter distinct_upt)
qed

lemma finite_occurrences [simp, intro]: "finite (occurrences pat xs)"
  by (rule finite_subset [of _ "{..<length xs}"]) (auto simp: occurrences_def)

lemma occurs_at_fits:
  assumes "occurs_at pat xs i" and "pat \<noteq> []"
  shows "i + length pat \<le> length xs"
proof -
  have "length (take (length pat) (drop i xs)) = length pat"
    using assms(1) by (simp add: occurs_at_def)
  with assms(2) show ?thesis
    by (cases "i < length xs") (auto simp: min_def split: if_splits)
qed

lemma occurs_at_append:
  "i + length pat \<le> length xs \<Longrightarrow> occurs_at pat (xs @ ys) i \<longleftrightarrow> occurs_at pat xs i"
  by (simp add: occurs_at_def)

lemma occurs_at_drop: "occurs_at pat (drop d xs) i \<longleftrightarrow> occurs_at pat xs (i + d)"
  by (simp add: occurs_at_def add.commute)

lemma occurs_at_nth:
  assumes "occurs_at pat xs i" and "k < length pat"
  shows "xs ! (i + k) = pat ! k"
proof -
  have "i + length pat \<le> length xs"
    using assms by (intro occurs_at_fits) auto
  then have "take (length pat) (drop i xs) ! k = xs ! (i + k)"
    using assms(2) by simp
  with assms(1) show ?thesis
    by (simp add: occurs_at_def)
qed

section \<open>The interface of a searchable pattern\<close>

locale unbordered_pattern =
  fixes pat :: "'a list"
  assumes nonempty: "pat \<noteq> []"
    and unbordered: "\<And>k. 0 < k \<Longrightarrow> k < length pat \<Longrightarrow> \<exists>j < length pat - k. pat ! j \<noteq> pat ! (k + j)"
begin

lemma pat_length_pos: "0 < length pat"
  using nonempty by simp

lemma occurrences_empty: "length xs < length pat \<Longrightarrow> occurrences pat xs = {}"
  using occurs_at_fits nonempty by (fastforce simp: occurrences_def)

lemma occ_count_short: "length xs < length pat \<Longrightarrow> occ_count pat xs = 0"
  by (simp add: occ_count_def occurrences_empty)

lemma gap:
  assumes i: "occurs_at pat xs i" and j: "occurs_at pat xs j" and "i < j"
  shows "i + length pat \<le> j"
proof (rule ccontr)
  assume close: "\<not> i + length pat \<le> j"
  define k where "k = j - i"
  have k: "0 < k" "k < length pat" "j = i + k"
    using close \<open>i < j\<close> by (auto simp: k_def)
  then obtain l where l: "l < length pat - k" "pat ! l \<noteq> pat ! (k + l)"
    using unbordered by blast
  have "xs ! (j + l) = pat ! l"
    using l(1) by (intro occurs_at_nth [OF j]) simp
  moreover have "xs ! (i + (k + l)) = pat ! (k + l)"
    using l(1) by (intro occurs_at_nth [OF i]) simp
  ultimately show False
    using l(2) k(3) by (simp add: add.assoc)
qed

text \<open>Occurrences from a position on: what a scan that starts there still has to find.\<close>

lemma from_miss:
  assumes "\<not> occurs_at pat xs i"
  shows "{j \<in> occurrences pat xs. i \<le> j} = {j \<in> occurrences pat xs. Suc i \<le> j}"
  using assms by (auto simp: occurrences_def Suc_le_eq intro: le_neq_implies_less)

lemma from_hit:
  assumes "occurs_at pat xs i" and "i < length xs"
  shows "{j \<in> occurrences pat xs. i \<le> j} =
         insert i {j \<in> occurrences pat xs. i + length pat \<le> j}"
  using assms gap [OF assms(1)] by (auto simp: occurrences_def nat_less_le)

lemma card_from_hit:
  assumes "occurs_at pat xs i" and "i < length xs"
  shows "card {j \<in> occurrences pat xs. i \<le> j} =
         Suc (card {j \<in> occurrences pat xs. i + length pat \<le> j})"
  using pat_length_pos by (simp add: from_hit [OF assms])

lemma from_end:
  assumes "length xs < i + length pat"
  shows "{j \<in> occurrences pat xs. i \<le> j} = {}"
  using assms occurs_at_fits [OF _ nonempty] by (force simp: occurrences_def)

text \<open>
  Splitting the input: the occurrences of \<open>xs @ ys\<close> are those of \<open>xs\<close> and those of \<open>ys\<close>
  preceded by the last \<open>length pat - 1\<close> elements of \<open>xs\<close>. Nothing is lost at the border and
  nothing is counted twice.
\<close>

definition carry :: "'a list \<Rightarrow> 'a list" where
  "carry xs = drop (length xs - min (length pat - 1) (length xs)) xs"

lemma length_carry: "length (carry xs) = min (length pat - 1) (length xs)"
  by (simp add: carry_def)

lemma occ_count_append:
  "occ_count pat (xs @ ys) = occ_count pat xs + occ_count pat (carry xs @ ys)"
proof -
  define d where "d = length xs - min (length pat - 1) (length xs)"
  have d: "d \<le> length xs" "length xs \<le> d + (length pat - 1)" "d = 0 \<or> d + (length pat - 1) = length xs"
    by (auto simp: d_def)
  have window: "carry xs @ ys = drop d (xs @ ys)"
    using d(1) by (simp add: carry_def d_def)
  let ?A = "occurrences pat xs" and ?B = "(\<lambda>i. i + d) ` occurrences pat (carry xs @ ys)"
  have old: "i + length pat \<le> length xs" if "i \<in> ?A" for i
    using that occurs_at_fits nonempty by (auto simp: occurrences_def)
  have new: "length xs < i + length pat" if "i \<in> ?B" for i
  proof -
    from that have "d \<le> i"
      by auto
    with d(2) pat_length_pos show ?thesis
      by linarith
  qed
  have split: "occurrences pat (xs @ ys) = ?A \<union> ?B"
  proof (intro set_eqI iffI)
    fix i assume i: "i \<in> occurrences pat (xs @ ys)"
    show "i \<in> ?A \<union> ?B"
    proof (cases "i + length pat \<le> length xs")
      case True
      with i have "occurs_at pat xs i"
        by (simp add: occurrences_def occurs_at_append)
      moreover have "i < length xs"
        using True pat_length_pos by linarith
      ultimately have "i \<in> ?A"
        by (simp add: occurrences_def)
      then show ?thesis ..
    next
      case False
      with d have "d \<le> i"
        by linarith
      with i have "i - d \<in> occurrences pat (carry xs @ ys)"
        by (auto simp: window occurrences_def occurs_at_drop simp del: drop_append)
      with \<open>d \<le> i\<close> show ?thesis
        by (auto intro: image_eqI [where x = "i - d"])
    qed
  next
    fix i assume "i \<in> ?A \<union> ?B"
    then show "i \<in> occurrences pat (xs @ ys)"
    proof
      assume A: "i \<in> ?A"
      with old [OF A] show ?thesis
        by (simp add: occurrences_def occurs_at_append)
    next
      assume "i \<in> ?B"
      then show ?thesis
        by (auto simp: window occurrences_def occurs_at_drop simp del: drop_append)
    qed
  qed
  have "card ?B = card (occurrences pat (carry xs @ ys))"
    by (rule card_image) simp
  moreover have "?A \<inter> ?B = {}"
    using old new by fastforce
  ultimately show ?thesis
    by (simp add: occ_count_def split card_Un_disjoint)
qed

lemma carry_append: "carry (xs @ ys) = carry (carry xs @ ys)"
  by (auto simp: carry_def min_def add.commute)

text \<open>Since matches are disjoint, there is at most one per \<open>length pat\<close> elements.\<close>

lemma card_from_bound:
  "card {j \<in> occurrences pat xs. i \<le> j} * length pat + i \<le> max i (length xs)"
proof (induction "length xs - i" arbitrary: i rule: less_induct)
  case less
  consider "length xs \<le> i" | "i < length xs" "occurs_at pat xs i" | "i < length xs" "\<not> occurs_at pat xs i"
    by linarith
  then show ?case
  proof cases
    case 1
    then have "{j \<in> occurrences pat xs. i \<le> j} = {}"
      by (auto simp: occurrences_def)
    with 1 show ?thesis by (simp only: card.empty mult_0 add_0)
  next
    case 2
    have fits: "i + length pat \<le> length xs"
      using occurs_at_fits [OF 2(2) nonempty] .
    have "card {j \<in> occurrences pat xs. i + length pat \<le> j} * length pat + (i + length pat)
          \<le> max (i + length pat) (length xs)"
      using 2(1) pat_length_pos by (intro less) linarith
    then show ?thesis
      using fits 2(1) by (simp add: card_from_hit [OF 2(2,1)])
  next
    case 3
    have "card {j \<in> occurrences pat xs. Suc i \<le> j} * length pat + Suc i \<le> max (Suc i) (length xs)"
      using 3(1) by (intro less) simp
    then show ?thesis
      using 3 by (simp add: from_miss)
  qed
qed

lemma occ_count_bound: "occ_count pat xs * length pat \<le> length xs"
  using card_from_bound [of xs 0] by (simp add: occ_count_def)

end

end
