(* ===== verification/Baseline_Scan.thy ===== *)
theory Baseline_Scan
  imports Occurrences
begin

text \<open>
  The read-and-scan core of benchmarks/baseline.c: the constants, the inner \<open>while (ptr < limit)\<close>
  loop (\<open>scan_loop\<close>), one pass of the outer loop's body (\<open>chunk_body\<close>) and the outer loop over
  \<open>read(2)\<close> (\<open>read_loop\<close>), on the static 64 KiB buffer, its fill level \<open>offset_bytes\<close> and the
  64-bit counter. The kernel's side of \<open>read\<close> is an arbitrary finite script of outcomes: any
  split of the file into short reads, ended by end of file or by an error, is one such script.
\<close>

section \<open>Constants\<close>

definition CHUNK_SIZE_BYTES :: nat where
  "CHUNK_SIZE_BYTES = 64 * 1024"

definition PATTERN :: "byte list" where
  "PATTERN = bytes_of ''Alpha''"

definition PATTERN_LEN_BYTES :: nat where
  "PATTERN_LEN_BYTES = 5"

definition overlap_len_bytes :: nat where
  "overlap_len_bytes = PATTERN_LEN_BYTES - 1"

lemmas baseline_consts = CHUNK_SIZE_BYTES_def PATTERN_LEN_BYTES_def overlap_len_bytes_def

section \<open>State\<close>

text \<open>\<open>reads\<close> records the calls \<open>read(fd, buffer + offset, size)\<close> as pairs (offset, size).\<close>

record bl_state =
  buffer :: "byte list"
  offset_bytes :: nat
  total_count :: u64
  reads :: "(nat \<times> nat) list"

definition bl_init :: bl_state where
  "bl_init = \<lparr>buffer = replicate CHUNK_SIZE_BYTES 0, offset_bytes = 0, total_count = 0, reads = []\<rparr>"

section \<open>The read system call\<close>

datatype rd_event = Rd_bytes "byte list" | Rd_fail int
datatype rd_result = Rd_ok "byte list" | Rd_err int

text \<open>
  \<open>sys_read evs n\<close> asks for at most \<open>n\<close> bytes. \<open>Rd_ok bs\<close> stands for the return value
  \<open>length bs\<close> with \<open>bs\<close> stored at the destination, so \<open>Rd_ok []\<close> is end of file; \<open>Rd_err e\<close> is the
  return value -1 with \<open>errno = e\<close>. A script that has run out is at end of file.
\<close>

fun sys_read :: "rd_event list \<Rightarrow> nat \<Rightarrow> rd_result \<times> rd_event list" where
  "sys_read [] n = (Rd_ok [], [])"
| "sys_read (Rd_bytes bs # evs) n =
     (Rd_ok (take n bs), if length bs \<le> n then evs else Rd_bytes (drop n bs) # evs)"
| "sys_read (Rd_fail e # evs) n = (Rd_err e, evs)"

text \<open>What a script delivers in all, and how it ends: \<open>None\<close> for end of file, or an error.\<close>

fun script_content :: "rd_event list \<Rightarrow> byte list" where
  "script_content [] = []"
| "script_content (Rd_bytes bs # evs) = (if bs = [] then [] else bs @ script_content evs)"
| "script_content (Rd_fail e # evs) = []"

fun script_error :: "rd_event list \<Rightarrow> int option" where
  "script_error [] = None"
| "script_error (Rd_bytes bs # evs) = (if bs = [] then None else script_error evs)"
| "script_error (Rd_fail e # evs) = Some e"

fun script_size :: "rd_event list \<Rightarrow> nat" where
  "script_size [] = 0"
| "script_size (Rd_bytes bs # evs) = Suc (length bs + script_size evs)"
| "script_size (Rd_fail e # evs) = Suc (script_size evs)"

lemma sys_read_size: "sys_read evs n = (Rd_ok bs, evs') \<Longrightarrow> bs \<noteq> [] \<Longrightarrow> script_size evs' < script_size evs"
  by (cases "(evs, n)" rule: sys_read.cases) (auto split: if_splits)

lemma sys_read_length: "sys_read evs n = (Rd_ok bs, evs') \<Longrightarrow> length bs \<le> n"
  by (cases "(evs, n)" rule: sys_read.cases) auto

lemma sys_read_more:
  "sys_read evs n = (Rd_ok bs, evs') \<Longrightarrow> bs \<noteq> [] \<Longrightarrow>
   script_content evs = bs @ script_content evs' \<and> script_error evs = script_error evs'"
  by (cases "(evs, n)" rule: sys_read.cases) (auto split: if_splits)

lemma sys_read_eof:
  "sys_read evs n = (Rd_ok [], evs') \<Longrightarrow> 0 < n \<Longrightarrow> script_content evs = [] \<and> script_error evs = None"
  by (cases "(evs, n)" rule: sys_read.cases) auto

lemma sys_read_error:
  "sys_read evs n = (Rd_err e, evs') \<Longrightarrow> script_content evs = [] \<and> script_error evs = Some e"
  by (cases "(evs, n)" rule: sys_read.cases) auto

section \<open>The loops\<close>

text \<open>\<open>while (ptr < limit)\<close>, with the pointers as offsets into the buffer.\<close>

function scan_loop :: "byte list \<Rightarrow> int \<Rightarrow> int \<Rightarrow> u64 \<Rightarrow> crash + u64" where
  "scan_loop buf ptr limit count =
     (if ptr < limit then
        (case c_memcmp_eq buf ptr (take PATTERN_LEN_BYTES PATTERN) of
           None \<Rightarrow> Inl Mem_fault
         | Some True \<Rightarrow> scan_loop buf (ptr + int PATTERN_LEN_BYTES) limit (count + 1)
         | Some False \<Rightarrow> scan_loop buf (ptr + 1) limit count)
      else Inr count)"
  by pat_completeness auto
termination
  by (relation "measure (\<lambda>(buf, ptr, limit, count). nat (limit - ptr))")
    (auto simp: PATTERN_LEN_BYTES_def)

declare scan_loop.simps [simp del]

text \<open>
  The offset of the pointer \<open>limit = buffer + total_len_bytes - PATTERN_LEN_BYTES + 1\<close>. The source
  forms it before it tests \<open>total_len_bytes < PATTERN_LEN_BYTES\<close>.
\<close>

definition scan_limit :: "nat \<Rightarrow> int" where
  "scan_limit total_len = int total_len - int PATTERN_LEN_BYTES + 1"

text \<open>The body of the outer loop, after \<open>read\<close> stored \<open>bytes_read > 0\<close> bytes.\<close>

definition chunk_body :: "bl_state \<Rightarrow> nat \<Rightarrow> crash + bl_state" where
  "chunk_body s bytes_read =
     (let total_len = c_add64 bytes_read (offset_bytes s) in
      if \<not> total_len \<le> CHUNK_SIZE_BYTES then Inl Assert_failed
      else
        let limit = scan_limit total_len in
        if total_len < PATTERN_LEN_BYTES then Inr (s\<lparr>offset_bytes := total_len\<rparr>)
        else
          (case scan_loop (buffer s) 0 limit (total_count s) of
             Inl c \<Rightarrow> Inl c
           | Inr count \<Rightarrow>
               let keep = (if total_len < overlap_len_bytes then total_len else overlap_len_bytes) in
               (case c_memmove (buffer s) 0 (int total_len - int keep) keep of
                  None \<Rightarrow> Inl Mem_fault
                | Some buf \<Rightarrow>
                    Inr (s\<lparr>buffer := buf, offset_bytes := keep, total_count := count\<rparr>))))"

text \<open>
  The outer loop. The result carries the final state and how \<open>read\<close> ended the loop: \<open>None\<close> for
  the return value 0, \<open>Some e\<close> for -1 with \<open>errno = e\<close>.
\<close>

function read_loop :: "rd_event list \<Rightarrow> bl_state \<Rightarrow> crash + bl_state \<times> int option" where
  "read_loop evs s =
     (let size = c_sub64 CHUNK_SIZE_BYTES (offset_bytes s);
          s1 = s\<lparr>reads := reads s @ [(offset_bytes s, size)]\<rparr>
      in case sys_read evs size of
           (Rd_err e, evs') \<Rightarrow> Inr (s1, Some e)
         | (Rd_ok bs, evs') \<Rightarrow>
             if bs = [] then Inr (s1, None)
             else
               (case c_store (buffer s1) (offset_bytes s1) bs of
                  None \<Rightarrow> Inl Mem_fault
                | Some buf \<Rightarrow>
                    (case chunk_body (s1\<lparr>buffer := buf\<rparr>) (length bs) of
                       Inl c \<Rightarrow> Inl c
                     | Inr s2 \<Rightarrow> read_loop evs' s2)))"
  by pat_completeness auto
termination
  by (relation "measure (\<lambda>(evs, s). script_size evs)")
    (auto dest!: sys_read_size [OF sym])

declare read_loop.simps [simp del]

section \<open>The pattern provides the interface of the search\<close>

lemma length_PATTERN [simp]: "length PATTERN = PATTERN_LEN_BYTES"
  by (simp add: PATTERN_def PATTERN_LEN_BYTES_def)

lemma take_PATTERN [simp]: "take PATTERN_LEN_BYTES PATTERN = PATTERN"
  by simp

interpretation alpha: unbordered_pattern PATTERN
proof unfold_locales
  show "PATTERN \<noteq> []"
    by (simp add: PATTERN_def bytes_of_def)
next
  fix k :: nat
  assume "0 < k" and "k < length PATTERN"
  then have "k \<in> {1, 2, 3, 4}"
    by (auto simp: PATTERN_LEN_BYTES_def)
  then show "\<exists>j < length PATTERN - k. PATTERN ! j \<noteq> PATTERN ! (k + j)"
    by (intro exI [of _ 0]) (auto simp: PATTERN_def bytes_of_def)
qed

section \<open>The inner loop counts the occurrences in its window\<close>

text \<open>The occurrences a scan from position \<open>i\<close> of the window \<open>w\<close> still has to count.\<close>

definition hits_from :: "byte list \<Rightarrow> nat \<Rightarrow> u64" where
  "hits_from w i = of_nat (card {j \<in> occurrences PATTERN w. i \<le> j})"

lemma hits_from_0: "hits_from w 0 = of_nat (occ_count PATTERN w)"
  by (simp add: hits_from_def occ_count_def)

lemma hits_from_end: "length w < i + PATTERN_LEN_BYTES \<Longrightarrow> hits_from w i = 0"
  unfolding hits_from_def by (subst alpha.from_end) simp_all

lemma scan_loop_hits:
  assumes "w = take total_len buf" and "total_len \<le> length buf"
  shows "scan_loop buf (int i) (scan_limit total_len) count = Inr (count + hits_from w i)"
proof (induction "Suc total_len - i" arbitrary: i count rule: less_induct)
  case less
  show ?case
  proof (cases "i + PATTERN_LEN_BYTES \<le> total_len")
    case False
    then have "hits_from w i = 0"
      using assms by (intro hits_from_end) simp
    with False show ?thesis
      by (simp add: scan_loop.simps [of buf "int i"] scan_limit_def)
  next
    case True
    then have inside: "int i < scan_limit total_len" "i + length PATTERN \<le> length buf" "i < length w"
      using assms by (auto simp: scan_limit_def PATTERN_LEN_BYTES_def)
    have cmp: "c_memcmp_eq buf (int i) PATTERN = Some (occurs_at PATTERN w i)"
      using True assms
      by (simp add: c_memcmp_eq_in [OF inside(2)] occurs_at_def drop_take min_def le_diff_conv2)
    show ?thesis
    proof (cases "occurs_at PATTERN w i")
      case hit: True
      have "scan_loop buf (int (i + PATTERN_LEN_BYTES)) (scan_limit total_len) (count + 1) =
            Inr (count + 1 + hits_from w (i + PATTERN_LEN_BYTES))"
        by (rule less) (use True in \<open>simp add: PATTERN_LEN_BYTES_def\<close>)
      moreover have "hits_from w i = 1 + hits_from w (i + PATTERN_LEN_BYTES)"
        using alpha.card_from_hit [OF hit inside(3)] by (simp add: hits_from_def)
      ultimately show ?thesis
        using inside(1) by (simp add: scan_loop.simps [of buf "int i"] cmp hit add.assoc)
    next
      case miss: False
      have "scan_loop buf (int (Suc i)) (scan_limit total_len) count =
            Inr (count + hits_from w (Suc i))"
        by (rule less) (use True in \<open>simp add: PATTERN_LEN_BYTES_def\<close>)
      moreover have "hits_from w i = hits_from w (Suc i)"
        by (simp add: hits_from_def alpha.from_miss [OF miss])
      ultimately show ?thesis
        using inside(1) by (simp add: scan_loop.simps [of buf "int i"] cmp miss add.commute)
    qed
  qed
qed

section \<open>The invariant of the outer loop\<close>

text \<open>
  After the bytes \<open>P\<close> have been read: the buffer starts with the last (at most four) bytes of
  \<open>P\<close>, the counter is the number of occurrences in \<open>P\<close>, and every read so far asked for the
  whole rest of the buffer behind the carried bytes.
\<close>

definition read_ok :: "nat \<times> nat \<Rightarrow> bool" where
  "read_ok r \<longleftrightarrow> fst r \<le> overlap_len_bytes \<and> fst r + snd r = CHUNK_SIZE_BYTES"

definition bl_inv :: "byte list \<Rightarrow> bl_state \<Rightarrow> bool" where
  "bl_inv P s \<longleftrightarrow>
     length (buffer s) = CHUNK_SIZE_BYTES \<and>
     offset_bytes s = min overlap_len_bytes (length P) \<and>
     take (offset_bytes s) (buffer s) = alpha.carry P \<and>
     total_count s = of_nat (occ_count PATTERN P) \<and>
     list_all read_ok (reads s)"

lemma bl_inv_init: "bl_inv [] bl_init"
  by (simp add: bl_inv_def bl_init_def alpha.carry_def occ_count_def occurrences_def)

lemma bl_inv_size:
  assumes "bl_inv P s"
  shows "c_sub64 CHUNK_SIZE_BYTES (offset_bytes s) = CHUNK_SIZE_BYTES - offset_bytes s"
    and "offset_bytes s \<le> overlap_len_bytes"
    and "0 < CHUNK_SIZE_BYTES - offset_bytes s"
  using assms by (auto simp: bl_inv_def baseline_consts intro!: c_sub64_exact)

lemma bl_inv_reads:
  assumes "bl_inv P s"
  shows "bl_inv P (s\<lparr>reads := reads s @ [(offset_bytes s, CHUNK_SIZE_BYTES - offset_bytes s)]\<rparr>)"
  using assms by (auto simp: bl_inv_def read_ok_def baseline_consts)

text \<open>The window the body scans: the carried bytes and the new ones.\<close>

lemma stored_window:
  assumes "bl_inv P s" and "length bs \<le> CHUNK_SIZE_BYTES - offset_bytes s"
    and "c_store (buffer s) (offset_bytes s) bs = Some buf"
  shows "take (length bs + offset_bytes s) buf = alpha.carry P @ bs"
    and "length buf = CHUNK_SIZE_BYTES"
    and "length bs + offset_bytes s \<le> CHUNK_SIZE_BYTES"
  using assms bl_inv_size(2) [OF assms(1)] c_store_length [OF assms(3)]
  by (auto simp: bl_inv_def c_store_def baseline_consts split: if_splits)

lemma chunk_body_inv:
  assumes inv: "bl_inv P s" and bs: "bs \<noteq> []" "length bs \<le> CHUNK_SIZE_BYTES - offset_bytes s"
    and store: "c_store (buffer s) (offset_bytes s) bs = Some buf"
  shows "\<exists>s'. chunk_body (s\<lparr>buffer := buf\<rparr>) (length bs) = Inr s' \<and> bl_inv (P @ bs) s'"
proof -
  define total_len where "total_len = length bs + offset_bytes s"
  define w where "w = alpha.carry P @ bs"
  note window = stored_window [OF inv bs(2) store, folded total_len_def w_def]
  have off: "offset_bytes s = min overlap_len_bytes (length P)" and reads: "list_all read_ok (reads s)"
    and count: "total_count s = of_nat (occ_count PATTERN P)"
    using inv by (auto simp: bl_inv_def)
  have len_w: "length w = total_len"
    using arg_cong [OF window(1), of length] window(2,3) by simp
  have counted: "occ_count PATTERN (P @ bs) = occ_count PATTERN P + occ_count PATTERN w"
    unfolding w_def by (rule alpha.occ_count_append)
  have carried: "alpha.carry (P @ bs) = alpha.carry w"
    unfolding w_def by (rule alpha.carry_append)
  have add: "c_add64 (length bs) (offset_bytes s) = total_len"
    using window(3) by (subst c_add64_exact) (auto simp: total_len_def CHUNK_SIZE_BYTES_def)
  show ?thesis
  proof (cases "total_len < PATTERN_LEN_BYTES")
    case True
    have "occ_count PATTERN w = 0"
      using True len_w by (intro alpha.occ_count_short) simp
    moreover have "total_len = min overlap_len_bytes (length (P @ bs))"
      using True bs(1) off by (cases bs) (auto simp: total_len_def baseline_consts)
    moreover have "alpha.carry w = w"
      using True len_w by (simp add: alpha.carry_def)
    ultimately show ?thesis
      using True window counted carried count reads add
      by (simp add: chunk_body_def bl_inv_def)
  next
    case False
    have scan: "scan_loop buf 0 (scan_limit total_len) c = Inr (c + of_nat (occ_count PATTERN w))" for c
      using scan_loop_hits [of w total_len buf 0 c] window by (simp add: hits_from_0)
    have keep: "overlap_len_bytes \<le> total_len" "\<not> total_len < overlap_len_bytes"
      using False by (auto simp: baseline_consts)
    then have move: "c_memmove buf 0 (int total_len - int overlap_len_bytes) overlap_len_bytes =
        Some (take overlap_len_bytes (drop (total_len - overlap_len_bytes) buf) @ drop overlap_len_bytes buf)"
      using c_memmove_head [of "total_len - overlap_len_bytes" overlap_len_bytes buf] window
      by (simp add: of_nat_diff)
    have "alpha.carry w = take overlap_len_bytes (drop (total_len - overlap_len_bytes) buf)"
      using keep len_w window(1) [symmetric]
      by (simp add: alpha.carry_def overlap_len_bytes_def drop_take)
    moreover have "overlap_len_bytes = min overlap_len_bytes (length (P @ bs))"
      using keep(1) off by (auto simp: total_len_def)
    ultimately show ?thesis
      using False window counted carried count reads add keep
      by (simp add: chunk_body_def bl_inv_def scan move Let_def)
  qed
qed

section \<open>The outer loop\<close>

text \<open>
  For every script the loop ends, without a failed assertion or an access outside the buffer, at
  the script's end of file or error, with the invariant for everything that was delivered.
\<close>

lemma read_loop_inv:
  assumes "bl_inv P s"
  shows "\<exists>s'. read_loop evs s = Inr (s', script_error evs) \<and> bl_inv (P @ script_content evs) s'"
  using assms
proof (induction "script_size evs" arbitrary: evs P s rule: less_induct)
  case less
  note size = bl_inv_size [OF less.prems]
  define s1 where "s1 = s\<lparr>reads := reads s @ [(offset_bytes s, CHUNK_SIZE_BYTES - offset_bytes s)]\<rparr>"
  have inv1: "bl_inv P s1"
    unfolding s1_def by (rule bl_inv_reads [OF less.prems])
  have unfold: "read_loop evs s =
      (case sys_read evs (CHUNK_SIZE_BYTES - offset_bytes s) of
         (Rd_err e, evs') \<Rightarrow> Inr (s1, Some e)
       | (Rd_ok bs, evs') \<Rightarrow>
           if bs = [] then Inr (s1, None)
           else (case c_store (buffer s1) (offset_bytes s1) bs of
                   None \<Rightarrow> Inl Mem_fault
                 | Some buf \<Rightarrow> (case chunk_body (s1\<lparr>buffer := buf\<rparr>) (length bs) of
                                  Inl c \<Rightarrow> Inl c | Inr s2 \<Rightarrow> read_loop evs' s2)))"
    unfolding read_loop.simps [of evs s] size(1) s1_def Let_def by (rule refl)
  obtain r evs' where read: "sys_read evs (CHUNK_SIZE_BYTES - offset_bytes s) = (r, evs')"
    by fastforce
  show ?case
  proof (cases r)
    case (Rd_err e)
    then show ?thesis
      using inv1 sys_read_error [of evs _ e evs'] read by (auto simp: unfold)
  next
    case (Rd_ok bs)
    show ?thesis
    proof (cases "bs = []")
      case True
      then show ?thesis
        using inv1 Rd_ok read sys_read_eof [of evs _ evs'] size(3) by (auto simp: unfold)
    next
      case False
      note more = sys_read_more [OF read [unfolded Rd_ok] False]
      have len: "length bs \<le> CHUNK_SIZE_BYTES - offset_bytes s1"
        using sys_read_length [OF read [unfolded Rd_ok]] by (simp add: s1_def)
      have "offset_bytes s1 + length bs \<le> length (buffer s1)"
        using len size(3) inv1 by (simp add: bl_inv_def s1_def)
      then obtain buf where store: "c_store (buffer s1) (offset_bytes s1) bs = Some buf"
        by (simp add: c_mem)
      obtain s2 where body: "chunk_body (s1\<lparr>buffer := buf\<rparr>) (length bs) = Inr s2" "bl_inv (P @ bs) s2"
        using chunk_body_inv [OF inv1 False len store] by blast
      have "script_size evs' < script_size evs"
        using sys_read_size [OF read [unfolded Rd_ok] False] .
      from less.hyps [OF this body(2)] show ?thesis
        using read Rd_ok False store body(1) more by (auto simp: unfold)
    qed
  qed
qed

lemma read_loop_init:
  obtains s where "read_loop evs bl_init = Inr (s, script_error evs)"
    and "bl_inv (script_content evs) s"
  using read_loop_inv [OF bl_inv_init, of evs] by auto

text \<open>How many times the loop calls \<open>read\<close>: at least once, at most once per byte and once more.\<close>

lemma chunk_body_reads: "chunk_body s n = Inr s' \<Longrightarrow> reads s' = reads s"
  by (auto simp: chunk_body_def Let_def split: if_splits sum.splits option.splits)

lemma read_loop_calls:
  assumes "read_loop evs s = Inr (s', r)"
  shows "length (reads s) < length (reads s')"
    and "length (reads s') \<le> length (reads s) + Suc (length (script_content evs))"
proof -
  have "length (reads s) < length (reads s') \<and>
        length (reads s') \<le> length (reads s) + Suc (length (script_content evs))"
    using assms
  proof (induction evs s rule: read_loop.induct)
    case (1 evs s)
    obtain res evs' where read: "sys_read evs (c_sub64 CHUNK_SIZE_BYTES (offset_bytes s)) = (res, evs')"
      by fastforce
    show ?case
    proof (cases "\<exists>bs. res = Rd_ok bs \<and> bs \<noteq> []")
      case False
      with "1.prems" read show ?thesis
        by (cases res) (auto simp: read_loop.simps [of evs s] Let_def)
    next
      case True
      then obtain bs where bs: "res = Rd_ok bs" "bs \<noteq> []"
        by blast
      with "1.prems" read obtain buf s2
        where step: "chunk_body (s\<lparr>reads := reads s @ [(offset_bytes s, c_sub64 CHUNK_SIZE_BYTES (offset_bytes s))],
                                  buffer := buf\<rparr>) (length bs) = Inr s2"
          and rest: "read_loop evs' s2 = Inr (s', r)"
          and store: "c_store (buffer s) (offset_bytes s) bs = Some buf"
        by (auto simp: read_loop.simps [of evs s] Let_def split: option.splits sum.splits)
      have "length (reads s2) < length (reads s') \<and>
            length (reads s') \<le> length (reads s2) + Suc (length (script_content evs'))"
        by (rule "1.IH" [OF refl refl read [symmetric] bs(1) bs(2)]) (use step rest store in simp_all)
      moreover have "script_content evs = bs @ script_content evs'"
        using sys_read_more [OF read [unfolded bs(1)] bs(2)] by blast
      ultimately show ?thesis
        using chunk_body_reads [OF step] bs(2) by (cases bs) auto
    qed
  qed
  then show "length (reads s) < length (reads s')"
    and "length (reads s') \<le> length (reads s) + Suc (length (script_content evs))"
    by auto
qed

section \<open>Properties of the loops\<close>

text \<open>
  The inner loop, started at the front of a buffer with \<open>total_len_bytes\<close> valid bytes, ends
  without reading outside the buffer and adds to the counter the number of occurrences of the
  pattern in those bytes, although it jumps over each match it finds.
\<close>

theorem scan_loop_counts_window:
  assumes "total_len \<le> length buf"
  shows "scan_loop buf 0 (scan_limit total_len) count =
         Inr (count + of_nat (occ_count PATTERN (take total_len buf)))"
  using scan_loop_hits [OF refl assms, of 0 count] by (simp add: hits_from_0)

theorem scan_loop_counts_window_witness:
  "scan_loop (bytes_of ''AlphAlphaAlpha!'') 0 (scan_limit 13) 0 = Inr 1"
proof -
  have "13 \<le> length (bytes_of ''AlphAlphaAlpha!'')"
    by simp
  from scan_loop_counts_window [OF this, of 0]
  have "scan_loop (bytes_of ''AlphAlphaAlpha!'') 0 (scan_limit 13) 0 =
        Inr (of_nat (occ_count PATTERN (take 13 (bytes_of ''AlphAlphaAlpha!''))))"
    by simp
  moreover have "occ_count PATTERN (take 13 (bytes_of ''AlphAlphaAlpha!'')) = 1"
    by code_simp
  ultimately show ?thesis
    by simp
qed

text \<open>
  C6: for every way the kernel can deliver a file, the read loop ends after at most one call of
  \<open>read\<close> per byte and one more, no assertion fails and nothing outside the buffer is touched;
  every call asks for exactly the part of the buffer behind at most four carried bytes, so a
  return value of 0 always means end of file and never a full buffer.
\<close>

theorem read_loop_terminates_in_bounds:
  "\<exists>s. read_loop evs bl_init = Inr (s, script_error evs) \<and>
       length (reads s) \<in> {1..Suc (length (script_content evs))} \<and>
       list_all (\<lambda>(off, size). off \<le> 4 \<and> off + size = length (buffer s)) (reads s)"
proof -
  obtain s where run: "read_loop evs bl_init = Inr (s, script_error evs)"
    and inv: "bl_inv (script_content evs) s"
    by (rule read_loop_init)
  have "list_all (\<lambda>(off, size). off \<le> 4 \<and> off + size = length (buffer s)) (reads s)"
    using inv by (auto simp: bl_inv_def list_all_iff read_ok_def baseline_consts)
  with run read_loop_calls [OF run] show ?thesis
    by (auto simp: bl_init_def Suc_le_eq)
qed

text \<open>
  The pointer \<open>limit\<close> lies before the buffer whenever fewer than four bytes are valid: it is formed
  before the test that skips the scan for such short input.
\<close>

lemma scan_limit_before_buffer: "scan_limit total_len < 0 \<longleftrightarrow> total_len < 4"
  by (simp add: scan_limit_def PATTERN_LEN_BYTES_def)

end
