(* ===== verification/Baseline_Main.thy ===== *)
theory Baseline_Main
  imports Complex_Main Baseline_Scan
begin

text \<open>
  \<open>main\<close> of benchmarks/baseline.c: argument check, \<open>open\<close>, the two readings of the monotonic
  clock around the read loop, the error path of a failed \<open>read\<close>, the report on standard output
  and \<open>close\<close>. The operating system is a record of the results of the calls; what the program
  does to the outside is a list of events in order. The elapsed time is the real number the
  source's expression denotes (the rounding of \<open>double\<close> and of \<open>%.6f\<close> is left out).
\<close>

section \<open>The environment and the observable events\<close>

record timespec =
  tv_sec :: int
  tv_nsec :: int

record bl_os =
  os_open :: "string \<Rightarrow> int"
  os_open_errno :: "string \<Rightarrow> int"
  os_script :: "string \<Rightarrow> rd_event list"
  os_clock_start :: "int \<times> timespec"
  os_clock_end :: "int \<times> timespec"

datatype out_ev =
    Ev_stderr string
  | Ev_perror string int
  | Ev_stdout string
  | Ev_time real
  | Ev_close int

datatype ending = Exited int | Aborted | Faulted

definition time_taken_s :: "timespec \<Rightarrow> timespec \<Rightarrow> real" where
  "time_taken_s start end_ts =
     real_of_int (tv_sec end_ts - tv_sec start) + real_of_int (tv_nsec end_ts - tv_nsec start) / 10 ^ 9"

definition usage_text :: "string list \<Rightarrow> string" where
  "usage_text argv = ''Usage: '' @ (case argv of [] \<Rightarrow> ''(null)'' | a # _ \<Rightarrow> a) @ '' <filename>'' @ [newline]"

definition count_text :: "u64 \<Rightarrow> string" where
  "count_text n = ''Count: '' @ dec_nat (unat n) @ [newline]"

definition baseline_main :: "bl_os \<Rightarrow> string list \<Rightarrow> ending \<times> out_ev list" where
  "baseline_main os argv =
     (if length argv \<noteq> 2 then (Exited 1, [Ev_stderr (usage_text argv)])
      else
        let filename = argv ! 1; fd = os_open os filename in
        if fd < 0 then (Exited 1, [Ev_perror ''Error opening file'' (os_open_errno os filename)])
        else if fst (os_clock_start os) \<noteq> 0 then (Aborted, [])
        else
          (case read_loop (os_script os filename) bl_init of
             Inl Assert_failed \<Rightarrow> (Aborted, [])
           | Inl Mem_fault \<Rightarrow> (Faulted, [])
           | Inr (s, Some e) \<Rightarrow> (Exited 1, [Ev_perror ''Read failed'' e, Ev_close fd])
           | Inr (s, None) \<Rightarrow>
               if fst (os_clock_end os) \<noteq> 0 then (Aborted, [])
               else (Exited 0,
                     [Ev_stdout (count_text (total_count s)),
                      Ev_time (time_taken_s (snd (os_clock_start os)) (snd (os_clock_end os))),
                      Ev_close fd])))"

section \<open>The file a run reads\<close>

abbreviation file_bytes :: "bl_os \<Rightarrow> string \<Rightarrow> byte list" where
  "file_bytes os f \<equiv> script_content (os_script os f)"

abbreviation file_error :: "bl_os \<Rightarrow> string \<Rightarrow> int option" where
  "file_error os f \<equiv> script_error (os_script os f)"

text \<open>\<open>main\<close> with the loop replaced by what it computes: the abstract program.\<close>

definition baseline_spec :: "bl_os \<Rightarrow> string \<Rightarrow> ending \<times> out_ev list" where
  "baseline_spec os f =
     (if os_open os f < 0 then (Exited 1, [Ev_perror ''Error opening file'' (os_open_errno os f)])
      else if fst (os_clock_start os) \<noteq> 0 then (Aborted, [])
      else case file_error os f of
        Some e \<Rightarrow> (Exited 1, [Ev_perror ''Read failed'' e, Ev_close (os_open os f)])
      | None \<Rightarrow>
          if fst (os_clock_end os) \<noteq> 0 then (Aborted, [])
          else (Exited 0,
                [Ev_stdout (count_text (of_nat (occ_count PATTERN (file_bytes os f)))),
                 Ev_time (time_taken_s (snd (os_clock_start os)) (snd (os_clock_end os))),
                 Ev_close (os_open os f)]))"

lemma baseline_main_eq: "baseline_main os [prog, f] = baseline_spec os f"
proof -
  obtain s where loop: "read_loop (os_script os f) bl_init = Inr (s, file_error os f)"
    and "bl_inv (file_bytes os f) s"
    by (rule read_loop_init)
  then have "total_count s = of_nat (occ_count PATTERN (file_bytes os f))"
    by (simp add: bl_inv_def)
  with loop show ?thesis
    by (simp add: baseline_main_def baseline_spec_def Let_def split: option.split)
qed

lemma unat_occ_count [simp]:
  "unat (of_nat n :: u64) = n mod 2 ^ 64"
  by (simp add: unat_of_nat)

section \<open>Properties of the program\<close>

text \<open>The environment of the repository's own test, benchmarks/test_baseline.py, read in pieces.\<close>

definition test_os :: bl_os where
  "test_os =
     \<lparr>os_open = (\<lambda>_. 3), os_open_errno = (\<lambda>_. 0),
      os_script = (\<lambda>_. [Rd_bytes (bytes_of ''Alpha beta Al''),
                      Rd_bytes (bytes_of (''pha'' @ [newline] @ ''No match here.'' @ [newline])),
                      Rd_bytes (bytes_of ''AlphaAlpha'')]),
      os_clock_start = (0, \<lparr>tv_sec = 7, tv_nsec = 900000000\<rparr>),
      os_clock_end = (0, \<lparr>tv_sec = 8, tv_nsec = 100000000\<rparr>)\<rparr>"

lemma test_os_count: "occ_count PATTERN (file_bytes test_os f) = 4"
  by (simp add: test_os_def) code_simp

lemma test_os_content: "length (file_bytes test_os f) = 42"
  by (simp add: test_os_def newline_def bytes_of_def)

text \<open>
  C4: a run that can open the file, read it to its end and read the clock exits with status 0 and
  prints the number of positions at which "Alpha" occurs in the file (modulo the width of the
  64-bit counter), whatever pieces \<open>read\<close> delivers the file in; then the elapsed time, and the
  descriptor is closed.
\<close>

theorem baseline_prints_occurrences:
  assumes "0 \<le> os_open os f" and "fst (os_clock_start os) = 0" and "fst (os_clock_end os) = 0"
    and "file_error os f = None"
  shows "baseline_main os [prog, f] =
    (Exited 0,
     [Ev_stdout (''Count: '' @ dec_nat (occ_count PATTERN (file_bytes os f) mod 2 ^ 64) @ [newline]),
      Ev_time (time_taken_s (snd (os_clock_start os)) (snd (os_clock_end os))),
      Ev_close (os_open os f)])"
  using assms by (simp add: baseline_main_eq baseline_spec_def count_text_def)

theorem baseline_prints_occurrences_witness:
  "baseline_main test_os [''baseline'', ''test_data.txt''] =
    (Exited 0, [Ev_stdout (''Count: 4'' @ [newline]), Ev_time (1 / 5), Ev_close 3])"
proof -
  have "dec_nat 4 = ''4''"
    by code_simp
  moreover have "time_taken_s (snd (os_clock_start test_os)) (snd (os_clock_end test_os)) = 1 / 5"
    by (simp add: time_taken_s_def test_os_def)
  moreover have "file_error test_os ''test_data.txt'' = None"
    by (simp add: test_os_def newline_def bytes_of_def)
  ultimately show ?thesis
    using baseline_prints_occurrences [of test_os "''test_data.txt''" "''baseline''"]
    by (simp add: test_os_count) (simp add: test_os_def)
qed

text \<open>
  The outcome does not depend on how the kernel splits the file: two environments that differ
  only in the sizes of the pieces \<open>read\<close> returns give the same exit status and the same events.
\<close>

theorem baseline_ignores_split:
  assumes "script_content evs = script_content evs'" and "script_error evs = script_error evs'"
  shows "baseline_main (os\<lparr>os_script := (\<lambda>_. evs)\<rparr>) argv = baseline_main (os\<lparr>os_script := (\<lambda>_. evs')\<rparr>) argv"
proof (cases "length argv = 2")
  case True
  then obtain prog f where "argv = [prog, f]"
    by (auto simp: length_Suc_conv numeral_2_eq_2)
  with assms show ?thesis
    by (auto simp: baseline_main_eq baseline_spec_def split: option.split)
next
  case False
  then show ?thesis
    by (simp add: baseline_main_def)
qed

theorem baseline_ignores_split_witness:
  "baseline_main (test_os\<lparr>os_script := (\<lambda>_. [Rd_bytes (bytes_of ''Al''), Rd_bytes (bytes_of ''pha'')])\<rparr>)  [''baseline'', ''f''] =
   baseline_main (test_os\<lparr>os_script := (\<lambda>_. [Rd_bytes (bytes_of ''Alpha''), Rd_bytes []])\<rparr>)  [''baseline'', ''f'']"
  by (rule baseline_ignores_split) (simp_all add: bytes_of_def)

text \<open>
  C18: the exit status on every path. Usage, \<open>open\<close> and \<open>read\<close> errors give 1; only a failing clock
  aborts; the program never faults; it exits with 0 in the one remaining case.
\<close>

theorem baseline_exit_status:
  "fst (baseline_main os argv) =
    (if length argv = 2 then
       if os_open os (argv ! 1) < 0 then Exited 1
       else if fst (os_clock_start os) = 0 then
         if file_error os (argv ! 1) = None then
           if fst (os_clock_end os) = 0 then Exited 0 else Aborted
         else Exited 1
       else Aborted
     else Exited 1)"
proof (cases "length argv = 2")
  case True
  then obtain prog f where "argv = [prog, f]"
    by (auto simp: length_Suc_conv numeral_2_eq_2)
  then show ?thesis
    by (auto simp: baseline_main_eq baseline_spec_def split: option.splits)
next
  case False
  then show ?thesis
    by (simp add: baseline_main_def)
qed

text \<open>
  A failing \<open>read\<close> is reported on standard error and the descriptor is closed; no count and no
  time appear on standard output, however much was read and counted before the failure.
\<close>

theorem baseline_read_error:
  assumes "0 \<le> os_open os f" and "fst (os_clock_start os) = 0" and "file_error os f = Some e"
  shows "baseline_main os [prog, f] =
         (Exited 1, [Ev_perror ''Read failed'' e, Ev_close (os_open os f)])"
  using assms by (simp add: baseline_main_eq baseline_spec_def)

theorem baseline_read_error_witness:
  "baseline_main (test_os\<lparr>os_script := (\<lambda>_. [Rd_bytes PATTERN, Rd_fail 5])\<rparr>) [''baseline'', ''f''] =
   (Exited 1, [Ev_perror ''Read failed'' 5, Ev_close 3])"
  using baseline_read_error
    [of "test_os\<lparr>os_script := (\<lambda>_. [Rd_bytes PATTERN, Rd_fail 5])\<rparr>" "''f''" 5 "''baseline''"]
  by (simp add: test_os_def alpha.nonempty)

text \<open>The descriptors a run closes, in order.\<close>

fun closed_fds :: "out_ev list \<Rightarrow> int list" where
  "closed_fds [] = []"
| "closed_fds (Ev_close fd # evs) = fd # closed_fds evs"
| "closed_fds (_ # evs) = closed_fds evs"

text \<open>
  Every run that exits after a successful \<open>open\<close> closes that descriptor exactly once, and a run
  that opened nothing closes nothing.
\<close>

theorem baseline_closes_once:
  assumes "baseline_main os argv = (Exited status, evs)"
  shows "closed_fds evs =
    (if length argv = 2 \<and> 0 \<le> os_open os (argv ! 1) then [os_open os (argv ! 1)] else [])"
proof (cases "length argv = 2")
  case True
  then obtain prog f where "argv = [prog, f]"
    by (auto simp: length_Suc_conv numeral_2_eq_2)
  with assms show ?thesis
    by (auto simp: baseline_main_eq baseline_spec_def split: if_splits option.splits)
next
  case False
  with assms show ?thesis
    by (auto simp: baseline_main_def)
qed

theorem baseline_closes_once_witness:
  "closed_fds [Ev_perror ''Read failed'' 5, Ev_close 3] = [3]"
proof -
  let ?os = "test_os\<lparr>os_script := (\<lambda>_. [Rd_fail 5])\<rparr>"
  have "baseline_main ?os [''baseline'', ''f''] = (Exited 1, [Ev_perror ''Read failed'' 5, Ev_close 3])"
    by (simp add: baseline_main_eq baseline_spec_def test_os_def)
  from baseline_closes_once [OF this] show ?thesis
    by (simp add: test_os_def)
qed

text \<open>
  C19: the counter cannot wrap on a file that exists: a match takes five bytes, so for fewer than
  5 * 2^64 bytes the number printed is the exact number of occurrences, and reading the digits
  back gives it.
\<close>

theorem baseline_count_exact:
  assumes "length (file_bytes os f) < PATTERN_LEN_BYTES * 2 ^ 64"
    and "baseline_main os [prog, f] = (Exited 0, evs)"
  shows "\<exists>digits. hd evs = Ev_stdout (''Count: '' @ digits @ [newline]) \<and>
                  undec digits = occ_count PATTERN (file_bytes os f)"
proof -
  have "occ_count PATTERN (file_bytes os f) < 2 ^ 64"
    using assms(1) alpha.occ_count_bound [of "file_bytes os f"] by (simp add: PATTERN_LEN_BYTES_def)
  then have "occ_count PATTERN (file_bytes os f) mod 2 ^ 64 = occ_count PATTERN (file_bytes os f)"
    by (rule mod_less)
  with assms(2) show ?thesis
    by (auto simp: baseline_main_eq baseline_spec_def count_text_def split: if_splits option.splits)
qed

theorem baseline_count_exact_witness:
  "\<exists>digits. hd (snd (baseline_main test_os [''baseline'', ''f''])) = Ev_stdout (''Count: '' @ digits @ [newline]) \<and>
            undec digits = 4"
proof -
  have "length (file_bytes test_os ''f'') < PATTERN_LEN_BYTES * 2 ^ 64"
    unfolding test_os_content by (simp add: PATTERN_LEN_BYTES_def)
  moreover have "fst (baseline_main test_os [''baseline'', ''f'']) = Exited 0"
    by (simp add: baseline_main_eq baseline_spec_def test_os_def newline_def bytes_of_def)
  then have "baseline_main test_os [''baseline'', ''f''] =
             (Exited 0, snd (baseline_main test_os [''baseline'', ''f'']))"
    by (metis prod.collapse)
  ultimately show ?thesis
    using baseline_count_exact [of test_os "''f''" "''baseline''"] by (simp add: test_os_count)
qed

definition ts_ns :: "timespec \<Rightarrow> int" where
  "ts_ns t = tv_sec t * 10 ^ 9 + tv_nsec t"

text \<open>
  The elapsed time is the difference of the two clock readings in nanoseconds over 10^9, also
  when the nanosecond part runs backwards across a second, so it is not negative when the clock
  is monotonic.
\<close>

theorem time_taken_is_difference:
  assumes "ts_ns start \<le> ts_ns end_ts"
  shows "time_taken_s start end_ts = real (nat (ts_ns end_ts - ts_ns start)) / 10 ^ 9
         \<and> 0 \<le> time_taken_s start end_ts"
proof -
  have "time_taken_s start end_ts = real_of_int (ts_ns end_ts - ts_ns start) / 10 ^ 9"
    by (simp add: time_taken_s_def ts_ns_def field_simps)
  with assms show ?thesis
    by simp
qed

theorem time_taken_is_difference_witness:
  "time_taken_s \<lparr>tv_sec = 7, tv_nsec = 900000000\<rparr> \<lparr>tv_sec = 8, tv_nsec = 100000000\<rparr> = 2 / 10"
  using time_taken_is_difference
    [of "\<lparr>tv_sec = 7, tv_nsec = 900000000\<rparr>" "\<lparr>tv_sec = 8, tv_nsec = 100000000\<rparr>"]
  by (simp add: ts_ns_def)

end
