(* ===== verification/Gen_Data.thy ===== *)
theory Gen_Data
  imports Baseline_Main
begin

text \<open>
  scripts/generate_data.py, the producer of the benchmark's input: \<open>generate\<close> writes 4 KiB blocks
  of padding that end in "Alpha", 256 at a time, then the blocks and the padding that are left.
  \<open>gen_main\<close> is the command line around it, with the target in megabytes; reading and printing a float and opening the
  file are parameters.
  The theory relates the producer to its consumer: what \<open>generate\<close> announces is what
  benchmarks/baseline.c prints.
\<close>

section \<open>The generator\<close>

definition gen_block :: "byte list" where
  "gen_block = replicate (4096 - 5) (of_char CHR ''x'') @ bytes_of ''Alpha''"

record gen_state =
  gen_out :: "byte list"
  gen_written :: int
  gen_count :: int

definition gen_init :: gen_state where
  "gen_init = \<lparr>gen_out = [], gen_written = 0, gen_count = 0\<rparr>"

text \<open>\<open>f.write(block * n)\<close> with the two counters; a negative \<open>n\<close> repeats the block zero times.\<close>

definition gen_write_blocks :: "int \<Rightarrow> gen_state \<Rightarrow> gen_state" where
  "gen_write_blocks n s =
     s\<lparr>gen_out := gen_out s @ concat (replicate (nat n) gen_block),
       gen_written := gen_written s + n * 4096, gen_count := gen_count s + n\<rparr>"

definition gen_write_padding :: "int \<Rightarrow> gen_state \<Rightarrow> gen_state" where
  "gen_write_padding n s =
     s\<lparr>gen_out := gen_out s @ replicate (nat n) (of_char CHR ''x''), gen_written := gen_written s + n\<rparr>"

function gen_loop :: "int \<Rightarrow> gen_state \<Rightarrow> gen_state" where
  "gen_loop target_bytes s =
     (if gen_written s < target_bytes then
        let blocks_per_chunk = 256; remaining_bytes = target_bytes - gen_written s in
        if remaining_bytes < blocks_per_chunk * 4096 then
          let blocks_to_write = remaining_bytes div 4096;
              remainder_padding = remaining_bytes mod 4096;
              s1 = (if blocks_to_write > 0 then gen_write_blocks blocks_to_write s else s)
          in if remainder_padding > 0 then gen_write_padding remainder_padding s1 else s1
        else gen_loop target_bytes (gen_write_blocks blocks_per_chunk s)
      else s)"
  by pat_completeness auto
termination
  by (relation "measure (\<lambda>(t, s). nat (t - gen_written s))") (auto simp: gen_write_blocks_def)

declare gen_loop.simps [simp del]

definition generate :: "int \<Rightarrow> gen_state" where
  "generate target_bytes = gen_loop target_bytes gen_init"

definition done_text :: "gen_state \<Rightarrow> string" where
  "done_text s = ''Done. Size: '' @ dec_int (gen_written s) @ '' bytes. Expected '' @ [CHR 0x27] @ ''Alpha''
     @ [CHR 0x27] @ '' count: '' @ dec_int (gen_count s)"

section \<open>The script\<close>

text \<open>
  A Python float, and what the script needs of the interpreter: \<open>float(s)\<close> (\<open>None\<close> raises ValueError), the text of a
  float in a format string, and whether a file can be opened for writing.
\<close>

datatype py_float = Py_finite rat | Py_inf | Py_nan

record py_env =
  py_float_of :: "string \<Rightarrow> py_float option"
  py_show :: "py_float \<Rightarrow> string"
  py_can_open :: "string \<Rightarrow> bool"

text \<open>
  \<open>target_size_mb * 1024 * 1024\<close>: a product with a power of two is exact until it overflows. \<open>int\<close> cuts towards zero, and
  raises for an infinity and a NaN.
\<close>

definition mb_in_bytes :: "py_float \<Rightarrow> py_float" where
  "mb_in_bytes x =
     (case x of Py_finite q \<Rightarrow> if \<bar>q * 2 ^ 20\<bar> < 2 ^ 1024 then Py_finite (q * 2 ^ 20) else Py_inf | _ \<Rightarrow> x)"

definition py_int :: "py_float \<Rightarrow> int option" where
  "py_int x = (case x of Py_finite q \<Rightarrow> Some (if 0 \<le> q then \<lfloor>q\<rfloor> else \<lceil>q\<rceil>) | _ \<Rightarrow> None)"

text \<open>How the script ends, the lines it prints, and the file it has written.\<close>

datatype py_end = Py_exits nat | Py_raises

type_synonym py_run = "py_end \<times> string list \<times> (string \<times> byte list) list"

definition generate_named :: "py_env \<Rightarrow> string \<Rightarrow> py_float \<Rightarrow> py_run" where
  "generate_named e filename target_size_mb =
     (case py_int (mb_in_bytes target_size_mb) of
        None \<Rightarrow> (Py_raises, [], [])
      | Some target_bytes \<Rightarrow>
          (let first = ''Generating '' @ filename @ '' with target size '' @ py_show e target_size_mb @ '' MB...'' in
           if \<not> py_can_open e filename then (Py_raises, [first], [])
           else let s = generate target_bytes in (Py_exits 0, [first, done_text s], [(filename, gen_out s)])))"

definition gen_main :: "py_env \<Rightarrow> string list \<Rightarrow> py_run" where
  "gen_main e argv =
     (if length argv \<noteq> 3 then (Py_exits 1, [''Usage: python3 generate_data.py <filename> <size_in_mb>''], [])
      else
        (case py_float_of e (argv ! 2) of
           None \<Rightarrow> (Py_raises, [], [])
         | Some mb \<Rightarrow> generate_named e (argv ! 1) mb))"

section \<open>What it writes\<close>

abbreviation letter_A :: byte where
  "letter_A \<equiv> of_char CHR ''A''"

lemma PATTERN_parts: "PATTERN = letter_A # bytes_of ''lpha''"
  by (simp add: PATTERN_def bytes_of_def)

lemma occurs_at_letter:
  assumes "occurs_at PATTERN xs i"
  shows "i < length xs" and "xs ! i = letter_A"
  using occurs_at_fits [OF assms alpha.nonempty] occurs_at_nth [OF assms, of 0]
  by (auto simp: PATTERN_LEN_BYTES_def PATTERN_parts)

lemma occ_count_no_letter:
  assumes "letter_A \<notin> set xs"
  shows "occ_count PATTERN xs = 0"
proof -
  from assms have "\<not> occurs_at PATTERN xs i" for i
    by (metis nth_mem occurs_at_letter)
  then show ?thesis
    by (simp add: occ_count_def occurrences_def)
qed

lemma occ_count_tail_pattern:
  assumes "letter_A \<notin> set w"
  shows "occ_count PATTERN (w @ PATTERN) = 1"
proof -
  have "occurrences PATTERN (w @ PATTERN) = {length w}"
  proof (intro set_eqI iffI)
    fix i assume "i \<in> occurrences PATTERN (w @ PATTERN)"
    then have occ: "occurs_at PATTERN (w @ PATTERN) i"
      by (simp add: occurrences_def)
    have "i + length PATTERN \<le> length w + length PATTERN"
      using occurs_at_fits [OF occ alpha.nonempty] by simp
    moreover have "\<not> i < length w"
      using occurs_at_letter(2) [OF occ] assms by (metis nth_append nth_mem)
    ultimately show "i \<in> {length w}"
      by simp
  next
    fix i assume "i \<in> {length w}"
    then show "i \<in> occurrences PATTERN (w @ PATTERN)"
      by (simp add: occurrences_def occurs_at_def PATTERN_LEN_BYTES_def)
  qed
  then show ?thesis
    by (simp add: occ_count_def)
qed

lemma carry_tail_pattern: "alpha.carry (w @ PATTERN) = bytes_of ''lpha''"
  by (simp add: alpha.carry_def PATTERN_LEN_BYTES_def) (simp add: PATTERN_parts)

lemma length_gen_block: "length gen_block = 4096"
  by (simp add: gen_block_def)

lemma gen_block_tail: "gen_block = replicate 4091 (of_char CHR ''x'') @ PATTERN"
  by (simp add: gen_block_def PATTERN_def)

lemma gen_blocks_carry: "letter_A \<notin> set (alpha.carry (concat (replicate n gen_block)))"
proof (cases n)
  case 0
  then show ?thesis
    by (simp add: alpha.carry_def)
next
  case (Suc m)
  have "concat (replicate n gen_block) =
        (concat (replicate m gen_block) @ replicate 4091 (of_char CHR ''x'')) @ PATTERN"
    unfolding Suc replicate_append_same [symmetric] replicate_Suc
    by (simp add: gen_block_tail flip: replicate_append_same)
  then have "alpha.carry (concat (replicate n gen_block)) = bytes_of ''lpha''"
    by (simp only: carry_tail_pattern)
  then show ?thesis
    by (simp add: bytes_of_def)
qed

text \<open>The invariant of the loop: the output is whole blocks, and both counters agree with it.\<close>

definition gen_inv :: "gen_state \<Rightarrow> bool" where
  "gen_inv s \<longleftrightarrow> 0 \<le> gen_count s \<and> gen_written s = 4096 * gen_count s \<and>
     gen_out s = concat (replicate (nat (gen_count s)) gen_block)"

lemma gen_write_blocks_inv: "gen_inv s \<Longrightarrow> 0 \<le> n \<Longrightarrow> gen_inv (gen_write_blocks n s)"
  by (simp add: gen_inv_def gen_write_blocks_def nat_add_distrib replicate_add)

lemma occ_count_blocks: "occ_count PATTERN (concat (replicate n gen_block)) = n"
proof (induction n)
  case 0
  then show ?case
    by (simp add: occ_count_no_letter)
next
  case (Suc n)
  define P where "P = concat (replicate n gen_block)"
  define w where "w = alpha.carry P @ replicate 4091 (of_char CHR ''x'' :: byte)"
  have "concat (replicate (Suc n) gen_block) = P @ gen_block"
    by (simp add: P_def flip: replicate_append_same)
  then have "occ_count PATTERN (concat (replicate (Suc n) gen_block)) =
             occ_count PATTERN P + occ_count PATTERN (alpha.carry P @ gen_block)"
    by (simp only: alpha.occ_count_append [of P gen_block])
  also have "alpha.carry P @ gen_block = w @ PATTERN"
    by (simp add: gen_block_tail w_def)
  also have "occ_count PATTERN (w @ PATTERN) = 1"
    using gen_blocks_carry [of n] by (intro occ_count_tail_pattern) (simp add: w_def P_def)
  finally show ?case
    by (simp add: P_def Suc)
qed

lemma occ_count_blocks_rest:
  assumes "letter_A \<notin> set rest"
  shows "occ_count PATTERN (concat (replicate n gen_block) @ rest) = n"
proof -
  have "letter_A \<notin> set (alpha.carry (concat (replicate n gen_block)) @ rest)"
    using assms gen_blocks_carry [of n] by simp
  then have "occ_count PATTERN (alpha.carry (concat (replicate n gen_block)) @ rest) = 0"
    by (rule occ_count_no_letter)
  then show ?thesis
    using alpha.occ_count_append [of "concat (replicate n gen_block)" rest]
    by (simp only: occ_count_blocks)
qed

text \<open>The last, incomplete chunk.\<close>

lemma gen_last_chunk:
  assumes "0 \<le> q" and "0 \<le> m"
  shows "(let s1 = (if 0 < q then gen_write_blocks q s else s)
          in if 0 < m then gen_write_padding m s1 else s1) =
    \<lparr>gen_out = gen_out s @ concat (replicate (nat q) gen_block) @ replicate (nat m) (of_char CHR ''x''),
     gen_written = gen_written s + q * 4096 + m, gen_count = gen_count s + q\<rparr>"
  using assms
  by (cases s; cases "q = 0"; cases "m = 0")
    (simp_all add: gen_write_blocks_def gen_write_padding_def Let_def)

text \<open>The result of the loop, in closed form.\<close>

lemma gen_loop_result:
  assumes "gen_inv s" and "gen_written s \<le> target_bytes"
  shows "gen_loop target_bytes s =
    \<lparr>gen_out = concat (replicate (nat (target_bytes div 4096)) gen_block) @
               replicate (nat (target_bytes mod 4096)) (of_char CHR ''x''),
     gen_written = target_bytes, gen_count = target_bytes div 4096\<rparr>"
  using assms
proof (induction target_bytes s rule: gen_loop.induct)
  case (1 t s)
  let ?r = "t - gen_written s"
  have inv: "0 \<le> gen_count s" "gen_written s = 4096 * gen_count s"
    "gen_out s = concat (replicate (nat (gen_count s)) gen_block)"
    using "1.prems"(1) by (auto simp: gen_inv_def)
  show ?case
  proof (cases "256 * 4096 \<le> ?r")
    case True
    have "gen_inv (gen_write_blocks 256 s)"
      by (rule gen_write_blocks_inv) (use "1.prems" in simp_all)
    moreover have "gen_written (gen_write_blocks 256 s) \<le> t"
      using True by (simp add: gen_write_blocks_def)
    ultimately show ?thesis
      using True "1.IH" by (simp add: gen_loop.simps [of t s])
  next
    case False
    define r where "r = t - gen_written s"
    have t: "t = r + 4096 * gen_count s"
      using inv(2) by (simp add: r_def)
    have quot: "t div 4096 = gen_count s + r div 4096" and rem: "t mod 4096 = r mod 4096"
      by (simp_all add: t)
    have nonneg: "0 \<le> r" "0 \<le> r div 4096" "0 \<le> r mod 4096"
      using "1.prems"(2) by (simp_all add: r_def pos_imp_zdiv_nonneg_iff)
    have pieces: "4096 * (r div 4096) + r mod 4096 = r"
      by simp
    show ?thesis
    proof (cases "r = 0")
      case True
      then have "gen_loop t s = s"
        by (subst gen_loop.simps) (simp add: r_def)
      then show ?thesis
        using inv True by (cases s) (simp add: t)
    next
      case nonzero: False
      have run: "gen_loop t s =
          (let s1 = (if 0 < r div 4096 then gen_write_blocks (r div 4096) s else s)
           in if 0 < r mod 4096 then gen_write_padding (r mod 4096) s1 else s1)"
        using False nonzero nonneg(1) by (simp add: gen_loop.simps [of t s] r_def Let_def)
      have "nat (t div 4096) = nat (gen_count s) + nat (r div 4096)"
        using inv(1) nonneg(2) by (simp add: quot nat_add_distrib)
      moreover have "gen_written s + r div 4096 * 4096 + r mod 4096 = t"
        using pieces t inv(2) by linarith
      ultimately show ?thesis
        unfolding run gen_last_chunk [OF nonneg(2,3)] quot rem
        by (simp add: inv(3) replicate_add)
    qed
  qed
qed

lemma generate_result:
  assumes "0 \<le> target_bytes"
  shows "generate target_bytes =
    \<lparr>gen_out = concat (replicate (nat (target_bytes div 4096)) gen_block) @
               replicate (nat (target_bytes mod 4096)) (of_char CHR ''x''),
     gen_written = target_bytes, gen_count = target_bytes div 4096\<rparr>"
  unfolding generate_def
  by (rule gen_loop_result) (use assms in \<open>simp_all add: gen_inv_def gen_init_def\<close>)

section \<open>Properties\<close>

text \<open>
  The generator writes exactly the number of bytes asked for, counts them right, and the
  number of "Alpha"s it announces is the number of occurrences in what it wrote, one per whole
  4 KiB; nothing matches across two blocks or in the padding.
\<close>

theorem generate_announces_count:
  assumes "0 \<le> target_bytes"
  shows "length (gen_out (generate target_bytes)) = nat target_bytes
    \<and> gen_written (generate target_bytes) = target_bytes
    \<and> gen_count (generate target_bytes) = target_bytes div 4096
    \<and> int (occ_count PATTERN (gen_out (generate target_bytes))) = gen_count (generate target_bytes)"
proof -
  let ?pad = "replicate (nat (target_bytes mod 4096)) (of_char CHR ''x'' :: byte)"
  have "occ_count PATTERN (concat (replicate k gen_block) @ ?pad) = k" for k
    by (rule occ_count_blocks_rest) simp
  moreover have "nat (target_bytes div 4096) * 4096 + nat (target_bytes mod 4096) = nat target_bytes"
    using assms by (simp flip: nat_mult_distrib nat_add_distrib add: nat_div_distrib nat_mod_distrib)
  ultimately show ?thesis
    using assms
    by (simp add: generate_result length_concat sum_list_replicate length_gen_block pos_imp_zdiv_nonneg_iff)
qed

theorem generate_announces_count_witness:
  "gen_count (generate 10000) = 2 \<and> int (occ_count PATTERN (gen_out (generate 10000))) = 2"
  using generate_announces_count [of 10000] by simp

text \<open>
  End to end. When the benchmark reads a file or device that starts with what the generator
  wrote, in any pieces, and the rest holds no letter A (a longer device, still zeroed, say), it
  prints the count the generator announced.
\<close>

theorem benchmark_confirms_generator:
  assumes "0 \<le> target_bytes" and "target_bytes < 2 ^ 64"
    and "file_bytes os f = gen_out (generate target_bytes) @ rest" and "letter_A \<notin> set rest"
    and "file_error os f = None" and "0 \<le> os_open os f"
    and "fst (os_clock_start os) = 0" and "fst (os_clock_end os) = 0"
  shows "fst (baseline_main os [prog, f]) = Exited 0
    \<and> hd (snd (baseline_main os [prog, f])) =
        Ev_stdout (''Count: '' @ dec_int (gen_count (generate target_bytes)) @ [newline])"
proof -
  define k where "k = nat (target_bytes div 4096)"
  have "occ_count PATTERN (file_bytes os f) = k"
    using occ_count_blocks_rest [of "replicate (nat (target_bytes mod 4096)) (of_char CHR ''x'') @ rest" k]
      assms(1,3,4) by (simp add: generate_result k_def)
  moreover have "target_bytes div 4096 < 2 ^ 64"
    using assms(1,2) by linarith
  then have "k mod 2 ^ 64 = k"
    by (intro mod_less) (simp add: k_def nat_less_iff)
  moreover have "dec_int (gen_count (generate target_bytes)) = dec_nat k"
    using assms(1)
    by (simp add: generate_result dec_int_def pos_imp_zdiv_nonneg_iff not_less [symmetric] k_def)
  ultimately show ?thesis
    using assms(5-) by (simp add: baseline_main_eq baseline_spec_def count_text_def)
qed

text \<open>A zeroed device of which the generator wrote the first 10000 bytes.\<close>

definition device_os :: bl_os where
  "device_os = test_os\<lparr>os_script := (\<lambda>_. [Rd_bytes (gen_out (generate 10000) @ replicate 240 0)])\<rparr>"

theorem benchmark_confirms_generator_witness:
  "hd (snd (baseline_main device_os [''baseline'', ''/dev/nvme0n1''])) = Ev_stdout (''Count: 2'' @ [newline])"
proof -
  have "gen_count (generate 10000) = 2"
    by (simp add: generate_result)
  moreover have "dec_int 2 = ''2''"
    by code_simp
  moreover have "file_bytes device_os ''/dev/nvme0n1'' = gen_out (generate 10000) @ replicate 240 0"
    and "file_error device_os ''/dev/nvme0n1'' = None"
    by (simp_all add: device_os_def)
  ultimately show ?thesis
    using benchmark_confirms_generator [of 10000 device_os "''/dev/nvme0n1''" "replicate 240 0" "''baseline''"]
    by (simp add: device_os_def test_os_def)
qed

text \<open>A size below zero gives an empty file, as the size 0 does.\<close>

lemma generate_negative: "generate target_bytes = generate (max 0 target_bytes)"
proof (cases "target_bytes < 0")
  case True
  then have "generate target_bytes = gen_init"
    unfolding generate_def by (subst gen_loop.simps) (simp add: gen_init_def)
  moreover have "generate 0 = gen_init"
    unfolding generate_def by (subst gen_loop.simps) (simp add: gen_init_def)
  ultimately show ?thesis
    using True by simp
qed simp

lemma gen_main_wrote:
  assumes "gen_main e [script, f, arg] = (Py_exits 0, out, [(f', bs)])"
  obtains t where "0 \<le> t" and "f' = f" and "bs = gen_out (generate t)" and "last out = done_text (generate t)"
proof -
  obtain mb where "py_float_of e arg = Some mb" "generate_named e f mb = (Py_exits 0, out, [(f', bs)])"
    using assms by (auto simp: gen_main_def eval_nat_numeral split: option.splits)
  then obtain t where "f' = f" "bs = gen_out (generate t)" "last out = done_text (generate t)"
    by (auto simp: generate_named_def Let_def split: option.splits if_splits)
  then show ?thesis
    using that [of "max 0 t"] generate_negative [of t] by simp
qed

text \<open>
  C13: end to end. When the script has run to its end, and the benchmark reads a file or device that starts with what the
  script wrote, in any pieces, and the rest holds no letter A (a longer device, still zeroed, say), then the last
  line of the script has the size of the file, and the benchmark prints the count that this line announced.
\<close>

theorem benchmark_confirms_script:
  assumes "gen_main e [script, f, arg] = (Py_exits 0, out, [(f, bs)])" and "length bs < 2 ^ 64"
    and "file_bytes os f = bs @ rest" and "letter_A \<notin> set rest"
    and "file_error os f = None" and "0 \<le> os_open os f"
    and "fst (os_clock_start os) = 0" and "fst (os_clock_end os) = 0"
  shows "\<exists>n. last out = ''Done. Size: '' @ dec_int (int (length bs)) @ '' bytes. Expected '' @ [CHR 0x27] @ ''Alpha''
        @ [CHR 0x27] @ '' count: '' @ dec_int n
    \<and> fst (baseline_main os [prog, f]) = Exited 0
    \<and> hd (snd (baseline_main os [prog, f])) = Ev_stdout (''Count: '' @ dec_int n @ [newline])"
proof -
  obtain t where t: "0 \<le> t" "bs = gen_out (generate t)" "last out = done_text (generate t)"
    by (rule gen_main_wrote [OF assms(1)])
  have "length bs = nat t" "gen_written (generate t) = t"
    using generate_announces_count [OF t(1)] t(2) by auto
  moreover from this have "t < 2 ^ 64"
    using assms(2) t(1) by (simp add: nat_less_iff)
  ultimately show ?thesis
    using benchmark_confirms_generator [OF t(1) _ assms(3) [unfolded t(2)] assms(4-8), of prog] t(1,3)
    by (intro exI [of _ "gen_count (generate t)"]) (simp add: done_text_def)
qed

text \<open>Two megabytes, of which \<open>float\<close> reads the text "2".\<close>

definition demo_py_env :: py_env where
  "demo_py_env =
     \<lparr>py_float_of = (\<lambda>s. if s = ''2'' then Some (Py_finite 2) else None), py_show = (\<lambda>_. ''2.0''),
      py_can_open = (\<lambda>f. f = ''/dev/nvme0n1'')\<rparr>"

definition two_mb_os :: bl_os where
  "two_mb_os = test_os\<lparr>os_script := (\<lambda>_. [Rd_bytes (gen_out (generate (2 * 2 ^ 20)) @ replicate 240 0)])\<rparr>"

theorem benchmark_confirms_script_witness:
  "\<exists>n. done_text (generate (2 * 2 ^ 20)) = ''Done. Size: 2097152 bytes. Expected '' @ [CHR 0x27] @ ''Alpha''
        @ [CHR 0x27] @ '' count: '' @ dec_int n
    \<and> hd (snd (baseline_main two_mb_os [''baseline'', ''/dev/nvme0n1''])) = Ev_stdout (''Count: '' @ dec_int n @ [newline])"
proof -
  define first where "first = ''Generating /dev/nvme0n1 with target size 2.0 MB...''"
  define bs where "bs = gen_out (generate (2 * 2 ^ 20))"
  have run: "gen_main demo_py_env [''generate_data.py'', ''/dev/nvme0n1'', ''2''] =
      (Py_exits 0, [first, done_text (generate (2 * 2 ^ 20))], [(''/dev/nvme0n1'', bs)])"
    by (simp add: gen_main_def generate_named_def demo_py_env_def mb_in_bytes_def py_int_def first_def bs_def Let_def)
  have len: "int (length bs) = 2097152" "length bs = 2097152"
    using generate_announces_count [of "2 * 2 ^ 20"] by (simp_all add: bs_def)
  have digits: "dec_int 2097152 = ''2097152''"
    by (simp add: dec_int_def dec_nat.simps digit_char_def char_of_def bit_numeral_rec bit_Suc_0_iff)
  have os: "file_bytes two_mb_os ''/dev/nvme0n1'' = bs @ replicate 240 0" "letter_A \<notin> set (replicate 240 0)"
    "file_error two_mb_os ''/dev/nvme0n1'' = None" "0 \<le> os_open two_mb_os ''/dev/nvme0n1''"
    "fst (os_clock_start two_mb_os) = 0" "fst (os_clock_end two_mb_os) = 0"
    by (simp_all add: two_mb_os_def test_os_def bs_def)
  have "length bs < 2 ^ 64"
    by (simp add: len)
  then show ?thesis
    using benchmark_confirms_script [OF run _ os, of "''baseline''"] by (auto simp: len digits)
qed

end
