(* ===== verification/Skeleton.thy ===== *)
theory Skeleton
  imports HE_Prelude
begin

text \<open>
  The BPF skeleton life cycle, as bpftool generated it into examples/c/.output/minimal.skel.h:
  create_skeleton, open_opts, open, load, open_and_load, attach, detach, destroy. The text of these
  functions is the same in every *.skel.h of the directory up to the tables of maps and programs,
  so they are written once over a description \<open>skel_desc\<close> of the tables. Memory is a store of the
  blocks the code allocates with \<open>calloc\<close>; using or freeing a block that is not live is a
  \<open>Mem_fault\<close>. libbpf is a parameter: a record of its five functions as transformers of the world.
  What the code relies on of libbpf is the contract \<open>libbpf_env\<close>.
\<close>

section \<open>Memory\<close>

type_synonym addr = nat

text \<open>The address 0 is NULL. \<open>fieldref\<close> is the address of a field: \<open>&obj->maps.bss\<close>.\<close>

type_synonym fieldref = "addr \<times> string"

record map_skel =
  ms_name :: string
  ms_map :: fieldref
  ms_mmaped :: "fieldref option"
  ms_link :: "fieldref option"

record prog_skel =
  ps_name :: string
  ps_prog :: fieldref
  ps_link :: fieldref

record bpf_object_skeleton =
  sk_sz :: nat
  sk_name :: string
  sk_data :: "byte list"
  sk_data_sz :: nat
  sk_obj :: "fieldref option"
  sk_map_cnt :: nat
  sk_map_skel_sz :: nat
  sk_maps :: addr
  sk_prog_cnt :: nat
  sk_prog_skel_sz :: nat
  sk_progs :: addr

text \<open>
  The skeleton object (\<open>struct minimal_bpf\<close>): \<open>o_skeleton\<close> is its first field; \<open>o_ptrs\<close> holds the
  fields libbpf fills in through the pointers it is handed (obj, maps.*, progs.*, links.*);
  \<open>o_my_pid\<close> is the \<open>int\<close> in the mapped section \<open>bss\<close>, absent while the pointer \<open>bss\<close> is NULL.
\<close>

record skel_object =
  o_skeleton :: addr
  o_ptrs :: "string \<rightharpoonup> nat"
  o_my_pid :: "32 word option"

datatype block =
    B_obj skel_object
  | B_skel bpf_object_skeleton
  | B_maps "map_skel list"
  | B_progs "prog_skel list"

definition sizeof_object_skeleton :: nat where
  "sizeof_object_skeleton = 72"

definition sizeof_map_skeleton :: nat where
  "sizeof_map_skeleton = 32"

definition sizeof_prog_skeleton :: nat where
  "sizeof_prog_skeleton = 24"

text \<open>\<open>alloc_plan\<close> says which of the coming allocations succeed; when it is empty they all do.\<close>

record 'k world =
  heap :: "addr \<rightharpoonup> block"
  next_addr :: addr
  alloc_plan :: "bool list"
  errno :: int
  kern :: 'k

definition calloc :: "block \<Rightarrow> 'k world \<Rightarrow> addr \<times> 'k world" where
  "calloc b w =
     (case alloc_plan w of
        False # plan \<Rightarrow> (0, w\<lparr>alloc_plan := plan\<rparr>)
      | _ \<Rightarrow> (next_addr w,
              w\<lparr>heap := (heap w)(next_addr w \<mapsto> b), next_addr := Suc (next_addr w),
                alloc_plan := tl (alloc_plan w)\<rparr>))"

definition c_free :: "addr \<Rightarrow> 'k world \<Rightarrow> crash + 'k world" where
  "c_free a w =
     (if a = 0 then Inr w
      else if heap w a = None then Inl Mem_fault
      else Inr (w\<lparr>heap := (heap w)(a := None)\<rparr>))"

definition get_obj :: "addr \<Rightarrow> 'k world \<Rightarrow> crash + skel_object" where
  "get_obj a w = (case heap w a of Some (B_obj ob) \<Rightarrow> Inr ob | _ \<Rightarrow> Inl Mem_fault)"

definition get_skel :: "addr \<Rightarrow> 'k world \<Rightarrow> crash + bpf_object_skeleton" where
  "get_skel a w = (case heap w a of Some (B_skel sk) \<Rightarrow> Inr sk | _ \<Rightarrow> Inl Mem_fault)"

definition set_block :: "addr \<Rightarrow> block \<Rightarrow> 'k world \<Rightarrow> crash + 'k world" where
  "set_block a b w =
     (if heap w a = None then Inl Mem_fault else Inr (w\<lparr>heap := (heap w)(a \<mapsto> b)\<rparr>))"

definition set_errno :: "int \<Rightarrow> 'k world \<Rightarrow> 'k world" where
  "set_errno e w = w\<lparr>errno := e\<rparr>"

definition sbind :: "crash + 'a \<Rightarrow> ('a \<Rightarrow> crash + 'b) \<Rightarrow> crash + 'b" where
  "sbind m f = (case m of Inl c \<Rightarrow> Inl c | Inr x \<Rightarrow> f x)"

lemma sbind_simps [simp]: "sbind (Inl c) f = Inl c" "sbind (Inr x) f = f x"
  by (simp_all add: sbind_def)

section \<open>libbpf\<close>

record 'k libbpf =
  lb_open_skeleton :: "addr \<Rightarrow> addr \<Rightarrow> 'k world \<Rightarrow> int \<times> 'k world"
  lb_load_skeleton :: "addr \<Rightarrow> 'k world \<Rightarrow> int \<times> 'k world"
  lb_attach_skeleton :: "addr \<Rightarrow> 'k world \<Rightarrow> int \<times> 'k world"
  lb_detach_skeleton :: "addr \<Rightarrow> 'k world \<Rightarrow> 'k world"
  lb_destroy_skeleton :: "addr \<Rightarrow> 'k world \<Rightarrow> 'k world"

section \<open>The generated functions\<close>

text \<open>
  The tables of a skeleton: its name, its maps (name, field, field of the mapped section), its
  programs (name, field, field of the link), and the embedded object file.
\<close>

record skel_desc =
  sd_name :: string
  sd_maps :: "(string \<times> string \<times> string option) list"
  sd_progs :: "(string \<times> string \<times> string) list"
  sd_elf :: "byte list"

definition new_obj :: skel_object where
  "new_obj = \<lparr>o_skeleton = 0, o_ptrs = Map.empty, o_my_pid = None\<rparr>"

definition new_skel :: bpf_object_skeleton where
  "new_skel = \<lparr>sk_sz = 0, sk_name = [], sk_data = [], sk_data_sz = 0, sk_obj = None,
     sk_map_cnt = 0, sk_map_skel_sz = 0, sk_maps = 0, sk_prog_cnt = 0, sk_prog_skel_sz = 0, sk_progs = 0\<rparr>"

definition new_map_skel :: map_skel where
  "new_map_skel = \<lparr>ms_name = [], ms_map = (0, []), ms_mmaped = None, ms_link = None\<rparr>"

definition new_prog_skel :: prog_skel where
  "new_prog_skel = \<lparr>ps_name = [], ps_prog = (0, []), ps_link = (0, [])\<rparr>"

definition map_entry :: "addr \<Rightarrow> string \<times> string \<times> string option \<Rightarrow> map_skel" where
  "map_entry obj m = (case m of (name, field, mapped) \<Rightarrow>
     \<lparr>ms_name = name, ms_map = (obj, ''maps.'' @ field), ms_mmaped = map_option (Pair obj) mapped,
      ms_link = None\<rparr>)"

definition prog_entry :: "addr \<Rightarrow> string \<times> string \<times> string \<Rightarrow> prog_skel" where
  "prog_entry obj p = (case p of (name, field, link) \<Rightarrow>
     \<lparr>ps_name = name, ps_prog = (obj, ''progs.'' @ field), ps_link = (obj, ''links.'' @ link)\<rparr>)"

text \<open>
  \<open>create_skeleton\<close>: three allocations, each with its error exit to the label \<open>err\<close>, which hands the
  half-built skeleton (or NULL) to \<open>bpf_object__destroy_skeleton\<close>. The sections of the function
  that the source marks "maps" and "programs" and its end are definitions of their own;
  \<open>sk\<close> is the content of \<open>*s\<close> so far.
\<close>

definition create_finish ::
    "skel_desc \<Rightarrow> addr \<Rightarrow> addr \<Rightarrow> bpf_object_skeleton \<Rightarrow> 'k world \<Rightarrow> crash + int \<times> 'k world" where
  "create_finish d obj s sk w =
     sbind (set_block s (B_skel (sk\<lparr>sk_data := sd_elf d, sk_data_sz := length (sd_elf d)\<rparr>)) w) (\<lambda>w1.
     sbind (get_obj obj w1) (\<lambda>ob.
     sbind (set_block obj (B_obj (ob\<lparr>o_skeleton := s\<rparr>)) w1) (\<lambda>w2.
     Inr (0, w2))))"

definition create_progs ::
    "'k libbpf \<Rightarrow> skel_desc \<Rightarrow> addr \<Rightarrow> addr \<Rightarrow> bpf_object_skeleton \<Rightarrow> 'k world \<Rightarrow> crash + int \<times> 'k world" where
  "create_progs L d obj s sk w =
     (let prog_cnt = length (sd_progs d);
          (progs, w1) = calloc (B_progs (replicate prog_cnt new_prog_skel)) w;
          sk1 = sk\<lparr>sk_prog_cnt := prog_cnt, sk_prog_skel_sz := sizeof_prog_skeleton, sk_progs := progs\<rparr>
      in sbind (set_block s (B_skel sk1) w1) (\<lambda>w2.
      if progs = 0 then Inr (- ENOMEM, lb_destroy_skeleton L s w2)
      else sbind (set_block progs (B_progs (map (prog_entry obj) (sd_progs d))) w2) (\<lambda>w3.
           create_finish d obj s sk1 w3)))"

definition create_maps ::
    "'k libbpf \<Rightarrow> skel_desc \<Rightarrow> addr \<Rightarrow> addr \<Rightarrow> bpf_object_skeleton \<Rightarrow> 'k world \<Rightarrow> crash + int \<times> 'k world" where
  "create_maps L d obj s sk w =
     (let map_cnt = length (sd_maps d);
          (maps, w1) = calloc (B_maps (replicate map_cnt new_map_skel)) w;
          sk1 = sk\<lparr>sk_map_cnt := map_cnt, sk_map_skel_sz := sizeof_map_skeleton, sk_maps := maps\<rparr>
      in sbind (set_block s (B_skel sk1) w1) (\<lambda>w2.
      if maps = 0 then Inr (- ENOMEM, lb_destroy_skeleton L s w2)
      else sbind (set_block maps (B_maps (map (map_entry obj) (sd_maps d))) w2) (\<lambda>w3.
           create_progs L d obj s sk1 w3)))"

definition create_skeleton ::
    "'k libbpf \<Rightarrow> skel_desc \<Rightarrow> addr \<Rightarrow> 'k world \<Rightarrow> crash + int \<times> 'k world" where
  "create_skeleton L d obj w =
     (let (s, w1) = calloc (B_skel new_skel) w in
      if s = 0 then Inr (- ENOMEM, lb_destroy_skeleton L s w1)
      else create_maps L d obj s
             (new_skel\<lparr>sk_sz := sizeof_object_skeleton, sk_name := sd_name d, sk_obj := Some (obj, ''obj'')\<rparr>) w1)"

definition skel_destroy :: "'k libbpf \<Rightarrow> addr \<Rightarrow> 'k world \<Rightarrow> crash + 'k world" where
  "skel_destroy L obj w =
     (if obj = 0 then Inr w
      else sbind (get_obj obj w) (\<lambda>ob.
           c_free obj (if o_skeleton ob \<noteq> 0 then lb_destroy_skeleton L (o_skeleton ob) w else w)))"

text \<open>The label \<open>err_out\<close> of \<open>open_opts\<close>, and the error exit of \<open>open_and_load\<close>.\<close>

definition skel_fail :: "'k libbpf \<Rightarrow> addr \<Rightarrow> int \<Rightarrow> 'k world \<Rightarrow> crash + addr \<times> 'k world" where
  "skel_fail L obj err w = sbind (skel_destroy L obj w) (\<lambda>w'. Inr (0, set_errno (- err) w'))"

definition skel_open_opts :: "'k libbpf \<Rightarrow> skel_desc \<Rightarrow> addr \<Rightarrow> 'k world \<Rightarrow> crash + addr \<times> 'k world" where
  "skel_open_opts L d opts w =
     (let (obj, w1) = calloc (B_obj new_obj) w in
      if obj = 0 then Inr (0, set_errno ENOMEM w1)
      else sbind (create_skeleton L d obj w1) (\<lambda>(err, w2).
        if err \<noteq> 0 then skel_fail L obj err w2
        else sbind (get_obj obj w2) (\<lambda>ob.
          let (err', w3) = lb_open_skeleton L (o_skeleton ob) opts w2 in
          if err' \<noteq> 0 then skel_fail L obj err' w3 else Inr (obj, w3))))"

definition skel_open :: "'k libbpf \<Rightarrow> skel_desc \<Rightarrow> 'k world \<Rightarrow> crash + addr \<times> 'k world" where
  "skel_open L d w = skel_open_opts L d 0 w"

definition skel_load :: "'k libbpf \<Rightarrow> addr \<Rightarrow> 'k world \<Rightarrow> crash + int \<times> 'k world" where
  "skel_load L obj w = sbind (get_obj obj w) (\<lambda>ob. Inr (lb_load_skeleton L (o_skeleton ob) w))"

definition skel_open_and_load :: "'k libbpf \<Rightarrow> skel_desc \<Rightarrow> 'k world \<Rightarrow> crash + addr \<times> 'k world" where
  "skel_open_and_load L d w =
     sbind (skel_open L d w) (\<lambda>(obj, w1).
     if obj = 0 then Inr (0, w1)
     else sbind (skel_load L obj w1) (\<lambda>(err, w2).
       if err \<noteq> 0 then skel_fail L obj err w2 else Inr (obj, w2)))"

definition skel_attach :: "'k libbpf \<Rightarrow> addr \<Rightarrow> 'k world \<Rightarrow> crash + int \<times> 'k world" where
  "skel_attach L obj w = sbind (get_obj obj w) (\<lambda>ob. Inr (lb_attach_skeleton L (o_skeleton ob) w))"

definition skel_detach :: "'k libbpf \<Rightarrow> addr \<Rightarrow> 'k world \<Rightarrow> crash + 'k world" where
  "skel_detach L obj w = sbind (get_obj obj w) (\<lambda>ob. Inr (lb_detach_skeleton L (o_skeleton ob) w))"

section \<open>Well-formed worlds and ownership\<close>

definition world_ok :: "'k world \<Rightarrow> bool" where
  "world_ok w \<longleftrightarrow> heap w 0 = None \<and> 0 < next_addr w \<and> (\<forall>a \<ge> next_addr w. heap w a = None)"

text \<open>The finished skeleton of a description, and its heap over the rest \<open>H\<close> of the heap.\<close>

definition full_skel :: "skel_desc \<Rightarrow> addr \<Rightarrow> addr \<Rightarrow> addr \<Rightarrow> bpf_object_skeleton" where
  "full_skel d obj maps progs =
     \<lparr>sk_sz = sizeof_object_skeleton, sk_name = sd_name d, sk_data = sd_elf d,
      sk_data_sz = length (sd_elf d), sk_obj = Some (obj, ''obj''),
      sk_map_cnt = length (sd_maps d), sk_map_skel_sz = sizeof_map_skeleton, sk_maps = maps,
      sk_prog_cnt = length (sd_progs d), sk_prog_skel_sz = sizeof_prog_skeleton, sk_progs = progs\<rparr>"

definition owns :: "skel_desc \<Rightarrow> addr \<Rightarrow> (addr \<rightharpoonup> block) \<Rightarrow> 'k world \<Rightarrow> bool" where
  "owns d obj H w \<longleftrightarrow>
     (\<exists>ob maps progs.
        distinct [0, obj, o_skeleton ob, maps, progs] \<and>
        H obj = None \<and> H (o_skeleton ob) = None \<and> H maps = None \<and> H progs = None \<and>
        heap w = H(obj \<mapsto> B_obj ob, o_skeleton ob \<mapsto> B_skel (full_skel d obj maps progs),
                   maps \<mapsto> B_maps (map (map_entry obj) (sd_maps d)),
                   progs \<mapsto> B_progs (map (prog_entry obj) (sd_progs d))))"

text \<open>The heap may differ in the pointers stored in the object \<open>obj\<close>, and nowhere else.\<close>

definition touches :: "addr \<Rightarrow> (addr \<rightharpoonup> block) \<Rightarrow> (addr \<rightharpoonup> block) \<Rightarrow> bool" where
  "touches obj h h' \<longleftrightarrow>
     (\<forall>a. a \<noteq> obj \<longrightarrow> h' a = h a) \<and>
     (case h obj of
        Some (B_obj ob) \<Rightarrow> (\<exists>ob'. h' obj = Some (B_obj ob') \<and> o_skeleton ob' = o_skeleton ob)
      | b \<Rightarrow> h' obj = b)"

lemma touches_refl [simp, intro]: "touches obj h h"
  by (auto simp: touches_def split: option.split block.split)

lemma touchesE:
  assumes "touches obj h h'" and "h obj = Some (B_obj ob)"
  obtains ob' where "h' = h(obj \<mapsto> B_obj ob')" and "o_skeleton ob' = o_skeleton ob"
  using assms by (auto simp: touches_def fun_eq_iff)

lemma touches_NoneD: "touches obj h h' \<Longrightarrow> h a = None \<Longrightarrow> h' a = None"
  by (cases "a = obj") (auto simp: touches_def)

lemma world_ok_touches:
  assumes "world_ok w" and "touches obj (heap w) (heap w')" and "next_addr w' = next_addr w"
  shows "world_ok w'"
  using assms touches_NoneD [OF assms(2)] by (auto simp: world_ok_def)

text \<open>
  The contract of libbpf, as its documentation and the comments in the generated code describe it:
  destroying NULL does nothing; destroying a skeleton releases its three blocks; the other calls
  release nothing; each call writes only through the pointers the skeleton holds, that is, into
  the object the skeleton belongs to, whose field \<open>skeleton\<close> is not among them.
\<close>

locale libbpf_env =
  fixes L :: "'k libbpf"
  assumes destroy_null: "heap w 0 = None \<Longrightarrow> lb_destroy_skeleton L 0 w = w"
    and destroy_frees:
      "\<lbrakk>heap w s = Some (B_skel sk); sk_obj sk = Some (obj, f)\<rbrakk> \<Longrightarrow>
       touches obj ((heap w)(s := None, sk_maps sk := None, sk_progs sk := None))
         (heap (lb_destroy_skeleton L s w))"
    and destroy_next: "next_addr (lb_destroy_skeleton L s w) = next_addr w"
    and open_frame:
      "\<lbrakk>heap w s = Some (B_skel sk); sk_obj sk = Some (obj, f)\<rbrakk> \<Longrightarrow>
       touches obj (heap w) (heap (snd (lb_open_skeleton L s opts w)))"
    and open_next: "next_addr (snd (lb_open_skeleton L s opts w)) = next_addr w"
    and load_frame:
      "\<lbrakk>heap w s = Some (B_skel sk); sk_obj sk = Some (obj, f)\<rbrakk> \<Longrightarrow>
       touches obj (heap w) (heap (snd (lb_load_skeleton L s w)))"
    and load_next: "next_addr (snd (lb_load_skeleton L s w)) = next_addr w"
    and attach_frame:
      "\<lbrakk>heap w s = Some (B_skel sk); sk_obj sk = Some (obj, f)\<rbrakk> \<Longrightarrow>
       touches obj (heap w) (heap (snd (lb_attach_skeleton L s w)))"
    and attach_next: "next_addr (snd (lb_attach_skeleton L s w)) = next_addr w"
    and detach_frame:
      "\<lbrakk>heap w s = Some (B_skel sk); sk_obj sk = Some (obj, f)\<rbrakk> \<Longrightarrow>
       touches obj (heap w) (heap (lb_detach_skeleton L s w))"
    and detach_next: "next_addr (lb_detach_skeleton L s w) = next_addr w"

section \<open>Allocation\<close>

lemma calloc_cases:
  obtains (fails) w' where "calloc b w = (0, w')" and "heap w' = heap w" and "next_addr w' = next_addr w"
  | (succeeds) w' where "calloc b w = (next_addr w, w')" and "heap w' = (heap w)(next_addr w \<mapsto> b)"
      and "next_addr w' = Suc (next_addr w)"
  by (cases "alloc_plan w"; cases "hd (alloc_plan w)") (auto simp: calloc_def)

lemma world_ok_fresh: "world_ok w \<Longrightarrow> next_addr w \<le> a \<Longrightarrow> heap w a = None"
  by (simp add: world_ok_def)

lemma world_ok_null: "world_ok w \<Longrightarrow> heap w 0 = None"
  by (simp add: world_ok_def)

lemma world_ok_alloc:
  assumes "world_ok w" and "heap w' = (heap w)(next_addr w \<mapsto> b)" and "next_addr w' = Suc (next_addr w)"
  shows "world_ok w'"
  using assms by (auto simp: world_ok_def)

lemma live_below_next: "world_ok w \<Longrightarrow> heap w a = Some b \<Longrightarrow> 0 < a \<and> a < next_addr w"
  by (metis gr0I linorder_not_less option.distinct(1) world_ok_fresh world_ok_null)

lemma map_upd_None [simp]: "h a = None \<Longrightarrow> h(a := None) = h"
  by auto

section \<open>Building the skeleton\<close>

context libbpf_env
begin

lemma destroy_half_built:
  assumes "world_ok w" and "heap w1 s = Some (B_skel sk)" and "sk_obj sk = Some (obj, f)"
    and "(heap w1)(s := None, sk_maps sk := None, sk_progs sk := None) = heap w"
    and "next_addr w \<le> next_addr w1"
  shows "touches obj (heap w) (heap (lb_destroy_skeleton L s w1)) \<and> world_ok (lb_destroy_skeleton L s w1)"
proof -
  have t: "touches obj (heap w) (heap (lb_destroy_skeleton L s w1))"
    using destroy_frees [OF assms(2,3)] by (simp only: assms(4))
  then have "world_ok (lb_destroy_skeleton L s w1)"
    using assms(1,5) touches_NoneD [OF t] by (auto simp: world_ok_def destroy_next)
  with t show ?thesis ..
qed

lemma create_finish_result:
  assumes "heap w s \<noteq> None" and "heap w obj = Some (B_obj ob)" and "obj \<noteq> s"
  shows "create_finish d obj s sk w =
    Inr (0, w\<lparr>heap := (heap w)(s \<mapsto> B_skel (sk\<lparr>sk_data := sd_elf d, sk_data_sz := length (sd_elf d)\<rparr>),
                              obj \<mapsto> B_obj (ob\<lparr>o_skeleton := s\<rparr>))\<rparr>)"
  using assms by (simp add: create_finish_def set_block_def get_obj_def)

text \<open>What every stage promises, over the world \<open>w0\<close> in which \<open>create_skeleton\<close> was called.\<close>

definition created :: "skel_desc \<Rightarrow> addr \<Rightarrow> 'k world \<Rightarrow> crash + int \<times> 'k world \<Rightarrow> bool" where
  "created d obj w0 r \<longleftrightarrow>
     (\<exists>err w'. r = Inr (err, w') \<and> world_ok w' \<and>
       (if err = 0 then owns d obj ((heap w0)(obj := None)) w'
        else err = - ENOMEM \<and> touches obj (heap w0) (heap w')))"

lemma created_half_built:
  assumes "world_ok w0" and "heap w1 s = Some (B_skel sk)" and "sk_obj sk = Some (obj, f)"
    and "(heap w1)(s := None, sk_maps sk := None, sk_progs sk := None) = heap w0"
    and "next_addr w0 \<le> next_addr w1"
  shows "created d obj w0 (Inr (- ENOMEM, lb_destroy_skeleton L s w1))"
  using destroy_half_built [OF assms] by (simp add: created_def ENOMEM_def)

lemma created_progs:
  fixes w0 :: "'k world"
  defines "s \<equiv> next_addr w0" and "m \<equiv> Suc (next_addr w0)"
  assumes ok: "world_ok w0" and obj: "heap w0 obj = Some (B_obj ob)"
    and w: "heap w = (heap w0)(s \<mapsto> B_skel sk, m \<mapsto> B_maps (map (map_entry obj) (sd_maps d)))"
    and nxt: "next_addr w = Suc m"
    and sk: "sk = new_skel\<lparr>sk_sz := sizeof_object_skeleton, sk_name := sd_name d, sk_obj := Some (obj, ''obj''),
      sk_map_cnt := length (sd_maps d), sk_map_skel_sz := sizeof_map_skeleton, sk_maps := m\<rparr>"
  shows "created d obj w0 (create_progs L d obj s sk w)"
proof -
  note below = live_below_next [OF ok obj]
  have free: "heap w0 0 = None" "heap w0 s = None" "heap w0 m = None" "heap w0 (Suc m) = None"
    using ok by (simp_all add: world_ok_fresh world_ok_null s_def m_def)
  have ne: "s \<noteq> m" "obj \<noteq> s" "obj \<noteq> m" "obj \<noteq> Suc m" "0 < s" "0 < obj" "s \<noteq> Suc m"
    using below by (auto simp: s_def m_def)
  show ?thesis
  proof (cases rule: calloc_cases [of "B_progs (replicate (length (sd_progs d)) new_prog_skel)" w])
    case (fails w1)
    let ?sk1 = "sk\<lparr>sk_prog_cnt := length (sd_progs d), sk_prog_skel_sz := sizeof_prog_skeleton, sk_progs := 0\<rparr>"
    let ?w2 = "w1\<lparr>heap := (heap w1)(s \<mapsto> B_skel ?sk1)\<rparr>"
    have "create_progs L d obj s sk w = Inr (- ENOMEM, lb_destroy_skeleton L s ?w2)"
      using fails w ne by (simp add: create_progs_def set_block_def)
    moreover have "created d obj w0 (Inr (- ENOMEM, lb_destroy_skeleton L s ?w2))"
      by (rule created_half_built [OF ok, where f = "''obj''"])
        (use fails w ne free nxt in \<open>auto simp: sk s_def m_def\<close>)
    ultimately show ?thesis
      by simp
  next
    case (succeeds w1)
    let ?sk1 = "sk\<lparr>sk_prog_cnt := length (sd_progs d), sk_prog_skel_sz := sizeof_prog_skeleton, sk_progs := Suc m\<rparr>"
    let ?w3 = "w1\<lparr>heap := (heap w1)(s \<mapsto> B_skel ?sk1,
      Suc m \<mapsto> B_progs (map (prog_entry obj) (sd_progs d)))\<rparr>"
    have "create_progs L d obj s sk w = create_finish d obj s ?sk1 ?w3"
      using succeeds w ne nxt by (simp add: create_progs_def set_block_def Let_def)
    also have "\<dots> = Inr (0, ?w3\<lparr>heap := (heap ?w3)(s \<mapsto> B_skel (full_skel d obj m (Suc m)),
        obj \<mapsto> B_obj (ob\<lparr>o_skeleton := s\<rparr>))\<rparr>)"
      using ne obj w nxt succeeds by (subst create_finish_result [where ob = ob]) (auto simp: full_skel_def sk new_skel_def)
    finally have run: "create_progs L d obj s sk w = \<dots>" .
    have "owns d obj ((heap w0)(obj := None)) (?w3\<lparr>heap := (heap ?w3)(s \<mapsto> B_skel (full_skel d obj m (Suc m)),
        obj \<mapsto> B_obj (ob\<lparr>o_skeleton := s\<rparr>))\<rparr>)"
      unfolding owns_def
      by (rule exI [of _ "ob\<lparr>o_skeleton := s\<rparr>"], rule exI [of _ m], rule exI [of _ "Suc m"])
        (use ne free succeeds w nxt in \<open>auto simp: fun_eq_iff m_def\<close>)
    moreover have "world_ok (?w3\<lparr>heap := (heap ?w3)(s \<mapsto> B_skel (full_skel d obj m (Suc m)),
        obj \<mapsto> B_obj (ob\<lparr>o_skeleton := s\<rparr>))\<rparr>)"
      using ok succeeds w nxt below ne by (auto simp: world_ok_def s_def m_def)
    ultimately show ?thesis
      by (simp add: created_def run)
  qed
qed

lemma created_maps:
  fixes w0 :: "'k world"
  defines "s \<equiv> next_addr w0"
  assumes ok: "world_ok w0" and obj: "heap w0 obj = Some (B_obj ob)"
    and w: "heap w = (heap w0)(s \<mapsto> B_skel new_skel)" and nxt: "next_addr w = Suc s"
    and sk: "sk = new_skel\<lparr>sk_sz := sizeof_object_skeleton, sk_name := sd_name d, sk_obj := Some (obj, ''obj'')\<rparr>"
  shows "created d obj w0 (create_maps L d obj s sk w)"
proof (cases rule: calloc_cases [of "B_maps (replicate (length (sd_maps d)) new_map_skel)" w])
  case (fails w1)
  let ?sk1 = "sk\<lparr>sk_map_cnt := length (sd_maps d), sk_map_skel_sz := sizeof_map_skeleton, sk_maps := 0\<rparr>"
  let ?w2 = "w1\<lparr>heap := (heap w1)(s \<mapsto> B_skel ?sk1)\<rparr>"
  have free: "heap w0 0 = None" "heap w0 s = None"
    using ok by (simp_all add: world_ok_fresh world_ok_null s_def)
  have "create_maps L d obj s sk w = Inr (- ENOMEM, lb_destroy_skeleton L s ?w2)"
    using fails w by (simp add: create_maps_def set_block_def)
  moreover have "created d obj w0 (Inr (- ENOMEM, lb_destroy_skeleton L s ?w2))"
    by (rule created_half_built [OF ok, where f = "''obj''"])
      (use fails w free nxt in \<open>auto simp: sk s_def new_skel_def\<close>)
  ultimately show ?thesis
    by simp
next
  case (succeeds w1)
  let ?sk1 = "sk\<lparr>sk_map_cnt := length (sd_maps d), sk_map_skel_sz := sizeof_map_skeleton, sk_maps := Suc s\<rparr>"
  let ?w3 = "w1\<lparr>heap := (heap w1)(s \<mapsto> B_skel ?sk1, Suc s \<mapsto> B_maps (map (map_entry obj) (sd_maps d)))\<rparr>"
  have "create_maps L d obj s sk w = create_progs L d obj s ?sk1 ?w3"
    using succeeds w nxt by (simp add: create_maps_def set_block_def Let_def)
  moreover have "created d obj w0 (create_progs L d obj s ?sk1 ?w3)"
    unfolding s_def by (rule created_progs [OF ok obj]) (use succeeds w nxt sk in \<open>auto simp: s_def\<close>)
  ultimately show ?thesis
    by simp
qed

lemma create_skeleton_result:
  assumes ok: "world_ok w" and obj: "heap w obj = Some (B_obj ob)"
  shows "created d obj w (create_skeleton L d obj w)"
proof (cases rule: calloc_cases [of "B_skel new_skel" w])
  case (fails w1)
  then show ?thesis
    using ok by (simp add: created_def create_skeleton_def destroy_null ENOMEM_def world_ok_def)
next
  case (succeeds w1)
  then show ?thesis
    using created_maps [OF ok obj, of w1] live_below_next [OF ok obj] by (simp add: create_skeleton_def)
qed

text \<open>The calls on a finished skeleton.\<close>

lemma owns_parts:
  assumes "owns d obj H w"
  obtains ob maps progs where "distinct [0, obj, o_skeleton ob, maps, progs]"
    and "H obj = None" and "H (o_skeleton ob) = None" and "H maps = None" and "H progs = None"
    and "heap w = H(obj \<mapsto> B_obj ob, o_skeleton ob \<mapsto> B_skel (full_skel d obj maps progs),
                   maps \<mapsto> B_maps (map (map_entry obj) (sd_maps d)),
                   progs \<mapsto> B_progs (map (prog_entry obj) (sd_progs d)))"
    and "get_obj obj w = Inr ob"
    and "heap w (o_skeleton ob) = Some (B_skel (full_skel d obj maps progs))"
  using assms by (auto simp: owns_def get_obj_def)

lemma owns_touches:
  assumes "owns d obj H w" and "touches obj (heap w) (heap w')"
  shows "owns d obj H w'"
proof -
  obtain ob maps progs where own: "distinct [0, obj, o_skeleton ob, maps, progs]"
    "H obj = None" "H (o_skeleton ob) = None" "H maps = None" "H progs = None"
    and hp: "heap w = H(obj \<mapsto> B_obj ob, o_skeleton ob \<mapsto> B_skel (full_skel d obj maps progs),
                   maps \<mapsto> B_maps (map (map_entry obj) (sd_maps d)),
                   progs \<mapsto> B_progs (map (prog_entry obj) (sd_progs d)))"
    using assms(1) by (rule owns_parts)
  have "heap w obj = Some (B_obj ob)"
    using own(1) by (simp add: hp)
  then obtain ob' where new: "heap w' = (heap w)(obj \<mapsto> B_obj ob')" and same: "o_skeleton ob' = o_skeleton ob"
    by (rule touchesE [OF assms(2)])
  have "heap w' = H(obj \<mapsto> B_obj ob', o_skeleton ob' \<mapsto> B_skel (full_skel d obj maps progs),
                   maps \<mapsto> B_maps (map (map_entry obj) (sd_maps d)),
                   progs \<mapsto> B_progs (map (prog_entry obj) (sd_progs d)))"
    unfolding new hp same using own(1) by (auto simp: fun_eq_iff)
  with own show ?thesis
    unfolding owns_def by (intro exI [of _ ob'] exI [of _ maps] exI [of _ progs]) (simp add: same)
qed

lemma full_skel_obj: "sk_obj (full_skel d obj maps progs) = Some (obj, ''obj'')"
  by (simp add: full_skel_def)

lemma destroy_result:
  assumes "owns d obj H w" and "world_ok w"
  shows "\<exists>w'. skel_destroy L obj w = Inr w' \<and> heap w' = H \<and> world_ok w'"
proof -
  obtain ob maps progs where own: "distinct [0, obj, o_skeleton ob, maps, progs]"
    "H obj = None" "H (o_skeleton ob) = None" "H maps = None" "H progs = None"
    and hp: "heap w = H(obj \<mapsto> B_obj ob, o_skeleton ob \<mapsto> B_skel (full_skel d obj maps progs),
                   maps \<mapsto> B_maps (map (map_entry obj) (sd_maps d)),
                   progs \<mapsto> B_progs (map (prog_entry obj) (sd_progs d)))"
    and get: "get_obj obj w = Inr ob"
    and sk: "heap w (o_skeleton ob) = Some (B_skel (full_skel d obj maps progs))"
    using assms(1) by (rule owns_parts)
  let ?w1 = "lb_destroy_skeleton L (o_skeleton ob) w"
  have rest: "(heap w)(o_skeleton ob := None, maps := None, progs := None) = H(obj \<mapsto> B_obj ob)"
    unfolding hp using own by (auto simp: fun_eq_iff)
  have left: "touches obj (H(obj \<mapsto> B_obj ob)) (heap ?w1)"
    using destroy_frees [OF sk full_skel_obj] by (simp add: full_skel_def rest)
  obtain ob' where "heap ?w1 = (H(obj \<mapsto> B_obj ob))(obj \<mapsto> B_obj ob')"
    by (rule touchesE [OF left, of ob]) simp_all
  then have after: "heap ?w1 = H(obj \<mapsto> B_obj ob')"
    by simp
  have "H a = None" if "next_addr w \<le> a \<or> a = 0" for a
  proof -
    have "heap w a = None"
      using that world_ok_fresh [OF assms(2), of a] world_ok_null [OF assms(2)] by auto
    with own(2-5) show ?thesis
      by (auto simp: hp split: if_splits)
  qed
  then have "world_ok (?w1\<lparr>heap := H\<rparr>)"
    using assms(2) by (auto simp: world_ok_def destroy_next)
  moreover have "skel_destroy L obj w = Inr (?w1\<lparr>heap := H\<rparr>)"
    using own(1,2) after by (auto simp: skel_destroy_def get c_free_def)
  ultimately show ?thesis
    by auto
qed

lemma fail_result:
  assumes "owns d obj H w" and "world_ok w"
  shows "\<exists>w'. skel_fail L obj err w = Inr (0, w') \<and> heap w' = H \<and> world_ok w' \<and> errno w' = - err"
  using destroy_result [OF assms] by (auto simp: skel_fail_def set_errno_def world_ok_def)

lemma load_result:
  assumes "owns d obj H w" and "world_ok w"
  shows "\<exists>err w'. skel_load L obj w = Inr (err, w') \<and> owns d obj H w' \<and> world_ok w'"
proof -
  obtain ob maps progs where "get_obj obj w = Inr ob"
    and sk: "heap w (o_skeleton ob) = Some (B_skel (full_skel d obj maps progs))"
    using assms(1) by (rule owns_parts)
  then show ?thesis
    using owns_touches [OF assms(1) load_frame [OF sk full_skel_obj]]
      world_ok_touches [OF assms(2) load_frame [OF sk full_skel_obj] load_next]
    by (simp add: skel_load_def) (metis prod.collapse)
qed

lemma attach_result:
  assumes "owns d obj H w" and "world_ok w"
  shows "\<exists>err w'. skel_attach L obj w = Inr (err, w') \<and> owns d obj H w' \<and> world_ok w'"
proof -
  obtain ob maps progs where "get_obj obj w = Inr ob"
    and sk: "heap w (o_skeleton ob) = Some (B_skel (full_skel d obj maps progs))"
    using assms(1) by (rule owns_parts)
  then show ?thesis
    using owns_touches [OF assms(1) attach_frame [OF sk full_skel_obj]]
      world_ok_touches [OF assms(2) attach_frame [OF sk full_skel_obj] attach_next]
    by (simp add: skel_attach_def) (metis prod.collapse)
qed

lemma detach_result:
  assumes "owns d obj H w" and "world_ok w"
  shows "\<exists>w'. skel_detach L obj w = Inr w' \<and> owns d obj H w' \<and> world_ok w'"
proof -
  obtain ob maps progs where "get_obj obj w = Inr ob"
    and sk: "heap w (o_skeleton ob) = Some (B_skel (full_skel d obj maps progs))"
    using assms(1) by (rule owns_parts)
  then show ?thesis
    using owns_touches [OF assms(1) detach_frame [OF sk full_skel_obj]]
      world_ok_touches [OF assms(2) detach_frame [OF sk full_skel_obj] detach_next]
    by (simp add: skel_detach_def)
qed

lemma open_opts_result:
  assumes ok: "world_ok w"
  shows "\<exists>obj w'. skel_open_opts L d opts w = Inr (obj, w') \<and> world_ok w' \<and>
    (if obj = 0 then heap w' = heap w \<and> errno w' \<noteq> 0 else owns d obj (heap w) w')"
proof (cases rule: calloc_cases [of "B_obj new_obj" w])
  case (fails w1)
  then show ?thesis
    using ok by (simp add: skel_open_opts_def set_errno_def world_ok_def ENOMEM_def)
next
  case (succeeds w1)
  let ?n = "next_addr w"
  have n: "0 < ?n" "heap w ?n = None"
    using ok by (auto simp: world_ok_def)
  have ok1: "world_ok w1" and here: "heap w1 ?n = Some (B_obj new_obj)" and rest: "(heap w1)(?n := None) = heap w"
    using ok succeeds n by (auto simp: world_ok_alloc)
  obtain err w2 where create: "create_skeleton L d ?n w1 = Inr (err, w2)" and ok2: "world_ok w2"
    and r: "if err = 0 then owns d ?n ((heap w1)(?n := None)) w2 else touches ?n (heap w1) (heap w2)"
    using create_skeleton_result [OF ok1 here, of d] by (auto simp: created_def split: if_splits)
  show ?thesis
  proof (cases "err = 0")
    case False
    with r have "touches ?n (heap w1) (heap w2)"
      by simp
    from this here obtain ob' where hp: "heap w2 = (heap w1)(?n \<mapsto> B_obj ob')"
      and "o_skeleton ob' = o_skeleton new_obj"
      by (rule touchesE)
    then have "skel_fail L ?n err w2 = Inr (0, set_errno (- err) (w2\<lparr>heap := heap w\<rparr>))"
      using n rest by (simp add: skel_fail_def skel_destroy_def get_obj_def c_free_def new_obj_def)
    with False create n succeeds ok ok2 show ?thesis
      by (simp add: skel_open_opts_def set_errno_def) (auto simp: world_ok_def hp rest split: if_splits)
  next
    case True
    with r have own: "owns d ?n (heap w) w2"
      by (simp add: rest)
    then obtain ob maps progs where get: "get_obj ?n w2 = Inr ob"
      and sk: "heap w2 (o_skeleton ob) = Some (B_skel (full_skel d ?n maps progs))"
      by (rule owns_parts)
    obtain err' w3 where lb: "lb_open_skeleton L (o_skeleton ob) opts w2 = (err', w3)"
      by fastforce
    have own3: "owns d ?n (heap w) w3" and ok3: "world_ok w3"
      using owns_touches [OF own open_frame [OF sk full_skel_obj, of opts]]
        world_ok_touches [OF ok2 open_frame [OF sk full_skel_obj, of opts] open_next]
      by (simp_all add: lb)
    have run: "skel_open_opts L d opts w =
        (if err' \<noteq> 0 then skel_fail L ?n err' w3 else Inr (?n, w3))"
      using succeeds n create True get lb by (simp add: skel_open_opts_def)
    show ?thesis
    proof (cases "err' = 0")
      case True
      then have "skel_open_opts L d opts w = Inr (?n, w3)"
        by (simp add: run)
      with own3 ok3 n(1) show ?thesis
        by (intro exI conjI) auto
    next
      case False
      obtain w' where "skel_fail L ?n err' w3 = Inr (0, w')" "heap w' = heap w" "world_ok w'" "errno w' = - err'"
        using fail_result [OF own3 ok3, of err'] by blast
      with False show ?thesis
        by (simp add: run)
    qed
  qed
qed

lemma open_result:
  "world_ok w \<Longrightarrow> \<exists>obj w'. skel_open L d w = Inr (obj, w') \<and> world_ok w' \<and>
     (if obj = 0 then heap w' = heap w \<and> errno w' \<noteq> 0 else owns d obj (heap w) w')"
  unfolding skel_open_def by (rule open_opts_result)

end

section \<open>The interface the applications use\<close>

text \<open>
  An application sees a skeleton through four calls. What it may rely on: no call faults; a failed
  open leaves the heap as it was and sets \<open>errno\<close>; a successful one returns an object that owns
  its blocks; load and attach keep that, whatever they return; destroy gives the heap back.
\<close>

locale skel_api =
  fixes s_open :: "'k world \<Rightarrow> crash + addr \<times> 'k world"
    and s_load :: "addr \<Rightarrow> 'k world \<Rightarrow> crash + int \<times> 'k world"
    and s_attach :: "addr \<Rightarrow> 'k world \<Rightarrow> crash + int \<times> 'k world"
    and s_destroy :: "addr \<Rightarrow> 'k world \<Rightarrow> crash + 'k world"
    and s_owns :: "addr \<Rightarrow> (addr \<rightharpoonup> block) \<Rightarrow> 'k world \<Rightarrow> bool"
  assumes open_law:
      "world_ok w \<Longrightarrow> \<exists>obj w'. s_open w = Inr (obj, w') \<and> world_ok w' \<and>
         (if obj = 0 then heap w' = heap w \<and> errno w' \<noteq> 0 else s_owns obj (heap w) w')"
    and load_law:
      "\<lbrakk>s_owns obj H w; world_ok w\<rbrakk> \<Longrightarrow>
       \<exists>err w'. s_load obj w = Inr (err, w') \<and> s_owns obj H w' \<and> world_ok w'"
    and attach_law:
      "\<lbrakk>s_owns obj H w; world_ok w\<rbrakk> \<Longrightarrow>
       \<exists>err w'. s_attach obj w = Inr (err, w') \<and> s_owns obj H w' \<and> world_ok w'"
    and destroy_law:
      "\<lbrakk>s_owns obj H w; world_ok w\<rbrakk> \<Longrightarrow>
       \<exists>w'. s_destroy obj w = Inr w' \<and> heap w' = H \<and> world_ok w'"

sublocale libbpf_env \<subseteq> gen: skel_api "skel_open L d" "skel_load L" "skel_attach L" "skel_destroy L" "owns d"
  for d
  by unfold_locales (rule open_result load_result attach_result destroy_result; assumption)+

text \<open>
  The extension for a skeleton with a mapped section: a successful open sets the section's pointer,
  and load and attach keep what the application wrote there.
\<close>

locale libbpf_mmap = libbpf_env +
  assumes open_maps_bss:
      "\<lbrakk>heap w s = Some (B_skel sk); sk_obj sk = Some (obj, f); heap w (sk_maps sk) = Some (B_maps ms);
        (obj, ''bss'') \<in> Option.these (ms_mmaped ` set ms);
        lb_open_skeleton L s opts w = (0, w'); heap w' obj = Some (B_obj ob)\<rbrakk> \<Longrightarrow> o_my_pid ob \<noteq> None"
    and load_keeps_bss:
      "\<lbrakk>heap w s = Some (B_skel sk); sk_obj sk = Some (obj, f); heap w obj = Some (B_obj ob);
        heap (snd (lb_load_skeleton L s w)) obj = Some (B_obj ob')\<rbrakk> \<Longrightarrow> o_my_pid ob' = o_my_pid ob"
    and attach_keeps_bss:
      "\<lbrakk>heap w s = Some (B_skel sk); sk_obj sk = Some (obj, f); heap w obj = Some (B_obj ob);
        heap (snd (lb_attach_skeleton L s w)) obj = Some (B_obj ob')\<rbrakk> \<Longrightarrow> o_my_pid ob' = o_my_pid ob"

section \<open>An environment that meets the contract\<close>

text \<open>
  The least libbpf with given return codes: open maps the section, destroy releases the three
  blocks, nothing else happens. It shows that the contract can be met, and runs the witnesses.
\<close>

definition plain_open :: "int \<Rightarrow> addr \<Rightarrow> addr \<Rightarrow> 'k world \<Rightarrow> int \<times> 'k world" where
  "plain_open err s opts w =
     (err,
      case heap w s of
        Some (B_skel sk) \<Rightarrow>
          (case sk_obj sk of
             Some (obj, f) \<Rightarrow>
               (case heap w obj of
                  Some (B_obj ob) \<Rightarrow>
                    if err = 0 then w\<lparr>heap := (heap w)(obj \<mapsto> B_obj (ob\<lparr>o_my_pid := Some 0\<rparr>))\<rparr> else w
                | _ \<Rightarrow> w)
           | None \<Rightarrow> w)
      | _ \<Rightarrow> w)"

definition plain_destroy :: "addr \<Rightarrow> 'k world \<Rightarrow> 'k world" where
  "plain_destroy s w =
     (case heap w s of
        Some (B_skel sk) \<Rightarrow> w\<lparr>heap := (heap w)(s := None, sk_maps sk := None, sk_progs sk := None)\<rparr>
      | _ \<Rightarrow> w)"

definition plain_libbpf :: "int \<Rightarrow> int \<Rightarrow> int \<Rightarrow> 'k libbpf" where
  "plain_libbpf open_err load_err attach_err =
     \<lparr>lb_open_skeleton = plain_open open_err, lb_load_skeleton = (\<lambda>s w. (load_err, w)),
      lb_attach_skeleton = (\<lambda>s w. (attach_err, w)), lb_detach_skeleton = (\<lambda>s w. w),
      lb_destroy_skeleton = plain_destroy\<rparr>"

interpretation plain: libbpf_mmap "plain_libbpf oe le ae" for oe le ae
  by unfold_locales
    (auto simp: plain_libbpf_def plain_open_def plain_destroy_def touches_def
      split: option.splits block.splits if_splits)

end
