(* ===== verification/Skel_Life.thy ===== *)
theory Skel_Life
  imports Skeleton
begin

text \<open>
  Properties of the generated skeleton functions over every allocation plan and every libbpf that
  meets the contract: nothing leaks on an error, the whole life cycle gives the heap back, a
  skeleton is unusable after it is destroyed, and errors arrive in the return value and \<open>errno\<close>.
\<close>

section \<open>Sequences of calls\<close>

datatype skel_call = Do_load | Do_attach | Do_detach

fun skel_call_step :: "'k libbpf \<Rightarrow> addr \<Rightarrow> skel_call \<Rightarrow> 'k world \<Rightarrow> crash + 'k world" where
  "skel_call_step L obj Do_load w = sbind (skel_load L obj w) (\<lambda>(err, w'). Inr w')"
| "skel_call_step L obj Do_attach w = sbind (skel_attach L obj w) (\<lambda>(err, w'). Inr w')"
| "skel_call_step L obj Do_detach w = skel_detach L obj w"

fun skel_calls :: "'k libbpf \<Rightarrow> addr \<Rightarrow> skel_call list \<Rightarrow> 'k world \<Rightarrow> crash + 'k world" where
  "skel_calls L obj [] w = Inr w"
| "skel_calls L obj (c # cs) w = sbind (skel_call_step L obj c w) (skel_calls L obj cs)"

text \<open>A whole life: open, any calls, destroy. A failed open ends it at once.\<close>

definition skel_life :: "'k libbpf \<Rightarrow> skel_desc \<Rightarrow> addr \<Rightarrow> skel_call list \<Rightarrow> 'k world \<Rightarrow> crash + 'k world" where
  "skel_life L d opts cs w =
     sbind (skel_open_opts L d opts w) (\<lambda>(obj, w1).
     if obj = 0 then Inr w1
     else sbind (skel_calls L obj cs w1) (skel_destroy L obj))"

context libbpf_env
begin

lemma call_step_result:
  assumes "owns d obj H w" and "world_ok w"
  shows "\<exists>w'. skel_call_step L obj c w = Inr w' \<and> owns d obj H w' \<and> world_ok w'"
  using load_result [OF assms] attach_result [OF assms] detach_result [OF assms]
  by (cases c) (auto simp: sbind_def split: sum.split)

lemma calls_result:
  "\<lbrakk>owns d obj H w; world_ok w\<rbrakk> \<Longrightarrow>
   \<exists>w'. skel_calls L obj cs w = Inr w' \<and> owns d obj H w' \<and> world_ok w'"
proof (induction cs arbitrary: w)
  case (Cons c cs)
  obtain w1 where "skel_call_step L obj c w = Inr w1" "owns d obj H w1" "world_ok w1"
    using call_step_result [OF Cons.prems] by blast
  with Cons.IH [of w1] show ?case
    by simp
qed simp

lemma life_result:
  assumes "world_ok w"
  shows "\<exists>w'. skel_life L d opts cs w = Inr w' \<and> heap w' = heap w \<and> world_ok w'"
proof -
  obtain obj w1 where opened: "skel_open_opts L d opts w = Inr (obj, w1)" "world_ok w1"
    and r: "if obj = 0 then heap w1 = heap w \<and> errno w1 \<noteq> 0 else owns d obj (heap w) w1"
    using open_opts_result [OF assms] by blast
  show ?thesis
  proof (cases "obj = 0")
    case True
    with opened r show ?thesis
      by (simp add: skel_life_def)
  next
    case False
    with r have "owns d obj (heap w) w1"
      by simp
    then obtain w2 where "skel_calls L obj cs w1 = Inr w2" and w2: "owns d obj (heap w) w2" "world_ok w2"
      using calls_result opened(2) by blast
    with False opened(1) destroy_result [OF w2] show ?thesis
      by (simp add: skel_life_def)
  qed
qed

lemma open_and_load_result:
  assumes "world_ok w"
  shows "\<exists>obj w'. skel_open_and_load L d w = Inr (obj, w') \<and> world_ok w' \<and>
    (if obj = 0 then heap w' = heap w \<and> errno w' \<noteq> 0 else owns d obj (heap w) w')"
proof -
  obtain obj w1 where opened: "skel_open L d w = Inr (obj, w1)" "world_ok w1"
    and r: "if obj = 0 then heap w1 = heap w \<and> errno w1 \<noteq> 0 else owns d obj (heap w) w1"
    using open_result [OF assms] by blast
  show ?thesis
  proof (cases "obj = 0")
    case True
    with opened r show ?thesis
      by (simp add: skel_open_and_load_def)
  next
    case False
    with r have "owns d obj (heap w) w1"
      by simp
    then obtain err w2 where loaded: "skel_load L obj w1 = Inr (err, w2)" and w2: "owns d obj (heap w) w2" "world_ok w2"
      using load_result opened(2) by blast
    show ?thesis
    proof (cases "err = 0")
      case True
      with False opened loaded w2 show ?thesis
        by (simp add: skel_open_and_load_def)
    next
      case err: False
      obtain w' where failed: "skel_fail L obj err w2 = Inr (0, w')" "heap w' = heap w" "world_ok w'"
          "errno w' = - err"
        using fail_result [OF w2] by blast
      have "skel_open_and_load L d w = Inr (0, w')"
        using False opened loaded err failed(1) by (simp add: skel_open_and_load_def)
      moreover have "errno w' \<noteq> 0"
        using failed(4) err by simp
      ultimately show ?thesis
        using failed(2,3) by auto
    qed
  qed
qed

text \<open>The error exit of \<open>open_and_load\<close>, with the code it reports.\<close>

lemma open_and_load_error:
  assumes "world_ok w" and "skel_open L d w = Inr (obj, w1)" and "obj \<noteq> 0"
    and "skel_load L obj w1 = Inr (err, w2)" and "err \<noteq> 0"
  shows "\<exists>w'. skel_open_and_load L d w = Inr (0, w') \<and> heap w' = heap w \<and> errno w' = - err"
proof -
  have w1: "owns d obj (heap w) w1" "world_ok w1"
    using open_result [OF assms(1), of d] assms(2,3) by auto
  have "owns d obj (heap w) w2" "world_ok w2"
    using load_result [OF w1] assms(4) by auto
  then obtain w' where "skel_fail L obj err w2 = Inr (0, w')" "heap w' = heap w" "errno w' = - err"
    using fail_result by blast
  with assms(2-5) show ?thesis
    by (simp add: skel_open_and_load_def)
qed

end

text \<open>A failing allocation, by its position.\<close>

lemma calloc_value:
  "calloc b w =
     (if alloc_plan w \<noteq> [] \<and> \<not> hd (alloc_plan w) then (0, w\<lparr>alloc_plan := tl (alloc_plan w)\<rparr>)
      else (next_addr w,
            w\<lparr>heap := (heap w)(next_addr w \<mapsto> b), next_addr := Suc (next_addr w),
              alloc_plan := tl (alloc_plan w)\<rparr>))"
  by (cases "alloc_plan w"; cases "hd (alloc_plan w)") (auto simp: calloc_def)

lemma skel_gone:
  "heap w obj = None \<Longrightarrow> skel_load L obj w = Inl Mem_fault \<and> skel_attach L obj w = Inl Mem_fault \<and>
     skel_detach L obj w = Inl Mem_fault \<and> (obj \<noteq> 0 \<longrightarrow> skel_destroy L obj w = Inl Mem_fault)"
  by (simp add: skel_load_def skel_attach_def skel_detach_def skel_destroy_def get_obj_def)

lemma set_block_plan: "set_block a b w = Inr w' \<Longrightarrow> alloc_plan w' = alloc_plan w \<and> next_addr w' = next_addr w"
  by (auto simp: set_block_def split: if_splits)

lemma sbind_InrE:
  assumes "sbind m f = Inr y"
  obtains x where "m = Inr x" and "f x = Inr y"
  using assms by (cases m) auto

text \<open>The allocations fail in the order of the plan, and only they make \<open>create_skeleton\<close> fail.\<close>

lemma create_progs_err:
  assumes "create_progs L d obj s sk w = Inr (err, w')" and "0 < next_addr w"
  shows "err = (if alloc_plan w \<noteq> [] \<and> \<not> hd (alloc_plan w) then - ENOMEM else 0)"
  using assms
  by (auto simp: create_progs_def calloc_value create_finish_def Let_def elim!: sbind_InrE split: if_splits)

lemma create_maps_err:
  assumes "create_maps L d obj s sk w = Inr (err, w')" and "0 < next_addr w"
  shows "err = (if False \<in> set (take 2 (alloc_plan w)) then - ENOMEM else 0)"
proof (cases "alloc_plan w")
  case Nil
  with assms show ?thesis
    by (auto simp: create_maps_def calloc_value Let_def elim!: sbind_InrE dest!: create_progs_err set_block_plan split: if_splits)
next
  case (Cons a plan)
  with assms show ?thesis
    by (cases plan; cases a)
      (auto simp: create_maps_def calloc_value Let_def elim!: sbind_InrE dest!: create_progs_err set_block_plan split: if_splits)
qed

lemma create_skeleton_err:
  assumes "create_skeleton L d obj w = Inr (err, w')" and "0 < next_addr w"
  shows "err = (if False \<in> set (take 3 (alloc_plan w)) then - ENOMEM else 0)"
proof (cases "alloc_plan w")
  case Nil
  with assms show ?thesis
    by (auto simp: create_skeleton_def calloc_value Let_def dest!: create_maps_err)
next
  case (Cons a plan)
  with assms show ?thesis
    by (cases a) (auto simp: create_skeleton_def calloc_value Let_def numeral_3_eq_3 numeral_2_eq_2 dest!: create_maps_err)
qed

context libbpf_env
begin

lemma open_opts_enomem:
  assumes ok: "world_ok w" and plan: "False \<in> set (take 4 (alloc_plan w))"
  shows "\<exists>w'. skel_open_opts L d opts w = Inr (0, w') \<and> heap w' = heap w \<and> errno w' = ENOMEM"
proof (cases rule: calloc_cases [of "B_obj new_obj" w])
  case (fails w1)
  then show ?thesis
    by (simp add: skel_open_opts_def set_errno_def)
next
  case (succeeds w1)
  let ?n = "next_addr w"
  have n: "0 < ?n" "heap w ?n = None"
    using ok by (simp_all add: world_ok_def)
  have ok1: "world_ok w1" and here: "heap w1 ?n = Some (B_obj new_obj)" and rest: "(heap w1)(?n := None) = heap w"
    using ok succeeds n by (auto simp: world_ok_alloc)
  have plan1: "False \<in> set (take 3 (alloc_plan w1))"
    using plan succeeds(1) n(1)
    by (cases "alloc_plan w") (auto simp: calloc_value numeral_eq_Suc split: if_splits)
  obtain err w2 where create: "create_skeleton L d ?n w1 = Inr (err, w2)" and ok2: "world_ok w2"
    and r: "if err = 0 then owns d ?n ((heap w1)(?n := None)) w2 else touches ?n (heap w1) (heap w2)"
    using create_skeleton_result [OF ok1 here, of d] by (auto simp: created_def split: if_splits)
  have err: "err = - ENOMEM"
    using create_skeleton_err [OF create] plan1 succeeds(3) by simp
  with r have "touches ?n (heap w1) (heap w2)"
    by (simp add: ENOMEM_def)
  from this here obtain ob' where hp: "heap w2 = (heap w1)(?n \<mapsto> B_obj ob')"
    and "o_skeleton ob' = o_skeleton new_obj"
    by (rule touchesE)
  then have "skel_fail L ?n err w2 = Inr (0, set_errno (- err) (w2\<lparr>heap := heap w\<rparr>))"
    using n rest by (simp add: skel_fail_def skel_destroy_def get_obj_def c_free_def new_obj_def)
  then have "skel_open_opts L d opts w = Inr (0, set_errno ENOMEM (w2\<lparr>heap := heap w\<rparr>))"
    using n(1) create succeeds(1) err by (simp add: skel_open_opts_def ENOMEM_def)
  then show ?thesis
    by (simp add: set_errno_def)
qed

end

section \<open>Properties\<close>

text \<open>A description and a world to run the properties on.\<close>

definition demo_desc :: skel_desc where
  "demo_desc = \<lparr>sd_name = ''demo_bpf'', sd_maps = [(''demo.bss'', ''bss'', Some ''bss'')],
     sd_progs = [(''handle_tp'', ''handle_tp'', ''handle_tp'')], sd_elf = [127, 69, 76, 70]\<rparr>"

definition empty_world :: "bool list \<Rightarrow> unit world" where
  "empty_world plan = \<lparr>heap = Map.empty, next_addr = 1, alloc_plan = plan, errno = 0, kern = ()\<rparr>"

lemma world_ok_empty [simp]: "world_ok (empty_world plan)"
  by (simp add: world_ok_def empty_world_def)

lemma plain_opens_any:
  obtains obj w1 where "skel_open_opts (plain_libbpf 0 le ae) d 0 (empty_world []) = Inr (obj, w1)" and "obj \<noteq> 0"
  by (simp add: skel_open_opts_def create_skeleton_def create_maps_def create_progs_def
      create_finish_def calloc_def empty_world_def set_block_def get_obj_def new_obj_def plain_libbpf_def
      plain_open_def new_skel_def Let_def)

lemma plain_opens:
  obtains obj w1 where "skel_open (plain_libbpf 0 le ae) demo_desc (empty_world []) = Inr (obj, w1)"
    and "obj \<noteq> 0" and "world_ok w1" and "owns demo_desc obj (heap (empty_world [])) w1"
proof -
  obtain obj w1 where opened: "skel_open (plain_libbpf 0 le ae) demo_desc (empty_world []) = Inr (obj, w1)" "obj \<noteq> 0"
    unfolding skel_open_def by (rule plain_opens_any)
  have "world_ok w1 \<and> owns demo_desc obj (heap (empty_world [])) w1"
    using plain.open_result [OF world_ok_empty, of 0 le ae demo_desc "[]"] opened by auto
  with opened that show ?thesis
    by blast
qed

text \<open>
  C8: \<open>open_opts\<close> leaks nothing and never faults, whichever allocations fail and whatever libbpf
  returns: it gives back NULL, the heap it was given and a non-zero \<open>errno\<close>, or an object with its
  complete skeleton, tables and all, over the untouched rest of the heap.
\<close>

theorem open_all_or_nothing:
  assumes "libbpf_env L" and "world_ok w"
  shows "\<exists>obj w'. skel_open_opts L d opts w = Inr (obj, w') \<and> world_ok w' \<and>
    (if obj = 0 then heap w' = heap w \<and> errno w' \<noteq> 0 else owns d obj (heap w) w')"
  using assms by (rule libbpf_env.open_opts_result)

theorem open_all_or_nothing_witness:
  "\<exists>obj w'. skel_open_opts (plain_libbpf 0 0 0) demo_desc 0 (empty_world [True, True]) = Inr (obj, w') \<and>
     world_ok w' \<and>
     (if obj = 0 then heap w' = heap (empty_world [True, True]) \<and> errno w' \<noteq> 0
      else owns demo_desc obj (heap (empty_world [True, True])) w')"
  by (rule open_all_or_nothing [OF plain.libbpf_env_axioms world_ok_empty])

text \<open>
  If any of the four allocations of \<open>open_opts\<close> (the object, the skeleton, its map table, its program
  table) fails, it returns NULL with \<open>errno\<close> set to \<open>ENOMEM\<close> and the heap is as before: the error
  code travels through \<open>create_skeleton\<close>, the destroy call of the exit does not lose it.
\<close>

theorem open_reports_enomem:
  assumes "libbpf_env L" and "world_ok w" and "False \<in> set (take 4 (alloc_plan w))"
  shows "\<exists>w'. skel_open_opts L d opts w = Inr (0, w') \<and> heap w' = heap w \<and> errno w' = ENOMEM"
  using assms by (rule libbpf_env.open_opts_enomem)

theorem open_reports_enomem_witness:
  "\<exists>w'. skel_open_opts (plain_libbpf 0 0 0) demo_desc 0 (empty_world [True, True, True, False]) = Inr (0, w') \<and>
     heap w' = heap (empty_world [True, True, True, False]) \<and> errno w' = ENOMEM"
  by (rule open_reports_enomem [OF plain.libbpf_env_axioms world_ok_empty]) (simp add: empty_world_def)

text \<open>
  C7: a whole life of a skeleton, opened with any options, then any sequence of load, attach and
  detach calls whatever they return, then destroyed, runs without a fault, frees every block it
  allocated exactly once and leaves the rest of the heap alone.
\<close>

theorem life_cycle_restores_heap:
  assumes "libbpf_env L" and "world_ok w"
  shows "\<exists>w'. skel_life L d opts cs w = Inr w' \<and> heap w' = heap w \<and> world_ok w'"
  using assms by (rule libbpf_env.life_result)

theorem life_cycle_restores_heap_witness:
  "\<exists>w'. skel_life (plain_libbpf 0 (- 22) (- 2)) demo_desc 0 [Do_load, Do_attach, Do_detach] (empty_world []) = Inr w' \<and>
     heap w' = heap (empty_world []) \<and> world_ok w'"
  by (rule life_cycle_restores_heap [OF plain.libbpf_env_axioms world_ok_empty])

text \<open>
  When \<open>open_and_load\<close> gets an object but libbpf refuses to load it, the object is destroyed, the
  result is NULL, the heap is as before the call, and \<open>errno\<close> is the error libbpf returned, negated.
\<close>

theorem open_and_load_undoes_open:
  assumes "libbpf_env L" and "world_ok w" and "skel_open L d w = Inr (obj, w1)" and "obj \<noteq> 0"
    and "skel_load L obj w1 = Inr (err, w2)" and "err \<noteq> 0"
  shows "\<exists>w'. skel_open_and_load L d w = Inr (0, w') \<and> heap w' = heap w \<and> errno w' = - err"
  using assms by (rule libbpf_env.open_and_load_error)

theorem open_and_load_undoes_open_witness:
  "\<exists>obj w1 w2. skel_open (plain_libbpf 0 (- 22) 0) demo_desc (empty_world []) = Inr (obj, w1) \<and> obj \<noteq> 0 \<and>
     skel_load (plain_libbpf 0 (- 22) 0) obj w1 = Inr (- 22, w2) \<and>
     (\<exists>w'. skel_open_and_load (plain_libbpf 0 (- 22) 0) demo_desc (empty_world []) = Inr (0, w') \<and>
        heap w' = heap (empty_world []) \<and> errno w' = - (- 22))"
proof -
  let ?L = "plain_libbpf 0 (- 22) 0 :: unit libbpf"
  obtain obj w1 where opened: "skel_open ?L demo_desc (empty_world []) = Inr (obj, w1)" "obj \<noteq> 0"
    and "owns demo_desc obj (heap (empty_world [])) w1"
    by (rule plain_opens)
  from this(3) obtain ob where "get_obj obj w1 = Inr ob"
    by (rule plain.owns_parts)
  then have loaded: "skel_load ?L obj w1 = Inr (- 22, w1)"
    by (simp add: skel_load_def plain_libbpf_def)
  show ?thesis
    using opened loaded open_and_load_undoes_open [OF plain.libbpf_env_axioms world_ok_empty opened loaded]
    by auto
qed

text \<open>
  After \<open>destroy\<close> the object is gone: load, attach, detach and a second destroy are accesses to
  freed memory, for every libbpf that meets the contract.
\<close>

theorem destroyed_skeleton_unusable:
  assumes "libbpf_env L" and "world_ok w" and "owns d obj H w"
  shows "\<exists>w'. skel_destroy L obj w = Inr w' \<and> skel_load L obj w' = Inl Mem_fault \<and>
     skel_attach L obj w' = Inl Mem_fault \<and> skel_detach L obj w' = Inl Mem_fault \<and>
     skel_destroy L obj w' = Inl Mem_fault"
proof -
  obtain w' where "skel_destroy L obj w = Inr w'" and "heap w' = H"
    using libbpf_env.destroy_result [OF assms(1,3,2)] by blast
  moreover have "H obj = None" and "obj \<noteq> 0"
    using assms(3) by (auto simp: owns_def)
  ultimately show ?thesis
    using skel_gone [of w' obj L] by auto
qed


theorem destroyed_skeleton_unusable_witness:
  "\<exists>obj (w :: unit world) w'. owns demo_desc obj (heap (empty_world [])) w \<and>
     skel_destroy (plain_libbpf 0 0 0) obj w = Inr w' \<and> skel_load (plain_libbpf 0 0 0) obj w' = Inl Mem_fault \<and>
     skel_attach (plain_libbpf 0 0 0) obj w' = Inl Mem_fault \<and>
     skel_detach (plain_libbpf 0 0 0) obj w' = Inl Mem_fault \<and>
     skel_destroy (plain_libbpf 0 0 0) obj w' = Inl Mem_fault"
proof -
  obtain obj and w :: "unit world" where "world_ok w" "owns demo_desc obj (heap (empty_world [])) w"
    by (rule plain_opens [of 0 0]) blast
  from destroyed_skeleton_unusable [OF plain.libbpf_env_axioms this, of 0 0 0] this(2) show ?thesis
    by blast
qed

end
