(* ===== verification/Minimal_Skel.thy ===== *)
theory Minimal_Skel
  imports Skeleton
begin

text \<open>
  The tables of examples/c/.output/minimal.skel.h: its two maps (the mapped section
  \<open>.bss\<close>, and \<open>.rodata\<close>), its program \<open>handle_tp\<close>, and the object file embedded as a
  string literal, cut at the borders of the sections the properties read. The functions of the
  header are those of \<open>Skeleton\<close> over these tables.
\<close>

section \<open>The embedded object file\<close>

definition elf_ehdr :: "byte list" where
  "elf_ehdr =
    [127, 69, 76, 70, 2, 1, 1, 0, 0, 0, 0, 0, 0, 0, 0, 0, 1, 0, 247, 0, 1, 0, 0, 0, 0, 0, 0, 0, 0, 0, 0, 0,
     0, 0, 0, 0, 0, 0, 0, 0, 120, 5, 0, 0, 0, 0, 0, 0, 0, 0, 0, 0, 64, 0, 0, 0, 0, 0, 64, 0, 10, 0, 1, 0]"

definition elf_strtab :: "byte list" where
  "elf_strtab =
    [0, 46, 115, 116, 114, 116, 97, 98, 0, 46, 115, 121, 109, 116, 97, 98, 0, 116, 112, 47, 115, 121, 115, 99, 97, 108, 108, 115, 47, 115, 121, 115,
     95, 101, 110, 116, 101, 114, 95, 119, 114, 105, 116, 101, 0, 108, 105, 99, 101, 110, 115, 101, 0, 46, 98, 115, 115, 0, 46, 114, 111, 100, 97, 116,
     97, 0, 109, 105, 110, 105, 109, 97, 108, 46, 98, 112, 102, 46, 99, 0, 76, 66, 66, 48, 95, 50, 0, 104, 97, 110, 100, 108, 101, 95, 116, 112,
     46, 95, 95, 95, 95, 102, 109, 116, 0, 104, 97, 110, 100, 108, 101, 95, 116, 112, 0, 109, 121, 95, 112, 105, 100, 0, 76, 73, 67, 69, 78, 83,
     69, 0, 46, 114, 101, 108, 116, 112, 47, 115, 121, 115, 99, 97, 108, 108, 115, 47, 115, 121, 115, 95, 101, 110, 116, 101, 114, 95, 119, 114, 105, 116,
     101, 0, 46, 66, 84, 70, 0, 46, 66, 84, 70, 46, 101, 120, 116, 0]"

definition elf_symtab :: "byte list" where
  "elf_symtab =
    [0, 0, 0, 0, 0, 0, 0, 0, 0, 0, 0, 0, 0, 0, 0, 0, 0, 0, 0, 0, 0, 0, 0, 0, 66, 0, 0, 0, 4, 0, 241, 255,
     0, 0, 0, 0, 0, 0, 0, 0, 0, 0, 0, 0, 0, 0, 0, 0, 0, 0, 0, 0, 3, 0, 3, 0, 0, 0, 0, 0, 0, 0, 0, 0,
     0, 0, 0, 0, 0, 0, 0, 0, 80, 0, 0, 0, 0, 0, 3, 0, 88, 0, 0, 0, 0, 0, 0, 0, 0, 0, 0, 0, 0, 0, 0, 0,
     87, 0, 0, 0, 1, 0, 6, 0, 0, 0, 0, 0, 0, 0, 0, 0, 28, 0, 0, 0, 0, 0, 0, 0, 0, 0, 0, 0, 3, 0, 6, 0,
     0, 0, 0, 0, 0, 0, 0, 0, 0, 0, 0, 0, 0, 0, 0, 0, 105, 0, 0, 0, 18, 0, 3, 0, 0, 0, 0, 0, 0, 0, 0, 0,
     104, 0, 0, 0, 0, 0, 0, 0, 115, 0, 0, 0, 17, 0, 5, 0, 0, 0, 0, 0, 0, 0, 0, 0, 4, 0, 0, 0, 0, 0, 0, 0,
     122, 0, 0, 0, 17, 0, 4, 0, 0, 0, 0, 0, 0, 0, 0, 0, 13, 0, 0, 0, 0, 0, 0, 0]"

definition elf_handle_tp :: "byte list" where
  "elf_handle_tp =
    [133, 0, 0, 0, 14, 0, 0, 0, 119, 0, 0, 0, 32, 0, 0, 0, 24, 1, 0, 0, 0, 0, 0, 0, 0, 0, 0, 0, 0, 0, 0, 0,
     97, 17, 0, 0, 0, 0, 0, 0, 93, 1, 5, 0, 0, 0, 0, 0, 24, 1, 0, 0, 0, 0, 0, 0, 0, 0, 0, 0, 0, 0, 0, 0,
     183, 2, 0, 0, 28, 0, 0, 0, 191, 3, 0, 0, 0, 0, 0, 0, 133, 0, 0, 0, 6, 0, 0, 0, 183, 0, 0, 0, 0, 0, 0, 0,
     149, 0, 0, 0, 0, 0, 0, 0]"

definition elf_license :: "byte list" where
  "elf_license =
    [68, 117, 97, 108, 32, 66, 83, 68, 47, 71, 80, 76, 0, 0, 0, 0]"

definition elf_rodata :: "byte list" where
  "elf_rodata =
    [66, 80, 70, 32, 116, 114, 105, 103, 103, 101, 114, 101, 100, 32, 102, 114, 111, 109, 32, 80, 73, 68, 32, 37, 100, 46, 10, 0, 0, 0, 0, 0]"

definition elf_relocs :: "byte list" where
  "elf_relocs =
    [16, 0, 0, 0, 0, 0, 0, 0, 1, 0, 0, 0, 7, 0, 0, 0, 48, 0, 0, 0, 0, 0, 0, 0, 1, 0, 0, 0, 5, 0, 0, 0]"

definition elf_btf :: "byte list" where
  "elf_btf =
    [159, 235, 1, 0, 24, 0, 0, 0, 0, 0, 0, 0, 16, 1, 0, 0, 16, 1, 0, 0, 44, 1, 0, 0, 0, 0, 0, 0, 0, 0, 0, 2,
     0, 0, 0, 0, 0, 0, 0, 0, 1, 0, 0, 13, 3, 0, 0, 0, 1, 0, 0, 0, 1, 0, 0, 0, 5, 0, 0, 0, 0, 0, 0, 1,
     4, 0, 0, 0, 32, 0, 0, 1, 9, 0, 0, 0, 1, 0, 0, 12, 2, 0, 0, 0, 19, 0, 0, 0, 0, 0, 0, 1, 1, 0, 0, 0,
     8, 0, 0, 1, 0, 0, 0, 0, 0, 0, 0, 3, 0, 0, 0, 0, 5, 0, 0, 0, 7, 0, 0, 0, 13, 0, 0, 0, 24, 0, 0, 0,
     0, 0, 0, 1, 4, 0, 0, 0, 32, 0, 0, 0, 44, 0, 0, 0, 0, 0, 0, 14, 6, 0, 0, 0, 1, 0, 0, 0, 52, 0, 0, 0,
     0, 0, 0, 14, 3, 0, 0, 0, 1, 0, 0, 0, 0, 0, 0, 0, 0, 0, 0, 10, 5, 0, 0, 0, 0, 0, 0, 0, 0, 0, 0, 3,
     0, 0, 0, 0, 10, 0, 0, 0, 7, 0, 0, 0, 28, 0, 0, 0, 59, 0, 0, 0, 0, 0, 0, 14, 11, 0, 0, 0, 0, 0, 0, 0,
     251, 0, 0, 0, 1, 0, 0, 15, 13, 0, 0, 0, 8, 0, 0, 0, 0, 0, 0, 0, 13, 0, 0, 0, 3, 1, 0, 0, 1, 0, 0, 15,
     4, 0, 0, 0, 9, 0, 0, 0, 0, 0, 0, 0, 4, 0, 0, 0, 8, 1, 0, 0, 1, 0, 0, 15, 28, 0, 0, 0, 12, 0, 0, 0,
     0, 0, 0, 0, 28, 0, 0, 0, 0, 99, 116, 120, 0, 105, 110, 116, 0, 104, 97, 110, 100, 108, 101, 95, 116, 112, 0, 99, 104, 97, 114, 0,
     95, 95, 65, 82, 82, 65, 89, 95, 83, 73, 90, 69, 95, 84, 89, 80, 69, 95, 95, 0, 76, 73, 67, 69, 78, 83, 69, 0, 109, 121, 95, 112,
     105, 100, 0, 104, 97, 110, 100, 108, 101, 95, 116, 112, 46, 95, 95, 95, 95, 102, 109, 116, 0, 47, 104, 111, 109, 101, 47, 108, 111, 115, 116, 99,
     97, 99, 104, 101, 47, 99, 111, 100, 101, 47, 104, 101, 108, 108, 111, 95, 101, 66, 80, 70, 47, 101, 120, 97, 109, 112, 108, 101, 115, 47, 99, 47,
     109, 105, 110, 105, 109, 97, 108, 46, 98, 112, 102, 46, 99, 0, 9, 105, 110, 116, 32, 112, 105, 100, 32, 61, 32, 98, 112, 102, 95, 103, 101, 116,
     95, 99, 117, 114, 114, 101, 110, 116, 95, 112, 105, 100, 95, 116, 103, 105, 100, 40, 41, 32, 62, 62, 32, 51, 50, 59, 0, 9, 105, 102, 32, 40,
     112, 105, 100, 32, 33, 61, 32, 109, 121, 95, 112, 105, 100, 41, 0, 9, 98, 112, 102, 95, 112, 114, 105, 110, 116, 107, 40, 34, 66, 80, 70, 32,
     116, 114, 105, 103, 103, 101, 114, 101, 100, 32, 102, 114, 111, 109, 32, 80, 73, 68, 32, 37, 100, 46, 92, 110, 34, 44, 32, 112, 105, 100, 41, 59,
     0, 125, 0, 108, 105, 99, 101, 110, 115, 101, 0, 46, 98, 115, 115, 0, 46, 114, 111, 100, 97, 116, 97, 0, 116, 112, 47, 115, 121, 115, 99, 97,
     108, 108, 115, 47, 115, 121, 115, 95, 101, 110, 116, 101, 114, 95, 119, 114, 105, 116, 101, 0, 0, 0, 0, 0]"

definition elf_btf_ext :: "byte list" where
  "elf_btf_ext =
    [159, 235, 1, 0, 32, 0, 0, 0, 0, 0, 0, 0, 20, 0, 0, 0, 20, 0, 0, 0, 108, 0, 0, 0, 128, 0, 0, 0, 0, 0, 0, 0,
     8, 0, 0, 0, 16, 1, 0, 0, 1, 0, 0, 0, 0, 0, 0, 0, 4, 0, 0, 0, 16, 0, 0, 0, 16, 1, 0, 0, 6, 0, 0, 0,
     0, 0, 0, 0, 77, 0, 0, 0, 134, 0, 0, 0, 12, 52, 0, 0, 8, 0, 0, 0, 77, 0, 0, 0, 134, 0, 0, 0, 39, 52, 0, 0,
     16, 0, 0, 0, 77, 0, 0, 0, 179, 0, 0, 0, 13, 60, 0, 0, 40, 0, 0, 0, 77, 0, 0, 0, 179, 0, 0, 0, 6, 60, 0, 0,
     48, 0, 0, 0, 77, 0, 0, 0, 199, 0, 0, 0, 2, 72, 0, 0, 88, 0, 0, 0, 77, 0, 0, 0, 249, 0, 0, 0, 1, 84, 0, 0]"

definition elf_shdr0 :: "byte list" where
  "elf_shdr0 =
    [0, 0, 0, 0, 0, 0, 0, 0, 0, 0, 0, 0, 0, 0, 0, 0, 0, 0, 0, 0, 0, 0, 0, 0, 0, 0, 0, 0, 0, 0, 0, 0,
     0, 0, 0, 0, 0, 0, 0, 0, 0, 0, 0, 0, 0, 0, 0, 0, 0, 0, 0, 0, 0, 0, 0, 0, 0, 0, 0, 0, 0, 0, 0, 0]"

definition elf_shdr1 :: "byte list" where
  "elf_shdr1 =
    [1, 0, 0, 0, 3, 0, 0, 0, 32, 0, 0, 0, 0, 0, 0, 0, 0, 0, 0, 0, 0, 0, 0, 0, 64, 0, 0, 0, 0, 0, 0, 0,
     176, 0, 0, 0, 0, 0, 0, 0, 0, 0, 0, 0, 0, 0, 0, 0, 1, 0, 0, 0, 0, 0, 0, 0, 0, 0, 0, 0, 0, 0, 0, 0]"

definition elf_shdr2 :: "byte list" where
  "elf_shdr2 =
    [9, 0, 0, 0, 2, 0, 0, 0, 0, 0, 0, 0, 0, 0, 0, 0, 0, 0, 0, 0, 0, 0, 0, 0, 240, 0, 0, 0, 0, 0, 0, 0,
     216, 0, 0, 0, 0, 0, 0, 0, 1, 0, 0, 0, 0, 0, 0, 0, 8, 0, 0, 0, 0, 0, 0, 0, 24, 0, 0, 0, 0, 0, 0, 0]"

definition elf_shdr3 :: "byte list" where
  "elf_shdr3 =
    [17, 0, 0, 0, 1, 0, 0, 0, 6, 0, 0, 0, 0, 0, 0, 0, 0, 0, 0, 0, 0, 0, 0, 0, 200, 1, 0, 0, 0, 0, 0, 0,
     104, 0, 0, 0, 0, 0, 0, 0, 0, 0, 0, 0, 0, 0, 0, 0, 8, 0, 0, 0, 0, 0, 0, 0, 0, 0, 0, 0, 0, 0, 0, 0]"

definition elf_shdr4 :: "byte list" where
  "elf_shdr4 =
    [45, 0, 0, 0, 1, 0, 0, 0, 3, 0, 0, 0, 0, 0, 0, 0, 0, 0, 0, 0, 0, 0, 0, 0, 48, 2, 0, 0, 0, 0, 0, 0,
     13, 0, 0, 0, 0, 0, 0, 0, 0, 0, 0, 0, 0, 0, 0, 0, 1, 0, 0, 0, 0, 0, 0, 0, 0, 0, 0, 0, 0, 0, 0, 0]"

definition elf_shdr5 :: "byte list" where
  "elf_shdr5 =
    [53, 0, 0, 0, 8, 0, 0, 0, 3, 0, 0, 0, 0, 0, 0, 0, 0, 0, 0, 0, 0, 0, 0, 0, 64, 2, 0, 0, 0, 0, 0, 0,
     4, 0, 0, 0, 0, 0, 0, 0, 0, 0, 0, 0, 0, 0, 0, 0, 4, 0, 0, 0, 0, 0, 0, 0, 0, 0, 0, 0, 0, 0, 0, 0]"

definition elf_shdr6 :: "byte list" where
  "elf_shdr6 =
    [58, 0, 0, 0, 1, 0, 0, 0, 2, 0, 0, 0, 0, 0, 0, 0, 0, 0, 0, 0, 0, 0, 0, 0, 64, 2, 0, 0, 0, 0, 0, 0,
     28, 0, 0, 0, 0, 0, 0, 0, 0, 0, 0, 0, 0, 0, 0, 0, 1, 0, 0, 0, 0, 0, 0, 0, 0, 0, 0, 0, 0, 0, 0, 0]"

definition elf_shdr7 :: "byte list" where
  "elf_shdr7 =
    [130, 0, 0, 0, 9, 0, 0, 0, 64, 0, 0, 0, 0, 0, 0, 0, 0, 0, 0, 0, 0, 0, 0, 0, 96, 2, 0, 0, 0, 0, 0, 0,
     32, 0, 0, 0, 0, 0, 0, 0, 2, 0, 0, 0, 3, 0, 0, 0, 8, 0, 0, 0, 0, 0, 0, 0, 16, 0, 0, 0, 0, 0, 0, 0]"

definition elf_shdr8 :: "byte list" where
  "elf_shdr8 =
    [162, 0, 0, 0, 1, 0, 0, 0, 0, 0, 0, 0, 0, 0, 0, 0, 0, 0, 0, 0, 0, 0, 0, 0, 128, 2, 0, 0, 0, 0, 0, 0,
     84, 2, 0, 0, 0, 0, 0, 0, 0, 0, 0, 0, 0, 0, 0, 0, 8, 0, 0, 0, 0, 0, 0, 0, 0, 0, 0, 0, 0, 0, 0, 0]"

definition elf_shdr9 :: "byte list" where
  "elf_shdr9 =
    [167, 0, 0, 0, 1, 0, 0, 0, 0, 0, 0, 0, 0, 0, 0, 0, 0, 0, 0, 0, 0, 0, 0, 0, 216, 4, 0, 0, 0, 0, 0, 0,
     160, 0, 0, 0, 0, 0, 0, 0, 0, 0, 0, 0, 0, 0, 0, 0, 8, 0, 0, 0, 0, 0, 0, 0, 0, 0, 0, 0, 0, 0, 0, 0]"

definition elf_shdrs :: "byte list list" where
  "elf_shdrs = [elf_shdr0, elf_shdr1, elf_shdr2, elf_shdr3, elf_shdr4, elf_shdr5, elf_shdr6, elf_shdr7,
     elf_shdr8, elf_shdr9]"

definition minimal_bpf__elf_bytes :: "byte list" where
  "minimal_bpf__elf_bytes =
     elf_ehdr @ elf_strtab @ elf_symtab @ elf_handle_tp @ elf_license @ elf_rodata @ elf_relocs @ elf_btf @
     elf_btf_ext @ concat elf_shdrs"

text \<open>The sizes of the pieces. The definitions stay folded: the literal is only opened where it is read.\<close>

lemma elf_lengths [simp]:
  "length elf_ehdr = 64"
  "length elf_strtab = 176"
  "length elf_symtab = 216"
  "length elf_handle_tp = 104"
  "length elf_license = 16"
  "length elf_rodata = 32"
  "length elf_relocs = 32"
  "length elf_btf = 600"
  "length elf_btf_ext = 160"
  "length elf_shdr0 = 64"
  "length elf_shdr1 = 64"
  "length elf_shdr2 = 64"
  "length elf_shdr3 = 64"
  "length elf_shdr4 = 64"
  "length elf_shdr5 = 64"
  "length elf_shdr6 = 64"
  "length elf_shdr7 = 64"
  "length elf_shdr8 = 64"
  "length elf_shdr9 = 64"
  by (simp_all add: elf_ehdr_def elf_strtab_def elf_symtab_def elf_handle_tp_def elf_license_def elf_rodata_def elf_relocs_def elf_btf_def elf_btf_ext_def elf_shdr0_def elf_shdr1_def elf_shdr2_def elf_shdr3_def elf_shdr4_def elf_shdr5_def elf_shdr6_def elf_shdr7_def elf_shdr8_def elf_shdr9_def)

lemma elf_shdrs_lengths [simp]: "length elf_shdrs = 10" "list_all (\<lambda>h. length h = 64) elf_shdrs"
  by (simp_all add: elf_shdrs_def)

lemma length_elf [simp]: "length minimal_bpf__elf_bytes = 2040"
  by (simp add: minimal_bpf__elf_bytes_def elf_shdrs_def)

section \<open>The tables\<close>

definition minimal_desc :: skel_desc where
  "minimal_desc =
     \<lparr>sd_name = ''minimal_bpf'',
      sd_maps = [(''minimal_.bss'', ''bss'', Some ''bss''), (''minimal_.rodata'', ''rodata'', None)],
      sd_progs = [(''handle_tp'', ''handle_tp'', ''handle_tp'')],
      sd_elf = minimal_bpf__elf_bytes\<rparr>"

end
