(* ===== verification/Apps.thy ===== *)
theory Apps
  imports Skel_Life Minimal_Skel
begin

text \<open>
  The two loaders, examples/c/hello.c and examples/c/minimal.c: their \<open>main\<close> up to the endless loop,
  with every exit. hello.skel.h is generated by the build and not in the repository, so the four
  calls hello.c makes of it are a parameter \<open>skel_ops\<close>; minimal.c runs on the modelled functions of
  minimal.skel.h. Messages are the loader's own writes to the two streams.
\<close>

section \<open>What a loader does\<close>

datatype msg = To_stdout string | To_stderr string

text \<open>A \<open>main\<close> that returned, that sits in its endless loop, or that made an invalid access.\<close>

datatype 'k app =
    App_exit nat "msg list" "'k world"
  | App_loop addr "msg list" "'k world"
  | App_fault crash

text \<open>The parent sees the low eight bits of what \<open>main\<close> returns.\<close>

definition exit_status :: "int \<Rightarrow> nat" where
  "exit_status r = nat (r mod 256)"

record 'k skel_ops =
  op_open :: "'k world \<Rightarrow> crash + addr \<times> 'k world"
  op_load :: "addr \<Rightarrow> 'k world \<Rightarrow> crash + int \<times> 'k world"
  op_attach :: "addr \<Rightarrow> 'k world \<Rightarrow> crash + int \<times> 'k world"
  op_destroy :: "addr \<Rightarrow> 'k world \<Rightarrow> crash + 'k world"

text \<open>\<open>libbpf_print_fn\<close> passes every message on, whatever its level, and returns its length.\<close>

datatype libbpf_print_level = LIBBPF_WARN | LIBBPF_INFO | LIBBPF_DEBUG

instantiation libbpf_print_level :: linorder
begin

definition level_number :: "libbpf_print_level \<Rightarrow> nat" where
  "level_number l = (case l of LIBBPF_WARN \<Rightarrow> 0 | LIBBPF_INFO \<Rightarrow> 1 | LIBBPF_DEBUG \<Rightarrow> 2)"

definition less_eq_libbpf_print_level :: "libbpf_print_level \<Rightarrow> libbpf_print_level \<Rightarrow> bool" where
  "less_eq_libbpf_print_level l l' = (level_number l \<le> level_number l')"

definition less_libbpf_print_level :: "libbpf_print_level \<Rightarrow> libbpf_print_level \<Rightarrow> bool" where
  "less_libbpf_print_level l l' = (level_number l < level_number l')"

instance
  by standard
    (auto simp: less_eq_libbpf_print_level_def less_libbpf_print_level_def level_number_def
      split: libbpf_print_level.splits)

end

definition libbpf_print_fn :: "libbpf_print_level \<Rightarrow> string \<Rightarrow> int \<times> msg list" where
  "libbpf_print_fn level formatted = (int (length formatted), [To_stderr formatted])"

lemma print_fn_verbose: "l \<le> LIBBPF_DEBUG \<and> libbpf_print_fn l m = (int (length m), [To_stderr m])"
  by (cases l) (simp_all add: libbpf_print_fn_def less_eq_libbpf_print_level_def level_number_def)

definition open_failed :: msg where
  "open_failed = To_stderr (''Failed to open BPF skeleton'' @ [newline])"

definition load_failed :: msg where
  "load_failed = To_stderr (''Failed to load and verify BPF skeleton'' @ [newline])"

definition attach_failed :: msg where
  "attach_failed = To_stderr (''Failed to attach BPF skeleton'' @ [newline])"

text \<open>The label \<open>cleanup\<close>.\<close>

definition app_cleanup :: "(addr \<Rightarrow> 'k world \<Rightarrow> crash + 'k world) \<Rightarrow> addr \<Rightarrow> int \<Rightarrow> msg \<Rightarrow> 'k world \<Rightarrow> 'k app" where
  "app_cleanup destroy skel err m w =
     (case destroy skel w of
        Inl c \<Rightarrow> App_fault c
      | Inr w' \<Rightarrow> App_exit (exit_status (- err)) [m] w')"

text \<open>Lines 27 to 47 of hello.c, 32 to 53 of minimal.c: load, attach, announce, loop.\<close>

definition app_start ::
    "(addr \<Rightarrow> 'k world \<Rightarrow> crash + int \<times> 'k world) \<Rightarrow> (addr \<Rightarrow> 'k world \<Rightarrow> crash + int \<times> 'k world) \<Rightarrow>
     (addr \<Rightarrow> 'k world \<Rightarrow> crash + 'k world) \<Rightarrow> msg list \<Rightarrow> addr \<Rightarrow> 'k world \<Rightarrow> 'k app" where
  "app_start load attach destroy started skel w =
     (case load skel w of
        Inl c \<Rightarrow> App_fault c
      | Inr (err, w1) \<Rightarrow>
          if err \<noteq> 0 then app_cleanup destroy skel err load_failed w1
          else (case attach skel w1 of
                  Inl c \<Rightarrow> App_fault c
                | Inr (err', w2) \<Rightarrow>
                    if err' \<noteq> 0 then app_cleanup destroy skel err' attach_failed w2
                    else App_loop skel started w2))"

definition hello_started :: "msg list" where
  "hello_started =
     [To_stdout (''Hello eBPF started! Check /sys/kernel/debug/tracing/trace_pipe for output.'' @ [newline]),
      To_stdout (''Press Ctrl+C to stop.'' @ [newline])]"

definition hello_main :: "'k skel_ops \<Rightarrow> 'k world \<Rightarrow> 'k app" where
  "hello_main ops w =
     (case op_open ops w of
        Inl c \<Rightarrow> App_fault c
      | Inr (skel, w1) \<Rightarrow>
          if skel = 0 then App_exit (exit_status 1) [open_failed] w1
          else app_start (op_load ops) (op_attach ops) (op_destroy ops) hello_started skel w1)"

definition minimal_started :: "msg list" where
  "minimal_started =
     [To_stdout (''Successfully started! Please run `sudo cat /sys/kernel/debug/tracing/trace_pipe` '' @
        ''to see output of the BPF programs.'' @ [newline])]"

text \<open>\<open>skel->bss->my_pid = getpid()\<close>: a fault when \<open>skel->bss\<close> is NULL.\<close>

definition skel_set_my_pid :: "addr \<Rightarrow> 32 word \<Rightarrow> 'k world \<Rightarrow> crash + 'k world" where
  "skel_set_my_pid skel pid w =
     sbind (get_obj skel w) (\<lambda>ob.
     case o_my_pid ob of
       None \<Rightarrow> Inl Mem_fault
     | Some v \<Rightarrow> set_block skel (B_obj (ob\<lparr>o_my_pid := Some pid\<rparr>)) w)"

definition minimal_main :: "'k libbpf \<Rightarrow> 32 word \<Rightarrow> 'k world \<Rightarrow> 'k app" where
  "minimal_main L getpid w =
     (case skel_open L minimal_desc w of
        Inl c \<Rightarrow> App_fault c
      | Inr (skel, w1) \<Rightarrow>
          if skel = 0 then App_exit (exit_status 1) [open_failed] w1
          else (case skel_set_my_pid skel getpid w1 of
                  Inl c \<Rightarrow> App_fault c
                | Inr w2 \<Rightarrow> app_start (skel_load L) (skel_attach L) (skel_destroy L) minimal_started skel w2))"

text \<open>The body of the endless loop of minimal.c: one character on standard error, then a sleep.\<close>

definition minimal_loop_body :: "msg list" where
  "minimal_loop_body = [To_stderr ''.'']"

section \<open>The loaders over the interface\<close>

text \<open>The value of \<open>my_pid\<close> in the mapped section of an object.\<close>

definition bss_my_pid :: "addr \<Rightarrow> 'k world \<Rightarrow> 32 word option" where
  "bss_my_pid skel w = (case get_obj skel w of Inr ob \<Rightarrow> o_my_pid ob | Inl c \<Rightarrow> None)"

text \<open>
  What a loader promises, in terms of the calls it makes. \<open>prepare\<close> is what it does between the open and the
  load (nothing in hello.c, the store of the process id in minimal.c). A negated error is exact above
  \<open>INT_MIN\<close>; for \<open>INT_MIN\<close> itself the C negation is undefined and no status is promised.
\<close>

definition negated_status :: "int \<Rightarrow> nat \<Rightarrow> bool" where
  "negated_status err n \<longleftrightarrow> (err = - 2147483648 \<or> n = exit_status (- err))"

definition failed_start ::
    "(addr \<Rightarrow> 'k world \<Rightarrow> crash + int \<times> 'k world) \<Rightarrow> (addr \<Rightarrow> 'k world \<Rightarrow> crash + int \<times> 'k world) \<Rightarrow>
     (addr \<Rightarrow> 'k world \<Rightarrow> crash + 'k world) \<Rightarrow> addr \<Rightarrow> 'k world \<Rightarrow> nat \<Rightarrow> msg list \<Rightarrow> 'k world \<Rightarrow> bool" where
  "failed_start load attach destroy skel w n ms w' \<longleftrightarrow>
     (\<exists>err w1. load skel w = Inr (err, w1) \<and> err \<noteq> 0 \<and> destroy skel w1 = Inr w' \<and>
        negated_status err n \<and> ms = [load_failed]) \<or>
     (\<exists>w1 err w2. load skel w = Inr (0, w1) \<and> attach skel w1 = Inr (err, w2) \<and> err \<noteq> 0 \<and> destroy skel w2 = Inr w' \<and>
        negated_status err n \<and> ms = [attach_failed])"

definition loader_outcome ::
    "('k world \<Rightarrow> crash + addr \<times> 'k world) \<Rightarrow> (addr \<Rightarrow> 'k world \<Rightarrow> crash + 'k world) \<Rightarrow>
     (addr \<Rightarrow> 'k world \<Rightarrow> crash + int \<times> 'k world) \<Rightarrow> (addr \<Rightarrow> 'k world \<Rightarrow> crash + int \<times> 'k world) \<Rightarrow>
     (addr \<Rightarrow> 'k world \<Rightarrow> crash + 'k world) \<Rightarrow> (addr \<Rightarrow> (addr \<rightharpoonup> block) \<Rightarrow> 'k world \<Rightarrow> bool) \<Rightarrow>
     msg list \<Rightarrow> 'k world \<Rightarrow> 'k app \<Rightarrow> bool" where
  "loader_outcome opn prepare load attach destroy owned started w a = (case a of
     App_exit n ms w' \<Rightarrow> heap w' = heap w \<and> world_ok w' \<and>
       (\<exists>skel w1. opn w = Inr (skel, w1) \<and>
          (skel = 0 \<and> n = 1 \<and> ms = [open_failed] \<and> w' = w1 \<or>
           skel \<noteq> 0 \<and> (\<exists>w2. prepare skel w1 = Inr w2 \<and> failed_start load attach destroy skel w2 n ms w')))
   | App_loop skel ms w' \<Rightarrow> skel \<noteq> 0 \<and> owned skel (heap w) w' \<and> world_ok w' \<and> ms = started \<and>
       (\<exists>w1 w2 w3. opn w = Inr (skel, w1) \<and> prepare skel w1 = Inr w2 \<and>
          load skel w2 = Inr (0, w3) \<and> attach skel w3 = Inr (0, w'))
   | App_fault c \<Rightarrow> False)"

lemma negated_status_exit [simp]: "negated_status err (exit_status (- err))"
  by (simp add: negated_status_def)

lemma outcome_not_opened:
  assumes "opn w = Inr (0, w1)" and "heap w1 = heap w" and "world_ok w1"
  shows "loader_outcome opn prepare load attach destroy owned started w (App_exit (exit_status 1) [open_failed] w1)"
  using assms by (simp add: loader_outcome_def exit_status_def)

context skel_api
begin

text \<open>From an object that was opened and prepared on, over the heap the loader started with.\<close>

lemma start_ok:
  assumes open1: "opn w = Inr (skel, w1)" and prep: "prepare skel w1 = Inr w2" and nz: "skel \<noteq> 0"
    and own: "s_owns skel (heap w) w2" and ok: "world_ok w2"
  shows "loader_outcome opn prepare s_load s_attach s_destroy s_owns started w
           (app_start s_load s_attach s_destroy started skel w2)"
proof -
  obtain err w3 where load: "s_load skel w2 = Inr (err, w3)" and w3: "s_owns skel (heap w) w3" "world_ok w3"
    using load_law [OF own ok] by blast
  obtain err' w4 where attach: "s_attach skel w3 = Inr (err', w4)" and w4: "s_owns skel (heap w) w4" "world_ok w4"
    using attach_law [OF w3] by blast
  obtain v3 where v3: "s_destroy skel w3 = Inr v3" "heap v3 = heap w" "world_ok v3"
    using destroy_law [OF w3] by blast
  obtain v4 where v4: "s_destroy skel w4 = Inr v4" "heap v4 = heap w" "world_ok v4"
    using destroy_law [OF w4] by blast
  consider "err \<noteq> 0" | "err = 0" "err' \<noteq> 0" | "err = 0" "err' = 0"
    by blast
  then show ?thesis
  proof cases
    case 1
    with load v3 open1 prep nz show ?thesis
      by (simp add: app_start_def app_cleanup_def loader_outcome_def failed_start_def)
  next
    case 2
    with load attach v4 open1 prep nz show ?thesis
      by (simp add: app_start_def app_cleanup_def loader_outcome_def failed_start_def)
  next
    case 3
    with load attach w4 open1 prep nz show ?thesis
      by (simp add: app_start_def loader_outcome_def)
  qed
qed

lemma hello_ok:
  assumes ops: "op_open ops = s_open" "op_load ops = s_load" "op_attach ops = s_attach" "op_destroy ops = s_destroy"
    and ok: "world_ok w"
  shows "loader_outcome s_open (\<lambda>skel. Inr) s_load s_attach s_destroy s_owns hello_started w (hello_main ops w)"
proof -
  obtain skel w1 where open1: "s_open w = Inr (skel, w1)" "world_ok w1"
    and r: "if skel = 0 then heap w1 = heap w \<and> errno w1 \<noteq> 0 else s_owns skel (heap w) w1"
    using open_law [OF ok] by blast
  show ?thesis
  proof (cases "skel = 0")
    case True
    with open1 r outcome_not_opened [of s_open w w1] show ?thesis
      by (simp add: hello_main_def ops)
  next
    case False
    with r have "s_owns skel (heap w) w1"
      by simp
    from start_ok [where opn = s_open and prepare = "\<lambda>skel. Inr", OF open1(1) refl False this open1(2)] False open1(1)
    show ?thesis
      by (simp add: hello_main_def ops)
  qed
qed

end

section \<open>minimal.c on its skeleton\<close>

lemma get_obj_heap: "get_obj a w = Inr ob \<longleftrightarrow> heap w a = Some (B_obj ob)"
  by (auto simp: get_obj_def split: option.split block.split)

lemma bss_my_pid_heap: "heap w skel = Some (B_obj ob) \<Longrightarrow> bss_my_pid skel w = o_my_pid ob"
  by (simp add: bss_my_pid_def get_obj_def)

context libbpf_mmap
begin

text \<open>A successful open is a successful \<open>bpf_object__open_skeleton\<close> on the finished skeleton.\<close>

lemma open_opts_success:
  assumes ok: "world_ok w" and run: "skel_open_opts L d opts w = Inr (obj, w')" and nz: "obj \<noteq> 0"
  obtains ob w2 where "owns d obj (heap w) w2" and "get_obj obj w2 = Inr ob"
    and "lb_open_skeleton L (o_skeleton ob) opts w2 = (0, w')"
proof (cases rule: calloc_cases [of "B_obj new_obj" w])
  case (fails w1)
  with run nz show ?thesis
    by (simp add: skel_open_opts_def)
next
  case (succeeds w1)
  let ?n = "next_addr w"
  have n: "0 < ?n"
    using ok by (simp add: world_ok_def)
  have ok1: "world_ok w1" and here: "heap w1 ?n = Some (B_obj new_obj)" and rest: "(heap w1)(?n := None) = heap w"
    using ok succeeds by (auto simp: world_ok_alloc world_ok_fresh)
  obtain err w2 where create: "create_skeleton L d ?n w1 = Inr (err, w2)" and ok2: "world_ok w2"
    and r: "if err = 0 then owns d ?n ((heap w1)(?n := None)) w2 else touches ?n (heap w1) (heap w2)"
    using create_skeleton_result [OF ok1 here, of d] by (auto simp: created_def split: if_splits)
  have not_failed: False if "skel_fail L a e v = Inr (obj, w')" for a e v
    using that nz by (auto simp: skel_fail_def elim!: sbind_InrE)
  have "err = 0"
    using run succeeds n create not_failed by (auto simp: skel_open_opts_def split: if_splits)
  with r have own: "owns d ?n (heap w) w2"
    by (simp add: rest)
  then obtain ob where get: "get_obj ?n w2 = Inr ob"
    by (rule owns_parts)
  obtain err' w3 where lb: "lb_open_skeleton L (o_skeleton ob) opts w2 = (err', w3)"
    by fastforce
  have "err' = 0 \<and> obj = ?n \<and> w3 = w'"
    using run succeeds n create \<open>err = 0\<close> get lb not_failed
    by (auto simp: skel_open_opts_def split: if_splits)
  with own get lb that show ?thesis
    by simp
qed

lemma minimal_open_maps_bss:
  assumes "world_ok w" and "skel_open L minimal_desc w = Inr (obj, w')" and "obj \<noteq> 0"
  shows "\<exists>v. bss_my_pid obj w' = Some v"
proof -
  obtain ob w2 where own: "owns minimal_desc obj (heap w) w2" and get: "get_obj obj w2 = Inr ob"
    and lb: "lb_open_skeleton L (o_skeleton ob) 0 w2 = (0, w')"
    using open_opts_success [OF assms(1) assms(2) [unfolded skel_open_def] assms(3)] .
  from own obtain ob1 maps progs where sep: "distinct [0, obj, o_skeleton ob1, maps, progs]"
    and hp: "heap w2 = (heap w)(obj \<mapsto> B_obj ob1, o_skeleton ob1 \<mapsto> B_skel (full_skel minimal_desc obj maps progs),
                   maps \<mapsto> B_maps (map (map_entry obj) (sd_maps minimal_desc)),
                   progs \<mapsto> B_progs (map (prog_entry obj) (sd_progs minimal_desc)))"
    and get1: "get_obj obj w2 = Inr ob1"
    and sk: "heap w2 (o_skeleton ob1) = Some (B_skel (full_skel minimal_desc obj maps progs))"
    by (rule owns_parts)
  have ob1: "ob1 = ob"
    using get get1 by simp
  have ms: "heap w2 (sk_maps (full_skel minimal_desc obj maps progs)) =
      Some (B_maps (map (map_entry obj) (sd_maps minimal_desc)))"
    using sep by (simp add: hp full_skel_def)
  have listed: "(obj, ''bss'') \<in> Option.these (ms_mmaped ` set (map (map_entry obj) (sd_maps minimal_desc)))"
    by (simp add: minimal_desc_def map_entry_def these_insert_Some)
  have "heap w2 obj = Some (B_obj ob1)"
    using get1 by (simp add: get_obj_heap)
  moreover have "touches obj (heap w2) (heap w')"
    using open_frame [OF sk full_skel_obj, of 0] lb by (simp add: ob1)
  ultimately obtain ob' where "heap w' obj = Some (B_obj ob')"
    by (metis touchesE fun_upd_same)
  moreover from this have "o_my_pid ob' \<noteq> None"
    using open_maps_bss [OF sk full_skel_obj ms listed] lb ob1 by blast
  ultimately show ?thesis
    by (auto simp: bss_my_pid_heap)
qed

lemma set_my_pid_result:
  assumes "owns d obj H w" and "world_ok w" and "bss_my_pid obj w = Some v"
  shows "\<exists>w'. skel_set_my_pid obj pid w = Inr w' \<and> owns d obj H w' \<and> world_ok w' \<and> bss_my_pid obj w' = Some pid"
proof -
  obtain ob where get: "get_obj obj w = Inr ob" and hp: "heap w obj = Some (B_obj ob)"
    using assms(1) by (elim owns_parts) (simp add: get_obj_heap)
  let ?w = "w\<lparr>heap := (heap w)(obj \<mapsto> B_obj (ob\<lparr>o_my_pid := Some pid\<rparr>))\<rparr>"
  have t: "touches obj (heap w) (heap ?w)"
    by (simp add: touches_def hp)
  have "skel_set_my_pid obj pid w = Inr ?w"
    using assms(3) hp by (simp add: skel_set_my_pid_def get bss_my_pid_heap set_block_def)
  with owns_touches [OF assms(1) t] world_ok_touches [OF assms(2) t] show ?thesis
    by (simp add: bss_my_pid_def get_obj_def)
qed

lemma load_attach_keep_pid:
  assumes "owns d obj H w"
  shows "skel_load L obj w = Inr (err, w') \<Longrightarrow> bss_my_pid obj w' = bss_my_pid obj w"
    and "skel_attach L obj w = Inr (err, w') \<Longrightarrow> bss_my_pid obj w' = bss_my_pid obj w"
proof -
  obtain ob maps progs where get: "get_obj obj w = Inr ob"
    and sk: "heap w (o_skeleton ob) = Some (B_skel (full_skel d obj maps progs))"
    using assms by (rule owns_parts)
  have hp: "heap w obj = Some (B_obj ob)"
    using get by (simp add: get_obj_heap)
  show "bss_my_pid obj w' = bss_my_pid obj w" if "skel_load L obj w = Inr (err, w')"
  proof -
    have lb: "lb_load_skeleton L (o_skeleton ob) w = (err, w')"
      using that by (simp add: skel_load_def get)
    obtain ob' where new: "heap w' = (heap w)(obj \<mapsto> B_obj ob')"
      using touchesE [OF load_frame [OF sk full_skel_obj] hp] lb by auto
    with load_keeps_bss [OF sk full_skel_obj hp, of ob'] lb show ?thesis
      by (simp add: bss_my_pid_heap [OF hp] bss_my_pid_heap [of w' obj ob'])
  qed
  show "bss_my_pid obj w' = bss_my_pid obj w" if "skel_attach L obj w = Inr (err, w')"
  proof -
    have lb: "lb_attach_skeleton L (o_skeleton ob) w = (err, w')"
      using that by (simp add: skel_attach_def get)
    obtain ob' where new: "heap w' = (heap w)(obj \<mapsto> B_obj ob')"
      using touchesE [OF attach_frame [OF sk full_skel_obj] hp] lb by auto
    with attach_keeps_bss [OF sk full_skel_obj hp, of ob'] lb show ?thesis
      by (simp add: bss_my_pid_heap [OF hp] bss_my_pid_heap [of w' obj ob'])
  qed
qed

lemma start_keeps_pid:
  assumes own: "owns d skel H w" and ok: "world_ok w"
    and run: "app_start (skel_load L) (skel_attach L) (skel_destroy L) started skel w = App_loop skel' ms w'"
  shows "skel' = skel \<and> bss_my_pid skel w' = bss_my_pid skel w"
proof -
  obtain err w1 where load: "skel_load L skel w = Inr (err, w1)" and w1: "owns d skel H w1" "world_ok w1"
    using load_result [OF own ok] by blast
  obtain err' w2 where attach: "skel_attach L skel w1 = Inr (err', w2)"
    using attach_result [OF w1] by blast
  have not_cleanup: False if "app_cleanup (skel_destroy L) skel e m v = App_loop skel' ms w'" for e m v
    using that by (auto simp: app_cleanup_def split: sum.splits)
  have "skel' = skel \<and> w' = w2"
    using run not_cleanup by (auto simp: app_start_def load attach split: if_splits)
  with load_attach_keep_pid(1) [OF own load] load_attach_keep_pid(2) [OF w1(1) attach] show ?thesis
    by simp
qed

lemma minimal_cases [consumes 1]:
  assumes "world_ok w"
  obtains (failed) w1 where "skel_open L minimal_desc w = Inr (0, w1)"
      and "minimal_main L pid w = App_exit (exit_status 1) [open_failed] w1" and "heap w1 = heap w" and "world_ok w1"
  | (started) skel w1 w2 where "skel_open L minimal_desc w = Inr (skel, w1)" and "skel_set_my_pid skel pid w1 = Inr w2"
      and "minimal_main L pid w =
        app_start (skel_load L) (skel_attach L) (skel_destroy L) minimal_started skel w2"
      and "skel \<noteq> 0" and "owns minimal_desc skel (heap w) w2" and "world_ok w2" and "bss_my_pid skel w2 = Some pid"
proof -
  obtain skel w1 where open1: "skel_open L minimal_desc w = Inr (skel, w1)" "world_ok w1"
    and r: "if skel = 0 then heap w1 = heap w \<and> errno w1 \<noteq> 0 else owns minimal_desc skel (heap w) w1"
    using open_result [OF assms] by blast
  show ?thesis
  proof (cases "skel = 0")
    case True
    with open1 r show ?thesis
      by (intro failed [of w1]) (simp_all add: minimal_main_def)
  next
    case False
    obtain v where v: "bss_my_pid skel w1 = Some v"
      using minimal_open_maps_bss [OF assms open1(1) False] by blast
    have "owns minimal_desc skel (heap w) w1"
      using r False by simp
    from set_my_pid_result [OF this open1(2) v, of pid]
    obtain w2 where "skel_set_my_pid skel pid w1 = Inr w2"
      and "owns minimal_desc skel (heap w) w2" "world_ok w2" "bss_my_pid skel w2 = Some pid"
      by blast
    with False open1(1) show ?thesis
      by (intro started [of skel w1 w2]) (simp_all add: minimal_main_def)
  qed
qed

lemma minimal_api: "skel_api (skel_open L minimal_desc) (skel_load L) (skel_attach L) (skel_destroy L) (owns minimal_desc)"
  by (rule gen.skel_api_axioms)

lemma minimal_ok:
  assumes "world_ok w"
  shows "loader_outcome (skel_open L minimal_desc) (\<lambda>skel. skel_set_my_pid skel pid) (skel_load L) (skel_attach L)
           (skel_destroy L) (owns minimal_desc) minimal_started w (minimal_main L pid w)"
  using assms
proof (cases rule: minimal_cases [where pid = pid])
  case (failed w1)
  with outcome_not_opened show ?thesis
    by fastforce
next
  case (started skel w1 w2)
  show ?thesis
    unfolding started(3)
    by (rule gen.start_ok [where prepare = "\<lambda>skel. skel_set_my_pid skel pid", OF _ _ started(4,5,6)]) (rule started)+
qed

lemma minimal_stores_pid:
  assumes "world_ok w" and "minimal_main L pid w = App_loop skel ms w'"
  shows "bss_my_pid skel w' = Some pid"
  using assms(1)
proof (cases rule: minimal_cases [where pid = pid])
  case (failed w1)
  with assms(2) show ?thesis
    by simp
next
  case (started skel' w1 w2)
  with start_keeps_pid [OF started(5,6)] assms(2) show ?thesis
    by metis
qed

end

section \<open>Properties\<close>

text \<open>
  C17: \<open>main\<close> of hello.c, over every skeleton that keeps the interface and every failure of it: it makes no
  invalid access. It returns only in three ways, each with the heap it started with (\<open>cleanup\<close> is reached with
  a live object, once): with status 1 and the first message when the open gave NULL; with the message for
  load and the low eight bits of \<open>-err\<close> when load returned \<open>err \<noteq> 0\<close> on the opened object; with the message
  for attach and the low eight bits of \<open>-err\<close> when load returned 0 and attach returned \<open>err \<noteq> 0\<close> (for
  \<open>err = INT_MIN\<close> the negation is undefined in C and the status is left open). Otherwise load and attach
  returned 0 and it reaches its endless loop with the object in hand, after its two lines of output.
\<close>

theorem hello_main_exits_clean:
  assumes "skel_api (op_open ops) (op_load ops) (op_attach ops) (op_destroy ops) s_owns" and "world_ok w"
  shows "loader_outcome (op_open ops) (\<lambda>skel. Inr) (op_load ops) (op_attach ops) (op_destroy ops) s_owns
           hello_started w (hello_main ops w)"
  by (rule skel_api.hello_ok [OF assms(1)]) (simp_all add: assms(2))

definition demo_ops :: "int \<Rightarrow> int \<Rightarrow> int \<Rightarrow> unit skel_ops" where
  "demo_ops oe le ae =
     \<lparr>op_open = skel_open (plain_libbpf oe le ae) demo_desc, op_load = skel_load (plain_libbpf oe le ae),
      op_attach = skel_attach (plain_libbpf oe le ae), op_destroy = skel_destroy (plain_libbpf oe le ae)\<rparr>"

theorem hello_main_exits_clean_witness:
  "loader_outcome (op_open (demo_ops 0 (- 22) 0)) (\<lambda>skel. Inr) (op_load (demo_ops 0 (- 22) 0))
     (op_attach (demo_ops 0 (- 22) 0)) (op_destroy (demo_ops 0 (- 22) 0)) (owns demo_desc)
     hello_started (empty_world []) (hello_main (demo_ops 0 (- 22) 0) (empty_world []))"
  by (rule hello_main_exits_clean)
    (simp_all add: demo_ops_def plain.gen.skel_api_axioms)

text \<open>
  C9: the same of minimal.c on the functions of minimal.skel.h, for every libbpf that meets the contract and
  every failing allocation: each of its exits gives the status and the message of the very call that failed
  (open gave NULL; load returned an error on the object that holds the process id; attach did after load
  returned 0), with the heap it started with; the store through \<open>skel->bss\<close> before the load never goes through
  NULL; and the endless loop is reached exactly with both calls returning 0.
\<close>

theorem minimal_main_exits_clean:
  assumes "libbpf_mmap L" and "world_ok w"
  shows "loader_outcome (skel_open L minimal_desc) (\<lambda>skel. skel_set_my_pid skel pid) (skel_load L) (skel_attach L)
           (skel_destroy L) (owns minimal_desc) minimal_started w (minimal_main L pid w)"
  by (rule libbpf_mmap.minimal_ok [OF assms])

theorem minimal_main_exits_clean_witness:
  "loader_outcome (skel_open (plain_libbpf 0 0 (- 2)) minimal_desc) (\<lambda>skel. skel_set_my_pid skel 4711)
     (skel_load (plain_libbpf 0 0 (- 2))) (skel_attach (plain_libbpf 0 0 (- 2))) (skel_destroy (plain_libbpf 0 0 (- 2)))
     (owns minimal_desc) minimal_started (empty_world []) (minimal_main (plain_libbpf 0 0 (- 2)) 4711 (empty_world []))"
  by (rule minimal_main_exits_clean [OF plain.libbpf_mmap_axioms world_ok_empty])

end
