(* ===== verification/Bpf_Helpers.thy ===== *)
theory Bpf_Helpers
  imports HE_Prelude
begin

unbundle bit_operations_syntax

text \<open>
  What the two BPF programs use of examples/c/.output/bpf/bpf_helpers.h and bpf_helper_defs.h:
  the argument-counting macros, the macro that fills an array from its arguments, the
  \<open>bpf_printk\<close> family built on them, and the two kernel helpers the programs call, by their
  numbers. Macro expansion is modelled on token lists; a use that does not compile is \<open>None\<close>.
\<close>

section \<open>Kernel helpers\<close>

definition bpf_trace_printk_id :: nat where
  "bpf_trace_printk_id = 6"

definition bpf_get_current_pid_tgid_id :: nat where
  "bpf_get_current_pid_tgid_id = 14"

text \<open>The value the second one returns, from its documentation: \<open>tgid << 32 | pid\<close>.\<close>

definition bpf_get_current_pid_tgid :: "u32 \<Rightarrow> u32 \<Rightarrow> u64" where
  "bpf_get_current_pid_tgid tgid pid = push_bit 32 (ucast tgid) OR ucast pid"

text \<open>A call of a tracing helper, with the arguments it is given.\<close>

datatype printk_call =
    Trace_printk string nat "u64 list"
  | Trace_vprintk string nat "u64 list" nat

section \<open>Counting macro arguments\<close>

datatype tok = T_unused | T_arg u64 | T_num nat | T_printk | T_vprintk

text \<open>
  \<open>___bpf_nth(_, _1, ..., _9, _a, _b, _c, N, ...)\<close> is its fourteenth argument; with fewer it does
  not expand.
\<close>

definition bpf_nth :: "tok list \<Rightarrow> tok option" where
  "bpf_nth ts = (if 13 < length ts then Some (ts ! 13) else None)"

definition bpf_narg :: "u64 list \<Rightarrow> tok option" where
  "bpf_narg args = bpf_nth (T_unused # map T_arg args @ map T_num [12, 11, 10, 9, 8, 7, 6, 5, 4, 3, 2, 1, 0])"

definition bpf_pick_printk :: "u64 list \<Rightarrow> tok option" where
  "bpf_pick_printk args = bpf_nth (T_unused # map T_arg args @
     [T_vprintk, T_vprintk, T_vprintk, T_vprintk, T_vprintk, T_vprintk, T_vprintk, T_vprintk, T_vprintk,
      T_printk, T_printk, T_printk, T_printk])"

section \<open>Filling an array\<close>

text \<open>\<open>___bpf_fill<n>(arr, p, x, args...)\<close>: \<open>arr[p] = x; ___bpf_fill<n-1>(arr, p + 1, args)\<close>.\<close>

fun bpf_fill_n :: "u64 list \<Rightarrow> nat \<Rightarrow> u64 list \<Rightarrow> u64 list option" where
  "bpf_fill_n arr p [] = Some arr"
| "bpf_fill_n arr p (x # args) = (if p < length arr then bpf_fill_n (arr[p := x]) (p + 1) args else None)"

definition bpf_fill :: "u64 list \<Rightarrow> u64 list \<Rightarrow> u64 list option" where
  "bpf_fill arr args =
     (case bpf_narg args of
        Some (T_num n) \<Rightarrow> if n = length args then bpf_fill_n arr 0 args else None
      | _ \<Rightarrow> None)"

section \<open>Printing\<close>

text \<open>\<open>sizeof(fmt)\<close> counts the terminating NUL. \<open>junk\<close> is what the array holds before it is filled.\<close>

definition bpf_printk_plain :: "string \<Rightarrow> u64 list \<Rightarrow> printk_call option" where
  "bpf_printk_plain fmt args = Some (Trace_printk fmt (Suc (length fmt)) args)"

definition bpf_vprintk :: "(nat \<Rightarrow> u64) \<Rightarrow> string \<Rightarrow> u64 list \<Rightarrow> printk_call option" where
  "bpf_vprintk junk fmt args =
     (case bpf_narg args of
        Some (T_num n) \<Rightarrow>
          (case bpf_fill (map junk [0..<n]) args of
             Some param \<Rightarrow> Some (Trace_vprintk fmt (Suc (length fmt)) param (8 * n))
           | None \<Rightarrow> None)
      | _ \<Rightarrow> None)"

definition bpf_printk :: "(nat \<Rightarrow> u64) \<Rightarrow> string \<Rightarrow> u64 list \<Rightarrow> printk_call option" where
  "bpf_printk junk fmt args =
     (case bpf_pick_printk args of
        Some T_printk \<Rightarrow> bpf_printk_plain fmt args
      | Some T_vprintk \<Rightarrow> bpf_vprintk junk fmt args
      | _ \<Rightarrow> None)"

section \<open>Facts\<close>

lemma nth_window:
  assumes "length args \<le> 12"
  shows "bpf_nth (T_unused # map T_arg args @ ts) =
    (if 12 < length args + length ts then Some (ts ! (12 - length args)) else None)"
  using assms by (simp add: bpf_nth_def nth_append)

lemma narg_few:
  assumes "length args \<le> 12"
  shows "bpf_narg args = Some (T_num (length args))"
proof -
  let ?nums = "[12, 11, 10, 9, 8, 7, 6, 5, 4, 3, 2, 1, 0] :: nat list"
  have "?nums = rev [0..<13]"
    by (simp add: upt_rec)
  then have "map T_num ?nums ! (12 - length args) = T_num (length args)"
    using assms by (simp add: rev_nth)
  then show ?thesis
    using assms by (simp add: bpf_narg_def nth_window del: list.map)
qed

lemma nth_many:
  assumes "12 < length args"
  shows "bpf_nth (T_unused # map T_arg args @ ts) = Some (T_arg (args ! 12))"
  using assms by (simp add: bpf_nth_def nth_append)

lemma pick_few:
  assumes "length args \<le> 12"
  shows "bpf_pick_printk args = Some (if length args \<le> 3 then T_printk else T_vprintk)"
proof -
  have "bpf_pick_printk args =
      bpf_nth (T_unused # map T_arg args @ replicate 9 T_vprintk @ replicate 4 T_printk)"
    by (simp add: bpf_pick_printk_def numeral_eq_Suc)
  also have "\<dots> = Some ((replicate 9 T_vprintk @ replicate 4 T_printk) ! (12 - length args))"
    using assms by (simp add: nth_window)
  also have "\<dots> = Some (if length args \<le> 3 then T_printk else T_vprintk)"
  proof (cases "length args \<le> 3")
    case True
    with assms have "9 \<le> 12 - length args" "12 - length args - 9 < 4"
      by linarith+
    with True show ?thesis
      by (simp add: nth_append)
  next
    case False
    with assms have "12 - length args < 9"
      by linarith
    with False show ?thesis
      by (simp add: nth_append)
  qed
  finally show ?thesis .
qed

lemma fill_n_all:
  "p + length args \<le> length arr \<Longrightarrow>
   bpf_fill_n arr p args = Some (take p arr @ args @ drop (p + length args) arr)"
proof (induction args arbitrary: arr p)
  case Nil
  then show ?case
    by simp
next
  case (Cons x args)
  then show ?case
    by (simp add: take_Suc_conv_app_nth take_update_cancel upd_conv_take_nth_drop add.commute)
qed

section \<open>Property\<close>

text \<open>
  \<open>bpf_printk\<close> with at most three values calls \<open>bpf_trace_printk\<close> with the values themselves; with
  four to twelve it calls \<open>bpf_trace_vprintk\<close> on an array that holds exactly the values, every
  element written, and passes the array's size in bytes; with more it does not compile. The size
  of the format includes its NUL.
\<close>

theorem bpf_printk_dispatch:
  "bpf_printk junk fmt args =
    (if length args \<le> 3 then Some (Trace_printk fmt (Suc (length fmt)) args)
     else if length args \<le> 12 then Some (Trace_vprintk fmt (Suc (length fmt)) args (8 * length args))
     else None)"
proof (cases "length args \<le> 12")
  case True
  then show ?thesis
    by (simp add: bpf_printk_def pick_few bpf_printk_plain_def bpf_vprintk_def narg_few bpf_fill_def fill_n_all)
next
  case False
  then show ?thesis
    by (simp add: bpf_printk_def bpf_pick_printk_def nth_many)
qed

end
