(* ===== verification/Bpf_Progs.thy ===== *)
theory Bpf_Progs
  imports Bpf_Helpers
begin

unbundle bit_operations_syntax

text \<open>
  The two BPF programs of the repository: examples/c/minimal.bpf.c and examples/c/hello.bpf.c. A
  program is a function of what the helper \<open>bpf_get_current_pid_tgid\<close> returns and of its global
  variables; it returns its \<open>int\<close> result and the printing helpers it calls, in order. \<open>None\<close> would be
  a program that does not compile. \<open>junk\<close> is the content of an array before it is filled.
\<close>

definition LICENSE :: string where
  "LICENSE = ''Dual BSD/GPL''"

text \<open>The section a program is in names the tracepoint it is attached to.\<close>

definition minimal_section :: string where
  "minimal_section = ''tp/syscalls/sys_enter_write''"

definition hello_section :: string where
  "hello_section = ''tp/syscalls/sys_enter_openat''"

definition minimal_fmt :: string where
  "minimal_fmt = ''BPF triggered from PID %d.'' @ [newline]"

definition hello_fmt :: string where
  "hello_fmt = ''Hello, World!'' @ [newline]"

text \<open>
  \<open>int pid = bpf_get_current_pid_tgid() >> 32\<close> truncates an unsigned shift to 32 bits; \<open>pid\<close> as an
  argument of the helper is sign-extended to a register.
\<close>

definition minimal_handle_tp :: "(nat \<Rightarrow> u64) \<Rightarrow> u64 \<Rightarrow> 32 word \<Rightarrow> (32 word \<times> printk_call list) option" where
  "minimal_handle_tp junk pid_tgid my_pid =
     (let pid = ucast (drop_bit 32 pid_tgid) :: 32 word in
      if pid \<noteq> my_pid then Some (0, [])
      else (case bpf_printk junk minimal_fmt [scast pid] of
              Some c \<Rightarrow> Some (0, [c])
            | None \<Rightarrow> None))"

definition hello_handle_tp :: "(nat \<Rightarrow> u64) \<Rightarrow> (32 word \<times> printk_call list) option" where
  "hello_handle_tp junk =
     (case bpf_printk junk hello_fmt [] of
        Some c \<Rightarrow> Some (0, [c])
      | None \<Rightarrow> None)"

section \<open>Facts\<close>

lemma tgid_of_pid_tgid [simp]: "ucast (drop_bit 32 (bpf_get_current_pid_tgid tgid pid)) = (tgid :: 32 word)"
  by (rule bit_word_eqI)
    (auto simp: bpf_get_current_pid_tgid_def bit_simps dest: bit_imp_le_length)

lemma printk_few: "length args \<le> 3 \<Longrightarrow> bpf_printk junk fmt args = Some (Trace_printk fmt (Suc (length fmt)) args)"
  by (simp add: bpf_printk_def pick_few bpf_printk_plain_def)

lemma minimal_handle_tp_value:
  "minimal_handle_tp junk (bpf_get_current_pid_tgid tgid pid) my_pid =
     Some (0, if tgid = my_pid then [Trace_printk minimal_fmt 28 [scast tgid]] else [])"
  by (simp add: minimal_handle_tp_def printk_few minimal_fmt_def)

lemma hello_handle_tp_value: "hello_handle_tp junk = Some (0, [Trace_printk hello_fmt 15 []])"
  by (simp add: hello_handle_tp_def printk_few hello_fmt_def)

section \<open>Properties\<close>

text \<open>
  The program of minimal.bpf.c compiles, returns 0, and prints its one line with the thread
  group id exactly when the caller's thread group is the one stored in \<open>my_pid\<close>, whichever of
  its threads runs: the thread id never matters.
\<close>

theorem minimal_prints_own_process:
  "minimal_handle_tp junk (bpf_get_current_pid_tgid tgid pid) my_pid =
     Some (0, if tgid = my_pid then [Trace_printk minimal_fmt 28 [scast tgid]] else [])"
  by (rule minimal_handle_tp_value)

text \<open>
  The program of hello.bpf.c compiles, returns 0 and makes exactly one call of
  \<open>bpf_trace_printk\<close>, without values, whatever process triggers it.
\<close>

theorem hello_prints_always: "hello_handle_tp junk = Some (0, [Trace_printk hello_fmt 15 []])"
  by (rule hello_handle_tp_value)

end
