(* ===== verification/Elf.thy ===== *)
theory Elf
  imports HE_Prelude
begin

unbundle bit_operations_syntax

text \<open>
  Reading an eBPF object file, as the generated skeletons embed one: the section header table, the sections, names,
  symbols and relocations of a 64-bit little-endian ELF file, and the eight-byte encoding of instructions. The
  format is that of the ELF specification and of the eBPF instruction set, to which the embedded bytes adhere.
\<close>

section \<open>Sections\<close>

record elf_section =
  sec_name :: nat
  sec_type :: nat
  sec_offset :: nat
  sec_size :: nat
  sec_link :: nat
  sec_info :: nat

definition elf_section_header :: "byte list \<Rightarrow> elf_section" where
  "elf_section_header h =
     \<lparr>sec_name = le_at h 0 4, sec_type = le_at h 4 4, sec_offset = le_at h 24 8, sec_size = le_at h 32 8,
      sec_link = le_at h 40 4, sec_info = le_at h 44 4\<rparr>"

text \<open>The section header table starts at \<open>e_shoff\<close> (offset 40 of the file) and has entries of 64 bytes.\<close>

definition elf_section_at :: "byte list \<Rightarrow> nat \<Rightarrow> elf_section" where
  "elf_section_at elf i = elf_section_header (drop (le_at elf 40 8 + 64 * i) elf)"

text \<open>A section of type 8 (\<open>SHT_NOBITS\<close>) has no bytes in the file and starts as zeros.\<close>

definition section_bytes :: "byte list \<Rightarrow> nat \<Rightarrow> byte list" where
  "section_bytes elf i =
     (let h = elf_section_at elf i in
      if sec_type h = 8 then replicate (sec_size h) 0
      else take (sec_size h) (drop (sec_offset h) elf))"

definition c_string :: "byte list \<Rightarrow> string" where
  "c_string bs = map (\<lambda>b. char_of (unat b)) (takeWhile (\<lambda>b. b \<noteq> 0) bs)"

text \<open>Names are offsets into the string table, whose section number is at offset 62 of the file.\<close>

definition section_name :: "byte list \<Rightarrow> nat \<Rightarrow> string" where
  "section_name elf i = c_string (drop (sec_name (elf_section_at elf i)) (section_bytes elf (le_at elf 62 2)))"

text \<open>The section and the value of symbol \<open>k\<close> of the symbol table in section \<open>st\<close>.\<close>

definition elf_symbol :: "byte list \<Rightarrow> nat \<Rightarrow> nat \<Rightarrow> nat \<times> nat" where
  "elf_symbol elf st k =
     (let s = drop (24 * k) (section_bytes elf st) in (le_at s 6 2, le_at s 8 8))"

text \<open>
  The relocations of a section of type 9 (\<open>SHT_REL\<close>): the instruction each one patches, and the
  section and offset its symbol stands for.
\<close>

definition elf_relocations :: "byte list \<Rightarrow> nat \<Rightarrow> (nat \<times> nat \<times> nat) list" where
  "elf_relocations elf i =
     (let h = elf_section_at elf i; bs = section_bytes elf i in
      map (\<lambda>j. let r = drop (16 * j) bs in (le_at r 0 8 div 8, elf_symbol elf (sec_link h) (le_at r 12 4)))
        [0..<sec_size h div 16])"

section \<open>A whole object\<close>

text \<open>
  The section table as a list, with names resolved and contents attached: \<open>es_type\<close> 1 is program data, 2 the symbol table,
  3 strings, 8 data without bytes in the file, 9 relocations; bit 2 of \<open>es_flags\<close> marks instructions.
\<close>

record elf_sec =
  es_name :: string
  es_type :: nat
  es_flags :: nat
  es_link :: nat
  es_info :: nat
  es_size :: nat
  es_bytes :: "byte list"

definition section_flags :: "byte list \<Rightarrow> nat \<Rightarrow> nat" where
  "section_flags elf i = le_at (drop (le_at elf 40 8 + 64 * i) elf) 8 8"

definition read_section :: "byte list \<Rightarrow> nat \<Rightarrow> elf_sec" where
  "read_section elf i =
     (let h = elf_section_at elf i in
      \<lparr>es_name = section_name elf i, es_type = sec_type h, es_flags = section_flags elf i, es_link = sec_link h,
       es_info = sec_info h, es_size = sec_size h, es_bytes = section_bytes elf i\<rparr>)"

definition elf_sections :: "byte list \<Rightarrow> elf_sec list" where
  "elf_sections elf = map (read_section elf) [0..<le_at elf 60 2]"

text \<open>
  The symbols: the low half of \<open>sym_info\<close> is the type (1 a datum, 2 a function), the high half the binding (1 global,
  2 weak).
\<close>

record elf_sym =
  sym_name :: string
  sym_info :: nat
  sym_shndx :: nat
  sym_value :: nat
  sym_size :: nat

definition read_symbol :: "byte list \<Rightarrow> byte list \<Rightarrow> elf_sym" where
  "read_symbol strtab s =
     \<lparr>sym_name = c_string (drop (le_at s 0 4) strtab), sym_info = le_at s 4 1, sym_shndx = le_at s 6 2,
      sym_value = le_at s 8 8, sym_size = le_at s 16 8\<rparr>"

definition elf_symbols :: "byte list \<Rightarrow> elf_sym list" where
  "elf_symbols elf =
     (let ss = elf_sections elf in
      concat (map (\<lambda>s. if es_type s = 2
        then map (\<lambda>k. read_symbol (es_bytes (ss ! es_link s)) (drop (24 * k) (es_bytes s))) [0..<es_size s div 24]
        else []) ss))"

section \<open>Encoded instructions\<close>

record insn =
  i_op :: nat
  i_dst :: nat
  i_src :: nat
  i_off :: int
  i_imm :: int

definition decode_insn :: "byte list \<Rightarrow> insn" where
  "decode_insn bs =
     \<lparr>i_op = le_at bs 0 1, i_dst = le_at bs 1 1 mod 16, i_src = le_at bs 1 1 div 16,
      i_off = sint (word_of_nat (le_at bs 2 2) :: 16 word), i_imm = sint (word_of_nat (le_at bs 4 4) :: 32 word)\<rparr>"

definition decode_program :: "byte list \<Rightarrow> insn list" where
  "decode_program bs = map (\<lambda>j. decode_insn (drop (8 * j) bs)) [0..<length bs div 8]"

definition is_program :: "elf_sec \<Rightarrow> bool" where
  "is_program s = (es_type s = 1 \<and> bit (es_flags s) 2)"

definition elf_programs :: "byte list \<Rightarrow> (string \<times> insn list) list" where
  "elf_programs elf = map (\<lambda>s. (es_name s, decode_program (es_bytes s))) (filter is_program (elf_sections elf))"

section \<open>Facts\<close>

lemma section_header_append [simp]: "48 \<le> length a \<Longrightarrow> elf_section_header (a @ b) = elf_section_header a"
  by (simp add: elf_section_header_def)


text \<open>
  An object that is given in pieces: the file header, one piece per section with bytes in the file (with the padding that
  follows it), and the section headers.
\<close>

definition object_pieces :: "byte list \<Rightarrow> byte list list \<Rightarrow> byte list list \<Rightarrow> bool" where
  "object_pieces elf ps shdrs \<longleftrightarrow>
     elf = concat ps @ concat shdrs \<and> list_all (\<lambda>h. length h = 64) shdrs \<and>
     le_at elf 40 8 = length (concat ps) \<and> le_at elf 60 2 = length shdrs \<and> le_at elf 62 2 = 1"

lemma concat_drop_eq:
  "\<lbrakk>list_all (\<lambda>h. length h = n) hs; i \<le> length hs\<rbrakk> \<Longrightarrow> drop (n * i) (concat hs) = concat (drop i hs)"
proof (induction hs arbitrary: i)
  case (Cons h hs)
  then show ?case
    by (cases i) auto
qed simp

lemma object_piecesD:
  assumes "object_pieces elf ps shdrs"
  shows "elf = concat ps @ concat shdrs" and "list_all (\<lambda>h. length h = 64) shdrs"
    and "le_at elf 40 8 = length (concat ps)" and "le_at elf 60 2 = length shdrs" and "le_at elf 62 2 = 1"
  using assms unfolding object_pieces_def by blast+

lemma take_drop_concat:
  "\<lbrakk>k < length ps; n \<le> length (ps ! k)\<rbrakk> \<Longrightarrow>
   take n (drop (sum_list (map length (take k ps))) (concat ps @ r)) = take n (ps ! k)"
proof (induction ps arbitrary: k)
  case (Cons p ps)
  then show ?case
    by (cases k) simp_all
qed simp

lemma object_header_at:
  assumes "object_pieces elf ps shdrs" and "i < length shdrs"
  shows "drop (le_at elf 40 8 + 64 * i) elf = shdrs ! i @ concat (drop (Suc i) shdrs)"
    and "length (shdrs ! i) = 64"
proof -
  note elf = object_piecesD [OF assms(1)]
  have "drop (length (concat ps) + 64 * i) (concat ps @ concat shdrs) = concat (drop i shdrs)"
    using assms(2) elf(2) by (simp add: concat_drop_eq)
  then have "drop (le_at elf 40 8 + 64 * i) elf = concat (drop i shdrs)"
    by (simp only: elf(3) elf(1) [symmetric])
  then show "drop (le_at elf 40 8 + 64 * i) elf = shdrs ! i @ concat (drop (Suc i) shdrs)"
    using assms(2) by (simp flip: Cons_nth_drop_Suc)
  show "length (shdrs ! i) = 64"
    using assms(2) elf(2) by (simp add: list_all_length)
qed

lemma object_section:
  assumes "object_pieces elf ps shdrs" and "i < length shdrs"
  shows "elf_section_at elf i = elf_section_header (shdrs ! i)" and "section_flags elf i = le_at (shdrs ! i) 8 8"
  using object_header_at [OF assms] by (simp_all add: elf_section_at_def section_flags_def)

text \<open>The content of section \<open>i\<close> is in piece \<open>k\<close>.\<close>

lemma object_section_bytes:
  assumes "object_pieces elf ps shdrs" and "elf_section_at elf i = h"
    and "sec_type h \<noteq> 8" and "k < length ps" and "sec_offset h = sum_list (map length (take k ps))"
    and "sec_size h \<le> length (ps ! k)"
  shows "section_bytes elf i = take (sec_size h) (ps ! k)"
proof -
  have "take (sec_size h) (drop (sec_offset h) elf) = take (sec_size h) (ps ! k)"
    by (subst object_piecesD(1) [OF assms(1)]) (simp only: assms(5) take_drop_concat [OF assms(4,6)])
  then show ?thesis
    by (simp only: section_bytes_def assms(2,3) Let_def if_False)
qed

lemma object_section_name:
  assumes "object_pieces elf ps shdrs" and "section_bytes elf 1 = strtab"
  shows "section_name elf i = c_string (drop (sec_name (elf_section_at elf i)) strtab)"
  by (simp only: section_name_def object_piecesD(5) [OF assms(1)] assms(2))

text \<open>The length of a piece, counted from left to right so that every step is a numeral.\<close>

primrec len_from :: "'a list \<Rightarrow> nat \<Rightarrow> nat" where
  "len_from [] n = n"
| "len_from (x # xs) n = len_from xs (Suc n)"

lemma len_from_length: "len_from xs n = n + length xs"
  by (induction xs arbitrary: n) simp_all

lemma length_concat_from: "length (concat xs) = foldl (\<lambda>n r. len_from r n) 0 xs"
proof -
  have "foldl (\<lambda>n r. len_from r n) k xs = k + length (concat xs)" for k
    by (induction xs arbitrary: k) (simp_all add: len_from_length)
  then show ?thesis
    by simp
qed

lemmas piece_length =
  length_concat_from foldl.simps len_from.simps Suc_numeral One_nat_def [symmetric] add_num_simps Suc_1

text \<open>Decoding from left to right.\<close>

lemma decode_program_Nil [simp]: "decode_program [] = []"
  by (simp add: decode_program_def)

lemma decode_program_append:
  assumes "length h = 8"
  shows "decode_program (h @ bs) = decode_insn h # decode_program bs"
proof -
  have "length (h @ bs) div 8 = Suc (length bs div 8)"
    using assms by simp
  then have "[0..<length (h @ bs) div 8] = 0 # map Suc [0..<length bs div 8]"
    by (simp only: map_Suc_upt upt_conv_Cons zero_less_Suc One_nat_def)
  moreover have "decode_insn (h @ bs) = decode_insn h"
    using assms by (simp add: decode_insn_def)
  moreover have "drop (8 * Suc j) (h @ bs) = drop (8 * j) bs" for j
    using assms by simp
  ultimately show ?thesis
    by (simp only: decode_program_def list.map map_map comp_def mult_0_right drop_0)
qed

lemma decode_program_Cons:
  "decode_program (b0 # b1 # b2 # b3 # b4 # b5 # b6 # b7 # bs) =
     decode_insn [b0, b1, b2, b3, b4, b5, b6, b7] # decode_program bs"
  using decode_program_append [of "[b0, b1, b2, b3, b4, b5, b6, b7]" bs] by simp

lemmas decode_eval = decode_program_Cons decode_insn_def le_at_def

text \<open>A symbol table given by its rows of 24 bytes is read row by row.\<close>

lemma read_symbol_prefix: "24 \<le> length s \<Longrightarrow> read_symbol strtab (s @ t) = read_symbol strtab s"
  by (simp add: read_symbol_def)

lemma read_symbol_rows:
  assumes "symtab = concat rows" and "list_all (\<lambda>r. length r = 24) rows" and "n = length rows"
  shows "map (\<lambda>k. read_symbol strtab (drop (24 * k) symtab)) [0..<n] = map (read_symbol strtab) rows"
  using assms(2) unfolding assms(1,3)
proof (induction rows)
  case (Cons r rows)
  have "map (\<lambda>k. read_symbol strtab (drop (24 * k) (concat (r # rows)))) [Suc 0..<Suc (length rows)] =
    map (\<lambda>k. read_symbol strtab (drop (24 * k) (concat rows))) [0..<length rows]"
    using Cons.prems by (simp add: map_Suc_upt [symmetric] del: map_Suc_upt upt_Suc)
  then show ?case
    using Cons by (simp add: upt_conv_Cons read_symbol_prefix del: upt_Suc)
qed simp

text \<open>Evaluation of names, and of numbers in a given list of bytes.\<close>

lemmas elf_eval = le_at_def c_string_def char_of_def bit_Suc_0_iff

end
