(* ===== verification/Bpf_Bytecode.thy ===== *)
theory Bpf_Bytecode
  imports Bpf_Progs Minimal_Skel Elf
begin

unbundle bit_operations_syntax

text \<open>
  The program that examples/c/.output/minimal.skel.h embeds, executed. The header carries the
  compiled examples/c/minimal.bpf.c as an ELF object; this theory reads its sections, symbols and
  relocations (with the reader of \<open>Elf\<close>), gives the eBPF instructions it contains their meaning (the instruction set the
  kernel documents, restricted to the eight operations of the object; a value read before it is
  written, an access outside a section and every other instruction is an error) and shows that
  the embedded instructions do what the source says.
\<close>

section \<open>The machine\<close>

text \<open>What a register holds: nothing yet, a number, or a pointer into a section.\<close>

datatype bval = B_uninit | B_num u64 | B_ptr nat nat

record bpf_state =
  pc :: int
  regs :: "nat \<Rightarrow> bval"
  calls :: "printk_call list"

text \<open>
  The surroundings of a run: the relocated program, the content of the sections at run time, the
  calling thread, and what the printing helper returns.
\<close>

record bpf_env =
  be_insns :: "insn list"
  be_relocs :: "(nat \<times> nat \<times> nat) list"
  be_secs :: "nat \<Rightarrow> byte list"
  be_tgid :: u32
  be_pid :: u32
  be_ret :: u64

definition fmt_args :: "string \<Rightarrow> nat" where
  "fmt_args fmt = length (filter (\<lambda>c. c = CHR ''%'') fmt)"

definition num_of :: "bval \<Rightarrow> u64 option" where
  "num_of v = (case v of B_num n \<Rightarrow> Some n | _ \<Rightarrow> None)"

text \<open>
  A call destroys the registers 1 to 5. \<open>bpf_trace_printk\<close> reads a NUL-terminated format of the
  size it is given and as many of the registers 3 to 5 as the format has conversions.
\<close>

definition bpf_call :: "bpf_env \<Rightarrow> int \<Rightarrow> bpf_state \<Rightarrow> bpf_state option" where
  "bpf_call e fn s =
     (let clobbered = (\<lambda>r v q. if q = 0 then v else if q \<le> 5 then B_uninit else r q) in
      if fn = int bpf_get_current_pid_tgid_id then
        Some (s\<lparr>regs := clobbered (regs s) (B_num (bpf_get_current_pid_tgid (be_tgid e) (be_pid e)))\<rparr>)
      else if fn = int bpf_trace_printk_id then
        (case (regs s 1, regs s 2) of
           (B_ptr sec off, B_num sz) \<Rightarrow>
             let bs = take (unat sz) (drop off (be_secs e sec)); fmt = map (\<lambda>b. char_of (unat b)) (butlast bs);
                 args = map (\<lambda>i. num_of (regs s (3 + i))) [0..<fmt_args fmt]
             in if length bs = unat sz \<and> bs \<noteq> [] \<and> last bs = 0 \<and> fmt_args fmt \<le> 3 \<and> None \<notin> set args
                then Some (s\<lparr>regs := clobbered (regs s) (B_num (be_ret e)),
                             calls := calls s @ [Trace_printk fmt (unat sz) (map the args)]\<rparr>)
                else None
         | _ \<Rightarrow> None)
      else None)"

datatype bpf_out = Continue bpf_state | Exit u64 "printk_call list"

text \<open>
  One instruction. By opcode: 0x18 is a 64-bit load of an immediate, here always relocated, over
  two slots; 0x61 a 32-bit load, zero-extended; 0x5d jumps if two registers differ; 0x77 is a
  right shift by an immediate; 0xb7 and 0xbf move an immediate and a register; 0x85 calls a
  helper; 0x95 ends the program with register 0 as its result.
\<close>

definition bpf_exec :: "bpf_env \<Rightarrow> insn \<Rightarrow> bpf_state \<Rightarrow> bpf_out option" where
  "bpf_exec e i s =
     (let next = (\<lambda>s'. Some (Continue (s'\<lparr>pc := pc s + 1\<rparr>)));
          set_reg = (\<lambda>v. s\<lparr>regs := (regs s)(i_dst i := v)\<rparr>)
      in if i_op i = 0x18 then
           (case map_of (be_relocs e) (nat (pc s)) of
              Some (sec, off) \<Rightarrow> Some (Continue ((set_reg (B_ptr sec off))\<lparr>pc := pc s + 2\<rparr>))
            | None \<Rightarrow> None)
         else if i_op i = 0x61 then
           (case regs s (i_src i) of
              B_ptr sec off \<Rightarrow>
                let a = int off + i_off i in
                if 0 \<le> a \<and> a + 4 \<le> int (length (be_secs e sec))
                then next (set_reg (B_num (of_nat (le_at (be_secs e sec) (nat a) 4))))
                else None
            | _ \<Rightarrow> None)
         else if i_op i = 0x5d then
           (case (regs s (i_dst i), regs s (i_src i)) of
              (B_num x, B_num y) \<Rightarrow>
                if x \<noteq> y then Some (Continue (s\<lparr>pc := pc s + 1 + i_off i\<rparr>)) else next s
            | _ \<Rightarrow> None)
         else if i_op i = 0x77 then
           (case regs s (i_dst i) of
              B_num x \<Rightarrow> if 0 \<le> i_imm i \<and> i_imm i < 64 then next (set_reg (B_num (drop_bit (nat (i_imm i)) x))) else None
            | _ \<Rightarrow> None)
         else if i_op i = 0xb7 then next (set_reg (B_num (word_of_int (i_imm i))))
         else if i_op i = 0xbf then
           (if regs s (i_src i) = B_uninit then None else next (set_reg (regs s (i_src i))))
         else if i_op i = 0x85 then Option.bind (bpf_call e (i_imm i) s) next
         else if i_op i = 0x95 then map_option (\<lambda>r. Exit r (calls s)) (num_of (regs s 0))
         else None)"

text \<open>A run of at most \<open>fuel\<close> instructions: \<open>None\<close> is an error, or a program that has not ended.\<close>

fun bpf_run :: "nat \<Rightarrow> bpf_env \<Rightarrow> bpf_state \<Rightarrow> (u64 \<times> printk_call list) option" where
  "bpf_run 0 e s = None"
| "bpf_run (Suc fuel) e s =
     (if 0 \<le> pc s \<and> pc s < int (length (be_insns e)) then
        (case bpf_exec e (be_insns e ! nat (pc s)) s of
           Some (Continue s') \<Rightarrow> bpf_run fuel e s'
         | Some (Exit r cs) \<Rightarrow> Some (r, cs)
         | None \<Rightarrow> None)
      else None)"

section \<open>The embedded object\<close>

lemma ehdr_fields [simp]: "le_at elf_ehdr 40 8 = 1400" "le_at elf_ehdr 62 2 = 1"
  by (simp_all add: le_at_def elf_ehdr_def)

lemma minimal_section_at:
  assumes "i < 10"
  shows "elf_section_at minimal_bpf__elf_bytes i = elf_section_header (elf_shdrs ! i)"
proof -
  have "le_at minimal_bpf__elf_bytes 40 8 = 1400"
    by (simp add: minimal_bpf__elf_bytes_def)
  moreover have "drop (1400 + 64 * i) minimal_bpf__elf_bytes = concat (drop i elf_shdrs)"
    using assms by (simp add: minimal_bpf__elf_bytes_def concat_drop_eq)
  moreover have "concat (drop i elf_shdrs) = elf_shdrs ! i @ concat (drop (Suc i) elf_shdrs)"
    using assms by (simp flip: Cons_nth_drop_Suc)
  moreover have "length (elf_shdrs ! i) = 64"
    using assms elf_shdrs_lengths by (simp add: list_all_length)
  ultimately show ?thesis
    by (simp add: elf_section_at_def)
qed

text \<open>The sections the loader reads: string table, symbols, program, license, globals, strings, relocations.\<close>

lemmas minimal_header_fields =
  minimal_section_at elf_section_header_def elf_shdrs_def le_at_def
  elf_shdr1_def elf_shdr2_def elf_shdr3_def elf_shdr4_def elf_shdr5_def elf_shdr6_def elf_shdr7_def

lemma minimal_sections:
  "elf_section_at minimal_bpf__elf_bytes 1 = \<lparr>sec_name = 1, sec_type = 3, sec_offset = 64, sec_size = 176, sec_link = 0, sec_info = 0\<rparr>"
  "elf_section_at minimal_bpf__elf_bytes 2 = \<lparr>sec_name = 9, sec_type = 2, sec_offset = 240, sec_size = 216, sec_link = 1, sec_info = 0\<rparr>"
  "elf_section_at minimal_bpf__elf_bytes 3 = \<lparr>sec_name = 17, sec_type = 1, sec_offset = 456, sec_size = 104, sec_link = 0, sec_info = 0\<rparr>"
  "elf_section_at minimal_bpf__elf_bytes 4 = \<lparr>sec_name = 45, sec_type = 1, sec_offset = 560, sec_size = 13, sec_link = 0, sec_info = 0\<rparr>"
  "elf_section_at minimal_bpf__elf_bytes 5 = \<lparr>sec_name = 53, sec_type = 8, sec_offset = 576, sec_size = 4, sec_link = 0, sec_info = 0\<rparr>"
  "elf_section_at minimal_bpf__elf_bytes 6 = \<lparr>sec_name = 58, sec_type = 1, sec_offset = 576, sec_size = 28, sec_link = 0, sec_info = 0\<rparr>"
  "elf_section_at minimal_bpf__elf_bytes 7 = \<lparr>sec_name = 130, sec_type = 9, sec_offset = 608, sec_size = 32, sec_link = 2, sec_info = 3\<rparr>"
  by (simp_all add: minimal_header_fields)

lemma minimal_section_bytes:
  "section_bytes minimal_bpf__elf_bytes 1 = elf_strtab"
  "section_bytes minimal_bpf__elf_bytes 2 = elf_symtab"
  "section_bytes minimal_bpf__elf_bytes 3 = elf_handle_tp"
  "section_bytes minimal_bpf__elf_bytes 4 = take 13 elf_license"
  "section_bytes minimal_bpf__elf_bytes 5 = replicate 4 0"
  "section_bytes minimal_bpf__elf_bytes 6 = take 28 elf_rodata"
  "section_bytes minimal_bpf__elf_bytes 7 = elf_relocs"
  by (simp_all only: section_bytes_def minimal_sections Let_def elf_section.simps)
    (simp_all add: minimal_bpf__elf_bytes_def)

lemma minimal_relocations:
  "elf_relocations minimal_bpf__elf_bytes 7 = [(2, 5, 0), (6, 6, 0)]"
  by (simp add: elf_relocations_def minimal_sections minimal_section_bytes elf_symbol_def upt_rec Let_def)
    (simp add: le_at_def elf_relocs_def elf_symtab_def)

lemma minimal_program:
  "decode_program elf_handle_tp =
    [\<lparr>i_op = 0x85, i_dst = 0, i_src = 0, i_off = 0, i_imm = 14\<rparr>,
     \<lparr>i_op = 0x77, i_dst = 0, i_src = 0, i_off = 0, i_imm = 32\<rparr>,
     \<lparr>i_op = 0x18, i_dst = 1, i_src = 0, i_off = 0, i_imm = 0\<rparr>,
     \<lparr>i_op = 0, i_dst = 0, i_src = 0, i_off = 0, i_imm = 0\<rparr>,
     \<lparr>i_op = 0x61, i_dst = 1, i_src = 1, i_off = 0, i_imm = 0\<rparr>,
     \<lparr>i_op = 0x5d, i_dst = 1, i_src = 0, i_off = 5, i_imm = 0\<rparr>,
     \<lparr>i_op = 0x18, i_dst = 1, i_src = 0, i_off = 0, i_imm = 0\<rparr>,
     \<lparr>i_op = 0, i_dst = 0, i_src = 0, i_off = 0, i_imm = 0\<rparr>,
     \<lparr>i_op = 0xb7, i_dst = 2, i_src = 0, i_off = 0, i_imm = 28\<rparr>,
     \<lparr>i_op = 0xbf, i_dst = 3, i_src = 0, i_off = 0, i_imm = 0\<rparr>,
     \<lparr>i_op = 0x85, i_dst = 0, i_src = 0, i_off = 0, i_imm = 6\<rparr>,
     \<lparr>i_op = 0xb7, i_dst = 0, i_src = 0, i_off = 0, i_imm = 0\<rparr>,
     \<lparr>i_op = 0x95, i_dst = 0, i_src = 0, i_off = 0, i_imm = 0\<rparr>]"
  by (simp add: decode_program_def decode_insn_def le_at_def upt_rec elf_handle_tp_def)

section \<open>Running the embedded program\<close>

text \<open>The bytes of a 32-bit global, as the loader stores it in the mapped section.\<close>

definition le_bytes4 :: "32 word \<Rightarrow> byte list" where
  "le_bytes4 w = map (\<lambda>i. ucast (drop_bit (8 * i) w)) [0, 1, 2, 3]"

definition minimal_env :: "u32 \<Rightarrow> u32 \<Rightarrow> 32 word \<Rightarrow> u64 \<Rightarrow> bpf_env" where
  "minimal_env tgid pid my_pid ret =
     \<lparr>be_insns = decode_program (section_bytes minimal_bpf__elf_bytes 3),
      be_relocs = elf_relocations minimal_bpf__elf_bytes 7,
      be_secs = (section_bytes minimal_bpf__elf_bytes)(5 := le_bytes4 my_pid),
      be_tgid = tgid, be_pid = pid, be_ret = ret\<rparr>"

definition bpf_start :: bpf_state where
  "bpf_start = \<lparr>pc = 0, regs = (\<lambda>r. B_uninit), calls = []\<rparr>"

text \<open>A printing call with its values cut to 32 bits, which is all the conversion \<open>%d\<close> prints.\<close>

definition low32 :: "printk_call \<Rightarrow> printk_call" where
  "low32 c = (case c of
     Trace_printk fmt n args \<Rightarrow> Trace_printk fmt n (map (take_bit 32) args)
   | Trace_vprintk fmt n args m \<Rightarrow> Trace_vprintk fmt n (map (take_bit 32) args) m)"

lemma le_at_le_bytes4 [simp]: "le_at (le_bytes4 w) 0 4 = unat w"
proof -
  have byte: "unat (ucast (drop_bit k w) :: byte) = unat w div 2 ^ k mod 256" for k
    unfolding unsigned_ucast_eq unat_drop_bit_eq by (simp add: drop_bit_eq_div take_bit_eq_mod)
  have join: "m mod 256 + 256 * (m div 256) = m" for m :: nat
    by (rule mod_mult_div_eq)
  have steps: "m div 16777216 = m div 65536 div 256" "m div 65536 = m div 256 div 256" for m :: nat
    by (simp_all add: div_mult2_eq [symmetric])
  have "unat w < 4294967296"
    using unsigned_less [of w] by simp
  then have top: "unat w div 16777216 mod 256 = unat w div 16777216"
    by (intro mod_less) simp
  then have "unat w mod 256 + 256 * (unat w div 256 mod 256 + 256 * (unat w div 65536 mod 256 +
      256 * (unat w div 16777216 mod 256))) = unat w"
    by (simp only: steps join)
  moreover have "unat (ucast w :: byte) = unat w mod 256"
    using byte [of 0] by simp
  moreover note top
  ultimately show ?thesis
    by (simp add: le_at_def le_bytes4_def byte)
qed

lemma length_le_bytes4 [simp]: "length (le_bytes4 w) = 4"
  by (simp add: le_bytes4_def)

lemma tgid_of_register [simp]: "drop_bit 32 (bpf_get_current_pid_tgid tgid pid) = ucast tgid"
  by (rule bit_word_eqI)
    (auto simp: bpf_get_current_pid_tgid_def bit_simps dest: bit_imp_le_length)

lemma ucast_32_64_inject [simp]: "(ucast (a :: u32) :: u64) = ucast b \<longleftrightarrow> a = b"
proof -
  have "ucast (ucast w :: u64) = w" for w :: u32
    by (rule bit_word_eqI) (auto simp: bit_simps dest: bit_imp_le_length)
  then show ?thesis
    by metis
qed

lemma low32_ucast_scast: "take_bit 32 (scast (w :: u32) :: u64) = take_bit 32 (ucast w)"
  by (rule bit_word_eqI) (auto simp: bit_simps)

lemma embedded_format:
  "take 28 elf_rodata = bytes_of minimal_fmt @ [0]"
  by (simp add: elf_rodata_def minimal_fmt_def bytes_of_def newline_def)

lemma minimal_env_fields [simp]:
  "be_insns (minimal_env tgid pid my_pid ret) = decode_program elf_handle_tp"
  "be_relocs (minimal_env tgid pid my_pid ret) = [(2, 5, 0), (6, 6, 0)]"
  "be_secs (minimal_env tgid pid my_pid ret) 5 = le_bytes4 my_pid"
  "be_secs (minimal_env tgid pid my_pid ret) 6 = bytes_of minimal_fmt @ [0]"
  "be_tgid (minimal_env tgid pid my_pid ret) = tgid"
  "be_pid (minimal_env tgid pid my_pid ret) = pid"
  "be_ret (minimal_env tgid pid my_pid ret) = ret"
  by (simp_all add: minimal_env_def minimal_section_bytes minimal_relocations embedded_format)

lemma chars_of_bytes_of [simp]: "map (\<lambda>b. char_of (unat b)) (bytes_of s) = s"
proof -
  have "char_of (unat (of_char c :: byte)) = c" for c
  proof -
    have "unat (of_nat (of_char c) :: byte) = of_char c"
      using nat_of_char_less_256 [of c] by (simp add: unsigned_of_nat take_bit_eq_mod del: of_nat_of_char)
    then show ?thesis
      by (simp del: of_nat_of_char add: of_nat_of_char [symmetric, where ?'a = byte])
  qed
  then show ?thesis
    by (induction s) (simp_all add: bytes_of_def)
qed

lemma format_facts [simp]: "fmt_args minimal_fmt = 1" "length minimal_fmt = 27"
  by (simp_all add: fmt_args_def minimal_fmt_def newline_def)

lemmas bpf_exec_simps =
  bpf_exec_def bpf_call_def num_of_def bpf_get_current_pid_tgid_id_def bpf_trace_printk_id_def

lemma embedded_program_runs:
  "bpf_run (11 + k) (minimal_env tgid pid my_pid ret) bpf_start =
     Some (0, if tgid = my_pid then [Trace_printk minimal_fmt 28 [ucast tgid]] else [])"
proof -
  have fuel: "11 + k = Suc (Suc (Suc (Suc (Suc (Suc (Suc (Suc (Suc (Suc (Suc k))))))))))"
    by simp
  show ?thesis
    unfolding fuel
    by (cases "tgid = my_pid")
      (simp_all add: minimal_program bpf_start_def bpf_exec_simps)
qed

section \<open>Properties\<close>

text \<open>
  The object embedded in minimal.skel.h is the compilation of minimal.bpf.c that the loader
  expects: its program section is named after the tracepoint of the source and holds whole
  instructions, its license section is the source's license string, its global \<open>my_pid\<close> is four
  zero bytes, and its only string constant is the source's format; the two relocations point the
  program's two 64-bit loads at exactly that global and that format.
\<close>

theorem embedded_object_sections:
  "section_name minimal_bpf__elf_bytes 3 = minimal_section \<and>
   section_bytes minimal_bpf__elf_bytes 3 = elf_handle_tp \<and> length elf_handle_tp = 8 * 13 \<and>
   section_bytes minimal_bpf__elf_bytes 4 = bytes_of LICENSE @ [0] \<and>
   section_bytes minimal_bpf__elf_bytes 5 = le_bytes4 0 \<and>
   section_bytes minimal_bpf__elf_bytes 6 = bytes_of minimal_fmt @ [0] \<and>
   elf_relocations minimal_bpf__elf_bytes 7 = [(2, 5, 0), (6, 6, 0)]"
proof (intro conjI)
  have shstrndx: "le_at minimal_bpf__elf_bytes 62 2 = 1"
    by (simp add: minimal_bpf__elf_bytes_def)
  have name: "takeWhile (\<lambda>b. b \<noteq> 0) (drop 17 elf_strtab) = bytes_of minimal_section"
    by (simp add: elf_strtab_def minimal_section_def bytes_of_def)
  show "section_name minimal_bpf__elf_bytes 3 = minimal_section"
    by (simp only: section_name_def shstrndx minimal_sections minimal_section_bytes elf_section.simps
        c_string_def name chars_of_bytes_of)
  show "section_bytes minimal_bpf__elf_bytes 4 = bytes_of LICENSE @ [0]"
    by (simp add: minimal_section_bytes elf_license_def LICENSE_def bytes_of_def)
  show "section_bytes minimal_bpf__elf_bytes 5 = le_bytes4 0"
    by (simp only: minimal_section_bytes) (simp add: le_bytes4_def numeral_eq_Suc)
qed (simp_all add: minimal_section_bytes embedded_format minimal_relocations)

text \<open>
  C3: the compiled program embedded in minimal.skel.h does what minimal.bpf.c says. Run on any
  thread, with the global \<open>my_pid\<close> as the loader stored it, it ends within 11 instructions without
  an error (no read of an unset register, no access outside a section), returns the handler's
  result and makes the handler's printing calls; the printed values agree in the 32 bits that
  \<open>%d\<close> prints (the compiled program passes them zero-extended, the source sign-extended).
\<close>

theorem embedded_program_refines_source:
  "map_option (\<lambda>(r, cs). (r, map low32 cs)) (bpf_run (11 + k) (minimal_env tgid pid my_pid ret) bpf_start) =
   map_option (\<lambda>(r, cs). (scast r, map low32 cs))
     (minimal_handle_tp junk (bpf_get_current_pid_tgid tgid pid) my_pid)"
  by (simp add: embedded_program_runs minimal_handle_tp_value low32_def low32_ucast_scast)

end
