(* ===== verification/Tracing.thy ===== *)
theory Tracing
  imports Apps Bpf_Bytecode
begin

text \<open>
  The system around a running minimal.c: the loader in its endless loop, other processes and
  threads making write system calls in any order, and the kernel running the embedded program of
  minimal.skel.h at each of them with the global \<open>my_pid\<close> the loader stored before the load. The steps are
  labelled; a run is a sequence of labels.
\<close>

section \<open>Steps\<close>

text \<open>
  \<open>Loop_turn\<close> is one turn of the loop: the character goes to the unbuffered standard error with one
  write system call of the loader's main thread. \<open>Write_call\<close> is a write system call of any thread of
  any process, the loader included.
\<close>

datatype sys_event = Loop_turn | Write_call u32 u32

record sys_state =
  sys_bss :: "32 word"
  sys_trace :: "printk_call list"
  sys_shown :: "msg list"

text \<open>The kernel runs the attached program at the entry of the system call.\<close>

definition on_write :: "u32 \<Rightarrow> u32 \<Rightarrow> u64 \<Rightarrow> sys_state \<Rightarrow> sys_state option" where
  "on_write tgid pid ret s =
     map_option (\<lambda>(r, cs). s\<lparr>sys_trace := sys_trace s @ cs\<rparr>)
       (bpf_run 11 (minimal_env tgid pid (sys_bss s) ret) bpf_start)"

inductive sys_step :: "u32 \<Rightarrow> sys_state \<Rightarrow> sys_event \<Rightarrow> sys_state \<Rightarrow> bool" for loader where
  turn: "on_write loader loader ret s = Some s' \<Longrightarrow>
    sys_step loader s Loop_turn (s'\<lparr>sys_shown := sys_shown s' @ minimal_loop_body\<rparr>)"
| syscall: "on_write tgid pid ret s = Some s' \<Longrightarrow> sys_step loader s (Write_call tgid pid) s'"

inductive sys_run :: "u32 \<Rightarrow> sys_state \<Rightarrow> sys_event list \<Rightarrow> sys_state \<Rightarrow> bool" for loader where
  run_end: "sys_run loader s [] s"
| run_step: "sys_step loader s e s' \<Longrightarrow> sys_run loader s' es s'' \<Longrightarrow> sys_run loader s (e # es) s''"

inductive_cases sys_turnE: "sys_step loader s Loop_turn s'"
inductive_cases sys_writeE: "sys_step loader s (Write_call tgid pid) s'"
inductive_simps sys_run_Nil [simp]: "sys_run loader s [] s'"
inductive_simps sys_run_Cons: "sys_run loader s (e # es) s'"

text \<open>The state in which the loader enters its loop.\<close>

definition sys_start :: "addr \<Rightarrow> msg list \<Rightarrow> 'k world \<Rightarrow> sys_state" where
  "sys_start skel ms w =
     \<lparr>sys_bss = (case bss_my_pid skel w of Some v \<Rightarrow> v | None \<Rightarrow> 0), sys_trace = [], sys_shown = ms\<rparr>"

section \<open>What a run does\<close>

text \<open>The line of one process, and the events of a run that the loader's process makes.\<close>

definition own_line :: "u32 \<Rightarrow> printk_call" where
  "own_line loader = Trace_printk minimal_fmt 28 [ucast loader]"

fun own_event :: "u32 \<Rightarrow> sys_event \<Rightarrow> bool" where
  "own_event loader Loop_turn = True"
| "own_event loader (Write_call tgid pid) = (tgid = loader)"

lemma on_write_value:
  "on_write tgid pid ret s =
     Some (s\<lparr>sys_trace := sys_trace s @ (if tgid = sys_bss s then [own_line tgid] else [])\<rparr>)"
  using embedded_program_runs [of 0 tgid pid "sys_bss s" ret]
  by (simp add: on_write_def own_line_def del: bpf_run.simps)

text \<open>The effect of one step, which is enabled in every state.\<close>

definition sys_next :: "u32 \<Rightarrow> sys_event \<Rightarrow> sys_state \<Rightarrow> sys_state" where
  "sys_next loader e s =
     s\<lparr>sys_trace := sys_trace s @ (if own_event loader e then [own_line loader] else []),
       sys_shown := sys_shown s @ (if e = Loop_turn then minimal_loop_body else [])\<rparr>"

lemma sys_step_iff:
  assumes "sys_bss s = loader"
  shows "sys_step loader s e s' \<longleftrightarrow> s' = sys_next loader e s"
proof (cases e)
  case Loop_turn
  have "sys_step loader s Loop_turn (sys_next loader Loop_turn s)"
    using sys_step.turn [of loader 0 s] assms by (simp add: on_write_value sys_next_def)
  moreover have "s' = sys_next loader Loop_turn s" if "sys_step loader s Loop_turn s'"
    using that assms by (auto simp: on_write_value sys_next_def elim!: sys_turnE)
  ultimately show ?thesis
    using Loop_turn by auto
next
  case (Write_call tgid pid)
  then show ?thesis
    using assms
    by (auto simp: sys_next_def on_write_value elim!: sys_writeE intro!: sys_step.syscall [where ret = 0])
qed

lemma sys_run_iff:
  "sys_bss s = loader \<Longrightarrow> sys_run loader s es s' \<longleftrightarrow> s' = foldl (\<lambda>s e. sys_next loader e s) s es"
proof (induction es arbitrary: s)
  case Nil
  then show ?case
    by auto
next
  case (Cons e es)
  have "sys_bss (sys_next loader e s) = loader"
    using Cons.prems by (simp add: sys_next_def)
  with Cons show ?case
    by (simp add: sys_run_Cons sys_step_iff)
qed

lemma foldl_sys_next:
  "foldl (\<lambda>s e. sys_next loader e s) s es =
     s\<lparr>sys_trace := sys_trace s @ replicate (length (filter (own_event loader) es)) (own_line loader),
       sys_shown := sys_shown s @ concat (replicate (length (filter (\<lambda>e. e = Loop_turn) es)) minimal_loop_body)\<rparr>"
  by (induction es arbitrary: s) (auto simp: sys_next_def)

section \<open>Properties\<close>

text \<open>
  C1: minimal.c from its first statement to its loop, then any number of turns of the loop interleaved in any
  way with write system calls of any threads: when the loader reaches its loop, the run never gets stuck,
  and the trace holds exactly one line per write system call of the loader's own process, each with
  the loader's process id, and nothing of any other process; standard error has one character per
  turn. The kernel side of every step is the bytecode embedded in minimal.skel.h.
\<close>

theorem traced_lines_are_own_writes:
  assumes "libbpf_mmap L" and "world_ok w" and "minimal_main L pid w = App_loop skel ms w'"
  shows "(\<exists>s. sys_run pid (sys_start skel ms w') es s) \<and>
    (\<forall>s. sys_run pid (sys_start skel ms w') es s \<longrightarrow>
       sys_trace s = replicate (length (filter (own_event pid) es)) (Trace_printk minimal_fmt 28 [ucast pid]) \<and>
       sys_shown s = ms @ replicate (length (filter (\<lambda>e. e = Loop_turn) es)) (To_stderr ''.''))"
proof -
  have "sys_bss (sys_start skel ms w') = pid"
    using libbpf_mmap.minimal_stores_pid [OF assms] by (simp add: sys_start_def)
  moreover have "concat (replicate n minimal_loop_body) = replicate n (To_stderr ''.'')" for n
    by (induction n) (simp_all add: minimal_loop_body_def)
  ultimately show ?thesis
    by (simp add: sys_run_iff foldl_sys_next own_line_def) (simp add: sys_start_def)
qed

lemma plain_minimal_runs:
  obtains skel ms w' where "minimal_main (plain_libbpf 0 0 0) pid (empty_world []) = App_loop skel ms w'"
  by (simp add: minimal_main_def skel_open_def skel_open_opts_def create_skeleton_def create_maps_def
      create_progs_def create_finish_def calloc_def empty_world_def set_block_def get_obj_def new_obj_def
      plain_libbpf_def plain_open_def new_skel_def Let_def skel_set_my_pid_def app_start_def skel_load_def
      skel_attach_def)

theorem traced_lines_are_own_writes_witness:
  "\<exists>skel ms w'. minimal_main (plain_libbpf 0 0 0) 4711 (empty_world []) = App_loop skel ms w' \<and>
     (\<exists>s. sys_run 4711 (sys_start skel ms w') [Loop_turn, Write_call 12 12, Write_call 4711 4712] s \<and>
        sys_trace s = [own_line 4711, own_line 4711])"
proof -
  obtain skel ms w' where run: "minimal_main (plain_libbpf 0 0 0) 4711 (empty_world []) = App_loop skel ms w'"
    by (rule plain_minimal_runs)
  let ?es = "[Loop_turn, Write_call 12 12, Write_call 4711 4712]"
  obtain s where "sys_run 4711 (sys_start skel ms w') ?es s"
    and "sys_trace s = replicate (length (filter (own_event 4711) ?es)) (Trace_printk minimal_fmt 28 [ucast (4711 :: u32)])"
    using traced_lines_are_own_writes [OF plain.libbpf_mmap_axioms world_ok_empty run, of ?es] by blast
  with run show ?thesis
    by (auto simp: own_line_def)
qed

end
