(* ===== verification/Obj_Bootstrap.thy ===== *)
theory Obj_Bootstrap
  imports Elf
begin

text \<open>
  The object file embedded in examples/c/.output/bootstrap.skel.h as a string literal: one list of bytes per line of the
  literal, cut at the borders of the sections; then its section table, its symbols and its programs.
\<close>

section \<open>The literal\<close>

definition bootstrap_elf_hdr :: "byte list" where
  "bootstrap_elf_hdr =
    concat
    [[127, 69, 76, 70, 2, 1, 1, 0, 0, 0, 0, 0, 0, 0, 0, 0, 1, 0, 247, 0, 1, 0, 0, 0, 0, 0, 0, 0, 0],
     [0, 0, 0, 0, 0, 0, 0, 0, 0, 0, 0, 200, 105, 0, 0, 0, 0, 0, 0, 0, 0, 0, 0, 64, 0, 0, 0, 0, 0, 64, 0, 12, 0],
     [1, 0]]"

definition bootstrap_elf_1 :: "byte list" where
  "bootstrap_elf_1 =
    concat
    [[0, 46, 115, 116, 114, 116, 97, 98, 0, 46, 115, 121, 109, 116, 97, 98, 0, 116, 112],
     [47, 115, 99, 104, 101, 100, 47, 115, 99, 104, 101, 100, 95, 112, 114, 111, 99, 101, 115],
     [115, 95, 101, 120, 101, 99, 0, 116, 112, 47, 115, 99, 104, 101, 100, 47, 115, 99, 104, 101],
     [100, 95, 112, 114, 111, 99, 101, 115, 115, 95, 101, 120, 105, 116, 0, 108, 105, 99, 101, 110],
     [115, 101, 0, 46, 114, 111, 100, 97, 116, 97, 0, 46, 109, 97, 112, 115, 0, 98, 111, 111, 116],
     [115, 116, 114, 97, 112, 46, 98, 112, 102, 46, 99, 0, 76, 66, 66, 48, 95, 51, 0, 76],
     [66, 66, 49, 95, 56, 0, 76, 66, 66, 49, 95, 51, 0, 76, 66, 66, 49, 95, 52, 0, 76],
     [66, 66, 49, 95, 54, 0, 104, 97, 110, 100, 108, 101, 95, 101, 120, 101, 99, 0, 101, 120],
     [101, 99, 95, 115, 116, 97, 114, 116, 0, 109, 105, 110, 95, 100, 117, 114, 97, 116, 105, 111],
     [110, 95, 110, 115, 0, 114, 98, 0, 104, 97, 110, 100, 108, 101, 95, 101, 120, 105, 116, 0, 76],
     [73, 67, 69, 78, 83, 69, 0, 46, 114, 101, 108, 116, 112, 47, 115, 99, 104, 101, 100, 47],
     [115, 99, 104, 101, 100, 95, 112, 114, 111, 99, 101, 115, 115, 95, 101, 120, 101, 99, 0, 46],
     [114, 101, 108, 116, 112, 47, 115, 99, 104, 101, 100, 47, 115, 99, 104, 101, 100, 95, 112],
     [114, 111, 99, 101, 115, 115, 95, 101, 120, 105, 116, 0, 46, 66, 84, 70, 0, 46, 66, 84],
     [70, 46, 101, 120, 116, 0, 0, 0]]"

definition bootstrap_elf_2 :: "byte list" where
  "bootstrap_elf_2 =
    concat
    [[0, 0, 0, 0, 0, 0, 0, 0, 0, 0, 0, 0, 0, 0, 0, 0, 0, 0, 0, 0, 0, 0, 0, 0, 95],
     [0, 0, 0, 4, 0, 241, 255, 0, 0, 0, 0, 0, 0, 0, 0, 0, 0, 0, 0, 0, 0, 0, 0, 0, 0, 0, 0, 3, 0, 3, 0, 0, 0, 0],
     [0, 0, 0, 0, 0, 0, 0, 0, 0, 0, 0, 0, 0, 111, 0, 0, 0, 0, 0, 3, 0, 232, 1, 0, 0, 0, 0, 0, 0, 0, 0, 0, 0, 0, 0],
     [0, 0, 0, 0, 0, 0, 3, 0, 4, 0, 0, 0, 0, 0, 0, 0, 0, 0, 0, 0, 0, 0, 0, 0, 0, 0, 118, 0, 0, 0, 0, 0, 4, 0],
     [152, 2, 0, 0, 0, 0, 0, 0, 0, 0, 0, 0, 0, 0, 0, 0, 125, 0, 0, 0, 0, 0, 4, 0, 152, 0, 0, 0, 0, 0, 0, 0, 0, 0],
     [0, 0, 0, 0, 0, 0, 132, 0, 0, 0, 0, 0, 4, 0, 192, 0, 0, 0, 0, 0, 0, 0, 0, 0, 0, 0, 0, 0, 0, 0, 139, 0, 0, 0, 0],
     [0, 4, 0, 24, 1, 0, 0, 0, 0, 0, 0, 0, 0, 0, 0, 0, 0, 0, 0, 146, 0, 0, 0, 18, 0, 3, 0, 0, 0, 0, 0, 0, 0],
     [0, 0, 248, 1, 0, 0, 0, 0, 0, 0, 158, 0, 0, 0, 17, 0, 7, 0, 0, 0, 0, 0, 0, 0, 0, 0, 32, 0, 0, 0, 0, 0, 0],
     [0, 169, 0, 0, 0, 17, 0, 6, 0, 0, 0, 0, 0, 0, 0, 0, 0, 8, 0, 0, 0, 0, 0, 0, 0, 185, 0, 0, 0, 17, 0, 7],
     [0, 32, 0, 0, 0, 0, 0, 0, 0, 16, 0, 0, 0, 0, 0, 0, 0, 188, 0, 0, 0, 18, 0, 4, 0, 0, 0, 0, 0, 0, 0, 0, 0],
     [168, 2, 0, 0, 0, 0, 0, 0, 200, 0, 0, 0, 17, 0, 5, 0, 0, 0, 0, 0, 0, 0, 0, 0, 13, 0, 0, 0, 0, 0, 0, 0]]"

definition bootstrap_elf_3 :: "byte list" where
  "bootstrap_elf_3 =
    concat
    [[191, 22, 0, 0, 0, 0, 0, 0, 133, 0, 0, 0, 14, 0, 0, 0, 119, 0, 0, 0, 32, 0, 0, 0, 99, 10, 252, 255, 0],
     [0, 0, 0, 133, 0, 0, 0, 5, 0, 0, 0, 123, 10, 240, 255, 0, 0, 0, 0, 191, 162, 0, 0, 0, 0, 0, 0, 7, 2],
     [0, 0, 252, 255, 255, 255, 191, 163, 0, 0, 0, 0, 0, 0, 7, 3, 0, 0, 240, 255, 255, 255, 24, 1, 0],
     [0, 0, 0, 0, 0, 0, 0, 0, 0, 0, 0, 0, 0, 183, 4, 0, 0, 0, 0, 0, 0, 133, 0, 0, 0, 2, 0, 0, 0, 24, 1, 0, 0],
     [0, 0, 0, 0, 0, 0, 0, 0, 0, 0, 0, 0, 121, 17, 0, 0, 0, 0, 0, 0, 85, 1, 43, 0, 0, 0, 0, 0, 183, 8, 0, 0],
     [0, 0, 0, 0, 24, 1, 0, 0, 0, 0, 0, 0, 0, 0, 0, 0, 0, 0, 0, 0, 183, 2, 0, 0, 168, 0, 0, 0, 183, 3, 0, 0],
     [0, 0, 0, 0, 133, 0, 0, 0, 131, 0, 0, 0, 191, 7, 0, 0, 0, 0, 0, 0, 21, 7, 35, 0, 0, 0, 0, 0, 133, 0, 0],
     [0, 35, 0, 0, 0, 115, 135, 167, 0, 0, 0, 0, 0, 97, 161, 252, 255, 0, 0, 0, 0, 99, 23, 0, 0, 0, 0, 0, 0],
     [183, 1, 0, 0, 64, 4, 0, 0, 15, 16, 0, 0, 0, 0, 0, 0, 191, 161, 0, 0, 0, 0, 0, 0, 7, 1, 0, 0],
     [224, 255, 255, 255, 183, 2, 0, 0, 8, 0, 0, 0, 191, 3, 0, 0, 0, 0, 0, 0, 133, 0, 0, 0, 113, 0, 0, 0],
     [183, 1, 0, 0, 60, 4, 0, 0, 121, 163, 224, 255, 0, 0, 0, 0, 15, 19, 0, 0, 0, 0, 0, 0, 191, 161, 0],
     [0, 0, 0, 0, 0, 7, 1, 0, 0, 236, 255, 255, 255, 183, 2, 0, 0, 4, 0, 0, 0, 133, 0, 0, 0, 113, 0, 0],
     [0, 97, 161, 236, 255, 0, 0, 0, 0, 99, 23, 4, 0, 0, 0, 0, 0, 191, 113, 0, 0, 0, 0, 0, 0, 7, 1, 0],
     [0, 24, 0, 0, 0, 183, 2, 0, 0, 16, 0, 0, 0, 133, 0, 0, 0, 16, 0, 0, 0, 97, 97, 8, 0, 0, 0, 0, 0],
     [87, 1, 0, 0, 255, 255, 0, 0, 15, 22, 0, 0, 0, 0, 0, 0, 191, 113, 0, 0, 0, 0, 0, 0, 7, 1, 0, 0],
     [40, 0, 0, 0, 183, 2, 0, 0, 127, 0, 0, 0, 191, 99, 0, 0, 0, 0, 0, 0, 133, 0, 0, 0, 45, 0, 0, 0, 191],
     [113, 0, 0, 0, 0, 0, 0, 183, 2, 0, 0, 0, 0, 0, 0, 133, 0, 0, 0, 132, 0, 0, 0, 183, 0, 0, 0, 0, 0, 0, 0, 149],
     [0, 0, 0, 0, 0, 0, 0]]"

definition bootstrap_elf_4 :: "byte list" where
  "bootstrap_elf_4 =
    concat
    [[133, 0, 0, 0, 14, 0, 0, 0, 191, 1, 0, 0, 0, 0, 0, 0, 119, 1, 0, 0, 32, 0, 0, 0],
     [99, 26, 252, 255, 0, 0, 0, 0, 103, 0, 0, 0, 32, 0, 0, 0, 119, 0, 0, 0, 32, 0, 0, 0, 93, 1, 76, 0],
     [0, 0, 0, 0, 191, 162, 0, 0, 0, 0, 0, 0, 7, 2, 0, 0, 252, 255, 255, 255, 24, 1, 0, 0, 0, 0, 0, 0, 0],
     [0, 0, 0, 0, 0, 0, 0, 133, 0, 0, 0, 1, 0, 0, 0, 191, 6, 0, 0, 0, 0, 0, 0, 21, 6, 5, 0, 0, 0, 0, 0],
     [133, 0, 0, 0, 5, 0, 0, 0, 191, 7, 0, 0, 0, 0, 0, 0, 121, 97, 0, 0, 0, 0, 0, 0, 31, 23, 0, 0, 0, 0, 0],
     [0, 5, 0, 5, 0, 0, 0, 0, 0, 183, 7, 0, 0, 0, 0, 0, 0, 24, 1, 0, 0, 0, 0, 0, 0, 0, 0, 0, 0, 0, 0, 0, 0],
     [121, 17, 0, 0, 0, 0, 0, 0, 85, 1, 59, 0, 0, 0, 0, 0, 191, 162, 0, 0, 0, 0, 0, 0, 7, 2, 0, 0, 252],
     [255, 255, 255, 24, 1, 0, 0, 0, 0, 0, 0, 0, 0, 0, 0, 0, 0, 0, 0, 133, 0, 0, 0, 3, 0, 0, 0, 24, 1, 0],
     [0, 0, 0, 0, 0, 0, 0, 0, 0, 0, 0, 0, 0, 121, 18, 0, 0, 0, 0, 0, 0, 21, 2, 2, 0, 0, 0, 0, 0, 121, 17, 0],
     [0, 0, 0, 0, 0, 45, 113, 48, 0, 0, 0, 0, 0, 24, 1, 0, 0, 0, 0, 0, 0, 0, 0, 0, 0, 0, 0, 0, 0, 183, 2, 0],
     [0, 168, 0, 0, 0, 183, 3, 0, 0, 0, 0, 0, 0, 133, 0, 0, 0, 131, 0, 0, 0, 191, 6, 0, 0, 0, 0, 0, 0, 21],
     [6, 41, 0, 0, 0, 0, 0, 133, 0, 0, 0, 35, 0, 0, 0, 191, 8, 0, 0, 0, 0, 0, 0, 183, 1, 0, 0, 1, 0, 0],
     [0, 115, 22, 167, 0, 0, 0, 0, 0, 123, 118, 16, 0, 0, 0, 0, 0, 97, 161, 252, 255, 0, 0, 0, 0, 99, 22],
     [0, 0, 0, 0, 0, 0, 183, 1, 0, 0, 64, 4, 0, 0, 191, 131, 0, 0, 0, 0, 0, 0, 15, 19, 0, 0, 0, 0, 0, 0],
     [191, 161, 0, 0, 0, 0, 0, 0, 7, 1, 0, 0, 240, 255, 255, 255, 183, 2, 0, 0, 8, 0, 0, 0, 133, 0, 0],
     [0, 113, 0, 0, 0, 183, 1, 0, 0, 60, 4, 0, 0, 121, 163, 240, 255, 0, 0, 0, 0, 15, 19, 0, 0, 0, 0, 0],
     [0, 191, 161, 0, 0, 0, 0, 0, 0, 7, 1, 0, 0, 248, 255, 255, 255, 183, 2, 0, 0, 4, 0, 0, 0, 133, 0],
     [0, 0, 113, 0, 0, 0, 97, 161, 248, 255, 0, 0, 0, 0, 99, 22, 4, 0, 0, 0, 0, 0, 183, 1, 0, 0, 212],
     [3, 0, 0, 15, 24, 0, 0, 0, 0, 0, 0, 191, 161, 0, 0, 0, 0, 0, 0, 7, 1, 0, 0, 240, 255, 255, 255],
     [183, 2, 0, 0, 4, 0, 0, 0, 191, 131, 0, 0, 0, 0, 0, 0, 133, 0, 0, 0, 113, 0, 0, 0, 97, 161, 240, 255],
     [0, 0, 0, 0, 119, 1, 0, 0, 8, 0, 0, 0, 87, 1, 0, 0, 255, 0, 0, 0, 99, 22, 8, 0, 0, 0, 0, 0, 191],
     [97, 0, 0, 0, 0, 0, 0, 7, 1, 0, 0, 24, 0, 0, 0, 183, 2, 0, 0, 16, 0, 0, 0, 133, 0, 0, 0, 16, 0, 0],
     [0, 191, 97, 0, 0, 0, 0, 0, 0, 183, 2, 0, 0, 0, 0, 0, 0, 133, 0, 0, 0, 132, 0, 0, 0, 183, 0, 0, 0, 0, 0, 0],
     [0, 149, 0, 0, 0, 0, 0, 0, 0]]"

definition bootstrap_elf_5 :: "byte list" where
  "bootstrap_elf_5 =
    concat
    [[68, 117, 97, 108, 32, 66, 83, 68, 47, 71, 80, 76, 0, 0, 0, 0]]"

definition bootstrap_elf_6 :: "byte list" where
  "bootstrap_elf_6 =
    concat
    [[0],
     [0, 0, 0, 0, 0, 0, 0]]"

definition bootstrap_elf_7 :: "byte list" where
  "bootstrap_elf_7 =
    concat
    [[0, 0, 0, 0, 0, 0, 0, 0, 0, 0, 0, 0, 0, 0, 0, 0, 0, 0, 0, 0, 0, 0, 0, 0, 0, 0, 0, 0, 0, 0, 0, 0],
     [0, 0, 0, 0, 0, 0, 0, 0, 0, 0, 0, 0, 0, 0, 0, 0]]"

definition bootstrap_elf_8 :: "byte list" where
  "bootstrap_elf_8 =
    concat
    [[80, 0, 0, 0, 0, 0, 0, 0, 1, 0, 0, 0, 10, 0, 0, 0, 112, 0, 0],
     [0, 0, 0, 0, 0, 1, 0, 0, 0, 11, 0, 0, 0, 152, 0, 0, 0, 0, 0, 0, 0, 1, 0, 0, 0, 12, 0, 0, 0]]"

definition bootstrap_elf_9 :: "byte list" where
  "bootstrap_elf_9 =
    concat
    [[72, 0, 0, 0],
     [0, 0, 0, 0, 1, 0, 0, 0, 10, 0, 0, 0, 160, 0, 0, 0, 0, 0, 0, 0, 1, 0, 0, 0, 11, 0, 0, 0, 208, 0, 0, 0, 0],
     [0, 0, 0, 1, 0, 0, 0, 10, 0, 0, 0, 232, 0, 0, 0, 0, 0, 0, 0, 1, 0, 0, 0, 11, 0, 0, 0, 24, 1, 0, 0, 0],
     [0, 0, 0, 1, 0, 0, 0, 12, 0, 0, 0]]"

definition bootstrap_elf_10_a :: "byte list" where
  "bootstrap_elf_10_a =
    concat
    [[159, 235, 1, 0, 24, 0, 0, 0, 0, 0, 0, 0, 200, 53, 0, 0, 200, 53],
     [0, 0, 113, 38, 0, 0, 0, 0, 0, 0, 0, 0, 0, 2, 3, 0, 0, 0, 1, 0, 0, 0, 0, 0, 0, 1, 4, 0, 0, 0, 32],
     [0, 0, 1, 0, 0, 0, 0, 0, 0, 0, 3, 0, 0, 0, 0, 2, 0, 0, 0, 4, 0, 0, 0, 1, 0, 0, 0, 5, 0, 0, 0, 0, 0],
     [0, 1, 4, 0, 0, 0, 32, 0, 0, 0, 0, 0, 0, 0, 0, 0, 0, 2, 6, 0, 0, 0, 0, 0, 0, 0, 0, 0, 0, 3, 0, 0, 0],
     [0, 2, 0, 0, 0, 4, 0, 0, 0, 0, 32, 0, 0, 0, 0, 0, 0, 0, 0, 0, 2, 8, 0, 0, 0, 25, 0, 0, 0, 0, 0, 0],
     [8, 9, 0, 0, 0, 31, 0, 0, 0, 0, 0, 0, 8, 2, 0, 0, 0, 0, 0, 0, 0, 0, 0, 0, 2, 11, 0, 0, 0, 46, 0],
     [0, 0, 0, 0, 0, 8, 12, 0, 0, 0, 50, 0, 0, 0, 0, 0, 0, 8, 13, 0, 0, 0, 56, 0, 0, 0, 0, 0, 0, 1, 8],
     [0, 0, 0, 64, 0, 0, 0, 0, 0, 0, 0, 4, 0, 0, 4, 32, 0, 0, 0, 75, 0, 0, 0, 1, 0, 0, 0, 0, 0, 0, 0, 80],
     [0, 0, 0, 5, 0, 0, 0, 64, 0, 0, 0, 92, 0, 0, 0, 7, 0, 0, 0, 128, 0, 0, 0, 96, 0, 0, 0, 10, 0, 0, 0],
     [192, 0, 0, 0, 102, 0, 0, 0, 0, 0, 0, 14, 14, 0, 0, 0, 1, 0, 0, 0, 0, 0, 0, 0, 0, 0, 0, 2, 17, 0, 0, 0],
     [0, 0, 0, 0, 0, 0, 0, 3, 0, 0, 0, 0, 2, 0, 0, 0, 4, 0, 0, 0, 27, 0, 0, 0, 0, 0, 0, 0, 0, 0, 0, 2, 19],
     [0, 0, 0, 0, 0, 0, 0, 0, 0, 0, 3, 0, 0, 0, 0, 2, 0, 0, 0, 4, 0, 0, 0, 0, 0, 4, 0, 0, 0, 0, 0, 2, 0, 0],
     [4, 16, 0, 0, 0, 75, 0, 0, 0, 16, 0, 0, 0, 0, 0, 0, 0, 80, 0, 0, 0, 18, 0, 0, 0, 64, 0, 0, 0, 113, 0],
     [0, 0, 0, 0, 0, 14, 20, 0, 0, 0, 1, 0, 0, 0, 0, 0, 0, 0, 0, 0, 0, 2, 23, 0, 0, 0, 116, 0, 0, 0, 5, 0],
     [0, 4, 20, 0, 0, 0, 151, 0, 0, 0, 24, 0, 0, 0, 0, 0, 0, 0, 155, 0, 0, 0, 27, 0, 0, 0, 64, 0, 0, 0, 175],
     [0, 0, 0, 8, 0, 0, 0, 96, 0, 0, 0, 179, 0, 0, 0, 8, 0, 0, 0, 128, 0, 0, 0, 187, 0, 0, 0, 31, 0, 0, 0],
     [160, 0, 0, 0, 194, 0, 0, 0, 4, 0, 0, 4, 8, 0, 0, 0, 75, 0, 0, 0, 25, 0, 0, 0, 0, 0, 0, 0, 206, 0, 0],
     [0, 26, 0, 0, 0, 16, 0, 0, 0, 212, 0, 0, 0, 26, 0, 0, 0, 24, 0, 0, 0, 175, 0, 0, 0, 2, 0, 0, 0, 32, 0],
     [0, 0, 226, 0, 0, 0, 0, 0, 0, 1, 2, 0, 0, 0, 16, 0, 0, 0, 241, 0, 0, 0, 0, 0, 0, 1, 1, 0, 0, 0, 8],
     [0, 0, 0, 255, 0, 0, 0, 0, 0, 0, 8, 28, 0, 0, 0, 3, 1, 0, 0, 0, 0, 0, 8, 29, 0, 0, 0, 9, 1, 0],
     [0, 0, 0, 0, 1, 4, 0, 0, 0, 32, 0, 0, 0, 22, 1, 0, 0, 0, 0, 0, 1, 1, 0, 0, 0, 8, 0, 0, 1, 0],
     [0, 0, 0, 0, 0, 0, 3, 0, 0, 0, 0, 30, 0, 0, 0, 4, 0, 0, 0, 0, 0, 0, 0, 0, 0, 0, 0, 1, 0, 0, 13, 2, 0],
     [0, 0, 27, 1, 0, 0, 22, 0, 0, 0, 31, 1, 0, 0, 1, 0, 0, 12, 32, 0, 0, 0, 43, 1, 0, 0, 159, 0],
     [0, 132, 0, 14, 0, 0, 55, 1, 0, 0, 35, 0, 0, 0, 0, 0, 0, 0, 67, 1, 0, 0, 29, 0, 0, 0, 192, 0, 0, 0],
     [75, 1, 0, 0, 29, 0, 0, 0, 224, 0, 0, 0, 87, 1, 0, 0, 39, 0, 0, 0, 0, 1, 0, 0, 93, 1, 0, 0],
     [40, 0, 0, 0, 64, 1, 0, 0, 206, 0, 0, 0, 29, 0, 0, 0, 96, 1, 0, 0, 99, 1, 0, 0, 29, 0, 0, 0],
     [128, 1, 0, 0, 106, 1, 0, 0, 2, 0, 0, 0, 160, 1, 0, 0, 113, 1, 0, 0, 44, 0, 0, 0, 192, 1, 0],
     [0, 124, 1, 0, 0, 29, 0, 0, 0, 64, 2, 0, 0, 136, 1, 0, 0, 36, 0, 0, 0, 128, 2, 0, 0, 156, 1],
     [0, 0, 50, 0, 0, 0, 192, 2, 0, 0, 167, 1, 0, 0, 2, 0, 0, 0, 0, 3, 0, 0, 183, 1, 0, 0, 2, 0, 0],
     [0, 32, 3, 0, 0, 192, 1, 0, 0, 2, 0, 0, 0, 64, 3, 0, 0, 198, 1, 0, 0, 2, 0, 0, 0, 96, 3],
     [0, 0, 203, 1, 0, 0, 2, 0, 0, 0, 128, 3, 0, 0, 215, 1, 0, 0, 2, 0, 0, 0, 160, 3, 0, 0, 227],
     [1, 0, 0, 29, 0, 0, 0, 192, 3, 0, 0, 239, 1, 0, 0, 51, 0, 0, 0, 0, 4, 0, 0, 242, 1, 0, 0, 62],
     [0, 0, 0, 0, 12, 0, 0, 245, 1, 0, 0, 64, 0, 0, 0, 128, 13, 0, 0, 248, 1, 0, 0, 79, 0, 0, 0, 192],
     [20, 0, 0, 2, 2, 0, 0, 80, 0, 0, 0, 0, 21, 0, 0, 14, 2, 0, 0, 82, 0, 0, 0, 0, 22, 0, 0, 20],
     [2, 0, 0, 29, 0, 0, 0, 0, 22, 0, 0, 27, 2, 0, 0, 36, 0, 0, 0, 64, 22, 0, 0, 48, 2, 0, 0, 2],
     [0, 0, 0, 128, 22, 0, 0, 64, 2, 0, 0, 83, 0, 0, 0, 192, 22, 0, 0, 73, 2, 0, 0, 86, 0, 0, 0, 0],
     [23, 0, 0, 87, 2, 0, 0, 85, 0, 0, 0, 64, 23, 0, 0, 97, 2, 0, 0, 39, 0, 0, 0, 64, 25, 0, 0],
     [115, 2, 0, 0, 25, 0, 0, 0, 128, 25, 0, 0, 134, 2, 0, 0, 25, 0, 0, 0, 144, 25, 0, 0, 150, 2, 0],
     [0, 2, 0, 0, 0, 160, 25, 0, 0, 169, 2, 0, 0, 2, 0, 0, 0, 192, 25, 0, 0, 184, 2, 0, 0, 89, 0, 0],
     [0, 224, 25, 0, 0, 203, 2, 0, 0, 55, 0, 0, 0, 0, 26, 0, 0, 220, 2, 0, 0, 55, 0, 0, 0, 128, 26, 0],
     [0, 234, 2, 0, 0, 2, 0, 0, 0, 0, 27, 0, 0, 247, 2, 0, 0, 91, 0, 0, 0, 32, 27, 0, 0, 2, 3, 0],
     [0, 55, 0, 0, 0, 64, 27, 0, 0, 8, 3, 0, 0, 92, 0, 0, 0, 192, 27, 0, 0, 23, 3, 0, 0, 53, 0, 0],
     [0, 0, 29, 0, 0, 41, 3, 0, 0, 93, 0, 0, 0, 192, 29, 0, 0, 44, 3, 0, 0, 93, 0, 0, 0, 0, 30, 0, 0],
     [54, 3, 0, 0, 94, 0, 0, 0, 64, 30, 0, 0, 78, 3, 0, 0, 2, 0, 0, 0, 128, 30, 0, 0, 89, 3, 0],
     [0, 2, 0, 0, 0, 160, 30, 0, 0, 99, 3, 0, 0, 2, 0, 0, 0, 192, 30, 0, 0, 111, 3, 0, 0, 2, 0, 0],
     [0, 224, 30, 0, 0, 125, 3, 0, 0, 36, 0, 0, 0, 0, 31, 0, 0, 132, 3, 0, 0, 29, 0, 0, 0, 64, 31, 0],
     [0, 144, 3, 0, 0, 29, 0, 0, 0, 96, 31, 0, 1, 164, 3, 0, 0, 29, 0, 0, 0, 97, 31, 0, 1, 190],
     [3, 0, 0, 29, 0, 0, 0, 98, 31, 0, 1, 205, 3, 0, 0, 29, 0, 0, 0, 99, 31, 0, 1, 220, 3, 0],
     [0, 29, 0, 0, 0, 128, 31, 0, 1, 240, 3, 0, 0, 29, 0, 0, 0, 129, 31, 0, 1, 250, 3, 0, 0, 29],
     [0, 0, 0, 130, 31, 0, 1, 4, 4, 0, 0, 29, 0, 0, 0, 131, 31, 0, 1, 20, 4, 0, 0, 36, 0, 0, 0],
     [192, 31, 0, 0, 33, 4, 0, 0, 95, 0, 0, 0, 0, 32, 0, 0, 175, 0, 0, 0, 8, 0, 0, 0, 192, 33, 0, 0],
     [47, 4, 0, 0, 8, 0, 0, 0, 224, 33, 0, 0, 52, 4, 0, 0, 50, 0, 0, 0, 0, 34, 0, 0, 64, 4, 0, 0],
     [50, 0, 0, 0, 64, 34, 0, 0, 71, 4, 0, 0, 55, 0, 0, 0, 128, 34, 0, 0, 80, 4, 0, 0, 55, 0, 0, 0],
     [0, 35, 0, 0, 88, 4, 0, 0, 50, 0, 0, 0, 128, 35, 0, 0, 101, 4, 0, 0, 55, 0, 0, 0, 192, 35, 0, 0],
     [109, 4, 0, 0, 55, 0, 0, 0, 64, 36, 0, 0, 122, 4, 0, 0, 112, 0, 0, 0, 192, 36, 0, 0, 133, 4, 0],
     [0, 116, 0, 0, 0, 0, 37, 0, 0, 143, 4, 0, 0, 55, 0, 0, 0, 0, 39, 0, 0, 155, 4, 0, 0, 117, 0, 0, 0],
     [128, 39, 0, 0, 166, 4, 0, 0, 118, 0, 0, 0, 192, 39, 0, 0, 180, 4, 0, 0, 118, 0, 0, 0, 0, 40, 0, 0],
     [196, 4, 0, 0, 39, 0, 0, 0, 64, 40, 0, 0, 211, 4, 0, 0, 11, 0, 0, 0, 128, 40, 0, 0, 217, 4, 0],
     [0, 11, 0, 0, 0, 192, 40, 0, 0, 223, 4, 0, 0, 11, 0, 0, 0, 0, 41, 0, 0, 229, 4, 0, 0, 119, 0, 0, 0],
     [64, 41, 0, 0, 242, 4, 0, 0, 36, 0, 0, 0, 0, 42, 0, 0, 248, 4, 0, 0, 36, 0, 0, 0, 64, 42, 0, 0],
     [255, 4, 0, 0, 11, 0, 0, 0, 128, 42, 0, 0, 10, 5, 0, 0, 11, 0, 0, 0, 192, 42, 0, 0, 25, 5, 0],
     [0, 36, 0, 0, 0, 0, 43, 0, 0, 33, 5, 0, 0, 36, 0, 0, 0, 64, 43, 0, 0, 41, 5, 0, 0, 127, 0, 0, 0],
     [128, 43, 0, 0, 57, 5, 0, 0, 128, 0, 0, 0, 128, 43, 0, 0, 70, 5, 0, 0, 128, 0, 0, 0, 192, 43, 0],
     [0, 80, 5, 0, 0, 128, 0, 0, 0, 0, 44, 0, 0, 85, 5, 0, 0, 153, 0, 0, 0, 64, 44, 0, 0, 90, 5, 0],
     [0, 154, 0, 0, 0, 192, 44, 0, 0, 100, 5, 0, 0, 155, 0, 0, 0, 0, 45, 0, 0, 103, 5, 0, 0, 156, 0, 0, 0],
     [64, 45, 0, 0, 109, 5, 0, 0, 157, 0, 0, 0, 128, 45, 0, 0, 117, 5, 0, 0, 158, 0, 0, 0, 192, 45, 0],
     [0, 124, 5, 0, 0, 159, 0, 0, 0, 0, 46, 0, 0, 132, 5, 0, 0, 160, 0, 0, 0, 64, 46, 0, 0, 140, 5, 0],
     [0, 160, 0, 0, 0, 128, 46, 0, 0, 153, 5, 0, 0, 160, 0, 0, 0, 192, 46, 0, 0, 167, 5, 0, 0, 163, 0, 0],
     [0, 0, 47, 0, 0, 175, 5, 0, 0, 36, 0, 0, 0, 192, 47, 0, 0, 185, 5, 0, 0, 164, 0, 0, 0, 0, 48, 0, 0],
     [197, 5, 0, 0, 29, 0, 0, 0, 64, 48, 0, 0, 210, 5, 0, 0, 150, 0, 0, 0, 128, 48, 0, 0, 221, 5, 0],
     [0, 167, 0, 0, 0, 192, 48, 0, 0, 229, 5, 0, 0, 168, 0, 0, 0, 192, 48, 0, 0, 246, 5, 0, 0, 11, 0, 0],
     [0, 192, 48, 0, 0, 5, 6, 0, 0, 11, 0, 0, 0, 0, 49, 0, 0, 18, 6, 0, 0, 169, 0, 0, 0, 64, 49, 0],
     [0, 29, 6, 0, 0, 120, 0, 0, 0, 96, 49, 0, 0, 37, 6, 0, 0, 172, 0, 0, 0, 128, 49, 0, 0, 44, 6],
     [0, 0, 174, 0, 0, 0, 192, 49, 0, 0, 55, 6, 0, 0, 39, 0, 0, 0, 0, 50, 0, 0, 68, 6, 0, 0, 175, 0, 0],
     [0, 64, 50, 0, 0, 77, 6, 0, 0, 176, 0, 0, 0, 128, 50, 0, 0, 82, 6, 0, 0, 177, 0, 0, 0, 192, 50],
     [0, 0, 96, 6, 0, 0, 178, 0, 0, 0, 0, 51, 0, 0, 107, 6, 0, 0, 36, 0, 0, 0, 64, 51, 0, 0, 122, 6],
     [0, 0, 179, 0, 0, 0, 128, 51, 0, 0, 135, 6, 0, 0, 181, 0, 0, 0, 192, 51, 0, 0, 140, 6, 0, 0, 182, 0],
     [0, 0, 192, 51, 0, 0, 155, 6, 0, 0, 183, 0, 0, 0, 0, 52, 0, 0, 171, 6, 0, 0, 184, 0, 0, 0, 64, 52],
     [0, 0, 188, 6, 0, 0, 55, 0, 0, 0, 64, 53, 0, 0, 204, 6, 0, 0, 186, 0, 0, 0, 192, 53, 0, 0, 218],
     [6, 0, 0, 187, 0, 0, 0, 0, 54, 0, 0, 226, 6, 0, 0, 191, 0, 0, 0, 64, 54, 0, 0, 238, 6, 0, 0, 192],
     [0, 0, 0, 128, 54, 0, 0, 248, 6, 0, 0, 2, 0, 0, 0, 0, 55, 0, 0, 3, 7, 0, 0, 2, 0, 0, 0, 32],
     [55, 0, 0, 20, 7, 0, 0, 36, 0, 0, 0, 64, 55, 0, 0, 38, 7, 0, 0, 11, 0, 0, 0, 128, 55, 0, 0],
     [53, 7, 0, 0, 11, 0, 0, 0, 192, 55, 0, 0, 76, 7, 0, 0, 2, 0, 0, 0, 0, 56, 0, 0, 91, 7, 0, 0],
     [2, 0, 0, 0, 32, 56, 0, 0, 106, 7, 0, 0, 194, 0, 0, 0, 64, 56, 0, 0, 116, 7, 0, 0, 13, 0, 0, 0],
     [128, 56, 0, 0, 133, 7, 0, 0, 13, 0, 0, 0, 192, 56, 0, 0, 150, 7, 0, 0, 42, 0, 0, 0, 0, 57, 0, 0],
     [164, 7, 0, 0, 42, 0, 0, 0, 32, 57, 0, 0, 184, 7, 0, 0, 36, 0, 0, 0, 64, 57, 0, 0, 200, 7, 0],
     [0, 195, 0, 0, 0, 128, 57, 0, 0, 206, 7, 0, 0, 196, 0, 0, 0, 192, 57, 0, 0, 216, 7, 0, 0, 149, 0, 0],
     [0, 192, 57, 0, 0, 220, 7, 0, 0, 40, 0, 0, 0, 64, 58, 0, 0, 230, 7, 0, 0, 2, 0, 0, 0, 96, 58],
     [0, 0, 249, 7, 0, 0, 50, 0, 0, 0, 128, 58, 0, 0, 9, 8, 0, 0, 197, 0, 0, 0, 192, 58, 0, 0, 26],
     [8, 0, 0, 201, 0, 0, 0, 0, 60, 0, 0, 40, 8, 0, 0, 40, 0, 0, 0, 64, 60, 0, 0, 55, 8, 0, 0, 202],
     [0, 0, 0, 128, 60, 0, 0, 67, 8, 0, 0, 203, 0, 0, 0, 192, 60, 0, 0, 75, 8, 0, 0, 204, 0, 0, 0, 0],
     [61, 0, 0, 91, 8, 0, 0, 205, 0, 0, 0, 64, 61, 0, 0, 111, 8, 0, 0, 206, 0, 0, 0, 128, 61, 0, 0],
     [55, 1, 0, 0, 3, 0, 0, 4, 24, 0, 0, 0, 206, 0, 0, 0, 36, 0, 0, 0, 0, 0, 0, 0, 0, 0, 0, 0, 37, 0, 0],
     [0, 64, 0, 0, 0, 118, 8, 0, 0, 27, 0, 0, 0, 128, 0, 0, 0, 122, 8, 0, 0, 0, 0, 0, 1, 8, 0, 0, 0],
     [64, 0, 0, 0, 0, 0, 0, 0, 2, 0, 0, 5, 8, 0, 0, 0, 212, 0, 0, 0, 11, 0, 0, 0, 0, 0, 0, 0, 136, 8, 0],
     [0, 38, 0, 0, 0, 0, 0, 0, 0, 0, 0, 0, 0, 2, 0, 0, 4, 8, 0, 0, 0, 144, 8, 0, 0, 27, 0, 0, 0, 0, 0, 0],
     [0, 150, 8, 0, 0, 27, 0, 0, 0, 32, 0, 0, 0, 0, 0, 0, 0, 0, 0, 0, 2, 0, 0, 0, 0, 163, 8, 0, 0, 0, 0, 0],
     [8, 41, 0, 0, 0, 174, 8, 0, 0, 1, 0, 0, 4, 4, 0, 0, 0, 190, 8, 0, 0, 42, 0, 0, 0, 0, 0, 0, 0],
     [195, 8, 0, 0, 0, 0, 0, 8, 43, 0, 0, 0, 0, 0, 0, 0, 1, 0, 0, 4, 4, 0, 0, 0, 204, 8, 0, 0, 2],
     [0, 0, 0, 0, 0, 0, 0, 212, 8, 0, 0, 4, 0, 0, 4, 16, 0, 0, 0, 231, 8, 0, 0, 45, 0, 0, 0, 0, 0, 0, 0],
     [0, 0, 0, 0, 47, 0, 0, 0, 64, 0, 0, 0, 237, 8, 0, 0, 48, 0, 0, 0, 96, 0, 0, 0, 241, 8, 0, 0, 48, 0],
     [0, 0, 112, 0, 0, 0, 245, 8, 0, 0, 1, 0, 0, 4, 8, 0, 0, 0, 0, 9, 0, 0, 46, 0, 0, 0, 0, 0, 0, 0, 0],
     [0, 0, 0, 0, 0, 0, 2, 45, 0, 0, 0, 0, 0, 0, 0, 2, 0, 0, 5, 4, 0, 0, 0, 5, 9, 0, 0, 29, 0, 0, 0],
     [0, 0, 0, 0, 13, 9, 0, 0, 42, 0, 0, 0, 0, 0, 0, 0, 21, 9, 0, 0, 0, 0, 0, 8, 49, 0, 0, 0, 25, 9],
     [0, 0, 0, 0, 0, 8, 25, 0, 0, 0, 0, 0, 0, 0, 0, 0, 0, 2, 34, 0, 0, 0, 31, 9, 0, 0, 18, 0, 0, 4, 0],
     [1, 0, 0, 44, 9, 0, 0, 52, 0, 0, 0, 0, 0, 0, 0, 49, 9, 0, 0, 53, 0, 0, 0, 128, 0, 0, 0, 58, 9],
     [0, 0, 11, 0, 0, 0, 64, 1, 0, 0, 67, 9, 0, 0, 11, 0, 0, 0, 128, 1, 0, 0, 80, 9, 0, 0, 11, 0],
     [0, 0, 192, 1, 0, 0, 90, 9, 0, 0, 55, 0, 0, 0, 0, 2, 0, 0, 192, 1, 0, 0, 26, 0, 0, 0, 128, 2],
     [0, 0, 101, 9, 0, 0, 26, 0, 0, 0, 136, 2, 0, 0, 115, 9, 0, 0, 26, 0, 0, 0, 144, 2, 0, 0, 128],
     [9, 0, 0, 26, 0, 0, 0, 152, 2, 0, 0, 102, 0, 0, 0, 11, 0, 0, 0, 192, 2, 0, 0, 141, 9, 0, 0, 11],
     [0, 0, 0, 0, 3, 0, 0, 158, 9, 0, 0, 11, 0, 0, 0, 64, 3, 0, 0, 180, 9, 0, 0, 11, 0, 0, 0, 128],
     [3, 0, 0, 0, 0, 0, 0, 57, 0, 0, 0, 192, 3, 0, 0, 189, 9, 0, 0, 11, 0, 0, 0, 0, 4, 0, 0, 195, 9],
     [0, 0, 11, 0, 0, 0, 64, 4, 0, 0, 209, 9, 0, 0, 61, 0, 0, 0, 0, 6, 0, 0, 213, 9, 0, 0, 2, 0, 0],
     [4, 16, 0, 0, 0, 225, 9, 0, 0, 36, 0, 0, 0, 0, 0, 0, 0, 232, 9, 0, 0, 27, 0, 0, 0, 64, 0, 0, 0],
     [243, 9, 0, 0, 3, 0, 0, 4, 24, 0, 0, 0, 251, 9, 0, 0, 36, 0, 0, 0, 0, 0, 0, 0, 13, 10, 0, 0],
     [54, 0, 0, 0, 64, 0, 0, 0, 22, 10, 0, 0, 54, 0, 0, 0, 128, 0, 0, 0, 0, 0, 0, 0, 0, 0, 0, 2, 53, 0, 0],
     [0, 30, 10, 0, 0, 2, 0, 0, 4, 16, 0, 0, 0, 0, 9, 0, 0, 56, 0, 0, 0, 0, 0, 0, 0, 40, 10, 0, 0],
     [56, 0, 0, 0, 64, 0, 0, 0, 0, 0, 0, 0, 0, 0, 0, 2, 55, 0, 0, 0, 0, 0, 0, 0, 2, 0, 0, 5, 8, 0, 0, 0],
     [45, 10, 0, 0, 58, 0, 0, 0, 0, 0, 0, 0, 50, 10, 0, 0, 11, 0, 0, 0, 0, 0, 0, 0, 56, 10, 0, 0, 0, 0, 0],
     [8, 59, 0, 0, 0, 60, 10, 0, 0, 0, 0, 0, 8, 60, 0, 0, 0, 66, 10, 0, 0, 0, 0, 0, 1, 8, 0, 0, 0],
     [64, 0, 0, 1, 76, 10, 0, 0, 9, 0, 0, 4, 64, 0, 0, 0, 86, 10, 0, 0, 11, 0, 0, 0, 0, 0, 0, 0],
     [103, 10, 0, 0, 11, 0, 0, 0, 64, 0, 0, 0, 112, 10, 0, 0, 11, 0, 0, 0, 128, 0, 0, 0, 125, 10, 0, 0],
     [27, 0, 0, 0, 192, 0, 0, 0, 134, 10, 0, 0, 27, 0, 0, 0, 224, 0, 0, 0, 149, 10, 0, 0, 36, 0, 0, 0, 0],
     [1, 0, 0, 158, 10, 0, 0, 36, 0, 0, 0, 64, 1, 0, 0, 171, 10, 0, 0, 36, 0, 0, 0, 128, 1, 0, 0],
     [180, 10, 0, 0, 29, 0, 0, 0, 192, 1, 0, 0, 189, 10, 0, 0, 7, 0, 0, 4, 48, 0, 0, 0, 205, 10, 0],
     [0, 55, 0, 0, 0, 0, 0, 0, 0, 214, 10, 0, 0, 36, 0, 0, 0, 128, 0, 0, 0, 222, 10, 0, 0, 36, 0, 0, 0, 192],
     [0, 0, 0, 237, 10, 0, 0, 29, 0, 0, 0, 0, 1, 0, 0, 192, 1, 0, 0, 25, 0, 0, 0, 32, 1, 0, 0, 248],
     [10, 0, 0, 25, 0, 0, 0, 48, 1, 0, 0, 0, 11, 0, 0, 63, 0, 0, 0, 64, 1, 0, 0, 0, 0, 0, 0, 0, 0, 0],
     [2, 62, 0, 0, 0, 5, 11, 0, 0, 22, 0, 0, 132, 232, 0, 0, 0, 243, 9, 0, 0, 53, 0, 0, 0, 0, 0, 0, 0],
     [21, 11, 0, 0, 11, 0, 0, 0, 192, 0, 0, 0, 32, 11, 0, 0, 11, 0, 0, 0, 0, 1, 0, 0, 44, 11, 0, 0],
     [11, 0, 0, 0, 64, 1, 0, 0, 54, 11, 0, 0, 11, 0, 0, 0, 128, 1, 0, 0, 60, 11, 0, 0, 11, 0, 0, 0],
     [192, 1, 0, 0, 71, 11, 0, 0, 58, 0, 0, 0, 0, 2, 0, 0, 58, 9, 0, 0, 11, 0, 0, 0, 64, 2, 0, 0],
     [206, 0, 0, 0, 29, 0, 0, 0, 128, 2, 0, 0, 79, 11, 0, 0, 29, 0, 0, 0, 160, 2, 0, 1, 92, 11, 0],
     [0, 29, 0, 0, 0, 161, 2, 0, 1, 103, 11, 0, 0, 29, 0, 0, 0, 162, 2, 0, 1, 121, 11, 0, 0, 29],
     [0, 0, 0, 163, 2, 0, 1, 248, 1, 0, 0, 29, 0, 0, 0, 164, 2, 0, 1, 132, 11, 0, 0, 29, 0, 0, 0],
     [165, 2, 0, 1, 149, 11, 0, 0, 29, 0, 0, 0, 166, 2, 0, 1, 158, 11, 0, 0, 29, 0, 0, 0, 167],
     [2, 0, 1, 173, 11, 0, 0, 29, 0, 0, 0, 168, 2, 0, 1, 190, 11, 0, 0, 65, 0, 0, 0, 192, 2, 0],
     [0, 199, 11, 0, 0, 65, 0, 0, 0, 192, 4, 0, 0, 214, 11, 0, 0, 75, 0, 0, 0, 192, 6, 0, 0, 217, 11],
     [0, 0, 76, 0, 0, 0, 0, 7, 0, 0, 234, 11, 0, 0, 8, 0, 0, 4, 64, 0, 0, 0, 242, 11, 0, 0, 66, 0, 0],
     [0, 0, 0, 0, 0, 247, 11, 0, 0, 67, 0, 0, 0, 0, 1, 0, 0, 4, 12, 0, 0, 68, 0, 0, 0, 64, 1, 0, 0],
     [13, 12, 0, 0, 72, 0, 0, 0, 128, 1, 0, 0, 18, 12, 0, 0, 73, 0, 0, 0, 192, 1, 0, 0, 24, 12, 0],
     [0, 73, 0, 0, 0, 200, 1, 0, 0, 31, 12, 0, 0, 73, 0, 0, 0, 208, 1, 0, 0, 39, 12, 0, 0, 73, 0, 0],
     [0, 216, 1, 0, 0, 47, 12, 0, 0, 2, 0, 0, 4, 32, 0, 0, 0, 242, 11, 0, 0, 53, 0, 0, 0, 0, 0, 0, 0],
     [63, 12, 0, 0, 67, 0, 0, 0, 192, 0, 0, 0, 71, 12, 0, 0, 0, 0, 0, 8, 58, 0, 0, 0, 0, 0, 0, 0, 0, 0, 0],
     [2, 69, 0, 0, 0, 0, 0, 0, 0, 1, 0, 0, 13, 70, 0, 0, 0, 0, 0, 0, 0, 71, 0, 0, 0, 79, 12, 0, 0, 2]]"

definition bootstrap_elf_10_b :: "byte list" where
  "bootstrap_elf_10_b =
    concat
    [[0, 0, 6, 4, 0, 0, 0, 95, 12, 0, 0, 0, 0, 0, 0, 113, 12, 0, 0, 1, 0, 0, 0, 0, 0, 0, 0, 0, 0, 0, 2],
     [65, 0, 0, 0, 0, 0, 0, 0, 0, 0, 0, 2, 67, 1, 0, 0, 129, 12, 0, 0, 0, 0, 0, 8, 74, 0, 0, 0, 132],
     [12, 0, 0, 0, 0, 0, 8, 26, 0, 0, 0, 0, 0, 0, 0, 0, 0, 0, 2, 66, 1, 0, 0, 137, 12, 0, 0, 0, 0, 0],
     [8, 77, 0, 0, 0, 0, 0, 0, 0, 0, 0, 0, 2, 78, 0, 0, 0, 0, 0, 0, 0, 1, 0, 0, 13, 50, 0, 0, 0, 0, 0, 0],
     [0, 79, 0, 0, 0, 0, 0, 0, 0, 0, 0, 0, 2, 64, 0, 0, 0, 0, 0, 0, 0, 0, 0, 0, 2, 81, 0, 0, 0, 0, 0, 0, 0, 0],
     [0, 0, 10, 95, 1, 0, 0, 154, 12, 0, 0, 0, 0, 0, 4, 0, 0, 0, 0, 0, 0, 0, 0, 0, 0, 0, 2, 84, 0, 0, 0],
     [0, 0, 0, 0, 0, 0, 0, 10, 85, 0, 0, 0, 171, 12, 0, 0, 0, 0, 0, 8, 87, 0, 0, 0, 0, 0, 0, 0, 0, 0, 0, 2],
     [85, 0, 0, 0, 181, 12, 0, 0, 1, 0, 0, 4, 64, 0, 0, 0, 189, 12, 0, 0, 88, 0, 0, 0, 0, 0, 0, 0, 0, 0],
     [0, 0, 0, 0, 0, 3, 0, 0, 0, 0, 36, 0, 0, 0, 4, 0, 0, 0, 8, 0, 0, 0, 194, 12, 0, 0, 2, 0, 0, 5],
     [4, 0, 0, 0, 206, 12, 0, 0, 90, 0, 0, 0, 0, 0, 0, 0, 208, 12, 0, 0, 27, 0, 0, 0, 0, 0, 0, 0, 0, 0, 0, 0],
     [4, 0, 0, 4, 4, 0, 0, 0, 132, 5, 0, 0, 73, 0, 0, 0, 0, 0, 0, 0, 210, 12, 0, 0, 73, 0, 0, 0, 8],
     [0, 0, 0, 218, 12, 0, 0, 73, 0, 0, 0, 16, 0, 0, 0, 227, 12, 0, 0, 73, 0, 0, 0, 24, 0, 0, 0, 247, 2],
     [0, 0, 0, 0, 0, 4, 0, 0, 0, 0, 235, 12, 0, 0, 3, 0, 0, 4, 40, 0, 0, 0, 198, 1, 0, 0, 2, 0, 0, 0],
     [0, 0, 0, 0, 246, 12, 0, 0, 55, 0, 0, 0, 64, 0, 0, 0, 0, 13, 0, 0, 55, 0, 0, 0, 192, 0, 0, 0, 0, 0, 0, 0],
     [0, 0, 0, 2, 69, 1, 0, 0, 0, 0, 0, 0, 0, 0, 0, 2, 68, 1, 0, 0, 33, 4, 0, 0, 3, 0, 0, 4],
     [56, 0, 0, 0, 10, 13, 0, 0, 36, 0, 0, 0, 0, 0, 0, 0, 20, 13, 0, 0, 96, 0, 0, 0, 64, 0, 0, 0, 0, 0, 0],
     [0, 100, 0, 0, 0, 128, 0, 0, 0, 0, 0, 0, 0, 0, 0, 0, 2, 97, 0, 0, 0, 0, 0, 0, 0, 1, 0, 0, 13, 98, 0, 0],
     [0, 0, 0, 0, 0, 99, 0, 0, 0, 23, 13, 0, 0, 0, 0, 0, 1, 8, 0, 0, 0, 64, 0, 0, 1, 0, 0, 0, 0, 0, 0, 0],
     [2, 95, 0, 0, 0, 0, 0, 0, 0, 3, 0, 0, 5, 40, 0, 0, 0, 28, 13, 0, 0, 101, 0, 0, 0, 0, 0, 0, 0, 34],
     [13, 0, 0, 103, 0, 0, 0, 0, 0, 0, 0, 44, 13, 0, 0, 110, 0, 0, 0, 0, 0, 0, 0, 0, 0, 0, 0, 6, 0, 0, 4],
     [40, 0, 0, 0, 49, 13, 0, 0, 102, 0, 0, 0, 0, 0, 0, 0, 55, 13, 0, 0, 27, 0, 0, 0, 64, 0, 0, 0, 206, 0],
     [0, 0, 27, 0, 0, 0, 96, 0, 0, 0, 59, 13, 0, 0, 27, 0, 0, 0, 128, 0, 0, 0, 66, 13, 0, 0, 11, 0, 0, 0],
     [192, 0, 0, 0, 71, 13, 0, 0, 102, 0, 0, 0, 0, 1, 0, 0, 0, 0, 0, 0, 0, 0, 0, 2, 27, 0, 0, 0, 0, 0, 0, 0],
     [4, 0, 0, 4, 24, 0, 0, 0, 78, 13, 0, 0, 104, 0, 0, 0, 0, 0, 0, 0, 75, 0, 0, 0, 106, 0, 0, 0, 32, 0],
     [0, 0, 0, 0, 0, 0, 107, 0, 0, 0, 64, 0, 0, 0, 63, 12, 0, 0, 11, 0, 0, 0, 128, 0, 0, 0, 86, 13, 0, 0, 0],
     [0, 0, 8, 105, 0, 0, 0, 96, 13, 0, 0, 0, 0, 0, 8, 2, 0, 0, 0, 115, 13, 0, 0, 3, 0, 0, 6, 4],
     [0, 0, 0, 129, 13, 0, 0, 0, 0, 0, 0, 137, 13, 0, 0, 1, 0, 0, 0, 147, 13, 0, 0, 2, 0, 0, 0, 0, 0, 0, 0],
     [2, 0, 0, 5, 8, 0, 0, 0, 157, 13, 0, 0, 108, 0, 0, 0, 0, 0, 0, 0, 162, 13, 0, 0, 109, 0, 0, 0, 0, 0],
     [0, 0, 0, 0, 0, 0, 0, 0, 0, 2, 96, 1, 0, 0, 0, 0, 0, 0, 0, 0, 0, 2, 97, 1, 0, 0, 0, 0, 0, 0, 5, 0],
     [0, 4, 32, 0, 0, 0, 174, 13, 0, 0, 111, 0, 0, 0, 0, 0, 0, 0, 179, 13, 0, 0, 2, 0, 0, 0, 64, 0, 0, 0],
     [184, 13, 0, 0, 2, 0, 0, 0, 96, 0, 0, 0, 196, 13, 0, 0, 36, 0, 0, 0, 128, 0, 0, 0, 203, 13, 0, 0],
     [36, 0, 0, 0, 192, 0, 0, 0, 0, 0, 0, 0, 0, 0, 0, 2, 98, 1, 0, 0, 0, 0, 0, 0, 0, 0, 0, 2, 79, 1, 0],
     [0, 211, 13, 0, 0, 2, 0, 0, 4, 16, 0, 0, 0, 0, 9, 0, 0, 114, 0, 0, 0, 0, 0, 0, 0, 222, 13, 0, 0],
     [115, 0, 0, 0, 64, 0, 0, 0, 0, 0, 0, 0, 0, 0, 0, 2, 113, 0, 0, 0, 0, 0, 0, 0, 0, 0, 0, 2, 114, 0, 0, 0, 0],
     [0, 0, 0, 0, 0, 0, 3, 0, 0, 0, 0, 113, 0, 0, 0, 4, 0, 0, 0, 4, 0, 0, 0, 0, 0, 0, 0, 0, 0, 0, 2, 64],
     [1, 0, 0, 0, 0, 0, 0, 0, 0, 0, 2, 2, 0, 0, 0, 229, 4, 0, 0, 3, 0, 0, 4, 24, 0, 0, 0, 211, 4],
     [0, 0, 11, 0, 0, 0, 0, 0, 0, 0, 217, 4, 0, 0, 11, 0, 0, 0, 64, 0, 0, 0, 228, 13, 0, 0, 120, 0, 0, 0],
     [128, 0, 0, 0, 233, 13, 0, 0, 0, 0, 0, 8, 121, 0, 0, 0, 248, 13, 0, 0, 1, 0, 0, 4, 4, 0, 0, 0],
     [5, 14, 0, 0, 122, 0, 0, 0, 0, 0, 0, 0, 14, 14, 0, 0, 0, 0, 0, 8, 123, 0, 0, 0, 30, 14, 0, 0, 1],
     [0, 0, 4, 4, 0, 0, 0, 0, 0, 0, 0, 124, 0, 0, 0, 0, 0, 0, 0, 0, 0, 0, 0, 3, 0, 0, 5, 4, 0, 0, 0, 55],
     [13, 0, 0, 42, 0, 0, 0, 0, 0, 0, 0, 0, 0, 0, 0, 125, 0, 0, 0, 0, 0, 0, 0, 0, 0, 0, 0, 126, 0, 0, 0, 0, 0, 0, 0],
     [0, 0, 0, 0, 2, 0, 0, 4, 2, 0, 0, 0, 40, 14, 0, 0, 73, 0, 0, 0, 0, 0, 0, 0, 167, 5, 0, 0, 73, 0],
     [0, 0, 8, 0, 0, 0, 0, 0, 0, 0, 2, 0, 0, 4, 4, 0, 0, 0, 47, 14, 0, 0, 48, 0, 0, 0, 0, 0, 0, 0, 62],
     [14, 0, 0, 48, 0, 0, 0, 16, 0, 0, 0, 41, 5, 0, 0, 0, 0, 0, 4, 0, 0, 0, 0, 0, 0, 0, 0, 0, 0, 0, 2],
     [129, 0, 0, 0, 0, 0, 0, 0, 0, 0, 0, 10, 130, 0, 0, 0, 80, 5, 0, 0, 20, 0, 0, 4, 136, 0, 0, 0, 93],
     [1, 0, 0, 131, 0, 0, 0, 0, 0, 0, 0, 67, 14, 0, 0, 134, 0, 0, 0, 64, 0, 0, 0, 71, 14, 0, 0, 138, 0, 0],
     [0, 96, 0, 0, 0, 75, 14, 0, 0, 134, 0, 0, 0, 128, 0, 0, 0, 80, 14, 0, 0, 138, 0, 0, 0, 160, 0, 0, 0],
     [85, 14, 0, 0, 134, 0, 0, 0, 192, 0, 0, 0, 90, 14, 0, 0, 138, 0, 0, 0, 224, 0, 0, 0, 95, 14, 0, 0],
     [134, 0, 0, 0, 0, 1, 0, 0, 101, 14, 0, 0, 138, 0, 0, 0, 32, 1, 0, 0, 107, 14, 0, 0, 29, 0, 0, 0],
     [64, 1, 0, 0, 118, 14, 0, 0, 142, 0, 0, 0, 128, 1, 0, 0, 134, 14, 0, 0, 142, 0, 0, 0, 192, 1, 0],
     [0, 148, 14, 0, 0, 142, 0, 0, 0, 0, 2, 0, 0, 162, 14, 0, 0, 142, 0, 0, 0, 64, 2, 0, 0, 171, 14, 0],
     [0, 142, 0, 0, 0, 128, 2, 0, 0, 183, 14, 0, 0, 144, 0, 0, 0, 192, 2, 0, 0, 188, 14, 0, 0, 145, 0, 0],
     [0, 0, 3, 0, 0, 196, 14, 0, 0, 146, 0, 0, 0, 64, 3, 0, 0, 204, 14, 0, 0, 147, 0, 0, 0, 128, 3, 0],
     [0, 0, 0, 0, 0, 148, 0, 0, 0, 192, 3, 0, 0, 215, 14, 0, 0, 0, 0, 0, 8, 132, 0, 0, 0, 229, 14, 0, 0, 0],
     [0, 0, 8, 133, 0, 0, 0, 0, 0, 0, 0, 1, 0, 0, 4, 8, 0, 0, 0, 204, 8, 0, 0, 58, 0, 0, 0, 0, 0, 0, 0],
     [240, 14, 0, 0, 0, 0, 0, 8, 135, 0, 0, 0, 0, 0, 0, 0, 1, 0, 0, 4, 4, 0, 0, 0, 55, 13, 0, 0, 136],
     [0, 0, 0, 0, 0, 0, 0, 247, 14, 0, 0, 0, 0, 0, 8, 137, 0, 0, 0, 253, 14, 0, 0, 0, 0, 0, 8, 29, 0, 0, 0],
     [14, 15, 0, 0, 0, 0, 0, 8, 139, 0, 0, 0, 0, 0, 0, 0, 1, 0, 0, 4, 4, 0, 0, 0, 55, 13, 0, 0, 140],
     [0, 0, 0, 0, 0, 0, 0, 21, 15, 0, 0, 0, 0, 0, 8, 141, 0, 0, 0, 27, 15, 0, 0, 0, 0, 0, 8, 29, 0, 0, 0],
     [44, 15, 0, 0, 0, 0, 0, 8, 143, 0, 0, 0, 0, 0, 0, 0, 1, 0, 0, 4, 8, 0, 0, 0, 55, 13, 0, 0, 11],
     [0, 0, 0, 0, 0, 0, 0, 0, 0, 0, 0, 0, 0, 0, 2, 77, 1, 0, 0, 0, 0, 0, 0, 0, 0, 0, 2, 70, 1, 0, 0, 0, 0],
     [0, 0, 0, 0, 0, 2, 72, 1, 0, 0, 0, 0, 0, 0, 0, 0, 0, 2, 81, 1, 0, 0, 0, 0, 0, 0, 2, 0, 0, 5],
     [16, 0, 0, 0, 57, 15, 0, 0, 2, 0, 0, 0, 0, 0, 0, 0, 216, 7, 0, 0, 149, 0, 0, 0, 0, 0, 0, 0, 65, 15],
     [0, 0, 2, 0, 0, 4, 16, 0, 0, 0, 0, 9, 0, 0, 150, 0, 0, 0, 0, 0, 0, 0, 79, 15, 0, 0, 151, 0, 0, 0],
     [64, 0, 0, 0, 0, 0, 0, 0, 0, 0, 0, 2, 149, 0, 0, 0, 0, 0, 0, 0, 0, 0, 0, 2, 152, 0, 0, 0, 0, 0, 0, 0, 1],
     [0, 0, 13, 0, 0, 0, 0, 0, 0, 0, 0, 150, 0, 0, 0, 0, 0, 0, 0, 0, 0, 0, 3, 0, 0, 0, 0, 30, 0, 0, 0, 4, 0, 0],
     [0, 16, 0, 0, 0, 0, 0, 0, 0, 0, 0, 0, 2, 99, 1, 0, 0, 0, 0, 0, 0, 0, 0, 0, 2, 80, 1, 0, 0, 0, 0, 0],
     [0, 0, 0, 0, 2, 100, 1, 0, 0, 0, 0, 0, 0, 0, 0, 0, 2, 71, 1, 0, 0, 0, 0, 0, 0, 0, 0, 0, 2, 101],
     [1, 0, 0, 0, 0, 0, 0, 0, 0, 0, 2, 102, 1, 0, 0, 84, 15, 0, 0, 0, 0, 0, 8, 161, 0, 0, 0, 0, 0, 0, 0],
     [1, 0, 0, 4, 8, 0, 0, 0, 93, 15, 0, 0, 162, 0, 0, 0, 0, 0, 0, 0, 0, 0, 0, 0, 0, 0, 0, 3, 0, 0, 0, 0],
     [36, 0, 0, 0, 4, 0, 0, 0, 1, 0, 0, 0, 97, 15, 0, 0, 2, 0, 0, 4, 24, 0, 0, 0, 108, 15, 0, 0],
     [55, 0, 0, 0, 0, 0, 0, 0, 117, 5, 0, 0, 160, 0, 0, 0, 128, 0, 0, 0, 113, 15, 0, 0, 0, 0, 0, 8, 165, 0],
     [0, 0, 120, 15, 0, 0, 0, 0, 0, 8, 166, 0, 0, 0, 136, 15, 0, 0, 0, 0, 0, 8, 36, 0, 0, 0, 221, 5, 0],
     [0, 0, 0, 0, 4, 0, 0, 0, 0, 153, 15, 0, 0, 0, 0, 0, 4, 0, 0, 0, 0, 175, 15, 0, 0, 0, 0, 0, 8, 170, 0],
     [0, 0, 186, 15, 0, 0, 1, 0, 0, 4, 4, 0, 0, 0, 0, 0, 0, 0, 171, 0, 0, 0, 0, 0, 0, 0, 0, 0, 0, 0, 1, 0],
     [0, 5, 4, 0, 0, 0, 195, 15, 0, 0, 121, 0, 0, 0, 0, 0, 0, 0, 201, 15, 0, 0, 1, 0, 0, 4, 8, 0, 0],
     [0, 0, 9, 0, 0, 173, 0, 0, 0, 0, 0, 0, 0, 0, 0, 0, 0, 0, 0, 0, 2, 172, 0, 0, 0, 0, 0, 0, 0, 0, 0, 0, 2],
     [184, 0, 0, 0, 0, 0, 0, 0, 0, 0, 0, 2, 85, 1, 0, 0, 0, 0, 0, 0, 0, 0, 0, 2, 103, 1, 0, 0, 0, 0, 0, 0],
     [0, 0, 0, 2, 104, 1, 0, 0, 0, 0, 0, 0, 0, 0, 0, 2, 105, 1, 0, 0, 0, 0, 0, 0, 0, 0, 0, 2, 180, 0, 0],
     [0, 213, 15, 0, 0, 0, 0, 0, 8, 106, 1, 0, 0, 230, 15, 0, 0, 0, 0, 0, 4, 0, 0, 0, 0, 0, 0, 0, 0, 0, 0],
     [0, 3, 0, 0, 0, 0, 73, 0, 0, 0, 4, 0, 0, 0, 4, 0, 0, 0, 0, 0, 0, 0, 0, 0, 0, 2, 90, 1, 0, 0, 249],
     [15, 0, 0, 4, 0, 0, 4, 32, 0, 0, 0, 255, 15, 0, 0, 131, 0, 0, 0, 0, 0, 0, 0, 5, 16, 0, 0, 120, 0],
     [0, 0, 64, 0, 0, 0, 15, 16, 0, 0, 185, 0, 0, 0, 96, 0, 0, 0, 19, 16, 0, 0, 55, 0, 0, 0, 128, 0, 0, 0],
     [29, 16, 0, 0, 1, 0, 0, 4, 4, 0, 0, 0, 62, 14, 0, 0, 42, 0, 0, 0, 0, 0, 0, 0, 0, 0, 0, 0, 0, 0, 0],
     [2, 107, 1, 0, 0, 51, 16, 0, 0, 3, 0, 0, 4, 2, 0, 0, 0, 72, 16, 0, 0, 188, 0, 0, 0, 0, 0, 0],
     [0, 77, 16, 0, 0, 189, 0, 0, 0, 0, 0, 0, 0, 92, 16, 0, 0, 189, 0, 0, 0, 8, 0, 0, 0, 101, 16, 0, 0, 0],
     [0, 0, 4, 0, 0, 0, 0, 127, 16, 0, 0, 0, 0, 0, 8, 190, 0, 0, 0, 132, 16, 0, 0, 0, 0, 0, 1, 1, 0, 0],
     [0, 8, 0, 0, 4, 0, 0, 0, 0, 0, 0, 0, 2, 83, 1, 0, 0, 138, 16, 0, 0, 3, 0, 0, 4, 16, 0, 0, 0],
     [148, 16, 0, 0, 193, 0, 0, 0, 0, 0, 0, 0, 153, 16, 0, 0, 28, 0, 0, 0, 64, 0, 0, 0, 160, 16, 0, 0, 28],
     [0, 0, 0, 96, 0, 0, 0, 0, 0, 0, 0, 0, 0, 0, 2, 65, 1, 0, 0, 0, 0, 0, 0, 0, 0, 0, 2, 36, 0, 0, 0, 0, 0],
     [0, 0, 0, 0, 0, 2, 108, 1, 0, 0, 206, 7, 0, 0, 0, 0, 0, 4, 0, 0, 0, 0, 165, 16, 0, 0, 4, 0, 0],
     [4, 40, 0, 0, 0, 176, 16, 0, 0, 113, 0, 0, 0, 0, 0, 0, 0, 63, 12, 0, 0, 36, 0, 0, 0, 128, 0, 0, 0],
     [4, 12, 0, 0, 198, 0, 0, 0, 192, 0, 0, 0, 206, 0, 0, 0, 27, 0, 0, 0, 0, 1, 0, 0, 0, 0, 0, 0, 0, 0, 0],
     [2, 199, 0, 0, 0, 0, 0, 0, 0, 1, 0, 0, 13, 0, 0, 0, 0, 0, 0, 0, 0, 200, 0, 0, 0, 0, 0, 0, 0, 0, 0, 0, 2],
     [197, 0, 0, 0, 0, 0, 0, 0, 0, 0, 0, 2, 76, 1, 0, 0, 0, 0, 0, 0, 0, 0, 0, 2, 74, 1, 0, 0, 0, 0, 0, 0],
     [0, 0, 0, 2, 109, 1, 0, 0, 0, 0, 0, 0, 0, 0, 0, 2, 110, 1, 0, 0, 182, 16, 0, 0, 1, 0, 0, 4],
     [8, 0, 0, 0, 193, 16, 0, 0, 46, 0, 0, 0, 0, 0, 0, 0, 199, 16, 0, 0, 17, 0, 0, 4, 48, 6, 0, 0],
     [213, 16, 0, 0, 207, 0, 0, 0, 0, 0, 0, 0, 225, 16, 0, 0, 208, 0, 0, 0, 128, 3, 0, 0, 228, 16, 0, 0],
     [213, 0, 0, 0, 0, 21, 0, 0, 236, 16, 0, 0, 29, 0, 0, 0, 32, 21, 0, 0, 247, 16, 0, 0, 39, 0, 0, 0],
     [64, 21, 0, 0, 1, 17, 0, 0, 39, 0, 0, 0, 128, 21, 0, 0, 11, 17, 0, 0, 214, 0, 0, 0, 192, 21, 0],
     [0, 14, 17, 0, 0, 214, 0, 0, 0, 0, 22, 0, 0, 24, 17, 0, 0, 36, 0, 0, 0, 64, 22, 0, 0, 38, 17, 0],
     [0, 36, 0, 0, 0, 128, 22, 0, 0, 49, 17, 0, 0, 215, 0, 0, 0, 192, 22, 0, 0, 55, 17, 0, 0, 209, 0, 0],
     [0, 128, 31, 0, 0, 75, 17, 0, 0, 29, 0, 0, 0, 0, 48, 0, 0, 93, 17, 0, 0, 11, 0, 0, 0, 64, 48, 0],
     [0, 104, 17, 0, 0, 11, 0, 0, 0, 128, 48, 0, 0, 109, 17, 0, 0, 11, 0, 0, 0, 192, 48, 0, 0, 120, 17],
     [0, 0, 11, 0, 0, 0, 0, 49, 0, 0, 213, 16, 0, 0, 13, 0, 0, 4, 104, 0, 0, 0, 128, 17, 0, 0, 36, 0, 0],
     [0, 0, 0, 0, 0, 132, 17, 0, 0, 36, 0, 0, 0, 64, 0, 0, 0, 136, 17, 0, 0, 36, 0, 0, 0, 128, 0, 0, 0, 140],
     [17, 0, 0, 36, 0, 0, 0, 192, 0, 0, 0, 144, 17, 0, 0, 36, 0, 0, 0, 0, 1, 0, 0, 148, 17, 0, 0, 36, 0],
     [0, 0, 64, 1, 0, 0, 152, 17, 0, 0, 36, 0, 0, 0, 128, 1, 0, 0, 156, 17, 0, 0, 36, 0, 0, 0, 192],
     [1, 0, 0, 160, 17, 0, 0, 36, 0, 0, 0, 0, 2, 0, 0, 164, 17, 0, 0, 36, 0, 0, 0, 64, 2, 0, 0, 168],
     [17, 0, 0, 36, 0, 0, 0, 128, 2, 0, 0, 171, 17, 0, 0, 36, 0, 0, 0, 192, 2, 0, 0, 174, 17, 0, 0],
     [36, 0, 0, 0, 0, 3, 0, 0, 0, 0, 0, 0, 5, 0, 0, 4, 48, 2, 0, 0, 177, 17, 0, 0, 36, 0, 0, 0, 0, 0],
     [0, 0, 186, 17, 0, 0, 36, 0, 0, 0, 64, 0, 0, 0, 196, 17, 0, 0, 11, 0, 0, 0, 128, 0, 0, 0, 201, 17, 0],
     [0, 36, 0, 0, 0, 192, 0, 0, 0, 205, 17, 0, 0, 209, 0, 0, 0, 0, 1, 0, 0, 218, 17, 0, 0, 4, 0, 0, 4],
     [16, 2, 0, 0, 236, 17, 0, 0, 211, 0, 0, 0, 0, 0, 0, 0, 242, 17, 0, 0, 28, 0, 0, 0, 0, 16, 0, 0, 247],
     [17, 0, 0, 28, 0, 0, 0, 32, 16, 0, 0, 252, 17, 0, 0, 212, 0, 0, 0, 64, 16, 0, 0, 7, 18, 0, 0, 0],
     [0, 0, 1, 16, 0, 0, 0, 128, 0, 0, 0, 0, 0, 0, 0, 0, 0, 0, 3, 0, 0, 0, 0, 210, 0, 0, 0, 4, 0, 0, 0, 32],
     [0, 0, 0, 0, 0, 0, 0, 0, 0, 0, 3, 0, 0, 0, 0, 28, 0, 0, 0, 4, 0, 0, 0, 2, 0, 0, 0, 228, 16, 0, 0, 3],
     [0, 0, 6, 4, 0, 0, 0, 25, 18, 0, 0, 0, 0, 0, 0, 42, 18, 0, 0, 1, 0, 0, 0, 58, 18, 0, 0, 2, 0],
     [0, 0, 0, 0, 0, 0, 0, 0, 0, 3, 0, 0, 0, 0, 29, 0, 0, 0, 4, 0, 0, 0, 2, 0, 0, 0, 71, 18, 0, 0, 5, 0],
     [0, 4, 16, 1, 0, 0, 82, 18, 0, 0, 2, 0, 0, 0, 0, 0, 0, 0, 97, 18, 0, 0, 2, 0, 0, 0, 32, 0, 0],
     [0, 110, 18, 0, 0, 2, 0, 0, 0, 64, 0, 0, 0, 123, 18, 0, 0, 54, 1, 0, 0, 128, 0, 0, 0, 133, 18, 0],
     [0, 54, 1, 0, 0, 128, 4, 0, 0, 0, 0, 0, 0, 0, 0, 0, 2, 217, 0, 0, 0, 143, 18, 0, 0, 76, 0, 0, 4],
     [40, 5, 0, 0, 154, 18, 0, 0, 55, 0, 0, 0, 0, 0, 0, 0, 166, 18, 0, 0, 55, 0, 0, 0, 128, 0, 0, 0, 179],
     [18, 0, 0, 55, 0, 0, 0, 0, 1, 0, 0, 90, 9, 0, 0, 53, 0, 0, 0, 128, 1, 0, 0, 191, 18, 0, 0, 11],
     [0, 0, 0, 64, 2, 0, 0, 203, 18, 0, 0, 55, 0, 0, 0, 128, 2, 0, 0, 217, 18, 0, 0, 113, 0, 0, 0, 0],
     [3, 0, 0, 229, 18, 0, 0, 55, 0, 0, 0, 128, 3, 0, 0, 242, 18, 0, 0, 2, 0, 0, 0, 0, 4, 0, 0, 254],
     [18, 0, 0, 2, 0, 0, 0, 32, 4, 0, 0, 9, 19, 0, 0, 2, 0, 0, 0, 64, 4, 0, 0, 20, 19, 0, 0],
     [29, 0, 0, 0, 96, 4, 0, 0, 88, 4, 0, 0, 216, 0, 0, 0, 128, 4, 0, 0, 37, 19, 0, 0, 218, 0, 0, 0],
     [192, 4, 0, 0, 41, 19, 0, 0, 39, 0, 0, 0, 0, 5, 0, 0, 18, 12, 0, 0, 219, 0, 0, 0, 64, 5, 0, 0],
     [53, 19, 0, 0, 29, 0, 0, 0, 96, 5, 0, 0, 144, 8, 0, 0, 220, 0, 0, 0, 128, 5, 0, 0, 66, 19, 0],
     [0, 132, 0, 0, 0, 192, 5, 0, 0, 78, 19, 0, 0, 11, 0, 0, 0, 0, 6, 0, 0, 97, 19, 0, 0, 11, 0, 0, 0],
     [64, 6, 0, 0, 116, 19, 0, 0, 11, 0, 0, 0, 128, 6, 0, 0, 123, 19, 0, 0, 224, 0, 0, 0, 192, 6, 0],
     [0, 128, 19, 0, 0, 48, 0, 0, 0, 0, 11, 0, 0, 140, 19, 0, 0, 48, 0, 0, 0, 16, 11, 0, 0, 155, 19, 0],
     [0, 48, 0, 0, 0, 32, 11, 0, 0, 165, 19, 0, 0, 232, 0, 0, 0, 64, 11, 0, 0, 27, 1, 0, 0, 183, 0, 0],
     [0, 192, 17, 0, 0, 168, 19, 0, 0, 251, 0, 0, 0, 0, 18, 0, 0, 176, 19, 0, 0, 131, 0, 0, 0, 64, 18, 0],
     [0, 185, 19, 0, 0, 132, 0, 0, 0, 128, 18, 0, 0, 210, 19, 0, 0, 132, 0, 0, 0, 192, 18, 0, 0, 235, 19],
     [0, 0, 184, 0, 0, 0, 0, 19, 0, 0, 247, 19, 0, 0, 55, 0, 0, 0, 0, 20, 0, 0, 64, 4, 0, 0, 216, 0, 0, 0],
     [128, 20, 0, 0, 2, 20, 0, 0, 2, 0, 0, 0, 192, 20, 0, 0, 118, 8, 0, 0, 2, 0, 0, 0, 224, 20, 0],
     [0, 8, 20, 0, 0, 55, 0, 0, 0, 0, 21, 0, 0, 255, 15, 0, 0, 50, 0, 0, 0, 128, 21, 0, 0, 20, 20, 0],
     [0, 184, 0, 0, 0, 192, 21, 0, 0, 31, 20, 0, 0, 40, 0, 0, 0, 192, 22, 0, 0, 113, 0, 0, 0, 252, 0, 0, 0],
     [0, 23, 0, 0, 42, 20, 0, 0, 55, 0, 0, 0, 64, 23, 0, 0, 51, 20, 0, 0, 36, 0, 0, 0, 192, 23, 0, 0],
     [63, 20, 0, 0, 2, 0, 0, 0, 0, 24, 0, 0, 75, 20, 0, 0, 253, 0, 0, 0, 64, 24, 0, 0, 81, 20, 0, 0],
     [255, 0, 0, 0, 0, 25, 0, 0, 88, 20, 0, 0, 29, 0, 0, 0, 64, 25, 0, 0, 103, 20, 0, 0, 29, 0, 0, 0],
     [96, 25, 0, 0, 116, 20, 0, 0, 29, 0, 0, 0, 128, 25, 0, 0, 132, 20, 0, 0, 36, 0, 0, 0, 192, 25, 0],
     [0, 145, 20, 0, 0, 0, 1, 0, 0, 0, 26, 0, 0, 157, 20, 0, 0, 0, 1, 0, 0, 0, 27, 0, 0, 177, 20, 0, 0]]"

definition bootstrap_elf_10_c :: "byte list" where
  "bootstrap_elf_10_c =
    concat
    [[149, 0, 0, 0, 0, 28, 0, 0, 190, 20, 0, 0, 29, 0, 0, 0, 128, 28, 0, 0, 203, 20, 0, 0, 42, 0, 0, 0],
     [160, 28, 0, 0, 215, 20, 0, 0, 5, 1, 0, 0, 192, 28, 0, 0, 228, 20, 0, 0, 6, 1, 0, 0, 128],
     [29, 0, 0, 247, 20, 0, 0, 36, 0, 0, 0, 192, 29, 0, 0, 8, 21, 0, 0, 216, 0, 0, 0, 0, 30, 0, 0, 18],
     [21, 0, 0, 7, 1, 0, 0, 64, 30, 0, 0, 65, 15, 0, 0, 149, 0, 0, 0, 128, 30, 0, 0, 26, 21, 0, 0],
     [9, 1, 0, 0, 0, 31, 0, 0, 29, 21, 0, 0, 11, 0, 0, 0, 64, 31, 0, 0, 32, 21, 0, 0, 132, 0, 0, 0],
     [128, 31, 0, 0, 45, 21, 0, 0, 10, 1, 0, 0, 192, 31, 0, 0, 51, 21, 0, 0, 12, 1, 0, 0, 0, 32],
     [0, 0, 68, 21, 0, 0, 39, 0, 0, 0, 64, 32, 0, 0, 93, 21, 0, 0, 37, 1, 0, 0, 128, 32, 0, 0, 98],
     [21, 0, 0, 11, 0, 0, 0, 192, 32, 0, 0, 109, 21, 0, 0, 38, 1, 0, 0, 0, 33, 0, 0, 118, 21, 0, 0],
     [39, 1, 0, 0, 64, 33, 0, 0, 125, 21, 0, 0, 40, 1, 0, 0, 128, 33, 0, 0, 136, 21, 0, 0, 55, 0],
     [0, 0, 0, 40, 0, 0, 144, 21, 0, 0, 55, 0, 0, 0, 128, 40, 0, 0, 153, 21, 0, 0, 27, 0, 0, 0, 0, 41, 0],
     [0, 0, 0, 0, 0, 0, 0, 0, 2, 88, 1, 0, 0, 163, 21, 0, 0, 7, 0, 0, 134, 4, 0, 0, 0, 180, 21, 0, 0],
     [251, 255, 255, 255, 202, 21, 0, 0, 252, 255, 255, 255, 227, 21, 0, 0, 253, 255, 255, 255, 249],
     [21, 0, 0, 254, 255, 255, 255, 16, 22, 0, 0, 255, 255, 255, 255, 37, 22, 0, 0, 0, 0, 0, 0, 63],
     [22, 0, 0, 1, 0, 0, 0, 87, 22, 0, 0, 0, 0, 0, 8, 221, 0, 0, 0, 0, 0, 0, 0, 1, 0, 0, 4, 8, 0, 0],
     [0, 97, 22, 0, 0, 222, 0, 0, 0, 0, 0, 0, 0, 99, 22, 0, 0, 0, 0, 0, 8, 223, 0, 0, 0, 0, 0, 0, 0, 1, 0],
     [0, 4, 8, 0, 0, 0, 97, 22, 0, 0, 131, 0, 0, 0, 0, 0, 0, 0, 107, 22, 0, 0, 60, 0, 0, 132, 136, 0, 0],
     [0, 75, 0, 0, 0, 28, 0, 0, 0, 0, 0, 0, 0, 160, 16, 0, 0, 28, 0, 0, 0, 32, 0, 0, 0, 123, 22, 0, 0, 12],
     [0, 0, 0, 64, 0, 0, 0, 0, 0, 0, 0, 225, 0, 0, 0, 128, 0, 0, 0, 130, 22, 0, 0, 12, 0, 0, 0, 192, 0, 0, 0],
     [142, 22, 0, 0, 12, 0, 0, 0, 0, 1, 0, 0, 154, 22, 0, 0, 12, 0, 0, 0, 64, 1, 0, 1, 163, 22, 0],
     [0, 12, 0, 0, 0, 65, 1, 0, 1, 171, 22, 0, 0, 12, 0, 0, 0, 66, 1, 0, 1, 178, 22, 0, 0, 12],
     [0, 0, 0, 67, 1, 0, 1, 188, 22, 0, 0, 12, 0, 0, 0, 68, 1, 0, 1, 201, 22, 0, 0, 12, 0, 0, 0],
     [69, 1, 0, 1, 216, 22, 0, 0, 12, 0, 0, 0, 70, 1, 0, 1, 227, 22, 0, 0, 12, 0, 0, 0, 71],
     [1, 0, 1, 240, 22, 0, 0, 12, 0, 0, 0, 72, 1, 0, 1, 85, 5, 0, 0, 12, 0, 0, 0, 73, 1, 0],
     [1, 245, 22, 0, 0, 12, 0, 0, 0, 74, 1, 0, 1, 250, 22, 0, 0, 12, 0, 0, 0, 75, 1, 0, 1],
     [7, 23, 0, 0, 12, 0, 0, 0, 76, 1, 0, 1, 22, 23, 0, 0, 12, 0, 0, 0, 77, 1, 0, 1, 27],
     [23, 0, 0, 12, 0, 0, 0, 78, 1, 0, 1, 37, 23, 0, 0, 12, 0, 0, 0, 79, 1, 0, 2, 48, 23, 0],
     [0, 12, 0, 0, 0, 81, 1, 0, 1, 58, 23, 0, 0, 12, 0, 0, 0, 82, 1, 0, 1, 72, 23, 0, 0, 12],
     [0, 0, 0, 83, 1, 0, 1, 85, 23, 0, 0, 12, 0, 0, 0, 84, 1, 0, 1, 99, 23, 0, 0, 12, 0, 0, 0],
     [85, 1, 0, 1, 124, 23, 0, 0, 12, 0, 0, 0, 86, 1, 0, 1, 147, 23, 0, 0, 12, 0, 0, 0, 87],
     [1, 0, 1, 153, 23, 0, 0, 12, 0, 0, 0, 88, 1, 0, 1, 163, 23, 0, 0, 12, 0, 0, 0, 89, 1, 0],
     [1, 175, 23, 0, 0, 12, 0, 0, 0, 90, 1, 0, 1, 190, 23, 0, 0, 12, 0, 0, 0, 91, 1, 0, 1],
     [205, 23, 0, 0, 12, 0, 0, 0, 92, 1, 0, 1, 216, 23, 0, 0, 12, 0, 0, 0, 93, 1, 0, 1, 224],
     [23, 0, 0, 12, 0, 0, 0, 94, 1, 0, 1, 234, 23, 0, 0, 12, 0, 0, 0, 95, 1, 0, 1, 245, 23, 0],
     [0, 12, 0, 0, 0, 96, 1, 0, 1, 252, 23, 0, 0, 12, 0, 0, 0, 97, 1, 0, 1, 6, 24, 0, 0, 12],
     [0, 0, 0, 98, 1, 0, 1, 15, 24, 0, 0, 12, 0, 0, 0, 99, 1, 0, 1, 30, 24, 0, 0, 12, 0, 0, 0],
     [100, 1, 0, 1, 45, 24, 0, 0, 12, 0, 0, 0, 101, 1, 0, 1, 53, 24, 0, 0, 12, 0, 0, 0, 102],
     [1, 0, 26, 0, 0, 0, 0, 226, 0, 0, 0, 128, 1, 0, 0, 66, 24, 0, 0, 28, 0, 0, 0, 160, 1, 0, 0, 0, 0],
     [0, 0, 227, 0, 0, 0, 192, 1, 0, 0, 0, 0, 0, 0, 228, 0, 0, 0, 0, 2, 0, 0, 74, 24, 0, 0, 12, 0, 0, 0],
     [64, 2, 0, 0, 93, 24, 0, 0, 12, 0, 0, 0, 128, 2, 0, 0, 110, 24, 0, 0, 28, 0, 0, 0, 192, 2, 0],
     [0, 78, 13, 0, 0, 229, 0, 0, 0, 224, 2, 0, 0, 128, 24, 0, 0, 12, 0, 0, 0, 0, 3, 0, 0, 145, 24, 0],
     [0, 28, 0, 0, 0, 64, 3, 0, 0, 159, 24, 0, 0, 49, 0, 0, 0, 96, 3, 0, 0, 176, 24, 0, 0, 49, 0, 0],
     [0, 112, 3, 0, 0, 189, 24, 0, 0, 28, 0, 0, 0, 128, 3, 0, 0, 0, 0, 0, 0, 230, 0, 0, 0, 160, 3, 0, 0],
     [205, 24, 0, 0, 12, 0, 0, 0, 192, 3, 0, 0, 214, 24, 0, 0, 12, 0, 0, 0, 0, 4, 0, 0, 0, 0, 0, 0, 2],
     [0, 0, 5, 8, 0, 0, 0, 222, 24, 0, 0, 12, 0, 0, 0, 0, 0, 0, 0, 236, 24, 0, 0, 12, 0, 0, 0, 0, 0, 0, 0],
     [0, 0, 0, 0, 2, 0, 0, 5, 4, 0, 0, 0, 248, 24, 0, 0, 28, 0, 0, 0, 0, 0, 0, 0, 6, 25, 0, 0, 28, 0],
     [0, 0, 0, 0, 0, 0, 0, 0, 0, 0, 4, 0, 0, 5, 8, 0, 0, 0, 23, 25, 0, 0, 12, 0, 0, 0, 0, 0, 0, 0, 31],
     [25, 0, 0, 12, 0, 0, 0, 0, 0, 0, 0, 43, 25, 0, 0, 12, 0, 0, 0, 0, 0, 0, 0, 55, 25, 0, 0, 12, 0, 0, 0],
     [0, 0, 0, 0, 0, 0, 0, 0, 4, 0, 0, 5, 8, 0, 0, 0, 63, 25, 0, 0, 12, 0, 0, 0, 0, 0, 0, 0, 70, 25, 0],
     [0, 12, 0, 0, 0, 0, 0, 0, 0, 82, 25, 0, 0, 12, 0, 0, 0, 0, 0, 0, 0, 95, 25, 0, 0, 12, 0, 0, 0, 0, 0, 0],
     [0, 103, 25, 0, 0, 0, 0, 0, 8, 2, 0, 0, 0, 0, 0, 0, 0, 2, 0, 0, 5, 4, 0, 0, 0, 109, 25, 0, 0],
     [28, 0, 0, 0, 0, 0, 0, 0, 0, 0, 0, 0, 231, 0, 0, 0, 0, 0, 0, 0, 0, 0, 0, 0, 4, 0, 0, 132, 4, 0, 0, 0, 120],
     [25, 0, 0, 28, 0, 0, 0, 0, 0, 0, 1, 137, 25, 0, 0, 28, 0, 0, 0, 1, 0, 0, 1, 147, 25, 0, 0, 28],
     [0, 0, 0, 2, 0, 0, 1, 158, 25, 0, 0, 28, 0, 0, 0, 3, 0, 0, 29, 171, 25, 0, 0, 12, 0, 0, 4],
     [208, 0, 0, 0, 0, 0, 0, 0, 233, 0, 0, 0, 0, 0, 0, 0, 185, 25, 0, 0, 50, 0, 0, 0, 128, 3, 0, 0, 215, 20],
     [0, 0, 39, 0, 0, 0, 192, 3, 0, 0, 247, 20, 0, 0, 36, 0, 0, 0, 0, 4, 0, 0, 18, 12, 0, 0, 2, 0, 0],
     [0, 64, 4, 0, 0, 192, 25, 0, 0, 220, 0, 0, 0, 128, 4, 0, 0, 222, 24, 0, 0, 11, 0, 0, 0, 192, 4],
     [0, 0, 0, 0, 0, 0, 248, 0, 0, 0, 0, 5, 0, 0, 203, 25, 0, 0, 11, 0, 0, 0, 128, 5, 0, 0, 218, 25, 0, 0],
     [11, 0, 0, 0, 192, 5, 0, 0, 229, 25, 0, 0, 11, 0, 0, 0, 0, 6, 0, 0, 245, 25, 0, 0, 11, 0, 0, 0],
     [64, 6, 0, 0, 0, 0, 0, 0, 7, 0, 0, 5, 112, 0, 0, 0, 0, 0, 0, 0, 234, 0, 0, 0, 0, 0, 0, 0, 0, 0, 0, 0],
     [236, 0, 0, 0, 0, 0, 0, 0, 0, 0, 0, 0, 237, 0, 0, 0, 0, 0, 0, 0, 0, 0, 0, 0, 238, 0, 0, 0, 0, 0, 0, 0, 0, 0, 0, 0],
     [239, 0, 0, 0, 0, 0, 0, 0, 0, 0, 0, 0, 240, 0, 0, 0, 0, 0, 0, 0, 0, 0, 0, 0, 247, 0, 0, 0, 0, 0, 0, 0, 0, 0, 0, 0],
     [12, 0, 0, 4, 112, 0, 0, 0, 123, 22, 0, 0, 11, 0, 0, 0, 0, 0, 0, 0, 55, 25, 0, 0, 11, 0, 0, 0, 64],
     [0, 0, 0, 6, 26, 0, 0, 11, 0, 0, 0, 128, 0, 0, 0, 15, 26, 0, 0, 11, 0, 0, 0, 192, 0, 0, 0, 30, 26],
     [0, 0, 36, 0, 0, 0, 0, 1, 0, 0, 42, 26, 0, 0, 36, 0, 0, 0, 64, 1, 0, 0, 53, 26, 0, 0, 2, 0, 0],
     [0, 128, 1, 0, 0, 70, 26, 0, 0, 2, 0, 0, 0, 160, 1, 0, 0, 74, 26, 0, 0, 2, 0, 0, 0, 192, 1],
     [0, 0, 206, 0, 0, 0, 2, 0, 0, 0, 224, 1, 0, 0, 83, 26, 0, 0, 235, 0, 0, 0, 0, 2, 0, 0, 93, 26, 0],
     [0, 235, 0, 0, 0, 192, 2, 0, 0, 104, 26, 0, 0, 4, 0, 0, 4, 24, 0, 0, 0, 123, 22, 0, 0, 11, 0, 0],
     [0, 0, 0, 0, 0, 124, 26, 0, 0, 29, 0, 0, 0, 64, 0, 0, 0, 128, 26, 0, 0, 2, 0, 0, 0, 96, 0, 0, 0, 70],
     [26, 0, 0, 2, 0, 0, 0, 128, 0, 0, 0, 0, 0, 0, 0, 2, 0, 0, 4, 16, 0, 0, 0, 134, 26, 0, 0, 11, 0, 0],
     [0, 0, 0, 0, 0, 145, 26, 0, 0, 29, 0, 0, 0, 64, 0, 0, 0, 0, 0, 0, 0, 1, 0, 0, 4, 64, 0, 0, 0, 234],
     [11, 0, 0, 65, 0, 0, 0, 0, 0, 0, 0, 0, 0, 0, 0, 1, 0, 0, 4, 16, 0, 0, 0, 156, 26, 0, 0, 55, 0, 0, 0],
     [0, 0, 0, 0, 0, 0, 0, 0, 2, 0, 0, 4, 16, 0, 0, 0, 164, 26, 0, 0, 11, 0, 0, 0, 0, 0, 0, 0, 172, 26, 0],
     [0, 11, 0, 0, 0, 64, 0, 0, 0, 0, 0, 0, 0, 2, 0, 0, 4, 40, 0, 0, 0, 177, 26, 0, 0, 241, 0, 0, 0, 0, 0],
     [0, 0, 182, 26, 0, 0, 243, 0, 0, 0, 192, 0, 0, 0, 190, 26, 0, 0, 3, 0, 0, 4, 24, 0, 0, 0, 209, 26],
     [0, 0, 11, 0, 0, 0, 0, 0, 0, 0, 217, 26, 0, 0, 11, 0, 0, 0, 64, 0, 0, 0, 225, 26, 0, 0, 242, 0, 0, 0],
     [128, 0, 0, 0, 230, 26, 0, 0, 5, 0, 0, 132, 4, 0, 0, 0, 252, 17, 0, 0, 27, 0, 0, 0, 0, 0, 0, 19],
     [254, 26, 0, 0, 27, 0, 0, 0, 19, 0, 0, 8, 75, 0, 0, 0, 27, 0, 0, 0, 27, 0, 0, 2, 2, 27, 0, 0],
     [27, 0, 0, 0, 29, 0, 0, 2, 12, 27, 0, 0, 27, 0, 0, 0, 31, 0, 0, 1, 20, 27, 0, 0, 2, 0, 0],
     [4, 16, 0, 0, 0, 32, 27, 0, 0, 244, 0, 0, 0, 0, 0, 0, 0, 0, 9, 0, 0, 246, 0, 0, 0, 64, 0, 0, 0, 38],
     [27, 0, 0, 1, 0, 0, 4, 8, 0, 0, 0, 0, 9, 0, 0, 245, 0, 0, 0, 0, 0, 0, 0, 0, 0, 0, 0, 0, 0, 0, 2],
     [244, 0, 0, 0, 0, 0, 0, 0, 0, 0, 0, 2, 243, 0, 0, 0, 0, 0, 0, 0, 5, 0, 0, 4, 24, 0, 0, 0, 49, 27, 0],
     [0, 73, 0, 0, 0, 0, 0, 0, 0, 60, 27, 0, 0, 73, 0, 0, 0, 8, 0, 0, 0, 71, 27, 0, 0, 48, 0, 0, 0, 16],
     [0, 0, 0, 79, 27, 0, 0, 11, 0, 0, 0, 64, 0, 0, 0, 84, 27, 0, 0, 11, 0, 0, 0, 128, 0, 0, 0, 0, 0, 0, 0],
     [2, 0, 0, 5, 16, 0, 0, 0, 0, 0, 0, 0, 249, 0, 0, 0, 0, 0, 0, 0, 0, 0, 0, 0, 250, 0, 0, 0, 0, 0, 0, 0, 0, 0],
     [0, 0, 2, 0, 0, 4, 16, 0, 0, 0, 90, 27, 0, 0, 11, 0, 0, 0, 0, 0, 0, 0, 102, 27, 0, 0, 220, 0, 0, 0],
     [64, 0, 0, 0, 0, 0, 0, 0, 2, 0, 0, 4, 16, 0, 0, 0, 114, 27, 0, 0, 11, 0, 0, 0, 0, 0, 0, 0, 127, 27],
     [0, 0, 11, 0, 0, 0, 64, 0, 0, 0, 0, 0, 0, 0, 0, 0, 0, 2, 89, 1, 0, 0, 0, 0, 0, 0, 0, 0, 0, 2, 91],
     [1, 0, 0, 139, 27, 0, 0, 0, 0, 0, 8, 254, 0, 0, 0, 157, 27, 0, 0, 2, 0, 0, 4, 24, 0, 0, 0, 228],
     [13, 0, 0, 169, 0, 0, 0, 0, 0, 0, 0, 173, 27, 0, 0, 55, 0, 0, 0, 64, 0, 0, 0, 0, 0, 0, 0, 0, 0, 0, 2],
     [84, 1, 0, 0, 178, 27, 0, 0, 3, 0, 0, 4, 32, 0, 0, 0, 242, 11, 0, 0, 44, 0, 0, 0, 0, 0, 0, 0],
     [79, 15, 0, 0, 1, 1, 0, 0, 128, 0, 0, 0, 187, 27, 0, 0, 4, 1, 0, 0, 192, 0, 0, 0, 0, 0, 0, 0, 0],
     [0, 0, 2, 2, 1, 0, 0, 0, 0, 0, 0, 1, 0, 0, 13, 0, 0, 0, 0, 0, 0, 0, 0, 3, 1, 0, 0, 0, 0, 0, 0, 0],
     [0, 0, 2, 0, 1, 0, 0, 195, 27, 0, 0, 1, 0, 0, 4, 8, 0, 0, 0, 22, 23, 0, 0, 50, 0, 0, 0, 0, 0],
     [0, 0, 203, 27, 0, 0, 3, 0, 0, 4, 24, 0, 0, 0, 108, 15, 0, 0, 55, 0, 0, 0, 0, 0, 0, 0, 228, 13, 0],
     [0, 120, 0, 0, 0, 128, 0, 0, 0, 226, 27, 0, 0, 29, 0, 0, 0, 160, 0, 0, 0, 0, 0, 0, 0, 0, 0, 0, 2, 92],
     [1, 0, 0, 0, 0, 0, 0, 0, 0, 0, 2, 8, 1, 0, 0, 0, 0, 0, 0, 1, 0, 0, 13, 0, 0, 0, 0, 0, 0, 0, 0, 216],
     [0, 0, 0, 0, 0, 0, 0, 0, 0, 0, 2, 78, 1, 0, 0, 0, 0, 0, 0, 0, 0, 0, 2, 11, 1, 0, 0, 0, 0, 0, 0, 0, 0],
     [0, 13, 11, 0, 0, 0, 242, 27, 0, 0, 0, 0, 0, 8, 13, 1, 0, 0, 0, 0, 0, 0, 0, 0, 0, 2, 14, 1, 0],
     [0, 0, 0, 0, 0, 3, 0, 0, 13, 0, 0, 0, 0, 0, 0, 0, 0, 216, 0, 0, 0, 0, 0, 0, 0, 15, 1, 0, 0, 0, 0, 0, 0],
     [27, 1, 0, 0, 0, 0, 0, 0, 0, 0, 0, 2, 16, 1, 0, 0, 10, 28, 0, 0, 26, 0, 0, 4, 0, 1, 0, 0],
     [27, 28, 0, 0, 11, 0, 0, 0, 0, 0, 0, 0, 40, 28, 0, 0, 11, 0, 0, 0, 64, 0, 0, 0, 47, 28, 0, 0, 11],
     [0, 0, 0, 128, 0, 0, 0, 75, 0, 0, 0, 11, 0, 0, 0, 192, 0, 0, 0, 56, 28, 0, 0, 17, 1, 0, 0, 0, 1, 0],
     [0, 66, 13, 0, 0, 11, 0, 0, 0, 64, 1, 0, 0, 29, 21, 0, 0, 11, 0, 0, 0, 128, 1, 0, 0, 66, 28],
     [0, 0, 18, 1, 0, 0, 192, 1, 0, 0, 76, 28, 0, 0, 11, 0, 0, 0, 0, 2, 0, 0, 79, 28, 0, 0, 19],
     [1, 0, 0, 64, 2, 0, 0, 89, 28, 0, 0, 20, 1, 0, 0, 128, 2, 0, 0, 93, 28, 0, 0, 21, 1, 0],
     [0, 192, 2, 0, 0, 102, 28, 0, 0, 10, 0, 0, 0, 0, 3, 0, 0, 225, 9, 0, 0, 22, 1, 0, 0, 64, 3],
     [0, 0, 116, 28, 0, 0, 24, 1, 0, 0, 128, 3, 0, 0, 125, 28, 0, 0, 11, 0, 0, 0, 192, 3, 0, 0, 129],
     [28, 0, 0, 26, 1, 0, 0, 0, 4, 0, 0, 139, 28, 0, 0, 26, 1, 0, 0, 128, 4, 0, 0, 149, 28, 0, 0],
     [11, 0, 0, 0, 0, 5, 0, 0, 165, 28, 0, 0, 11, 0, 0, 0, 64, 5, 0, 0, 245, 23, 0, 0, 11, 0, 0, 0],
     [128, 5, 0, 0, 175, 28, 0, 0, 11, 0, 0, 0, 192, 5, 0, 0, 180, 28, 0, 0, 11, 0, 0, 0, 0, 6, 0, 0],
     [190, 28, 0, 0, 11, 0, 0, 0, 64, 6, 0, 0, 205, 28, 0, 0, 11, 0, 0, 0, 128, 6, 0, 0, 220, 28, 0],
     [0, 11, 0, 0, 0, 192, 6, 0, 0, 0, 0, 0, 0, 2, 0, 0, 4, 8, 0, 0, 0, 175, 0, 0, 0, 27, 0, 0, 0, 0, 0],
     [0, 0, 229, 28, 0, 0, 27, 0, 0, 0, 32, 0, 0, 0, 0, 0, 0, 0, 2, 0, 0, 4, 8, 0, 0, 0, 118, 8, 0, 0],
     [27, 0, 0, 0, 0, 0, 0, 0, 233, 28, 0, 0, 27, 0, 0, 0, 32, 0, 0, 0, 0, 0, 0, 0, 0, 0, 0, 2, 93, 1, 0],
     [0, 0, 0, 0, 0, 0, 0, 0, 2, 94, 1, 0, 0, 0, 0, 0, 0, 0, 0, 0, 2, 82, 1, 0, 0, 242, 28, 0, 0, 2],
     [0, 0, 5, 8, 0, 0, 0, 5, 29, 0, 0, 12, 0, 0, 0, 0, 0, 0, 0, 0, 0, 0, 0, 23, 1, 0, 0, 0, 0, 0, 0, 0],
     [0, 0, 0, 3, 0, 0, 4, 8, 0, 0, 0, 10, 29, 0, 0, 28, 0, 0, 0, 0, 0, 0, 0, 18, 29, 0, 0, 49, 0, 0],
     [0, 32, 0, 0, 0, 25, 29, 0, 0, 49, 0, 0, 0, 48, 0, 0, 0, 32, 29, 0, 0, 2, 0, 0, 5, 8, 0, 0, 0],
     [55, 13, 0, 0, 12, 0, 0, 0, 0, 0, 0, 0, 0, 0, 0, 0, 25, 1, 0, 0, 0, 0, 0, 0, 0, 0, 0, 0, 11, 0, 0, 132],
     [8, 0, 0, 0, 50, 29, 0, 0, 12, 0, 0, 0, 0, 0, 0, 5, 57, 29, 0, 0, 12, 0, 0, 0, 5, 0, 0, 14],
     [65, 29, 0, 0, 12, 0, 0, 0, 19, 0, 0, 5, 75, 29, 0, 0, 12, 0, 0, 0, 24, 0, 0, 2, 84, 29, 0],
     [0, 12, 0, 0, 0, 26, 0, 0, 7, 93, 29, 0, 0, 12, 0, 0, 0, 33, 0, 0, 4, 105, 29, 0, 0, 12, 0, 0],
     [0, 37, 0, 0, 1, 116, 29, 0, 0, 12, 0, 0, 0, 38, 0, 0, 2, 127, 29, 0, 0, 12, 0, 0, 0, 40, 0, 0],
     [3, 135, 29, 0, 0, 12, 0, 0, 0, 43, 0, 0, 3, 144, 29, 0, 0, 12, 0, 0, 0, 46, 0, 0, 18, 153],
     [29, 0, 0, 2, 0, 0, 4, 16, 0, 0, 0, 163, 29, 0, 0, 12, 0, 0, 0, 0, 0, 0, 0, 167, 29, 0, 0, 27],
     [1, 0, 0, 64, 0, 0, 0, 0, 0, 0, 0, 0, 0, 0, 2, 28, 1, 0, 0, 172, 29, 0, 0, 6, 0, 0, 4, 64],
     [1, 0, 0, 0, 0, 0, 0, 29, 1, 0, 0, 0, 0, 0, 0, 180, 29, 0, 0, 11, 0, 0, 0, 128, 8, 0, 0, 188, 29],
     [0, 0, 34, 1, 0, 0, 192, 8, 0, 0, 198, 29, 0, 0, 27, 0, 0, 0, 224, 8, 0, 0, 202, 29, 0, 0, 11],
     [0, 0, 0, 0, 9, 0, 0, 213, 29, 0, 0, 35, 1, 0, 0, 64, 9, 0, 0, 0, 0, 0, 0, 2, 0, 0, 5, 16],
     [1, 0, 0, 224, 29, 0, 0, 30, 1, 0, 0, 0, 0, 0, 0, 0, 0, 0, 0, 32, 1, 0, 0, 0, 0, 0, 0, 234, 29, 0],
     [0, 4, 0, 0, 4, 16, 1, 0, 0, 167, 29, 0, 0, 31, 1, 0, 0, 0, 0, 0, 0, 171, 17, 0, 0, 12, 0, 0],
     [0, 192, 7, 0, 0, 174, 17, 0, 0, 12, 0, 0, 0, 0, 8, 0, 0, 247, 29, 0, 0, 12, 0, 0, 0, 64, 8, 0],
     [0, 0, 0, 0, 0, 0, 0, 0, 3, 0, 0, 0, 0, 12, 0, 0, 0, 4, 0, 0, 0, 31, 0, 0, 0, 0, 0, 0, 0, 4, 0, 0, 4],
     [16, 1, 0, 0, 167, 29, 0, 0, 33, 1, 0, 0, 0, 0, 0, 0, 171, 17, 0, 0, 11, 0, 0, 0, 192, 7, 0, 0],
     [174, 17, 0, 0, 11, 0, 0, 0, 0, 8, 0, 0, 247, 29, 0, 0, 11, 0, 0, 0, 64, 8, 0, 0, 0, 0, 0, 0, 0, 0],
     [0, 3, 0, 0, 0, 0, 11, 0, 0, 0, 4, 0, 0, 0, 31, 0, 0, 0, 254, 29, 0, 0, 0, 0, 0, 8, 229, 0, 0, 0],
     [2, 30, 0, 0, 2, 0, 0, 4, 24, 0, 0, 0, 20, 30, 0, 0, 36, 1, 0, 0, 0, 0, 0, 0, 75, 0, 0, 0],
     [11, 0, 0, 0, 128, 0, 0, 0, 27, 30, 0, 0, 2, 0, 0, 4, 16, 0, 0, 0, 168, 17, 0, 0, 11, 0, 0, 0, 0],
     [0, 0, 0, 40, 30, 0, 0, 11, 0, 0, 0, 64, 0, 0, 0, 0, 0, 0, 0, 0, 0, 0, 2, 73, 1, 0, 0, 0, 0, 0, 0, 0],
     [0, 0, 2, 86, 1, 0, 0, 0, 0, 0, 0, 0, 0, 0, 2, 87, 1, 0, 0, 125, 21, 0, 0, 14, 0, 0, 4, 208],
     [0, 0, 0, 79, 15, 0, 0, 41, 1, 0, 0, 0, 0, 0, 0, 0, 9, 0, 0, 44, 1, 0, 0, 64, 0, 0, 0, 206, 0, 0],
     [0, 36, 0, 0, 0, 128, 0, 0, 0, 43, 30, 0, 0, 39, 0, 0, 0, 192, 0, 0, 0, 51, 30, 0, 0, 41, 1, 0, 0],
     [0, 1, 0, 0, 62, 30, 0, 0, 47, 1, 0, 0, 64, 1, 0, 0, 73, 30, 0, 0, 49, 1, 0, 0, 192, 2],
     [0, 0, 83, 30, 0, 0, 47, 1, 0, 0, 0, 3, 0, 0, 92, 30, 0, 0, 36, 0, 0, 0, 128, 4, 0, 0, 103],
     [30, 0, 0, 36, 0, 0, 0, 192, 4, 0, 0, 108, 15, 0, 0, 55, 0, 0, 0, 0, 5, 0, 0, 119, 30, 0, 0, 55]]"

definition bootstrap_elf_10_d :: "byte list" where
  "bootstrap_elf_10_d =
    concat
    [[0, 0, 0, 128, 5, 0, 0, 130, 30, 0, 0, 50, 1, 0, 0, 0, 6, 0, 0, 139, 30, 0, 0, 44, 1, 0, 0],
     [64, 6, 0, 0, 147, 30, 0, 0, 0, 0, 0, 8, 42, 1, 0, 0, 0, 0, 0, 0, 0, 0, 0, 2, 43, 1, 0, 0, 0],
     [0, 0, 0, 4, 0, 0, 13, 0, 0, 0, 0, 0, 0, 0, 0, 36, 0, 0, 0, 0, 0, 0, 0, 36, 0, 0, 0, 0, 0, 0, 0, 44, 1],
     [0, 0, 0, 0, 0, 0, 45, 1, 0, 0, 0, 0, 0, 0, 0, 0, 0, 2, 40, 1, 0, 0, 0, 0, 0, 0, 0, 0, 0, 2, 46],
     [1, 0, 0, 161, 30, 0, 0, 0, 0, 0, 4, 0, 0, 0, 0, 173, 30, 0, 0, 3, 0, 0, 4, 48, 0, 0, 0, 189],
     [30, 0, 0, 48, 1, 0, 0, 0, 0, 0, 0, 202, 30, 0, 0, 48, 1, 0, 0, 64, 0, 0, 0, 214, 30, 0, 0, 184],
     [0, 0, 0, 128, 0, 0, 0, 0, 0, 0, 0, 0, 0, 0, 2, 75, 1, 0, 0, 0, 0, 0, 0, 0, 0, 0, 2, 47, 1, 0, 0],
     [225, 30, 0, 0, 0, 0, 0, 8, 51, 1, 0, 0, 0, 0, 0, 0, 0, 0, 0, 2, 52, 1, 0, 0, 0, 0, 0, 0, 2, 0],
     [0, 13, 2, 0, 0, 0, 0, 0, 0, 0, 44, 1, 0, 0, 0, 0, 0, 0, 53, 1, 0, 0, 243, 30, 0, 0, 3, 0, 0],
     [6, 4, 0, 0, 0, 2, 31, 0, 0, 0, 0, 0, 0, 44, 31, 0, 0, 1, 0, 0, 0, 86, 31, 0, 0, 2, 0, 0, 0],
     [0, 0, 0, 0, 0, 0, 0, 3, 0, 0, 0, 0, 216, 0, 0, 0, 4, 0, 0, 0, 16, 0, 0, 0, 0, 0, 0, 0, 0, 0, 0, 2, 56],
     [1, 0, 0, 129, 31, 0, 0, 5, 0, 0, 4, 20, 0, 0, 0, 151, 0, 0, 0, 24, 0, 0, 0, 0, 0, 0, 0, 168, 31],
     [0, 0, 27, 0, 0, 0, 64, 0, 0, 0, 175, 0, 0, 0, 8, 0, 0, 0, 96, 0, 0, 0, 198, 1, 0, 0, 2, 0, 0, 0],
     [128, 0, 0, 0, 187, 0, 0, 0, 31, 0, 0, 0, 160, 0, 0, 0, 0, 0, 0, 0, 1, 0, 0, 13, 2, 0, 0, 0, 27, 1],
     [0, 0, 55, 1, 0, 0, 184, 31, 0, 0, 1, 0, 0, 12, 57, 1, 0, 0, 0, 0, 0, 0, 0, 0, 0, 3, 0, 0, 0, 0],
     [30, 0, 0, 0, 4, 0, 0, 0, 13, 0, 0, 0, 196, 31, 0, 0, 0, 0, 0, 14, 59, 1, 0, 0, 1, 0, 0, 0, 0, 0],
     [0, 0, 0, 0, 0, 10, 62, 1, 0, 0, 0, 0, 0, 0, 0, 0, 0, 9, 13, 0, 0, 0, 204, 31, 0, 0, 0, 0, 0, 14],
     [61, 1, 0, 0, 1, 0, 0, 0, 220, 31, 0, 0, 0, 0, 0, 7, 0, 0, 0, 0, 148, 16, 0, 0, 0, 0, 0, 7, 0, 0],
     [0, 0, 214, 11, 0, 0, 0, 0, 0, 7, 0, 0, 0, 0, 231, 31, 0, 0, 0, 0, 0, 7, 0, 0, 0, 0, 250, 31, 0, 0, 0],
     [0, 0, 7, 0, 0, 0, 0, 8, 32, 0, 0, 0, 0, 0, 7, 0, 0, 0, 0, 18, 32, 0, 0, 0, 0, 0, 7, 0, 0, 0, 0],
     [109, 5, 0, 0, 0, 0, 0, 7, 0, 0, 0, 0, 196, 14, 0, 0, 0, 0, 0, 7, 0, 0, 0, 0, 33, 32, 0, 0, 0, 0, 0],
     [7, 0, 0, 0, 0, 42, 32, 0, 0, 0, 0, 0, 7, 0, 0, 0, 0, 60, 32, 0, 0, 0, 0, 0, 7, 0, 0, 0, 0, 72],
     [32, 0, 0, 0, 0, 0, 7, 0, 0, 0, 0, 82, 32, 0, 0, 0, 0, 0, 7, 0, 0, 0, 0, 94, 32, 0, 0, 0, 0, 0, 7],
     [0, 0, 0, 0, 175, 0, 0, 0, 0, 0, 0, 7, 0, 0, 0, 0, 108, 32, 0, 0, 0, 0, 0, 7, 0, 0, 0, 0, 204, 14, 0, 0],
     [0, 0, 0, 7, 0, 0, 0, 0, 118, 32, 0, 0, 0, 0, 0, 7, 0, 0, 0, 0, 136, 32, 0, 0, 0, 0, 0, 7, 0, 0, 0, 0],
     [152, 32, 0, 0, 0, 0, 0, 7, 0, 0, 0, 0, 68, 6, 0, 0, 0, 0, 0, 7, 0, 0, 0, 0, 166, 32, 0, 0, 0, 0, 0],
     [7, 0, 0, 0, 0, 183, 32, 0, 0, 0, 0, 0, 7, 0, 0, 0, 0, 37, 19, 0, 0, 0, 0, 0, 7, 0, 0, 0, 0, 196],
     [32, 0, 0, 0, 0, 0, 7, 0, 0, 0, 0, 219, 32, 0, 0, 0, 0, 0, 7, 0, 0, 0, 0, 238, 32, 0, 0, 0, 0, 0, 7],
     [0, 0, 0, 0, 250, 32, 0, 0, 0, 0, 0, 7, 0, 0, 0, 0, 17, 33, 0, 0, 0, 0, 0, 7, 0, 0, 0, 0, 38, 33, 0],
     [0, 0, 0, 0, 7, 0, 0, 0, 0, 2, 2, 0, 0, 0, 0, 0, 7, 0, 0, 0, 0, 54, 33, 0, 0, 0, 0, 0, 7, 0, 0, 0],
     [0, 72, 33, 0, 0, 0, 0, 0, 7, 0, 0, 0, 0, 87, 33, 0, 0, 0, 0, 0, 7, 0, 0, 0, 0, 90, 5, 0, 0, 0, 0],
     [0, 7, 0, 0, 0, 0, 94, 33, 0, 0, 0, 0, 0, 7, 0, 0, 0, 0, 107, 33, 0, 0, 0, 0, 0, 7, 0, 0, 0, 0, 121],
     [33, 0, 0, 0, 0, 0, 7, 0, 0, 0, 0, 136, 33, 0, 0, 0, 0, 0, 7, 0, 0, 0, 0, 82, 6, 0, 0, 0, 0, 0, 7],
     [0, 0, 0, 0, 96, 6, 0, 0, 0, 0, 0, 7, 0, 0, 0, 0, 145, 33, 0, 0, 0, 0, 0, 7, 0, 0, 0, 0, 204, 6, 0],
     [0, 0, 0, 0, 7, 0, 0, 0, 0, 160, 33, 0, 0, 0, 0, 0, 7, 0, 0, 0, 0, 172, 33, 0, 0, 0, 0, 0, 7, 0, 0, 0],
     [0, 75, 8, 0, 0, 0, 0, 0, 7, 0, 0, 0, 0, 35, 38, 0, 0, 1, 0, 0, 15, 13, 0, 0, 0, 60, 1, 0, 0],
     [0, 0, 0, 0, 13, 0, 0, 0, 43, 38, 0, 0, 1, 0, 0, 15, 8, 0, 0, 0, 63, 1, 0, 0, 0, 0, 0, 0, 8, 0],
     [0, 0, 51, 38, 0, 0, 2, 0, 0, 15, 48, 0, 0, 0, 15, 0, 0, 0, 0, 0, 0, 0, 32, 0, 0, 0, 21, 0, 0, 0],
     [32, 0, 0, 0, 16, 0, 0, 0, 0, 105, 110, 116, 0, 95, 95, 65, 82, 82, 65, 89, 95, 83, 73],
     [90, 69, 95, 84, 89, 80, 69, 95, 95, 0, 112, 105, 100, 95, 116, 0, 95, 95, 107, 101],
     [114, 110, 101, 108, 95, 112, 105, 100, 95, 116, 0, 117, 54, 52, 0, 95, 95, 117, 54, 52, 0],
     [117, 110, 115, 105, 103, 110, 101, 100, 32, 108, 111, 110, 103, 32, 108, 111, 110, 103, 0, 116],
     [121, 112, 101, 0, 109, 97, 120, 95, 101, 110, 116, 114, 105, 101, 115, 0, 107, 101, 121, 0, 118],
     [97, 108, 117, 101, 0, 101, 120, 101, 99, 95, 115, 116, 97, 114, 116, 0, 114, 98, 0, 116, 114],
     [97, 99, 101, 95, 101, 118, 101, 110, 116, 95, 114, 97, 119, 95, 115, 99, 104, 101, 100],
     [95, 112, 114, 111, 99, 101, 115, 115, 95, 101, 120, 101, 99, 0, 101, 110, 116, 0, 95, 95],
     [100, 97, 116, 97, 95, 108, 111, 99, 95, 102, 105, 108, 101, 110, 97, 109, 101, 0, 112, 105],
     [100, 0, 111, 108, 100, 95, 112, 105, 100, 0, 95, 95, 100, 97, 116, 97, 0, 116, 114, 97, 99],
     [101, 95, 101, 110, 116, 114, 121, 0, 102, 108, 97, 103, 115, 0, 112, 114, 101, 101, 109, 112],
     [116, 95, 99, 111, 117, 110, 116, 0, 117, 110, 115, 105, 103, 110, 101, 100, 32, 115, 104, 111],
     [114, 116, 0, 117, 110, 115, 105, 103, 110, 101, 100, 32, 99, 104, 97, 114, 0, 117, 51, 50, 0],
     [95, 95, 117, 51, 50, 0, 117, 110, 115, 105, 103, 110, 101, 100, 32, 105, 110, 116, 0, 99],
     [104, 97, 114, 0, 99, 116, 120, 0, 104, 97, 110, 100, 108, 101, 95, 101, 120, 101, 99, 0, 116],
     [97, 115, 107, 95, 115, 116, 114, 117, 99, 116, 0, 116, 104, 114, 101, 97, 100, 95, 105, 110],
     [102, 111, 0, 95, 95, 115, 116, 97, 116, 101, 0, 115, 97, 118, 101, 100, 95, 115, 116, 97],
     [116, 101, 0, 115, 116, 97, 99, 107, 0, 117, 115, 97, 103, 101, 0, 112, 116, 114, 97, 99, 101],
     [0, 111, 110, 95, 99, 112, 117, 0, 119, 97, 107, 101, 95, 101, 110, 116, 114, 121, 0, 119, 97],
     [107, 101, 101, 95, 102, 108, 105, 112, 115, 0, 119, 97, 107, 101, 101, 95, 102, 108, 105, 112],
     [95, 100, 101, 99, 97, 121, 95, 116, 115, 0, 108, 97, 115, 116, 95, 119, 97, 107, 101, 101],
     [0, 114, 101, 99, 101, 110, 116, 95, 117, 115, 101, 100, 95, 99, 112, 117, 0, 119, 97, 107],
     [101, 95, 99, 112, 117, 0, 111, 110, 95, 114, 113, 0, 112, 114, 105, 111, 0, 115, 116, 97, 116],
     [105, 99, 95, 112, 114, 105, 111, 0, 110, 111, 114, 109, 97, 108, 95, 112, 114, 105, 111, 0],
     [114, 116, 95, 112, 114, 105, 111, 114, 105, 116, 121, 0, 115, 101, 0, 114, 116, 0, 100, 108, 0],
     [100, 108, 95, 115, 101, 114, 118, 101, 114, 0, 115, 99, 104, 101, 100, 95, 99, 108, 97, 115],
     [115, 0, 115, 116, 97, 116, 115, 0, 112, 111, 108, 105, 99, 121, 0, 109, 97, 120, 95, 97, 108],
     [108, 111, 119, 101, 100, 95, 99, 97, 112, 97, 99, 105, 116, 121, 0, 110, 114, 95, 99, 112],
     [117, 115, 95, 97, 108, 108, 111, 119, 101, 100, 0, 99, 112, 117, 115, 95, 112, 116, 114, 0],
     [117, 115, 101, 114, 95, 99, 112, 117, 115, 95, 112, 116, 114, 0, 99, 112, 117, 115, 95, 109],
     [97, 115, 107, 0, 109, 105, 103, 114, 97, 116, 105, 111, 110, 95, 112, 101, 110, 100, 105, 110],
     [103, 0, 109, 105, 103, 114, 97, 116, 105, 111, 110, 95, 100, 105, 115, 97, 98, 108, 101, 100],
     [0, 109, 105, 103, 114, 97, 116, 105, 111, 110, 95, 102, 108, 97, 103, 115, 0, 116, 114, 99],
     [95, 114, 101, 97, 100, 101, 114, 95, 110, 101, 115, 116, 105, 110, 103, 0, 116, 114, 99, 95],
     [105, 112, 105, 95, 116, 111, 95, 99, 112, 117, 0, 116, 114, 99, 95, 114, 101, 97, 100, 101],
     [114, 95, 115, 112, 101, 99, 105, 97, 108, 0, 116, 114, 99, 95, 104, 111, 108, 100, 111, 117],
     [116, 95, 108, 105, 115, 116, 0, 116, 114, 99, 95, 98, 108, 107, 100, 95, 110, 111, 100, 101],
     [0, 116, 114, 99, 95, 98, 108, 107, 100, 95, 99, 112, 117, 0, 115, 99, 104, 101, 100, 95],
     [105, 110, 102, 111, 0, 116, 97, 115, 107, 115, 0, 112, 117, 115, 104, 97, 98, 108, 101, 95],
     [116, 97, 115, 107, 115, 0, 112, 117, 115, 104, 97, 98, 108, 101, 95, 100, 108, 95, 116, 97],
     [115, 107, 115, 0, 109, 109, 0, 97, 99, 116, 105, 118, 101, 95, 109, 109, 0, 102, 97, 117, 108],
     [116, 115, 95, 100, 105, 115, 97, 98, 108, 101, 100, 95, 109, 97, 112, 112, 105, 110, 103, 0],
     [101, 120, 105, 116, 95, 115, 116, 97, 116, 101, 0, 101, 120, 105, 116, 95, 99, 111, 100, 101],
     [0, 101, 120, 105, 116, 95, 115, 105, 103, 110, 97, 108, 0, 112, 100, 101, 97, 116, 104, 95],
     [115, 105, 103, 110, 97, 108, 0, 106, 111, 98, 99, 116, 108, 0, 112, 101, 114, 115, 111, 110],
     [97, 108, 105, 116, 121, 0, 115, 99, 104, 101, 100, 95, 114, 101, 115, 101, 116, 95, 111, 110],
     [95, 102, 111, 114, 107, 0, 115, 99, 104, 101, 100, 95, 99, 111, 110, 116, 114, 105, 98, 117],
     [116, 101, 115, 95, 116, 111, 95, 108, 111, 97, 100, 0, 115, 99, 104, 101, 100, 95, 109, 105],
     [103, 114, 97, 116, 101, 100, 0, 115, 99, 104, 101, 100, 95, 116, 97, 115, 107, 95, 104, 111],
     [116, 0, 115, 99, 104, 101, 100, 95, 114, 101, 109, 111, 116, 101, 95, 119, 97, 107, 101, 117],
     [112, 0, 105, 110, 95, 101, 120, 101, 99, 118, 101, 0, 105, 110, 95, 105, 111, 119, 97, 105],
     [116, 0, 105, 110, 95, 110, 102, 95, 100, 117, 112, 108, 105, 99, 97, 116, 101, 0, 97, 116],
     [111, 109, 105, 99, 95, 102, 108, 97, 103, 115, 0, 114, 101, 115, 116, 97, 114, 116, 95, 98],
     [108, 111, 99, 107, 0, 116, 103, 105, 100, 0, 114, 101, 97, 108, 95, 112, 97, 114, 101, 110],
     [116, 0, 112, 97, 114, 101, 110, 116, 0, 99, 104, 105, 108, 100, 114, 101, 110, 0, 115, 105, 98],
     [108, 105, 110, 103, 0, 103, 114, 111, 117, 112, 95, 108, 101, 97, 100, 101, 114, 0, 112, 116],
     [114, 97, 99, 101, 100, 0, 112, 116, 114, 97, 99, 101, 95, 101, 110, 116, 114, 121, 0, 116],
     [104, 114, 101, 97, 100, 95, 112, 105, 100, 0, 112, 105, 100, 95, 108, 105, 110, 107, 115, 0],
     [116, 104, 114, 101, 97, 100, 95, 110, 111, 100, 101, 0, 118, 102, 111, 114, 107, 95, 100, 111],
     [110, 101, 0, 115, 101, 116, 95, 99, 104, 105, 108, 100, 95, 116, 105, 100, 0, 99, 108, 101],
     [97, 114, 95, 99, 104, 105, 108, 100, 95, 116, 105, 100, 0, 119, 111, 114, 107, 101, 114, 95],
     [112, 114, 105, 118, 97, 116, 101, 0, 117, 116, 105, 109, 101, 0, 115, 116, 105, 109, 101, 0, 103],
     [116, 105, 109, 101, 0, 112, 114, 101, 118, 95, 99, 112, 117, 116, 105, 109, 101, 0, 110, 118],
     [99, 115, 119, 0, 110, 105, 118, 99, 115, 119, 0, 115, 116, 97, 114, 116, 95, 116, 105, 109],
     [101, 0, 115, 116, 97, 114, 116, 95, 98, 111, 111, 116, 116, 105, 109, 101, 0, 109, 105, 110],
     [95, 102, 108, 116, 0, 109, 97, 106, 95, 102, 108, 116, 0, 112, 111, 115, 105, 120, 95, 99],
     [112, 117, 116, 105, 109, 101, 114, 115, 0, 112, 116, 114, 97, 99, 101, 114, 95, 99, 114, 101],
     [100, 0, 114, 101, 97, 108, 95, 99, 114, 101, 100, 0, 99, 114, 101, 100, 0, 99, 111, 109, 109],
     [0, 110, 97, 109, 101, 105, 100, 97, 116, 97, 0, 102, 115, 0, 102, 105, 108, 101, 115, 0, 110],
     [115, 112, 114, 111, 120, 121, 0, 115, 105, 103, 110, 97, 108, 0, 115, 105, 103, 104, 97, 110],
     [100, 0, 98, 108, 111, 99, 107, 101, 100, 0, 114, 101, 97, 108, 95, 98, 108, 111, 99, 107],
     [101, 100, 0, 115, 97, 118, 101, 100, 95, 115, 105, 103, 109, 97, 115, 107, 0, 112, 101, 110],
     [100, 105, 110, 103, 0, 115, 97, 115, 95, 115, 115, 95, 115, 112, 0, 115, 97, 115, 95, 115],
     [115, 95, 115, 105, 122, 101, 0, 115, 97, 115, 95, 115, 115, 95, 102, 108, 97, 103, 115, 0],
     [116, 97, 115, 107, 95, 119, 111, 114, 107, 115, 0, 115, 101, 99, 99, 111, 109, 112, 0, 115],
     [121, 115, 99, 97, 108, 108, 95, 100, 105, 115, 112, 97, 116, 99, 104, 0, 112, 97, 114, 101],
     [110, 116, 95, 101, 120, 101, 99, 95, 105, 100, 0, 115, 101, 108, 102, 95, 101, 120, 101, 99],
     [95, 105, 100, 0, 97, 108, 108, 111, 99, 95, 108, 111, 99, 107, 0, 112, 105, 95, 108, 111],
     [99, 107, 0, 119, 97, 107, 101, 95, 113, 0, 98, 108, 111, 99, 107, 101, 100, 95, 111, 110, 0],
     [106, 111, 117, 114, 110, 97, 108, 95, 105, 110, 102, 111, 0, 98, 105, 111, 95, 108, 105, 115],
     [116, 0, 112, 108, 117, 103, 0, 114, 101, 99, 108, 97, 105, 109, 95, 115, 116, 97, 116, 101, 0],
     [105, 111, 95, 99, 111, 110, 116, 101, 120, 116, 0, 112, 116, 114, 97, 99, 101, 95, 109, 101],
     [115, 115, 97, 103, 101, 0, 108, 97, 115, 116, 95, 115, 105, 103, 105, 110, 102, 111, 0, 105],
     [111, 97, 99, 0, 112, 101, 114, 102, 95, 114, 101, 99, 117, 114, 115, 105, 111, 110, 0, 112],
     [101, 114, 102, 95, 101, 118, 101, 110, 116, 95, 99, 116, 120, 112, 0, 112, 101, 114, 102, 95],
     [101, 118, 101, 110, 116, 95, 109, 117, 116, 101, 120, 0, 112, 101, 114, 102, 95, 101, 118, 101],
     [110, 116, 95, 108, 105, 115, 116, 0, 112, 101, 114, 102, 95, 99, 116, 120, 95, 100, 97, 116],
     [97, 0, 116, 108, 98, 95, 117, 98, 99, 0, 115, 112, 108, 105, 99, 101, 95, 112, 105, 112],
     [101, 0, 116, 97, 115, 107, 95, 102, 114, 97, 103, 0, 110, 114, 95, 100, 105, 114, 116, 105],
     [101, 100, 0, 110, 114, 95, 100, 105, 114, 116, 105, 101, 100, 95, 112, 97, 117, 115, 101, 0],
     [100, 105, 114, 116, 121, 95, 112, 97, 117, 115, 101, 100, 95, 119, 104, 101, 110, 0, 116, 105],
     [109, 101, 114, 95, 115, 108, 97, 99, 107, 95, 110, 115, 0, 100, 101, 102, 97, 117, 108, 116],
     [95, 116, 105, 109, 101, 114, 95, 115, 108, 97, 99, 107, 95, 110, 115, 0, 99, 117, 114, 114],
     [95, 114, 101, 116, 95, 115, 116, 97, 99, 107, 0, 99, 117, 114, 114, 95, 114, 101, 116, 95],
     [100, 101, 112, 116, 104, 0, 114, 101, 116, 95, 115, 116, 97, 99, 107, 0, 102, 116, 114, 97],
     [99, 101, 95, 116, 105, 109, 101, 115, 116, 97, 109, 112, 0, 102, 116, 114, 97, 99, 101, 95],
     [115, 108, 101, 101, 112, 116, 105, 109, 101, 0, 116, 114, 97, 99, 101, 95, 111, 118, 101, 114],
     [114, 117, 110, 0, 116, 114, 97, 99, 105, 110, 103, 95, 103, 114, 97, 112, 104, 95, 112, 97],
     [117, 115, 101, 0, 116, 114, 97, 99, 101, 95, 114, 101, 99, 117, 114, 115, 105, 111, 110, 0],
     [117, 116, 97, 115, 107, 0, 107, 109, 97, 112, 95, 99, 116, 114, 108, 0, 114, 99, 117, 0, 114],
     [99, 117, 95, 117, 115, 101, 114, 115, 0, 112, 97, 103, 101, 102, 97, 117, 108, 116, 95, 100],
     [105, 115, 97, 98, 108, 101, 100, 0, 111, 111, 109, 95, 114, 101, 97, 112, 101, 114, 95, 108],
     [105, 115, 116, 0, 111, 111, 109, 95, 114, 101, 97, 112, 101, 114, 95, 116, 105, 109, 101, 114],
     [0, 115, 116, 97, 99, 107, 95, 118, 109, 95, 97, 114, 101, 97, 0, 115, 116, 97, 99, 107],
     [95, 114, 101, 102, 99, 111, 117, 110, 116, 0, 98, 112, 102, 95, 115, 116, 111, 114, 97, 103],
     [101, 0, 98, 112, 102, 95, 99, 116, 120, 0, 98, 112, 102, 95, 110, 101, 116, 95, 99, 111],
     [110, 116, 101, 120, 116, 0, 107, 114, 101, 116, 112, 114, 111, 98, 101, 95, 105, 110, 115, 116]]"

definition bootstrap_elf_10_e :: "byte list" where
  "bootstrap_elf_10_e =
    concat
    [[97, 110, 99, 101, 115, 0, 116, 104, 114, 101, 97, 100, 0, 99, 112, 117, 0, 117, 110, 115, 105],
     [103, 110, 101, 100, 32, 108, 111, 110, 103, 0, 112, 114, 101, 101, 109, 112, 116, 0, 99, 111],
     [117, 110, 116, 0, 110, 101, 101, 100, 95, 114, 101, 115, 99, 104, 101, 100, 0, 114, 101, 102],
     [99, 111, 117, 110, 116, 95, 116, 0, 114, 101, 102, 99, 111, 117, 110, 116, 95, 115, 116, 114],
     [117, 99, 116, 0, 114, 101, 102, 115, 0, 97, 116, 111, 109, 105, 99, 95, 116, 0, 99, 111, 117],
     [110, 116, 101, 114, 0, 95, 95, 99, 97, 108, 108, 95, 115, 105, 110, 103, 108, 101, 95, 110],
     [111, 100, 101, 0, 108, 108, 105, 115, 116, 0, 115, 114, 99, 0, 100, 115, 116, 0, 108, 108, 105],
     [115, 116, 95, 110, 111, 100, 101, 0, 110, 101, 120, 116, 0, 117, 95, 102, 108, 97, 103, 115, 0],
     [97, 95, 102, 108, 97, 103, 115, 0, 117, 49, 54, 0, 95, 95, 117, 49, 54, 0, 115, 99, 104],
     [101, 100, 95, 101, 110, 116, 105, 116, 121, 0, 108, 111, 97, 100, 0, 114, 117, 110, 95, 110],
     [111, 100, 101, 0, 100, 101, 97, 100, 108, 105, 110, 101, 0, 109, 105, 110, 95, 118, 114, 117],
     [110, 116, 105, 109, 101, 0, 109, 105, 110, 95, 115, 108, 105, 99, 101, 0, 103, 114, 111, 117],
     [112, 95, 110, 111, 100, 101, 0, 115, 99, 104, 101, 100, 95, 100, 101, 108, 97, 121, 101, 100],
     [0, 114, 101, 108, 95, 100, 101, 97, 100, 108, 105, 110, 101, 0, 99, 117, 115, 116, 111, 109],
     [95, 115, 108, 105, 99, 101, 0, 115, 117, 109, 95, 101, 120, 101, 99, 95, 114, 117, 110, 116],
     [105, 109, 101, 0, 112, 114, 101, 118, 95, 115, 117, 109, 95, 101, 120, 101, 99, 95, 114, 117],
     [110, 116, 105, 109, 101, 0, 118, 114, 117, 110, 116, 105, 109, 101, 0, 115, 108, 105, 99, 101, 0],
     [110, 114, 95, 109, 105, 103, 114, 97, 116, 105, 111, 110, 115, 0, 97, 118, 103, 0, 108, 111],
     [97, 100, 95, 119, 101, 105, 103, 104, 116, 0, 119, 101, 105, 103, 104, 116, 0, 105, 110, 118],
     [95, 119, 101, 105, 103, 104, 116, 0, 114, 98, 95, 110, 111, 100, 101, 0, 95, 95, 114, 98],
     [95, 112, 97, 114, 101, 110, 116, 95, 99, 111, 108, 111, 114, 0, 114, 98, 95, 114, 105, 103],
     [104, 116, 0, 114, 98, 95, 108, 101, 102, 116, 0, 108, 105, 115, 116, 95, 104, 101, 97, 100, 0],
     [112, 114, 101, 118, 0, 118, 108, 97, 103, 0, 118, 112, 114, 111, 116, 0, 115, 54, 52, 0, 95],
     [95, 115, 54, 52, 0, 108, 111, 110, 103, 32, 108, 111, 110, 103, 0, 115, 99, 104, 101, 100],
     [95, 97, 118, 103, 0, 108, 97, 115, 116, 95, 117, 112, 100, 97, 116, 101, 95, 116, 105, 109],
     [101, 0, 108, 111, 97, 100, 95, 115, 117, 109, 0, 114, 117, 110, 110, 97, 98, 108, 101, 95],
     [115, 117, 109, 0, 117, 116, 105, 108, 95, 115, 117, 109, 0, 112, 101, 114, 105, 111, 100, 95],
     [99, 111, 110, 116, 114, 105, 98, 0, 108, 111, 97, 100, 95, 97, 118, 103, 0, 114, 117, 110],
     [110, 97, 98, 108, 101, 95, 97, 118, 103, 0, 117, 116, 105, 108, 95, 97, 118, 103, 0, 117],
     [116, 105, 108, 95, 101, 115, 116, 0, 115, 99, 104, 101, 100, 95, 114, 116, 95, 101, 110, 116],
     [105, 116, 121, 0, 114, 117, 110, 95, 108, 105, 115, 116, 0, 116, 105, 109, 101, 111, 117, 116, 0],
     [119, 97, 116, 99, 104, 100, 111, 103, 95, 115, 116, 97, 109, 112, 0, 116, 105, 109, 101, 95],
     [115, 108, 105, 99, 101, 0, 111, 110, 95, 108, 105, 115, 116, 0, 98, 97, 99, 107, 0, 115, 99],
     [104, 101, 100, 95, 100, 108, 95, 101, 110, 116, 105, 116, 121, 0, 100, 108, 95, 114, 117, 110],
     [116, 105, 109, 101, 0, 100, 108, 95, 100, 101, 97, 100, 108, 105, 110, 101, 0, 100, 108, 95],
     [112, 101, 114, 105, 111, 100, 0, 100, 108, 95, 98, 119, 0, 100, 108, 95, 100, 101, 110, 115],
     [105, 116, 121, 0, 114, 117, 110, 116, 105, 109, 101, 0, 100, 108, 95, 116, 104, 114, 111, 116],
     [116, 108, 101, 100, 0, 100, 108, 95, 121, 105, 101, 108, 100, 101, 100, 0, 100, 108, 95, 110],
     [111, 110, 95, 99, 111, 110, 116, 101, 110, 100, 105, 110, 103, 0, 100, 108, 95, 111, 118, 101],
     [114, 114, 117, 110, 0, 100, 108, 95, 115, 101, 114, 118, 101, 114, 95, 97, 99, 116, 105, 118],
     [101, 0, 100, 108, 95, 100, 101, 102, 101, 114, 0, 100, 108, 95, 100, 101, 102, 101, 114, 95],
     [97, 114, 109, 101, 100, 0, 100, 108, 95, 100, 101, 102, 101, 114, 95, 114, 117, 110, 110, 105],
     [110, 103, 0, 100, 108, 95, 116, 105, 109, 101, 114, 0, 105, 110, 97, 99, 116, 105, 118, 101],
     [95, 116, 105, 109, 101, 114, 0, 114, 113, 0, 115, 101, 114, 118, 101, 114, 95, 112, 105, 99],
     [107, 95, 116, 97, 115, 107, 0, 104, 114, 116, 105, 109, 101, 114, 0, 110, 111, 100, 101, 0, 95],
     [115, 111, 102, 116, 101, 120, 112, 105, 114, 101, 115, 0, 102, 117, 110, 99, 116, 105, 111, 110],
     [0, 98, 97, 115, 101, 0, 115, 116, 97, 116, 101, 0, 105, 115, 95, 114, 101, 108, 0, 105, 115],
     [95, 115, 111, 102, 116, 0, 105, 115, 95, 104, 97, 114, 100, 0, 116, 105, 109, 101, 114, 113],
     [117, 101, 117, 101, 95, 110, 111, 100, 101, 0, 101, 120, 112, 105, 114, 101, 115, 0, 107, 116],
     [105, 109, 101, 95, 116, 0, 104, 114, 116, 105, 109, 101, 114, 95, 114, 101, 115, 116, 97, 114],
     [116, 0, 72, 82, 84, 73, 77, 69, 82, 95, 78, 79, 82, 69, 83, 84, 65, 82, 84, 0],
     [72, 82, 84, 73, 77, 69, 82, 95, 82, 69, 83, 84, 65, 82, 84, 0, 117, 56, 0, 95],
     [95, 117, 56, 0, 100, 108, 95, 115, 101, 114, 118, 101, 114, 95, 112, 105, 99, 107, 95, 102],
     [0, 115, 99, 104, 101, 100, 95, 115, 116, 97, 116, 105, 115, 116, 105, 99, 115, 0, 99, 112],
     [117, 109, 97, 115, 107, 95, 116, 0, 99, 112, 117, 109, 97, 115, 107, 0, 98, 105, 116, 115, 0],
     [114, 99, 117, 95, 115, 112, 101, 99, 105, 97, 108, 0, 98, 0, 115, 0, 110, 101, 101, 100, 95],
     [113, 115, 0, 101, 120, 112, 95, 104, 105, 110, 116, 0, 110, 101, 101, 100, 95, 109, 98, 0, 112],
     [108, 105, 115, 116, 95, 110, 111, 100, 101, 0, 112, 114, 105, 111, 95, 108, 105, 115, 116, 0],
     [110, 111, 100, 101, 95, 108, 105, 115, 116, 0, 97, 114, 99, 104, 95, 100, 97, 116, 97, 0],
     [102, 110, 0, 108, 111, 110, 103, 0, 102, 117, 116, 101, 120, 0, 110, 97, 110, 111, 115, 108, 101],
     [101, 112, 0, 112, 111, 108, 108, 0, 117, 97, 100, 100, 114, 0, 118, 97, 108, 0, 98, 105, 116],
     [115, 101, 116, 0, 116, 105, 109, 101, 0, 117, 97, 100, 100, 114, 50, 0, 99, 108, 111, 99, 107],
     [105, 100, 0, 99, 108, 111, 99, 107, 105, 100, 95, 116, 0, 95, 95, 107, 101, 114, 110, 101],
     [108, 95, 99, 108, 111, 99, 107, 105, 100, 95, 116, 0, 116, 105, 109, 101, 115, 112, 101, 99],
     [95, 116, 121, 112, 101, 0, 84, 84, 95, 78, 79, 78, 69, 0, 84, 84, 95, 78, 65, 84],
     [73, 86, 69, 0, 84, 84, 95, 67, 79, 77, 80, 65, 84, 0, 114, 109, 116, 112, 0, 99, 111],
     [109, 112, 97, 116, 95, 114, 109, 116, 112, 0, 117, 102, 100, 115, 0, 110, 102, 100, 115, 0, 104],
     [97, 115, 95, 116, 105, 109, 101, 111, 117, 116, 0, 116, 118, 95, 115, 101, 99, 0, 116, 118],
     [95, 110, 115, 101, 99, 0, 104, 108, 105, 115, 116, 95, 110, 111, 100, 101, 0, 112, 112, 114],
     [101, 118, 0, 108, 111, 99, 107, 0, 114, 97, 119, 95, 115, 112, 105, 110, 108, 111, 99, 107],
     [95, 116, 0, 114, 97, 119, 95, 115, 112, 105, 110, 108, 111, 99, 107, 0, 114, 97, 119, 95],
     [108, 111, 99, 107, 0, 97, 114, 99, 104, 95, 115, 112, 105, 110, 108, 111, 99, 107, 95, 116],
     [0, 113, 115, 112, 105, 110, 108, 111, 99, 107, 0, 108, 111, 99, 107, 101, 100, 0, 108, 111, 99],
     [107, 101, 100, 95, 112, 101, 110, 100, 105, 110, 103, 0, 116, 97, 105, 108, 0, 117, 105, 100, 0],
     [103, 105, 100, 0, 115, 117, 105, 100, 0, 115, 103, 105, 100, 0, 101, 117, 105, 100, 0, 101, 103],
     [105, 100, 0, 102, 115, 117, 105, 100, 0, 102, 115, 103, 105, 100, 0, 115, 101, 99, 117, 114, 101],
     [98, 105, 116, 115, 0, 99, 97, 112, 95, 105, 110, 104, 101, 114, 105, 116, 97, 98, 108, 101],
     [0, 99, 97, 112, 95, 112, 101, 114, 109, 105, 116, 116, 101, 100, 0, 99, 97, 112, 95, 101],
     [102, 102, 101, 99, 116, 105, 118, 101, 0, 99, 97, 112, 95, 98, 115, 101, 116, 0, 99, 97],
     [112, 95, 97, 109, 98, 105, 101, 110, 116, 0, 117, 115, 101, 114, 0, 117, 115, 101, 114, 95],
     [110, 115, 0, 117, 99, 111, 117, 110, 116, 115, 0, 103, 114, 111, 117, 112, 95, 105, 110, 102],
     [111, 0, 97, 116, 111, 109, 105, 99, 95, 108, 111, 110, 103, 95, 116, 0, 97, 116, 111, 109],
     [105, 99, 54, 52, 95, 116, 0, 107, 117, 105, 100, 95, 116, 0, 117, 105, 100, 95, 116, 0, 95],
     [95, 107, 101, 114, 110, 101, 108, 95, 117, 105, 100, 51, 50, 95, 116, 0, 107, 103, 105, 100],
     [95, 116, 0, 103, 105, 100, 95, 116, 0, 95, 95, 107, 101, 114, 110, 101, 108, 95, 103, 105],
     [100, 51, 50, 95, 116, 0, 107, 101, 114, 110, 101, 108, 95, 99, 97, 112, 95, 116, 0, 110],
     [111, 110, 95, 114, 99, 117, 0, 99, 97, 108, 108, 98, 97, 99, 107, 95, 104, 101, 97, 100],
     [0, 102, 117, 110, 99, 0, 115, 105, 103, 115, 101, 116, 95, 116, 0, 115, 105, 103, 0, 115, 105],
     [103, 112, 101, 110, 100, 105, 110, 103, 0, 108, 105, 115, 116, 0, 115, 105, 122, 101, 95, 116, 0],
     [95, 95, 107, 101, 114, 110, 101, 108, 95, 115, 105, 122, 101, 95, 116, 0, 95, 95, 107, 101],
     [114, 110, 101, 108, 95, 117, 108, 111, 110, 103, 95, 116, 0, 115, 121, 115, 99, 97, 108, 108],
     [95, 117, 115, 101, 114, 95, 100, 105, 115, 112, 97, 116, 99, 104, 0, 115, 112, 105, 110, 108],
     [111, 99, 107, 95, 116, 0, 115, 112, 105, 110, 108, 111, 99, 107, 0, 114, 108, 111, 99, 107, 0],
     [119, 97, 107, 101, 95, 113, 95, 110, 111, 100, 101, 0, 107, 101, 114, 110, 101, 108, 95, 115],
     [105, 103, 105, 110, 102, 111, 95, 116, 0, 116, 97, 115, 107, 95, 105, 111, 95, 97, 99, 99],
     [111, 117, 110, 116, 105, 110, 103, 0, 109, 117, 116, 101, 120, 0, 111, 119, 110, 101, 114, 0, 119],
     [97, 105, 116, 95, 108, 111, 99, 107, 0, 111, 115, 113, 0, 119, 97, 105, 116, 95, 108, 105],
     [115, 116, 0, 111, 112, 116, 105, 109, 105, 115, 116, 105, 99, 95, 115, 112, 105, 110, 95, 113],
     [117, 101, 117, 101, 0, 116, 108, 98, 102, 108, 117, 115, 104, 95, 117, 110, 109, 97, 112, 95],
     [98, 97, 116, 99, 104, 0, 97, 114, 99, 104, 0, 102, 108, 117, 115, 104, 95, 114, 101, 113],
     [117, 105, 114, 101, 100, 0, 119, 114, 105, 116, 97, 98, 108, 101, 0, 97, 114, 99, 104, 95],
     [116, 108, 98, 102, 108, 117, 115, 104, 95, 117, 110, 109, 97, 112, 95, 98, 97, 116, 99],
     [104, 0, 98, 111, 111, 108, 0, 95, 66, 111, 111, 108, 0, 112, 97, 103, 101, 95, 102, 114, 97],
     [103, 0, 112, 97, 103, 101, 0, 111, 102, 102, 115, 101, 116, 0, 115, 105, 122, 101, 0, 116, 105],
     [109, 101, 114, 95, 108, 105, 115, 116, 0, 101, 110, 116, 114, 121, 0, 108, 108, 105, 115, 116],
     [95, 104, 101, 97, 100, 0, 102, 105, 114, 115, 116, 0, 116, 104, 114, 101, 97, 100, 95, 115],
     [116, 114, 117, 99, 116, 0, 99, 112, 117, 95, 99, 111, 110, 116, 101, 120, 116, 0, 117, 119, 0],
     [102, 112, 95, 116, 121, 112, 101, 0, 102, 112, 115, 105, 109, 100, 95, 99, 112, 117, 0, 115],
     [118, 101, 95, 115, 116, 97, 116, 101, 0, 115, 109, 101, 95, 115, 116, 97, 116, 101, 0, 118],
     [108, 0, 118, 108, 95, 111, 110, 101, 120, 101, 99, 0, 102, 97, 117, 108, 116, 95, 97, 100],
     [100, 114, 101, 115, 115, 0, 102, 97, 117, 108, 116, 95, 99, 111, 100, 101, 0, 100, 101, 98],
     [117, 103, 0, 107, 101, 114, 110, 101, 108, 95, 102, 112, 115, 105, 109, 100, 95, 115, 116, 97],
     [116, 101, 0, 107, 101, 114, 110, 101, 108, 95, 102, 112, 115, 105, 109, 100, 95, 99, 112, 117],
     [0, 115, 99, 116, 108, 114, 95, 117, 115, 101, 114, 0, 115, 118, 99, 114, 0, 116, 112, 105, 100],
     [114, 50, 95, 101, 108, 48, 0, 112, 111, 114, 95, 101, 108, 48, 0, 120, 49, 57, 0, 120, 50],
     [48, 0, 120, 50, 49, 0, 120, 50, 50, 0, 120, 50, 51, 0, 120, 50, 52, 0, 120, 50, 53, 0],
     [120, 50, 54, 0, 120, 50, 55, 0, 120, 50, 56, 0, 102, 112, 0, 115, 112, 0, 112, 99, 0, 116],
     [112, 95, 118, 97, 108, 117, 101, 0, 116, 112, 50, 95, 118, 97, 108, 117, 101, 0, 102, 112],
     [109, 114, 0, 112, 97, 100, 0, 102, 112, 115, 105, 109, 100, 95, 115, 116, 97, 116, 101, 0, 117],
     [115, 101, 114, 95, 102, 112, 115, 105, 109, 100, 95, 115, 116, 97, 116, 101, 0, 118, 114, 101],
     [103, 115, 0, 102, 112, 115, 114, 0, 102, 112, 99, 114, 0, 95, 95, 114, 101, 115, 101, 114, 118],
     [101, 100, 0, 117, 110, 115, 105, 103, 110, 101, 100, 32, 95, 95, 105, 110, 116, 49, 50, 56],
     [0, 70, 80, 95, 83, 84, 65, 84, 69, 95, 67, 85, 82, 82, 69, 78, 84, 0, 70, 80],
     [95, 83, 84, 65, 84, 69, 95, 70, 80, 83, 73, 77, 68, 0, 70, 80, 95, 83, 84, 65],
     [84, 69, 95, 83, 86, 69, 0, 100, 101, 98, 117, 103, 95, 105, 110, 102, 111, 0, 115, 117],
     [115, 112, 101, 110, 100, 101, 100, 95, 115, 116, 101, 112, 0, 98, 112, 115, 95, 100, 105, 115],
     [97, 98, 108, 101, 100, 0, 119, 112, 115, 95, 100, 105, 115, 97, 98, 108, 101, 100, 0, 104],
     [98, 112, 95, 98, 114, 101, 97, 107, 0, 104, 98, 112, 95, 119, 97, 116, 99, 104, 0, 112],
     [101, 114, 102, 95, 101, 118, 101, 110, 116, 0, 101, 118, 101, 110, 116, 95, 101, 110, 116, 114],
     [121, 0, 115, 105, 98, 108, 105, 110, 103, 95, 108, 105, 115, 116, 0, 97, 99, 116, 105, 118],
     [101, 95, 108, 105, 115, 116, 0, 103, 114, 111, 117, 112, 95, 105, 110, 100, 101, 120, 0, 109],
     [105, 103, 114, 97, 116, 101, 95, 101, 110, 116, 114, 121, 0, 104, 108, 105, 115, 116, 95, 101],
     [110, 116, 114, 121, 0, 97, 99, 116, 105, 118, 101, 95, 101, 110, 116, 114, 121, 0, 110, 114],
     [95, 115, 105, 98, 108, 105, 110, 103, 115, 0, 101, 118, 101, 110, 116, 95, 99, 97, 112, 115],
     [0, 103, 114, 111, 117, 112, 95, 99, 97, 112, 115, 0, 103, 114, 111, 117, 112, 95, 103, 101],
     [110, 101, 114, 97, 116, 105, 111, 110, 0, 112, 109, 117, 0, 112, 109, 117, 95, 112, 114, 105],
     [118, 97, 116, 101, 0, 97, 116, 116, 97, 99, 104, 95, 115, 116, 97, 116, 101, 0, 99, 104],
     [105, 108, 100, 95, 99, 111, 117, 110, 116, 0, 116, 111, 116, 97, 108, 95, 116, 105, 109, 101],
     [95, 101, 110, 97, 98, 108, 101, 100, 0, 116, 111, 116, 97, 108, 95, 116, 105, 109, 101, 95],
     [114, 117, 110, 110, 105, 110, 103, 0, 116, 115, 116, 97, 109, 112, 0, 97, 116, 116, 114, 0, 104],
     [101, 97, 100, 101, 114, 95, 115, 105, 122, 101, 0, 105, 100, 95, 104, 101, 97, 100, 101, 114],
     [95, 115, 105, 122, 101, 0, 114, 101, 97, 100, 95, 115, 105, 122, 101, 0, 104, 119, 0, 112, 109],
     [117, 95, 99, 116, 120, 0, 114, 101, 102, 99, 111, 117, 110, 116, 0, 99, 104, 105, 108, 100],
     [95, 116, 111, 116, 97, 108, 95, 116, 105, 109, 101, 95, 101, 110, 97, 98, 108, 101, 100, 0],
     [99, 104, 105, 108, 100, 95, 116, 111, 116, 97, 108, 95, 116, 105, 109, 101, 95, 114, 117]]"

definition bootstrap_elf_10_f :: "byte list" where
  "bootstrap_elf_10_f =
    concat
    [[110, 110, 105, 110, 103, 0, 99, 104, 105, 108, 100, 95, 109, 117, 116, 101, 120, 0, 99, 104],
     [105, 108, 100, 95, 108, 105, 115, 116, 0, 111, 110, 99, 112, 117, 0, 111, 119, 110, 101, 114],
     [95, 101, 110, 116, 114, 121, 0, 109, 109, 97, 112, 95, 109, 117, 116, 101, 120, 0, 109, 109],
     [97, 112, 95, 99, 111, 117, 110, 116, 0, 114, 98, 95, 101, 110, 116, 114, 121, 0, 114, 99],
     [117, 95, 98, 97, 116, 99, 104, 101, 115, 0, 114, 99, 117, 95, 112, 101, 110, 100, 105, 110],
     [103, 0, 119, 97, 105, 116, 113, 0, 102, 97, 115, 121, 110, 99, 0, 112, 101, 110, 100, 105, 110],
     [103, 95, 119, 97, 107, 101, 117, 112, 0, 112, 101, 110, 100, 105, 110, 103, 95, 107, 105, 108],
     [108, 0, 112, 101, 110, 100, 105, 110, 103, 95, 100, 105, 115, 97, 98, 108, 101, 0, 112, 101],
     [110, 100, 105, 110, 103, 95, 97, 100, 100, 114, 0, 112, 101, 110, 100, 105, 110, 103, 95, 105],
     [114, 113, 0, 112, 101, 110, 100, 105, 110, 103, 95, 100, 105, 115, 97, 98, 108, 101, 95, 105],
     [114, 113, 0, 112, 101, 110, 100, 105, 110, 103, 95, 116, 97, 115, 107, 0, 112, 101, 110, 100],
     [105, 110, 103, 95, 119, 111, 114, 107, 0, 101, 118, 101, 110, 116, 95, 108, 105, 109, 105, 116],
     [0, 97, 100, 100, 114, 95, 102, 105, 108, 116, 101, 114, 115, 0, 97, 100, 100, 114, 95, 102],
     [105, 108, 116, 101, 114, 95, 114, 97, 110, 103, 101, 115, 0, 97, 100, 100, 114, 95, 102, 105],
     [108, 116, 101, 114, 115, 95, 103, 101, 110, 0, 97, 117, 120, 95, 101, 118, 101, 110, 116, 0],
     [100, 101, 115, 116, 114, 111, 121, 0, 110, 115, 0, 105, 100, 0, 108, 111, 115, 116, 95, 115, 97],
     [109, 112, 108, 101, 115, 0, 99, 108, 111, 99, 107, 0, 111, 118, 101, 114, 102, 108, 111, 119],
     [95, 104, 97, 110, 100, 108, 101, 114, 0, 111, 118, 101, 114, 102, 108, 111, 119, 95, 104, 97],
     [110, 100, 108, 101, 114, 95, 99, 111, 110, 116, 101, 120, 116, 0, 112, 114, 111, 103, 0, 98],
     [112, 102, 95, 99, 111, 111, 107, 105, 101, 0, 116, 112, 95, 101, 118, 101, 110, 116, 0, 102],
     [105, 108, 116, 101, 114, 0, 102, 116, 114, 97, 99, 101, 95, 111, 112, 115, 0, 115, 98, 95],
     [108, 105, 115, 116, 0, 112, 109, 117, 95, 108, 105, 115, 116, 0, 111, 114, 105, 103, 95, 116],
     [121, 112, 101, 0, 112, 101, 114, 102, 95, 101, 118, 101, 110, 116, 95, 115, 116, 97, 116, 101],
     [0, 80, 69, 82, 70, 95, 69, 86, 69, 78, 84, 95, 83, 84, 65, 84, 69, 95, 68, 69],
     [65, 68, 0, 80, 69, 82, 70, 95, 69, 86, 69, 78, 84, 95, 83, 84, 65, 84, 69, 95],
     [82, 69, 86, 79, 75, 69, 68, 0, 80, 69, 82, 70, 95, 69, 86, 69, 78, 84, 95, 83],
     [84, 65, 84, 69, 95, 69, 88, 73, 84, 0, 80, 69, 82, 70, 95, 69, 86, 69, 78, 84],
     [95, 83, 84, 65, 84, 69, 95, 69, 82, 82, 79, 82, 0, 80, 69, 82, 70, 95, 69, 86],
     [69, 78, 84, 95, 83, 84, 65, 84, 69, 95, 79, 70, 70, 0, 80, 69, 82, 70, 95, 69],
     [86, 69, 78, 84, 95, 83, 84, 65, 84, 69, 95, 73, 78, 65, 67, 84, 73, 86, 69, 0],
     [80, 69, 82, 70, 95, 69, 86, 69, 78, 84, 95, 83, 84, 65, 84, 69, 95, 65, 67],
     [84, 73, 86, 69, 0, 108, 111, 99, 97, 108, 54, 52, 95, 116, 0, 97, 0, 108, 111, 99, 97],
     [108, 95, 116, 0, 112, 101, 114, 102, 95, 101, 118, 101, 110, 116, 95, 97, 116, 116, 114, 0],
     [99, 111, 110, 102, 105, 103, 0, 115, 97, 109, 112, 108, 101, 95, 116, 121, 112, 101, 0, 114],
     [101, 97, 100, 95, 102, 111, 114, 109, 97, 116, 0, 100, 105, 115, 97, 98, 108, 101, 100, 0],
     [105, 110, 104, 101, 114, 105, 116, 0, 112, 105, 110, 110, 101, 100, 0, 101, 120, 99, 108, 117],
     [115, 105, 118, 101, 0, 101, 120, 99, 108, 117, 100, 101, 95, 117, 115, 101, 114, 0, 101, 120],
     [99, 108, 117, 100, 101, 95, 107, 101, 114, 110, 101, 108, 0, 101, 120, 99, 108, 117, 100, 101],
     [95, 104, 118, 0, 101, 120, 99, 108, 117, 100, 101, 95, 105, 100, 108, 101, 0, 109, 109, 97],
     [112, 0, 102, 114, 101, 113, 0, 105, 110, 104, 101, 114, 105, 116, 95, 115, 116, 97, 116, 0, 101],
     [110, 97, 98, 108, 101, 95, 111, 110, 95, 101, 120, 101, 99, 0, 116, 97, 115, 107, 0, 119],
     [97, 116, 101, 114, 109, 97, 114, 107, 0, 112, 114, 101, 99, 105, 115, 101, 95, 105, 112, 0],
     [109, 109, 97, 112, 95, 100, 97, 116, 97, 0, 115, 97, 109, 112, 108, 101, 95, 105, 100, 95],
     [97, 108, 108, 0, 101, 120, 99, 108, 117, 100, 101, 95, 104, 111, 115, 116, 0, 101, 120, 99],
     [108, 117, 100, 101, 95, 103, 117, 101, 115, 116, 0, 101, 120, 99, 108, 117, 100, 101, 95, 99],
     [97, 108, 108, 99, 104, 97, 105, 110, 95, 107, 101, 114, 110, 101, 108, 0, 101, 120, 99, 108],
     [117, 100, 101, 95, 99, 97, 108, 108, 99, 104, 97, 105, 110, 95, 117, 115, 101, 114, 0, 109],
     [109, 97, 112, 50, 0, 99, 111, 109, 109, 95, 101, 120, 101, 99, 0, 117, 115, 101, 95, 99],
     [108, 111, 99, 107, 105, 100, 0, 99, 111, 110, 116, 101, 120, 116, 95, 115, 119, 105, 116, 99],
     [104, 0, 119, 114, 105, 116, 101, 95, 98, 97, 99, 107, 119, 97, 114, 100, 0, 110, 97, 109],
     [101, 115, 112, 97, 99, 101, 115, 0, 107, 115, 121, 109, 98, 111, 108, 0, 98, 112, 102, 95],
     [101, 118, 101, 110, 116, 0, 97, 117, 120, 95, 111, 117, 116, 112, 117, 116, 0, 99, 103, 114],
     [111, 117, 112, 0, 116, 101, 120, 116, 95, 112, 111, 107, 101, 0, 98, 117, 105, 108, 100, 95],
     [105, 100, 0, 105, 110, 104, 101, 114, 105, 116, 95, 116, 104, 114, 101, 97, 100, 0, 114, 101],
     [109, 111, 118, 101, 95, 111, 110, 95, 101, 120, 101, 99, 0, 115, 105, 103, 116, 114, 97, 112],
     [0, 95, 95, 114, 101, 115, 101, 114, 118, 101, 100, 95, 49, 0, 98, 112, 95, 116, 121, 112],
     [101, 0, 98, 114, 97, 110, 99, 104, 95, 115, 97, 109, 112, 108, 101, 95, 116, 121, 112, 101],
     [0, 115, 97, 109, 112, 108, 101, 95, 114, 101, 103, 115, 95, 117, 115, 101, 114, 0, 115, 97],
     [109, 112, 108, 101, 95, 115, 116, 97, 99, 107, 95, 117, 115, 101, 114, 0, 115, 97, 109, 112],
     [108, 101, 95, 114, 101, 103, 115, 95, 105, 110, 116, 114, 0, 97, 117, 120, 95, 119, 97, 116],
     [101, 114, 109, 97, 114, 107, 0, 115, 97, 109, 112, 108, 101, 95, 109, 97, 120, 95, 115, 116],
     [97, 99, 107, 0, 95, 95, 114, 101, 115, 101, 114, 118, 101, 100, 95, 50, 0, 97, 117, 120],
     [95, 115, 97, 109, 112, 108, 101, 95, 115, 105, 122, 101, 0, 115, 105, 103, 95, 100, 97, 116],
     [97, 0, 99, 111, 110, 102, 105, 103, 51, 0, 115, 97, 109, 112, 108, 101, 95, 112, 101, 114],
     [105, 111, 100, 0, 115, 97, 109, 112, 108, 101, 95, 102, 114, 101, 113, 0, 119, 97, 107, 101],
     [117, 112, 95, 101, 118, 101, 110, 116, 115, 0, 119, 97, 107, 101, 117, 112, 95, 119, 97, 116],
     [101, 114, 109, 97, 114, 107, 0, 98, 112, 95, 97, 100, 100, 114, 0, 107, 112, 114, 111, 98],
     [101, 95, 102, 117, 110, 99, 0, 117, 112, 114, 111, 98, 101, 95, 112, 97, 116, 104, 0, 99],
     [111, 110, 102, 105, 103, 49, 0, 98, 112, 95, 108, 101, 110, 0, 107, 112, 114, 111, 98, 101],
     [95, 97, 100, 100, 114, 0, 112, 114, 111, 98, 101, 95, 111, 102, 102, 115, 101, 116, 0, 99],
     [111, 110, 102, 105, 103, 50, 0, 95, 95, 115, 51, 50, 0, 97, 117, 120, 95, 97, 99, 116],
     [105, 111, 110, 0, 97, 117, 120, 95, 115, 116, 97, 114, 116, 95, 112, 97, 117, 115, 101, 100],
     [0, 97, 117, 120, 95, 112, 97, 117, 115, 101, 0, 97, 117, 120, 95, 114, 101, 115, 117, 109],
     [101, 0, 95, 95, 114, 101, 115, 101, 114, 118, 101, 100, 95, 51, 0, 104, 119, 95, 112, 101],
     [114, 102, 95, 101, 118, 101, 110, 116, 0, 116, 97, 114, 103, 101, 116, 0, 112, 114, 101, 118],
     [95, 99, 111, 117, 110, 116, 0, 105, 110, 116, 101, 114, 114, 117, 112, 116, 115, 95, 115, 101],
     [113, 0, 105, 110, 116, 101, 114, 114, 117, 112, 116, 115, 0, 102, 114, 101, 113, 95, 116, 105],
     [109, 101, 95, 115, 116, 97, 109, 112, 0, 102, 114, 101, 113, 95, 99, 111, 117, 110, 116, 95],
     [115, 116, 97, 109, 112, 0, 108, 97, 115, 116, 95, 116, 97, 103, 0, 100, 121, 110, 95, 99],
     [111, 110, 115, 116, 114, 97, 105, 110, 116, 0, 99, 111, 110, 102, 105, 103, 95, 98, 97, 115],
     [101, 0, 101, 118, 101, 110, 116, 95, 98, 97, 115, 101, 0, 101, 118, 101, 110, 116, 95, 98],
     [97, 115, 101, 95, 114, 100, 112, 109, 99, 0, 105, 100, 120, 0, 108, 97, 115, 116, 95, 99],
     [112, 117, 0, 101, 120, 116, 114, 97, 95, 114, 101, 103, 0, 98, 114, 97, 110, 99, 104, 95],
     [114, 101, 103, 0, 104, 119, 95, 112, 101, 114, 102, 95, 101, 118, 101, 110, 116, 95, 101, 120],
     [116, 114, 97, 0, 114, 101, 103, 0, 97, 108, 108, 111, 99, 0, 97, 117, 120, 95, 99, 111, 110],
     [102, 105, 103, 0, 97, 117, 120, 95, 112, 97, 117, 115, 101, 100, 0, 116, 112, 95, 108, 105],
     [115, 116, 0, 112, 119, 114, 95, 97, 99, 99, 0, 112, 116, 115, 99, 0, 105, 110, 102, 111, 0],
     [98, 112, 95, 108, 105, 115, 116, 0, 97, 114, 99, 104, 95, 104, 119, 95, 98, 114, 101, 97],
     [107, 112, 111, 105, 110, 116, 0, 97, 100, 100, 114, 101, 115, 115, 0, 116, 114, 105, 103, 103],
     [101, 114, 0, 99, 116, 114, 108, 0, 97, 114, 99, 104, 95, 104, 119, 95, 98, 114, 101, 97],
     [107, 112, 111, 105, 110, 116, 95, 99, 116, 114, 108, 0, 108, 101, 110, 0, 112, 114, 105, 118],
     [105, 108, 101, 103, 101, 0, 101, 110, 97, 98, 108, 101, 100, 0, 114, 104, 108, 105, 115, 116],
     [95, 104, 101, 97, 100, 0, 114, 104, 101, 97, 100, 0, 114, 104, 97, 115, 104, 95, 104, 101],
     [97, 100, 0, 105, 111, 109, 109, 117, 95, 98, 97, 110, 107, 0, 105, 111, 109, 109, 117, 95],
     [99, 110, 116, 114, 0, 112, 97, 100, 100, 105, 110, 103, 0, 99, 111, 110, 102, 0, 99, 111, 110],
     [102, 49, 0, 108, 97, 115, 116, 95, 112, 101, 114, 105, 111, 100, 0, 112, 101, 114, 105, 111],
     [100, 95, 108, 101, 102, 116, 0, 115, 97, 118, 101, 100, 95, 109, 101, 116, 114, 105, 99, 0],
     [115, 97, 118, 101, 100, 95, 115, 108, 111, 116, 115, 0, 119, 97, 105, 116, 95, 113, 117, 101],
     [117, 101, 95, 104, 101, 97, 100, 95, 116, 0, 119, 97, 105, 116, 95, 113, 117, 101, 117, 101],
     [95, 104, 101, 97, 100, 0, 104, 101, 97, 100, 0, 105, 114, 113, 95, 119, 111, 114, 107, 0, 105],
     [114, 113, 119, 97, 105, 116, 0, 114, 99, 117, 119, 97, 105, 116, 0, 112, 101, 114, 102, 95],
     [97, 100, 100, 114, 95, 102, 105, 108, 116, 101, 114, 115, 95, 104, 101, 97, 100, 0, 110, 114],
     [95, 102, 105, 108, 101, 95, 102, 105, 108, 116, 101, 114, 115, 0, 112, 101, 114, 102, 95, 111],
     [118, 101, 114, 102, 108, 111, 119, 95, 104, 97, 110, 100, 108, 101, 114, 95, 116, 0, 112, 101],
     [114, 102, 95, 115, 97, 109, 112, 108, 101, 95, 100, 97, 116, 97, 0, 115, 97, 109, 112, 108],
     [101, 95, 102, 108, 97, 103, 115, 0, 112, 101, 114, 105, 111, 100, 0, 100, 121, 110, 95, 115],
     [105, 122, 101, 0, 116, 105, 100, 95, 101, 110, 116, 114, 121, 0, 99, 112, 117, 95, 101, 110],
     [116, 114, 121, 0, 105, 112, 0, 99, 97, 108, 108, 99, 104, 97, 105, 110, 0, 114, 97, 119, 0],
     [98, 114, 95, 115, 116, 97, 99, 107, 0, 98, 114, 95, 115, 116, 97, 99, 107, 95, 99, 110],
     [116, 114, 0, 100, 97, 116, 97, 95, 115, 114, 99, 0, 116, 120, 110, 0, 114, 101, 103, 115, 95],
     [117, 115, 101, 114, 0, 114, 101, 103, 115, 95, 105, 110, 116, 114, 0, 115, 116, 97, 99, 107],
     [95, 117, 115, 101, 114, 95, 115, 105, 122, 101, 0, 115, 116, 114, 101, 97, 109, 95, 105, 100],
     [0, 97, 100, 100, 114, 0, 112, 104, 121, 115, 95, 97, 100, 100, 114, 0, 100, 97, 116, 97, 95],
     [112, 97, 103, 101, 95, 115, 105, 122, 101, 0, 99, 111, 100, 101, 95, 112, 97, 103, 101, 95],
     [115, 105, 122, 101, 0, 97, 117, 120, 95, 115, 105, 122, 101, 0, 116, 105, 100, 0, 114, 101, 115],
     [101, 114, 118, 101, 100, 0, 112, 101, 114, 102, 95, 115, 97, 109, 112, 108, 101, 95, 119, 101],
     [105, 103, 104, 116, 0, 102, 117, 108, 108, 0, 118, 97, 114, 49, 95, 100, 119, 0, 118, 97, 114],
     [50, 95, 119, 0, 118, 97, 114, 51, 95, 119, 0, 112, 101, 114, 102, 95, 109, 101, 109, 95],
     [100, 97, 116, 97, 95, 115, 114, 99, 0, 109, 101, 109, 95, 111, 112, 0, 109, 101, 109, 95],
     [108, 118, 108, 0, 109, 101, 109, 95, 115, 110, 111, 111, 112, 0, 109, 101, 109, 95, 108, 111],
     [99, 107, 0, 109, 101, 109, 95, 100, 116, 108, 98, 0, 109, 101, 109, 95, 108, 118, 108, 95],
     [110, 117, 109, 0, 109, 101, 109, 95, 114, 101, 109, 111, 116, 101, 0, 109, 101, 109, 95, 115],
     [110, 111, 111, 112, 120, 0, 109, 101, 109, 95, 98, 108, 107, 0, 109, 101, 109, 95, 104, 111],
     [112, 115, 0, 109, 101, 109, 95, 114, 115, 118, 100, 0, 112, 101, 114, 102, 95, 114, 101, 103],
     [115, 0, 97, 98, 105, 0, 114, 101, 103, 115, 0, 112, 116, 95, 114, 101, 103, 115, 0, 111, 114],
     [105, 103, 95, 120, 48, 0, 115, 121, 115, 99, 97, 108, 108, 110, 111, 0, 112, 109, 114, 0, 115],
     [100, 101, 105, 95, 116, 116, 98, 114, 49, 0, 115, 116, 97, 99, 107, 102, 114, 97, 109, 101],
     [0, 117, 115, 101, 114, 95, 114, 101, 103, 115, 0, 117, 115, 101, 114, 95, 112, 116, 95, 114],
     [101, 103, 115, 0, 112, 115, 116, 97, 116, 101, 0, 115, 51, 50, 0, 102, 114, 97, 109, 101, 95],
     [114, 101, 99, 111, 114, 100, 95, 109, 101, 116, 97, 0, 114, 101, 99, 111, 114, 100, 0, 102],
     [114, 97, 109, 101, 95, 114, 101, 99, 111, 114, 100, 0, 108, 114, 0, 112, 114, 105, 118, 97],
     [116, 101, 0, 115, 97, 118, 101, 100, 95, 102, 117, 110, 99, 0, 108, 111, 99, 97, 108, 95],
     [104, 97, 115, 104, 0, 102, 117, 110, 99, 95, 104, 97, 115, 104, 0, 111, 108, 100, 95, 104],
     [97, 115, 104, 0, 116, 114, 97, 109, 112, 111, 108, 105, 110, 101, 0, 116, 114, 97, 109, 112],
     [111, 108, 105, 110, 101, 95, 115, 105, 122, 101, 0, 115, 117, 98, 111, 112, 95, 108, 105, 115],
     [116, 0, 111, 112, 115, 95, 102, 117, 110, 99, 0, 109, 97, 110, 97, 103, 101, 100, 0, 102, 116],
     [114, 97, 99, 101, 95, 102, 117, 110, 99, 95, 116, 0, 102, 116, 114, 97, 99, 101, 95, 114],
     [101, 103, 115, 0, 102, 116, 114, 97, 99, 101, 95, 111, 112, 115, 95, 104, 97, 115, 104, 0],
     [110, 111, 116, 114, 97, 99, 101, 95, 104, 97, 115, 104, 0, 102, 105, 108, 116, 101, 114, 95],
     [104, 97, 115, 104, 0, 114, 101, 103, 101, 120, 95, 108, 111, 99, 107, 0, 102, 116, 114, 97],
     [99, 101, 95, 111, 112, 115, 95, 102, 117, 110, 99, 95, 116, 0, 102, 116, 114, 97, 99, 101],
     [95, 111, 112, 115, 95, 99, 109, 100, 0, 70, 84, 82, 65, 67, 69, 95, 79, 80, 83, 95],
     [67, 77, 68, 95, 69, 78, 65, 66, 76, 69, 95, 83, 72, 65, 82, 69, 95, 73, 80],
     [77, 79, 68, 73, 70, 89, 95, 83, 69, 76, 70, 0, 70, 84, 82, 65, 67, 69, 95, 79],
     [80, 83, 95, 67, 77, 68, 95, 69, 78, 65, 66, 76, 69, 95, 83, 72, 65, 82, 69]]"

definition bootstrap_elf_10_g :: "byte list" where
  "bootstrap_elf_10_g =
    concat
    [[95, 73, 80, 77, 79, 68, 73, 70, 89, 95, 80, 69, 69, 82, 0, 70, 84, 82, 65, 67],
     [69, 95, 79, 80, 83, 95, 67, 77, 68, 95, 68, 73, 83, 65, 66, 76, 69, 95, 83],
     [72, 65, 82, 69, 95, 73, 80, 77, 79, 68, 73, 70, 89, 95, 80, 69, 69, 82, 0, 116],
     [114, 97, 99, 101, 95, 101, 118, 101, 110, 116, 95, 114, 97, 119, 95, 115, 99, 104, 101],
     [100, 95, 112, 114, 111, 99, 101, 115, 115, 95, 116, 101, 109, 112, 108, 97, 116, 101, 0, 95],
     [95, 100, 97, 116, 97, 95, 108, 111, 99, 95, 99, 111, 109, 109, 0, 104, 97, 110, 100, 108],
     [101, 95, 101, 120, 105, 116, 0, 76, 73, 67, 69, 78, 83, 69, 0, 109, 105, 110, 95, 100],
     [117, 114, 97, 116, 105, 111, 110, 95, 110, 115, 0, 99, 111, 109, 112, 108, 101, 116, 105, 111],
     [110, 0, 104, 114, 116, 105, 109, 101, 114, 95, 99, 108, 111, 99, 107, 95, 98, 97, 115, 101],
     [0, 97, 100, 100, 114, 101, 115, 115, 95, 115, 112, 97, 99, 101, 0, 109, 109, 95, 115, 116],
     [114, 117, 99, 116, 0, 117, 115, 101, 114, 95, 110, 97, 109, 101, 115, 112, 97, 99, 101, 0],
     [98, 112, 102, 95, 112, 114, 111, 103, 0, 98, 112, 102, 95, 108, 111, 99, 97, 108, 95, 115],
     [116, 111, 114, 97, 103, 101, 0, 102, 116, 114, 97, 99, 101, 95, 104, 97, 115, 104, 0, 118],
     [109, 95, 115, 116, 114, 117, 99, 116, 0, 117, 115, 101, 114, 95, 115, 116, 114, 117, 99, 116],
     [0, 112, 105, 100, 95, 110, 97, 109, 101, 115, 112, 97, 99, 101, 0, 102, 115, 95, 115, 116],
     [114, 117, 99, 116, 0, 112, 101, 114, 102, 95, 98, 114, 97, 110, 99, 104, 95, 115, 116, 97],
     [99, 107, 0, 112, 105, 112, 101, 95, 105, 110, 111, 100, 101, 95, 105, 110, 102, 111, 0, 102],
     [97, 115, 121, 110, 99, 95, 115, 116, 114, 117, 99, 116, 0, 116, 114, 97, 99, 101, 95, 101],
     [118, 101, 110, 116, 95, 99, 97, 108, 108, 0, 101, 118, 101, 110, 116, 95, 102, 105, 108, 116],
     [101, 114, 0, 112, 101, 114, 102, 95, 101, 118, 101, 110, 116, 95, 112, 109, 117, 95, 99, 111],
     [110, 116, 101, 120, 116, 0, 112, 101, 114, 102, 95, 101, 118, 101, 110, 116, 95, 99, 111, 110],
     [116, 101, 120, 116, 0, 112, 101, 114, 102, 95, 98, 117, 102, 102, 101, 114, 0, 112, 101, 114],
     [102, 95, 97, 100, 100, 114, 95, 102, 105, 108, 116, 101, 114, 95, 114, 97, 110, 103, 101, 0],
     [112, 101, 114, 102, 95, 99, 97, 108, 108, 99, 104, 97, 105, 110, 95, 101, 110, 116, 114],
     [121, 0, 112, 101, 114, 102, 95, 114, 97, 119, 95, 114, 101, 99, 111, 114, 100, 0, 95, 95],
     [107, 101, 114, 110, 101, 108, 95, 116, 105, 109, 101, 115, 112, 101, 99, 0, 111, 108, 100, 95],
     [116, 105, 109, 101, 115, 112, 101, 99, 51, 50, 0, 112, 111, 108, 108, 102, 100, 0, 102, 105],
     [108, 101, 115, 95, 115, 116, 114, 117, 99, 116, 0, 115, 105, 103, 110, 97, 108, 95, 115, 116],
     [114, 117, 99, 116, 0, 115, 105, 103, 104, 97, 110, 100, 95, 115, 116, 114, 117, 99, 116, 0],
     [98, 108, 107, 95, 112, 108, 117, 103, 0, 107, 101, 114, 110, 101, 108, 95, 115, 105, 103, 105],
     [110, 102, 111, 0, 117, 112, 114, 111, 98, 101, 95, 116, 97, 115, 107, 0, 98, 112, 102, 95],
     [114, 117, 110, 95, 99, 116, 120, 0, 47, 104, 111, 109, 101, 47, 108, 111, 115, 116, 99, 97],
     [99, 104, 101, 47, 99, 111, 100, 101, 47, 104, 101, 108, 108, 111, 95, 101, 66, 80, 70],
     [47, 101, 120, 97, 109, 112, 108, 101, 115, 47, 99, 47, 98, 111, 111, 116, 115, 116, 114],
     [97, 112, 46, 98, 112, 102, 46, 99, 0, 105, 110, 116, 32, 104, 97, 110, 100, 108, 101, 95],
     [101, 120, 101, 99, 40, 115, 116, 114, 117, 99, 116, 32, 116, 114, 97, 99, 101, 95, 101],
     [118, 101, 110, 116, 95, 114, 97, 119, 95, 115, 99, 104, 101, 100, 95, 112, 114, 111, 99],
     [101, 115, 115, 95, 101, 120, 101, 99, 32, 42, 99, 116, 120, 41, 0, 9, 112, 105, 100, 32],
     [61, 32, 98, 112, 102, 95, 103, 101, 116, 95, 99, 117, 114, 114, 101, 110, 116, 95, 112],
     [105, 100, 95, 116, 103, 105, 100, 40, 41, 32, 62, 62, 32, 51, 50, 59, 0, 9, 116, 115],
     [32, 61, 32, 98, 112, 102, 95, 107, 116, 105, 109, 101, 95, 103, 101, 116, 95, 110, 115],
     [40, 41, 59, 0, 9, 98, 112, 102, 95, 109, 97, 112, 95, 117, 112, 100, 97, 116, 101, 95],
     [101, 108, 101, 109, 40, 38, 101, 120, 101, 99, 95, 115, 116, 97, 114, 116, 44, 32, 38],
     [112, 105, 100, 44, 32, 38, 116, 115, 44, 32, 66, 80, 70, 95, 65, 78, 89, 41, 59, 0],
     [9, 105, 102, 32, 40, 109, 105, 110, 95, 100, 117, 114, 97, 116, 105, 111, 110, 95, 110],
     [115, 41, 0, 9, 101, 32, 61, 32, 98, 112, 102, 95, 114, 105, 110, 103, 98, 117, 102, 95],
     [114, 101, 115, 101, 114, 118, 101, 40, 38, 114, 98, 44, 32, 115, 105, 122, 101, 111, 102],
     [40, 42, 101, 41, 44, 32, 48, 41, 59, 0, 9, 105, 102, 32, 40, 33, 101, 41, 0, 9],
     [116, 97, 115, 107, 32, 61, 32, 40, 115, 116, 114, 117, 99, 116, 32, 116, 97, 115, 107],
     [95, 115, 116, 114, 117, 99, 116, 32, 42, 41, 98, 112, 102, 95, 103, 101, 116, 95, 99],
     [117, 114, 114, 101, 110, 116, 95, 116, 97, 115, 107, 40, 41, 59, 0, 9, 101, 45, 62, 101],
     [120, 105, 116, 95, 101, 118, 101, 110, 116, 32, 61, 32, 102, 97, 108, 115, 101, 59, 0, 9],
     [101, 45, 62, 112, 105, 100, 32, 61, 32, 112, 105, 100, 59, 0, 9, 101, 45, 62, 112, 112],
     [105, 100, 32, 61, 32, 66, 80, 70, 95, 67, 79, 82, 69, 95, 82, 69, 65, 68, 40],
     [116, 97, 115, 107, 44, 32, 114, 101, 97, 108, 95, 112, 97, 114, 101, 110, 116, 44, 32],
     [116, 103, 105, 100, 41, 59, 0, 9, 98, 112, 102, 95, 103, 101, 116, 95, 99, 117, 114, 114],
     [101, 110, 116, 95, 99, 111, 109, 109, 40, 38, 101, 45, 62, 99, 111, 109, 109, 44, 32],
     [115, 105, 122, 101, 111, 102, 40, 101, 45, 62, 99, 111, 109, 109, 41, 41, 59, 0, 9, 102],
     [110, 97, 109, 101, 95, 111, 102, 102, 32, 61, 32, 99, 116, 120, 45, 62, 95, 95, 100],
     [97, 116, 97, 95, 108, 111, 99, 95, 102, 105, 108, 101, 110, 97, 109, 101, 32, 38, 32],
     [48, 120, 70, 70, 70, 70, 59, 0, 9, 98, 112, 102, 95, 112, 114, 111, 98, 101, 95, 114],
     [101, 97, 100, 95, 115, 116, 114, 40, 38, 101, 45, 62, 102, 105, 108, 101, 110, 97, 109],
     [101, 44, 32, 115, 105, 122, 101, 111, 102, 40, 101, 45, 62, 102, 105, 108, 101, 110, 97],
     [109, 101, 41, 44, 32, 40, 118, 111, 105, 100, 32, 42, 41, 99, 116, 120, 32, 43, 32],
     [102, 110, 97, 109, 101, 95, 111, 102, 102, 41, 59, 0, 9, 98, 112, 102, 95, 114, 105, 110],
     [103, 98, 117, 102, 95, 115, 117, 98, 109, 105, 116, 40, 101, 44, 32, 48, 41, 59, 0, 125],
     [0, 9, 105, 100, 32, 61, 32, 98, 112, 102, 95, 103, 101, 116, 95, 99, 117, 114, 114, 101],
     [110, 116, 95, 112, 105, 100, 95, 116, 103, 105, 100, 40, 41, 59, 0, 9, 112, 105, 100, 32],
     [61, 32, 105, 100, 32, 62, 62, 32, 51, 50, 59, 0, 9, 116, 105, 100, 32, 61, 32, 40],
     [117, 51, 50, 41, 105, 100, 59, 0, 9, 105, 102, 32, 40, 112, 105, 100, 32, 33, 61, 32],
     [116, 105, 100, 41, 0, 9, 115, 116, 97, 114, 116, 95, 116, 115, 32, 61, 32, 98, 112, 102],
     [95, 109, 97, 112, 95, 108, 111, 111, 107, 117, 112, 95, 101, 108, 101, 109, 40, 38, 101],
     [120, 101, 99, 95, 115, 116, 97, 114, 116, 44, 32, 38, 112, 105, 100, 41, 59, 0, 9, 105],
     [102, 32, 40, 115, 116, 97, 114, 116, 95, 116, 115, 41, 0, 9, 9, 100, 117, 114, 97, 116],
     [105, 111, 110, 95, 110, 115, 32, 61, 32, 98, 112, 102, 95, 107, 116, 105, 109, 101, 95],
     [103, 101, 116, 95, 110, 115, 40, 41, 32, 45, 32, 42, 115, 116, 97, 114, 116, 95, 116],
     [115, 59, 0, 9, 101, 108, 115, 101, 32, 105, 102, 32, 40, 109, 105, 110, 95, 100, 117, 114],
     [97, 116, 105, 111, 110, 95, 110, 115, 41, 0, 9, 98, 112, 102, 95, 109, 97, 112, 95, 100],
     [101, 108, 101, 116, 101, 95, 101, 108, 101, 109, 40, 38, 101, 120, 101, 99, 95, 115, 116],
     [97, 114, 116, 44, 32, 38, 112, 105, 100, 41, 59, 0, 9, 105, 102, 32, 40, 109, 105, 110],
     [95, 100, 117, 114, 97, 116, 105, 111, 110, 95, 110, 115, 32, 38, 38, 32, 100, 117, 114],
     [97, 116, 105, 111, 110, 95, 110, 115, 32, 60, 32, 109, 105, 110, 95, 100, 117, 114, 97],
     [116, 105, 111, 110, 95, 110, 115, 41, 0, 9, 101, 45, 62, 101, 120, 105, 116, 95, 101, 118],
     [101, 110, 116, 32, 61, 32, 116, 114, 117, 101, 59, 0, 9, 101, 45, 62, 100, 117, 114, 97],
     [116, 105, 111, 110, 95, 110, 115, 32, 61, 32, 100, 117, 114, 97, 116, 105, 111, 110, 95],
     [110, 115, 59, 0, 9, 101, 45, 62, 101, 120, 105, 116, 95, 99, 111, 100, 101, 32, 61, 32],
     [40, 66, 80, 70, 95, 67, 79, 82, 69, 95, 82, 69, 65, 68, 40, 116, 97, 115, 107],
     [44, 32, 101, 120, 105, 116, 95, 99, 111, 100, 101, 41, 32, 62, 62, 32, 56, 41, 32],
     [38, 32, 48, 120, 102, 102, 59, 0, 48, 58, 54, 53, 0, 48, 58, 54, 52, 0, 48, 58, 49],
     [0, 48, 58, 52, 56, 0, 108, 105, 99, 101, 110, 115, 101, 0, 46, 114, 111, 100, 97, 116, 97],
     [0, 46, 109, 97, 112, 115, 0, 116, 112, 47, 115, 99, 104, 101, 100, 47, 115, 99, 104, 101],
     [100, 95, 112, 114, 111, 99, 101, 115, 115, 95, 101, 120, 101, 99, 0, 116, 112, 47, 115, 99],
     [104, 101, 100, 47, 115, 99, 104, 101, 100, 95, 112, 114, 111, 99, 101, 115, 115, 95, 101],
     [120, 105, 116, 0, 0, 0, 0, 0, 0, 0, 0]]"

definition bootstrap_elf_10 :: "byte list" where
  "bootstrap_elf_10 = bootstrap_elf_10_a @ bootstrap_elf_10_b @ bootstrap_elf_10_c @ bootstrap_elf_10_d @ bootstrap_elf_10_e @ bootstrap_elf_10_f @ bootstrap_elf_10_g"

definition bootstrap_elf_11 :: "byte list" where
  "bootstrap_elf_11 =
    concat
    [[159, 235, 1, 0, 32, 0, 0, 0, 0, 0, 0, 0, 36, 0, 0, 0, 36, 0, 0],
     [0, 132, 4, 0, 0, 168, 4, 0, 0, 116, 0, 0, 0, 8, 0, 0, 0, 57, 38, 0, 0, 1, 0, 0, 0, 0, 0, 0, 0],
     [33, 0, 0, 0, 85, 38, 0, 0, 1, 0, 0, 0, 0, 0, 0, 0, 58, 1, 0, 0, 16, 0, 0, 0, 57, 38, 0, 0, 30],
     [0, 0, 0, 0, 0, 0, 0, 184, 33, 0, 0, 243, 33, 0, 0, 0, 104, 0, 0, 8, 0, 0, 0, 184, 33, 0, 0, 51, 34],
     [0, 0, 8, 140, 0, 0, 16, 0, 0, 0, 184, 33, 0, 0, 51, 34, 0, 0, 35, 140, 0, 0, 24, 0, 0, 0, 184],
     [33, 0, 0, 51, 34, 0, 0, 6, 140, 0, 0, 32, 0, 0, 0, 184, 33, 0, 0, 92, 34, 0, 0, 7, 144, 0, 0],
     [40, 0, 0, 0, 184, 33, 0, 0, 92, 34, 0, 0, 5, 144, 0, 0, 56, 0, 0, 0, 184, 33, 0, 0, 0, 0, 0, 0, 0],
     [0, 0, 0, 80, 0, 0, 0, 184, 33, 0, 0, 118, 34, 0, 0, 2, 148, 0, 0, 112, 0, 0, 0, 184, 33, 0, 0, 173],
     [34, 0, 0, 6, 160, 0, 0, 136, 0, 0, 0, 184, 33, 0, 0, 173, 34, 0, 0, 6, 160, 0, 0, 152, 0, 0, 0],
     [184, 33, 0, 0, 195, 34, 0, 0, 6, 176, 0, 0, 200, 0, 0, 0, 184, 33, 0, 0, 241, 34, 0, 0, 6, 180],
     [0, 0, 208, 0, 0, 0, 184, 33, 0, 0, 250, 34, 0, 0, 31, 196, 0, 0, 216, 0, 0, 0, 184, 33, 0, 0, 48],
     [35, 0, 0, 16, 204, 0, 0, 224, 0, 0, 0, 184, 33, 0, 0, 72, 35, 0, 0, 11, 208, 0, 0, 232, 0, 0, 0],
     [184, 33, 0, 0, 72, 35, 0, 0, 9, 208, 0, 0, 8, 1, 0, 0, 184, 33, 0, 0, 250, 34, 0, 0, 31],
     [196, 0, 0, 16, 1, 0, 0, 184, 33, 0, 0, 87, 35, 0, 0, 12, 212, 0, 0, 72, 1, 0, 0, 184, 33, 0],
     [0, 250, 34, 0, 0, 31, 196, 0, 0, 80, 1, 0, 0, 184, 33, 0, 0, 87, 35, 0, 0, 12, 212, 0, 0, 96],
     [1, 0, 0, 184, 33, 0, 0, 87, 35, 0, 0, 12, 212, 0, 0, 104, 1, 0, 0, 184, 33, 0, 0, 87, 35, 0],
     [0, 10, 212, 0, 0, 112, 1, 0, 0, 184, 33, 0, 0, 138, 35, 0, 0, 27, 216, 0, 0, 128, 1, 0, 0, 184],
     [33, 0, 0, 138, 35, 0, 0, 2, 216, 0, 0, 144, 1, 0, 0, 184, 33, 0, 0, 188, 35, 0, 0, 19, 224, 0],
     [0, 152, 1, 0, 0, 184, 33, 0, 0, 236, 35, 0, 0, 68, 228, 0, 0, 168, 1, 0, 0, 184, 33, 0, 0, 236],
     [35, 0, 0, 25, 228, 0, 0, 184, 1, 0, 0, 184, 33, 0, 0, 236, 35, 0, 0, 2, 228, 0, 0, 208, 1, 0],
     [0, 184, 33, 0, 0, 61, 36, 0, 0, 2, 240, 0, 0, 232, 1, 0, 0, 184, 33, 0, 0, 88, 36, 0, 0, 1],
     [248, 0, 0, 85, 38, 0, 0, 41, 0, 0, 0, 0, 0, 0, 0, 184, 33, 0, 0, 90, 36, 0, 0, 7, 36, 1, 0],
     [8, 0, 0, 0, 184, 33, 0, 0, 124, 36, 0, 0, 11, 40, 1, 0, 24, 0, 0, 0, 184, 33, 0, 0, 124, 36],
     [0, 0, 6, 40, 1, 0, 32, 0, 0, 0, 184, 33, 0, 0, 141, 36, 0, 0, 8, 44, 1, 0, 48, 0, 0, 0],
     [184, 33, 0, 0, 157, 36, 0, 0, 6, 56, 1, 0, 64, 0, 0, 0, 184, 33, 0, 0, 174, 36, 0, 0, 13],
     [72, 1, 0, 104, 0, 0, 0, 184, 33, 0, 0, 226, 36, 0, 0, 6, 76, 1, 0, 112, 0, 0, 0, 184, 33, 0],
     [0, 241, 36, 0, 0, 17, 80, 1, 0, 128, 0, 0, 0, 184, 33, 0, 0, 241, 36, 0, 0, 38, 80, 1, 0],
     [136, 0, 0, 0, 184, 33, 0, 0, 241, 36, 0, 0, 36, 80, 1, 0, 160, 0, 0, 0, 184, 33, 0, 0, 33, 37],
     [0, 0, 11, 84, 1, 0, 184, 0, 0, 0, 184, 33, 0, 0, 33, 37, 0, 0, 11, 84, 1, 0, 200, 0, 0, 0],
     [184, 33, 0, 0, 0, 0, 0, 0, 0, 0, 0, 0, 208, 0, 0, 0, 184, 33, 0, 0, 60, 37, 0, 0, 2, 92, 1, 0],
     [232, 0, 0, 0, 184, 33, 0, 0, 101, 37, 0, 0, 6, 104, 1, 0, 0, 1, 0, 0, 184, 33, 0, 0, 101, 37],
     [0, 0, 22, 104, 1, 0, 8, 1, 0, 0, 184, 33, 0, 0, 101, 37, 0, 0, 39, 104, 1, 0, 16, 1, 0],
     [0, 184, 33, 0, 0, 101, 37, 0, 0, 6, 104, 1, 0, 24, 1, 0, 0, 184, 33, 0, 0, 195, 34, 0, 0],
     [6, 120, 1, 0, 72, 1, 0, 0, 184, 33, 0, 0, 241, 34, 0, 0, 6, 124, 1, 0, 80, 1, 0, 0],
     [184, 33, 0, 0, 250, 34, 0, 0, 31, 140, 1, 0, 104, 1, 0, 0, 184, 33, 0, 0, 156, 37, 0, 0, 16],
     [148, 1, 0, 112, 1, 0, 0, 184, 33, 0, 0, 179, 37, 0, 0, 17, 152, 1, 0, 120, 1, 0, 0, 184],
     [33, 0, 0, 72, 35, 0, 0, 11, 156, 1, 0, 128, 1, 0, 0, 184, 33, 0, 0, 72, 35, 0, 0, 9, 156],
     [1, 0, 168, 1, 0, 0, 184, 33, 0, 0, 250, 34, 0, 0, 31, 140, 1, 0, 176, 1, 0, 0, 184, 33, 0],
     [0, 87, 35, 0, 0, 12, 160, 1, 0, 224, 1, 0, 0, 184, 33, 0, 0, 250, 34, 0, 0, 31, 140, 1, 0],
     [232, 1, 0, 0, 184, 33, 0, 0, 87, 35, 0, 0, 12, 160, 1, 0, 248, 1, 0, 0, 184, 33, 0, 0, 87],
     [35, 0, 0, 12, 160, 1, 0, 0, 2, 0, 0, 184, 33, 0, 0, 87, 35, 0, 0, 10, 160, 1, 0, 32, 2],
     [0, 0, 184, 33, 0, 0, 250, 34, 0, 0, 31, 140, 1, 0, 40, 2, 0, 0, 184, 33, 0, 0, 210, 37, 0, 0],
     [18, 164, 1, 0, 64, 2, 0, 0, 184, 33, 0, 0, 210, 37, 0, 0, 18, 164, 1, 0, 72, 2, 0, 0],
     [184, 33, 0, 0, 210, 37, 0, 0, 49, 164, 1, 0, 80, 2, 0, 0, 184, 33, 0, 0, 210, 37, 0, 0, 55],
     [164, 1, 0, 88, 2, 0, 0, 184, 33, 0, 0, 210, 37, 0, 0, 15, 164, 1, 0, 96, 2, 0, 0, 184],
     [33, 0, 0, 138, 35, 0, 0, 27, 168, 1, 0, 112, 2, 0, 0, 184, 33, 0, 0, 138, 35, 0, 0, 2, 168],
     [1, 0, 128, 2, 0, 0, 184, 33, 0, 0, 61, 36, 0, 0, 2, 180, 1, 0, 152, 2, 0, 0, 184, 33, 0],
     [0, 88, 36, 0, 0, 1, 188, 1, 0, 16, 0, 0, 0, 57, 38, 0, 0, 3, 0, 0, 0, 240, 0, 0, 0, 34, 0, 0],
     [0, 16, 38, 0, 0, 0, 0, 0, 0, 40, 1, 0, 0, 34, 0, 0, 0, 21, 38, 0, 0, 0, 0, 0, 0, 144, 1, 0, 0],
     [23, 0, 0, 0, 26, 38, 0, 0, 0, 0, 0, 0, 85, 38, 0, 0, 3, 0, 0, 0, 136, 1, 0, 0, 34, 0, 0, 0, 16],
     [38, 0, 0, 0, 0, 0, 0, 192, 1, 0, 0, 34, 0, 0, 0, 21, 38, 0, 0, 0, 0, 0, 0, 8, 2, 0, 0, 34, 0, 0],
     [0, 30, 38, 0, 0, 0, 0, 0, 0, 0, 0, 0, 0]]"

definition bootstrap_elf_shdrs :: "byte list list" where
  "bootstrap_elf_shdrs =
    [[0, 0, 0, 0, 0, 0, 0, 0, 0, 0, 0, 0, 0, 0, 0, 0, 0, 0, 0, 0, 0, 0, 0, 0, 0, 0, 0, 0, 0, 0, 0, 0,
      0, 0, 0, 0, 0, 0, 0, 0, 0, 0, 0, 0, 0, 0, 0, 0, 0, 0, 0, 0, 0, 0, 0, 0, 0, 0, 0, 0, 0, 0, 0, 0],
     [1, 0, 0, 0, 3, 0, 0, 0, 32, 0, 0, 0, 0, 0, 0, 0, 0, 0, 0, 0, 0, 0, 0, 0, 64, 0, 0, 0, 0, 0, 0, 0,
      30, 1, 0, 0, 0, 0, 0, 0, 0, 0, 0, 0, 0, 0, 0, 0, 1, 0, 0, 0, 0, 0, 0, 0, 0, 0, 0, 0, 0, 0, 0, 0],
     [9, 0, 0, 0, 2, 0, 0, 0, 0, 0, 0, 0, 0, 0, 0, 0, 0, 0, 0, 0, 0, 0, 0, 0, 96, 1, 0, 0, 0, 0, 0, 0,
      104, 1, 0, 0, 0, 0, 0, 0, 1, 0, 0, 0, 0, 0, 0, 0, 8, 0, 0, 0, 0, 0, 0, 0, 24, 0, 0, 0, 0, 0, 0, 0],
     [17, 0, 0, 0, 1, 0, 0, 0, 6, 0, 0, 0, 0, 0, 0, 0, 0, 0, 0, 0, 0, 0, 0, 0, 200, 2, 0, 0, 0, 0, 0, 0,
      248, 1, 0, 0, 0, 0, 0, 0, 0, 0, 0, 0, 0, 0, 0, 0, 8, 0, 0, 0, 0, 0, 0, 0, 0, 0, 0, 0, 0, 0, 0, 0],
     [45, 0, 0, 0, 1, 0, 0, 0, 6, 0, 0, 0, 0, 0, 0, 0, 0, 0, 0, 0, 0, 0, 0, 0, 192, 4, 0, 0, 0, 0, 0, 0,
      168, 2, 0, 0, 0, 0, 0, 0, 0, 0, 0, 0, 0, 0, 0, 0, 8, 0, 0, 0, 0, 0, 0, 0, 0, 0, 0, 0, 0, 0, 0, 0],
     [73, 0, 0, 0, 1, 0, 0, 0, 3, 0, 0, 0, 0, 0, 0, 0, 0, 0, 0, 0, 0, 0, 0, 0, 104, 7, 0, 0, 0, 0, 0, 0,
      13, 0, 0, 0, 0, 0, 0, 0, 0, 0, 0, 0, 0, 0, 0, 0, 1, 0, 0, 0, 0, 0, 0, 0, 0, 0, 0, 0, 0, 0, 0, 0],
     [81, 0, 0, 0, 1, 0, 0, 0, 2, 0, 0, 0, 0, 0, 0, 0, 0, 0, 0, 0, 0, 0, 0, 0, 120, 7, 0, 0, 0, 0, 0, 0,
      8, 0, 0, 0, 0, 0, 0, 0, 0, 0, 0, 0, 0, 0, 0, 0, 8, 0, 0, 0, 0, 0, 0, 0, 0, 0, 0, 0, 0, 0, 0, 0],
     [89, 0, 0, 0, 1, 0, 0, 0, 3, 0, 0, 0, 0, 0, 0, 0, 0, 0, 0, 0, 0, 0, 0, 0, 128, 7, 0, 0, 0, 0, 0, 0,
      48, 0, 0, 0, 0, 0, 0, 0, 0, 0, 0, 0, 0, 0, 0, 0, 8, 0, 0, 0, 0, 0, 0, 0, 0, 0, 0, 0, 0, 0, 0, 0],
     [208, 0, 0, 0, 9, 0, 0, 0, 64, 0, 0, 0, 0, 0, 0, 0, 0, 0, 0, 0, 0, 0, 0, 0, 176, 7, 0, 0, 0, 0, 0, 0,
      48, 0, 0, 0, 0, 0, 0, 0, 2, 0, 0, 0, 3, 0, 0, 0, 8, 0, 0, 0, 0, 0, 0, 0, 16, 0, 0, 0, 0, 0, 0, 0],
     [240, 0, 0, 0, 9, 0, 0, 0, 64, 0, 0, 0, 0, 0, 0, 0, 0, 0, 0, 0, 0, 0, 0, 0, 224, 7, 0, 0, 0, 0, 0, 0,
      80, 0, 0, 0, 0, 0, 0, 0, 2, 0, 0, 0, 4, 0, 0, 0, 8, 0, 0, 0, 0, 0, 0, 0, 16, 0, 0, 0, 0, 0, 0, 0],
     [16, 1, 0, 0, 1, 0, 0, 0, 0, 0, 0, 0, 0, 0, 0, 0, 0, 0, 0, 0, 0, 0, 0, 0, 48, 8, 0, 0, 0, 0, 0, 0,
      81, 92, 0, 0, 0, 0, 0, 0, 0, 0, 0, 0, 0, 0, 0, 0, 8, 0, 0, 0, 0, 0, 0, 0, 0, 0, 0, 0, 0, 0, 0, 0],
     [21, 1, 0, 0, 1, 0, 0, 0, 0, 0, 0, 0, 0, 0, 0, 0, 0, 0, 0, 0, 0, 0, 0, 0, 136, 100, 0, 0, 0, 0, 0, 0,
      60, 5, 0, 0, 0, 0, 0, 0, 0, 0, 0, 0, 0, 0, 0, 0, 8, 0, 0, 0, 0, 0, 0, 0, 0, 0, 0, 0, 0, 0, 0, 0]]"

definition bootstrap_elf_body :: "byte list list" where
  "bootstrap_elf_body = [bootstrap_elf_1, bootstrap_elf_2, bootstrap_elf_3, bootstrap_elf_4, bootstrap_elf_5, bootstrap_elf_6, bootstrap_elf_7, bootstrap_elf_8, bootstrap_elf_9, bootstrap_elf_10, bootstrap_elf_11]"

definition bootstrap_bpf__elf_bytes :: "byte list" where
  "bootstrap_bpf__elf_bytes = concat (bootstrap_elf_hdr # bootstrap_elf_body) @ concat bootstrap_elf_shdrs"

section \<open>The parts of the object\<close>

text \<open>The sizes of the pieces. The definitions stay folded: a piece is only opened where it is read.\<close>

lemma bootstrap_elf_lengths [simp]:
  "length bootstrap_elf_hdr = 64"
  "length bootstrap_elf_1 = 288"
  "length bootstrap_elf_2 = 360"
  "length bootstrap_elf_3 = 504"
  "length bootstrap_elf_4 = 680"
  "length bootstrap_elf_5 = 16"
  "length bootstrap_elf_6 = 8"
  "length bootstrap_elf_7 = 48"
  "length bootstrap_elf_8 = 48"
  "length bootstrap_elf_9 = 80"
  "length bootstrap_elf_10_a = 4157"
  "length bootstrap_elf_10_b = 4307"
  "length bootstrap_elf_10_c = 4165"
  "length bootstrap_elf_10_d = 3316"
  "length bootstrap_elf_10_e = 2940"
  "length bootstrap_elf_10_f = 2914"
  "length bootstrap_elf_10_g = 1841"
  "length bootstrap_elf_11 = 1344"
  by (simp_all only: piece_length bootstrap_elf_hdr_def bootstrap_elf_1_def bootstrap_elf_2_def
    bootstrap_elf_3_def bootstrap_elf_4_def bootstrap_elf_5_def bootstrap_elf_6_def bootstrap_elf_7_def
    bootstrap_elf_8_def bootstrap_elf_9_def bootstrap_elf_10_a_def bootstrap_elf_10_b_def
    bootstrap_elf_10_c_def bootstrap_elf_10_d_def bootstrap_elf_10_e_def bootstrap_elf_10_f_def
    bootstrap_elf_10_g_def bootstrap_elf_11_def)

lemma bootstrap_elf_10_length [simp]: "length bootstrap_elf_10 = 23640"
  by (simp add: bootstrap_elf_10_def)

lemma bootstrap_elf_pieces: "object_pieces bootstrap_bpf__elf_bytes (bootstrap_elf_hdr # bootstrap_elf_body) bootstrap_elf_shdrs"
proof -
  have "le_at bootstrap_elf_hdr 40 8 = 27080" "le_at bootstrap_elf_hdr 60 2 = 12" "le_at bootstrap_elf_hdr 62 2 = 1"
    by (simp_all add: bootstrap_elf_hdr_def elf_eval)
  moreover have "list_all (\<lambda>h. length h = 64) bootstrap_elf_shdrs" "length bootstrap_elf_shdrs = 12"
    by (simp_all add: bootstrap_elf_shdrs_def)
  ultimately show ?thesis
    by (simp add: object_pieces_def bootstrap_bpf__elf_bytes_def bootstrap_elf_body_def)
qed

lemma bootstrap_elf_headers:
  "elf_section_at bootstrap_bpf__elf_bytes 0 = \<lparr>sec_name = 0, sec_type = 0, sec_offset = 0, sec_size = 0, sec_link = 0, sec_info = 0\<rparr>"
  "elf_section_at bootstrap_bpf__elf_bytes 1 = \<lparr>sec_name = 1, sec_type = 3, sec_offset = 64, sec_size = 286, sec_link = 0, sec_info = 0\<rparr>"
  "elf_section_at bootstrap_bpf__elf_bytes 2 = \<lparr>sec_name = 9, sec_type = 2, sec_offset = 352, sec_size = 360, sec_link = 1, sec_info = 0\<rparr>"
  "elf_section_at bootstrap_bpf__elf_bytes 3 = \<lparr>sec_name = 17, sec_type = 1, sec_offset = 712, sec_size = 504, sec_link = 0, sec_info = 0\<rparr>"
  "elf_section_at bootstrap_bpf__elf_bytes 4 = \<lparr>sec_name = 45, sec_type = 1, sec_offset = 1216, sec_size = 680, sec_link = 0, sec_info = 0\<rparr>"
  "elf_section_at bootstrap_bpf__elf_bytes 5 = \<lparr>sec_name = 73, sec_type = 1, sec_offset = 1896, sec_size = 13, sec_link = 0, sec_info = 0\<rparr>"
  "elf_section_at bootstrap_bpf__elf_bytes 6 = \<lparr>sec_name = 81, sec_type = 1, sec_offset = 1912, sec_size = 8, sec_link = 0, sec_info = 0\<rparr>"
  "elf_section_at bootstrap_bpf__elf_bytes 7 = \<lparr>sec_name = 89, sec_type = 1, sec_offset = 1920, sec_size = 48, sec_link = 0, sec_info = 0\<rparr>"
  "elf_section_at bootstrap_bpf__elf_bytes 8 = \<lparr>sec_name = 208, sec_type = 9, sec_offset = 1968, sec_size = 48, sec_link = 2, sec_info = 3\<rparr>"
  "elf_section_at bootstrap_bpf__elf_bytes 9 = \<lparr>sec_name = 240, sec_type = 9, sec_offset = 2016, sec_size = 80, sec_link = 2, sec_info = 4\<rparr>"
  "elf_section_at bootstrap_bpf__elf_bytes 10 = \<lparr>sec_name = 272, sec_type = 1, sec_offset = 2096, sec_size = 23633, sec_link = 0, sec_info = 0\<rparr>"
  "elf_section_at bootstrap_bpf__elf_bytes 11 = \<lparr>sec_name = 277, sec_type = 1, sec_offset = 25736, sec_size = 1340, sec_link = 0, sec_info = 0\<rparr>"
  by (simp_all add: object_section [OF bootstrap_elf_pieces] bootstrap_elf_shdrs_def elf_section_header_def elf_eval)

lemma bootstrap_elf_flags:
  "section_flags bootstrap_bpf__elf_bytes 0 = 0"
  "section_flags bootstrap_bpf__elf_bytes 1 = 32"
  "section_flags bootstrap_bpf__elf_bytes 2 = 0"
  "section_flags bootstrap_bpf__elf_bytes 3 = 6"
  "section_flags bootstrap_bpf__elf_bytes 4 = 6"
  "section_flags bootstrap_bpf__elf_bytes 5 = 3"
  "section_flags bootstrap_bpf__elf_bytes 6 = 2"
  "section_flags bootstrap_bpf__elf_bytes 7 = 3"
  "section_flags bootstrap_bpf__elf_bytes 8 = 64"
  "section_flags bootstrap_bpf__elf_bytes 9 = 64"
  "section_flags bootstrap_bpf__elf_bytes 10 = 0"
  "section_flags bootstrap_bpf__elf_bytes 11 = 0"
  by (simp_all add: object_section [OF bootstrap_elf_pieces] bootstrap_elf_shdrs_def elf_eval)

lemma bootstrap_elf_contents:
  "section_bytes bootstrap_bpf__elf_bytes 0 = []"
  "section_bytes bootstrap_bpf__elf_bytes 1 = take 286 bootstrap_elf_1"
  "section_bytes bootstrap_bpf__elf_bytes 2 = bootstrap_elf_2"
  "section_bytes bootstrap_bpf__elf_bytes 3 = bootstrap_elf_3"
  "section_bytes bootstrap_bpf__elf_bytes 4 = bootstrap_elf_4"
  "section_bytes bootstrap_bpf__elf_bytes 5 = take 13 bootstrap_elf_5"
  "section_bytes bootstrap_bpf__elf_bytes 6 = bootstrap_elf_6"
  "section_bytes bootstrap_bpf__elf_bytes 7 = bootstrap_elf_7"
  "section_bytes bootstrap_bpf__elf_bytes 8 = bootstrap_elf_8"
  "section_bytes bootstrap_bpf__elf_bytes 9 = bootstrap_elf_9"
  "section_bytes bootstrap_bpf__elf_bytes 10 = take 23633 bootstrap_elf_10"
  "section_bytes bootstrap_bpf__elf_bytes 11 = take 1340 bootstrap_elf_11"
proof -
  show "section_bytes bootstrap_bpf__elf_bytes 0 = []"
    by (simp add: section_bytes_def bootstrap_elf_headers elf_section.defs)
  show "section_bytes bootstrap_bpf__elf_bytes 1 = take 286 bootstrap_elf_1"
    using object_section_bytes [OF bootstrap_elf_pieces bootstrap_elf_headers(2), of 1] by (simp add: bootstrap_elf_body_def)
  show "section_bytes bootstrap_bpf__elf_bytes 2 = bootstrap_elf_2"
    using object_section_bytes [OF bootstrap_elf_pieces bootstrap_elf_headers(3), of 2] by (simp add: bootstrap_elf_body_def)
  show "section_bytes bootstrap_bpf__elf_bytes 3 = bootstrap_elf_3"
    using object_section_bytes [OF bootstrap_elf_pieces bootstrap_elf_headers(4), of 3] by (simp add: bootstrap_elf_body_def)
  show "section_bytes bootstrap_bpf__elf_bytes 4 = bootstrap_elf_4"
    using object_section_bytes [OF bootstrap_elf_pieces bootstrap_elf_headers(5), of 4] by (simp add: bootstrap_elf_body_def)
  show "section_bytes bootstrap_bpf__elf_bytes 5 = take 13 bootstrap_elf_5"
    using object_section_bytes [OF bootstrap_elf_pieces bootstrap_elf_headers(6), of 5] by (simp add: bootstrap_elf_body_def)
  show "section_bytes bootstrap_bpf__elf_bytes 6 = bootstrap_elf_6"
    using object_section_bytes [OF bootstrap_elf_pieces bootstrap_elf_headers(7), of 6] by (simp add: bootstrap_elf_body_def)
  show "section_bytes bootstrap_bpf__elf_bytes 7 = bootstrap_elf_7"
    using object_section_bytes [OF bootstrap_elf_pieces bootstrap_elf_headers(8), of 7] by (simp add: bootstrap_elf_body_def)
  show "section_bytes bootstrap_bpf__elf_bytes 8 = bootstrap_elf_8"
    using object_section_bytes [OF bootstrap_elf_pieces bootstrap_elf_headers(9), of 8] by (simp add: bootstrap_elf_body_def)
  show "section_bytes bootstrap_bpf__elf_bytes 9 = bootstrap_elf_9"
    using object_section_bytes [OF bootstrap_elf_pieces bootstrap_elf_headers(10), of 9] by (simp add: bootstrap_elf_body_def)
  show "section_bytes bootstrap_bpf__elf_bytes 10 = take 23633 bootstrap_elf_10"
    using object_section_bytes [OF bootstrap_elf_pieces bootstrap_elf_headers(11), of 10] by (simp add: bootstrap_elf_body_def)
  show "section_bytes bootstrap_bpf__elf_bytes 11 = take 1340 bootstrap_elf_11"
    using object_section_bytes [OF bootstrap_elf_pieces bootstrap_elf_headers(12), of 11] by (simp add: bootstrap_elf_body_def)
qed

lemma bootstrap_elf_names:
  "section_name bootstrap_bpf__elf_bytes 0 = ''''"
  "section_name bootstrap_bpf__elf_bytes 1 = ''.strtab''"
  "section_name bootstrap_bpf__elf_bytes 2 = ''.symtab''"
  "section_name bootstrap_bpf__elf_bytes 3 = ''tp/sched/sched_process_exec''"
  "section_name bootstrap_bpf__elf_bytes 4 = ''tp/sched/sched_process_exit''"
  "section_name bootstrap_bpf__elf_bytes 5 = ''license''"
  "section_name bootstrap_bpf__elf_bytes 6 = ''.rodata''"
  "section_name bootstrap_bpf__elf_bytes 7 = ''.maps''"
  "section_name bootstrap_bpf__elf_bytes 8 = ''.reltp/sched/sched_process_exec''"
  "section_name bootstrap_bpf__elf_bytes 9 = ''.reltp/sched/sched_process_exit''"
  "section_name bootstrap_bpf__elf_bytes 10 = ''.BTF''"
  "section_name bootstrap_bpf__elf_bytes 11 = ''.BTF.ext''"
  by (simp_all only: object_section_name [OF bootstrap_elf_pieces bootstrap_elf_contents(2)] bootstrap_elf_headers elf_section.simps)
    (simp_all add: elf_eval bootstrap_elf_1_def)

lemma bootstrap_elf_sections:
  "elf_sections bootstrap_bpf__elf_bytes =
    [\<lparr>es_name = '''', es_type = 0, es_flags = 0, es_link = 0, es_info = 0, es_size = 0,
      es_bytes = []\<rparr>,
     \<lparr>es_name = ''.strtab'', es_type = 3, es_flags = 32, es_link = 0, es_info = 0, es_size = 286,
      es_bytes = take 286 bootstrap_elf_1\<rparr>,
     \<lparr>es_name = ''.symtab'', es_type = 2, es_flags = 0, es_link = 1, es_info = 0, es_size = 360,
      es_bytes = bootstrap_elf_2\<rparr>,
     \<lparr>es_name = ''tp/sched/sched_process_exec'', es_type = 1, es_flags = 6, es_link = 0, es_info = 0, es_size = 504,
      es_bytes = bootstrap_elf_3\<rparr>,
     \<lparr>es_name = ''tp/sched/sched_process_exit'', es_type = 1, es_flags = 6, es_link = 0, es_info = 0, es_size = 680,
      es_bytes = bootstrap_elf_4\<rparr>,
     \<lparr>es_name = ''license'', es_type = 1, es_flags = 3, es_link = 0, es_info = 0, es_size = 13,
      es_bytes = take 13 bootstrap_elf_5\<rparr>,
     \<lparr>es_name = ''.rodata'', es_type = 1, es_flags = 2, es_link = 0, es_info = 0, es_size = 8,
      es_bytes = bootstrap_elf_6\<rparr>,
     \<lparr>es_name = ''.maps'', es_type = 1, es_flags = 3, es_link = 0, es_info = 0, es_size = 48,
      es_bytes = bootstrap_elf_7\<rparr>,
     \<lparr>es_name = ''.reltp/sched/sched_process_exec'', es_type = 9, es_flags = 64, es_link = 2, es_info = 3, es_size = 48,
      es_bytes = bootstrap_elf_8\<rparr>,
     \<lparr>es_name = ''.reltp/sched/sched_process_exit'', es_type = 9, es_flags = 64, es_link = 2, es_info = 4, es_size = 80,
      es_bytes = bootstrap_elf_9\<rparr>,
     \<lparr>es_name = ''.BTF'', es_type = 1, es_flags = 0, es_link = 0, es_info = 0, es_size = 23633,
      es_bytes = take 23633 bootstrap_elf_10\<rparr>,
     \<lparr>es_name = ''.BTF.ext'', es_type = 1, es_flags = 0, es_link = 0, es_info = 0, es_size = 1340,
      es_bytes = take 1340 bootstrap_elf_11\<rparr>]"
proof -
  have "le_at bootstrap_bpf__elf_bytes 60 2 = 12"
    using object_piecesD(4) [OF bootstrap_elf_pieces] by (simp add: bootstrap_elf_shdrs_def)
  moreover have "[0..<12] = [0, 1, 2, 3, 4, 5, 6, 7, 8, 9, 10, 11]"
    by (simp add: upt_rec)
  ultimately show ?thesis
    by (simp only: elf_sections_def list.map read_section_def Let_def bootstrap_elf_headers bootstrap_elf_flags bootstrap_elf_contents
        bootstrap_elf_names elf_section.simps)
qed

lemma bootstrap_elf_symtab_rows:
  "bootstrap_elf_2 =
    concat
     [[0, 0, 0, 0, 0, 0, 0, 0, 0, 0, 0, 0, 0, 0, 0, 0, 0, 0, 0, 0, 0, 0, 0, 0],
      [95, 0, 0, 0, 4, 0, 241, 255, 0, 0, 0, 0, 0, 0, 0, 0, 0, 0, 0, 0, 0, 0, 0, 0],
      [0, 0, 0, 0, 3, 0, 3, 0, 0, 0, 0, 0, 0, 0, 0, 0, 0, 0, 0, 0, 0, 0, 0, 0],
      [111, 0, 0, 0, 0, 0, 3, 0, 232, 1, 0, 0, 0, 0, 0, 0, 0, 0, 0, 0, 0, 0, 0, 0],
      [0, 0, 0, 0, 3, 0, 4, 0, 0, 0, 0, 0, 0, 0, 0, 0, 0, 0, 0, 0, 0, 0, 0, 0],
      [118, 0, 0, 0, 0, 0, 4, 0, 152, 2, 0, 0, 0, 0, 0, 0, 0, 0, 0, 0, 0, 0, 0, 0],
      [125, 0, 0, 0, 0, 0, 4, 0, 152, 0, 0, 0, 0, 0, 0, 0, 0, 0, 0, 0, 0, 0, 0, 0],
      [132, 0, 0, 0, 0, 0, 4, 0, 192, 0, 0, 0, 0, 0, 0, 0, 0, 0, 0, 0, 0, 0, 0, 0],
      [139, 0, 0, 0, 0, 0, 4, 0, 24, 1, 0, 0, 0, 0, 0, 0, 0, 0, 0, 0, 0, 0, 0, 0],
      [146, 0, 0, 0, 18, 0, 3, 0, 0, 0, 0, 0, 0, 0, 0, 0, 248, 1, 0, 0, 0, 0, 0, 0],
      [158, 0, 0, 0, 17, 0, 7, 0, 0, 0, 0, 0, 0, 0, 0, 0, 32, 0, 0, 0, 0, 0, 0, 0],
      [169, 0, 0, 0, 17, 0, 6, 0, 0, 0, 0, 0, 0, 0, 0, 0, 8, 0, 0, 0, 0, 0, 0, 0],
      [185, 0, 0, 0, 17, 0, 7, 0, 32, 0, 0, 0, 0, 0, 0, 0, 16, 0, 0, 0, 0, 0, 0, 0],
      [188, 0, 0, 0, 18, 0, 4, 0, 0, 0, 0, 0, 0, 0, 0, 0, 168, 2, 0, 0, 0, 0, 0, 0],
      [200, 0, 0, 0, 17, 0, 5, 0, 0, 0, 0, 0, 0, 0, 0, 0, 13, 0, 0, 0, 0, 0, 0, 0]]"
  by (simp add: bootstrap_elf_2_def)

lemma bootstrap_elf_symbols:
  "elf_symbols bootstrap_bpf__elf_bytes =
    [\<lparr>sym_name = '''', sym_info = 0, sym_shndx = 0, sym_value = 0, sym_size = 0\<rparr>,
     \<lparr>sym_name = ''bootstrap.bpf.c'', sym_info = 4, sym_shndx = 65521, sym_value = 0, sym_size = 0\<rparr>,
     \<lparr>sym_name = '''', sym_info = 3, sym_shndx = 3, sym_value = 0, sym_size = 0\<rparr>,
     \<lparr>sym_name = ''LBB0_3'', sym_info = 0, sym_shndx = 3, sym_value = 488, sym_size = 0\<rparr>,
     \<lparr>sym_name = '''', sym_info = 3, sym_shndx = 4, sym_value = 0, sym_size = 0\<rparr>,
     \<lparr>sym_name = ''LBB1_8'', sym_info = 0, sym_shndx = 4, sym_value = 664, sym_size = 0\<rparr>,
     \<lparr>sym_name = ''LBB1_3'', sym_info = 0, sym_shndx = 4, sym_value = 152, sym_size = 0\<rparr>,
     \<lparr>sym_name = ''LBB1_4'', sym_info = 0, sym_shndx = 4, sym_value = 192, sym_size = 0\<rparr>,
     \<lparr>sym_name = ''LBB1_6'', sym_info = 0, sym_shndx = 4, sym_value = 280, sym_size = 0\<rparr>,
     \<lparr>sym_name = ''handle_exec'', sym_info = 18, sym_shndx = 3, sym_value = 0, sym_size = 504\<rparr>,
     \<lparr>sym_name = ''exec_start'', sym_info = 17, sym_shndx = 7, sym_value = 0, sym_size = 32\<rparr>,
     \<lparr>sym_name = ''min_duration_ns'', sym_info = 17, sym_shndx = 6, sym_value = 0, sym_size = 8\<rparr>,
     \<lparr>sym_name = ''rb'', sym_info = 17, sym_shndx = 7, sym_value = 32, sym_size = 16\<rparr>,
     \<lparr>sym_name = ''handle_exit'', sym_info = 18, sym_shndx = 4, sym_value = 0, sym_size = 680\<rparr>,
     \<lparr>sym_name = ''LICENSE'', sym_info = 17, sym_shndx = 5, sym_value = 0, sym_size = 13\<rparr>]"
  by (simp add: elf_symbols_def bootstrap_elf_sections Let_def read_symbol_rows [OF bootstrap_elf_symtab_rows] del: upt_rec_numeral)
    (simp add: read_symbol_def elf_eval bootstrap_elf_1_def)

lemma bootstrap_elf_programs:
  "elf_programs bootstrap_bpf__elf_bytes =
    [(''tp/sched/sched_process_exec'', decode_program bootstrap_elf_3),
     (''tp/sched/sched_process_exit'', decode_program bootstrap_elf_4)]"
  by (simp add: elf_programs_def bootstrap_elf_sections is_program_def bit_numeral_rec bit_0)

end
