(* ===== verification/Obj_Bootstrap_Legacy.thy ===== *)
theory Obj_Bootstrap_Legacy
  imports Elf
begin

text \<open>
  The object file embedded in examples/c/.output/bootstrap_legacy.skel.h as a string literal: one list of bytes per line of the
  literal, cut at the borders of the sections; then its section table, its symbols and its programs.
\<close>

section \<open>The literal\<close>

definition bootstrap_legacy_elf_hdr :: "byte list" where
  "bootstrap_legacy_elf_hdr =
    concat
    [[127, 69, 76, 70, 2, 1, 1, 0, 0, 0, 0, 0, 0, 0, 0, 0, 1, 0, 247, 0, 1, 0, 0, 0, 0, 0, 0, 0, 0],
     [0, 0, 0, 0, 0, 0, 0, 0, 0, 0, 0, 40, 107, 0, 0, 0, 0, 0, 0, 0, 0, 0, 0, 64, 0, 0, 0, 0, 0, 64, 0, 12, 0],
     [1, 0]]"

definition bootstrap_legacy_elf_1 :: "byte list" where
  "bootstrap_legacy_elf_1 =
    concat
    [[0, 46, 115, 116, 114, 116, 97, 98, 0, 46, 115, 121, 109, 116, 97, 98, 0, 116, 112],
     [47, 115, 99, 104, 101, 100, 47, 115, 99, 104, 101, 100, 95, 112, 114, 111, 99, 101, 115],
     [115, 95, 101, 120, 101, 99, 0, 116, 112, 47, 115, 99, 104, 101, 100, 47, 115, 99, 104, 101],
     [100, 95, 112, 114, 111, 99, 101, 115, 115, 95, 101, 120, 105, 116, 0, 108, 105, 99, 101, 110],
     [115, 101, 0, 46, 114, 111, 100, 97, 116, 97, 0, 46, 109, 97, 112, 115, 0, 98, 111, 111, 116],
     [115, 116, 114, 97, 112, 95, 108, 101, 103, 97, 99, 121, 46, 98, 112, 102, 46, 99, 0, 76],
     [66, 66, 48, 95, 50, 0, 76, 66, 66, 49, 95, 55, 0, 76, 66, 66, 49, 95, 51, 0, 76],
     [66, 66, 49, 95, 52, 0, 76, 66, 66, 49, 95, 54, 0, 104, 97, 110, 100, 108, 101, 95],
     [101, 120, 101, 99, 0, 101, 120, 101, 99, 95, 115, 116, 97, 114, 116, 0, 109, 105, 110, 95],
     [100, 117, 114, 97, 116, 105, 111, 110, 95, 110, 115, 0, 112, 101, 114, 102, 95, 98, 117, 102],
     [102, 101, 114, 0, 104, 97, 110, 100, 108, 101, 95, 101, 120, 105, 116, 0, 76, 73, 67, 69],
     [78, 83, 69, 0, 46, 114, 101, 108, 116, 112, 47, 115, 99, 104, 101, 100, 47, 115, 99, 104],
     [101, 100, 95, 112, 114, 111, 99, 101, 115, 115, 95, 101, 120, 101, 99, 0, 46, 114, 101, 108],
     [116, 112, 47, 115, 99, 104, 101, 100, 47, 115, 99, 104, 101, 100, 95, 112, 114, 111, 99],
     [101, 115, 115, 95, 101, 120, 105, 116, 0, 46, 66, 84, 70, 0, 46, 66, 84, 70, 46, 101],
     [120, 116, 0, 0, 0]]"

definition bootstrap_legacy_elf_2 :: "byte list" where
  "bootstrap_legacy_elf_2 =
    concat
    [[0, 0, 0, 0, 0, 0, 0, 0, 0, 0, 0, 0, 0, 0, 0, 0, 0, 0, 0, 0, 0, 0, 0, 0, 95, 0, 0, 0, 4, 0],
     [241, 255, 0, 0, 0, 0, 0, 0, 0, 0, 0, 0, 0, 0, 0, 0, 0, 0, 0, 0, 0, 0, 3, 0, 3, 0, 0, 0, 0, 0, 0, 0, 0, 0, 0],
     [0, 0, 0, 0, 0, 0, 0, 118, 0, 0, 0, 0, 0, 3, 0, 120, 2, 0, 0, 0, 0, 0, 0, 0, 0, 0, 0, 0, 0, 0, 0, 0, 0, 0, 0],
     [3, 0, 4, 0, 0, 0, 0, 0, 0, 0, 0, 0, 0, 0, 0, 0, 0, 0, 0, 0, 125, 0, 0, 0, 0, 0, 4, 0, 56, 3, 0, 0, 0],
     [0, 0, 0, 0, 0, 0, 0, 0, 0, 0, 0, 132, 0, 0, 0, 0, 0, 4, 0, 80, 1, 0, 0, 0, 0, 0, 0, 0, 0, 0, 0, 0, 0, 0, 0],
     [139, 0, 0, 0, 0, 0, 4, 0, 120, 1, 0, 0, 0, 0, 0, 0, 0, 0, 0, 0, 0, 0, 0, 0, 146, 0, 0, 0, 0, 0, 4, 0],
     [208, 1, 0, 0, 0, 0, 0, 0, 0, 0, 0, 0, 0, 0, 0, 0, 153, 0, 0, 0, 18, 0, 3, 0, 0, 0, 0, 0, 0, 0, 0, 0, 136],
     [2, 0, 0, 0, 0, 0, 0, 165, 0, 0, 0, 17, 0, 7, 0, 0, 0, 0, 0, 0, 0, 0, 0, 32, 0, 0, 0, 0, 0, 0, 0, 176, 0],
     [0, 0, 17, 0, 6, 0, 0, 0, 0, 0, 0, 0, 0, 0, 8, 0, 0, 0, 0, 0, 0, 0, 192, 0, 0, 0, 17, 0, 7, 0, 32, 0],
     [0, 0, 0, 0, 0, 0, 24, 0, 0, 0, 0, 0, 0, 0, 204, 0, 0, 0, 18, 0, 4, 0, 0, 0, 0, 0, 0, 0, 0, 0, 72, 3, 0],
     [0, 0, 0, 0, 0, 216, 0, 0, 0, 17, 0, 5, 0, 0, 0, 0, 0, 0, 0, 0, 0, 13, 0, 0, 0, 0, 0, 0, 0]]"

definition bootstrap_legacy_elf_3 :: "byte list" where
  "bootstrap_legacy_elf_3 =
    concat
    [[191, 22, 0, 0],
     [0, 0, 0, 0, 183, 7, 0, 0, 0, 0, 0, 0, 123, 122, 248, 255, 0, 0, 0, 0, 123, 122, 240, 255, 0, 0, 0, 0],
     [123, 122, 232, 255, 0, 0, 0, 0, 123, 122, 224, 255, 0, 0, 0, 0, 123, 122, 216, 255, 0, 0, 0, 0, 123],
     [122, 208, 255, 0, 0, 0, 0, 123, 122, 200, 255, 0, 0, 0, 0, 123, 122, 192, 255, 0, 0, 0, 0, 123, 122],
     [184, 255, 0, 0, 0, 0, 123, 122, 176, 255, 0, 0, 0, 0, 123, 122, 168, 255, 0, 0, 0, 0, 123, 122, 160],
     [255, 0, 0, 0, 0, 123, 122, 152, 255, 0, 0, 0, 0, 123, 122, 144, 255, 0, 0, 0, 0, 123, 122, 136, 255, 0],
     [0, 0, 0, 123, 122, 128, 255, 0, 0, 0, 0, 123, 122, 120, 255, 0, 0, 0, 0, 123, 122, 112, 255, 0, 0, 0, 0],
     [123, 122, 104, 255, 0, 0, 0, 0, 123, 122, 96, 255, 0, 0, 0, 0, 123, 122, 88, 255, 0, 0, 0, 0, 133, 0],
     [0, 0, 14, 0, 0, 0, 119, 0, 0, 0, 32, 0, 0, 0, 99, 10, 84, 255, 0, 0, 0, 0, 133, 0, 0, 0, 5, 0, 0, 0],
     [123, 10, 72, 255, 0, 0, 0, 0, 191, 162, 0, 0, 0, 0, 0, 0, 7, 2, 0, 0, 84, 255, 255, 255, 191],
     [163, 0, 0, 0, 0, 0, 0, 7, 3, 0, 0, 72, 255, 255, 255, 24, 1, 0, 0, 0, 0, 0, 0, 0, 0, 0, 0, 0, 0, 0],
     [0, 183, 4, 0, 0, 0, 0, 0, 0, 133, 0, 0, 0, 2, 0, 0, 0, 24, 1, 0, 0, 0, 0, 0, 0, 0, 0, 0, 0, 0, 0, 0, 0],
     [121, 17, 0, 0, 0, 0, 0, 0, 85, 1, 39, 0, 0, 0, 0, 0, 133, 0, 0, 0, 35, 0, 0, 0, 115, 122, 255, 255],
     [0, 0, 0, 0, 97, 161, 84, 255, 0, 0, 0, 0, 99, 26, 88, 255, 0, 0, 0, 0, 183, 1, 0, 0, 64, 4, 0],
     [0, 15, 16, 0, 0, 0, 0, 0, 0, 191, 161, 0, 0, 0, 0, 0, 0, 7, 1, 0, 0, 64, 255, 255, 255, 183, 2],
     [0, 0, 8, 0, 0, 0, 191, 3, 0, 0, 0, 0, 0, 0, 133, 0, 0, 0, 113, 0, 0, 0, 183, 1, 0, 0, 60, 4, 0, 0],
     [121, 163, 64, 255, 0, 0, 0, 0, 15, 19, 0, 0, 0, 0, 0, 0, 191, 161, 0, 0, 0, 0, 0, 0, 7, 1, 0, 0],
     [92, 255, 255, 255, 183, 2, 0, 0, 4, 0, 0, 0, 133, 0, 0, 0, 113, 0, 0, 0, 191, 161, 0, 0, 0, 0, 0, 0],
     [7, 1, 0, 0, 112, 255, 255, 255, 183, 2, 0, 0, 16, 0, 0, 0, 133, 0, 0, 0, 16, 0, 0, 0, 97, 97],
     [8, 0, 0, 0, 0, 0, 87, 1, 0, 0, 255, 255, 0, 0, 191, 99, 0, 0, 0, 0, 0, 0, 15, 19, 0, 0, 0, 0, 0, 0],
     [191, 161, 0, 0, 0, 0, 0, 0, 7, 1, 0, 0, 128, 255, 255, 255, 183, 2, 0, 0, 127, 0, 0, 0, 133, 0, 0],
     [0, 45, 0, 0, 0, 191, 164, 0, 0, 0, 0, 0, 0, 7, 4, 0, 0, 88, 255, 255, 255, 191, 97, 0, 0, 0, 0, 0],
     [0, 24, 2, 0, 0, 0, 0, 0, 0, 0, 0, 0, 0, 0, 0, 0, 0, 24, 3, 0, 0, 255, 255, 255, 255, 0, 0, 0, 0, 0, 0],
     [0, 0, 183, 5, 0, 0, 168, 0, 0, 0, 133, 0, 0, 0, 25, 0, 0, 0, 183, 0, 0, 0, 0, 0, 0, 0, 149, 0, 0, 0, 0, 0],
     [0, 0]]"

definition bootstrap_legacy_elf_4 :: "byte list" where
  "bootstrap_legacy_elf_4 =
    concat
    [[191, 22, 0, 0, 0, 0, 0, 0, 183, 1, 0, 0, 0, 0, 0, 0, 123, 26, 248, 255, 0, 0, 0, 0, 123, 26],
     [240, 255, 0, 0, 0, 0, 123, 26, 232, 255, 0, 0, 0, 0, 123, 26, 224, 255, 0, 0, 0, 0, 123, 26, 216],
     [255, 0, 0, 0, 0, 123, 26, 208, 255, 0, 0, 0, 0, 123, 26, 200, 255, 0, 0, 0, 0, 123, 26, 192, 255, 0],
     [0, 0, 0, 123, 26, 184, 255, 0, 0, 0, 0, 123, 26, 176, 255, 0, 0, 0, 0, 123, 26, 168, 255, 0, 0, 0, 0],
     [123, 26, 160, 255, 0, 0, 0, 0, 123, 26, 152, 255, 0, 0, 0, 0, 123, 26, 144, 255, 0, 0, 0, 0, 123],
     [26, 136, 255, 0, 0, 0, 0, 123, 26, 128, 255, 0, 0, 0, 0, 123, 26, 120, 255, 0, 0, 0, 0, 123, 26],
     [112, 255, 0, 0, 0, 0, 123, 26, 104, 255, 0, 0, 0, 0, 123, 26, 96, 255, 0, 0, 0, 0, 123, 26, 88],
     [255, 0, 0, 0, 0, 133, 0, 0, 0, 14, 0, 0, 0, 191, 1, 0, 0, 0, 0, 0, 0, 119, 1, 0, 0, 32, 0, 0, 0, 99],
     [26, 84, 255, 0, 0, 0, 0, 103, 0, 0, 0, 32, 0, 0, 0, 119, 0, 0, 0, 32, 0, 0, 0, 93, 1, 73, 0, 0, 0],
     [0, 0, 191, 162, 0, 0, 0, 0, 0, 0, 7, 2, 0, 0, 84, 255, 255, 255, 24, 1, 0, 0, 0, 0, 0, 0, 0, 0, 0],
     [0, 0, 0, 0, 0, 133, 0, 0, 0, 1, 0, 0, 0, 191, 7, 0, 0, 0, 0, 0, 0, 21, 7, 5, 0, 0, 0, 0, 0, 133, 0],
     [0, 0, 5, 0, 0, 0, 191, 8, 0, 0, 0, 0, 0, 0, 121, 113, 0, 0, 0, 0, 0, 0, 31, 24, 0, 0, 0, 0, 0, 0, 5],
     [0, 5, 0, 0, 0, 0, 0, 183, 8, 0, 0, 0, 0, 0, 0, 24, 1, 0, 0, 0, 0, 0, 0, 0, 0, 0, 0, 0, 0, 0, 0, 121],
     [17, 0, 0, 0, 0, 0, 0, 85, 1, 56, 0, 0, 0, 0, 0, 191, 162, 0, 0, 0, 0, 0, 0, 7, 2, 0, 0, 84, 255],
     [255, 255, 24, 1, 0, 0, 0, 0, 0, 0, 0, 0, 0, 0, 0, 0, 0, 0, 133, 0, 0, 0, 3, 0, 0, 0, 24, 1, 0, 0, 0],
     [0, 0, 0, 0, 0, 0, 0, 0, 0, 0, 0, 121, 18, 0, 0, 0, 0, 0, 0, 21, 2, 2, 0, 0, 0, 0, 0, 121, 17, 0, 0, 0],
     [0, 0, 0, 45, 129, 45, 0, 0, 0, 0, 0, 133, 0, 0, 0, 35, 0, 0, 0, 191, 7, 0, 0, 0, 0, 0, 0, 183, 1, 0],
     [0, 1, 0, 0, 0, 115, 26, 255, 255, 0, 0, 0, 0, 123, 138, 104, 255, 0, 0, 0, 0, 97, 161, 84, 255, 0],
     [0, 0, 0, 99, 26, 88, 255, 0, 0, 0, 0, 183, 1, 0, 0, 64, 4, 0, 0, 191, 115, 0, 0, 0, 0, 0, 0, 15],
     [19, 0, 0, 0, 0, 0, 0, 191, 161, 0, 0, 0, 0, 0, 0, 7, 1, 0, 0, 72, 255, 255, 255, 183, 2, 0, 0],
     [8, 0, 0, 0, 133, 0, 0, 0, 113, 0, 0, 0, 183, 1, 0, 0, 60, 4, 0, 0, 121, 163, 72, 255, 0, 0, 0, 0],
     [15, 19, 0, 0, 0, 0, 0, 0, 191, 161, 0, 0, 0, 0, 0, 0, 7, 1, 0, 0, 92, 255, 255, 255, 183, 2, 0],
     [0, 4, 0, 0, 0, 133, 0, 0, 0, 113, 0, 0, 0, 183, 1, 0, 0, 212, 3, 0, 0, 15, 23, 0, 0, 0, 0, 0, 0],
     [191, 161, 0, 0, 0, 0, 0, 0, 7, 1, 0, 0, 72, 255, 255, 255, 183, 2, 0, 0, 4, 0, 0, 0, 191, 115],
     [0, 0, 0, 0, 0, 0, 133, 0, 0, 0, 113, 0, 0, 0, 97, 161, 72, 255, 0, 0, 0, 0, 119, 1, 0, 0, 8, 0, 0, 0],
     [87, 1, 0, 0, 255, 0, 0, 0, 99, 26, 96, 255, 0, 0, 0, 0, 191, 161, 0, 0, 0, 0, 0, 0, 7, 1, 0, 0],
     [112, 255, 255, 255, 183, 2, 0, 0, 16, 0, 0, 0, 133, 0, 0, 0, 16, 0, 0, 0, 191, 164, 0, 0, 0, 0, 0, 0],
     [7, 4, 0, 0, 88, 255, 255, 255, 191, 97, 0, 0, 0, 0, 0, 0, 24, 2, 0, 0, 0, 0, 0, 0, 0, 0, 0, 0, 0],
     [0, 0, 0, 24, 3, 0, 0, 255, 255, 255, 255, 0, 0, 0, 0, 0, 0, 0, 0, 183, 5, 0, 0, 168, 0, 0, 0, 133, 0],
     [0, 0, 25, 0, 0, 0, 183, 0, 0, 0, 0, 0, 0, 0, 149, 0, 0, 0, 0, 0, 0, 0]]"

definition bootstrap_legacy_elf_5 :: "byte list" where
  "bootstrap_legacy_elf_5 =
    concat
    [[68, 117, 97, 108, 32, 66, 83],
     [68, 47, 71, 80, 76, 0, 0, 0, 0]]"

definition bootstrap_legacy_elf_6 :: "byte list" where
  "bootstrap_legacy_elf_6 =
    concat
    [[0, 0, 0, 0, 0, 0, 0, 0]]"

definition bootstrap_legacy_elf_7 :: "byte list" where
  "bootstrap_legacy_elf_7 =
    concat
    [[0, 0, 0, 0, 0, 0, 0, 0, 0, 0, 0, 0, 0, 0, 0, 0, 0],
     [0, 0, 0, 0, 0, 0, 0, 0, 0, 0, 0, 0, 0, 0, 0, 0, 0, 0, 0, 0, 0, 0, 0, 0, 0, 0, 0, 0, 0, 0, 0, 0, 0, 0, 0, 0, 0, 0, 0]]"

definition bootstrap_legacy_elf_8 :: "byte list" where
  "bootstrap_legacy_elf_8 =
    concat
    [[0, 1, 0, 0, 0, 0, 0, 0, 1, 0, 0, 0, 10, 0, 0, 0, 32, 1, 0, 0, 0, 0, 0, 0, 1, 0, 0, 0, 11, 0, 0, 0],
     [72, 2, 0, 0, 0, 0, 0, 0, 1, 0, 0, 0, 12, 0, 0, 0]]"

definition bootstrap_legacy_elf_9 :: "byte list" where
  "bootstrap_legacy_elf_9 =
    concat
    [[0, 1, 0, 0, 0, 0, 0, 0, 1, 0, 0, 0, 10, 0, 0, 0],
     [88, 1, 0, 0, 0, 0, 0, 0, 1, 0, 0, 0, 11, 0, 0, 0, 136, 1, 0, 0, 0, 0, 0, 0, 1, 0, 0, 0, 10, 0, 0],
     [0, 160, 1, 0, 0, 0, 0, 0, 0, 1, 0, 0, 0, 11, 0, 0, 0, 8, 3, 0, 0, 0, 0, 0, 0, 1, 0, 0, 0, 12, 0],
     [0, 0]]"

definition bootstrap_legacy_elf_10_a :: "byte list" where
  "bootstrap_legacy_elf_10_a =
    concat
    [[159, 235, 1, 0, 24, 0, 0, 0, 0, 0, 0, 0, 176, 53, 0, 0, 176, 53, 0, 0, 215, 38, 0, 0, 0, 0, 0],
     [0, 0, 0, 0, 2, 3, 0, 0, 0, 1, 0, 0, 0, 0, 0, 0, 1, 4, 0, 0, 0, 32, 0, 0, 1, 0, 0, 0, 0, 0, 0, 0],
     [3, 0, 0, 0, 0, 2, 0, 0, 0, 4, 0, 0, 0, 1, 0, 0, 0, 5, 0, 0, 0, 0, 0, 0, 1, 4, 0, 0, 0, 32, 0],
     [0, 0, 0, 0, 0, 0, 0, 0, 0, 2, 6, 0, 0, 0, 0, 0, 0, 0, 0, 0, 0, 3, 0, 0, 0, 0, 2, 0, 0, 0, 4, 0, 0, 0],
     [0, 32, 0, 0, 0, 0, 0, 0, 0, 0, 0, 2, 8, 0, 0, 0, 25, 0, 0, 0, 0, 0, 0, 8, 9, 0, 0, 0, 31, 0, 0, 0],
     [0, 0, 0, 8, 2, 0, 0, 0, 0, 0, 0, 0, 0, 0, 0, 2, 11, 0, 0, 0, 46, 0, 0, 0, 0, 0, 0, 8, 12, 0, 0, 0],
     [50, 0, 0, 0, 0, 0, 0, 8, 13, 0, 0, 0, 56, 0, 0, 0, 0, 0, 0, 1, 8, 0, 0, 0, 64, 0, 0, 0, 0, 0, 0, 0],
     [4, 0, 0, 4, 32, 0, 0, 0, 75, 0, 0, 0, 1, 0, 0, 0, 0, 0, 0, 0, 80, 0, 0, 0, 5, 0, 0, 0, 64, 0, 0],
     [0, 92, 0, 0, 0, 7, 0, 0, 0, 128, 0, 0, 0, 96, 0, 0, 0, 10, 0, 0, 0, 192, 0, 0, 0, 102, 0, 0, 0, 0, 0, 0],
     [14, 14, 0, 0, 0, 1, 0, 0, 0, 0, 0, 0, 0, 0, 0, 0, 2, 17, 0, 0, 0, 0, 0, 0, 0, 0, 0, 0, 3, 0, 0, 0, 0],
     [2, 0, 0, 0, 4, 0, 0, 0, 4, 0, 0, 0, 0, 0, 0, 0, 3, 0, 0, 4, 24, 0, 0, 0, 75, 0, 0, 0, 16, 0, 0],
     [0, 0, 0, 0, 0, 113, 0, 0, 0, 16, 0, 0, 0, 64, 0, 0, 0, 122, 0, 0, 0, 16, 0, 0, 0, 128, 0, 0, 0, 133, 0, 0],
     [0, 0, 0, 0, 14, 18, 0, 0, 0, 1, 0, 0, 0, 0, 0, 0, 0, 0, 0, 0, 2, 21, 0, 0, 0, 145, 0, 0, 0, 5, 0, 0],
     [4, 20, 0, 0, 0, 180, 0, 0, 0, 22, 0, 0, 0, 0, 0, 0, 0, 184, 0, 0, 0, 25, 0, 0, 0, 64, 0, 0, 0, 204, 0],
     [0, 0, 8, 0, 0, 0, 96, 0, 0, 0, 208, 0, 0, 0, 8, 0, 0, 0, 128, 0, 0, 0, 216, 0, 0, 0, 29, 0, 0, 0, 160],
     [0, 0, 0, 223, 0, 0, 0, 4, 0, 0, 4, 8, 0, 0, 0, 75, 0, 0, 0, 23, 0, 0, 0, 0, 0, 0, 0, 235, 0, 0, 0],
     [24, 0, 0, 0, 16, 0, 0, 0, 241, 0, 0, 0, 24, 0, 0, 0, 24, 0, 0, 0, 204, 0, 0, 0, 2, 0, 0, 0, 32, 0, 0],
     [0, 255, 0, 0, 0, 0, 0, 0, 1, 2, 0, 0, 0, 16, 0, 0, 0, 14, 1, 0, 0, 0, 0, 0, 1, 1, 0, 0, 0, 8],
     [0, 0, 0, 28, 1, 0, 0, 0, 0, 0, 8, 26, 0, 0, 0, 32, 1, 0, 0, 0, 0, 0, 8, 27, 0, 0, 0, 38, 1],
     [0, 0, 0, 0, 0, 1, 4, 0, 0, 0, 32, 0, 0, 0, 51, 1, 0, 0, 0, 0, 0, 1, 1, 0, 0, 0, 8, 0, 0, 1],
     [0, 0, 0, 0, 0, 0, 0, 3, 0, 0, 0, 0, 28, 0, 0, 0, 4, 0, 0, 0, 0, 0, 0, 0, 0, 0, 0, 0, 1, 0, 0, 13, 2],
     [0, 0, 0, 56, 1, 0, 0, 20, 0, 0, 0, 60, 1, 0, 0, 1, 0, 0, 12, 30, 0, 0, 0, 72, 1, 0, 0, 159],
     [0, 0, 132, 0, 14, 0, 0, 84, 1, 0, 0, 33, 0, 0, 0, 0, 0, 0, 0, 96, 1, 0, 0, 27, 0, 0, 0, 192, 0, 0],
     [0, 104, 1, 0, 0, 27, 0, 0, 0, 224, 0, 0, 0, 116, 1, 0, 0, 37, 0, 0, 0, 0, 1, 0, 0, 122, 1, 0, 0],
     [38, 0, 0, 0, 64, 1, 0, 0, 235, 0, 0, 0, 27, 0, 0, 0, 96, 1, 0, 0, 128, 1, 0, 0, 27, 0, 0, 0],
     [128, 1, 0, 0, 135, 1, 0, 0, 2, 0, 0, 0, 160, 1, 0, 0, 142, 1, 0, 0, 42, 0, 0, 0, 192, 1, 0],
     [0, 153, 1, 0, 0, 27, 0, 0, 0, 64, 2, 0, 0, 165, 1, 0, 0, 34, 0, 0, 0, 128, 2, 0, 0, 185, 1],
     [0, 0, 48, 0, 0, 0, 192, 2, 0, 0, 196, 1, 0, 0, 2, 0, 0, 0, 0, 3, 0, 0, 212, 1, 0, 0, 2, 0, 0],
     [0, 32, 3, 0, 0, 221, 1, 0, 0, 2, 0, 0, 0, 64, 3, 0, 0, 227, 1, 0, 0, 2, 0, 0, 0, 96, 3],
     [0, 0, 232, 1, 0, 0, 2, 0, 0, 0, 128, 3, 0, 0, 244, 1, 0, 0, 2, 0, 0, 0, 160, 3, 0, 0, 0, 2],
     [0, 0, 27, 0, 0, 0, 192, 3, 0, 0, 12, 2, 0, 0, 49, 0, 0, 0, 0, 4, 0, 0, 15, 2, 0, 0, 60, 0, 0],
     [0, 0, 12, 0, 0, 18, 2, 0, 0, 62, 0, 0, 0, 128, 13, 0, 0, 21, 2, 0, 0, 77, 0, 0, 0, 192, 20, 0],
     [0, 31, 2, 0, 0, 78, 0, 0, 0, 0, 21, 0, 0, 43, 2, 0, 0, 80, 0, 0, 0, 0, 22, 0, 0, 49, 2, 0, 0],
     [27, 0, 0, 0, 0, 22, 0, 0, 56, 2, 0, 0, 34, 0, 0, 0, 64, 22, 0, 0, 77, 2, 0, 0, 2, 0, 0, 0],
     [128, 22, 0, 0, 93, 2, 0, 0, 81, 0, 0, 0, 192, 22, 0, 0, 102, 2, 0, 0, 84, 0, 0, 0, 0, 23, 0, 0],
     [116, 2, 0, 0, 83, 0, 0, 0, 64, 23, 0, 0, 126, 2, 0, 0, 37, 0, 0, 0, 64, 25, 0, 0, 144, 2, 0],
     [0, 23, 0, 0, 0, 128, 25, 0, 0, 163, 2, 0, 0, 23, 0, 0, 0, 144, 25, 0, 0, 179, 2, 0, 0, 2, 0, 0],
     [0, 160, 25, 0, 0, 198, 2, 0, 0, 2, 0, 0, 0, 192, 25, 0, 0, 213, 2, 0, 0, 87, 0, 0, 0, 224, 25],
     [0, 0, 232, 2, 0, 0, 53, 0, 0, 0, 0, 26, 0, 0, 249, 2, 0, 0, 53, 0, 0, 0, 128, 26, 0, 0, 7, 3],
     [0, 0, 2, 0, 0, 0, 0, 27, 0, 0, 20, 3, 0, 0, 89, 0, 0, 0, 32, 27, 0, 0, 31, 3, 0, 0, 53, 0, 0],
     [0, 64, 27, 0, 0, 37, 3, 0, 0, 90, 0, 0, 0, 192, 27, 0, 0, 52, 3, 0, 0, 51, 0, 0, 0, 0, 29, 0],
     [0, 70, 3, 0, 0, 91, 0, 0, 0, 192, 29, 0, 0, 73, 3, 0, 0, 91, 0, 0, 0, 0, 30, 0, 0, 83, 3, 0],
     [0, 92, 0, 0, 0, 64, 30, 0, 0, 107, 3, 0, 0, 2, 0, 0, 0, 128, 30, 0, 0, 118, 3, 0, 0, 2, 0, 0],
     [0, 160, 30, 0, 0, 128, 3, 0, 0, 2, 0, 0, 0, 192, 30, 0, 0, 140, 3, 0, 0, 2, 0, 0, 0, 224, 30],
     [0, 0, 154, 3, 0, 0, 34, 0, 0, 0, 0, 31, 0, 0, 161, 3, 0, 0, 27, 0, 0, 0, 64, 31, 0, 0, 173, 3],
     [0, 0, 27, 0, 0, 0, 96, 31, 0, 1, 193, 3, 0, 0, 27, 0, 0, 0, 97, 31, 0, 1, 219, 3, 0, 0],
     [27, 0, 0, 0, 98, 31, 0, 1, 234, 3, 0, 0, 27, 0, 0, 0, 99, 31, 0, 1, 249, 3, 0, 0, 27, 0],
     [0, 0, 128, 31, 0, 1, 13, 4, 0, 0, 27, 0, 0, 0, 129, 31, 0, 1, 23, 4, 0, 0, 27, 0, 0, 0],
     [130, 31, 0, 1, 33, 4, 0, 0, 27, 0, 0, 0, 131, 31, 0, 1, 49, 4, 0, 0, 34, 0, 0, 0, 192],
     [31, 0, 0, 62, 4, 0, 0, 93, 0, 0, 0, 0, 32, 0, 0, 204, 0, 0, 0, 8, 0, 0, 0, 192, 33, 0, 0, 76],
     [4, 0, 0, 8, 0, 0, 0, 224, 33, 0, 0, 81, 4, 0, 0, 48, 0, 0, 0, 0, 34, 0, 0, 93, 4, 0, 0, 48],
     [0, 0, 0, 64, 34, 0, 0, 100, 4, 0, 0, 53, 0, 0, 0, 128, 34, 0, 0, 109, 4, 0, 0, 53, 0, 0, 0, 0],
     [35, 0, 0, 117, 4, 0, 0, 48, 0, 0, 0, 128, 35, 0, 0, 130, 4, 0, 0, 53, 0, 0, 0, 192, 35, 0, 0],
     [138, 4, 0, 0, 53, 0, 0, 0, 64, 36, 0, 0, 151, 4, 0, 0, 110, 0, 0, 0, 192, 36, 0, 0, 162, 4, 0],
     [0, 114, 0, 0, 0, 0, 37, 0, 0, 172, 4, 0, 0, 53, 0, 0, 0, 0, 39, 0, 0, 184, 4, 0, 0, 115, 0, 0, 0],
     [128, 39, 0, 0, 195, 4, 0, 0, 116, 0, 0, 0, 192, 39, 0, 0, 209, 4, 0, 0, 116, 0, 0, 0, 0, 40, 0, 0],
     [225, 4, 0, 0, 37, 0, 0, 0, 64, 40, 0, 0, 240, 4, 0, 0, 11, 0, 0, 0, 128, 40, 0, 0, 246, 4, 0],
     [0, 11, 0, 0, 0, 192, 40, 0, 0, 252, 4, 0, 0, 11, 0, 0, 0, 0, 41, 0, 0, 2, 5, 0, 0, 117, 0, 0, 0],
     [64, 41, 0, 0, 15, 5, 0, 0, 34, 0, 0, 0, 0, 42, 0, 0, 21, 5, 0, 0, 34, 0, 0, 0, 64, 42, 0, 0],
     [28, 5, 0, 0, 11, 0, 0, 0, 128, 42, 0, 0, 39, 5, 0, 0, 11, 0, 0, 0, 192, 42, 0, 0, 54, 5, 0],
     [0, 34, 0, 0, 0, 0, 43, 0, 0, 62, 5, 0, 0, 34, 0, 0, 0, 64, 43, 0, 0, 70, 5, 0, 0, 125, 0, 0, 0],
     [128, 43, 0, 0, 86, 5, 0, 0, 126, 0, 0, 0, 128, 43, 0, 0, 99, 5, 0, 0, 126, 0, 0, 0, 192, 43, 0],
     [0, 109, 5, 0, 0, 126, 0, 0, 0, 0, 44, 0, 0, 114, 5, 0, 0, 151, 0, 0, 0, 64, 44, 0, 0, 119, 5, 0],
     [0, 152, 0, 0, 0, 192, 44, 0, 0, 129, 5, 0, 0, 153, 0, 0, 0, 0, 45, 0, 0, 132, 5, 0, 0, 154, 0, 0, 0],
     [64, 45, 0, 0, 138, 5, 0, 0, 155, 0, 0, 0, 128, 45, 0, 0, 146, 5, 0, 0, 156, 0, 0, 0, 192, 45, 0],
     [0, 153, 5, 0, 0, 157, 0, 0, 0, 0, 46, 0, 0, 161, 5, 0, 0, 158, 0, 0, 0, 64, 46, 0, 0, 169, 5, 0],
     [0, 158, 0, 0, 0, 128, 46, 0, 0, 182, 5, 0, 0, 158, 0, 0, 0, 192, 46, 0, 0, 196, 5, 0, 0, 161, 0, 0],
     [0, 0, 47, 0, 0, 204, 5, 0, 0, 34, 0, 0, 0, 192, 47, 0, 0, 214, 5, 0, 0, 162, 0, 0, 0, 0, 48, 0, 0],
     [226, 5, 0, 0, 27, 0, 0, 0, 64, 48, 0, 0, 239, 5, 0, 0, 148, 0, 0, 0, 128, 48, 0, 0, 250, 5, 0],
     [0, 165, 0, 0, 0, 192, 48, 0, 0, 2, 6, 0, 0, 166, 0, 0, 0, 192, 48, 0, 0, 19, 6, 0, 0, 11, 0, 0],
     [0, 192, 48, 0, 0, 34, 6, 0, 0, 11, 0, 0, 0, 0, 49, 0, 0, 47, 6, 0, 0, 167, 0, 0, 0, 64, 49, 0],
     [0, 58, 6, 0, 0, 118, 0, 0, 0, 96, 49, 0, 0, 66, 6, 0, 0, 170, 0, 0, 0, 128, 49, 0, 0, 73, 6],
     [0, 0, 172, 0, 0, 0, 192, 49, 0, 0, 84, 6, 0, 0, 37, 0, 0, 0, 0, 50, 0, 0, 97, 6, 0, 0, 173, 0, 0],
     [0, 64, 50, 0, 0, 106, 6, 0, 0, 174, 0, 0, 0, 128, 50, 0, 0, 111, 6, 0, 0, 175, 0, 0, 0, 192, 50],
     [0, 0, 125, 6, 0, 0, 176, 0, 0, 0, 0, 51, 0, 0, 136, 6, 0, 0, 34, 0, 0, 0, 64, 51, 0, 0, 151, 6],
     [0, 0, 177, 0, 0, 0, 128, 51, 0, 0, 164, 6, 0, 0, 179, 0, 0, 0, 192, 51, 0, 0, 169, 6, 0, 0, 180, 0],
     [0, 0, 192, 51, 0, 0, 184, 6, 0, 0, 181, 0, 0, 0, 0, 52, 0, 0, 200, 6, 0, 0, 182, 0, 0, 0, 64, 52],
     [0, 0, 217, 6, 0, 0, 53, 0, 0, 0, 64, 53, 0, 0, 233, 6, 0, 0, 184, 0, 0, 0, 192, 53, 0, 0, 247],
     [6, 0, 0, 185, 0, 0, 0, 0, 54, 0, 0, 255, 6, 0, 0, 189, 0, 0, 0, 64, 54, 0, 0, 11, 7, 0, 0, 190],
     [0, 0, 0, 128, 54, 0, 0, 21, 7, 0, 0, 2, 0, 0, 0, 0, 55, 0, 0, 32, 7, 0, 0, 2, 0, 0, 0, 32],
     [55, 0, 0, 49, 7, 0, 0, 34, 0, 0, 0, 64, 55, 0, 0, 67, 7, 0, 0, 11, 0, 0, 0, 128, 55, 0, 0],
     [82, 7, 0, 0, 11, 0, 0, 0, 192, 55, 0, 0, 105, 7, 0, 0, 2, 0, 0, 0, 0, 56, 0, 0, 120, 7, 0, 0],
     [2, 0, 0, 0, 32, 56, 0, 0, 135, 7, 0, 0, 192, 0, 0, 0, 64, 56, 0, 0, 145, 7, 0, 0, 13, 0, 0, 0],
     [128, 56, 0, 0, 162, 7, 0, 0, 13, 0, 0, 0, 192, 56, 0, 0, 179, 7, 0, 0, 40, 0, 0, 0, 0, 57, 0, 0],
     [193, 7, 0, 0, 40, 0, 0, 0, 32, 57, 0, 0, 213, 7, 0, 0, 34, 0, 0, 0, 64, 57, 0, 0, 229, 7, 0],
     [0, 193, 0, 0, 0, 128, 57, 0, 0, 235, 7, 0, 0, 194, 0, 0, 0, 192, 57, 0, 0, 245, 7, 0, 0, 147, 0, 0],
     [0, 192, 57, 0, 0, 249, 7, 0, 0, 38, 0, 0, 0, 64, 58, 0, 0, 3, 8, 0, 0, 2, 0, 0, 0, 96, 58],
     [0, 0, 22, 8, 0, 0, 48, 0, 0, 0, 128, 58, 0, 0, 38, 8, 0, 0, 195, 0, 0, 0, 192, 58, 0, 0, 55],
     [8, 0, 0, 199, 0, 0, 0, 0, 60, 0, 0, 69, 8, 0, 0, 38, 0, 0, 0, 64, 60, 0, 0, 84, 8, 0, 0, 200],
     [0, 0, 0, 128, 60, 0, 0, 96, 8, 0, 0, 201, 0, 0, 0, 192, 60, 0, 0, 104, 8, 0, 0, 202, 0, 0, 0, 0],
     [61, 0, 0, 120, 8, 0, 0, 203, 0, 0, 0, 64, 61, 0, 0, 140, 8, 0, 0, 204, 0, 0, 0, 128, 61, 0, 0],
     [84, 1, 0, 0, 3, 0, 0, 4, 24, 0, 0, 0, 235, 0, 0, 0, 34, 0, 0, 0, 0, 0, 0, 0, 0, 0, 0, 0, 35, 0, 0],
     [0, 64, 0, 0, 0, 147, 8, 0, 0, 25, 0, 0, 0, 128, 0, 0, 0, 151, 8, 0, 0, 0, 0, 0, 1, 8, 0, 0, 0],
     [64, 0, 0, 0, 0, 0, 0, 0, 2, 0, 0, 5, 8, 0, 0, 0, 241, 0, 0, 0, 11, 0, 0, 0, 0, 0, 0, 0, 165, 8, 0],
     [0, 36, 0, 0, 0, 0, 0, 0, 0, 0, 0, 0, 0, 2, 0, 0, 4, 8, 0, 0, 0, 173, 8, 0, 0, 25, 0, 0, 0, 0, 0, 0],
     [0, 179, 8, 0, 0, 25, 0, 0, 0, 32, 0, 0, 0, 0, 0, 0, 0, 0, 0, 0, 2, 0, 0, 0, 0, 192, 8, 0, 0, 0, 0, 0],
     [8, 39, 0, 0, 0, 203, 8, 0, 0, 1, 0, 0, 4, 4, 0, 0, 0, 219, 8, 0, 0, 40, 0, 0, 0, 0, 0, 0, 0],
     [224, 8, 0, 0, 0, 0, 0, 8, 41, 0, 0, 0, 0, 0, 0, 0, 1, 0, 0, 4, 4, 0, 0, 0, 233, 8, 0, 0, 2],
     [0, 0, 0, 0, 0, 0, 0, 241, 8, 0, 0, 4, 0, 0, 4, 16, 0, 0, 0, 4, 9, 0, 0, 43, 0, 0, 0, 0, 0, 0, 0],
     [0, 0, 0, 0, 45, 0, 0, 0, 64, 0, 0, 0, 10, 9, 0, 0, 46, 0, 0, 0, 96, 0, 0, 0, 14, 9, 0, 0, 46, 0],
     [0, 0, 112, 0, 0, 0, 18, 9, 0, 0, 1, 0, 0, 4, 8, 0, 0, 0, 29, 9, 0, 0, 44, 0, 0, 0, 0, 0, 0, 0],
     [0, 0, 0, 0, 0, 0, 0, 2, 43, 0, 0, 0, 0, 0, 0, 0, 2, 0, 0, 5, 4, 0, 0, 0, 34, 9, 0, 0, 27, 0, 0],
     [0, 0, 0, 0, 0, 42, 9, 0, 0, 40, 0, 0, 0, 0, 0, 0, 0, 50, 9, 0, 0, 0, 0, 0, 8, 47, 0, 0, 0, 54],
     [9, 0, 0, 0, 0, 0, 8, 23, 0, 0, 0, 0, 0, 0, 0, 0, 0, 0, 2, 32, 0, 0, 0, 60, 9, 0, 0, 18, 0, 0],
     [4, 0, 1, 0, 0, 73, 9, 0, 0, 50, 0, 0, 0, 0, 0, 0, 0, 78, 9, 0, 0, 51, 0, 0, 0, 128, 0, 0, 0],
     [87, 9, 0, 0, 11, 0, 0, 0, 64, 1, 0, 0, 96, 9, 0, 0, 11, 0, 0, 0, 128, 1, 0, 0, 109, 9, 0],
     [0, 11, 0, 0, 0, 192, 1, 0, 0, 119, 9, 0, 0, 53, 0, 0, 0, 0, 2, 0, 0, 221, 1, 0, 0, 24, 0, 0, 0],
     [128, 2, 0, 0, 130, 9, 0, 0, 24, 0, 0, 0, 136, 2, 0, 0, 144, 9, 0, 0, 24, 0, 0, 0, 144, 2, 0],
     [0, 157, 9, 0, 0, 24, 0, 0, 0, 152, 2, 0, 0, 102, 0, 0, 0, 11, 0, 0, 0, 192, 2, 0, 0, 170, 9, 0],
     [0, 11, 0, 0, 0, 0, 3, 0, 0, 187, 9, 0, 0, 11, 0, 0, 0, 64, 3, 0, 0, 209, 9, 0, 0, 11, 0, 0, 0],
     [128, 3, 0, 0, 0, 0, 0, 0, 55, 0, 0, 0, 192, 3, 0, 0, 218, 9, 0, 0, 11, 0, 0, 0, 0, 4, 0, 0, 224],
     [9, 0, 0, 11, 0, 0, 0, 64, 4, 0, 0, 238, 9, 0, 0, 59, 0, 0, 0, 0, 6, 0, 0, 242, 9, 0, 0, 2],
     [0, 0, 4, 16, 0, 0, 0, 254, 9, 0, 0, 34, 0, 0, 0, 0, 0, 0, 0, 5, 10, 0, 0, 25, 0, 0, 0, 64, 0, 0],
     [0, 16, 10, 0, 0, 3, 0, 0, 4, 24, 0, 0, 0, 24, 10, 0, 0, 34, 0, 0, 0, 0, 0, 0, 0, 42, 10, 0, 0],
     [52, 0, 0, 0, 64, 0, 0, 0, 51, 10, 0, 0, 52, 0, 0, 0, 128, 0, 0, 0, 0, 0, 0, 0, 0, 0, 0, 2, 51, 0, 0],
     [0, 59, 10, 0, 0, 2, 0, 0, 4, 16, 0, 0, 0, 29, 9, 0, 0, 54, 0, 0, 0, 0, 0, 0, 0, 69, 10, 0, 0],
     [54, 0, 0, 0, 64, 0, 0, 0, 0, 0, 0, 0, 0, 0, 0, 2, 53, 0, 0, 0, 0, 0, 0, 0, 2, 0, 0, 5, 8, 0, 0, 0],
     [74, 10, 0, 0, 56, 0, 0, 0, 0, 0, 0, 0, 79, 10, 0, 0, 11, 0, 0, 0, 0, 0, 0, 0, 85, 10, 0, 0, 0, 0, 0],
     [8, 57, 0, 0, 0, 89, 10, 0, 0, 0, 0, 0, 8, 58, 0, 0, 0, 95, 10, 0, 0, 0, 0, 0, 1, 8, 0, 0, 0],
     [64, 0, 0, 1, 105, 10, 0, 0, 9, 0, 0, 4, 64, 0, 0, 0, 115, 10, 0, 0, 11, 0, 0, 0, 0, 0, 0, 0],
     [132, 10, 0, 0, 11, 0, 0, 0, 64, 0, 0, 0, 141, 10, 0, 0, 11, 0, 0, 0, 128, 0, 0, 0, 154, 10, 0, 0],
     [25, 0, 0, 0, 192, 0, 0, 0, 163, 10, 0, 0, 25, 0, 0, 0, 224, 0, 0, 0, 178, 10, 0, 0, 34, 0, 0, 0, 0],
     [1, 0, 0, 187, 10, 0, 0, 34, 0, 0, 0, 64, 1, 0, 0, 200, 10, 0, 0, 34, 0, 0, 0, 128, 1, 0, 0],
     [209, 10, 0, 0, 27, 0, 0, 0, 192, 1, 0, 0, 218, 10, 0, 0, 7, 0, 0, 4, 48, 0, 0, 0, 234, 10, 0],
     [0, 53, 0, 0, 0, 0, 0, 0, 0, 243, 10, 0, 0, 34, 0, 0, 0, 128, 0, 0, 0, 251, 10, 0, 0, 34, 0, 0, 0, 192],
     [0, 0, 0, 10, 11, 0, 0, 27, 0, 0, 0, 0, 1, 0, 0, 221, 1, 0, 0, 23, 0, 0, 0, 32, 1, 0, 0, 21],
     [11, 0, 0, 23, 0, 0, 0, 48, 1, 0, 0, 29, 11, 0, 0, 61, 0, 0, 0, 64, 1, 0, 0, 0, 0, 0, 0, 0, 0, 0],
     [2, 60, 0, 0, 0, 34, 11, 0, 0, 22, 0, 0, 132, 232, 0, 0, 0, 16, 10, 0, 0, 51, 0, 0, 0, 0, 0, 0, 0],
     [50, 11, 0, 0, 11, 0, 0, 0, 192, 0, 0, 0, 61, 11, 0, 0, 11, 0, 0, 0, 0, 1, 0, 0, 73, 11, 0, 0],
     [11, 0, 0, 0, 64, 1, 0, 0, 83, 11, 0, 0, 11, 0, 0, 0, 128, 1, 0, 0, 89, 11, 0, 0, 11, 0, 0, 0],
     [192, 1, 0, 0, 100, 11, 0, 0, 56, 0, 0, 0, 0, 2, 0, 0, 87, 9, 0, 0, 11, 0, 0, 0, 64, 2, 0, 0],
     [235, 0, 0, 0, 27, 0, 0, 0, 128, 2, 0, 0, 108, 11, 0, 0, 27, 0, 0, 0, 160, 2, 0, 1, 121, 11, 0],
     [0, 27, 0, 0, 0, 161, 2, 0, 1, 132, 11, 0, 0, 27, 0, 0, 0, 162, 2, 0, 1, 150, 11, 0, 0, 27],
     [0, 0, 0, 163, 2, 0, 1, 21, 2, 0, 0, 27, 0, 0, 0, 164, 2, 0, 1, 161, 11, 0, 0, 27, 0, 0, 0],
     [165, 2, 0, 1, 178, 11, 0, 0, 27, 0, 0, 0, 166, 2, 0, 1, 187, 11, 0, 0, 27, 0, 0, 0, 167],
     [2, 0, 1, 202, 11, 0, 0, 27, 0, 0, 0, 168, 2, 0, 1, 219, 11, 0, 0, 63, 0, 0, 0, 192, 2, 0],
     [0, 228, 11, 0, 0, 63, 0, 0, 0, 192, 4, 0, 0, 243, 11, 0, 0, 73, 0, 0, 0, 192, 6, 0, 0, 246, 11],
     [0, 0, 74, 0, 0, 0, 0, 7, 0, 0, 7, 12, 0, 0, 8, 0, 0, 4, 64, 0, 0, 0, 15, 12, 0, 0, 64, 0, 0],
     [0, 0, 0, 0, 0, 20, 12, 0, 0, 65, 0, 0, 0, 0, 1, 0, 0, 33, 12, 0, 0, 66, 0, 0, 0, 64, 1, 0, 0],
     [42, 12, 0, 0, 70, 0, 0, 0, 128, 1, 0, 0, 47, 12, 0, 0, 71, 0, 0, 0, 192, 1, 0, 0, 53, 12, 0],
     [0, 71, 0, 0, 0, 200, 1, 0, 0, 60, 12, 0, 0, 71, 0, 0, 0, 208, 1, 0, 0, 68, 12, 0, 0, 71, 0, 0],
     [0, 216, 1, 0, 0, 76, 12, 0, 0, 2, 0, 0, 4, 32, 0, 0, 0, 15, 12, 0, 0, 51, 0, 0, 0, 0, 0, 0, 0],
     [92, 12, 0, 0, 65, 0, 0, 0, 192, 0, 0, 0, 100, 12, 0, 0, 0, 0, 0, 8, 56, 0, 0, 0, 0, 0, 0, 0, 0, 0, 0],
     [2, 67, 0, 0, 0, 0, 0, 0, 0, 1, 0, 0, 13, 68, 0, 0, 0, 0, 0, 0, 0, 69, 0, 0, 0, 108, 12, 0, 0, 2],
     [0, 0, 6, 4, 0, 0, 0, 124, 12, 0, 0, 0, 0, 0, 0, 142, 12, 0, 0, 1, 0, 0, 0, 0, 0, 0, 0, 0, 0, 0, 2]]"

definition bootstrap_legacy_elf_10_b :: "byte list" where
  "bootstrap_legacy_elf_10_b =
    concat
    [[63, 0, 0, 0, 0, 0, 0, 0, 0, 0, 0, 2, 65, 1, 0, 0, 158, 12, 0, 0, 0, 0, 0, 8, 72, 0, 0, 0, 161],
     [12, 0, 0, 0, 0, 0, 8, 24, 0, 0, 0, 0, 0, 0, 0, 0, 0, 0, 2, 64, 1, 0, 0, 166, 12, 0, 0, 0, 0, 0],
     [8, 75, 0, 0, 0, 0, 0, 0, 0, 0, 0, 0, 2, 76, 0, 0, 0, 0, 0, 0, 0, 1, 0, 0, 13, 48, 0, 0, 0, 0, 0, 0],
     [0, 77, 0, 0, 0, 0, 0, 0, 0, 0, 0, 0, 2, 62, 0, 0, 0, 0, 0, 0, 0, 0, 0, 0, 2, 79, 0, 0, 0, 0, 0, 0, 0, 0],
     [0, 0, 10, 93, 1, 0, 0, 183, 12, 0, 0, 0, 0, 0, 4, 0, 0, 0, 0, 0, 0, 0, 0, 0, 0, 0, 2, 82, 0, 0, 0],
     [0, 0, 0, 0, 0, 0, 0, 10, 83, 0, 0, 0, 200, 12, 0, 0, 0, 0, 0, 8, 85, 0, 0, 0, 0, 0, 0, 0, 0, 0, 0, 2],
     [83, 0, 0, 0, 210, 12, 0, 0, 1, 0, 0, 4, 64, 0, 0, 0, 218, 12, 0, 0, 86, 0, 0, 0, 0, 0, 0, 0, 0, 0],
     [0, 0, 0, 0, 0, 3, 0, 0, 0, 0, 34, 0, 0, 0, 4, 0, 0, 0, 8, 0, 0, 0, 223, 12, 0, 0, 2, 0, 0, 5],
     [4, 0, 0, 0, 235, 12, 0, 0, 88, 0, 0, 0, 0, 0, 0, 0, 237, 12, 0, 0, 25, 0, 0, 0, 0, 0, 0, 0, 0, 0, 0, 0],
     [4, 0, 0, 4, 4, 0, 0, 0, 161, 5, 0, 0, 71, 0, 0, 0, 0, 0, 0, 0, 239, 12, 0, 0, 71, 0, 0, 0, 8],
     [0, 0, 0, 247, 12, 0, 0, 71, 0, 0, 0, 16, 0, 0, 0, 0, 13, 0, 0, 71, 0, 0, 0, 24, 0, 0, 0, 20, 3, 0],
     [0, 0, 0, 0, 4, 0, 0, 0, 0, 8, 13, 0, 0, 3, 0, 0, 4, 40, 0, 0, 0, 227, 1, 0, 0, 2, 0, 0, 0, 0],
     [0, 0, 0, 19, 13, 0, 0, 53, 0, 0, 0, 64, 0, 0, 0, 29, 13, 0, 0, 53, 0, 0, 0, 192, 0, 0, 0, 0, 0, 0, 0],
     [0, 0, 0, 2, 67, 1, 0, 0, 0, 0, 0, 0, 0, 0, 0, 2, 66, 1, 0, 0, 62, 4, 0, 0, 3, 0, 0, 4],
     [56, 0, 0, 0, 39, 13, 0, 0, 34, 0, 0, 0, 0, 0, 0, 0, 49, 13, 0, 0, 94, 0, 0, 0, 64, 0, 0, 0, 0, 0, 0],
     [0, 98, 0, 0, 0, 128, 0, 0, 0, 0, 0, 0, 0, 0, 0, 0, 2, 95, 0, 0, 0, 0, 0, 0, 0, 1, 0, 0, 13, 96, 0, 0],
     [0, 0, 0, 0, 0, 97, 0, 0, 0, 52, 13, 0, 0, 0, 0, 0, 1, 8, 0, 0, 0, 64, 0, 0, 1, 0, 0, 0, 0, 0, 0, 0],
     [2, 93, 0, 0, 0, 0, 0, 0, 0, 3, 0, 0, 5, 40, 0, 0, 0, 57, 13, 0, 0, 99, 0, 0, 0, 0, 0, 0, 0, 63],
     [13, 0, 0, 101, 0, 0, 0, 0, 0, 0, 0, 73, 13, 0, 0, 108, 0, 0, 0, 0, 0, 0, 0, 0, 0, 0, 0, 6, 0, 0, 4],
     [40, 0, 0, 0, 78, 13, 0, 0, 100, 0, 0, 0, 0, 0, 0, 0, 84, 13, 0, 0, 25, 0, 0, 0, 64, 0, 0, 0, 235, 0],
     [0, 0, 25, 0, 0, 0, 96, 0, 0, 0, 88, 13, 0, 0, 25, 0, 0, 0, 128, 0, 0, 0, 95, 13, 0, 0, 11, 0, 0, 0],
     [192, 0, 0, 0, 100, 13, 0, 0, 100, 0, 0, 0, 0, 1, 0, 0, 0, 0, 0, 0, 0, 0, 0, 2, 25, 0, 0, 0, 0, 0, 0, 0],
     [4, 0, 0, 4, 24, 0, 0, 0, 107, 13, 0, 0, 102, 0, 0, 0, 0, 0, 0, 0, 75, 0, 0, 0, 104, 0, 0, 0, 32, 0],
     [0, 0, 0, 0, 0, 0, 105, 0, 0, 0, 64, 0, 0, 0, 92, 12, 0, 0, 11, 0, 0, 0, 128, 0, 0, 0, 115, 13, 0, 0, 0],
     [0, 0, 8, 103, 0, 0, 0, 125, 13, 0, 0, 0, 0, 0, 8, 2, 0, 0, 0, 144, 13, 0, 0, 3, 0, 0, 6, 4],
     [0, 0, 0, 158, 13, 0, 0, 0, 0, 0, 0, 166, 13, 0, 0, 1, 0, 0, 0, 176, 13, 0, 0, 2, 0, 0, 0, 0, 0, 0, 0],
     [2, 0, 0, 5, 8, 0, 0, 0, 186, 13, 0, 0, 106, 0, 0, 0, 0, 0, 0, 0, 191, 13, 0, 0, 107, 0, 0, 0, 0, 0],
     [0, 0, 0, 0, 0, 0, 0, 0, 0, 2, 94, 1, 0, 0, 0, 0, 0, 0, 0, 0, 0, 2, 95, 1, 0, 0, 0, 0, 0, 0, 5, 0],
     [0, 4, 32, 0, 0, 0, 203, 13, 0, 0, 109, 0, 0, 0, 0, 0, 0, 0, 208, 13, 0, 0, 2, 0, 0, 0, 64, 0, 0, 0],
     [213, 13, 0, 0, 2, 0, 0, 0, 96, 0, 0, 0, 225, 13, 0, 0, 34, 0, 0, 0, 128, 0, 0, 0, 232, 13, 0, 0],
     [34, 0, 0, 0, 192, 0, 0, 0, 0, 0, 0, 0, 0, 0, 0, 2, 96, 1, 0, 0, 0, 0, 0, 0, 0, 0, 0, 2, 77, 1, 0],
     [0, 240, 13, 0, 0, 2, 0, 0, 4, 16, 0, 0, 0, 29, 9, 0, 0, 112, 0, 0, 0, 0, 0, 0, 0, 251, 13, 0, 0],
     [113, 0, 0, 0, 64, 0, 0, 0, 0, 0, 0, 0, 0, 0, 0, 2, 111, 0, 0, 0, 0, 0, 0, 0, 0, 0, 0, 2, 112, 0, 0, 0, 0],
     [0, 0, 0, 0, 0, 0, 3, 0, 0, 0, 0, 111, 0, 0, 0, 4, 0, 0, 0, 4, 0, 0, 0, 0, 0, 0, 0, 0, 0, 0, 2, 62],
     [1, 0, 0, 0, 0, 0, 0, 0, 0, 0, 2, 2, 0, 0, 0, 2, 5, 0, 0, 3, 0, 0, 4, 24, 0, 0, 0, 240, 4],
     [0, 0, 11, 0, 0, 0, 0, 0, 0, 0, 246, 4, 0, 0, 11, 0, 0, 0, 64, 0, 0, 0, 1, 14, 0, 0, 118, 0, 0, 0],
     [128, 0, 0, 0, 6, 14, 0, 0, 0, 0, 0, 8, 119, 0, 0, 0, 21, 14, 0, 0, 1, 0, 0, 4, 4, 0, 0, 0],
     [34, 14, 0, 0, 120, 0, 0, 0, 0, 0, 0, 0, 43, 14, 0, 0, 0, 0, 0, 8, 121, 0, 0, 0, 59, 14, 0, 0, 1],
     [0, 0, 4, 4, 0, 0, 0, 0, 0, 0, 0, 122, 0, 0, 0, 0, 0, 0, 0, 0, 0, 0, 0, 3, 0, 0, 5, 4, 0, 0, 0, 84],
     [13, 0, 0, 40, 0, 0, 0, 0, 0, 0, 0, 0, 0, 0, 0, 123, 0, 0, 0, 0, 0, 0, 0, 0, 0, 0, 0, 124, 0, 0, 0, 0, 0, 0, 0],
     [0, 0, 0, 0, 2, 0, 0, 4, 2, 0, 0, 0, 69, 14, 0, 0, 71, 0, 0, 0, 0, 0, 0, 0, 196, 5, 0, 0, 71, 0],
     [0, 0, 8, 0, 0, 0, 0, 0, 0, 0, 2, 0, 0, 4, 4, 0, 0, 0, 76, 14, 0, 0, 46, 0, 0, 0, 0, 0, 0, 0, 91],
     [14, 0, 0, 46, 0, 0, 0, 16, 0, 0, 0, 70, 5, 0, 0, 0, 0, 0, 4, 0, 0, 0, 0, 0, 0, 0, 0, 0, 0, 0, 2],
     [127, 0, 0, 0, 0, 0, 0, 0, 0, 0, 0, 10, 128, 0, 0, 0, 109, 5, 0, 0, 20, 0, 0, 4, 136, 0, 0, 0, 122],
     [1, 0, 0, 129, 0, 0, 0, 0, 0, 0, 0, 96, 14, 0, 0, 132, 0, 0, 0, 64, 0, 0, 0, 100, 14, 0, 0, 136, 0, 0],
     [0, 96, 0, 0, 0, 104, 14, 0, 0, 132, 0, 0, 0, 128, 0, 0, 0, 109, 14, 0, 0, 136, 0, 0, 0, 160, 0, 0, 0],
     [114, 14, 0, 0, 132, 0, 0, 0, 192, 0, 0, 0, 119, 14, 0, 0, 136, 0, 0, 0, 224, 0, 0, 0, 124, 14, 0, 0],
     [132, 0, 0, 0, 0, 1, 0, 0, 130, 14, 0, 0, 136, 0, 0, 0, 32, 1, 0, 0, 136, 14, 0, 0, 27, 0, 0, 0],
     [64, 1, 0, 0, 147, 14, 0, 0, 140, 0, 0, 0, 128, 1, 0, 0, 163, 14, 0, 0, 140, 0, 0, 0, 192, 1, 0],
     [0, 177, 14, 0, 0, 140, 0, 0, 0, 0, 2, 0, 0, 191, 14, 0, 0, 140, 0, 0, 0, 64, 2, 0, 0, 200, 14, 0],
     [0, 140, 0, 0, 0, 128, 2, 0, 0, 212, 14, 0, 0, 142, 0, 0, 0, 192, 2, 0, 0, 217, 14, 0, 0, 143, 0, 0],
     [0, 0, 3, 0, 0, 225, 14, 0, 0, 144, 0, 0, 0, 64, 3, 0, 0, 233, 14, 0, 0, 145, 0, 0, 0, 128, 3, 0],
     [0, 0, 0, 0, 0, 146, 0, 0, 0, 192, 3, 0, 0, 244, 14, 0, 0, 0, 0, 0, 8, 130, 0, 0, 0, 2, 15, 0, 0, 0],
     [0, 0, 8, 131, 0, 0, 0, 0, 0, 0, 0, 1, 0, 0, 4, 8, 0, 0, 0, 233, 8, 0, 0, 56, 0, 0, 0, 0, 0, 0, 0],
     [13, 15, 0, 0, 0, 0, 0, 8, 133, 0, 0, 0, 0, 0, 0, 0, 1, 0, 0, 4, 4, 0, 0, 0, 84, 13, 0, 0, 134],
     [0, 0, 0, 0, 0, 0, 0, 20, 15, 0, 0, 0, 0, 0, 8, 135, 0, 0, 0, 26, 15, 0, 0, 0, 0, 0, 8, 27, 0, 0, 0],
     [43, 15, 0, 0, 0, 0, 0, 8, 137, 0, 0, 0, 0, 0, 0, 0, 1, 0, 0, 4, 4, 0, 0, 0, 84, 13, 0, 0, 138],
     [0, 0, 0, 0, 0, 0, 0, 50, 15, 0, 0, 0, 0, 0, 8, 139, 0, 0, 0, 56, 15, 0, 0, 0, 0, 0, 8, 27, 0, 0, 0],
     [73, 15, 0, 0, 0, 0, 0, 8, 141, 0, 0, 0, 0, 0, 0, 0, 1, 0, 0, 4, 8, 0, 0, 0, 84, 13, 0, 0, 11],
     [0, 0, 0, 0, 0, 0, 0, 0, 0, 0, 0, 0, 0, 0, 2, 75, 1, 0, 0, 0, 0, 0, 0, 0, 0, 0, 2, 68, 1, 0, 0, 0, 0],
     [0, 0, 0, 0, 0, 2, 70, 1, 0, 0, 0, 0, 0, 0, 0, 0, 0, 2, 79, 1, 0, 0, 0, 0, 0, 0, 2, 0, 0, 5],
     [16, 0, 0, 0, 86, 15, 0, 0, 2, 0, 0, 0, 0, 0, 0, 0, 245, 7, 0, 0, 147, 0, 0, 0, 0, 0, 0, 0, 94, 15],
     [0, 0, 2, 0, 0, 4, 16, 0, 0, 0, 29, 9, 0, 0, 148, 0, 0, 0, 0, 0, 0, 0, 108, 15, 0, 0, 149, 0, 0, 0],
     [64, 0, 0, 0, 0, 0, 0, 0, 0, 0, 0, 2, 147, 0, 0, 0, 0, 0, 0, 0, 0, 0, 0, 2, 150, 0, 0, 0, 0, 0, 0, 0, 1],
     [0, 0, 13, 0, 0, 0, 0, 0, 0, 0, 0, 148, 0, 0, 0, 0, 0, 0, 0, 0, 0, 0, 3, 0, 0, 0, 0, 28, 0, 0, 0, 4, 0, 0],
     [0, 16, 0, 0, 0, 0, 0, 0, 0, 0, 0, 0, 2, 97, 1, 0, 0, 0, 0, 0, 0, 0, 0, 0, 2, 78, 1, 0, 0, 0, 0, 0],
     [0, 0, 0, 0, 2, 98, 1, 0, 0, 0, 0, 0, 0, 0, 0, 0, 2, 69, 1, 0, 0, 0, 0, 0, 0, 0, 0, 0, 2, 99],
     [1, 0, 0, 0, 0, 0, 0, 0, 0, 0, 2, 100, 1, 0, 0, 113, 15, 0, 0, 0, 0, 0, 8, 159, 0, 0, 0, 0, 0, 0, 0],
     [1, 0, 0, 4, 8, 0, 0, 0, 122, 15, 0, 0, 160, 0, 0, 0, 0, 0, 0, 0, 0, 0, 0, 0, 0, 0, 0, 3, 0, 0, 0, 0],
     [34, 0, 0, 0, 4, 0, 0, 0, 1, 0, 0, 0, 126, 15, 0, 0, 2, 0, 0, 4, 24, 0, 0, 0, 137, 15, 0, 0],
     [53, 0, 0, 0, 0, 0, 0, 0, 146, 5, 0, 0, 158, 0, 0, 0, 128, 0, 0, 0, 142, 15, 0, 0, 0, 0, 0, 8, 163, 0],
     [0, 0, 149, 15, 0, 0, 0, 0, 0, 8, 164, 0, 0, 0, 165, 15, 0, 0, 0, 0, 0, 8, 34, 0, 0, 0, 250, 5, 0],
     [0, 0, 0, 0, 4, 0, 0, 0, 0, 182, 15, 0, 0, 0, 0, 0, 4, 0, 0, 0, 0, 204, 15, 0, 0, 0, 0, 0, 8, 168, 0],
     [0, 0, 215, 15, 0, 0, 1, 0, 0, 4, 4, 0, 0, 0, 0, 0, 0, 0, 169, 0, 0, 0, 0, 0, 0, 0, 0, 0, 0, 0, 1, 0],
     [0, 5, 4, 0, 0, 0, 224, 15, 0, 0, 119, 0, 0, 0, 0, 0, 0, 0, 230, 15, 0, 0, 1, 0, 0, 4, 8, 0, 0],
     [0, 29, 9, 0, 0, 171, 0, 0, 0, 0, 0, 0, 0, 0, 0, 0, 0, 0, 0, 0, 2, 170, 0, 0, 0, 0, 0, 0, 0, 0, 0, 0, 2],
     [182, 0, 0, 0, 0, 0, 0, 0, 0, 0, 0, 2, 83, 1, 0, 0, 0, 0, 0, 0, 0, 0, 0, 2, 101, 1, 0, 0, 0, 0, 0, 0],
     [0, 0, 0, 2, 102, 1, 0, 0, 0, 0, 0, 0, 0, 0, 0, 2, 103, 1, 0, 0, 0, 0, 0, 0, 0, 0, 0, 2, 178, 0, 0],
     [0, 242, 15, 0, 0, 0, 0, 0, 8, 104, 1, 0, 0, 3, 16, 0, 0, 0, 0, 0, 4, 0, 0, 0, 0, 0, 0, 0, 0, 0, 0],
     [0, 3, 0, 0, 0, 0, 71, 0, 0, 0, 4, 0, 0, 0, 4, 0, 0, 0, 0, 0, 0, 0, 0, 0, 0, 2, 88, 1, 0, 0, 22],
     [16, 0, 0, 4, 0, 0, 4, 32, 0, 0, 0, 28, 16, 0, 0, 129, 0, 0, 0, 0, 0, 0, 0, 34, 16, 0, 0, 118, 0],
     [0, 0, 64, 0, 0, 0, 44, 16, 0, 0, 183, 0, 0, 0, 96, 0, 0, 0, 48, 16, 0, 0, 53, 0, 0, 0, 128, 0, 0, 0],
     [58, 16, 0, 0, 1, 0, 0, 4, 4, 0, 0, 0, 91, 14, 0, 0, 40, 0, 0, 0, 0, 0, 0, 0, 0, 0, 0, 0, 0, 0, 0],
     [2, 105, 1, 0, 0, 80, 16, 0, 0, 3, 0, 0, 4, 2, 0, 0, 0, 101, 16, 0, 0, 186, 0, 0, 0, 0, 0, 0],
     [0, 106, 16, 0, 0, 187, 0, 0, 0, 0, 0, 0, 0, 121, 16, 0, 0, 187, 0, 0, 0, 8, 0, 0, 0, 130, 16, 0, 0, 0],
     [0, 0, 4, 0, 0, 0, 0, 156, 16, 0, 0, 0, 0, 0, 8, 188, 0, 0, 0, 161, 16, 0, 0, 0, 0, 0, 1, 1, 0, 0],
     [0, 8, 0, 0, 4, 0, 0, 0, 0, 0, 0, 0, 2, 81, 1, 0, 0, 167, 16, 0, 0, 3, 0, 0, 4, 16, 0, 0, 0],
     [177, 16, 0, 0, 191, 0, 0, 0, 0, 0, 0, 0, 182, 16, 0, 0, 26, 0, 0, 0, 64, 0, 0, 0, 189, 16, 0, 0, 26],
     [0, 0, 0, 96, 0, 0, 0, 0, 0, 0, 0, 0, 0, 0, 2, 63, 1, 0, 0, 0, 0, 0, 0, 0, 0, 0, 2, 34, 0, 0, 0, 0, 0],
     [0, 0, 0, 0, 0, 2, 106, 1, 0, 0, 235, 7, 0, 0, 0, 0, 0, 4, 0, 0, 0, 0, 194, 16, 0, 0, 4, 0, 0],
     [4, 40, 0, 0, 0, 205, 16, 0, 0, 111, 0, 0, 0, 0, 0, 0, 0, 92, 12, 0, 0, 34, 0, 0, 0, 128, 0, 0, 0],
     [33, 12, 0, 0, 196, 0, 0, 0, 192, 0, 0, 0, 235, 0, 0, 0, 25, 0, 0, 0, 0, 1, 0, 0, 0, 0, 0, 0, 0, 0, 0],
     [2, 197, 0, 0, 0, 0, 0, 0, 0, 1, 0, 0, 13, 0, 0, 0, 0, 0, 0, 0, 0, 198, 0, 0, 0, 0, 0, 0, 0, 0, 0, 0, 2],
     [195, 0, 0, 0, 0, 0, 0, 0, 0, 0, 0, 2, 74, 1, 0, 0, 0, 0, 0, 0, 0, 0, 0, 2, 72, 1, 0, 0, 0, 0, 0, 0],
     [0, 0, 0, 2, 107, 1, 0, 0, 0, 0, 0, 0, 0, 0, 0, 2, 108, 1, 0, 0, 211, 16, 0, 0, 1, 0, 0, 4],
     [8, 0, 0, 0, 222, 16, 0, 0, 44, 0, 0, 0, 0, 0, 0, 0, 228, 16, 0, 0, 17, 0, 0, 4, 48, 6, 0, 0],
     [242, 16, 0, 0, 205, 0, 0, 0, 0, 0, 0, 0, 254, 16, 0, 0, 206, 0, 0, 0, 128, 3, 0, 0, 1, 17, 0, 0],
     [211, 0, 0, 0, 0, 21, 0, 0, 9, 17, 0, 0, 27, 0, 0, 0, 32, 21, 0, 0, 20, 17, 0, 0, 37, 0, 0, 0],
     [64, 21, 0, 0, 30, 17, 0, 0, 37, 0, 0, 0, 128, 21, 0, 0, 40, 17, 0, 0, 212, 0, 0, 0, 192, 21, 0],
     [0, 43, 17, 0, 0, 212, 0, 0, 0, 0, 22, 0, 0, 53, 17, 0, 0, 34, 0, 0, 0, 64, 22, 0, 0, 67, 17, 0],
     [0, 34, 0, 0, 0, 128, 22, 0, 0, 78, 17, 0, 0, 213, 0, 0, 0, 192, 22, 0, 0, 84, 17, 0, 0, 207, 0, 0],
     [0, 128, 31, 0, 0, 104, 17, 0, 0, 27, 0, 0, 0, 0, 48, 0, 0, 122, 17, 0, 0, 11, 0, 0, 0, 64, 48, 0],
     [0, 133, 17, 0, 0, 11, 0, 0, 0, 128, 48, 0, 0, 138, 17, 0, 0, 11, 0, 0, 0, 192, 48, 0, 0, 149, 17],
     [0, 0, 11, 0, 0, 0, 0, 49, 0, 0, 242, 16, 0, 0, 13, 0, 0, 4, 104, 0, 0, 0, 157, 17, 0, 0, 34, 0, 0],
     [0, 0, 0, 0, 0, 161, 17, 0, 0, 34, 0, 0, 0, 64, 0, 0, 0, 165, 17, 0, 0, 34, 0, 0, 0, 128, 0, 0, 0, 169],
     [17, 0, 0, 34, 0, 0, 0, 192, 0, 0, 0, 173, 17, 0, 0, 34, 0, 0, 0, 0, 1, 0, 0, 177, 17, 0, 0, 34, 0],
     [0, 0, 64, 1, 0, 0, 181, 17, 0, 0, 34, 0, 0, 0, 128, 1, 0, 0, 185, 17, 0, 0, 34, 0, 0, 0, 192],
     [1, 0, 0, 189, 17, 0, 0, 34, 0, 0, 0, 0, 2, 0, 0, 193, 17, 0, 0, 34, 0, 0, 0, 64, 2, 0, 0, 197],
     [17, 0, 0, 34, 0, 0, 0, 128, 2, 0, 0, 200, 17, 0, 0, 34, 0, 0, 0, 192, 2, 0, 0, 203, 17, 0, 0],
     [34, 0, 0, 0, 0, 3, 0, 0, 0, 0, 0, 0, 5, 0, 0, 4, 48, 2, 0, 0, 206, 17, 0, 0, 34, 0, 0, 0, 0, 0],
     [0, 0, 215, 17, 0, 0, 34, 0, 0, 0, 64, 0, 0, 0, 225, 17, 0, 0, 11, 0, 0, 0, 128, 0, 0, 0, 230, 17, 0],
     [0, 34, 0, 0, 0, 192, 0, 0, 0, 234, 17, 0, 0, 207, 0, 0, 0, 0, 1, 0, 0, 247, 17, 0, 0, 4, 0, 0, 4],
     [16, 2, 0, 0, 9, 18, 0, 0, 209, 0, 0, 0, 0, 0, 0, 0, 15, 18, 0, 0, 26, 0, 0, 0, 0, 16, 0, 0, 20],
     [18, 0, 0, 26, 0, 0, 0, 32, 16, 0, 0, 25, 18, 0, 0, 210, 0, 0, 0, 64, 16, 0, 0, 36, 18, 0, 0, 0],
     [0, 0, 1, 16, 0, 0, 0, 128, 0, 0, 0, 0, 0, 0, 0, 0, 0, 0, 3, 0, 0, 0, 0, 208, 0, 0, 0, 4, 0, 0, 0, 32],
     [0, 0, 0, 0, 0, 0, 0, 0, 0, 0, 3, 0, 0, 0, 0, 26, 0, 0, 0, 4, 0, 0, 0, 2, 0, 0, 0, 1, 17, 0, 0, 3],
     [0, 0, 6, 4, 0, 0, 0, 54, 18, 0, 0, 0, 0, 0, 0, 71, 18, 0, 0, 1, 0, 0, 0, 87, 18, 0, 0, 2, 0],
     [0, 0, 0, 0, 0, 0, 0, 0, 0, 3, 0, 0, 0, 0, 27, 0, 0, 0, 4, 0, 0, 0, 2, 0, 0, 0, 100, 18, 0, 0, 5, 0],
     [0, 4, 16, 1, 0, 0, 111, 18, 0, 0, 2, 0, 0, 0, 0, 0, 0, 0, 126, 18, 0, 0, 2, 0, 0, 0, 32, 0, 0],
     [0, 139, 18, 0, 0, 2, 0, 0, 0, 64, 0, 0, 0, 152, 18, 0, 0, 52, 1, 0, 0, 128, 0, 0, 0, 162, 18, 0],
     [0, 52, 1, 0, 0, 128, 4, 0, 0, 0, 0, 0, 0, 0, 0, 0, 2, 215, 0, 0, 0, 172, 18, 0, 0, 76, 0, 0, 4],
     [40, 5, 0, 0, 183, 18, 0, 0, 53, 0, 0, 0, 0, 0, 0, 0, 195, 18, 0, 0, 53, 0, 0, 0, 128, 0, 0, 0, 208],
     [18, 0, 0, 53, 0, 0, 0, 0, 1, 0, 0, 119, 9, 0, 0, 51, 0, 0, 0, 128, 1, 0, 0, 220, 18, 0, 0, 11],
     [0, 0, 0, 64, 2, 0, 0, 232, 18, 0, 0, 53, 0, 0, 0, 128, 2, 0, 0, 246, 18, 0, 0, 111, 0, 0, 0, 0],
     [3, 0, 0, 2, 19, 0, 0, 53, 0, 0, 0, 128, 3, 0, 0, 15, 19, 0, 0, 2, 0, 0, 0, 0, 4, 0, 0, 27],
     [19, 0, 0, 2, 0, 0, 0, 32, 4, 0, 0, 38, 19, 0, 0, 2, 0, 0, 0, 64, 4, 0, 0, 49, 19, 0, 0],
     [27, 0, 0, 0, 96, 4, 0, 0, 117, 4, 0, 0, 214, 0, 0, 0, 128, 4, 0, 0, 66, 19, 0, 0, 216, 0, 0, 0],
     [192, 4, 0, 0, 70, 19, 0, 0, 37, 0, 0, 0, 0, 5, 0, 0, 47, 12, 0, 0, 217, 0, 0, 0, 64, 5, 0, 0],
     [82, 19, 0, 0, 27, 0, 0, 0, 96, 5, 0, 0, 173, 8, 0, 0, 218, 0, 0, 0, 128, 5, 0, 0, 95, 19, 0],
     [0, 130, 0, 0, 0, 192, 5, 0, 0, 107, 19, 0, 0, 11, 0, 0, 0, 0, 6, 0, 0, 126, 19, 0, 0, 11, 0, 0, 0],
     [64, 6, 0, 0, 145, 19, 0, 0, 11, 0, 0, 0, 128, 6, 0, 0, 152, 19, 0, 0, 222, 0, 0, 0, 192, 6, 0],
     [0, 157, 19, 0, 0, 46, 0, 0, 0, 0, 11, 0, 0, 169, 19, 0, 0, 46, 0, 0, 0, 16, 11, 0, 0, 184, 19, 0],
     [0, 46, 0, 0, 0, 32, 11, 0, 0, 194, 19, 0, 0, 230, 0, 0, 0, 64, 11, 0, 0, 56, 1, 0, 0, 181, 0, 0],
     [0, 192, 17, 0, 0, 197, 19, 0, 0, 249, 0, 0, 0, 0, 18, 0, 0, 205, 19, 0, 0, 129, 0, 0, 0, 64, 18, 0],
     [0, 214, 19, 0, 0, 130, 0, 0, 0, 128, 18, 0, 0, 239, 19, 0, 0, 130, 0, 0, 0, 192, 18, 0, 0, 8, 20],
     [0, 0, 182, 0, 0, 0, 0, 19, 0, 0, 20, 20, 0, 0, 53, 0, 0, 0, 0, 20, 0, 0, 93, 4, 0, 0, 214, 0, 0, 0],
     [128, 20, 0, 0, 31, 20, 0, 0, 2, 0, 0, 0, 192, 20, 0, 0, 147, 8, 0, 0, 2, 0, 0, 0, 224, 20, 0],
     [0, 37, 20, 0, 0, 53, 0, 0, 0, 0, 21, 0, 0, 28, 16, 0, 0, 48, 0, 0, 0, 128, 21, 0, 0, 49, 20, 0],
     [0, 182, 0, 0, 0, 192, 21, 0, 0, 60, 20, 0, 0, 38, 0, 0, 0, 192, 22, 0, 0, 71, 20, 0, 0, 250, 0, 0],
     [0, 0, 23, 0, 0, 74, 20, 0, 0, 53, 0, 0, 0, 64, 23, 0, 0, 83, 20, 0, 0, 34, 0, 0, 0, 192, 23, 0],
     [0, 95, 20, 0, 0, 2, 0, 0, 0, 0, 24, 0, 0, 107, 20, 0, 0, 251, 0, 0, 0, 64, 24, 0, 0, 113, 20, 0],
     [0, 253, 0, 0, 0, 0, 25, 0, 0, 120, 20, 0, 0, 27, 0, 0, 0, 64, 25, 0, 0, 135, 20, 0, 0, 27, 0, 0, 0],
     [96, 25, 0, 0, 148, 20, 0, 0, 27, 0, 0, 0, 128, 25, 0, 0, 164, 20, 0, 0, 34, 0, 0, 0, 192, 25, 0],
     [0, 177, 20, 0, 0, 254, 0, 0, 0, 0, 26, 0, 0, 189, 20, 0, 0, 254, 0, 0, 0, 0, 27, 0, 0, 209, 20, 0, 0],
     [147, 0, 0, 0, 0, 28, 0, 0, 222, 20, 0, 0, 27, 0, 0, 0, 128, 28, 0, 0, 235, 20, 0, 0, 40, 0, 0, 0]]"

definition bootstrap_legacy_elf_10_c :: "byte list" where
  "bootstrap_legacy_elf_10_c =
    concat
    [[160, 28, 0, 0, 247, 20, 0, 0, 3, 1, 0, 0, 192, 28, 0, 0, 4, 21, 0, 0, 4, 1, 0, 0, 128],
     [29, 0, 0, 23, 21, 0, 0, 34, 0, 0, 0, 192, 29, 0, 0, 40, 21, 0, 0, 214, 0, 0, 0, 0, 30, 0, 0, 50],
     [21, 0, 0, 5, 1, 0, 0, 64, 30, 0, 0, 94, 15, 0, 0, 147, 0, 0, 0, 128, 30, 0, 0, 58, 21, 0, 0],
     [7, 1, 0, 0, 0, 31, 0, 0, 61, 21, 0, 0, 11, 0, 0, 0, 64, 31, 0, 0, 64, 21, 0, 0, 130, 0, 0, 0],
     [128, 31, 0, 0, 77, 21, 0, 0, 8, 1, 0, 0, 192, 31, 0, 0, 83, 21, 0, 0, 10, 1, 0, 0, 0, 32],
     [0, 0, 100, 21, 0, 0, 37, 0, 0, 0, 64, 32, 0, 0, 125, 21, 0, 0, 35, 1, 0, 0, 128, 32, 0, 0, 130],
     [21, 0, 0, 11, 0, 0, 0, 192, 32, 0, 0, 141, 21, 0, 0, 36, 1, 0, 0, 0, 33, 0, 0, 150, 21, 0, 0],
     [37, 1, 0, 0, 64, 33, 0, 0, 157, 21, 0, 0, 38, 1, 0, 0, 128, 33, 0, 0, 168, 21, 0, 0, 53, 0],
     [0, 0, 0, 40, 0, 0, 176, 21, 0, 0, 53, 0, 0, 0, 128, 40, 0, 0, 185, 21, 0, 0, 25, 0, 0, 0, 0, 41, 0],
     [0, 0, 0, 0, 0, 0, 0, 0, 2, 86, 1, 0, 0, 195, 21, 0, 0, 7, 0, 0, 134, 4, 0, 0, 0, 212, 21, 0, 0],
     [251, 255, 255, 255, 234, 21, 0, 0, 252, 255, 255, 255, 3, 22, 0, 0, 253, 255, 255, 255, 25],
     [22, 0, 0, 254, 255, 255, 255, 48, 22, 0, 0, 255, 255, 255, 255, 69, 22, 0, 0, 0, 0, 0, 0, 95],
     [22, 0, 0, 1, 0, 0, 0, 119, 22, 0, 0, 0, 0, 0, 8, 219, 0, 0, 0, 0, 0, 0, 0, 1, 0, 0, 4, 8, 0, 0],
     [0, 129, 22, 0, 0, 220, 0, 0, 0, 0, 0, 0, 0, 131, 22, 0, 0, 0, 0, 0, 8, 221, 0, 0, 0, 0, 0, 0, 0, 1, 0],
     [0, 4, 8, 0, 0, 0, 129, 22, 0, 0, 129, 0, 0, 0, 0, 0, 0, 0, 139, 22, 0, 0, 60, 0, 0, 132, 136, 0, 0],
     [0, 75, 0, 0, 0, 26, 0, 0, 0, 0, 0, 0, 0, 189, 16, 0, 0, 26, 0, 0, 0, 32, 0, 0, 0, 155, 22, 0, 0, 12],
     [0, 0, 0, 64, 0, 0, 0, 0, 0, 0, 0, 223, 0, 0, 0, 128, 0, 0, 0, 162, 22, 0, 0, 12, 0, 0, 0, 192, 0, 0, 0],
     [174, 22, 0, 0, 12, 0, 0, 0, 0, 1, 0, 0, 186, 22, 0, 0, 12, 0, 0, 0, 64, 1, 0, 1, 195, 22, 0],
     [0, 12, 0, 0, 0, 65, 1, 0, 1, 203, 22, 0, 0, 12, 0, 0, 0, 66, 1, 0, 1, 210, 22, 0, 0, 12],
     [0, 0, 0, 67, 1, 0, 1, 220, 22, 0, 0, 12, 0, 0, 0, 68, 1, 0, 1, 233, 22, 0, 0, 12, 0, 0, 0],
     [69, 1, 0, 1, 248, 22, 0, 0, 12, 0, 0, 0, 70, 1, 0, 1, 3, 23, 0, 0, 12, 0, 0, 0, 71],
     [1, 0, 1, 16, 23, 0, 0, 12, 0, 0, 0, 72, 1, 0, 1, 114, 5, 0, 0, 12, 0, 0, 0, 73, 1, 0],
     [1, 21, 23, 0, 0, 12, 0, 0, 0, 74, 1, 0, 1, 26, 23, 0, 0, 12, 0, 0, 0, 75, 1, 0, 1],
     [39, 23, 0, 0, 12, 0, 0, 0, 76, 1, 0, 1, 54, 23, 0, 0, 12, 0, 0, 0, 77, 1, 0, 1, 59],
     [23, 0, 0, 12, 0, 0, 0, 78, 1, 0, 1, 69, 23, 0, 0, 12, 0, 0, 0, 79, 1, 0, 2, 80, 23, 0],
     [0, 12, 0, 0, 0, 81, 1, 0, 1, 90, 23, 0, 0, 12, 0, 0, 0, 82, 1, 0, 1, 104, 23, 0, 0, 12],
     [0, 0, 0, 83, 1, 0, 1, 117, 23, 0, 0, 12, 0, 0, 0, 84, 1, 0, 1, 131, 23, 0, 0, 12, 0, 0, 0],
     [85, 1, 0, 1, 156, 23, 0, 0, 12, 0, 0, 0, 86, 1, 0, 1, 179, 23, 0, 0, 12, 0, 0, 0, 87],
     [1, 0, 1, 185, 23, 0, 0, 12, 0, 0, 0, 88, 1, 0, 1, 195, 23, 0, 0, 12, 0, 0, 0, 89, 1, 0],
     [1, 207, 23, 0, 0, 12, 0, 0, 0, 90, 1, 0, 1, 222, 23, 0, 0, 12, 0, 0, 0, 91, 1, 0, 1],
     [237, 23, 0, 0, 12, 0, 0, 0, 92, 1, 0, 1, 248, 23, 0, 0, 12, 0, 0, 0, 93, 1, 0, 1, 0, 24],
     [0, 0, 12, 0, 0, 0, 94, 1, 0, 1, 10, 24, 0, 0, 12, 0, 0, 0, 95, 1, 0, 1, 21, 24, 0, 0],
     [12, 0, 0, 0, 96, 1, 0, 1, 28, 24, 0, 0, 12, 0, 0, 0, 97, 1, 0, 1, 38, 24, 0, 0, 12, 0],
     [0, 0, 98, 1, 0, 1, 47, 24, 0, 0, 12, 0, 0, 0, 99, 1, 0, 1, 62, 24, 0, 0, 12, 0, 0, 0],
     [100, 1, 0, 1, 77, 24, 0, 0, 12, 0, 0, 0, 101, 1, 0, 1, 85, 24, 0, 0, 12, 0, 0, 0, 102],
     [1, 0, 26, 0, 0, 0, 0, 224, 0, 0, 0, 128, 1, 0, 0, 98, 24, 0, 0, 26, 0, 0, 0, 160, 1, 0, 0, 0, 0],
     [0, 0, 225, 0, 0, 0, 192, 1, 0, 0, 0, 0, 0, 0, 226, 0, 0, 0, 0, 2, 0, 0, 106, 24, 0, 0, 12, 0, 0, 0],
     [64, 2, 0, 0, 125, 24, 0, 0, 12, 0, 0, 0, 128, 2, 0, 0, 142, 24, 0, 0, 26, 0, 0, 0, 192, 2, 0],
     [0, 107, 13, 0, 0, 227, 0, 0, 0, 224, 2, 0, 0, 160, 24, 0, 0, 12, 0, 0, 0, 0, 3, 0, 0, 177, 24, 0],
     [0, 26, 0, 0, 0, 64, 3, 0, 0, 191, 24, 0, 0, 47, 0, 0, 0, 96, 3, 0, 0, 208, 24, 0, 0, 47, 0, 0],
     [0, 112, 3, 0, 0, 221, 24, 0, 0, 26, 0, 0, 0, 128, 3, 0, 0, 0, 0, 0, 0, 228, 0, 0, 0, 160, 3, 0, 0],
     [237, 24, 0, 0, 12, 0, 0, 0, 192, 3, 0, 0, 246, 24, 0, 0, 12, 0, 0, 0, 0, 4, 0, 0, 0, 0, 0, 0, 2],
     [0, 0, 5, 8, 0, 0, 0, 254, 24, 0, 0, 12, 0, 0, 0, 0, 0, 0, 0, 12, 25, 0, 0, 12, 0, 0, 0, 0, 0, 0, 0],
     [0, 0, 0, 0, 2, 0, 0, 5, 4, 0, 0, 0, 24, 25, 0, 0, 26, 0, 0, 0, 0, 0, 0, 0, 38, 25, 0, 0, 26, 0],
     [0, 0, 0, 0, 0, 0, 0, 0, 0, 0, 4, 0, 0, 5, 8, 0, 0, 0, 55, 25, 0, 0, 12, 0, 0, 0, 0, 0, 0, 0, 63],
     [25, 0, 0, 12, 0, 0, 0, 0, 0, 0, 0, 75, 25, 0, 0, 12, 0, 0, 0, 0, 0, 0, 0, 87, 25, 0, 0, 12, 0, 0, 0],
     [0, 0, 0, 0, 0, 0, 0, 0, 4, 0, 0, 5, 8, 0, 0, 0, 95, 25, 0, 0, 12, 0, 0, 0, 0, 0, 0, 0, 102, 25, 0],
     [0, 12, 0, 0, 0, 0, 0, 0, 0, 114, 25, 0, 0, 12, 0, 0, 0, 0, 0, 0, 0, 127, 25, 0, 0, 12, 0, 0, 0, 0, 0, 0],
     [0, 135, 25, 0, 0, 0, 0, 0, 8, 2, 0, 0, 0, 0, 0, 0, 0, 2, 0, 0, 5, 4, 0, 0, 0, 141, 25, 0, 0],
     [26, 0, 0, 0, 0, 0, 0, 0, 0, 0, 0, 0, 229, 0, 0, 0, 0, 0, 0, 0, 0, 0, 0, 0, 4, 0, 0, 132, 4, 0, 0, 0, 152],
     [25, 0, 0, 26, 0, 0, 0, 0, 0, 0, 1, 169, 25, 0, 0, 26, 0, 0, 0, 1, 0, 0, 1, 179, 25, 0, 0, 26],
     [0, 0, 0, 2, 0, 0, 1, 190, 25, 0, 0, 26, 0, 0, 0, 3, 0, 0, 29, 203, 25, 0, 0, 12, 0, 0, 4],
     [208, 0, 0, 0, 0, 0, 0, 0, 231, 0, 0, 0, 0, 0, 0, 0, 217, 25, 0, 0, 48, 0, 0, 0, 128, 3, 0, 0, 247, 20],
     [0, 0, 37, 0, 0, 0, 192, 3, 0, 0, 23, 21, 0, 0, 34, 0, 0, 0, 0, 4, 0, 0, 47, 12, 0, 0, 2, 0, 0],
     [0, 64, 4, 0, 0, 224, 25, 0, 0, 218, 0, 0, 0, 128, 4, 0, 0, 254, 24, 0, 0, 11, 0, 0, 0, 192, 4],
     [0, 0, 0, 0, 0, 0, 246, 0, 0, 0, 0, 5, 0, 0, 235, 25, 0, 0, 11, 0, 0, 0, 128, 5, 0, 0, 250, 25, 0, 0],
     [11, 0, 0, 0, 192, 5, 0, 0, 5, 26, 0, 0, 11, 0, 0, 0, 0, 6, 0, 0, 21, 26, 0, 0, 11, 0, 0, 0],
     [64, 6, 0, 0, 0, 0, 0, 0, 7, 0, 0, 5, 112, 0, 0, 0, 0, 0, 0, 0, 232, 0, 0, 0, 0, 0, 0, 0, 0, 0, 0, 0],
     [234, 0, 0, 0, 0, 0, 0, 0, 0, 0, 0, 0, 235, 0, 0, 0, 0, 0, 0, 0, 0, 0, 0, 0, 236, 0, 0, 0, 0, 0, 0, 0, 0, 0, 0, 0],
     [237, 0, 0, 0, 0, 0, 0, 0, 0, 0, 0, 0, 238, 0, 0, 0, 0, 0, 0, 0, 0, 0, 0, 0, 245, 0, 0, 0, 0, 0, 0, 0, 0, 0, 0, 0],
     [12, 0, 0, 4, 112, 0, 0, 0, 155, 22, 0, 0, 11, 0, 0, 0, 0, 0, 0, 0, 87, 25, 0, 0, 11, 0, 0, 0, 64],
     [0, 0, 0, 38, 26, 0, 0, 11, 0, 0, 0, 128, 0, 0, 0, 47, 26, 0, 0, 11, 0, 0, 0, 192, 0, 0, 0, 62, 26],
     [0, 0, 34, 0, 0, 0, 0, 1, 0, 0, 74, 26, 0, 0, 34, 0, 0, 0, 64, 1, 0, 0, 85, 26, 0, 0, 2, 0, 0],
     [0, 128, 1, 0, 0, 102, 26, 0, 0, 2, 0, 0, 0, 160, 1, 0, 0, 106, 26, 0, 0, 2, 0, 0, 0, 192, 1],
     [0, 0, 235, 0, 0, 0, 2, 0, 0, 0, 224, 1, 0, 0, 115, 26, 0, 0, 233, 0, 0, 0, 0, 2, 0, 0, 125, 26, 0],
     [0, 233, 0, 0, 0, 192, 2, 0, 0, 136, 26, 0, 0, 4, 0, 0, 4, 24, 0, 0, 0, 155, 22, 0, 0, 11, 0, 0],
     [0, 0, 0, 0, 0, 156, 26, 0, 0, 27, 0, 0, 0, 64, 0, 0, 0, 160, 26, 0, 0, 2, 0, 0, 0, 96, 0, 0, 0, 102],
     [26, 0, 0, 2, 0, 0, 0, 128, 0, 0, 0, 0, 0, 0, 0, 2, 0, 0, 4, 16, 0, 0, 0, 166, 26, 0, 0, 11, 0, 0],
     [0, 0, 0, 0, 0, 177, 26, 0, 0, 27, 0, 0, 0, 64, 0, 0, 0, 0, 0, 0, 0, 1, 0, 0, 4, 64, 0, 0, 0, 7],
     [12, 0, 0, 63, 0, 0, 0, 0, 0, 0, 0, 0, 0, 0, 0, 1, 0, 0, 4, 16, 0, 0, 0, 188, 26, 0, 0, 53, 0, 0, 0],
     [0, 0, 0, 0, 0, 0, 0, 0, 2, 0, 0, 4, 16, 0, 0, 0, 196, 26, 0, 0, 11, 0, 0, 0, 0, 0, 0, 0, 204, 26, 0],
     [0, 11, 0, 0, 0, 64, 0, 0, 0, 0, 0, 0, 0, 2, 0, 0, 4, 40, 0, 0, 0, 209, 26, 0, 0, 239, 0, 0, 0, 0, 0],
     [0, 0, 214, 26, 0, 0, 241, 0, 0, 0, 192, 0, 0, 0, 222, 26, 0, 0, 3, 0, 0, 4, 24, 0, 0, 0, 241, 26],
     [0, 0, 11, 0, 0, 0, 0, 0, 0, 0, 249, 26, 0, 0, 11, 0, 0, 0, 64, 0, 0, 0, 1, 27, 0, 0, 240, 0, 0, 0],
     [128, 0, 0, 0, 6, 27, 0, 0, 5, 0, 0, 132, 4, 0, 0, 0, 25, 18, 0, 0, 25, 0, 0, 0, 0, 0, 0, 19],
     [30, 27, 0, 0, 25, 0, 0, 0, 19, 0, 0, 8, 75, 0, 0, 0, 25, 0, 0, 0, 27, 0, 0, 2, 34, 27, 0, 0],
     [25, 0, 0, 0, 29, 0, 0, 2, 44, 27, 0, 0, 25, 0, 0, 0, 31, 0, 0, 1, 52, 27, 0, 0, 2, 0, 0],
     [4, 16, 0, 0, 0, 64, 27, 0, 0, 242, 0, 0, 0, 0, 0, 0, 0, 29, 9, 0, 0, 244, 0, 0, 0, 64, 0, 0, 0],
     [70, 27, 0, 0, 1, 0, 0, 4, 8, 0, 0, 0, 29, 9, 0, 0, 243, 0, 0, 0, 0, 0, 0, 0, 0, 0, 0, 0, 0, 0, 0],
     [2, 242, 0, 0, 0, 0, 0, 0, 0, 0, 0, 0, 2, 241, 0, 0, 0, 0, 0, 0, 0, 5, 0, 0, 4, 24, 0, 0, 0, 81],
     [27, 0, 0, 71, 0, 0, 0, 0, 0, 0, 0, 92, 27, 0, 0, 71, 0, 0, 0, 8, 0, 0, 0, 103, 27, 0, 0, 46, 0, 0],
     [0, 16, 0, 0, 0, 111, 27, 0, 0, 11, 0, 0, 0, 64, 0, 0, 0, 116, 27, 0, 0, 11, 0, 0, 0, 128, 0, 0, 0, 0],
     [0, 0, 0, 2, 0, 0, 5, 16, 0, 0, 0, 0, 0, 0, 0, 247, 0, 0, 0, 0, 0, 0, 0, 0, 0, 0, 0, 248, 0, 0, 0, 0, 0, 0],
     [0, 0, 0, 0, 0, 2, 0, 0, 4, 16, 0, 0, 0, 122, 27, 0, 0, 11, 0, 0, 0, 0, 0, 0, 0, 134, 27, 0, 0, 218],
     [0, 0, 0, 64, 0, 0, 0, 0, 0, 0, 0, 2, 0, 0, 4, 16, 0, 0, 0, 146, 27, 0, 0, 11, 0, 0, 0, 0, 0, 0, 0],
     [159, 27, 0, 0, 11, 0, 0, 0, 64, 0, 0, 0, 0, 0, 0, 0, 0, 0, 0, 2, 87, 1, 0, 0, 0, 0, 0, 0, 0, 0, 0],
     [2, 89, 1, 0, 0, 171, 27, 0, 0, 0, 0, 0, 8, 252, 0, 0, 0, 189, 27, 0, 0, 2, 0, 0, 4, 24, 0],
     [0, 0, 1, 14, 0, 0, 167, 0, 0, 0, 0, 0, 0, 0, 205, 27, 0, 0, 53, 0, 0, 0, 64, 0, 0, 0, 0, 0, 0, 0, 0, 0],
     [0, 2, 82, 1, 0, 0, 210, 27, 0, 0, 3, 0, 0, 4, 32, 0, 0, 0, 15, 12, 0, 0, 42, 0, 0, 0, 0, 0],
     [0, 0, 108, 15, 0, 0, 255, 0, 0, 0, 128, 0, 0, 0, 219, 27, 0, 0, 2, 1, 0, 0, 192, 0, 0, 0, 0, 0, 0, 0],
     [0, 0, 0, 2, 0, 1, 0, 0, 0, 0, 0, 0, 1, 0, 0, 13, 0, 0, 0, 0, 0, 0, 0, 0, 1, 1, 0, 0, 0, 0, 0, 0, 0],
     [0, 0, 2, 254, 0, 0, 0, 227, 27, 0, 0, 1, 0, 0, 4, 8, 0, 0, 0, 54, 23, 0, 0, 48, 0, 0, 0, 0, 0],
     [0, 0, 235, 27, 0, 0, 3, 0, 0, 4, 24, 0, 0, 0, 137, 15, 0, 0, 53, 0, 0, 0, 0, 0, 0, 0, 1, 14, 0],
     [0, 118, 0, 0, 0, 128, 0, 0, 0, 2, 28, 0, 0, 27, 0, 0, 0, 160, 0, 0, 0, 0, 0, 0, 0, 0, 0, 0, 2, 90],
     [1, 0, 0, 0, 0, 0, 0, 0, 0, 0, 2, 6, 1, 0, 0, 0, 0, 0, 0, 1, 0, 0, 13, 0, 0, 0, 0, 0, 0, 0, 0, 214],
     [0, 0, 0, 0, 0, 0, 0, 0, 0, 0, 2, 76, 1, 0, 0, 0, 0, 0, 0, 0, 0, 0, 2, 9, 1, 0, 0, 0, 0, 0, 0, 0, 0],
     [0, 13, 11, 0, 0, 0, 18, 28, 0, 0, 0, 0, 0, 8, 11, 1, 0, 0, 0, 0, 0, 0, 0, 0, 0, 2, 12, 1, 0],
     [0, 0, 0, 0, 0, 3, 0, 0, 13, 0, 0, 0, 0, 0, 0, 0, 0, 214, 0, 0, 0, 0, 0, 0, 0, 13, 1, 0, 0, 0, 0, 0, 0],
     [25, 1, 0, 0, 0, 0, 0, 0, 0, 0, 0, 2, 14, 1, 0, 0, 42, 28, 0, 0, 26, 0, 0, 4, 0, 1, 0, 0],
     [59, 28, 0, 0, 11, 0, 0, 0, 0, 0, 0, 0, 72, 28, 0, 0, 11, 0, 0, 0, 64, 0, 0, 0, 79, 28, 0, 0, 11],
     [0, 0, 0, 128, 0, 0, 0, 75, 0, 0, 0, 11, 0, 0, 0, 192, 0, 0, 0, 88, 28, 0, 0, 15, 1, 0, 0, 0, 1, 0],
     [0, 95, 13, 0, 0, 11, 0, 0, 0, 64, 1, 0, 0, 61, 21, 0, 0, 11, 0, 0, 0, 128, 1, 0, 0, 98, 28],
     [0, 0, 16, 1, 0, 0, 192, 1, 0, 0, 108, 28, 0, 0, 11, 0, 0, 0, 0, 2, 0, 0, 111, 28, 0, 0, 17],
     [1, 0, 0, 64, 2, 0, 0, 121, 28, 0, 0, 18, 1, 0, 0, 128, 2, 0, 0, 125, 28, 0, 0, 19, 1, 0],
     [0, 192, 2, 0, 0, 134, 28, 0, 0, 10, 0, 0, 0, 0, 3, 0, 0, 254, 9, 0, 0, 20, 1, 0, 0, 64, 3],
     [0, 0, 148, 28, 0, 0, 22, 1, 0, 0, 128, 3, 0, 0, 157, 28, 0, 0, 11, 0, 0, 0, 192, 3, 0, 0, 161],
     [28, 0, 0, 24, 1, 0, 0, 0, 4, 0, 0, 171, 28, 0, 0, 24, 1, 0, 0, 128, 4, 0, 0, 181, 28, 0, 0],
     [11, 0, 0, 0, 0, 5, 0, 0, 197, 28, 0, 0, 11, 0, 0, 0, 64, 5, 0, 0, 21, 24, 0, 0, 11, 0, 0, 0],
     [128, 5, 0, 0, 207, 28, 0, 0, 11, 0, 0, 0, 192, 5, 0, 0, 212, 28, 0, 0, 11, 0, 0, 0, 0, 6, 0, 0],
     [222, 28, 0, 0, 11, 0, 0, 0, 64, 6, 0, 0, 237, 28, 0, 0, 11, 0, 0, 0, 128, 6, 0, 0, 252, 28, 0],
     [0, 11, 0, 0, 0, 192, 6, 0, 0, 0, 0, 0, 0, 2, 0, 0, 4, 8, 0, 0, 0, 204, 0, 0, 0, 25, 0, 0, 0, 0, 0],
     [0, 0, 5, 29, 0, 0, 25, 0, 0, 0, 32, 0, 0, 0, 0, 0, 0, 0, 2, 0, 0, 4, 8, 0, 0, 0, 147, 8, 0, 0],
     [25, 0, 0, 0, 0, 0, 0, 0, 9, 29, 0, 0, 25, 0, 0, 0, 32, 0, 0, 0, 0, 0, 0, 0, 0, 0, 0, 2, 91, 1, 0],
     [0, 0, 0, 0, 0, 0, 0, 0, 2, 92, 1, 0, 0, 0, 0, 0, 0, 0, 0, 0, 2, 80, 1, 0, 0, 18, 29, 0, 0, 2],
     [0, 0, 5, 8, 0, 0, 0, 37, 29, 0, 0, 12, 0, 0, 0, 0, 0, 0, 0, 0, 0, 0, 0, 21, 1, 0, 0, 0, 0, 0, 0, 0],
     [0, 0, 0, 3, 0, 0, 4, 8, 0, 0, 0, 42, 29, 0, 0, 26, 0, 0, 0, 0, 0, 0, 0, 50, 29, 0, 0, 47, 0, 0],
     [0, 32, 0, 0, 0, 57, 29, 0, 0, 47, 0, 0, 0, 48, 0, 0, 0, 64, 29, 0, 0, 2, 0, 0, 5, 8, 0, 0, 0],
     [84, 13, 0, 0, 12, 0, 0, 0, 0, 0, 0, 0, 0, 0, 0, 0, 23, 1, 0, 0, 0, 0, 0, 0, 0, 0, 0, 0, 11, 0, 0, 132],
     [8, 0, 0, 0, 82, 29, 0, 0, 12, 0, 0, 0, 0, 0, 0, 5, 89, 29, 0, 0, 12, 0, 0, 0, 5, 0, 0, 14],
     [97, 29, 0, 0, 12, 0, 0, 0, 19, 0, 0, 5, 107, 29, 0, 0, 12, 0, 0, 0, 24, 0, 0, 2, 116, 29, 0],
     [0, 12, 0, 0, 0, 26, 0, 0, 7, 125, 29, 0, 0, 12, 0, 0, 0, 33, 0, 0, 4, 137, 29, 0, 0, 12, 0, 0],
     [0, 37, 0, 0, 1, 148, 29, 0, 0, 12, 0, 0, 0, 38, 0, 0, 2, 159, 29, 0, 0, 12, 0, 0, 0, 40, 0, 0],
     [3, 167, 29, 0, 0, 12, 0, 0, 0, 43, 0, 0, 3, 176, 29, 0, 0, 12, 0, 0, 0, 46, 0, 0, 18, 185],
     [29, 0, 0, 2, 0, 0, 4, 16, 0, 0, 0, 195, 29, 0, 0, 12, 0, 0, 0, 0, 0, 0, 0, 199, 29, 0, 0, 25],
     [1, 0, 0, 64, 0, 0, 0, 0, 0, 0, 0, 0, 0, 0, 2, 26, 1, 0, 0, 204, 29, 0, 0, 6, 0, 0, 4, 64],
     [1, 0, 0, 0, 0, 0, 0, 27, 1, 0, 0, 0, 0, 0, 0, 212, 29, 0, 0, 11, 0, 0, 0, 128, 8, 0, 0, 220, 29],
     [0, 0, 32, 1, 0, 0, 192, 8, 0, 0, 230, 29, 0, 0, 25, 0, 0, 0, 224, 8, 0, 0, 234, 29, 0, 0, 11],
     [0, 0, 0, 0, 9, 0, 0, 245, 29, 0, 0, 33, 1, 0, 0, 64, 9, 0, 0, 0, 0, 0, 0, 2, 0, 0, 5, 16],
     [1, 0, 0, 0, 30, 0, 0, 28, 1, 0, 0, 0, 0, 0, 0, 0, 0, 0, 0, 30, 1, 0, 0, 0, 0, 0, 0, 10, 30, 0, 0],
     [4, 0, 0, 4, 16, 1, 0, 0, 199, 29, 0, 0, 29, 1, 0, 0, 0, 0, 0, 0, 200, 17, 0, 0, 12, 0, 0, 0],
     [192, 7, 0, 0, 203, 17, 0, 0, 12, 0, 0, 0, 0, 8, 0, 0, 23, 30, 0, 0, 12, 0, 0, 0, 64, 8, 0, 0],
     [0, 0, 0, 0, 0, 0, 0, 3, 0, 0, 0, 0, 12, 0, 0, 0, 4, 0, 0, 0, 31, 0, 0, 0, 0, 0, 0, 0, 4, 0, 0, 4],
     [16, 1, 0, 0, 199, 29, 0, 0, 31, 1, 0, 0, 0, 0, 0, 0, 200, 17, 0, 0, 11, 0, 0, 0, 192, 7, 0, 0],
     [203, 17, 0, 0, 11, 0, 0, 0, 0, 8, 0, 0, 23, 30, 0, 0, 11, 0, 0, 0, 64, 8, 0, 0, 0, 0, 0, 0, 0, 0],
     [0, 3, 0, 0, 0, 0, 11, 0, 0, 0, 4, 0, 0, 0, 31, 0, 0, 0, 30, 30, 0, 0, 0, 0, 0, 8, 227, 0, 0, 0],
     [34, 30, 0, 0, 2, 0, 0, 4, 24, 0, 0, 0, 52, 30, 0, 0, 34, 1, 0, 0, 0, 0, 0, 0, 75, 0, 0, 0],
     [11, 0, 0, 0, 128, 0, 0, 0, 59, 30, 0, 0, 2, 0, 0, 4, 16, 0, 0, 0, 197, 17, 0, 0, 11, 0, 0, 0, 0],
     [0, 0, 0, 72, 30, 0, 0, 11, 0, 0, 0, 64, 0, 0, 0, 0, 0, 0, 0, 0, 0, 0, 2, 71, 1, 0, 0, 0, 0, 0, 0, 0],
     [0, 0, 2, 84, 1, 0, 0, 0, 0, 0, 0, 0, 0, 0, 2, 85, 1, 0, 0, 157, 21, 0, 0, 14, 0, 0, 4, 208],
     [0, 0, 0, 108, 15, 0, 0, 39, 1, 0, 0, 0, 0, 0, 0, 29, 9, 0, 0, 42, 1, 0, 0, 64, 0, 0, 0, 235, 0],
     [0, 0, 34, 0, 0, 0, 128, 0, 0, 0, 75, 30, 0, 0, 37, 0, 0, 0, 192, 0, 0, 0, 83, 30, 0, 0, 39, 1, 0],
     [0, 0, 1, 0, 0, 94, 30, 0, 0, 45, 1, 0, 0, 64, 1, 0, 0, 105, 30, 0, 0, 47, 1, 0, 0, 192],
     [2, 0, 0, 115, 30, 0, 0, 45, 1, 0, 0, 0, 3, 0, 0, 124, 30, 0, 0, 34, 0, 0, 0, 128, 4, 0, 0],
     [135, 30, 0, 0, 34, 0, 0, 0, 192, 4, 0, 0, 137, 15, 0, 0, 53, 0, 0, 0, 0, 5, 0, 0, 151, 30, 0, 0],
     [53, 0, 0, 0, 128, 5, 0, 0, 162, 30, 0, 0, 48, 1, 0, 0, 0, 6, 0, 0, 171, 30, 0, 0, 42, 1, 0]]"

definition bootstrap_legacy_elf_10_d :: "byte list" where
  "bootstrap_legacy_elf_10_d =
    concat
    [[0, 64, 6, 0, 0, 179, 30, 0, 0, 0, 0, 0, 8, 40, 1, 0, 0, 0, 0, 0, 0, 0, 0, 0, 2, 41, 1, 0, 0],
     [0, 0, 0, 0, 4, 0, 0, 13, 0, 0, 0, 0, 0, 0, 0, 0, 34, 0, 0, 0, 0, 0, 0, 0, 34, 0, 0, 0, 0, 0, 0, 0, 42],
     [1, 0, 0, 0, 0, 0, 0, 43, 1, 0, 0, 0, 0, 0, 0, 0, 0, 0, 2, 38, 1, 0, 0, 0, 0, 0, 0, 0, 0, 0, 2],
     [44, 1, 0, 0, 193, 30, 0, 0, 0, 0, 0, 4, 0, 0, 0, 0, 205, 30, 0, 0, 3, 0, 0, 4, 48, 0, 0, 0],
     [221, 30, 0, 0, 46, 1, 0, 0, 0, 0, 0, 0, 234, 30, 0, 0, 46, 1, 0, 0, 64, 0, 0, 0, 246, 30, 0, 0],
     [182, 0, 0, 0, 128, 0, 0, 0, 0, 0, 0, 0, 0, 0, 0, 2, 73, 1, 0, 0, 0, 0, 0, 0, 0, 0, 0, 2, 45, 1, 0],
     [0, 1, 31, 0, 0, 0, 0, 0, 8, 49, 1, 0, 0, 0, 0, 0, 0, 0, 0, 0, 2, 50, 1, 0, 0, 0, 0, 0, 0, 2],
     [0, 0, 13, 2, 0, 0, 0, 0, 0, 0, 0, 42, 1, 0, 0, 0, 0, 0, 0, 51, 1, 0, 0, 19, 31, 0, 0, 3, 0, 0],
     [6, 4, 0, 0, 0, 34, 31, 0, 0, 0, 0, 0, 0, 76, 31, 0, 0, 1, 0, 0, 0, 118, 31, 0, 0, 2, 0, 0, 0],
     [0, 0, 0, 0, 0, 0, 0, 3, 0, 0, 0, 0, 214, 0, 0, 0, 4, 0, 0, 0, 16, 0, 0, 0, 0, 0, 0, 0, 0, 0, 0, 2, 54],
     [1, 0, 0, 161, 31, 0, 0, 5, 0, 0, 4, 20, 0, 0, 0, 180, 0, 0, 0, 22, 0, 0, 0, 0, 0, 0, 0, 200, 31],
     [0, 0, 25, 0, 0, 0, 64, 0, 0, 0, 204, 0, 0, 0, 8, 0, 0, 0, 96, 0, 0, 0, 227, 1, 0, 0, 2, 0, 0, 0],
     [128, 0, 0, 0, 216, 0, 0, 0, 29, 0, 0, 0, 160, 0, 0, 0, 0, 0, 0, 0, 1, 0, 0, 13, 2, 0, 0, 0, 56, 1],
     [0, 0, 53, 1, 0, 0, 216, 31, 0, 0, 1, 0, 0, 12, 55, 1, 0, 0, 0, 0, 0, 0, 0, 0, 0, 3, 0, 0, 0, 0],
     [28, 0, 0, 0, 4, 0, 0, 0, 13, 0, 0, 0, 228, 31, 0, 0, 0, 0, 0, 14, 57, 1, 0, 0, 1, 0, 0, 0, 0, 0],
     [0, 0, 0, 0, 0, 10, 60, 1, 0, 0, 0, 0, 0, 0, 0, 0, 0, 9, 13, 0, 0, 0, 236, 31, 0, 0, 0, 0, 0, 14],
     [59, 1, 0, 0, 1, 0, 0, 0, 252, 31, 0, 0, 0, 0, 0, 7, 0, 0, 0, 0, 177, 16, 0, 0, 0, 0, 0, 7, 0, 0],
     [0, 0, 243, 11, 0, 0, 0, 0, 0, 7, 0, 0, 0, 0, 7, 32, 0, 0, 0, 0, 0, 7, 0, 0, 0, 0, 26, 32, 0, 0, 0],
     [0, 0, 7, 0, 0, 0, 0, 40, 32, 0, 0, 0, 0, 0, 7, 0, 0, 0, 0, 50, 32, 0, 0, 0, 0, 0, 7, 0, 0, 0, 0],
     [138, 5, 0, 0, 0, 0, 0, 7, 0, 0, 0, 0, 225, 14, 0, 0, 0, 0, 0, 7, 0, 0, 0, 0, 65, 32, 0, 0, 0, 0, 0],
     [7, 0, 0, 0, 0, 74, 32, 0, 0, 0, 0, 0, 7, 0, 0, 0, 0, 92, 32, 0, 0, 0, 0, 0, 7, 0, 0, 0, 0, 104],
     [32, 0, 0, 0, 0, 0, 7, 0, 0, 0, 0, 114, 32, 0, 0, 0, 0, 0, 7, 0, 0, 0, 0, 126, 32, 0, 0, 0, 0, 0, 7],
     [0, 0, 0, 0, 204, 0, 0, 0, 0, 0, 0, 7, 0, 0, 0, 0, 140, 32, 0, 0, 0, 0, 0, 7, 0, 0, 0, 0, 233, 14, 0, 0],
     [0, 0, 0, 7, 0, 0, 0, 0, 150, 32, 0, 0, 0, 0, 0, 7, 0, 0, 0, 0, 168, 32, 0, 0, 0, 0, 0, 7, 0, 0, 0, 0],
     [184, 32, 0, 0, 0, 0, 0, 7, 0, 0, 0, 0, 97, 6, 0, 0, 0, 0, 0, 7, 0, 0, 0, 0, 198, 32, 0, 0, 0, 0, 0],
     [7, 0, 0, 0, 0, 215, 32, 0, 0, 0, 0, 0, 7, 0, 0, 0, 0, 66, 19, 0, 0, 0, 0, 0, 7, 0, 0, 0, 0, 228],
     [32, 0, 0, 0, 0, 0, 7, 0, 0, 0, 0, 251, 32, 0, 0, 0, 0, 0, 7, 0, 0, 0, 0, 133, 0, 0, 0, 0, 0, 0, 7, 0],
     [0, 0, 0, 14, 33, 0, 0, 0, 0, 0, 7, 0, 0, 0, 0, 37, 33, 0, 0, 0, 0, 0, 7, 0, 0, 0, 0, 58, 33, 0, 0],
     [0, 0, 0, 7, 0, 0, 0, 0, 31, 2, 0, 0, 0, 0, 0, 7, 0, 0, 0, 0, 74, 33, 0, 0, 0, 0, 0, 7, 0, 0, 0, 0],
     [92, 33, 0, 0, 0, 0, 0, 7, 0, 0, 0, 0, 107, 33, 0, 0, 0, 0, 0, 7, 0, 0, 0, 0, 119, 5, 0, 0, 0, 0, 0],
     [7, 0, 0, 0, 0, 114, 33, 0, 0, 0, 0, 0, 7, 0, 0, 0, 0, 127, 33, 0, 0, 0, 0, 0, 7, 0, 0, 0, 0, 141],
     [33, 0, 0, 0, 0, 0, 7, 0, 0, 0, 0, 156, 33, 0, 0, 0, 0, 0, 7, 0, 0, 0, 0, 111, 6, 0, 0, 0, 0, 0, 7],
     [0, 0, 0, 0, 125, 6, 0, 0, 0, 0, 0, 7, 0, 0, 0, 0, 165, 33, 0, 0, 0, 0, 0, 7, 0, 0, 0, 0, 233, 6, 0],
     [0, 0, 0, 0, 7, 0, 0, 0, 0, 180, 33, 0, 0, 0, 0, 0, 7, 0, 0, 0, 0, 192, 33, 0, 0, 0, 0, 0, 7, 0, 0, 0],
     [0, 104, 8, 0, 0, 0, 0, 0, 7, 0, 0, 0, 0, 137, 38, 0, 0, 1, 0, 0, 15, 13, 0, 0, 0, 58, 1, 0, 0],
     [0, 0, 0, 0, 13, 0, 0, 0, 145, 38, 0, 0, 1, 0, 0, 15, 8, 0, 0, 0, 61, 1, 0, 0, 0, 0, 0, 0, 8, 0],
     [0, 0, 153, 38, 0, 0, 2, 0, 0, 15, 56, 0, 0, 0, 15, 0, 0, 0, 0, 0, 0, 0, 32, 0, 0, 0, 19, 0, 0, 0],
     [32, 0, 0, 0, 24, 0, 0, 0, 0, 105, 110, 116, 0, 95, 95, 65, 82, 82, 65, 89, 95, 83, 73],
     [90, 69, 95, 84, 89, 80, 69, 95, 95, 0, 112, 105, 100, 95, 116, 0, 95, 95, 107, 101],
     [114, 110, 101, 108, 95, 112, 105, 100, 95, 116, 0, 117, 54, 52, 0, 95, 95, 117, 54, 52, 0],
     [117, 110, 115, 105, 103, 110, 101, 100, 32, 108, 111, 110, 103, 32, 108, 111, 110, 103, 0, 116],
     [121, 112, 101, 0, 109, 97, 120, 95, 101, 110, 116, 114, 105, 101, 115, 0, 107, 101, 121, 0, 118],
     [97, 108, 117, 101, 0, 101, 120, 101, 99, 95, 115, 116, 97, 114, 116, 0, 107, 101, 121, 95],
     [115, 105, 122, 101, 0, 118, 97, 108, 117, 101, 95, 115, 105, 122, 101, 0, 112, 101, 114, 102],
     [95, 98, 117, 102, 102, 101, 114, 0, 116, 114, 97, 99, 101, 95, 101, 118, 101, 110, 116, 95],
     [114, 97, 119, 95, 115, 99, 104, 101, 100, 95, 112, 114, 111, 99, 101, 115, 115, 95, 101],
     [120, 101, 99, 0, 101, 110, 116, 0, 95, 95, 100, 97, 116, 97, 95, 108, 111, 99, 95, 102],
     [105, 108, 101, 110, 97, 109, 101, 0, 112, 105, 100, 0, 111, 108, 100, 95, 112, 105, 100, 0, 95],
     [95, 100, 97, 116, 97, 0, 116, 114, 97, 99, 101, 95, 101, 110, 116, 114, 121, 0, 102, 108],
     [97, 103, 115, 0, 112, 114, 101, 101, 109, 112, 116, 95, 99, 111, 117, 110, 116, 0, 117, 110],
     [115, 105, 103, 110, 101, 100, 32, 115, 104, 111, 114, 116, 0, 117, 110, 115, 105, 103, 110, 101],
     [100, 32, 99, 104, 97, 114, 0, 117, 51, 50, 0, 95, 95, 117, 51, 50, 0, 117, 110, 115, 105],
     [103, 110, 101, 100, 32, 105, 110, 116, 0, 99, 104, 97, 114, 0, 99, 116, 120, 0, 104, 97, 110],
     [100, 108, 101, 95, 101, 120, 101, 99, 0, 116, 97, 115, 107, 95, 115, 116, 114, 117, 99, 116],
     [0, 116, 104, 114, 101, 97, 100, 95, 105, 110, 102, 111, 0, 95, 95, 115, 116, 97, 116, 101, 0],
     [115, 97, 118, 101, 100, 95, 115, 116, 97, 116, 101, 0, 115, 116, 97, 99, 107, 0, 117, 115],
     [97, 103, 101, 0, 112, 116, 114, 97, 99, 101, 0, 111, 110, 95, 99, 112, 117, 0, 119, 97, 107],
     [101, 95, 101, 110, 116, 114, 121, 0, 119, 97, 107, 101, 101, 95, 102, 108, 105, 112, 115, 0],
     [119, 97, 107, 101, 101, 95, 102, 108, 105, 112, 95, 100, 101, 99, 97, 121, 95, 116, 115, 0],
     [108, 97, 115, 116, 95, 119, 97, 107, 101, 101, 0, 114, 101, 99, 101, 110, 116, 95, 117, 115],
     [101, 100, 95, 99, 112, 117, 0, 119, 97, 107, 101, 95, 99, 112, 117, 0, 111, 110, 95, 114],
     [113, 0, 112, 114, 105, 111, 0, 115, 116, 97, 116, 105, 99, 95, 112, 114, 105, 111, 0, 110, 111],
     [114, 109, 97, 108, 95, 112, 114, 105, 111, 0, 114, 116, 95, 112, 114, 105, 111, 114, 105, 116],
     [121, 0, 115, 101, 0, 114, 116, 0, 100, 108, 0, 100, 108, 95, 115, 101, 114, 118, 101, 114, 0, 115],
     [99, 104, 101, 100, 95, 99, 108, 97, 115, 115, 0, 115, 116, 97, 116, 115, 0, 112, 111, 108],
     [105, 99, 121, 0, 109, 97, 120, 95, 97, 108, 108, 111, 119, 101, 100, 95, 99, 97, 112, 97],
     [99, 105, 116, 121, 0, 110, 114, 95, 99, 112, 117, 115, 95, 97, 108, 108, 111, 119, 101, 100],
     [0, 99, 112, 117, 115, 95, 112, 116, 114, 0, 117, 115, 101, 114, 95, 99, 112, 117, 115, 95],
     [112, 116, 114, 0, 99, 112, 117, 115, 95, 109, 97, 115, 107, 0, 109, 105, 103, 114, 97, 116],
     [105, 111, 110, 95, 112, 101, 110, 100, 105, 110, 103, 0, 109, 105, 103, 114, 97, 116, 105, 111],
     [110, 95, 100, 105, 115, 97, 98, 108, 101, 100, 0, 109, 105, 103, 114, 97, 116, 105, 111, 110],
     [95, 102, 108, 97, 103, 115, 0, 116, 114, 99, 95, 114, 101, 97, 100, 101, 114, 95, 110, 101],
     [115, 116, 105, 110, 103, 0, 116, 114, 99, 95, 105, 112, 105, 95, 116, 111, 95, 99, 112, 117],
     [0, 116, 114, 99, 95, 114, 101, 97, 100, 101, 114, 95, 115, 112, 101, 99, 105, 97, 108, 0],
     [116, 114, 99, 95, 104, 111, 108, 100, 111, 117, 116, 95, 108, 105, 115, 116, 0, 116, 114, 99],
     [95, 98, 108, 107, 100, 95, 110, 111, 100, 101, 0, 116, 114, 99, 95, 98, 108, 107, 100, 95],
     [99, 112, 117, 0, 115, 99, 104, 101, 100, 95, 105, 110, 102, 111, 0, 116, 97, 115, 107, 115, 0],
     [112, 117, 115, 104, 97, 98, 108, 101, 95, 116, 97, 115, 107, 115, 0, 112, 117, 115, 104, 97],
     [98, 108, 101, 95, 100, 108, 95, 116, 97, 115, 107, 115, 0, 109, 109, 0, 97, 99, 116, 105],
     [118, 101, 95, 109, 109, 0, 102, 97, 117, 108, 116, 115, 95, 100, 105, 115, 97, 98, 108, 101],
     [100, 95, 109, 97, 112, 112, 105, 110, 103, 0, 101, 120, 105, 116, 95, 115, 116, 97, 116, 101],
     [0, 101, 120, 105, 116, 95, 99, 111, 100, 101, 0, 101, 120, 105, 116, 95, 115, 105, 103, 110],
     [97, 108, 0, 112, 100, 101, 97, 116, 104, 95, 115, 105, 103, 110, 97, 108, 0, 106, 111, 98],
     [99, 116, 108, 0, 112, 101, 114, 115, 111, 110, 97, 108, 105, 116, 121, 0, 115, 99, 104, 101],
     [100, 95, 114, 101, 115, 101, 116, 95, 111, 110, 95, 102, 111, 114, 107, 0, 115, 99, 104, 101],
     [100, 95, 99, 111, 110, 116, 114, 105, 98, 117, 116, 101, 115, 95, 116, 111, 95, 108, 111],
     [97, 100, 0, 115, 99, 104, 101, 100, 95, 109, 105, 103, 114, 97, 116, 101, 100, 0, 115, 99],
     [104, 101, 100, 95, 116, 97, 115, 107, 95, 104, 111, 116, 0, 115, 99, 104, 101, 100, 95, 114],
     [101, 109, 111, 116, 101, 95, 119, 97, 107, 101, 117, 112, 0, 105, 110, 95, 101, 120, 101, 99],
     [118, 101, 0, 105, 110, 95, 105, 111, 119, 97, 105, 116, 0, 105, 110, 95, 110, 102, 95, 100],
     [117, 112, 108, 105, 99, 97, 116, 101, 0, 97, 116, 111, 109, 105, 99, 95, 102, 108, 97, 103],
     [115, 0, 114, 101, 115, 116, 97, 114, 116, 95, 98, 108, 111, 99, 107, 0, 116, 103, 105, 100, 0],
     [114, 101, 97, 108, 95, 112, 97, 114, 101, 110, 116, 0, 112, 97, 114, 101, 110, 116, 0, 99],
     [104, 105, 108, 100, 114, 101, 110, 0, 115, 105, 98, 108, 105, 110, 103, 0, 103, 114, 111, 117],
     [112, 95, 108, 101, 97, 100, 101, 114, 0, 112, 116, 114, 97, 99, 101, 100, 0, 112, 116, 114],
     [97, 99, 101, 95, 101, 110, 116, 114, 121, 0, 116, 104, 114, 101, 97, 100, 95, 112, 105, 100],
     [0, 112, 105, 100, 95, 108, 105, 110, 107, 115, 0, 116, 104, 114, 101, 97, 100, 95, 110, 111],
     [100, 101, 0, 118, 102, 111, 114, 107, 95, 100, 111, 110, 101, 0, 115, 101, 116, 95, 99, 104],
     [105, 108, 100, 95, 116, 105, 100, 0, 99, 108, 101, 97, 114, 95, 99, 104, 105, 108, 100, 95],
     [116, 105, 100, 0, 119, 111, 114, 107, 101, 114, 95, 112, 114, 105, 118, 97, 116, 101, 0, 117],
     [116, 105, 109, 101, 0, 115, 116, 105, 109, 101, 0, 103, 116, 105, 109, 101, 0, 112, 114, 101, 118],
     [95, 99, 112, 117, 116, 105, 109, 101, 0, 110, 118, 99, 115, 119, 0, 110, 105, 118, 99, 115],
     [119, 0, 115, 116, 97, 114, 116, 95, 116, 105, 109, 101, 0, 115, 116, 97, 114, 116, 95, 98],
     [111, 111, 116, 116, 105, 109, 101, 0, 109, 105, 110, 95, 102, 108, 116, 0, 109, 97, 106, 95],
     [102, 108, 116, 0, 112, 111, 115, 105, 120, 95, 99, 112, 117, 116, 105, 109, 101, 114, 115, 0],
     [112, 116, 114, 97, 99, 101, 114, 95, 99, 114, 101, 100, 0, 114, 101, 97, 108, 95, 99, 114],
     [101, 100, 0, 99, 114, 101, 100, 0, 99, 111, 109, 109, 0, 110, 97, 109, 101, 105, 100, 97, 116],
     [97, 0, 102, 115, 0, 102, 105, 108, 101, 115, 0, 110, 115, 112, 114, 111, 120, 121, 0, 115, 105],
     [103, 110, 97, 108, 0, 115, 105, 103, 104, 97, 110, 100, 0, 98, 108, 111, 99, 107, 101, 100, 0],
     [114, 101, 97, 108, 95, 98, 108, 111, 99, 107, 101, 100, 0, 115, 97, 118, 101, 100, 95, 115],
     [105, 103, 109, 97, 115, 107, 0, 112, 101, 110, 100, 105, 110, 103, 0, 115, 97, 115, 95, 115],
     [115, 95, 115, 112, 0, 115, 97, 115, 95, 115, 115, 95, 115, 105, 122, 101, 0, 115, 97, 115],
     [95, 115, 115, 95, 102, 108, 97, 103, 115, 0, 116, 97, 115, 107, 95, 119, 111, 114, 107, 115],
     [0, 115, 101, 99, 99, 111, 109, 112, 0, 115, 121, 115, 99, 97, 108, 108, 95, 100, 105, 115],
     [112, 97, 116, 99, 104, 0, 112, 97, 114, 101, 110, 116, 95, 101, 120, 101, 99, 95, 105, 100],
     [0, 115, 101, 108, 102, 95, 101, 120, 101, 99, 95, 105, 100, 0, 97, 108, 108, 111, 99, 95],
     [108, 111, 99, 107, 0, 112, 105, 95, 108, 111, 99, 107, 0, 119, 97, 107, 101, 95, 113, 0, 98],
     [108, 111, 99, 107, 101, 100, 95, 111, 110, 0, 106, 111, 117, 114, 110, 97, 108, 95, 105, 110],
     [102, 111, 0, 98, 105, 111, 95, 108, 105, 115, 116, 0, 112, 108, 117, 103, 0, 114, 101, 99, 108],
     [97, 105, 109, 95, 115, 116, 97, 116, 101, 0, 105, 111, 95, 99, 111, 110, 116, 101, 120, 116],
     [0, 112, 116, 114, 97, 99, 101, 95, 109, 101, 115, 115, 97, 103, 101, 0, 108, 97, 115, 116],
     [95, 115, 105, 103, 105, 110, 102, 111, 0, 105, 111, 97, 99, 0, 112, 101, 114, 102, 95, 114],
     [101, 99, 117, 114, 115, 105, 111, 110, 0, 112, 101, 114, 102, 95, 101, 118, 101, 110, 116, 95],
     [99, 116, 120, 112, 0, 112, 101, 114, 102, 95, 101, 118, 101, 110, 116, 95, 109, 117, 116, 101],
     [120, 0, 112, 101, 114, 102, 95, 101, 118, 101, 110, 116, 95, 108, 105, 115, 116, 0, 112, 101],
     [114, 102, 95, 99, 116, 120, 95, 100, 97, 116, 97, 0, 116, 108, 98, 95, 117, 98, 99, 0],
     [115, 112, 108, 105, 99, 101, 95, 112, 105, 112, 101, 0, 116, 97, 115, 107, 95, 102, 114, 97],
     [103, 0, 110, 114, 95, 100, 105, 114, 116, 105, 101, 100, 0, 110, 114, 95, 100, 105, 114, 116],
     [105, 101, 100, 95, 112, 97, 117, 115, 101, 0, 100, 105, 114, 116, 121, 95, 112, 97, 117, 115],
     [101, 100, 95, 119, 104, 101, 110, 0, 116, 105, 109, 101, 114, 95, 115, 108, 97, 99, 107, 95],
     [110, 115, 0, 100, 101, 102, 97, 117, 108, 116, 95, 116, 105, 109, 101, 114, 95, 115, 108, 97],
     [99, 107, 95, 110, 115, 0, 99, 117, 114, 114, 95, 114, 101, 116, 95, 115, 116, 97, 99, 107],
     [0, 99, 117, 114, 114, 95, 114, 101, 116, 95, 100, 101, 112, 116, 104, 0, 114, 101, 116, 95],
     [115, 116, 97, 99, 107, 0, 102, 116, 114, 97, 99, 101, 95, 116, 105, 109, 101, 115, 116, 97],
     [109, 112, 0, 102, 116, 114, 97, 99, 101, 95, 115, 108, 101, 101, 112, 116, 105, 109, 101, 0],
     [116, 114, 97, 99, 101, 95, 111, 118, 101, 114, 114, 117, 110, 0, 116, 114, 97, 99, 105, 110],
     [103, 95, 103, 114, 97, 112, 104, 95, 112, 97, 117, 115, 101, 0, 116, 114, 97, 99, 101, 95],
     [114, 101, 99, 117, 114, 115, 105, 111, 110, 0, 117, 116, 97, 115, 107, 0, 107, 109, 97, 112],
     [95, 99, 116, 114, 108, 0, 114, 99, 117, 0, 114, 99, 117, 95, 117, 115, 101, 114, 115, 0, 112],
     [97, 103, 101, 102, 97, 117, 108, 116, 95, 100, 105, 115, 97, 98, 108, 101, 100, 0, 111, 111],
     [109, 95, 114, 101, 97, 112, 101, 114, 95, 108, 105, 115, 116, 0, 111, 111, 109, 95, 114, 101],
     [97, 112, 101, 114, 95, 116, 105, 109, 101, 114, 0, 115, 116, 97, 99, 107, 95, 118, 109, 95],
     [97, 114, 101, 97, 0, 115, 116, 97, 99, 107, 95, 114, 101, 102, 99, 111, 117, 110, 116, 0],
     [98, 112, 102, 95, 115, 116, 111, 114, 97, 103, 101, 0, 98, 112, 102, 95, 99, 116, 120, 0],
     [98, 112, 102, 95, 110, 101, 116, 95, 99, 111, 110, 116, 101, 120, 116, 0, 107, 114, 101, 116]]"

definition bootstrap_legacy_elf_10_e :: "byte list" where
  "bootstrap_legacy_elf_10_e =
    concat
    [[112, 114, 111, 98, 101, 95, 105, 110, 115, 116, 97, 110, 99, 101, 115, 0, 116, 104, 114, 101],
     [97, 100, 0, 99, 112, 117, 0, 117, 110, 115, 105, 103, 110, 101, 100, 32, 108, 111, 110, 103, 0],
     [112, 114, 101, 101, 109, 112, 116, 0, 99, 111, 117, 110, 116, 0, 110, 101, 101, 100, 95, 114],
     [101, 115, 99, 104, 101, 100, 0, 114, 101, 102, 99, 111, 117, 110, 116, 95, 116, 0, 114, 101],
     [102, 99, 111, 117, 110, 116, 95, 115, 116, 114, 117, 99, 116, 0, 114, 101, 102, 115, 0, 97],
     [116, 111, 109, 105, 99, 95, 116, 0, 99, 111, 117, 110, 116, 101, 114, 0, 95, 95, 99, 97],
     [108, 108, 95, 115, 105, 110, 103, 108, 101, 95, 110, 111, 100, 101, 0, 108, 108, 105, 115, 116],
     [0, 115, 114, 99, 0, 100, 115, 116, 0, 108, 108, 105, 115, 116, 95, 110, 111, 100, 101, 0, 110],
     [101, 120, 116, 0, 117, 95, 102, 108, 97, 103, 115, 0, 97, 95, 102, 108, 97, 103, 115, 0, 117],
     [49, 54, 0, 95, 95, 117, 49, 54, 0, 115, 99, 104, 101, 100, 95, 101, 110, 116, 105, 116],
     [121, 0, 108, 111, 97, 100, 0, 114, 117, 110, 95, 110, 111, 100, 101, 0, 100, 101, 97, 100, 108],
     [105, 110, 101, 0, 109, 105, 110, 95, 118, 114, 117, 110, 116, 105, 109, 101, 0, 109, 105, 110],
     [95, 115, 108, 105, 99, 101, 0, 103, 114, 111, 117, 112, 95, 110, 111, 100, 101, 0, 115, 99],
     [104, 101, 100, 95, 100, 101, 108, 97, 121, 101, 100, 0, 114, 101, 108, 95, 100, 101, 97, 100],
     [108, 105, 110, 101, 0, 99, 117, 115, 116, 111, 109, 95, 115, 108, 105, 99, 101, 0, 115, 117],
     [109, 95, 101, 120, 101, 99, 95, 114, 117, 110, 116, 105, 109, 101, 0, 112, 114, 101, 118, 95],
     [115, 117, 109, 95, 101, 120, 101, 99, 95, 114, 117, 110, 116, 105, 109, 101, 0, 118, 114, 117],
     [110, 116, 105, 109, 101, 0, 115, 108, 105, 99, 101, 0, 110, 114, 95, 109, 105, 103, 114, 97],
     [116, 105, 111, 110, 115, 0, 97, 118, 103, 0, 108, 111, 97, 100, 95, 119, 101, 105, 103, 104],
     [116, 0, 119, 101, 105, 103, 104, 116, 0, 105, 110, 118, 95, 119, 101, 105, 103, 104, 116, 0, 114],
     [98, 95, 110, 111, 100, 101, 0, 95, 95, 114, 98, 95, 112, 97, 114, 101, 110, 116, 95, 99],
     [111, 108, 111, 114, 0, 114, 98, 95, 114, 105, 103, 104, 116, 0, 114, 98, 95, 108, 101, 102],
     [116, 0, 108, 105, 115, 116, 95, 104, 101, 97, 100, 0, 112, 114, 101, 118, 0, 118, 108, 97, 103],
     [0, 118, 112, 114, 111, 116, 0, 115, 54, 52, 0, 95, 95, 115, 54, 52, 0, 108, 111, 110, 103],
     [32, 108, 111, 110, 103, 0, 115, 99, 104, 101, 100, 95, 97, 118, 103, 0, 108, 97, 115, 116],
     [95, 117, 112, 100, 97, 116, 101, 95, 116, 105, 109, 101, 0, 108, 111, 97, 100, 95, 115, 117],
     [109, 0, 114, 117, 110, 110, 97, 98, 108, 101, 95, 115, 117, 109, 0, 117, 116, 105, 108, 95],
     [115, 117, 109, 0, 112, 101, 114, 105, 111, 100, 95, 99, 111, 110, 116, 114, 105, 98, 0, 108],
     [111, 97, 100, 95, 97, 118, 103, 0, 114, 117, 110, 110, 97, 98, 108, 101, 95, 97, 118, 103],
     [0, 117, 116, 105, 108, 95, 97, 118, 103, 0, 117, 116, 105, 108, 95, 101, 115, 116, 0, 115, 99],
     [104, 101, 100, 95, 114, 116, 95, 101, 110, 116, 105, 116, 121, 0, 114, 117, 110, 95, 108, 105],
     [115, 116, 0, 116, 105, 109, 101, 111, 117, 116, 0, 119, 97, 116, 99, 104, 100, 111, 103, 95],
     [115, 116, 97, 109, 112, 0, 116, 105, 109, 101, 95, 115, 108, 105, 99, 101, 0, 111, 110, 95],
     [108, 105, 115, 116, 0, 98, 97, 99, 107, 0, 115, 99, 104, 101, 100, 95, 100, 108, 95, 101],
     [110, 116, 105, 116, 121, 0, 100, 108, 95, 114, 117, 110, 116, 105, 109, 101, 0, 100, 108, 95],
     [100, 101, 97, 100, 108, 105, 110, 101, 0, 100, 108, 95, 112, 101, 114, 105, 111, 100, 0, 100],
     [108, 95, 98, 119, 0, 100, 108, 95, 100, 101, 110, 115, 105, 116, 121, 0, 114, 117, 110, 116],
     [105, 109, 101, 0, 100, 108, 95, 116, 104, 114, 111, 116, 116, 108, 101, 100, 0, 100, 108, 95],
     [121, 105, 101, 108, 100, 101, 100, 0, 100, 108, 95, 110, 111, 110, 95, 99, 111, 110, 116, 101],
     [110, 100, 105, 110, 103, 0, 100, 108, 95, 111, 118, 101, 114, 114, 117, 110, 0, 100, 108, 95],
     [115, 101, 114, 118, 101, 114, 95, 97, 99, 116, 105, 118, 101, 0, 100, 108, 95, 100, 101, 102],
     [101, 114, 0, 100, 108, 95, 100, 101, 102, 101, 114, 95, 97, 114, 109, 101, 100, 0, 100, 108],
     [95, 100, 101, 102, 101, 114, 95, 114, 117, 110, 110, 105, 110, 103, 0, 100, 108, 95, 116, 105],
     [109, 101, 114, 0, 105, 110, 97, 99, 116, 105, 118, 101, 95, 116, 105, 109, 101, 114, 0, 114],
     [113, 0, 115, 101, 114, 118, 101, 114, 95, 112, 105, 99, 107, 95, 116, 97, 115, 107, 0, 104],
     [114, 116, 105, 109, 101, 114, 0, 110, 111, 100, 101, 0, 95, 115, 111, 102, 116, 101, 120, 112],
     [105, 114, 101, 115, 0, 102, 117, 110, 99, 116, 105, 111, 110, 0, 98, 97, 115, 101, 0, 115, 116],
     [97, 116, 101, 0, 105, 115, 95, 114, 101, 108, 0, 105, 115, 95, 115, 111, 102, 116, 0, 105, 115],
     [95, 104, 97, 114, 100, 0, 116, 105, 109, 101, 114, 113, 117, 101, 117, 101, 95, 110, 111, 100],
     [101, 0, 101, 120, 112, 105, 114, 101, 115, 0, 107, 116, 105, 109, 101, 95, 116, 0, 104, 114, 116],
     [105, 109, 101, 114, 95, 114, 101, 115, 116, 97, 114, 116, 0, 72, 82, 84, 73, 77, 69, 82],
     [95, 78, 79, 82, 69, 83, 84, 65, 82, 84, 0, 72, 82, 84, 73, 77, 69, 82, 95, 82],
     [69, 83, 84, 65, 82, 84, 0, 117, 56, 0, 95, 95, 117, 56, 0, 100, 108, 95, 115, 101, 114],
     [118, 101, 114, 95, 112, 105, 99, 107, 95, 102, 0, 115, 99, 104, 101, 100, 95, 115, 116, 97],
     [116, 105, 115, 116, 105, 99, 115, 0, 99, 112, 117, 109, 97, 115, 107, 95, 116, 0, 99, 112],
     [117, 109, 97, 115, 107, 0, 98, 105, 116, 115, 0, 114, 99, 117, 95, 115, 112, 101, 99, 105],
     [97, 108, 0, 98, 0, 115, 0, 110, 101, 101, 100, 95, 113, 115, 0, 101, 120, 112, 95, 104, 105],
     [110, 116, 0, 110, 101, 101, 100, 95, 109, 98, 0, 112, 108, 105, 115, 116, 95, 110, 111, 100],
     [101, 0, 112, 114, 105, 111, 95, 108, 105, 115, 116, 0, 110, 111, 100, 101, 95, 108, 105, 115],
     [116, 0, 97, 114, 99, 104, 95, 100, 97, 116, 97, 0, 102, 110, 0, 108, 111, 110, 103, 0, 102],
     [117, 116, 101, 120, 0, 110, 97, 110, 111, 115, 108, 101, 101, 112, 0, 112, 111, 108, 108, 0, 117],
     [97, 100, 100, 114, 0, 118, 97, 108, 0, 98, 105, 116, 115, 101, 116, 0, 116, 105, 109, 101, 0],
     [117, 97, 100, 100, 114, 50, 0, 99, 108, 111, 99, 107, 105, 100, 0, 99, 108, 111, 99, 107],
     [105, 100, 95, 116, 0, 95, 95, 107, 101, 114, 110, 101, 108, 95, 99, 108, 111, 99, 107, 105],
     [100, 95, 116, 0, 116, 105, 109, 101, 115, 112, 101, 99, 95, 116, 121, 112, 101, 0, 84, 84],
     [95, 78, 79, 78, 69, 0, 84, 84, 95, 78, 65, 84, 73, 86, 69, 0, 84, 84, 95, 67],
     [79, 77, 80, 65, 84, 0, 114, 109, 116, 112, 0, 99, 111, 109, 112, 97, 116, 95, 114, 109],
     [116, 112, 0, 117, 102, 100, 115, 0, 110, 102, 100, 115, 0, 104, 97, 115, 95, 116, 105, 109, 101],
     [111, 117, 116, 0, 116, 118, 95, 115, 101, 99, 0, 116, 118, 95, 110, 115, 101, 99, 0, 104, 108],
     [105, 115, 116, 95, 110, 111, 100, 101, 0, 112, 112, 114, 101, 118, 0, 108, 111, 99, 107, 0, 114],
     [97, 119, 95, 115, 112, 105, 110, 108, 111, 99, 107, 95, 116, 0, 114, 97, 119, 95, 115, 112],
     [105, 110, 108, 111, 99, 107, 0, 114, 97, 119, 95, 108, 111, 99, 107, 0, 97, 114, 99, 104],
     [95, 115, 112, 105, 110, 108, 111, 99, 107, 95, 116, 0, 113, 115, 112, 105, 110, 108, 111, 99],
     [107, 0, 108, 111, 99, 107, 101, 100, 0, 108, 111, 99, 107, 101, 100, 95, 112, 101, 110, 100],
     [105, 110, 103, 0, 116, 97, 105, 108, 0, 117, 105, 100, 0, 103, 105, 100, 0, 115, 117, 105, 100, 0],
     [115, 103, 105, 100, 0, 101, 117, 105, 100, 0, 101, 103, 105, 100, 0, 102, 115, 117, 105, 100, 0],
     [102, 115, 103, 105, 100, 0, 115, 101, 99, 117, 114, 101, 98, 105, 116, 115, 0, 99, 97, 112],
     [95, 105, 110, 104, 101, 114, 105, 116, 97, 98, 108, 101, 0, 99, 97, 112, 95, 112, 101, 114],
     [109, 105, 116, 116, 101, 100, 0, 99, 97, 112, 95, 101, 102, 102, 101, 99, 116, 105, 118, 101],
     [0, 99, 97, 112, 95, 98, 115, 101, 116, 0, 99, 97, 112, 95, 97, 109, 98, 105, 101, 110],
     [116, 0, 117, 115, 101, 114, 0, 117, 115, 101, 114, 95, 110, 115, 0, 117, 99, 111, 117, 110, 116],
     [115, 0, 103, 114, 111, 117, 112, 95, 105, 110, 102, 111, 0, 97, 116, 111, 109, 105, 99, 95],
     [108, 111, 110, 103, 95, 116, 0, 97, 116, 111, 109, 105, 99, 54, 52, 95, 116, 0, 107, 117],
     [105, 100, 95, 116, 0, 117, 105, 100, 95, 116, 0, 95, 95, 107, 101, 114, 110, 101, 108, 95],
     [117, 105, 100, 51, 50, 95, 116, 0, 107, 103, 105, 100, 95, 116, 0, 103, 105, 100, 95, 116, 0],
     [95, 95, 107, 101, 114, 110, 101, 108, 95, 103, 105, 100, 51, 50, 95, 116, 0, 107, 101, 114],
     [110, 101, 108, 95, 99, 97, 112, 95, 116, 0, 110, 111, 110, 95, 114, 99, 117, 0, 99, 97],
     [108, 108, 98, 97, 99, 107, 95, 104, 101, 97, 100, 0, 102, 117, 110, 99, 0, 115, 105, 103],
     [115, 101, 116, 95, 116, 0, 115, 105, 103, 0, 115, 105, 103, 112, 101, 110, 100, 105, 110, 103, 0],
     [108, 105, 115, 116, 0, 115, 105, 122, 101, 95, 116, 0, 95, 95, 107, 101, 114, 110, 101, 108],
     [95, 115, 105, 122, 101, 95, 116, 0, 95, 95, 107, 101, 114, 110, 101, 108, 95, 117, 108, 111],
     [110, 103, 95, 116, 0, 115, 121, 115, 99, 97, 108, 108, 95, 117, 115, 101, 114, 95, 100, 105],
     [115, 112, 97, 116, 99, 104, 0, 115, 112, 105, 110, 108, 111, 99, 107, 95, 116, 0, 115, 112],
     [105, 110, 108, 111, 99, 107, 0, 114, 108, 111, 99, 107, 0, 119, 97, 107, 101, 95, 113, 95],
     [110, 111, 100, 101, 0, 107, 101, 114, 110, 101, 108, 95, 115, 105, 103, 105, 110, 102, 111, 95],
     [116, 0, 116, 97, 115, 107, 95, 105, 111, 95, 97, 99, 99, 111, 117, 110, 116, 105, 110, 103],
     [0, 109, 117, 116, 101, 120, 0, 111, 119, 110, 101, 114, 0, 119, 97, 105, 116, 95, 108, 111, 99],
     [107, 0, 111, 115, 113, 0, 119, 97, 105, 116, 95, 108, 105, 115, 116, 0, 111, 112, 116, 105, 109],
     [105, 115, 116, 105, 99, 95, 115, 112, 105, 110, 95, 113, 117, 101, 117, 101, 0, 116, 108, 98],
     [102, 108, 117, 115, 104, 95, 117, 110, 109, 97, 112, 95, 98, 97, 116, 99, 104, 0, 97, 114],
     [99, 104, 0, 102, 108, 117, 115, 104, 95, 114, 101, 113, 117, 105, 114, 101, 100, 0, 119, 114],
     [105, 116, 97, 98, 108, 101, 0, 97, 114, 99, 104, 95, 116, 108, 98, 102, 108, 117, 115, 104],
     [95, 117, 110, 109, 97, 112, 95, 98, 97, 116, 99, 104, 0, 98, 111, 111, 108, 0, 95, 66],
     [111, 111, 108, 0, 112, 97, 103, 101, 95, 102, 114, 97, 103, 0, 112, 97, 103, 101, 0, 111, 102],
     [102, 115, 101, 116, 0, 115, 105, 122, 101, 0, 116, 105, 109, 101, 114, 95, 108, 105, 115, 116, 0],
     [101, 110, 116, 114, 121, 0, 108, 108, 105, 115, 116, 95, 104, 101, 97, 100, 0, 102, 105, 114],
     [115, 116, 0, 116, 104, 114, 101, 97, 100, 95, 115, 116, 114, 117, 99, 116, 0, 99, 112, 117],
     [95, 99, 111, 110, 116, 101, 120, 116, 0, 117, 119, 0, 102, 112, 95, 116, 121, 112, 101, 0, 102],
     [112, 115, 105, 109, 100, 95, 99, 112, 117, 0, 115, 118, 101, 95, 115, 116, 97, 116, 101, 0],
     [115, 109, 101, 95, 115, 116, 97, 116, 101, 0, 118, 108, 0, 118, 108, 95, 111, 110, 101, 120],
     [101, 99, 0, 102, 97, 117, 108, 116, 95, 97, 100, 100, 114, 101, 115, 115, 0, 102, 97, 117],
     [108, 116, 95, 99, 111, 100, 101, 0, 100, 101, 98, 117, 103, 0, 107, 101, 114, 110, 101, 108],
     [95, 102, 112, 115, 105, 109, 100, 95, 115, 116, 97, 116, 101, 0, 107, 101, 114, 110, 101, 108],
     [95, 102, 112, 115, 105, 109, 100, 95, 99, 112, 117, 0, 115, 99, 116, 108, 114, 95, 117, 115],
     [101, 114, 0, 115, 118, 99, 114, 0, 116, 112, 105, 100, 114, 50, 95, 101, 108, 48, 0, 112, 111],
     [114, 95, 101, 108, 48, 0, 120, 49, 57, 0, 120, 50, 48, 0, 120, 50, 49, 0, 120, 50, 50, 0],
     [120, 50, 51, 0, 120, 50, 52, 0, 120, 50, 53, 0, 120, 50, 54, 0, 120, 50, 55, 0, 120, 50],
     [56, 0, 102, 112, 0, 115, 112, 0, 112, 99, 0, 116, 112, 95, 118, 97, 108, 117, 101, 0, 116, 112],
     [50, 95, 118, 97, 108, 117, 101, 0, 102, 112, 109, 114, 0, 112, 97, 100, 0, 102, 112, 115, 105],
     [109, 100, 95, 115, 116, 97, 116, 101, 0, 117, 115, 101, 114, 95, 102, 112, 115, 105, 109, 100],
     [95, 115, 116, 97, 116, 101, 0, 118, 114, 101, 103, 115, 0, 102, 112, 115, 114, 0, 102, 112, 99],
     [114, 0, 95, 95, 114, 101, 115, 101, 114, 118, 101, 100, 0, 117, 110, 115, 105, 103, 110, 101],
     [100, 32, 95, 95, 105, 110, 116, 49, 50, 56, 0, 70, 80, 95, 83, 84, 65, 84, 69, 95],
     [67, 85, 82, 82, 69, 78, 84, 0, 70, 80, 95, 83, 84, 65, 84, 69, 95, 70, 80, 83],
     [73, 77, 68, 0, 70, 80, 95, 83, 84, 65, 84, 69, 95, 83, 86, 69, 0, 100, 101, 98],
     [117, 103, 95, 105, 110, 102, 111, 0, 115, 117, 115, 112, 101, 110, 100, 101, 100, 95, 115, 116],
     [101, 112, 0, 98, 112, 115, 95, 100, 105, 115, 97, 98, 108, 101, 100, 0, 119, 112, 115, 95],
     [100, 105, 115, 97, 98, 108, 101, 100, 0, 104, 98, 112, 95, 98, 114, 101, 97, 107, 0, 104],
     [98, 112, 95, 119, 97, 116, 99, 104, 0, 112, 101, 114, 102, 95, 101, 118, 101, 110, 116, 0],
     [101, 118, 101, 110, 116, 95, 101, 110, 116, 114, 121, 0, 115, 105, 98, 108, 105, 110, 103, 95],
     [108, 105, 115, 116, 0, 97, 99, 116, 105, 118, 101, 95, 108, 105, 115, 116, 0, 103, 114, 111],
     [117, 112, 95, 105, 110, 100, 101, 120, 0, 109, 105, 103, 114, 97, 116, 101, 95, 101, 110, 116],
     [114, 121, 0, 104, 108, 105, 115, 116, 95, 101, 110, 116, 114, 121, 0, 97, 99, 116, 105, 118],
     [101, 95, 101, 110, 116, 114, 121, 0, 110, 114, 95, 115, 105, 98, 108, 105, 110, 103, 115, 0],
     [101, 118, 101, 110, 116, 95, 99, 97, 112, 115, 0, 103, 114, 111, 117, 112, 95, 99, 97, 112],
     [115, 0, 103, 114, 111, 117, 112, 95, 103, 101, 110, 101, 114, 97, 116, 105, 111, 110, 0, 112],
     [109, 117, 0, 112, 109, 117, 95, 112, 114, 105, 118, 97, 116, 101, 0, 97, 116, 116, 97, 99],
     [104, 95, 115, 116, 97, 116, 101, 0, 99, 104, 105, 108, 100, 95, 99, 111, 117, 110, 116, 0],
     [116, 111, 116, 97, 108, 95, 116, 105, 109, 101, 95, 101, 110, 97, 98, 108, 101, 100, 0, 116],
     [111, 116, 97, 108, 95, 116, 105, 109, 101, 95, 114, 117, 110, 110, 105, 110, 103, 0, 116, 115],
     [116, 97, 109, 112, 0, 97, 116, 116, 114, 0, 104, 101, 97, 100, 101, 114, 95, 115, 105, 122],
     [101, 0, 105, 100, 95, 104, 101, 97, 100, 101, 114, 95, 115, 105, 122, 101, 0, 114, 101, 97],
     [100, 95, 115, 105, 122, 101, 0, 104, 119, 0, 112, 109, 117, 95, 99, 116, 120, 0, 114, 101, 102],
     [99, 111, 117, 110, 116, 0, 99, 104, 105, 108, 100, 95, 116, 111, 116, 97, 108, 95, 116, 105],
     [109, 101, 95, 101, 110, 97, 98, 108, 101, 100, 0, 99, 104, 105, 108, 100, 95, 116, 111, 116]]"

definition bootstrap_legacy_elf_10_f :: "byte list" where
  "bootstrap_legacy_elf_10_f =
    concat
    [[97, 108, 95, 116, 105, 109, 101, 95, 114, 117, 110, 110, 105, 110, 103, 0, 99, 104, 105, 108],
     [100, 95, 109, 117, 116, 101, 120, 0, 99, 104, 105, 108, 100, 95, 108, 105, 115, 116, 0, 111],
     [110, 99, 112, 117, 0, 111, 119, 110, 101, 114, 95, 101, 110, 116, 114, 121, 0, 109, 109, 97],
     [112, 95, 109, 117, 116, 101, 120, 0, 109, 109, 97, 112, 95, 99, 111, 117, 110, 116, 0, 114],
     [98, 0, 114, 98, 95, 101, 110, 116, 114, 121, 0, 114, 99, 117, 95, 98, 97, 116, 99, 104],
     [101, 115, 0, 114, 99, 117, 95, 112, 101, 110, 100, 105, 110, 103, 0, 119, 97, 105, 116, 113, 0],
     [102, 97, 115, 121, 110, 99, 0, 112, 101, 110, 100, 105, 110, 103, 95, 119, 97, 107, 101, 117],
     [112, 0, 112, 101, 110, 100, 105, 110, 103, 95, 107, 105, 108, 108, 0, 112, 101, 110, 100, 105],
     [110, 103, 95, 100, 105, 115, 97, 98, 108, 101, 0, 112, 101, 110, 100, 105, 110, 103, 95, 97],
     [100, 100, 114, 0, 112, 101, 110, 100, 105, 110, 103, 95, 105, 114, 113, 0, 112, 101, 110, 100],
     [105, 110, 103, 95, 100, 105, 115, 97, 98, 108, 101, 95, 105, 114, 113, 0, 112, 101, 110, 100],
     [105, 110, 103, 95, 116, 97, 115, 107, 0, 112, 101, 110, 100, 105, 110, 103, 95, 119, 111, 114],
     [107, 0, 101, 118, 101, 110, 116, 95, 108, 105, 109, 105, 116, 0, 97, 100, 100, 114, 95, 102],
     [105, 108, 116, 101, 114, 115, 0, 97, 100, 100, 114, 95, 102, 105, 108, 116, 101, 114, 95, 114],
     [97, 110, 103, 101, 115, 0, 97, 100, 100, 114, 95, 102, 105, 108, 116, 101, 114, 115, 95, 103],
     [101, 110, 0, 97, 117, 120, 95, 101, 118, 101, 110, 116, 0, 100, 101, 115, 116, 114, 111, 121, 0],
     [110, 115, 0, 105, 100, 0, 108, 111, 115, 116, 95, 115, 97, 109, 112, 108, 101, 115, 0, 99, 108],
     [111, 99, 107, 0, 111, 118, 101, 114, 102, 108, 111, 119, 95, 104, 97, 110, 100, 108, 101, 114],
     [0, 111, 118, 101, 114, 102, 108, 111, 119, 95, 104, 97, 110, 100, 108, 101, 114, 95, 99, 111],
     [110, 116, 101, 120, 116, 0, 112, 114, 111, 103, 0, 98, 112, 102, 95, 99, 111, 111, 107, 105],
     [101, 0, 116, 112, 95, 101, 118, 101, 110, 116, 0, 102, 105, 108, 116, 101, 114, 0, 102, 116, 114],
     [97, 99, 101, 95, 111, 112, 115, 0, 115, 98, 95, 108, 105, 115, 116, 0, 112, 109, 117, 95],
     [108, 105, 115, 116, 0, 111, 114, 105, 103, 95, 116, 121, 112, 101, 0, 112, 101, 114, 102, 95],
     [101, 118, 101, 110, 116, 95, 115, 116, 97, 116, 101, 0, 80, 69, 82, 70, 95, 69, 86, 69],
     [78, 84, 95, 83, 84, 65, 84, 69, 95, 68, 69, 65, 68, 0, 80, 69, 82, 70, 95, 69],
     [86, 69, 78, 84, 95, 83, 84, 65, 84, 69, 95, 82, 69, 86, 79, 75, 69, 68, 0, 80],
     [69, 82, 70, 95, 69, 86, 69, 78, 84, 95, 83, 84, 65, 84, 69, 95, 69, 88, 73],
     [84, 0, 80, 69, 82, 70, 95, 69, 86, 69, 78, 84, 95, 83, 84, 65, 84, 69, 95, 69],
     [82, 82, 79, 82, 0, 80, 69, 82, 70, 95, 69, 86, 69, 78, 84, 95, 83, 84, 65, 84],
     [69, 95, 79, 70, 70, 0, 80, 69, 82, 70, 95, 69, 86, 69, 78, 84, 95, 83, 84, 65],
     [84, 69, 95, 73, 78, 65, 67, 84, 73, 86, 69, 0, 80, 69, 82, 70, 95, 69, 86, 69],
     [78, 84, 95, 83, 84, 65, 84, 69, 95, 65, 67, 84, 73, 86, 69, 0, 108, 111, 99, 97],
     [108, 54, 52, 95, 116, 0, 97, 0, 108, 111, 99, 97, 108, 95, 116, 0, 112, 101, 114, 102, 95],
     [101, 118, 101, 110, 116, 95, 97, 116, 116, 114, 0, 99, 111, 110, 102, 105, 103, 0, 115, 97],
     [109, 112, 108, 101, 95, 116, 121, 112, 101, 0, 114, 101, 97, 100, 95, 102, 111, 114, 109, 97],
     [116, 0, 100, 105, 115, 97, 98, 108, 101, 100, 0, 105, 110, 104, 101, 114, 105, 116, 0, 112, 105],
     [110, 110, 101, 100, 0, 101, 120, 99, 108, 117, 115, 105, 118, 101, 0, 101, 120, 99, 108, 117],
     [100, 101, 95, 117, 115, 101, 114, 0, 101, 120, 99, 108, 117, 100, 101, 95, 107, 101, 114, 110],
     [101, 108, 0, 101, 120, 99, 108, 117, 100, 101, 95, 104, 118, 0, 101, 120, 99, 108, 117, 100],
     [101, 95, 105, 100, 108, 101, 0, 109, 109, 97, 112, 0, 102, 114, 101, 113, 0, 105, 110, 104, 101],
     [114, 105, 116, 95, 115, 116, 97, 116, 0, 101, 110, 97, 98, 108, 101, 95, 111, 110, 95, 101],
     [120, 101, 99, 0, 116, 97, 115, 107, 0, 119, 97, 116, 101, 114, 109, 97, 114, 107, 0, 112, 114],
     [101, 99, 105, 115, 101, 95, 105, 112, 0, 109, 109, 97, 112, 95, 100, 97, 116, 97, 0, 115],
     [97, 109, 112, 108, 101, 95, 105, 100, 95, 97, 108, 108, 0, 101, 120, 99, 108, 117, 100, 101],
     [95, 104, 111, 115, 116, 0, 101, 120, 99, 108, 117, 100, 101, 95, 103, 117, 101, 115, 116, 0],
     [101, 120, 99, 108, 117, 100, 101, 95, 99, 97, 108, 108, 99, 104, 97, 105, 110, 95, 107],
     [101, 114, 110, 101, 108, 0, 101, 120, 99, 108, 117, 100, 101, 95, 99, 97, 108, 108, 99, 104],
     [97, 105, 110, 95, 117, 115, 101, 114, 0, 109, 109, 97, 112, 50, 0, 99, 111, 109, 109, 95],
     [101, 120, 101, 99, 0, 117, 115, 101, 95, 99, 108, 111, 99, 107, 105, 100, 0, 99, 111, 110],
     [116, 101, 120, 116, 95, 115, 119, 105, 116, 99, 104, 0, 119, 114, 105, 116, 101, 95, 98, 97],
     [99, 107, 119, 97, 114, 100, 0, 110, 97, 109, 101, 115, 112, 97, 99, 101, 115, 0, 107, 115],
     [121, 109, 98, 111, 108, 0, 98, 112, 102, 95, 101, 118, 101, 110, 116, 0, 97, 117, 120, 95],
     [111, 117, 116, 112, 117, 116, 0, 99, 103, 114, 111, 117, 112, 0, 116, 101, 120, 116, 95, 112],
     [111, 107, 101, 0, 98, 117, 105, 108, 100, 95, 105, 100, 0, 105, 110, 104, 101, 114, 105, 116],
     [95, 116, 104, 114, 101, 97, 100, 0, 114, 101, 109, 111, 118, 101, 95, 111, 110, 95, 101, 120],
     [101, 99, 0, 115, 105, 103, 116, 114, 97, 112, 0, 95, 95, 114, 101, 115, 101, 114, 118, 101],
     [100, 95, 49, 0, 98, 112, 95, 116, 121, 112, 101, 0, 98, 114, 97, 110, 99, 104, 95, 115],
     [97, 109, 112, 108, 101, 95, 116, 121, 112, 101, 0, 115, 97, 109, 112, 108, 101, 95, 114, 101],
     [103, 115, 95, 117, 115, 101, 114, 0, 115, 97, 109, 112, 108, 101, 95, 115, 116, 97, 99, 107],
     [95, 117, 115, 101, 114, 0, 115, 97, 109, 112, 108, 101, 95, 114, 101, 103, 115, 95, 105, 110],
     [116, 114, 0, 97, 117, 120, 95, 119, 97, 116, 101, 114, 109, 97, 114, 107, 0, 115, 97, 109],
     [112, 108, 101, 95, 109, 97, 120, 95, 115, 116, 97, 99, 107, 0, 95, 95, 114, 101, 115, 101],
     [114, 118, 101, 100, 95, 50, 0, 97, 117, 120, 95, 115, 97, 109, 112, 108, 101, 95, 115, 105],
     [122, 101, 0, 115, 105, 103, 95, 100, 97, 116, 97, 0, 99, 111, 110, 102, 105, 103, 51, 0, 115],
     [97, 109, 112, 108, 101, 95, 112, 101, 114, 105, 111, 100, 0, 115, 97, 109, 112, 108, 101, 95],
     [102, 114, 101, 113, 0, 119, 97, 107, 101, 117, 112, 95, 101, 118, 101, 110, 116, 115, 0, 119],
     [97, 107, 101, 117, 112, 95, 119, 97, 116, 101, 114, 109, 97, 114, 107, 0, 98, 112, 95, 97],
     [100, 100, 114, 0, 107, 112, 114, 111, 98, 101, 95, 102, 117, 110, 99, 0, 117, 112, 114, 111],
     [98, 101, 95, 112, 97, 116, 104, 0, 99, 111, 110, 102, 105, 103, 49, 0, 98, 112, 95, 108],
     [101, 110, 0, 107, 112, 114, 111, 98, 101, 95, 97, 100, 100, 114, 0, 112, 114, 111, 98, 101],
     [95, 111, 102, 102, 115, 101, 116, 0, 99, 111, 110, 102, 105, 103, 50, 0, 95, 95, 115, 51],
     [50, 0, 97, 117, 120, 95, 97, 99, 116, 105, 111, 110, 0, 97, 117, 120, 95, 115, 116, 97],
     [114, 116, 95, 112, 97, 117, 115, 101, 100, 0, 97, 117, 120, 95, 112, 97, 117, 115, 101, 0],
     [97, 117, 120, 95, 114, 101, 115, 117, 109, 101, 0, 95, 95, 114, 101, 115, 101, 114, 118, 101],
     [100, 95, 51, 0, 104, 119, 95, 112, 101, 114, 102, 95, 101, 118, 101, 110, 116, 0, 116, 97],
     [114, 103, 101, 116, 0, 112, 114, 101, 118, 95, 99, 111, 117, 110, 116, 0, 105, 110, 116, 101],
     [114, 114, 117, 112, 116, 115, 95, 115, 101, 113, 0, 105, 110, 116, 101, 114, 114, 117, 112, 116],
     [115, 0, 102, 114, 101, 113, 95, 116, 105, 109, 101, 95, 115, 116, 97, 109, 112, 0, 102, 114],
     [101, 113, 95, 99, 111, 117, 110, 116, 95, 115, 116, 97, 109, 112, 0, 108, 97, 115, 116, 95],
     [116, 97, 103, 0, 100, 121, 110, 95, 99, 111, 110, 115, 116, 114, 97, 105, 110, 116, 0, 99],
     [111, 110, 102, 105, 103, 95, 98, 97, 115, 101, 0, 101, 118, 101, 110, 116, 95, 98, 97, 115],
     [101, 0, 101, 118, 101, 110, 116, 95, 98, 97, 115, 101, 95, 114, 100, 112, 109, 99, 0, 105],
     [100, 120, 0, 108, 97, 115, 116, 95, 99, 112, 117, 0, 101, 120, 116, 114, 97, 95, 114, 101],
     [103, 0, 98, 114, 97, 110, 99, 104, 95, 114, 101, 103, 0, 104, 119, 95, 112, 101, 114, 102],
     [95, 101, 118, 101, 110, 116, 95, 101, 120, 116, 114, 97, 0, 114, 101, 103, 0, 97, 108, 108],
     [111, 99, 0, 97, 117, 120, 95, 99, 111, 110, 102, 105, 103, 0, 97, 117, 120, 95, 112, 97],
     [117, 115, 101, 100, 0, 116, 112, 95, 108, 105, 115, 116, 0, 112, 119, 114, 95, 97, 99, 99, 0],
     [112, 116, 115, 99, 0, 105, 110, 102, 111, 0, 98, 112, 95, 108, 105, 115, 116, 0, 97, 114, 99],
     [104, 95, 104, 119, 95, 98, 114, 101, 97, 107, 112, 111, 105, 110, 116, 0, 97, 100, 100, 114],
     [101, 115, 115, 0, 116, 114, 105, 103, 103, 101, 114, 0, 99, 116, 114, 108, 0, 97, 114, 99, 104],
     [95, 104, 119, 95, 98, 114, 101, 97, 107, 112, 111, 105, 110, 116, 95, 99, 116, 114, 108, 0],
     [108, 101, 110, 0, 112, 114, 105, 118, 105, 108, 101, 103, 101, 0, 101, 110, 97, 98, 108, 101],
     [100, 0, 114, 104, 108, 105, 115, 116, 95, 104, 101, 97, 100, 0, 114, 104, 101, 97, 100, 0, 114],
     [104, 97, 115, 104, 95, 104, 101, 97, 100, 0, 105, 111, 109, 109, 117, 95, 98, 97, 110, 107],
     [0, 105, 111, 109, 109, 117, 95, 99, 110, 116, 114, 0, 112, 97, 100, 100, 105, 110, 103, 0, 99],
     [111, 110, 102, 0, 99, 111, 110, 102, 49, 0, 108, 97, 115, 116, 95, 112, 101, 114, 105, 111],
     [100, 0, 112, 101, 114, 105, 111, 100, 95, 108, 101, 102, 116, 0, 115, 97, 118, 101, 100, 95],
     [109, 101, 116, 114, 105, 99, 0, 115, 97, 118, 101, 100, 95, 115, 108, 111, 116, 115, 0, 119],
     [97, 105, 116, 95, 113, 117, 101, 117, 101, 95, 104, 101, 97, 100, 95, 116, 0, 119, 97, 105],
     [116, 95, 113, 117, 101, 117, 101, 95, 104, 101, 97, 100, 0, 104, 101, 97, 100, 0, 105, 114],
     [113, 95, 119, 111, 114, 107, 0, 105, 114, 113, 119, 97, 105, 116, 0, 114, 99, 117, 119, 97],
     [105, 116, 0, 112, 101, 114, 102, 95, 97, 100, 100, 114, 95, 102, 105, 108, 116, 101, 114, 115],
     [95, 104, 101, 97, 100, 0, 110, 114, 95, 102, 105, 108, 101, 95, 102, 105, 108, 116, 101, 114],
     [115, 0, 112, 101, 114, 102, 95, 111, 118, 101, 114, 102, 108, 111, 119, 95, 104, 97, 110, 100],
     [108, 101, 114, 95, 116, 0, 112, 101, 114, 102, 95, 115, 97, 109, 112, 108, 101, 95, 100, 97],
     [116, 97, 0, 115, 97, 109, 112, 108, 101, 95, 102, 108, 97, 103, 115, 0, 112, 101, 114, 105],
     [111, 100, 0, 100, 121, 110, 95, 115, 105, 122, 101, 0, 116, 105, 100, 95, 101, 110, 116, 114],
     [121, 0, 99, 112, 117, 95, 101, 110, 116, 114, 121, 0, 105, 112, 0, 99, 97, 108, 108, 99, 104],
     [97, 105, 110, 0, 114, 97, 119, 0, 98, 114, 95, 115, 116, 97, 99, 107, 0, 98, 114, 95, 115],
     [116, 97, 99, 107, 95, 99, 110, 116, 114, 0, 100, 97, 116, 97, 95, 115, 114, 99, 0, 116],
     [120, 110, 0, 114, 101, 103, 115, 95, 117, 115, 101, 114, 0, 114, 101, 103, 115, 95, 105, 110],
     [116, 114, 0, 115, 116, 97, 99, 107, 95, 117, 115, 101, 114, 95, 115, 105, 122, 101, 0, 115],
     [116, 114, 101, 97, 109, 95, 105, 100, 0, 97, 100, 100, 114, 0, 112, 104, 121, 115, 95, 97],
     [100, 100, 114, 0, 100, 97, 116, 97, 95, 112, 97, 103, 101, 95, 115, 105, 122, 101, 0, 99],
     [111, 100, 101, 95, 112, 97, 103, 101, 95, 115, 105, 122, 101, 0, 97, 117, 120, 95, 115, 105],
     [122, 101, 0, 116, 105, 100, 0, 114, 101, 115, 101, 114, 118, 101, 100, 0, 112, 101, 114, 102, 95],
     [115, 97, 109, 112, 108, 101, 95, 119, 101, 105, 103, 104, 116, 0, 102, 117, 108, 108, 0, 118],
     [97, 114, 49, 95, 100, 119, 0, 118, 97, 114, 50, 95, 119, 0, 118, 97, 114, 51, 95, 119, 0],
     [112, 101, 114, 102, 95, 109, 101, 109, 95, 100, 97, 116, 97, 95, 115, 114, 99, 0, 109, 101],
     [109, 95, 111, 112, 0, 109, 101, 109, 95, 108, 118, 108, 0, 109, 101, 109, 95, 115, 110, 111],
     [111, 112, 0, 109, 101, 109, 95, 108, 111, 99, 107, 0, 109, 101, 109, 95, 100, 116, 108, 98, 0],
     [109, 101, 109, 95, 108, 118, 108, 95, 110, 117, 109, 0, 109, 101, 109, 95, 114, 101, 109, 111],
     [116, 101, 0, 109, 101, 109, 95, 115, 110, 111, 111, 112, 120, 0, 109, 101, 109, 95, 98, 108],
     [107, 0, 109, 101, 109, 95, 104, 111, 112, 115, 0, 109, 101, 109, 95, 114, 115, 118, 100, 0, 112],
     [101, 114, 102, 95, 114, 101, 103, 115, 0, 97, 98, 105, 0, 114, 101, 103, 115, 0, 112, 116, 95],
     [114, 101, 103, 115, 0, 111, 114, 105, 103, 95, 120, 48, 0, 115, 121, 115, 99, 97, 108, 108],
     [110, 111, 0, 112, 109, 114, 0, 115, 100, 101, 105, 95, 116, 116, 98, 114, 49, 0, 115, 116, 97],
     [99, 107, 102, 114, 97, 109, 101, 0, 117, 115, 101, 114, 95, 114, 101, 103, 115, 0, 117, 115],
     [101, 114, 95, 112, 116, 95, 114, 101, 103, 115, 0, 112, 115, 116, 97, 116, 101, 0, 115, 51],
     [50, 0, 102, 114, 97, 109, 101, 95, 114, 101, 99, 111, 114, 100, 95, 109, 101, 116, 97, 0],
     [114, 101, 99, 111, 114, 100, 0, 102, 114, 97, 109, 101, 95, 114, 101, 99, 111, 114, 100, 0],
     [108, 114, 0, 112, 114, 105, 118, 97, 116, 101, 0, 115, 97, 118, 101, 100, 95, 102, 117, 110],
     [99, 0, 108, 111, 99, 97, 108, 95, 104, 97, 115, 104, 0, 102, 117, 110, 99, 95, 104, 97],
     [115, 104, 0, 111, 108, 100, 95, 104, 97, 115, 104, 0, 116, 114, 97, 109, 112, 111, 108, 105],
     [110, 101, 0, 116, 114, 97, 109, 112, 111, 108, 105, 110, 101, 95, 115, 105, 122, 101, 0, 115],
     [117, 98, 111, 112, 95, 108, 105, 115, 116, 0, 111, 112, 115, 95, 102, 117, 110, 99, 0, 109],
     [97, 110, 97, 103, 101, 100, 0, 102, 116, 114, 97, 99, 101, 95, 102, 117, 110, 99, 95, 116],
     [0, 102, 116, 114, 97, 99, 101, 95, 114, 101, 103, 115, 0, 102, 116, 114, 97, 99, 101, 95],
     [111, 112, 115, 95, 104, 97, 115, 104, 0, 110, 111, 116, 114, 97, 99, 101, 95, 104, 97, 115],
     [104, 0, 102, 105, 108, 116, 101, 114, 95, 104, 97, 115, 104, 0, 114, 101, 103, 101, 120, 95],
     [108, 111, 99, 107, 0, 102, 116, 114, 97, 99, 101, 95, 111, 112, 115, 95, 102, 117, 110, 99],
     [95, 116, 0, 102, 116, 114, 97, 99, 101, 95, 111, 112, 115, 95, 99, 109, 100, 0, 70, 84],
     [82, 65, 67, 69, 95, 79, 80, 83, 95, 67, 77, 68, 95, 69, 78, 65, 66, 76, 69],
     [95, 83, 72, 65, 82, 69, 95, 73, 80, 77, 79, 68, 73, 70, 89, 95, 83, 69, 76],
     [70, 0, 70, 84, 82, 65, 67, 69, 95, 79, 80, 83, 95, 67, 77, 68, 95, 69, 78, 65]]"

definition bootstrap_legacy_elf_10_g :: "byte list" where
  "bootstrap_legacy_elf_10_g =
    concat
    [[66, 76, 69, 95, 83, 72, 65, 82, 69, 95, 73, 80, 77, 79, 68, 73, 70, 89, 95],
     [80, 69, 69, 82, 0, 70, 84, 82, 65, 67, 69, 95, 79, 80, 83, 95, 67, 77, 68, 95],
     [68, 73, 83, 65, 66, 76, 69, 95, 83, 72, 65, 82, 69, 95, 73, 80, 77, 79, 68],
     [73, 70, 89, 95, 80, 69, 69, 82, 0, 116, 114, 97, 99, 101, 95, 101, 118, 101, 110, 116],
     [95, 114, 97, 119, 95, 115, 99, 104, 101, 100, 95, 112, 114, 111, 99, 101, 115, 115, 95],
     [116, 101, 109, 112, 108, 97, 116, 101, 0, 95, 95, 100, 97, 116, 97, 95, 108, 111, 99, 95],
     [99, 111, 109, 109, 0, 104, 97, 110, 100, 108, 101, 95, 101, 120, 105, 116, 0, 76, 73, 67],
     [69, 78, 83, 69, 0, 109, 105, 110, 95, 100, 117, 114, 97, 116, 105, 111, 110, 95, 110, 115],
     [0, 99, 111, 109, 112, 108, 101, 116, 105, 111, 110, 0, 104, 114, 116, 105, 109, 101, 114, 95],
     [99, 108, 111, 99, 107, 95, 98, 97, 115, 101, 0, 97, 100, 100, 114, 101, 115, 115, 95, 115],
     [112, 97, 99, 101, 0, 109, 109, 95, 115, 116, 114, 117, 99, 116, 0, 117, 115, 101, 114, 95],
     [110, 97, 109, 101, 115, 112, 97, 99, 101, 0, 98, 112, 102, 95, 112, 114, 111, 103, 0, 98],
     [112, 102, 95, 108, 111, 99, 97, 108, 95, 115, 116, 111, 114, 97, 103, 101, 0, 102, 116, 114],
     [97, 99, 101, 95, 104, 97, 115, 104, 0, 118, 109, 95, 115, 116, 114, 117, 99, 116, 0, 117],
     [115, 101, 114, 95, 115, 116, 114, 117, 99, 116, 0, 112, 105, 100, 95, 110, 97, 109, 101, 115],
     [112, 97, 99, 101, 0, 102, 115, 95, 115, 116, 114, 117, 99, 116, 0, 112, 101, 114, 102, 95],
     [98, 114, 97, 110, 99, 104, 95, 115, 116, 97, 99, 107, 0, 112, 105, 112, 101, 95, 105, 110],
     [111, 100, 101, 95, 105, 110, 102, 111, 0, 102, 97, 115, 121, 110, 99, 95, 115, 116, 114, 117],
     [99, 116, 0, 116, 114, 97, 99, 101, 95, 101, 118, 101, 110, 116, 95, 99, 97, 108, 108, 0],
     [101, 118, 101, 110, 116, 95, 102, 105, 108, 116, 101, 114, 0, 112, 101, 114, 102, 95, 101, 118],
     [101, 110, 116, 95, 112, 109, 117, 95, 99, 111, 110, 116, 101, 120, 116, 0, 112, 101, 114, 102],
     [95, 101, 118, 101, 110, 116, 95, 99, 111, 110, 116, 101, 120, 116, 0, 112, 101, 114, 102, 95],
     [97, 100, 100, 114, 95, 102, 105, 108, 116, 101, 114, 95, 114, 97, 110, 103, 101, 0, 112, 101],
     [114, 102, 95, 99, 97, 108, 108, 99, 104, 97, 105, 110, 95, 101, 110, 116, 114, 121, 0, 112],
     [101, 114, 102, 95, 114, 97, 119, 95, 114, 101, 99, 111, 114, 100, 0, 95, 95, 107, 101, 114],
     [110, 101, 108, 95, 116, 105, 109, 101, 115, 112, 101, 99, 0, 111, 108, 100, 95, 116, 105, 109],
     [101, 115, 112, 101, 99, 51, 50, 0, 112, 111, 108, 108, 102, 100, 0, 102, 105, 108, 101, 115],
     [95, 115, 116, 114, 117, 99, 116, 0, 115, 105, 103, 110, 97, 108, 95, 115, 116, 114, 117, 99],
     [116, 0, 115, 105, 103, 104, 97, 110, 100, 95, 115, 116, 114, 117, 99, 116, 0, 98, 108, 107],
     [95, 112, 108, 117, 103, 0, 107, 101, 114, 110, 101, 108, 95, 115, 105, 103, 105, 110, 102, 111],
     [0, 117, 112, 114, 111, 98, 101, 95, 116, 97, 115, 107, 0, 98, 112, 102, 95, 114, 117, 110],
     [95, 99, 116, 120, 0, 47, 104, 111, 109, 101, 47, 108, 111, 115, 116, 99, 97, 99, 104, 101],
     [47, 99, 111, 100, 101, 47, 104, 101, 108, 108, 111, 95, 101, 66, 80, 70, 47, 101, 120],
     [97, 109, 112, 108, 101, 115, 47, 99, 47, 98, 111, 111, 116, 115, 116, 114, 97, 112, 95],
     [108, 101, 103, 97, 99, 121, 46, 98, 112, 102, 46, 99, 0, 105, 110, 116, 32, 104, 97, 110],
     [100, 108, 101, 95, 101, 120, 101, 99, 40, 115, 116, 114, 117, 99, 116, 32, 116, 114, 97],
     [99, 101, 95, 101, 118, 101, 110, 116, 95, 114, 97, 119, 95, 115, 99, 104, 101, 100, 95],
     [112, 114, 111, 99, 101, 115, 115, 95, 101, 120, 101, 99, 32, 42, 99, 116, 120, 41, 0, 9],
     [115, 116, 114, 117, 99, 116, 32, 101, 118, 101, 110, 116, 32, 101, 32, 61, 32, 123, 125],
     [59, 0, 9, 112, 105, 100, 32, 61, 32, 98, 112, 102, 95, 103, 101, 116, 95, 99, 117, 114],
     [114, 101, 110, 116, 95, 112, 105, 100, 95, 116, 103, 105, 100, 40, 41, 32, 62, 62, 32],
     [51, 50, 59, 0, 9, 116, 115, 32, 61, 32, 98, 112, 102, 95, 107, 116, 105, 109, 101, 95],
     [103, 101, 116, 95, 110, 115, 40, 41, 59, 0, 9, 98, 112, 102, 95, 109, 97, 112, 95, 117],
     [112, 100, 97, 116, 101, 95, 101, 108, 101, 109, 40, 38, 101, 120, 101, 99, 95, 115, 116],
     [97, 114, 116, 44, 32, 38, 112, 105, 100, 44, 32, 38, 116, 115, 44, 32, 66, 80, 70],
     [95, 65, 78, 89, 41, 59, 0, 9, 105, 102, 32, 40, 109, 105, 110, 95, 100, 117, 114, 97],
     [116, 105, 111, 110, 95, 110, 115, 41, 0, 9, 116, 97, 115, 107, 32, 61, 32, 40, 115, 116],
     [114, 117, 99, 116, 32, 116, 97, 115, 107, 95, 115, 116, 114, 117, 99, 116, 32, 42, 41],
     [98, 112, 102, 95, 103, 101, 116, 95, 99, 117, 114, 114, 101, 110, 116, 95, 116, 97, 115],
     [107, 40, 41, 59, 0, 9, 101, 46, 101, 120, 105, 116, 95, 101, 118, 101, 110, 116, 32, 61],
     [32, 102, 97, 108, 115, 101, 59, 0, 9, 101, 46, 112, 105, 100, 32, 61, 32, 112, 105, 100],
     [59, 0, 9, 101, 46, 112, 112, 105, 100, 32, 61, 32, 66, 80, 70, 95, 67, 79, 82, 69],
     [95, 82, 69, 65, 68, 40, 116, 97, 115, 107, 44, 32, 114, 101, 97, 108, 95, 112, 97],
     [114, 101, 110, 116, 44, 32, 116, 103, 105, 100, 41, 59, 0, 9, 98, 112, 102, 95, 103, 101],
     [116, 95, 99, 117, 114, 114, 101, 110, 116, 95, 99, 111, 109, 109, 40, 38, 101, 46, 99],
     [111, 109, 109, 44, 32, 115, 105, 122, 101, 111, 102, 40, 101, 46, 99, 111, 109, 109, 41],
     [41, 59, 0, 9, 102, 110, 97, 109, 101, 95, 111, 102, 102, 32, 61, 32, 99, 116, 120, 45],
     [62, 95, 95, 100, 97, 116, 97, 95, 108, 111, 99, 95, 102, 105, 108, 101, 110, 97, 109],
     [101, 32, 38, 32, 48, 120, 70, 70, 70, 70, 59, 0, 9, 98, 112, 102, 95, 112, 114, 111],
     [98, 101, 95, 114, 101, 97, 100, 95, 115, 116, 114, 40, 38, 101, 46, 102, 105, 108, 101],
     [110, 97, 109, 101, 44, 32, 115, 105, 122, 101, 111, 102, 40, 101, 46, 102, 105, 108, 101],
     [110, 97, 109, 101, 41, 44, 32, 40, 118, 111, 105, 100, 32, 42, 41, 99, 116, 120, 32],
     [43, 32, 102, 110, 97, 109, 101, 95, 111, 102, 102, 41, 59, 0, 9, 98, 112, 102, 95, 112],
     [101, 114, 102, 95, 101, 118, 101, 110, 116, 95, 111, 117, 116, 112, 117, 116, 40, 99, 116],
     [120, 44, 32, 38, 112, 101, 114, 102, 95, 98, 117, 102, 102, 101, 114, 44, 32, 66, 80],
     [70, 95, 70, 95, 67, 85, 82, 82, 69, 78, 84, 95, 67, 80, 85, 44, 32, 38, 101],
     [44, 32, 115, 105, 122, 101, 111, 102, 40, 101, 41, 41, 59, 0, 125, 0, 105, 110, 116, 32],
     [104, 97, 110, 100, 108, 101, 95, 101, 120, 105, 116, 40, 115, 116, 114, 117, 99, 116, 32],
     [116, 114, 97, 99, 101, 95, 101, 118, 101, 110, 116, 95, 114, 97, 119, 95, 115, 99, 104],
     [101, 100, 95, 112, 114, 111, 99, 101, 115, 115, 95, 116, 101, 109, 112, 108, 97, 116, 101],
     [32, 42, 99, 116, 120, 41, 0, 9, 105, 100, 32, 61, 32, 98, 112, 102, 95, 103, 101, 116],
     [95, 99, 117, 114, 114, 101, 110, 116, 95, 112, 105, 100, 95, 116, 103, 105, 100, 40, 41],
     [59, 0, 9, 112, 105, 100, 32, 61, 32, 105, 100, 32, 62, 62, 32, 51, 50, 59, 0, 9],
     [116, 105, 100, 32, 61, 32, 40, 117, 51, 50, 41, 105, 100, 59, 0, 9, 105, 102, 32, 40],
     [112, 105, 100, 32, 33, 61, 32, 116, 105, 100, 41, 0, 9, 115, 116, 97, 114, 116, 95, 116],
     [115, 32, 61, 32, 98, 112, 102, 95, 109, 97, 112, 95, 108, 111, 111, 107, 117, 112, 95],
     [101, 108, 101, 109, 40, 38, 101, 120, 101, 99, 95, 115, 116, 97, 114, 116, 44, 32, 38],
     [112, 105, 100, 41, 59, 0, 9, 105, 102, 32, 40, 115, 116, 97, 114, 116, 95, 116, 115, 41],
     [0, 9, 9, 100, 117, 114, 97, 116, 105, 111, 110, 95, 110, 115, 32, 61, 32, 98, 112, 102],
     [95, 107, 116, 105, 109, 101, 95, 103, 101, 116, 95, 110, 115, 40, 41, 32, 45, 32, 42],
     [115, 116, 97, 114, 116, 95, 116, 115, 59, 0, 9, 101, 108, 115, 101, 32, 105, 102, 32, 40],
     [109, 105, 110, 95, 100, 117, 114, 97, 116, 105, 111, 110, 95, 110, 115, 41, 0, 9, 98, 112],
     [102, 95, 109, 97, 112, 95, 100, 101, 108, 101, 116, 101, 95, 101, 108, 101, 109, 40, 38],
     [101, 120, 101, 99, 95, 115, 116, 97, 114, 116, 44, 32, 38, 112, 105, 100, 41, 59, 0, 9],
     [105, 102, 32, 40, 109, 105, 110, 95, 100, 117, 114, 97, 116, 105, 111, 110, 95, 110, 115],
     [32, 38, 38, 32, 100, 117, 114, 97, 116, 105, 111, 110, 95, 110, 115, 32, 60, 32, 109],
     [105, 110, 95, 100, 117, 114, 97, 116, 105, 111, 110, 95, 110, 115, 41, 0, 9, 101, 46, 101],
     [120, 105, 116, 95, 101, 118, 101, 110, 116, 32, 61, 32, 116, 114, 117, 101, 59, 0, 9, 101],
     [46, 100, 117, 114, 97, 116, 105, 111, 110, 95, 110, 115, 32, 61, 32, 100, 117, 114, 97],
     [116, 105, 111, 110, 95, 110, 115, 59, 0, 9, 101, 46, 101, 120, 105, 116, 95, 99, 111, 100],
     [101, 32, 61, 32, 40, 66, 80, 70, 95, 67, 79, 82, 69, 95, 82, 69, 65, 68, 40],
     [116, 97, 115, 107, 44, 32, 101, 120, 105, 116, 95, 99, 111, 100, 101, 41, 32, 62, 62],
     [32, 56, 41, 32, 38, 32, 48, 120, 102, 102, 59, 0, 48, 58, 54, 53, 0, 48, 58, 54],
     [52, 0, 48, 58, 49, 0, 48, 58, 52, 56, 0, 108, 105, 99, 101, 110, 115, 101, 0, 46, 114],
     [111, 100, 97, 116, 97, 0, 46, 109, 97, 112, 115, 0, 116, 112, 47, 115, 99, 104, 101, 100],
     [47, 115, 99, 104, 101, 100, 95, 112, 114, 111, 99, 101, 115, 115, 95, 101, 120, 101, 99, 0],
     [116, 112, 47, 115, 99, 104, 101, 100, 47, 115, 99, 104, 101, 100, 95, 112, 114, 111, 99],
     [101, 115, 115, 95, 101, 120, 105, 116, 0, 0]]"

definition bootstrap_legacy_elf_10 :: "byte list" where
  "bootstrap_legacy_elf_10 = bootstrap_legacy_elf_10_a @ bootstrap_legacy_elf_10_b @ bootstrap_legacy_elf_10_c @ bootstrap_legacy_elf_10_d @ bootstrap_legacy_elf_10_e @ bootstrap_legacy_elf_10_f @ bootstrap_legacy_elf_10_g"

definition bootstrap_legacy_elf_11 :: "byte list" where
  "bootstrap_legacy_elf_11 =
    concat
    [[159, 235, 1, 0, 32, 0, 0, 0, 0, 0, 0, 0, 36, 0, 0, 0],
     [36, 0, 0, 0, 84, 4, 0, 0, 120, 4, 0, 0, 116, 0, 0, 0, 8, 0, 0, 0, 159, 38, 0, 0, 1, 0, 0, 0, 0],
     [0, 0, 0, 31, 0, 0, 0, 187, 38, 0, 0, 1, 0, 0, 0, 0, 0, 0, 0, 56, 1, 0, 0, 16, 0, 0, 0, 159, 38, 0],
     [0, 28, 0, 0, 0, 0, 0, 0, 0, 204, 33, 0, 0, 14, 34, 0, 0, 0, 108, 0, 0, 16, 0, 0, 0, 204, 33, 0, 0],
     [78, 34, 0, 0, 15, 124, 0, 0, 184, 0, 0, 0, 204, 33, 0, 0, 100, 34, 0, 0, 8, 144, 0, 0, 192, 0, 0],
     [0, 204, 33, 0, 0, 100, 34, 0, 0, 35, 144, 0, 0, 200, 0, 0, 0, 204, 33, 0, 0, 100, 34, 0, 0, 6],
     [144, 0, 0, 208, 0, 0, 0, 204, 33, 0, 0, 141, 34, 0, 0, 7, 148, 0, 0, 216, 0, 0, 0, 204, 33, 0, 0],
     [141, 34, 0, 0, 5, 148, 0, 0, 232, 0, 0, 0, 204, 33, 0, 0, 0, 0, 0, 0, 0, 0, 0, 0, 0, 1, 0, 0, 204],
     [33, 0, 0, 167, 34, 0, 0, 2, 152, 0, 0, 32, 1, 0, 0, 204, 33, 0, 0, 222, 34, 0, 0, 6, 164, 0],
     [0, 56, 1, 0, 0, 204, 33, 0, 0, 222, 34, 0, 0, 6, 164, 0, 0, 64, 1, 0, 0, 204, 33, 0, 0, 244],
     [34, 0, 0, 31, 180, 0, 0, 72, 1, 0, 0, 204, 33, 0, 0, 42, 35, 0, 0, 15, 188, 0, 0, 80, 1, 0],
     [0, 204, 33, 0, 0, 65, 35, 0, 0, 10, 192, 0, 0, 88, 1, 0, 0, 204, 33, 0, 0, 65, 35, 0, 0, 8],
     [192, 0, 0, 120, 1, 0, 0, 204, 33, 0, 0, 244, 34, 0, 0, 31, 180, 0, 0, 128, 1, 0, 0, 204, 33, 0],
     [0, 79, 35, 0, 0, 11, 196, 0, 0, 176, 1, 0, 0, 204, 33, 0, 0, 79, 35, 0, 0, 4, 196, 0, 0, 192],
     [1, 0, 0, 204, 33, 0, 0, 79, 35, 0, 0, 11, 196, 0, 0, 208, 1, 0, 0, 204, 33, 0, 0, 129, 35, 0],
     [0, 26, 200, 0, 0, 224, 1, 0, 0, 204, 33, 0, 0, 129, 35, 0, 0, 2, 200, 0, 0, 240, 1, 0, 0, 204],
     [33, 0, 0, 177, 35, 0, 0, 19, 208, 0, 0, 248, 1, 0, 0, 204, 33, 0, 0, 225, 35, 0, 0, 66, 212, 0],
     [0, 16, 2, 0, 0, 204, 33, 0, 0, 225, 35, 0, 0, 24, 212, 0, 0, 32, 2, 0, 0, 204, 33, 0, 0, 225],
     [35, 0, 0, 2, 212, 0, 0, 56, 2, 0, 0, 204, 33, 0, 0, 244, 34, 0, 0, 31, 180, 0, 0, 64, 2, 0],
     [0, 204, 33, 0, 0, 48, 36, 0, 0, 2, 224, 0, 0, 120, 2, 0, 0, 204, 33, 0, 0, 125, 36, 0, 0, 1],
     [232, 0, 0, 187, 38, 0, 0, 40, 0, 0, 0, 0, 0, 0, 0, 204, 33, 0, 0, 127, 36, 0, 0, 0, 244, 0, 0, 16, 0],
     [0, 0, 204, 33, 0, 0, 78, 34, 0, 0, 15, 0, 1, 0, 184, 0, 0, 0, 204, 33, 0, 0, 195, 36, 0, 0, 7],
     [20, 1, 0, 192, 0, 0, 0, 204, 33, 0, 0, 229, 36, 0, 0, 11, 24, 1, 0, 208, 0, 0, 0, 204, 33, 0],
     [0, 229, 36, 0, 0, 6, 24, 1, 0, 216, 0, 0, 0, 204, 33, 0, 0, 246, 36, 0, 0, 8, 28, 1, 0],
     [232, 0, 0, 0, 204, 33, 0, 0, 6, 37, 0, 0, 6, 40, 1, 0, 248, 0, 0, 0, 204, 33, 0, 0, 23, 37],
     [0, 0, 13, 56, 1, 0, 32, 1, 0, 0, 204, 33, 0, 0, 75, 37, 0, 0, 6, 60, 1, 0, 40, 1, 0],
     [0, 204, 33, 0, 0, 90, 37, 0, 0, 17, 64, 1, 0, 56, 1, 0, 0, 204, 33, 0, 0, 90, 37, 0, 0],
     [38, 64, 1, 0, 64, 1, 0, 0, 204, 33, 0, 0, 90, 37, 0, 0, 36, 64, 1, 0, 88, 1, 0, 0],
     [204, 33, 0, 0, 138, 37, 0, 0, 11, 68, 1, 0, 112, 1, 0, 0, 204, 33, 0, 0, 138, 37, 0, 0, 11],
     [68, 1, 0, 128, 1, 0, 0, 204, 33, 0, 0, 0, 0, 0, 0, 0, 0, 0, 0, 136, 1, 0, 0, 204, 33, 0, 0, 165],
     [37, 0, 0, 2, 76, 1, 0, 160, 1, 0, 0, 204, 33, 0, 0, 206, 37, 0, 0, 6, 88, 1, 0, 184],
     [1, 0, 0, 204, 33, 0, 0, 206, 37, 0, 0, 22, 88, 1, 0, 192, 1, 0, 0, 204, 33, 0, 0, 206, 37],
     [0, 0, 39, 88, 1, 0, 200, 1, 0, 0, 204, 33, 0, 0, 206, 37, 0, 0, 6, 88, 1, 0, 208, 1, 0],
     [0, 204, 33, 0, 0, 244, 34, 0, 0, 31, 104, 1, 0, 232, 1, 0, 0, 204, 33, 0, 0, 5, 38, 0, 0],
     [15, 112, 1, 0, 240, 1, 0, 0, 204, 33, 0, 0, 27, 38, 0, 0, 16, 116, 1, 0, 248, 1, 0, 0],
     [204, 33, 0, 0, 65, 35, 0, 0, 10, 120, 1, 0, 0, 2, 0, 0, 204, 33, 0, 0, 65, 35, 0, 0, 8],
     [120, 1, 0, 40, 2, 0, 0, 204, 33, 0, 0, 244, 34, 0, 0, 31, 104, 1, 0, 48, 2, 0, 0, 204],
     [33, 0, 0, 79, 35, 0, 0, 11, 124, 1, 0, 88, 2, 0, 0, 204, 33, 0, 0, 79, 35, 0, 0, 4, 124],
     [1, 0, 104, 2, 0, 0, 204, 33, 0, 0, 79, 35, 0, 0, 11, 124, 1, 0, 144, 2, 0, 0, 204, 33, 0],
     [0, 244, 34, 0, 0, 31, 104, 1, 0, 152, 2, 0, 0, 204, 33, 0, 0, 57, 38, 0, 0, 17, 128, 1, 0],
     [176, 2, 0, 0, 204, 33, 0, 0, 57, 38, 0, 0, 17, 128, 1, 0, 184, 2, 0, 0, 204, 33, 0, 0, 57],
     [38, 0, 0, 48, 128, 1, 0, 192, 2, 0, 0, 204, 33, 0, 0, 57, 38, 0, 0, 54, 128, 1, 0, 200],
     [2, 0, 0, 204, 33, 0, 0, 57, 38, 0, 0, 14, 128, 1, 0, 208, 2, 0, 0, 204, 33, 0, 0, 129, 35],
     [0, 0, 26, 132, 1, 0, 224, 2, 0, 0, 204, 33, 0, 0, 129, 35, 0, 0, 2, 132, 1, 0, 248, 2, 0],
     [0, 204, 33, 0, 0, 244, 34, 0, 0, 31, 104, 1, 0, 0, 3, 0, 0, 204, 33, 0, 0, 48, 36, 0, 0, 2],
     [144, 1, 0, 56, 3, 0, 0, 204, 33, 0, 0, 125, 36, 0, 0, 1, 156, 1, 0, 16, 0, 0, 0, 159, 38],
     [0, 0, 3, 0, 0, 0, 96, 1, 0, 0, 32, 0, 0, 0, 118, 38, 0, 0, 0, 0, 0, 0, 152, 1, 0, 0, 32, 0, 0, 0],
     [123, 38, 0, 0, 0, 0, 0, 0, 240, 1, 0, 0, 21, 0, 0, 0, 128, 38, 0, 0, 0, 0, 0, 0, 187, 38, 0, 0, 3],
     [0, 0, 0, 8, 2, 0, 0, 32, 0, 0, 0, 118, 38, 0, 0, 0, 0, 0, 0, 64, 2, 0, 0, 32, 0, 0, 0, 123, 38],
     [0, 0, 0, 0, 0, 0, 120, 2, 0, 0, 32, 0, 0, 0, 132, 38, 0, 0, 0, 0, 0, 0, 0, 0, 0, 0]]"

definition bootstrap_legacy_elf_shdrs :: "byte list list" where
  "bootstrap_legacy_elf_shdrs =
    [[0, 0, 0, 0, 0, 0, 0, 0, 0, 0, 0, 0, 0, 0, 0, 0, 0, 0, 0, 0, 0, 0, 0, 0, 0, 0, 0, 0, 0, 0, 0, 0,
      0, 0, 0, 0, 0, 0, 0, 0, 0, 0, 0, 0, 0, 0, 0, 0, 0, 0, 0, 0, 0, 0, 0, 0, 0, 0, 0, 0, 0, 0, 0, 0],
     [1, 0, 0, 0, 3, 0, 0, 0, 32, 0, 0, 0, 0, 0, 0, 0, 0, 0, 0, 0, 0, 0, 0, 0, 64, 0, 0, 0, 0, 0, 0, 0,
      46, 1, 0, 0, 0, 0, 0, 0, 0, 0, 0, 0, 0, 0, 0, 0, 1, 0, 0, 0, 0, 0, 0, 0, 0, 0, 0, 0, 0, 0, 0, 0],
     [9, 0, 0, 0, 2, 0, 0, 0, 0, 0, 0, 0, 0, 0, 0, 0, 0, 0, 0, 0, 0, 0, 0, 0, 112, 1, 0, 0, 0, 0, 0, 0,
      104, 1, 0, 0, 0, 0, 0, 0, 1, 0, 0, 0, 0, 0, 0, 0, 8, 0, 0, 0, 0, 0, 0, 0, 24, 0, 0, 0, 0, 0, 0, 0],
     [17, 0, 0, 0, 1, 0, 0, 0, 6, 0, 0, 0, 0, 0, 0, 0, 0, 0, 0, 0, 0, 0, 0, 0, 216, 2, 0, 0, 0, 0, 0, 0,
      136, 2, 0, 0, 0, 0, 0, 0, 0, 0, 0, 0, 0, 0, 0, 0, 8, 0, 0, 0, 0, 0, 0, 0, 0, 0, 0, 0, 0, 0, 0, 0],
     [45, 0, 0, 0, 1, 0, 0, 0, 6, 0, 0, 0, 0, 0, 0, 0, 0, 0, 0, 0, 0, 0, 0, 0, 96, 5, 0, 0, 0, 0, 0, 0,
      72, 3, 0, 0, 0, 0, 0, 0, 0, 0, 0, 0, 0, 0, 0, 0, 8, 0, 0, 0, 0, 0, 0, 0, 0, 0, 0, 0, 0, 0, 0, 0],
     [73, 0, 0, 0, 1, 0, 0, 0, 3, 0, 0, 0, 0, 0, 0, 0, 0, 0, 0, 0, 0, 0, 0, 0, 168, 8, 0, 0, 0, 0, 0, 0,
      13, 0, 0, 0, 0, 0, 0, 0, 0, 0, 0, 0, 0, 0, 0, 0, 1, 0, 0, 0, 0, 0, 0, 0, 0, 0, 0, 0, 0, 0, 0, 0],
     [81, 0, 0, 0, 1, 0, 0, 0, 2, 0, 0, 0, 0, 0, 0, 0, 0, 0, 0, 0, 0, 0, 0, 0, 184, 8, 0, 0, 0, 0, 0, 0,
      8, 0, 0, 0, 0, 0, 0, 0, 0, 0, 0, 0, 0, 0, 0, 0, 8, 0, 0, 0, 0, 0, 0, 0, 0, 0, 0, 0, 0, 0, 0, 0],
     [89, 0, 0, 0, 1, 0, 0, 0, 3, 0, 0, 0, 0, 0, 0, 0, 0, 0, 0, 0, 0, 0, 0, 0, 192, 8, 0, 0, 0, 0, 0, 0,
      56, 0, 0, 0, 0, 0, 0, 0, 0, 0, 0, 0, 0, 0, 0, 0, 8, 0, 0, 0, 0, 0, 0, 0, 0, 0, 0, 0, 0, 0, 0, 0],
     [224, 0, 0, 0, 9, 0, 0, 0, 64, 0, 0, 0, 0, 0, 0, 0, 0, 0, 0, 0, 0, 0, 0, 0, 248, 8, 0, 0, 0, 0, 0, 0,
      48, 0, 0, 0, 0, 0, 0, 0, 2, 0, 0, 0, 3, 0, 0, 0, 8, 0, 0, 0, 0, 0, 0, 0, 16, 0, 0, 0, 0, 0, 0, 0],
     [0, 1, 0, 0, 9, 0, 0, 0, 64, 0, 0, 0, 0, 0, 0, 0, 0, 0, 0, 0, 0, 0, 0, 0, 40, 9, 0, 0, 0, 0, 0, 0,
      80, 0, 0, 0, 0, 0, 0, 0, 2, 0, 0, 0, 4, 0, 0, 0, 8, 0, 0, 0, 0, 0, 0, 0, 16, 0, 0, 0, 0, 0, 0, 0],
     [32, 1, 0, 0, 1, 0, 0, 0, 0, 0, 0, 0, 0, 0, 0, 0, 0, 0, 0, 0, 0, 0, 0, 0, 120, 9, 0, 0, 0, 0, 0, 0,
      159, 92, 0, 0, 0, 0, 0, 0, 0, 0, 0, 0, 0, 0, 0, 0, 8, 0, 0, 0, 0, 0, 0, 0, 0, 0, 0, 0, 0, 0, 0, 0],
     [37, 1, 0, 0, 1, 0, 0, 0, 0, 0, 0, 0, 0, 0, 0, 0, 0, 0, 0, 0, 0, 0, 0, 0, 24, 102, 0, 0, 0, 0, 0, 0,
      12, 5, 0, 0, 0, 0, 0, 0, 0, 0, 0, 0, 0, 0, 0, 0, 8, 0, 0, 0, 0, 0, 0, 0, 0, 0, 0, 0, 0, 0, 0, 0]]"

definition bootstrap_legacy_elf_body :: "byte list list" where
  "bootstrap_legacy_elf_body = [bootstrap_legacy_elf_1, bootstrap_legacy_elf_2, bootstrap_legacy_elf_3, bootstrap_legacy_elf_4, bootstrap_legacy_elf_5, bootstrap_legacy_elf_6, bootstrap_legacy_elf_7, bootstrap_legacy_elf_8, bootstrap_legacy_elf_9, bootstrap_legacy_elf_10, bootstrap_legacy_elf_11]"

definition bootstrap_legacy_bpf__elf_bytes :: "byte list" where
  "bootstrap_legacy_bpf__elf_bytes = concat (bootstrap_legacy_elf_hdr # bootstrap_legacy_elf_body) @ concat bootstrap_legacy_elf_shdrs"

section \<open>The parts of the object\<close>

text \<open>The sizes of the pieces. The definitions stay folded: a piece is only opened where it is read.\<close>

lemma bootstrap_legacy_elf_lengths [simp]:
  "length bootstrap_legacy_elf_hdr = 64"
  "length bootstrap_legacy_elf_1 = 304"
  "length bootstrap_legacy_elf_2 = 360"
  "length bootstrap_legacy_elf_3 = 648"
  "length bootstrap_legacy_elf_4 = 840"
  "length bootstrap_legacy_elf_5 = 16"
  "length bootstrap_legacy_elf_6 = 8"
  "length bootstrap_legacy_elf_7 = 56"
  "length bootstrap_legacy_elf_8 = 48"
  "length bootstrap_legacy_elf_9 = 80"
  "length bootstrap_legacy_elf_10_a = 4164"
  "length bootstrap_legacy_elf_10_b = 4304"
  "length bootstrap_legacy_elf_10_c = 4163"
  "length bootstrap_legacy_elf_10_d = 3309"
  "length bootstrap_legacy_elf_10_e = 2940"
  "length bootstrap_legacy_elf_10_f = 2918"
  "length bootstrap_legacy_elf_10_g = 1914"
  "length bootstrap_legacy_elf_11 = 1296"
  by (simp_all only: piece_length bootstrap_legacy_elf_hdr_def bootstrap_legacy_elf_1_def
    bootstrap_legacy_elf_2_def bootstrap_legacy_elf_3_def bootstrap_legacy_elf_4_def
    bootstrap_legacy_elf_5_def bootstrap_legacy_elf_6_def bootstrap_legacy_elf_7_def
    bootstrap_legacy_elf_8_def bootstrap_legacy_elf_9_def bootstrap_legacy_elf_10_a_def
    bootstrap_legacy_elf_10_b_def bootstrap_legacy_elf_10_c_def bootstrap_legacy_elf_10_d_def
    bootstrap_legacy_elf_10_e_def bootstrap_legacy_elf_10_f_def bootstrap_legacy_elf_10_g_def
    bootstrap_legacy_elf_11_def)

lemma bootstrap_legacy_elf_10_length [simp]: "length bootstrap_legacy_elf_10 = 23712"
  by (simp add: bootstrap_legacy_elf_10_def)

lemma bootstrap_legacy_elf_pieces: "object_pieces bootstrap_legacy_bpf__elf_bytes (bootstrap_legacy_elf_hdr # bootstrap_legacy_elf_body) bootstrap_legacy_elf_shdrs"
proof -
  have "le_at bootstrap_legacy_elf_hdr 40 8 = 27432" "le_at bootstrap_legacy_elf_hdr 60 2 = 12" "le_at bootstrap_legacy_elf_hdr 62 2 = 1"
    by (simp_all add: bootstrap_legacy_elf_hdr_def elf_eval)
  moreover have "list_all (\<lambda>h. length h = 64) bootstrap_legacy_elf_shdrs" "length bootstrap_legacy_elf_shdrs = 12"
    by (simp_all add: bootstrap_legacy_elf_shdrs_def)
  ultimately show ?thesis
    by (simp add: object_pieces_def bootstrap_legacy_bpf__elf_bytes_def bootstrap_legacy_elf_body_def)
qed

lemma bootstrap_legacy_elf_headers:
  "elf_section_at bootstrap_legacy_bpf__elf_bytes 0 = \<lparr>sec_name = 0, sec_type = 0, sec_offset = 0, sec_size = 0, sec_link = 0, sec_info = 0\<rparr>"
  "elf_section_at bootstrap_legacy_bpf__elf_bytes 1 = \<lparr>sec_name = 1, sec_type = 3, sec_offset = 64, sec_size = 302, sec_link = 0, sec_info = 0\<rparr>"
  "elf_section_at bootstrap_legacy_bpf__elf_bytes 2 = \<lparr>sec_name = 9, sec_type = 2, sec_offset = 368, sec_size = 360, sec_link = 1, sec_info = 0\<rparr>"
  "elf_section_at bootstrap_legacy_bpf__elf_bytes 3 = \<lparr>sec_name = 17, sec_type = 1, sec_offset = 728, sec_size = 648, sec_link = 0, sec_info = 0\<rparr>"
  "elf_section_at bootstrap_legacy_bpf__elf_bytes 4 = \<lparr>sec_name = 45, sec_type = 1, sec_offset = 1376, sec_size = 840, sec_link = 0, sec_info = 0\<rparr>"
  "elf_section_at bootstrap_legacy_bpf__elf_bytes 5 = \<lparr>sec_name = 73, sec_type = 1, sec_offset = 2216, sec_size = 13, sec_link = 0, sec_info = 0\<rparr>"
  "elf_section_at bootstrap_legacy_bpf__elf_bytes 6 = \<lparr>sec_name = 81, sec_type = 1, sec_offset = 2232, sec_size = 8, sec_link = 0, sec_info = 0\<rparr>"
  "elf_section_at bootstrap_legacy_bpf__elf_bytes 7 = \<lparr>sec_name = 89, sec_type = 1, sec_offset = 2240, sec_size = 56, sec_link = 0, sec_info = 0\<rparr>"
  "elf_section_at bootstrap_legacy_bpf__elf_bytes 8 = \<lparr>sec_name = 224, sec_type = 9, sec_offset = 2296, sec_size = 48, sec_link = 2, sec_info = 3\<rparr>"
  "elf_section_at bootstrap_legacy_bpf__elf_bytes 9 = \<lparr>sec_name = 256, sec_type = 9, sec_offset = 2344, sec_size = 80, sec_link = 2, sec_info = 4\<rparr>"
  "elf_section_at bootstrap_legacy_bpf__elf_bytes 10 = \<lparr>sec_name = 288, sec_type = 1, sec_offset = 2424, sec_size = 23711, sec_link = 0, sec_info = 0\<rparr>"
  "elf_section_at bootstrap_legacy_bpf__elf_bytes 11 = \<lparr>sec_name = 293, sec_type = 1, sec_offset = 26136, sec_size = 1292, sec_link = 0, sec_info = 0\<rparr>"
  by (simp_all add: object_section [OF bootstrap_legacy_elf_pieces] bootstrap_legacy_elf_shdrs_def elf_section_header_def elf_eval)

lemma bootstrap_legacy_elf_flags:
  "section_flags bootstrap_legacy_bpf__elf_bytes 0 = 0"
  "section_flags bootstrap_legacy_bpf__elf_bytes 1 = 32"
  "section_flags bootstrap_legacy_bpf__elf_bytes 2 = 0"
  "section_flags bootstrap_legacy_bpf__elf_bytes 3 = 6"
  "section_flags bootstrap_legacy_bpf__elf_bytes 4 = 6"
  "section_flags bootstrap_legacy_bpf__elf_bytes 5 = 3"
  "section_flags bootstrap_legacy_bpf__elf_bytes 6 = 2"
  "section_flags bootstrap_legacy_bpf__elf_bytes 7 = 3"
  "section_flags bootstrap_legacy_bpf__elf_bytes 8 = 64"
  "section_flags bootstrap_legacy_bpf__elf_bytes 9 = 64"
  "section_flags bootstrap_legacy_bpf__elf_bytes 10 = 0"
  "section_flags bootstrap_legacy_bpf__elf_bytes 11 = 0"
  by (simp_all add: object_section [OF bootstrap_legacy_elf_pieces] bootstrap_legacy_elf_shdrs_def elf_eval)

lemma bootstrap_legacy_elf_contents:
  "section_bytes bootstrap_legacy_bpf__elf_bytes 0 = []"
  "section_bytes bootstrap_legacy_bpf__elf_bytes 1 = take 302 bootstrap_legacy_elf_1"
  "section_bytes bootstrap_legacy_bpf__elf_bytes 2 = bootstrap_legacy_elf_2"
  "section_bytes bootstrap_legacy_bpf__elf_bytes 3 = bootstrap_legacy_elf_3"
  "section_bytes bootstrap_legacy_bpf__elf_bytes 4 = bootstrap_legacy_elf_4"
  "section_bytes bootstrap_legacy_bpf__elf_bytes 5 = take 13 bootstrap_legacy_elf_5"
  "section_bytes bootstrap_legacy_bpf__elf_bytes 6 = bootstrap_legacy_elf_6"
  "section_bytes bootstrap_legacy_bpf__elf_bytes 7 = bootstrap_legacy_elf_7"
  "section_bytes bootstrap_legacy_bpf__elf_bytes 8 = bootstrap_legacy_elf_8"
  "section_bytes bootstrap_legacy_bpf__elf_bytes 9 = bootstrap_legacy_elf_9"
  "section_bytes bootstrap_legacy_bpf__elf_bytes 10 = take 23711 bootstrap_legacy_elf_10"
  "section_bytes bootstrap_legacy_bpf__elf_bytes 11 = take 1292 bootstrap_legacy_elf_11"
proof -
  show "section_bytes bootstrap_legacy_bpf__elf_bytes 0 = []"
    by (simp add: section_bytes_def bootstrap_legacy_elf_headers elf_section.defs)
  show "section_bytes bootstrap_legacy_bpf__elf_bytes 1 = take 302 bootstrap_legacy_elf_1"
    using object_section_bytes [OF bootstrap_legacy_elf_pieces bootstrap_legacy_elf_headers(2), of 1] by (simp add: bootstrap_legacy_elf_body_def)
  show "section_bytes bootstrap_legacy_bpf__elf_bytes 2 = bootstrap_legacy_elf_2"
    using object_section_bytes [OF bootstrap_legacy_elf_pieces bootstrap_legacy_elf_headers(3), of 2] by (simp add: bootstrap_legacy_elf_body_def)
  show "section_bytes bootstrap_legacy_bpf__elf_bytes 3 = bootstrap_legacy_elf_3"
    using object_section_bytes [OF bootstrap_legacy_elf_pieces bootstrap_legacy_elf_headers(4), of 3] by (simp add: bootstrap_legacy_elf_body_def)
  show "section_bytes bootstrap_legacy_bpf__elf_bytes 4 = bootstrap_legacy_elf_4"
    using object_section_bytes [OF bootstrap_legacy_elf_pieces bootstrap_legacy_elf_headers(5), of 4] by (simp add: bootstrap_legacy_elf_body_def)
  show "section_bytes bootstrap_legacy_bpf__elf_bytes 5 = take 13 bootstrap_legacy_elf_5"
    using object_section_bytes [OF bootstrap_legacy_elf_pieces bootstrap_legacy_elf_headers(6), of 5] by (simp add: bootstrap_legacy_elf_body_def)
  show "section_bytes bootstrap_legacy_bpf__elf_bytes 6 = bootstrap_legacy_elf_6"
    using object_section_bytes [OF bootstrap_legacy_elf_pieces bootstrap_legacy_elf_headers(7), of 6] by (simp add: bootstrap_legacy_elf_body_def)
  show "section_bytes bootstrap_legacy_bpf__elf_bytes 7 = bootstrap_legacy_elf_7"
    using object_section_bytes [OF bootstrap_legacy_elf_pieces bootstrap_legacy_elf_headers(8), of 7] by (simp add: bootstrap_legacy_elf_body_def)
  show "section_bytes bootstrap_legacy_bpf__elf_bytes 8 = bootstrap_legacy_elf_8"
    using object_section_bytes [OF bootstrap_legacy_elf_pieces bootstrap_legacy_elf_headers(9), of 8] by (simp add: bootstrap_legacy_elf_body_def)
  show "section_bytes bootstrap_legacy_bpf__elf_bytes 9 = bootstrap_legacy_elf_9"
    using object_section_bytes [OF bootstrap_legacy_elf_pieces bootstrap_legacy_elf_headers(10), of 9] by (simp add: bootstrap_legacy_elf_body_def)
  show "section_bytes bootstrap_legacy_bpf__elf_bytes 10 = take 23711 bootstrap_legacy_elf_10"
    using object_section_bytes [OF bootstrap_legacy_elf_pieces bootstrap_legacy_elf_headers(11), of 10] by (simp add: bootstrap_legacy_elf_body_def)
  show "section_bytes bootstrap_legacy_bpf__elf_bytes 11 = take 1292 bootstrap_legacy_elf_11"
    using object_section_bytes [OF bootstrap_legacy_elf_pieces bootstrap_legacy_elf_headers(12), of 11] by (simp add: bootstrap_legacy_elf_body_def)
qed

lemma bootstrap_legacy_elf_names:
  "section_name bootstrap_legacy_bpf__elf_bytes 0 = ''''"
  "section_name bootstrap_legacy_bpf__elf_bytes 1 = ''.strtab''"
  "section_name bootstrap_legacy_bpf__elf_bytes 2 = ''.symtab''"
  "section_name bootstrap_legacy_bpf__elf_bytes 3 = ''tp/sched/sched_process_exec''"
  "section_name bootstrap_legacy_bpf__elf_bytes 4 = ''tp/sched/sched_process_exit''"
  "section_name bootstrap_legacy_bpf__elf_bytes 5 = ''license''"
  "section_name bootstrap_legacy_bpf__elf_bytes 6 = ''.rodata''"
  "section_name bootstrap_legacy_bpf__elf_bytes 7 = ''.maps''"
  "section_name bootstrap_legacy_bpf__elf_bytes 8 = ''.reltp/sched/sched_process_exec''"
  "section_name bootstrap_legacy_bpf__elf_bytes 9 = ''.reltp/sched/sched_process_exit''"
  "section_name bootstrap_legacy_bpf__elf_bytes 10 = ''.BTF''"
  "section_name bootstrap_legacy_bpf__elf_bytes 11 = ''.BTF.ext''"
  by (simp_all only: object_section_name [OF bootstrap_legacy_elf_pieces bootstrap_legacy_elf_contents(2)] bootstrap_legacy_elf_headers elf_section.simps)
    (simp_all add: elf_eval bootstrap_legacy_elf_1_def)

lemma bootstrap_legacy_elf_sections:
  "elf_sections bootstrap_legacy_bpf__elf_bytes =
    [\<lparr>es_name = '''', es_type = 0, es_flags = 0, es_link = 0, es_info = 0, es_size = 0,
      es_bytes = []\<rparr>,
     \<lparr>es_name = ''.strtab'', es_type = 3, es_flags = 32, es_link = 0, es_info = 0, es_size = 302,
      es_bytes = take 302 bootstrap_legacy_elf_1\<rparr>,
     \<lparr>es_name = ''.symtab'', es_type = 2, es_flags = 0, es_link = 1, es_info = 0, es_size = 360,
      es_bytes = bootstrap_legacy_elf_2\<rparr>,
     \<lparr>es_name = ''tp/sched/sched_process_exec'', es_type = 1, es_flags = 6, es_link = 0, es_info = 0, es_size = 648,
      es_bytes = bootstrap_legacy_elf_3\<rparr>,
     \<lparr>es_name = ''tp/sched/sched_process_exit'', es_type = 1, es_flags = 6, es_link = 0, es_info = 0, es_size = 840,
      es_bytes = bootstrap_legacy_elf_4\<rparr>,
     \<lparr>es_name = ''license'', es_type = 1, es_flags = 3, es_link = 0, es_info = 0, es_size = 13,
      es_bytes = take 13 bootstrap_legacy_elf_5\<rparr>,
     \<lparr>es_name = ''.rodata'', es_type = 1, es_flags = 2, es_link = 0, es_info = 0, es_size = 8,
      es_bytes = bootstrap_legacy_elf_6\<rparr>,
     \<lparr>es_name = ''.maps'', es_type = 1, es_flags = 3, es_link = 0, es_info = 0, es_size = 56,
      es_bytes = bootstrap_legacy_elf_7\<rparr>,
     \<lparr>es_name = ''.reltp/sched/sched_process_exec'', es_type = 9, es_flags = 64, es_link = 2, es_info = 3, es_size = 48,
      es_bytes = bootstrap_legacy_elf_8\<rparr>,
     \<lparr>es_name = ''.reltp/sched/sched_process_exit'', es_type = 9, es_flags = 64, es_link = 2, es_info = 4, es_size = 80,
      es_bytes = bootstrap_legacy_elf_9\<rparr>,
     \<lparr>es_name = ''.BTF'', es_type = 1, es_flags = 0, es_link = 0, es_info = 0, es_size = 23711,
      es_bytes = take 23711 bootstrap_legacy_elf_10\<rparr>,
     \<lparr>es_name = ''.BTF.ext'', es_type = 1, es_flags = 0, es_link = 0, es_info = 0, es_size = 1292,
      es_bytes = take 1292 bootstrap_legacy_elf_11\<rparr>]"
proof -
  have "le_at bootstrap_legacy_bpf__elf_bytes 60 2 = 12"
    using object_piecesD(4) [OF bootstrap_legacy_elf_pieces] by (simp add: bootstrap_legacy_elf_shdrs_def)
  moreover have "[0..<12] = [0, 1, 2, 3, 4, 5, 6, 7, 8, 9, 10, 11]"
    by (simp add: upt_rec)
  ultimately show ?thesis
    by (simp only: elf_sections_def list.map read_section_def Let_def bootstrap_legacy_elf_headers bootstrap_legacy_elf_flags bootstrap_legacy_elf_contents
        bootstrap_legacy_elf_names elf_section.simps)
qed

lemma bootstrap_legacy_elf_symtab_rows:
  "bootstrap_legacy_elf_2 =
    concat
     [[0, 0, 0, 0, 0, 0, 0, 0, 0, 0, 0, 0, 0, 0, 0, 0, 0, 0, 0, 0, 0, 0, 0, 0],
      [95, 0, 0, 0, 4, 0, 241, 255, 0, 0, 0, 0, 0, 0, 0, 0, 0, 0, 0, 0, 0, 0, 0, 0],
      [0, 0, 0, 0, 3, 0, 3, 0, 0, 0, 0, 0, 0, 0, 0, 0, 0, 0, 0, 0, 0, 0, 0, 0],
      [118, 0, 0, 0, 0, 0, 3, 0, 120, 2, 0, 0, 0, 0, 0, 0, 0, 0, 0, 0, 0, 0, 0, 0],
      [0, 0, 0, 0, 3, 0, 4, 0, 0, 0, 0, 0, 0, 0, 0, 0, 0, 0, 0, 0, 0, 0, 0, 0],
      [125, 0, 0, 0, 0, 0, 4, 0, 56, 3, 0, 0, 0, 0, 0, 0, 0, 0, 0, 0, 0, 0, 0, 0],
      [132, 0, 0, 0, 0, 0, 4, 0, 80, 1, 0, 0, 0, 0, 0, 0, 0, 0, 0, 0, 0, 0, 0, 0],
      [139, 0, 0, 0, 0, 0, 4, 0, 120, 1, 0, 0, 0, 0, 0, 0, 0, 0, 0, 0, 0, 0, 0, 0],
      [146, 0, 0, 0, 0, 0, 4, 0, 208, 1, 0, 0, 0, 0, 0, 0, 0, 0, 0, 0, 0, 0, 0, 0],
      [153, 0, 0, 0, 18, 0, 3, 0, 0, 0, 0, 0, 0, 0, 0, 0, 136, 2, 0, 0, 0, 0, 0, 0],
      [165, 0, 0, 0, 17, 0, 7, 0, 0, 0, 0, 0, 0, 0, 0, 0, 32, 0, 0, 0, 0, 0, 0, 0],
      [176, 0, 0, 0, 17, 0, 6, 0, 0, 0, 0, 0, 0, 0, 0, 0, 8, 0, 0, 0, 0, 0, 0, 0],
      [192, 0, 0, 0, 17, 0, 7, 0, 32, 0, 0, 0, 0, 0, 0, 0, 24, 0, 0, 0, 0, 0, 0, 0],
      [204, 0, 0, 0, 18, 0, 4, 0, 0, 0, 0, 0, 0, 0, 0, 0, 72, 3, 0, 0, 0, 0, 0, 0],
      [216, 0, 0, 0, 17, 0, 5, 0, 0, 0, 0, 0, 0, 0, 0, 0, 13, 0, 0, 0, 0, 0, 0, 0]]"
  by (simp add: bootstrap_legacy_elf_2_def)

lemma bootstrap_legacy_elf_symbols:
  "elf_symbols bootstrap_legacy_bpf__elf_bytes =
    [\<lparr>sym_name = '''', sym_info = 0, sym_shndx = 0, sym_value = 0, sym_size = 0\<rparr>,
     \<lparr>sym_name = ''bootstrap_legacy.bpf.c'', sym_info = 4, sym_shndx = 65521, sym_value = 0, sym_size = 0\<rparr>,
     \<lparr>sym_name = '''', sym_info = 3, sym_shndx = 3, sym_value = 0, sym_size = 0\<rparr>,
     \<lparr>sym_name = ''LBB0_2'', sym_info = 0, sym_shndx = 3, sym_value = 632, sym_size = 0\<rparr>,
     \<lparr>sym_name = '''', sym_info = 3, sym_shndx = 4, sym_value = 0, sym_size = 0\<rparr>,
     \<lparr>sym_name = ''LBB1_7'', sym_info = 0, sym_shndx = 4, sym_value = 824, sym_size = 0\<rparr>,
     \<lparr>sym_name = ''LBB1_3'', sym_info = 0, sym_shndx = 4, sym_value = 336, sym_size = 0\<rparr>,
     \<lparr>sym_name = ''LBB1_4'', sym_info = 0, sym_shndx = 4, sym_value = 376, sym_size = 0\<rparr>,
     \<lparr>sym_name = ''LBB1_6'', sym_info = 0, sym_shndx = 4, sym_value = 464, sym_size = 0\<rparr>,
     \<lparr>sym_name = ''handle_exec'', sym_info = 18, sym_shndx = 3, sym_value = 0, sym_size = 648\<rparr>,
     \<lparr>sym_name = ''exec_start'', sym_info = 17, sym_shndx = 7, sym_value = 0, sym_size = 32\<rparr>,
     \<lparr>sym_name = ''min_duration_ns'', sym_info = 17, sym_shndx = 6, sym_value = 0, sym_size = 8\<rparr>,
     \<lparr>sym_name = ''perf_buffer'', sym_info = 17, sym_shndx = 7, sym_value = 32, sym_size = 24\<rparr>,
     \<lparr>sym_name = ''handle_exit'', sym_info = 18, sym_shndx = 4, sym_value = 0, sym_size = 840\<rparr>,
     \<lparr>sym_name = ''LICENSE'', sym_info = 17, sym_shndx = 5, sym_value = 0, sym_size = 13\<rparr>]"
  by (simp add: elf_symbols_def bootstrap_legacy_elf_sections Let_def read_symbol_rows [OF bootstrap_legacy_elf_symtab_rows] del: upt_rec_numeral)
    (simp add: read_symbol_def elf_eval bootstrap_legacy_elf_1_def)

lemma bootstrap_legacy_elf_programs:
  "elf_programs bootstrap_legacy_bpf__elf_bytes =
    [(''tp/sched/sched_process_exec'', decode_program bootstrap_legacy_elf_3),
     (''tp/sched/sched_process_exit'', decode_program bootstrap_legacy_elf_4)]"
  by (simp add: elf_programs_def bootstrap_legacy_elf_sections is_program_def bit_numeral_rec bit_0)

end
