(* ===== verification/Obj_Fentry.thy ===== *)
theory Obj_Fentry
  imports Elf
begin

text \<open>
  The object file embedded in examples/c/.output/fentry.skel.h as a string literal: one list of bytes per line of the
  literal, cut at the borders of the sections; then its section table, its symbols and its programs.
\<close>

section \<open>The literal\<close>

definition fentry_elf_hdr :: "byte list" where
  "fentry_elf_hdr =
    concat
    [[127, 69, 76, 70, 2, 1, 1, 0, 0, 0, 0, 0, 0, 0, 0, 0, 1, 0, 247, 0, 1, 0, 0, 0, 0, 0, 0, 0, 0],
     [0, 0, 0, 0, 0, 0, 0, 0, 0, 0, 0, 40, 9, 0, 0, 0, 0, 0, 0, 0, 0, 0, 0, 64, 0, 0, 0, 0, 0, 64, 0, 11, 0],
     [1, 0]]"

definition fentry_elf_1 :: "byte list" where
  "fentry_elf_1 =
    concat
    [[0, 46, 115, 116, 114, 116, 97, 98, 0, 46, 115, 121, 109, 116, 97, 98, 0, 102, 101],
     [110, 116, 114, 121, 47, 100, 111, 95, 117, 110, 108, 105, 110, 107, 97, 116, 0, 102, 101, 120],
     [105, 116, 47, 100, 111, 95, 117, 110, 108, 105, 110, 107, 97, 116, 0, 108, 105, 99, 101, 110],
     [115, 101, 0, 46, 114, 111, 100, 97, 116, 97, 0, 102, 101, 110, 116, 114, 121, 46, 98, 112],
     [102, 46, 99, 0, 95, 95, 95, 95, 100, 111, 95, 117, 110, 108, 105, 110, 107, 97, 116, 46],
     [95, 95, 95, 95, 102, 109, 116, 0, 95, 95, 95, 95, 100, 111, 95, 117, 110, 108, 105, 110],
     [107, 97, 116, 95, 101, 120, 105, 116, 46, 95, 95, 95, 95, 102, 109, 116, 0, 100, 111, 95],
     [117, 110, 108, 105, 110, 107, 97, 116, 0, 100, 111, 95, 117, 110, 108, 105, 110, 107, 97, 116],
     [95, 101, 120, 105, 116, 0, 76, 73, 67, 69, 78, 83, 69, 0, 46, 114, 101, 108, 102, 101],
     [110, 116, 114, 121, 47, 100, 111, 95, 117, 110, 108, 105, 110, 107, 97, 116, 0, 46, 114, 101],
     [108, 102, 101, 120, 105, 116, 47, 100, 111, 95, 117, 110, 108, 105, 110, 107, 97, 116, 0, 46],
     [66, 84, 70, 0, 46, 66, 84, 70, 46, 101, 120, 116, 0]]"

definition fentry_elf_2 :: "byte list" where
  "fentry_elf_2 =
    concat
    [[0, 0, 0, 0, 0, 0, 0, 0, 0, 0, 0, 0, 0, 0, 0],
     [0, 0, 0, 0, 0, 0, 0, 0, 0, 70, 0, 0, 0, 4, 0, 241, 255, 0, 0, 0, 0, 0, 0, 0, 0, 0, 0, 0, 0, 0, 0, 0, 0, 0, 0],
     [0, 0, 3, 0, 3, 0, 0, 0, 0, 0, 0, 0, 0, 0, 0, 0, 0, 0, 0, 0, 0, 0, 83, 0, 0, 0, 1, 0, 6, 0, 0, 0, 0, 0],
     [0, 0, 0, 0, 33, 0, 0, 0, 0, 0, 0, 0, 0, 0, 0, 0, 3, 0, 4, 0, 0, 0, 0, 0, 0, 0, 0, 0, 0, 0, 0, 0, 0, 0, 0, 0],
     [107, 0, 0, 0, 1, 0, 6, 0, 33, 0, 0, 0, 0, 0, 0, 0, 43, 0, 0, 0, 0, 0, 0, 0, 0, 0, 0, 0, 3, 0, 6, 0],
     [0, 0, 0, 0, 0, 0, 0, 0, 0, 0, 0, 0, 0, 0, 0, 0, 136, 0, 0, 0, 18, 0, 3, 0, 0, 0, 0, 0, 0, 0, 0, 0, 88, 0, 0],
     [0, 0, 0, 0, 0, 148, 0, 0, 0, 18, 0, 4, 0, 0, 0, 0, 0, 0, 0, 0, 0, 104, 0, 0, 0, 0, 0, 0, 0, 165, 0, 0, 0],
     [17, 0, 5, 0, 0, 0, 0, 0, 0, 0, 0, 0, 13, 0, 0, 0, 0, 0, 0, 0]]"

definition fentry_elf_3 :: "byte list" where
  "fentry_elf_3 =
    concat
    [[121, 22, 8, 0, 0, 0, 0, 0, 133, 0, 0, 0],
     [14, 0, 0, 0, 121, 100, 0, 0, 0, 0, 0, 0, 119, 0, 0, 0, 32, 0, 0, 0, 24, 1, 0, 0, 0, 0, 0, 0, 0, 0, 0, 0],
     [0, 0, 0, 0, 183, 2, 0, 0, 33, 0, 0, 0, 191, 3, 0, 0, 0, 0, 0, 0, 133, 0, 0, 0, 6, 0, 0, 0, 183, 0, 0],
     [0, 0, 0, 0, 0, 149, 0, 0, 0, 0, 0, 0, 0]]"

definition fentry_elf_4 :: "byte list" where
  "fentry_elf_4 =
    concat
    [[121, 22, 16, 0, 0, 0, 0, 0, 121, 23, 8, 0, 0, 0, 0, 0, 133, 0],
     [0, 0, 14, 0, 0, 0, 121, 116, 0, 0, 0, 0, 0, 0, 119, 0, 0, 0, 32, 0, 0, 0, 24, 1, 0, 0, 33, 0, 0, 0, 0],
     [0, 0, 0, 0, 0, 0, 0, 183, 2, 0, 0, 43, 0, 0, 0, 191, 3, 0, 0, 0, 0, 0, 0, 191, 101, 0, 0, 0, 0, 0, 0],
     [133, 0, 0, 0, 6, 0, 0, 0, 183, 0, 0, 0, 0, 0, 0, 0, 149, 0, 0, 0, 0, 0, 0, 0]]"

definition fentry_elf_5 :: "byte list" where
  "fentry_elf_5 =
    concat
    [[68, 117, 97, 108, 32],
     [66, 83, 68, 47, 71, 80, 76, 0]]"

definition fentry_elf_6 :: "byte list" where
  "fentry_elf_6 =
    concat
    [[102, 101, 110, 116, 114, 121, 58, 32, 112, 105, 100, 32],
     [61, 32, 37, 100, 44, 32, 102, 105, 108, 101, 110, 97, 109, 101, 32, 61, 32, 37, 115],
     [10, 0, 102, 101, 120, 105, 116, 58, 32, 112, 105, 100, 32, 61, 32, 37, 100, 44, 32, 102],
     [105, 108, 101, 110, 97, 109, 101, 32, 61, 32, 37, 115, 44, 32, 114, 101, 116, 32, 61],
     [32, 37, 108, 100, 10, 0, 0, 0, 0, 0, 0, 0, 0]]"

definition fentry_elf_7 :: "byte list" where
  "fentry_elf_7 =
    concat
    [[32, 0, 0, 0, 0, 0, 0, 0, 1, 0, 0, 0, 6, 0, 0, 0]]"

definition fentry_elf_8 :: "byte list" where
  "fentry_elf_8 =
    concat
    [[40],
     [0, 0, 0, 0, 0, 0, 0, 1, 0, 0, 0, 6, 0, 0, 0]]"

definition fentry_elf_9 :: "byte list" where
  "fentry_elf_9 =
    concat
    [[159, 235, 1, 0, 24, 0, 0, 0, 0, 0, 0, 0, 224, 1, 0, 0],
     [224, 1, 0, 0, 132, 2, 0, 0, 0, 0, 0, 0, 0, 0, 0, 2, 2, 0, 0, 0, 1, 0, 0, 0, 0, 0, 0, 1, 8, 0],
     [0, 0, 64, 0, 0, 0, 0, 0, 0, 0, 1, 0, 0, 13, 4, 0, 0, 0, 20, 0, 0, 0, 1, 0, 0, 0, 24, 0, 0, 0, 0, 0],
     [0, 1, 4, 0, 0, 0, 32, 0, 0, 1, 28, 0, 0, 0, 1, 0, 0, 12, 3, 0, 0, 0, 40, 0, 0, 0, 5, 0, 0],
     [4, 32, 0, 0, 0, 49, 0, 0, 0, 7, 0, 0, 0, 0, 0, 0, 0, 54, 0, 0, 0, 7, 0, 0, 0, 64, 0, 0, 0, 59, 0],
     [0, 0, 10, 0, 0, 0, 128, 0, 0, 0, 66, 0, 0, 0, 12, 0, 0, 0, 192, 0, 0, 0, 72, 0, 0, 0, 14, 0, 0, 0, 0],
     [1, 0, 0, 0, 0, 0, 0, 0, 0, 0, 2, 8, 0, 0, 0, 0, 0, 0, 0, 0, 0, 0, 10, 9, 0, 0, 0, 78, 0, 0, 0, 0, 0],
     [0, 1, 1, 0, 0, 0, 8, 0, 0, 1, 83, 0, 0, 0, 0, 0, 0, 8, 11, 0, 0, 0, 0, 0, 0, 0, 1, 0, 0, 4],
     [4, 0, 0, 0, 92, 0, 0, 0, 4, 0, 0, 0, 0, 0, 0, 0, 0, 0, 0, 0, 0, 0, 0, 2, 13, 0, 0, 0, 100, 0, 0, 0, 0],
     [0, 0, 7, 0, 0, 0, 0, 0, 0, 0, 0, 0, 0, 0, 3, 0, 0, 0, 0, 8, 0, 0, 0, 15, 0, 0, 0, 0, 0, 0, 0, 112, 0, 0],
     [0, 0, 0, 0, 1, 4, 0, 0, 0, 32, 0, 0, 0, 132, 0, 0, 0, 1, 0, 0, 12, 3, 0, 0, 0, 0, 0, 0, 0, 0, 0, 0],
     [3, 0, 0, 0, 0, 9, 0, 0, 0, 15, 0, 0, 0, 13, 0, 0, 0, 149, 0, 0, 0, 0, 0, 0, 14, 17, 0, 0, 0, 1, 0],
     [0, 0, 0, 0, 0, 0, 0, 0, 0, 3, 0, 0, 0, 0, 8, 0, 0, 0, 15, 0, 0, 0, 33, 0, 0, 0, 157, 0, 0, 0, 0, 0, 0],
     [14, 19, 0, 0, 0, 0, 0, 0, 0, 0, 0, 0, 0, 0, 0, 0, 3, 0, 0, 0, 0, 8, 0, 0, 0, 15, 0, 0, 0, 43, 0, 0, 0],
     [181, 0, 0, 0, 0, 0, 0, 14, 21, 0, 0, 0, 0, 0, 0, 0, 79, 2, 0, 0, 1, 0, 0, 15, 13, 0, 0, 0, 18, 0],
     [0, 0, 0, 0, 0, 0, 13, 0, 0, 0, 87, 2, 0, 0, 2, 0, 0, 15, 76, 0, 0, 0, 20, 0, 0, 0, 0, 0, 0, 0, 33],
     [0, 0, 0, 22, 0, 0, 0, 33, 0, 0, 0, 43, 0, 0, 0, 0, 117, 110, 115, 105, 103, 110, 101, 100, 32, 108],
     [111, 110, 103, 32, 108, 111, 110, 103, 0, 99, 116, 120, 0, 105, 110, 116, 0, 100, 111, 95, 117],
     [110, 108, 105, 110, 107, 97, 116, 0, 102, 105, 108, 101, 110, 97, 109, 101, 0, 110, 97, 109],
     [101, 0, 117, 112, 116, 114, 0, 114, 101, 102, 99, 110, 116, 0, 97, 110, 97, 109, 101, 0, 105],
     [110, 97, 109, 101, 0, 99, 104, 97, 114, 0, 97, 116, 111, 109, 105, 99, 95, 116, 0, 99, 111],
     [117, 110, 116, 101, 114, 0, 97, 117, 100, 105, 116, 95, 110, 97, 109, 101, 115, 0, 95, 95],
     [65, 82, 82, 65, 89, 95, 83, 73, 90, 69, 95, 84, 89, 80, 69, 95, 95, 0, 100, 111],
     [95, 117, 110, 108, 105, 110, 107, 97, 116, 95, 101, 120, 105, 116, 0, 76, 73, 67, 69, 78],
     [83, 69, 0, 95, 95, 95, 95, 100, 111, 95, 117, 110, 108, 105, 110, 107, 97, 116, 46, 95],
     [95, 95, 95, 102, 109, 116, 0, 95, 95, 95, 95, 100, 111, 95, 117, 110, 108, 105, 110, 107],
     [97, 116, 95, 101, 120, 105, 116, 46, 95, 95, 95, 95, 102, 109, 116, 0, 47, 104, 111, 109],
     [101, 47, 108, 111, 115, 116, 99, 97, 99, 104, 101, 47, 99, 111, 100, 101, 47, 104, 101],
     [108, 108, 111, 95, 101, 66, 80, 70, 47, 101, 120, 97, 109, 112, 108, 101, 115, 47, 99],
     [47, 102, 101, 110, 116, 114, 121, 46, 98, 112, 102, 46, 99, 0, 105, 110, 116, 32, 66, 80],
     [70, 95, 80, 82, 79, 71, 40, 100, 111, 95, 117, 110, 108, 105, 110, 107, 97, 116, 44],
     [32, 105, 110, 116, 32, 100, 102, 100, 44, 32, 115, 116, 114, 117, 99, 116, 32, 102, 105],
     [108, 101, 110, 97, 109, 101, 32, 42, 110, 97, 109, 101, 41, 0, 9, 112, 105, 100, 32, 61],
     [32, 98, 112, 102, 95, 103, 101, 116, 95, 99, 117, 114, 114, 101, 110, 116, 95, 112, 105],
     [100, 95, 116, 103, 105, 100, 40, 41, 32, 62, 62, 32, 51, 50, 59, 0, 9, 98, 112, 102],
     [95, 112, 114, 105, 110, 116, 107, 40, 34, 102, 101, 110, 116, 114, 121, 58, 32, 112, 105],
     [100, 32, 61, 32, 37, 100, 44, 32, 102, 105, 108, 101, 110, 97, 109, 101, 32, 61, 32],
     [37, 115, 92, 110, 34, 44, 32, 112, 105, 100, 44, 32, 110, 97, 109, 101, 45, 62, 110],
     [97, 109, 101, 41, 59, 0, 105, 110, 116, 32, 66, 80, 70, 95, 80, 82, 79, 71, 40, 100],
     [111, 95, 117, 110, 108, 105, 110, 107, 97, 116, 95, 101, 120, 105, 116, 44, 32, 105, 110],
     [116, 32, 100, 102, 100, 44, 32, 115, 116, 114, 117, 99, 116, 32, 102, 105, 108, 101, 110],
     [97, 109, 101, 32, 42, 110, 97, 109, 101, 44, 32, 108, 111, 110, 103, 32, 114, 101, 116],
     [41, 0, 9, 98, 112, 102, 95, 112, 114, 105, 110, 116, 107, 40, 34, 102, 101, 120, 105, 116],
     [58, 32, 112, 105, 100, 32, 61, 32, 37, 100, 44, 32, 102, 105, 108, 101, 110, 97, 109],
     [101, 32, 61, 32, 37, 115, 44, 32, 114, 101, 116, 32, 61, 32, 37, 108, 100, 92, 110],
     [34, 44, 32, 112, 105, 100, 44, 32, 110, 97, 109, 101, 45, 62, 110, 97, 109, 101, 44],
     [32, 114, 101, 116, 41, 59, 0, 48, 58, 48, 0, 108, 105, 99, 101, 110, 115, 101, 0, 46, 114],
     [111, 100, 97, 116, 97, 0, 102, 101, 110, 116, 114, 121, 47, 100, 111, 95, 117, 110, 108, 105],
     [110, 107, 97, 116, 0, 102, 101, 120, 105, 116, 47, 100, 111, 95, 117, 110, 108, 105, 110, 107],
     [97, 116, 0, 0, 0, 0, 0]]"

definition fentry_elf_10 :: "byte list" where
  "fentry_elf_10 =
    concat
    [[159, 235, 1, 0, 32, 0, 0, 0, 0, 0, 0, 0, 36, 0, 0, 0, 36, 0, 0, 0, 212, 0, 0],
     [0, 248, 0, 0, 0, 52, 0, 0, 0, 8, 0, 0, 0, 95, 2, 0, 0, 1, 0, 0, 0, 0, 0, 0, 0, 5, 0, 0, 0, 114],
     [2, 0, 0, 1, 0, 0, 0, 0, 0, 0, 0, 16, 0, 0, 0, 16, 0, 0, 0, 95, 2, 0, 0, 6, 0, 0, 0, 0, 0, 0, 0],
     [210, 0, 0, 0, 10, 1, 0, 0, 5, 40, 0, 0, 8, 0, 0, 0, 210, 0, 0, 0, 68, 1, 0, 0, 8, 56, 0, 0],
     [16, 0, 0, 0, 210, 0, 0, 0, 109, 1, 0, 0, 2, 60, 0, 0, 24, 0, 0, 0, 210, 0, 0, 0, 68, 1, 0, 0],
     [35, 56, 0, 0, 32, 0, 0, 0, 210, 0, 0, 0, 109, 1, 0, 0, 2, 60, 0, 0, 72, 0, 0, 0, 210, 0, 0, 0],
     [10, 1, 0, 0, 5, 40, 0, 0, 114, 2, 0, 0, 6, 0, 0, 0, 0, 0, 0, 0, 210, 0, 0, 0, 176, 1, 0, 0],
     [5, 80, 0, 0, 16, 0, 0, 0, 210, 0, 0, 0, 68, 1, 0, 0, 8, 96, 0, 0, 24, 0, 0, 0, 210, 0, 0, 0],
     [249, 1, 0, 0, 2, 100, 0, 0, 32, 0, 0, 0, 210, 0, 0, 0, 68, 1, 0, 0, 35, 96, 0, 0, 40, 0, 0, 0],
     [210, 0, 0, 0, 249, 1, 0, 0, 2, 100, 0, 0, 88, 0, 0, 0, 210, 0, 0, 0, 176, 1, 0, 0, 5, 80, 0, 0],
     [16, 0, 0, 0, 95, 2, 0, 0, 1, 0, 0, 0, 16, 0, 0, 0, 6, 0, 0, 0, 75, 2, 0, 0, 0, 0, 0, 0, 114],
     [2, 0, 0, 1, 0, 0, 0, 24, 0, 0, 0, 6, 0, 0, 0, 75, 2, 0, 0, 0, 0, 0, 0, 0, 0, 0, 0]]"

definition fentry_elf_shdrs :: "byte list list" where
  "fentry_elf_shdrs =
    [[0, 0, 0, 0, 0, 0, 0, 0, 0, 0, 0, 0, 0, 0, 0, 0, 0, 0, 0, 0, 0, 0, 0, 0, 0, 0, 0, 0, 0, 0, 0, 0,
      0, 0, 0, 0, 0, 0, 0, 0, 0, 0, 0, 0, 0, 0, 0, 0, 0, 0, 0, 0, 0, 0, 0, 0, 0, 0, 0, 0, 0, 0, 0, 0],
     [1, 0, 0, 0, 3, 0, 0, 0, 32, 0, 0, 0, 0, 0, 0, 0, 0, 0, 0, 0, 0, 0, 0, 0, 64, 0, 0, 0, 0, 0, 0, 0,
      232, 0, 0, 0, 0, 0, 0, 0, 0, 0, 0, 0, 0, 0, 0, 0, 1, 0, 0, 0, 0, 0, 0, 0, 0, 0, 0, 0, 0, 0, 0, 0],
     [9, 0, 0, 0, 2, 0, 0, 0, 0, 0, 0, 0, 0, 0, 0, 0, 0, 0, 0, 0, 0, 0, 0, 0, 40, 1, 0, 0, 0, 0, 0, 0,
      240, 0, 0, 0, 0, 0, 0, 0, 1, 0, 0, 0, 0, 0, 0, 0, 8, 0, 0, 0, 0, 0, 0, 0, 24, 0, 0, 0, 0, 0, 0, 0],
     [17, 0, 0, 0, 1, 0, 0, 0, 6, 0, 0, 0, 0, 0, 0, 0, 0, 0, 0, 0, 0, 0, 0, 0, 24, 2, 0, 0, 0, 0, 0, 0,
      88, 0, 0, 0, 0, 0, 0, 0, 0, 0, 0, 0, 0, 0, 0, 0, 8, 0, 0, 0, 0, 0, 0, 0, 0, 0, 0, 0, 0, 0, 0, 0],
     [36, 0, 0, 0, 1, 0, 0, 0, 6, 0, 0, 0, 0, 0, 0, 0, 0, 0, 0, 0, 0, 0, 0, 0, 112, 2, 0, 0, 0, 0, 0, 0,
      104, 0, 0, 0, 0, 0, 0, 0, 0, 0, 0, 0, 0, 0, 0, 0, 8, 0, 0, 0, 0, 0, 0, 0, 0, 0, 0, 0, 0, 0, 0, 0],
     [54, 0, 0, 0, 1, 0, 0, 0, 3, 0, 0, 0, 0, 0, 0, 0, 0, 0, 0, 0, 0, 0, 0, 0, 216, 2, 0, 0, 0, 0, 0, 0,
      13, 0, 0, 0, 0, 0, 0, 0, 0, 0, 0, 0, 0, 0, 0, 0, 1, 0, 0, 0, 0, 0, 0, 0, 0, 0, 0, 0, 0, 0, 0, 0],
     [62, 0, 0, 0, 1, 0, 0, 0, 2, 0, 0, 0, 0, 0, 0, 0, 0, 0, 0, 0, 0, 0, 0, 0, 229, 2, 0, 0, 0, 0, 0, 0,
      76, 0, 0, 0, 0, 0, 0, 0, 0, 0, 0, 0, 0, 0, 0, 0, 1, 0, 0, 0, 0, 0, 0, 0, 0, 0, 0, 0, 0, 0, 0, 0],
     [173, 0, 0, 0, 9, 0, 0, 0, 64, 0, 0, 0, 0, 0, 0, 0, 0, 0, 0, 0, 0, 0, 0, 0, 56, 3, 0, 0, 0, 0, 0, 0,
      16, 0, 0, 0, 0, 0, 0, 0, 2, 0, 0, 0, 3, 0, 0, 0, 8, 0, 0, 0, 0, 0, 0, 0, 16, 0, 0, 0, 0, 0, 0, 0],
     [196, 0, 0, 0, 9, 0, 0, 0, 64, 0, 0, 0, 0, 0, 0, 0, 0, 0, 0, 0, 0, 0, 0, 0, 72, 3, 0, 0, 0, 0, 0, 0,
      16, 0, 0, 0, 0, 0, 0, 0, 2, 0, 0, 0, 4, 0, 0, 0, 8, 0, 0, 0, 0, 0, 0, 0, 16, 0, 0, 0, 0, 0, 0, 0],
     [218, 0, 0, 0, 1, 0, 0, 0, 0, 0, 0, 0, 0, 0, 0, 0, 0, 0, 0, 0, 0, 0, 0, 0, 88, 3, 0, 0, 0, 0, 0, 0,
      124, 4, 0, 0, 0, 0, 0, 0, 0, 0, 0, 0, 0, 0, 0, 0, 8, 0, 0, 0, 0, 0, 0, 0, 0, 0, 0, 0, 0, 0, 0, 0],
     [223, 0, 0, 0, 1, 0, 0, 0, 0, 0, 0, 0, 0, 0, 0, 0, 0, 0, 0, 0, 0, 0, 0, 0, 216, 7, 0, 0, 0, 0, 0, 0,
      76, 1, 0, 0, 0, 0, 0, 0, 0, 0, 0, 0, 0, 0, 0, 0, 8, 0, 0, 0, 0, 0, 0, 0, 0, 0, 0, 0, 0, 0, 0, 0]]"

definition fentry_elf_body :: "byte list list" where
  "fentry_elf_body = [fentry_elf_1, fentry_elf_2, fentry_elf_3, fentry_elf_4, fentry_elf_5, fentry_elf_6, fentry_elf_7, fentry_elf_8, fentry_elf_9, fentry_elf_10]"

definition fentry_bpf__elf_bytes :: "byte list" where
  "fentry_bpf__elf_bytes = concat (fentry_elf_hdr # fentry_elf_body) @ concat fentry_elf_shdrs"

section \<open>The parts of the object\<close>

text \<open>The sizes of the pieces. The definitions stay folded: a piece is only opened where it is read.\<close>

lemma fentry_elf_lengths [simp]:
  "length fentry_elf_hdr = 64"
  "length fentry_elf_1 = 232"
  "length fentry_elf_2 = 240"
  "length fentry_elf_3 = 88"
  "length fentry_elf_4 = 104"
  "length fentry_elf_5 = 13"
  "length fentry_elf_6 = 83"
  "length fentry_elf_7 = 16"
  "length fentry_elf_8 = 16"
  "length fentry_elf_9 = 1152"
  "length fentry_elf_10 = 336"
  by (simp_all only: piece_length fentry_elf_hdr_def fentry_elf_1_def fentry_elf_2_def fentry_elf_3_def
    fentry_elf_4_def fentry_elf_5_def fentry_elf_6_def fentry_elf_7_def fentry_elf_8_def fentry_elf_9_def
    fentry_elf_10_def)

lemma fentry_elf_pieces: "object_pieces fentry_bpf__elf_bytes (fentry_elf_hdr # fentry_elf_body) fentry_elf_shdrs"
proof -
  have "le_at fentry_elf_hdr 40 8 = 2344" "le_at fentry_elf_hdr 60 2 = 11" "le_at fentry_elf_hdr 62 2 = 1"
    by (simp_all add: fentry_elf_hdr_def elf_eval)
  moreover have "list_all (\<lambda>h. length h = 64) fentry_elf_shdrs" "length fentry_elf_shdrs = 11"
    by (simp_all add: fentry_elf_shdrs_def)
  ultimately show ?thesis
    by (simp add: object_pieces_def fentry_bpf__elf_bytes_def fentry_elf_body_def)
qed

lemma fentry_elf_headers:
  "elf_section_at fentry_bpf__elf_bytes 0 = \<lparr>sec_name = 0, sec_type = 0, sec_offset = 0, sec_size = 0, sec_link = 0, sec_info = 0\<rparr>"
  "elf_section_at fentry_bpf__elf_bytes 1 = \<lparr>sec_name = 1, sec_type = 3, sec_offset = 64, sec_size = 232, sec_link = 0, sec_info = 0\<rparr>"
  "elf_section_at fentry_bpf__elf_bytes 2 = \<lparr>sec_name = 9, sec_type = 2, sec_offset = 296, sec_size = 240, sec_link = 1, sec_info = 0\<rparr>"
  "elf_section_at fentry_bpf__elf_bytes 3 = \<lparr>sec_name = 17, sec_type = 1, sec_offset = 536, sec_size = 88, sec_link = 0, sec_info = 0\<rparr>"
  "elf_section_at fentry_bpf__elf_bytes 4 = \<lparr>sec_name = 36, sec_type = 1, sec_offset = 624, sec_size = 104, sec_link = 0, sec_info = 0\<rparr>"
  "elf_section_at fentry_bpf__elf_bytes 5 = \<lparr>sec_name = 54, sec_type = 1, sec_offset = 728, sec_size = 13, sec_link = 0, sec_info = 0\<rparr>"
  "elf_section_at fentry_bpf__elf_bytes 6 = \<lparr>sec_name = 62, sec_type = 1, sec_offset = 741, sec_size = 76, sec_link = 0, sec_info = 0\<rparr>"
  "elf_section_at fentry_bpf__elf_bytes 7 = \<lparr>sec_name = 173, sec_type = 9, sec_offset = 824, sec_size = 16, sec_link = 2, sec_info = 3\<rparr>"
  "elf_section_at fentry_bpf__elf_bytes 8 = \<lparr>sec_name = 196, sec_type = 9, sec_offset = 840, sec_size = 16, sec_link = 2, sec_info = 4\<rparr>"
  "elf_section_at fentry_bpf__elf_bytes 9 = \<lparr>sec_name = 218, sec_type = 1, sec_offset = 856, sec_size = 1148, sec_link = 0, sec_info = 0\<rparr>"
  "elf_section_at fentry_bpf__elf_bytes 10 = \<lparr>sec_name = 223, sec_type = 1, sec_offset = 2008, sec_size = 332, sec_link = 0, sec_info = 0\<rparr>"
  by (simp_all add: object_section [OF fentry_elf_pieces] fentry_elf_shdrs_def elf_section_header_def elf_eval)

lemma fentry_elf_flags:
  "section_flags fentry_bpf__elf_bytes 0 = 0"
  "section_flags fentry_bpf__elf_bytes 1 = 32"
  "section_flags fentry_bpf__elf_bytes 2 = 0"
  "section_flags fentry_bpf__elf_bytes 3 = 6"
  "section_flags fentry_bpf__elf_bytes 4 = 6"
  "section_flags fentry_bpf__elf_bytes 5 = 3"
  "section_flags fentry_bpf__elf_bytes 6 = 2"
  "section_flags fentry_bpf__elf_bytes 7 = 64"
  "section_flags fentry_bpf__elf_bytes 8 = 64"
  "section_flags fentry_bpf__elf_bytes 9 = 0"
  "section_flags fentry_bpf__elf_bytes 10 = 0"
  by (simp_all add: object_section [OF fentry_elf_pieces] fentry_elf_shdrs_def elf_eval)

lemma fentry_elf_contents:
  "section_bytes fentry_bpf__elf_bytes 0 = []"
  "section_bytes fentry_bpf__elf_bytes 1 = fentry_elf_1"
  "section_bytes fentry_bpf__elf_bytes 2 = fentry_elf_2"
  "section_bytes fentry_bpf__elf_bytes 3 = fentry_elf_3"
  "section_bytes fentry_bpf__elf_bytes 4 = fentry_elf_4"
  "section_bytes fentry_bpf__elf_bytes 5 = fentry_elf_5"
  "section_bytes fentry_bpf__elf_bytes 6 = take 76 fentry_elf_6"
  "section_bytes fentry_bpf__elf_bytes 7 = fentry_elf_7"
  "section_bytes fentry_bpf__elf_bytes 8 = fentry_elf_8"
  "section_bytes fentry_bpf__elf_bytes 9 = take 1148 fentry_elf_9"
  "section_bytes fentry_bpf__elf_bytes 10 = take 332 fentry_elf_10"
proof -
  show "section_bytes fentry_bpf__elf_bytes 0 = []"
    by (simp add: section_bytes_def fentry_elf_headers elf_section.defs)
  show "section_bytes fentry_bpf__elf_bytes 1 = fentry_elf_1"
    using object_section_bytes [OF fentry_elf_pieces fentry_elf_headers(2), of 1] by (simp add: fentry_elf_body_def)
  show "section_bytes fentry_bpf__elf_bytes 2 = fentry_elf_2"
    using object_section_bytes [OF fentry_elf_pieces fentry_elf_headers(3), of 2] by (simp add: fentry_elf_body_def)
  show "section_bytes fentry_bpf__elf_bytes 3 = fentry_elf_3"
    using object_section_bytes [OF fentry_elf_pieces fentry_elf_headers(4), of 3] by (simp add: fentry_elf_body_def)
  show "section_bytes fentry_bpf__elf_bytes 4 = fentry_elf_4"
    using object_section_bytes [OF fentry_elf_pieces fentry_elf_headers(5), of 4] by (simp add: fentry_elf_body_def)
  show "section_bytes fentry_bpf__elf_bytes 5 = fentry_elf_5"
    using object_section_bytes [OF fentry_elf_pieces fentry_elf_headers(6), of 5] by (simp add: fentry_elf_body_def)
  show "section_bytes fentry_bpf__elf_bytes 6 = take 76 fentry_elf_6"
    using object_section_bytes [OF fentry_elf_pieces fentry_elf_headers(7), of 6] by (simp add: fentry_elf_body_def)
  show "section_bytes fentry_bpf__elf_bytes 7 = fentry_elf_7"
    using object_section_bytes [OF fentry_elf_pieces fentry_elf_headers(8), of 7] by (simp add: fentry_elf_body_def)
  show "section_bytes fentry_bpf__elf_bytes 8 = fentry_elf_8"
    using object_section_bytes [OF fentry_elf_pieces fentry_elf_headers(9), of 8] by (simp add: fentry_elf_body_def)
  show "section_bytes fentry_bpf__elf_bytes 9 = take 1148 fentry_elf_9"
    using object_section_bytes [OF fentry_elf_pieces fentry_elf_headers(10), of 9] by (simp add: fentry_elf_body_def)
  show "section_bytes fentry_bpf__elf_bytes 10 = take 332 fentry_elf_10"
    using object_section_bytes [OF fentry_elf_pieces fentry_elf_headers(11), of 10] by (simp add: fentry_elf_body_def)
qed

lemma fentry_elf_names:
  "section_name fentry_bpf__elf_bytes 0 = ''''"
  "section_name fentry_bpf__elf_bytes 1 = ''.strtab''"
  "section_name fentry_bpf__elf_bytes 2 = ''.symtab''"
  "section_name fentry_bpf__elf_bytes 3 = ''fentry/do_unlinkat''"
  "section_name fentry_bpf__elf_bytes 4 = ''fexit/do_unlinkat''"
  "section_name fentry_bpf__elf_bytes 5 = ''license''"
  "section_name fentry_bpf__elf_bytes 6 = ''.rodata''"
  "section_name fentry_bpf__elf_bytes 7 = ''.relfentry/do_unlinkat''"
  "section_name fentry_bpf__elf_bytes 8 = ''.relfexit/do_unlinkat''"
  "section_name fentry_bpf__elf_bytes 9 = ''.BTF''"
  "section_name fentry_bpf__elf_bytes 10 = ''.BTF.ext''"
  by (simp_all only: object_section_name [OF fentry_elf_pieces fentry_elf_contents(2)] fentry_elf_headers elf_section.simps)
    (simp_all add: elf_eval fentry_elf_1_def)

lemma fentry_elf_sections:
  "elf_sections fentry_bpf__elf_bytes =
    [\<lparr>es_name = '''', es_type = 0, es_flags = 0, es_link = 0, es_info = 0, es_size = 0,
      es_bytes = []\<rparr>,
     \<lparr>es_name = ''.strtab'', es_type = 3, es_flags = 32, es_link = 0, es_info = 0, es_size = 232,
      es_bytes = fentry_elf_1\<rparr>,
     \<lparr>es_name = ''.symtab'', es_type = 2, es_flags = 0, es_link = 1, es_info = 0, es_size = 240,
      es_bytes = fentry_elf_2\<rparr>,
     \<lparr>es_name = ''fentry/do_unlinkat'', es_type = 1, es_flags = 6, es_link = 0, es_info = 0, es_size = 88,
      es_bytes = fentry_elf_3\<rparr>,
     \<lparr>es_name = ''fexit/do_unlinkat'', es_type = 1, es_flags = 6, es_link = 0, es_info = 0, es_size = 104,
      es_bytes = fentry_elf_4\<rparr>,
     \<lparr>es_name = ''license'', es_type = 1, es_flags = 3, es_link = 0, es_info = 0, es_size = 13,
      es_bytes = fentry_elf_5\<rparr>,
     \<lparr>es_name = ''.rodata'', es_type = 1, es_flags = 2, es_link = 0, es_info = 0, es_size = 76,
      es_bytes = take 76 fentry_elf_6\<rparr>,
     \<lparr>es_name = ''.relfentry/do_unlinkat'', es_type = 9, es_flags = 64, es_link = 2, es_info = 3, es_size = 16,
      es_bytes = fentry_elf_7\<rparr>,
     \<lparr>es_name = ''.relfexit/do_unlinkat'', es_type = 9, es_flags = 64, es_link = 2, es_info = 4, es_size = 16,
      es_bytes = fentry_elf_8\<rparr>,
     \<lparr>es_name = ''.BTF'', es_type = 1, es_flags = 0, es_link = 0, es_info = 0, es_size = 1148,
      es_bytes = take 1148 fentry_elf_9\<rparr>,
     \<lparr>es_name = ''.BTF.ext'', es_type = 1, es_flags = 0, es_link = 0, es_info = 0, es_size = 332,
      es_bytes = take 332 fentry_elf_10\<rparr>]"
proof -
  have "le_at fentry_bpf__elf_bytes 60 2 = 11"
    using object_piecesD(4) [OF fentry_elf_pieces] by (simp add: fentry_elf_shdrs_def)
  moreover have "[0..<11] = [0, 1, 2, 3, 4, 5, 6, 7, 8, 9, 10]"
    by (simp add: upt_rec)
  ultimately show ?thesis
    by (simp only: elf_sections_def list.map read_section_def Let_def fentry_elf_headers fentry_elf_flags fentry_elf_contents
        fentry_elf_names elf_section.simps)
qed

lemma fentry_elf_symtab_rows:
  "fentry_elf_2 =
    concat
     [[0, 0, 0, 0, 0, 0, 0, 0, 0, 0, 0, 0, 0, 0, 0, 0, 0, 0, 0, 0, 0, 0, 0, 0],
      [70, 0, 0, 0, 4, 0, 241, 255, 0, 0, 0, 0, 0, 0, 0, 0, 0, 0, 0, 0, 0, 0, 0, 0],
      [0, 0, 0, 0, 3, 0, 3, 0, 0, 0, 0, 0, 0, 0, 0, 0, 0, 0, 0, 0, 0, 0, 0, 0],
      [83, 0, 0, 0, 1, 0, 6, 0, 0, 0, 0, 0, 0, 0, 0, 0, 33, 0, 0, 0, 0, 0, 0, 0],
      [0, 0, 0, 0, 3, 0, 4, 0, 0, 0, 0, 0, 0, 0, 0, 0, 0, 0, 0, 0, 0, 0, 0, 0],
      [107, 0, 0, 0, 1, 0, 6, 0, 33, 0, 0, 0, 0, 0, 0, 0, 43, 0, 0, 0, 0, 0, 0, 0],
      [0, 0, 0, 0, 3, 0, 6, 0, 0, 0, 0, 0, 0, 0, 0, 0, 0, 0, 0, 0, 0, 0, 0, 0],
      [136, 0, 0, 0, 18, 0, 3, 0, 0, 0, 0, 0, 0, 0, 0, 0, 88, 0, 0, 0, 0, 0, 0, 0],
      [148, 0, 0, 0, 18, 0, 4, 0, 0, 0, 0, 0, 0, 0, 0, 0, 104, 0, 0, 0, 0, 0, 0, 0],
      [165, 0, 0, 0, 17, 0, 5, 0, 0, 0, 0, 0, 0, 0, 0, 0, 13, 0, 0, 0, 0, 0, 0, 0]]"
  by (simp add: fentry_elf_2_def)

lemma fentry_elf_symbols:
  "elf_symbols fentry_bpf__elf_bytes =
    [\<lparr>sym_name = '''', sym_info = 0, sym_shndx = 0, sym_value = 0, sym_size = 0\<rparr>,
     \<lparr>sym_name = ''fentry.bpf.c'', sym_info = 4, sym_shndx = 65521, sym_value = 0, sym_size = 0\<rparr>,
     \<lparr>sym_name = '''', sym_info = 3, sym_shndx = 3, sym_value = 0, sym_size = 0\<rparr>,
     \<lparr>sym_name = ''____do_unlinkat.____fmt'', sym_info = 1, sym_shndx = 6, sym_value = 0, sym_size = 33\<rparr>,
     \<lparr>sym_name = '''', sym_info = 3, sym_shndx = 4, sym_value = 0, sym_size = 0\<rparr>,
     \<lparr>sym_name = ''____do_unlinkat_exit.____fmt'', sym_info = 1, sym_shndx = 6, sym_value = 33, sym_size = 43\<rparr>,
     \<lparr>sym_name = '''', sym_info = 3, sym_shndx = 6, sym_value = 0, sym_size = 0\<rparr>,
     \<lparr>sym_name = ''do_unlinkat'', sym_info = 18, sym_shndx = 3, sym_value = 0, sym_size = 88\<rparr>,
     \<lparr>sym_name = ''do_unlinkat_exit'', sym_info = 18, sym_shndx = 4, sym_value = 0, sym_size = 104\<rparr>,
     \<lparr>sym_name = ''LICENSE'', sym_info = 17, sym_shndx = 5, sym_value = 0, sym_size = 13\<rparr>]"
  by (simp add: elf_symbols_def fentry_elf_sections Let_def read_symbol_rows [OF fentry_elf_symtab_rows] del: upt_rec_numeral)
    (simp add: read_symbol_def elf_eval fentry_elf_1_def)

lemma fentry_elf_programs:
  "elf_programs fentry_bpf__elf_bytes =
    [(''fentry/do_unlinkat'', decode_program fentry_elf_3),
     (''fexit/do_unlinkat'', decode_program fentry_elf_4)]"
  by (simp add: elf_programs_def fentry_elf_sections is_program_def bit_numeral_rec bit_0)

end
