(* ===== verification/Obj_Kprobe.thy ===== *)
theory Obj_Kprobe
  imports Elf
begin

text \<open>
  The object file embedded in examples/c/.output/kprobe.skel.h as a string literal: one list of bytes per line of the
  literal, cut at the borders of the sections; then its section table, its symbols and its programs.
\<close>

section \<open>The literal\<close>

definition kprobe_elf_hdr :: "byte list" where
  "kprobe_elf_hdr =
    concat
    [[127, 69, 76, 70, 2, 1, 1, 0, 0, 0, 0, 0, 0, 0, 0, 0, 1, 0, 247, 0, 1, 0, 0, 0, 0, 0, 0, 0, 0],
     [0, 0, 0, 0, 0, 0, 0, 0, 0, 0, 0, 0, 12, 0, 0, 0, 0, 0, 0, 0, 0, 0, 0, 64, 0, 0, 0, 0, 0, 64, 0, 11, 0, 1],
     [0]]"

definition kprobe_elf_1 :: "byte list" where
  "kprobe_elf_1 =
    concat
    [[0, 46, 115, 116, 114, 116, 97, 98, 0, 46, 115, 121, 109, 116, 97, 98, 0, 107, 112, 114],
     [111, 98, 101, 47, 100, 111, 95, 117, 110, 108, 105, 110, 107, 97, 116, 0, 107, 114, 101, 116],
     [112, 114, 111, 98, 101, 47, 100, 111, 95, 117, 110, 108, 105, 110, 107, 97, 116, 0, 108, 105],
     [99, 101, 110, 115, 101, 0, 46, 114, 111, 100, 97, 116, 97, 0, 107, 112, 114, 111, 98, 101],
     [46, 98, 112, 102, 46, 99, 0, 95, 95, 95, 95, 100, 111, 95, 117, 110, 108, 105, 110, 107],
     [97, 116, 46, 95, 95, 95, 95, 102, 109, 116, 0, 95, 95, 95, 95, 100, 111, 95, 117, 110],
     [108, 105, 110, 107, 97, 116, 95, 101, 120, 105, 116, 46, 95, 95, 95, 95, 102, 109, 116, 0],
     [100, 111, 95, 117, 110, 108, 105, 110, 107, 97, 116, 0, 100, 111, 95, 117, 110, 108, 105, 110],
     [107, 97, 116, 95, 101, 120, 105, 116, 0, 76, 73, 67, 69, 78, 83, 69, 0, 46, 114, 101],
     [108, 107, 112, 114, 111, 98, 101, 47, 100, 111, 95, 117, 110, 108, 105, 110, 107, 97, 116, 0],
     [46, 114, 101, 108, 107, 114, 101, 116, 112, 114, 111, 98, 101, 47, 100, 111, 95, 117, 110],
     [108, 105, 110, 107, 97, 116, 0, 46, 66, 84, 70, 0, 46, 66, 84, 70, 46, 101, 120, 116, 0]]"

definition kprobe_elf_2 :: "byte list" where
  "kprobe_elf_2 =
    concat
    [[0, 0, 0, 0, 0, 0, 0, 0, 0, 0, 0, 0, 0, 0, 0, 0, 0, 0, 0, 0, 0, 0, 0, 0, 74, 0, 0, 0, 4, 0, 241, 255, 0, 0, 0],
     [0, 0, 0, 0, 0, 0, 0, 0, 0, 0, 0, 0, 0, 0, 0, 0, 0, 3, 0, 3, 0, 0, 0, 0, 0, 0, 0, 0, 0, 0, 0, 0, 0, 0, 0, 0, 0],
     [87, 0, 0, 0, 1, 0, 6, 0, 0, 0, 0, 0, 0, 0, 0, 0, 38, 0, 0, 0, 0, 0, 0, 0, 0, 0, 0, 0, 3, 0, 4, 0, 0],
     [0, 0, 0, 0, 0, 0, 0, 0, 0, 0, 0, 0, 0, 0, 0, 111, 0, 0, 0, 1, 0, 6, 0, 38, 0, 0, 0, 0, 0, 0, 0, 34, 0, 0],
     [0, 0, 0, 0, 0, 0, 0, 0, 0, 3, 0, 6, 0, 0, 0, 0, 0, 0, 0, 0, 0, 0, 0, 0, 0, 0, 0, 0, 0, 140, 0, 0, 0, 18, 0],
     [3, 0, 0, 0, 0, 0, 0, 0, 0, 0, 152, 0, 0, 0, 0, 0, 0, 0, 152, 0, 0, 0, 18, 0, 4, 0, 0, 0, 0, 0, 0, 0, 0, 0],
     [88, 0, 0, 0, 0, 0, 0, 0, 169, 0, 0, 0, 17, 0, 5, 0, 0, 0, 0, 0, 0, 0, 0, 0, 13, 0, 0, 0, 0, 0, 0, 0]]"

definition kprobe_elf_3 :: "byte list" where
  "kprobe_elf_3 =
    concat
    [[121],
     [22, 8, 0, 0, 0, 0, 0, 133, 0, 0, 0, 14, 0, 0, 0, 191, 7, 0, 0, 0, 0, 0, 0, 183, 1, 0, 0, 0, 0, 0, 0],
     [15, 22, 0, 0, 0, 0, 0, 0, 191, 161, 0, 0, 0, 0, 0, 0, 7, 1, 0, 0, 248, 255, 255, 255, 183, 2, 0],
     [0, 8, 0, 0, 0, 191, 99, 0, 0, 0, 0, 0, 0, 133, 0, 0, 0, 113, 0, 0, 0, 121, 164, 248, 255, 0, 0, 0, 0],
     [119, 7, 0, 0, 32, 0, 0, 0, 24, 1, 0, 0, 0, 0, 0, 0, 0, 0, 0, 0, 0, 0, 0, 0, 183, 2, 0, 0, 38, 0, 0],
     [0, 191, 115, 0, 0, 0, 0, 0, 0, 133, 0, 0, 0, 6, 0, 0, 0, 183, 0, 0, 0, 0, 0, 0, 0, 149, 0, 0, 0, 0, 0, 0, 0]]"

definition kprobe_elf_4 :: "byte list" where
  "kprobe_elf_4 =
    concat
    [[121, 22, 0, 0, 0, 0, 0, 0, 133, 0, 0, 0, 14, 0, 0, 0, 119, 0, 0, 0, 32, 0, 0, 0, 24, 1, 0, 0, 38, 0],
     [0, 0, 0, 0, 0, 0, 0, 0, 0, 0, 183, 2, 0, 0, 34, 0, 0, 0, 191, 3, 0, 0, 0, 0, 0, 0, 191, 100, 0, 0, 0, 0],
     [0, 0, 133, 0, 0, 0, 6, 0, 0, 0, 183, 0, 0, 0, 0, 0, 0, 0, 149, 0, 0, 0, 0, 0, 0, 0]]"

definition kprobe_elf_5 :: "byte list" where
  "kprobe_elf_5 =
    concat
    [[68, 117, 97, 108],
     [32, 66, 83, 68, 47, 71, 80, 76, 0]]"

definition kprobe_elf_6 :: "byte list" where
  "kprobe_elf_6 =
    concat
    [[75, 80, 82, 79, 66, 69, 32, 69, 78, 84, 82],
     [89, 32, 112, 105, 100, 32, 61, 32, 37, 100, 44, 32, 102, 105, 108, 101, 110, 97, 109],
     [101, 32, 61, 32, 37, 115, 10, 0, 75, 80, 82, 79, 66, 69, 32, 69, 88, 73, 84, 58],
     [32, 112, 105, 100, 32, 61, 32, 37, 100, 44, 32, 114, 101, 116, 32, 61, 32, 37, 108],
     [100, 10, 0, 0, 0, 0]]"

definition kprobe_elf_7 :: "byte list" where
  "kprobe_elf_7 =
    concat
    [[96, 0, 0, 0, 0, 0, 0, 0, 1, 0, 0, 0, 6, 0, 0, 0]]"

definition kprobe_elf_8 :: "byte list" where
  "kprobe_elf_8 =
    concat
    [[24, 0, 0, 0, 0, 0, 0, 0, 1, 0],
     [0, 0, 6, 0, 0, 0]]"

definition kprobe_elf_9 :: "byte list" where
  "kprobe_elf_9 =
    concat
    [[159, 235, 1, 0, 24, 0, 0, 0, 0, 0, 0, 0, 160, 3, 0, 0, 160, 3, 0, 0, 73, 3],
     [0, 0, 0, 0, 0, 0, 0, 0, 0, 2, 2, 0, 0, 0, 1, 0, 0, 0, 6, 0, 0, 4, 64, 1, 0, 0, 0, 0, 0, 0, 3],
     [0, 0, 0, 0, 0, 0, 0, 9, 0, 0, 0, 10, 0, 0, 0, 128, 8, 0, 0, 17, 0, 0, 0, 12, 0, 0, 0, 192, 8, 0, 0],
     [27, 0, 0, 0, 15, 0, 0, 0, 224, 8, 0, 0, 31, 0, 0, 0, 10, 0, 0, 0, 0, 9, 0, 0, 42, 0, 0, 0, 18, 0],
     [0, 0, 64, 9, 0, 0, 0, 0, 0, 0, 2, 0, 0, 5, 16, 1, 0, 0, 53, 0, 0, 0, 4, 0, 0, 0, 0, 0, 0, 0, 0],
     [0, 0, 0, 9, 0, 0, 0, 0, 0, 0, 0, 63, 0, 0, 0, 4, 0, 0, 4, 16, 1, 0, 0, 76, 0, 0, 0, 7, 0, 0, 0],
     [0, 0, 0, 0, 81, 0, 0, 0, 5, 0, 0, 0, 192, 7, 0, 0, 84, 0, 0, 0, 5, 0, 0, 0, 0, 8, 0, 0, 87, 0, 0],
     [0, 5, 0, 0, 0, 64, 8, 0, 0, 94, 0, 0, 0, 0, 0, 0, 8, 6, 0, 0, 0, 100, 0, 0, 0, 0, 0, 0, 1, 8],
     [0, 0, 0, 64, 0, 0, 0, 0, 0, 0, 0, 0, 0, 0, 3, 0, 0, 0, 0, 5, 0, 0, 0, 8, 0, 0, 0, 31, 0, 0, 0, 119, 0],
     [0, 0, 0, 0, 0, 1, 4, 0, 0, 0, 32, 0, 0, 0, 0, 0, 0, 0, 4, 0, 0, 4, 16, 1, 0, 0, 76, 0, 0, 0],
     [11, 0, 0, 0, 0, 0, 0, 0, 81, 0, 0, 0, 10, 0, 0, 0, 192, 7, 0, 0, 84, 0, 0, 0, 10, 0, 0, 0, 0, 8, 0],
     [0, 87, 0, 0, 0, 10, 0, 0, 0, 64, 8, 0, 0, 139, 0, 0, 0, 0, 0, 0, 8, 5, 0, 0, 0, 0, 0, 0, 0, 0, 0, 0],
     [3, 0, 0, 0, 0, 10, 0, 0, 0, 8, 0, 0, 0, 31, 0, 0, 0, 143, 0, 0, 0, 0, 0, 0, 8, 13, 0, 0, 0, 147, 0],
     [0, 0, 0, 0, 0, 8, 14, 0, 0, 0, 153, 0, 0, 0, 0, 0, 0, 1, 4, 0, 0, 0, 32, 0, 0, 1, 157, 0, 0, 0, 0],
     [0, 0, 8, 16, 0, 0, 0, 161, 0, 0, 0, 0, 0, 0, 8, 17, 0, 0, 0, 167, 0, 0, 0, 0, 0, 0, 1, 4, 0, 0, 0],
     [32, 0, 0, 0, 180, 0, 0, 0, 2, 0, 0, 4, 24, 0, 0, 0, 198, 0, 0, 0, 19, 0, 0, 0, 0, 0, 0, 0, 205, 0, 0],
     [0, 10, 0, 0, 0, 128, 0, 0, 0, 210, 0, 0, 0, 2, 0, 0, 4, 16, 0, 0, 0, 223, 0, 0, 0, 10, 0, 0, 0, 0, 0],
     [0, 0, 226, 0, 0, 0, 10, 0, 0, 0, 64, 0, 0, 0, 0, 0, 0, 0, 1, 0, 0, 13, 14, 0, 0, 0, 229, 0, 0, 0, 1],
     [0, 0, 0, 233, 0, 0, 0, 1, 0, 0, 12, 20, 0, 0, 0, 245, 0, 0, 0, 5, 0, 0, 4, 32, 0, 0, 0, 254, 0, 0],
     [0, 23, 0, 0, 0, 0, 0, 0, 0, 3, 1, 0, 0, 23, 0, 0, 0, 64, 0, 0, 0, 8, 1, 0, 0, 26, 0, 0, 0, 128],
     [0, 0, 0, 15, 1, 0, 0, 28, 0, 0, 0, 192, 0, 0, 0, 21, 1, 0, 0, 30, 0, 0, 0, 0, 1, 0, 0, 0, 0, 0, 0],
     [0, 0, 0, 2, 24, 0, 0, 0, 0, 0, 0, 0, 0, 0, 0, 10, 25, 0, 0, 0, 27, 1, 0, 0, 0, 0, 0, 1, 1, 0, 0],
     [0, 8, 0, 0, 1, 32, 1, 0, 0, 0, 0, 0, 8, 27, 0, 0, 0, 0, 0, 0, 0, 1, 0, 0, 4, 4, 0, 0, 0],
     [41, 1, 0, 0, 14, 0, 0, 0, 0, 0, 0, 0, 0, 0, 0, 0, 0, 0, 0, 2, 29, 0, 0, 0, 49, 1, 0, 0, 0, 0, 0],
     [7, 0, 0, 0, 0, 0, 0, 0, 0, 0, 0, 0, 3, 0, 0, 0, 0, 24, 0, 0, 0, 8, 0, 0, 0, 0, 0, 0, 0, 61, 1, 0, 0],
     [1, 0, 0, 12, 20, 0, 0, 0, 0, 0, 0, 0, 0, 0, 0, 3, 0, 0, 0, 0, 25, 0, 0, 0, 8, 0, 0, 0, 13, 0, 0, 0],
     [78, 1, 0, 0, 0, 0, 0, 14, 32, 0, 0, 0, 1, 0, 0, 0, 0, 0, 0, 0, 0, 0, 0, 3, 0, 0, 0, 0, 24, 0, 0, 0],
     [8, 0, 0, 0, 38, 0, 0, 0, 86, 1, 0, 0, 0, 0, 0, 14, 34, 0, 0, 0, 0, 0, 0, 0, 0, 0, 0, 0, 0, 0, 0, 3],
     [0, 0, 0, 0, 24, 0, 0, 0, 8, 0, 0, 0, 34, 0, 0, 0, 110, 1, 0, 0, 0, 0, 0, 14, 36, 0, 0, 0, 0, 0, 0, 0],
     [16, 3, 0, 0, 1, 0, 0, 15, 13, 0, 0, 0, 33, 0, 0, 0, 0, 0, 0, 0, 13, 0, 0, 0, 24, 3, 0, 0, 2],
     [0, 0, 15, 72, 0, 0, 0, 35, 0, 0, 0, 0, 0, 0, 0, 38, 0, 0, 0, 37, 0, 0, 0, 38, 0, 0, 0, 34, 0, 0, 0, 0],
     [112, 116, 95, 114, 101, 103, 115, 0, 111, 114, 105, 103, 95, 120, 48, 0, 115, 121, 115, 99],
     [97, 108, 108, 110, 111, 0, 112, 109, 114, 0, 115, 100, 101, 105, 95, 116, 116, 98, 114, 49, 0],
     [115, 116, 97, 99, 107, 102, 114, 97, 109, 101, 0, 117, 115, 101, 114, 95, 114, 101, 103, 115],
     [0, 117, 115, 101, 114, 95, 112, 116, 95, 114, 101, 103, 115, 0, 114, 101, 103, 115, 0, 115, 112],
     [0, 112, 99, 0, 112, 115, 116, 97, 116, 101, 0, 95, 95, 117, 54, 52, 0, 117, 110, 115, 105],
     [103, 110, 101, 100, 32, 108, 111, 110, 103, 32, 108, 111, 110, 103, 0, 95, 95, 65, 82, 82],
     [65, 89, 95, 83, 73, 90, 69, 95, 84, 89, 80, 69, 95, 95, 0, 117, 54, 52, 0, 115],
     [51, 50, 0, 95, 95, 115, 51, 50, 0, 105, 110, 116, 0, 117, 51, 50, 0, 95, 95, 117, 51],
     [50, 0, 117, 110, 115, 105, 103, 110, 101, 100, 32, 105, 110, 116, 0, 102, 114, 97, 109, 101],
     [95, 114, 101, 99, 111, 114, 100, 95, 109, 101, 116, 97, 0, 114, 101, 99, 111, 114, 100, 0],
     [116, 121, 112, 101, 0, 102, 114, 97, 109, 101, 95, 114, 101, 99, 111, 114, 100, 0, 102, 112, 0],
     [108, 114, 0, 99, 116, 120, 0, 100, 111, 95, 117, 110, 108, 105, 110, 107, 97, 116, 0, 102, 105],
     [108, 101, 110, 97, 109, 101, 0, 110, 97, 109, 101, 0, 117, 112, 116, 114, 0, 114, 101, 102, 99],
     [110, 116, 0, 97, 110, 97, 109, 101, 0, 105, 110, 97, 109, 101, 0, 99, 104, 97, 114, 0, 97],
     [116, 111, 109, 105, 99, 95, 116, 0, 99, 111, 117, 110, 116, 101, 114, 0, 97, 117, 100, 105],
     [116, 95, 110, 97, 109, 101, 115, 0, 100, 111, 95, 117, 110, 108, 105, 110, 107, 97, 116, 95],
     [101, 120, 105, 116, 0, 76, 73, 67, 69, 78, 83, 69, 0, 95, 95, 95, 95, 100, 111, 95],
     [117, 110, 108, 105, 110, 107, 97, 116, 46, 95, 95, 95, 95, 102, 109, 116, 0, 95, 95, 95],
     [95, 100, 111, 95, 117, 110, 108, 105, 110, 107, 97, 116, 95, 101, 120, 105, 116, 46, 95],
     [95, 95, 95, 102, 109, 116, 0, 47, 104, 111, 109, 101, 47, 108, 111, 115, 116, 99, 97, 99],
     [104, 101, 47, 99, 111, 100, 101, 47, 104, 101, 108, 108, 111, 95, 101, 66, 80, 70, 47],
     [101, 120, 97, 109, 112, 108, 101, 115, 47, 99, 47, 107, 112, 114, 111, 98, 101, 46, 98],
     [112, 102, 46, 99, 0, 105, 110, 116, 32, 66, 80, 70, 95, 75, 80, 82, 79, 66, 69, 40],
     [100, 111, 95, 117, 110, 108, 105, 110, 107, 97, 116, 44, 32, 105, 110, 116, 32, 100, 102],
     [100, 44, 32, 115, 116, 114, 117, 99, 116, 32, 102, 105, 108, 101, 110, 97, 109, 101, 32],
     [42, 110, 97, 109, 101, 41, 0, 9, 112, 105, 100, 32, 61, 32, 98, 112, 102, 95, 103, 101],
     [116, 95, 99, 117, 114, 114, 101, 110, 116, 95, 112, 105, 100, 95, 116, 103, 105, 100, 40],
     [41, 32, 62, 62, 32, 51, 50, 59, 0, 9, 102, 105, 108, 101, 110, 97, 109, 101, 32, 61],
     [32, 66, 80, 70, 95, 67, 79, 82, 69, 95, 82, 69, 65, 68, 40, 110, 97, 109, 101],
     [44, 32, 110, 97, 109, 101, 41, 59, 0, 9, 98, 112, 102, 95, 112, 114, 105, 110, 116, 107],
     [40, 34, 75, 80, 82, 79, 66, 69, 32, 69, 78, 84, 82, 89, 32, 112, 105, 100, 32],
     [61, 32, 37, 100, 44, 32, 102, 105, 108, 101, 110, 97, 109, 101, 32, 61, 32, 37, 115],
     [92, 110, 34, 44, 32, 112, 105, 100, 44, 32, 102, 105, 108, 101, 110, 97, 109, 101, 41],
     [59, 0, 105, 110, 116, 32, 66, 80, 70, 95, 75, 82, 69, 84, 80, 82, 79, 66, 69, 40],
     [100, 111, 95, 117, 110, 108, 105, 110, 107, 97, 116, 95, 101, 120, 105, 116, 44, 32, 108],
     [111, 110, 103, 32, 114, 101, 116, 41, 0, 9, 98, 112, 102, 95, 112, 114, 105, 110, 116, 107],
     [40, 34, 75, 80, 82, 79, 66, 69, 32, 69, 88, 73, 84, 58, 32, 112, 105, 100, 32],
     [61, 32, 37, 100, 44, 32, 114, 101, 116, 32, 61, 32, 37, 108, 100, 92, 110, 34, 44],
     [32, 112, 105, 100, 44, 32, 114, 101, 116, 41, 59, 0, 48, 58, 48, 58, 49, 0, 48, 58],
     [48, 0, 48, 58, 48, 58, 48, 0, 108, 105, 99, 101, 110, 115, 101, 0, 46, 114, 111, 100, 97],
     [116, 97, 0, 107, 112, 114, 111, 98, 101, 47, 100, 111, 95, 117, 110, 108, 105, 110, 107, 97],
     [116, 0, 107, 114, 101, 116, 112, 114, 111, 98, 101, 47, 100, 111, 95, 117, 110, 108, 105, 110],
     [107, 97, 116, 0, 0, 0, 0, 0, 0, 0, 0]]"

definition kprobe_elf_10 :: "byte list" where
  "kprobe_elf_10 =
    concat
    [[159, 235, 1, 0, 32, 0, 0, 0, 0, 0, 0, 0, 36, 0, 0, 0, 36, 0, 0],
     [0, 228, 0, 0, 0, 8, 1, 0, 0, 68, 0, 0, 0, 8, 0, 0, 0, 32, 3, 0, 0, 1, 0, 0, 0, 0, 0, 0, 0, 21],
     [0, 0, 0, 51, 3, 0, 0, 1, 0, 0, 0, 0, 0, 0, 0, 31, 0, 0, 0, 16, 0, 0, 0, 32, 3, 0, 0, 8, 0, 0, 0],
     [0, 0, 0, 0, 139, 1, 0, 0, 195, 1, 0, 0, 5, 44, 0, 0, 8, 0, 0, 0, 139, 1, 0, 0, 255, 1, 0, 0],
     [8, 64, 0, 0, 48, 0, 0, 0, 139, 1, 0, 0, 0, 0, 0, 0, 0, 0, 0, 0, 56, 0, 0, 0, 139, 1, 0, 0, 40],
     [2, 0, 0, 13, 68, 0, 0, 80, 0, 0, 0, 139, 1, 0, 0, 40, 2, 0, 0, 13, 68, 0, 0, 88, 0, 0, 0],
     [139, 1, 0, 0, 255, 1, 0, 0, 35, 64, 0, 0, 96, 0, 0, 0, 139, 1, 0, 0, 79, 2, 0, 0, 2, 72],
     [0, 0, 136, 0, 0, 0, 139, 1, 0, 0, 195, 1, 0, 0, 5, 44, 0, 0, 51, 3, 0, 0, 5, 0, 0, 0, 0, 0, 0],
     [0, 139, 1, 0, 0, 149, 2, 0, 0, 5, 92, 0, 0, 8, 0, 0, 0, 139, 1, 0, 0, 255, 1, 0, 0, 8],
     [108, 0, 0, 16, 0, 0, 0, 139, 1, 0, 0, 255, 1, 0, 0, 35, 108, 0, 0, 24, 0, 0, 0, 139, 1, 0, 0],
     [195, 2, 0, 0, 2, 112, 0, 0, 72, 0, 0, 0, 139, 1, 0, 0, 149, 2, 0, 0, 5, 92, 0, 0, 16, 0, 0],
     [0, 32, 3, 0, 0, 2, 0, 0, 0, 0, 0, 0, 0, 4, 0, 0, 0, 0, 3, 0, 0, 0, 0, 0, 0, 24, 0, 0, 0, 22, 0, 0],
     [0, 6, 3, 0, 0, 0, 0, 0, 0, 51, 3, 0, 0, 1, 0, 0, 0, 0, 0, 0, 0, 4, 0, 0, 0, 10, 3, 0, 0, 0, 0],
     [0, 0, 0, 0, 0, 0]]"

definition kprobe_elf_shdrs :: "byte list list" where
  "kprobe_elf_shdrs =
    [[0, 0, 0, 0, 0, 0, 0, 0, 0, 0, 0, 0, 0, 0, 0, 0, 0, 0, 0, 0, 0, 0, 0, 0, 0, 0, 0, 0, 0, 0, 0, 0,
      0, 0, 0, 0, 0, 0, 0, 0, 0, 0, 0, 0, 0, 0, 0, 0, 0, 0, 0, 0, 0, 0, 0, 0, 0, 0, 0, 0, 0, 0, 0, 0],
     [1, 0, 0, 0, 3, 0, 0, 0, 32, 0, 0, 0, 0, 0, 0, 0, 0, 0, 0, 0, 0, 0, 0, 0, 64, 0, 0, 0, 0, 0, 0, 0,
      240, 0, 0, 0, 0, 0, 0, 0, 0, 0, 0, 0, 0, 0, 0, 0, 1, 0, 0, 0, 0, 0, 0, 0, 0, 0, 0, 0, 0, 0, 0, 0],
     [9, 0, 0, 0, 2, 0, 0, 0, 0, 0, 0, 0, 0, 0, 0, 0, 0, 0, 0, 0, 0, 0, 0, 0, 48, 1, 0, 0, 0, 0, 0, 0,
      240, 0, 0, 0, 0, 0, 0, 0, 1, 0, 0, 0, 0, 0, 0, 0, 8, 0, 0, 0, 0, 0, 0, 0, 24, 0, 0, 0, 0, 0, 0, 0],
     [17, 0, 0, 0, 1, 0, 0, 0, 6, 0, 0, 0, 0, 0, 0, 0, 0, 0, 0, 0, 0, 0, 0, 0, 32, 2, 0, 0, 0, 0, 0, 0,
      152, 0, 0, 0, 0, 0, 0, 0, 0, 0, 0, 0, 0, 0, 0, 0, 8, 0, 0, 0, 0, 0, 0, 0, 0, 0, 0, 0, 0, 0, 0, 0],
     [36, 0, 0, 0, 1, 0, 0, 0, 6, 0, 0, 0, 0, 0, 0, 0, 0, 0, 0, 0, 0, 0, 0, 0, 184, 2, 0, 0, 0, 0, 0, 0,
      88, 0, 0, 0, 0, 0, 0, 0, 0, 0, 0, 0, 0, 0, 0, 0, 8, 0, 0, 0, 0, 0, 0, 0, 0, 0, 0, 0, 0, 0, 0, 0],
     [58, 0, 0, 0, 1, 0, 0, 0, 3, 0, 0, 0, 0, 0, 0, 0, 0, 0, 0, 0, 0, 0, 0, 0, 16, 3, 0, 0, 0, 0, 0, 0,
      13, 0, 0, 0, 0, 0, 0, 0, 0, 0, 0, 0, 0, 0, 0, 0, 1, 0, 0, 0, 0, 0, 0, 0, 0, 0, 0, 0, 0, 0, 0, 0],
     [66, 0, 0, 0, 1, 0, 0, 0, 2, 0, 0, 0, 0, 0, 0, 0, 0, 0, 0, 0, 0, 0, 0, 0, 29, 3, 0, 0, 0, 0, 0, 0,
      72, 0, 0, 0, 0, 0, 0, 0, 0, 0, 0, 0, 0, 0, 0, 0, 1, 0, 0, 0, 0, 0, 0, 0, 0, 0, 0, 0, 0, 0, 0, 0],
     [177, 0, 0, 0, 9, 0, 0, 0, 64, 0, 0, 0, 0, 0, 0, 0, 0, 0, 0, 0, 0, 0, 0, 0, 104, 3, 0, 0, 0, 0, 0, 0,
      16, 0, 0, 0, 0, 0, 0, 0, 2, 0, 0, 0, 3, 0, 0, 0, 8, 0, 0, 0, 0, 0, 0, 0, 16, 0, 0, 0, 0, 0, 0, 0],
     [200, 0, 0, 0, 9, 0, 0, 0, 64, 0, 0, 0, 0, 0, 0, 0, 0, 0, 0, 0, 0, 0, 0, 0, 120, 3, 0, 0, 0, 0, 0, 0,
      16, 0, 0, 0, 0, 0, 0, 0, 2, 0, 0, 0, 4, 0, 0, 0, 8, 0, 0, 0, 0, 0, 0, 0, 16, 0, 0, 0, 0, 0, 0, 0],
     [226, 0, 0, 0, 1, 0, 0, 0, 0, 0, 0, 0, 0, 0, 0, 0, 0, 0, 0, 0, 0, 0, 0, 0, 136, 3, 0, 0, 0, 0, 0, 0,
      1, 7, 0, 0, 0, 0, 0, 0, 0, 0, 0, 0, 0, 0, 0, 0, 8, 0, 0, 0, 0, 0, 0, 0, 0, 0, 0, 0, 0, 0, 0, 0],
     [231, 0, 0, 0, 1, 0, 0, 0, 0, 0, 0, 0, 0, 0, 0, 0, 0, 0, 0, 0, 0, 0, 0, 0, 144, 10, 0, 0, 0, 0, 0, 0,
      108, 1, 0, 0, 0, 0, 0, 0, 0, 0, 0, 0, 0, 0, 0, 0, 8, 0, 0, 0, 0, 0, 0, 0, 0, 0, 0, 0, 0, 0, 0, 0]]"

definition kprobe_elf_body :: "byte list list" where
  "kprobe_elf_body = [kprobe_elf_1, kprobe_elf_2, kprobe_elf_3, kprobe_elf_4, kprobe_elf_5, kprobe_elf_6, kprobe_elf_7, kprobe_elf_8, kprobe_elf_9, kprobe_elf_10]"

definition kprobe_bpf__elf_bytes :: "byte list" where
  "kprobe_bpf__elf_bytes = concat (kprobe_elf_hdr # kprobe_elf_body) @ concat kprobe_elf_shdrs"

section \<open>The parts of the object\<close>

text \<open>The sizes of the pieces. The definitions stay folded: a piece is only opened where it is read.\<close>

lemma kprobe_elf_lengths [simp]:
  "length kprobe_elf_hdr = 64"
  "length kprobe_elf_1 = 240"
  "length kprobe_elf_2 = 240"
  "length kprobe_elf_3 = 152"
  "length kprobe_elf_4 = 88"
  "length kprobe_elf_5 = 13"
  "length kprobe_elf_6 = 75"
  "length kprobe_elf_7 = 16"
  "length kprobe_elf_8 = 16"
  "length kprobe_elf_9 = 1800"
  "length kprobe_elf_10 = 368"
  by (simp_all only: piece_length kprobe_elf_hdr_def kprobe_elf_1_def kprobe_elf_2_def kprobe_elf_3_def
    kprobe_elf_4_def kprobe_elf_5_def kprobe_elf_6_def kprobe_elf_7_def kprobe_elf_8_def kprobe_elf_9_def
    kprobe_elf_10_def)

lemma kprobe_elf_pieces: "object_pieces kprobe_bpf__elf_bytes (kprobe_elf_hdr # kprobe_elf_body) kprobe_elf_shdrs"
proof -
  have "le_at kprobe_elf_hdr 40 8 = 3072" "le_at kprobe_elf_hdr 60 2 = 11" "le_at kprobe_elf_hdr 62 2 = 1"
    by (simp_all add: kprobe_elf_hdr_def elf_eval)
  moreover have "list_all (\<lambda>h. length h = 64) kprobe_elf_shdrs" "length kprobe_elf_shdrs = 11"
    by (simp_all add: kprobe_elf_shdrs_def)
  ultimately show ?thesis
    by (simp add: object_pieces_def kprobe_bpf__elf_bytes_def kprobe_elf_body_def)
qed

lemma kprobe_elf_headers:
  "elf_section_at kprobe_bpf__elf_bytes 0 = \<lparr>sec_name = 0, sec_type = 0, sec_offset = 0, sec_size = 0, sec_link = 0, sec_info = 0\<rparr>"
  "elf_section_at kprobe_bpf__elf_bytes 1 = \<lparr>sec_name = 1, sec_type = 3, sec_offset = 64, sec_size = 240, sec_link = 0, sec_info = 0\<rparr>"
  "elf_section_at kprobe_bpf__elf_bytes 2 = \<lparr>sec_name = 9, sec_type = 2, sec_offset = 304, sec_size = 240, sec_link = 1, sec_info = 0\<rparr>"
  "elf_section_at kprobe_bpf__elf_bytes 3 = \<lparr>sec_name = 17, sec_type = 1, sec_offset = 544, sec_size = 152, sec_link = 0, sec_info = 0\<rparr>"
  "elf_section_at kprobe_bpf__elf_bytes 4 = \<lparr>sec_name = 36, sec_type = 1, sec_offset = 696, sec_size = 88, sec_link = 0, sec_info = 0\<rparr>"
  "elf_section_at kprobe_bpf__elf_bytes 5 = \<lparr>sec_name = 58, sec_type = 1, sec_offset = 784, sec_size = 13, sec_link = 0, sec_info = 0\<rparr>"
  "elf_section_at kprobe_bpf__elf_bytes 6 = \<lparr>sec_name = 66, sec_type = 1, sec_offset = 797, sec_size = 72, sec_link = 0, sec_info = 0\<rparr>"
  "elf_section_at kprobe_bpf__elf_bytes 7 = \<lparr>sec_name = 177, sec_type = 9, sec_offset = 872, sec_size = 16, sec_link = 2, sec_info = 3\<rparr>"
  "elf_section_at kprobe_bpf__elf_bytes 8 = \<lparr>sec_name = 200, sec_type = 9, sec_offset = 888, sec_size = 16, sec_link = 2, sec_info = 4\<rparr>"
  "elf_section_at kprobe_bpf__elf_bytes 9 = \<lparr>sec_name = 226, sec_type = 1, sec_offset = 904, sec_size = 1793, sec_link = 0, sec_info = 0\<rparr>"
  "elf_section_at kprobe_bpf__elf_bytes 10 = \<lparr>sec_name = 231, sec_type = 1, sec_offset = 2704, sec_size = 364, sec_link = 0, sec_info = 0\<rparr>"
  by (simp_all add: object_section [OF kprobe_elf_pieces] kprobe_elf_shdrs_def elf_section_header_def elf_eval)

lemma kprobe_elf_flags:
  "section_flags kprobe_bpf__elf_bytes 0 = 0"
  "section_flags kprobe_bpf__elf_bytes 1 = 32"
  "section_flags kprobe_bpf__elf_bytes 2 = 0"
  "section_flags kprobe_bpf__elf_bytes 3 = 6"
  "section_flags kprobe_bpf__elf_bytes 4 = 6"
  "section_flags kprobe_bpf__elf_bytes 5 = 3"
  "section_flags kprobe_bpf__elf_bytes 6 = 2"
  "section_flags kprobe_bpf__elf_bytes 7 = 64"
  "section_flags kprobe_bpf__elf_bytes 8 = 64"
  "section_flags kprobe_bpf__elf_bytes 9 = 0"
  "section_flags kprobe_bpf__elf_bytes 10 = 0"
  by (simp_all add: object_section [OF kprobe_elf_pieces] kprobe_elf_shdrs_def elf_eval)

lemma kprobe_elf_contents:
  "section_bytes kprobe_bpf__elf_bytes 0 = []"
  "section_bytes kprobe_bpf__elf_bytes 1 = kprobe_elf_1"
  "section_bytes kprobe_bpf__elf_bytes 2 = kprobe_elf_2"
  "section_bytes kprobe_bpf__elf_bytes 3 = kprobe_elf_3"
  "section_bytes kprobe_bpf__elf_bytes 4 = kprobe_elf_4"
  "section_bytes kprobe_bpf__elf_bytes 5 = kprobe_elf_5"
  "section_bytes kprobe_bpf__elf_bytes 6 = take 72 kprobe_elf_6"
  "section_bytes kprobe_bpf__elf_bytes 7 = kprobe_elf_7"
  "section_bytes kprobe_bpf__elf_bytes 8 = kprobe_elf_8"
  "section_bytes kprobe_bpf__elf_bytes 9 = take 1793 kprobe_elf_9"
  "section_bytes kprobe_bpf__elf_bytes 10 = take 364 kprobe_elf_10"
proof -
  show "section_bytes kprobe_bpf__elf_bytes 0 = []"
    by (simp add: section_bytes_def kprobe_elf_headers elf_section.defs)
  show "section_bytes kprobe_bpf__elf_bytes 1 = kprobe_elf_1"
    using object_section_bytes [OF kprobe_elf_pieces kprobe_elf_headers(2), of 1] by (simp add: kprobe_elf_body_def)
  show "section_bytes kprobe_bpf__elf_bytes 2 = kprobe_elf_2"
    using object_section_bytes [OF kprobe_elf_pieces kprobe_elf_headers(3), of 2] by (simp add: kprobe_elf_body_def)
  show "section_bytes kprobe_bpf__elf_bytes 3 = kprobe_elf_3"
    using object_section_bytes [OF kprobe_elf_pieces kprobe_elf_headers(4), of 3] by (simp add: kprobe_elf_body_def)
  show "section_bytes kprobe_bpf__elf_bytes 4 = kprobe_elf_4"
    using object_section_bytes [OF kprobe_elf_pieces kprobe_elf_headers(5), of 4] by (simp add: kprobe_elf_body_def)
  show "section_bytes kprobe_bpf__elf_bytes 5 = kprobe_elf_5"
    using object_section_bytes [OF kprobe_elf_pieces kprobe_elf_headers(6), of 5] by (simp add: kprobe_elf_body_def)
  show "section_bytes kprobe_bpf__elf_bytes 6 = take 72 kprobe_elf_6"
    using object_section_bytes [OF kprobe_elf_pieces kprobe_elf_headers(7), of 6] by (simp add: kprobe_elf_body_def)
  show "section_bytes kprobe_bpf__elf_bytes 7 = kprobe_elf_7"
    using object_section_bytes [OF kprobe_elf_pieces kprobe_elf_headers(8), of 7] by (simp add: kprobe_elf_body_def)
  show "section_bytes kprobe_bpf__elf_bytes 8 = kprobe_elf_8"
    using object_section_bytes [OF kprobe_elf_pieces kprobe_elf_headers(9), of 8] by (simp add: kprobe_elf_body_def)
  show "section_bytes kprobe_bpf__elf_bytes 9 = take 1793 kprobe_elf_9"
    using object_section_bytes [OF kprobe_elf_pieces kprobe_elf_headers(10), of 9] by (simp add: kprobe_elf_body_def)
  show "section_bytes kprobe_bpf__elf_bytes 10 = take 364 kprobe_elf_10"
    using object_section_bytes [OF kprobe_elf_pieces kprobe_elf_headers(11), of 10] by (simp add: kprobe_elf_body_def)
qed

lemma kprobe_elf_names:
  "section_name kprobe_bpf__elf_bytes 0 = ''''"
  "section_name kprobe_bpf__elf_bytes 1 = ''.strtab''"
  "section_name kprobe_bpf__elf_bytes 2 = ''.symtab''"
  "section_name kprobe_bpf__elf_bytes 3 = ''kprobe/do_unlinkat''"
  "section_name kprobe_bpf__elf_bytes 4 = ''kretprobe/do_unlinkat''"
  "section_name kprobe_bpf__elf_bytes 5 = ''license''"
  "section_name kprobe_bpf__elf_bytes 6 = ''.rodata''"
  "section_name kprobe_bpf__elf_bytes 7 = ''.relkprobe/do_unlinkat''"
  "section_name kprobe_bpf__elf_bytes 8 = ''.relkretprobe/do_unlinkat''"
  "section_name kprobe_bpf__elf_bytes 9 = ''.BTF''"
  "section_name kprobe_bpf__elf_bytes 10 = ''.BTF.ext''"
  by (simp_all only: object_section_name [OF kprobe_elf_pieces kprobe_elf_contents(2)] kprobe_elf_headers elf_section.simps)
    (simp_all add: elf_eval kprobe_elf_1_def)

lemma kprobe_elf_sections:
  "elf_sections kprobe_bpf__elf_bytes =
    [\<lparr>es_name = '''', es_type = 0, es_flags = 0, es_link = 0, es_info = 0, es_size = 0,
      es_bytes = []\<rparr>,
     \<lparr>es_name = ''.strtab'', es_type = 3, es_flags = 32, es_link = 0, es_info = 0, es_size = 240,
      es_bytes = kprobe_elf_1\<rparr>,
     \<lparr>es_name = ''.symtab'', es_type = 2, es_flags = 0, es_link = 1, es_info = 0, es_size = 240,
      es_bytes = kprobe_elf_2\<rparr>,
     \<lparr>es_name = ''kprobe/do_unlinkat'', es_type = 1, es_flags = 6, es_link = 0, es_info = 0, es_size = 152,
      es_bytes = kprobe_elf_3\<rparr>,
     \<lparr>es_name = ''kretprobe/do_unlinkat'', es_type = 1, es_flags = 6, es_link = 0, es_info = 0, es_size = 88,
      es_bytes = kprobe_elf_4\<rparr>,
     \<lparr>es_name = ''license'', es_type = 1, es_flags = 3, es_link = 0, es_info = 0, es_size = 13,
      es_bytes = kprobe_elf_5\<rparr>,
     \<lparr>es_name = ''.rodata'', es_type = 1, es_flags = 2, es_link = 0, es_info = 0, es_size = 72,
      es_bytes = take 72 kprobe_elf_6\<rparr>,
     \<lparr>es_name = ''.relkprobe/do_unlinkat'', es_type = 9, es_flags = 64, es_link = 2, es_info = 3, es_size = 16,
      es_bytes = kprobe_elf_7\<rparr>,
     \<lparr>es_name = ''.relkretprobe/do_unlinkat'', es_type = 9, es_flags = 64, es_link = 2, es_info = 4, es_size = 16,
      es_bytes = kprobe_elf_8\<rparr>,
     \<lparr>es_name = ''.BTF'', es_type = 1, es_flags = 0, es_link = 0, es_info = 0, es_size = 1793,
      es_bytes = take 1793 kprobe_elf_9\<rparr>,
     \<lparr>es_name = ''.BTF.ext'', es_type = 1, es_flags = 0, es_link = 0, es_info = 0, es_size = 364,
      es_bytes = take 364 kprobe_elf_10\<rparr>]"
proof -
  have "le_at kprobe_bpf__elf_bytes 60 2 = 11"
    using object_piecesD(4) [OF kprobe_elf_pieces] by (simp add: kprobe_elf_shdrs_def)
  moreover have "[0..<11] = [0, 1, 2, 3, 4, 5, 6, 7, 8, 9, 10]"
    by (simp add: upt_rec)
  ultimately show ?thesis
    by (simp only: elf_sections_def list.map read_section_def Let_def kprobe_elf_headers kprobe_elf_flags kprobe_elf_contents
        kprobe_elf_names elf_section.simps)
qed

lemma kprobe_elf_symtab_rows:
  "kprobe_elf_2 =
    concat
     [[0, 0, 0, 0, 0, 0, 0, 0, 0, 0, 0, 0, 0, 0, 0, 0, 0, 0, 0, 0, 0, 0, 0, 0],
      [74, 0, 0, 0, 4, 0, 241, 255, 0, 0, 0, 0, 0, 0, 0, 0, 0, 0, 0, 0, 0, 0, 0, 0],
      [0, 0, 0, 0, 3, 0, 3, 0, 0, 0, 0, 0, 0, 0, 0, 0, 0, 0, 0, 0, 0, 0, 0, 0],
      [87, 0, 0, 0, 1, 0, 6, 0, 0, 0, 0, 0, 0, 0, 0, 0, 38, 0, 0, 0, 0, 0, 0, 0],
      [0, 0, 0, 0, 3, 0, 4, 0, 0, 0, 0, 0, 0, 0, 0, 0, 0, 0, 0, 0, 0, 0, 0, 0],
      [111, 0, 0, 0, 1, 0, 6, 0, 38, 0, 0, 0, 0, 0, 0, 0, 34, 0, 0, 0, 0, 0, 0, 0],
      [0, 0, 0, 0, 3, 0, 6, 0, 0, 0, 0, 0, 0, 0, 0, 0, 0, 0, 0, 0, 0, 0, 0, 0],
      [140, 0, 0, 0, 18, 0, 3, 0, 0, 0, 0, 0, 0, 0, 0, 0, 152, 0, 0, 0, 0, 0, 0, 0],
      [152, 0, 0, 0, 18, 0, 4, 0, 0, 0, 0, 0, 0, 0, 0, 0, 88, 0, 0, 0, 0, 0, 0, 0],
      [169, 0, 0, 0, 17, 0, 5, 0, 0, 0, 0, 0, 0, 0, 0, 0, 13, 0, 0, 0, 0, 0, 0, 0]]"
  by (simp add: kprobe_elf_2_def)

lemma kprobe_elf_symbols:
  "elf_symbols kprobe_bpf__elf_bytes =
    [\<lparr>sym_name = '''', sym_info = 0, sym_shndx = 0, sym_value = 0, sym_size = 0\<rparr>,
     \<lparr>sym_name = ''kprobe.bpf.c'', sym_info = 4, sym_shndx = 65521, sym_value = 0, sym_size = 0\<rparr>,
     \<lparr>sym_name = '''', sym_info = 3, sym_shndx = 3, sym_value = 0, sym_size = 0\<rparr>,
     \<lparr>sym_name = ''____do_unlinkat.____fmt'', sym_info = 1, sym_shndx = 6, sym_value = 0, sym_size = 38\<rparr>,
     \<lparr>sym_name = '''', sym_info = 3, sym_shndx = 4, sym_value = 0, sym_size = 0\<rparr>,
     \<lparr>sym_name = ''____do_unlinkat_exit.____fmt'', sym_info = 1, sym_shndx = 6, sym_value = 38, sym_size = 34\<rparr>,
     \<lparr>sym_name = '''', sym_info = 3, sym_shndx = 6, sym_value = 0, sym_size = 0\<rparr>,
     \<lparr>sym_name = ''do_unlinkat'', sym_info = 18, sym_shndx = 3, sym_value = 0, sym_size = 152\<rparr>,
     \<lparr>sym_name = ''do_unlinkat_exit'', sym_info = 18, sym_shndx = 4, sym_value = 0, sym_size = 88\<rparr>,
     \<lparr>sym_name = ''LICENSE'', sym_info = 17, sym_shndx = 5, sym_value = 0, sym_size = 13\<rparr>]"
  by (simp add: elf_symbols_def kprobe_elf_sections Let_def read_symbol_rows [OF kprobe_elf_symtab_rows] del: upt_rec_numeral)
    (simp add: read_symbol_def elf_eval kprobe_elf_1_def)

lemma kprobe_elf_programs:
  "elf_programs kprobe_bpf__elf_bytes =
    [(''kprobe/do_unlinkat'', decode_program kprobe_elf_3),
     (''kretprobe/do_unlinkat'', decode_program kprobe_elf_4)]"
  by (simp add: elf_programs_def kprobe_elf_sections is_program_def bit_numeral_rec bit_0)

end
