(* ===== verification/Obj_Ksyscall.thy ===== *)
theory Obj_Ksyscall
  imports Elf
begin

text \<open>
  The object file embedded in examples/c/.output/ksyscall.skel.h as a string literal: one list of bytes per line of the
  literal, cut at the borders of the sections; then its section table, its symbols and its programs.
\<close>

section \<open>The literal\<close>

definition ksyscall_elf_hdr :: "byte list" where
  "ksyscall_elf_hdr =
    concat
    [[127, 69, 76, 70, 2, 1, 1, 0, 0, 0, 0, 0, 0, 0, 0, 0, 1, 0, 247, 0, 1, 0, 0, 0, 0, 0, 0, 0, 0],
     [0, 0, 0, 0, 0, 0, 0, 0, 0, 0, 0, 80, 19, 0, 0, 0, 0, 0, 0, 0, 0, 0, 0, 64, 0, 0, 0, 0, 0, 64, 0, 11, 0],
     [1, 0]]"

definition ksyscall_elf_1 :: "byte list" where
  "ksyscall_elf_1 =
    concat
    [[0, 46, 115, 116, 114, 116, 97, 98, 0, 46, 115, 121, 109, 116, 97, 98, 0, 107, 115],
     [121, 115, 99, 97, 108, 108, 47, 116, 103, 107, 105, 108, 108, 0, 107, 115, 121, 115, 99, 97],
     [108, 108, 47, 107, 105, 108, 108, 0, 108, 105, 99, 101, 110, 115, 101, 0, 46, 114, 111, 100],
     [97, 116, 97, 0, 107, 115, 121, 115, 99, 97, 108, 108, 46, 98, 112, 102, 46, 99, 0, 76],
     [66, 66, 48, 95, 51, 0, 76, 66, 66, 48, 95, 54, 0, 76, 66, 66, 48, 95, 53, 0, 95],
     [95, 95, 95, 116, 103, 107, 105, 108, 108, 95, 101, 110, 116, 114, 121, 46, 95, 95, 95],
     [102, 109, 116, 0, 76, 66, 66, 49, 95, 51, 0, 76, 66, 66, 49, 95, 53, 0, 76, 66, 66],
     [49, 95, 52, 0, 95, 95, 95, 95, 101, 110, 116, 114, 121, 95, 112, 114, 111, 98, 101, 46],
     [95, 95, 95, 102, 109, 116, 0, 116, 103, 107, 105, 108, 108, 95, 101, 110, 116, 114, 121, 0],
     [76, 73, 78, 85, 88, 95, 72, 65, 83, 95, 83, 89, 83, 67, 65, 76, 76, 95, 87],
     [82, 65, 80, 80, 69, 82, 0, 101, 110, 116, 114, 121, 95, 112, 114, 111, 98, 101, 0, 95],
     [108, 105, 99, 101, 110, 115, 101, 0, 46, 114, 101, 108, 107, 115, 121, 115, 99, 97, 108, 108],
     [47, 116, 103, 107, 105, 108, 108, 0, 46, 114, 101, 108, 107, 115, 121, 115, 99, 97, 108, 108],
     [47, 107, 105, 108, 108, 0, 46, 66, 84, 70, 0, 46, 66, 84, 70, 46, 101, 120, 116, 0, 0]]"

definition ksyscall_elf_2 :: "byte list" where
  "ksyscall_elf_2 =
    concat
    [[0],
     [0, 0, 0, 0, 0, 0, 0, 0, 0, 0, 0, 0, 0, 0, 0, 0, 0, 0, 0, 0, 0, 0, 0, 63, 0, 0, 0, 4, 0, 241, 255, 0, 0, 0, 0],
     [0, 0, 0, 0, 0, 0, 0, 0, 0, 0, 0, 0, 0, 0, 0, 0, 3, 0, 3, 0, 0, 0, 0, 0, 0, 0, 0, 0, 0, 0, 0, 0, 0, 0, 0, 0],
     [78, 0, 0, 0, 0, 0, 3, 0, 136, 1, 0, 0, 0, 0, 0, 0, 0, 0, 0, 0, 0, 0, 0, 0, 85, 0, 0, 0, 0, 0, 3, 0],
     [144, 2, 0, 0, 0, 0, 0, 0, 0, 0, 0, 0, 0, 0, 0, 0, 92, 0, 0, 0, 0, 0, 3, 0, 56, 2, 0, 0, 0, 0, 0, 0, 0],
     [0, 0, 0, 0, 0, 0, 0, 99, 0, 0, 0, 1, 0, 6, 0, 0, 0, 0, 0, 0, 0, 0, 0, 81, 0, 0, 0, 0, 0, 0, 0, 0, 0, 0, 0],
     [3, 0, 4, 0, 0, 0, 0, 0, 0, 0, 0, 0, 0, 0, 0, 0, 0, 0, 0, 0, 123, 0, 0, 0, 0, 0, 4, 0, 216, 0, 0, 0, 0, 0],
     [0, 0, 0, 0, 0, 0, 0, 0, 0, 0, 130, 0, 0, 0, 0, 0, 4, 0, 184, 1, 0, 0, 0, 0, 0, 0, 0, 0, 0, 0, 0, 0, 0, 0],
     [137, 0, 0, 0, 0, 0, 4, 0, 16, 1, 0, 0, 0, 0, 0, 0, 0, 0, 0, 0, 0, 0, 0, 0, 144, 0, 0, 0, 1, 0, 6, 0],
     [81, 0, 0, 0, 0, 0, 0, 0, 62, 0, 0, 0, 0, 0, 0, 0, 0, 0, 0, 0, 3, 0, 6, 0, 0, 0, 0, 0, 0, 0, 0, 0, 0, 0, 0],
     [0, 0, 0, 0, 0, 167, 0, 0, 0, 18, 0, 3, 0, 0, 0, 0, 0, 0, 0, 0, 0, 160, 2, 0, 0, 0, 0, 0, 0, 180, 0, 0, 0],
     [16, 0, 0, 0, 0, 0, 0, 0, 0, 0, 0, 0, 0, 0, 0, 0, 0, 0, 0, 0, 206, 0, 0, 0, 18, 0, 4, 0, 0, 0, 0, 0, 0, 0, 0],
     [0, 200, 1, 0, 0, 0, 0, 0, 0, 218, 0, 0, 0, 17, 0, 5, 0, 0, 0, 0, 0, 0, 0, 0, 0, 4, 0, 0, 0, 0, 0, 0, 0]]"

definition ksyscall_elf_3 :: "byte list" where
  "ksyscall_elf_3 =
    concat
    [[24, 2, 0, 0, 0, 0, 0, 0, 0, 0, 0, 0, 0, 0, 0, 0, 113, 34, 0, 0, 0, 0, 0, 0, 21, 2, 45, 0, 0, 0, 0, 0],
     [121, 22, 0, 0, 0, 0, 0, 0, 183, 1, 0, 0, 0, 0, 0, 0, 191, 99, 0, 0, 0, 0, 0, 0, 15, 19, 0, 0, 0, 0, 0],
     [0, 191, 161, 0, 0, 0, 0, 0, 0, 7, 1, 0, 0, 200, 255, 255, 255, 183, 2, 0, 0, 8, 0, 0, 0, 133, 0],
     [0, 0, 113, 0, 0, 0, 183, 1, 0, 0, 8, 0, 0, 0, 191, 99, 0, 0, 0, 0, 0, 0, 15, 19, 0, 0, 0, 0, 0, 0],
     [121, 168, 200, 255, 0, 0, 0, 0, 191, 161, 0, 0, 0, 0, 0, 0, 7, 1, 0, 0, 200, 255, 255, 255, 183],
     [2, 0, 0, 8, 0, 0, 0, 133, 0, 0, 0, 113, 0, 0, 0, 183, 1, 0, 0, 16, 0, 0, 0, 15, 22, 0, 0, 0, 0, 0],
     [0, 121, 169, 200, 255, 0, 0, 0, 0, 191, 161, 0, 0, 0, 0, 0, 0, 7, 1, 0, 0, 200, 255, 255, 255, 183],
     [2, 0, 0, 8, 0, 0, 0, 191, 99, 0, 0, 0, 0, 0, 0, 133, 0, 0, 0, 113, 0, 0, 0, 121, 167, 200, 255, 0, 0],
     [0, 0, 133, 0, 0, 0, 14, 0, 0, 0, 191, 6, 0, 0, 0, 0, 0, 0, 103, 7, 0, 0, 32, 0, 0, 0, 119, 7, 0, 0],
     [32, 0, 0, 0, 21, 7, 48, 0, 0, 0, 0, 0, 191, 161, 0, 0, 0, 0, 0, 0, 7, 1, 0, 0, 240, 255, 255],
     [255, 123, 26, 192, 255, 0, 0, 0, 0, 183, 2, 0, 0, 16, 0, 0, 0, 133, 0, 0, 0, 16, 0, 0, 0, 103, 7],
     [0, 0, 32, 0, 0, 0, 199, 7, 0, 0, 32, 0, 0, 0, 123, 122, 232, 255, 0, 0, 0, 0, 103, 8, 0, 0, 32, 0],
     [0, 0, 199, 8, 0, 0, 32, 0, 0, 0, 123, 138, 224, 255, 0, 0, 0, 0, 103, 9, 0, 0, 32, 0, 0, 0, 199],
     [9, 0, 0, 32, 0, 0, 0, 123, 154, 216, 255, 0, 0, 0, 0, 5, 0, 22, 0, 0, 0, 0, 0, 121, 24, 8, 0, 0],
     [0, 0, 0, 121, 25, 0, 0, 0, 0, 0, 0, 121, 23, 16, 0, 0, 0, 0, 0, 133, 0, 0, 0, 14, 0, 0, 0, 191, 6, 0],
     [0, 0, 0, 0, 0, 103, 7, 0, 0, 32, 0, 0, 0, 119, 7, 0, 0, 32, 0, 0, 0, 21, 7, 25, 0, 0, 0, 0, 0],
     [191, 161, 0, 0, 0, 0, 0, 0, 7, 1, 0, 0, 240, 255, 255, 255, 123, 26, 192, 255, 0, 0, 0, 0, 183],
     [2, 0, 0, 16, 0, 0, 0, 133, 0, 0, 0, 16, 0, 0, 0, 103, 7, 0, 0, 32, 0, 0, 0, 199, 7, 0, 0, 32, 0],
     [0, 0, 123, 122, 232, 255, 0, 0, 0, 0, 103, 9, 0, 0, 32, 0, 0, 0, 199, 9, 0, 0, 32, 0, 0, 0, 123],
     [154, 224, 255, 0, 0, 0, 0, 103, 8, 0, 0, 32, 0, 0, 0, 199, 8, 0, 0, 32, 0, 0, 0, 123, 138, 216],
     [255, 0, 0, 0, 0, 121, 161, 192, 255, 0, 0, 0, 0, 123, 26, 208, 255, 0, 0, 0, 0, 119, 6, 0, 0, 32, 0],
     [0, 0, 123, 106, 200, 255, 0, 0, 0, 0, 191, 163, 0, 0, 0, 0, 0, 0, 7, 3, 0, 0, 200, 255, 255, 255],
     [24, 1, 0, 0, 0, 0, 0, 0, 0, 0, 0, 0, 0, 0, 0, 0, 183, 2, 0, 0, 81, 0, 0, 0, 183, 4, 0, 0, 40, 0, 0],
     [0, 133, 0, 0, 0, 177, 0, 0, 0, 183, 0, 0, 0, 0, 0, 0, 0, 149, 0, 0, 0, 0, 0, 0, 0]]"

definition ksyscall_elf_4 :: "byte list" where
  "ksyscall_elf_4 =
    concat
    [[24, 2, 0, 0, 0, 0, 0, 0],
     [0, 0, 0, 0, 0, 0, 0, 0, 113, 34, 0, 0, 0, 0, 0, 0, 21, 2, 23, 0, 0, 0, 0, 0, 121, 22, 0, 0, 0, 0, 0, 0],
     [183, 1, 0, 0, 0, 0, 0, 0, 191, 99, 0, 0, 0, 0, 0, 0, 15, 19, 0, 0, 0, 0, 0, 0, 191, 161, 0, 0, 0, 0, 0],
     [0, 7, 1, 0, 0, 208, 255, 255, 255, 183, 2, 0, 0, 8, 0, 0, 0, 133, 0, 0, 0, 113, 0, 0, 0, 183],
     [1, 0, 0, 8, 0, 0, 0, 15, 22, 0, 0, 0, 0, 0, 0, 121, 168, 208, 255, 0, 0, 0, 0, 191, 161, 0, 0, 0, 0],
     [0, 0, 7, 1, 0, 0, 208, 255, 255, 255, 183, 2, 0, 0, 8, 0, 0, 0, 191, 99, 0, 0, 0, 0, 0, 0, 133],
     [0, 0, 0, 113, 0, 0, 0, 121, 169, 208, 255, 0, 0, 0, 0, 133, 0, 0, 0, 14, 0, 0, 0, 191, 6, 0, 0, 0, 0, 0],
     [0, 103, 9, 0, 0, 32, 0, 0, 0, 119, 9, 0, 0, 32, 0, 0, 0, 21, 9, 29, 0, 0, 0, 0, 0, 5, 0, 7],
     [0, 0, 0, 0, 0, 121, 24, 0, 0, 0, 0, 0, 0, 121, 25, 8, 0, 0, 0, 0, 0, 133, 0, 0, 0, 14, 0, 0, 0, 191],
     [6, 0, 0, 0, 0, 0, 0, 103, 9, 0, 0, 32, 0, 0, 0, 119, 9, 0, 0, 32, 0, 0, 0, 21, 9, 21, 0, 0, 0],
     [0, 0, 191, 167, 0, 0, 0, 0, 0, 0, 7, 7, 0, 0, 240, 255, 255, 255, 191, 113, 0, 0, 0, 0, 0, 0, 183],
     [2, 0, 0, 16, 0, 0, 0, 133, 0, 0, 0, 16, 0, 0, 0, 103, 9, 0, 0, 32, 0, 0, 0, 199, 9, 0, 0, 32, 0],
     [0, 0, 123, 154, 232, 255, 0, 0, 0, 0, 103, 8, 0, 0, 32, 0, 0, 0, 199, 8, 0, 0, 32, 0, 0, 0, 123],
     [138, 224, 255, 0, 0, 0, 0, 123, 122, 216, 255, 0, 0, 0, 0, 119, 6, 0, 0, 32, 0, 0, 0, 123, 106, 208],
     [255, 0, 0, 0, 0, 191, 163, 0, 0, 0, 0, 0, 0, 7, 3, 0, 0, 208, 255, 255, 255, 24, 1, 0, 0, 81, 0],
     [0, 0, 0, 0, 0, 0, 0, 0, 0, 0, 183, 2, 0, 0, 62, 0, 0, 0, 183, 4, 0, 0, 32, 0, 0, 0, 133, 0, 0, 0, 177],
     [0, 0, 0, 183, 0, 0, 0, 0, 0, 0, 0, 149, 0, 0, 0, 0, 0, 0, 0]]"

definition ksyscall_elf_5 :: "byte list" where
  "ksyscall_elf_5 =
    concat
    [[71, 80, 76, 0]]"

definition ksyscall_elf_6 :: "byte list" where
  "ksyscall_elf_6 =
    concat
    [[116, 103, 107, 105, 108],
     [108, 32, 115, 121, 115, 99, 97, 108, 108, 32, 99, 97, 108, 108, 101, 100, 32, 98, 121],
     [32, 80, 73, 68, 32, 37, 100, 32, 40, 37, 115, 41, 32, 102, 111, 114, 32, 116, 104],
     [114, 101, 97, 100, 32, 105, 100, 32, 37, 100, 32, 119, 105, 116, 104, 32, 112, 105, 100],
     [32, 37, 100, 32, 97, 110, 100, 32, 115, 105, 103, 110, 97, 108, 32, 37, 100, 46, 0, 75],
     [73, 76, 76, 32, 115, 121, 115, 99, 97, 108, 108, 32, 99, 97, 108, 108, 101, 100, 32],
     [98, 121, 32, 80, 73, 68, 32, 37, 100, 32, 40, 37, 115, 41, 32, 102, 111, 114, 32],
     [80, 73, 68, 32, 37, 100, 32, 119, 105, 116, 104, 32, 115, 105, 103, 110, 97, 108, 32],
     [37, 100, 46, 0, 0, 0, 0, 0, 0]]"

definition ksyscall_elf_7 :: "byte list" where
  "ksyscall_elf_7 =
    concat
    [[0, 0, 0, 0, 0, 0, 0, 0, 1, 0, 0, 0, 14, 0, 0, 0, 104, 2, 0, 0, 0, 0, 0],
     [0, 1, 0, 0, 0, 12, 0, 0, 0]]"

definition ksyscall_elf_8 :: "byte list" where
  "ksyscall_elf_8 =
    concat
    [[0, 0, 0, 0, 0, 0, 0, 0, 1, 0, 0, 0, 14, 0, 0, 0, 144, 1, 0, 0, 0, 0, 0, 0],
     [1, 0, 0, 0, 12, 0, 0, 0]]"

definition ksyscall_elf_9 :: "byte list" where
  "ksyscall_elf_9 =
    concat
    [[159, 235, 1, 0, 24, 0, 0, 0, 0, 0, 0, 0, 88, 3, 0, 0, 88, 3, 0, 0],
     [105, 3, 0, 0, 0, 0, 0, 0, 0, 0, 0, 2, 2, 0, 0, 0, 1, 0, 0, 0, 6, 0, 0, 4, 64, 1, 0, 0, 0, 0],
     [0, 0, 3, 0, 0, 0, 0, 0, 0, 0, 9, 0, 0, 0, 10, 0, 0, 0, 128, 8, 0, 0, 17, 0, 0, 0, 12, 0, 0, 0, 192],
     [8, 0, 0, 27, 0, 0, 0, 15, 0, 0, 0, 224, 8, 0, 0, 31, 0, 0, 0, 10, 0, 0, 0, 0, 9, 0, 0, 42, 0, 0],
     [0, 18, 0, 0, 0, 64, 9, 0, 0, 0, 0, 0, 0, 2, 0, 0, 5, 16, 1, 0, 0, 53, 0, 0, 0, 4, 0, 0, 0, 0],
     [0, 0, 0, 0, 0, 0, 0, 9, 0, 0, 0, 0, 0, 0, 0, 63, 0, 0, 0, 4, 0, 0, 4, 16, 1, 0, 0, 76, 0, 0, 0],
     [7, 0, 0, 0, 0, 0, 0, 0, 81, 0, 0, 0, 5, 0, 0, 0, 192, 7, 0, 0, 84, 0, 0, 0, 5, 0, 0, 0, 0, 8, 0],
     [0, 87, 0, 0, 0, 5, 0, 0, 0, 64, 8, 0, 0, 94, 0, 0, 0, 0, 0, 0, 8, 6, 0, 0, 0, 100, 0, 0, 0, 0, 0],
     [0, 1, 8, 0, 0, 0, 64, 0, 0, 0, 0, 0, 0, 0, 0, 0, 0, 3, 0, 0, 0, 0, 5, 0, 0, 0, 8, 0, 0, 0, 31, 0],
     [0, 0, 119, 0, 0, 0, 0, 0, 0, 1, 4, 0, 0, 0, 32, 0, 0, 0, 0, 0, 0, 0, 4, 0, 0, 4, 16, 1, 0, 0],
     [76, 0, 0, 0, 11, 0, 0, 0, 0, 0, 0, 0, 81, 0, 0, 0, 10, 0, 0, 0, 192, 7, 0, 0, 84, 0, 0, 0, 10, 0, 0],
     [0, 0, 8, 0, 0, 87, 0, 0, 0, 10, 0, 0, 0, 64, 8, 0, 0, 139, 0, 0, 0, 0, 0, 0, 8, 5, 0, 0, 0, 0, 0],
     [0, 0, 0, 0, 0, 3, 0, 0, 0, 0, 10, 0, 0, 0, 8, 0, 0, 0, 31, 0, 0, 0, 143, 0, 0, 0, 0, 0, 0, 8, 13, 0],
     [0, 0, 147, 0, 0, 0, 0, 0, 0, 8, 14, 0, 0, 0, 153, 0, 0, 0, 0, 0, 0, 1, 4, 0, 0, 0, 32, 0, 0, 1],
     [157, 0, 0, 0, 0, 0, 0, 8, 16, 0, 0, 0, 161, 0, 0, 0, 0, 0, 0, 8, 17, 0, 0, 0, 167, 0, 0, 0, 0, 0, 0],
     [1, 4, 0, 0, 0, 32, 0, 0, 0, 180, 0, 0, 0, 2, 0, 0, 4, 24, 0, 0, 0, 198, 0, 0, 0, 19, 0, 0, 0, 0],
     [0, 0, 0, 205, 0, 0, 0, 10, 0, 0, 0, 128, 0, 0, 0, 210, 0, 0, 0, 2, 0, 0, 4, 16, 0, 0, 0, 223, 0, 0, 0],
     [10, 0, 0, 0, 0, 0, 0, 0, 226, 0, 0, 0, 10, 0, 0, 0, 64, 0, 0, 0, 0, 0, 0, 0, 1, 0, 0, 13, 14, 0, 0, 0],
     [229, 0, 0, 0, 1, 0, 0, 0, 233, 0, 0, 0, 1, 0, 0, 12, 20, 0, 0, 0, 246, 0, 0, 0, 1, 0, 0, 4, 8],
     [0, 0, 0, 9, 0, 0, 0, 23, 0, 0, 0, 0, 0, 0, 0, 6, 1, 0, 0, 0, 0, 0, 1, 8, 0, 0, 0, 64, 0, 0, 0],
     [20, 1, 0, 0, 1, 0, 0, 12, 20, 0, 0, 0, 32, 1, 0, 0, 0, 0, 0, 1, 1, 0, 0, 0, 8, 0, 0, 4],
     [38, 1, 0, 0, 0, 0, 0, 14, 25, 0, 0, 0, 2, 0, 0, 0, 64, 1, 0, 0, 0, 0, 0, 1, 1, 0, 0, 0, 8],
     [0, 0, 1, 0, 0, 0, 0, 0, 0, 0, 3, 0, 0, 0, 0, 27, 0, 0, 0, 8, 0, 0, 0, 4, 0, 0, 0, 69, 1, 0, 0, 0],
     [0, 0, 14, 28, 0, 0, 0, 1, 0, 0, 0, 0, 0, 0, 0, 0, 0, 0, 10, 27, 0, 0, 0, 0, 0, 0, 0, 0, 0, 0, 3, 0, 0],
     [0, 0, 30, 0, 0, 0, 8, 0, 0, 0, 81, 0, 0, 0, 78, 1, 0, 0, 0, 0, 0, 14, 31, 0, 0, 0, 0, 0, 0, 0, 0, 0],
     [0, 0, 0, 0, 0, 3, 0, 0, 0, 0, 30, 0, 0, 0, 8, 0, 0, 0, 62, 0, 0, 0, 102, 1, 0, 0, 0, 0, 0, 14, 33],
     [0, 0, 0, 0, 0, 0, 0, 50, 3, 0, 0, 1, 0, 0, 15, 4, 0, 0, 0, 29, 0, 0, 0, 0, 0, 0, 0, 4, 0, 0, 0],
     [58, 3, 0, 0, 2, 0, 0, 15, 143, 0, 0, 0, 32, 0, 0, 0, 0, 0, 0, 0, 81, 0, 0, 0, 34, 0, 0, 0, 81, 0],
     [0, 0, 62, 0, 0, 0, 66, 3, 0, 0, 1, 0, 0, 15, 0, 0, 0, 0, 26, 0, 0, 0, 0, 0, 0, 0, 1, 0, 0, 0, 0],
     [112, 116, 95, 114, 101, 103, 115, 0, 111, 114, 105, 103, 95, 120, 48, 0, 115, 121, 115, 99],
     [97, 108, 108, 110, 111, 0, 112, 109, 114, 0, 115, 100, 101, 105, 95, 116, 116, 98, 114, 49, 0],
     [115, 116, 97, 99, 107, 102, 114, 97, 109, 101, 0, 117, 115, 101, 114, 95, 114, 101, 103, 115],
     [0, 117, 115, 101, 114, 95, 112, 116, 95, 114, 101, 103, 115, 0, 114, 101, 103, 115, 0, 115, 112],
     [0, 112, 99, 0, 112, 115, 116, 97, 116, 101, 0, 95, 95, 117, 54, 52, 0, 117, 110, 115, 105],
     [103, 110, 101, 100, 32, 108, 111, 110, 103, 32, 108, 111, 110, 103, 0, 95, 95, 65, 82, 82],
     [65, 89, 95, 83, 73, 90, 69, 95, 84, 89, 80, 69, 95, 95, 0, 117, 54, 52, 0, 115],
     [51, 50, 0, 95, 95, 115, 51, 50, 0, 105, 110, 116, 0, 117, 51, 50, 0, 95, 95, 117, 51],
     [50, 0, 117, 110, 115, 105, 103, 110, 101, 100, 32, 105, 110, 116, 0, 102, 114, 97, 109, 101],
     [95, 114, 101, 99, 111, 114, 100, 95, 109, 101, 116, 97, 0, 114, 101, 99, 111, 114, 100, 0],
     [116, 121, 112, 101, 0, 102, 114, 97, 109, 101, 95, 114, 101, 99, 111, 114, 100, 0, 102, 112, 0],
     [108, 114, 0, 99, 116, 120, 0, 116, 103, 107, 105, 108, 108, 95, 101, 110, 116, 114, 121, 0, 112],
     [116, 95, 114, 101, 103, 115, 95, 95, 95, 97, 114, 109, 54, 52, 0, 117, 110, 115, 105, 103],
     [110, 101, 100, 32, 108, 111, 110, 103, 0, 101, 110, 116, 114, 121, 95, 112, 114, 111, 98, 101],
     [0, 95, 66, 111, 111, 108, 0, 76, 73, 78, 85, 88, 95, 72, 65, 83, 95, 83, 89, 83],
     [67, 65, 76, 76, 95, 87, 82, 65, 80, 80, 69, 82, 0, 99, 104, 97, 114, 0, 95, 108],
     [105, 99, 101, 110, 115, 101, 0, 95, 95, 95, 95, 116, 103, 107, 105, 108, 108, 95, 101, 110],
     [116, 114, 121, 46, 95, 95, 95, 102, 109, 116, 0, 95, 95, 95, 95, 101, 110, 116, 114, 121],
     [95, 112, 114, 111, 98, 101, 46, 95, 95, 95, 102, 109, 116, 0, 47, 104, 111, 109, 101, 47],
     [108, 111, 115, 116, 99, 97, 99, 104, 101, 47, 99, 111, 100, 101, 47, 104, 101, 108, 108],
     [111, 95, 101, 66, 80, 70, 47, 101, 120, 97, 109, 112, 108, 101, 115, 47, 99, 47, 107],
     [115, 121, 115, 99, 97, 108, 108, 46, 98, 112, 102, 46, 99, 0, 105, 110, 116, 32, 66, 80],
     [70, 95, 75, 83, 89, 83, 67, 65, 76, 76, 40, 116, 103, 107, 105, 108, 108, 95, 101],
     [110, 116, 114, 121, 44, 32, 112, 105, 100, 95, 116, 32, 116, 103, 105, 100, 44, 32, 112],
     [105, 100, 95, 116, 32, 116, 105, 100, 44, 32, 105, 110, 116, 32, 115, 105, 103, 41, 0, 9],
     [95, 95, 117, 51, 50, 32, 99, 97, 108, 108, 101, 114, 95, 112, 105, 100, 32, 61, 32],
     [98, 112, 102, 95, 103, 101, 116, 95, 99, 117, 114, 114, 101, 110, 116, 95, 112, 105, 100],
     [95, 116, 103, 105, 100, 40, 41, 32, 62, 62, 32, 51, 50, 59, 0, 9, 105, 102, 32, 40],
     [115, 105, 103, 32, 61, 61, 32, 48, 41, 32, 123, 0, 9, 98, 112, 102, 95, 103, 101, 116],
     [95, 99, 117, 114, 114, 101, 110, 116, 95, 99, 111, 109, 109, 40, 38, 99, 111, 109, 109],
     [44, 32, 115, 105, 122, 101, 111, 102, 40, 99, 111, 109, 109, 41, 41, 59, 0, 9, 98, 112],
     [102, 95, 112, 114, 105, 110, 116, 107, 40, 0, 9, 99, 104, 97, 114, 32, 99, 111, 109, 109],
     [91, 84, 65, 83, 75, 95, 67, 79, 77, 77, 95, 76, 69, 78, 93, 59, 0, 105, 110, 116],
     [32, 66, 80, 70, 95, 75, 83, 89, 83, 67, 65, 76, 76, 40, 101, 110, 116, 114, 121],
     [95, 112, 114, 111, 98, 101, 44, 32, 112, 105, 100, 95, 116, 32, 112, 105, 100, 44, 32],
     [105, 110, 116, 32, 115, 105, 103, 41, 0, 9, 98, 112, 102, 95, 112, 114, 105, 110, 116, 107],
     [40, 34, 75, 73, 76, 76, 32, 115, 121, 115, 99, 97, 108, 108, 32, 99, 97, 108, 108],
     [101, 100, 32, 98, 121, 32, 80, 73, 68, 32, 37, 100, 32, 40, 37, 115, 41, 32, 102],
     [111, 114, 32, 80, 73, 68, 32, 37, 100, 32, 119, 105, 116, 104, 32, 115, 105, 103, 110],
     [97, 108, 32, 37, 100, 46, 34, 44, 32, 99, 97, 108, 108, 101, 114, 95, 112, 105, 100],
     [44, 0, 48, 58, 48, 58, 48, 0, 48, 58, 48, 0, 48, 58, 48, 58, 49, 0, 48, 58, 48],
     [58, 50, 0, 108, 105, 99, 101, 110, 115, 101, 0, 46, 114, 111, 100, 97, 116, 97, 0, 46, 107],
     [99, 111, 110, 102, 105, 103, 0, 107, 115, 121, 115, 99, 97, 108, 108, 47, 116, 103, 107, 105],
     [108, 108, 0, 107, 115, 121, 115, 99, 97, 108, 108, 47, 107, 105, 108, 108, 0, 0, 0, 0, 0, 0, 0, 0]]"

definition ksyscall_elf_10 :: "byte list" where
  "ksyscall_elf_10 =
    concat
    [[159, 235, 1, 0, 32, 0, 0, 0, 0, 0, 0, 0, 36, 0, 0, 0, 36, 0, 0, 0, 36, 3, 0, 0, 72, 3, 0, 0],
     [212, 0, 0, 0, 8, 0, 0, 0, 75, 3, 0, 0, 1, 0, 0, 0, 0, 0, 0, 0, 21, 0, 0, 0, 91, 3, 0, 0, 1, 0],
     [0, 0, 0, 0, 0, 0, 24, 0, 0, 0, 16, 0, 0, 0, 75, 3, 0, 0, 28, 0, 0, 0, 0, 0, 0, 0, 125, 1, 0, 0, 183],
     [1, 0, 0, 5, 36, 0, 0, 80, 0, 0, 0, 125, 1, 0, 0, 183, 1, 0, 0, 5, 36, 0, 0, 120, 0, 0, 0],
     [125, 1, 0, 0, 183, 1, 0, 0, 5, 36, 0, 0, 136, 0, 0, 0, 125, 1, 0, 0, 183, 1, 0, 0, 5, 36],
     [0, 0, 144, 0, 0, 0, 125, 1, 0, 0, 183, 1, 0, 0, 5, 36, 0, 0, 176, 0, 0, 0, 125, 1, 0, 0, 183],
     [1, 0, 0, 5, 36, 0, 0, 192, 0, 0, 0, 125, 1, 0, 0, 183, 1, 0, 0, 5, 36, 0, 0, 200, 0, 0, 0],
     [125, 1, 0, 0, 183, 1, 0, 0, 5, 36, 0, 0, 224, 0, 0, 0, 125, 1, 0, 0, 183, 1, 0, 0, 5, 36],
     [0, 0, 232, 0, 0, 0, 125, 1, 0, 0, 246, 1, 0, 0, 21, 48, 0, 0, 248, 0, 0, 0, 125, 1, 0, 0, 183],
     [1, 0, 0, 5, 36, 0, 0, 8, 1, 0, 0, 125, 1, 0, 0, 44, 2, 0, 0, 6, 56, 0, 0, 24, 1, 0],
     [0, 125, 1, 0, 0, 0, 0, 0, 0, 0, 0, 0, 0, 32, 1, 0, 0, 125, 1, 0, 0, 61, 2, 0, 0, 2, 96, 0, 0],
     [56, 1, 0, 0, 125, 1, 0, 0, 105, 2, 0, 0, 2, 100, 0, 0, 136, 1, 0, 0, 125, 1, 0, 0, 183],
     [1, 0, 0, 5, 36, 0, 0, 160, 1, 0, 0, 125, 1, 0, 0, 246, 1, 0, 0, 21, 48, 0, 0, 176, 1, 0],
     [0, 125, 1, 0, 0, 118, 2, 0, 0, 2, 44, 0, 0, 192, 1, 0, 0, 125, 1, 0, 0, 44, 2, 0, 0, 6],
     [56, 0, 0, 208, 1, 0, 0, 125, 1, 0, 0, 0, 0, 0, 0, 0, 0, 0, 0, 216, 1, 0, 0, 125, 1, 0, 0, 61],
     [2, 0, 0, 2, 96, 0, 0, 240, 1, 0, 0, 125, 1, 0, 0, 105, 2, 0, 0, 2, 100, 0, 0, 56, 2, 0],
     [0, 125, 1, 0, 0, 105, 2, 0, 0, 2, 100, 0, 0, 72, 2, 0, 0, 125, 1, 0, 0, 246, 1, 0, 0, 48],
     [48, 0, 0, 80, 2, 0, 0, 125, 1, 0, 0, 105, 2, 0, 0, 2, 100, 0, 0, 96, 2, 0, 0, 125, 1, 0],
     [0, 0, 0, 0, 0, 0, 0, 0, 0, 104, 2, 0, 0, 125, 1, 0, 0, 105, 2, 0, 0, 2, 100, 0, 0, 144, 2, 0, 0],
     [125, 1, 0, 0, 183, 1, 0, 0, 5, 36, 0, 0, 91, 3, 0, 0, 21, 0, 0, 0, 0, 0, 0, 0, 125, 1, 0, 0],
     [145, 2, 0, 0, 5, 128, 0, 0, 80, 0, 0, 0, 125, 1, 0, 0, 145, 2, 0, 0, 5, 128, 0, 0, 112, 0, 0],
     [0, 125, 1, 0, 0, 145, 2, 0, 0, 5, 128, 0, 0, 128, 0, 0, 0, 125, 1, 0, 0, 145, 2, 0, 0, 5],
     [128, 0, 0, 136, 0, 0, 0, 125, 1, 0, 0, 145, 2, 0, 0, 5, 128, 0, 0, 160, 0, 0, 0, 125, 1, 0, 0],
     [145, 2, 0, 0, 5, 128, 0, 0, 168, 0, 0, 0, 125, 1, 0, 0, 246, 1, 0, 0, 21, 140, 0, 0, 184, 0, 0],
     [0, 125, 1, 0, 0, 145, 2, 0, 0, 5, 128, 0, 0, 200, 0, 0, 0, 125, 1, 0, 0, 44, 2, 0, 0, 6],
     [148, 0, 0, 216, 0, 0, 0, 125, 1, 0, 0, 145, 2, 0, 0, 5, 128, 0, 0, 232, 0, 0, 0, 125, 1, 0, 0],
     [246, 1, 0, 0, 21, 140, 0, 0, 248, 0, 0, 0, 125, 1, 0, 0, 118, 2, 0, 0, 2, 136, 0, 0, 8, 1],
     [0, 0, 125, 1, 0, 0, 44, 2, 0, 0, 6, 148, 0, 0, 24, 1, 0, 0, 125, 1, 0, 0, 0, 0, 0, 0, 0, 0, 0],
     [0, 32, 1, 0, 0, 125, 1, 0, 0, 61, 2, 0, 0, 2, 188, 0, 0, 56, 1, 0, 0, 125, 1, 0, 0, 195],
     [2, 0, 0, 2, 192, 0, 0, 112, 1, 0, 0, 125, 1, 0, 0, 246, 1, 0, 0, 48, 140, 0, 0, 120, 1, 0],
     [0, 125, 1, 0, 0, 195, 2, 0, 0, 2, 192, 0, 0, 136, 1, 0, 0, 125, 1, 0, 0, 0, 0, 0, 0, 0, 0, 0, 0],
     [144, 1, 0, 0, 125, 1, 0, 0, 195, 2, 0, 0, 2, 192, 0, 0, 184, 1, 0, 0, 125, 1, 0, 0, 145],
     [2, 0, 0, 5, 128, 0, 0, 16, 0, 0, 0, 75, 3, 0, 0, 7, 0, 0, 0, 32, 0, 0, 0, 4, 0, 0, 0, 28],
     [3, 0, 0, 0, 0, 0, 0, 40, 0, 0, 0, 22, 0, 0, 0, 34, 3, 0, 0, 0, 0, 0, 0, 96, 0, 0, 0, 4, 0, 0, 0],
     [38, 3, 0, 0, 0, 0, 0, 0, 160, 0, 0, 0, 4, 0, 0, 0, 44, 3, 0, 0, 0, 0, 0, 0, 136, 1, 0, 0, 4, 0],
     [0, 0, 38, 3, 0, 0, 0, 0, 0, 0, 144, 1, 0, 0, 22, 0, 0, 0, 34, 3, 0, 0, 0, 0, 0, 0, 152, 1, 0, 0],
     [4, 0, 0, 0, 44, 3, 0, 0, 0, 0, 0, 0, 91, 3, 0, 0, 5, 0, 0, 0, 32, 0, 0, 0, 4, 0, 0, 0, 28],
     [3, 0, 0, 0, 0, 0, 0, 40, 0, 0, 0, 22, 0, 0, 0, 34, 3, 0, 0, 0, 0, 0, 0, 96, 0, 0, 0, 4, 0, 0, 0],
     [38, 3, 0, 0, 0, 0, 0, 0, 216, 0, 0, 0, 22, 0, 0, 0, 34, 3, 0, 0, 0, 0, 0, 0, 224, 0, 0, 0, 4, 0, 0],
     [0, 38, 3, 0, 0, 0, 0, 0, 0, 0, 0, 0, 0]]"

definition ksyscall_elf_shdrs :: "byte list list" where
  "ksyscall_elf_shdrs =
    [[0, 0, 0, 0, 0, 0, 0, 0, 0, 0, 0, 0, 0, 0, 0, 0, 0, 0, 0, 0, 0, 0, 0, 0, 0, 0, 0, 0, 0, 0, 0, 0,
      0, 0, 0, 0, 0, 0, 0, 0, 0, 0, 0, 0, 0, 0, 0, 0, 0, 0, 0, 0, 0, 0, 0, 0, 0, 0, 0, 0, 0, 0, 0, 0],
     [1, 0, 0, 0, 3, 0, 0, 0, 32, 0, 0, 0, 0, 0, 0, 0, 0, 0, 0, 0, 0, 0, 0, 0, 64, 0, 0, 0, 0, 0, 0, 0,
      23, 1, 0, 0, 0, 0, 0, 0, 0, 0, 0, 0, 0, 0, 0, 0, 1, 0, 0, 0, 0, 0, 0, 0, 0, 0, 0, 0, 0, 0, 0, 0],
     [9, 0, 0, 0, 2, 0, 0, 0, 0, 0, 0, 0, 0, 0, 0, 0, 0, 0, 0, 0, 0, 0, 0, 0, 88, 1, 0, 0, 0, 0, 0, 0,
      152, 1, 0, 0, 0, 0, 0, 0, 1, 0, 0, 0, 0, 0, 0, 0, 8, 0, 0, 0, 0, 0, 0, 0, 24, 0, 0, 0, 0, 0, 0, 0],
     [17, 0, 0, 0, 1, 0, 0, 0, 6, 0, 0, 0, 0, 0, 0, 0, 0, 0, 0, 0, 0, 0, 0, 0, 240, 2, 0, 0, 0, 0, 0, 0,
      160, 2, 0, 0, 0, 0, 0, 0, 0, 0, 0, 0, 0, 0, 0, 0, 8, 0, 0, 0, 0, 0, 0, 0, 0, 0, 0, 0, 0, 0, 0, 0],
     [33, 0, 0, 0, 1, 0, 0, 0, 6, 0, 0, 0, 0, 0, 0, 0, 0, 0, 0, 0, 0, 0, 0, 0, 144, 5, 0, 0, 0, 0, 0, 0,
      200, 1, 0, 0, 0, 0, 0, 0, 0, 0, 0, 0, 0, 0, 0, 0, 8, 0, 0, 0, 0, 0, 0, 0, 0, 0, 0, 0, 0, 0, 0, 0],
     [47, 0, 0, 0, 1, 0, 0, 0, 3, 0, 0, 0, 0, 0, 0, 0, 0, 0, 0, 0, 0, 0, 0, 0, 88, 7, 0, 0, 0, 0, 0, 0,
      4, 0, 0, 0, 0, 0, 0, 0, 0, 0, 0, 0, 0, 0, 0, 0, 1, 0, 0, 0, 0, 0, 0, 0, 0, 0, 0, 0, 0, 0, 0, 0],
     [55, 0, 0, 0, 1, 0, 0, 0, 2, 0, 0, 0, 0, 0, 0, 0, 0, 0, 0, 0, 0, 0, 0, 0, 92, 7, 0, 0, 0, 0, 0, 0,
      143, 0, 0, 0, 0, 0, 0, 0, 0, 0, 0, 0, 0, 0, 0, 0, 1, 0, 0, 0, 0, 0, 0, 0, 0, 0, 0, 0, 0, 0, 0, 0],
     [227, 0, 0, 0, 9, 0, 0, 0, 64, 0, 0, 0, 0, 0, 0, 0, 0, 0, 0, 0, 0, 0, 0, 0, 240, 7, 0, 0, 0, 0, 0, 0,
      32, 0, 0, 0, 0, 0, 0, 0, 2, 0, 0, 0, 3, 0, 0, 0, 8, 0, 0, 0, 0, 0, 0, 0, 16, 0, 0, 0, 0, 0, 0, 0],
     [247, 0, 0, 0, 9, 0, 0, 0, 64, 0, 0, 0, 0, 0, 0, 0, 0, 0, 0, 0, 0, 0, 0, 0, 16, 8, 0, 0, 0, 0, 0, 0,
      32, 0, 0, 0, 0, 0, 0, 0, 2, 0, 0, 0, 4, 0, 0, 0, 8, 0, 0, 0, 0, 0, 0, 0, 16, 0, 0, 0, 0, 0, 0, 0],
     [9, 1, 0, 0, 1, 0, 0, 0, 0, 0, 0, 0, 0, 0, 0, 0, 0, 0, 0, 0, 0, 0, 0, 0, 48, 8, 0, 0, 0, 0, 0, 0,
      217, 6, 0, 0, 0, 0, 0, 0, 0, 0, 0, 0, 0, 0, 0, 0, 8, 0, 0, 0, 0, 0, 0, 0, 0, 0, 0, 0, 0, 0, 0, 0],
     [14, 1, 0, 0, 1, 0, 0, 0, 0, 0, 0, 0, 0, 0, 0, 0, 0, 0, 0, 0, 0, 0, 0, 0, 16, 15, 0, 0, 0, 0, 0, 0,
      60, 4, 0, 0, 0, 0, 0, 0, 0, 0, 0, 0, 0, 0, 0, 0, 8, 0, 0, 0, 0, 0, 0, 0, 0, 0, 0, 0, 0, 0, 0, 0]]"

definition ksyscall_elf_body :: "byte list list" where
  "ksyscall_elf_body = [ksyscall_elf_1, ksyscall_elf_2, ksyscall_elf_3, ksyscall_elf_4, ksyscall_elf_5, ksyscall_elf_6, ksyscall_elf_7, ksyscall_elf_8, ksyscall_elf_9, ksyscall_elf_10]"

definition ksyscall_bpf__elf_bytes :: "byte list" where
  "ksyscall_bpf__elf_bytes = concat (ksyscall_elf_hdr # ksyscall_elf_body) @ concat ksyscall_elf_shdrs"

section \<open>The parts of the object\<close>

text \<open>The sizes of the pieces. The definitions stay folded: a piece is only opened where it is read.\<close>

lemma ksyscall_elf_lengths [simp]:
  "length ksyscall_elf_hdr = 64"
  "length ksyscall_elf_1 = 280"
  "length ksyscall_elf_2 = 408"
  "length ksyscall_elf_3 = 672"
  "length ksyscall_elf_4 = 456"
  "length ksyscall_elf_5 = 4"
  "length ksyscall_elf_6 = 148"
  "length ksyscall_elf_7 = 32"
  "length ksyscall_elf_8 = 32"
  "length ksyscall_elf_9 = 1760"
  "length ksyscall_elf_10 = 1088"
  by (simp_all only: piece_length ksyscall_elf_hdr_def ksyscall_elf_1_def ksyscall_elf_2_def
    ksyscall_elf_3_def ksyscall_elf_4_def ksyscall_elf_5_def ksyscall_elf_6_def ksyscall_elf_7_def
    ksyscall_elf_8_def ksyscall_elf_9_def ksyscall_elf_10_def)

lemma ksyscall_elf_pieces: "object_pieces ksyscall_bpf__elf_bytes (ksyscall_elf_hdr # ksyscall_elf_body) ksyscall_elf_shdrs"
proof -
  have "le_at ksyscall_elf_hdr 40 8 = 4944" "le_at ksyscall_elf_hdr 60 2 = 11" "le_at ksyscall_elf_hdr 62 2 = 1"
    by (simp_all add: ksyscall_elf_hdr_def elf_eval)
  moreover have "list_all (\<lambda>h. length h = 64) ksyscall_elf_shdrs" "length ksyscall_elf_shdrs = 11"
    by (simp_all add: ksyscall_elf_shdrs_def)
  ultimately show ?thesis
    by (simp add: object_pieces_def ksyscall_bpf__elf_bytes_def ksyscall_elf_body_def)
qed

lemma ksyscall_elf_headers:
  "elf_section_at ksyscall_bpf__elf_bytes 0 = \<lparr>sec_name = 0, sec_type = 0, sec_offset = 0, sec_size = 0, sec_link = 0, sec_info = 0\<rparr>"
  "elf_section_at ksyscall_bpf__elf_bytes 1 = \<lparr>sec_name = 1, sec_type = 3, sec_offset = 64, sec_size = 279, sec_link = 0, sec_info = 0\<rparr>"
  "elf_section_at ksyscall_bpf__elf_bytes 2 = \<lparr>sec_name = 9, sec_type = 2, sec_offset = 344, sec_size = 408, sec_link = 1, sec_info = 0\<rparr>"
  "elf_section_at ksyscall_bpf__elf_bytes 3 = \<lparr>sec_name = 17, sec_type = 1, sec_offset = 752, sec_size = 672, sec_link = 0, sec_info = 0\<rparr>"
  "elf_section_at ksyscall_bpf__elf_bytes 4 = \<lparr>sec_name = 33, sec_type = 1, sec_offset = 1424, sec_size = 456, sec_link = 0, sec_info = 0\<rparr>"
  "elf_section_at ksyscall_bpf__elf_bytes 5 = \<lparr>sec_name = 47, sec_type = 1, sec_offset = 1880, sec_size = 4, sec_link = 0, sec_info = 0\<rparr>"
  "elf_section_at ksyscall_bpf__elf_bytes 6 = \<lparr>sec_name = 55, sec_type = 1, sec_offset = 1884, sec_size = 143, sec_link = 0, sec_info = 0\<rparr>"
  "elf_section_at ksyscall_bpf__elf_bytes 7 = \<lparr>sec_name = 227, sec_type = 9, sec_offset = 2032, sec_size = 32, sec_link = 2, sec_info = 3\<rparr>"
  "elf_section_at ksyscall_bpf__elf_bytes 8 = \<lparr>sec_name = 247, sec_type = 9, sec_offset = 2064, sec_size = 32, sec_link = 2, sec_info = 4\<rparr>"
  "elf_section_at ksyscall_bpf__elf_bytes 9 = \<lparr>sec_name = 265, sec_type = 1, sec_offset = 2096, sec_size = 1753, sec_link = 0, sec_info = 0\<rparr>"
  "elf_section_at ksyscall_bpf__elf_bytes 10 = \<lparr>sec_name = 270, sec_type = 1, sec_offset = 3856, sec_size = 1084, sec_link = 0, sec_info = 0\<rparr>"
  by (simp_all add: object_section [OF ksyscall_elf_pieces] ksyscall_elf_shdrs_def elf_section_header_def elf_eval)

lemma ksyscall_elf_flags:
  "section_flags ksyscall_bpf__elf_bytes 0 = 0"
  "section_flags ksyscall_bpf__elf_bytes 1 = 32"
  "section_flags ksyscall_bpf__elf_bytes 2 = 0"
  "section_flags ksyscall_bpf__elf_bytes 3 = 6"
  "section_flags ksyscall_bpf__elf_bytes 4 = 6"
  "section_flags ksyscall_bpf__elf_bytes 5 = 3"
  "section_flags ksyscall_bpf__elf_bytes 6 = 2"
  "section_flags ksyscall_bpf__elf_bytes 7 = 64"
  "section_flags ksyscall_bpf__elf_bytes 8 = 64"
  "section_flags ksyscall_bpf__elf_bytes 9 = 0"
  "section_flags ksyscall_bpf__elf_bytes 10 = 0"
  by (simp_all add: object_section [OF ksyscall_elf_pieces] ksyscall_elf_shdrs_def elf_eval)

lemma ksyscall_elf_contents:
  "section_bytes ksyscall_bpf__elf_bytes 0 = []"
  "section_bytes ksyscall_bpf__elf_bytes 1 = take 279 ksyscall_elf_1"
  "section_bytes ksyscall_bpf__elf_bytes 2 = ksyscall_elf_2"
  "section_bytes ksyscall_bpf__elf_bytes 3 = ksyscall_elf_3"
  "section_bytes ksyscall_bpf__elf_bytes 4 = ksyscall_elf_4"
  "section_bytes ksyscall_bpf__elf_bytes 5 = ksyscall_elf_5"
  "section_bytes ksyscall_bpf__elf_bytes 6 = take 143 ksyscall_elf_6"
  "section_bytes ksyscall_bpf__elf_bytes 7 = ksyscall_elf_7"
  "section_bytes ksyscall_bpf__elf_bytes 8 = ksyscall_elf_8"
  "section_bytes ksyscall_bpf__elf_bytes 9 = take 1753 ksyscall_elf_9"
  "section_bytes ksyscall_bpf__elf_bytes 10 = take 1084 ksyscall_elf_10"
proof -
  show "section_bytes ksyscall_bpf__elf_bytes 0 = []"
    by (simp add: section_bytes_def ksyscall_elf_headers elf_section.defs)
  show "section_bytes ksyscall_bpf__elf_bytes 1 = take 279 ksyscall_elf_1"
    using object_section_bytes [OF ksyscall_elf_pieces ksyscall_elf_headers(2), of 1] by (simp add: ksyscall_elf_body_def)
  show "section_bytes ksyscall_bpf__elf_bytes 2 = ksyscall_elf_2"
    using object_section_bytes [OF ksyscall_elf_pieces ksyscall_elf_headers(3), of 2] by (simp add: ksyscall_elf_body_def)
  show "section_bytes ksyscall_bpf__elf_bytes 3 = ksyscall_elf_3"
    using object_section_bytes [OF ksyscall_elf_pieces ksyscall_elf_headers(4), of 3] by (simp add: ksyscall_elf_body_def)
  show "section_bytes ksyscall_bpf__elf_bytes 4 = ksyscall_elf_4"
    using object_section_bytes [OF ksyscall_elf_pieces ksyscall_elf_headers(5), of 4] by (simp add: ksyscall_elf_body_def)
  show "section_bytes ksyscall_bpf__elf_bytes 5 = ksyscall_elf_5"
    using object_section_bytes [OF ksyscall_elf_pieces ksyscall_elf_headers(6), of 5] by (simp add: ksyscall_elf_body_def)
  show "section_bytes ksyscall_bpf__elf_bytes 6 = take 143 ksyscall_elf_6"
    using object_section_bytes [OF ksyscall_elf_pieces ksyscall_elf_headers(7), of 6] by (simp add: ksyscall_elf_body_def)
  show "section_bytes ksyscall_bpf__elf_bytes 7 = ksyscall_elf_7"
    using object_section_bytes [OF ksyscall_elf_pieces ksyscall_elf_headers(8), of 7] by (simp add: ksyscall_elf_body_def)
  show "section_bytes ksyscall_bpf__elf_bytes 8 = ksyscall_elf_8"
    using object_section_bytes [OF ksyscall_elf_pieces ksyscall_elf_headers(9), of 8] by (simp add: ksyscall_elf_body_def)
  show "section_bytes ksyscall_bpf__elf_bytes 9 = take 1753 ksyscall_elf_9"
    using object_section_bytes [OF ksyscall_elf_pieces ksyscall_elf_headers(10), of 9] by (simp add: ksyscall_elf_body_def)
  show "section_bytes ksyscall_bpf__elf_bytes 10 = take 1084 ksyscall_elf_10"
    using object_section_bytes [OF ksyscall_elf_pieces ksyscall_elf_headers(11), of 10] by (simp add: ksyscall_elf_body_def)
qed

lemma ksyscall_elf_names:
  "section_name ksyscall_bpf__elf_bytes 0 = ''''"
  "section_name ksyscall_bpf__elf_bytes 1 = ''.strtab''"
  "section_name ksyscall_bpf__elf_bytes 2 = ''.symtab''"
  "section_name ksyscall_bpf__elf_bytes 3 = ''ksyscall/tgkill''"
  "section_name ksyscall_bpf__elf_bytes 4 = ''ksyscall/kill''"
  "section_name ksyscall_bpf__elf_bytes 5 = ''license''"
  "section_name ksyscall_bpf__elf_bytes 6 = ''.rodata''"
  "section_name ksyscall_bpf__elf_bytes 7 = ''.relksyscall/tgkill''"
  "section_name ksyscall_bpf__elf_bytes 8 = ''.relksyscall/kill''"
  "section_name ksyscall_bpf__elf_bytes 9 = ''.BTF''"
  "section_name ksyscall_bpf__elf_bytes 10 = ''.BTF.ext''"
  by (simp_all only: object_section_name [OF ksyscall_elf_pieces ksyscall_elf_contents(2)] ksyscall_elf_headers elf_section.simps)
    (simp_all add: elf_eval ksyscall_elf_1_def)

lemma ksyscall_elf_sections:
  "elf_sections ksyscall_bpf__elf_bytes =
    [\<lparr>es_name = '''', es_type = 0, es_flags = 0, es_link = 0, es_info = 0, es_size = 0,
      es_bytes = []\<rparr>,
     \<lparr>es_name = ''.strtab'', es_type = 3, es_flags = 32, es_link = 0, es_info = 0, es_size = 279,
      es_bytes = take 279 ksyscall_elf_1\<rparr>,
     \<lparr>es_name = ''.symtab'', es_type = 2, es_flags = 0, es_link = 1, es_info = 0, es_size = 408,
      es_bytes = ksyscall_elf_2\<rparr>,
     \<lparr>es_name = ''ksyscall/tgkill'', es_type = 1, es_flags = 6, es_link = 0, es_info = 0, es_size = 672,
      es_bytes = ksyscall_elf_3\<rparr>,
     \<lparr>es_name = ''ksyscall/kill'', es_type = 1, es_flags = 6, es_link = 0, es_info = 0, es_size = 456,
      es_bytes = ksyscall_elf_4\<rparr>,
     \<lparr>es_name = ''license'', es_type = 1, es_flags = 3, es_link = 0, es_info = 0, es_size = 4,
      es_bytes = ksyscall_elf_5\<rparr>,
     \<lparr>es_name = ''.rodata'', es_type = 1, es_flags = 2, es_link = 0, es_info = 0, es_size = 143,
      es_bytes = take 143 ksyscall_elf_6\<rparr>,
     \<lparr>es_name = ''.relksyscall/tgkill'', es_type = 9, es_flags = 64, es_link = 2, es_info = 3, es_size = 32,
      es_bytes = ksyscall_elf_7\<rparr>,
     \<lparr>es_name = ''.relksyscall/kill'', es_type = 9, es_flags = 64, es_link = 2, es_info = 4, es_size = 32,
      es_bytes = ksyscall_elf_8\<rparr>,
     \<lparr>es_name = ''.BTF'', es_type = 1, es_flags = 0, es_link = 0, es_info = 0, es_size = 1753,
      es_bytes = take 1753 ksyscall_elf_9\<rparr>,
     \<lparr>es_name = ''.BTF.ext'', es_type = 1, es_flags = 0, es_link = 0, es_info = 0, es_size = 1084,
      es_bytes = take 1084 ksyscall_elf_10\<rparr>]"
proof -
  have "le_at ksyscall_bpf__elf_bytes 60 2 = 11"
    using object_piecesD(4) [OF ksyscall_elf_pieces] by (simp add: ksyscall_elf_shdrs_def)
  moreover have "[0..<11] = [0, 1, 2, 3, 4, 5, 6, 7, 8, 9, 10]"
    by (simp add: upt_rec)
  ultimately show ?thesis
    by (simp only: elf_sections_def list.map read_section_def Let_def ksyscall_elf_headers ksyscall_elf_flags ksyscall_elf_contents
        ksyscall_elf_names elf_section.simps)
qed

lemma ksyscall_elf_symtab_rows:
  "ksyscall_elf_2 =
    concat
     [[0, 0, 0, 0, 0, 0, 0, 0, 0, 0, 0, 0, 0, 0, 0, 0, 0, 0, 0, 0, 0, 0, 0, 0],
      [63, 0, 0, 0, 4, 0, 241, 255, 0, 0, 0, 0, 0, 0, 0, 0, 0, 0, 0, 0, 0, 0, 0, 0],
      [0, 0, 0, 0, 3, 0, 3, 0, 0, 0, 0, 0, 0, 0, 0, 0, 0, 0, 0, 0, 0, 0, 0, 0],
      [78, 0, 0, 0, 0, 0, 3, 0, 136, 1, 0, 0, 0, 0, 0, 0, 0, 0, 0, 0, 0, 0, 0, 0],
      [85, 0, 0, 0, 0, 0, 3, 0, 144, 2, 0, 0, 0, 0, 0, 0, 0, 0, 0, 0, 0, 0, 0, 0],
      [92, 0, 0, 0, 0, 0, 3, 0, 56, 2, 0, 0, 0, 0, 0, 0, 0, 0, 0, 0, 0, 0, 0, 0],
      [99, 0, 0, 0, 1, 0, 6, 0, 0, 0, 0, 0, 0, 0, 0, 0, 81, 0, 0, 0, 0, 0, 0, 0],
      [0, 0, 0, 0, 3, 0, 4, 0, 0, 0, 0, 0, 0, 0, 0, 0, 0, 0, 0, 0, 0, 0, 0, 0],
      [123, 0, 0, 0, 0, 0, 4, 0, 216, 0, 0, 0, 0, 0, 0, 0, 0, 0, 0, 0, 0, 0, 0, 0],
      [130, 0, 0, 0, 0, 0, 4, 0, 184, 1, 0, 0, 0, 0, 0, 0, 0, 0, 0, 0, 0, 0, 0, 0],
      [137, 0, 0, 0, 0, 0, 4, 0, 16, 1, 0, 0, 0, 0, 0, 0, 0, 0, 0, 0, 0, 0, 0, 0],
      [144, 0, 0, 0, 1, 0, 6, 0, 81, 0, 0, 0, 0, 0, 0, 0, 62, 0, 0, 0, 0, 0, 0, 0],
      [0, 0, 0, 0, 3, 0, 6, 0, 0, 0, 0, 0, 0, 0, 0, 0, 0, 0, 0, 0, 0, 0, 0, 0],
      [167, 0, 0, 0, 18, 0, 3, 0, 0, 0, 0, 0, 0, 0, 0, 0, 160, 2, 0, 0, 0, 0, 0, 0],
      [180, 0, 0, 0, 16, 0, 0, 0, 0, 0, 0, 0, 0, 0, 0, 0, 0, 0, 0, 0, 0, 0, 0, 0],
      [206, 0, 0, 0, 18, 0, 4, 0, 0, 0, 0, 0, 0, 0, 0, 0, 200, 1, 0, 0, 0, 0, 0, 0],
      [218, 0, 0, 0, 17, 0, 5, 0, 0, 0, 0, 0, 0, 0, 0, 0, 4, 0, 0, 0, 0, 0, 0, 0]]"
  by (simp add: ksyscall_elf_2_def)

lemma ksyscall_elf_symbols:
  "elf_symbols ksyscall_bpf__elf_bytes =
    [\<lparr>sym_name = '''', sym_info = 0, sym_shndx = 0, sym_value = 0, sym_size = 0\<rparr>,
     \<lparr>sym_name = ''ksyscall.bpf.c'', sym_info = 4, sym_shndx = 65521, sym_value = 0, sym_size = 0\<rparr>,
     \<lparr>sym_name = '''', sym_info = 3, sym_shndx = 3, sym_value = 0, sym_size = 0\<rparr>,
     \<lparr>sym_name = ''LBB0_3'', sym_info = 0, sym_shndx = 3, sym_value = 392, sym_size = 0\<rparr>,
     \<lparr>sym_name = ''LBB0_6'', sym_info = 0, sym_shndx = 3, sym_value = 656, sym_size = 0\<rparr>,
     \<lparr>sym_name = ''LBB0_5'', sym_info = 0, sym_shndx = 3, sym_value = 568, sym_size = 0\<rparr>,
     \<lparr>sym_name = ''____tgkill_entry.___fmt'', sym_info = 1, sym_shndx = 6, sym_value = 0, sym_size = 81\<rparr>,
     \<lparr>sym_name = '''', sym_info = 3, sym_shndx = 4, sym_value = 0, sym_size = 0\<rparr>,
     \<lparr>sym_name = ''LBB1_3'', sym_info = 0, sym_shndx = 4, sym_value = 216, sym_size = 0\<rparr>,
     \<lparr>sym_name = ''LBB1_5'', sym_info = 0, sym_shndx = 4, sym_value = 440, sym_size = 0\<rparr>,
     \<lparr>sym_name = ''LBB1_4'', sym_info = 0, sym_shndx = 4, sym_value = 272, sym_size = 0\<rparr>,
     \<lparr>sym_name = ''____entry_probe.___fmt'', sym_info = 1, sym_shndx = 6, sym_value = 81, sym_size = 62\<rparr>,
     \<lparr>sym_name = '''', sym_info = 3, sym_shndx = 6, sym_value = 0, sym_size = 0\<rparr>,
     \<lparr>sym_name = ''tgkill_entry'', sym_info = 18, sym_shndx = 3, sym_value = 0, sym_size = 672\<rparr>,
     \<lparr>sym_name = ''LINUX_HAS_SYSCALL_WRAPPER'', sym_info = 16, sym_shndx = 0, sym_value = 0, sym_size = 0\<rparr>,
     \<lparr>sym_name = ''entry_probe'', sym_info = 18, sym_shndx = 4, sym_value = 0, sym_size = 456\<rparr>,
     \<lparr>sym_name = ''_license'', sym_info = 17, sym_shndx = 5, sym_value = 0, sym_size = 4\<rparr>]"
  by (simp add: elf_symbols_def ksyscall_elf_sections Let_def read_symbol_rows [OF ksyscall_elf_symtab_rows] del: upt_rec_numeral)
    (simp add: read_symbol_def elf_eval ksyscall_elf_1_def)

lemma ksyscall_elf_programs:
  "elf_programs ksyscall_bpf__elf_bytes =
    [(''ksyscall/tgkill'', decode_program ksyscall_elf_3),
     (''ksyscall/kill'', decode_program ksyscall_elf_4)]"
  by (simp add: elf_programs_def ksyscall_elf_sections is_program_def bit_numeral_rec bit_0)

end
