(* ===== verification/Obj_Lsm.thy ===== *)
theory Obj_Lsm
  imports Elf
begin

text \<open>
  The object file embedded in examples/c/.output/lsm.skel.h as a string literal: one list of bytes per line of the
  literal, cut at the borders of the sections; then its section table, its symbols and its programs.
\<close>

section \<open>The literal\<close>

definition lsm_elf_hdr :: "byte list" where
  "lsm_elf_hdr =
    concat
    [[127, 69, 76, 70, 2, 1, 1, 0, 0, 0, 0, 0, 0, 0, 0, 0, 1, 0, 247, 0, 1, 0, 0, 0, 0, 0, 0, 0, 0],
     [0, 0, 0, 0, 0, 0, 0, 0, 0, 0, 0, 208, 4, 0, 0, 0, 0, 0, 0, 0, 0, 0, 0, 64, 0, 0, 0, 0, 0, 64, 0, 9, 0],
     [1, 0]]"

definition lsm_elf_1 :: "byte list" where
  "lsm_elf_1 =
    concat
    [[0, 46, 115, 116, 114, 116, 97, 98, 0, 46, 115, 121, 109, 116, 97, 98, 0, 108, 115],
     [109, 47, 98, 112, 102, 0, 108, 105, 99, 101, 110, 115, 101, 0, 46, 114, 111, 100, 97, 116],
     [97, 0, 108, 115, 109, 46, 98, 112, 102, 46, 99, 0, 76, 66, 66, 48, 95, 50, 0, 95, 95],
     [95, 95, 108, 115, 109, 95, 98, 112, 102, 46, 95, 95, 95, 95, 102, 109, 116, 0, 108, 115],
     [109, 95, 98, 112, 102, 0, 76, 73, 67, 69, 78, 83, 69, 0, 46, 114, 101, 108, 108, 115],
     [109, 47, 98, 112, 102, 0, 46, 66, 84, 70, 0, 46, 66, 84, 70, 46, 101, 120, 116, 0]]"

definition lsm_elf_2 :: "byte list" where
  "lsm_elf_2 =
    concat
    [[0, 0],
     [0, 0, 0, 0, 0, 0, 0, 0, 0, 0, 0, 0, 0, 0, 0, 0, 0, 0, 0, 0, 0, 0, 41, 0, 0, 0, 4, 0, 241, 255, 0, 0, 0, 0, 0],
     [0, 0, 0, 0, 0, 0, 0, 0, 0, 0, 0, 0, 0, 0, 0, 3, 0, 3, 0, 0, 0, 0, 0, 0, 0, 0, 0, 0, 0, 0, 0, 0, 0, 0, 0, 51],
     [0, 0, 0, 0, 0, 3, 0, 88, 0, 0, 0, 0, 0, 0, 0, 0, 0, 0, 0, 0, 0, 0, 0, 58, 0, 0, 0, 1, 0, 5, 0, 0, 0, 0],
     [0, 0, 0, 0, 0, 24, 0, 0, 0, 0, 0, 0, 0, 0, 0, 0, 0, 3, 0, 5, 0, 0, 0, 0, 0, 0, 0, 0, 0, 0, 0, 0, 0, 0, 0, 0],
     [0, 78, 0, 0, 0, 18, 0, 3, 0, 0, 0, 0, 0, 0, 0, 0, 0, 96, 0, 0, 0, 0, 0, 0, 0, 86, 0, 0, 0, 17, 0, 4],
     [0, 0, 0, 0, 0, 0, 0, 0, 0, 4, 0, 0, 0, 0, 0, 0, 0]]"

definition lsm_elf_3 :: "byte list" where
  "lsm_elf_3 =
    concat
    [[121, 16, 24, 0, 0, 0, 0, 0, 191, 1, 0, 0, 0, 0, 0, 0],
     [103, 1, 0, 0, 32, 0, 0, 0, 119, 1, 0, 0, 32, 0, 0, 0, 85, 1, 6, 0, 0, 0, 0, 0, 24, 1, 0, 0],
     [0, 0, 0, 0, 0, 0, 0, 0, 0, 0, 0, 0, 183, 2, 0, 0, 24, 0, 0, 0, 133, 0, 0, 0, 6, 0, 0, 0, 24, 0, 0, 0],
     [255, 255, 255, 255, 0, 0, 0, 0, 0, 0, 0, 0, 149, 0, 0, 0, 0, 0, 0, 0]]"

definition lsm_elf_4 :: "byte list" where
  "lsm_elf_4 =
    concat
    [[71, 80, 76, 0]]"

definition lsm_elf_5 :: "byte list" where
  "lsm_elf_5 =
    concat
    [[76, 83, 77],
     [58, 32, 98, 108, 111, 99, 107, 32, 98, 112, 102, 40, 41, 32, 119, 111, 114, 107, 101],
     [100, 0, 0, 0, 0, 0]]"

definition lsm_elf_6 :: "byte list" where
  "lsm_elf_6 =
    concat
    [[40, 0, 0, 0, 0, 0, 0, 0, 1, 0, 0, 0, 5, 0, 0, 0]]"

definition lsm_elf_7 :: "byte list" where
  "lsm_elf_7 =
    concat
    [[159, 235, 1, 0, 24, 0, 0, 0, 0],
     [0, 0, 0, 248, 0, 0, 0, 248, 0, 0, 0, 52, 1, 0, 0, 0, 0, 0, 0, 0, 0, 0, 2, 2, 0, 0, 0, 1, 0, 0, 0, 0],
     [0, 0, 1, 8, 0, 0, 0, 64, 0, 0, 0, 0, 0, 0, 0, 1, 0, 0, 13, 4, 0, 0, 0, 20, 0, 0, 0, 1, 0, 0, 0],
     [24, 0, 0, 0, 0, 0, 0, 1, 4, 0, 0, 0, 32, 0, 0, 1, 28, 0, 0, 0, 1, 0, 0, 12, 3, 0, 0, 0, 36],
     [0, 0, 0, 0, 0, 0, 1, 1, 0, 0, 0, 8, 0, 0, 1, 0, 0, 0, 0, 0, 0, 0, 3, 0, 0, 0, 0, 6, 0, 0, 0, 8],
     [0, 0, 0, 4, 0, 0, 0, 41, 0, 0, 0, 0, 0, 0, 1, 4, 0, 0, 0, 32, 0, 0, 0, 61, 0, 0, 0, 0, 0, 0, 14],
     [7, 0, 0, 0, 1, 0, 0, 0, 0, 0, 0, 0, 0, 0, 0, 10, 6, 0, 0, 0, 0, 0, 0, 0, 0, 0, 0, 3, 0, 0, 0, 0, 10],
     [0, 0, 0, 8, 0, 0, 0, 24, 0, 0, 0, 69, 0, 0, 0, 0, 0, 0, 14, 11, 0, 0, 0, 0, 0, 0, 0, 28, 1, 0, 0],
     [1, 0, 0, 15, 4, 0, 0, 0, 9, 0, 0, 0, 0, 0, 0, 0, 4, 0, 0, 0, 36, 1, 0, 0, 1, 0, 0, 15, 24],
     [0, 0, 0, 12, 0, 0, 0, 0, 0, 0, 0, 24, 0, 0, 0, 0, 117, 110, 115, 105, 103, 110, 101, 100, 32, 108],
     [111, 110, 103, 32, 108, 111, 110, 103, 0, 99, 116, 120, 0, 105, 110, 116, 0, 108, 115, 109, 95],
     [98, 112, 102, 0, 99, 104, 97, 114, 0, 95, 95, 65, 82, 82, 65, 89, 95, 83, 73, 90],
     [69, 95, 84, 89, 80, 69, 95, 95, 0, 76, 73, 67, 69, 78, 83, 69, 0, 95, 95, 95],
     [95, 108, 115, 109, 95, 98, 112, 102, 46, 95, 95, 95, 95, 102, 109, 116, 0, 47, 104, 111],
     [109, 101, 47, 108, 111, 115, 116, 99, 97, 99, 104, 101, 47, 99, 111, 100, 101, 47, 104],
     [101, 108, 108, 111, 95, 101, 66, 80, 70, 47, 101, 120, 97, 109, 112, 108, 101, 115, 47],
     [99, 47, 108, 115, 109, 46, 98, 112, 102, 46, 99, 0, 105, 110, 116, 32, 66, 80, 70, 95],
     [80, 82, 79, 71, 40, 108, 115, 109, 95, 98, 112, 102, 44, 32, 105, 110, 116, 32, 99],
     [109, 100, 44, 32, 117, 110, 105, 111, 110, 32, 98, 112, 102, 95, 97, 116, 116, 114, 32],
     [42, 97, 116, 116, 114, 44, 32, 117, 110, 115, 105, 103, 110, 101, 100, 32, 105, 110, 116],
     [32, 115, 105, 122, 101, 44, 32, 105, 110, 116, 32, 114, 101, 116, 41, 0, 32, 32, 32, 32],
     [105, 102, 32, 40, 114, 101, 116, 32, 33, 61, 32, 48, 41, 0, 32, 32, 32, 32, 98, 112],
     [102, 95, 112, 114, 105, 110, 116, 107, 40, 34, 76, 83, 77, 58, 32, 98, 108, 111, 99],
     [107, 32, 98, 112, 102, 40, 41, 32, 119, 111, 114, 107, 101, 100, 34, 41, 59, 0, 108, 105],
     [99, 101, 110, 115, 101, 0, 46, 114, 111, 100, 97, 116, 97, 0, 108, 115, 109, 47, 98, 112],
     [102, 0, 0, 0, 0, 0]]"

definition lsm_elf_8 :: "byte list" where
  "lsm_elf_8 =
    concat
    [[159, 235, 1, 0, 32, 0, 0, 0, 0, 0, 0, 0, 20, 0, 0, 0, 20, 0, 0, 0, 76, 0, 0, 0],
     [96, 0, 0, 0, 0, 0, 0, 0, 8, 0, 0, 0, 44, 1, 0, 0, 1, 0, 0, 0, 0, 0, 0, 0, 5, 0, 0, 0, 16, 0, 0, 0],
     [44, 1, 0, 0, 4, 0, 0, 0, 0, 0, 0, 0, 89, 0, 0, 0, 142, 0, 0, 0, 5, 40, 0, 0, 32, 0, 0, 0, 89, 0],
     [0, 0, 223, 0, 0, 0, 9, 60, 0, 0, 40, 0, 0, 0, 89, 0, 0, 0, 241, 0, 0, 0, 5, 72, 0, 0, 88, 0, 0, 0],
     [89, 0, 0, 0, 142, 0, 0, 0, 5, 40, 0, 0]]"

definition lsm_elf_shdrs :: "byte list list" where
  "lsm_elf_shdrs =
    [[0, 0, 0, 0, 0, 0, 0, 0, 0, 0, 0, 0, 0, 0, 0, 0, 0, 0, 0, 0, 0, 0, 0, 0, 0, 0, 0, 0, 0, 0, 0, 0,
      0, 0, 0, 0, 0, 0, 0, 0, 0, 0, 0, 0, 0, 0, 0, 0, 0, 0, 0, 0, 0, 0, 0, 0, 0, 0, 0, 0, 0, 0, 0, 0],
     [1, 0, 0, 0, 3, 0, 0, 0, 32, 0, 0, 0, 0, 0, 0, 0, 0, 0, 0, 0, 0, 0, 0, 0, 64, 0, 0, 0, 0, 0, 0, 0,
      120, 0, 0, 0, 0, 0, 0, 0, 0, 0, 0, 0, 0, 0, 0, 0, 1, 0, 0, 0, 0, 0, 0, 0, 0, 0, 0, 0, 0, 0, 0, 0],
     [9, 0, 0, 0, 2, 0, 0, 0, 0, 0, 0, 0, 0, 0, 0, 0, 0, 0, 0, 0, 0, 0, 0, 0, 184, 0, 0, 0, 0, 0, 0, 0,
      192, 0, 0, 0, 0, 0, 0, 0, 1, 0, 0, 0, 0, 0, 0, 0, 8, 0, 0, 0, 0, 0, 0, 0, 24, 0, 0, 0, 0, 0, 0, 0],
     [17, 0, 0, 0, 1, 0, 0, 0, 6, 0, 0, 0, 0, 0, 0, 0, 0, 0, 0, 0, 0, 0, 0, 0, 120, 1, 0, 0, 0, 0, 0, 0,
      96, 0, 0, 0, 0, 0, 0, 0, 0, 0, 0, 0, 0, 0, 0, 0, 8, 0, 0, 0, 0, 0, 0, 0, 0, 0, 0, 0, 0, 0, 0, 0],
     [25, 0, 0, 0, 1, 0, 0, 0, 3, 0, 0, 0, 0, 0, 0, 0, 0, 0, 0, 0, 0, 0, 0, 0, 216, 1, 0, 0, 0, 0, 0, 0,
      4, 0, 0, 0, 0, 0, 0, 0, 0, 0, 0, 0, 0, 0, 0, 0, 1, 0, 0, 0, 0, 0, 0, 0, 0, 0, 0, 0, 0, 0, 0, 0],
     [33, 0, 0, 0, 1, 0, 0, 0, 2, 0, 0, 0, 0, 0, 0, 0, 0, 0, 0, 0, 0, 0, 0, 0, 220, 1, 0, 0, 0, 0, 0, 0,
      24, 0, 0, 0, 0, 0, 0, 0, 0, 0, 0, 0, 0, 0, 0, 0, 1, 0, 0, 0, 0, 0, 0, 0, 0, 0, 0, 0, 0, 0, 0, 0],
     [94, 0, 0, 0, 9, 0, 0, 0, 64, 0, 0, 0, 0, 0, 0, 0, 0, 0, 0, 0, 0, 0, 0, 0, 248, 1, 0, 0, 0, 0, 0, 0,
      16, 0, 0, 0, 0, 0, 0, 0, 2, 0, 0, 0, 3, 0, 0, 0, 8, 0, 0, 0, 0, 0, 0, 0, 16, 0, 0, 0, 0, 0, 0, 0],
     [106, 0, 0, 0, 1, 0, 0, 0, 0, 0, 0, 0, 0, 0, 0, 0, 0, 0, 0, 0, 0, 0, 0, 0, 8, 2, 0, 0, 0, 0, 0, 0,
      68, 2, 0, 0, 0, 0, 0, 0, 0, 0, 0, 0, 0, 0, 0, 0, 8, 0, 0, 0, 0, 0, 0, 0, 0, 0, 0, 0, 0, 0, 0, 0],
     [111, 0, 0, 0, 1, 0, 0, 0, 0, 0, 0, 0, 0, 0, 0, 0, 0, 0, 0, 0, 0, 0, 0, 0, 80, 4, 0, 0, 0, 0, 0, 0,
      128, 0, 0, 0, 0, 0, 0, 0, 0, 0, 0, 0, 0, 0, 0, 0, 8, 0, 0, 0, 0, 0, 0, 0, 0, 0, 0, 0, 0, 0, 0, 0]]"

definition lsm_elf_body :: "byte list list" where
  "lsm_elf_body = [lsm_elf_1, lsm_elf_2, lsm_elf_3, lsm_elf_4, lsm_elf_5, lsm_elf_6, lsm_elf_7, lsm_elf_8]"

definition lsm_bpf__elf_bytes :: "byte list" where
  "lsm_bpf__elf_bytes = concat (lsm_elf_hdr # lsm_elf_body) @ concat lsm_elf_shdrs"

section \<open>The parts of the object\<close>

text \<open>The sizes of the pieces. The definitions stay folded: a piece is only opened where it is read.\<close>

lemma lsm_elf_lengths [simp]:
  "length lsm_elf_hdr = 64"
  "length lsm_elf_1 = 120"
  "length lsm_elf_2 = 192"
  "length lsm_elf_3 = 96"
  "length lsm_elf_4 = 4"
  "length lsm_elf_5 = 28"
  "length lsm_elf_6 = 16"
  "length lsm_elf_7 = 584"
  "length lsm_elf_8 = 128"
  by (simp_all only: piece_length lsm_elf_hdr_def lsm_elf_1_def lsm_elf_2_def lsm_elf_3_def lsm_elf_4_def
    lsm_elf_5_def lsm_elf_6_def lsm_elf_7_def lsm_elf_8_def)

lemma lsm_elf_pieces: "object_pieces lsm_bpf__elf_bytes (lsm_elf_hdr # lsm_elf_body) lsm_elf_shdrs"
proof -
  have "le_at lsm_elf_hdr 40 8 = 1232" "le_at lsm_elf_hdr 60 2 = 9" "le_at lsm_elf_hdr 62 2 = 1"
    by (simp_all add: lsm_elf_hdr_def elf_eval)
  moreover have "list_all (\<lambda>h. length h = 64) lsm_elf_shdrs" "length lsm_elf_shdrs = 9"
    by (simp_all add: lsm_elf_shdrs_def)
  ultimately show ?thesis
    by (simp add: object_pieces_def lsm_bpf__elf_bytes_def lsm_elf_body_def)
qed

lemma lsm_elf_headers:
  "elf_section_at lsm_bpf__elf_bytes 0 = \<lparr>sec_name = 0, sec_type = 0, sec_offset = 0, sec_size = 0, sec_link = 0, sec_info = 0\<rparr>"
  "elf_section_at lsm_bpf__elf_bytes 1 = \<lparr>sec_name = 1, sec_type = 3, sec_offset = 64, sec_size = 120, sec_link = 0, sec_info = 0\<rparr>"
  "elf_section_at lsm_bpf__elf_bytes 2 = \<lparr>sec_name = 9, sec_type = 2, sec_offset = 184, sec_size = 192, sec_link = 1, sec_info = 0\<rparr>"
  "elf_section_at lsm_bpf__elf_bytes 3 = \<lparr>sec_name = 17, sec_type = 1, sec_offset = 376, sec_size = 96, sec_link = 0, sec_info = 0\<rparr>"
  "elf_section_at lsm_bpf__elf_bytes 4 = \<lparr>sec_name = 25, sec_type = 1, sec_offset = 472, sec_size = 4, sec_link = 0, sec_info = 0\<rparr>"
  "elf_section_at lsm_bpf__elf_bytes 5 = \<lparr>sec_name = 33, sec_type = 1, sec_offset = 476, sec_size = 24, sec_link = 0, sec_info = 0\<rparr>"
  "elf_section_at lsm_bpf__elf_bytes 6 = \<lparr>sec_name = 94, sec_type = 9, sec_offset = 504, sec_size = 16, sec_link = 2, sec_info = 3\<rparr>"
  "elf_section_at lsm_bpf__elf_bytes 7 = \<lparr>sec_name = 106, sec_type = 1, sec_offset = 520, sec_size = 580, sec_link = 0, sec_info = 0\<rparr>"
  "elf_section_at lsm_bpf__elf_bytes 8 = \<lparr>sec_name = 111, sec_type = 1, sec_offset = 1104, sec_size = 128, sec_link = 0, sec_info = 0\<rparr>"
  by (simp_all add: object_section [OF lsm_elf_pieces] lsm_elf_shdrs_def elf_section_header_def elf_eval)

lemma lsm_elf_flags:
  "section_flags lsm_bpf__elf_bytes 0 = 0"
  "section_flags lsm_bpf__elf_bytes 1 = 32"
  "section_flags lsm_bpf__elf_bytes 2 = 0"
  "section_flags lsm_bpf__elf_bytes 3 = 6"
  "section_flags lsm_bpf__elf_bytes 4 = 3"
  "section_flags lsm_bpf__elf_bytes 5 = 2"
  "section_flags lsm_bpf__elf_bytes 6 = 64"
  "section_flags lsm_bpf__elf_bytes 7 = 0"
  "section_flags lsm_bpf__elf_bytes 8 = 0"
  by (simp_all add: object_section [OF lsm_elf_pieces] lsm_elf_shdrs_def elf_eval)

lemma lsm_elf_contents:
  "section_bytes lsm_bpf__elf_bytes 0 = []"
  "section_bytes lsm_bpf__elf_bytes 1 = lsm_elf_1"
  "section_bytes lsm_bpf__elf_bytes 2 = lsm_elf_2"
  "section_bytes lsm_bpf__elf_bytes 3 = lsm_elf_3"
  "section_bytes lsm_bpf__elf_bytes 4 = lsm_elf_4"
  "section_bytes lsm_bpf__elf_bytes 5 = take 24 lsm_elf_5"
  "section_bytes lsm_bpf__elf_bytes 6 = lsm_elf_6"
  "section_bytes lsm_bpf__elf_bytes 7 = take 580 lsm_elf_7"
  "section_bytes lsm_bpf__elf_bytes 8 = lsm_elf_8"
proof -
  show "section_bytes lsm_bpf__elf_bytes 0 = []"
    by (simp add: section_bytes_def lsm_elf_headers elf_section.defs)
  show "section_bytes lsm_bpf__elf_bytes 1 = lsm_elf_1"
    using object_section_bytes [OF lsm_elf_pieces lsm_elf_headers(2), of 1] by (simp add: lsm_elf_body_def)
  show "section_bytes lsm_bpf__elf_bytes 2 = lsm_elf_2"
    using object_section_bytes [OF lsm_elf_pieces lsm_elf_headers(3), of 2] by (simp add: lsm_elf_body_def)
  show "section_bytes lsm_bpf__elf_bytes 3 = lsm_elf_3"
    using object_section_bytes [OF lsm_elf_pieces lsm_elf_headers(4), of 3] by (simp add: lsm_elf_body_def)
  show "section_bytes lsm_bpf__elf_bytes 4 = lsm_elf_4"
    using object_section_bytes [OF lsm_elf_pieces lsm_elf_headers(5), of 4] by (simp add: lsm_elf_body_def)
  show "section_bytes lsm_bpf__elf_bytes 5 = take 24 lsm_elf_5"
    using object_section_bytes [OF lsm_elf_pieces lsm_elf_headers(6), of 5] by (simp add: lsm_elf_body_def)
  show "section_bytes lsm_bpf__elf_bytes 6 = lsm_elf_6"
    using object_section_bytes [OF lsm_elf_pieces lsm_elf_headers(7), of 6] by (simp add: lsm_elf_body_def)
  show "section_bytes lsm_bpf__elf_bytes 7 = take 580 lsm_elf_7"
    using object_section_bytes [OF lsm_elf_pieces lsm_elf_headers(8), of 7] by (simp add: lsm_elf_body_def)
  show "section_bytes lsm_bpf__elf_bytes 8 = lsm_elf_8"
    using object_section_bytes [OF lsm_elf_pieces lsm_elf_headers(9), of 8] by (simp add: lsm_elf_body_def)
qed

lemma lsm_elf_names:
  "section_name lsm_bpf__elf_bytes 0 = ''''"
  "section_name lsm_bpf__elf_bytes 1 = ''.strtab''"
  "section_name lsm_bpf__elf_bytes 2 = ''.symtab''"
  "section_name lsm_bpf__elf_bytes 3 = ''lsm/bpf''"
  "section_name lsm_bpf__elf_bytes 4 = ''license''"
  "section_name lsm_bpf__elf_bytes 5 = ''.rodata''"
  "section_name lsm_bpf__elf_bytes 6 = ''.rellsm/bpf''"
  "section_name lsm_bpf__elf_bytes 7 = ''.BTF''"
  "section_name lsm_bpf__elf_bytes 8 = ''.BTF.ext''"
  by (simp_all only: object_section_name [OF lsm_elf_pieces lsm_elf_contents(2)] lsm_elf_headers elf_section.simps)
    (simp_all add: elf_eval lsm_elf_1_def)

lemma lsm_elf_sections:
  "elf_sections lsm_bpf__elf_bytes =
    [\<lparr>es_name = '''', es_type = 0, es_flags = 0, es_link = 0, es_info = 0, es_size = 0,
      es_bytes = []\<rparr>,
     \<lparr>es_name = ''.strtab'', es_type = 3, es_flags = 32, es_link = 0, es_info = 0, es_size = 120,
      es_bytes = lsm_elf_1\<rparr>,
     \<lparr>es_name = ''.symtab'', es_type = 2, es_flags = 0, es_link = 1, es_info = 0, es_size = 192,
      es_bytes = lsm_elf_2\<rparr>,
     \<lparr>es_name = ''lsm/bpf'', es_type = 1, es_flags = 6, es_link = 0, es_info = 0, es_size = 96,
      es_bytes = lsm_elf_3\<rparr>,
     \<lparr>es_name = ''license'', es_type = 1, es_flags = 3, es_link = 0, es_info = 0, es_size = 4,
      es_bytes = lsm_elf_4\<rparr>,
     \<lparr>es_name = ''.rodata'', es_type = 1, es_flags = 2, es_link = 0, es_info = 0, es_size = 24,
      es_bytes = take 24 lsm_elf_5\<rparr>,
     \<lparr>es_name = ''.rellsm/bpf'', es_type = 9, es_flags = 64, es_link = 2, es_info = 3, es_size = 16,
      es_bytes = lsm_elf_6\<rparr>,
     \<lparr>es_name = ''.BTF'', es_type = 1, es_flags = 0, es_link = 0, es_info = 0, es_size = 580,
      es_bytes = take 580 lsm_elf_7\<rparr>,
     \<lparr>es_name = ''.BTF.ext'', es_type = 1, es_flags = 0, es_link = 0, es_info = 0, es_size = 128,
      es_bytes = lsm_elf_8\<rparr>]"
proof -
  have "le_at lsm_bpf__elf_bytes 60 2 = 9"
    using object_piecesD(4) [OF lsm_elf_pieces] by (simp add: lsm_elf_shdrs_def)
  moreover have "[0..<9] = [0, 1, 2, 3, 4, 5, 6, 7, 8]"
    by (simp add: upt_rec)
  ultimately show ?thesis
    by (simp only: elf_sections_def list.map read_section_def Let_def lsm_elf_headers lsm_elf_flags lsm_elf_contents
        lsm_elf_names elf_section.simps)
qed

lemma lsm_elf_symtab_rows:
  "lsm_elf_2 =
    concat
     [[0, 0, 0, 0, 0, 0, 0, 0, 0, 0, 0, 0, 0, 0, 0, 0, 0, 0, 0, 0, 0, 0, 0, 0],
      [41, 0, 0, 0, 4, 0, 241, 255, 0, 0, 0, 0, 0, 0, 0, 0, 0, 0, 0, 0, 0, 0, 0, 0],
      [0, 0, 0, 0, 3, 0, 3, 0, 0, 0, 0, 0, 0, 0, 0, 0, 0, 0, 0, 0, 0, 0, 0, 0],
      [51, 0, 0, 0, 0, 0, 3, 0, 88, 0, 0, 0, 0, 0, 0, 0, 0, 0, 0, 0, 0, 0, 0, 0],
      [58, 0, 0, 0, 1, 0, 5, 0, 0, 0, 0, 0, 0, 0, 0, 0, 24, 0, 0, 0, 0, 0, 0, 0],
      [0, 0, 0, 0, 3, 0, 5, 0, 0, 0, 0, 0, 0, 0, 0, 0, 0, 0, 0, 0, 0, 0, 0, 0],
      [78, 0, 0, 0, 18, 0, 3, 0, 0, 0, 0, 0, 0, 0, 0, 0, 96, 0, 0, 0, 0, 0, 0, 0],
      [86, 0, 0, 0, 17, 0, 4, 0, 0, 0, 0, 0, 0, 0, 0, 0, 4, 0, 0, 0, 0, 0, 0, 0]]"
  by (simp add: lsm_elf_2_def)

lemma lsm_elf_symbols:
  "elf_symbols lsm_bpf__elf_bytes =
    [\<lparr>sym_name = '''', sym_info = 0, sym_shndx = 0, sym_value = 0, sym_size = 0\<rparr>,
     \<lparr>sym_name = ''lsm.bpf.c'', sym_info = 4, sym_shndx = 65521, sym_value = 0, sym_size = 0\<rparr>,
     \<lparr>sym_name = '''', sym_info = 3, sym_shndx = 3, sym_value = 0, sym_size = 0\<rparr>,
     \<lparr>sym_name = ''LBB0_2'', sym_info = 0, sym_shndx = 3, sym_value = 88, sym_size = 0\<rparr>,
     \<lparr>sym_name = ''____lsm_bpf.____fmt'', sym_info = 1, sym_shndx = 5, sym_value = 0, sym_size = 24\<rparr>,
     \<lparr>sym_name = '''', sym_info = 3, sym_shndx = 5, sym_value = 0, sym_size = 0\<rparr>,
     \<lparr>sym_name = ''lsm_bpf'', sym_info = 18, sym_shndx = 3, sym_value = 0, sym_size = 96\<rparr>,
     \<lparr>sym_name = ''LICENSE'', sym_info = 17, sym_shndx = 4, sym_value = 0, sym_size = 4\<rparr>]"
  by (simp add: elf_symbols_def lsm_elf_sections Let_def read_symbol_rows [OF lsm_elf_symtab_rows] del: upt_rec_numeral)
    (simp add: read_symbol_def elf_eval lsm_elf_1_def)

lemma lsm_elf_programs:
  "elf_programs lsm_bpf__elf_bytes =
    [(''lsm/bpf'', decode_program lsm_elf_3)]"
  by (simp add: elf_programs_def lsm_elf_sections is_program_def bit_numeral_rec bit_0)

end
