(* ===== verification/Obj_Minimal.thy ===== *)
theory Obj_Minimal
  imports Minimal_Skel Elf
begin

text \<open>
  The object file of minimal.skel.h (its literal is in \<open>Minimal_Skel\<close>): section table, symbols and programs, in the form in
  which the other thirteen objects have them.
\<close>

definition minimal_elf_body :: "byte list list" where
  "minimal_elf_body = [elf_strtab, elf_symtab, elf_handle_tp, elf_license, elf_rodata, elf_relocs, elf_btf, elf_btf_ext]"

lemma minimal_elf_pieces: "object_pieces minimal_bpf__elf_bytes (elf_ehdr # minimal_elf_body) elf_shdrs"
proof -
  have "le_at elf_ehdr 40 8 = 1400" "le_at elf_ehdr 60 2 = 10" "le_at elf_ehdr 62 2 = 1"
    by (simp_all add: elf_ehdr_def elf_eval)
  moreover have "list_all (\<lambda>h. length h = 64) elf_shdrs" "length elf_shdrs = 10"
    by (simp_all add: elf_shdrs_def)
  ultimately show ?thesis
    by (simp add: object_pieces_def minimal_bpf__elf_bytes_def minimal_elf_body_def)
qed

lemma minimal_elf_headers:
  "elf_section_at minimal_bpf__elf_bytes 0 = \<lparr>sec_name = 0, sec_type = 0, sec_offset = 0, sec_size = 0, sec_link = 0, sec_info = 0\<rparr>"
  "elf_section_at minimal_bpf__elf_bytes 1 = \<lparr>sec_name = 1, sec_type = 3, sec_offset = 64, sec_size = 176, sec_link = 0, sec_info = 0\<rparr>"
  "elf_section_at minimal_bpf__elf_bytes 2 = \<lparr>sec_name = 9, sec_type = 2, sec_offset = 240, sec_size = 216, sec_link = 1, sec_info = 0\<rparr>"
  "elf_section_at minimal_bpf__elf_bytes 3 = \<lparr>sec_name = 17, sec_type = 1, sec_offset = 456, sec_size = 104, sec_link = 0, sec_info = 0\<rparr>"
  "elf_section_at minimal_bpf__elf_bytes 4 = \<lparr>sec_name = 45, sec_type = 1, sec_offset = 560, sec_size = 13, sec_link = 0, sec_info = 0\<rparr>"
  "elf_section_at minimal_bpf__elf_bytes 5 = \<lparr>sec_name = 53, sec_type = 8, sec_offset = 576, sec_size = 4, sec_link = 0, sec_info = 0\<rparr>"
  "elf_section_at minimal_bpf__elf_bytes 6 = \<lparr>sec_name = 58, sec_type = 1, sec_offset = 576, sec_size = 28, sec_link = 0, sec_info = 0\<rparr>"
  "elf_section_at minimal_bpf__elf_bytes 7 = \<lparr>sec_name = 130, sec_type = 9, sec_offset = 608, sec_size = 32, sec_link = 2, sec_info = 3\<rparr>"
  "elf_section_at minimal_bpf__elf_bytes 8 = \<lparr>sec_name = 162, sec_type = 1, sec_offset = 640, sec_size = 596, sec_link = 0, sec_info = 0\<rparr>"
  "elf_section_at minimal_bpf__elf_bytes 9 = \<lparr>sec_name = 167, sec_type = 1, sec_offset = 1240, sec_size = 160, sec_link = 0, sec_info = 0\<rparr>"
  by (simp_all add: object_section [OF minimal_elf_pieces] elf_shdrs_def elf_section_header_def elf_eval
    elf_shdr0_def elf_shdr1_def elf_shdr2_def elf_shdr3_def elf_shdr4_def elf_shdr5_def elf_shdr6_def elf_shdr7_def elf_shdr8_def elf_shdr9_def)

lemma minimal_elf_flags:
  "section_flags minimal_bpf__elf_bytes 0 = 0"
  "section_flags minimal_bpf__elf_bytes 1 = 32"
  "section_flags minimal_bpf__elf_bytes 2 = 0"
  "section_flags minimal_bpf__elf_bytes 3 = 6"
  "section_flags minimal_bpf__elf_bytes 4 = 3"
  "section_flags minimal_bpf__elf_bytes 5 = 3"
  "section_flags minimal_bpf__elf_bytes 6 = 2"
  "section_flags minimal_bpf__elf_bytes 7 = 64"
  "section_flags minimal_bpf__elf_bytes 8 = 0"
  "section_flags minimal_bpf__elf_bytes 9 = 0"
  by (simp_all add: object_section [OF minimal_elf_pieces] elf_shdrs_def elf_eval
    elf_shdr0_def elf_shdr1_def elf_shdr2_def elf_shdr3_def elf_shdr4_def elf_shdr5_def elf_shdr6_def elf_shdr7_def elf_shdr8_def elf_shdr9_def)

lemma minimal_elf_contents:
  "section_bytes minimal_bpf__elf_bytes 0 = []"
  "section_bytes minimal_bpf__elf_bytes 1 = elf_strtab"
  "section_bytes minimal_bpf__elf_bytes 2 = elf_symtab"
  "section_bytes minimal_bpf__elf_bytes 3 = elf_handle_tp"
  "section_bytes minimal_bpf__elf_bytes 4 = take 13 elf_license"
  "section_bytes minimal_bpf__elf_bytes 5 = replicate 4 0"
  "section_bytes minimal_bpf__elf_bytes 6 = take 28 elf_rodata"
  "section_bytes minimal_bpf__elf_bytes 7 = elf_relocs"
  "section_bytes minimal_bpf__elf_bytes 8 = take 596 elf_btf"
  "section_bytes minimal_bpf__elf_bytes 9 = elf_btf_ext"
proof -
  show "section_bytes minimal_bpf__elf_bytes 0 = []"
    by (simp add: section_bytes_def minimal_elf_headers elf_section.defs)
  show "section_bytes minimal_bpf__elf_bytes 1 = elf_strtab"
    using object_section_bytes [OF minimal_elf_pieces minimal_elf_headers(2), of 1] by (simp add: minimal_elf_body_def)
  show "section_bytes minimal_bpf__elf_bytes 2 = elf_symtab"
    using object_section_bytes [OF minimal_elf_pieces minimal_elf_headers(3), of 2] by (simp add: minimal_elf_body_def)
  show "section_bytes minimal_bpf__elf_bytes 3 = elf_handle_tp"
    using object_section_bytes [OF minimal_elf_pieces minimal_elf_headers(4), of 3] by (simp add: minimal_elf_body_def)
  show "section_bytes minimal_bpf__elf_bytes 4 = take 13 elf_license"
    using object_section_bytes [OF minimal_elf_pieces minimal_elf_headers(5), of 4] by (simp add: minimal_elf_body_def)
  show "section_bytes minimal_bpf__elf_bytes 5 = replicate 4 0"
    by (simp add: section_bytes_def minimal_elf_headers)
  show "section_bytes minimal_bpf__elf_bytes 6 = take 28 elf_rodata"
    using object_section_bytes [OF minimal_elf_pieces minimal_elf_headers(7), of 5] by (simp add: minimal_elf_body_def)
  show "section_bytes minimal_bpf__elf_bytes 7 = elf_relocs"
    using object_section_bytes [OF minimal_elf_pieces minimal_elf_headers(8), of 6] by (simp add: minimal_elf_body_def)
  show "section_bytes minimal_bpf__elf_bytes 8 = take 596 elf_btf"
    using object_section_bytes [OF minimal_elf_pieces minimal_elf_headers(9), of 7] by (simp add: minimal_elf_body_def)
  show "section_bytes minimal_bpf__elf_bytes 9 = elf_btf_ext"
    using object_section_bytes [OF minimal_elf_pieces minimal_elf_headers(10), of 8] by (simp add: minimal_elf_body_def)
qed

lemma minimal_elf_names:
  "section_name minimal_bpf__elf_bytes 0 = ''''"
  "section_name minimal_bpf__elf_bytes 1 = ''.strtab''"
  "section_name minimal_bpf__elf_bytes 2 = ''.symtab''"
  "section_name minimal_bpf__elf_bytes 3 = ''tp/syscalls/sys_enter_write''"
  "section_name minimal_bpf__elf_bytes 4 = ''license''"
  "section_name minimal_bpf__elf_bytes 5 = ''.bss''"
  "section_name minimal_bpf__elf_bytes 6 = ''.rodata''"
  "section_name minimal_bpf__elf_bytes 7 = ''.reltp/syscalls/sys_enter_write''"
  "section_name minimal_bpf__elf_bytes 8 = ''.BTF''"
  "section_name minimal_bpf__elf_bytes 9 = ''.BTF.ext''"
  by (simp_all only: object_section_name [OF minimal_elf_pieces minimal_elf_contents(2)] minimal_elf_headers elf_section.simps)
    (simp_all add: elf_eval elf_strtab_def)

lemma minimal_elf_sections:
  "elf_sections minimal_bpf__elf_bytes =
    [\<lparr>es_name = '''', es_type = 0, es_flags = 0, es_link = 0, es_info = 0, es_size = 0,
      es_bytes = []\<rparr>,
     \<lparr>es_name = ''.strtab'', es_type = 3, es_flags = 32, es_link = 0, es_info = 0, es_size = 176,
      es_bytes = elf_strtab\<rparr>,
     \<lparr>es_name = ''.symtab'', es_type = 2, es_flags = 0, es_link = 1, es_info = 0, es_size = 216,
      es_bytes = elf_symtab\<rparr>,
     \<lparr>es_name = ''tp/syscalls/sys_enter_write'', es_type = 1, es_flags = 6, es_link = 0, es_info = 0, es_size = 104,
      es_bytes = elf_handle_tp\<rparr>,
     \<lparr>es_name = ''license'', es_type = 1, es_flags = 3, es_link = 0, es_info = 0, es_size = 13,
      es_bytes = take 13 elf_license\<rparr>,
     \<lparr>es_name = ''.bss'', es_type = 8, es_flags = 3, es_link = 0, es_info = 0, es_size = 4,
      es_bytes = replicate 4 0\<rparr>,
     \<lparr>es_name = ''.rodata'', es_type = 1, es_flags = 2, es_link = 0, es_info = 0, es_size = 28,
      es_bytes = take 28 elf_rodata\<rparr>,
     \<lparr>es_name = ''.reltp/syscalls/sys_enter_write'', es_type = 9, es_flags = 64, es_link = 2, es_info = 3, es_size = 32,
      es_bytes = elf_relocs\<rparr>,
     \<lparr>es_name = ''.BTF'', es_type = 1, es_flags = 0, es_link = 0, es_info = 0, es_size = 596,
      es_bytes = take 596 elf_btf\<rparr>,
     \<lparr>es_name = ''.BTF.ext'', es_type = 1, es_flags = 0, es_link = 0, es_info = 0, es_size = 160,
      es_bytes = elf_btf_ext\<rparr>]"
proof -
  have "le_at minimal_bpf__elf_bytes 60 2 = 10"
    using object_piecesD(4) [OF minimal_elf_pieces] by (simp add: elf_shdrs_def)
  moreover have "[0..<10] = [0, 1, 2, 3, 4, 5, 6, 7, 8, 9]"
    by (simp add: upt_rec)
  ultimately show ?thesis
    by (simp only: elf_sections_def list.map read_section_def Let_def minimal_elf_headers minimal_elf_flags minimal_elf_contents
        minimal_elf_names elf_section.simps)
qed

lemma minimal_elf_symtab_rows:
  "elf_symtab =
    concat
     [[0, 0, 0, 0, 0, 0, 0, 0, 0, 0, 0, 0, 0, 0, 0, 0, 0, 0, 0, 0, 0, 0, 0, 0],
      [66, 0, 0, 0, 4, 0, 241, 255, 0, 0, 0, 0, 0, 0, 0, 0, 0, 0, 0, 0, 0, 0, 0, 0],
      [0, 0, 0, 0, 3, 0, 3, 0, 0, 0, 0, 0, 0, 0, 0, 0, 0, 0, 0, 0, 0, 0, 0, 0],
      [80, 0, 0, 0, 0, 0, 3, 0, 88, 0, 0, 0, 0, 0, 0, 0, 0, 0, 0, 0, 0, 0, 0, 0],
      [87, 0, 0, 0, 1, 0, 6, 0, 0, 0, 0, 0, 0, 0, 0, 0, 28, 0, 0, 0, 0, 0, 0, 0],
      [0, 0, 0, 0, 3, 0, 6, 0, 0, 0, 0, 0, 0, 0, 0, 0, 0, 0, 0, 0, 0, 0, 0, 0],
      [105, 0, 0, 0, 18, 0, 3, 0, 0, 0, 0, 0, 0, 0, 0, 0, 104, 0, 0, 0, 0, 0, 0, 0],
      [115, 0, 0, 0, 17, 0, 5, 0, 0, 0, 0, 0, 0, 0, 0, 0, 4, 0, 0, 0, 0, 0, 0, 0],
      [122, 0, 0, 0, 17, 0, 4, 0, 0, 0, 0, 0, 0, 0, 0, 0, 13, 0, 0, 0, 0, 0, 0, 0]]"
  by (simp add: elf_symtab_def)

lemma minimal_elf_symbols:
  "elf_symbols minimal_bpf__elf_bytes =
    [\<lparr>sym_name = '''', sym_info = 0, sym_shndx = 0, sym_value = 0, sym_size = 0\<rparr>,
     \<lparr>sym_name = ''minimal.bpf.c'', sym_info = 4, sym_shndx = 65521, sym_value = 0, sym_size = 0\<rparr>,
     \<lparr>sym_name = '''', sym_info = 3, sym_shndx = 3, sym_value = 0, sym_size = 0\<rparr>,
     \<lparr>sym_name = ''LBB0_2'', sym_info = 0, sym_shndx = 3, sym_value = 88, sym_size = 0\<rparr>,
     \<lparr>sym_name = ''handle_tp.____fmt'', sym_info = 1, sym_shndx = 6, sym_value = 0, sym_size = 28\<rparr>,
     \<lparr>sym_name = '''', sym_info = 3, sym_shndx = 6, sym_value = 0, sym_size = 0\<rparr>,
     \<lparr>sym_name = ''handle_tp'', sym_info = 18, sym_shndx = 3, sym_value = 0, sym_size = 104\<rparr>,
     \<lparr>sym_name = ''my_pid'', sym_info = 17, sym_shndx = 5, sym_value = 0, sym_size = 4\<rparr>,
     \<lparr>sym_name = ''LICENSE'', sym_info = 17, sym_shndx = 4, sym_value = 0, sym_size = 13\<rparr>]"
  by (simp add: elf_symbols_def minimal_elf_sections Let_def read_symbol_rows [OF minimal_elf_symtab_rows] del: upt_rec_numeral)
    (simp add: read_symbol_def elf_eval elf_strtab_def)

lemma minimal_elf_programs:
  "elf_programs minimal_bpf__elf_bytes =
    [(''tp/syscalls/sys_enter_write'', decode_program elf_handle_tp)]"
  by (simp add: elf_programs_def minimal_elf_sections is_program_def bit_numeral_rec bit_0)

end
