(* ===== verification/Obj_Minimal_Legacy.thy ===== *)
theory Obj_Minimal_Legacy
  imports Elf
begin

text \<open>
  The object file embedded in examples/c/.output/minimal_legacy.skel.h as a string literal: one list of bytes per line of the
  literal, cut at the borders of the sections; then its section table, its symbols and its programs.
\<close>

section \<open>The literal\<close>

definition minimal_legacy_elf_hdr :: "byte list" where
  "minimal_legacy_elf_hdr =
    concat
    [[127, 69, 76, 70, 2, 1, 1, 0, 0, 0, 0, 0, 0, 0, 0, 0, 1, 0, 247, 0, 1, 0, 0, 0, 0, 0, 0, 0, 0],
     [0, 0, 0, 0, 0, 0, 0, 0, 0, 0, 0, 96, 7, 0, 0, 0, 0, 0, 0, 0, 0, 0, 0, 64, 0, 0, 0, 0, 0, 64, 0, 10, 0],
     [1, 0]]"

definition minimal_legacy_elf_1 :: "byte list" where
  "minimal_legacy_elf_1 =
    concat
    [[0, 46, 115, 116, 114, 116, 97, 98, 0, 46, 115, 121, 109, 116, 97, 98, 0, 116, 112],
     [47, 115, 121, 115, 99, 97, 108, 108, 115, 47, 115, 121, 115, 95, 101, 110, 116, 101, 114],
     [95, 119, 114, 105, 116, 101, 0, 108, 105, 99, 101, 110, 115, 101, 0, 46, 109, 97, 112, 115, 0],
     [46, 114, 111, 100, 97, 116, 97, 46, 115, 116, 114, 49, 46, 49, 0, 109, 105, 110, 105, 109],
     [97, 108, 95, 108, 101, 103, 97, 99, 121, 46, 98, 112, 102, 46, 99, 0, 76, 66, 66, 48],
     [95, 51, 0, 104, 97, 110, 100, 108, 101, 95, 116, 112, 0, 109, 121, 95, 112, 105, 100, 95],
     [109, 97, 112, 0, 76, 73, 67, 69, 78, 83, 69, 0, 46, 114, 101, 108, 116, 112, 47, 115],
     [121, 115, 99, 97, 108, 108, 115, 47, 115, 121, 115, 95, 101, 110, 116, 101, 114, 95, 119],
     [114, 105, 116, 101, 0, 46, 66, 84, 70, 0, 46, 66, 84, 70, 46, 101, 120, 116, 0, 0, 0, 0, 0],
     [0, 0, 0]]"

definition minimal_legacy_elf_2 :: "byte list" where
  "minimal_legacy_elf_2 =
    concat
    [[0, 0, 0, 0, 0, 0, 0, 0, 0, 0, 0, 0, 0, 0, 0, 0, 0, 0, 0, 0, 0, 0, 0, 0, 74, 0, 0, 0, 4, 0, 241, 255],
     [0, 0, 0, 0, 0, 0, 0, 0, 0, 0, 0, 0, 0, 0, 0, 0, 0, 0, 0, 0, 3, 0, 3, 0, 0, 0, 0, 0, 0, 0, 0, 0, 0, 0, 0, 0, 0],
     [0, 0, 0, 95, 0, 0, 0, 0, 0, 3, 0, 0, 1, 0, 0, 0, 0, 0, 0, 0, 0, 0, 0, 0, 0, 0, 0, 102, 0, 0, 0, 18, 0],
     [3, 0, 0, 0, 0, 0, 0, 0, 0, 0, 8, 1, 0, 0, 0, 0, 0, 0, 112, 0, 0, 0, 17, 0, 5, 0, 0, 0, 0, 0, 0, 0, 0],
     [0, 32, 0, 0, 0, 0, 0, 0, 0, 123, 0, 0, 0, 17, 0, 4, 0, 0, 0, 0, 0, 0, 0, 0, 0, 13, 0, 0, 0, 0, 0, 0, 0]]"

definition minimal_legacy_elf_3 :: "byte list" where
  "minimal_legacy_elf_3 =
    concat
    [[183, 1, 0, 0, 0, 0, 0, 0, 99, 26, 252, 255, 0, 0, 0, 0, 133, 0, 0, 0, 14, 0, 0, 0, 191, 6, 0, 0, 0],
     [0, 0, 0, 191, 162, 0, 0, 0, 0, 0, 0, 7, 2, 0, 0, 252, 255, 255, 255, 24, 1, 0, 0, 0, 0, 0, 0, 0, 0],
     [0, 0, 0, 0, 0, 0, 133, 0, 0, 0, 1, 0, 0, 0, 191, 1, 0, 0, 0, 0, 0, 0, 183, 0, 0, 0, 1, 0, 0, 0, 21],
     [1, 20, 0, 0, 0, 0, 0, 119, 6, 0, 0, 32, 0, 0, 0, 97, 17, 0, 0, 0, 0, 0, 0, 93, 97, 17, 0, 0, 0],
     [0, 0, 183, 1, 0, 0, 100, 46, 10, 0, 99, 26, 248, 255, 0, 0, 0, 0, 24, 1, 0, 0, 111, 109, 32],
     [80, 0, 0, 0, 0, 73, 68, 32, 37, 123, 26, 240, 255, 0, 0, 0, 0, 24, 1, 0, 0, 103, 101, 114],
     [101, 0, 0, 0, 0, 100, 32, 102, 114, 123, 26, 232, 255, 0, 0, 0, 0, 24, 1, 0, 0, 66, 80, 70],
     [32, 0, 0, 0, 0, 116, 114, 105, 103, 123, 26, 224, 255, 0, 0, 0, 0, 191, 161, 0, 0, 0, 0, 0, 0, 7],
     [1, 0, 0, 224, 255, 255, 255, 183, 2, 0, 0, 28, 0, 0, 0, 191, 99, 0, 0, 0, 0, 0, 0, 133, 0, 0, 0],
     [6, 0, 0, 0, 183, 0, 0, 0, 0, 0, 0, 0, 149, 0, 0, 0, 0, 0, 0, 0]]"

definition minimal_legacy_elf_4 :: "byte list" where
  "minimal_legacy_elf_4 =
    concat
    [[68, 117, 97, 108, 32, 66, 83, 68],
     [47, 71, 80, 76, 0, 0, 0, 0]]"

definition minimal_legacy_elf_5 :: "byte list" where
  "minimal_legacy_elf_5 =
    concat
    [[0, 0, 0, 0, 0, 0, 0, 0, 0, 0, 0, 0, 0, 0, 0, 0, 0, 0, 0, 0, 0, 0, 0, 0, 0, 0, 0],
     [0, 0, 0, 0, 0]]"

definition minimal_legacy_elf_6 :: "byte list" where
  "minimal_legacy_elf_6 =
    concat
    [[66, 80, 70, 32, 116, 114, 105, 103, 103, 101, 114, 101, 100, 32, 102, 114, 111],
     [109, 32, 80, 73, 68, 32, 37, 100, 46, 10, 0, 0, 0, 0, 0]]"

definition minimal_legacy_elf_7 :: "byte list" where
  "minimal_legacy_elf_7 =
    concat
    [[48, 0, 0, 0, 0, 0, 0, 0, 1, 0, 0, 0],
     [5, 0, 0, 0]]"

definition minimal_legacy_elf_8 :: "byte list" where
  "minimal_legacy_elf_8 =
    concat
    [[159, 235, 1, 0, 24, 0, 0, 0, 0, 0, 0, 0, 136, 1, 0, 0, 136, 1, 0, 0, 194, 1, 0, 0],
     [0, 0, 0, 0, 0, 0, 0, 2, 3, 0, 0, 0, 1, 0, 0, 0, 0, 0, 0, 1, 4, 0, 0, 0, 32, 0, 0, 1, 0, 0, 0, 0],
     [0, 0, 0, 3, 0, 0, 0, 0, 2, 0, 0, 0, 4, 0, 0, 0, 2, 0, 0, 0, 5, 0, 0, 0, 0, 0, 0, 1, 4, 0, 0, 0],
     [32, 0, 0, 0, 0, 0, 0, 0, 0, 0, 0, 2, 6, 0, 0, 0, 0, 0, 0, 0, 0, 0, 0, 3, 0, 0, 0, 0, 2, 0, 0, 0, 4],
     [0, 0, 0, 1, 0, 0, 0, 0, 0, 0, 0, 0, 0, 0, 2, 8, 0, 0, 0, 25, 0, 0, 0, 0, 0, 0, 8, 9, 0, 0, 0, 29],
     [0, 0, 0, 0, 0, 0, 1, 4, 0, 0, 0, 32, 0, 0, 0, 0, 0, 0, 0, 0, 0, 0, 2, 11, 0, 0, 0, 42, 0, 0, 0, 0, 0],
     [0, 8, 2, 0, 0, 0, 0, 0, 0, 0, 4, 0, 0, 4, 32, 0, 0, 0, 48, 0, 0, 0, 1, 0, 0, 0, 0, 0, 0, 0, 53],
     [0, 0, 0, 5, 0, 0, 0, 64, 0, 0, 0, 65, 0, 0, 0, 7, 0, 0, 0, 128, 0, 0, 0, 69, 0, 0, 0, 10, 0, 0, 0],
     [192, 0, 0, 0, 75, 0, 0, 0, 0, 0, 0, 14, 12, 0, 0, 0, 1, 0, 0, 0, 0, 0, 0, 0, 0, 0, 0, 2, 0, 0, 0, 0, 0],
     [0, 0, 0, 1, 0, 0, 13, 2, 0, 0, 0, 86, 0, 0, 0, 14, 0, 0, 0, 90, 0, 0, 0, 1, 0, 0, 12, 15, 0, 0],
     [0, 100, 0, 0, 0, 0, 0, 0, 1, 1, 0, 0, 0, 8, 0, 0, 1, 0, 0, 0, 0, 0, 0, 0, 3, 0, 0, 0, 0, 17, 0, 0],
     [0, 4, 0, 0, 0, 13, 0, 0, 0, 105, 0, 0, 0, 0, 0, 0, 14, 18, 0, 0, 0, 1, 0, 0, 0, 152, 1, 0, 0, 1],
     [0, 0, 15, 13, 0, 0, 0, 19, 0, 0, 0, 0, 0, 0, 0, 13, 0, 0, 0, 160, 1, 0, 0, 1, 0, 0, 15, 32, 0, 0],
     [0, 13, 0, 0, 0, 0, 0, 0, 0, 32, 0, 0, 0, 0, 105, 110, 116, 0, 95, 95, 65, 82, 82, 65, 89, 95],
     [83, 73, 90, 69, 95, 84, 89, 80, 69, 95, 95, 0, 117, 51, 50, 0, 117, 110, 115, 105],
     [103, 110, 101, 100, 32, 105, 110, 116, 0, 112, 105, 100, 95, 116, 0, 116, 121, 112, 101, 0, 109],
     [97, 120, 95, 101, 110, 116, 114, 105, 101, 115, 0, 107, 101, 121, 0, 118, 97, 108, 117, 101, 0],
     [109, 121, 95, 112, 105, 100, 95, 109, 97, 112, 0, 99, 116, 120, 0, 104, 97, 110, 100, 108],
     [101, 95, 116, 112, 0, 99, 104, 97, 114, 0, 76, 73, 67, 69, 78, 83, 69, 0, 47, 104, 111],
     [109, 101, 47, 108, 111, 115, 116, 99, 97, 99, 104, 101, 47, 99, 111, 100, 101, 47, 104],
     [101, 108, 108, 111, 95, 101, 66, 80, 70, 47, 101, 120, 97, 109, 112, 108, 101, 115, 47],
     [99, 47, 109, 105, 110, 105, 109, 97, 108, 95, 108, 101, 103, 97, 99, 121, 46, 98, 112],
     [102, 46, 99, 0, 105, 110, 116, 32, 104, 97, 110, 100, 108, 101, 95, 116, 112, 40, 118, 111],
     [105, 100, 32, 42, 99, 116, 120, 41, 0, 9, 117, 51, 50, 32, 105, 110, 100, 101, 120, 32],
     [61, 32, 48, 59, 0, 9, 112, 105, 100, 95, 116, 32, 112, 105, 100, 32, 61, 32, 98, 112],
     [102, 95, 103, 101, 116, 95, 99, 117, 114, 114, 101, 110, 116, 95, 112, 105, 100, 95, 116],
     [103, 105, 100, 40, 41, 32, 62, 62, 32, 51, 50, 59, 0, 9, 112, 105, 100, 95, 116, 32],
     [42, 109, 121, 95, 112, 105, 100, 32, 61, 32, 98, 112, 102, 95, 109, 97, 112, 95, 108],
     [111, 111, 107, 117, 112, 95, 101, 108, 101, 109, 40, 38, 109, 121, 95, 112, 105, 100, 95],
     [109, 97, 112, 44, 32, 38, 105, 110, 100, 101, 120, 41, 59, 0, 9, 105, 102, 32, 40, 33],
     [109, 121, 95, 112, 105, 100, 32, 124, 124, 32, 42, 109, 121, 95, 112, 105, 100, 32, 33],
     [61, 32, 112, 105, 100, 41, 0, 9, 98, 112, 102, 95, 112, 114, 105, 110, 116, 107, 40, 34],
     [66, 80, 70, 32, 116, 114, 105, 103, 103, 101, 114, 101, 100, 32, 102, 114, 111, 109, 32],
     [80, 73, 68, 32, 37, 100, 46, 92, 110, 34, 44, 32, 112, 105, 100, 41, 59, 0, 125, 0],
     [108, 105, 99, 101, 110, 115, 101, 0, 46, 109, 97, 112, 115, 0, 116, 112, 47, 115, 121, 115],
     [99, 97, 108, 108, 115, 47, 115, 121, 115, 95, 101, 110, 116, 101, 114, 95, 119, 114, 105],
     [116, 101, 0, 0, 0, 0, 0, 0, 0]]"

definition minimal_legacy_elf_9 :: "byte list" where
  "minimal_legacy_elf_9 =
    concat
    [[159, 235, 1, 0, 32, 0, 0, 0, 0, 0, 0, 0, 20, 0, 0, 0, 20, 0, 0, 0, 188],
     [0, 0, 0, 208, 0, 0, 0, 0, 0, 0, 0, 8, 0, 0, 0, 166, 1, 0, 0, 1, 0, 0, 0, 0, 0, 0, 0, 16, 0, 0, 0, 16],
     [0, 0, 0, 166, 1, 0, 0, 11, 0, 0, 0, 0, 0, 0, 0, 113, 0, 0, 0, 177, 0, 0, 0, 0, 88, 0, 0, 8, 0, 0, 0],
     [113, 0, 0, 0, 202, 0, 0, 0, 6, 96, 0, 0, 16, 0, 0, 0, 113, 0, 0, 0, 218, 0, 0, 0, 14, 100, 0, 0, 40],
     [0, 0, 0, 113, 0, 0, 0, 202, 0, 0, 0, 6, 96, 0, 0, 48, 0, 0, 0, 113, 0, 0, 0, 9, 1, 0, 0, 18, 104],
     [0, 0, 88, 0, 0, 0, 113, 0, 0, 0, 68, 1, 0, 0, 14, 112, 0, 0, 96, 0, 0, 0, 113, 0, 0, 0, 0, 0, 0, 0, 0],
     [0, 0, 0, 104, 0, 0, 0, 113, 0, 0, 0, 68, 1, 0, 0, 17, 112, 0, 0, 112, 0, 0, 0, 113, 0, 0, 0, 68, 1],
     [0, 0, 6, 112, 0, 0, 128, 0, 0, 0, 113, 0, 0, 0, 100, 1, 0, 0, 2, 124, 0, 0, 0, 1, 0, 0, 113, 0, 0],
     [0, 150, 1, 0, 0, 1, 136, 0, 0]]"

definition minimal_legacy_elf_shdrs :: "byte list list" where
  "minimal_legacy_elf_shdrs =
    [[0, 0, 0, 0, 0, 0, 0, 0, 0, 0, 0, 0, 0, 0, 0, 0, 0, 0, 0, 0, 0, 0, 0, 0, 0, 0, 0, 0, 0, 0, 0, 0,
      0, 0, 0, 0, 0, 0, 0, 0, 0, 0, 0, 0, 0, 0, 0, 0, 0, 0, 0, 0, 0, 0, 0, 0, 0, 0, 0, 0, 0, 0, 0, 0],
     [1, 0, 0, 0, 3, 0, 0, 0, 32, 0, 0, 0, 0, 0, 0, 0, 0, 0, 0, 0, 0, 0, 0, 0, 64, 0, 0, 0, 0, 0, 0, 0,
      177, 0, 0, 0, 0, 0, 0, 0, 0, 0, 0, 0, 0, 0, 0, 0, 1, 0, 0, 0, 0, 0, 0, 0, 0, 0, 0, 0, 0, 0, 0, 0],
     [9, 0, 0, 0, 2, 0, 0, 0, 0, 0, 0, 0, 0, 0, 0, 0, 0, 0, 0, 0, 0, 0, 0, 0, 248, 0, 0, 0, 0, 0, 0, 0,
      168, 0, 0, 0, 0, 0, 0, 0, 1, 0, 0, 0, 0, 0, 0, 0, 8, 0, 0, 0, 0, 0, 0, 0, 24, 0, 0, 0, 0, 0, 0, 0],
     [17, 0, 0, 0, 1, 0, 0, 0, 6, 0, 0, 0, 0, 0, 0, 0, 0, 0, 0, 0, 0, 0, 0, 0, 160, 1, 0, 0, 0, 0, 0, 0,
      8, 1, 0, 0, 0, 0, 0, 0, 0, 0, 0, 0, 0, 0, 0, 0, 8, 0, 0, 0, 0, 0, 0, 0, 0, 0, 0, 0, 0, 0, 0, 0],
     [45, 0, 0, 0, 1, 0, 0, 0, 3, 0, 0, 0, 0, 0, 0, 0, 0, 0, 0, 0, 0, 0, 0, 0, 168, 2, 0, 0, 0, 0, 0, 0,
      13, 0, 0, 0, 0, 0, 0, 0, 0, 0, 0, 0, 0, 0, 0, 0, 1, 0, 0, 0, 0, 0, 0, 0, 0, 0, 0, 0, 0, 0, 0, 0],
     [53, 0, 0, 0, 1, 0, 0, 0, 3, 0, 0, 0, 0, 0, 0, 0, 0, 0, 0, 0, 0, 0, 0, 0, 184, 2, 0, 0, 0, 0, 0, 0,
      32, 0, 0, 0, 0, 0, 0, 0, 0, 0, 0, 0, 0, 0, 0, 0, 8, 0, 0, 0, 0, 0, 0, 0, 0, 0, 0, 0, 0, 0, 0, 0],
     [59, 0, 0, 0, 1, 0, 0, 0, 50, 0, 0, 0, 0, 0, 0, 0, 0, 0, 0, 0, 0, 0, 0, 0, 216, 2, 0, 0, 0, 0, 0, 0,
      28, 0, 0, 0, 0, 0, 0, 0, 0, 0, 0, 0, 0, 0, 0, 0, 1, 0, 0, 0, 0, 0, 0, 0, 1, 0, 0, 0, 0, 0, 0, 0],
     [131, 0, 0, 0, 9, 0, 0, 0, 64, 0, 0, 0, 0, 0, 0, 0, 0, 0, 0, 0, 0, 0, 0, 0, 248, 2, 0, 0, 0, 0, 0, 0,
      16, 0, 0, 0, 0, 0, 0, 0, 2, 0, 0, 0, 3, 0, 0, 0, 8, 0, 0, 0, 0, 0, 0, 0, 16, 0, 0, 0, 0, 0, 0, 0],
     [163, 0, 0, 0, 1, 0, 0, 0, 0, 0, 0, 0, 0, 0, 0, 0, 0, 0, 0, 0, 0, 0, 0, 0, 8, 3, 0, 0, 0, 0, 0, 0,
      98, 3, 0, 0, 0, 0, 0, 0, 0, 0, 0, 0, 0, 0, 0, 0, 8, 0, 0, 0, 0, 0, 0, 0, 0, 0, 0, 0, 0, 0, 0, 0],
     [168, 0, 0, 0, 1, 0, 0, 0, 0, 0, 0, 0, 0, 0, 0, 0, 0, 0, 0, 0, 0, 0, 0, 0, 112, 6, 0, 0, 0, 0, 0, 0,
      240, 0, 0, 0, 0, 0, 0, 0, 0, 0, 0, 0, 0, 0, 0, 0, 8, 0, 0, 0, 0, 0, 0, 0, 0, 0, 0, 0, 0, 0, 0, 0]]"

definition minimal_legacy_elf_body :: "byte list list" where
  "minimal_legacy_elf_body = [minimal_legacy_elf_1, minimal_legacy_elf_2, minimal_legacy_elf_3, minimal_legacy_elf_4, minimal_legacy_elf_5, minimal_legacy_elf_6, minimal_legacy_elf_7, minimal_legacy_elf_8, minimal_legacy_elf_9]"

definition minimal_legacy_bpf__elf_bytes :: "byte list" where
  "minimal_legacy_bpf__elf_bytes = concat (minimal_legacy_elf_hdr # minimal_legacy_elf_body) @ concat minimal_legacy_elf_shdrs"

section \<open>The parts of the object\<close>

text \<open>The sizes of the pieces. The definitions stay folded: a piece is only opened where it is read.\<close>

lemma minimal_legacy_elf_lengths [simp]:
  "length minimal_legacy_elf_hdr = 64"
  "length minimal_legacy_elf_1 = 184"
  "length minimal_legacy_elf_2 = 168"
  "length minimal_legacy_elf_3 = 264"
  "length minimal_legacy_elf_4 = 16"
  "length minimal_legacy_elf_5 = 32"
  "length minimal_legacy_elf_6 = 32"
  "length minimal_legacy_elf_7 = 16"
  "length minimal_legacy_elf_8 = 872"
  "length minimal_legacy_elf_9 = 240"
  by (simp_all only: piece_length minimal_legacy_elf_hdr_def minimal_legacy_elf_1_def minimal_legacy_elf_2_def
    minimal_legacy_elf_3_def minimal_legacy_elf_4_def minimal_legacy_elf_5_def minimal_legacy_elf_6_def
    minimal_legacy_elf_7_def minimal_legacy_elf_8_def minimal_legacy_elf_9_def)

lemma minimal_legacy_elf_pieces: "object_pieces minimal_legacy_bpf__elf_bytes (minimal_legacy_elf_hdr # minimal_legacy_elf_body) minimal_legacy_elf_shdrs"
proof -
  have "le_at minimal_legacy_elf_hdr 40 8 = 1888" "le_at minimal_legacy_elf_hdr 60 2 = 10" "le_at minimal_legacy_elf_hdr 62 2 = 1"
    by (simp_all add: minimal_legacy_elf_hdr_def elf_eval)
  moreover have "list_all (\<lambda>h. length h = 64) minimal_legacy_elf_shdrs" "length minimal_legacy_elf_shdrs = 10"
    by (simp_all add: minimal_legacy_elf_shdrs_def)
  ultimately show ?thesis
    by (simp add: object_pieces_def minimal_legacy_bpf__elf_bytes_def minimal_legacy_elf_body_def)
qed

lemma minimal_legacy_elf_headers:
  "elf_section_at minimal_legacy_bpf__elf_bytes 0 = \<lparr>sec_name = 0, sec_type = 0, sec_offset = 0, sec_size = 0, sec_link = 0, sec_info = 0\<rparr>"
  "elf_section_at minimal_legacy_bpf__elf_bytes 1 = \<lparr>sec_name = 1, sec_type = 3, sec_offset = 64, sec_size = 177, sec_link = 0, sec_info = 0\<rparr>"
  "elf_section_at minimal_legacy_bpf__elf_bytes 2 = \<lparr>sec_name = 9, sec_type = 2, sec_offset = 248, sec_size = 168, sec_link = 1, sec_info = 0\<rparr>"
  "elf_section_at minimal_legacy_bpf__elf_bytes 3 = \<lparr>sec_name = 17, sec_type = 1, sec_offset = 416, sec_size = 264, sec_link = 0, sec_info = 0\<rparr>"
  "elf_section_at minimal_legacy_bpf__elf_bytes 4 = \<lparr>sec_name = 45, sec_type = 1, sec_offset = 680, sec_size = 13, sec_link = 0, sec_info = 0\<rparr>"
  "elf_section_at minimal_legacy_bpf__elf_bytes 5 = \<lparr>sec_name = 53, sec_type = 1, sec_offset = 696, sec_size = 32, sec_link = 0, sec_info = 0\<rparr>"
  "elf_section_at minimal_legacy_bpf__elf_bytes 6 = \<lparr>sec_name = 59, sec_type = 1, sec_offset = 728, sec_size = 28, sec_link = 0, sec_info = 0\<rparr>"
  "elf_section_at minimal_legacy_bpf__elf_bytes 7 = \<lparr>sec_name = 131, sec_type = 9, sec_offset = 760, sec_size = 16, sec_link = 2, sec_info = 3\<rparr>"
  "elf_section_at minimal_legacy_bpf__elf_bytes 8 = \<lparr>sec_name = 163, sec_type = 1, sec_offset = 776, sec_size = 866, sec_link = 0, sec_info = 0\<rparr>"
  "elf_section_at minimal_legacy_bpf__elf_bytes 9 = \<lparr>sec_name = 168, sec_type = 1, sec_offset = 1648, sec_size = 240, sec_link = 0, sec_info = 0\<rparr>"
  by (simp_all add: object_section [OF minimal_legacy_elf_pieces] minimal_legacy_elf_shdrs_def elf_section_header_def elf_eval)

lemma minimal_legacy_elf_flags:
  "section_flags minimal_legacy_bpf__elf_bytes 0 = 0"
  "section_flags minimal_legacy_bpf__elf_bytes 1 = 32"
  "section_flags minimal_legacy_bpf__elf_bytes 2 = 0"
  "section_flags minimal_legacy_bpf__elf_bytes 3 = 6"
  "section_flags minimal_legacy_bpf__elf_bytes 4 = 3"
  "section_flags minimal_legacy_bpf__elf_bytes 5 = 3"
  "section_flags minimal_legacy_bpf__elf_bytes 6 = 50"
  "section_flags minimal_legacy_bpf__elf_bytes 7 = 64"
  "section_flags minimal_legacy_bpf__elf_bytes 8 = 0"
  "section_flags minimal_legacy_bpf__elf_bytes 9 = 0"
  by (simp_all add: object_section [OF minimal_legacy_elf_pieces] minimal_legacy_elf_shdrs_def elf_eval)

lemma minimal_legacy_elf_contents:
  "section_bytes minimal_legacy_bpf__elf_bytes 0 = []"
  "section_bytes minimal_legacy_bpf__elf_bytes 1 = take 177 minimal_legacy_elf_1"
  "section_bytes minimal_legacy_bpf__elf_bytes 2 = minimal_legacy_elf_2"
  "section_bytes minimal_legacy_bpf__elf_bytes 3 = minimal_legacy_elf_3"
  "section_bytes minimal_legacy_bpf__elf_bytes 4 = take 13 minimal_legacy_elf_4"
  "section_bytes minimal_legacy_bpf__elf_bytes 5 = minimal_legacy_elf_5"
  "section_bytes minimal_legacy_bpf__elf_bytes 6 = take 28 minimal_legacy_elf_6"
  "section_bytes minimal_legacy_bpf__elf_bytes 7 = minimal_legacy_elf_7"
  "section_bytes minimal_legacy_bpf__elf_bytes 8 = take 866 minimal_legacy_elf_8"
  "section_bytes minimal_legacy_bpf__elf_bytes 9 = minimal_legacy_elf_9"
proof -
  show "section_bytes minimal_legacy_bpf__elf_bytes 0 = []"
    by (simp add: section_bytes_def minimal_legacy_elf_headers elf_section.defs)
  show "section_bytes minimal_legacy_bpf__elf_bytes 1 = take 177 minimal_legacy_elf_1"
    using object_section_bytes [OF minimal_legacy_elf_pieces minimal_legacy_elf_headers(2), of 1] by (simp add: minimal_legacy_elf_body_def)
  show "section_bytes minimal_legacy_bpf__elf_bytes 2 = minimal_legacy_elf_2"
    using object_section_bytes [OF minimal_legacy_elf_pieces minimal_legacy_elf_headers(3), of 2] by (simp add: minimal_legacy_elf_body_def)
  show "section_bytes minimal_legacy_bpf__elf_bytes 3 = minimal_legacy_elf_3"
    using object_section_bytes [OF minimal_legacy_elf_pieces minimal_legacy_elf_headers(4), of 3] by (simp add: minimal_legacy_elf_body_def)
  show "section_bytes minimal_legacy_bpf__elf_bytes 4 = take 13 minimal_legacy_elf_4"
    using object_section_bytes [OF minimal_legacy_elf_pieces minimal_legacy_elf_headers(5), of 4] by (simp add: minimal_legacy_elf_body_def)
  show "section_bytes minimal_legacy_bpf__elf_bytes 5 = minimal_legacy_elf_5"
    using object_section_bytes [OF minimal_legacy_elf_pieces minimal_legacy_elf_headers(6), of 5] by (simp add: minimal_legacy_elf_body_def)
  show "section_bytes minimal_legacy_bpf__elf_bytes 6 = take 28 minimal_legacy_elf_6"
    using object_section_bytes [OF minimal_legacy_elf_pieces minimal_legacy_elf_headers(7), of 6] by (simp add: minimal_legacy_elf_body_def)
  show "section_bytes minimal_legacy_bpf__elf_bytes 7 = minimal_legacy_elf_7"
    using object_section_bytes [OF minimal_legacy_elf_pieces minimal_legacy_elf_headers(8), of 7] by (simp add: minimal_legacy_elf_body_def)
  show "section_bytes minimal_legacy_bpf__elf_bytes 8 = take 866 minimal_legacy_elf_8"
    using object_section_bytes [OF minimal_legacy_elf_pieces minimal_legacy_elf_headers(9), of 8] by (simp add: minimal_legacy_elf_body_def)
  show "section_bytes minimal_legacy_bpf__elf_bytes 9 = minimal_legacy_elf_9"
    using object_section_bytes [OF minimal_legacy_elf_pieces minimal_legacy_elf_headers(10), of 9] by (simp add: minimal_legacy_elf_body_def)
qed

lemma minimal_legacy_elf_names:
  "section_name minimal_legacy_bpf__elf_bytes 0 = ''''"
  "section_name minimal_legacy_bpf__elf_bytes 1 = ''.strtab''"
  "section_name minimal_legacy_bpf__elf_bytes 2 = ''.symtab''"
  "section_name minimal_legacy_bpf__elf_bytes 3 = ''tp/syscalls/sys_enter_write''"
  "section_name minimal_legacy_bpf__elf_bytes 4 = ''license''"
  "section_name minimal_legacy_bpf__elf_bytes 5 = ''.maps''"
  "section_name minimal_legacy_bpf__elf_bytes 6 = ''.rodata.str1.1''"
  "section_name minimal_legacy_bpf__elf_bytes 7 = ''.reltp/syscalls/sys_enter_write''"
  "section_name minimal_legacy_bpf__elf_bytes 8 = ''.BTF''"
  "section_name minimal_legacy_bpf__elf_bytes 9 = ''.BTF.ext''"
  by (simp_all only: object_section_name [OF minimal_legacy_elf_pieces minimal_legacy_elf_contents(2)] minimal_legacy_elf_headers elf_section.simps)
    (simp_all add: elf_eval minimal_legacy_elf_1_def)

lemma minimal_legacy_elf_sections:
  "elf_sections minimal_legacy_bpf__elf_bytes =
    [\<lparr>es_name = '''', es_type = 0, es_flags = 0, es_link = 0, es_info = 0, es_size = 0,
      es_bytes = []\<rparr>,
     \<lparr>es_name = ''.strtab'', es_type = 3, es_flags = 32, es_link = 0, es_info = 0, es_size = 177,
      es_bytes = take 177 minimal_legacy_elf_1\<rparr>,
     \<lparr>es_name = ''.symtab'', es_type = 2, es_flags = 0, es_link = 1, es_info = 0, es_size = 168,
      es_bytes = minimal_legacy_elf_2\<rparr>,
     \<lparr>es_name = ''tp/syscalls/sys_enter_write'', es_type = 1, es_flags = 6, es_link = 0, es_info = 0, es_size = 264,
      es_bytes = minimal_legacy_elf_3\<rparr>,
     \<lparr>es_name = ''license'', es_type = 1, es_flags = 3, es_link = 0, es_info = 0, es_size = 13,
      es_bytes = take 13 minimal_legacy_elf_4\<rparr>,
     \<lparr>es_name = ''.maps'', es_type = 1, es_flags = 3, es_link = 0, es_info = 0, es_size = 32,
      es_bytes = minimal_legacy_elf_5\<rparr>,
     \<lparr>es_name = ''.rodata.str1.1'', es_type = 1, es_flags = 50, es_link = 0, es_info = 0, es_size = 28,
      es_bytes = take 28 minimal_legacy_elf_6\<rparr>,
     \<lparr>es_name = ''.reltp/syscalls/sys_enter_write'', es_type = 9, es_flags = 64, es_link = 2, es_info = 3, es_size = 16,
      es_bytes = minimal_legacy_elf_7\<rparr>,
     \<lparr>es_name = ''.BTF'', es_type = 1, es_flags = 0, es_link = 0, es_info = 0, es_size = 866,
      es_bytes = take 866 minimal_legacy_elf_8\<rparr>,
     \<lparr>es_name = ''.BTF.ext'', es_type = 1, es_flags = 0, es_link = 0, es_info = 0, es_size = 240,
      es_bytes = minimal_legacy_elf_9\<rparr>]"
proof -
  have "le_at minimal_legacy_bpf__elf_bytes 60 2 = 10"
    using object_piecesD(4) [OF minimal_legacy_elf_pieces] by (simp add: minimal_legacy_elf_shdrs_def)
  moreover have "[0..<10] = [0, 1, 2, 3, 4, 5, 6, 7, 8, 9]"
    by (simp add: upt_rec)
  ultimately show ?thesis
    by (simp only: elf_sections_def list.map read_section_def Let_def minimal_legacy_elf_headers minimal_legacy_elf_flags minimal_legacy_elf_contents
        minimal_legacy_elf_names elf_section.simps)
qed

lemma minimal_legacy_elf_symtab_rows:
  "minimal_legacy_elf_2 =
    concat
     [[0, 0, 0, 0, 0, 0, 0, 0, 0, 0, 0, 0, 0, 0, 0, 0, 0, 0, 0, 0, 0, 0, 0, 0],
      [74, 0, 0, 0, 4, 0, 241, 255, 0, 0, 0, 0, 0, 0, 0, 0, 0, 0, 0, 0, 0, 0, 0, 0],
      [0, 0, 0, 0, 3, 0, 3, 0, 0, 0, 0, 0, 0, 0, 0, 0, 0, 0, 0, 0, 0, 0, 0, 0],
      [95, 0, 0, 0, 0, 0, 3, 0, 0, 1, 0, 0, 0, 0, 0, 0, 0, 0, 0, 0, 0, 0, 0, 0],
      [102, 0, 0, 0, 18, 0, 3, 0, 0, 0, 0, 0, 0, 0, 0, 0, 8, 1, 0, 0, 0, 0, 0, 0],
      [112, 0, 0, 0, 17, 0, 5, 0, 0, 0, 0, 0, 0, 0, 0, 0, 32, 0, 0, 0, 0, 0, 0, 0],
      [123, 0, 0, 0, 17, 0, 4, 0, 0, 0, 0, 0, 0, 0, 0, 0, 13, 0, 0, 0, 0, 0, 0, 0]]"
  by (simp add: minimal_legacy_elf_2_def)

lemma minimal_legacy_elf_symbols:
  "elf_symbols minimal_legacy_bpf__elf_bytes =
    [\<lparr>sym_name = '''', sym_info = 0, sym_shndx = 0, sym_value = 0, sym_size = 0\<rparr>,
     \<lparr>sym_name = ''minimal_legacy.bpf.c'', sym_info = 4, sym_shndx = 65521, sym_value = 0, sym_size = 0\<rparr>,
     \<lparr>sym_name = '''', sym_info = 3, sym_shndx = 3, sym_value = 0, sym_size = 0\<rparr>,
     \<lparr>sym_name = ''LBB0_3'', sym_info = 0, sym_shndx = 3, sym_value = 256, sym_size = 0\<rparr>,
     \<lparr>sym_name = ''handle_tp'', sym_info = 18, sym_shndx = 3, sym_value = 0, sym_size = 264\<rparr>,
     \<lparr>sym_name = ''my_pid_map'', sym_info = 17, sym_shndx = 5, sym_value = 0, sym_size = 32\<rparr>,
     \<lparr>sym_name = ''LICENSE'', sym_info = 17, sym_shndx = 4, sym_value = 0, sym_size = 13\<rparr>]"
  by (simp add: elf_symbols_def minimal_legacy_elf_sections Let_def read_symbol_rows [OF minimal_legacy_elf_symtab_rows] del: upt_rec_numeral)
    (simp add: read_symbol_def elf_eval minimal_legacy_elf_1_def)

lemma minimal_legacy_elf_programs:
  "elf_programs minimal_legacy_bpf__elf_bytes =
    [(''tp/syscalls/sys_enter_write'', decode_program minimal_legacy_elf_3)]"
  by (simp add: elf_programs_def minimal_legacy_elf_sections is_program_def bit_numeral_rec bit_0)

end
