(* ===== verification/Obj_Minimal_Ns.thy ===== *)
theory Obj_Minimal_Ns
  imports Elf
begin

text \<open>
  The object file embedded in examples/c/.output/minimal_ns.skel.h as a string literal: one list of bytes per line of the
  literal, cut at the borders of the sections; then its section table, its symbols and its programs.
\<close>

section \<open>The literal\<close>

definition minimal_ns_elf_hdr :: "byte list" where
  "minimal_ns_elf_hdr =
    concat
    [[127, 69, 76, 70, 2, 1, 1, 0, 0, 0, 0, 0, 0, 0, 0, 0, 1, 0, 247, 0, 1, 0, 0, 0, 0, 0, 0, 0, 0],
     [0, 0, 0, 0, 0, 0, 0, 0, 0, 0, 0, 192, 6, 0, 0, 0, 0, 0, 0, 0, 0, 0, 0, 64, 0, 0, 0, 0, 0, 64, 0, 10, 0],
     [1, 0]]"

definition minimal_ns_elf_1 :: "byte list" where
  "minimal_ns_elf_1 =
    concat
    [[0, 46, 115, 116, 114, 116, 97, 98, 0, 46, 115, 121, 109, 116, 97, 98, 0, 116, 112],
     [47, 115, 121, 115, 99, 97, 108, 108, 115, 47, 115, 121, 115, 95, 101, 110, 116, 101, 114],
     [95, 119, 114, 105, 116, 101, 0, 108, 105, 99, 101, 110, 115, 101, 0, 46, 98, 115, 115, 0, 46],
     [114, 111, 100, 97, 116, 97, 0, 109, 105, 110, 105, 109, 97, 108, 95, 110, 115, 46, 98, 112],
     [102, 46, 99, 0, 76, 66, 66, 48, 95, 50, 0, 104, 97, 110, 100, 108, 101, 95, 116, 112],
     [46, 95, 95, 95, 95, 102, 109, 116, 0, 104, 97, 110, 100, 108, 101, 95, 116, 112, 0, 100],
     [101, 118, 0, 105, 110, 111, 0, 109, 121, 95, 112, 105, 100, 0, 76, 73, 67, 69, 78, 83, 69],
     [0, 46, 114, 101, 108, 116, 112, 47, 115, 121, 115, 99, 97, 108, 108, 115, 47, 115, 121, 115],
     [95, 101, 110, 116, 101, 114, 95, 119, 114, 105, 116, 101, 0, 46, 66, 84, 70, 0, 46, 66],
     [84, 70, 46, 101, 120, 116, 0, 0, 0, 0, 0, 0]]"

definition minimal_ns_elf_2 :: "byte list" where
  "minimal_ns_elf_2 =
    concat
    [[0, 0, 0, 0, 0, 0, 0, 0, 0, 0, 0, 0, 0, 0, 0, 0, 0, 0, 0, 0, 0],
     [0, 0, 0, 66, 0, 0, 0, 4, 0, 241, 255, 0, 0, 0, 0, 0, 0, 0, 0, 0, 0, 0, 0, 0, 0, 0, 0, 0, 0, 0, 0, 3, 0],
     [3, 0, 0, 0, 0, 0, 0, 0, 0, 0, 0, 0, 0, 0, 0, 0, 0, 0, 83, 0, 0, 0, 0, 0, 3, 0, 152, 0, 0, 0, 0, 0, 0, 0, 0],
     [0, 0, 0, 0, 0, 0, 0, 90, 0, 0, 0, 1, 0, 6, 0, 0, 0, 0, 0, 0, 0, 0, 0, 28, 0, 0, 0, 0, 0, 0, 0, 0, 0, 0, 0],
     [3, 0, 6, 0, 0, 0, 0, 0, 0, 0, 0, 0, 0, 0, 0, 0, 0, 0, 0, 0, 108, 0, 0, 0, 18, 0, 3, 0, 0, 0, 0, 0, 0, 0],
     [0, 0, 168, 0, 0, 0, 0, 0, 0, 0, 118, 0, 0, 0, 17, 0, 5, 0, 8, 0, 0, 0, 0, 0, 0, 0, 8, 0, 0, 0, 0, 0, 0],
     [0, 122, 0, 0, 0, 17, 0, 5, 0, 16, 0, 0, 0, 0, 0, 0, 0, 8, 0, 0, 0, 0, 0, 0, 0, 126, 0, 0, 0, 17, 0],
     [5, 0, 0, 0, 0, 0, 0, 0, 0, 0, 4, 0, 0, 0, 0, 0, 0, 0, 133, 0, 0, 0, 17, 0, 4, 0, 0, 0, 0, 0, 0, 0, 0, 0],
     [13, 0, 0, 0, 0, 0, 0, 0]]"

definition minimal_ns_elf_3 :: "byte list" where
  "minimal_ns_elf_3 =
    concat
    [[24, 1, 0, 0, 0, 0, 0, 0, 0, 0, 0, 0, 0, 0, 0, 0, 121, 17, 0, 0, 0, 0, 0, 0, 24],
     [2, 0, 0, 0, 0, 0, 0, 0, 0, 0, 0, 0, 0, 0, 0, 121, 34, 0, 0, 0, 0, 0, 0, 191, 163, 0, 0, 0, 0, 0, 0, 7],
     [3, 0, 0, 248, 255, 255, 255, 183, 4, 0, 0, 8, 0, 0, 0, 133, 0, 0, 0, 120, 0, 0, 0, 24, 1, 0, 0],
     [0, 0, 0, 0, 0, 0, 0, 0, 0, 0, 0, 0, 97, 17, 0, 0, 0, 0, 0, 0, 97, 163, 248, 255, 0, 0, 0, 0, 93, 19],
     [4, 0, 0, 0, 0, 0, 24, 1, 0, 0, 0, 0, 0, 0, 0, 0, 0, 0, 0, 0, 0, 0, 183, 2, 0, 0, 28, 0, 0, 0, 133, 0],
     [0, 0, 6, 0, 0, 0, 183, 0, 0, 0, 0, 0, 0, 0, 149, 0, 0, 0, 0, 0, 0, 0]]"

definition minimal_ns_elf_4 :: "byte list" where
  "minimal_ns_elf_4 =
    concat
    [[68, 117, 97, 108, 32, 66, 83],
     [68, 47, 71, 80, 76, 0, 0, 0, 0]]"

definition minimal_ns_elf_6 :: "byte list" where
  "minimal_ns_elf_6 =
    concat
    [[66, 80, 70, 32, 116, 114, 105, 103, 103, 101, 114, 101],
     [100, 32, 102, 114, 111, 109, 32, 80, 73, 68, 32, 37, 100, 46, 10, 0, 0, 0, 0, 0]]"

definition minimal_ns_elf_7 :: "byte list" where
  "minimal_ns_elf_7 =
    concat
    [[0, 0, 0, 0],
     [0, 0, 0, 0, 1, 0, 0, 0, 7, 0, 0, 0, 24, 0, 0, 0, 0, 0, 0, 0, 1, 0, 0, 0, 8, 0, 0, 0, 80, 0, 0, 0, 0],
     [0, 0, 0, 1, 0, 0, 0, 9, 0, 0, 0, 120, 0, 0, 0, 0, 0, 0, 0, 1, 0, 0, 0, 5, 0, 0, 0]]"

definition minimal_ns_elf_8 :: "byte list" where
  "minimal_ns_elf_8 =
    concat
    [[159, 235, 1, 0],
     [24, 0, 0, 0, 0, 0, 0, 0, 88, 1, 0, 0, 88, 1, 0, 0, 92, 1, 0, 0, 0, 0, 0, 0, 0, 0, 0, 2, 0, 0, 0],
     [0, 0, 0, 0, 0, 1, 0, 0, 13, 3, 0, 0, 0, 1, 0, 0, 0, 1, 0, 0, 0, 5, 0, 0, 0, 0, 0, 0, 1, 4, 0],
     [0, 0, 32, 0, 0, 1, 9, 0, 0, 0, 1, 0, 0, 12, 2, 0, 0, 0, 19, 0, 0, 0, 0, 0, 0, 1, 1, 0, 0, 0],
     [8, 0, 0, 1, 0, 0, 0, 0, 0, 0, 0, 3, 0, 0, 0, 0, 5, 0, 0, 0, 7, 0, 0, 0, 13, 0, 0, 0, 24, 0, 0, 0],
     [0, 0, 0, 1, 4, 0, 0, 0, 32, 0, 0, 0, 44, 0, 0, 0, 0, 0, 0, 14, 6, 0, 0, 0, 1, 0, 0, 0, 52, 0, 0],
     [0, 0, 0, 0, 14, 3, 0, 0, 0, 1, 0, 0, 0, 59, 0, 0, 0, 0, 0, 0, 1, 8, 0, 0, 0, 64, 0, 0, 0, 78, 0],
     [0, 0, 0, 0, 0, 14, 10, 0, 0, 0, 1, 0, 0, 0, 82, 0, 0, 0, 0, 0, 0, 14, 10, 0, 0, 0, 1, 0, 0, 0, 0, 0],
     [0, 0, 0, 0, 0, 10, 5, 0, 0, 0, 0, 0, 0, 0, 0, 0, 0, 3, 0, 0, 0, 0, 13, 0, 0, 0, 7, 0, 0, 0, 28, 0, 0],
     [0, 86, 0, 0, 0, 0, 0, 0, 14, 14, 0, 0, 0, 0, 0, 0, 0, 43, 1, 0, 0, 1, 0, 0, 15, 13, 0, 0, 0, 8],
     [0, 0, 0, 0, 0, 0, 0, 13, 0, 0, 0, 51, 1, 0, 0, 3, 0, 0, 15, 24, 0, 0, 0, 9, 0, 0, 0, 0, 0, 0, 0],
     [4, 0, 0, 0, 11, 0, 0, 0, 8, 0, 0, 0, 8, 0, 0, 0, 12, 0, 0, 0, 16, 0, 0, 0, 8, 0, 0, 0, 56, 1],
     [0, 0, 1, 0, 0, 15, 28, 0, 0, 0, 15, 0, 0, 0, 0, 0, 0, 0, 28, 0, 0, 0, 0, 99, 116, 120, 0, 105, 110],
     [116, 0, 104, 97, 110, 100, 108, 101, 95, 116, 112, 0, 99, 104, 97, 114, 0, 95, 95, 65, 82],
     [82, 65, 89, 95, 83, 73, 90, 69, 95, 84, 89, 80, 69, 95, 95, 0, 76, 73, 67, 69],
     [78, 83, 69, 0, 109, 121, 95, 112, 105, 100, 0, 117, 110, 115, 105, 103, 110, 101, 100, 32],
     [108, 111, 110, 103, 32, 108, 111, 110, 103, 0, 100, 101, 118, 0, 105, 110, 111, 0, 104, 97, 110],
     [100, 108, 101, 95, 116, 112, 46, 95, 95, 95, 95, 102, 109, 116, 0, 47, 104, 111, 109, 101],
     [47, 108, 111, 115, 116, 99, 97, 99, 104, 101, 47, 99, 111, 100, 101, 47, 104, 101, 108],
     [108, 111, 95, 101, 66, 80, 70, 47, 101, 120, 97, 109, 112, 108, 101, 115, 47, 99, 47],
     [109, 105, 110, 105, 109, 97, 108, 95, 110, 115, 46, 98, 112, 102, 46, 99, 0, 9, 98, 112],
     [102, 95, 103, 101, 116, 95, 110, 115, 95, 99, 117, 114, 114, 101, 110, 116, 95, 112, 105],
     [100, 95, 116, 103, 105, 100, 40, 100, 101, 118, 44, 32, 105, 110, 111, 44, 32, 38, 110],
     [115, 44, 32, 115, 105, 122, 101, 111, 102, 40, 110, 115, 41, 41, 59, 0, 9, 105, 102, 32],
     [40, 110, 115, 46, 112, 105, 100, 32, 33, 61, 32, 109, 121, 95, 112, 105, 100, 41, 0, 9],
     [98, 112, 102, 95, 112, 114, 105, 110, 116, 107, 40, 34, 66, 80, 70, 32, 116, 114, 105],
     [103, 103, 101, 114, 101, 100, 32, 102, 114, 111, 109, 32, 80, 73, 68, 32, 37, 100, 46],
     [92, 110, 34, 44, 32, 110, 115, 46, 112, 105, 100, 41, 59, 0, 125, 0, 108, 105, 99, 101],
     [110, 115, 101, 0, 46, 98, 115, 115, 0, 46, 114, 111, 100, 97, 116, 97, 0, 116, 112, 47, 115],
     [121, 115, 99, 97, 108, 108, 115, 47, 115, 121, 115, 95, 101, 110, 116, 101, 114, 95, 119],
     [114, 105, 116, 101, 0, 0, 0, 0, 0]]"

definition minimal_ns_elf_9 :: "byte list" where
  "minimal_ns_elf_9 =
    concat
    [[159, 235, 1, 0, 32, 0, 0, 0, 0, 0, 0, 0, 20, 0, 0, 0, 20, 0, 0, 0],
     [156, 0, 0, 0, 176, 0, 0, 0, 0, 0, 0, 0, 8, 0, 0, 0, 64, 1, 0, 0, 1, 0, 0, 0, 0, 0, 0, 0, 4, 0, 0, 0],
     [16, 0, 0, 0, 64, 1, 0, 0, 9, 0, 0, 0, 0, 0, 0, 0, 104, 0, 0, 0, 164, 0, 0, 0, 30, 72, 0, 0, 24, 0],
     [0, 0, 104, 0, 0, 0, 164, 0, 0, 0, 35, 72, 0, 0, 56, 0, 0, 0, 104, 0, 0, 0, 164, 0, 0, 0, 30, 72, 0, 0],
     [64, 0, 0, 0, 104, 0, 0, 0, 164, 0, 0, 0, 2, 72, 0, 0, 80, 0, 0, 0, 104, 0, 0, 0, 221, 0, 0, 0, 16],
     [76, 0, 0, 104, 0, 0, 0, 104, 0, 0, 0, 221, 0, 0, 0, 9, 76, 0, 0, 112, 0, 0, 0, 104, 0, 0, 0, 221, 0, 0],
     [0, 6, 76, 0, 0, 120, 0, 0, 0, 104, 0, 0, 0, 244, 0, 0, 0, 2, 88, 0, 0, 152, 0, 0, 0, 104, 0, 0, 0],
     [41, 1, 0, 0, 1, 100, 0, 0]]"

definition minimal_ns_elf_shdrs :: "byte list list" where
  "minimal_ns_elf_shdrs =
    [[0, 0, 0, 0, 0, 0, 0, 0, 0, 0, 0, 0, 0, 0, 0, 0, 0, 0, 0, 0, 0, 0, 0, 0, 0, 0, 0, 0, 0, 0, 0, 0,
      0, 0, 0, 0, 0, 0, 0, 0, 0, 0, 0, 0, 0, 0, 0, 0, 0, 0, 0, 0, 0, 0, 0, 0, 0, 0, 0, 0, 0, 0, 0, 0],
     [1, 0, 0, 0, 3, 0, 0, 0, 32, 0, 0, 0, 0, 0, 0, 0, 0, 0, 0, 0, 0, 0, 0, 0, 64, 0, 0, 0, 0, 0, 0, 0,
      187, 0, 0, 0, 0, 0, 0, 0, 0, 0, 0, 0, 0, 0, 0, 0, 1, 0, 0, 0, 0, 0, 0, 0, 0, 0, 0, 0, 0, 0, 0, 0],
     [9, 0, 0, 0, 2, 0, 0, 0, 0, 0, 0, 0, 0, 0, 0, 0, 0, 0, 0, 0, 0, 0, 0, 0, 0, 1, 0, 0, 0, 0, 0, 0,
      8, 1, 0, 0, 0, 0, 0, 0, 1, 0, 0, 0, 0, 0, 0, 0, 8, 0, 0, 0, 0, 0, 0, 0, 24, 0, 0, 0, 0, 0, 0, 0],
     [17, 0, 0, 0, 1, 0, 0, 0, 6, 0, 0, 0, 0, 0, 0, 0, 0, 0, 0, 0, 0, 0, 0, 0, 8, 2, 0, 0, 0, 0, 0, 0,
      168, 0, 0, 0, 0, 0, 0, 0, 0, 0, 0, 0, 0, 0, 0, 0, 8, 0, 0, 0, 0, 0, 0, 0, 0, 0, 0, 0, 0, 0, 0, 0],
     [45, 0, 0, 0, 1, 0, 0, 0, 3, 0, 0, 0, 0, 0, 0, 0, 0, 0, 0, 0, 0, 0, 0, 0, 176, 2, 0, 0, 0, 0, 0, 0,
      13, 0, 0, 0, 0, 0, 0, 0, 0, 0, 0, 0, 0, 0, 0, 0, 1, 0, 0, 0, 0, 0, 0, 0, 0, 0, 0, 0, 0, 0, 0, 0],
     [53, 0, 0, 0, 8, 0, 0, 0, 3, 0, 0, 0, 0, 0, 0, 0, 0, 0, 0, 0, 0, 0, 0, 0, 192, 2, 0, 0, 0, 0, 0, 0,
      24, 0, 0, 0, 0, 0, 0, 0, 0, 0, 0, 0, 0, 0, 0, 0, 8, 0, 0, 0, 0, 0, 0, 0, 0, 0, 0, 0, 0, 0, 0, 0],
     [58, 0, 0, 0, 1, 0, 0, 0, 2, 0, 0, 0, 0, 0, 0, 0, 0, 0, 0, 0, 0, 0, 0, 0, 192, 2, 0, 0, 0, 0, 0, 0,
      28, 0, 0, 0, 0, 0, 0, 0, 0, 0, 0, 0, 0, 0, 0, 0, 1, 0, 0, 0, 0, 0, 0, 0, 0, 0, 0, 0, 0, 0, 0, 0],
     [141, 0, 0, 0, 9, 0, 0, 0, 64, 0, 0, 0, 0, 0, 0, 0, 0, 0, 0, 0, 0, 0, 0, 0, 224, 2, 0, 0, 0, 0, 0, 0,
      64, 0, 0, 0, 0, 0, 0, 0, 2, 0, 0, 0, 3, 0, 0, 0, 8, 0, 0, 0, 0, 0, 0, 0, 16, 0, 0, 0, 0, 0, 0, 0],
     [173, 0, 0, 0, 1, 0, 0, 0, 0, 0, 0, 0, 0, 0, 0, 0, 0, 0, 0, 0, 0, 0, 0, 0, 32, 3, 0, 0, 0, 0, 0, 0,
      204, 2, 0, 0, 0, 0, 0, 0, 0, 0, 0, 0, 0, 0, 0, 0, 8, 0, 0, 0, 0, 0, 0, 0, 0, 0, 0, 0, 0, 0, 0, 0],
     [178, 0, 0, 0, 1, 0, 0, 0, 0, 0, 0, 0, 0, 0, 0, 0, 0, 0, 0, 0, 0, 0, 0, 0, 240, 5, 0, 0, 0, 0, 0, 0,
      208, 0, 0, 0, 0, 0, 0, 0, 0, 0, 0, 0, 0, 0, 0, 0, 8, 0, 0, 0, 0, 0, 0, 0, 0, 0, 0, 0, 0, 0, 0, 0]]"

definition minimal_ns_elf_body :: "byte list list" where
  "minimal_ns_elf_body = [minimal_ns_elf_1, minimal_ns_elf_2, minimal_ns_elf_3, minimal_ns_elf_4, minimal_ns_elf_6, minimal_ns_elf_7, minimal_ns_elf_8, minimal_ns_elf_9]"

definition minimal_ns_bpf__elf_bytes :: "byte list" where
  "minimal_ns_bpf__elf_bytes = concat (minimal_ns_elf_hdr # minimal_ns_elf_body) @ concat minimal_ns_elf_shdrs"

section \<open>The parts of the object\<close>

text \<open>The sizes of the pieces. The definitions stay folded: a piece is only opened where it is read.\<close>

lemma minimal_ns_elf_lengths [simp]:
  "length minimal_ns_elf_hdr = 64"
  "length minimal_ns_elf_1 = 192"
  "length minimal_ns_elf_2 = 264"
  "length minimal_ns_elf_3 = 168"
  "length minimal_ns_elf_4 = 16"
  "length minimal_ns_elf_6 = 32"
  "length minimal_ns_elf_7 = 64"
  "length minimal_ns_elf_8 = 720"
  "length minimal_ns_elf_9 = 208"
  by (simp_all only: piece_length minimal_ns_elf_hdr_def minimal_ns_elf_1_def minimal_ns_elf_2_def
    minimal_ns_elf_3_def minimal_ns_elf_4_def minimal_ns_elf_6_def minimal_ns_elf_7_def minimal_ns_elf_8_def
    minimal_ns_elf_9_def)

lemma minimal_ns_elf_pieces: "object_pieces minimal_ns_bpf__elf_bytes (minimal_ns_elf_hdr # minimal_ns_elf_body) minimal_ns_elf_shdrs"
proof -
  have "le_at minimal_ns_elf_hdr 40 8 = 1728" "le_at minimal_ns_elf_hdr 60 2 = 10" "le_at minimal_ns_elf_hdr 62 2 = 1"
    by (simp_all add: minimal_ns_elf_hdr_def elf_eval)
  moreover have "list_all (\<lambda>h. length h = 64) minimal_ns_elf_shdrs" "length minimal_ns_elf_shdrs = 10"
    by (simp_all add: minimal_ns_elf_shdrs_def)
  ultimately show ?thesis
    by (simp add: object_pieces_def minimal_ns_bpf__elf_bytes_def minimal_ns_elf_body_def)
qed

lemma minimal_ns_elf_headers:
  "elf_section_at minimal_ns_bpf__elf_bytes 0 = \<lparr>sec_name = 0, sec_type = 0, sec_offset = 0, sec_size = 0, sec_link = 0, sec_info = 0\<rparr>"
  "elf_section_at minimal_ns_bpf__elf_bytes 1 = \<lparr>sec_name = 1, sec_type = 3, sec_offset = 64, sec_size = 187, sec_link = 0, sec_info = 0\<rparr>"
  "elf_section_at minimal_ns_bpf__elf_bytes 2 = \<lparr>sec_name = 9, sec_type = 2, sec_offset = 256, sec_size = 264, sec_link = 1, sec_info = 0\<rparr>"
  "elf_section_at minimal_ns_bpf__elf_bytes 3 = \<lparr>sec_name = 17, sec_type = 1, sec_offset = 520, sec_size = 168, sec_link = 0, sec_info = 0\<rparr>"
  "elf_section_at minimal_ns_bpf__elf_bytes 4 = \<lparr>sec_name = 45, sec_type = 1, sec_offset = 688, sec_size = 13, sec_link = 0, sec_info = 0\<rparr>"
  "elf_section_at minimal_ns_bpf__elf_bytes 5 = \<lparr>sec_name = 53, sec_type = 8, sec_offset = 704, sec_size = 24, sec_link = 0, sec_info = 0\<rparr>"
  "elf_section_at minimal_ns_bpf__elf_bytes 6 = \<lparr>sec_name = 58, sec_type = 1, sec_offset = 704, sec_size = 28, sec_link = 0, sec_info = 0\<rparr>"
  "elf_section_at minimal_ns_bpf__elf_bytes 7 = \<lparr>sec_name = 141, sec_type = 9, sec_offset = 736, sec_size = 64, sec_link = 2, sec_info = 3\<rparr>"
  "elf_section_at minimal_ns_bpf__elf_bytes 8 = \<lparr>sec_name = 173, sec_type = 1, sec_offset = 800, sec_size = 716, sec_link = 0, sec_info = 0\<rparr>"
  "elf_section_at minimal_ns_bpf__elf_bytes 9 = \<lparr>sec_name = 178, sec_type = 1, sec_offset = 1520, sec_size = 208, sec_link = 0, sec_info = 0\<rparr>"
  by (simp_all add: object_section [OF minimal_ns_elf_pieces] minimal_ns_elf_shdrs_def elf_section_header_def elf_eval)

lemma minimal_ns_elf_flags:
  "section_flags minimal_ns_bpf__elf_bytes 0 = 0"
  "section_flags minimal_ns_bpf__elf_bytes 1 = 32"
  "section_flags minimal_ns_bpf__elf_bytes 2 = 0"
  "section_flags minimal_ns_bpf__elf_bytes 3 = 6"
  "section_flags minimal_ns_bpf__elf_bytes 4 = 3"
  "section_flags minimal_ns_bpf__elf_bytes 5 = 3"
  "section_flags minimal_ns_bpf__elf_bytes 6 = 2"
  "section_flags minimal_ns_bpf__elf_bytes 7 = 64"
  "section_flags minimal_ns_bpf__elf_bytes 8 = 0"
  "section_flags minimal_ns_bpf__elf_bytes 9 = 0"
  by (simp_all add: object_section [OF minimal_ns_elf_pieces] minimal_ns_elf_shdrs_def elf_eval)

lemma minimal_ns_elf_contents:
  "section_bytes minimal_ns_bpf__elf_bytes 0 = []"
  "section_bytes minimal_ns_bpf__elf_bytes 1 = take 187 minimal_ns_elf_1"
  "section_bytes minimal_ns_bpf__elf_bytes 2 = minimal_ns_elf_2"
  "section_bytes minimal_ns_bpf__elf_bytes 3 = minimal_ns_elf_3"
  "section_bytes minimal_ns_bpf__elf_bytes 4 = take 13 minimal_ns_elf_4"
  "section_bytes minimal_ns_bpf__elf_bytes 5 = replicate 24 0"
  "section_bytes minimal_ns_bpf__elf_bytes 6 = take 28 minimal_ns_elf_6"
  "section_bytes minimal_ns_bpf__elf_bytes 7 = minimal_ns_elf_7"
  "section_bytes minimal_ns_bpf__elf_bytes 8 = take 716 minimal_ns_elf_8"
  "section_bytes minimal_ns_bpf__elf_bytes 9 = minimal_ns_elf_9"
proof -
  show "section_bytes minimal_ns_bpf__elf_bytes 0 = []"
    by (simp add: section_bytes_def minimal_ns_elf_headers elf_section.defs)
  show "section_bytes minimal_ns_bpf__elf_bytes 1 = take 187 minimal_ns_elf_1"
    using object_section_bytes [OF minimal_ns_elf_pieces minimal_ns_elf_headers(2), of 1] by (simp add: minimal_ns_elf_body_def)
  show "section_bytes minimal_ns_bpf__elf_bytes 2 = minimal_ns_elf_2"
    using object_section_bytes [OF minimal_ns_elf_pieces minimal_ns_elf_headers(3), of 2] by (simp add: minimal_ns_elf_body_def)
  show "section_bytes minimal_ns_bpf__elf_bytes 3 = minimal_ns_elf_3"
    using object_section_bytes [OF minimal_ns_elf_pieces minimal_ns_elf_headers(4), of 3] by (simp add: minimal_ns_elf_body_def)
  show "section_bytes minimal_ns_bpf__elf_bytes 4 = take 13 minimal_ns_elf_4"
    using object_section_bytes [OF minimal_ns_elf_pieces minimal_ns_elf_headers(5), of 4] by (simp add: minimal_ns_elf_body_def)
  show "section_bytes minimal_ns_bpf__elf_bytes 5 = replicate 24 0"
    by (simp add: section_bytes_def minimal_ns_elf_headers)
  show "section_bytes minimal_ns_bpf__elf_bytes 6 = take 28 minimal_ns_elf_6"
    using object_section_bytes [OF minimal_ns_elf_pieces minimal_ns_elf_headers(7), of 5] by (simp add: minimal_ns_elf_body_def)
  show "section_bytes minimal_ns_bpf__elf_bytes 7 = minimal_ns_elf_7"
    using object_section_bytes [OF minimal_ns_elf_pieces minimal_ns_elf_headers(8), of 6] by (simp add: minimal_ns_elf_body_def)
  show "section_bytes minimal_ns_bpf__elf_bytes 8 = take 716 minimal_ns_elf_8"
    using object_section_bytes [OF minimal_ns_elf_pieces minimal_ns_elf_headers(9), of 7] by (simp add: minimal_ns_elf_body_def)
  show "section_bytes minimal_ns_bpf__elf_bytes 9 = minimal_ns_elf_9"
    using object_section_bytes [OF minimal_ns_elf_pieces minimal_ns_elf_headers(10), of 8] by (simp add: minimal_ns_elf_body_def)
qed

lemma minimal_ns_elf_names:
  "section_name minimal_ns_bpf__elf_bytes 0 = ''''"
  "section_name minimal_ns_bpf__elf_bytes 1 = ''.strtab''"
  "section_name minimal_ns_bpf__elf_bytes 2 = ''.symtab''"
  "section_name minimal_ns_bpf__elf_bytes 3 = ''tp/syscalls/sys_enter_write''"
  "section_name minimal_ns_bpf__elf_bytes 4 = ''license''"
  "section_name minimal_ns_bpf__elf_bytes 5 = ''.bss''"
  "section_name minimal_ns_bpf__elf_bytes 6 = ''.rodata''"
  "section_name minimal_ns_bpf__elf_bytes 7 = ''.reltp/syscalls/sys_enter_write''"
  "section_name minimal_ns_bpf__elf_bytes 8 = ''.BTF''"
  "section_name minimal_ns_bpf__elf_bytes 9 = ''.BTF.ext''"
  by (simp_all only: object_section_name [OF minimal_ns_elf_pieces minimal_ns_elf_contents(2)] minimal_ns_elf_headers elf_section.simps)
    (simp_all add: elf_eval minimal_ns_elf_1_def)

lemma minimal_ns_elf_sections:
  "elf_sections minimal_ns_bpf__elf_bytes =
    [\<lparr>es_name = '''', es_type = 0, es_flags = 0, es_link = 0, es_info = 0, es_size = 0,
      es_bytes = []\<rparr>,
     \<lparr>es_name = ''.strtab'', es_type = 3, es_flags = 32, es_link = 0, es_info = 0, es_size = 187,
      es_bytes = take 187 minimal_ns_elf_1\<rparr>,
     \<lparr>es_name = ''.symtab'', es_type = 2, es_flags = 0, es_link = 1, es_info = 0, es_size = 264,
      es_bytes = minimal_ns_elf_2\<rparr>,
     \<lparr>es_name = ''tp/syscalls/sys_enter_write'', es_type = 1, es_flags = 6, es_link = 0, es_info = 0, es_size = 168,
      es_bytes = minimal_ns_elf_3\<rparr>,
     \<lparr>es_name = ''license'', es_type = 1, es_flags = 3, es_link = 0, es_info = 0, es_size = 13,
      es_bytes = take 13 minimal_ns_elf_4\<rparr>,
     \<lparr>es_name = ''.bss'', es_type = 8, es_flags = 3, es_link = 0, es_info = 0, es_size = 24,
      es_bytes = replicate 24 0\<rparr>,
     \<lparr>es_name = ''.rodata'', es_type = 1, es_flags = 2, es_link = 0, es_info = 0, es_size = 28,
      es_bytes = take 28 minimal_ns_elf_6\<rparr>,
     \<lparr>es_name = ''.reltp/syscalls/sys_enter_write'', es_type = 9, es_flags = 64, es_link = 2, es_info = 3, es_size = 64,
      es_bytes = minimal_ns_elf_7\<rparr>,
     \<lparr>es_name = ''.BTF'', es_type = 1, es_flags = 0, es_link = 0, es_info = 0, es_size = 716,
      es_bytes = take 716 minimal_ns_elf_8\<rparr>,
     \<lparr>es_name = ''.BTF.ext'', es_type = 1, es_flags = 0, es_link = 0, es_info = 0, es_size = 208,
      es_bytes = minimal_ns_elf_9\<rparr>]"
proof -
  have "le_at minimal_ns_bpf__elf_bytes 60 2 = 10"
    using object_piecesD(4) [OF minimal_ns_elf_pieces] by (simp add: minimal_ns_elf_shdrs_def)
  moreover have "[0..<10] = [0, 1, 2, 3, 4, 5, 6, 7, 8, 9]"
    by (simp add: upt_rec)
  ultimately show ?thesis
    by (simp only: elf_sections_def list.map read_section_def Let_def minimal_ns_elf_headers minimal_ns_elf_flags minimal_ns_elf_contents
        minimal_ns_elf_names elf_section.simps)
qed

lemma minimal_ns_elf_symtab_rows:
  "minimal_ns_elf_2 =
    concat
     [[0, 0, 0, 0, 0, 0, 0, 0, 0, 0, 0, 0, 0, 0, 0, 0, 0, 0, 0, 0, 0, 0, 0, 0],
      [66, 0, 0, 0, 4, 0, 241, 255, 0, 0, 0, 0, 0, 0, 0, 0, 0, 0, 0, 0, 0, 0, 0, 0],
      [0, 0, 0, 0, 3, 0, 3, 0, 0, 0, 0, 0, 0, 0, 0, 0, 0, 0, 0, 0, 0, 0, 0, 0],
      [83, 0, 0, 0, 0, 0, 3, 0, 152, 0, 0, 0, 0, 0, 0, 0, 0, 0, 0, 0, 0, 0, 0, 0],
      [90, 0, 0, 0, 1, 0, 6, 0, 0, 0, 0, 0, 0, 0, 0, 0, 28, 0, 0, 0, 0, 0, 0, 0],
      [0, 0, 0, 0, 3, 0, 6, 0, 0, 0, 0, 0, 0, 0, 0, 0, 0, 0, 0, 0, 0, 0, 0, 0],
      [108, 0, 0, 0, 18, 0, 3, 0, 0, 0, 0, 0, 0, 0, 0, 0, 168, 0, 0, 0, 0, 0, 0, 0],
      [118, 0, 0, 0, 17, 0, 5, 0, 8, 0, 0, 0, 0, 0, 0, 0, 8, 0, 0, 0, 0, 0, 0, 0],
      [122, 0, 0, 0, 17, 0, 5, 0, 16, 0, 0, 0, 0, 0, 0, 0, 8, 0, 0, 0, 0, 0, 0, 0],
      [126, 0, 0, 0, 17, 0, 5, 0, 0, 0, 0, 0, 0, 0, 0, 0, 4, 0, 0, 0, 0, 0, 0, 0],
      [133, 0, 0, 0, 17, 0, 4, 0, 0, 0, 0, 0, 0, 0, 0, 0, 13, 0, 0, 0, 0, 0, 0, 0]]"
  by (simp add: minimal_ns_elf_2_def)

lemma minimal_ns_elf_symbols:
  "elf_symbols minimal_ns_bpf__elf_bytes =
    [\<lparr>sym_name = '''', sym_info = 0, sym_shndx = 0, sym_value = 0, sym_size = 0\<rparr>,
     \<lparr>sym_name = ''minimal_ns.bpf.c'', sym_info = 4, sym_shndx = 65521, sym_value = 0, sym_size = 0\<rparr>,
     \<lparr>sym_name = '''', sym_info = 3, sym_shndx = 3, sym_value = 0, sym_size = 0\<rparr>,
     \<lparr>sym_name = ''LBB0_2'', sym_info = 0, sym_shndx = 3, sym_value = 152, sym_size = 0\<rparr>,
     \<lparr>sym_name = ''handle_tp.____fmt'', sym_info = 1, sym_shndx = 6, sym_value = 0, sym_size = 28\<rparr>,
     \<lparr>sym_name = '''', sym_info = 3, sym_shndx = 6, sym_value = 0, sym_size = 0\<rparr>,
     \<lparr>sym_name = ''handle_tp'', sym_info = 18, sym_shndx = 3, sym_value = 0, sym_size = 168\<rparr>,
     \<lparr>sym_name = ''dev'', sym_info = 17, sym_shndx = 5, sym_value = 8, sym_size = 8\<rparr>,
     \<lparr>sym_name = ''ino'', sym_info = 17, sym_shndx = 5, sym_value = 16, sym_size = 8\<rparr>,
     \<lparr>sym_name = ''my_pid'', sym_info = 17, sym_shndx = 5, sym_value = 0, sym_size = 4\<rparr>,
     \<lparr>sym_name = ''LICENSE'', sym_info = 17, sym_shndx = 4, sym_value = 0, sym_size = 13\<rparr>]"
  by (simp add: elf_symbols_def minimal_ns_elf_sections Let_def read_symbol_rows [OF minimal_ns_elf_symtab_rows] del: upt_rec_numeral)
    (simp add: read_symbol_def elf_eval minimal_ns_elf_1_def)

lemma minimal_ns_elf_programs:
  "elf_programs minimal_ns_bpf__elf_bytes =
    [(''tp/syscalls/sys_enter_write'', decode_program minimal_ns_elf_3)]"
  by (simp add: elf_programs_def minimal_ns_elf_sections is_program_def bit_numeral_rec bit_0)

end
