(* ===== verification/Obj_Sockfilter.thy ===== *)
theory Obj_Sockfilter
  imports Elf
begin

text \<open>
  The object file embedded in examples/c/.output/sockfilter.skel.h as a string literal: one list of bytes per line of the
  literal, cut at the borders of the sections; then its section table, its symbols and its programs.
\<close>

section \<open>The literal\<close>

definition sockfilter_elf_hdr :: "byte list" where
  "sockfilter_elf_hdr =
    concat
    [[127, 69, 76, 70, 2, 1, 1, 0, 0, 0, 0, 0, 0, 0, 0, 0, 1, 0, 247, 0, 1, 0, 0, 0, 0, 0, 0, 0, 0],
     [0, 0, 0, 0, 0, 0, 0, 0, 0, 0, 0, 192, 15, 0, 0, 0, 0, 0, 0, 0, 0, 0, 0, 64, 0, 0, 0, 0, 0, 64, 0, 9, 0],
     [1, 0]]"

definition sockfilter_elf_1 :: "byte list" where
  "sockfilter_elf_1 =
    concat
    [[0, 46, 115, 116, 114, 116, 97, 98, 0, 46, 115, 121, 109, 116, 97, 98, 0, 115, 111],
     [99, 107, 101, 116, 0, 108, 105, 99, 101, 110, 115, 101, 0, 46, 109, 97, 112, 115, 0, 115, 111],
     [99, 107, 102, 105, 108, 116, 101, 114, 46, 98, 112, 102, 46, 99, 0, 76, 66, 66, 48, 95],
     [54, 0, 76, 66, 66, 48, 95, 53, 0, 115, 111, 99, 107, 101, 116, 95, 104, 97, 110, 100],
     [108, 101, 114, 0, 114, 98, 0, 76, 73, 67, 69, 78, 83, 69, 0, 46, 114, 101, 108, 115, 111],
     [99, 107, 101, 116, 0, 46, 66, 84, 70, 0, 46, 66, 84, 70, 46, 101, 120, 116, 0]]"

definition sockfilter_elf_2 :: "byte list" where
  "sockfilter_elf_2 =
    concat
    [[0, 0, 0, 0],
     [0, 0, 0, 0, 0, 0, 0, 0, 0, 0, 0, 0, 0, 0, 0, 0, 0, 0, 0, 0, 38, 0, 0, 0, 4, 0, 241, 255, 0, 0, 0, 0, 0, 0, 0],
     [0, 0, 0, 0, 0, 0, 0, 0, 0, 0, 0, 0, 0, 3, 0, 3, 0, 0, 0, 0, 0, 0, 0, 0, 0, 0, 0, 0, 0, 0, 0, 0, 0, 55, 0, 0],
     [0, 0, 0, 3, 0, 48, 2, 0, 0, 0, 0, 0, 0, 0, 0, 0, 0, 0, 0, 0, 0, 62, 0, 0, 0, 0, 0, 3, 0, 120, 1, 0],
     [0, 0, 0, 0, 0, 0, 0, 0, 0, 0, 0, 0, 0, 69, 0, 0, 0, 18, 0, 3, 0, 0, 0, 0, 0, 0, 0, 0, 0, 64, 2, 0, 0, 0],
     [0, 0, 0, 84, 0, 0, 0, 17, 0, 5, 0, 0, 0, 0, 0, 0, 0, 0, 0, 16, 0, 0, 0, 0, 0, 0, 0, 87, 0, 0, 0, 17, 0],
     [4, 0, 0, 0, 0, 0, 0, 0, 0, 0, 13, 0, 0, 0, 0, 0, 0, 0]]"

definition sockfilter_elf_3 :: "byte list" where
  "sockfilter_elf_3 =
    concat
    [[191, 22, 0, 0, 0, 0, 0, 0, 191, 163, 0, 0, 0, 0, 0],
     [0, 7, 3, 0, 0, 250, 255, 255, 255, 183, 2, 0, 0, 12, 0, 0, 0, 183, 4, 0, 0, 2, 0, 0, 0, 133],
     [0, 0, 0, 26, 0, 0, 0, 105, 161, 250, 255, 0, 0, 0, 0, 191, 18, 0, 0, 0, 0, 0, 0, 220, 2, 0, 0, 16, 0],
     [0, 0, 107, 42, 250, 255, 0, 0, 0, 0, 183, 8, 0, 0, 0, 0, 0, 0, 85, 1, 58, 0, 8, 0, 0, 0, 191],
     [163, 0, 0, 0, 0, 0, 0, 7, 3, 0, 0, 254, 255, 255, 255, 191, 97, 0, 0, 0, 0, 0, 0, 183, 2, 0, 0],
     [20, 0, 0, 0, 183, 4, 0, 0, 2, 0, 0, 0, 133, 0, 0, 0, 26, 0, 0, 0, 105, 161, 254, 255, 0, 0, 0, 0],
     [87, 1, 0, 0, 63, 255, 0, 0, 85, 1, 49, 0, 0, 0, 0, 0, 24, 1, 0, 0, 0, 0, 0, 0, 0, 0, 0, 0, 0, 0],
     [0, 0, 183, 2, 0, 0, 24, 0, 0, 0, 183, 3, 0, 0, 0, 0, 0, 0, 133, 0, 0, 0, 131, 0, 0, 0, 191, 7, 0, 0],
     [0, 0, 0, 0, 21, 7, 42, 0, 0, 0, 0, 0, 191, 115, 0, 0, 0, 0, 0, 0, 7, 3, 0, 0, 12, 0, 0, 0, 191],
     [97, 0, 0, 0, 0, 0, 0, 183, 2, 0, 0, 23, 0, 0, 0, 183, 4, 0, 0, 1, 0, 0, 0, 133, 0, 0, 0, 26, 0, 0],
     [0, 97, 113, 12, 0, 0, 0, 0, 0, 21, 1, 11, 0, 47, 0, 0, 0, 191, 97, 0, 0, 0, 0, 0, 0, 183, 2, 0],
     [0, 26, 0, 0, 0, 191, 115, 0, 0, 0, 0, 0, 0, 183, 4, 0, 0, 4, 0, 0, 0, 133, 0, 0, 0, 26, 0, 0, 0, 191],
     [115, 0, 0, 0, 0, 0, 0, 7, 3, 0, 0, 4, 0, 0, 0, 191, 97, 0, 0, 0, 0, 0, 0, 183, 2, 0, 0, 30, 0, 0],
     [0, 183, 4, 0, 0, 4, 0, 0, 0, 133, 0, 0, 0, 26, 0, 0, 0, 191, 163, 0, 0, 0, 0, 0, 0, 7, 3, 0, 0],
     [253, 255, 255, 255, 191, 97, 0, 0, 0, 0, 0, 0, 183, 2, 0, 0, 14, 0, 0, 0, 183, 4, 0, 0, 1, 0, 0],
     [0, 133, 0, 0, 0, 26, 0, 0, 0, 113, 162, 253, 255, 0, 0, 0, 0, 103, 2, 0, 0, 2, 0, 0, 0, 87, 2, 0],
     [0, 60, 0, 0, 0, 7, 2, 0, 0, 14, 0, 0, 0, 191, 115, 0, 0, 0, 0, 0, 0, 7, 3, 0, 0, 8, 0, 0, 0],
     [191, 97, 0, 0, 0, 0, 0, 0, 183, 4, 0, 0, 4, 0, 0, 0, 133, 0, 0, 0, 26, 0, 0, 0, 97, 97, 4, 0, 0],
     [0, 0, 0, 99, 23, 16, 0, 0, 0, 0, 0, 97, 97, 40, 0, 0, 0, 0, 0, 99, 23, 20, 0, 0, 0, 0, 0, 191],
     [113, 0, 0, 0, 0, 0, 0, 183, 2, 0, 0, 0, 0, 0, 0, 133, 0, 0, 0, 132, 0, 0, 0, 97, 104, 0, 0, 0, 0, 0, 0],
     [191, 128, 0, 0, 0, 0, 0, 0, 149, 0, 0, 0, 0, 0, 0, 0]]"

definition sockfilter_elf_4 :: "byte list" where
  "sockfilter_elf_4 =
    concat
    [[68, 117, 97, 108, 32, 66, 83, 68, 47, 71],
     [80, 76, 0, 0, 0, 0]]"

definition sockfilter_elf_5 :: "byte list" where
  "sockfilter_elf_5 =
    concat
    [[0, 0, 0, 0, 0, 0, 0, 0, 0, 0, 0, 0, 0, 0, 0, 0]]"

definition sockfilter_elf_6 :: "byte list" where
  "sockfilter_elf_6 =
    concat
    [[168, 0, 0, 0, 0, 0, 0, 0, 1, 0, 0, 0],
     [6, 0, 0, 0]]"

definition sockfilter_elf_7 :: "byte list" where
  "sockfilter_elf_7 =
    concat
    [[159, 235, 1, 0, 24, 0, 0, 0, 0, 0, 0, 0, 184, 3, 0, 0, 184, 3, 0, 0, 179, 5, 0, 0],
     [0, 0, 0, 0, 0, 0, 0, 2, 3, 0, 0, 0, 1, 0, 0, 0, 0, 0, 0, 1, 4, 0, 0, 0, 32, 0, 0, 1, 0, 0, 0, 0],
     [0, 0, 0, 3, 0, 0, 0, 0, 2, 0, 0, 0, 4, 0, 0, 0, 27, 0, 0, 0, 5, 0, 0, 0, 0, 0, 0, 1, 4, 0, 0, 0],
     [32, 0, 0, 0, 0, 0, 0, 0, 0, 0, 0, 2, 6, 0, 0, 0, 0, 0, 0, 0, 0, 0, 0, 3, 0, 0, 0, 0, 2, 0, 0, 0, 4],
     [0, 0, 0, 0, 0, 4, 0, 0, 0, 0, 0, 2, 0, 0, 4, 16, 0, 0, 0, 25, 0, 0, 0, 1, 0, 0, 0, 0, 0, 0, 0, 30],
     [0, 0, 0, 5, 0, 0, 0, 64, 0, 0, 0, 42, 0, 0, 0, 0, 0, 0, 14, 7, 0, 0, 0, 1, 0, 0, 0, 0, 0, 0, 0, 0, 0],
     [0, 2, 10, 0, 0, 0, 45, 0, 0, 0, 34, 0, 0, 4, 192, 0, 0, 0, 55, 0, 0, 0, 11, 0, 0, 0, 0, 0, 0, 0],
     [59, 0, 0, 0, 11, 0, 0, 0, 32, 0, 0, 0, 68, 0, 0, 0, 11, 0, 0, 0, 64, 0, 0, 0, 73, 0, 0, 0, 11, 0, 0],
     [0, 96, 0, 0, 0, 87, 0, 0, 0, 11, 0, 0, 0, 128, 0, 0, 0, 96, 0, 0, 0, 11, 0, 0, 0, 160, 0, 0, 0, 109, 0],
     [0, 0, 11, 0, 0, 0, 192, 0, 0, 0, 118, 0, 0, 0, 11, 0, 0, 0, 224, 0, 0, 0, 129, 0, 0, 0, 11, 0, 0, 0, 0],
     [1, 0, 0, 138, 0, 0, 0, 11, 0, 0, 0, 32, 1, 0, 0, 154, 0, 0, 0, 11, 0, 0, 0, 64, 1, 0, 0, 162, 0],
     [0, 0, 11, 0, 0, 0, 96, 1, 0, 0, 171, 0, 0, 0, 13, 0, 0, 0, 128, 1, 0, 0, 174, 0, 0, 0, 11, 0, 0, 0],
     [32, 2, 0, 0, 179, 0, 0, 0, 11, 0, 0, 0, 64, 2, 0, 0, 190, 0, 0, 0, 11, 0, 0, 0, 96, 2, 0, 0],
     [195, 0, 0, 0, 11, 0, 0, 0, 128, 2, 0, 0, 204, 0, 0, 0, 11, 0, 0, 0, 160, 2, 0, 0, 212, 0, 0, 0, 11],
     [0, 0, 0, 192, 2, 0, 0, 219, 0, 0, 0, 11, 0, 0, 0, 224, 2, 0, 0, 230, 0, 0, 0, 11, 0, 0, 0, 0, 3, 0],
     [0, 240, 0, 0, 0, 14, 0, 0, 0, 32, 3, 0, 0, 251, 0, 0, 0, 14, 0, 0, 0, 160, 3, 0, 0, 5, 1, 0, 0],
     [11, 0, 0, 0, 32, 4, 0, 0, 17, 1, 0, 0, 11, 0, 0, 0, 64, 4, 0, 0, 28, 1, 0, 0, 11, 0, 0, 0],
     [96, 4, 0, 0, 0, 0, 0, 0, 15, 0, 0, 0, 128, 4, 0, 0, 38, 1, 0, 0, 17, 0, 0, 0, 192, 4, 0, 0],
     [45, 1, 0, 0, 11, 0, 0, 0, 0, 5, 0, 0, 54, 1, 0, 0, 11, 0, 0, 0, 32, 5, 0, 0, 0, 0, 0, 0, 19],
     [0, 0, 0, 64, 5, 0, 0, 63, 1, 0, 0, 11, 0, 0, 0, 128, 5, 0, 0, 72, 1, 0, 0, 21, 0, 0, 0, 160],
     [5, 0, 0, 84, 1, 0, 0, 17, 0, 0, 0, 192, 5, 0, 0, 93, 1, 0, 0, 0, 0, 0, 8, 12, 0, 0, 0, 99],
     [1, 0, 0, 0, 0, 0, 1, 4, 0, 0, 0, 32, 0, 0, 0, 0, 0, 0, 0, 0, 0, 0, 3, 0, 0, 0, 0, 11, 0, 0, 0, 4],
     [0, 0, 0, 5, 0, 0, 0, 0, 0, 0, 0, 0, 0, 0, 3, 0, 0, 0, 0, 11, 0, 0, 0, 4, 0, 0, 0, 4, 0, 0, 0, 0, 0, 0],
     [0, 1, 0, 0, 5, 8, 0, 0, 0, 112, 1, 0, 0, 16, 0, 0, 0, 0, 0, 0, 0, 0, 0, 0, 0, 0, 0, 0, 2, 28, 0],
     [0, 0, 122, 1, 0, 0, 0, 0, 0, 8, 18, 0, 0, 0, 128, 1, 0, 0, 0, 0, 0, 1, 8, 0, 0, 0, 64, 0, 0, 0],
     [0, 0, 0, 0, 1, 0, 0, 5, 8, 0, 0, 0, 147, 1, 0, 0, 20, 0, 0, 0, 0, 0, 0, 0, 0, 0, 0, 0, 0, 0, 0, 2],
     [29, 0, 0, 0, 150, 1, 0, 0, 0, 0, 0, 8, 22, 0, 0, 0, 155, 1, 0, 0, 0, 0, 0, 1, 1, 0, 0, 0, 8],
     [0, 0, 0, 0, 0, 0, 0, 1, 0, 0, 13, 2, 0, 0, 0, 169, 1, 0, 0, 9, 0, 0, 0, 173, 1, 0, 0, 1, 0, 0],
     [12, 23, 0, 0, 0, 188, 1, 0, 0, 0, 0, 0, 1, 1, 0, 0, 0, 8, 0, 0, 1, 0, 0, 0, 0, 0, 0, 0, 3, 0],
     [0, 0, 0, 25, 0, 0, 0, 4, 0, 0, 0, 13, 0, 0, 0, 193, 1, 0, 0, 0, 0, 0, 14, 26, 0, 0, 0, 1, 0, 0, 0],
     [201, 1, 0, 0, 0, 0, 0, 7, 0, 0, 0, 0, 215, 1, 0, 0, 0, 0, 0, 7, 0, 0, 0, 0, 158, 5, 0, 0, 1, 0],
     [0, 15, 13, 0, 0, 0, 27, 0, 0, 0, 0, 0, 0, 0, 13, 0, 0, 0, 166, 5, 0, 0, 1, 0, 0, 15, 16, 0, 0, 0],
     [8, 0, 0, 0, 0, 0, 0, 0, 16, 0, 0, 0, 0, 105, 110, 116, 0, 95, 95, 65, 82, 82, 65, 89, 95],
     [83, 73, 90, 69, 95, 84, 89, 80, 69, 95, 95, 0, 116, 121, 112, 101, 0, 109, 97, 120],
     [95, 101, 110, 116, 114, 105, 101, 115, 0, 114, 98, 0, 95, 95, 115, 107, 95, 98, 117, 102],
     [102, 0, 108, 101, 110, 0, 112, 107, 116, 95, 116, 121, 112, 101, 0, 109, 97, 114, 107, 0, 113],
     [117, 101, 117, 101, 95, 109, 97, 112, 112, 105, 110, 103, 0, 112, 114, 111, 116, 111, 99, 111],
     [108, 0, 118, 108, 97, 110, 95, 112, 114, 101, 115, 101, 110, 116, 0, 118, 108, 97, 110, 95],
     [116, 99, 105, 0, 118, 108, 97, 110, 95, 112, 114, 111, 116, 111, 0, 112, 114, 105, 111, 114],
     [105, 116, 121, 0, 105, 110, 103, 114, 101, 115, 115, 95, 105, 102, 105, 110, 100, 101, 120, 0],
     [105, 102, 105, 110, 100, 101, 120, 0, 116, 99, 95, 105, 110, 100, 101, 120, 0, 99, 98, 0, 104],
     [97, 115, 104, 0, 116, 99, 95, 99, 108, 97, 115, 115, 105, 100, 0, 100, 97, 116, 97, 0, 100],
     [97, 116, 97, 95, 101, 110, 100, 0, 110, 97, 112, 105, 95, 105, 100, 0, 102, 97, 109, 105],
     [108, 121, 0, 114, 101, 109, 111, 116, 101, 95, 105, 112, 52, 0, 108, 111, 99, 97, 108, 95],
     [105, 112, 52, 0, 114, 101, 109, 111, 116, 101, 95, 105, 112, 54, 0, 108, 111, 99, 97, 108],
     [95, 105, 112, 54, 0, 114, 101, 109, 111, 116, 101, 95, 112, 111, 114, 116, 0, 108, 111, 99],
     [97, 108, 95, 112, 111, 114, 116, 0, 100, 97, 116, 97, 95, 109, 101, 116, 97, 0, 116, 115],
     [116, 97, 109, 112, 0, 119, 105, 114, 101, 95, 108, 101, 110, 0, 103, 115, 111, 95, 115, 101],
     [103, 115, 0, 103, 115, 111, 95, 115, 105, 122, 101, 0, 116, 115, 116, 97, 109, 112, 95, 116],
     [121, 112, 101, 0, 104, 119, 116, 115, 116, 97, 109, 112, 0, 95, 95, 117, 51, 50, 0, 117, 110],
     [115, 105, 103, 110, 101, 100, 32, 105, 110, 116, 0, 102, 108, 111, 119, 95, 107, 101, 121, 115],
     [0, 95, 95, 117, 54, 52, 0, 117, 110, 115, 105, 103, 110, 101, 100, 32, 108, 111, 110, 103],
     [32, 108, 111, 110, 103, 0, 115, 107, 0, 95, 95, 117, 56, 0, 117, 110, 115, 105, 103, 110, 101],
     [100, 32, 99, 104, 97, 114, 0, 115, 107, 98, 0, 115, 111, 99, 107, 101, 116, 95, 104, 97],
     [110, 100, 108, 101, 114, 0, 99, 104, 97, 114, 0, 76, 73, 67, 69, 78, 83, 69, 0, 98, 112],
     [102, 95, 102, 108, 111, 119, 95, 107, 101, 121, 115, 0, 98, 112, 102, 95, 115, 111, 99, 107],
     [0, 47, 104, 111, 109, 101, 47, 108, 111, 115, 116, 99, 97, 99, 104, 101, 47, 99, 111, 100],
     [101, 47, 104, 101, 108, 108, 111, 95, 101, 66, 80, 70, 47, 101, 120, 97, 109, 112, 108],
     [101, 115, 47, 99, 47, 115, 111, 99, 107, 102, 105, 108, 116, 101, 114, 46, 98, 112, 102],
     [46, 99, 0, 105, 110, 116, 32, 115, 111, 99, 107, 101, 116, 95, 104, 97, 110, 100, 108, 101],
     [114, 40, 115, 116, 114, 117, 99, 116, 32, 95, 95, 115, 107, 95, 98, 117, 102, 102, 32],
     [42, 115, 107, 98, 41, 0, 9, 98, 112, 102, 95, 115, 107, 98, 95, 108, 111, 97, 100, 95],
     [98, 121, 116, 101, 115, 40, 115, 107, 98, 44, 32, 49, 50, 44, 32, 38, 112, 114, 111],
     [116, 111, 44, 32, 50, 41, 59, 0, 9, 112, 114, 111, 116, 111, 32, 61, 32, 95, 95, 98],
     [112, 102, 95, 110, 116, 111, 104, 115, 40, 112, 114, 111, 116, 111, 41, 59, 0, 9, 105, 102],
     [32, 40, 112, 114, 111, 116, 111, 32, 33, 61, 32, 69, 84, 72, 95, 80, 95, 73, 80],
     [41, 0, 9, 98, 112, 102, 95, 115, 107, 98, 95, 108, 111, 97, 100, 95, 98, 121, 116, 101],
     [115, 40, 115, 107, 98, 44, 32, 110, 104, 111, 102, 102, 32, 43, 32, 111, 102, 102, 115],
     [101, 116, 111, 102, 40, 115, 116, 114, 117, 99, 116, 32, 105, 112, 104, 100, 114, 44, 32],
     [102, 114, 97, 103, 95, 111, 102, 102, 41, 44, 32, 38, 102, 114, 97, 103, 95, 111, 102],
     [102, 44, 32, 50, 41, 59, 0, 9, 102, 114, 97, 103, 95, 111, 102, 102, 32, 61, 32, 95],
     [95, 98, 112, 102, 95, 110, 116, 111, 104, 115, 40, 102, 114, 97, 103, 95, 111, 102, 102],
     [41, 59, 0, 9, 114, 101, 116, 117, 114, 110, 32, 102, 114, 97, 103, 95, 111, 102, 102, 32],
     [38, 32, 40, 73, 80, 95, 77, 70, 32, 124, 32, 73, 80, 95, 79, 70, 70, 83, 69],
     [84, 41, 59, 0, 9, 105, 102, 32, 40, 105, 112, 95, 105, 115, 95, 102, 114, 97, 103, 109],
     [101, 110, 116, 40, 115, 107, 98, 44, 32, 110, 104, 111, 102, 102, 41, 41, 0, 9, 101, 32],
     [61, 32, 98, 112, 102, 95, 114, 105, 110, 103, 98, 117, 102, 95, 114, 101, 115, 101, 114],
     [118, 101, 40, 38, 114, 98, 44, 32, 115, 105, 122, 101, 111, 102, 40, 42, 101, 41, 44],
     [32, 48, 41, 59, 0, 9, 105, 102, 32, 40, 33, 101, 41, 0, 9, 98, 112, 102, 95, 115],
     [107, 98, 95, 108, 111, 97, 100, 95, 98, 121, 116, 101, 115, 40, 115, 107, 98, 44, 32],
     [110, 104, 111, 102, 102, 32, 43, 32, 111, 102, 102, 115, 101, 116, 111, 102, 40, 115, 116],
     [114, 117, 99, 116, 32, 105, 112, 104, 100, 114, 44, 32, 112, 114, 111, 116, 111, 99, 111],
     [108, 41, 44, 32, 38, 101, 45, 62, 105, 112, 95, 112, 114, 111, 116, 111, 44, 32, 49],
     [41, 59, 0, 9, 105, 102, 32, 40, 101, 45, 62, 105, 112, 95, 112, 114, 111, 116, 111, 32],
     [33, 61, 32, 73, 80, 80, 82, 79, 84, 79, 95, 71, 82, 69, 41, 32, 123, 0, 9, 9],
     [98, 112, 102, 95, 115, 107, 98, 95, 108, 111, 97, 100, 95, 98, 121, 116, 101, 115, 40],
     [115, 107, 98, 44, 32, 110, 104, 111, 102, 102, 32, 43, 32, 111, 102, 102, 115, 101, 116],
     [111, 102, 40, 115, 116, 114, 117, 99, 116, 32, 105, 112, 104, 100, 114, 44, 32, 115, 97],
     [100, 100, 114, 41, 44, 32, 38, 40, 101, 45, 62, 115, 114, 99, 95, 97, 100, 100, 114],
     [41, 44, 32, 52, 41, 59, 0, 9, 9, 98, 112, 102, 95, 115, 107, 98, 95, 108, 111, 97],
     [100, 95, 98, 121, 116, 101, 115, 40, 115, 107, 98, 44, 32, 110, 104, 111, 102, 102, 32],
     [43, 32, 111, 102, 102, 115, 101, 116, 111, 102, 40, 115, 116, 114, 117, 99, 116, 32, 105],
     [112, 104, 100, 114, 44, 32, 100, 97, 100, 100, 114, 41, 44, 32, 38, 40, 101, 45, 62],
     [100, 115, 116, 95, 97, 100, 100, 114, 41, 44, 32, 52, 41, 59, 0, 9, 98, 112, 102, 95],
     [115, 107, 98, 95, 108, 111, 97, 100, 95, 98, 121, 116, 101, 115, 40, 115, 107, 98, 44],
     [32, 110, 104, 111, 102, 102, 32, 43, 32, 48, 44, 32, 38, 118, 101, 114, 108, 101, 110],
     [44, 32, 49, 41, 59, 0, 9, 98, 112, 102, 95, 115, 107, 98, 95, 108, 111, 97, 100, 95],
     [98, 121, 116, 101, 115, 40, 115, 107, 98, 44, 32, 110, 104, 111, 102, 102, 32, 43, 32],
     [40, 40, 118, 101, 114, 108, 101, 110, 32, 38, 32, 48, 120, 70, 41, 32, 60, 60, 32],
     [50, 41, 44, 32, 38, 40, 101, 45, 62, 112, 111, 114, 116, 115, 41, 44, 32, 52, 41],
     [59, 0, 9, 101, 45, 62, 112, 107, 116, 95, 116, 121, 112, 101, 32, 61, 32, 115, 107, 98],
     [45, 62, 112, 107, 116, 95, 116, 121, 112, 101, 59, 0, 9, 101, 45, 62, 105, 102, 105, 110],
     [100, 101, 120, 32, 61, 32, 115, 107, 98, 45, 62, 105, 102, 105, 110, 100, 101, 120, 59, 0],
     [9, 98, 112, 102, 95, 114, 105, 110, 103, 98, 117, 102, 95, 115, 117, 98, 109, 105, 116],
     [40, 101, 44, 32, 48, 41, 59, 0, 9, 114, 101, 116, 117, 114, 110, 32, 115, 107, 98, 45],
     [62, 108, 101, 110, 59, 0, 125, 0, 108, 105, 99, 101, 110, 115, 101, 0, 46, 109, 97, 112, 115],
     [0, 115, 111, 99, 107, 101, 116, 0, 0, 0, 0, 0, 0]]"

definition sockfilter_elf_8 :: "byte list" where
  "sockfilter_elf_8 =
    concat
    [[159, 235, 1, 0, 32, 0, 0, 0, 0, 0, 0, 0, 20, 0, 0],
     [0, 20, 0, 0, 0, 28, 2, 0, 0, 48, 2, 0, 0, 0, 0, 0, 0, 8, 0, 0, 0, 172, 5, 0, 0, 1, 0, 0, 0, 0],
     [0, 0, 0, 24, 0, 0, 0, 16, 0, 0, 0, 172, 5, 0, 0, 33, 0, 0, 0, 0, 0, 0, 0, 224, 1, 0, 0, 28, 2, 0],
     [0, 0, 128, 0, 0, 16, 0, 0, 0, 224, 1, 0, 0, 0, 0, 0, 0, 0, 0, 0, 0, 24, 0, 0, 0, 224, 1, 0, 0, 70],
     [2, 0, 0, 2, 156, 0, 0, 48, 0, 0, 0, 224, 1, 0, 0, 111, 2, 0, 0, 10, 160, 0, 0, 72, 0, 0, 0],
     [224, 1, 0, 0, 111, 2, 0, 0, 8, 160, 0, 0, 88, 0, 0, 0, 224, 1, 0, 0, 140, 2, 0, 0, 6, 164],
     [0, 0, 104, 0, 0, 0, 224, 1, 0, 0, 0, 0, 0, 0, 0, 0, 0, 0, 112, 0, 0, 0, 224, 1, 0, 0, 164, 2, 0, 0],
     [2, 104, 0, 0, 144, 0, 0, 0, 224, 1, 0, 0, 246, 2, 0, 0, 13, 108, 0, 0, 152, 0, 0, 0, 224, 1, 0],
     [0, 25, 3, 0, 0, 18, 112, 0, 0, 160, 0, 0, 0, 224, 1, 0, 0, 65, 3, 0, 0, 6, 176, 0, 0, 168, 0],
     [0, 0, 224, 1, 0, 0, 98, 3, 0, 0, 6, 192, 0, 0, 216, 0, 0, 0, 224, 1, 0, 0, 144, 3, 0, 0, 6],
     [196, 0, 0, 224, 0, 0, 0, 224, 1, 0, 0, 153, 3, 0, 0, 72, 208, 0, 0, 240, 0, 0, 0, 224, 1, 0, 0],
     [153, 3, 0, 0, 2, 208, 0, 0, 16, 1, 0, 0, 224, 1, 0, 0, 238, 3, 0, 0, 9, 216, 0, 0, 24],
     [1, 0, 0, 224, 1, 0, 0, 238, 3, 0, 0, 6, 216, 0, 0, 32, 1, 0, 0, 224, 1, 0, 0, 17, 4, 0],
     [0, 3, 220, 0, 0, 72, 1, 0, 0, 224, 1, 0, 0, 102, 4, 0, 0, 71, 224, 0, 0, 88, 1, 0, 0, 224],
     [1, 0, 0, 102, 4, 0, 0, 3, 224, 0, 0, 128, 1, 0, 0, 224, 1, 0, 0, 187, 4, 0, 0, 2, 236, 0],
     [0, 168, 1, 0, 0, 224, 1, 0, 0, 236, 4, 0, 0, 36, 240, 0, 0, 176, 1, 0, 0, 224, 1, 0, 0, 236],
     [4, 0, 0, 50, 240, 0, 0, 192, 1, 0, 0, 224, 1, 0, 0, 236, 4, 0, 0, 32, 240, 0, 0, 200, 1, 0],
     [0, 224, 1, 0, 0, 236, 4, 0, 0, 62, 240, 0, 0, 216, 1, 0, 0, 224, 1, 0, 0, 236, 4, 0, 0, 2],
     [240, 0, 0, 240, 1, 0, 0, 224, 1, 0, 0, 53, 5, 0, 0, 21, 244, 0, 0, 248, 1, 0, 0, 224, 1, 0],
     [0, 53, 5, 0, 0, 14, 244, 0, 0, 0, 2, 0, 0, 224, 1, 0, 0, 83, 5, 0, 0, 20, 248, 0, 0, 8],
     [2, 0, 0, 224, 1, 0, 0, 83, 5, 0, 0, 13, 248, 0, 0, 16, 2, 0, 0, 224, 1, 0, 0, 111, 5, 0],
     [0, 2, 252, 0, 0, 40, 2, 0, 0, 224, 1, 0, 0, 138, 5, 0, 0, 14, 4, 1, 0, 48, 2, 0, 0],
     [224, 1, 0, 0, 156, 5, 0, 0, 1, 8, 1, 0]]"

definition sockfilter_elf_shdrs :: "byte list list" where
  "sockfilter_elf_shdrs =
    [[0, 0, 0, 0, 0, 0, 0, 0, 0, 0, 0, 0, 0, 0, 0, 0, 0, 0, 0, 0, 0, 0, 0, 0, 0, 0, 0, 0, 0, 0, 0, 0,
      0, 0, 0, 0, 0, 0, 0, 0, 0, 0, 0, 0, 0, 0, 0, 0, 0, 0, 0, 0, 0, 0, 0, 0, 0, 0, 0, 0, 0, 0, 0, 0],
     [1, 0, 0, 0, 3, 0, 0, 0, 32, 0, 0, 0, 0, 0, 0, 0, 0, 0, 0, 0, 0, 0, 0, 0, 64, 0, 0, 0, 0, 0, 0, 0,
      120, 0, 0, 0, 0, 0, 0, 0, 0, 0, 0, 0, 0, 0, 0, 0, 1, 0, 0, 0, 0, 0, 0, 0, 0, 0, 0, 0, 0, 0, 0, 0],
     [9, 0, 0, 0, 2, 0, 0, 0, 0, 0, 0, 0, 0, 0, 0, 0, 0, 0, 0, 0, 0, 0, 0, 0, 184, 0, 0, 0, 0, 0, 0, 0,
      192, 0, 0, 0, 0, 0, 0, 0, 1, 0, 0, 0, 0, 0, 0, 0, 8, 0, 0, 0, 0, 0, 0, 0, 24, 0, 0, 0, 0, 0, 0, 0],
     [17, 0, 0, 0, 1, 0, 0, 0, 6, 0, 0, 0, 0, 0, 0, 0, 0, 0, 0, 0, 0, 0, 0, 0, 120, 1, 0, 0, 0, 0, 0, 0,
      64, 2, 0, 0, 0, 0, 0, 0, 0, 0, 0, 0, 0, 0, 0, 0, 8, 0, 0, 0, 0, 0, 0, 0, 0, 0, 0, 0, 0, 0, 0, 0],
     [24, 0, 0, 0, 1, 0, 0, 0, 3, 0, 0, 0, 0, 0, 0, 0, 0, 0, 0, 0, 0, 0, 0, 0, 184, 3, 0, 0, 0, 0, 0, 0,
      13, 0, 0, 0, 0, 0, 0, 0, 0, 0, 0, 0, 0, 0, 0, 0, 1, 0, 0, 0, 0, 0, 0, 0, 0, 0, 0, 0, 0, 0, 0, 0],
     [32, 0, 0, 0, 1, 0, 0, 0, 3, 0, 0, 0, 0, 0, 0, 0, 0, 0, 0, 0, 0, 0, 0, 0, 200, 3, 0, 0, 0, 0, 0, 0,
      16, 0, 0, 0, 0, 0, 0, 0, 0, 0, 0, 0, 0, 0, 0, 0, 8, 0, 0, 0, 0, 0, 0, 0, 0, 0, 0, 0, 0, 0, 0, 0],
     [95, 0, 0, 0, 9, 0, 0, 0, 64, 0, 0, 0, 0, 0, 0, 0, 0, 0, 0, 0, 0, 0, 0, 0, 216, 3, 0, 0, 0, 0, 0, 0,
      16, 0, 0, 0, 0, 0, 0, 0, 2, 0, 0, 0, 3, 0, 0, 0, 8, 0, 0, 0, 0, 0, 0, 0, 16, 0, 0, 0, 0, 0, 0, 0],
     [106, 0, 0, 0, 1, 0, 0, 0, 0, 0, 0, 0, 0, 0, 0, 0, 0, 0, 0, 0, 0, 0, 0, 0, 232, 3, 0, 0, 0, 0, 0, 0,
      131, 9, 0, 0, 0, 0, 0, 0, 0, 0, 0, 0, 0, 0, 0, 0, 8, 0, 0, 0, 0, 0, 0, 0, 0, 0, 0, 0, 0, 0, 0, 0],
     [111, 0, 0, 0, 1, 0, 0, 0, 0, 0, 0, 0, 0, 0, 0, 0, 0, 0, 0, 0, 0, 0, 0, 0, 112, 13, 0, 0, 0, 0, 0, 0,
      80, 2, 0, 0, 0, 0, 0, 0, 0, 0, 0, 0, 0, 0, 0, 0, 8, 0, 0, 0, 0, 0, 0, 0, 0, 0, 0, 0, 0, 0, 0, 0]]"

definition sockfilter_elf_body :: "byte list list" where
  "sockfilter_elf_body = [sockfilter_elf_1, sockfilter_elf_2, sockfilter_elf_3, sockfilter_elf_4, sockfilter_elf_5, sockfilter_elf_6, sockfilter_elf_7, sockfilter_elf_8]"

definition sockfilter_bpf__elf_bytes :: "byte list" where
  "sockfilter_bpf__elf_bytes = concat (sockfilter_elf_hdr # sockfilter_elf_body) @ concat sockfilter_elf_shdrs"

section \<open>The parts of the object\<close>

text \<open>The sizes of the pieces. The definitions stay folded: a piece is only opened where it is read.\<close>

lemma sockfilter_elf_lengths [simp]:
  "length sockfilter_elf_hdr = 64"
  "length sockfilter_elf_1 = 120"
  "length sockfilter_elf_2 = 192"
  "length sockfilter_elf_3 = 576"
  "length sockfilter_elf_4 = 16"
  "length sockfilter_elf_5 = 16"
  "length sockfilter_elf_6 = 16"
  "length sockfilter_elf_7 = 2440"
  "length sockfilter_elf_8 = 592"
  by (simp_all only: piece_length sockfilter_elf_hdr_def sockfilter_elf_1_def sockfilter_elf_2_def
    sockfilter_elf_3_def sockfilter_elf_4_def sockfilter_elf_5_def sockfilter_elf_6_def sockfilter_elf_7_def
    sockfilter_elf_8_def)

lemma sockfilter_elf_pieces: "object_pieces sockfilter_bpf__elf_bytes (sockfilter_elf_hdr # sockfilter_elf_body) sockfilter_elf_shdrs"
proof -
  have "le_at sockfilter_elf_hdr 40 8 = 4032" "le_at sockfilter_elf_hdr 60 2 = 9" "le_at sockfilter_elf_hdr 62 2 = 1"
    by (simp_all add: sockfilter_elf_hdr_def elf_eval)
  moreover have "list_all (\<lambda>h. length h = 64) sockfilter_elf_shdrs" "length sockfilter_elf_shdrs = 9"
    by (simp_all add: sockfilter_elf_shdrs_def)
  ultimately show ?thesis
    by (simp add: object_pieces_def sockfilter_bpf__elf_bytes_def sockfilter_elf_body_def)
qed

lemma sockfilter_elf_headers:
  "elf_section_at sockfilter_bpf__elf_bytes 0 = \<lparr>sec_name = 0, sec_type = 0, sec_offset = 0, sec_size = 0, sec_link = 0, sec_info = 0\<rparr>"
  "elf_section_at sockfilter_bpf__elf_bytes 1 = \<lparr>sec_name = 1, sec_type = 3, sec_offset = 64, sec_size = 120, sec_link = 0, sec_info = 0\<rparr>"
  "elf_section_at sockfilter_bpf__elf_bytes 2 = \<lparr>sec_name = 9, sec_type = 2, sec_offset = 184, sec_size = 192, sec_link = 1, sec_info = 0\<rparr>"
  "elf_section_at sockfilter_bpf__elf_bytes 3 = \<lparr>sec_name = 17, sec_type = 1, sec_offset = 376, sec_size = 576, sec_link = 0, sec_info = 0\<rparr>"
  "elf_section_at sockfilter_bpf__elf_bytes 4 = \<lparr>sec_name = 24, sec_type = 1, sec_offset = 952, sec_size = 13, sec_link = 0, sec_info = 0\<rparr>"
  "elf_section_at sockfilter_bpf__elf_bytes 5 = \<lparr>sec_name = 32, sec_type = 1, sec_offset = 968, sec_size = 16, sec_link = 0, sec_info = 0\<rparr>"
  "elf_section_at sockfilter_bpf__elf_bytes 6 = \<lparr>sec_name = 95, sec_type = 9, sec_offset = 984, sec_size = 16, sec_link = 2, sec_info = 3\<rparr>"
  "elf_section_at sockfilter_bpf__elf_bytes 7 = \<lparr>sec_name = 106, sec_type = 1, sec_offset = 1000, sec_size = 2435, sec_link = 0, sec_info = 0\<rparr>"
  "elf_section_at sockfilter_bpf__elf_bytes 8 = \<lparr>sec_name = 111, sec_type = 1, sec_offset = 3440, sec_size = 592, sec_link = 0, sec_info = 0\<rparr>"
  by (simp_all add: object_section [OF sockfilter_elf_pieces] sockfilter_elf_shdrs_def elf_section_header_def elf_eval)

lemma sockfilter_elf_flags:
  "section_flags sockfilter_bpf__elf_bytes 0 = 0"
  "section_flags sockfilter_bpf__elf_bytes 1 = 32"
  "section_flags sockfilter_bpf__elf_bytes 2 = 0"
  "section_flags sockfilter_bpf__elf_bytes 3 = 6"
  "section_flags sockfilter_bpf__elf_bytes 4 = 3"
  "section_flags sockfilter_bpf__elf_bytes 5 = 3"
  "section_flags sockfilter_bpf__elf_bytes 6 = 64"
  "section_flags sockfilter_bpf__elf_bytes 7 = 0"
  "section_flags sockfilter_bpf__elf_bytes 8 = 0"
  by (simp_all add: object_section [OF sockfilter_elf_pieces] sockfilter_elf_shdrs_def elf_eval)

lemma sockfilter_elf_contents:
  "section_bytes sockfilter_bpf__elf_bytes 0 = []"
  "section_bytes sockfilter_bpf__elf_bytes 1 = sockfilter_elf_1"
  "section_bytes sockfilter_bpf__elf_bytes 2 = sockfilter_elf_2"
  "section_bytes sockfilter_bpf__elf_bytes 3 = sockfilter_elf_3"
  "section_bytes sockfilter_bpf__elf_bytes 4 = take 13 sockfilter_elf_4"
  "section_bytes sockfilter_bpf__elf_bytes 5 = sockfilter_elf_5"
  "section_bytes sockfilter_bpf__elf_bytes 6 = sockfilter_elf_6"
  "section_bytes sockfilter_bpf__elf_bytes 7 = take 2435 sockfilter_elf_7"
  "section_bytes sockfilter_bpf__elf_bytes 8 = sockfilter_elf_8"
proof -
  show "section_bytes sockfilter_bpf__elf_bytes 0 = []"
    by (simp add: section_bytes_def sockfilter_elf_headers elf_section.defs)
  show "section_bytes sockfilter_bpf__elf_bytes 1 = sockfilter_elf_1"
    using object_section_bytes [OF sockfilter_elf_pieces sockfilter_elf_headers(2), of 1] by (simp add: sockfilter_elf_body_def)
  show "section_bytes sockfilter_bpf__elf_bytes 2 = sockfilter_elf_2"
    using object_section_bytes [OF sockfilter_elf_pieces sockfilter_elf_headers(3), of 2] by (simp add: sockfilter_elf_body_def)
  show "section_bytes sockfilter_bpf__elf_bytes 3 = sockfilter_elf_3"
    using object_section_bytes [OF sockfilter_elf_pieces sockfilter_elf_headers(4), of 3] by (simp add: sockfilter_elf_body_def)
  show "section_bytes sockfilter_bpf__elf_bytes 4 = take 13 sockfilter_elf_4"
    using object_section_bytes [OF sockfilter_elf_pieces sockfilter_elf_headers(5), of 4] by (simp add: sockfilter_elf_body_def)
  show "section_bytes sockfilter_bpf__elf_bytes 5 = sockfilter_elf_5"
    using object_section_bytes [OF sockfilter_elf_pieces sockfilter_elf_headers(6), of 5] by (simp add: sockfilter_elf_body_def)
  show "section_bytes sockfilter_bpf__elf_bytes 6 = sockfilter_elf_6"
    using object_section_bytes [OF sockfilter_elf_pieces sockfilter_elf_headers(7), of 6] by (simp add: sockfilter_elf_body_def)
  show "section_bytes sockfilter_bpf__elf_bytes 7 = take 2435 sockfilter_elf_7"
    using object_section_bytes [OF sockfilter_elf_pieces sockfilter_elf_headers(8), of 7] by (simp add: sockfilter_elf_body_def)
  show "section_bytes sockfilter_bpf__elf_bytes 8 = sockfilter_elf_8"
    using object_section_bytes [OF sockfilter_elf_pieces sockfilter_elf_headers(9), of 8] by (simp add: sockfilter_elf_body_def)
qed

lemma sockfilter_elf_names:
  "section_name sockfilter_bpf__elf_bytes 0 = ''''"
  "section_name sockfilter_bpf__elf_bytes 1 = ''.strtab''"
  "section_name sockfilter_bpf__elf_bytes 2 = ''.symtab''"
  "section_name sockfilter_bpf__elf_bytes 3 = ''socket''"
  "section_name sockfilter_bpf__elf_bytes 4 = ''license''"
  "section_name sockfilter_bpf__elf_bytes 5 = ''.maps''"
  "section_name sockfilter_bpf__elf_bytes 6 = ''.relsocket''"
  "section_name sockfilter_bpf__elf_bytes 7 = ''.BTF''"
  "section_name sockfilter_bpf__elf_bytes 8 = ''.BTF.ext''"
  by (simp_all only: object_section_name [OF sockfilter_elf_pieces sockfilter_elf_contents(2)] sockfilter_elf_headers elf_section.simps)
    (simp_all add: elf_eval sockfilter_elf_1_def)

lemma sockfilter_elf_sections:
  "elf_sections sockfilter_bpf__elf_bytes =
    [\<lparr>es_name = '''', es_type = 0, es_flags = 0, es_link = 0, es_info = 0, es_size = 0,
      es_bytes = []\<rparr>,
     \<lparr>es_name = ''.strtab'', es_type = 3, es_flags = 32, es_link = 0, es_info = 0, es_size = 120,
      es_bytes = sockfilter_elf_1\<rparr>,
     \<lparr>es_name = ''.symtab'', es_type = 2, es_flags = 0, es_link = 1, es_info = 0, es_size = 192,
      es_bytes = sockfilter_elf_2\<rparr>,
     \<lparr>es_name = ''socket'', es_type = 1, es_flags = 6, es_link = 0, es_info = 0, es_size = 576,
      es_bytes = sockfilter_elf_3\<rparr>,
     \<lparr>es_name = ''license'', es_type = 1, es_flags = 3, es_link = 0, es_info = 0, es_size = 13,
      es_bytes = take 13 sockfilter_elf_4\<rparr>,
     \<lparr>es_name = ''.maps'', es_type = 1, es_flags = 3, es_link = 0, es_info = 0, es_size = 16,
      es_bytes = sockfilter_elf_5\<rparr>,
     \<lparr>es_name = ''.relsocket'', es_type = 9, es_flags = 64, es_link = 2, es_info = 3, es_size = 16,
      es_bytes = sockfilter_elf_6\<rparr>,
     \<lparr>es_name = ''.BTF'', es_type = 1, es_flags = 0, es_link = 0, es_info = 0, es_size = 2435,
      es_bytes = take 2435 sockfilter_elf_7\<rparr>,
     \<lparr>es_name = ''.BTF.ext'', es_type = 1, es_flags = 0, es_link = 0, es_info = 0, es_size = 592,
      es_bytes = sockfilter_elf_8\<rparr>]"
proof -
  have "le_at sockfilter_bpf__elf_bytes 60 2 = 9"
    using object_piecesD(4) [OF sockfilter_elf_pieces] by (simp add: sockfilter_elf_shdrs_def)
  moreover have "[0..<9] = [0, 1, 2, 3, 4, 5, 6, 7, 8]"
    by (simp add: upt_rec)
  ultimately show ?thesis
    by (simp only: elf_sections_def list.map read_section_def Let_def sockfilter_elf_headers sockfilter_elf_flags sockfilter_elf_contents
        sockfilter_elf_names elf_section.simps)
qed

lemma sockfilter_elf_symtab_rows:
  "sockfilter_elf_2 =
    concat
     [[0, 0, 0, 0, 0, 0, 0, 0, 0, 0, 0, 0, 0, 0, 0, 0, 0, 0, 0, 0, 0, 0, 0, 0],
      [38, 0, 0, 0, 4, 0, 241, 255, 0, 0, 0, 0, 0, 0, 0, 0, 0, 0, 0, 0, 0, 0, 0, 0],
      [0, 0, 0, 0, 3, 0, 3, 0, 0, 0, 0, 0, 0, 0, 0, 0, 0, 0, 0, 0, 0, 0, 0, 0],
      [55, 0, 0, 0, 0, 0, 3, 0, 48, 2, 0, 0, 0, 0, 0, 0, 0, 0, 0, 0, 0, 0, 0, 0],
      [62, 0, 0, 0, 0, 0, 3, 0, 120, 1, 0, 0, 0, 0, 0, 0, 0, 0, 0, 0, 0, 0, 0, 0],
      [69, 0, 0, 0, 18, 0, 3, 0, 0, 0, 0, 0, 0, 0, 0, 0, 64, 2, 0, 0, 0, 0, 0, 0],
      [84, 0, 0, 0, 17, 0, 5, 0, 0, 0, 0, 0, 0, 0, 0, 0, 16, 0, 0, 0, 0, 0, 0, 0],
      [87, 0, 0, 0, 17, 0, 4, 0, 0, 0, 0, 0, 0, 0, 0, 0, 13, 0, 0, 0, 0, 0, 0, 0]]"
  by (simp add: sockfilter_elf_2_def)

lemma sockfilter_elf_symbols:
  "elf_symbols sockfilter_bpf__elf_bytes =
    [\<lparr>sym_name = '''', sym_info = 0, sym_shndx = 0, sym_value = 0, sym_size = 0\<rparr>,
     \<lparr>sym_name = ''sockfilter.bpf.c'', sym_info = 4, sym_shndx = 65521, sym_value = 0, sym_size = 0\<rparr>,
     \<lparr>sym_name = '''', sym_info = 3, sym_shndx = 3, sym_value = 0, sym_size = 0\<rparr>,
     \<lparr>sym_name = ''LBB0_6'', sym_info = 0, sym_shndx = 3, sym_value = 560, sym_size = 0\<rparr>,
     \<lparr>sym_name = ''LBB0_5'', sym_info = 0, sym_shndx = 3, sym_value = 376, sym_size = 0\<rparr>,
     \<lparr>sym_name = ''socket_handler'', sym_info = 18, sym_shndx = 3, sym_value = 0, sym_size = 576\<rparr>,
     \<lparr>sym_name = ''rb'', sym_info = 17, sym_shndx = 5, sym_value = 0, sym_size = 16\<rparr>,
     \<lparr>sym_name = ''LICENSE'', sym_info = 17, sym_shndx = 4, sym_value = 0, sym_size = 13\<rparr>]"
  by (simp add: elf_symbols_def sockfilter_elf_sections Let_def read_symbol_rows [OF sockfilter_elf_symtab_rows] del: upt_rec_numeral)
    (simp add: read_symbol_def elf_eval sockfilter_elf_1_def)

lemma sockfilter_elf_programs:
  "elf_programs sockfilter_bpf__elf_bytes =
    [(''socket'', decode_program sockfilter_elf_3)]"
  by (simp add: elf_programs_def sockfilter_elf_sections is_program_def bit_numeral_rec bit_0)

end
