(* ===== verification/Obj_Task_Iter.thy ===== *)
theory Obj_Task_Iter
  imports Elf
begin

text \<open>
  The object file embedded in examples/c/.output/task_iter.skel.h as a string literal: one list of bytes per line of the
  literal, cut at the borders of the sections; then its section table, its symbols and its programs.
\<close>

section \<open>The literal\<close>

definition task_iter_elf_hdr :: "byte list" where
  "task_iter_elf_hdr =
    concat
    [[127, 69, 76, 70, 2, 1, 1, 0, 0, 0, 0, 0, 0, 0, 0, 0, 1, 0, 247, 0, 1, 0, 0, 0, 0, 0, 0, 0, 0],
     [0, 0, 0, 0, 0, 0, 0, 0, 0, 0, 0, 24, 96, 0, 0, 0, 0, 0, 0, 0, 0, 0, 0, 64, 0, 0, 0, 0, 0, 64, 0, 10, 0],
     [1, 0]]"

definition task_iter_elf_1 :: "byte list" where
  "task_iter_elf_1 =
    concat
    [[0, 46, 115, 116, 114, 116, 97, 98, 0, 46, 115, 121, 109, 116, 97, 98, 0, 105, 116],
     [101, 114, 47, 116, 97, 115, 107, 0, 108, 105, 99, 101, 110, 115, 101, 0, 46, 109, 97, 112],
     [115, 0, 46, 98, 115, 115, 0, 116, 97, 115, 107, 95, 105, 116, 101, 114, 46, 98, 112, 102],
     [46, 99, 0, 76, 66, 66, 48, 95, 56, 0, 122, 101, 114, 111, 0, 76, 66, 66, 48, 95, 52],
     [0, 76, 66, 66, 48, 95, 53, 0, 76, 66, 66, 48, 95, 55, 0, 103, 101, 116, 95, 116, 97],
     [115, 107, 115, 0, 116, 97, 115, 107, 95, 105, 110, 102, 111, 95, 98, 117, 102, 0, 76, 73],
     [67, 69, 78, 83, 69, 0, 46, 114, 101, 108, 105, 116, 101, 114, 47, 116, 97, 115, 107, 0],
     [46, 66, 84, 70, 0, 46, 66, 84, 70, 46, 101, 120, 116, 0, 0, 0, 0, 0, 0]]"

definition task_iter_elf_2 :: "byte list" where
  "task_iter_elf_2 =
    concat
    [[0, 0, 0, 0, 0, 0, 0, 0],
     [0, 0, 0, 0, 0, 0, 0, 0, 0, 0, 0, 0, 0, 0, 0, 0, 46, 0, 0, 0, 4, 0, 241, 255, 0, 0, 0, 0, 0, 0, 0, 0, 0, 0, 0],
     [0, 0, 0, 0, 0, 0, 0, 0, 0, 3, 0, 3, 0, 0, 0, 0, 0, 0, 0, 0, 0, 0, 0, 0, 0, 0, 0, 0, 0, 62, 0, 0, 0, 0, 0],
     [3, 0, 88, 1, 0, 0, 0, 0, 0, 0, 0, 0, 0, 0, 0, 0, 0, 0, 69, 0, 0, 0, 1, 0, 6, 0, 0, 0, 0, 0, 0, 0, 0],
     [0, 4, 0, 0, 0, 0, 0, 0, 0, 74, 0, 0, 0, 0, 0, 3, 0, 152, 0, 0, 0, 0, 0, 0, 0, 0, 0, 0, 0, 0, 0, 0, 0, 81],
     [0, 0, 0, 0, 0, 3, 0, 160, 0, 0, 0, 0, 0, 0, 0, 0, 0, 0, 0, 0, 0, 0, 0, 88, 0, 0, 0, 0, 0, 3, 0, 48, 1],
     [0, 0, 0, 0, 0, 0, 0, 0, 0, 0, 0, 0, 0, 0, 0, 0, 0, 0, 3, 0, 6, 0, 0, 0, 0, 0, 0, 0, 0, 0, 0, 0, 0, 0, 0, 0, 0],
     [0, 95, 0, 0, 0, 18, 0, 3, 0, 0, 0, 0, 0, 0, 0, 0, 0, 104, 1, 0, 0, 0, 0, 0, 0, 105, 0, 0, 0, 17, 0],
     [5, 0, 0, 0, 0, 0, 0, 0, 0, 0, 32, 0, 0, 0, 0, 0, 0, 0, 119, 0, 0, 0, 17, 0, 4, 0, 0, 0, 0, 0, 0, 0, 0, 0],
     [13, 0, 0, 0, 0, 0, 0, 0]]"

definition task_iter_elf_3 :: "byte list" where
  "task_iter_elf_3 =
    concat
    [[121, 18, 0, 0, 0, 0, 0, 0, 121, 38, 0, 0, 0, 0, 0, 0, 121, 24, 8, 0, 0, 0, 0],
     [0, 21, 8, 39, 0, 0, 0, 0, 0, 24, 1, 0, 0, 0, 0, 0, 0, 0, 0, 0, 0, 0, 0, 0, 0, 24, 2, 0, 0, 0, 0, 0],
     [0, 0, 0, 0, 0, 0, 0, 0, 0, 133, 0, 0, 0, 1, 0, 0, 0, 21, 0, 33, 0, 0, 0, 0, 0, 191, 7, 0, 0, 0, 0, 0, 0],
     [97, 129, 60, 4, 0, 0, 0, 0, 99, 23, 0, 0, 0, 0, 0, 0, 97, 129, 56, 4, 0, 0, 0, 0, 99, 23],
     [4, 0, 0, 0, 0, 0, 183, 1, 0, 0, 1, 0, 0, 0, 21, 1, 2, 0, 0, 0, 0, 0, 121, 129, 0, 0, 0, 0, 0, 0],
     [5, 0, 1, 0, 0, 0, 0, 0, 97, 129, 0, 0, 0, 0, 0, 0, 99, 23, 8, 0, 0, 0, 0, 0, 183, 1, 0, 0, 136],
     [5, 0, 0, 191, 131, 0, 0, 0, 0, 0, 0, 15, 19, 0, 0, 0, 0, 0, 0, 191, 1, 0, 0, 0, 0, 0, 0, 7, 1, 0],
     [0, 12, 0, 0, 0, 183, 2, 0, 0, 16, 0, 0, 0, 191, 9, 0, 0, 0, 0, 0, 0, 133, 0, 0, 0, 115, 0, 0, 0, 7],
     [9, 0, 0, 32, 0, 0, 0, 191, 129, 0, 0, 0, 0, 0, 0, 191, 146, 0, 0, 0, 0, 0, 0, 183, 3, 0, 0, 248, 3],
     [0, 0, 183, 4, 0, 0, 0, 0, 0, 0, 133, 0, 0, 0, 141, 0, 0, 0, 183, 1, 0, 0, 1, 0, 0, 0, 109, 1, 1],
     [0, 0, 0, 0, 0, 119, 0, 0, 0, 3, 0, 0, 0, 99, 7, 28, 0, 0, 0, 0, 0, 191, 97, 0, 0, 0, 0, 0, 0, 191],
     [114, 0, 0, 0, 0, 0, 0, 183, 3, 0, 0, 24, 4, 0, 0, 133, 0, 0, 0, 127, 0, 0, 0, 183, 0, 0, 0, 0, 0, 0, 0],
     [149, 0, 0, 0, 0, 0, 0, 0]]"

definition task_iter_elf_4 :: "byte list" where
  "task_iter_elf_4 =
    concat
    [[68, 117, 97, 108, 32, 66, 83, 68, 47, 71, 80, 76, 0, 0, 0, 0]]"

definition task_iter_elf_5 :: "byte list" where
  "task_iter_elf_5 =
    concat
    [[0, 0],
     [0, 0, 0, 0, 0, 0, 0, 0, 0, 0, 0, 0, 0, 0, 0, 0, 0, 0, 0, 0, 0, 0, 0, 0, 0, 0, 0, 0, 0, 0]]"

definition task_iter_elf_7 :: "byte list" where
  "task_iter_elf_7 =
    concat
    [[32, 0, 0, 0, 0, 0, 0, 0],
     [1, 0, 0, 0, 10, 0, 0, 0, 48, 0, 0, 0, 0, 0, 0, 0, 1, 0, 0, 0, 8, 0, 0, 0]]"

definition task_iter_elf_8_a :: "byte list" where
  "task_iter_elf_8_a =
    concat
    [[159, 235, 1, 0, 24, 0],
     [0, 0, 0, 0, 0, 0, 128, 53, 0, 0, 128, 53, 0, 0, 114, 36, 0, 0, 0, 0, 0, 0, 0, 0, 0, 2, 3, 0, 0, 0],
     [1, 0, 0, 0, 0, 0, 0, 1, 4, 0, 0, 0, 32, 0, 0, 1, 0, 0, 0, 0, 0, 0, 0, 3, 0, 0, 0, 0, 2, 0, 0, 0],
     [4, 0, 0, 0, 6, 0, 0, 0, 5, 0, 0, 0, 0, 0, 0, 1, 4, 0, 0, 0, 32, 0, 0, 0, 0, 0, 0, 0, 0, 0, 0, 2],
     [6, 0, 0, 0, 0, 0, 0, 0, 0, 0, 0, 3, 0, 0, 0, 0, 2, 0, 0, 0, 4, 0, 0, 0, 1, 0, 0, 0, 0, 0, 0, 0, 0, 0],
     [0, 2, 8, 0, 0, 0, 25, 0, 0, 0, 0, 0, 0, 8, 9, 0, 0, 0, 31, 0, 0, 0, 0, 0, 0, 1, 4, 0, 0, 0],
     [32, 0, 0, 0, 0, 0, 0, 0, 0, 0, 0, 2, 11, 0, 0, 0, 44, 0, 0, 0, 6, 0, 0, 4, 24, 4, 0, 0, 54, 0],
     [0, 0, 12, 0, 0, 0, 0, 0, 0, 0, 58, 0, 0, 0, 12, 0, 0, 0, 32, 0, 0, 0, 62, 0, 0, 0, 8, 0, 0, 0, 64, 0],
     [0, 0, 68, 0, 0, 0, 15, 0, 0, 0, 96, 0, 0, 0, 73, 0, 0, 0, 2, 0, 0, 0, 224, 0, 0, 0, 84, 0, 0, 0, 18],
     [0, 0, 0, 0, 1, 0, 0, 91, 0, 0, 0, 0, 0, 0, 8, 13, 0, 0, 0, 97, 0, 0, 0, 0, 0, 0, 8, 2, 0, 0, 0],
     [112, 0, 0, 0, 0, 0, 0, 1, 1, 0, 0, 0, 8, 0, 0, 1, 0, 0, 0, 0, 0, 0, 0, 3, 0, 0, 0, 0, 14, 0, 0, 0],
     [4, 0, 0, 0, 16, 0, 0, 0, 117, 0, 0, 0, 0, 0, 0, 8, 17, 0, 0, 0, 123, 0, 0, 0, 0, 0, 0, 1, 8, 0, 0],
     [0, 64, 0, 0, 0, 0, 0, 0, 0, 0, 0, 0, 3, 0, 0, 0, 0, 16, 0, 0, 0, 4, 0, 0, 0, 127, 0, 0, 0, 0, 0, 0, 0],
     [4, 0, 0, 4, 32, 0, 0, 0, 142, 0, 0, 0, 1, 0, 0, 0, 0, 0, 0, 0, 147, 0, 0, 0, 5, 0, 0, 0, 64, 0, 0],
     [0, 159, 0, 0, 0, 7, 0, 0, 0, 128, 0, 0, 0, 163, 0, 0, 0, 10, 0, 0, 0, 192, 0, 0, 0, 169, 0, 0, 0, 0, 0, 0],
     [14, 19, 0, 0, 0, 1, 0, 0, 0, 0, 0, 0, 0, 0, 0, 0, 2, 22, 0, 0, 0, 183, 0, 0, 0, 2, 0, 0, 4, 16],
     [0, 0, 0, 0, 0, 0, 0, 23, 0, 0, 0, 0, 0, 0, 0, 0, 0, 0, 0, 25, 0, 0, 0, 64, 0, 0, 0, 0, 0, 0, 0, 1, 0, 0],
     [5, 8, 0, 0, 0, 198, 0, 0, 0, 24, 0, 0, 0, 0, 0, 0, 0, 0, 0, 0, 0, 0, 0, 0, 2, 29, 0, 0, 0, 0, 0, 0, 0],
     [1, 0, 0, 5, 8, 0, 0, 0, 203, 0, 0, 0, 26, 0, 0, 0, 0, 0, 0, 0, 0, 0, 0, 0, 0, 0, 0, 2, 33, 0, 0, 0],
     [0, 0, 0, 0, 1, 0, 0, 13, 2, 0, 0, 0, 208, 0, 0, 0, 21, 0, 0, 0, 212, 0, 0, 0, 1, 0, 0, 12, 27, 0],
     [0, 0, 222, 0, 0, 0, 3, 0, 0, 4, 24, 0, 0, 0, 0, 0, 0, 0, 30, 0, 0, 0, 0, 0, 0, 0, 236, 0, 0, 0, 32, 0],
     [0, 0, 64, 0, 0, 0, 247, 0, 0, 0, 32, 0, 0, 0, 128, 0, 0, 0, 0, 0, 0, 0, 1, 0, 0, 5, 8, 0, 0, 0, 255],
     [0, 0, 0, 31, 0, 0, 0, 0, 0, 0, 0, 0, 0, 0, 0, 0, 0, 0, 2, 61, 1, 0, 0, 3, 1, 0, 0, 0, 0, 0, 8],
     [16, 0, 0, 0, 7, 1, 0, 0, 159, 0, 0, 132, 0, 14, 0, 0, 19, 1, 0, 0, 34, 0, 0, 0, 0, 0, 0, 0, 31],
     [1, 0, 0, 9, 0, 0, 0, 192, 0, 0, 0, 39, 1, 0, 0, 9, 0, 0, 0, 224, 0, 0, 0, 51, 1, 0, 0, 39, 0],
     [0, 0, 0, 1, 0, 0, 57, 1, 0, 0, 40, 0, 0, 0, 64, 1, 0, 0, 63, 1, 0, 0, 9, 0, 0, 0, 96, 1],
     [0, 0, 69, 1, 0, 0, 9, 0, 0, 0, 128, 1, 0, 0, 76, 1, 0, 0, 2, 0, 0, 0, 160, 1, 0, 0, 83],
     [1, 0, 0, 44, 0, 0, 0, 192, 1, 0, 0, 94, 1, 0, 0, 9, 0, 0, 0, 64, 2, 0, 0, 106, 1, 0, 0],
     [35, 0, 0, 0, 128, 2, 0, 0, 126, 1, 0, 0, 26, 0, 0, 0, 192, 2, 0, 0, 137, 1, 0, 0, 2, 0, 0, 0],
     [0, 3, 0, 0, 153, 1, 0, 0, 2, 0, 0, 0, 32, 3, 0, 0, 162, 1, 0, 0, 2, 0, 0, 0, 64, 3, 0, 0],
     [168, 1, 0, 0, 2, 0, 0, 0, 96, 3, 0, 0, 173, 1, 0, 0, 2, 0, 0, 0, 128, 3, 0, 0, 185, 1, 0],
     [0, 2, 0, 0, 0, 160, 3, 0, 0, 197, 1, 0, 0, 9, 0, 0, 0, 192, 3, 0, 0, 209, 1, 0, 0, 51, 0, 0],
     [0, 0, 4, 0, 0, 212, 1, 0, 0, 63, 0, 0, 0, 0, 12, 0, 0, 215, 1, 0, 0, 65, 0, 0, 0, 128, 13, 0, 0],
     [218, 1, 0, 0, 80, 0, 0, 0, 192, 20, 0, 0, 228, 1, 0, 0, 81, 0, 0, 0, 0, 21, 0, 0, 240, 1, 0, 0],
     [83, 0, 0, 0, 0, 22, 0, 0, 246, 1, 0, 0, 9, 0, 0, 0, 0, 22, 0, 0, 253, 1, 0, 0, 35, 0, 0, 0, 64],
     [22, 0, 0, 18, 2, 0, 0, 2, 0, 0, 0, 128, 22, 0, 0, 34, 2, 0, 0, 84, 0, 0, 0, 192, 22, 0, 0],
     [43, 2, 0, 0, 87, 0, 0, 0, 0, 23, 0, 0, 57, 2, 0, 0, 86, 0, 0, 0, 64, 23, 0, 0, 67, 2, 0, 0],
     [39, 0, 0, 0, 64, 25, 0, 0, 85, 2, 0, 0, 50, 0, 0, 0, 128, 25, 0, 0, 104, 2, 0, 0, 50, 0, 0, 0],
     [144, 25, 0, 0, 120, 2, 0, 0, 2, 0, 0, 0, 160, 25, 0, 0, 139, 2, 0, 0, 2, 0, 0, 0, 192, 25, 0],
     [0, 154, 2, 0, 0, 90, 0, 0, 0, 224, 25, 0, 0, 173, 2, 0, 0, 55, 0, 0, 0, 0, 26, 0, 0, 190, 2, 0],
     [0, 55, 0, 0, 0, 128, 26, 0, 0, 204, 2, 0, 0, 2, 0, 0, 0, 0, 27, 0, 0, 217, 2, 0, 0, 92, 0, 0, 0],
     [32, 27, 0, 0, 228, 2, 0, 0, 55, 0, 0, 0, 64, 27, 0, 0, 234, 2, 0, 0, 93, 0, 0, 0, 192, 27, 0],
     [0, 249, 2, 0, 0, 53, 0, 0, 0, 0, 29, 0, 0, 11, 3, 0, 0, 94, 0, 0, 0, 192, 29, 0, 0, 14, 3, 0],
     [0, 94, 0, 0, 0, 0, 30, 0, 0, 24, 3, 0, 0, 95, 0, 0, 0, 64, 30, 0, 0, 48, 3, 0, 0, 2, 0, 0, 0],
     [128, 30, 0, 0, 59, 3, 0, 0, 2, 0, 0, 0, 160, 30, 0, 0, 69, 3, 0, 0, 2, 0, 0, 0, 192, 30, 0],
     [0, 81, 3, 0, 0, 2, 0, 0, 0, 224, 30, 0, 0, 95, 3, 0, 0, 35, 0, 0, 0, 0, 31, 0, 0, 102, 3, 0],
     [0, 9, 0, 0, 0, 64, 31, 0, 0, 114, 3, 0, 0, 9, 0, 0, 0, 96, 31, 0, 1, 134, 3, 0, 0, 9, 0],
     [0, 0, 97, 31, 0, 1, 160, 3, 0, 0, 9, 0, 0, 0, 98, 31, 0, 1, 175, 3, 0, 0, 9, 0, 0, 0],
     [99, 31, 0, 1, 190, 3, 0, 0, 9, 0, 0, 0, 128, 31, 0, 1, 210, 3, 0, 0, 9, 0, 0, 0, 129],
     [31, 0, 1, 220, 3, 0, 0, 9, 0, 0, 0, 130, 31, 0, 1, 230, 3, 0, 0, 9, 0, 0, 0, 131, 31, 0],
     [1, 246, 3, 0, 0, 35, 0, 0, 0, 192, 31, 0, 0, 3, 4, 0, 0, 96, 0, 0, 0, 0, 32, 0, 0, 54, 0, 0],
     [0, 12, 0, 0, 0, 192, 33, 0, 0, 17, 4, 0, 0, 12, 0, 0, 0, 224, 33, 0, 0, 22, 4, 0, 0, 26, 0, 0],
     [0, 0, 34, 0, 0, 34, 4, 0, 0, 26, 0, 0, 0, 64, 34, 0, 0, 41, 4, 0, 0, 55, 0, 0, 0, 128, 34, 0],
     [0, 50, 4, 0, 0, 55, 0, 0, 0, 0, 35, 0, 0, 58, 4, 0, 0, 26, 0, 0, 0, 128, 35, 0, 0, 71, 4, 0],
     [0, 55, 0, 0, 0, 192, 35, 0, 0, 79, 4, 0, 0, 55, 0, 0, 0, 64, 36, 0, 0, 92, 4, 0, 0, 113, 0, 0],
     [0, 192, 36, 0, 0, 103, 4, 0, 0, 117, 0, 0, 0, 0, 37, 0, 0, 113, 4, 0, 0, 55, 0, 0, 0, 0, 39, 0, 0],
     [125, 4, 0, 0, 118, 0, 0, 0, 128, 39, 0, 0, 136, 4, 0, 0, 119, 0, 0, 0, 192, 39, 0, 0, 150, 4, 0],
     [0, 119, 0, 0, 0, 0, 40, 0, 0, 166, 4, 0, 0, 39, 0, 0, 0, 64, 40, 0, 0, 181, 4, 0, 0, 32, 0, 0, 0],
     [128, 40, 0, 0, 187, 4, 0, 0, 32, 0, 0, 0, 192, 40, 0, 0, 193, 4, 0, 0, 32, 0, 0, 0, 0, 41, 0, 0],
     [199, 4, 0, 0, 120, 0, 0, 0, 64, 41, 0, 0, 212, 4, 0, 0, 35, 0, 0, 0, 0, 42, 0, 0, 218, 4, 0, 0],
     [35, 0, 0, 0, 64, 42, 0, 0, 225, 4, 0, 0, 32, 0, 0, 0, 128, 42, 0, 0, 236, 4, 0, 0, 32, 0, 0, 0],
     [192, 42, 0, 0, 251, 4, 0, 0, 35, 0, 0, 0, 0, 43, 0, 0, 3, 5, 0, 0, 35, 0, 0, 0, 64, 43, 0, 0],
     [11, 5, 0, 0, 128, 0, 0, 0, 128, 43, 0, 0, 27, 5, 0, 0, 129, 0, 0, 0, 128, 43, 0, 0, 40, 5, 0],
     [0, 129, 0, 0, 0, 192, 43, 0, 0, 50, 5, 0, 0, 129, 0, 0, 0, 0, 44, 0, 0, 68, 0, 0, 0, 15, 0, 0, 0],
     [64, 44, 0, 0, 55, 5, 0, 0, 154, 0, 0, 0, 192, 44, 0, 0, 65, 5, 0, 0, 155, 0, 0, 0, 0, 45, 0, 0],
     [68, 5, 0, 0, 156, 0, 0, 0, 64, 45, 0, 0, 74, 5, 0, 0, 157, 0, 0, 0, 128, 45, 0, 0, 82, 5, 0],
     [0, 158, 0, 0, 0, 192, 45, 0, 0, 89, 5, 0, 0, 159, 0, 0, 0, 0, 46, 0, 0, 97, 5, 0, 0, 160, 0, 0, 0],
     [64, 46, 0, 0, 105, 5, 0, 0, 160, 0, 0, 0, 128, 46, 0, 0, 118, 5, 0, 0, 160, 0, 0, 0, 192, 46, 0],
     [0, 132, 5, 0, 0, 163, 0, 0, 0, 0, 47, 0, 0, 140, 5, 0, 0, 35, 0, 0, 0, 192, 47, 0, 0, 150, 5, 0],
     [0, 164, 0, 0, 0, 0, 48, 0, 0, 162, 5, 0, 0, 9, 0, 0, 0, 64, 48, 0, 0, 175, 5, 0, 0, 151, 0, 0, 0],
     [128, 48, 0, 0, 186, 5, 0, 0, 167, 0, 0, 0, 192, 48, 0, 0, 194, 5, 0, 0, 168, 0, 0, 0, 192, 48, 0],
     [0, 211, 5, 0, 0, 32, 0, 0, 0, 192, 48, 0, 0, 226, 5, 0, 0, 32, 0, 0, 0, 0, 49, 0, 0, 239, 5, 0],
     [0, 169, 0, 0, 0, 64, 49, 0, 0, 250, 5, 0, 0, 121, 0, 0, 0, 96, 49, 0, 0, 2, 6, 0, 0, 172, 0, 0],
     [0, 128, 49, 0, 0, 9, 6, 0, 0, 174, 0, 0, 0, 192, 49, 0, 0, 20, 6, 0, 0, 39, 0, 0, 0, 0, 50, 0],
     [0, 33, 6, 0, 0, 175, 0, 0, 0, 64, 50, 0, 0, 42, 6, 0, 0, 176, 0, 0, 0, 128, 50, 0, 0, 47, 6],
     [0, 0, 177, 0, 0, 0, 192, 50, 0, 0, 61, 6, 0, 0, 178, 0, 0, 0, 0, 51, 0, 0, 72, 6, 0, 0, 35, 0, 0],
     [0, 64, 51, 0, 0, 87, 6, 0, 0, 179, 0, 0, 0, 128, 51, 0, 0, 100, 6, 0, 0, 181, 0, 0, 0, 192, 51],
     [0, 0, 105, 6, 0, 0, 182, 0, 0, 0, 192, 51, 0, 0, 120, 6, 0, 0, 183, 0, 0, 0, 0, 52, 0, 0, 136, 6],
     [0, 0, 184, 0, 0, 0, 64, 52, 0, 0, 153, 6, 0, 0, 55, 0, 0, 0, 64, 53, 0, 0, 169, 6, 0, 0, 186, 0],
     [0, 0, 192, 53, 0, 0, 183, 6, 0, 0, 187, 0, 0, 0, 0, 54, 0, 0, 191, 6, 0, 0, 191, 0, 0, 0, 64, 54],
     [0, 0, 203, 6, 0, 0, 192, 0, 0, 0, 128, 54, 0, 0, 213, 6, 0, 0, 2, 0, 0, 0, 0, 55, 0, 0, 224, 6],
     [0, 0, 2, 0, 0, 0, 32, 55, 0, 0, 241, 6, 0, 0, 35, 0, 0, 0, 64, 55, 0, 0, 3, 7, 0, 0, 32, 0],
     [0, 0, 128, 55, 0, 0, 18, 7, 0, 0, 32, 0, 0, 0, 192, 55, 0, 0, 41, 7, 0, 0, 2, 0, 0, 0, 0, 56],
     [0, 0, 56, 7, 0, 0, 2, 0, 0, 0, 32, 56, 0, 0, 71, 7, 0, 0, 194, 0, 0, 0, 64, 56, 0, 0, 81],
     [7, 0, 0, 17, 0, 0, 0, 128, 56, 0, 0, 98, 7, 0, 0, 17, 0, 0, 0, 192, 56, 0, 0, 115, 7, 0, 0],
     [42, 0, 0, 0, 0, 57, 0, 0, 129, 7, 0, 0, 42, 0, 0, 0, 32, 57, 0, 0, 149, 7, 0, 0, 35, 0, 0, 0],
     [64, 57, 0, 0, 165, 7, 0, 0, 195, 0, 0, 0, 128, 57, 0, 0, 171, 7, 0, 0, 196, 0, 0, 0, 192, 57, 0],
     [0, 181, 7, 0, 0, 150, 0, 0, 0, 192, 57, 0, 0, 185, 7, 0, 0, 40, 0, 0, 0, 64, 58, 0, 0, 195, 7],
     [0, 0, 2, 0, 0, 0, 96, 58, 0, 0, 214, 7, 0, 0, 26, 0, 0, 0, 128, 58, 0, 0, 230, 7, 0, 0, 197, 0],
     [0, 0, 192, 58, 0, 0, 247, 7, 0, 0, 201, 0, 0, 0, 0, 60, 0, 0, 5, 8, 0, 0, 40, 0, 0, 0, 64, 60],
     [0, 0, 20, 8, 0, 0, 202, 0, 0, 0, 128, 60, 0, 0, 32, 8, 0, 0, 203, 0, 0, 0, 192, 60, 0, 0, 40],
     [8, 0, 0, 204, 0, 0, 0, 0, 61, 0, 0, 56, 8, 0, 0, 205, 0, 0, 0, 64, 61, 0, 0, 76, 8, 0, 0, 206],
     [0, 0, 0, 128, 61, 0, 0, 19, 1, 0, 0, 3, 0, 0, 4, 24, 0, 0, 0, 63, 1, 0, 0, 35, 0, 0, 0, 0, 0],
     [0, 0, 0, 0, 0, 0, 36, 0, 0, 0, 64, 0, 0, 0, 83, 8, 0, 0, 38, 0, 0, 0, 128, 0, 0, 0, 87, 8, 0, 0, 0],
     [0, 0, 1, 8, 0, 0, 0, 64, 0, 0, 0, 0, 0, 0, 0, 2, 0, 0, 5, 8, 0, 0, 0, 101, 8, 0, 0, 32, 0, 0],
     [0, 0, 0, 0, 0, 115, 8, 0, 0, 37, 0, 0, 0, 0, 0, 0, 0, 0, 0, 0, 0, 2, 0, 0, 4, 8, 0, 0, 0, 123, 8],
     [0, 0, 38, 0, 0, 0, 0, 0, 0, 0, 129, 8, 0, 0, 38, 0, 0, 0, 32, 0, 0, 0, 142, 8, 0, 0, 0, 0, 0, 8],
     [8, 0, 0, 0, 0, 0, 0, 0, 0, 0, 0, 2, 0, 0, 0, 0, 146, 8, 0, 0, 0, 0, 0, 8, 41, 0, 0, 0, 157, 8, 0],
     [0, 1, 0, 0, 4, 4, 0, 0, 0, 173, 8, 0, 0, 42, 0, 0, 0, 0, 0, 0, 0, 178, 8, 0, 0, 0, 0, 0, 8],
     [43, 0, 0, 0, 0, 0, 0, 0, 1, 0, 0, 4, 4, 0, 0, 0, 187, 8, 0, 0, 2, 0, 0, 0, 0, 0, 0, 0, 195, 8],
     [0, 0, 4, 0, 0, 4, 16, 0, 0, 0, 214, 8, 0, 0, 45, 0, 0, 0, 0, 0, 0, 0, 0, 0, 0, 0, 47, 0, 0, 0, 64],
     [0, 0, 0, 220, 8, 0, 0, 48, 0, 0, 0, 96, 0, 0, 0, 224, 8, 0, 0, 48, 0, 0, 0, 112, 0, 0, 0, 228, 8],
     [0, 0, 1, 0, 0, 4, 8, 0, 0, 0, 239, 8, 0, 0, 46, 0, 0, 0, 0, 0, 0, 0, 0, 0, 0, 0, 0, 0, 0, 2, 45],
     [0, 0, 0, 0, 0, 0, 0, 2, 0, 0, 5, 4, 0, 0, 0, 244, 8, 0, 0, 9, 0, 0, 0, 0, 0, 0, 0, 252, 8, 0, 0],
     [42, 0, 0, 0, 0, 0, 0, 0, 4, 9, 0, 0, 0, 0, 0, 8, 49, 0, 0, 0, 8, 9, 0, 0, 0, 0, 0, 8, 50, 0],
     [0, 0, 14, 9, 0, 0, 0, 0, 0, 1, 2, 0, 0, 0, 16, 0, 0, 0, 29, 9, 0, 0, 18, 0, 0, 4, 0, 1, 0],
     [0, 42, 9, 0, 0, 52, 0, 0, 0, 0, 0, 0, 0, 47, 9, 0, 0, 53, 0, 0, 0, 128, 0, 0, 0, 56, 9, 0, 0],
     [32, 0, 0, 0, 64, 1, 0, 0, 65, 9, 0, 0, 32, 0, 0, 0, 128, 1, 0, 0, 78, 9, 0, 0, 32, 0, 0, 0],
     [192, 1, 0, 0, 88, 9, 0, 0, 55, 0, 0, 0, 0, 2, 0, 0, 162, 1, 0, 0, 57, 0, 0, 0, 128, 2, 0, 0],
     [99, 9, 0, 0, 57, 0, 0, 0, 136, 2, 0, 0, 113, 9, 0, 0, 57, 0, 0, 0, 144, 2, 0, 0, 126, 9, 0],
     [0, 57, 0, 0, 0, 152, 2, 0, 0, 139, 9, 0, 0, 32, 0, 0, 0, 192, 2, 0, 0, 150, 9, 0, 0, 32, 0, 0],
     [0, 0, 3, 0, 0, 167, 9, 0, 0, 32, 0, 0, 0, 64, 3, 0, 0, 189, 9, 0, 0, 32, 0, 0, 0, 128, 3, 0],
     [0, 0, 0, 0, 0, 58, 0, 0, 0, 192, 3, 0, 0, 198, 9, 0, 0, 32, 0, 0, 0, 0, 4, 0, 0, 204, 9, 0, 0],
     [32, 0, 0, 0, 64, 4, 0, 0, 218, 9, 0, 0, 62, 0, 0, 0, 0, 6, 0, 0, 222, 9, 0, 0, 2, 0, 0, 4],
     [16, 0, 0, 0, 234, 9, 0, 0, 35, 0, 0, 0, 0, 0, 0, 0, 241, 9, 0, 0, 38, 0, 0, 0, 64, 0, 0, 0, 252],
     [9, 0, 0, 3, 0, 0, 4, 24, 0, 0, 0, 4, 10, 0, 0, 35, 0, 0, 0, 0, 0, 0, 0, 22, 10, 0, 0, 54, 0],
     [0, 0, 64, 0, 0, 0, 31, 10, 0, 0, 54, 0, 0, 0, 128, 0, 0, 0, 0, 0, 0, 0, 0, 0, 0, 2, 53, 0, 0, 0, 39],
     [10, 0, 0, 2, 0, 0, 4, 16, 0, 0, 0, 239, 8, 0, 0, 56, 0, 0, 0, 0, 0, 0, 0, 49, 10, 0, 0, 56, 0],
     [0, 0, 64, 0, 0, 0, 0, 0, 0, 0, 0, 0, 0, 2, 55, 0, 0, 0, 54, 10, 0, 0, 0, 0, 0, 1, 1, 0, 0, 0, 8],
     [0, 0, 0, 0, 0, 0, 0, 2, 0, 0, 5, 8, 0, 0, 0, 68, 10, 0, 0, 59, 0, 0, 0, 0, 0, 0, 0, 73, 10, 0, 0],
     [32, 0, 0, 0, 0, 0, 0, 0, 79, 10, 0, 0, 0, 0, 0, 8, 60, 0, 0, 0, 83, 10, 0, 0, 0, 0, 0, 8, 61, 0],
     [0, 0, 89, 10, 0, 0, 0, 0, 0, 1, 8, 0, 0, 0, 64, 0, 0, 1, 99, 10, 0, 0, 9, 0, 0, 4, 64, 0],
     [0, 0, 109, 10, 0, 0, 32, 0, 0, 0, 0, 0, 0, 0, 126, 10, 0, 0, 32, 0, 0, 0, 64, 0, 0, 0, 135, 10, 0, 0],
     [32, 0, 0, 0, 128, 0, 0, 0, 148, 10, 0, 0, 38, 0, 0, 0, 192, 0, 0, 0, 157, 10, 0, 0, 38, 0, 0, 0, 224],
     [0, 0, 0, 172, 10, 0, 0, 35, 0, 0, 0, 0, 1, 0, 0, 181, 10, 0, 0, 35, 0, 0, 0, 64, 1, 0, 0, 194],
     [10, 0, 0, 35, 0, 0, 0, 128, 1, 0, 0, 203, 10, 0, 0, 9, 0, 0, 0, 192, 1, 0, 0, 212, 10, 0, 0],
     [7, 0, 0, 4, 48, 0, 0, 0, 228, 10, 0, 0, 55, 0, 0, 0, 0, 0, 0, 0, 237, 10, 0, 0, 35, 0, 0, 0, 128],
     [0, 0, 0, 245, 10, 0, 0, 35, 0, 0, 0, 192, 0, 0, 0, 4, 11, 0, 0, 9, 0, 0, 0, 0, 1, 0, 0, 162, 1],
     [0, 0, 50, 0, 0, 0, 32, 1, 0, 0, 15, 11, 0, 0, 50, 0, 0, 0, 48, 1, 0, 0, 23, 11, 0, 0, 64, 0],
     [0, 0, 64, 1, 0, 0, 0, 0, 0, 0, 0, 0, 0, 2, 63, 0, 0, 0, 28, 11, 0, 0, 22, 0, 0, 132, 232, 0, 0, 0],
     [252, 9, 0, 0, 53, 0, 0, 0, 0, 0, 0, 0, 44, 11, 0, 0, 32, 0, 0, 0, 192, 0, 0, 0, 55, 11, 0, 0, 32],
     [0, 0, 0, 0, 1, 0, 0, 67, 11, 0, 0, 32, 0, 0, 0, 64, 1, 0, 0, 77, 11, 0, 0, 32, 0, 0, 0, 128],
     [1, 0, 0, 83, 11, 0, 0, 32, 0, 0, 0, 192, 1, 0, 0, 94, 11, 0, 0, 59, 0, 0, 0, 0, 2, 0, 0, 56],
     [9, 0, 0, 32, 0, 0, 0, 64, 2, 0, 0, 63, 1, 0, 0, 9, 0, 0, 0, 128, 2, 0, 0, 102, 11, 0, 0],
     [9, 0, 0, 0, 160, 2, 0, 1, 115, 11, 0, 0, 9, 0, 0, 0, 161, 2, 0, 1, 126, 11, 0, 0, 9, 0],
     [0, 0, 162, 2, 0, 1, 144, 11, 0, 0, 9, 0, 0, 0, 163, 2, 0, 1, 218, 1, 0, 0, 9, 0, 0, 0],
     [164, 2, 0, 1, 155, 11, 0, 0, 9, 0, 0, 0, 165, 2, 0, 1, 172, 11, 0, 0, 9, 0, 0, 0, 166],
     [2, 0, 1, 181, 11, 0, 0, 9, 0, 0, 0, 167, 2, 0, 1, 196, 11, 0, 0, 9, 0, 0, 0, 168, 2, 0],
     [1, 213, 11, 0, 0, 66, 0, 0, 0, 192, 2, 0, 0, 222, 11, 0, 0, 66, 0, 0, 0, 192, 4, 0, 0, 237],
     [11, 0, 0, 76, 0, 0, 0, 192, 6, 0, 0, 240, 11, 0, 0, 77, 0, 0, 0, 0, 7, 0, 0, 1, 12, 0, 0, 8],
     [0, 0, 4, 64, 0, 0, 0, 9, 12, 0, 0, 67, 0, 0, 0, 0, 0, 0, 0, 14, 12, 0, 0, 68, 0, 0, 0, 0, 1, 0],
     [0, 27, 12, 0, 0, 69, 0, 0, 0, 64, 1, 0, 0, 36, 12, 0, 0, 73, 0, 0, 0, 128, 1, 0, 0, 62, 0, 0],
     [0, 74, 0, 0, 0, 192, 1, 0, 0, 41, 12, 0, 0, 74, 0, 0, 0, 200, 1, 0, 0, 48, 12, 0, 0, 74, 0, 0],
     [0, 208, 1, 0, 0, 56, 12, 0, 0, 74, 0, 0, 0, 216, 1, 0, 0, 64, 12, 0, 0, 2, 0, 0, 4, 32, 0],
     [0, 0, 9, 12, 0, 0, 53, 0, 0, 0, 0, 0, 0, 0, 80, 12, 0, 0, 68, 0, 0, 0, 192, 0, 0, 0, 88, 12, 0, 0]]"

definition task_iter_elf_8_b :: "byte list" where
  "task_iter_elf_8_b =
    concat
    [[0, 0, 0, 8, 59, 0, 0, 0, 0, 0, 0, 0, 0, 0, 0, 2, 70, 0, 0, 0, 0, 0, 0, 0, 1, 0, 0, 13, 71, 0, 0, 0],
     [0, 0, 0, 0, 72, 0, 0, 0, 96, 12, 0, 0, 2, 0, 0, 6, 4, 0, 0, 0, 112, 12, 0, 0, 0, 0, 0, 0, 130],
     [12, 0, 0, 1, 0, 0, 0, 0, 0, 0, 0, 0, 0, 0, 2, 66, 0, 0, 0, 0, 0, 0, 0, 0, 0, 0, 2, 64, 1, 0, 0],
     [146, 12, 0, 0, 0, 0, 0, 8, 75, 0, 0, 0, 149, 12, 0, 0, 0, 0, 0, 8, 57, 0, 0, 0, 0, 0, 0, 0, 0, 0, 0],
     [2, 65, 1, 0, 0, 154, 12, 0, 0, 0, 0, 0, 8, 78, 0, 0, 0, 0, 0, 0, 0, 0, 0, 0, 2, 79, 0, 0, 0, 0],
     [0, 0, 0, 1, 0, 0, 13, 26, 0, 0, 0, 0, 0, 0, 0, 80, 0, 0, 0, 0, 0, 0, 0, 0, 0, 0, 2, 65, 0, 0, 0, 0, 0],
     [0, 0, 0, 0, 0, 2, 82, 0, 0, 0, 0, 0, 0, 0, 0, 0, 0, 10, 76, 1, 0, 0, 171, 12, 0, 0, 0, 0, 0, 4, 0],
     [0, 0, 0, 0, 0, 0, 0, 0, 0, 0, 2, 85, 0, 0, 0, 0, 0, 0, 0, 0, 0, 0, 10, 86, 0, 0, 0, 188, 12, 0, 0, 0, 0],
     [0, 8, 88, 0, 0, 0, 0, 0, 0, 0, 0, 0, 0, 2, 86, 0, 0, 0, 198, 12, 0, 0, 1, 0, 0, 4, 64, 0, 0, 0],
     [206, 12, 0, 0, 89, 0, 0, 0, 0, 0, 0, 0, 0, 0, 0, 0, 0, 0, 0, 3, 0, 0, 0, 0, 35, 0, 0, 0, 4, 0, 0, 0],
     [8, 0, 0, 0, 211, 12, 0, 0, 2, 0, 0, 5, 4, 0, 0, 0, 223, 12, 0, 0, 91, 0, 0, 0, 0, 0, 0, 0, 225],
     [12, 0, 0, 38, 0, 0, 0, 0, 0, 0, 0, 0, 0, 0, 0, 4, 0, 0, 4, 4, 0, 0, 0, 97, 5, 0, 0, 74, 0, 0, 0],
     [0, 0, 0, 0, 227, 12, 0, 0, 74, 0, 0, 0, 8, 0, 0, 0, 235, 12, 0, 0, 74, 0, 0, 0, 16, 0, 0, 0, 244],
     [12, 0, 0, 74, 0, 0, 0, 24, 0, 0, 0, 217, 2, 0, 0, 0, 0, 0, 4, 0, 0, 0, 0, 252, 12, 0, 0, 3, 0, 0],
     [4, 40, 0, 0, 0, 168, 1, 0, 0, 2, 0, 0, 0, 0, 0, 0, 0, 7, 13, 0, 0, 55, 0, 0, 0, 64, 0, 0, 0],
     [17, 13, 0, 0, 55, 0, 0, 0, 192, 0, 0, 0, 0, 0, 0, 0, 0, 0, 0, 2, 63, 1, 0, 0, 0, 0, 0, 0, 0, 0, 0],
     [2, 62, 1, 0, 0, 3, 4, 0, 0, 3, 0, 0, 4, 56, 0, 0, 0, 27, 13, 0, 0, 35, 0, 0, 0, 0, 0, 0],
     [0, 37, 13, 0, 0, 97, 0, 0, 0, 64, 0, 0, 0, 0, 0, 0, 0, 101, 0, 0, 0, 128, 0, 0, 0, 0, 0, 0, 0, 0, 0, 0],
     [2, 98, 0, 0, 0, 0, 0, 0, 0, 1, 0, 0, 13, 99, 0, 0, 0, 0, 0, 0, 0, 100, 0, 0, 0, 40, 13, 0, 0, 0, 0],
     [0, 1, 8, 0, 0, 0, 64, 0, 0, 1, 0, 0, 0, 0, 0, 0, 0, 2, 96, 0, 0, 0, 0, 0, 0, 0, 3, 0, 0, 5],
     [40, 0, 0, 0, 45, 13, 0, 0, 102, 0, 0, 0, 0, 0, 0, 0, 51, 13, 0, 0, 104, 0, 0, 0, 0, 0, 0, 0, 61, 13],
     [0, 0, 111, 0, 0, 0, 0, 0, 0, 0, 0, 0, 0, 0, 6, 0, 0, 4, 40, 0, 0, 0, 66, 13, 0, 0, 103, 0, 0, 0, 0, 0],
     [0, 0, 72, 13, 0, 0, 38, 0, 0, 0, 64, 0, 0, 0, 63, 1, 0, 0, 38, 0, 0, 0, 96, 0, 0, 0, 76, 13, 0],
     [0, 38, 0, 0, 0, 128, 0, 0, 0, 83, 13, 0, 0, 32, 0, 0, 0, 192, 0, 0, 0, 88, 13, 0, 0, 103, 0, 0, 0, 0],
     [1, 0, 0, 0, 0, 0, 0, 0, 0, 0, 2, 38, 0, 0, 0, 0, 0, 0, 0, 4, 0, 0, 4, 24, 0, 0, 0, 95, 13, 0, 0],
     [105, 0, 0, 0, 0, 0, 0, 0, 142, 0, 0, 0, 107, 0, 0, 0, 32, 0, 0, 0, 0, 0, 0, 0, 108, 0, 0, 0, 64, 0, 0, 0],
     [80, 12, 0, 0, 32, 0, 0, 0, 128, 0, 0, 0, 103, 13, 0, 0, 0, 0, 0, 8, 106, 0, 0, 0, 113, 13, 0, 0, 0],
     [0, 0, 8, 2, 0, 0, 0, 132, 13, 0, 0, 3, 0, 0, 6, 4, 0, 0, 0, 146, 13, 0, 0, 0, 0, 0, 0, 154],
     [13, 0, 0, 1, 0, 0, 0, 164, 13, 0, 0, 2, 0, 0, 0, 0, 0, 0, 0, 2, 0, 0, 5, 8, 0, 0, 0, 174, 13],
     [0, 0, 109, 0, 0, 0, 0, 0, 0, 0, 179, 13, 0, 0, 110, 0, 0, 0, 0, 0, 0, 0, 0, 0, 0, 0, 0, 0, 0, 2, 77, 1],
     [0, 0, 0, 0, 0, 0, 0, 0, 0, 2, 78, 1, 0, 0, 0, 0, 0, 0, 5, 0, 0, 4, 32, 0, 0, 0, 191, 13, 0, 0],
     [112, 0, 0, 0, 0, 0, 0, 0, 196, 13, 0, 0, 2, 0, 0, 0, 64, 0, 0, 0, 201, 13, 0, 0, 2, 0, 0, 0, 96, 0],
     [0, 0, 213, 13, 0, 0, 35, 0, 0, 0, 128, 0, 0, 0, 220, 13, 0, 0, 35, 0, 0, 0, 192, 0, 0, 0, 0, 0, 0, 0, 0],
     [0, 0, 2, 79, 1, 0, 0, 0, 0, 0, 0, 0, 0, 0, 2, 83, 1, 0, 0, 228, 13, 0, 0, 2, 0, 0, 4, 16],
     [0, 0, 0, 239, 8, 0, 0, 115, 0, 0, 0, 0, 0, 0, 0, 239, 13, 0, 0, 116, 0, 0, 0, 64, 0, 0, 0, 0, 0, 0, 0, 0],
     [0, 0, 2, 114, 0, 0, 0, 0, 0, 0, 0, 0, 0, 0, 2, 115, 0, 0, 0, 0, 0, 0, 0, 0, 0, 0, 3, 0, 0, 0, 0, 114, 0],
     [0, 0, 4, 0, 0, 0, 4, 0, 0, 0, 0, 0, 0, 0, 0, 0, 0, 2, 70, 1, 0, 0, 0, 0, 0, 0, 0, 0, 0, 2, 2, 0],
     [0, 0, 199, 4, 0, 0, 3, 0, 0, 4, 24, 0, 0, 0, 181, 4, 0, 0, 32, 0, 0, 0, 0, 0, 0, 0, 187, 4, 0],
     [0, 32, 0, 0, 0, 64, 0, 0, 0, 245, 13, 0, 0, 121, 0, 0, 0, 128, 0, 0, 0, 250, 13, 0, 0, 0, 0, 0, 8],
     [122, 0, 0, 0, 9, 14, 0, 0, 1, 0, 0, 4, 4, 0, 0, 0, 22, 14, 0, 0, 123, 0, 0, 0, 0, 0, 0, 0, 31],
     [14, 0, 0, 0, 0, 0, 8, 124, 0, 0, 0, 47, 14, 0, 0, 1, 0, 0, 4, 4, 0, 0, 0, 0, 0, 0, 0, 125, 0, 0],
     [0, 0, 0, 0, 0, 0, 0, 0, 0, 3, 0, 0, 5, 4, 0, 0, 0, 72, 13, 0, 0, 42, 0, 0, 0, 0, 0, 0, 0, 0, 0, 0, 0],
     [126, 0, 0, 0, 0, 0, 0, 0, 0, 0, 0, 0, 127, 0, 0, 0, 0, 0, 0, 0, 0, 0, 0, 0, 2, 0, 0, 4, 2, 0, 0, 0, 57],
     [14, 0, 0, 74, 0, 0, 0, 0, 0, 0, 0, 132, 5, 0, 0, 74, 0, 0, 0, 8, 0, 0, 0, 0, 0, 0, 0, 2, 0, 0, 4],
     [4, 0, 0, 0, 64, 14, 0, 0, 48, 0, 0, 0, 0, 0, 0, 0, 79, 14, 0, 0, 48, 0, 0, 0, 16, 0, 0, 0, 11],
     [5, 0, 0, 0, 0, 0, 4, 0, 0, 0, 0, 0, 0, 0, 0, 0, 0, 0, 2, 130, 0, 0, 0, 0, 0, 0, 0, 0, 0, 0, 10, 131, 0],
     [0, 0, 50, 5, 0, 0, 20, 0, 0, 4, 136, 0, 0, 0, 57, 1, 0, 0, 132, 0, 0, 0, 0, 0, 0, 0, 84, 14, 0],
     [0, 135, 0, 0, 0, 64, 0, 0, 0, 88, 14, 0, 0, 139, 0, 0, 0, 96, 0, 0, 0, 92, 14, 0, 0, 135, 0, 0, 0],
     [128, 0, 0, 0, 97, 14, 0, 0, 139, 0, 0, 0, 160, 0, 0, 0, 102, 14, 0, 0, 135, 0, 0, 0, 192, 0, 0, 0, 107],
     [14, 0, 0, 139, 0, 0, 0, 224, 0, 0, 0, 112, 14, 0, 0, 135, 0, 0, 0, 0, 1, 0, 0, 118, 14, 0, 0, 139, 0],
     [0, 0, 32, 1, 0, 0, 124, 14, 0, 0, 9, 0, 0, 0, 64, 1, 0, 0, 135, 14, 0, 0, 143, 0, 0, 0, 128],
     [1, 0, 0, 151, 14, 0, 0, 143, 0, 0, 0, 192, 1, 0, 0, 165, 14, 0, 0, 143, 0, 0, 0, 0, 2, 0, 0, 179],
     [14, 0, 0, 143, 0, 0, 0, 64, 2, 0, 0, 188, 14, 0, 0, 143, 0, 0, 0, 128, 2, 0, 0, 200, 14, 0, 0],
     [145, 0, 0, 0, 192, 2, 0, 0, 205, 14, 0, 0, 146, 0, 0, 0, 0, 3, 0, 0, 213, 14, 0, 0, 147, 0, 0, 0],
     [64, 3, 0, 0, 221, 14, 0, 0, 148, 0, 0, 0, 128, 3, 0, 0, 0, 0, 0, 0, 149, 0, 0, 0, 192, 3, 0, 0],
     [232, 14, 0, 0, 0, 0, 0, 8, 133, 0, 0, 0, 246, 14, 0, 0, 0, 0, 0, 8, 134, 0, 0, 0, 0, 0, 0, 0, 1, 0],
     [0, 4, 8, 0, 0, 0, 187, 8, 0, 0, 59, 0, 0, 0, 0, 0, 0, 0, 1, 15, 0, 0, 0, 0, 0, 8, 136, 0, 0, 0],
     [0, 0, 0, 0, 1, 0, 0, 4, 4, 0, 0, 0, 72, 13, 0, 0, 137, 0, 0, 0, 0, 0, 0, 0, 8, 15, 0, 0, 0, 0, 0],
     [8, 138, 0, 0, 0, 14, 15, 0, 0, 0, 0, 0, 8, 9, 0, 0, 0, 31, 15, 0, 0, 0, 0, 0, 8, 140, 0, 0, 0],
     [0, 0, 0, 0, 1, 0, 0, 4, 4, 0, 0, 0, 72, 13, 0, 0, 141, 0, 0, 0, 0, 0, 0, 0, 38, 15, 0, 0, 0, 0, 0],
     [8, 142, 0, 0, 0, 44, 15, 0, 0, 0, 0, 0, 8, 9, 0, 0, 0, 61, 15, 0, 0, 0, 0, 0, 8, 144, 0, 0, 0],
     [0, 0, 0, 0, 1, 0, 0, 4, 8, 0, 0, 0, 72, 13, 0, 0, 32, 0, 0, 0, 0, 0, 0, 0, 0, 0, 0, 0, 0, 0, 0, 2],
     [71, 1, 0, 0, 0, 0, 0, 0, 0, 0, 0, 2, 66, 1, 0, 0, 0, 0, 0, 0, 0, 0, 0, 2, 82, 1, 0, 0, 0, 0, 0],
     [0, 0, 0, 0, 2, 69, 1, 0, 0, 0, 0, 0, 0, 2, 0, 0, 5, 16, 0, 0, 0, 74, 15, 0, 0, 2, 0, 0, 0, 0],
     [0, 0, 0, 181, 7, 0, 0, 150, 0, 0, 0, 0, 0, 0, 0, 82, 15, 0, 0, 2, 0, 0, 4, 16, 0, 0, 0, 239, 8],
     [0, 0, 151, 0, 0, 0, 0, 0, 0, 0, 96, 15, 0, 0, 152, 0, 0, 0, 64, 0, 0, 0, 0, 0, 0, 0, 0, 0, 0, 2, 150, 0],
     [0, 0, 0, 0, 0, 0, 0, 0, 0, 2, 153, 0, 0, 0, 0, 0, 0, 0, 1, 0, 0, 13, 0, 0, 0, 0, 0, 0, 0, 0, 151, 0, 0, 0],
     [0, 0, 0, 0, 0, 0, 0, 2, 86, 1, 0, 0, 0, 0, 0, 0, 0, 0, 0, 2, 87, 1, 0, 0, 0, 0, 0, 0, 0, 0, 0, 2],
     [88, 1, 0, 0, 0, 0, 0, 0, 0, 0, 0, 2, 89, 1, 0, 0, 0, 0, 0, 0, 0, 0, 0, 2, 90, 1, 0, 0, 0, 0, 0],
     [0, 0, 0, 0, 2, 91, 1, 0, 0, 101, 15, 0, 0, 0, 0, 0, 8, 161, 0, 0, 0, 0, 0, 0, 0, 1, 0, 0, 4],
     [8, 0, 0, 0, 110, 15, 0, 0, 162, 0, 0, 0, 0, 0, 0, 0, 0, 0, 0, 0, 0, 0, 0, 3, 0, 0, 0, 0, 35, 0, 0, 0],
     [4, 0, 0, 0, 1, 0, 0, 0, 114, 15, 0, 0, 2, 0, 0, 4, 24, 0, 0, 0, 125, 15, 0, 0, 55, 0, 0, 0, 0],
     [0, 0, 0, 82, 5, 0, 0, 160, 0, 0, 0, 128, 0, 0, 0, 130, 15, 0, 0, 0, 0, 0, 8, 165, 0, 0, 0, 137, 15],
     [0, 0, 0, 0, 0, 8, 166, 0, 0, 0, 153, 15, 0, 0, 0, 0, 0, 8, 35, 0, 0, 0, 186, 5, 0, 0, 0, 0, 0, 4],
     [0, 0, 0, 0, 170, 15, 0, 0, 0, 0, 0, 4, 0, 0, 0, 0, 192, 15, 0, 0, 0, 0, 0, 8, 170, 0, 0, 0, 203, 15],
     [0, 0, 1, 0, 0, 4, 4, 0, 0, 0, 0, 0, 0, 0, 171, 0, 0, 0, 0, 0, 0, 0, 0, 0, 0, 0, 1, 0, 0, 5, 4, 0],
     [0, 0, 212, 15, 0, 0, 122, 0, 0, 0, 0, 0, 0, 0, 218, 15, 0, 0, 1, 0, 0, 4, 8, 0, 0, 0, 239, 8, 0],
     [0, 173, 0, 0, 0, 0, 0, 0, 0, 0, 0, 0, 0, 0, 0, 0, 2, 172, 0, 0, 0, 0, 0, 0, 0, 0, 0, 0, 2, 184, 0, 0, 0, 0],
     [0, 0, 0, 0, 0, 0, 2, 92, 1, 0, 0, 0, 0, 0, 0, 0, 0, 0, 2, 93, 1, 0, 0, 0, 0, 0, 0, 0, 0, 0, 2],
     [94, 1, 0, 0, 0, 0, 0, 0, 0, 0, 0, 2, 95, 1, 0, 0, 0, 0, 0, 0, 0, 0, 0, 2, 180, 0, 0, 0, 230, 15],
     [0, 0, 0, 0, 0, 8, 96, 1, 0, 0, 247, 15, 0, 0, 0, 0, 0, 4, 0, 0, 0, 0, 0, 0, 0, 0, 0, 0, 0, 3, 0, 0],
     [0, 0, 74, 0, 0, 0, 4, 0, 0, 0, 4, 0, 0, 0, 0, 0, 0, 0, 0, 0, 0, 2, 97, 1, 0, 0, 10, 16, 0, 0],
     [4, 0, 0, 4, 32, 0, 0, 0, 16, 16, 0, 0, 132, 0, 0, 0, 0, 0, 0, 0, 22, 16, 0, 0, 121, 0, 0, 0, 64],
     [0, 0, 0, 32, 16, 0, 0, 185, 0, 0, 0, 96, 0, 0, 0, 36, 16, 0, 0, 55, 0, 0, 0, 128, 0, 0, 0, 46, 16],
     [0, 0, 1, 0, 0, 4, 4, 0, 0, 0, 79, 14, 0, 0, 42, 0, 0, 0, 0, 0, 0, 0, 0, 0, 0, 0, 0, 0, 0, 2, 98],
     [1, 0, 0, 68, 16, 0, 0, 3, 0, 0, 4, 2, 0, 0, 0, 89, 16, 0, 0, 188, 0, 0, 0, 0, 0, 0, 0, 94],
     [16, 0, 0, 189, 0, 0, 0, 0, 0, 0, 0, 109, 16, 0, 0, 189, 0, 0, 0, 8, 0, 0, 0, 118, 16, 0, 0, 0, 0, 0],
     [4, 0, 0, 0, 0, 144, 16, 0, 0, 0, 0, 0, 8, 190, 0, 0, 0, 149, 16, 0, 0, 0, 0, 0, 1, 1, 0, 0, 0],
     [8, 0, 0, 4, 0, 0, 0, 0, 0, 0, 0, 2, 84, 1, 0, 0, 155, 16, 0, 0, 3, 0, 0, 4, 16, 0, 0, 0],
     [165, 16, 0, 0, 193, 0, 0, 0, 0, 0, 0, 0, 170, 16, 0, 0, 8, 0, 0, 0, 64, 0, 0, 0, 177, 16, 0, 0, 8],
     [0, 0, 0, 96, 0, 0, 0, 0, 0, 0, 0, 0, 0, 0, 2, 67, 1, 0, 0, 0, 0, 0, 0, 0, 0, 0, 2, 35, 0, 0, 0, 0, 0],
     [0, 0, 0, 0, 0, 2, 99, 1, 0, 0, 171, 7, 0, 0, 0, 0, 0, 4, 0, 0, 0, 0, 182, 16, 0, 0, 4, 0, 0],
     [4, 40, 0, 0, 0, 193, 16, 0, 0, 114, 0, 0, 0, 0, 0, 0, 0, 80, 12, 0, 0, 35, 0, 0, 0, 128, 0, 0, 0],
     [27, 12, 0, 0, 198, 0, 0, 0, 192, 0, 0, 0, 63, 1, 0, 0, 38, 0, 0, 0, 0, 1, 0, 0, 0, 0, 0, 0, 0, 0, 0],
     [2, 199, 0, 0, 0, 0, 0, 0, 0, 1, 0, 0, 13, 0, 0, 0, 0, 0, 0, 0, 0, 200, 0, 0, 0, 0, 0, 0, 0, 0, 0, 0, 2],
     [197, 0, 0, 0, 0, 0, 0, 0, 0, 0, 0, 2, 75, 1, 0, 0, 0, 0, 0, 0, 0, 0, 0, 2, 73, 1, 0, 0, 0, 0, 0, 0],
     [0, 0, 0, 2, 80, 1, 0, 0, 0, 0, 0, 0, 0, 0, 0, 2, 81, 1, 0, 0, 199, 16, 0, 0, 1, 0, 0, 4],
     [8, 0, 0, 0, 210, 16, 0, 0, 46, 0, 0, 0, 0, 0, 0, 0, 216, 16, 0, 0, 17, 0, 0, 4, 48, 6, 0, 0],
     [230, 16, 0, 0, 207, 0, 0, 0, 0, 0, 0, 0, 242, 16, 0, 0, 208, 0, 0, 0, 128, 3, 0, 0, 245, 16, 0, 0],
     [213, 0, 0, 0, 0, 21, 0, 0, 253, 16, 0, 0, 9, 0, 0, 0, 32, 21, 0, 0, 8, 17, 0, 0, 39, 0, 0, 0],
     [64, 21, 0, 0, 18, 17, 0, 0, 39, 0, 0, 0, 128, 21, 0, 0, 28, 17, 0, 0, 214, 0, 0, 0, 192, 21, 0],
     [0, 31, 17, 0, 0, 214, 0, 0, 0, 0, 22, 0, 0, 41, 17, 0, 0, 35, 0, 0, 0, 64, 22, 0, 0, 55, 17, 0],
     [0, 35, 0, 0, 0, 128, 22, 0, 0, 66, 17, 0, 0, 215, 0, 0, 0, 192, 22, 0, 0, 72, 17, 0, 0, 209, 0, 0],
     [0, 128, 31, 0, 0, 92, 17, 0, 0, 9, 0, 0, 0, 0, 48, 0, 0, 110, 17, 0, 0, 32, 0, 0, 0, 64, 48, 0],
     [0, 121, 17, 0, 0, 32, 0, 0, 0, 128, 48, 0, 0, 126, 17, 0, 0, 32, 0, 0, 0, 192, 48, 0, 0, 137, 17],
     [0, 0, 32, 0, 0, 0, 0, 49, 0, 0, 230, 16, 0, 0, 13, 0, 0, 4, 104, 0, 0, 0, 145, 17, 0, 0, 35, 0, 0],
     [0, 0, 0, 0, 0, 149, 17, 0, 0, 35, 0, 0, 0, 64, 0, 0, 0, 153, 17, 0, 0, 35, 0, 0, 0, 128, 0, 0, 0, 157],
     [17, 0, 0, 35, 0, 0, 0, 192, 0, 0, 0, 161, 17, 0, 0, 35, 0, 0, 0, 0, 1, 0, 0, 165, 17, 0, 0, 35, 0],
     [0, 0, 64, 1, 0, 0, 169, 17, 0, 0, 35, 0, 0, 0, 128, 1, 0, 0, 173, 17, 0, 0, 35, 0, 0, 0, 192],
     [1, 0, 0, 177, 17, 0, 0, 35, 0, 0, 0, 0, 2, 0, 0, 181, 17, 0, 0, 35, 0, 0, 0, 64, 2, 0, 0, 185],
     [17, 0, 0, 35, 0, 0, 0, 128, 2, 0, 0, 188, 17, 0, 0, 35, 0, 0, 0, 192, 2, 0, 0, 191, 17, 0, 0],
     [35, 0, 0, 0, 0, 3, 0, 0, 0, 0, 0, 0, 5, 0, 0, 4, 48, 2, 0, 0, 194, 17, 0, 0, 35, 0, 0, 0, 0, 0],
     [0, 0, 203, 17, 0, 0, 35, 0, 0, 0, 64, 0, 0, 0, 213, 17, 0, 0, 32, 0, 0, 0, 128, 0, 0, 0, 218, 17, 0],
     [0, 35, 0, 0, 0, 192, 0, 0, 0, 222, 17, 0, 0, 209, 0, 0, 0, 0, 1, 0, 0, 235, 17, 0, 0, 4, 0, 0, 4],
     [16, 2, 0, 0, 253, 17, 0, 0, 211, 0, 0, 0, 0, 0, 0, 0, 3, 18, 0, 0, 8, 0, 0, 0, 0, 16, 0, 0, 8],
     [18, 0, 0, 8, 0, 0, 0, 32, 16, 0, 0, 13, 18, 0, 0, 212, 0, 0, 0, 64, 16, 0, 0, 24, 18, 0, 0, 0],
     [0, 0, 1, 16, 0, 0, 0, 128, 0, 0, 0, 0, 0, 0, 0, 0, 0, 0, 3, 0, 0, 0, 0, 210, 0, 0, 0, 4, 0, 0, 0, 32],
     [0, 0, 0, 0, 0, 0, 0, 0, 0, 0, 3, 0, 0, 0, 0, 8, 0, 0, 0, 4, 0, 0, 0, 2, 0, 0, 0, 245, 16, 0, 0, 3],
     [0, 0, 6, 4, 0, 0, 0, 42, 18, 0, 0, 0, 0, 0, 0, 59, 18, 0, 0, 1, 0, 0, 0, 75, 18, 0, 0, 2, 0],
     [0, 0, 0, 0, 0, 0, 0, 0, 0, 3, 0, 0, 0, 0, 9, 0, 0, 0, 4, 0, 0, 0, 2, 0, 0, 0, 88, 18, 0, 0, 5, 0],
     [0, 4, 16, 1, 0, 0, 99, 18, 0, 0, 2, 0, 0, 0, 0, 0, 0, 0, 114, 18, 0, 0, 2, 0, 0, 0, 32, 0, 0],
     [0, 127, 18, 0, 0, 2, 0, 0, 0, 64, 0, 0, 0, 140, 18, 0, 0, 55, 1, 0, 0, 128, 0, 0, 0, 150, 18, 0],
     [0, 55, 1, 0, 0, 128, 4, 0, 0, 0, 0, 0, 0, 0, 0, 0, 2, 217, 0, 0, 0, 160, 18, 0, 0, 76, 0, 0, 4],
     [40, 5, 0, 0, 171, 18, 0, 0, 55, 0, 0, 0, 0, 0, 0, 0, 183, 18, 0, 0, 55, 0, 0, 0, 128, 0, 0, 0, 196],
     [18, 0, 0, 55, 0, 0, 0, 0, 1, 0, 0, 88, 9, 0, 0, 53, 0, 0, 0, 128, 1, 0, 0, 208, 18, 0, 0, 32],
     [0, 0, 0, 64, 2, 0, 0, 220, 18, 0, 0, 55, 0, 0, 0, 128, 2, 0, 0, 234, 18, 0, 0, 114, 0, 0, 0, 0],
     [3, 0, 0, 246, 18, 0, 0, 55, 0, 0, 0, 128, 3, 0, 0, 3, 19, 0, 0, 2, 0, 0, 0, 0, 4, 0, 0, 15],
     [19, 0, 0, 2, 0, 0, 0, 32, 4, 0, 0, 26, 19, 0, 0, 2, 0, 0, 0, 64, 4, 0, 0, 37, 19, 0, 0],
     [9, 0, 0, 0, 96, 4, 0, 0, 58, 4, 0, 0, 216, 0, 0, 0, 128, 4, 0, 0, 54, 19, 0, 0, 218, 0, 0, 0],
     [192, 4, 0, 0, 58, 19, 0, 0, 39, 0, 0, 0, 0, 5, 0, 0, 62, 0, 0, 0, 219, 0, 0, 0, 64, 5, 0, 0],
     [70, 19, 0, 0, 9, 0, 0, 0, 96, 5, 0, 0, 123, 8, 0, 0, 220, 0, 0, 0, 128, 5, 0, 0, 83, 19, 0],
     [0, 133, 0, 0, 0, 192, 5, 0, 0, 95, 19, 0, 0, 32, 0, 0, 0, 0, 6, 0, 0, 114, 19, 0, 0, 32, 0, 0, 0],
     [64, 6, 0, 0, 133, 19, 0, 0, 32, 0, 0, 0, 128, 6, 0, 0, 140, 19, 0, 0, 224, 0, 0, 0, 192, 6, 0],
     [0, 145, 19, 0, 0, 48, 0, 0, 0, 0, 11, 0, 0, 157, 19, 0, 0, 48, 0, 0, 0, 16, 11, 0, 0, 172, 19, 0],
     [0, 48, 0, 0, 0, 32, 11, 0, 0, 182, 19, 0, 0, 232, 0, 0, 0, 64, 11, 0, 0, 208, 0, 0, 0, 183, 0, 0, 0],
     [192, 17, 0, 0, 185, 19, 0, 0, 251, 0, 0, 0, 0, 18, 0, 0, 193, 19, 0, 0, 132, 0, 0, 0, 64, 18, 0, 0],
     [202, 19, 0, 0, 133, 0, 0, 0, 128, 18, 0, 0, 227, 19, 0, 0, 133, 0, 0, 0, 192, 18, 0, 0, 252, 19, 0],
     [0, 184, 0, 0, 0, 0, 19, 0, 0, 8, 20, 0, 0, 55, 0, 0, 0, 0, 20, 0, 0, 34, 4, 0, 0, 216, 0, 0, 0],
     [128, 20, 0, 0, 19, 20, 0, 0, 2, 0, 0, 0, 192, 20, 0, 0, 83, 8, 0, 0, 2, 0, 0, 0, 224, 20, 0],
     [0, 25, 20, 0, 0, 55, 0, 0, 0, 0, 21, 0, 0, 16, 16, 0, 0, 26, 0, 0, 0, 128, 21, 0, 0, 37, 20, 0],
     [0, 184, 0, 0, 0, 192, 21, 0, 0, 48, 20, 0, 0, 40, 0, 0, 0, 192, 22, 0, 0, 59, 20, 0, 0, 252, 0, 0],
     [0, 0, 23, 0, 0, 62, 20, 0, 0, 55, 0, 0, 0, 64, 23, 0, 0, 71, 20, 0, 0, 35, 0, 0, 0, 192, 23, 0],
     [0, 83, 20, 0, 0, 2, 0, 0, 0, 0, 24, 0, 0, 95, 20, 0, 0, 253, 0, 0, 0, 64, 24, 0, 0, 101, 20, 0],
     [0, 255, 0, 0, 0, 0, 25, 0, 0, 108, 20, 0, 0, 9, 0, 0, 0, 64, 25, 0, 0, 123, 20, 0, 0, 9, 0, 0, 0],
     [96, 25, 0, 0, 136, 20, 0, 0, 9, 0, 0, 0, 128, 25, 0, 0, 152, 20, 0, 0, 35, 0, 0, 0, 192, 25, 0]]"

definition task_iter_elf_8_c :: "byte list" where
  "task_iter_elf_8_c =
    concat
    [[0, 165, 20, 0, 0, 0, 1, 0, 0, 0, 26, 0, 0, 177, 20, 0, 0, 0, 1, 0, 0, 0, 27, 0, 0, 197, 20, 0, 0],
     [150, 0, 0, 0, 0, 28, 0, 0, 210, 20, 0, 0, 9, 0, 0, 0, 128, 28, 0, 0, 223, 20, 0, 0, 42, 0, 0, 0],
     [160, 28, 0, 0, 235, 20, 0, 0, 5, 1, 0, 0, 192, 28, 0, 0, 248, 20, 0, 0, 6, 1, 0, 0, 128],
     [29, 0, 0, 11, 21, 0, 0, 35, 0, 0, 0, 192, 29, 0, 0, 28, 21, 0, 0, 216, 0, 0, 0, 0, 30, 0, 0, 38],
     [21, 0, 0, 7, 1, 0, 0, 64, 30, 0, 0, 82, 15, 0, 0, 150, 0, 0, 0, 128, 30, 0, 0, 46, 21, 0, 0],
     [9, 1, 0, 0, 0, 31, 0, 0, 49, 21, 0, 0, 32, 0, 0, 0, 64, 31, 0, 0, 52, 21, 0, 0, 133, 0, 0, 0],
     [128, 31, 0, 0, 65, 21, 0, 0, 10, 1, 0, 0, 192, 31, 0, 0, 71, 21, 0, 0, 12, 1, 0, 0, 0, 32],
     [0, 0, 88, 21, 0, 0, 39, 0, 0, 0, 64, 32, 0, 0, 113, 21, 0, 0, 38, 1, 0, 0, 128, 32, 0, 0, 118],
     [21, 0, 0, 32, 0, 0, 0, 192, 32, 0, 0, 129, 21, 0, 0, 39, 1, 0, 0, 0, 33, 0, 0, 138, 21, 0, 0],
     [40, 1, 0, 0, 64, 33, 0, 0, 145, 21, 0, 0, 41, 1, 0, 0, 128, 33, 0, 0, 156, 21, 0, 0, 55, 0],
     [0, 0, 0, 40, 0, 0, 164, 21, 0, 0, 55, 0, 0, 0, 128, 40, 0, 0, 173, 21, 0, 0, 38, 0, 0, 0, 0, 41, 0],
     [0, 0, 0, 0, 0, 0, 0, 0, 2, 100, 1, 0, 0, 183, 21, 0, 0, 7, 0, 0, 134, 4, 0, 0, 0, 200, 21, 0, 0],
     [251, 255, 255, 255, 222, 21, 0, 0, 252, 255, 255, 255, 247, 21, 0, 0, 253, 255, 255, 255, 13],
     [22, 0, 0, 254, 255, 255, 255, 36, 22, 0, 0, 255, 255, 255, 255, 57, 22, 0, 0, 0, 0, 0, 0, 83],
     [22, 0, 0, 1, 0, 0, 0, 107, 22, 0, 0, 0, 0, 0, 8, 221, 0, 0, 0, 0, 0, 0, 0, 1, 0, 0, 4, 8, 0, 0],
     [0, 117, 22, 0, 0, 222, 0, 0, 0, 0, 0, 0, 0, 119, 22, 0, 0, 0, 0, 0, 8, 223, 0, 0, 0, 0, 0, 0, 0, 1, 0],
     [0, 4, 8, 0, 0, 0, 117, 22, 0, 0, 132, 0, 0, 0, 0, 0, 0, 0, 127, 22, 0, 0, 60, 0, 0, 132, 136, 0, 0],
     [0, 142, 0, 0, 0, 8, 0, 0, 0, 0, 0, 0, 0, 177, 16, 0, 0, 8, 0, 0, 0, 32, 0, 0, 0, 143, 22, 0, 0, 16],
     [0, 0, 0, 64, 0, 0, 0, 0, 0, 0, 0, 225, 0, 0, 0, 128, 0, 0, 0, 150, 22, 0, 0, 16, 0, 0, 0, 192, 0, 0, 0],
     [162, 22, 0, 0, 16, 0, 0, 0, 0, 1, 0, 0, 174, 22, 0, 0, 16, 0, 0, 0, 64, 1, 0, 1, 183, 22, 0],
     [0, 16, 0, 0, 0, 65, 1, 0, 1, 191, 22, 0, 0, 16, 0, 0, 0, 66, 1, 0, 1, 198, 22, 0, 0, 16],
     [0, 0, 0, 67, 1, 0, 1, 208, 22, 0, 0, 16, 0, 0, 0, 68, 1, 0, 1, 221, 22, 0, 0, 16, 0, 0, 0],
     [69, 1, 0, 1, 236, 22, 0, 0, 16, 0, 0, 0, 70, 1, 0, 1, 247, 22, 0, 0, 16, 0, 0, 0, 71],
     [1, 0, 1, 4, 23, 0, 0, 16, 0, 0, 0, 72, 1, 0, 1, 68, 0, 0, 0, 16, 0, 0, 0, 73, 1, 0],
     [1, 9, 23, 0, 0, 16, 0, 0, 0, 74, 1, 0, 1, 14, 23, 0, 0, 16, 0, 0, 0, 75, 1, 0, 1],
     [27, 23, 0, 0, 16, 0, 0, 0, 76, 1, 0, 1, 203, 0, 0, 0, 16, 0, 0, 0, 77, 1, 0, 1, 42, 23],
     [0, 0, 16, 0, 0, 0, 78, 1, 0, 1, 52, 23, 0, 0, 16, 0, 0, 0, 79, 1, 0, 2, 63, 23, 0, 0],
     [16, 0, 0, 0, 81, 1, 0, 1, 73, 23, 0, 0, 16, 0, 0, 0, 82, 1, 0, 1, 87, 23, 0, 0, 16, 0],
     [0, 0, 83, 1, 0, 1, 100, 23, 0, 0, 16, 0, 0, 0, 84, 1, 0, 1, 114, 23, 0, 0, 16, 0, 0, 0],
     [85, 1, 0, 1, 139, 23, 0, 0, 16, 0, 0, 0, 86, 1, 0, 1, 162, 23, 0, 0, 16, 0, 0, 0, 87],
     [1, 0, 1, 168, 23, 0, 0, 16, 0, 0, 0, 88, 1, 0, 1, 178, 23, 0, 0, 16, 0, 0, 0, 89, 1, 0],
     [1, 190, 23, 0, 0, 16, 0, 0, 0, 90, 1, 0, 1, 205, 23, 0, 0, 16, 0, 0, 0, 91, 1, 0, 1],
     [220, 23, 0, 0, 16, 0, 0, 0, 92, 1, 0, 1, 231, 23, 0, 0, 16, 0, 0, 0, 93, 1, 0, 1, 239],
     [23, 0, 0, 16, 0, 0, 0, 94, 1, 0, 1, 249, 23, 0, 0, 16, 0, 0, 0, 95, 1, 0, 1, 4, 24, 0],
     [0, 16, 0, 0, 0, 96, 1, 0, 1, 11, 24, 0, 0, 16, 0, 0, 0, 97, 1, 0, 1, 21, 24, 0, 0, 16],
     [0, 0, 0, 98, 1, 0, 1, 30, 24, 0, 0, 16, 0, 0, 0, 99, 1, 0, 1, 45, 24, 0, 0, 16, 0, 0, 0],
     [100, 1, 0, 1, 60, 24, 0, 0, 16, 0, 0, 0, 101, 1, 0, 1, 68, 24, 0, 0, 16, 0, 0, 0, 102],
     [1, 0, 26, 0, 0, 0, 0, 226, 0, 0, 0, 128, 1, 0, 0, 81, 24, 0, 0, 8, 0, 0, 0, 160, 1, 0, 0, 0, 0],
     [0, 0, 227, 0, 0, 0, 192, 1, 0, 0, 0, 0, 0, 0, 228, 0, 0, 0, 0, 2, 0, 0, 89, 24, 0, 0, 16, 0, 0, 0],
     [64, 2, 0, 0, 108, 24, 0, 0, 16, 0, 0, 0, 128, 2, 0, 0, 125, 24, 0, 0, 8, 0, 0, 0, 192, 2, 0],
     [0, 95, 13, 0, 0, 229, 0, 0, 0, 224, 2, 0, 0, 143, 24, 0, 0, 16, 0, 0, 0, 0, 3, 0, 0, 160, 24, 0],
     [0, 8, 0, 0, 0, 64, 3, 0, 0, 174, 24, 0, 0, 49, 0, 0, 0, 96, 3, 0, 0, 191, 24, 0, 0, 49, 0, 0],
     [0, 112, 3, 0, 0, 204, 24, 0, 0, 8, 0, 0, 0, 128, 3, 0, 0, 0, 0, 0, 0, 230, 0, 0, 0, 160, 3, 0, 0],
     [220, 24, 0, 0, 16, 0, 0, 0, 192, 3, 0, 0, 229, 24, 0, 0, 16, 0, 0, 0, 0, 4, 0, 0, 0, 0, 0, 0, 2],
     [0, 0, 5, 8, 0, 0, 0, 237, 24, 0, 0, 16, 0, 0, 0, 0, 0, 0, 0, 251, 24, 0, 0, 16, 0, 0, 0, 0, 0, 0, 0],
     [0, 0, 0, 0, 2, 0, 0, 5, 4, 0, 0, 0, 7, 25, 0, 0, 8, 0, 0, 0, 0, 0, 0, 0, 21, 25, 0, 0, 8, 0],
     [0, 0, 0, 0, 0, 0, 0, 0, 0, 0, 4, 0, 0, 5, 8, 0, 0, 0, 38, 25, 0, 0, 16, 0, 0, 0, 0, 0, 0, 0, 46],
     [25, 0, 0, 16, 0, 0, 0, 0, 0, 0, 0, 58, 25, 0, 0, 16, 0, 0, 0, 0, 0, 0, 0, 70, 25, 0, 0, 16, 0, 0, 0],
     [0, 0, 0, 0, 0, 0, 0, 0, 4, 0, 0, 5, 8, 0, 0, 0, 78, 25, 0, 0, 16, 0, 0, 0, 0, 0, 0, 0, 85, 25, 0],
     [0, 16, 0, 0, 0, 0, 0, 0, 0, 97, 25, 0, 0, 16, 0, 0, 0, 0, 0, 0, 0, 110, 25, 0, 0, 16, 0, 0, 0, 0, 0, 0],
     [0, 118, 25, 0, 0, 0, 0, 0, 8, 2, 0, 0, 0, 0, 0, 0, 0, 2, 0, 0, 5, 4, 0, 0, 0, 124, 25, 0, 0],
     [8, 0, 0, 0, 0, 0, 0, 0, 0, 0, 0, 0, 231, 0, 0, 0, 0, 0, 0, 0, 0, 0, 0, 0, 4, 0, 0, 132, 4, 0, 0, 0, 135],
     [25, 0, 0, 8, 0, 0, 0, 0, 0, 0, 1, 152, 25, 0, 0, 8, 0, 0, 0, 1, 0, 0, 1, 162, 25, 0, 0, 8],
     [0, 0, 0, 2, 0, 0, 1, 173, 25, 0, 0, 8, 0, 0, 0, 3, 0, 0, 29, 186, 25, 0, 0, 12, 0, 0, 4],
     [208, 0, 0, 0, 0, 0, 0, 0, 233, 0, 0, 0, 0, 0, 0, 0, 200, 25, 0, 0, 26, 0, 0, 0, 128, 3, 0, 0, 235, 20],
     [0, 0, 39, 0, 0, 0, 192, 3, 0, 0, 11, 21, 0, 0, 35, 0, 0, 0, 0, 4, 0, 0, 62, 0, 0, 0, 2, 0, 0, 0],
     [64, 4, 0, 0, 207, 25, 0, 0, 220, 0, 0, 0, 128, 4, 0, 0, 237, 24, 0, 0, 32, 0, 0, 0, 192, 4, 0],
     [0, 0, 0, 0, 0, 248, 0, 0, 0, 0, 5, 0, 0, 218, 25, 0, 0, 32, 0, 0, 0, 128, 5, 0, 0, 233, 25, 0, 0],
     [32, 0, 0, 0, 192, 5, 0, 0, 244, 25, 0, 0, 32, 0, 0, 0, 0, 6, 0, 0, 4, 26, 0, 0, 32, 0, 0, 0],
     [64, 6, 0, 0, 0, 0, 0, 0, 7, 0, 0, 5, 112, 0, 0, 0, 0, 0, 0, 0, 234, 0, 0, 0, 0, 0, 0, 0, 0, 0, 0, 0],
     [236, 0, 0, 0, 0, 0, 0, 0, 0, 0, 0, 0, 237, 0, 0, 0, 0, 0, 0, 0, 0, 0, 0, 0, 238, 0, 0, 0, 0, 0, 0, 0, 0, 0, 0, 0],
     [239, 0, 0, 0, 0, 0, 0, 0, 0, 0, 0, 0, 240, 0, 0, 0, 0, 0, 0, 0, 0, 0, 0, 0, 247, 0, 0, 0, 0, 0, 0, 0, 0, 0, 0, 0],
     [12, 0, 0, 4, 112, 0, 0, 0, 143, 22, 0, 0, 32, 0, 0, 0, 0, 0, 0, 0, 70, 25, 0, 0, 32, 0, 0, 0, 64],
     [0, 0, 0, 21, 26, 0, 0, 32, 0, 0, 0, 128, 0, 0, 0, 30, 26, 0, 0, 32, 0, 0, 0, 192, 0, 0, 0, 45, 26],
     [0, 0, 35, 0, 0, 0, 0, 1, 0, 0, 57, 26, 0, 0, 35, 0, 0, 0, 64, 1, 0, 0, 68, 26, 0, 0, 2, 0, 0],
     [0, 128, 1, 0, 0, 85, 26, 0, 0, 2, 0, 0, 0, 160, 1, 0, 0, 89, 26, 0, 0, 2, 0, 0, 0, 192, 1],
     [0, 0, 63, 1, 0, 0, 2, 0, 0, 0, 224, 1, 0, 0, 98, 26, 0, 0, 235, 0, 0, 0, 0, 2, 0, 0, 108, 26],
     [0, 0, 235, 0, 0, 0, 192, 2, 0, 0, 119, 26, 0, 0, 4, 0, 0, 4, 24, 0, 0, 0, 143, 22, 0, 0, 32, 0],
     [0, 0, 0, 0, 0, 0, 139, 26, 0, 0, 9, 0, 0, 0, 64, 0, 0, 0, 143, 26, 0, 0, 2, 0, 0, 0, 96, 0, 0, 0],
     [85, 26, 0, 0, 2, 0, 0, 0, 128, 0, 0, 0, 0, 0, 0, 0, 2, 0, 0, 4, 16, 0, 0, 0, 149, 26, 0, 0, 32],
     [0, 0, 0, 0, 0, 0, 0, 160, 26, 0, 0, 9, 0, 0, 0, 64, 0, 0, 0, 0, 0, 0, 0, 1, 0, 0, 4, 64, 0, 0, 0],
     [1, 12, 0, 0, 66, 0, 0, 0, 0, 0, 0, 0, 0, 0, 0, 0, 1, 0, 0, 4, 16, 0, 0, 0, 171, 26, 0, 0, 55, 0],
     [0, 0, 0, 0, 0, 0, 0, 0, 0, 0, 2, 0, 0, 4, 16, 0, 0, 0, 179, 26, 0, 0, 32, 0, 0, 0, 0, 0, 0, 0, 187],
     [26, 0, 0, 32, 0, 0, 0, 64, 0, 0, 0, 0, 0, 0, 0, 2, 0, 0, 4, 40, 0, 0, 0, 192, 26, 0, 0, 241, 0, 0],
     [0, 0, 0, 0, 0, 197, 26, 0, 0, 243, 0, 0, 0, 192, 0, 0, 0, 205, 26, 0, 0, 3, 0, 0, 4, 24, 0, 0, 0],
     [224, 26, 0, 0, 32, 0, 0, 0, 0, 0, 0, 0, 232, 26, 0, 0, 32, 0, 0, 0, 64, 0, 0, 0, 240, 26, 0, 0, 242],
     [0, 0, 0, 128, 0, 0, 0, 245, 26, 0, 0, 5, 0, 0, 132, 4, 0, 0, 0, 13, 18, 0, 0, 38, 0, 0, 0, 0, 0, 0],
     [19, 13, 27, 0, 0, 38, 0, 0, 0, 19, 0, 0, 8, 142, 0, 0, 0, 38, 0, 0, 0, 27, 0, 0, 2, 17, 27],
     [0, 0, 38, 0, 0, 0, 29, 0, 0, 2, 27, 27, 0, 0, 38, 0, 0, 0, 31, 0, 0, 1, 35, 27, 0, 0, 2, 0],
     [0, 4, 16, 0, 0, 0, 47, 27, 0, 0, 244, 0, 0, 0, 0, 0, 0, 0, 239, 8, 0, 0, 246, 0, 0, 0, 64, 0, 0, 0],
     [53, 27, 0, 0, 1, 0, 0, 4, 8, 0, 0, 0, 239, 8, 0, 0, 245, 0, 0, 0, 0, 0, 0, 0, 0, 0, 0, 0, 0, 0, 0],
     [2, 244, 0, 0, 0, 0, 0, 0, 0, 0, 0, 0, 2, 243, 0, 0, 0, 0, 0, 0, 0, 5, 0, 0, 4, 24, 0, 0, 0, 64],
     [27, 0, 0, 74, 0, 0, 0, 0, 0, 0, 0, 75, 27, 0, 0, 74, 0, 0, 0, 8, 0, 0, 0, 86, 27, 0, 0, 48, 0, 0],
     [0, 16, 0, 0, 0, 94, 27, 0, 0, 32, 0, 0, 0, 64, 0, 0, 0, 99, 27, 0, 0, 32, 0, 0, 0, 128, 0, 0, 0, 0],
     [0, 0, 0, 2, 0, 0, 5, 16, 0, 0, 0, 0, 0, 0, 0, 249, 0, 0, 0, 0, 0, 0, 0, 0, 0, 0, 0, 250, 0, 0, 0, 0, 0, 0],
     [0, 0, 0, 0, 0, 2, 0, 0, 4, 16, 0, 0, 0, 105, 27, 0, 0, 32, 0, 0, 0, 0, 0, 0, 0, 117, 27, 0, 0, 220],
     [0, 0, 0, 64, 0, 0, 0, 0, 0, 0, 0, 2, 0, 0, 4, 16, 0, 0, 0, 129, 27, 0, 0, 32, 0, 0, 0, 0, 0, 0, 0],
     [142, 27, 0, 0, 32, 0, 0, 0, 64, 0, 0, 0, 0, 0, 0, 0, 0, 0, 0, 2, 101, 1, 0, 0, 0, 0, 0, 0, 0, 0, 0],
     [2, 102, 1, 0, 0, 154, 27, 0, 0, 0, 0, 0, 8, 254, 0, 0, 0, 172, 27, 0, 0, 2, 0, 0, 4, 24, 0],
     [0, 0, 245, 13, 0, 0, 169, 0, 0, 0, 0, 0, 0, 0, 188, 27, 0, 0, 55, 0, 0, 0, 64, 0, 0, 0, 0, 0, 0, 0, 0, 0],
     [0, 2, 85, 1, 0, 0, 193, 27, 0, 0, 3, 0, 0, 4, 32, 0, 0, 0, 9, 12, 0, 0, 44, 0, 0, 0, 0, 0],
     [0, 0, 96, 15, 0, 0, 1, 1, 0, 0, 128, 0, 0, 0, 202, 27, 0, 0, 4, 1, 0, 0, 192, 0, 0, 0, 0, 0, 0],
     [0, 0, 0, 0, 2, 2, 1, 0, 0, 0, 0, 0, 0, 1, 0, 0, 13, 0, 0, 0, 0, 0, 0, 0, 0, 3, 1, 0, 0, 0, 0, 0],
     [0, 0, 0, 0, 2, 0, 1, 0, 0, 210, 27, 0, 0, 1, 0, 0, 4, 8, 0, 0, 0, 203, 0, 0, 0, 26, 0, 0, 0, 0],
     [0, 0, 0, 218, 27, 0, 0, 3, 0, 0, 4, 24, 0, 0, 0, 125, 15, 0, 0, 55, 0, 0, 0, 0, 0, 0, 0, 245, 13],
     [0, 0, 121, 0, 0, 0, 128, 0, 0, 0, 241, 27, 0, 0, 9, 0, 0, 0, 160, 0, 0, 0, 0, 0, 0, 0, 0, 0, 0, 2, 104],
     [1, 0, 0, 0, 0, 0, 0, 0, 0, 0, 2, 8, 1, 0, 0, 0, 0, 0, 0, 1, 0, 0, 13, 0, 0, 0, 0, 0, 0, 0, 0, 216],
     [0, 0, 0, 0, 0, 0, 0, 0, 0, 0, 2, 68, 1, 0, 0, 0, 0, 0, 0, 0, 0, 0, 2, 11, 1, 0, 0, 0, 0, 0, 0, 0, 0],
     [0, 13, 32, 0, 0, 0, 1, 28, 0, 0, 0, 0, 0, 8, 13, 1, 0, 0, 0, 0, 0, 0, 0, 0, 0, 2, 14, 1, 0],
     [0, 0, 0, 0, 0, 3, 0, 0, 13, 0, 0, 0, 0, 0, 0, 0, 0, 216, 0, 0, 0, 0, 0, 0, 0, 15, 1, 0, 0, 0, 0, 0, 0],
     [28, 1, 0, 0, 0, 0, 0, 0, 0, 0, 0, 2, 16, 1, 0, 0, 25, 28, 0, 0, 26, 0, 0, 4, 0, 1, 0, 0],
     [42, 28, 0, 0, 32, 0, 0, 0, 0, 0, 0, 0, 55, 28, 0, 0, 32, 0, 0, 0, 64, 0, 0, 0, 62, 28, 0, 0, 32],
     [0, 0, 0, 128, 0, 0, 0, 142, 0, 0, 0, 32, 0, 0, 0, 192, 0, 0, 0, 71, 28, 0, 0, 17, 1, 0, 0, 0, 1, 0],
     [0, 83, 13, 0, 0, 32, 0, 0, 0, 64, 1, 0, 0, 49, 21, 0, 0, 32, 0, 0, 0, 128, 1, 0, 0, 81, 28],
     [0, 0, 18, 1, 0, 0, 192, 1, 0, 0, 91, 28, 0, 0, 32, 0, 0, 0, 0, 2, 0, 0, 94, 28, 0, 0, 19],
     [1, 0, 0, 64, 2, 0, 0, 104, 28, 0, 0, 20, 1, 0, 0, 128, 2, 0, 0, 108, 28, 0, 0, 21, 1, 0],
     [0, 192, 2, 0, 0, 117, 28, 0, 0, 22, 1, 0, 0, 0, 3, 0, 0, 234, 9, 0, 0, 23, 1, 0, 0, 64],
     [3, 0, 0, 131, 28, 0, 0, 25, 1, 0, 0, 128, 3, 0, 0, 140, 28, 0, 0, 32, 0, 0, 0, 192, 3, 0, 0],
     [144, 28, 0, 0, 27, 1, 0, 0, 0, 4, 0, 0, 154, 28, 0, 0, 27, 1, 0, 0, 128, 4, 0, 0, 164, 28],
     [0, 0, 32, 0, 0, 0, 0, 5, 0, 0, 180, 28, 0, 0, 32, 0, 0, 0, 64, 5, 0, 0, 4, 24, 0, 0, 32, 0, 0],
     [0, 128, 5, 0, 0, 190, 28, 0, 0, 32, 0, 0, 0, 192, 5, 0, 0, 195, 28, 0, 0, 32, 0, 0, 0, 0, 6, 0],
     [0, 205, 28, 0, 0, 32, 0, 0, 0, 64, 6, 0, 0, 220, 28, 0, 0, 32, 0, 0, 0, 128, 6, 0, 0, 235, 28],
     [0, 0, 32, 0, 0, 0, 192, 6, 0, 0, 0, 0, 0, 0, 2, 0, 0, 4, 8, 0, 0, 0, 54, 0, 0, 0, 38, 0, 0, 0, 0],
     [0, 0, 0, 58, 0, 0, 0, 38, 0, 0, 0, 32, 0, 0, 0, 0, 0, 0, 0, 2, 0, 0, 4, 8, 0, 0, 0, 83, 8, 0, 0],
     [38, 0, 0, 0, 0, 0, 0, 0, 244, 28, 0, 0, 38, 0, 0, 0, 32, 0, 0, 0, 0, 0, 0, 0, 0, 0, 0, 2, 105, 1, 0],
     [0, 0, 0, 0, 0, 0, 0, 0, 2, 106, 1, 0, 0, 0, 0, 0, 0, 0, 0, 0, 2, 107, 1, 0, 0, 0, 0, 0, 0, 0, 0, 0],
     [2, 32, 0, 0, 0, 253, 28, 0, 0, 2, 0, 0, 5, 8, 0, 0, 0, 16, 29, 0, 0, 16, 0, 0, 0, 0, 0, 0, 0],
     [0, 0, 0, 0, 24, 1, 0, 0, 0, 0, 0, 0, 0, 0, 0, 0, 3, 0, 0, 4, 8, 0, 0, 0, 21, 29, 0, 0, 8, 0, 0],
     [0, 0, 0, 0, 0, 29, 29, 0, 0, 49, 0, 0, 0, 32, 0, 0, 0, 36, 29, 0, 0, 49, 0, 0, 0, 48, 0, 0, 0, 43],
     [29, 0, 0, 2, 0, 0, 5, 8, 0, 0, 0, 72, 13, 0, 0, 16, 0, 0, 0, 0, 0, 0, 0, 0, 0, 0, 0, 26, 1, 0],
     [0, 0, 0, 0, 0, 0, 0, 0, 0, 11, 0, 0, 132, 8, 0, 0, 0, 61, 29, 0, 0, 16, 0, 0, 0, 0, 0, 0, 5, 68],
     [29, 0, 0, 16, 0, 0, 0, 5, 0, 0, 14, 76, 29, 0, 0, 16, 0, 0, 0, 19, 0, 0, 5, 86, 29, 0, 0],
     [16, 0, 0, 0, 24, 0, 0, 2, 95, 29, 0, 0, 16, 0, 0, 0, 26, 0, 0, 7, 104, 29, 0, 0, 16, 0, 0, 0],
     [33, 0, 0, 4, 116, 29, 0, 0, 16, 0, 0, 0, 37, 0, 0, 1, 127, 29, 0, 0, 16, 0, 0, 0, 38, 0, 0],
     [2, 138, 29, 0, 0, 16, 0, 0, 0, 40, 0, 0, 3, 146, 29, 0, 0, 16, 0, 0, 0, 43, 0, 0, 3, 155],
     [29, 0, 0, 16, 0, 0, 0, 46, 0, 0, 18, 164, 29, 0, 0, 2, 0, 0, 4, 16, 0, 0, 0, 174, 29, 0, 0],
     [16, 0, 0, 0, 0, 0, 0, 0, 178, 29, 0, 0, 28, 1, 0, 0, 64, 0, 0, 0, 0, 0, 0, 0, 0, 0, 0, 2, 29, 1],
     [0, 0, 183, 29, 0, 0, 6, 0, 0, 4, 64, 1, 0, 0, 0, 0, 0, 0, 30, 1, 0, 0, 0, 0, 0, 0, 191, 29, 0],
     [0, 32, 0, 0, 0, 128, 8, 0, 0, 199, 29, 0, 0, 35, 1, 0, 0, 192, 8, 0, 0, 209, 29, 0, 0, 38, 0],
     [0, 0, 224, 8, 0, 0, 213, 29, 0, 0, 32, 0, 0, 0, 0, 9, 0, 0, 224, 29, 0, 0, 36, 1, 0, 0, 64],
     [9, 0, 0, 0, 0, 0, 0, 2, 0, 0, 5, 16, 1, 0, 0, 235, 29, 0, 0, 31, 1, 0, 0, 0, 0, 0, 0, 0, 0, 0],
     [0, 33, 1, 0, 0, 0, 0, 0, 0, 245, 29, 0, 0, 4, 0, 0, 4, 16, 1, 0, 0, 178, 29, 0, 0, 32, 1],
     [0, 0, 0, 0, 0, 0, 188, 17, 0, 0, 16, 0, 0, 0, 192, 7, 0, 0, 191, 17, 0, 0, 16, 0, 0, 0, 0, 8, 0, 0],
     [2, 30, 0, 0, 16, 0, 0, 0, 64, 8, 0, 0, 0, 0, 0, 0, 0, 0, 0, 3, 0, 0, 0, 0, 16, 0, 0, 0, 4, 0, 0],
     [0, 31, 0, 0, 0, 0, 0, 0, 0, 4, 0, 0, 4, 16, 1, 0, 0, 178, 29, 0, 0, 34, 1, 0, 0, 0, 0, 0, 0],
     [188, 17, 0, 0, 32, 0, 0, 0, 192, 7, 0, 0, 191, 17, 0, 0, 32, 0, 0, 0, 0, 8, 0, 0, 2, 30, 0, 0],
     [32, 0, 0, 0, 64, 8, 0, 0, 0, 0, 0, 0, 0, 0, 0, 3, 0, 0, 0, 0, 32, 0, 0, 0, 4, 0, 0, 0, 31, 0, 0, 0],
     [9, 30, 0, 0, 0, 0, 0, 8, 229, 0, 0, 0, 13, 30, 0, 0, 2, 0, 0, 4, 24, 0, 0, 0, 31, 30, 0, 0],
     [37, 1, 0, 0, 0, 0, 0, 0, 142, 0, 0, 0, 32, 0, 0, 0, 128, 0, 0, 0, 38, 30, 0, 0, 2, 0, 0, 4, 16],
     [0, 0, 0, 185, 17, 0, 0, 32, 0, 0, 0, 0, 0, 0, 0, 51, 30, 0, 0, 32, 0, 0, 0, 64, 0, 0, 0, 0, 0, 0, 0, 0],
     [0, 0, 2, 72, 1, 0, 0, 0, 0, 0, 0, 0, 0, 0, 2, 103, 1, 0, 0, 0, 0, 0, 0, 0, 0, 0, 2, 108, 1, 0],
     [0, 145, 21, 0, 0, 14, 0, 0, 4, 208, 0, 0, 0, 96, 15, 0, 0, 42, 1, 0, 0, 0, 0, 0, 0, 239, 8, 0],
     [0, 45, 1, 0, 0, 64, 0, 0, 0, 63, 1, 0, 0, 35, 0, 0, 0, 128, 0, 0, 0, 54, 30, 0, 0, 39, 0, 0, 0],
     [192, 0, 0, 0, 62, 30, 0, 0, 42, 1, 0, 0, 0, 1, 0, 0, 73, 30, 0, 0, 48, 1, 0, 0, 64, 1, 0],
     [0, 84, 30, 0, 0, 50, 1, 0, 0, 192, 2, 0, 0, 94, 30, 0, 0, 48, 1, 0, 0, 0, 3, 0, 0, 103]]"

definition task_iter_elf_8_d :: "byte list" where
  "task_iter_elf_8_d =
    concat
    [[30, 0, 0, 35, 0, 0, 0, 128, 4, 0, 0, 114, 30, 0, 0, 35, 0, 0, 0, 192, 4, 0, 0, 125, 15, 0, 0],
     [55, 0, 0, 0, 0, 5, 0, 0, 130, 30, 0, 0, 55, 0, 0, 0, 128, 5, 0, 0, 141, 30, 0, 0, 51, 1, 0, 0],
     [0, 6, 0, 0, 150, 30, 0, 0, 45, 1, 0, 0, 64, 6, 0, 0, 158, 30, 0, 0, 0, 0, 0, 8, 43, 1, 0],
     [0, 0, 0, 0, 0, 0, 0, 0, 2, 44, 1, 0, 0, 0, 0, 0, 0, 4, 0, 0, 13, 0, 0, 0, 0, 0, 0, 0, 0, 35, 0, 0, 0],
     [0, 0, 0, 0, 35, 0, 0, 0, 0, 0, 0, 0, 45, 1, 0, 0, 0, 0, 0, 0, 46, 1, 0, 0, 0, 0, 0, 0, 0, 0, 0, 2],
     [41, 1, 0, 0, 0, 0, 0, 0, 0, 0, 0, 2, 47, 1, 0, 0, 172, 30, 0, 0, 0, 0, 0, 4, 0, 0, 0, 0, 184],
     [30, 0, 0, 3, 0, 0, 4, 48, 0, 0, 0, 200, 30, 0, 0, 49, 1, 0, 0, 0, 0, 0, 0, 213, 30, 0, 0, 49],
     [1, 0, 0, 64, 0, 0, 0, 225, 30, 0, 0, 184, 0, 0, 0, 128, 0, 0, 0, 0, 0, 0, 0, 0, 0, 0, 2, 74, 1, 0],
     [0, 0, 0, 0, 0, 0, 0, 0, 2, 48, 1, 0, 0, 236, 30, 0, 0, 0, 0, 0, 8, 52, 1, 0, 0, 0, 0, 0, 0, 0, 0],
     [0, 2, 53, 1, 0, 0, 0, 0, 0, 0, 2, 0, 0, 13, 2, 0, 0, 0, 0, 0, 0, 0, 45, 1, 0, 0, 0, 0, 0, 0],
     [54, 1, 0, 0, 254, 30, 0, 0, 3, 0, 0, 6, 4, 0, 0, 0, 13, 31, 0, 0, 0, 0, 0, 0, 55, 31, 0, 0],
     [1, 0, 0, 0, 97, 31, 0, 0, 2, 0, 0, 0, 0, 0, 0, 0, 0, 0, 0, 3, 0, 0, 0, 0, 216, 0, 0, 0, 4, 0, 0, 0],
     [16, 0, 0, 0, 140, 31, 0, 0, 1, 0, 0, 4, 8, 0, 0, 0, 62, 0, 0, 0, 99, 0, 0, 0, 0, 0, 0, 0, 161],
     [31, 0, 0, 1, 0, 0, 4, 4, 0, 0, 0, 31, 1, 0, 0, 9, 0, 0, 0, 0, 0, 0, 0, 0, 0, 0, 0, 0, 0, 0, 3],
     [0, 0, 0, 0, 14, 0, 0, 0, 4, 0, 0, 0, 13, 0, 0, 0, 183, 31, 0, 0, 0, 0, 0, 14, 58, 1, 0, 0, 1, 0],
     [0, 0, 191, 31, 0, 0, 0, 0, 0, 14, 8, 0, 0, 0, 0, 0, 0, 0, 196, 31, 0, 0, 0, 0, 0, 7, 0, 0, 0, 0, 205],
     [31, 0, 0, 0, 0, 0, 7, 0, 0, 0, 0, 219, 31, 0, 0, 0, 0, 0, 7, 0, 0, 0, 0, 229, 31, 0, 0, 0, 0, 0, 7],
     [0, 0, 0, 0, 237, 11, 0, 0, 0, 0, 0, 7, 0, 0, 0, 0, 248, 31, 0, 0, 0, 0, 0, 7, 0, 0, 0, 0, 165, 16, 0],
     [0, 0, 0, 0, 7, 0, 0, 0, 0, 7, 32, 0, 0, 0, 0, 0, 7, 0, 0, 0, 0, 221, 14, 0, 0, 0, 0, 0, 7, 0, 0, 0],
     [0, 21, 32, 0, 0, 0, 0, 0, 7, 0, 0, 0, 0, 32, 32, 0, 0, 0, 0, 0, 7, 0, 0, 0, 0, 44, 32, 0, 0, 0, 0],
     [0, 7, 0, 0, 0, 0, 53, 32, 0, 0, 0, 0, 0, 7, 0, 0, 0, 0, 71, 32, 0, 0, 0, 0, 0, 7, 0, 0, 0, 0, 83],
     [32, 0, 0, 0, 0, 0, 7, 0, 0, 0, 0, 228, 1, 0, 0, 0, 0, 0, 7, 0, 0, 0, 0, 93, 32, 0, 0, 0, 0, 0, 7],
     [0, 0, 0, 0, 111, 32, 0, 0, 0, 0, 0, 7, 0, 0, 0, 0, 126, 32, 0, 0, 0, 0, 0, 7, 0, 0, 0, 0, 133, 32, 0],
     [0, 0, 0, 0, 7, 0, 0, 0, 0, 40, 8, 0, 0, 0, 0, 0, 7, 0, 0, 0, 0, 213, 14, 0, 0, 0, 0, 0, 7, 0, 0, 0],
     [0, 54, 0, 0, 0, 0, 0, 0, 7, 0, 0, 0, 0, 145, 32, 0, 0, 0, 0, 0, 7, 0, 0, 0, 0, 161, 32, 0, 0, 0, 0, 0],
     [7, 0, 0, 0, 0, 55, 5, 0, 0, 0, 0, 0, 7, 0, 0, 0, 0, 175, 32, 0, 0, 0, 0, 0, 7, 0, 0, 0, 0, 185],
     [32, 0, 0, 0, 0, 0, 7, 0, 0, 0, 0, 74, 5, 0, 0, 0, 0, 0, 7, 0, 0, 0, 0, 198, 32, 0, 0, 0, 0, 0, 7],
     [0, 0, 0, 0, 212, 32, 0, 0, 0, 0, 0, 7, 0, 0, 0, 0, 33, 6, 0, 0, 0, 0, 0, 7, 0, 0, 0, 0, 227, 32, 0],
     [0, 0, 0, 0, 7, 0, 0, 0, 0, 47, 6, 0, 0, 0, 0, 0, 7, 0, 0, 0, 0, 61, 6, 0, 0, 0, 0, 0, 7, 0, 0, 0],
     [0, 236, 32, 0, 0, 0, 0, 0, 7, 0, 0, 0, 0, 251, 32, 0, 0, 0, 0, 0, 7, 0, 0, 0, 0, 169, 6, 0, 0, 0, 0],
     [0, 7, 0, 0, 0, 0, 14, 33, 0, 0, 0, 0, 0, 7, 0, 0, 0, 0, 54, 19, 0, 0, 0, 0, 0, 7, 0, 0, 0, 0, 26],
     [33, 0, 0, 0, 0, 0, 7, 0, 0, 0, 0, 49, 33, 0, 0, 0, 0, 0, 7, 0, 0, 0, 0, 61, 33, 0, 0, 0, 0, 0, 7],
     [0, 0, 0, 0, 78, 33, 0, 0, 0, 0, 0, 7, 0, 0, 0, 0, 101, 33, 0, 0, 0, 0, 0, 7, 0, 0, 0, 0, 122, 33, 0],
     [0, 0, 0, 0, 7, 0, 0, 0, 0, 138, 33, 0, 0, 0, 0, 0, 7, 0, 0, 0, 0, 156, 33, 0, 0, 0, 0, 0, 7, 0, 0, 0],
     [0, 85, 36, 0, 0, 1, 0, 0, 15, 13, 0, 0, 0, 59, 1, 0, 0, 0, 0, 0, 0, 13, 0, 0, 0, 93, 36, 0, 0],
     [1, 0, 0, 15, 32, 0, 0, 0, 20, 0, 0, 0, 0, 0, 0, 0, 32, 0, 0, 0, 99, 36, 0, 0, 1, 0, 0, 15, 4],
     [0, 0, 0, 60, 1, 0, 0, 0, 0, 0, 0, 4, 0, 0, 0, 0, 105, 110, 116, 0, 95, 95, 65, 82, 82, 65],
     [89, 95, 83, 73, 90, 69, 95, 84, 89, 80, 69, 95, 95, 0, 95, 95, 117, 51, 50, 0],
     [117, 110, 115, 105, 103, 110, 101, 100, 32, 105, 110, 116, 0, 116, 97, 115, 107, 95, 105, 110],
     [102, 111, 0, 112, 105, 100, 0, 116, 105, 100, 0, 115, 116, 97, 116, 101, 0, 99, 111, 109, 109, 0],
     [107, 115, 116, 97, 99, 107, 95, 108, 101, 110, 0, 107, 115, 116, 97, 99, 107, 0, 112, 105],
     [100, 95, 116, 0, 95, 95, 107, 101, 114, 110, 101, 108, 95, 112, 105, 100, 95, 116, 0, 99],
     [104, 97, 114, 0, 95, 95, 117, 54, 52, 0, 117, 110, 115, 105, 103, 110, 101, 100, 32, 108],
     [111, 110, 103, 32, 108, 111, 110, 103, 0, 116, 121, 112, 101, 0, 109, 97, 120, 95, 101, 110],
     [116, 114, 105, 101, 115, 0, 107, 101, 121, 0, 118, 97, 108, 117, 101, 0, 116, 97, 115, 107, 95],
     [105, 110, 102, 111, 95, 98, 117, 102, 0, 98, 112, 102, 95, 105, 116, 101, 114, 95, 95, 116],
     [97, 115, 107, 0, 109, 101, 116, 97, 0, 116, 97, 115, 107, 0, 99, 116, 120, 0, 103, 101, 116],
     [95, 116, 97, 115, 107, 115, 0, 98, 112, 102, 95, 105, 116, 101, 114, 95, 109, 101, 116, 97],
     [0, 115, 101, 115, 115, 105, 111, 110, 95, 105, 100, 0, 115, 101, 113, 95, 110, 117, 109, 0, 115],
     [101, 113, 0, 117, 54, 52, 0, 116, 97, 115, 107, 95, 115, 116, 114, 117, 99, 116, 0, 116, 104],
     [114, 101, 97, 100, 95, 105, 110, 102, 111, 0, 95, 95, 115, 116, 97, 116, 101, 0, 115, 97],
     [118, 101, 100, 95, 115, 116, 97, 116, 101, 0, 115, 116, 97, 99, 107, 0, 117, 115, 97, 103],
     [101, 0, 102, 108, 97, 103, 115, 0, 112, 116, 114, 97, 99, 101, 0, 111, 110, 95, 99, 112, 117],
     [0, 119, 97, 107, 101, 95, 101, 110, 116, 114, 121, 0, 119, 97, 107, 101, 101, 95, 102, 108],
     [105, 112, 115, 0, 119, 97, 107, 101, 101, 95, 102, 108, 105, 112, 95, 100, 101, 99, 97, 121],
     [95, 116, 115, 0, 108, 97, 115, 116, 95, 119, 97, 107, 101, 101, 0, 114, 101, 99, 101, 110],
     [116, 95, 117, 115, 101, 100, 95, 99, 112, 117, 0, 119, 97, 107, 101, 95, 99, 112, 117, 0],
     [111, 110, 95, 114, 113, 0, 112, 114, 105, 111, 0, 115, 116, 97, 116, 105, 99, 95, 112, 114],
     [105, 111, 0, 110, 111, 114, 109, 97, 108, 95, 112, 114, 105, 111, 0, 114, 116, 95, 112, 114],
     [105, 111, 114, 105, 116, 121, 0, 115, 101, 0, 114, 116, 0, 100, 108, 0, 100, 108, 95, 115, 101],
     [114, 118, 101, 114, 0, 115, 99, 104, 101, 100, 95, 99, 108, 97, 115, 115, 0, 115, 116, 97],
     [116, 115, 0, 112, 111, 108, 105, 99, 121, 0, 109, 97, 120, 95, 97, 108, 108, 111, 119, 101],
     [100, 95, 99, 97, 112, 97, 99, 105, 116, 121, 0, 110, 114, 95, 99, 112, 117, 115, 95, 97],
     [108, 108, 111, 119, 101, 100, 0, 99, 112, 117, 115, 95, 112, 116, 114, 0, 117, 115, 101, 114],
     [95, 99, 112, 117, 115, 95, 112, 116, 114, 0, 99, 112, 117, 115, 95, 109, 97, 115, 107, 0],
     [109, 105, 103, 114, 97, 116, 105, 111, 110, 95, 112, 101, 110, 100, 105, 110, 103, 0, 109, 105],
     [103, 114, 97, 116, 105, 111, 110, 95, 100, 105, 115, 97, 98, 108, 101, 100, 0, 109, 105, 103],
     [114, 97, 116, 105, 111, 110, 95, 102, 108, 97, 103, 115, 0, 116, 114, 99, 95, 114, 101, 97],
     [100, 101, 114, 95, 110, 101, 115, 116, 105, 110, 103, 0, 116, 114, 99, 95, 105, 112, 105, 95],
     [116, 111, 95, 99, 112, 117, 0, 116, 114, 99, 95, 114, 101, 97, 100, 101, 114, 95, 115, 112],
     [101, 99, 105, 97, 108, 0, 116, 114, 99, 95, 104, 111, 108, 100, 111, 117, 116, 95, 108, 105],
     [115, 116, 0, 116, 114, 99, 95, 98, 108, 107, 100, 95, 110, 111, 100, 101, 0, 116, 114, 99],
     [95, 98, 108, 107, 100, 95, 99, 112, 117, 0, 115, 99, 104, 101, 100, 95, 105, 110, 102, 111],
     [0, 116, 97, 115, 107, 115, 0, 112, 117, 115, 104, 97, 98, 108, 101, 95, 116, 97, 115, 107],
     [115, 0, 112, 117, 115, 104, 97, 98, 108, 101, 95, 100, 108, 95, 116, 97, 115, 107, 115, 0],
     [109, 109, 0, 97, 99, 116, 105, 118, 101, 95, 109, 109, 0, 102, 97, 117, 108, 116, 115, 95],
     [100, 105, 115, 97, 98, 108, 101, 100, 95, 109, 97, 112, 112, 105, 110, 103, 0, 101, 120, 105],
     [116, 95, 115, 116, 97, 116, 101, 0, 101, 120, 105, 116, 95, 99, 111, 100, 101, 0, 101, 120],
     [105, 116, 95, 115, 105, 103, 110, 97, 108, 0, 112, 100, 101, 97, 116, 104, 95, 115, 105, 103],
     [110, 97, 108, 0, 106, 111, 98, 99, 116, 108, 0, 112, 101, 114, 115, 111, 110, 97, 108, 105],
     [116, 121, 0, 115, 99, 104, 101, 100, 95, 114, 101, 115, 101, 116, 95, 111, 110, 95, 102, 111],
     [114, 107, 0, 115, 99, 104, 101, 100, 95, 99, 111, 110, 116, 114, 105, 98, 117, 116, 101, 115],
     [95, 116, 111, 95, 108, 111, 97, 100, 0, 115, 99, 104, 101, 100, 95, 109, 105, 103, 114, 97],
     [116, 101, 100, 0, 115, 99, 104, 101, 100, 95, 116, 97, 115, 107, 95, 104, 111, 116, 0, 115],
     [99, 104, 101, 100, 95, 114, 101, 109, 111, 116, 101, 95, 119, 97, 107, 101, 117, 112, 0, 105],
     [110, 95, 101, 120, 101, 99, 118, 101, 0, 105, 110, 95, 105, 111, 119, 97, 105, 116, 0, 105],
     [110, 95, 110, 102, 95, 100, 117, 112, 108, 105, 99, 97, 116, 101, 0, 97, 116, 111, 109, 105],
     [99, 95, 102, 108, 97, 103, 115, 0, 114, 101, 115, 116, 97, 114, 116, 95, 98, 108, 111, 99],
     [107, 0, 116, 103, 105, 100, 0, 114, 101, 97, 108, 95, 112, 97, 114, 101, 110, 116, 0, 112, 97],
     [114, 101, 110, 116, 0, 99, 104, 105, 108, 100, 114, 101, 110, 0, 115, 105, 98, 108, 105, 110],
     [103, 0, 103, 114, 111, 117, 112, 95, 108, 101, 97, 100, 101, 114, 0, 112, 116, 114, 97, 99],
     [101, 100, 0, 112, 116, 114, 97, 99, 101, 95, 101, 110, 116, 114, 121, 0, 116, 104, 114, 101],
     [97, 100, 95, 112, 105, 100, 0, 112, 105, 100, 95, 108, 105, 110, 107, 115, 0, 116, 104, 114],
     [101, 97, 100, 95, 110, 111, 100, 101, 0, 118, 102, 111, 114, 107, 95, 100, 111, 110, 101, 0],
     [115, 101, 116, 95, 99, 104, 105, 108, 100, 95, 116, 105, 100, 0, 99, 108, 101, 97, 114, 95],
     [99, 104, 105, 108, 100, 95, 116, 105, 100, 0, 119, 111, 114, 107, 101, 114, 95, 112, 114, 105],
     [118, 97, 116, 101, 0, 117, 116, 105, 109, 101, 0, 115, 116, 105, 109, 101, 0, 103, 116, 105, 109],
     [101, 0, 112, 114, 101, 118, 95, 99, 112, 117, 116, 105, 109, 101, 0, 110, 118, 99, 115, 119, 0],
     [110, 105, 118, 99, 115, 119, 0, 115, 116, 97, 114, 116, 95, 116, 105, 109, 101, 0, 115, 116],
     [97, 114, 116, 95, 98, 111, 111, 116, 116, 105, 109, 101, 0, 109, 105, 110, 95, 102, 108, 116],
     [0, 109, 97, 106, 95, 102, 108, 116, 0, 112, 111, 115, 105, 120, 95, 99, 112, 117, 116, 105],
     [109, 101, 114, 115, 0, 112, 116, 114, 97, 99, 101, 114, 95, 99, 114, 101, 100, 0, 114, 101],
     [97, 108, 95, 99, 114, 101, 100, 0, 99, 114, 101, 100, 0, 110, 97, 109, 101, 105, 100, 97],
     [116, 97, 0, 102, 115, 0, 102, 105, 108, 101, 115, 0, 110, 115, 112, 114, 111, 120, 121, 0, 115],
     [105, 103, 110, 97, 108, 0, 115, 105, 103, 104, 97, 110, 100, 0, 98, 108, 111, 99, 107, 101],
     [100, 0, 114, 101, 97, 108, 95, 98, 108, 111, 99, 107, 101, 100, 0, 115, 97, 118, 101, 100],
     [95, 115, 105, 103, 109, 97, 115, 107, 0, 112, 101, 110, 100, 105, 110, 103, 0, 115, 97, 115],
     [95, 115, 115, 95, 115, 112, 0, 115, 97, 115, 95, 115, 115, 95, 115, 105, 122, 101, 0, 115],
     [97, 115, 95, 115, 115, 95, 102, 108, 97, 103, 115, 0, 116, 97, 115, 107, 95, 119, 111, 114],
     [107, 115, 0, 115, 101, 99, 99, 111, 109, 112, 0, 115, 121, 115, 99, 97, 108, 108, 95, 100],
     [105, 115, 112, 97, 116, 99, 104, 0, 112, 97, 114, 101, 110, 116, 95, 101, 120, 101, 99, 95],
     [105, 100, 0, 115, 101, 108, 102, 95, 101, 120, 101, 99, 95, 105, 100, 0, 97, 108, 108, 111],
     [99, 95, 108, 111, 99, 107, 0, 112, 105, 95, 108, 111, 99, 107, 0, 119, 97, 107, 101, 95],
     [113, 0, 98, 108, 111, 99, 107, 101, 100, 95, 111, 110, 0, 106, 111, 117, 114, 110, 97, 108],
     [95, 105, 110, 102, 111, 0, 98, 105, 111, 95, 108, 105, 115, 116, 0, 112, 108, 117, 103, 0, 114],
     [101, 99, 108, 97, 105, 109, 95, 115, 116, 97, 116, 101, 0, 105, 111, 95, 99, 111, 110, 116],
     [101, 120, 116, 0, 112, 116, 114, 97, 99, 101, 95, 109, 101, 115, 115, 97, 103, 101, 0, 108],
     [97, 115, 116, 95, 115, 105, 103, 105, 110, 102, 111, 0, 105, 111, 97, 99, 0, 112, 101, 114],
     [102, 95, 114, 101, 99, 117, 114, 115, 105, 111, 110, 0, 112, 101, 114, 102, 95, 101, 118, 101],
     [110, 116, 95, 99, 116, 120, 112, 0, 112, 101, 114, 102, 95, 101, 118, 101, 110, 116, 95, 109],
     [117, 116, 101, 120, 0, 112, 101, 114, 102, 95, 101, 118, 101, 110, 116, 95, 108, 105, 115, 116],
     [0, 112, 101, 114, 102, 95, 99, 116, 120, 95, 100, 97, 116, 97, 0, 116, 108, 98, 95, 117],
     [98, 99, 0, 115, 112, 108, 105, 99, 101, 95, 112, 105, 112, 101, 0, 116, 97, 115, 107, 95],
     [102, 114, 97, 103, 0, 110, 114, 95, 100, 105, 114, 116, 105, 101, 100, 0, 110, 114, 95, 100],
     [105, 114, 116, 105, 101, 100, 95, 112, 97, 117, 115, 101, 0, 100, 105, 114, 116, 121, 95, 112],
     [97, 117, 115, 101, 100, 95, 119, 104, 101, 110, 0, 116, 105, 109, 101, 114, 95, 115, 108, 97],
     [99, 107, 95, 110, 115, 0, 100, 101, 102, 97, 117, 108, 116, 95, 116, 105, 109, 101, 114, 95],
     [115, 108, 97, 99, 107, 95, 110, 115, 0, 99, 117, 114, 114, 95, 114, 101, 116, 95, 115, 116],
     [97, 99, 107, 0, 99, 117, 114, 114, 95, 114, 101, 116, 95, 100, 101, 112, 116, 104, 0, 114],
     [101, 116, 95, 115, 116, 97, 99, 107, 0, 102, 116, 114, 97, 99, 101, 95, 116, 105, 109, 101],
     [115, 116, 97, 109, 112, 0, 102, 116, 114, 97, 99, 101, 95, 115, 108, 101, 101, 112, 116, 105],
     [109, 101, 0, 116, 114, 97, 99, 101, 95, 111, 118, 101, 114, 114, 117, 110, 0, 116, 114, 97],
     [99, 105, 110, 103, 95, 103, 114, 97, 112, 104, 95, 112, 97, 117, 115, 101, 0, 116, 114, 97],
     [99, 101, 95, 114, 101, 99, 117, 114, 115, 105, 111, 110, 0, 117, 116, 97, 115, 107, 0, 107],
     [109, 97, 112, 95, 99, 116, 114, 108, 0, 114, 99, 117, 0, 114, 99, 117, 95, 117, 115, 101],
     [114, 115, 0, 112, 97, 103, 101, 102, 97, 117, 108, 116, 95, 100, 105, 115, 97, 98, 108, 101],
     [100, 0, 111, 111, 109, 95, 114, 101, 97, 112, 101, 114, 95, 108, 105, 115, 116, 0, 111, 111],
     [109, 95, 114, 101, 97, 112, 101, 114, 95, 116, 105, 109, 101, 114, 0, 115, 116, 97, 99, 107],
     [95, 118, 109, 95, 97, 114, 101, 97, 0, 115, 116, 97, 99, 107, 95, 114, 101, 102, 99, 111],
     [117, 110, 116, 0, 98, 112, 102, 95, 115, 116, 111, 114, 97, 103, 101, 0, 98, 112, 102, 95],
     [99, 116, 120, 0, 98, 112, 102, 95, 110, 101, 116, 95, 99, 111, 110, 116, 101, 120, 116, 0],
     [107, 114, 101, 116, 112, 114, 111, 98, 101, 95, 105, 110, 115, 116, 97, 110, 99, 101, 115, 0],
     [116, 104, 114, 101, 97, 100, 0, 99, 112, 117, 0, 117, 110, 115, 105, 103, 110, 101, 100, 32],
     [108, 111, 110, 103, 0, 112, 114, 101, 101, 109, 112, 116, 95, 99, 111, 117, 110, 116, 0, 112],
     [114, 101, 101, 109, 112, 116, 0, 99, 111, 117, 110, 116, 0, 110, 101, 101, 100, 95, 114, 101]]"

definition task_iter_elf_8_e :: "byte list" where
  "task_iter_elf_8_e =
    concat
    [[115, 99, 104, 101, 100, 0, 117, 51, 50, 0, 114, 101, 102, 99, 111, 117, 110, 116, 95, 116, 0],
     [114, 101, 102, 99, 111, 117, 110, 116, 95, 115, 116, 114, 117, 99, 116, 0, 114, 101, 102, 115],
     [0, 97, 116, 111, 109, 105, 99, 95, 116, 0, 99, 111, 117, 110, 116, 101, 114, 0, 95, 95, 99],
     [97, 108, 108, 95, 115, 105, 110, 103, 108, 101, 95, 110, 111, 100, 101, 0, 108, 108, 105, 115],
     [116, 0, 115, 114, 99, 0, 100, 115, 116, 0, 108, 108, 105, 115, 116, 95, 110, 111, 100, 101, 0],
     [110, 101, 120, 116, 0, 117, 95, 102, 108, 97, 103, 115, 0, 97, 95, 102, 108, 97, 103, 115, 0],
     [117, 49, 54, 0, 95, 95, 117, 49, 54, 0, 117, 110, 115, 105, 103, 110, 101, 100, 32, 115],
     [104, 111, 114, 116, 0, 115, 99, 104, 101, 100, 95, 101, 110, 116, 105, 116, 121, 0, 108, 111],
     [97, 100, 0, 114, 117, 110, 95, 110, 111, 100, 101, 0, 100, 101, 97, 100, 108, 105, 110, 101, 0],
     [109, 105, 110, 95, 118, 114, 117, 110, 116, 105, 109, 101, 0, 109, 105, 110, 95, 115, 108, 105],
     [99, 101, 0, 103, 114, 111, 117, 112, 95, 110, 111, 100, 101, 0, 115, 99, 104, 101, 100, 95],
     [100, 101, 108, 97, 121, 101, 100, 0, 114, 101, 108, 95, 100, 101, 97, 100, 108, 105, 110, 101],
     [0, 99, 117, 115, 116, 111, 109, 95, 115, 108, 105, 99, 101, 0, 101, 120, 101, 99, 95, 115],
     [116, 97, 114, 116, 0, 115, 117, 109, 95, 101, 120, 101, 99, 95, 114, 117, 110, 116, 105, 109],
     [101, 0, 112, 114, 101, 118, 95, 115, 117, 109, 95, 101, 120, 101, 99, 95, 114, 117, 110, 116],
     [105, 109, 101, 0, 118, 114, 117, 110, 116, 105, 109, 101, 0, 115, 108, 105, 99, 101, 0, 110, 114],
     [95, 109, 105, 103, 114, 97, 116, 105, 111, 110, 115, 0, 97, 118, 103, 0, 108, 111, 97, 100],
     [95, 119, 101, 105, 103, 104, 116, 0, 119, 101, 105, 103, 104, 116, 0, 105, 110, 118, 95, 119],
     [101, 105, 103, 104, 116, 0, 114, 98, 95, 110, 111, 100, 101, 0, 95, 95, 114, 98, 95, 112],
     [97, 114, 101, 110, 116, 95, 99, 111, 108, 111, 114, 0, 114, 98, 95, 114, 105, 103, 104, 116],
     [0, 114, 98, 95, 108, 101, 102, 116, 0, 108, 105, 115, 116, 95, 104, 101, 97, 100, 0, 112, 114],
     [101, 118, 0, 117, 110, 115, 105, 103, 110, 101, 100, 32, 99, 104, 97, 114, 0, 118, 108, 97],
     [103, 0, 118, 112, 114, 111, 116, 0, 115, 54, 52, 0, 95, 95, 115, 54, 52, 0, 108, 111, 110],
     [103, 32, 108, 111, 110, 103, 0, 115, 99, 104, 101, 100, 95, 97, 118, 103, 0, 108, 97, 115],
     [116, 95, 117, 112, 100, 97, 116, 101, 95, 116, 105, 109, 101, 0, 108, 111, 97, 100, 95, 115],
     [117, 109, 0, 114, 117, 110, 110, 97, 98, 108, 101, 95, 115, 117, 109, 0, 117, 116, 105, 108],
     [95, 115, 117, 109, 0, 112, 101, 114, 105, 111, 100, 95, 99, 111, 110, 116, 114, 105, 98, 0],
     [108, 111, 97, 100, 95, 97, 118, 103, 0, 114, 117, 110, 110, 97, 98, 108, 101, 95, 97, 118],
     [103, 0, 117, 116, 105, 108, 95, 97, 118, 103, 0, 117, 116, 105, 108, 95, 101, 115, 116, 0, 115],
     [99, 104, 101, 100, 95, 114, 116, 95, 101, 110, 116, 105, 116, 121, 0, 114, 117, 110, 95, 108],
     [105, 115, 116, 0, 116, 105, 109, 101, 111, 117, 116, 0, 119, 97, 116, 99, 104, 100, 111, 103],
     [95, 115, 116, 97, 109, 112, 0, 116, 105, 109, 101, 95, 115, 108, 105, 99, 101, 0, 111, 110],
     [95, 108, 105, 115, 116, 0, 98, 97, 99, 107, 0, 115, 99, 104, 101, 100, 95, 100, 108, 95],
     [101, 110, 116, 105, 116, 121, 0, 100, 108, 95, 114, 117, 110, 116, 105, 109, 101, 0, 100, 108],
     [95, 100, 101, 97, 100, 108, 105, 110, 101, 0, 100, 108, 95, 112, 101, 114, 105, 111, 100, 0],
     [100, 108, 95, 98, 119, 0, 100, 108, 95, 100, 101, 110, 115, 105, 116, 121, 0, 114, 117, 110],
     [116, 105, 109, 101, 0, 100, 108, 95, 116, 104, 114, 111, 116, 116, 108, 101, 100, 0, 100, 108],
     [95, 121, 105, 101, 108, 100, 101, 100, 0, 100, 108, 95, 110, 111, 110, 95, 99, 111, 110, 116],
     [101, 110, 100, 105, 110, 103, 0, 100, 108, 95, 111, 118, 101, 114, 114, 117, 110, 0, 100, 108],
     [95, 115, 101, 114, 118, 101, 114, 95, 97, 99, 116, 105, 118, 101, 0, 100, 108, 95, 100, 101],
     [102, 101, 114, 0, 100, 108, 95, 100, 101, 102, 101, 114, 95, 97, 114, 109, 101, 100, 0, 100],
     [108, 95, 100, 101, 102, 101, 114, 95, 114, 117, 110, 110, 105, 110, 103, 0, 100, 108, 95, 116],
     [105, 109, 101, 114, 0, 105, 110, 97, 99, 116, 105, 118, 101, 95, 116, 105, 109, 101, 114, 0],
     [114, 113, 0, 115, 101, 114, 118, 101, 114, 95, 112, 105, 99, 107, 95, 116, 97, 115, 107, 0],
     [104, 114, 116, 105, 109, 101, 114, 0, 110, 111, 100, 101, 0, 95, 115, 111, 102, 116, 101, 120],
     [112, 105, 114, 101, 115, 0, 102, 117, 110, 99, 116, 105, 111, 110, 0, 98, 97, 115, 101, 0, 105],
     [115, 95, 114, 101, 108, 0, 105, 115, 95, 115, 111, 102, 116, 0, 105, 115, 95, 104, 97, 114],
     [100, 0, 116, 105, 109, 101, 114, 113, 117, 101, 117, 101, 95, 110, 111, 100, 101, 0, 101, 120],
     [112, 105, 114, 101, 115, 0, 107, 116, 105, 109, 101, 95, 116, 0, 104, 114, 116, 105, 109, 101],
     [114, 95, 114, 101, 115, 116, 97, 114, 116, 0, 72, 82, 84, 73, 77, 69, 82, 95, 78, 79],
     [82, 69, 83, 84, 65, 82, 84, 0, 72, 82, 84, 73, 77, 69, 82, 95, 82, 69, 83, 84],
     [65, 82, 84, 0, 117, 56, 0, 95, 95, 117, 56, 0, 100, 108, 95, 115, 101, 114, 118, 101, 114],
     [95, 112, 105, 99, 107, 95, 102, 0, 115, 99, 104, 101, 100, 95, 115, 116, 97, 116, 105, 115],
     [116, 105, 99, 115, 0, 99, 112, 117, 109, 97, 115, 107, 95, 116, 0, 99, 112, 117, 109, 97],
     [115, 107, 0, 98, 105, 116, 115, 0, 114, 99, 117, 95, 115, 112, 101, 99, 105, 97, 108, 0, 98],
     [0, 115, 0, 110, 101, 101, 100, 95, 113, 115, 0, 101, 120, 112, 95, 104, 105, 110, 116, 0, 110],
     [101, 101, 100, 95, 109, 98, 0, 112, 108, 105, 115, 116, 95, 110, 111, 100, 101, 0, 112, 114],
     [105, 111, 95, 108, 105, 115, 116, 0, 110, 111, 100, 101, 95, 108, 105, 115, 116, 0, 97, 114],
     [99, 104, 95, 100, 97, 116, 97, 0, 102, 110, 0, 108, 111, 110, 103, 0, 102, 117, 116, 101, 120],
     [0, 110, 97, 110, 111, 115, 108, 101, 101, 112, 0, 112, 111, 108, 108, 0, 117, 97, 100, 100, 114],
     [0, 118, 97, 108, 0, 98, 105, 116, 115, 101, 116, 0, 116, 105, 109, 101, 0, 117, 97, 100, 100],
     [114, 50, 0, 99, 108, 111, 99, 107, 105, 100, 0, 99, 108, 111, 99, 107, 105, 100, 95, 116, 0],
     [95, 95, 107, 101, 114, 110, 101, 108, 95, 99, 108, 111, 99, 107, 105, 100, 95, 116, 0, 116],
     [105, 109, 101, 115, 112, 101, 99, 95, 116, 121, 112, 101, 0, 84, 84, 95, 78, 79, 78, 69],
     [0, 84, 84, 95, 78, 65, 84, 73, 86, 69, 0, 84, 84, 95, 67, 79, 77, 80, 65, 84, 0],
     [114, 109, 116, 112, 0, 99, 111, 109, 112, 97, 116, 95, 114, 109, 116, 112, 0, 117, 102, 100],
     [115, 0, 110, 102, 100, 115, 0, 104, 97, 115, 95, 116, 105, 109, 101, 111, 117, 116, 0, 116, 118],
     [95, 115, 101, 99, 0, 116, 118, 95, 110, 115, 101, 99, 0, 104, 108, 105, 115, 116, 95, 110],
     [111, 100, 101, 0, 112, 112, 114, 101, 118, 0, 108, 111, 99, 107, 0, 114, 97, 119, 95, 115, 112],
     [105, 110, 108, 111, 99, 107, 95, 116, 0, 114, 97, 119, 95, 115, 112, 105, 110, 108, 111, 99],
     [107, 0, 114, 97, 119, 95, 108, 111, 99, 107, 0, 97, 114, 99, 104, 95, 115, 112, 105, 110],
     [108, 111, 99, 107, 95, 116, 0, 113, 115, 112, 105, 110, 108, 111, 99, 107, 0, 108, 111, 99],
     [107, 101, 100, 0, 108, 111, 99, 107, 101, 100, 95, 112, 101, 110, 100, 105, 110, 103, 0, 116],
     [97, 105, 108, 0, 117, 105, 100, 0, 103, 105, 100, 0, 115, 117, 105, 100, 0, 115, 103, 105, 100, 0],
     [101, 117, 105, 100, 0, 101, 103, 105, 100, 0, 102, 115, 117, 105, 100, 0, 102, 115, 103, 105, 100],
     [0, 115, 101, 99, 117, 114, 101, 98, 105, 116, 115, 0, 99, 97, 112, 95, 105, 110, 104, 101],
     [114, 105, 116, 97, 98, 108, 101, 0, 99, 97, 112, 95, 112, 101, 114, 109, 105, 116, 116, 101],
     [100, 0, 99, 97, 112, 95, 101, 102, 102, 101, 99, 116, 105, 118, 101, 0, 99, 97, 112, 95],
     [98, 115, 101, 116, 0, 99, 97, 112, 95, 97, 109, 98, 105, 101, 110, 116, 0, 117, 115, 101],
     [114, 0, 117, 115, 101, 114, 95, 110, 115, 0, 117, 99, 111, 117, 110, 116, 115, 0, 103, 114, 111],
     [117, 112, 95, 105, 110, 102, 111, 0, 97, 116, 111, 109, 105, 99, 95, 108, 111, 110, 103, 95],
     [116, 0, 97, 116, 111, 109, 105, 99, 54, 52, 95, 116, 0, 107, 117, 105, 100, 95, 116, 0, 117],
     [105, 100, 95, 116, 0, 95, 95, 107, 101, 114, 110, 101, 108, 95, 117, 105, 100, 51, 50, 95],
     [116, 0, 107, 103, 105, 100, 95, 116, 0, 103, 105, 100, 95, 116, 0, 95, 95, 107, 101, 114, 110],
     [101, 108, 95, 103, 105, 100, 51, 50, 95, 116, 0, 107, 101, 114, 110, 101, 108, 95, 99, 97],
     [112, 95, 116, 0, 110, 111, 110, 95, 114, 99, 117, 0, 99, 97, 108, 108, 98, 97, 99, 107],
     [95, 104, 101, 97, 100, 0, 102, 117, 110, 99, 0, 115, 105, 103, 115, 101, 116, 95, 116, 0, 115],
     [105, 103, 0, 115, 105, 103, 112, 101, 110, 100, 105, 110, 103, 0, 108, 105, 115, 116, 0, 115, 105],
     [122, 101, 95, 116, 0, 95, 95, 107, 101, 114, 110, 101, 108, 95, 115, 105, 122, 101, 95, 116],
     [0, 95, 95, 107, 101, 114, 110, 101, 108, 95, 117, 108, 111, 110, 103, 95, 116, 0, 115, 121],
     [115, 99, 97, 108, 108, 95, 117, 115, 101, 114, 95, 100, 105, 115, 112, 97, 116, 99, 104, 0],
     [115, 112, 105, 110, 108, 111, 99, 107, 95, 116, 0, 115, 112, 105, 110, 108, 111, 99, 107, 0],
     [114, 108, 111, 99, 107, 0, 119, 97, 107, 101, 95, 113, 95, 110, 111, 100, 101, 0, 107, 101],
     [114, 110, 101, 108, 95, 115, 105, 103, 105, 110, 102, 111, 95, 116, 0, 116, 97, 115, 107, 95],
     [105, 111, 95, 97, 99, 99, 111, 117, 110, 116, 105, 110, 103, 0, 109, 117, 116, 101, 120, 0],
     [111, 119, 110, 101, 114, 0, 119, 97, 105, 116, 95, 108, 111, 99, 107, 0, 111, 115, 113, 0, 119],
     [97, 105, 116, 95, 108, 105, 115, 116, 0, 111, 112, 116, 105, 109, 105, 115, 116, 105, 99, 95],
     [115, 112, 105, 110, 95, 113, 117, 101, 117, 101, 0, 116, 108, 98, 102, 108, 117, 115, 104, 95],
     [117, 110, 109, 97, 112, 95, 98, 97, 116, 99, 104, 0, 97, 114, 99, 104, 0, 102, 108, 117],
     [115, 104, 95, 114, 101, 113, 117, 105, 114, 101, 100, 0, 119, 114, 105, 116, 97, 98, 108, 101],
     [0, 97, 114, 99, 104, 95, 116, 108, 98, 102, 108, 117, 115, 104, 95, 117, 110, 109, 97, 112],
     [95, 98, 97, 116, 99, 104, 0, 98, 111, 111, 108, 0, 95, 66, 111, 111, 108, 0, 112, 97, 103],
     [101, 95, 102, 114, 97, 103, 0, 112, 97, 103, 101, 0, 111, 102, 102, 115, 101, 116, 0, 115, 105],
     [122, 101, 0, 116, 105, 109, 101, 114, 95, 108, 105, 115, 116, 0, 101, 110, 116, 114, 121, 0, 108],
     [108, 105, 115, 116, 95, 104, 101, 97, 100, 0, 102, 105, 114, 115, 116, 0, 116, 104, 114, 101],
     [97, 100, 95, 115, 116, 114, 117, 99, 116, 0, 99, 112, 117, 95, 99, 111, 110, 116, 101, 120],
     [116, 0, 117, 119, 0, 102, 112, 95, 116, 121, 112, 101, 0, 102, 112, 115, 105, 109, 100, 95, 99],
     [112, 117, 0, 115, 118, 101, 95, 115, 116, 97, 116, 101, 0, 115, 109, 101, 95, 115, 116, 97],
     [116, 101, 0, 118, 108, 0, 118, 108, 95, 111, 110, 101, 120, 101, 99, 0, 102, 97, 117, 108, 116],
     [95, 97, 100, 100, 114, 101, 115, 115, 0, 102, 97, 117, 108, 116, 95, 99, 111, 100, 101, 0],
     [100, 101, 98, 117, 103, 0, 107, 101, 114, 110, 101, 108, 95, 102, 112, 115, 105, 109, 100, 95],
     [115, 116, 97, 116, 101, 0, 107, 101, 114, 110, 101, 108, 95, 102, 112, 115, 105, 109, 100, 95],
     [99, 112, 117, 0, 115, 99, 116, 108, 114, 95, 117, 115, 101, 114, 0, 115, 118, 99, 114, 0, 116],
     [112, 105, 100, 114, 50, 95, 101, 108, 48, 0, 112, 111, 114, 95, 101, 108, 48, 0, 120, 49],
     [57, 0, 120, 50, 48, 0, 120, 50, 49, 0, 120, 50, 50, 0, 120, 50, 51, 0, 120, 50, 52, 0],
     [120, 50, 53, 0, 120, 50, 54, 0, 120, 50, 55, 0, 120, 50, 56, 0, 102, 112, 0, 115, 112, 0],
     [112, 99, 0, 116, 112, 95, 118, 97, 108, 117, 101, 0, 116, 112, 50, 95, 118, 97, 108, 117],
     [101, 0, 102, 112, 109, 114, 0, 112, 97, 100, 0, 102, 112, 115, 105, 109, 100, 95, 115, 116, 97],
     [116, 101, 0, 117, 115, 101, 114, 95, 102, 112, 115, 105, 109, 100, 95, 115, 116, 97, 116, 101],
     [0, 118, 114, 101, 103, 115, 0, 102, 112, 115, 114, 0, 102, 112, 99, 114, 0, 95, 95, 114, 101],
     [115, 101, 114, 118, 101, 100, 0, 117, 110, 115, 105, 103, 110, 101, 100, 32, 95, 95, 105, 110],
     [116, 49, 50, 56, 0, 70, 80, 95, 83, 84, 65, 84, 69, 95, 67, 85, 82, 82, 69, 78],
     [84, 0, 70, 80, 95, 83, 84, 65, 84, 69, 95, 70, 80, 83, 73, 77, 68, 0, 70, 80],
     [95, 83, 84, 65, 84, 69, 95, 83, 86, 69, 0, 100, 101, 98, 117, 103, 95, 105, 110, 102],
     [111, 0, 115, 117, 115, 112, 101, 110, 100, 101, 100, 95, 115, 116, 101, 112, 0, 98, 112, 115],
     [95, 100, 105, 115, 97, 98, 108, 101, 100, 0, 119, 112, 115, 95, 100, 105, 115, 97, 98, 108],
     [101, 100, 0, 104, 98, 112, 95, 98, 114, 101, 97, 107, 0, 104, 98, 112, 95, 119, 97, 116],
     [99, 104, 0, 112, 101, 114, 102, 95, 101, 118, 101, 110, 116, 0, 101, 118, 101, 110, 116, 95],
     [101, 110, 116, 114, 121, 0, 115, 105, 98, 108, 105, 110, 103, 95, 108, 105, 115, 116, 0, 97],
     [99, 116, 105, 118, 101, 95, 108, 105, 115, 116, 0, 103, 114, 111, 117, 112, 95, 105, 110, 100],
     [101, 120, 0, 109, 105, 103, 114, 97, 116, 101, 95, 101, 110, 116, 114, 121, 0, 104, 108, 105],
     [115, 116, 95, 101, 110, 116, 114, 121, 0, 97, 99, 116, 105, 118, 101, 95, 101, 110, 116, 114],
     [121, 0, 110, 114, 95, 115, 105, 98, 108, 105, 110, 103, 115, 0, 101, 118, 101, 110, 116, 95],
     [99, 97, 112, 115, 0, 103, 114, 111, 117, 112, 95, 99, 97, 112, 115, 0, 103, 114, 111, 117],
     [112, 95, 103, 101, 110, 101, 114, 97, 116, 105, 111, 110, 0, 112, 109, 117, 0, 112, 109, 117],
     [95, 112, 114, 105, 118, 97, 116, 101, 0, 97, 116, 116, 97, 99, 104, 95, 115, 116, 97, 116],
     [101, 0, 99, 104, 105, 108, 100, 95, 99, 111, 117, 110, 116, 0, 116, 111, 116, 97, 108, 95],
     [116, 105, 109, 101, 95, 101, 110, 97, 98, 108, 101, 100, 0, 116, 111, 116, 97, 108, 95, 116],
     [105, 109, 101, 95, 114, 117, 110, 110, 105, 110, 103, 0, 116, 115, 116, 97, 109, 112, 0, 97],
     [116, 116, 114, 0, 104, 101, 97, 100, 101, 114, 95, 115, 105, 122, 101, 0, 105, 100, 95, 104],
     [101, 97, 100, 101, 114, 95, 115, 105, 122, 101, 0, 114, 101, 97, 100, 95, 115, 105, 122, 101],
     [0, 104, 119, 0, 112, 109, 117, 95, 99, 116, 120, 0, 114, 101, 102, 99, 111, 117, 110, 116, 0],
     [99, 104, 105, 108, 100, 95, 116, 111, 116, 97, 108, 95, 116, 105, 109, 101, 95, 101, 110],
     [97, 98, 108, 101, 100, 0, 99, 104, 105, 108, 100, 95, 116, 111, 116, 97, 108, 95, 116, 105],
     [109, 101, 95, 114, 117, 110, 110, 105, 110, 103, 0, 99, 104, 105, 108, 100, 95, 109, 117, 116]]"

definition task_iter_elf_8_f :: "byte list" where
  "task_iter_elf_8_f =
    concat
    [[101, 120, 0, 99, 104, 105, 108, 100, 95, 108, 105, 115, 116, 0, 111, 110, 99, 112, 117, 0, 111],
     [119, 110, 101, 114, 95, 101, 110, 116, 114, 121, 0, 109, 109, 97, 112, 95, 109, 117, 116, 101],
     [120, 0, 109, 109, 97, 112, 95, 99, 111, 117, 110, 116, 0, 114, 98, 0, 114, 98, 95, 101, 110],
     [116, 114, 121, 0, 114, 99, 117, 95, 98, 97, 116, 99, 104, 101, 115, 0, 114, 99, 117, 95],
     [112, 101, 110, 100, 105, 110, 103, 0, 119, 97, 105, 116, 113, 0, 102, 97, 115, 121, 110, 99, 0],
     [112, 101, 110, 100, 105, 110, 103, 95, 119, 97, 107, 101, 117, 112, 0, 112, 101, 110, 100, 105],
     [110, 103, 95, 107, 105, 108, 108, 0, 112, 101, 110, 100, 105, 110, 103, 95, 100, 105, 115, 97],
     [98, 108, 101, 0, 112, 101, 110, 100, 105, 110, 103, 95, 97, 100, 100, 114, 0, 112, 101, 110],
     [100, 105, 110, 103, 95, 105, 114, 113, 0, 112, 101, 110, 100, 105, 110, 103, 95, 100, 105, 115],
     [97, 98, 108, 101, 95, 105, 114, 113, 0, 112, 101, 110, 100, 105, 110, 103, 95, 116, 97, 115],
     [107, 0, 112, 101, 110, 100, 105, 110, 103, 95, 119, 111, 114, 107, 0, 101, 118, 101, 110, 116],
     [95, 108, 105, 109, 105, 116, 0, 97, 100, 100, 114, 95, 102, 105, 108, 116, 101, 114, 115, 0],
     [97, 100, 100, 114, 95, 102, 105, 108, 116, 101, 114, 95, 114, 97, 110, 103, 101, 115, 0, 97],
     [100, 100, 114, 95, 102, 105, 108, 116, 101, 114, 115, 95, 103, 101, 110, 0, 97, 117, 120, 95],
     [101, 118, 101, 110, 116, 0, 100, 101, 115, 116, 114, 111, 121, 0, 110, 115, 0, 105, 100, 0, 108],
     [111, 115, 116, 95, 115, 97, 109, 112, 108, 101, 115, 0, 99, 108, 111, 99, 107, 0, 111, 118],
     [101, 114, 102, 108, 111, 119, 95, 104, 97, 110, 100, 108, 101, 114, 0, 111, 118, 101, 114, 102],
     [108, 111, 119, 95, 104, 97, 110, 100, 108, 101, 114, 95, 99, 111, 110, 116, 101, 120, 116, 0],
     [112, 114, 111, 103, 0, 98, 112, 102, 95, 99, 111, 111, 107, 105, 101, 0, 116, 112, 95, 101],
     [118, 101, 110, 116, 0, 102, 105, 108, 116, 101, 114, 0, 102, 116, 114, 97, 99, 101, 95, 111],
     [112, 115, 0, 115, 98, 95, 108, 105, 115, 116, 0, 112, 109, 117, 95, 108, 105, 115, 116, 0, 111],
     [114, 105, 103, 95, 116, 121, 112, 101, 0, 112, 101, 114, 102, 95, 101, 118, 101, 110, 116, 95],
     [115, 116, 97, 116, 101, 0, 80, 69, 82, 70, 95, 69, 86, 69, 78, 84, 95, 83, 84, 65],
     [84, 69, 95, 68, 69, 65, 68, 0, 80, 69, 82, 70, 95, 69, 86, 69, 78, 84, 95, 83],
     [84, 65, 84, 69, 95, 82, 69, 86, 79, 75, 69, 68, 0, 80, 69, 82, 70, 95, 69, 86],
     [69, 78, 84, 95, 83, 84, 65, 84, 69, 95, 69, 88, 73, 84, 0, 80, 69, 82, 70, 95],
     [69, 86, 69, 78, 84, 95, 83, 84, 65, 84, 69, 95, 69, 82, 82, 79, 82, 0, 80, 69],
     [82, 70, 95, 69, 86, 69, 78, 84, 95, 83, 84, 65, 84, 69, 95, 79, 70, 70, 0, 80],
     [69, 82, 70, 95, 69, 86, 69, 78, 84, 95, 83, 84, 65, 84, 69, 95, 73, 78, 65],
     [67, 84, 73, 86, 69, 0, 80, 69, 82, 70, 95, 69, 86, 69, 78, 84, 95, 83, 84, 65],
     [84, 69, 95, 65, 67, 84, 73, 86, 69, 0, 108, 111, 99, 97, 108, 54, 52, 95, 116, 0],
     [97, 0, 108, 111, 99, 97, 108, 95, 116, 0, 112, 101, 114, 102, 95, 101, 118, 101, 110, 116],
     [95, 97, 116, 116, 114, 0, 99, 111, 110, 102, 105, 103, 0, 115, 97, 109, 112, 108, 101, 95],
     [116, 121, 112, 101, 0, 114, 101, 97, 100, 95, 102, 111, 114, 109, 97, 116, 0, 100, 105, 115],
     [97, 98, 108, 101, 100, 0, 105, 110, 104, 101, 114, 105, 116, 0, 112, 105, 110, 110, 101, 100, 0],
     [101, 120, 99, 108, 117, 115, 105, 118, 101, 0, 101, 120, 99, 108, 117, 100, 101, 95, 117, 115],
     [101, 114, 0, 101, 120, 99, 108, 117, 100, 101, 95, 107, 101, 114, 110, 101, 108, 0, 101, 120],
     [99, 108, 117, 100, 101, 95, 104, 118, 0, 101, 120, 99, 108, 117, 100, 101, 95, 105, 100, 108],
     [101, 0, 109, 109, 97, 112, 0, 102, 114, 101, 113, 0, 105, 110, 104, 101, 114, 105, 116, 95, 115],
     [116, 97, 116, 0, 101, 110, 97, 98, 108, 101, 95, 111, 110, 95, 101, 120, 101, 99, 0, 119],
     [97, 116, 101, 114, 109, 97, 114, 107, 0, 112, 114, 101, 99, 105, 115, 101, 95, 105, 112, 0],
     [109, 109, 97, 112, 95, 100, 97, 116, 97, 0, 115, 97, 109, 112, 108, 101, 95, 105, 100, 95],
     [97, 108, 108, 0, 101, 120, 99, 108, 117, 100, 101, 95, 104, 111, 115, 116, 0, 101, 120, 99],
     [108, 117, 100, 101, 95, 103, 117, 101, 115, 116, 0, 101, 120, 99, 108, 117, 100, 101, 95, 99],
     [97, 108, 108, 99, 104, 97, 105, 110, 95, 107, 101, 114, 110, 101, 108, 0, 101, 120, 99, 108],
     [117, 100, 101, 95, 99, 97, 108, 108, 99, 104, 97, 105, 110, 95, 117, 115, 101, 114, 0, 109],
     [109, 97, 112, 50, 0, 99, 111, 109, 109, 95, 101, 120, 101, 99, 0, 117, 115, 101, 95, 99],
     [108, 111, 99, 107, 105, 100, 0, 99, 111, 110, 116, 101, 120, 116, 95, 115, 119, 105, 116, 99],
     [104, 0, 119, 114, 105, 116, 101, 95, 98, 97, 99, 107, 119, 97, 114, 100, 0, 110, 97, 109],
     [101, 115, 112, 97, 99, 101, 115, 0, 107, 115, 121, 109, 98, 111, 108, 0, 98, 112, 102, 95],
     [101, 118, 101, 110, 116, 0, 97, 117, 120, 95, 111, 117, 116, 112, 117, 116, 0, 99, 103, 114],
     [111, 117, 112, 0, 116, 101, 120, 116, 95, 112, 111, 107, 101, 0, 98, 117, 105, 108, 100, 95],
     [105, 100, 0, 105, 110, 104, 101, 114, 105, 116, 95, 116, 104, 114, 101, 97, 100, 0, 114, 101],
     [109, 111, 118, 101, 95, 111, 110, 95, 101, 120, 101, 99, 0, 115, 105, 103, 116, 114, 97, 112],
     [0, 95, 95, 114, 101, 115, 101, 114, 118, 101, 100, 95, 49, 0, 98, 112, 95, 116, 121, 112],
     [101, 0, 98, 114, 97, 110, 99, 104, 95, 115, 97, 109, 112, 108, 101, 95, 116, 121, 112, 101],
     [0, 115, 97, 109, 112, 108, 101, 95, 114, 101, 103, 115, 95, 117, 115, 101, 114, 0, 115, 97],
     [109, 112, 108, 101, 95, 115, 116, 97, 99, 107, 95, 117, 115, 101, 114, 0, 115, 97, 109, 112],
     [108, 101, 95, 114, 101, 103, 115, 95, 105, 110, 116, 114, 0, 97, 117, 120, 95, 119, 97, 116],
     [101, 114, 109, 97, 114, 107, 0, 115, 97, 109, 112, 108, 101, 95, 109, 97, 120, 95, 115, 116],
     [97, 99, 107, 0, 95, 95, 114, 101, 115, 101, 114, 118, 101, 100, 95, 50, 0, 97, 117, 120],
     [95, 115, 97, 109, 112, 108, 101, 95, 115, 105, 122, 101, 0, 115, 105, 103, 95, 100, 97, 116],
     [97, 0, 99, 111, 110, 102, 105, 103, 51, 0, 115, 97, 109, 112, 108, 101, 95, 112, 101, 114],
     [105, 111, 100, 0, 115, 97, 109, 112, 108, 101, 95, 102, 114, 101, 113, 0, 119, 97, 107, 101],
     [117, 112, 95, 101, 118, 101, 110, 116, 115, 0, 119, 97, 107, 101, 117, 112, 95, 119, 97, 116],
     [101, 114, 109, 97, 114, 107, 0, 98, 112, 95, 97, 100, 100, 114, 0, 107, 112, 114, 111, 98],
     [101, 95, 102, 117, 110, 99, 0, 117, 112, 114, 111, 98, 101, 95, 112, 97, 116, 104, 0, 99],
     [111, 110, 102, 105, 103, 49, 0, 98, 112, 95, 108, 101, 110, 0, 107, 112, 114, 111, 98, 101],
     [95, 97, 100, 100, 114, 0, 112, 114, 111, 98, 101, 95, 111, 102, 102, 115, 101, 116, 0, 99],
     [111, 110, 102, 105, 103, 50, 0, 95, 95, 115, 51, 50, 0, 97, 117, 120, 95, 97, 99, 116],
     [105, 111, 110, 0, 97, 117, 120, 95, 115, 116, 97, 114, 116, 95, 112, 97, 117, 115, 101, 100],
     [0, 97, 117, 120, 95, 112, 97, 117, 115, 101, 0, 97, 117, 120, 95, 114, 101, 115, 117, 109],
     [101, 0, 95, 95, 114, 101, 115, 101, 114, 118, 101, 100, 95, 51, 0, 104, 119, 95, 112, 101],
     [114, 102, 95, 101, 118, 101, 110, 116, 0, 116, 97, 114, 103, 101, 116, 0, 112, 114, 101, 118],
     [95, 99, 111, 117, 110, 116, 0, 105, 110, 116, 101, 114, 114, 117, 112, 116, 115, 95, 115, 101],
     [113, 0, 105, 110, 116, 101, 114, 114, 117, 112, 116, 115, 0, 102, 114, 101, 113, 95, 116, 105],
     [109, 101, 95, 115, 116, 97, 109, 112, 0, 102, 114, 101, 113, 95, 99, 111, 117, 110, 116, 95],
     [115, 116, 97, 109, 112, 0, 108, 97, 115, 116, 95, 116, 97, 103, 0, 100, 121, 110, 95, 99],
     [111, 110, 115, 116, 114, 97, 105, 110, 116, 0, 99, 111, 110, 102, 105, 103, 95, 98, 97, 115],
     [101, 0, 101, 118, 101, 110, 116, 95, 98, 97, 115, 101, 0, 101, 118, 101, 110, 116, 95, 98],
     [97, 115, 101, 95, 114, 100, 112, 109, 99, 0, 105, 100, 120, 0, 108, 97, 115, 116, 95, 99],
     [112, 117, 0, 101, 120, 116, 114, 97, 95, 114, 101, 103, 0, 98, 114, 97, 110, 99, 104, 95],
     [114, 101, 103, 0, 104, 119, 95, 112, 101, 114, 102, 95, 101, 118, 101, 110, 116, 95, 101, 120],
     [116, 114, 97, 0, 114, 101, 103, 0, 97, 108, 108, 111, 99, 0, 97, 117, 120, 95, 99, 111, 110],
     [102, 105, 103, 0, 97, 117, 120, 95, 112, 97, 117, 115, 101, 100, 0, 116, 112, 95, 108, 105],
     [115, 116, 0, 112, 119, 114, 95, 97, 99, 99, 0, 112, 116, 115, 99, 0, 105, 110, 102, 111, 0],
     [98, 112, 95, 108, 105, 115, 116, 0, 97, 114, 99, 104, 95, 104, 119, 95, 98, 114, 101, 97],
     [107, 112, 111, 105, 110, 116, 0, 97, 100, 100, 114, 101, 115, 115, 0, 116, 114, 105, 103, 103],
     [101, 114, 0, 99, 116, 114, 108, 0, 97, 114, 99, 104, 95, 104, 119, 95, 98, 114, 101, 97],
     [107, 112, 111, 105, 110, 116, 95, 99, 116, 114, 108, 0, 108, 101, 110, 0, 112, 114, 105, 118],
     [105, 108, 101, 103, 101, 0, 101, 110, 97, 98, 108, 101, 100, 0, 114, 104, 108, 105, 115, 116],
     [95, 104, 101, 97, 100, 0, 114, 104, 101, 97, 100, 0, 114, 104, 97, 115, 104, 95, 104, 101],
     [97, 100, 0, 105, 111, 109, 109, 117, 95, 98, 97, 110, 107, 0, 105, 111, 109, 109, 117, 95],
     [99, 110, 116, 114, 0, 112, 97, 100, 100, 105, 110, 103, 0, 99, 111, 110, 102, 0, 99, 111, 110],
     [102, 49, 0, 108, 97, 115, 116, 95, 112, 101, 114, 105, 111, 100, 0, 112, 101, 114, 105, 111],
     [100, 95, 108, 101, 102, 116, 0, 115, 97, 118, 101, 100, 95, 109, 101, 116, 114, 105, 99, 0],
     [115, 97, 118, 101, 100, 95, 115, 108, 111, 116, 115, 0, 119, 97, 105, 116, 95, 113, 117, 101],
     [117, 101, 95, 104, 101, 97, 100, 95, 116, 0, 119, 97, 105, 116, 95, 113, 117, 101, 117, 101],
     [95, 104, 101, 97, 100, 0, 104, 101, 97, 100, 0, 105, 114, 113, 95, 119, 111, 114, 107, 0, 105],
     [114, 113, 119, 97, 105, 116, 0, 114, 99, 117, 119, 97, 105, 116, 0, 112, 101, 114, 102, 95],
     [97, 100, 100, 114, 95, 102, 105, 108, 116, 101, 114, 115, 95, 104, 101, 97, 100, 0, 110, 114],
     [95, 102, 105, 108, 101, 95, 102, 105, 108, 116, 101, 114, 115, 0, 112, 101, 114, 102, 95, 111],
     [118, 101, 114, 102, 108, 111, 119, 95, 104, 97, 110, 100, 108, 101, 114, 95, 116, 0, 112, 101],
     [114, 102, 95, 115, 97, 109, 112, 108, 101, 95, 100, 97, 116, 97, 0, 115, 97, 109, 112, 108],
     [101, 95, 102, 108, 97, 103, 115, 0, 112, 101, 114, 105, 111, 100, 0, 100, 121, 110, 95, 115],
     [105, 122, 101, 0, 116, 105, 100, 95, 101, 110, 116, 114, 121, 0, 99, 112, 117, 95, 101, 110],
     [116, 114, 121, 0, 105, 112, 0, 99, 97, 108, 108, 99, 104, 97, 105, 110, 0, 114, 97, 119, 0],
     [98, 114, 95, 115, 116, 97, 99, 107, 0, 98, 114, 95, 115, 116, 97, 99, 107, 95, 99, 110],
     [116, 114, 0, 100, 97, 116, 97, 95, 115, 114, 99, 0, 116, 120, 110, 0, 114, 101, 103, 115, 95],
     [117, 115, 101, 114, 0, 114, 101, 103, 115, 95, 105, 110, 116, 114, 0, 115, 116, 97, 99, 107],
     [95, 117, 115, 101, 114, 95, 115, 105, 122, 101, 0, 115, 116, 114, 101, 97, 109, 95, 105, 100],
     [0, 97, 100, 100, 114, 0, 112, 104, 121, 115, 95, 97, 100, 100, 114, 0, 100, 97, 116, 97, 95],
     [112, 97, 103, 101, 95, 115, 105, 122, 101, 0, 99, 111, 100, 101, 95, 112, 97, 103, 101, 95],
     [115, 105, 122, 101, 0, 97, 117, 120, 95, 115, 105, 122, 101, 0, 114, 101, 115, 101, 114, 118],
     [101, 100, 0, 112, 101, 114, 102, 95, 115, 97, 109, 112, 108, 101, 95, 119, 101, 105, 103, 104],
     [116, 0, 102, 117, 108, 108, 0, 118, 97, 114, 49, 95, 100, 119, 0, 118, 97, 114, 50, 95, 119],
     [0, 118, 97, 114, 51, 95, 119, 0, 112, 101, 114, 102, 95, 109, 101, 109, 95, 100, 97, 116],
     [97, 95, 115, 114, 99, 0, 109, 101, 109, 95, 111, 112, 0, 109, 101, 109, 95, 108, 118, 108, 0],
     [109, 101, 109, 95, 115, 110, 111, 111, 112, 0, 109, 101, 109, 95, 108, 111, 99, 107, 0, 109],
     [101, 109, 95, 100, 116, 108, 98, 0, 109, 101, 109, 95, 108, 118, 108, 95, 110, 117, 109, 0],
     [109, 101, 109, 95, 114, 101, 109, 111, 116, 101, 0, 109, 101, 109, 95, 115, 110, 111, 111, 112],
     [120, 0, 109, 101, 109, 95, 98, 108, 107, 0, 109, 101, 109, 95, 104, 111, 112, 115, 0, 109, 101],
     [109, 95, 114, 115, 118, 100, 0, 112, 101, 114, 102, 95, 114, 101, 103, 115, 0, 97, 98, 105, 0],
     [114, 101, 103, 115, 0, 112, 116, 95, 114, 101, 103, 115, 0, 111, 114, 105, 103, 95, 120, 48, 0],
     [115, 121, 115, 99, 97, 108, 108, 110, 111, 0, 112, 109, 114, 0, 115, 100, 101, 105, 95, 116],
     [116, 98, 114, 49, 0, 115, 116, 97, 99, 107, 102, 114, 97, 109, 101, 0, 117, 115, 101, 114],
     [95, 114, 101, 103, 115, 0, 117, 115, 101, 114, 95, 112, 116, 95, 114, 101, 103, 115, 0, 112],
     [115, 116, 97, 116, 101, 0, 115, 51, 50, 0, 102, 114, 97, 109, 101, 95, 114, 101, 99, 111],
     [114, 100, 95, 109, 101, 116, 97, 0, 114, 101, 99, 111, 114, 100, 0, 102, 114, 97, 109, 101],
     [95, 114, 101, 99, 111, 114, 100, 0, 108, 114, 0, 112, 114, 105, 118, 97, 116, 101, 0, 115, 97],
     [118, 101, 100, 95, 102, 117, 110, 99, 0, 108, 111, 99, 97, 108, 95, 104, 97, 115, 104, 0],
     [102, 117, 110, 99, 95, 104, 97, 115, 104, 0, 111, 108, 100, 95, 104, 97, 115, 104, 0, 116],
     [114, 97, 109, 112, 111, 108, 105, 110, 101, 0, 116, 114, 97, 109, 112, 111, 108, 105, 110, 101],
     [95, 115, 105, 122, 101, 0, 115, 117, 98, 111, 112, 95, 108, 105, 115, 116, 0, 111, 112, 115],
     [95, 102, 117, 110, 99, 0, 109, 97, 110, 97, 103, 101, 100, 0, 102, 116, 114, 97, 99, 101],
     [95, 102, 117, 110, 99, 95, 116, 0, 102, 116, 114, 97, 99, 101, 95, 114, 101, 103, 115, 0],
     [102, 116, 114, 97, 99, 101, 95, 111, 112, 115, 95, 104, 97, 115, 104, 0, 110, 111, 116, 114],
     [97, 99, 101, 95, 104, 97, 115, 104, 0, 102, 105, 108, 116, 101, 114, 95, 104, 97, 115, 104],
     [0, 114, 101, 103, 101, 120, 95, 108, 111, 99, 107, 0, 102, 116, 114, 97, 99, 101, 95, 111],
     [112, 115, 95, 102, 117, 110, 99, 95, 116, 0, 102, 116, 114, 97, 99, 101, 95, 111, 112, 115],
     [95, 99, 109, 100, 0, 70, 84, 82, 65, 67, 69, 95, 79, 80, 83, 95, 67, 77, 68, 95],
     [69, 78, 65, 66, 76, 69, 95, 83, 72, 65, 82, 69, 95, 73, 80, 77, 79, 68, 73],
     [70, 89, 95, 83, 69, 76, 70, 0, 70, 84, 82, 65, 67, 69, 95, 79, 80, 83, 95, 67],
     [77, 68, 95, 69, 78, 65, 66, 76, 69, 95, 83, 72, 65, 82, 69, 95, 73, 80, 77],
     [79, 68, 73, 70, 89, 95, 80, 69, 69, 82, 0, 70, 84, 82, 65, 67, 69, 95, 79, 80]]"

definition task_iter_elf_8_g :: "byte list" where
  "task_iter_elf_8_g =
    concat
    [[83, 95, 67, 77, 68, 95, 68, 73, 83, 65, 66, 76, 69, 95, 83, 72, 65, 82, 69],
     [95, 73, 80, 77, 79, 68, 73, 70, 89, 95, 80, 69, 69, 82, 0, 116, 97, 115, 107, 95],
     [115, 116, 114, 117, 99, 116, 95, 95, 95, 112, 114, 101, 53, 49, 52, 0, 116, 97, 115, 107],
     [95, 115, 116, 114, 117, 99, 116, 95, 95, 95, 112, 111, 115, 116, 53, 49, 52, 0, 76, 73],
     [67, 69, 78, 83, 69, 0, 122, 101, 114, 111, 0, 115, 101, 113, 95, 102, 105, 108, 101, 0, 97],
     [100, 100, 114, 101, 115, 115, 95, 115, 112, 97, 99, 101, 0, 109, 109, 95, 115, 116, 114, 117],
     [99, 116, 0, 104, 114, 116, 105, 109, 101, 114, 95, 99, 108, 111, 99, 107, 95, 98, 97, 115],
     [101, 0, 117, 115, 101, 114, 95, 110, 97, 109, 101, 115, 112, 97, 99, 101, 0, 112, 105, 100],
     [95, 110, 97, 109, 101, 115, 112, 97, 99, 101, 0, 99, 111, 109, 112, 108, 101, 116, 105, 111],
     [110, 0, 117, 115, 101, 114, 95, 115, 116, 114, 117, 99, 116, 0, 98, 112, 102, 95, 112, 114],
     [111, 103, 0, 98, 112, 102, 95, 108, 111, 99, 97, 108, 95, 115, 116, 111, 114, 97, 103, 101],
     [0, 102, 116, 114, 97, 99, 101, 95, 104, 97, 115, 104, 0, 118, 109, 95, 115, 116, 114, 117],
     [99, 116, 0, 95, 95, 107, 101, 114, 110, 101, 108, 95, 116, 105, 109, 101, 115, 112, 101, 99],
     [0, 111, 108, 100, 95, 116, 105, 109, 101, 115, 112, 101, 99, 51, 50, 0, 112, 111, 108, 108],
     [102, 100, 0, 98, 112, 102, 95, 114, 117, 110, 95, 99, 116, 120, 0, 112, 105, 112, 101, 95],
     [105, 110, 111, 100, 101, 95, 105, 110, 102, 111, 0, 102, 97, 115, 121, 110, 99, 95, 115, 116],
     [114, 117, 99, 116, 0, 102, 115, 95, 115, 116, 114, 117, 99, 116, 0, 102, 105, 108, 101, 115],
     [95, 115, 116, 114, 117, 99, 116, 0, 115, 105, 103, 110, 97, 108, 95, 115, 116, 114, 117, 99],
     [116, 0, 115, 105, 103, 104, 97, 110, 100, 95, 115, 116, 114, 117, 99, 116, 0, 98, 108, 107],
     [95, 112, 108, 117, 103, 0, 107, 101, 114, 110, 101, 108, 95, 115, 105, 103, 105, 110, 102, 111],
     [0, 112, 101, 114, 102, 95, 101, 118, 101, 110, 116, 95, 99, 111, 110, 116, 101, 120, 116, 0],
     [117, 112, 114, 111, 98, 101, 95, 116, 97, 115, 107, 0, 112, 101, 114, 102, 95, 101, 118, 101],
     [110, 116, 95, 112, 109, 117, 95, 99, 111, 110, 116, 101, 120, 116, 0, 112, 101, 114, 102, 95],
     [98, 117, 102, 102, 101, 114, 0, 116, 114, 97, 99, 101, 95, 101, 118, 101, 110, 116, 95, 99],
     [97, 108, 108, 0, 112, 101, 114, 102, 95, 97, 100, 100, 114, 95, 102, 105, 108, 116, 101, 114],
     [95, 114, 97, 110, 103, 101, 0, 112, 101, 114, 102, 95, 99, 97, 108, 108, 99, 104, 97, 105],
     [110, 95, 101, 110, 116, 114, 121, 0, 112, 101, 114, 102, 95, 114, 97, 119, 95, 114, 101, 99],
     [111, 114, 100, 0, 112, 101, 114, 102, 95, 98, 114, 97, 110, 99, 104, 95, 115, 116, 97, 99],
     [107, 0, 101, 118, 101, 110, 116, 95, 102, 105, 108, 116, 101, 114, 0, 47, 104, 111, 109, 101],
     [47, 108, 111, 115, 116, 99, 97, 99, 104, 101, 47, 99, 111, 100, 101, 47, 104, 101, 108],
     [108, 111, 95, 101, 66, 80, 70, 47, 101, 120, 97, 109, 112, 108, 101, 115, 47, 99, 47],
     [116, 97, 115, 107, 95, 105, 116, 101, 114, 46, 98, 112, 102, 46, 99, 0, 9, 115, 116, 114],
     [117, 99, 116, 32, 115, 101, 113, 95, 102, 105, 108, 101, 32, 42, 115, 101, 113, 32, 61],
     [32, 99, 116, 120, 45, 62, 109, 101, 116, 97, 45, 62, 115, 101, 113, 59, 0, 9, 115, 116],
     [114, 117, 99, 116, 32, 116, 97, 115, 107, 95, 115, 116, 114, 117, 99, 116, 32, 42, 116],
     [97, 115, 107, 32, 61, 32, 99, 116, 120, 45, 62, 116, 97, 115, 107, 59, 0, 9, 105, 102],
     [32, 40, 33, 116, 97, 115, 107, 41, 0, 9, 116, 32, 61, 32, 98, 112, 102, 95, 109, 97],
     [112, 95, 108, 111, 111, 107, 117, 112, 95, 101, 108, 101, 109, 40, 38, 116, 97, 115, 107],
     [95, 105, 110, 102, 111, 95, 98, 117, 102, 44, 32, 38, 122, 101, 114, 111, 41, 59, 0, 9],
     [105, 102, 32, 40, 33, 116, 41, 0, 9, 116, 45, 62, 112, 105, 100, 32, 61, 32, 116, 97],
     [115, 107, 45, 62, 116, 103, 105, 100, 59, 0, 9, 116, 45, 62, 116, 105, 100, 32, 61, 32],
     [116, 97, 115, 107, 45, 62, 112, 105, 100, 59, 0, 9, 105, 102, 32, 40, 98, 112, 102, 95],
     [99, 111, 114, 101, 95, 102, 105, 101, 108, 100, 95, 101, 120, 105, 115, 116, 115, 40, 115],
     [116, 114, 117, 99, 116, 32, 116, 97, 115, 107, 95, 115, 116, 114, 117, 99, 116, 95, 95],
     [95, 112, 114, 101, 53, 49, 52, 44, 32, 115, 116, 97, 116, 101, 41, 41, 32, 123, 0, 9],
     [9, 114, 101, 116, 117, 114, 110, 32, 116, 97, 115, 107, 45, 62, 115, 116, 97, 116, 101],
     [59, 0, 9, 9, 114, 101, 116, 117, 114, 110, 32, 116, 97, 115, 107, 45, 62, 95, 95, 115],
     [116, 97, 116, 101, 59, 0, 9, 116, 45, 62, 115, 116, 97, 116, 101, 32, 61, 32, 103, 101],
     [116, 95, 116, 97, 115, 107, 95, 115, 116, 97, 116, 101, 40, 116, 97, 115, 107, 41, 59, 0],
     [9, 98, 112, 102, 95, 112, 114, 111, 98, 101, 95, 114, 101, 97, 100, 95, 107, 101, 114],
     [110, 101, 108, 95, 115, 116, 114, 40, 116, 45, 62, 99, 111, 109, 109, 44, 32, 84, 65],
     [83, 75, 95, 67, 79, 77, 77, 95, 76, 69, 78, 44, 32, 116, 97, 115, 107, 45, 62],
     [99, 111, 109, 109, 41, 59, 0, 9, 114, 101, 115, 32, 61, 32, 98, 112, 102, 95, 103, 101],
     [116, 95, 116, 97, 115, 107, 95, 115, 116, 97, 99, 107, 40, 116, 97, 115, 107, 44, 32],
     [116, 45, 62, 107, 115, 116, 97, 99, 107, 44, 32, 115, 105, 122, 101, 111, 102, 40, 95],
     [95, 117, 54, 52, 41, 32, 42, 32, 77, 65, 88, 95, 83, 84, 65, 67, 75, 95, 76],
     [69, 78, 44, 32, 48, 41, 59, 0, 9, 116, 45, 62, 107, 115, 116, 97, 99, 107, 95, 108],
     [101, 110, 32, 61, 32, 114, 101, 115, 32, 60, 61, 32, 48, 32, 63, 32, 114, 101, 115],
     [32, 58, 32, 114, 101, 115, 32, 47, 32, 115, 105, 122, 101, 111, 102, 40, 116, 45, 62],
     [107, 115, 116, 97, 99, 107, 91, 48, 93, 41, 59, 0, 9, 98, 112, 102, 95, 115, 101, 113],
     [95, 119, 114, 105, 116, 101, 40, 115, 101, 113, 44, 32, 116, 44, 32, 115, 105, 122, 101],
     [111, 102, 40, 115, 116, 114, 117, 99, 116, 32, 116, 97, 115, 107, 95, 105, 110, 102, 111],
     [41, 41, 59, 0, 125, 0, 48, 58, 48, 58, 48, 0, 48, 58, 49, 58, 48, 0, 48, 58, 54],
     [52, 0, 48, 58, 54, 51, 0, 48, 58, 48, 0, 48, 58, 57, 51, 0, 108, 105, 99, 101, 110],
     [115, 101, 0, 46, 109, 97, 112, 115, 0, 46, 98, 115, 115, 0, 105, 116, 101, 114, 47, 116, 97],
     [115, 107, 0, 0, 0, 0, 0, 0, 0]]"

definition task_iter_elf_8 :: "byte list" where
  "task_iter_elf_8 = task_iter_elf_8_a @ task_iter_elf_8_b @ task_iter_elf_8_c @ task_iter_elf_8_d @ task_iter_elf_8_e @ task_iter_elf_8_f @ task_iter_elf_8_g"

definition task_iter_elf_9 :: "byte list" where
  "task_iter_elf_9 =
    concat
    [[159, 235, 1, 0, 32, 0, 0, 0, 0, 0, 0, 0, 20, 0, 0, 0, 20, 0, 0, 0, 124],
     [1, 0, 0, 144, 1, 0, 0, 156, 0, 0, 0, 8, 0, 0, 0, 104, 36, 0, 0, 1, 0, 0, 0, 0, 0, 0, 0, 28, 0, 0],
     [0, 16, 0, 0, 0, 104, 36, 0, 0, 23, 0, 0, 0, 0, 0, 0, 0, 169, 33, 0, 0, 228, 33, 0, 0, 30, 176, 0, 0],
     [8, 0, 0, 0, 169, 33, 0, 0, 228, 33, 0, 0, 36, 176, 0, 0, 16, 0, 0, 0, 169, 33, 0, 0, 12, 34, 0],
     [0, 34, 180, 0, 0, 24, 0, 0, 0, 169, 33, 0, 0, 51, 34, 0, 0, 6, 196, 0, 0, 32, 0, 0, 0, 169, 33],
     [0, 0, 63, 34, 0, 0, 6, 208, 0, 0, 72, 0, 0, 0, 169, 33, 0, 0, 112, 34, 0, 0, 6, 212, 0, 0, 80],
     [0, 0, 0, 169, 33, 0, 0, 0, 0, 0, 0, 0, 0, 0, 0, 88, 0, 0, 0, 169, 33, 0, 0, 121, 34, 0, 0, 17, 224, 0],
     [0, 96, 0, 0, 0, 169, 33, 0, 0, 121, 34, 0, 0, 9, 224, 0, 0, 104, 0, 0, 0, 169, 33, 0, 0, 143, 34],
     [0, 0, 17, 228, 0, 0, 112, 0, 0, 0, 169, 33, 0, 0, 143, 34, 0, 0, 9, 228, 0, 0, 128, 0, 0, 0, 169],
     [33, 0, 0, 164, 34, 0, 0, 6, 112, 0, 0, 136, 0, 0, 0, 169, 33, 0, 0, 230, 34, 0, 0, 16, 124, 0, 0],
     [152, 0, 0, 0, 169, 33, 0, 0, 252, 34, 0, 0, 16, 140, 0, 0, 160, 0, 0, 0, 169, 33, 0, 0, 20, 35, 0],
     [0, 11, 232, 0, 0, 192, 0, 0, 0, 169, 33, 0, 0, 54, 35, 0, 0, 31, 240, 0, 0, 208, 0, 0, 0, 169, 33],
     [0, 0, 54, 35, 0, 0, 2, 240, 0, 0, 232, 0, 0, 0, 169, 33, 0, 0, 118, 35, 0, 0, 36, 248, 0, 0, 240],
     [0, 0, 0, 169, 33, 0, 0, 118, 35, 0, 0, 8, 248, 0, 0, 32, 1, 0, 0, 169, 33, 0, 0, 196, 35, 0, 0],
     [18, 252, 0, 0, 48, 1, 0, 0, 169, 33, 0, 0, 196, 35, 0, 0, 16, 252, 0, 0, 56, 1, 0, 0, 169],
     [33, 0, 0, 2, 36, 0, 0, 2, 4, 1, 0, 88, 1, 0, 0, 169, 33, 0, 0, 52, 36, 0, 0, 1, 12],
     [1, 0, 16, 0, 0, 0, 104, 36, 0, 0, 9, 0, 0, 0, 0, 0, 0, 0, 22, 0, 0, 0, 54, 36, 0, 0, 0, 0, 0, 0],
     [8, 0, 0, 0, 29, 0, 0, 0, 54, 36, 0, 0, 0, 0, 0, 0, 16, 0, 0, 0, 22, 0, 0, 0, 60, 36, 0, 0, 0, 0, 0],
     [0, 88, 0, 0, 0, 33, 0, 0, 0, 66, 36, 0, 0, 0, 0, 0, 0, 104, 0, 0, 0, 33, 0, 0, 0, 71, 36, 0, 0, 0, 0],
     [0, 0, 120, 0, 0, 0, 56, 1, 0, 0, 76, 36, 0, 0, 2, 0, 0, 0, 136, 0, 0, 0, 56, 1, 0, 0, 76, 36],
     [0, 0, 0, 0, 0, 0, 152, 0, 0, 0, 57, 1, 0, 0, 76, 36, 0, 0, 0, 0, 0, 0, 168, 0, 0, 0, 33, 0, 0, 0, 80],
     [36, 0, 0, 0, 0, 0, 0, 0, 0, 0, 0]]"

definition task_iter_elf_shdrs :: "byte list list" where
  "task_iter_elf_shdrs =
    [[0, 0, 0, 0, 0, 0, 0, 0, 0, 0, 0, 0, 0, 0, 0, 0, 0, 0, 0, 0, 0, 0, 0, 0, 0, 0, 0, 0, 0, 0, 0, 0,
      0, 0, 0, 0, 0, 0, 0, 0, 0, 0, 0, 0, 0, 0, 0, 0, 0, 0, 0, 0, 0, 0, 0, 0, 0, 0, 0, 0, 0, 0, 0, 0],
     [1, 0, 0, 0, 3, 0, 0, 0, 32, 0, 0, 0, 0, 0, 0, 0, 0, 0, 0, 0, 0, 0, 0, 0, 64, 0, 0, 0, 0, 0, 0, 0,
      155, 0, 0, 0, 0, 0, 0, 0, 0, 0, 0, 0, 0, 0, 0, 0, 1, 0, 0, 0, 0, 0, 0, 0, 0, 0, 0, 0, 0, 0, 0, 0],
     [9, 0, 0, 0, 2, 0, 0, 0, 0, 0, 0, 0, 0, 0, 0, 0, 0, 0, 0, 0, 0, 0, 0, 0, 224, 0, 0, 0, 0, 0, 0, 0,
      32, 1, 0, 0, 0, 0, 0, 0, 1, 0, 0, 0, 0, 0, 0, 0, 8, 0, 0, 0, 0, 0, 0, 0, 24, 0, 0, 0, 0, 0, 0, 0],
     [17, 0, 0, 0, 1, 0, 0, 0, 6, 0, 0, 0, 0, 0, 0, 0, 0, 0, 0, 0, 0, 0, 0, 0, 0, 2, 0, 0, 0, 0, 0, 0,
      104, 1, 0, 0, 0, 0, 0, 0, 0, 0, 0, 0, 0, 0, 0, 0, 8, 0, 0, 0, 0, 0, 0, 0, 0, 0, 0, 0, 0, 0, 0, 0],
     [27, 0, 0, 0, 1, 0, 0, 0, 3, 0, 0, 0, 0, 0, 0, 0, 0, 0, 0, 0, 0, 0, 0, 0, 104, 3, 0, 0, 0, 0, 0, 0,
      13, 0, 0, 0, 0, 0, 0, 0, 0, 0, 0, 0, 0, 0, 0, 0, 1, 0, 0, 0, 0, 0, 0, 0, 0, 0, 0, 0, 0, 0, 0, 0],
     [35, 0, 0, 0, 1, 0, 0, 0, 3, 0, 0, 0, 0, 0, 0, 0, 0, 0, 0, 0, 0, 0, 0, 0, 120, 3, 0, 0, 0, 0, 0, 0,
      32, 0, 0, 0, 0, 0, 0, 0, 0, 0, 0, 0, 0, 0, 0, 0, 8, 0, 0, 0, 0, 0, 0, 0, 0, 0, 0, 0, 0, 0, 0, 0],
     [41, 0, 0, 0, 8, 0, 0, 0, 3, 0, 0, 0, 0, 0, 0, 0, 0, 0, 0, 0, 0, 0, 0, 0, 152, 3, 0, 0, 0, 0, 0, 0,
      4, 0, 0, 0, 0, 0, 0, 0, 0, 0, 0, 0, 0, 0, 0, 0, 4, 0, 0, 0, 0, 0, 0, 0, 0, 0, 0, 0, 0, 0, 0, 0],
     [127, 0, 0, 0, 9, 0, 0, 0, 64, 0, 0, 0, 0, 0, 0, 0, 0, 0, 0, 0, 0, 0, 0, 0, 152, 3, 0, 0, 0, 0, 0, 0,
      32, 0, 0, 0, 0, 0, 0, 0, 2, 0, 0, 0, 3, 0, 0, 0, 8, 0, 0, 0, 0, 0, 0, 0, 16, 0, 0, 0, 0, 0, 0, 0],
     [141, 0, 0, 0, 1, 0, 0, 0, 0, 0, 0, 0, 0, 0, 0, 0, 0, 0, 0, 0, 0, 0, 0, 0, 184, 3, 0, 0, 0, 0, 0, 0,
      10, 90, 0, 0, 0, 0, 0, 0, 0, 0, 0, 0, 0, 0, 0, 0, 8, 0, 0, 0, 0, 0, 0, 0, 0, 0, 0, 0, 0, 0, 0, 0],
     [146, 0, 0, 0, 1, 0, 0, 0, 0, 0, 0, 0, 0, 0, 0, 0, 0, 0, 0, 0, 0, 0, 0, 0, 200, 93, 0, 0, 0, 0, 0, 0,
      76, 2, 0, 0, 0, 0, 0, 0, 0, 0, 0, 0, 0, 0, 0, 0, 8, 0, 0, 0, 0, 0, 0, 0, 0, 0, 0, 0, 0, 0, 0, 0]]"

definition task_iter_elf_body :: "byte list list" where
  "task_iter_elf_body = [task_iter_elf_1, task_iter_elf_2, task_iter_elf_3, task_iter_elf_4, task_iter_elf_5, task_iter_elf_7, task_iter_elf_8, task_iter_elf_9]"

definition task_iter_bpf__elf_bytes :: "byte list" where
  "task_iter_bpf__elf_bytes = concat (task_iter_elf_hdr # task_iter_elf_body) @ concat task_iter_elf_shdrs"

section \<open>The parts of the object\<close>

text \<open>The sizes of the pieces. The definitions stay folded: a piece is only opened where it is read.\<close>

lemma task_iter_elf_lengths [simp]:
  "length task_iter_elf_hdr = 64"
  "length task_iter_elf_1 = 160"
  "length task_iter_elf_2 = 288"
  "length task_iter_elf_3 = 360"
  "length task_iter_elf_4 = 16"
  "length task_iter_elf_5 = 32"
  "length task_iter_elf_7 = 32"
  "length task_iter_elf_8_a = 4144"
  "length task_iter_elf_8_b = 4299"
  "length task_iter_elf_8_c = 4166"
  "length task_iter_elf_8_d = 3295"
  "length task_iter_elf_8_e = 2941"
  "length task_iter_elf_8_f = 2917"
  "length task_iter_elf_8_g = 1294"
  "length task_iter_elf_9 = 592"
  by (simp_all only: piece_length task_iter_elf_hdr_def task_iter_elf_1_def task_iter_elf_2_def
    task_iter_elf_3_def task_iter_elf_4_def task_iter_elf_5_def task_iter_elf_7_def task_iter_elf_8_a_def
    task_iter_elf_8_b_def task_iter_elf_8_c_def task_iter_elf_8_d_def task_iter_elf_8_e_def
    task_iter_elf_8_f_def task_iter_elf_8_g_def task_iter_elf_9_def)

lemma task_iter_elf_8_length [simp]: "length task_iter_elf_8 = 23056"
  by (simp add: task_iter_elf_8_def)

lemma task_iter_elf_pieces: "object_pieces task_iter_bpf__elf_bytes (task_iter_elf_hdr # task_iter_elf_body) task_iter_elf_shdrs"
proof -
  have "le_at task_iter_elf_hdr 40 8 = 24600" "le_at task_iter_elf_hdr 60 2 = 10" "le_at task_iter_elf_hdr 62 2 = 1"
    by (simp_all add: task_iter_elf_hdr_def elf_eval)
  moreover have "list_all (\<lambda>h. length h = 64) task_iter_elf_shdrs" "length task_iter_elf_shdrs = 10"
    by (simp_all add: task_iter_elf_shdrs_def)
  ultimately show ?thesis
    by (simp add: object_pieces_def task_iter_bpf__elf_bytes_def task_iter_elf_body_def)
qed

lemma task_iter_elf_headers:
  "elf_section_at task_iter_bpf__elf_bytes 0 = \<lparr>sec_name = 0, sec_type = 0, sec_offset = 0, sec_size = 0, sec_link = 0, sec_info = 0\<rparr>"
  "elf_section_at task_iter_bpf__elf_bytes 1 = \<lparr>sec_name = 1, sec_type = 3, sec_offset = 64, sec_size = 155, sec_link = 0, sec_info = 0\<rparr>"
  "elf_section_at task_iter_bpf__elf_bytes 2 = \<lparr>sec_name = 9, sec_type = 2, sec_offset = 224, sec_size = 288, sec_link = 1, sec_info = 0\<rparr>"
  "elf_section_at task_iter_bpf__elf_bytes 3 = \<lparr>sec_name = 17, sec_type = 1, sec_offset = 512, sec_size = 360, sec_link = 0, sec_info = 0\<rparr>"
  "elf_section_at task_iter_bpf__elf_bytes 4 = \<lparr>sec_name = 27, sec_type = 1, sec_offset = 872, sec_size = 13, sec_link = 0, sec_info = 0\<rparr>"
  "elf_section_at task_iter_bpf__elf_bytes 5 = \<lparr>sec_name = 35, sec_type = 1, sec_offset = 888, sec_size = 32, sec_link = 0, sec_info = 0\<rparr>"
  "elf_section_at task_iter_bpf__elf_bytes 6 = \<lparr>sec_name = 41, sec_type = 8, sec_offset = 920, sec_size = 4, sec_link = 0, sec_info = 0\<rparr>"
  "elf_section_at task_iter_bpf__elf_bytes 7 = \<lparr>sec_name = 127, sec_type = 9, sec_offset = 920, sec_size = 32, sec_link = 2, sec_info = 3\<rparr>"
  "elf_section_at task_iter_bpf__elf_bytes 8 = \<lparr>sec_name = 141, sec_type = 1, sec_offset = 952, sec_size = 23050, sec_link = 0, sec_info = 0\<rparr>"
  "elf_section_at task_iter_bpf__elf_bytes 9 = \<lparr>sec_name = 146, sec_type = 1, sec_offset = 24008, sec_size = 588, sec_link = 0, sec_info = 0\<rparr>"
  by (simp_all add: object_section [OF task_iter_elf_pieces] task_iter_elf_shdrs_def elf_section_header_def elf_eval)

lemma task_iter_elf_flags:
  "section_flags task_iter_bpf__elf_bytes 0 = 0"
  "section_flags task_iter_bpf__elf_bytes 1 = 32"
  "section_flags task_iter_bpf__elf_bytes 2 = 0"
  "section_flags task_iter_bpf__elf_bytes 3 = 6"
  "section_flags task_iter_bpf__elf_bytes 4 = 3"
  "section_flags task_iter_bpf__elf_bytes 5 = 3"
  "section_flags task_iter_bpf__elf_bytes 6 = 3"
  "section_flags task_iter_bpf__elf_bytes 7 = 64"
  "section_flags task_iter_bpf__elf_bytes 8 = 0"
  "section_flags task_iter_bpf__elf_bytes 9 = 0"
  by (simp_all add: object_section [OF task_iter_elf_pieces] task_iter_elf_shdrs_def elf_eval)

lemma task_iter_elf_contents:
  "section_bytes task_iter_bpf__elf_bytes 0 = []"
  "section_bytes task_iter_bpf__elf_bytes 1 = take 155 task_iter_elf_1"
  "section_bytes task_iter_bpf__elf_bytes 2 = task_iter_elf_2"
  "section_bytes task_iter_bpf__elf_bytes 3 = task_iter_elf_3"
  "section_bytes task_iter_bpf__elf_bytes 4 = take 13 task_iter_elf_4"
  "section_bytes task_iter_bpf__elf_bytes 5 = task_iter_elf_5"
  "section_bytes task_iter_bpf__elf_bytes 6 = replicate 4 0"
  "section_bytes task_iter_bpf__elf_bytes 7 = task_iter_elf_7"
  "section_bytes task_iter_bpf__elf_bytes 8 = take 23050 task_iter_elf_8"
  "section_bytes task_iter_bpf__elf_bytes 9 = take 588 task_iter_elf_9"
proof -
  show "section_bytes task_iter_bpf__elf_bytes 0 = []"
    by (simp add: section_bytes_def task_iter_elf_headers elf_section.defs)
  show "section_bytes task_iter_bpf__elf_bytes 1 = take 155 task_iter_elf_1"
    using object_section_bytes [OF task_iter_elf_pieces task_iter_elf_headers(2), of 1] by (simp add: task_iter_elf_body_def)
  show "section_bytes task_iter_bpf__elf_bytes 2 = task_iter_elf_2"
    using object_section_bytes [OF task_iter_elf_pieces task_iter_elf_headers(3), of 2] by (simp add: task_iter_elf_body_def)
  show "section_bytes task_iter_bpf__elf_bytes 3 = task_iter_elf_3"
    using object_section_bytes [OF task_iter_elf_pieces task_iter_elf_headers(4), of 3] by (simp add: task_iter_elf_body_def)
  show "section_bytes task_iter_bpf__elf_bytes 4 = take 13 task_iter_elf_4"
    using object_section_bytes [OF task_iter_elf_pieces task_iter_elf_headers(5), of 4] by (simp add: task_iter_elf_body_def)
  show "section_bytes task_iter_bpf__elf_bytes 5 = task_iter_elf_5"
    using object_section_bytes [OF task_iter_elf_pieces task_iter_elf_headers(6), of 5] by (simp add: task_iter_elf_body_def)
  show "section_bytes task_iter_bpf__elf_bytes 6 = replicate 4 0"
    by (simp add: section_bytes_def task_iter_elf_headers)
  show "section_bytes task_iter_bpf__elf_bytes 7 = task_iter_elf_7"
    using object_section_bytes [OF task_iter_elf_pieces task_iter_elf_headers(8), of 6] by (simp add: task_iter_elf_body_def)
  show "section_bytes task_iter_bpf__elf_bytes 8 = take 23050 task_iter_elf_8"
    using object_section_bytes [OF task_iter_elf_pieces task_iter_elf_headers(9), of 7] by (simp add: task_iter_elf_body_def)
  show "section_bytes task_iter_bpf__elf_bytes 9 = take 588 task_iter_elf_9"
    using object_section_bytes [OF task_iter_elf_pieces task_iter_elf_headers(10), of 8] by (simp add: task_iter_elf_body_def)
qed

lemma task_iter_elf_names:
  "section_name task_iter_bpf__elf_bytes 0 = ''''"
  "section_name task_iter_bpf__elf_bytes 1 = ''.strtab''"
  "section_name task_iter_bpf__elf_bytes 2 = ''.symtab''"
  "section_name task_iter_bpf__elf_bytes 3 = ''iter/task''"
  "section_name task_iter_bpf__elf_bytes 4 = ''license''"
  "section_name task_iter_bpf__elf_bytes 5 = ''.maps''"
  "section_name task_iter_bpf__elf_bytes 6 = ''.bss''"
  "section_name task_iter_bpf__elf_bytes 7 = ''.reliter/task''"
  "section_name task_iter_bpf__elf_bytes 8 = ''.BTF''"
  "section_name task_iter_bpf__elf_bytes 9 = ''.BTF.ext''"
  by (simp_all only: object_section_name [OF task_iter_elf_pieces task_iter_elf_contents(2)] task_iter_elf_headers elf_section.simps)
    (simp_all add: elf_eval task_iter_elf_1_def)

lemma task_iter_elf_sections:
  "elf_sections task_iter_bpf__elf_bytes =
    [\<lparr>es_name = '''', es_type = 0, es_flags = 0, es_link = 0, es_info = 0, es_size = 0,
      es_bytes = []\<rparr>,
     \<lparr>es_name = ''.strtab'', es_type = 3, es_flags = 32, es_link = 0, es_info = 0, es_size = 155,
      es_bytes = take 155 task_iter_elf_1\<rparr>,
     \<lparr>es_name = ''.symtab'', es_type = 2, es_flags = 0, es_link = 1, es_info = 0, es_size = 288,
      es_bytes = task_iter_elf_2\<rparr>,
     \<lparr>es_name = ''iter/task'', es_type = 1, es_flags = 6, es_link = 0, es_info = 0, es_size = 360,
      es_bytes = task_iter_elf_3\<rparr>,
     \<lparr>es_name = ''license'', es_type = 1, es_flags = 3, es_link = 0, es_info = 0, es_size = 13,
      es_bytes = take 13 task_iter_elf_4\<rparr>,
     \<lparr>es_name = ''.maps'', es_type = 1, es_flags = 3, es_link = 0, es_info = 0, es_size = 32,
      es_bytes = task_iter_elf_5\<rparr>,
     \<lparr>es_name = ''.bss'', es_type = 8, es_flags = 3, es_link = 0, es_info = 0, es_size = 4,
      es_bytes = replicate 4 0\<rparr>,
     \<lparr>es_name = ''.reliter/task'', es_type = 9, es_flags = 64, es_link = 2, es_info = 3, es_size = 32,
      es_bytes = task_iter_elf_7\<rparr>,
     \<lparr>es_name = ''.BTF'', es_type = 1, es_flags = 0, es_link = 0, es_info = 0, es_size = 23050,
      es_bytes = take 23050 task_iter_elf_8\<rparr>,
     \<lparr>es_name = ''.BTF.ext'', es_type = 1, es_flags = 0, es_link = 0, es_info = 0, es_size = 588,
      es_bytes = take 588 task_iter_elf_9\<rparr>]"
proof -
  have "le_at task_iter_bpf__elf_bytes 60 2 = 10"
    using object_piecesD(4) [OF task_iter_elf_pieces] by (simp add: task_iter_elf_shdrs_def)
  moreover have "[0..<10] = [0, 1, 2, 3, 4, 5, 6, 7, 8, 9]"
    by (simp add: upt_rec)
  ultimately show ?thesis
    by (simp only: elf_sections_def list.map read_section_def Let_def task_iter_elf_headers task_iter_elf_flags task_iter_elf_contents
        task_iter_elf_names elf_section.simps)
qed

lemma task_iter_elf_symtab_rows:
  "task_iter_elf_2 =
    concat
     [[0, 0, 0, 0, 0, 0, 0, 0, 0, 0, 0, 0, 0, 0, 0, 0, 0, 0, 0, 0, 0, 0, 0, 0],
      [46, 0, 0, 0, 4, 0, 241, 255, 0, 0, 0, 0, 0, 0, 0, 0, 0, 0, 0, 0, 0, 0, 0, 0],
      [0, 0, 0, 0, 3, 0, 3, 0, 0, 0, 0, 0, 0, 0, 0, 0, 0, 0, 0, 0, 0, 0, 0, 0],
      [62, 0, 0, 0, 0, 0, 3, 0, 88, 1, 0, 0, 0, 0, 0, 0, 0, 0, 0, 0, 0, 0, 0, 0],
      [69, 0, 0, 0, 1, 0, 6, 0, 0, 0, 0, 0, 0, 0, 0, 0, 4, 0, 0, 0, 0, 0, 0, 0],
      [74, 0, 0, 0, 0, 0, 3, 0, 152, 0, 0, 0, 0, 0, 0, 0, 0, 0, 0, 0, 0, 0, 0, 0],
      [81, 0, 0, 0, 0, 0, 3, 0, 160, 0, 0, 0, 0, 0, 0, 0, 0, 0, 0, 0, 0, 0, 0, 0],
      [88, 0, 0, 0, 0, 0, 3, 0, 48, 1, 0, 0, 0, 0, 0, 0, 0, 0, 0, 0, 0, 0, 0, 0],
      [0, 0, 0, 0, 3, 0, 6, 0, 0, 0, 0, 0, 0, 0, 0, 0, 0, 0, 0, 0, 0, 0, 0, 0],
      [95, 0, 0, 0, 18, 0, 3, 0, 0, 0, 0, 0, 0, 0, 0, 0, 104, 1, 0, 0, 0, 0, 0, 0],
      [105, 0, 0, 0, 17, 0, 5, 0, 0, 0, 0, 0, 0, 0, 0, 0, 32, 0, 0, 0, 0, 0, 0, 0],
      [119, 0, 0, 0, 17, 0, 4, 0, 0, 0, 0, 0, 0, 0, 0, 0, 13, 0, 0, 0, 0, 0, 0, 0]]"
  by (simp add: task_iter_elf_2_def)

lemma task_iter_elf_symbols:
  "elf_symbols task_iter_bpf__elf_bytes =
    [\<lparr>sym_name = '''', sym_info = 0, sym_shndx = 0, sym_value = 0, sym_size = 0\<rparr>,
     \<lparr>sym_name = ''task_iter.bpf.c'', sym_info = 4, sym_shndx = 65521, sym_value = 0, sym_size = 0\<rparr>,
     \<lparr>sym_name = '''', sym_info = 3, sym_shndx = 3, sym_value = 0, sym_size = 0\<rparr>,
     \<lparr>sym_name = ''LBB0_8'', sym_info = 0, sym_shndx = 3, sym_value = 344, sym_size = 0\<rparr>,
     \<lparr>sym_name = ''zero'', sym_info = 1, sym_shndx = 6, sym_value = 0, sym_size = 4\<rparr>,
     \<lparr>sym_name = ''LBB0_4'', sym_info = 0, sym_shndx = 3, sym_value = 152, sym_size = 0\<rparr>,
     \<lparr>sym_name = ''LBB0_5'', sym_info = 0, sym_shndx = 3, sym_value = 160, sym_size = 0\<rparr>,
     \<lparr>sym_name = ''LBB0_7'', sym_info = 0, sym_shndx = 3, sym_value = 304, sym_size = 0\<rparr>,
     \<lparr>sym_name = '''', sym_info = 3, sym_shndx = 6, sym_value = 0, sym_size = 0\<rparr>,
     \<lparr>sym_name = ''get_tasks'', sym_info = 18, sym_shndx = 3, sym_value = 0, sym_size = 360\<rparr>,
     \<lparr>sym_name = ''task_info_buf'', sym_info = 17, sym_shndx = 5, sym_value = 0, sym_size = 32\<rparr>,
     \<lparr>sym_name = ''LICENSE'', sym_info = 17, sym_shndx = 4, sym_value = 0, sym_size = 13\<rparr>]"
  by (simp add: elf_symbols_def task_iter_elf_sections Let_def read_symbol_rows [OF task_iter_elf_symtab_rows] del: upt_rec_numeral)
    (simp add: read_symbol_def elf_eval task_iter_elf_1_def)

lemma task_iter_elf_programs:
  "elf_programs task_iter_bpf__elf_bytes =
    [(''iter/task'', decode_program task_iter_elf_3)]"
  by (simp add: elf_programs_def task_iter_elf_sections is_program_def bit_numeral_rec bit_0)

end
