(* ===== verification/Obj_Tc.thy ===== *)
theory Obj_Tc
  imports Elf
begin

text \<open>
  The object file embedded in examples/c/.output/tc.skel.h as a string literal: one list of bytes per line of the
  literal, cut at the borders of the sections; then its section table, its symbols and its programs.
\<close>

section \<open>The literal\<close>

definition tc_elf_hdr :: "byte list" where
  "tc_elf_hdr =
    concat
    [[127, 69, 76, 70, 2, 1, 1, 0, 0, 0, 0, 0, 0, 0, 0, 0, 1, 0, 247, 0, 1, 0, 0, 0, 0, 0, 0, 0, 0],
     [0, 0, 0, 0, 0, 0, 0, 0, 0, 0, 0, 160, 11, 0, 0, 0, 0, 0, 0, 0, 0, 0, 0, 64, 0, 0, 0, 0, 0, 64, 0, 9, 0],
     [1, 0]]"

definition tc_elf_1 :: "byte list" where
  "tc_elf_1 =
    concat
    [[0, 46, 115, 116, 114, 116, 97, 98, 0, 46, 115, 121, 109, 116, 97, 98, 0, 116, 99, 0],
     [46, 114, 111, 100, 97, 116, 97, 0, 108, 105, 99, 101, 110, 115, 101, 0, 116, 99, 46, 98],
     [112, 102, 46, 99, 0, 76, 66, 66, 48, 95, 52, 0, 116, 99, 95, 105, 110, 103, 114, 101],
     [115, 115, 46, 95, 95, 95, 95, 102, 109, 116, 0, 116, 99, 95, 105, 110, 103, 114, 101, 115],
     [115, 0, 95, 95, 108, 105, 99, 101, 110, 115, 101, 0, 46, 114, 101, 108, 116, 99, 0, 46, 66],
     [84, 70, 0, 46, 66, 84, 70, 46, 101, 120, 116, 0, 0, 0, 0, 0, 0, 0, 0]]"

definition tc_elf_2 :: "byte list" where
  "tc_elf_2 =
    concat
    [[0, 0, 0, 0, 0, 0, 0, 0, 0, 0],
     [0, 0, 0, 0, 0, 0, 0, 0, 0, 0, 0, 0, 0, 0, 36, 0, 0, 0, 4, 0, 241, 255, 0, 0, 0, 0, 0, 0, 0, 0, 0, 0, 0, 0, 0],
     [0, 0, 0, 0, 0, 0, 0, 3, 0, 3, 0, 0, 0, 0, 0, 0, 0, 0, 0, 0, 0, 0, 0, 0, 0, 0, 0, 45, 0, 0, 0, 0, 0, 3, 0],
     [128, 0, 0, 0, 0, 0, 0, 0, 0, 0, 0, 0, 0, 0, 0, 0, 52, 0, 0, 0, 1, 0, 4, 0, 0, 0, 0, 0, 0, 0, 0, 0, 36, 0],
     [0, 0, 0, 0, 0, 0, 0, 0, 0, 0, 3, 0, 4, 0, 0, 0, 0, 0, 0, 0, 0, 0, 0, 0, 0, 0, 0, 0, 0, 0, 71, 0, 0, 0, 18],
     [0, 3, 0, 0, 0, 0, 0, 0, 0, 0, 0, 144, 0, 0, 0, 0, 0, 0, 0, 82, 0, 0, 0, 17, 0, 5, 0, 0, 0, 0, 0, 0, 0, 0],
     [0, 4, 0, 0, 0, 0, 0, 0, 0]]"

definition tc_elf_3 :: "byte list" where
  "tc_elf_3 =
    concat
    [[97, 18, 16, 0, 0, 0, 0, 0, 85, 2, 14, 0, 8, 0, 0, 0, 97, 18, 76],
     [0, 0, 0, 0, 0, 97, 19, 80, 0, 0, 0, 0, 0, 191, 33, 0, 0, 0, 0, 0, 0, 7, 1, 0, 0, 14, 0, 0, 0, 45],
     [49, 9, 0, 0, 0, 0, 0, 7, 2, 0, 0, 34, 0, 0, 0, 45, 50, 7, 0, 0, 0, 0, 0, 113, 20, 8, 0, 0],
     [0, 0, 0, 105, 19, 2, 0, 0, 0, 0, 0, 220, 3, 0, 0, 16, 0, 0, 0, 24, 1, 0, 0, 0, 0, 0, 0, 0, 0, 0, 0],
     [0, 0, 0, 0, 183, 2, 0, 0, 36, 0, 0, 0, 133, 0, 0, 0, 6, 0, 0, 0, 183, 0, 0, 0, 0, 0, 0, 0, 149, 0, 0, 0],
     [0, 0, 0, 0]]"

definition tc_elf_4 :: "byte list" where
  "tc_elf_4 =
    concat
    [[71, 111, 116, 32, 73, 80, 32, 112, 97, 99, 107, 101, 116, 58, 32, 116, 111],
     [116, 95, 108, 101, 110, 58, 32, 37, 100, 44, 32, 116, 116, 108, 58, 32, 37, 100, 0]]"

definition tc_elf_5 :: "byte list" where
  "tc_elf_5 =
    concat
    [[71],
     [80, 76, 0]]"

definition tc_elf_6 :: "byte list" where
  "tc_elf_6 =
    concat
    [[96, 0, 0, 0, 0, 0, 0, 0, 1, 0, 0, 0, 5, 0, 0, 0]]"

definition tc_elf_7 :: "byte list" where
  "tc_elf_7 =
    concat
    [[159, 235, 1, 0, 24, 0, 0, 0, 0, 0, 0],
     [0, 124, 4, 0, 0, 124, 4, 0, 0, 167, 3, 0, 0, 0, 0, 0, 0, 0, 0, 0, 2, 2, 0, 0, 0, 1, 0, 0, 0],
     [34, 0, 0, 4, 192, 0, 0, 0, 11, 0, 0, 0, 3, 0, 0, 0, 0, 0, 0, 0, 15, 0, 0, 0, 3, 0, 0, 0, 32, 0, 0],
     [0, 24, 0, 0, 0, 3, 0, 0, 0, 64, 0, 0, 0, 29, 0, 0, 0, 3, 0, 0, 0, 96, 0, 0, 0, 43, 0, 0, 0, 3, 0],
     [0, 0, 128, 0, 0, 0, 52, 0, 0, 0, 3, 0, 0, 0, 160, 0, 0, 0, 65, 0, 0, 0, 3, 0, 0, 0, 192, 0, 0, 0, 74],
     [0, 0, 0, 3, 0, 0, 0, 224, 0, 0, 0, 85, 0, 0, 0, 3, 0, 0, 0, 0, 1, 0, 0, 94, 0, 0, 0, 3, 0, 0, 0],
     [32, 1, 0, 0, 110, 0, 0, 0, 3, 0, 0, 0, 64, 1, 0, 0, 118, 0, 0, 0, 3, 0, 0, 0, 96, 1, 0, 0],
     [127, 0, 0, 0, 5, 0, 0, 0, 128, 1, 0, 0, 130, 0, 0, 0, 3, 0, 0, 0, 32, 2, 0, 0, 135, 0, 0, 0, 3],
     [0, 0, 0, 64, 2, 0, 0, 146, 0, 0, 0, 3, 0, 0, 0, 96, 2, 0, 0, 151, 0, 0, 0, 3, 0, 0, 0, 128, 2],
     [0, 0, 160, 0, 0, 0, 3, 0, 0, 0, 160, 2, 0, 0, 168, 0, 0, 0, 3, 0, 0, 0, 192, 2, 0, 0, 175, 0, 0, 0],
     [3, 0, 0, 0, 224, 2, 0, 0, 186, 0, 0, 0, 3, 0, 0, 0, 0, 3, 0, 0, 196, 0, 0, 0, 7, 0, 0, 0, 32],
     [3, 0, 0, 207, 0, 0, 0, 7, 0, 0, 0, 160, 3, 0, 0, 217, 0, 0, 0, 3, 0, 0, 0, 32, 4, 0, 0, 229, 0],
     [0, 0, 3, 0, 0, 0, 64, 4, 0, 0, 240, 0, 0, 0, 3, 0, 0, 0, 96, 4, 0, 0, 0, 0, 0, 0, 8, 0, 0, 0],
     [128, 4, 0, 0, 250, 0, 0, 0, 10, 0, 0, 0, 192, 4, 0, 0, 1, 1, 0, 0, 3, 0, 0, 0, 0, 5, 0, 0],
     [10, 1, 0, 0, 3, 0, 0, 0, 32, 5, 0, 0, 0, 0, 0, 0, 12, 0, 0, 0, 64, 5, 0, 0, 19, 1, 0, 0],
     [3, 0, 0, 0, 128, 5, 0, 0, 28, 1, 0, 0, 14, 0, 0, 0, 160, 5, 0, 0, 40, 1, 0, 0, 10, 0, 0, 0],
     [192, 5, 0, 0, 49, 1, 0, 0, 0, 0, 0, 8, 4, 0, 0, 0, 55, 1, 0, 0, 0, 0, 0, 1, 4, 0, 0, 0],
     [32, 0, 0, 0, 0, 0, 0, 0, 0, 0, 0, 3, 0, 0, 0, 0, 3, 0, 0, 0, 6, 0, 0, 0, 5, 0, 0, 0, 68, 1, 0, 0],
     [0, 0, 0, 1, 4, 0, 0, 0, 32, 0, 0, 0, 0, 0, 0, 0, 0, 0, 0, 3, 0, 0, 0, 0, 3, 0, 0, 0, 6, 0, 0, 0],
     [4, 0, 0, 0, 0, 0, 0, 0, 1, 0, 0, 5, 8, 0, 0, 0, 88, 1, 0, 0, 9, 0, 0, 0, 0, 0, 0, 0, 0, 0, 0, 0],
     [0, 0, 0, 2, 33, 0, 0, 0, 98, 1, 0, 0, 0, 0, 0, 8, 11, 0, 0, 0, 104, 1, 0, 0, 0, 0, 0, 1, 8],
     [0, 0, 0, 64, 0, 0, 0, 0, 0, 0, 0, 1, 0, 0, 5, 8, 0, 0, 0, 123, 1, 0, 0, 13, 0, 0, 0, 0, 0, 0, 0, 0],
     [0, 0, 0, 0, 0, 0, 2, 34, 0, 0, 0, 126, 1, 0, 0, 0, 0, 0, 8, 15, 0, 0, 0, 131, 1, 0, 0, 0, 0, 0],
     [1, 1, 0, 0, 0, 8, 0, 0, 0, 0, 0, 0, 0, 1, 0, 0, 13, 17, 0, 0, 0, 145, 1, 0, 0, 1, 0, 0, 0],
     [149, 1, 0, 0, 0, 0, 0, 1, 4, 0, 0, 0, 32, 0, 0, 1, 153, 1, 0, 0, 1, 0, 0, 12, 16, 0, 0, 0],
     [164, 1, 0, 0, 10, 0, 0, 132, 20, 0, 0, 0, 170, 1, 0, 0, 14, 0, 0, 0, 0, 0, 0, 4, 174, 1, 0, 0],
     [14, 0, 0, 0, 4, 0, 0, 4, 182, 1, 0, 0, 14, 0, 0, 0, 8, 0, 0, 0, 186, 1, 0, 0, 20, 0, 0, 0],
     [16, 0, 0, 0, 194, 1, 0, 0, 20, 0, 0, 0, 32, 0, 0, 0, 197, 1, 0, 0, 20, 0, 0, 0, 48, 0, 0, 0, 206],
     [1, 0, 0, 14, 0, 0, 0, 64, 0, 0, 0, 43, 0, 0, 0, 14, 0, 0, 0, 72, 0, 0, 0, 210, 1, 0, 0, 23, 0, 0],
     [0, 80, 0, 0, 0, 0, 0, 0, 0, 24, 0, 0, 0, 96, 0, 0, 0, 216, 1, 0, 0, 0, 0, 0, 8, 21, 0, 0, 0, 223],
     [1, 0, 0, 0, 0, 0, 8, 22, 0, 0, 0, 229, 1, 0, 0, 0, 0, 0, 1, 2, 0, 0, 0, 16, 0, 0, 0, 244, 1],
     [0, 0, 0, 0, 0, 8, 21, 0, 0, 0, 0, 0, 0, 0, 2, 0, 0, 5, 8, 0, 0, 0, 0, 0, 0, 0, 25, 0, 0, 0, 0, 0, 0],
     [0, 252, 1, 0, 0, 25, 0, 0, 0, 0, 0, 0, 0, 0, 0, 0, 0, 2, 0, 0, 4, 8, 0, 0, 0, 2, 2, 0, 0, 26],
     [0, 0, 0, 0, 0, 0, 0, 8, 2, 0, 0, 26, 0, 0, 0, 32, 0, 0, 0, 14, 2, 0, 0, 0, 0, 0, 8, 3, 0, 0, 0],
     [0, 0, 0, 0, 0, 0, 0, 10, 28, 0, 0, 0, 21, 2, 0, 0, 0, 0, 0, 1, 1, 0, 0, 0, 8, 0, 0, 1, 0, 0, 0],
     [0, 0, 0, 0, 3, 0, 0, 0, 0, 27, 0, 0, 0, 6, 0, 0, 0, 36, 0, 0, 0, 26, 2, 0, 0, 0, 0, 0, 14, 29, 0],
     [0, 0, 0, 0, 0, 0, 0, 0, 0, 0, 0, 0, 0, 3, 0, 0, 0, 0, 28, 0, 0, 0, 6, 0, 0, 0, 4, 0, 0, 0, 45, 2, 0],
     [0, 0, 0, 0, 14, 31, 0, 0, 0, 1, 0, 0, 0, 55, 2, 0, 0, 0, 0, 0, 7, 0, 0, 0, 0, 69, 2, 0, 0, 0, 0],
     [0, 7, 0, 0, 0, 0, 148, 3, 0, 0, 1, 0, 0, 15, 36, 0, 0, 0, 30, 0, 0, 0, 0, 0, 0, 0, 36, 0, 0, 0],
     [156, 3, 0, 0, 1, 0, 0, 15, 4, 0, 0, 0, 32, 0, 0, 0, 0, 0, 0, 0, 4, 0, 0, 0, 0, 95, 95, 115],
     [107, 95, 98, 117, 102, 102, 0, 108, 101, 110, 0, 112, 107, 116, 95, 116, 121, 112, 101, 0, 109],
     [97, 114, 107, 0, 113, 117, 101, 117, 101, 95, 109, 97, 112, 112, 105, 110, 103, 0, 112, 114],
     [111, 116, 111, 99, 111, 108, 0, 118, 108, 97, 110, 95, 112, 114, 101, 115, 101, 110, 116, 0],
     [118, 108, 97, 110, 95, 116, 99, 105, 0, 118, 108, 97, 110, 95, 112, 114, 111, 116, 111, 0],
     [112, 114, 105, 111, 114, 105, 116, 121, 0, 105, 110, 103, 114, 101, 115, 115, 95, 105, 102, 105],
     [110, 100, 101, 120, 0, 105, 102, 105, 110, 100, 101, 120, 0, 116, 99, 95, 105, 110, 100, 101],
     [120, 0, 99, 98, 0, 104, 97, 115, 104, 0, 116, 99, 95, 99, 108, 97, 115, 115, 105, 100, 0],
     [100, 97, 116, 97, 0, 100, 97, 116, 97, 95, 101, 110, 100, 0, 110, 97, 112, 105, 95, 105],
     [100, 0, 102, 97, 109, 105, 108, 121, 0, 114, 101, 109, 111, 116, 101, 95, 105, 112, 52, 0, 108],
     [111, 99, 97, 108, 95, 105, 112, 52, 0, 114, 101, 109, 111, 116, 101, 95, 105, 112, 54, 0],
     [108, 111, 99, 97, 108, 95, 105, 112, 54, 0, 114, 101, 109, 111, 116, 101, 95, 112, 111, 114],
     [116, 0, 108, 111, 99, 97, 108, 95, 112, 111, 114, 116, 0, 100, 97, 116, 97, 95, 109, 101],
     [116, 97, 0, 116, 115, 116, 97, 109, 112, 0, 119, 105, 114, 101, 95, 108, 101, 110, 0, 103, 115],
     [111, 95, 115, 101, 103, 115, 0, 103, 115, 111, 95, 115, 105, 122, 101, 0, 116, 115, 116, 97],
     [109, 112, 95, 116, 121, 112, 101, 0, 104, 119, 116, 115, 116, 97, 109, 112, 0, 95, 95, 117],
     [51, 50, 0, 117, 110, 115, 105, 103, 110, 101, 100, 32, 105, 110, 116, 0, 95, 95, 65, 82],
     [82, 65, 89, 95, 83, 73, 90, 69, 95, 84, 89, 80, 69, 95, 95, 0, 102, 108, 111, 119],
     [95, 107, 101, 121, 115, 0, 95, 95, 117, 54, 52, 0, 117, 110, 115, 105, 103, 110, 101, 100],
     [32, 108, 111, 110, 103, 32, 108, 111, 110, 103, 0, 115, 107, 0, 95, 95, 117, 56, 0, 117, 110],
     [115, 105, 103, 110, 101, 100, 32, 99, 104, 97, 114, 0, 99, 116, 120, 0, 105, 110, 116, 0, 116],
     [99, 95, 105, 110, 103, 114, 101, 115, 115, 0, 105, 112, 104, 100, 114, 0, 105, 104, 108, 0, 118],
     [101, 114, 115, 105, 111, 110, 0, 116, 111, 115, 0, 116, 111, 116, 95, 108, 101, 110, 0, 105, 100],
     [0, 102, 114, 97, 103, 95, 111, 102, 102, 0, 116, 116, 108, 0, 99, 104, 101, 99, 107, 0, 95],
     [95, 98, 101, 49, 54, 0, 95, 95, 117, 49, 54, 0, 117, 110, 115, 105, 103, 110, 101, 100],
     [32, 115, 104, 111, 114, 116, 0, 95, 95, 115, 117, 109, 49, 54, 0, 97, 100, 100, 114, 115, 0],
     [115, 97, 100, 100, 114, 0, 100, 97, 100, 100, 114, 0, 95, 95, 98, 101, 51, 50, 0, 99, 104],
     [97, 114, 0, 116, 99, 95, 105, 110, 103, 114, 101, 115, 115, 46, 95, 95, 95, 95, 102, 109],
     [116, 0, 95, 95, 108, 105, 99, 101, 110, 115, 101, 0, 98, 112, 102, 95, 102, 108, 111, 119],
     [95, 107, 101, 121, 115, 0, 98, 112, 102, 95, 115, 111, 99, 107, 0, 47, 104, 111, 109, 101],
     [47, 108, 111, 115, 116, 99, 97, 99, 104, 101, 47, 99, 111, 100, 101, 47, 104, 101, 108],
     [108, 111, 95, 101, 66, 80, 70, 47, 101, 120, 97, 109, 112, 108, 101, 115, 47, 99, 47],
     [116, 99, 46, 98, 112, 102, 46, 99, 0, 9, 105, 102, 32, 40, 99, 116, 120, 45, 62, 112],
     [114, 111, 116, 111, 99, 111, 108, 32, 33, 61, 32, 98, 112, 102, 95, 104, 116, 111, 110],
     [115, 40, 69, 84, 72, 95, 80, 95, 73, 80, 41, 41, 0, 9, 118, 111, 105, 100, 32, 42],
     [100, 97, 116, 97, 32, 61, 32, 40, 118, 111, 105, 100, 32, 42, 41, 40, 95, 95, 117],
     [54, 52, 41, 99, 116, 120, 45, 62, 100, 97, 116, 97, 59, 0, 9, 118, 111, 105, 100, 32],
     [42, 100, 97, 116, 97, 95, 101, 110, 100, 32, 61, 32, 40, 118, 111, 105, 100, 32, 42],
     [41, 40, 95, 95, 117, 54, 52, 41, 99, 116, 120, 45, 62, 100, 97, 116, 97, 95, 101],
     [110, 100, 59, 0, 9, 105, 102, 32, 40, 40, 118, 111, 105, 100, 32, 42, 41, 40, 108, 50],
     [32, 43, 32, 49, 41, 32, 62, 32, 100, 97, 116, 97, 95, 101, 110, 100, 41, 0, 9, 98],
     [112, 102, 95, 112, 114, 105, 110, 116, 107, 40, 34, 71, 111, 116, 32, 73, 80, 32, 112],
     [97, 99, 107, 101, 116, 58, 32, 116, 111, 116, 95, 108, 101, 110, 58, 32, 37, 100, 44],
     [32, 116, 116, 108, 58, 32, 37, 100, 34, 44, 32, 98, 112, 102, 95, 110, 116, 111, 104],
     [115, 40, 108, 51, 45, 62, 116, 111, 116, 95, 108, 101, 110, 41, 44, 32, 108, 51, 45],
     [62, 116, 116, 108, 41, 59, 0, 125, 0, 48, 58, 52, 0, 48, 58, 49, 53, 0, 48, 58, 49],
     [54, 0, 48, 58, 54, 0, 48, 58, 51, 0, 46, 114, 111, 100, 97, 116, 97, 0, 108, 105, 99],
     [101, 110, 115, 101, 0, 116, 99, 0, 0, 0, 0, 0, 0]]"

definition tc_elf_8 :: "byte list" where
  "tc_elf_8 =
    concat
    [[159, 235, 1, 0, 32, 0, 0, 0, 0, 0, 0, 0, 20, 0, 0],
     [0, 20, 0, 0, 0, 140, 0, 0, 0, 160, 0, 0, 0, 92, 0, 0, 0, 8, 0, 0, 0, 164, 3, 0, 0, 1, 0, 0, 0, 0, 0],
     [0, 0, 18, 0, 0, 0, 16, 0, 0, 0, 164, 3, 0, 0, 8, 0, 0, 0, 0, 0, 0, 0, 78, 2, 0, 0, 130, 2, 0, 0],
     [11, 76, 0, 0, 8, 0, 0, 0, 78, 2, 0, 0, 130, 2, 0, 0, 6, 76, 0, 0, 16, 0, 0, 0, 78, 2, 0],
     [0, 173, 2, 0, 0, 35, 60, 0, 0, 24, 0, 0, 0, 78, 2, 0, 0, 213, 2, 0, 0, 39, 56, 0, 0, 32, 0],
     [0, 0, 78, 2, 0, 0, 5, 3, 0, 0, 18, 92, 0, 0, 48, 0, 0, 0, 78, 2, 0, 0, 5, 3, 0, 0, 6],
     [92, 0, 0, 72, 0, 0, 0, 78, 2, 0, 0, 39, 3, 0, 0, 2, 120, 0, 0, 128, 0, 0, 0, 78, 2, 0, 0],
     [124, 3, 0, 0, 1, 128, 0, 0, 16, 0, 0, 0, 164, 3, 0, 0, 5, 0, 0, 0, 0, 0, 0, 0, 2, 0, 0, 0, 126],
     [3, 0, 0, 0, 0, 0, 0, 16, 0, 0, 0, 2, 0, 0, 0, 130, 3, 0, 0, 0, 0, 0, 0, 24, 0, 0, 0, 2, 0, 0, 0],
     [135, 3, 0, 0, 0, 0, 0, 0, 72, 0, 0, 0, 19, 0, 0, 0, 140, 3, 0, 0, 0, 0, 0, 0, 80, 0, 0, 0, 19, 0, 0],
     [0, 144, 3, 0, 0, 0, 0, 0, 0, 0, 0, 0, 0]]"

definition tc_elf_shdrs :: "byte list list" where
  "tc_elf_shdrs =
    [[0, 0, 0, 0, 0, 0, 0, 0, 0, 0, 0, 0, 0, 0, 0, 0, 0, 0, 0, 0, 0, 0, 0, 0, 0, 0, 0, 0, 0, 0, 0, 0,
      0, 0, 0, 0, 0, 0, 0, 0, 0, 0, 0, 0, 0, 0, 0, 0, 0, 0, 0, 0, 0, 0, 0, 0, 0, 0, 0, 0, 0, 0, 0, 0],
     [1, 0, 0, 0, 3, 0, 0, 0, 32, 0, 0, 0, 0, 0, 0, 0, 0, 0, 0, 0, 0, 0, 0, 0, 64, 0, 0, 0, 0, 0, 0, 0,
      113, 0, 0, 0, 0, 0, 0, 0, 0, 0, 0, 0, 0, 0, 0, 0, 1, 0, 0, 0, 0, 0, 0, 0, 0, 0, 0, 0, 0, 0, 0, 0],
     [9, 0, 0, 0, 2, 0, 0, 0, 0, 0, 0, 0, 0, 0, 0, 0, 0, 0, 0, 0, 0, 0, 0, 0, 184, 0, 0, 0, 0, 0, 0, 0,
      192, 0, 0, 0, 0, 0, 0, 0, 1, 0, 0, 0, 0, 0, 0, 0, 8, 0, 0, 0, 0, 0, 0, 0, 24, 0, 0, 0, 0, 0, 0, 0],
     [17, 0, 0, 0, 1, 0, 0, 0, 6, 0, 0, 0, 0, 0, 0, 0, 0, 0, 0, 0, 0, 0, 0, 0, 120, 1, 0, 0, 0, 0, 0, 0,
      144, 0, 0, 0, 0, 0, 0, 0, 0, 0, 0, 0, 0, 0, 0, 0, 8, 0, 0, 0, 0, 0, 0, 0, 0, 0, 0, 0, 0, 0, 0, 0],
     [20, 0, 0, 0, 1, 0, 0, 0, 2, 0, 0, 0, 0, 0, 0, 0, 0, 0, 0, 0, 0, 0, 0, 0, 8, 2, 0, 0, 0, 0, 0, 0,
      36, 0, 0, 0, 0, 0, 0, 0, 0, 0, 0, 0, 0, 0, 0, 0, 1, 0, 0, 0, 0, 0, 0, 0, 0, 0, 0, 0, 0, 0, 0, 0],
     [28, 0, 0, 0, 1, 0, 0, 0, 3, 0, 0, 0, 0, 0, 0, 0, 0, 0, 0, 0, 0, 0, 0, 0, 44, 2, 0, 0, 0, 0, 0, 0,
      4, 0, 0, 0, 0, 0, 0, 0, 0, 0, 0, 0, 0, 0, 0, 0, 1, 0, 0, 0, 0, 0, 0, 0, 0, 0, 0, 0, 0, 0, 0, 0],
     [92, 0, 0, 0, 9, 0, 0, 0, 64, 0, 0, 0, 0, 0, 0, 0, 0, 0, 0, 0, 0, 0, 0, 0, 48, 2, 0, 0, 0, 0, 0, 0,
      16, 0, 0, 0, 0, 0, 0, 0, 2, 0, 0, 0, 3, 0, 0, 0, 8, 0, 0, 0, 0, 0, 0, 0, 16, 0, 0, 0, 0, 0, 0, 0],
     [99, 0, 0, 0, 1, 0, 0, 0, 0, 0, 0, 0, 0, 0, 0, 0, 0, 0, 0, 0, 0, 0, 0, 0, 64, 2, 0, 0, 0, 0, 0, 0,
      59, 8, 0, 0, 0, 0, 0, 0, 0, 0, 0, 0, 0, 0, 0, 0, 8, 0, 0, 0, 0, 0, 0, 0, 0, 0, 0, 0, 0, 0, 0, 0],
     [104, 0, 0, 0, 1, 0, 0, 0, 0, 0, 0, 0, 0, 0, 0, 0, 0, 0, 0, 0, 0, 0, 0, 0, 128, 10, 0, 0, 0, 0, 0, 0,
      28, 1, 0, 0, 0, 0, 0, 0, 0, 0, 0, 0, 0, 0, 0, 0, 8, 0, 0, 0, 0, 0, 0, 0, 0, 0, 0, 0, 0, 0, 0, 0]]"

definition tc_elf_body :: "byte list list" where
  "tc_elf_body = [tc_elf_1, tc_elf_2, tc_elf_3, tc_elf_4, tc_elf_5, tc_elf_6, tc_elf_7, tc_elf_8]"

definition tc_bpf__elf_bytes :: "byte list" where
  "tc_bpf__elf_bytes = concat (tc_elf_hdr # tc_elf_body) @ concat tc_elf_shdrs"

section \<open>The parts of the object\<close>

text \<open>The sizes of the pieces. The definitions stay folded: a piece is only opened where it is read.\<close>

lemma tc_elf_lengths [simp]:
  "length tc_elf_hdr = 64"
  "length tc_elf_1 = 120"
  "length tc_elf_2 = 192"
  "length tc_elf_3 = 144"
  "length tc_elf_4 = 36"
  "length tc_elf_5 = 4"
  "length tc_elf_6 = 16"
  "length tc_elf_7 = 2112"
  "length tc_elf_8 = 288"
  by (simp_all only: piece_length tc_elf_hdr_def tc_elf_1_def tc_elf_2_def tc_elf_3_def tc_elf_4_def
    tc_elf_5_def tc_elf_6_def tc_elf_7_def tc_elf_8_def)

lemma tc_elf_pieces: "object_pieces tc_bpf__elf_bytes (tc_elf_hdr # tc_elf_body) tc_elf_shdrs"
proof -
  have "le_at tc_elf_hdr 40 8 = 2976" "le_at tc_elf_hdr 60 2 = 9" "le_at tc_elf_hdr 62 2 = 1"
    by (simp_all add: tc_elf_hdr_def elf_eval)
  moreover have "list_all (\<lambda>h. length h = 64) tc_elf_shdrs" "length tc_elf_shdrs = 9"
    by (simp_all add: tc_elf_shdrs_def)
  ultimately show ?thesis
    by (simp add: object_pieces_def tc_bpf__elf_bytes_def tc_elf_body_def)
qed

lemma tc_elf_headers:
  "elf_section_at tc_bpf__elf_bytes 0 = \<lparr>sec_name = 0, sec_type = 0, sec_offset = 0, sec_size = 0, sec_link = 0, sec_info = 0\<rparr>"
  "elf_section_at tc_bpf__elf_bytes 1 = \<lparr>sec_name = 1, sec_type = 3, sec_offset = 64, sec_size = 113, sec_link = 0, sec_info = 0\<rparr>"
  "elf_section_at tc_bpf__elf_bytes 2 = \<lparr>sec_name = 9, sec_type = 2, sec_offset = 184, sec_size = 192, sec_link = 1, sec_info = 0\<rparr>"
  "elf_section_at tc_bpf__elf_bytes 3 = \<lparr>sec_name = 17, sec_type = 1, sec_offset = 376, sec_size = 144, sec_link = 0, sec_info = 0\<rparr>"
  "elf_section_at tc_bpf__elf_bytes 4 = \<lparr>sec_name = 20, sec_type = 1, sec_offset = 520, sec_size = 36, sec_link = 0, sec_info = 0\<rparr>"
  "elf_section_at tc_bpf__elf_bytes 5 = \<lparr>sec_name = 28, sec_type = 1, sec_offset = 556, sec_size = 4, sec_link = 0, sec_info = 0\<rparr>"
  "elf_section_at tc_bpf__elf_bytes 6 = \<lparr>sec_name = 92, sec_type = 9, sec_offset = 560, sec_size = 16, sec_link = 2, sec_info = 3\<rparr>"
  "elf_section_at tc_bpf__elf_bytes 7 = \<lparr>sec_name = 99, sec_type = 1, sec_offset = 576, sec_size = 2107, sec_link = 0, sec_info = 0\<rparr>"
  "elf_section_at tc_bpf__elf_bytes 8 = \<lparr>sec_name = 104, sec_type = 1, sec_offset = 2688, sec_size = 284, sec_link = 0, sec_info = 0\<rparr>"
  by (simp_all add: object_section [OF tc_elf_pieces] tc_elf_shdrs_def elf_section_header_def elf_eval)

lemma tc_elf_flags:
  "section_flags tc_bpf__elf_bytes 0 = 0"
  "section_flags tc_bpf__elf_bytes 1 = 32"
  "section_flags tc_bpf__elf_bytes 2 = 0"
  "section_flags tc_bpf__elf_bytes 3 = 6"
  "section_flags tc_bpf__elf_bytes 4 = 2"
  "section_flags tc_bpf__elf_bytes 5 = 3"
  "section_flags tc_bpf__elf_bytes 6 = 64"
  "section_flags tc_bpf__elf_bytes 7 = 0"
  "section_flags tc_bpf__elf_bytes 8 = 0"
  by (simp_all add: object_section [OF tc_elf_pieces] tc_elf_shdrs_def elf_eval)

lemma tc_elf_contents:
  "section_bytes tc_bpf__elf_bytes 0 = []"
  "section_bytes tc_bpf__elf_bytes 1 = take 113 tc_elf_1"
  "section_bytes tc_bpf__elf_bytes 2 = tc_elf_2"
  "section_bytes tc_bpf__elf_bytes 3 = tc_elf_3"
  "section_bytes tc_bpf__elf_bytes 4 = tc_elf_4"
  "section_bytes tc_bpf__elf_bytes 5 = tc_elf_5"
  "section_bytes tc_bpf__elf_bytes 6 = tc_elf_6"
  "section_bytes tc_bpf__elf_bytes 7 = take 2107 tc_elf_7"
  "section_bytes tc_bpf__elf_bytes 8 = take 284 tc_elf_8"
proof -
  show "section_bytes tc_bpf__elf_bytes 0 = []"
    by (simp add: section_bytes_def tc_elf_headers elf_section.defs)
  show "section_bytes tc_bpf__elf_bytes 1 = take 113 tc_elf_1"
    using object_section_bytes [OF tc_elf_pieces tc_elf_headers(2), of 1] by (simp add: tc_elf_body_def)
  show "section_bytes tc_bpf__elf_bytes 2 = tc_elf_2"
    using object_section_bytes [OF tc_elf_pieces tc_elf_headers(3), of 2] by (simp add: tc_elf_body_def)
  show "section_bytes tc_bpf__elf_bytes 3 = tc_elf_3"
    using object_section_bytes [OF tc_elf_pieces tc_elf_headers(4), of 3] by (simp add: tc_elf_body_def)
  show "section_bytes tc_bpf__elf_bytes 4 = tc_elf_4"
    using object_section_bytes [OF tc_elf_pieces tc_elf_headers(5), of 4] by (simp add: tc_elf_body_def)
  show "section_bytes tc_bpf__elf_bytes 5 = tc_elf_5"
    using object_section_bytes [OF tc_elf_pieces tc_elf_headers(6), of 5] by (simp add: tc_elf_body_def)
  show "section_bytes tc_bpf__elf_bytes 6 = tc_elf_6"
    using object_section_bytes [OF tc_elf_pieces tc_elf_headers(7), of 6] by (simp add: tc_elf_body_def)
  show "section_bytes tc_bpf__elf_bytes 7 = take 2107 tc_elf_7"
    using object_section_bytes [OF tc_elf_pieces tc_elf_headers(8), of 7] by (simp add: tc_elf_body_def)
  show "section_bytes tc_bpf__elf_bytes 8 = take 284 tc_elf_8"
    using object_section_bytes [OF tc_elf_pieces tc_elf_headers(9), of 8] by (simp add: tc_elf_body_def)
qed

lemma tc_elf_names:
  "section_name tc_bpf__elf_bytes 0 = ''''"
  "section_name tc_bpf__elf_bytes 1 = ''.strtab''"
  "section_name tc_bpf__elf_bytes 2 = ''.symtab''"
  "section_name tc_bpf__elf_bytes 3 = ''tc''"
  "section_name tc_bpf__elf_bytes 4 = ''.rodata''"
  "section_name tc_bpf__elf_bytes 5 = ''license''"
  "section_name tc_bpf__elf_bytes 6 = ''.reltc''"
  "section_name tc_bpf__elf_bytes 7 = ''.BTF''"
  "section_name tc_bpf__elf_bytes 8 = ''.BTF.ext''"
  by (simp_all only: object_section_name [OF tc_elf_pieces tc_elf_contents(2)] tc_elf_headers elf_section.simps)
    (simp_all add: elf_eval tc_elf_1_def)

lemma tc_elf_sections:
  "elf_sections tc_bpf__elf_bytes =
    [\<lparr>es_name = '''', es_type = 0, es_flags = 0, es_link = 0, es_info = 0, es_size = 0,
      es_bytes = []\<rparr>,
     \<lparr>es_name = ''.strtab'', es_type = 3, es_flags = 32, es_link = 0, es_info = 0, es_size = 113,
      es_bytes = take 113 tc_elf_1\<rparr>,
     \<lparr>es_name = ''.symtab'', es_type = 2, es_flags = 0, es_link = 1, es_info = 0, es_size = 192,
      es_bytes = tc_elf_2\<rparr>,
     \<lparr>es_name = ''tc'', es_type = 1, es_flags = 6, es_link = 0, es_info = 0, es_size = 144,
      es_bytes = tc_elf_3\<rparr>,
     \<lparr>es_name = ''.rodata'', es_type = 1, es_flags = 2, es_link = 0, es_info = 0, es_size = 36,
      es_bytes = tc_elf_4\<rparr>,
     \<lparr>es_name = ''license'', es_type = 1, es_flags = 3, es_link = 0, es_info = 0, es_size = 4,
      es_bytes = tc_elf_5\<rparr>,
     \<lparr>es_name = ''.reltc'', es_type = 9, es_flags = 64, es_link = 2, es_info = 3, es_size = 16,
      es_bytes = tc_elf_6\<rparr>,
     \<lparr>es_name = ''.BTF'', es_type = 1, es_flags = 0, es_link = 0, es_info = 0, es_size = 2107,
      es_bytes = take 2107 tc_elf_7\<rparr>,
     \<lparr>es_name = ''.BTF.ext'', es_type = 1, es_flags = 0, es_link = 0, es_info = 0, es_size = 284,
      es_bytes = take 284 tc_elf_8\<rparr>]"
proof -
  have "le_at tc_bpf__elf_bytes 60 2 = 9"
    using object_piecesD(4) [OF tc_elf_pieces] by (simp add: tc_elf_shdrs_def)
  moreover have "[0..<9] = [0, 1, 2, 3, 4, 5, 6, 7, 8]"
    by (simp add: upt_rec)
  ultimately show ?thesis
    by (simp only: elf_sections_def list.map read_section_def Let_def tc_elf_headers tc_elf_flags tc_elf_contents
        tc_elf_names elf_section.simps)
qed

lemma tc_elf_symtab_rows:
  "tc_elf_2 =
    concat
     [[0, 0, 0, 0, 0, 0, 0, 0, 0, 0, 0, 0, 0, 0, 0, 0, 0, 0, 0, 0, 0, 0, 0, 0],
      [36, 0, 0, 0, 4, 0, 241, 255, 0, 0, 0, 0, 0, 0, 0, 0, 0, 0, 0, 0, 0, 0, 0, 0],
      [0, 0, 0, 0, 3, 0, 3, 0, 0, 0, 0, 0, 0, 0, 0, 0, 0, 0, 0, 0, 0, 0, 0, 0],
      [45, 0, 0, 0, 0, 0, 3, 0, 128, 0, 0, 0, 0, 0, 0, 0, 0, 0, 0, 0, 0, 0, 0, 0],
      [52, 0, 0, 0, 1, 0, 4, 0, 0, 0, 0, 0, 0, 0, 0, 0, 36, 0, 0, 0, 0, 0, 0, 0],
      [0, 0, 0, 0, 3, 0, 4, 0, 0, 0, 0, 0, 0, 0, 0, 0, 0, 0, 0, 0, 0, 0, 0, 0],
      [71, 0, 0, 0, 18, 0, 3, 0, 0, 0, 0, 0, 0, 0, 0, 0, 144, 0, 0, 0, 0, 0, 0, 0],
      [82, 0, 0, 0, 17, 0, 5, 0, 0, 0, 0, 0, 0, 0, 0, 0, 4, 0, 0, 0, 0, 0, 0, 0]]"
  by (simp add: tc_elf_2_def)

lemma tc_elf_symbols:
  "elf_symbols tc_bpf__elf_bytes =
    [\<lparr>sym_name = '''', sym_info = 0, sym_shndx = 0, sym_value = 0, sym_size = 0\<rparr>,
     \<lparr>sym_name = ''tc.bpf.c'', sym_info = 4, sym_shndx = 65521, sym_value = 0, sym_size = 0\<rparr>,
     \<lparr>sym_name = '''', sym_info = 3, sym_shndx = 3, sym_value = 0, sym_size = 0\<rparr>,
     \<lparr>sym_name = ''LBB0_4'', sym_info = 0, sym_shndx = 3, sym_value = 128, sym_size = 0\<rparr>,
     \<lparr>sym_name = ''tc_ingress.____fmt'', sym_info = 1, sym_shndx = 4, sym_value = 0, sym_size = 36\<rparr>,
     \<lparr>sym_name = '''', sym_info = 3, sym_shndx = 4, sym_value = 0, sym_size = 0\<rparr>,
     \<lparr>sym_name = ''tc_ingress'', sym_info = 18, sym_shndx = 3, sym_value = 0, sym_size = 144\<rparr>,
     \<lparr>sym_name = ''__license'', sym_info = 17, sym_shndx = 5, sym_value = 0, sym_size = 4\<rparr>]"
  by (simp add: elf_symbols_def tc_elf_sections Let_def read_symbol_rows [OF tc_elf_symtab_rows] del: upt_rec_numeral)
    (simp add: read_symbol_def elf_eval tc_elf_1_def)

lemma tc_elf_programs:
  "elf_programs tc_bpf__elf_bytes =
    [(''tc'', decode_program tc_elf_3)]"
  by (simp add: elf_programs_def tc_elf_sections is_program_def bit_numeral_rec bit_0)

end
