(* ===== verification/Obj_Uprobe.thy ===== *)
theory Obj_Uprobe
  imports Elf
begin

text \<open>
  The object file embedded in examples/c/.output/uprobe.skel.h as a string literal: one list of bytes per line of the
  literal, cut at the borders of the sections; then its section table, its symbols and its programs.
\<close>

section \<open>The literal\<close>

definition uprobe_elf_hdr :: "byte list" where
  "uprobe_elf_hdr =
    concat
    [[127, 69, 76, 70, 2, 1, 1, 0, 0, 0, 0, 0, 0, 0, 0, 0, 1, 0, 247, 0, 1, 0, 0, 0, 0, 0, 0, 0, 0],
     [0, 0, 0, 0, 0, 0, 0, 0, 0, 0, 0, 0, 14, 0, 0, 0, 0, 0, 0, 0, 0, 0, 0, 64, 0, 0, 0, 0, 0, 64, 0, 15, 0, 1],
     [0]]"

definition uprobe_elf_1 :: "byte list" where
  "uprobe_elf_1 =
    concat
    [[0, 46, 115, 116, 114, 116, 97, 98, 0, 46, 115, 121, 109, 116, 97, 98, 0, 117, 112, 114],
     [111, 98, 101, 0, 117, 114, 101, 116, 112, 114, 111, 98, 101, 0, 117, 112, 114, 111, 98, 101],
     [47, 47, 112, 114, 111, 99, 47, 115, 101, 108, 102, 47, 101, 120, 101, 58, 117, 112, 114],
     [111, 98, 101, 100, 95, 115, 117, 98, 0, 117, 114, 101, 116, 112, 114, 111, 98, 101, 47, 47],
     [112, 114, 111, 99, 47, 115, 101, 108, 102, 47, 101, 120, 101, 58, 117, 112, 114, 111, 98],
     [101, 100, 95, 115, 117, 98, 0, 108, 105, 99, 101, 110, 115, 101, 0, 46, 114, 111, 100, 97],
     [116, 97, 0, 117, 112, 114, 111, 98, 101, 46, 98, 112, 102, 46, 99, 0, 95, 95, 95, 95],
     [117, 112, 114, 111, 98, 101, 95, 97, 100, 100, 46, 95, 95, 95, 95, 102, 109, 116, 0, 95],
     [95, 95, 95, 117, 114, 101, 116, 112, 114, 111, 98, 101, 95, 97, 100, 100, 46, 95, 95],
     [95, 95, 102, 109, 116, 0, 95, 95, 95, 95, 117, 112, 114, 111, 98, 101, 95, 115, 117, 98],
     [46, 95, 95, 95, 95, 102, 109, 116, 0, 95, 95, 95, 95, 117, 114, 101, 116, 112, 114, 111],
     [98, 101, 95, 115, 117, 98, 46, 95, 95, 95, 95, 102, 109, 116, 0, 117, 112, 114, 111, 98],
     [101, 95, 97, 100, 100, 0, 117, 114, 101, 116, 112, 114, 111, 98, 101, 95, 97, 100, 100, 0],
     [117, 112, 114, 111, 98, 101, 95, 115, 117, 98, 0, 117, 114, 101, 116, 112, 114, 111, 98, 101],
     [95, 115, 117, 98, 0, 76, 73, 67, 69, 78, 83, 69, 0, 46, 114, 101, 108, 117, 112, 114],
     [111, 98, 101, 0, 46, 114, 101, 108, 117, 114, 101, 116, 112, 114, 111, 98, 101, 0, 46, 114],
     [101, 108, 117, 112, 114, 111, 98, 101, 47, 47, 112, 114, 111, 99, 47, 115, 101, 108, 102],
     [47, 101, 120, 101, 58, 117, 112, 114, 111, 98, 101, 100, 95, 115, 117, 98, 0, 46, 114, 101],
     [108, 117, 114, 101, 116, 112, 114, 111, 98, 101, 47, 47, 112, 114, 111, 99, 47, 115, 101],
     [108, 102, 47, 101, 120, 101, 58, 117, 112, 114, 111, 98, 101, 100, 95, 115, 117, 98, 0, 46],
     [66, 84, 70, 0, 46, 66, 84, 70, 46, 101, 120, 116, 0]]"

definition uprobe_elf_2 :: "byte list" where
  "uprobe_elf_2 =
    concat
    [[0, 0, 0, 0, 0, 0, 0, 0, 0, 0, 0, 0, 0, 0, 0],
     [0, 0, 0, 0, 0, 0, 0, 0, 0, 121, 0, 0, 0, 4, 0, 241, 255, 0, 0, 0, 0, 0, 0, 0, 0, 0, 0, 0, 0, 0, 0, 0, 0, 0, 0],
     [0, 0, 3, 0, 3, 0, 0, 0, 0, 0, 0, 0, 0, 0, 0, 0, 0, 0, 0, 0, 0, 0, 134, 0, 0, 0, 1, 0, 8, 0, 0, 0, 0, 0],
     [0, 0, 0, 0, 34, 0, 0, 0, 0, 0, 0, 0, 0, 0, 0, 0, 3, 0, 4, 0, 0, 0, 0, 0, 0, 0, 0, 0, 0, 0, 0, 0, 0, 0, 0, 0],
     [157, 0, 0, 0, 1, 0, 8, 0, 34, 0, 0, 0, 0, 0, 0, 0, 30, 0, 0, 0, 0, 0, 0, 0, 0, 0, 0, 0, 3, 0, 5, 0],
     [0, 0, 0, 0, 0, 0, 0, 0, 0, 0, 0, 0, 0, 0, 0, 0, 183, 0, 0, 0, 1, 0, 8, 0, 64, 0, 0, 0, 0, 0, 0, 0, 34, 0],
     [0, 0, 0, 0, 0, 0, 0, 0, 0, 0, 3, 0, 6, 0, 0, 0, 0, 0, 0, 0, 0, 0, 0, 0, 0, 0, 0, 0, 0, 0, 206, 0, 0, 0, 1],
     [0, 8, 0, 98, 0, 0, 0, 0, 0, 0, 0, 30, 0, 0, 0, 0, 0, 0, 0, 0, 0, 0, 0, 3, 0, 8, 0, 0, 0, 0, 0, 0, 0, 0],
     [0, 0, 0, 0, 0, 0, 0, 0, 0, 232, 0, 0, 0, 18, 0, 3, 0, 0, 0, 0, 0, 0, 0, 0, 0, 64, 0, 0, 0, 0, 0, 0, 0, 243],
     [0, 0, 0, 18, 0, 4, 0, 0, 0, 0, 0, 0, 0, 0, 0, 56, 0, 0, 0, 0, 0, 0, 0, 1, 1, 0, 0, 18, 0, 5, 0, 0],
     [0, 0, 0, 0, 0, 0, 0, 64, 0, 0, 0, 0, 0, 0, 0, 12, 1, 0, 0, 18, 0, 6, 0, 0, 0, 0, 0, 0, 0, 0, 0, 56, 0],
     [0, 0, 0, 0, 0, 0, 26, 1, 0, 0, 17, 0, 7, 0, 0, 0, 0, 0, 0, 0, 0, 0, 13, 0, 0, 0, 0, 0, 0, 0]]"

definition uprobe_elf_3 :: "byte list" where
  "uprobe_elf_3 =
    concat
    [[121, 20],
     [8, 0, 0, 0, 0, 0, 121, 19, 0, 0, 0, 0, 0, 0, 24, 1, 0, 0, 0, 0, 0, 0, 0, 0, 0, 0, 0, 0, 0, 0, 183, 2],
     [0, 0, 34, 0, 0, 0, 133, 0, 0, 0, 6, 0, 0, 0, 183, 0, 0, 0, 0, 0, 0, 0, 149, 0, 0, 0, 0, 0, 0, 0]]"

definition uprobe_elf_4 :: "byte list" where
  "uprobe_elf_4 =
    concat
    [[121, 19],
     [0, 0, 0, 0, 0, 0, 24, 1, 0, 0, 34, 0, 0, 0, 0, 0, 0, 0, 0, 0, 0, 0, 183, 2, 0, 0, 30, 0, 0, 0, 133, 0],
     [0, 0, 6, 0, 0, 0, 183, 0, 0, 0, 0, 0, 0, 0, 149, 0, 0, 0, 0, 0, 0, 0]]"

definition uprobe_elf_5 :: "byte list" where
  "uprobe_elf_5 =
    concat
    [[121, 20, 8, 0, 0, 0, 0, 0, 121],
     [19, 0, 0, 0, 0, 0, 0, 24, 1, 0, 0, 64, 0, 0, 0, 0, 0, 0, 0, 0, 0, 0, 0, 183, 2, 0, 0, 34, 0, 0, 0],
     [133, 0, 0, 0, 6, 0, 0, 0, 183, 0, 0, 0, 0, 0, 0, 0, 149, 0, 0, 0, 0, 0, 0, 0]]"

definition uprobe_elf_6 :: "byte list" where
  "uprobe_elf_6 =
    concat
    [[121, 19, 0, 0, 0, 0, 0, 0],
     [24, 1, 0, 0, 98, 0, 0, 0, 0, 0, 0, 0, 0, 0, 0, 0, 183, 2, 0, 0, 30, 0, 0, 0, 133, 0, 0, 0, 6, 0, 0],
     [0, 183, 0, 0, 0, 0, 0, 0, 0, 149, 0, 0, 0, 0, 0, 0, 0]]"

definition uprobe_elf_7 :: "byte list" where
  "uprobe_elf_7 =
    concat
    [[68, 117, 97, 108, 32, 66, 83, 68, 47, 71],
     [80, 76, 0]]"

definition uprobe_elf_8 :: "byte list" where
  "uprobe_elf_8 =
    concat
    [[117, 112, 114, 111, 98, 101, 100, 95, 97, 100, 100, 32, 69, 78, 84, 82, 89],
     [58, 32, 97, 32, 61, 32, 37, 100, 44, 32, 98, 32, 61, 32, 37, 100, 0, 117, 112, 114],
     [111, 98, 101, 100, 95, 97, 100, 100, 32, 69, 88, 73, 84, 58, 32, 114, 101, 116, 117],
     [114, 110, 32, 61, 32, 37, 100, 0, 117, 112, 114, 111, 98, 101, 100, 95, 115, 117, 98, 32],
     [69, 78, 84, 82, 89, 58, 32, 97, 32, 61, 32, 37, 100, 44, 32, 98, 32, 61, 32],
     [37, 100, 0, 117, 112, 114, 111, 98, 101, 100, 95, 115, 117, 98, 32, 69, 88, 73, 84, 58],
     [32, 114, 101, 116, 117, 114, 110, 32, 61, 32, 37, 100, 0, 0, 0, 0]]"

definition uprobe_elf_9 :: "byte list" where
  "uprobe_elf_9 =
    concat
    [[16, 0, 0, 0, 0, 0, 0, 0, 1],
     [0, 0, 0, 10, 0, 0, 0]]"

definition uprobe_elf_10 :: "byte list" where
  "uprobe_elf_10 =
    concat
    [[8, 0, 0, 0, 0, 0, 0, 0, 1, 0, 0, 0, 10, 0, 0, 0]]"

definition uprobe_elf_11 :: "byte list" where
  "uprobe_elf_11 =
    concat
    [[16, 0, 0, 0, 0, 0, 0, 0, 1, 0],
     [0, 0, 10, 0, 0, 0]]"

definition uprobe_elf_12 :: "byte list" where
  "uprobe_elf_12 =
    concat
    [[8, 0, 0, 0, 0, 0, 0, 0, 1, 0, 0, 0, 10, 0, 0, 0]]"

definition uprobe_elf_13 :: "byte list" where
  "uprobe_elf_13 =
    concat
    [[159, 235, 1, 0, 24, 0, 0, 0, 0],
     [0, 0, 0, 72, 3, 0, 0, 72, 3, 0, 0, 178, 3, 0, 0, 0, 0, 0, 0, 0, 0, 0, 2, 2, 0, 0, 0, 1, 0, 0],
     [0, 6, 0, 0, 4, 64, 1, 0, 0, 0, 0, 0, 0, 3, 0, 0, 0, 0, 0, 0, 0, 9, 0, 0, 0, 10, 0, 0, 0, 128],
     [8, 0, 0, 17, 0, 0, 0, 12, 0, 0, 0, 192, 8, 0, 0, 27, 0, 0, 0, 15, 0, 0, 0, 224, 8, 0, 0, 31, 0],
     [0, 0, 10, 0, 0, 0, 0, 9, 0, 0, 42, 0, 0, 0, 18, 0, 0, 0, 64, 9, 0, 0, 0, 0, 0, 0, 2, 0, 0, 5],
     [16, 1, 0, 0, 53, 0, 0, 0, 4, 0, 0, 0, 0, 0, 0, 0, 0, 0, 0, 0, 9, 0, 0, 0, 0, 0, 0, 0, 63, 0, 0, 0],
     [4, 0, 0, 4, 16, 1, 0, 0, 76, 0, 0, 0, 7, 0, 0, 0, 0, 0, 0, 0, 81, 0, 0, 0, 5, 0, 0, 0, 192],
     [7, 0, 0, 84, 0, 0, 0, 5, 0, 0, 0, 0, 8, 0, 0, 87, 0, 0, 0, 5, 0, 0, 0, 64, 8, 0, 0, 94, 0, 0],
     [0, 0, 0, 0, 8, 6, 0, 0, 0, 100, 0, 0, 0, 0, 0, 0, 1, 8, 0, 0, 0, 64, 0, 0, 0, 0, 0, 0, 0, 0, 0, 0],
     [3, 0, 0, 0, 0, 5, 0, 0, 0, 8, 0, 0, 0, 31, 0, 0, 0, 119, 0, 0, 0, 0, 0, 0, 1, 4, 0, 0, 0, 32, 0],
     [0, 0, 0, 0, 0, 0, 4, 0, 0, 4, 16, 1, 0, 0, 76, 0, 0, 0, 11, 0, 0, 0, 0, 0, 0, 0, 81, 0, 0, 0, 10],
     [0, 0, 0, 192, 7, 0, 0, 84, 0, 0, 0, 10, 0, 0, 0, 0, 8, 0, 0, 87, 0, 0, 0, 10, 0, 0, 0, 64, 8, 0],
     [0, 139, 0, 0, 0, 0, 0, 0, 8, 5, 0, 0, 0, 0, 0, 0, 0, 0, 0, 0, 3, 0, 0, 0, 0, 10, 0, 0, 0, 8, 0, 0, 0],
     [31, 0, 0, 0, 143, 0, 0, 0, 0, 0, 0, 8, 13, 0, 0, 0, 147, 0, 0, 0, 0, 0, 0, 8, 14, 0, 0, 0, 153, 0, 0],
     [0, 0, 0, 0, 1, 4, 0, 0, 0, 32, 0, 0, 1, 157, 0, 0, 0, 0, 0, 0, 8, 16, 0, 0, 0, 161, 0, 0, 0, 0, 0],
     [0, 8, 17, 0, 0, 0, 167, 0, 0, 0, 0, 0, 0, 1, 4, 0, 0, 0, 32, 0, 0, 0, 180, 0, 0, 0, 2, 0, 0, 4],
     [24, 0, 0, 0, 198, 0, 0, 0, 19, 0, 0, 0, 0, 0, 0, 0, 205, 0, 0, 0, 10, 0, 0, 0, 128, 0, 0, 0, 210, 0, 0, 0],
     [2, 0, 0, 4, 16, 0, 0, 0, 223, 0, 0, 0, 10, 0, 0, 0, 0, 0, 0, 0, 226, 0, 0, 0, 10, 0, 0, 0, 64, 0, 0],
     [0, 0, 0, 0, 0, 1, 0, 0, 13, 14, 0, 0, 0, 229, 0, 0, 0, 1, 0, 0, 0, 233, 0, 0, 0, 1, 0, 0, 12, 20],
     [0, 0, 0, 244, 0, 0, 0, 1, 0, 0, 12, 20, 0, 0, 0, 2, 1, 0, 0, 1, 0, 0, 12, 20, 0, 0, 0, 13],
     [1, 0, 0, 1, 0, 0, 12, 20, 0, 0, 0, 27, 1, 0, 0, 0, 0, 0, 1, 1, 0, 0, 0, 8, 0, 0, 1, 0, 0],
     [0, 0, 0, 0, 0, 3, 0, 0, 0, 0, 25, 0, 0, 0, 8, 0, 0, 0, 13, 0, 0, 0, 32, 1, 0, 0, 0, 0, 0, 14, 26],
     [0, 0, 0, 1, 0, 0, 0, 0, 0, 0, 0, 0, 0, 0, 10, 25, 0, 0, 0, 0, 0, 0, 0, 0, 0, 0, 3, 0, 0, 0, 0, 28, 0, 0],
     [0, 8, 0, 0, 0, 34, 0, 0, 0, 40, 1, 0, 0, 0, 0, 0, 14, 29, 0, 0, 0, 0, 0, 0, 0, 0, 0, 0, 0, 0, 0, 0],
     [3, 0, 0, 0, 0, 28, 0, 0, 0, 8, 0, 0, 0, 30, 0, 0, 0, 63, 1, 0, 0, 0, 0, 0, 14, 31, 0, 0, 0, 0, 0],
     [0, 0, 89, 1, 0, 0, 0, 0, 0, 14, 29, 0, 0, 0, 0, 0, 0, 0, 112, 1, 0, 0, 0, 0, 0, 14, 31, 0, 0, 0, 0],
     [0, 0, 0, 74, 3, 0, 0, 1, 0, 0, 15, 13, 0, 0, 0, 27, 0, 0, 0, 0, 0, 0, 0, 13, 0, 0, 0, 82, 3, 0],
     [0, 4, 0, 0, 15, 128, 0, 0, 0, 30, 0, 0, 0, 0, 0, 0, 0, 34, 0, 0, 0, 32, 0, 0, 0, 34, 0, 0, 0, 30, 0],
     [0, 0, 33, 0, 0, 0, 64, 0, 0, 0, 34, 0, 0, 0, 34, 0, 0, 0, 98, 0, 0, 0, 30, 0, 0, 0, 0, 112, 116, 95],
     [114, 101, 103, 115, 0, 111, 114, 105, 103, 95, 120, 48, 0, 115, 121, 115, 99, 97, 108, 108],
     [110, 111, 0, 112, 109, 114, 0, 115, 100, 101, 105, 95, 116, 116, 98, 114, 49, 0, 115, 116, 97],
     [99, 107, 102, 114, 97, 109, 101, 0, 117, 115, 101, 114, 95, 114, 101, 103, 115, 0, 117, 115],
     [101, 114, 95, 112, 116, 95, 114, 101, 103, 115, 0, 114, 101, 103, 115, 0, 115, 112, 0, 112, 99],
     [0, 112, 115, 116, 97, 116, 101, 0, 95, 95, 117, 54, 52, 0, 117, 110, 115, 105, 103, 110, 101],
     [100, 32, 108, 111, 110, 103, 32, 108, 111, 110, 103, 0, 95, 95, 65, 82, 82, 65, 89, 95],
     [83, 73, 90, 69, 95, 84, 89, 80, 69, 95, 95, 0, 117, 54, 52, 0, 115, 51, 50, 0, 95],
     [95, 115, 51, 50, 0, 105, 110, 116, 0, 117, 51, 50, 0, 95, 95, 117, 51, 50, 0, 117, 110],
     [115, 105, 103, 110, 101, 100, 32, 105, 110, 116, 0, 102, 114, 97, 109, 101, 95, 114, 101, 99],
     [111, 114, 100, 95, 109, 101, 116, 97, 0, 114, 101, 99, 111, 114, 100, 0, 116, 121, 112, 101, 0],
     [102, 114, 97, 109, 101, 95, 114, 101, 99, 111, 114, 100, 0, 102, 112, 0, 108, 114, 0, 99, 116],
     [120, 0, 117, 112, 114, 111, 98, 101, 95, 97, 100, 100, 0, 117, 114, 101, 116, 112, 114, 111],
     [98, 101, 95, 97, 100, 100, 0, 117, 112, 114, 111, 98, 101, 95, 115, 117, 98, 0, 117, 114],
     [101, 116, 112, 114, 111, 98, 101, 95, 115, 117, 98, 0, 99, 104, 97, 114, 0, 76, 73, 67],
     [69, 78, 83, 69, 0, 95, 95, 95, 95, 117, 112, 114, 111, 98, 101, 95, 97, 100, 100, 46],
     [95, 95, 95, 95, 102, 109, 116, 0, 95, 95, 95, 95, 117, 114, 101, 116, 112, 114, 111, 98],
     [101, 95, 97, 100, 100, 46, 95, 95, 95, 95, 102, 109, 116, 0, 95, 95, 95, 95, 117, 112],
     [114, 111, 98, 101, 95, 115, 117, 98, 46, 95, 95, 95, 95, 102, 109, 116, 0, 95, 95, 95],
     [95, 117, 114, 101, 116, 112, 114, 111, 98, 101, 95, 115, 117, 98, 46, 95, 95, 95, 95],
     [102, 109, 116, 0, 47, 104, 111, 109, 101, 47, 108, 111, 115, 116, 99, 97, 99, 104, 101, 47],
     [99, 111, 100, 101, 47, 104, 101, 108, 108, 111, 95, 101, 66, 80, 70, 47, 101, 120, 97],
     [109, 112, 108, 101, 115, 47, 99, 47, 117, 112, 114, 111, 98, 101, 46, 98, 112, 102, 46],
     [99, 0, 105, 110, 116, 32, 66, 80, 70, 95, 75, 80, 82, 79, 66, 69, 40, 117, 112, 114],
     [111, 98, 101, 95, 97, 100, 100, 44, 32, 105, 110, 116, 32, 97, 44, 32, 105, 110, 116],
     [32, 98, 41, 0, 9, 98, 112, 102, 95, 112, 114, 105, 110, 116, 107, 40, 34, 117, 112, 114],
     [111, 98, 101, 100, 95, 97, 100, 100, 32, 69, 78, 84, 82, 89, 58, 32, 97, 32, 61],
     [32, 37, 100, 44, 32, 98, 32, 61, 32, 37, 100, 34, 44, 32, 97, 44, 32, 98, 41],
     [59, 0, 105, 110, 116, 32, 66, 80, 70, 95, 75, 82, 69, 84, 80, 82, 79, 66, 69, 40],
     [117, 114, 101, 116, 112, 114, 111, 98, 101, 95, 97, 100, 100, 44, 32, 105, 110, 116, 32],
     [114, 101, 116, 41, 0, 9, 98, 112, 102, 95, 112, 114, 105, 110, 116, 107, 40, 34, 117, 112],
     [114, 111, 98, 101, 100, 95, 97, 100, 100, 32, 69, 88, 73, 84, 58, 32, 114, 101, 116],
     [117, 114, 110, 32, 61, 32, 37, 100, 34, 44, 32, 114, 101, 116, 41, 59, 0, 105, 110, 116],
     [32, 66, 80, 70, 95, 75, 80, 82, 79, 66, 69, 40, 117, 112, 114, 111, 98, 101, 95],
     [115, 117, 98, 44, 32, 105, 110, 116, 32, 97, 44, 32, 105, 110, 116, 32, 98, 41, 0, 9],
     [98, 112, 102, 95, 112, 114, 105, 110, 116, 107, 40, 34, 117, 112, 114, 111, 98, 101, 100],
     [95, 115, 117, 98, 32, 69, 78, 84, 82, 89, 58, 32, 97, 32, 61, 32, 37, 100, 44],
     [32, 98, 32, 61, 32, 37, 100, 34, 44, 32, 97, 44, 32, 98, 41, 59, 0, 105, 110, 116],
     [32, 66, 80, 70, 95, 75, 82, 69, 84, 80, 82, 79, 66, 69, 40, 117, 114, 101, 116],
     [112, 114, 111, 98, 101, 95, 115, 117, 98, 44, 32, 105, 110, 116, 32, 114, 101, 116, 41, 0],
     [9, 98, 112, 102, 95, 112, 114, 105, 110, 116, 107, 40, 34, 117, 112, 114, 111, 98, 101],
     [100, 95, 115, 117, 98, 32, 69, 88, 73, 84, 58, 32, 114, 101, 116, 117, 114, 110, 32],
     [61, 32, 37, 100, 34, 44, 32, 114, 101, 116, 41, 59, 0, 48, 58, 48, 58, 49, 0, 48],
     [58, 48, 58, 48, 0, 108, 105, 99, 101, 110, 115, 101, 0, 46, 114, 111, 100, 97, 116, 97, 0],
     [117, 112, 114, 111, 98, 101, 0, 117, 114, 101, 116, 112, 114, 111, 98, 101, 0, 117, 112, 114],
     [111, 98, 101, 47, 47, 112, 114, 111, 99, 47, 115, 101, 108, 102, 47, 101, 120, 101, 58],
     [117, 112, 114, 111, 98, 101, 100, 95, 115, 117, 98, 0, 117, 114, 101, 116, 112, 114, 111, 98],
     [101, 47, 47, 112, 114, 111, 99, 47, 115, 101, 108, 102, 47, 101, 120, 101, 58, 117, 112],
     [114, 111, 98, 101, 100, 95, 115, 117, 98, 0, 0, 0, 0, 0, 0, 0]]"

definition uprobe_elf_14 :: "byte list" where
  "uprobe_elf_14 =
    concat
    [[159, 235, 1, 0, 32, 0, 0, 0, 0, 0],
     [0, 0, 68, 0, 0, 0, 68, 0, 0, 0, 228, 0, 0, 0, 40, 1, 0, 0, 132, 0, 0, 0, 8, 0, 0, 0, 90, 3, 0, 0],
     [1, 0, 0, 0, 0, 0, 0, 0, 21, 0, 0, 0, 97, 3, 0, 0, 1, 0, 0, 0, 0, 0, 0, 0, 22, 0, 0, 0, 107, 3, 0],
     [0, 1, 0, 0, 0, 0, 0, 0, 0, 23, 0, 0, 0, 141, 3, 0, 0, 1, 0, 0, 0, 0, 0, 0, 0, 24, 0, 0, 0, 16, 0, 0],
     [0, 90, 3, 0, 0, 3, 0, 0, 0, 0, 0, 0, 0, 138, 1, 0, 0, 194, 1, 0, 0, 5, 40, 0, 0, 16, 0, 0, 0],
     [138, 1, 0, 0, 235, 1, 0, 0, 2, 48, 0, 0, 48, 0, 0, 0, 138, 1, 0, 0, 194, 1, 0, 0, 5, 40],
     [0, 0, 97, 3, 0, 0, 3, 0, 0, 0, 0, 0, 0, 0, 138, 1, 0, 0, 35, 2, 0, 0, 5, 68, 0, 0, 8, 0, 0],
     [0, 138, 1, 0, 0, 77, 2, 0, 0, 2, 76, 0, 0, 40, 0, 0, 0, 138, 1, 0, 0, 35, 2, 0, 0, 5],
     [68, 0, 0, 107, 3, 0, 0, 3, 0, 0, 0, 0, 0, 0, 0, 138, 1, 0, 0, 128, 2, 0, 0, 5, 96, 0, 0, 16],
     [0, 0, 0, 138, 1, 0, 0, 169, 2, 0, 0, 2, 104, 0, 0, 48, 0, 0, 0, 138, 1, 0, 0, 128, 2, 0, 0],
     [5, 96, 0, 0, 141, 3, 0, 0, 3, 0, 0, 0, 0, 0, 0, 0, 138, 1, 0, 0, 225, 2, 0, 0, 5, 124, 0, 0],
     [8, 0, 0, 0, 138, 1, 0, 0, 11, 3, 0, 0, 2, 132, 0, 0, 40, 0, 0, 0, 138, 1, 0, 0, 225, 2, 0],
     [0, 5, 124, 0, 0, 16, 0, 0, 0, 90, 3, 0, 0, 2, 0, 0, 0, 0, 0, 0, 0, 4, 0, 0, 0, 62, 3, 0, 0, 0],
     [0, 0, 0, 8, 0, 0, 0, 4, 0, 0, 0, 68, 3, 0, 0, 0, 0, 0, 0, 97, 3, 0, 0, 1, 0, 0, 0, 0, 0, 0, 0],
     [4, 0, 0, 0, 68, 3, 0, 0, 0, 0, 0, 0, 107, 3, 0, 0, 2, 0, 0, 0, 0, 0, 0, 0, 4, 0, 0, 0, 62, 3],
     [0, 0, 0, 0, 0, 0, 8, 0, 0, 0, 4, 0, 0, 0, 68, 3, 0, 0, 0, 0, 0, 0, 141, 3, 0, 0, 1, 0, 0, 0, 0, 0],
     [0, 0, 4, 0, 0, 0, 68, 3, 0, 0, 0, 0, 0, 0, 0, 0, 0, 0]]"

definition uprobe_elf_shdrs :: "byte list list" where
  "uprobe_elf_shdrs =
    [[0, 0, 0, 0, 0, 0, 0, 0, 0, 0, 0, 0, 0, 0, 0, 0, 0, 0, 0, 0, 0, 0, 0, 0, 0, 0, 0, 0, 0, 0, 0, 0,
      0, 0, 0, 0, 0, 0, 0, 0, 0, 0, 0, 0, 0, 0, 0, 0, 0, 0, 0, 0, 0, 0, 0, 0, 0, 0, 0, 0, 0, 0, 0, 0],
     [1, 0, 0, 0, 3, 0, 0, 0, 32, 0, 0, 0, 0, 0, 0, 0, 0, 0, 0, 0, 0, 0, 0, 0, 64, 0, 0, 0, 0, 0, 0, 0,
      152, 1, 0, 0, 0, 0, 0, 0, 0, 0, 0, 0, 0, 0, 0, 0, 1, 0, 0, 0, 0, 0, 0, 0, 0, 0, 0, 0, 0, 0, 0, 0],
     [9, 0, 0, 0, 2, 0, 0, 0, 0, 0, 0, 0, 0, 0, 0, 0, 0, 0, 0, 0, 0, 0, 0, 0, 216, 1, 0, 0, 0, 0, 0, 0,
      128, 1, 0, 0, 0, 0, 0, 0, 1, 0, 0, 0, 0, 0, 0, 0, 8, 0, 0, 0, 0, 0, 0, 0, 24, 0, 0, 0, 0, 0, 0, 0],
     [17, 0, 0, 0, 1, 0, 0, 0, 6, 0, 0, 0, 0, 0, 0, 0, 0, 0, 0, 0, 0, 0, 0, 0, 88, 3, 0, 0, 0, 0, 0, 0,
      64, 0, 0, 0, 0, 0, 0, 0, 0, 0, 0, 0, 0, 0, 0, 0, 8, 0, 0, 0, 0, 0, 0, 0, 0, 0, 0, 0, 0, 0, 0, 0],
     [24, 0, 0, 0, 1, 0, 0, 0, 6, 0, 0, 0, 0, 0, 0, 0, 0, 0, 0, 0, 0, 0, 0, 0, 152, 3, 0, 0, 0, 0, 0, 0,
      56, 0, 0, 0, 0, 0, 0, 0, 0, 0, 0, 0, 0, 0, 0, 0, 8, 0, 0, 0, 0, 0, 0, 0, 0, 0, 0, 0, 0, 0, 0, 0],
     [34, 0, 0, 0, 1, 0, 0, 0, 6, 0, 0, 0, 0, 0, 0, 0, 0, 0, 0, 0, 0, 0, 0, 0, 208, 3, 0, 0, 0, 0, 0, 0,
      64, 0, 0, 0, 0, 0, 0, 0, 0, 0, 0, 0, 0, 0, 0, 0, 8, 0, 0, 0, 0, 0, 0, 0, 0, 0, 0, 0, 0, 0, 0, 0],
     [68, 0, 0, 0, 1, 0, 0, 0, 6, 0, 0, 0, 0, 0, 0, 0, 0, 0, 0, 0, 0, 0, 0, 0, 16, 4, 0, 0, 0, 0, 0, 0,
      56, 0, 0, 0, 0, 0, 0, 0, 0, 0, 0, 0, 0, 0, 0, 0, 8, 0, 0, 0, 0, 0, 0, 0, 0, 0, 0, 0, 0, 0, 0, 0],
     [105, 0, 0, 0, 1, 0, 0, 0, 3, 0, 0, 0, 0, 0, 0, 0, 0, 0, 0, 0, 0, 0, 0, 0, 72, 4, 0, 0, 0, 0, 0, 0,
      13, 0, 0, 0, 0, 0, 0, 0, 0, 0, 0, 0, 0, 0, 0, 0, 1, 0, 0, 0, 0, 0, 0, 0, 0, 0, 0, 0, 0, 0, 0, 0],
     [113, 0, 0, 0, 1, 0, 0, 0, 2, 0, 0, 0, 0, 0, 0, 0, 0, 0, 0, 0, 0, 0, 0, 0, 85, 4, 0, 0, 0, 0, 0, 0,
      128, 0, 0, 0, 0, 0, 0, 0, 0, 0, 0, 0, 0, 0, 0, 0, 1, 0, 0, 0, 0, 0, 0, 0, 0, 0, 0, 0, 0, 0, 0, 0],
     [34, 1, 0, 0, 9, 0, 0, 0, 64, 0, 0, 0, 0, 0, 0, 0, 0, 0, 0, 0, 0, 0, 0, 0, 216, 4, 0, 0, 0, 0, 0, 0,
      16, 0, 0, 0, 0, 0, 0, 0, 2, 0, 0, 0, 3, 0, 0, 0, 8, 0, 0, 0, 0, 0, 0, 0, 16, 0, 0, 0, 0, 0, 0, 0],
     [45, 1, 0, 0, 9, 0, 0, 0, 64, 0, 0, 0, 0, 0, 0, 0, 0, 0, 0, 0, 0, 0, 0, 0, 232, 4, 0, 0, 0, 0, 0, 0,
      16, 0, 0, 0, 0, 0, 0, 0, 2, 0, 0, 0, 4, 0, 0, 0, 8, 0, 0, 0, 0, 0, 0, 0, 16, 0, 0, 0, 0, 0, 0, 0],
     [59, 1, 0, 0, 9, 0, 0, 0, 64, 0, 0, 0, 0, 0, 0, 0, 0, 0, 0, 0, 0, 0, 0, 0, 248, 4, 0, 0, 0, 0, 0, 0,
      16, 0, 0, 0, 0, 0, 0, 0, 2, 0, 0, 0, 5, 0, 0, 0, 8, 0, 0, 0, 0, 0, 0, 0, 16, 0, 0, 0, 0, 0, 0, 0],
     [97, 1, 0, 0, 9, 0, 0, 0, 64, 0, 0, 0, 0, 0, 0, 0, 0, 0, 0, 0, 0, 0, 0, 0, 8, 5, 0, 0, 0, 0, 0, 0,
      16, 0, 0, 0, 0, 0, 0, 0, 2, 0, 0, 0, 6, 0, 0, 0, 8, 0, 0, 0, 0, 0, 0, 0, 16, 0, 0, 0, 0, 0, 0, 0],
     [138, 1, 0, 0, 1, 0, 0, 0, 0, 0, 0, 0, 0, 0, 0, 0, 0, 0, 0, 0, 0, 0, 0, 0, 24, 5, 0, 0, 0, 0, 0, 0,
      18, 7, 0, 0, 0, 0, 0, 0, 0, 0, 0, 0, 0, 0, 0, 0, 8, 0, 0, 0, 0, 0, 0, 0, 0, 0, 0, 0, 0, 0, 0, 0],
     [143, 1, 0, 0, 1, 0, 0, 0, 0, 0, 0, 0, 0, 0, 0, 0, 0, 0, 0, 0, 0, 0, 0, 0, 48, 12, 0, 0, 0, 0, 0, 0,
      204, 1, 0, 0, 0, 0, 0, 0, 0, 0, 0, 0, 0, 0, 0, 0, 8, 0, 0, 0, 0, 0, 0, 0, 0, 0, 0, 0, 0, 0, 0, 0]]"

definition uprobe_elf_body :: "byte list list" where
  "uprobe_elf_body = [uprobe_elf_1, uprobe_elf_2, uprobe_elf_3, uprobe_elf_4, uprobe_elf_5, uprobe_elf_6, uprobe_elf_7, uprobe_elf_8, uprobe_elf_9, uprobe_elf_10, uprobe_elf_11, uprobe_elf_12, uprobe_elf_13, uprobe_elf_14]"

definition uprobe_bpf__elf_bytes :: "byte list" where
  "uprobe_bpf__elf_bytes = concat (uprobe_elf_hdr # uprobe_elf_body) @ concat uprobe_elf_shdrs"

section \<open>The parts of the object\<close>

text \<open>The sizes of the pieces. The definitions stay folded: a piece is only opened where it is read.\<close>

lemma uprobe_elf_lengths [simp]:
  "length uprobe_elf_hdr = 64"
  "length uprobe_elf_1 = 408"
  "length uprobe_elf_2 = 384"
  "length uprobe_elf_3 = 64"
  "length uprobe_elf_4 = 56"
  "length uprobe_elf_5 = 64"
  "length uprobe_elf_6 = 56"
  "length uprobe_elf_7 = 13"
  "length uprobe_elf_8 = 131"
  "length uprobe_elf_9 = 16"
  "length uprobe_elf_10 = 16"
  "length uprobe_elf_11 = 16"
  "length uprobe_elf_12 = 16"
  "length uprobe_elf_13 = 1816"
  "length uprobe_elf_14 = 464"
  by (simp_all only: piece_length uprobe_elf_hdr_def uprobe_elf_1_def uprobe_elf_2_def uprobe_elf_3_def
    uprobe_elf_4_def uprobe_elf_5_def uprobe_elf_6_def uprobe_elf_7_def uprobe_elf_8_def uprobe_elf_9_def
    uprobe_elf_10_def uprobe_elf_11_def uprobe_elf_12_def uprobe_elf_13_def uprobe_elf_14_def)

lemma uprobe_elf_pieces: "object_pieces uprobe_bpf__elf_bytes (uprobe_elf_hdr # uprobe_elf_body) uprobe_elf_shdrs"
proof -
  have "le_at uprobe_elf_hdr 40 8 = 3584" "le_at uprobe_elf_hdr 60 2 = 15" "le_at uprobe_elf_hdr 62 2 = 1"
    by (simp_all add: uprobe_elf_hdr_def elf_eval)
  moreover have "list_all (\<lambda>h. length h = 64) uprobe_elf_shdrs" "length uprobe_elf_shdrs = 15"
    by (simp_all add: uprobe_elf_shdrs_def)
  ultimately show ?thesis
    by (simp add: object_pieces_def uprobe_bpf__elf_bytes_def uprobe_elf_body_def)
qed

lemma uprobe_elf_headers:
  "elf_section_at uprobe_bpf__elf_bytes 0 = \<lparr>sec_name = 0, sec_type = 0, sec_offset = 0, sec_size = 0, sec_link = 0, sec_info = 0\<rparr>"
  "elf_section_at uprobe_bpf__elf_bytes 1 = \<lparr>sec_name = 1, sec_type = 3, sec_offset = 64, sec_size = 408, sec_link = 0, sec_info = 0\<rparr>"
  "elf_section_at uprobe_bpf__elf_bytes 2 = \<lparr>sec_name = 9, sec_type = 2, sec_offset = 472, sec_size = 384, sec_link = 1, sec_info = 0\<rparr>"
  "elf_section_at uprobe_bpf__elf_bytes 3 = \<lparr>sec_name = 17, sec_type = 1, sec_offset = 856, sec_size = 64, sec_link = 0, sec_info = 0\<rparr>"
  "elf_section_at uprobe_bpf__elf_bytes 4 = \<lparr>sec_name = 24, sec_type = 1, sec_offset = 920, sec_size = 56, sec_link = 0, sec_info = 0\<rparr>"
  "elf_section_at uprobe_bpf__elf_bytes 5 = \<lparr>sec_name = 34, sec_type = 1, sec_offset = 976, sec_size = 64, sec_link = 0, sec_info = 0\<rparr>"
  "elf_section_at uprobe_bpf__elf_bytes 6 = \<lparr>sec_name = 68, sec_type = 1, sec_offset = 1040, sec_size = 56, sec_link = 0, sec_info = 0\<rparr>"
  "elf_section_at uprobe_bpf__elf_bytes 7 = \<lparr>sec_name = 105, sec_type = 1, sec_offset = 1096, sec_size = 13, sec_link = 0, sec_info = 0\<rparr>"
  "elf_section_at uprobe_bpf__elf_bytes 8 = \<lparr>sec_name = 113, sec_type = 1, sec_offset = 1109, sec_size = 128, sec_link = 0, sec_info = 0\<rparr>"
  "elf_section_at uprobe_bpf__elf_bytes 9 = \<lparr>sec_name = 290, sec_type = 9, sec_offset = 1240, sec_size = 16, sec_link = 2, sec_info = 3\<rparr>"
  "elf_section_at uprobe_bpf__elf_bytes 10 = \<lparr>sec_name = 301, sec_type = 9, sec_offset = 1256, sec_size = 16, sec_link = 2, sec_info = 4\<rparr>"
  "elf_section_at uprobe_bpf__elf_bytes 11 = \<lparr>sec_name = 315, sec_type = 9, sec_offset = 1272, sec_size = 16, sec_link = 2, sec_info = 5\<rparr>"
  "elf_section_at uprobe_bpf__elf_bytes 12 = \<lparr>sec_name = 353, sec_type = 9, sec_offset = 1288, sec_size = 16, sec_link = 2, sec_info = 6\<rparr>"
  "elf_section_at uprobe_bpf__elf_bytes 13 = \<lparr>sec_name = 394, sec_type = 1, sec_offset = 1304, sec_size = 1810, sec_link = 0, sec_info = 0\<rparr>"
  "elf_section_at uprobe_bpf__elf_bytes 14 = \<lparr>sec_name = 399, sec_type = 1, sec_offset = 3120, sec_size = 460, sec_link = 0, sec_info = 0\<rparr>"
  by (simp_all add: object_section [OF uprobe_elf_pieces] uprobe_elf_shdrs_def elf_section_header_def elf_eval)

lemma uprobe_elf_flags:
  "section_flags uprobe_bpf__elf_bytes 0 = 0"
  "section_flags uprobe_bpf__elf_bytes 1 = 32"
  "section_flags uprobe_bpf__elf_bytes 2 = 0"
  "section_flags uprobe_bpf__elf_bytes 3 = 6"
  "section_flags uprobe_bpf__elf_bytes 4 = 6"
  "section_flags uprobe_bpf__elf_bytes 5 = 6"
  "section_flags uprobe_bpf__elf_bytes 6 = 6"
  "section_flags uprobe_bpf__elf_bytes 7 = 3"
  "section_flags uprobe_bpf__elf_bytes 8 = 2"
  "section_flags uprobe_bpf__elf_bytes 9 = 64"
  "section_flags uprobe_bpf__elf_bytes 10 = 64"
  "section_flags uprobe_bpf__elf_bytes 11 = 64"
  "section_flags uprobe_bpf__elf_bytes 12 = 64"
  "section_flags uprobe_bpf__elf_bytes 13 = 0"
  "section_flags uprobe_bpf__elf_bytes 14 = 0"
  by (simp_all add: object_section [OF uprobe_elf_pieces] uprobe_elf_shdrs_def elf_eval)

lemma uprobe_elf_contents:
  "section_bytes uprobe_bpf__elf_bytes 0 = []"
  "section_bytes uprobe_bpf__elf_bytes 1 = uprobe_elf_1"
  "section_bytes uprobe_bpf__elf_bytes 2 = uprobe_elf_2"
  "section_bytes uprobe_bpf__elf_bytes 3 = uprobe_elf_3"
  "section_bytes uprobe_bpf__elf_bytes 4 = uprobe_elf_4"
  "section_bytes uprobe_bpf__elf_bytes 5 = uprobe_elf_5"
  "section_bytes uprobe_bpf__elf_bytes 6 = uprobe_elf_6"
  "section_bytes uprobe_bpf__elf_bytes 7 = uprobe_elf_7"
  "section_bytes uprobe_bpf__elf_bytes 8 = take 128 uprobe_elf_8"
  "section_bytes uprobe_bpf__elf_bytes 9 = uprobe_elf_9"
  "section_bytes uprobe_bpf__elf_bytes 10 = uprobe_elf_10"
  "section_bytes uprobe_bpf__elf_bytes 11 = uprobe_elf_11"
  "section_bytes uprobe_bpf__elf_bytes 12 = uprobe_elf_12"
  "section_bytes uprobe_bpf__elf_bytes 13 = take 1810 uprobe_elf_13"
  "section_bytes uprobe_bpf__elf_bytes 14 = take 460 uprobe_elf_14"
proof -
  show "section_bytes uprobe_bpf__elf_bytes 0 = []"
    by (simp add: section_bytes_def uprobe_elf_headers elf_section.defs)
  show "section_bytes uprobe_bpf__elf_bytes 1 = uprobe_elf_1"
    using object_section_bytes [OF uprobe_elf_pieces uprobe_elf_headers(2), of 1] by (simp add: uprobe_elf_body_def)
  show "section_bytes uprobe_bpf__elf_bytes 2 = uprobe_elf_2"
    using object_section_bytes [OF uprobe_elf_pieces uprobe_elf_headers(3), of 2] by (simp add: uprobe_elf_body_def)
  show "section_bytes uprobe_bpf__elf_bytes 3 = uprobe_elf_3"
    using object_section_bytes [OF uprobe_elf_pieces uprobe_elf_headers(4), of 3] by (simp add: uprobe_elf_body_def)
  show "section_bytes uprobe_bpf__elf_bytes 4 = uprobe_elf_4"
    using object_section_bytes [OF uprobe_elf_pieces uprobe_elf_headers(5), of 4] by (simp add: uprobe_elf_body_def)
  show "section_bytes uprobe_bpf__elf_bytes 5 = uprobe_elf_5"
    using object_section_bytes [OF uprobe_elf_pieces uprobe_elf_headers(6), of 5] by (simp add: uprobe_elf_body_def)
  show "section_bytes uprobe_bpf__elf_bytes 6 = uprobe_elf_6"
    using object_section_bytes [OF uprobe_elf_pieces uprobe_elf_headers(7), of 6] by (simp add: uprobe_elf_body_def)
  show "section_bytes uprobe_bpf__elf_bytes 7 = uprobe_elf_7"
    using object_section_bytes [OF uprobe_elf_pieces uprobe_elf_headers(8), of 7] by (simp add: uprobe_elf_body_def)
  show "section_bytes uprobe_bpf__elf_bytes 8 = take 128 uprobe_elf_8"
    using object_section_bytes [OF uprobe_elf_pieces uprobe_elf_headers(9), of 8] by (simp add: uprobe_elf_body_def)
  show "section_bytes uprobe_bpf__elf_bytes 9 = uprobe_elf_9"
    using object_section_bytes [OF uprobe_elf_pieces uprobe_elf_headers(10), of 9] by (simp add: uprobe_elf_body_def)
  show "section_bytes uprobe_bpf__elf_bytes 10 = uprobe_elf_10"
    using object_section_bytes [OF uprobe_elf_pieces uprobe_elf_headers(11), of 10] by (simp add: uprobe_elf_body_def)
  show "section_bytes uprobe_bpf__elf_bytes 11 = uprobe_elf_11"
    using object_section_bytes [OF uprobe_elf_pieces uprobe_elf_headers(12), of 11] by (simp add: uprobe_elf_body_def)
  show "section_bytes uprobe_bpf__elf_bytes 12 = uprobe_elf_12"
    using object_section_bytes [OF uprobe_elf_pieces uprobe_elf_headers(13), of 12] by (simp add: uprobe_elf_body_def)
  show "section_bytes uprobe_bpf__elf_bytes 13 = take 1810 uprobe_elf_13"
    using object_section_bytes [OF uprobe_elf_pieces uprobe_elf_headers(14), of 13] by (simp add: uprobe_elf_body_def)
  show "section_bytes uprobe_bpf__elf_bytes 14 = take 460 uprobe_elf_14"
    using object_section_bytes [OF uprobe_elf_pieces uprobe_elf_headers(15), of 14] by (simp add: uprobe_elf_body_def)
qed

lemma uprobe_elf_names:
  "section_name uprobe_bpf__elf_bytes 0 = ''''"
  "section_name uprobe_bpf__elf_bytes 1 = ''.strtab''"
  "section_name uprobe_bpf__elf_bytes 2 = ''.symtab''"
  "section_name uprobe_bpf__elf_bytes 3 = ''uprobe''"
  "section_name uprobe_bpf__elf_bytes 4 = ''uretprobe''"
  "section_name uprobe_bpf__elf_bytes 5 = ''uprobe//proc/self/exe:uprobed_sub''"
  "section_name uprobe_bpf__elf_bytes 6 = ''uretprobe//proc/self/exe:uprobed_sub''"
  "section_name uprobe_bpf__elf_bytes 7 = ''license''"
  "section_name uprobe_bpf__elf_bytes 8 = ''.rodata''"
  "section_name uprobe_bpf__elf_bytes 9 = ''.reluprobe''"
  "section_name uprobe_bpf__elf_bytes 10 = ''.reluretprobe''"
  "section_name uprobe_bpf__elf_bytes 11 = ''.reluprobe//proc/self/exe:uprobed_sub''"
  "section_name uprobe_bpf__elf_bytes 12 = ''.reluretprobe//proc/self/exe:uprobed_sub''"
  "section_name uprobe_bpf__elf_bytes 13 = ''.BTF''"
  "section_name uprobe_bpf__elf_bytes 14 = ''.BTF.ext''"
  by (simp_all only: object_section_name [OF uprobe_elf_pieces uprobe_elf_contents(2)] uprobe_elf_headers elf_section.simps)
    (simp_all add: elf_eval uprobe_elf_1_def)

lemma uprobe_elf_sections:
  "elf_sections uprobe_bpf__elf_bytes =
    [\<lparr>es_name = '''', es_type = 0, es_flags = 0, es_link = 0, es_info = 0, es_size = 0,
      es_bytes = []\<rparr>,
     \<lparr>es_name = ''.strtab'', es_type = 3, es_flags = 32, es_link = 0, es_info = 0, es_size = 408,
      es_bytes = uprobe_elf_1\<rparr>,
     \<lparr>es_name = ''.symtab'', es_type = 2, es_flags = 0, es_link = 1, es_info = 0, es_size = 384,
      es_bytes = uprobe_elf_2\<rparr>,
     \<lparr>es_name = ''uprobe'', es_type = 1, es_flags = 6, es_link = 0, es_info = 0, es_size = 64,
      es_bytes = uprobe_elf_3\<rparr>,
     \<lparr>es_name = ''uretprobe'', es_type = 1, es_flags = 6, es_link = 0, es_info = 0, es_size = 56,
      es_bytes = uprobe_elf_4\<rparr>,
     \<lparr>es_name = ''uprobe//proc/self/exe:uprobed_sub'', es_type = 1, es_flags = 6, es_link = 0, es_info = 0, es_size = 64,
      es_bytes = uprobe_elf_5\<rparr>,
     \<lparr>es_name = ''uretprobe//proc/self/exe:uprobed_sub'', es_type = 1, es_flags = 6, es_link = 0, es_info = 0, es_size = 56,
      es_bytes = uprobe_elf_6\<rparr>,
     \<lparr>es_name = ''license'', es_type = 1, es_flags = 3, es_link = 0, es_info = 0, es_size = 13,
      es_bytes = uprobe_elf_7\<rparr>,
     \<lparr>es_name = ''.rodata'', es_type = 1, es_flags = 2, es_link = 0, es_info = 0, es_size = 128,
      es_bytes = take 128 uprobe_elf_8\<rparr>,
     \<lparr>es_name = ''.reluprobe'', es_type = 9, es_flags = 64, es_link = 2, es_info = 3, es_size = 16,
      es_bytes = uprobe_elf_9\<rparr>,
     \<lparr>es_name = ''.reluretprobe'', es_type = 9, es_flags = 64, es_link = 2, es_info = 4, es_size = 16,
      es_bytes = uprobe_elf_10\<rparr>,
     \<lparr>es_name = ''.reluprobe//proc/self/exe:uprobed_sub'', es_type = 9, es_flags = 64, es_link = 2, es_info = 5, es_size = 16,
      es_bytes = uprobe_elf_11\<rparr>,
     \<lparr>es_name = ''.reluretprobe//proc/self/exe:uprobed_sub'', es_type = 9, es_flags = 64, es_link = 2, es_info = 6, es_size = 16,
      es_bytes = uprobe_elf_12\<rparr>,
     \<lparr>es_name = ''.BTF'', es_type = 1, es_flags = 0, es_link = 0, es_info = 0, es_size = 1810,
      es_bytes = take 1810 uprobe_elf_13\<rparr>,
     \<lparr>es_name = ''.BTF.ext'', es_type = 1, es_flags = 0, es_link = 0, es_info = 0, es_size = 460,
      es_bytes = take 460 uprobe_elf_14\<rparr>]"
proof -
  have "le_at uprobe_bpf__elf_bytes 60 2 = 15"
    using object_piecesD(4) [OF uprobe_elf_pieces] by (simp add: uprobe_elf_shdrs_def)
  moreover have "[0..<15] = [0, 1, 2, 3, 4, 5, 6, 7, 8, 9, 10, 11, 12, 13, 14]"
    by (simp add: upt_rec)
  ultimately show ?thesis
    by (simp only: elf_sections_def list.map read_section_def Let_def uprobe_elf_headers uprobe_elf_flags uprobe_elf_contents
        uprobe_elf_names elf_section.simps)
qed

lemma uprobe_elf_symtab_rows:
  "uprobe_elf_2 =
    concat
     [[0, 0, 0, 0, 0, 0, 0, 0, 0, 0, 0, 0, 0, 0, 0, 0, 0, 0, 0, 0, 0, 0, 0, 0],
      [121, 0, 0, 0, 4, 0, 241, 255, 0, 0, 0, 0, 0, 0, 0, 0, 0, 0, 0, 0, 0, 0, 0, 0],
      [0, 0, 0, 0, 3, 0, 3, 0, 0, 0, 0, 0, 0, 0, 0, 0, 0, 0, 0, 0, 0, 0, 0, 0],
      [134, 0, 0, 0, 1, 0, 8, 0, 0, 0, 0, 0, 0, 0, 0, 0, 34, 0, 0, 0, 0, 0, 0, 0],
      [0, 0, 0, 0, 3, 0, 4, 0, 0, 0, 0, 0, 0, 0, 0, 0, 0, 0, 0, 0, 0, 0, 0, 0],
      [157, 0, 0, 0, 1, 0, 8, 0, 34, 0, 0, 0, 0, 0, 0, 0, 30, 0, 0, 0, 0, 0, 0, 0],
      [0, 0, 0, 0, 3, 0, 5, 0, 0, 0, 0, 0, 0, 0, 0, 0, 0, 0, 0, 0, 0, 0, 0, 0],
      [183, 0, 0, 0, 1, 0, 8, 0, 64, 0, 0, 0, 0, 0, 0, 0, 34, 0, 0, 0, 0, 0, 0, 0],
      [0, 0, 0, 0, 3, 0, 6, 0, 0, 0, 0, 0, 0, 0, 0, 0, 0, 0, 0, 0, 0, 0, 0, 0],
      [206, 0, 0, 0, 1, 0, 8, 0, 98, 0, 0, 0, 0, 0, 0, 0, 30, 0, 0, 0, 0, 0, 0, 0],
      [0, 0, 0, 0, 3, 0, 8, 0, 0, 0, 0, 0, 0, 0, 0, 0, 0, 0, 0, 0, 0, 0, 0, 0],
      [232, 0, 0, 0, 18, 0, 3, 0, 0, 0, 0, 0, 0, 0, 0, 0, 64, 0, 0, 0, 0, 0, 0, 0],
      [243, 0, 0, 0, 18, 0, 4, 0, 0, 0, 0, 0, 0, 0, 0, 0, 56, 0, 0, 0, 0, 0, 0, 0],
      [1, 1, 0, 0, 18, 0, 5, 0, 0, 0, 0, 0, 0, 0, 0, 0, 64, 0, 0, 0, 0, 0, 0, 0],
      [12, 1, 0, 0, 18, 0, 6, 0, 0, 0, 0, 0, 0, 0, 0, 0, 56, 0, 0, 0, 0, 0, 0, 0],
      [26, 1, 0, 0, 17, 0, 7, 0, 0, 0, 0, 0, 0, 0, 0, 0, 13, 0, 0, 0, 0, 0, 0, 0]]"
  by (simp add: uprobe_elf_2_def)

lemma uprobe_elf_symbols:
  "elf_symbols uprobe_bpf__elf_bytes =
    [\<lparr>sym_name = '''', sym_info = 0, sym_shndx = 0, sym_value = 0, sym_size = 0\<rparr>,
     \<lparr>sym_name = ''uprobe.bpf.c'', sym_info = 4, sym_shndx = 65521, sym_value = 0, sym_size = 0\<rparr>,
     \<lparr>sym_name = '''', sym_info = 3, sym_shndx = 3, sym_value = 0, sym_size = 0\<rparr>,
     \<lparr>sym_name = ''____uprobe_add.____fmt'', sym_info = 1, sym_shndx = 8, sym_value = 0, sym_size = 34\<rparr>,
     \<lparr>sym_name = '''', sym_info = 3, sym_shndx = 4, sym_value = 0, sym_size = 0\<rparr>,
     \<lparr>sym_name = ''____uretprobe_add.____fmt'', sym_info = 1, sym_shndx = 8, sym_value = 34, sym_size = 30\<rparr>,
     \<lparr>sym_name = '''', sym_info = 3, sym_shndx = 5, sym_value = 0, sym_size = 0\<rparr>,
     \<lparr>sym_name = ''____uprobe_sub.____fmt'', sym_info = 1, sym_shndx = 8, sym_value = 64, sym_size = 34\<rparr>,
     \<lparr>sym_name = '''', sym_info = 3, sym_shndx = 6, sym_value = 0, sym_size = 0\<rparr>,
     \<lparr>sym_name = ''____uretprobe_sub.____fmt'', sym_info = 1, sym_shndx = 8, sym_value = 98, sym_size = 30\<rparr>,
     \<lparr>sym_name = '''', sym_info = 3, sym_shndx = 8, sym_value = 0, sym_size = 0\<rparr>,
     \<lparr>sym_name = ''uprobe_add'', sym_info = 18, sym_shndx = 3, sym_value = 0, sym_size = 64\<rparr>,
     \<lparr>sym_name = ''uretprobe_add'', sym_info = 18, sym_shndx = 4, sym_value = 0, sym_size = 56\<rparr>,
     \<lparr>sym_name = ''uprobe_sub'', sym_info = 18, sym_shndx = 5, sym_value = 0, sym_size = 64\<rparr>,
     \<lparr>sym_name = ''uretprobe_sub'', sym_info = 18, sym_shndx = 6, sym_value = 0, sym_size = 56\<rparr>,
     \<lparr>sym_name = ''LICENSE'', sym_info = 17, sym_shndx = 7, sym_value = 0, sym_size = 13\<rparr>]"
  by (simp add: elf_symbols_def uprobe_elf_sections Let_def read_symbol_rows [OF uprobe_elf_symtab_rows] del: upt_rec_numeral)
    (simp add: read_symbol_def elf_eval uprobe_elf_1_def)

lemma uprobe_elf_programs:
  "elf_programs uprobe_bpf__elf_bytes =
    [(''uprobe'', decode_program uprobe_elf_3),
     (''uretprobe'', decode_program uprobe_elf_4),
     (''uprobe//proc/self/exe:uprobed_sub'', decode_program uprobe_elf_5),
     (''uretprobe//proc/self/exe:uprobed_sub'', decode_program uprobe_elf_6)]"
  by (simp add: elf_programs_def uprobe_elf_sections is_program_def bit_numeral_rec bit_0)

end
