(* ===== verification/Obj_Usdt.thy ===== *)
theory Obj_Usdt
  imports Elf
begin

text \<open>
  The object file embedded in examples/c/.output/usdt.skel.h as a string literal: one list of bytes per line of the
  literal, cut at the borders of the sections; then its section table, its symbols and its programs.
\<close>

section \<open>The literal\<close>

definition usdt_elf_hdr :: "byte list" where
  "usdt_elf_hdr =
    concat
    [[127, 69, 76, 70, 2, 1, 1, 0, 0, 0, 0, 0, 0, 0, 0, 0, 1, 0, 247, 0, 1, 0, 0, 0, 0, 0, 0, 0, 0],
     [0, 0, 0, 0, 0, 0, 0, 0, 0, 0, 0, 184, 36, 0, 0, 0, 0, 0, 0, 0, 0, 0, 0, 64, 0, 0, 0, 0, 0, 64, 0, 15, 0],
     [1, 0]]"

definition usdt_elf_1 :: "byte list" where
  "usdt_elf_1 =
    concat
    [[0, 46, 115, 116, 114, 116, 97, 98, 0, 46, 115, 121, 109, 116, 97, 98, 0, 46, 116],
     [101, 120, 116, 0, 117, 115, 100, 116, 47, 108, 105, 98, 99, 46, 115, 111, 46, 54, 58, 108],
     [105, 98, 99, 58, 115, 101, 116, 106, 109, 112, 0, 117, 115, 100, 116, 0, 46, 109, 97, 112],
     [115, 0, 46, 98, 115, 115, 0, 108, 105, 99, 101, 110, 115, 101, 0, 46, 114, 111, 100, 97, 116],
     [97, 0, 117, 115, 100, 116, 46, 98, 112, 102, 46, 99, 0, 76, 66, 66, 48, 95, 51, 0, 76],
     [66, 66, 48, 95, 52, 0, 76, 66, 66, 48, 95, 55, 0, 76, 66, 66, 49, 95, 51, 0, 76],
     [66, 66, 49, 95, 52, 0, 76, 66, 66, 49, 95, 49, 56, 0, 76, 66, 66, 49, 95, 49],
     [51, 0, 76, 66, 66, 49, 95, 49, 50, 0, 76, 66, 66, 49, 95, 49, 53, 0, 76, 66, 66],
     [49, 95, 49, 55, 0, 76, 66, 66, 50, 95, 51, 0, 76, 66, 66, 50, 95, 52, 0, 76, 66],
     [66, 50, 95, 55, 0, 76, 66, 66, 51, 95, 50, 0, 95, 95, 95, 95, 117, 115, 100, 116],
     [95, 97, 117, 116, 111, 95, 97, 116, 116, 97, 99, 104, 46, 95, 95, 95, 95, 102, 109],
     [116, 0, 95, 95, 95, 95, 117, 115, 100, 116, 95, 109, 97, 110, 117, 97, 108, 95, 97, 116],
     [116, 97, 99, 104, 46, 95, 95, 95, 95, 102, 109, 116, 0, 98, 112, 102, 95, 117, 115, 100],
     [116, 95, 97, 114, 103, 95, 99, 110, 116, 0, 76, 73, 78, 85, 88, 95, 72, 65, 83, 95],
     [66, 80, 70, 95, 67, 79, 79, 75, 73, 69, 0, 95, 95, 98, 112, 102, 95, 117, 115, 100],
     [116, 95, 105, 112, 95, 116, 111, 95, 115, 112, 101, 99, 95, 105, 100, 0, 95, 95, 98, 112],
     [102, 95, 117, 115, 100, 116, 95, 115, 112, 101, 99, 115, 0, 98, 112, 102, 95, 117, 115, 100],
     [116, 95, 97, 114, 103, 0, 98, 112, 102, 95, 117, 115, 100, 116, 95, 99, 111, 111, 107, 105],
     [101, 0, 117, 115, 100, 116, 95, 97, 117, 116, 111, 95, 97, 116, 116, 97, 99, 104, 0, 109],
     [121, 95, 112, 105, 100, 0, 117, 115, 100, 116, 95, 109, 97, 110, 117, 97, 108, 95, 97, 116],
     [116, 97, 99, 104, 0, 76, 73, 67, 69, 78, 83, 69, 0, 46, 114, 101, 108, 46, 116, 101],
     [120, 116, 0, 46, 114, 101, 108, 117, 115, 100, 116, 47, 108, 105, 98, 99, 46, 115, 111, 46],
     [54, 58, 108, 105, 98, 99, 58, 115, 101, 116, 106, 109, 112, 0, 46, 114, 101, 108, 117, 115],
     [100, 116, 0, 46, 66, 84, 70, 0, 46, 66, 84, 70, 46, 101, 120, 116, 0]]"

definition usdt_elf_2 :: "byte list" where
  "usdt_elf_2 =
    concat
    [[0, 0, 0, 0, 0, 0, 0, 0],
     [0, 0, 0, 0, 0, 0, 0, 0, 0, 0, 0, 0, 0, 0, 0, 0, 82, 0, 0, 0, 4, 0, 241, 255, 0, 0, 0, 0, 0, 0, 0, 0, 0, 0, 0],
     [0, 0, 0, 0, 0, 0, 0, 0, 0, 3, 0, 3, 0, 0, 0, 0, 0, 0, 0, 0, 0, 0, 0, 0, 0, 0, 0, 0, 0, 93, 0, 0, 0, 0, 0],
     [3, 0, 136, 0, 0, 0, 0, 0, 0, 0, 0, 0, 0, 0, 0, 0, 0, 0, 100, 0, 0, 0, 0, 0, 3, 0, 144, 0, 0, 0, 0, 0, 0, 0],
     [0, 0, 0, 0, 0, 0, 0, 0, 107, 0, 0, 0, 0, 0, 3, 0, 16, 1, 0, 0, 0, 0, 0, 0, 0, 0, 0, 0, 0, 0, 0, 0, 114, 0],
     [0, 0, 0, 0, 3, 0, 208, 1, 0, 0, 0, 0, 0, 0, 0, 0, 0, 0, 0, 0, 0, 0, 121, 0, 0, 0, 0, 0, 3, 0, 224, 1],
     [0, 0, 0, 0, 0, 0, 0, 0, 0, 0, 0, 0, 0, 0, 128, 0, 0, 0, 0, 0, 3, 0, 8, 5, 0, 0, 0, 0, 0, 0, 0, 0, 0, 0, 0],
     [0, 0, 0, 136, 0, 0, 0, 0, 0, 3, 0, 144, 3, 0, 0, 0, 0, 0, 0, 0, 0, 0, 0, 0, 0, 0, 0, 144, 0, 0, 0, 0, 0],
     [3, 0, 232, 2, 0, 0, 0, 0, 0, 0, 0, 0, 0, 0, 0, 0, 0, 0, 152, 0, 0, 0, 0, 0, 3, 0, 128, 4, 0, 0, 0, 0],
     [0, 0, 0, 0, 0, 0, 0, 0, 0, 0, 160, 0, 0, 0, 0, 0, 3, 0, 248, 4, 0, 0, 0, 0, 0, 0, 0, 0, 0, 0, 0, 0, 0, 0],
     [168, 0, 0, 0, 0, 0, 3, 0, 160, 5, 0, 0, 0, 0, 0, 0, 0, 0, 0, 0, 0, 0, 0, 0, 175, 0, 0, 0, 0, 0, 3, 0],
     [168, 5, 0, 0, 0, 0, 0, 0, 0, 0, 0, 0, 0, 0, 0, 0, 182, 0, 0, 0, 0, 0, 3, 0, 8, 6, 0, 0, 0, 0, 0, 0, 0],
     [0, 0, 0, 0, 0, 0, 0, 0, 0, 0, 0, 3, 0, 4, 0, 0, 0, 0, 0, 0, 0, 0, 0, 0, 0, 0, 0, 0, 0, 0, 0, 189, 0, 0, 0, 0],
     [0, 4, 0, 248, 0, 0, 0, 0, 0, 0, 0, 0, 0, 0, 0, 0, 0, 0, 0, 196, 0, 0, 0, 1, 0, 9, 0, 0, 0, 0, 0, 0, 0, 0],
     [0, 67, 0, 0, 0, 0, 0, 0, 0, 0, 0, 0, 0, 3, 0, 5, 0, 0, 0, 0, 0, 0, 0, 0, 0, 0, 0, 0, 0, 0, 0, 0, 0, 225, 0],
     [0, 0, 1, 0, 9, 0, 67, 0, 0, 0, 0, 0, 0, 0, 69, 0, 0, 0, 0, 0, 0, 0, 0, 0, 0, 0, 3, 0, 9, 0, 0, 0, 0],
     [0, 0, 0, 0, 0, 0, 0, 0, 0, 0, 0, 0, 0, 0, 1, 0, 0, 34, 2, 3, 0, 0, 0, 0, 0, 0, 0, 0, 0, 32, 1, 0, 0],
     [0, 0, 0, 0, 17, 1, 0, 0, 16, 0, 0, 0, 0, 0, 0, 0, 0, 0, 0, 0, 0, 0, 0, 0, 0, 0, 0, 0, 38, 1, 0, 0, 33],
     [0, 6, 0, 32, 0, 0, 0, 0, 0, 0, 0, 32, 0, 0, 0, 0, 0, 0, 0, 63, 1, 0, 0, 33, 0, 6, 0, 0, 0, 0, 0, 0],
     [0, 0, 0, 32, 0, 0, 0, 0, 0, 0, 0, 80, 1, 0, 0, 34, 2, 3, 0, 32, 1, 0, 0, 0, 0, 0, 0, 248, 3],
     [0, 0, 0, 0, 0, 0, 93, 1, 0, 0, 34, 2, 3, 0, 24, 5, 0, 0, 0, 0, 0, 0, 0, 1, 0, 0, 0, 0, 0, 0],
     [109, 1, 0, 0, 18, 0, 4, 0, 0, 0, 0, 0, 0, 0, 0, 0, 8, 1, 0, 0, 0, 0, 0, 0, 126, 1, 0, 0, 17, 0],
     [7, 0, 0, 0, 0, 0, 0, 0, 0, 0, 4, 0, 0, 0, 0, 0, 0, 0, 133, 1, 0, 0, 18, 0, 5, 0, 0, 0, 0, 0, 0, 0, 0],
     [0, 208, 0, 0, 0, 0, 0, 0, 0, 152, 1, 0, 0, 17, 0, 8, 0, 0, 0, 0, 0, 0, 0, 0, 0, 13, 0, 0, 0, 0, 0, 0, 0]]"

definition usdt_elf_3 :: "byte list" where
  "usdt_elf_3 =
    concat
    [[24, 2, 0, 0, 0, 0, 0, 0, 0, 0, 0, 0, 0, 0, 0, 0, 113, 34, 0, 0, 0, 0, 0, 0, 85, 2, 13, 0, 0, 0, 0, 0],
     [121, 17, 0, 1, 0, 0, 0, 0, 123, 26, 248, 255, 0, 0, 0, 0, 191, 162, 0, 0, 0, 0, 0, 0, 7, 2, 0, 0],
     [248, 255, 255, 255, 24, 1, 0, 0, 0, 0, 0, 0, 0, 0, 0, 0, 0, 0, 0, 0, 133, 0, 0, 0, 1, 0, 0, 0, 191],
     [1, 0, 0, 0, 0, 0, 0, 24, 0, 0, 0, 253, 255, 255, 255, 0, 0, 0, 0, 0, 0, 0, 0, 21, 1, 3, 0, 0, 0, 0],
     [0, 97, 16, 0, 0, 0, 0, 0, 0, 5, 0, 1, 0, 0, 0, 0, 0, 133, 0, 0, 0, 174, 0, 0, 0, 24, 6, 0, 0, 253],
     [255, 255, 255, 0, 0, 0, 0, 0, 0, 0, 0, 99, 10, 244, 255, 0, 0, 0, 0, 103, 0, 0, 0, 32, 0, 0, 0, 199, 0],
     [0, 0, 32, 0, 0, 0, 183, 1, 0, 0, 0, 0, 0, 0, 109, 1, 9, 0, 0, 0, 0, 0, 191, 162, 0, 0, 0, 0, 0, 0],
     [7, 2, 0, 0, 244, 255, 255, 255, 24, 1, 0, 0, 0, 0, 0, 0, 0, 0, 0, 0, 0, 0, 0, 0, 133, 0, 0, 0, 1],
     [0, 0, 0, 21, 0, 3, 0, 0, 0, 0, 0, 105, 6, 200, 0, 0, 0, 0, 0, 103, 6, 0, 0, 48, 0, 0, 0, 199, 6],
     [0, 0, 48, 0, 0, 0, 191, 96, 0, 0, 0, 0, 0, 0, 149, 0, 0, 0, 0, 0, 0, 0, 191, 54, 0, 0, 0, 0, 0, 0, 191],
     [39, 0, 0, 0, 0, 0, 0, 191, 24, 0, 0, 0, 0, 0, 0, 183, 1, 0, 0, 0, 0, 0, 0, 123, 22, 0, 0, 0, 0, 0, 0],
     [24, 1, 0, 0, 0, 0, 0, 0, 0, 0, 0, 0, 0, 0, 0, 0, 113, 17, 0, 0, 0, 0, 0, 0, 85, 1, 13, 0, 0, 0, 0, 0],
     [121, 129, 0, 1, 0, 0, 0, 0, 123, 26, 248, 255, 0, 0, 0, 0, 191, 162, 0, 0, 0, 0, 0, 0, 7, 2, 0, 0],
     [248, 255, 255, 255, 24, 1, 0, 0, 0, 0, 0, 0, 0, 0, 0, 0, 0, 0, 0, 0, 133, 0, 0, 0, 1, 0, 0, 0, 191],
     [1, 0, 0, 0, 0, 0, 0, 24, 0, 0, 0, 253, 255, 255, 255, 0, 0, 0, 0, 0, 0, 0, 0, 21, 1, 4, 0, 0, 0, 0],
     [0, 97, 16, 0, 0, 0, 0, 0, 0, 5, 0, 2, 0, 0, 0, 0, 0, 191, 129, 0, 0, 0, 0, 0, 0, 133, 0, 0, 0, 174, 0],
     [0, 0, 24, 9, 0, 0, 253, 255, 255, 255, 0, 0, 0, 0, 0, 0, 0, 0, 99, 10, 244, 255, 0, 0, 0, 0, 103, 0],
     [0, 0, 32, 0, 0, 0, 199, 0, 0, 0, 32, 0, 0, 0, 183, 1, 0, 0, 0, 0, 0, 0, 109, 1, 94, 0, 0, 0, 0, 0],
     [191, 162, 0, 0, 0, 0, 0, 0, 7, 2, 0, 0, 244, 255, 255, 255, 24, 1, 0, 0, 0, 0, 0, 0, 0, 0, 0, 0, 0],
     [0, 0, 0, 133, 0, 0, 0, 1, 0, 0, 0, 21, 0, 88, 0, 0, 0, 0, 0, 24, 9, 0, 0, 254, 255, 255, 255, 0, 0],
     [0, 0, 0, 0, 0, 0, 37, 7, 85, 0, 11, 0, 0, 0, 105, 1, 200, 0, 0, 0, 0, 0, 103, 1, 0, 0, 48, 0, 0],
     [0, 199, 1, 0, 0, 48, 0, 0, 0, 61, 23, 81, 0, 0, 0, 0, 0, 191, 113, 0, 0, 0, 0, 0, 0, 103, 1, 0, 0],
     [4, 0, 0, 0, 191, 2, 0, 0, 0, 0, 0, 0, 15, 18, 0, 0, 0, 0, 0, 0, 97, 33, 8, 0, 0, 0, 0, 0, 21],
     [1, 28, 0, 2, 0, 0, 0, 21, 1, 6, 0, 1, 0, 0, 0, 24, 9, 0, 0, 234, 255, 255, 255, 0, 0, 0],
     [0, 0, 0, 0, 0, 85, 1, 71, 0, 0, 0, 0, 0, 121, 33, 0, 0, 0, 0, 0, 0, 123, 26, 248, 255, 0, 0, 0, 0],
     [5, 0, 51, 0, 0, 0, 0, 0, 191, 113, 0, 0, 0, 0, 0, 0, 103, 1, 0, 0, 4, 0, 0, 0, 191, 2, 0, 0, 0, 0],
     [0, 0, 15, 18, 0, 0, 0, 0, 0, 0, 105, 33, 12, 0, 0, 0, 0, 0, 103, 1, 0, 0, 48, 0, 0, 0, 199, 1, 0],
     [0, 48, 0, 0, 0, 15, 24, 0, 0, 0, 0, 0, 0, 191, 161, 0, 0, 0, 0, 0, 0, 7, 1, 0, 0, 248, 255, 255],
     [255, 183, 2, 0, 0, 8, 0, 0, 0, 191, 131, 0, 0, 0, 0, 0, 0, 191, 8, 0, 0, 0, 0, 0, 0, 133, 0, 0, 0],
     [113, 0, 0, 0, 191, 9, 0, 0, 0, 0, 0, 0, 191, 128, 0, 0, 0, 0, 0, 0, 191, 145, 0, 0, 0, 0, 0, 0, 103, 1],
     [0, 0, 32, 0, 0, 0, 119, 1, 0, 0, 32, 0, 0, 0, 21, 1, 31, 0, 0, 0, 0, 0, 5, 0, 47, 0, 0, 0, 0, 0],
     [105, 33, 12, 0, 0, 0, 0, 0, 103, 1, 0, 0, 48, 0, 0, 0, 199, 1, 0, 0, 48, 0, 0, 0, 15, 24, 0, 0],
     [0, 0, 0, 0, 191, 161, 0, 0, 0, 0, 0, 0, 7, 1, 0, 0, 248, 255, 255, 255, 191, 41, 0, 0, 0, 0, 0, 0],
     [183, 2, 0, 0, 8, 0, 0, 0, 191, 131, 0, 0, 0, 0, 0, 0, 191, 8, 0, 0, 0, 0, 0, 0, 133, 0, 0, 0, 113, 0],
     [0, 0, 191, 146, 0, 0, 0, 0, 0, 0, 191, 9, 0, 0, 0, 0, 0, 0, 191, 145, 0, 0, 0, 0, 0, 0, 103, 1, 0, 0],
     [32, 0, 0, 0, 119, 1, 0, 0, 32, 0, 0, 0, 85, 1, 30, 0, 0, 0, 0, 0, 121, 33, 0, 0, 0, 0, 0, 0, 121],
     [163, 248, 255, 0, 0, 0, 0, 15, 19, 0, 0, 0, 0, 0, 0, 191, 161, 0, 0, 0, 0, 0, 0, 7, 1, 0, 0, 248],
     [255, 255, 255, 183, 2, 0, 0, 8, 0, 0, 0, 133, 0, 0, 0, 112, 0, 0, 0, 191, 9, 0, 0, 0, 0, 0, 0, 191],
     [128, 0, 0, 0, 0, 0, 0, 191, 145, 0, 0, 0, 0, 0, 0, 103, 1, 0, 0, 32, 0, 0, 0, 119, 1, 0, 0, 32, 0, 0],
     [0, 85, 1, 17, 0, 0, 0, 0, 0, 103, 7, 0, 0, 4, 0, 0, 0, 15, 112, 0, 0, 0, 0, 0, 0, 113, 1, 15],
     [0, 0, 0, 0, 0, 103, 1, 0, 0, 56, 0, 0, 0, 199, 1, 0, 0, 56, 0, 0, 0, 103, 1, 0, 0, 32, 0, 0, 0],
     [119, 1, 0, 0, 32, 0, 0, 0, 121, 162, 248, 255, 0, 0, 0, 0, 111, 18, 0, 0, 0, 0, 0, 0, 191, 35, 0, 0],
     [0, 0, 0, 0, 127, 19, 0, 0, 0, 0, 0, 0, 113, 4, 14, 0, 0, 0, 0, 0, 21, 4, 2, 0, 0, 0, 0, 0, 207],
     [18, 0, 0, 0, 0, 0, 0, 191, 35, 0, 0, 0, 0, 0, 0, 123, 54, 0, 0, 0, 0, 0, 0, 183, 9, 0, 0, 0, 0, 0, 0],
     [191, 144, 0, 0, 0, 0, 0, 0, 149, 0, 0, 0, 0, 0, 0, 0, 24, 2, 0, 0, 0, 0, 0, 0, 0, 0, 0, 0, 0, 0, 0, 0, 113],
     [34, 0, 0, 0, 0, 0, 0, 85, 2, 13, 0, 0, 0, 0, 0, 121, 17, 0, 1, 0, 0, 0, 0, 123, 26, 248, 255, 0],
     [0, 0, 0, 191, 162, 0, 0, 0, 0, 0, 0, 7, 2, 0, 0, 248, 255, 255, 255, 24, 1, 0, 0, 0, 0, 0, 0, 0, 0],
     [0, 0, 0, 0, 0, 0, 133, 0, 0, 0, 1, 0, 0, 0, 191, 1, 0, 0, 0, 0, 0, 0, 24, 0, 0, 0, 253, 255, 255, 255],
     [0, 0, 0, 0, 0, 0, 0, 0, 21, 1, 3, 0, 0, 0, 0, 0, 97, 16, 0, 0, 0, 0, 0, 0, 5, 0, 1, 0, 0, 0, 0, 0],
     [133, 0, 0, 0, 174, 0, 0, 0, 99, 10, 244, 255, 0, 0, 0, 0, 103, 0, 0, 0, 32, 0, 0, 0, 199, 0, 0, 0, 32],
     [0, 0, 0, 183, 6, 0, 0, 0, 0, 0, 0, 109, 6, 7, 0, 0, 0, 0, 0, 191, 162, 0, 0, 0, 0, 0, 0, 7, 2, 0],
     [0, 244, 255, 255, 255, 24, 1, 0, 0, 0, 0, 0, 0, 0, 0, 0, 0, 0, 0, 0, 0, 133, 0, 0, 0, 1, 0, 0, 0, 21],
     [0, 1, 0, 0, 0, 0, 0, 121, 6, 192, 0, 0, 0, 0, 0, 191, 96, 0, 0, 0, 0, 0, 0, 149, 0, 0, 0, 0, 0, 0, 0]]"

definition usdt_elf_4 :: "byte list" where
  "usdt_elf_4 =
    concat
    [[191, 24, 0, 0, 0, 0, 0, 0, 191, 163, 0, 0, 0, 0, 0, 0, 7, 3, 0, 0, 248, 255, 255, 255, 183, 2, 0],
     [0, 0, 0, 0, 0, 133, 16, 0, 0, 255, 255, 255, 255, 121, 166, 248, 255, 0, 0, 0, 0, 191, 163, 0, 0, 0, 0],
     [0, 0, 7, 3, 0, 0, 248, 255, 255, 255, 191, 129, 0, 0, 0, 0, 0, 0, 183, 2, 0, 0, 1, 0, 0, 0, 133],
     [16, 0, 0, 255, 255, 255, 255, 121, 167, 248, 255, 0, 0, 0, 0, 191, 163, 0, 0, 0, 0, 0, 0, 7, 3, 0],
     [0, 248, 255, 255, 255, 191, 129, 0, 0, 0, 0, 0, 0, 183, 2, 0, 0, 2, 0, 0, 0, 133, 16, 0, 0, 255],
     [255, 255, 255, 121, 168, 248, 255, 0, 0, 0, 0, 133, 0, 0, 0, 14, 0, 0, 0, 119, 0, 0, 0, 32, 0, 0, 0],
     [24, 1, 0, 0, 0, 0, 0, 0, 0, 0, 0, 0, 0, 0, 0, 0, 97, 17, 0, 0, 0, 0, 0, 0, 93, 1, 7, 0, 0, 0, 0, 0],
     [24, 1, 0, 0, 0, 0, 0, 0, 0, 0, 0, 0, 0, 0, 0, 0, 183, 2, 0, 0, 67, 0, 0, 0, 191, 99, 0, 0, 0, 0, 0, 0],
     [191, 116, 0, 0, 0, 0, 0, 0, 191, 133, 0, 0, 0, 0, 0, 0, 133, 0, 0, 0, 6, 0, 0, 0, 183, 0, 0, 0, 0, 0, 0, 0],
     [149, 0, 0, 0, 0, 0, 0, 0]]"

definition usdt_elf_5 :: "byte list" where
  "usdt_elf_5 =
    concat
    [[191, 23, 0, 0, 0, 0, 0, 0, 191, 163, 0, 0, 0, 0, 0, 0, 7, 3, 0, 0, 248, 255],
     [255, 255, 183, 2, 0, 0, 0, 0, 0, 0, 133, 16, 0, 0, 255, 255, 255, 255, 121, 166, 248, 255, 0, 0, 0],
     [0, 191, 163, 0, 0, 0, 0, 0, 0, 7, 3, 0, 0, 248, 255, 255, 255, 191, 113, 0, 0, 0, 0, 0, 0, 183, 2],
     [0, 0, 1, 0, 0, 0, 133, 16, 0, 0, 255, 255, 255, 255, 121, 168, 248, 255, 0, 0, 0, 0, 191, 163, 0, 0],
     [0, 0, 0, 0, 7, 3, 0, 0, 248, 255, 255, 255, 191, 113, 0, 0, 0, 0, 0, 0, 183, 2, 0, 0, 2, 0, 0, 0],
     [133, 16, 0, 0, 255, 255, 255, 255, 121, 165, 248, 255, 0, 0, 0, 0, 24, 1, 0, 0, 67, 0, 0, 0, 0, 0],
     [0, 0, 0, 0, 0, 0, 183, 2, 0, 0, 69, 0, 0, 0, 191, 99, 0, 0, 0, 0, 0, 0, 191, 132, 0, 0, 0, 0, 0, 0, 133],
     [0, 0, 0, 6, 0, 0, 0, 183, 0, 0, 0, 0, 0, 0, 0, 149, 0, 0, 0, 0, 0, 0, 0]]"

definition usdt_elf_6 :: "byte list" where
  "usdt_elf_6 =
    concat
    [[0, 0, 0, 0, 0, 0, 0, 0, 0, 0, 0, 0, 0],
     [0, 0, 0, 0, 0, 0, 0, 0, 0, 0, 0, 0, 0, 0, 0, 0, 0, 0, 0, 0, 0, 0, 0, 0, 0, 0, 0, 0, 0, 0, 0, 0, 0, 0, 0, 0, 0, 0, 0],
     [0, 0, 0, 0, 0, 0, 0, 0, 0, 0, 0, 0]]"

definition usdt_elf_8 :: "byte list" where
  "usdt_elf_8 =
    concat
    [[68, 117, 97, 108, 32, 66, 83, 68, 47, 71, 80, 76, 0]]"

definition usdt_elf_9 :: "byte list" where
  "usdt_elf_9 =
    concat
    [[85],
     [83, 68, 84, 32, 97, 117, 116, 111, 32, 97, 116, 116, 97, 99, 104, 32, 116, 111, 32],
     [108, 105, 98, 99, 58, 115, 101, 116, 106, 109, 112, 58, 32, 97, 114, 103, 49, 32, 61],
     [32, 37, 108, 120, 44, 32, 97, 114, 103, 50, 32, 61, 32, 37, 100, 44, 32, 97, 114],
     [103, 51, 32, 61, 32, 37, 108, 120, 0, 85, 83, 68, 84, 32, 109, 97, 110, 117, 97, 108],
     [32, 97, 116, 116, 97, 99, 104, 32, 116, 111, 32, 108, 105, 98, 99, 58, 115, 101, 116],
     [106, 109, 112, 58, 32, 97, 114, 103, 49, 32, 61, 32, 37, 108, 120, 44, 32, 97, 114],
     [103, 50, 32, 61, 32, 37, 100, 44, 32, 97, 114, 103, 51, 32, 61, 32, 37, 108, 120, 0],
     [0, 0, 0]]"

definition usdt_elf_10 :: "byte list" where
  "usdt_elf_10 =
    concat
    [[0, 0, 0, 0, 0, 0, 0, 0, 1, 0, 0, 0, 23, 0, 0, 0, 64, 0, 0, 0, 0, 0, 0, 0, 1, 0, 0, 0, 24, 0, 0],
     [0, 216, 0, 0, 0, 0, 0, 0, 0, 1, 0, 0, 0, 25, 0, 0, 0, 72, 1, 0, 0, 0, 0, 0, 0, 1, 0, 0, 0, 23, 0, 0],
     [0, 136, 1, 0, 0, 0, 0, 0, 0, 1, 0, 0, 0, 24, 0, 0, 0, 40, 2, 0, 0, 0, 0, 0, 0, 1, 0, 0, 0, 25, 0],
     [0, 0, 24, 5, 0, 0, 0, 0, 0, 0, 1, 0, 0, 0, 23, 0, 0, 0, 88, 5, 0, 0, 0, 0, 0, 0, 1, 0, 0, 0, 24],
     [0, 0, 0, 224, 5, 0, 0, 0, 0, 0, 0, 1, 0, 0, 0, 25, 0, 0, 0]]"

definition usdt_elf_11 :: "byte list" where
  "usdt_elf_11 =
    concat
    [[32, 0, 0, 0, 0, 0, 0, 0, 10, 0, 0, 0, 26],
     [0, 0, 0, 80, 0, 0, 0, 0, 0, 0, 0, 10, 0, 0, 0, 26, 0, 0, 0, 128, 0, 0, 0, 0, 0, 0, 0, 10, 0, 0, 0, 26, 0],
     [0, 0, 160, 0, 0, 0, 0, 0, 0, 0, 1, 0, 0, 0, 29, 0, 0, 0, 192, 0, 0, 0, 0, 0, 0, 0, 1, 0, 0, 0, 21, 0, 0],
     [0]]"

definition usdt_elf_12 :: "byte list" where
  "usdt_elf_12 =
    concat
    [[32, 0, 0, 0, 0, 0, 0, 0, 10, 0, 0, 0, 26, 0, 0, 0, 80, 0, 0, 0, 0, 0, 0, 0, 10, 0, 0, 0, 26, 0, 0, 0],
     [128, 0, 0, 0, 0, 0, 0, 0, 10, 0, 0, 0, 26, 0, 0, 0, 144, 0, 0, 0, 0, 0, 0, 0, 1, 0, 0, 0, 21, 0, 0, 0]]"

definition usdt_elf_13_a :: "byte list" where
  "usdt_elf_13_a =
    concat
    [[159, 235, 1, 0, 24, 0, 0, 0, 0, 0, 0, 0, 52, 6, 0, 0, 52, 6, 0, 0, 127, 8, 0, 0, 0, 0, 0, 0, 0],
     [0, 0, 2, 3, 0, 0, 0, 1, 0, 0, 0, 0, 0, 0, 1, 4, 0, 0, 0, 32, 0, 0, 1, 0, 0, 0, 0, 0, 0, 0, 3],
     [0, 0, 0, 0, 2, 0, 0, 0, 4, 0, 0, 0, 2, 0, 0, 0, 5, 0, 0, 0, 0, 0, 0, 1, 4, 0, 0, 0, 32, 0, 0, 0],
     [0, 0, 0, 0, 0, 0, 0, 2, 6, 0, 0, 0, 0, 0, 0, 0, 0, 0, 0, 3, 0, 0, 0, 0, 2, 0, 0, 0, 4, 0, 0, 0, 0],
     [1, 0, 0, 0, 0, 0, 0, 0, 0, 0, 2, 2, 0, 0, 0, 0, 0, 0, 0, 0, 0, 0, 2, 9, 0, 0, 0, 25, 0, 0, 0, 3],
     [0, 0, 4, 208, 0, 0, 0, 41, 0, 0, 0, 18, 0, 0, 0, 0, 0, 0, 0, 46, 0, 0, 0, 11, 0, 0, 0, 0, 6, 0, 0],
     [58, 0, 0, 0, 14, 0, 0, 0, 64, 6, 0, 0, 66, 0, 0, 0, 5, 0, 0, 4, 16, 0, 0, 0, 86, 0, 0, 0, 11],
     [0, 0, 0, 0, 0, 0, 0, 94, 0, 0, 0, 13, 0, 0, 0, 64, 0, 0, 0, 103, 0, 0, 0, 14, 0, 0, 0, 96, 0, 0, 0, 111],
     [0, 0, 0, 15, 0, 0, 0, 112, 0, 0, 0, 122, 0, 0, 0, 17, 0, 0, 0, 120, 0, 0, 0, 135, 0, 0, 0, 0, 0, 0, 8],
     [12, 0, 0, 0, 141, 0, 0, 0, 0, 0, 0, 1, 8, 0, 0, 0, 64, 0, 0, 0, 160, 0, 0, 0, 3, 0, 0, 6, 4, 0],
     [0, 0, 180, 0, 0, 0, 0, 0, 0, 0, 199, 0, 0, 0, 1, 0, 0, 0, 216, 0, 0, 0, 2, 0, 0, 0, 239, 0, 0, 0, 0, 0, 0],
     [1, 2, 0, 0, 0, 16, 0, 0, 1, 245, 0, 0, 0, 0, 0, 0, 8, 16, 0, 0, 0, 250, 0, 0, 0, 0, 0, 0, 1],
     [1, 0, 0, 0, 8, 0, 0, 4, 0, 1, 0, 0, 0, 0, 0, 1, 1, 0, 0, 0, 8, 0, 0, 1, 0, 0, 0, 0, 0, 0, 0],
     [3, 0, 0, 0, 0, 10, 0, 0, 0, 4, 0, 0, 0, 12, 0, 0, 0, 0, 0, 0, 0, 4, 0, 0, 4, 32, 0, 0, 0, 5],
     [1, 0, 0, 1, 0, 0, 0, 0, 0, 0, 0, 10, 1, 0, 0, 5, 0, 0, 0, 64, 0, 0, 0, 22, 1, 0, 0, 7, 0, 0],
     [0, 128, 0, 0, 0, 26, 1, 0, 0, 8, 0, 0, 0, 192, 0, 0, 0, 32, 1, 0, 0, 0, 0, 0, 14, 19, 0, 0, 0],
     [1, 0, 0, 0, 0, 0, 0, 0, 0, 0, 0, 2, 22, 0, 0, 0, 0, 0, 0, 0, 0, 0, 0, 3, 0, 0, 0, 0, 2, 0, 0, 0, 4],
     [0, 0, 0, 1, 0, 0, 0, 0, 0, 0, 0, 0, 0, 0, 2, 24, 0, 0, 0, 0, 0, 0, 0, 0, 0, 0, 3, 0, 0, 0, 0, 2, 0, 0],
     [0, 4, 0, 0, 0, 0, 4, 0, 0, 0, 0, 0, 0, 0, 0, 0, 2, 26, 0, 0, 0, 49, 1, 0, 0, 0, 0, 0, 1, 8, 0],
     [0, 0, 64, 0, 0, 1, 0, 0, 0, 0, 0, 0, 0, 2, 28, 0, 0, 0, 54, 1, 0, 0, 0, 0, 0, 8, 29, 0, 0, 0],
     [60, 1, 0, 0, 0, 0, 0, 1, 4, 0, 0, 0, 32, 0, 0, 0, 0, 0, 0, 0, 4, 0, 0, 4, 32, 0, 0, 0, 5],
     [1, 0, 0, 21, 0, 0, 0, 0, 0, 0, 0, 10, 1, 0, 0, 23, 0, 0, 0, 64, 0, 0, 0, 22, 1, 0, 0, 25, 0, 0],
     [0, 128, 0, 0, 0, 26, 1, 0, 0, 27, 0, 0, 0, 192, 0, 0, 0, 73, 1, 0, 0, 0, 0, 0, 14, 30, 0, 0, 0],
     [1, 0, 0, 0, 0, 0, 0, 0, 0, 0, 0, 2, 33, 0, 0, 0, 98, 1, 0, 0, 6, 0, 0, 4, 64, 1, 0, 0, 0, 0],
     [0, 0, 34, 0, 0, 0, 0, 0, 0, 0, 106, 1, 0, 0, 38, 0, 0, 0, 128, 8, 0, 0, 114, 1, 0, 0, 40, 0, 0, 0],
     [192, 8, 0, 0, 124, 1, 0, 0, 42, 0, 0, 0, 224, 8, 0, 0, 128, 1, 0, 0, 38, 0, 0, 0, 0, 9, 0, 0],
     [139, 1, 0, 0, 43, 0, 0, 0, 64, 9, 0, 0, 0, 0, 0, 0, 2, 0, 0, 5, 16, 1, 0, 0, 150, 1, 0, 0],
     [35, 0, 0, 0, 0, 0, 0, 0, 0, 0, 0, 0, 37, 0, 0, 0, 0, 0, 0, 0, 160, 1, 0, 0, 4, 0, 0, 4, 16, 1, 0],
     [0, 173, 1, 0, 0, 36, 0, 0, 0, 0, 0, 0, 0, 178, 1, 0, 0, 11, 0, 0, 0, 192, 7, 0, 0, 181, 1, 0, 0],
     [11, 0, 0, 0, 0, 8, 0, 0, 184, 1, 0, 0, 11, 0, 0, 0, 64, 8, 0, 0, 0, 0, 0, 0, 0, 0, 0, 3, 0, 0, 0],
     [0, 11, 0, 0, 0, 4, 0, 0, 0, 31, 0, 0, 0, 0, 0, 0, 0, 4, 0, 0, 4, 16, 1, 0, 0, 173, 1, 0, 0],
     [39, 0, 0, 0, 0, 0, 0, 0, 178, 1, 0, 0, 38, 0, 0, 0, 192, 7, 0, 0, 181, 1, 0, 0, 38, 0, 0, 0, 0],
     [8, 0, 0, 184, 1, 0, 0, 38, 0, 0, 0, 64, 8, 0, 0, 191, 1, 0, 0, 0, 0, 0, 8, 11, 0, 0, 0, 0, 0],
     [0, 0, 0, 0, 0, 3, 0, 0, 0, 0, 38, 0, 0, 0, 4, 0, 0, 0, 31, 0, 0, 0, 195, 1, 0, 0, 0, 0, 0, 8, 41],
     [0, 0, 0, 199, 1, 0, 0, 0, 0, 0, 8, 2, 0, 0, 0, 205, 1, 0, 0, 0, 0, 0, 8, 28, 0, 0, 0, 209, 1],
     [0, 0, 2, 0, 0, 4, 24, 0, 0, 0, 227, 1, 0, 0, 44, 0, 0, 0, 0, 0, 0, 0, 5, 1, 0, 0, 38, 0, 0, 0],
     [128, 0, 0, 0, 234, 1, 0, 0, 2, 0, 0, 4, 16, 0, 0, 0, 247, 1, 0, 0, 38, 0, 0, 0, 0, 0, 0, 0, 250],
     [1, 0, 0, 38, 0, 0, 0, 64, 0, 0, 0, 0, 0, 0, 0, 1, 0, 0, 13, 2, 0, 0, 0, 253, 1, 0, 0, 32, 0, 0],
     [0, 1, 2, 0, 0, 1, 0, 0, 12, 45, 0, 0, 0, 0, 0, 0, 0, 3, 0, 0, 13, 2, 0, 0, 0, 253, 1, 0, 0],
     [32, 0, 0, 0, 18, 2, 0, 0, 11, 0, 0, 0, 26, 2, 0, 0, 25, 0, 0, 0, 30, 2, 0, 0, 1, 0, 0, 12],
     [47, 0, 0, 0, 0, 0, 0, 0, 1, 0, 0, 13, 26, 0, 0, 0, 253, 1, 0, 0, 32, 0, 0, 0, 43, 2, 0, 0, 1],
     [0, 0, 12, 49, 0, 0, 0, 59, 2, 0, 0, 1, 0, 0, 12, 45, 0, 0, 0, 76, 2, 0, 0, 1, 0, 0, 12],
     [45, 0, 0, 0, 95, 2, 0, 0, 0, 0, 0, 8, 54, 0, 0, 0, 101, 2, 0, 0, 0, 0, 0, 8, 2, 0, 0, 0, 116],
     [2, 0, 0, 0, 0, 0, 14, 53, 0, 0, 0, 1, 0, 0, 0, 0, 0, 0, 0, 0, 0, 0, 3, 0, 0, 0, 0, 17, 0, 0, 0, 4],
     [0, 0, 0, 13, 0, 0, 0, 123, 2, 0, 0, 0, 0, 0, 14, 56, 0, 0, 0, 1, 0, 0, 0, 0, 0, 0, 0, 0, 0, 0, 10],
     [16, 0, 0, 0, 131, 2, 0, 0, 0, 0, 0, 14, 58, 0, 0, 0, 2, 0, 0, 0, 0, 0, 0, 0, 0, 0, 0, 10, 17, 0, 0],
     [0, 0, 0, 0, 0, 0, 0, 0, 3, 0, 0, 0, 0, 60, 0, 0, 0, 4, 0, 0, 0, 67, 0, 0, 0, 152, 2, 0, 0, 0, 0, 0],
     [14, 61, 0, 0, 0, 0, 0, 0, 0, 0, 0, 0, 0, 0, 0, 0, 3, 0, 0, 0, 0, 60, 0, 0, 0, 4, 0, 0, 0, 69, 0, 0, 0],
     [181, 2, 0, 0, 0, 0, 0, 14, 63, 0, 0, 0, 0, 0, 0, 0, 53, 8, 0, 0, 2, 0, 0, 15, 64, 0, 0, 0, 20],
     [0, 0, 0, 0, 0, 0, 0, 32, 0, 0, 0, 31, 0, 0, 0, 32, 0, 0, 0, 32, 0, 0, 0, 59, 8, 0, 0, 1, 0, 0, 15],
     [4, 0, 0, 0, 55, 0, 0, 0, 0, 0, 0, 0, 4, 0, 0, 0, 64, 8, 0, 0, 1, 0, 0, 15, 13, 0, 0, 0, 57, 0],
     [0, 0, 0, 0, 0, 0, 13, 0, 0, 0, 72, 8, 0, 0, 2, 0, 0, 15, 136, 0, 0, 0, 62, 0, 0, 0, 0, 0, 0, 0, 67],
     [0, 0, 0, 64, 0, 0, 0, 67, 0, 0, 0, 69, 0, 0, 0, 80, 8, 0, 0, 1, 0, 0, 15, 0, 0, 0, 0, 59, 0, 0, 0],
     [0, 0, 0, 0, 1, 0, 0, 0, 0, 105, 110, 116, 0, 95, 95, 65, 82, 82, 65, 89, 95, 83, 73, 90],
     [69, 95, 84, 89, 80, 69, 95, 95, 0, 95, 95, 98, 112, 102, 95, 117, 115, 100, 116, 95],
     [115, 112, 101, 99, 0, 97, 114, 103, 115, 0, 117, 115, 100, 116, 95, 99, 111, 111, 107, 105],
     [101, 0, 97, 114, 103, 95, 99, 110, 116, 0, 95, 95, 98, 112, 102, 95, 117, 115, 100, 116],
     [95, 97, 114, 103, 95, 115, 112, 101, 99, 0, 118, 97, 108, 95, 111, 102, 102, 0, 97, 114],
     [103, 95, 116, 121, 112, 101, 0, 114, 101, 103, 95, 111, 102, 102, 0, 97, 114, 103, 95, 115],
     [105, 103, 110, 101, 100, 0, 97, 114, 103, 95, 98, 105, 116, 115, 104, 105, 102, 116, 0, 95],
     [95, 117, 54, 52, 0, 117, 110, 115, 105, 103, 110, 101, 100, 32, 108, 111, 110, 103, 32, 108],
     [111, 110, 103, 0, 95, 95, 98, 112, 102, 95, 117, 115, 100, 116, 95, 97, 114, 103, 95, 116],
     [121, 112, 101, 0, 66, 80, 70, 95, 85, 83, 68, 84, 95, 65, 82, 71, 95, 67, 79, 78],
     [83, 84, 0, 66, 80, 70, 95, 85, 83, 68, 84, 95, 65, 82, 71, 95, 82, 69, 71, 0],
     [66, 80, 70, 95, 85, 83, 68, 84, 95, 65, 82, 71, 95, 82, 69, 71, 95, 68, 69],
     [82, 69, 70, 0, 115, 104, 111, 114, 116, 0, 98, 111, 111, 108, 0, 95, 66, 111, 111, 108, 0],
     [99, 104, 97, 114, 0, 116, 121, 112, 101, 0, 109, 97, 120, 95, 101, 110, 116, 114, 105, 101],
     [115, 0, 107, 101, 121, 0, 118, 97, 108, 117, 101, 0, 95, 95, 98, 112, 102, 95, 117, 115, 100],
     [116, 95, 115, 112, 101, 99, 115, 0, 108, 111, 110, 103, 0, 95, 95, 117, 51, 50, 0, 117, 110],
     [115, 105, 103, 110, 101, 100, 32, 105, 110, 116, 0, 95, 95, 98, 112, 102, 95, 117, 115, 100],
     [116, 95, 105, 112, 95, 116, 111, 95, 115, 112, 101, 99, 95, 105, 100, 0, 112, 116, 95, 114],
     [101, 103, 115, 0, 111, 114, 105, 103, 95, 120, 48, 0, 115, 121, 115, 99, 97, 108, 108, 110],
     [111, 0, 112, 109, 114, 0, 115, 100, 101, 105, 95, 116, 116, 98, 114, 49, 0, 115, 116, 97, 99],
     [107, 102, 114, 97, 109, 101, 0, 117, 115, 101, 114, 95, 114, 101, 103, 115, 0, 117, 115, 101],
     [114, 95, 112, 116, 95, 114, 101, 103, 115, 0, 114, 101, 103, 115, 0, 115, 112, 0, 112, 99, 0],
     [112, 115, 116, 97, 116, 101, 0, 117, 54, 52, 0, 115, 51, 50, 0, 95, 95, 115, 51, 50, 0],
     [117, 51, 50, 0, 102, 114, 97, 109, 101, 95, 114, 101, 99, 111, 114, 100, 95, 109, 101, 116],
     [97, 0, 114, 101, 99, 111, 114, 100, 0, 102, 114, 97, 109, 101, 95, 114, 101, 99, 111, 114],
     [100, 0, 102, 112, 0, 108, 114, 0, 99, 116, 120, 0, 98, 112, 102, 95, 117, 115, 100, 116, 95],
     [97, 114, 103, 95, 99, 110, 116, 0, 97, 114, 103, 95, 110, 117, 109, 0, 114, 101, 115, 0, 98],
     [112, 102, 95, 117, 115, 100, 116, 95, 97, 114, 103, 0, 98, 112, 102, 95, 117, 115, 100, 116],
     [95, 99, 111, 111, 107, 105, 101, 0, 117, 115, 100, 116, 95, 97, 117, 116, 111, 95, 97, 116],
     [116, 97, 99, 104, 0, 117, 115, 100, 116, 95, 109, 97, 110, 117, 97, 108, 95, 97, 116, 116],
     [97, 99, 104, 0, 112, 105, 100, 95, 116, 0, 95, 95, 107, 101, 114, 110, 101, 108, 95, 112],
     [105, 100, 95, 116, 0, 109, 121, 95, 112, 105, 100, 0, 76, 73, 67, 69, 78, 83, 69, 0, 76],
     [73, 78, 85, 88, 95, 72, 65, 83, 95, 66, 80, 70, 95, 67, 79, 79, 75, 73, 69, 0],
     [95, 95, 95, 95, 117, 115, 100, 116, 95, 97, 117, 116, 111, 95, 97, 116, 116, 97, 99],
     [104, 46, 95, 95, 95, 95, 102, 109, 116, 0, 95, 95, 95, 95, 117, 115, 100, 116, 95, 109],
     [97, 110, 117, 97, 108, 95, 97, 116, 116, 97, 99, 104, 46, 95, 95, 95, 95, 102, 109],
     [116, 0, 47, 104, 111, 109, 101, 47, 108, 111, 115, 116, 99, 97, 99, 104, 101, 47, 99, 111],
     [100, 101, 47, 104, 101, 108, 108, 111, 95, 101, 66, 80, 70, 47, 101, 120, 97, 109, 112],
     [108, 101, 115, 47, 99, 47, 46, 111, 117, 116, 112, 117, 116, 47, 98, 112, 102, 47, 117],
     [115, 100, 116, 46, 98, 112, 102, 46, 104, 0, 9, 105, 102, 32, 40, 33, 76, 73, 78, 85],
     [88, 95, 72, 65, 83, 95, 66, 80, 70, 95, 67, 79, 79, 75, 73, 69, 41, 32, 123, 0],
     [9, 9, 108, 111, 110, 103, 32, 105, 112, 32, 61, 32, 80, 84, 95, 82, 69, 71, 83],
     [95, 73, 80, 40, 99, 116, 120, 41, 59, 0, 9, 9, 115, 112, 101, 99, 95, 105, 100, 95],
     [112, 116, 114, 32, 61, 32, 98, 112, 102, 95, 109, 97, 112, 95, 108, 111, 111, 107, 117],
     [112, 95, 101, 108, 101, 109, 40, 38, 95, 95, 98, 112, 102, 95, 117, 115, 100, 116, 95],
     [105, 112, 95, 116, 111, 95, 115, 112, 101, 99, 95, 105, 100, 44, 32, 38, 105, 112, 41],
     [59, 0, 9, 9, 114, 101, 116, 117, 114, 110, 32, 115, 112, 101, 99, 95, 105, 100, 95, 112],
     [116, 114, 32, 63, 32, 42, 115, 112, 101, 99, 95, 105, 100, 95, 112, 116, 114, 32, 58],
     [32, 45, 69, 83, 82, 67, 72, 59, 0, 9, 114, 101, 116, 117, 114, 110, 32, 98, 112, 102],
     [95, 103, 101, 116, 95, 97, 116, 116, 97, 99, 104, 95, 99, 111, 111, 107, 105, 101, 40],
     [99, 116, 120, 41, 59, 0, 9, 115, 112, 101, 99, 95, 105, 100, 32, 61, 32, 95, 95, 98],
     [112, 102, 95, 117, 115, 100, 116, 95, 115, 112, 101, 99, 95, 105, 100, 40, 99, 116, 120],
     [41, 59, 0, 9, 105, 102, 32, 40, 115, 112, 101, 99, 95, 105, 100, 32, 60, 32, 48, 41],
     [0, 9, 115, 112, 101, 99, 32, 61, 32, 98, 112, 102, 95, 109, 97, 112, 95, 108, 111, 111],
     [107, 117, 112, 95, 101, 108, 101, 109, 40, 38, 95, 95, 98, 112, 102, 95, 117, 115, 100],
     [116, 95, 115, 112, 101, 99, 115, 44, 32, 38, 115, 112, 101, 99, 95, 105, 100, 41, 59, 0],
     [9, 105, 102, 32, 40, 33, 115, 112, 101, 99, 41, 0, 9, 114, 101, 116, 117, 114, 110, 32],
     [115, 112, 101, 99, 45, 62, 97, 114, 103, 95, 99, 110, 116, 59, 0, 125, 0, 105, 110, 116],
     [32, 98, 112, 102, 95, 117, 115, 100, 116, 95, 97, 114, 103, 40, 115, 116, 114, 117, 99],
     [116, 32, 112, 116, 95, 114, 101, 103, 115, 32, 42, 99, 116, 120, 44, 32, 95, 95, 117],
     [54, 52, 32, 97, 114, 103, 95, 110, 117, 109, 44, 32, 108, 111, 110, 103, 32, 42, 114],
     [101, 115, 41, 0, 9, 42, 114, 101, 115, 32, 61, 32, 48, 59, 0, 9, 105, 102, 32, 40],
     [97, 114, 103, 95, 110, 117, 109, 32, 62, 61, 32, 66, 80, 70, 95, 85, 83, 68, 84],
     [95, 77, 65, 88, 95, 65, 82, 71, 95, 67, 78, 84, 41, 0, 9, 105, 102, 32, 40, 97],
     [114, 103, 95, 110, 117, 109, 32, 62, 61, 32, 115, 112, 101, 99, 45, 62, 97, 114, 103],
     [95, 99, 110, 116, 41, 0, 9, 97, 114, 103, 95, 115, 112, 101, 99, 32, 61, 32, 38, 115],
     [112, 101, 99, 45, 62, 97, 114, 103, 115, 91, 97, 114, 103, 95, 110, 117, 109, 93, 59, 0],
     [9, 115, 119, 105, 116, 99, 104, 32, 40, 97, 114, 103, 95, 115, 112, 101, 99, 45, 62],
     [97, 114, 103, 95, 116, 121, 112, 101, 41, 32, 123, 0, 9, 9, 118, 97, 108, 32, 61, 32],
     [97, 114, 103, 95, 115, 112, 101, 99, 45, 62, 118, 97, 108, 95, 111, 102, 102, 59, 0, 9],
     [9, 101, 114, 114, 32, 61, 32, 98, 112, 102, 95, 112, 114, 111, 98, 101, 95, 114, 101],
     [97, 100, 95, 107, 101, 114, 110, 101, 108, 40, 38, 118, 97, 108, 44, 32, 115, 105, 122],
     [101, 111, 102, 40, 118, 97, 108, 41, 44, 32, 40, 118, 111, 105, 100, 32, 42, 41, 99],
     [116, 120, 32, 43, 32, 97, 114, 103, 95, 115, 112, 101, 99, 45, 62, 114, 101, 103, 95],
     [111, 102, 102, 41, 59, 0, 9, 9, 105, 102, 32, 40, 101, 114, 114, 41, 0, 9, 9, 101],
     [114, 114, 32, 61, 32, 98, 112, 102, 95, 112, 114, 111, 98, 101, 95, 114, 101, 97, 100],
     [95, 117, 115, 101, 114, 40, 38, 118, 97, 108, 44, 32, 115, 105, 122, 101, 111, 102, 40],
     [118, 97, 108, 41, 44, 32, 40, 118, 111, 105, 100, 32, 42, 41, 118, 97, 108, 32, 43],
     [32, 97, 114, 103, 95, 115, 112, 101, 99, 45, 62, 118, 97, 108, 95, 111, 102, 102, 41],
     [59, 0, 9, 118, 97, 108, 32, 60, 60, 61, 32, 97, 114, 103, 95, 115, 112, 101, 99, 45],
     [62, 97, 114, 103, 95, 98, 105, 116, 115, 104, 105, 102, 116, 59, 0, 9, 105, 102, 32, 40],
     [97, 114, 103, 95, 115, 112, 101, 99, 45, 62, 97, 114, 103, 95, 115, 105, 103, 110, 101],
     [100, 41, 0, 9, 42, 114, 101, 115, 32, 61, 32, 118, 97, 108, 59, 0, 9, 114, 101, 116],
     [117, 114, 110, 32, 115, 112, 101, 99, 45, 62, 117, 115, 100, 116, 95, 99, 111, 111, 107],
     [105, 101, 59, 0, 47, 104, 111, 109, 101, 47, 108, 111, 115, 116, 99, 97, 99, 104, 101, 47],
     [99, 111, 100, 101, 47, 104, 101, 108, 108, 111, 95, 101, 66, 80, 70, 47, 101, 120, 97],
     [109, 112, 108, 101, 115, 47, 99, 47, 117, 115, 100, 116, 46, 98, 112, 102, 46, 99, 0, 105],
     [110, 116, 32, 66, 80, 70, 95, 85, 83, 68, 84, 40, 117, 115, 100, 116, 95, 97, 117],
     [116, 111, 95, 97, 116, 116, 97, 99, 104, 44, 32, 118, 111, 105, 100, 32, 42, 97, 114],
     [103, 49, 44, 32, 105, 110, 116, 32, 97, 114, 103, 50, 44, 32, 118, 111, 105, 100, 32],
     [42, 97, 114, 103, 51, 41, 0, 9, 112, 105, 100, 95, 116, 32, 112, 105, 100, 32, 61, 32],
     [98, 112, 102, 95, 103, 101, 116, 95, 99, 117, 114, 114, 101, 110, 116, 95, 112, 105, 100]]"

definition usdt_elf_13_b :: "byte list" where
  "usdt_elf_13_b =
    concat
    [[95, 116, 103, 105, 100, 40, 41, 32, 62, 62, 32, 51, 50, 59, 0, 9, 105, 102, 32, 40],
     [112, 105, 100, 32, 33, 61, 32, 109, 121, 95, 112, 105, 100, 41, 0, 9, 98, 112, 102, 95],
     [112, 114, 105, 110, 116, 107, 40, 34, 85, 83, 68, 84, 32, 97, 117, 116, 111, 32, 97],
     [116, 116, 97, 99, 104, 32, 116, 111, 32, 108, 105, 98, 99, 58, 115, 101, 116, 106, 109],
     [112, 58, 32, 97, 114, 103, 49, 32, 61, 32, 37, 108, 120, 44, 32, 97, 114, 103, 50],
     [32, 61, 32, 37, 100, 44, 32, 97, 114, 103, 51, 32, 61, 32, 37, 108, 120, 34, 44],
     [32, 97, 114, 103, 49, 44, 32, 97, 114, 103, 50, 44, 0, 105, 110, 116, 32, 66, 80, 70],
     [95, 85, 83, 68, 84, 40, 117, 115, 100, 116, 95, 109, 97, 110, 117, 97, 108, 95, 97],
     [116, 116, 97, 99, 104, 44, 32, 118, 111, 105, 100, 32, 42, 97, 114, 103, 49, 44, 32],
     [105, 110, 116, 32, 97, 114, 103, 50, 44, 32, 118, 111, 105, 100, 32, 42, 97, 114, 103],
     [51, 41, 0, 9, 98, 112, 102, 95, 112, 114, 105, 110, 116, 107, 40, 34, 85, 83, 68, 84],
     [32, 109, 97, 110, 117, 97, 108, 32, 97, 116, 116, 97, 99, 104, 32, 116, 111, 32, 108],
     [105, 98, 99, 58, 115, 101, 116, 106, 109, 112, 58, 32, 97, 114, 103, 49, 32, 61, 32],
     [37, 108, 120, 44, 32, 97, 114, 103, 50, 32, 61, 32, 37, 100, 44, 32, 97, 114, 103],
     [51, 32, 61, 32, 37, 108, 120, 34, 44, 32, 97, 114, 103, 49, 44, 0, 48, 58, 50, 0],
     [46, 109, 97, 112, 115, 0, 46, 98, 115, 115, 0, 108, 105, 99, 101, 110, 115, 101, 0, 46, 114],
     [111, 100, 97, 116, 97, 0, 46, 107, 99, 111, 110, 102, 105, 103, 0, 46, 116, 101, 120, 116, 0],
     [117, 115, 100, 116, 47, 108, 105, 98, 99, 46, 115, 111, 46, 54, 58, 108, 105, 98, 99],
     [58, 115, 101, 116, 106, 109, 112, 0, 117, 115, 100, 116, 0, 0, 0, 0, 0, 0]]"

definition usdt_elf_13 :: "byte list" where
  "usdt_elf_13 = usdt_elf_13_a @ usdt_elf_13_b"

definition usdt_elf_14 :: "byte list" where
  "usdt_elf_14 =
    concat
    [[159, 235, 1, 0, 32, 0],
     [0, 0, 0, 0, 0, 0, 68, 0, 0, 0, 68, 0, 0, 0, 60, 6, 0, 0, 128, 6, 0, 0, 60, 0, 0, 0, 8, 0, 0, 0],
     [89, 8, 0, 0, 3, 0, 0, 0, 0, 0, 0, 0, 46, 0, 0, 0, 32, 1, 0, 0, 48, 0, 0, 0, 24, 5, 0, 0, 50],
     [0, 0, 0, 95, 8, 0, 0, 1, 0, 0, 0, 0, 0, 0, 0, 51, 0, 0, 0, 122, 8, 0, 0, 1, 0, 0, 0, 0, 0, 0, 0],
     [52, 0, 0, 0, 16, 0, 0, 0, 89, 8, 0, 0, 76, 0, 0, 0, 0, 0, 0, 0, 212, 2, 0, 0, 22, 3, 0, 0, 7],
     [72, 1, 0, 24, 0, 0, 0, 212, 2, 0, 0, 22, 3, 0, 0, 6, 72, 1, 0, 32, 0, 0, 0, 212, 2, 0],
     [0, 52, 3, 0, 0, 13, 76, 1, 0, 40, 0, 0, 0, 212, 2, 0, 0, 52, 3, 0, 0, 8, 76, 1, 0],
     [56, 0, 0, 0, 212, 2, 0, 0, 52, 3, 0, 0, 13, 76, 1, 0, 64, 0, 0, 0, 212, 2, 0, 0, 81, 3],
     [0, 0, 17, 88, 1, 0, 112, 0, 0, 0, 212, 2, 0, 0, 150, 3, 0, 0, 10, 92, 1, 0, 120, 0, 0, 0],
     [212, 2, 0, 0, 150, 3, 0, 0, 24, 92, 1, 0, 136, 0, 0, 0, 212, 2, 0, 0, 196, 3, 0, 0, 9],
     [104, 1, 0, 160, 0, 0, 0, 212, 2, 0, 0, 232, 3, 0, 0, 10, 144, 1, 0, 192, 0, 0, 0, 212, 2, 0],
     [0, 12, 4, 0, 0, 6, 148, 1, 0, 208, 0, 0, 0, 212, 2, 0, 0, 30, 4, 0, 0, 9, 160, 1, 0],
     [240, 0, 0, 0, 212, 2, 0, 0, 88, 4, 0, 0, 6, 164, 1, 0, 248, 0, 0, 0, 212, 2, 0, 0, 100, 4],
     [0, 0, 15, 176, 1, 0, 16, 1, 0, 0, 212, 2, 0, 0, 123, 4, 0, 0, 1, 180, 1, 0, 32, 1, 0],
     [0, 212, 2, 0, 0, 125, 4, 0, 0, 0, 80, 2, 0, 64, 1, 0, 0, 212, 2, 0, 0, 189, 4, 0, 0, 7],
     [108, 2, 0, 72, 1, 0, 0, 212, 2, 0, 0, 22, 3, 0, 0, 7, 72, 1, 0, 96, 1, 0, 0, 212],
     [2, 0, 0, 22, 3, 0, 0, 6, 72, 1, 0, 104, 1, 0, 0, 212, 2, 0, 0, 52, 3, 0, 0, 13, 76],
     [1, 0, 112, 1, 0, 0, 212, 2, 0, 0, 52, 3, 0, 0, 8, 76, 1, 0, 128, 1, 0, 0, 212, 2, 0],
     [0, 52, 3, 0, 0, 13, 76, 1, 0, 136, 1, 0, 0, 212, 2, 0, 0, 81, 3, 0, 0, 17, 88, 1, 0],
     [184, 1, 0, 0, 212, 2, 0, 0, 150, 3, 0, 0, 10, 92, 1, 0, 192, 1, 0, 0, 212, 2, 0, 0, 150],
     [3, 0, 0, 24, 92, 1, 0, 208, 1, 0, 0, 212, 2, 0, 0, 196, 3, 0, 0, 9, 104, 1, 0, 240],
     [1, 0, 0, 212, 2, 0, 0, 232, 3, 0, 0, 10, 116, 2, 0, 16, 2, 0, 0, 212, 2, 0, 0, 12, 4],
     [0, 0, 6, 120, 2, 0, 32, 2, 0, 0, 212, 2, 0, 0, 30, 4, 0, 0, 9, 132, 2, 0, 64, 2, 0],
     [0, 212, 2, 0, 0, 88, 4, 0, 0, 6, 136, 2, 0, 88, 2, 0, 0, 212, 2, 0, 0, 200, 4, 0, 0],
     [6, 148, 2, 0, 96, 2, 0, 0, 212, 2, 0, 0, 238, 4, 0, 0, 23, 160, 2, 0, 120, 2, 0, 0],
     [212, 2, 0, 0, 238, 4, 0, 0, 6, 160, 2, 0, 128, 2, 0, 0, 212, 2, 0, 0, 13, 5, 0, 0, 14],
     [172, 2, 0, 160, 2, 0, 0, 212, 2, 0, 0, 47, 5, 0, 0, 20, 176, 2, 0, 168, 2, 0, 0, 212],
     [2, 0, 0, 47, 5, 0, 0, 2, 176, 2, 0, 208, 2, 0, 0, 212, 2, 0, 0, 78, 5, 0, 0, 19, 196],
     [2, 0, 216, 2, 0, 0, 212, 2, 0, 0, 78, 5, 0, 0, 7, 196, 2, 0, 232, 2, 0, 0, 212, 2, 0],
     [0, 105, 5, 0, 0, 74, 228, 2, 0, 32, 3, 0, 0, 212, 2, 0, 0, 105, 5, 0, 0, 62, 228, 2, 0],
     [48, 3, 0, 0, 212, 2, 0, 0, 105, 5, 0, 0, 74, 228, 2, 0, 56, 3, 0, 0, 212, 2, 0, 0, 105],
     [5, 0, 0, 9, 228, 2, 0, 128, 3, 0, 0, 212, 2, 0, 0, 188, 5, 0, 0, 7, 232, 2, 0, 144],
     [3, 0, 0, 212, 2, 0, 0, 105, 5, 0, 0, 74, 20, 3, 0, 168, 3, 0, 0, 212, 2, 0, 0, 105, 5],
     [0, 0, 62, 20, 3, 0, 184, 3, 0, 0, 212, 2, 0, 0, 105, 5, 0, 0, 74, 20, 3, 0, 200, 3, 0],
     [0, 212, 2, 0, 0, 105, 5, 0, 0, 9, 20, 3, 0, 16, 4, 0, 0, 212, 2, 0, 0, 188, 5, 0, 0],
     [7, 24, 3, 0, 24, 4, 0, 0, 212, 2, 0, 0, 199, 5, 0, 0, 72, 32, 3, 0, 32, 4, 0, 0],
     [212, 2, 0, 0, 199, 5, 0, 0, 56, 32, 3, 0, 40, 4, 0, 0, 212, 2, 0, 0, 199, 5, 0, 0, 60],
     [32, 3, 0, 56, 4, 0, 0, 212, 2, 0, 0, 199, 5, 0, 0, 72, 32, 3, 0, 64, 4, 0, 0, 212],
     [2, 0, 0, 199, 5, 0, 0, 9, 32, 3, 0, 120, 4, 0, 0, 212, 2, 0, 0, 188, 5, 0, 0, 7, 36],
     [3, 0, 128, 4, 0, 0, 212, 2, 0, 0, 24, 6, 0, 0, 20, 92, 3, 0, 168, 4, 0, 0, 212, 2, 0],
     [0, 24, 6, 0, 0, 6, 92, 3, 0, 200, 4, 0, 0, 212, 2, 0, 0, 57, 6, 0, 0, 6, 96, 3, 0],
     [216, 4, 0, 0, 212, 2, 0, 0, 57, 6, 0, 0, 16, 96, 3, 0, 224, 4, 0, 0, 212, 2, 0, 0, 57],
     [6, 0, 0, 6, 96, 3, 0, 248, 4, 0, 0, 212, 2, 0, 0, 84, 6, 0, 0, 7, 112, 3, 0, 8],
     [5, 0, 0, 212, 2, 0, 0, 123, 4, 0, 0, 1, 120, 3, 0, 24, 5, 0, 0, 212, 2, 0, 0, 22, 3],
     [0, 0, 7, 72, 1, 0, 48, 5, 0, 0, 212, 2, 0, 0, 22, 3, 0, 0, 6, 72, 1, 0, 56, 5, 0],
     [0, 212, 2, 0, 0, 52, 3, 0, 0, 13, 76, 1, 0, 64, 5, 0, 0, 212, 2, 0, 0, 52, 3, 0, 0],
     [8, 76, 1, 0, 80, 5, 0, 0, 212, 2, 0, 0, 52, 3, 0, 0, 13, 76, 1, 0, 88, 5, 0, 0],
     [212, 2, 0, 0, 81, 3, 0, 0, 17, 88, 1, 0, 136, 5, 0, 0, 212, 2, 0, 0, 150, 3, 0, 0, 10],
     [92, 1, 0, 144, 5, 0, 0, 212, 2, 0, 0, 150, 3, 0, 0, 24, 92, 1, 0, 160, 5, 0, 0, 212],
     [2, 0, 0, 196, 3, 0, 0, 9, 104, 1, 0, 168, 5, 0, 0, 212, 2, 0, 0, 232, 3, 0, 0, 10, 176],
     [3, 0, 200, 5, 0, 0, 212, 2, 0, 0, 12, 4, 0, 0, 6, 180, 3, 0, 216, 5, 0, 0, 212, 2, 0],
     [0, 30, 4, 0, 0, 9, 192, 3, 0, 248, 5, 0, 0, 212, 2, 0, 0, 88, 4, 0, 0, 6, 196, 3, 0],
     [0, 6, 0, 0, 212, 2, 0, 0, 97, 6, 0, 0, 15, 208, 3, 0, 8, 6, 0, 0, 212, 2, 0, 0, 123],
     [4, 0, 0, 1, 212, 3, 0, 95, 8, 0, 0, 13, 0, 0, 0, 0, 0, 0, 0, 124, 6, 0, 0, 178, 6, 0, 0, 0],
     [44, 0, 0, 16, 0, 0, 0, 124, 6, 0, 0, 0, 0, 0, 0, 0, 0, 0, 0, 24, 0, 0, 0, 124, 6, 0, 0, 178, 6, 0],
     [0, 5, 44, 0, 0, 56, 0, 0, 0, 124, 6, 0, 0, 0, 0, 0, 0, 0, 0, 0, 0, 64, 0, 0, 0, 124, 6, 0, 0, 178],
     [6, 0, 0, 5, 44, 0, 0, 104, 0, 0, 0, 124, 6, 0, 0, 0, 0, 0, 0, 0, 0, 0, 0, 112, 0, 0, 0, 124, 6, 0],
     [0, 178, 6, 0, 0, 5, 44, 0, 0, 144, 0, 0, 0, 124, 6, 0, 0, 243, 6, 0, 0, 14, 52, 0, 0, 152, 0],
     [0, 0, 124, 6, 0, 0, 243, 6, 0, 0, 41, 52, 0, 0, 160, 0, 0, 0, 124, 6, 0, 0, 34, 7, 0, 0, 13],
     [60, 0, 0, 184, 0, 0, 0, 124, 6, 0, 0, 34, 7, 0, 0, 6, 60, 0, 0, 192, 0, 0, 0, 124, 6, 0, 0],
     [54, 7, 0, 0, 2, 72, 0, 0, 248, 0, 0, 0, 124, 6, 0, 0, 178, 6, 0, 0, 5, 44, 0, 0, 122, 8],
     [0, 0, 9, 0, 0, 0, 0, 0, 0, 0, 124, 6, 0, 0, 148, 7, 0, 0, 0, 96, 0, 0, 16, 0, 0, 0, 124, 6, 0, 0],
     [0, 0, 0, 0, 0, 0, 0, 0, 24, 0, 0, 0, 124, 6, 0, 0, 148, 7, 0, 0, 5, 96, 0, 0, 56, 0, 0, 0, 124],
     [6, 0, 0, 0, 0, 0, 0, 0, 0, 0, 0, 64, 0, 0, 0, 124, 6, 0, 0, 148, 7, 0, 0, 5, 96, 0, 0, 104, 0, 0],
     [0, 124, 6, 0, 0, 0, 0, 0, 0, 0, 0, 0, 0, 112, 0, 0, 0, 124, 6, 0, 0, 148, 7, 0, 0, 5, 96, 0, 0],
     [144, 0, 0, 0, 124, 6, 0, 0, 215, 7, 0, 0, 2, 104, 0, 0, 192, 0, 0, 0, 124, 6, 0, 0, 148, 7, 0],
     [0, 5, 96, 0, 0, 16, 0, 0, 0, 89, 8, 0, 0, 3, 0, 0, 0, 32, 0, 0, 0, 35, 0, 0, 0, 49, 8, 0, 0],
     [0, 0, 0, 0, 104, 1, 0, 0, 35, 0, 0, 0, 49, 8, 0, 0, 0, 0, 0, 0, 56, 5, 0, 0, 35, 0, 0, 0, 49],
     [8, 0, 0, 0, 0, 0, 0, 0, 0, 0, 0]]"

definition usdt_elf_shdrs :: "byte list list" where
  "usdt_elf_shdrs =
    [[0, 0, 0, 0, 0, 0, 0, 0, 0, 0, 0, 0, 0, 0, 0, 0, 0, 0, 0, 0, 0, 0, 0, 0, 0, 0, 0, 0, 0, 0, 0, 0,
      0, 0, 0, 0, 0, 0, 0, 0, 0, 0, 0, 0, 0, 0, 0, 0, 0, 0, 0, 0, 0, 0, 0, 0, 0, 0, 0, 0, 0, 0, 0, 0],
     [1, 0, 0, 0, 3, 0, 0, 0, 32, 0, 0, 0, 0, 0, 0, 0, 0, 0, 0, 0, 0, 0, 0, 0, 64, 0, 0, 0, 0, 0, 0, 0,
      224, 1, 0, 0, 0, 0, 0, 0, 0, 0, 0, 0, 0, 0, 0, 0, 1, 0, 0, 0, 0, 0, 0, 0, 0, 0, 0, 0, 0, 0, 0, 0],
     [9, 0, 0, 0, 2, 0, 0, 0, 0, 0, 0, 0, 0, 0, 0, 0, 0, 0, 0, 0, 0, 0, 0, 0, 32, 2, 0, 0, 0, 0, 0, 0,
      0, 3, 0, 0, 0, 0, 0, 0, 1, 0, 0, 0, 0, 0, 0, 0, 8, 0, 0, 0, 0, 0, 0, 0, 24, 0, 0, 0, 0, 0, 0, 0],
     [17, 0, 0, 0, 1, 0, 0, 0, 6, 0, 0, 0, 0, 0, 0, 0, 0, 0, 0, 0, 0, 0, 0, 0, 32, 5, 0, 0, 0, 0, 0, 0,
      24, 6, 0, 0, 0, 0, 0, 0, 0, 0, 0, 0, 0, 0, 0, 0, 8, 0, 0, 0, 0, 0, 0, 0, 0, 0, 0, 0, 0, 0, 0, 0],
     [23, 0, 0, 0, 1, 0, 0, 0, 6, 0, 0, 0, 0, 0, 0, 0, 0, 0, 0, 0, 0, 0, 0, 0, 56, 11, 0, 0, 0, 0, 0, 0,
      8, 1, 0, 0, 0, 0, 0, 0, 0, 0, 0, 0, 0, 0, 0, 0, 8, 0, 0, 0, 0, 0, 0, 0, 0, 0, 0, 0, 0, 0, 0, 0],
     [50, 0, 0, 0, 1, 0, 0, 0, 6, 0, 0, 0, 0, 0, 0, 0, 0, 0, 0, 0, 0, 0, 0, 0, 64, 12, 0, 0, 0, 0, 0, 0,
      208, 0, 0, 0, 0, 0, 0, 0, 0, 0, 0, 0, 0, 0, 0, 0, 8, 0, 0, 0, 0, 0, 0, 0, 0, 0, 0, 0, 0, 0, 0, 0],
     [55, 0, 0, 0, 1, 0, 0, 0, 3, 0, 0, 0, 0, 0, 0, 0, 0, 0, 0, 0, 0, 0, 0, 0, 16, 13, 0, 0, 0, 0, 0, 0,
      64, 0, 0, 0, 0, 0, 0, 0, 0, 0, 0, 0, 0, 0, 0, 0, 8, 0, 0, 0, 0, 0, 0, 0, 0, 0, 0, 0, 0, 0, 0, 0],
     [61, 0, 0, 0, 8, 0, 0, 0, 3, 0, 0, 0, 0, 0, 0, 0, 0, 0, 0, 0, 0, 0, 0, 0, 80, 13, 0, 0, 0, 0, 0, 0,
      4, 0, 0, 0, 0, 0, 0, 0, 0, 0, 0, 0, 0, 0, 0, 0, 4, 0, 0, 0, 0, 0, 0, 0, 0, 0, 0, 0, 0, 0, 0, 0],
     [66, 0, 0, 0, 1, 0, 0, 0, 3, 0, 0, 0, 0, 0, 0, 0, 0, 0, 0, 0, 0, 0, 0, 0, 80, 13, 0, 0, 0, 0, 0, 0,
      13, 0, 0, 0, 0, 0, 0, 0, 0, 0, 0, 0, 0, 0, 0, 0, 1, 0, 0, 0, 0, 0, 0, 0, 0, 0, 0, 0, 0, 0, 0, 0],
     [74, 0, 0, 0, 1, 0, 0, 0, 2, 0, 0, 0, 0, 0, 0, 0, 0, 0, 0, 0, 0, 0, 0, 0, 93, 13, 0, 0, 0, 0, 0, 0,
      136, 0, 0, 0, 0, 0, 0, 0, 0, 0, 0, 0, 0, 0, 0, 0, 1, 0, 0, 0, 0, 0, 0, 0, 0, 0, 0, 0, 0, 0, 0, 0],
     [160, 1, 0, 0, 9, 0, 0, 0, 64, 0, 0, 0, 0, 0, 0, 0, 0, 0, 0, 0, 0, 0, 0, 0, 232, 13, 0, 0, 0, 0, 0, 0,
      144, 0, 0, 0, 0, 0, 0, 0, 2, 0, 0, 0, 3, 0, 0, 0, 8, 0, 0, 0, 0, 0, 0, 0, 16, 0, 0, 0, 0, 0, 0, 0],
     [170, 1, 0, 0, 9, 0, 0, 0, 64, 0, 0, 0, 0, 0, 0, 0, 0, 0, 0, 0, 0, 0, 0, 0, 120, 14, 0, 0, 0, 0, 0, 0,
      80, 0, 0, 0, 0, 0, 0, 0, 2, 0, 0, 0, 4, 0, 0, 0, 8, 0, 0, 0, 0, 0, 0, 0, 16, 0, 0, 0, 0, 0, 0, 0],
     [201, 1, 0, 0, 9, 0, 0, 0, 64, 0, 0, 0, 0, 0, 0, 0, 0, 0, 0, 0, 0, 0, 0, 0, 200, 14, 0, 0, 0, 0, 0, 0,
      64, 0, 0, 0, 0, 0, 0, 0, 2, 0, 0, 0, 5, 0, 0, 0, 8, 0, 0, 0, 0, 0, 0, 0, 16, 0, 0, 0, 0, 0, 0, 0],
     [210, 1, 0, 0, 1, 0, 0, 0, 0, 0, 0, 0, 0, 0, 0, 0, 0, 0, 0, 0, 0, 0, 0, 0, 8, 15, 0, 0, 0, 0, 0, 0,
      203, 14, 0, 0, 0, 0, 0, 0, 0, 0, 0, 0, 0, 0, 0, 0, 8, 0, 0, 0, 0, 0, 0, 0, 0, 0, 0, 0, 0, 0, 0, 0],
     [215, 1, 0, 0, 1, 0, 0, 0, 0, 0, 0, 0, 0, 0, 0, 0, 0, 0, 0, 0, 0, 0, 0, 0, 216, 29, 0, 0, 0, 0, 0, 0,
      220, 6, 0, 0, 0, 0, 0, 0, 0, 0, 0, 0, 0, 0, 0, 0, 8, 0, 0, 0, 0, 0, 0, 0, 0, 0, 0, 0, 0, 0, 0, 0]]"

definition usdt_elf_body :: "byte list list" where
  "usdt_elf_body = [usdt_elf_1, usdt_elf_2, usdt_elf_3, usdt_elf_4, usdt_elf_5, usdt_elf_6, usdt_elf_8, usdt_elf_9, usdt_elf_10, usdt_elf_11, usdt_elf_12, usdt_elf_13, usdt_elf_14]"

definition usdt_bpf__elf_bytes :: "byte list" where
  "usdt_bpf__elf_bytes = concat (usdt_elf_hdr # usdt_elf_body) @ concat usdt_elf_shdrs"

section \<open>The parts of the object\<close>

text \<open>The sizes of the pieces. The definitions stay folded: a piece is only opened where it is read.\<close>

lemma usdt_elf_lengths [simp]:
  "length usdt_elf_hdr = 64"
  "length usdt_elf_1 = 480"
  "length usdt_elf_2 = 768"
  "length usdt_elf_3 = 1560"
  "length usdt_elf_4 = 264"
  "length usdt_elf_5 = 208"
  "length usdt_elf_6 = 64"
  "length usdt_elf_8 = 13"
  "length usdt_elf_9 = 139"
  "length usdt_elf_10 = 144"
  "length usdt_elf_11 = 80"
  "length usdt_elf_12 = 64"
  "length usdt_elf_13_a = 3423"
  "length usdt_elf_13_b = 369"
  "length usdt_elf_14 = 1760"
  by (simp_all only: piece_length usdt_elf_hdr_def usdt_elf_1_def usdt_elf_2_def usdt_elf_3_def usdt_elf_4_def
    usdt_elf_5_def usdt_elf_6_def usdt_elf_8_def usdt_elf_9_def usdt_elf_10_def usdt_elf_11_def
    usdt_elf_12_def usdt_elf_13_a_def usdt_elf_13_b_def usdt_elf_14_def)

lemma usdt_elf_13_length [simp]: "length usdt_elf_13 = 3792"
  by (simp add: usdt_elf_13_def)

lemma usdt_elf_pieces: "object_pieces usdt_bpf__elf_bytes (usdt_elf_hdr # usdt_elf_body) usdt_elf_shdrs"
proof -
  have "le_at usdt_elf_hdr 40 8 = 9400" "le_at usdt_elf_hdr 60 2 = 15" "le_at usdt_elf_hdr 62 2 = 1"
    by (simp_all add: usdt_elf_hdr_def elf_eval)
  moreover have "list_all (\<lambda>h. length h = 64) usdt_elf_shdrs" "length usdt_elf_shdrs = 15"
    by (simp_all add: usdt_elf_shdrs_def)
  ultimately show ?thesis
    by (simp add: object_pieces_def usdt_bpf__elf_bytes_def usdt_elf_body_def)
qed

lemma usdt_elf_headers:
  "elf_section_at usdt_bpf__elf_bytes 0 = \<lparr>sec_name = 0, sec_type = 0, sec_offset = 0, sec_size = 0, sec_link = 0, sec_info = 0\<rparr>"
  "elf_section_at usdt_bpf__elf_bytes 1 = \<lparr>sec_name = 1, sec_type = 3, sec_offset = 64, sec_size = 480, sec_link = 0, sec_info = 0\<rparr>"
  "elf_section_at usdt_bpf__elf_bytes 2 = \<lparr>sec_name = 9, sec_type = 2, sec_offset = 544, sec_size = 768, sec_link = 1, sec_info = 0\<rparr>"
  "elf_section_at usdt_bpf__elf_bytes 3 = \<lparr>sec_name = 17, sec_type = 1, sec_offset = 1312, sec_size = 1560, sec_link = 0, sec_info = 0\<rparr>"
  "elf_section_at usdt_bpf__elf_bytes 4 = \<lparr>sec_name = 23, sec_type = 1, sec_offset = 2872, sec_size = 264, sec_link = 0, sec_info = 0\<rparr>"
  "elf_section_at usdt_bpf__elf_bytes 5 = \<lparr>sec_name = 50, sec_type = 1, sec_offset = 3136, sec_size = 208, sec_link = 0, sec_info = 0\<rparr>"
  "elf_section_at usdt_bpf__elf_bytes 6 = \<lparr>sec_name = 55, sec_type = 1, sec_offset = 3344, sec_size = 64, sec_link = 0, sec_info = 0\<rparr>"
  "elf_section_at usdt_bpf__elf_bytes 7 = \<lparr>sec_name = 61, sec_type = 8, sec_offset = 3408, sec_size = 4, sec_link = 0, sec_info = 0\<rparr>"
  "elf_section_at usdt_bpf__elf_bytes 8 = \<lparr>sec_name = 66, sec_type = 1, sec_offset = 3408, sec_size = 13, sec_link = 0, sec_info = 0\<rparr>"
  "elf_section_at usdt_bpf__elf_bytes 9 = \<lparr>sec_name = 74, sec_type = 1, sec_offset = 3421, sec_size = 136, sec_link = 0, sec_info = 0\<rparr>"
  "elf_section_at usdt_bpf__elf_bytes 10 = \<lparr>sec_name = 416, sec_type = 9, sec_offset = 3560, sec_size = 144, sec_link = 2, sec_info = 3\<rparr>"
  "elf_section_at usdt_bpf__elf_bytes 11 = \<lparr>sec_name = 426, sec_type = 9, sec_offset = 3704, sec_size = 80, sec_link = 2, sec_info = 4\<rparr>"
  "elf_section_at usdt_bpf__elf_bytes 12 = \<lparr>sec_name = 457, sec_type = 9, sec_offset = 3784, sec_size = 64, sec_link = 2, sec_info = 5\<rparr>"
  "elf_section_at usdt_bpf__elf_bytes 13 = \<lparr>sec_name = 466, sec_type = 1, sec_offset = 3848, sec_size = 3787, sec_link = 0, sec_info = 0\<rparr>"
  "elf_section_at usdt_bpf__elf_bytes 14 = \<lparr>sec_name = 471, sec_type = 1, sec_offset = 7640, sec_size = 1756, sec_link = 0, sec_info = 0\<rparr>"
  by (simp_all add: object_section [OF usdt_elf_pieces] usdt_elf_shdrs_def elf_section_header_def elf_eval)

lemma usdt_elf_flags:
  "section_flags usdt_bpf__elf_bytes 0 = 0"
  "section_flags usdt_bpf__elf_bytes 1 = 32"
  "section_flags usdt_bpf__elf_bytes 2 = 0"
  "section_flags usdt_bpf__elf_bytes 3 = 6"
  "section_flags usdt_bpf__elf_bytes 4 = 6"
  "section_flags usdt_bpf__elf_bytes 5 = 6"
  "section_flags usdt_bpf__elf_bytes 6 = 3"
  "section_flags usdt_bpf__elf_bytes 7 = 3"
  "section_flags usdt_bpf__elf_bytes 8 = 3"
  "section_flags usdt_bpf__elf_bytes 9 = 2"
  "section_flags usdt_bpf__elf_bytes 10 = 64"
  "section_flags usdt_bpf__elf_bytes 11 = 64"
  "section_flags usdt_bpf__elf_bytes 12 = 64"
  "section_flags usdt_bpf__elf_bytes 13 = 0"
  "section_flags usdt_bpf__elf_bytes 14 = 0"
  by (simp_all add: object_section [OF usdt_elf_pieces] usdt_elf_shdrs_def elf_eval)

lemma usdt_elf_contents:
  "section_bytes usdt_bpf__elf_bytes 0 = []"
  "section_bytes usdt_bpf__elf_bytes 1 = usdt_elf_1"
  "section_bytes usdt_bpf__elf_bytes 2 = usdt_elf_2"
  "section_bytes usdt_bpf__elf_bytes 3 = usdt_elf_3"
  "section_bytes usdt_bpf__elf_bytes 4 = usdt_elf_4"
  "section_bytes usdt_bpf__elf_bytes 5 = usdt_elf_5"
  "section_bytes usdt_bpf__elf_bytes 6 = usdt_elf_6"
  "section_bytes usdt_bpf__elf_bytes 7 = replicate 4 0"
  "section_bytes usdt_bpf__elf_bytes 8 = usdt_elf_8"
  "section_bytes usdt_bpf__elf_bytes 9 = take 136 usdt_elf_9"
  "section_bytes usdt_bpf__elf_bytes 10 = usdt_elf_10"
  "section_bytes usdt_bpf__elf_bytes 11 = usdt_elf_11"
  "section_bytes usdt_bpf__elf_bytes 12 = usdt_elf_12"
  "section_bytes usdt_bpf__elf_bytes 13 = take 3787 usdt_elf_13"
  "section_bytes usdt_bpf__elf_bytes 14 = take 1756 usdt_elf_14"
proof -
  show "section_bytes usdt_bpf__elf_bytes 0 = []"
    by (simp add: section_bytes_def usdt_elf_headers elf_section.defs)
  show "section_bytes usdt_bpf__elf_bytes 1 = usdt_elf_1"
    using object_section_bytes [OF usdt_elf_pieces usdt_elf_headers(2), of 1] by (simp add: usdt_elf_body_def)
  show "section_bytes usdt_bpf__elf_bytes 2 = usdt_elf_2"
    using object_section_bytes [OF usdt_elf_pieces usdt_elf_headers(3), of 2] by (simp add: usdt_elf_body_def)
  show "section_bytes usdt_bpf__elf_bytes 3 = usdt_elf_3"
    using object_section_bytes [OF usdt_elf_pieces usdt_elf_headers(4), of 3] by (simp add: usdt_elf_body_def)
  show "section_bytes usdt_bpf__elf_bytes 4 = usdt_elf_4"
    using object_section_bytes [OF usdt_elf_pieces usdt_elf_headers(5), of 4] by (simp add: usdt_elf_body_def)
  show "section_bytes usdt_bpf__elf_bytes 5 = usdt_elf_5"
    using object_section_bytes [OF usdt_elf_pieces usdt_elf_headers(6), of 5] by (simp add: usdt_elf_body_def)
  show "section_bytes usdt_bpf__elf_bytes 6 = usdt_elf_6"
    using object_section_bytes [OF usdt_elf_pieces usdt_elf_headers(7), of 6] by (simp add: usdt_elf_body_def)
  show "section_bytes usdt_bpf__elf_bytes 7 = replicate 4 0"
    by (simp add: section_bytes_def usdt_elf_headers)
  show "section_bytes usdt_bpf__elf_bytes 8 = usdt_elf_8"
    using object_section_bytes [OF usdt_elf_pieces usdt_elf_headers(9), of 7] by (simp add: usdt_elf_body_def)
  show "section_bytes usdt_bpf__elf_bytes 9 = take 136 usdt_elf_9"
    using object_section_bytes [OF usdt_elf_pieces usdt_elf_headers(10), of 8] by (simp add: usdt_elf_body_def)
  show "section_bytes usdt_bpf__elf_bytes 10 = usdt_elf_10"
    using object_section_bytes [OF usdt_elf_pieces usdt_elf_headers(11), of 9] by (simp add: usdt_elf_body_def)
  show "section_bytes usdt_bpf__elf_bytes 11 = usdt_elf_11"
    using object_section_bytes [OF usdt_elf_pieces usdt_elf_headers(12), of 10] by (simp add: usdt_elf_body_def)
  show "section_bytes usdt_bpf__elf_bytes 12 = usdt_elf_12"
    using object_section_bytes [OF usdt_elf_pieces usdt_elf_headers(13), of 11] by (simp add: usdt_elf_body_def)
  show "section_bytes usdt_bpf__elf_bytes 13 = take 3787 usdt_elf_13"
    using object_section_bytes [OF usdt_elf_pieces usdt_elf_headers(14), of 12] by (simp add: usdt_elf_body_def)
  show "section_bytes usdt_bpf__elf_bytes 14 = take 1756 usdt_elf_14"
    using object_section_bytes [OF usdt_elf_pieces usdt_elf_headers(15), of 13] by (simp add: usdt_elf_body_def)
qed

lemma usdt_elf_names:
  "section_name usdt_bpf__elf_bytes 0 = ''''"
  "section_name usdt_bpf__elf_bytes 1 = ''.strtab''"
  "section_name usdt_bpf__elf_bytes 2 = ''.symtab''"
  "section_name usdt_bpf__elf_bytes 3 = ''.text''"
  "section_name usdt_bpf__elf_bytes 4 = ''usdt/libc.so.6:libc:setjmp''"
  "section_name usdt_bpf__elf_bytes 5 = ''usdt''"
  "section_name usdt_bpf__elf_bytes 6 = ''.maps''"
  "section_name usdt_bpf__elf_bytes 7 = ''.bss''"
  "section_name usdt_bpf__elf_bytes 8 = ''license''"
  "section_name usdt_bpf__elf_bytes 9 = ''.rodata''"
  "section_name usdt_bpf__elf_bytes 10 = ''.rel.text''"
  "section_name usdt_bpf__elf_bytes 11 = ''.relusdt/libc.so.6:libc:setjmp''"
  "section_name usdt_bpf__elf_bytes 12 = ''.relusdt''"
  "section_name usdt_bpf__elf_bytes 13 = ''.BTF''"
  "section_name usdt_bpf__elf_bytes 14 = ''.BTF.ext''"
  by (simp_all only: object_section_name [OF usdt_elf_pieces usdt_elf_contents(2)] usdt_elf_headers elf_section.simps)
    (simp_all add: elf_eval usdt_elf_1_def)

lemma usdt_elf_sections:
  "elf_sections usdt_bpf__elf_bytes =
    [\<lparr>es_name = '''', es_type = 0, es_flags = 0, es_link = 0, es_info = 0, es_size = 0,
      es_bytes = []\<rparr>,
     \<lparr>es_name = ''.strtab'', es_type = 3, es_flags = 32, es_link = 0, es_info = 0, es_size = 480,
      es_bytes = usdt_elf_1\<rparr>,
     \<lparr>es_name = ''.symtab'', es_type = 2, es_flags = 0, es_link = 1, es_info = 0, es_size = 768,
      es_bytes = usdt_elf_2\<rparr>,
     \<lparr>es_name = ''.text'', es_type = 1, es_flags = 6, es_link = 0, es_info = 0, es_size = 1560,
      es_bytes = usdt_elf_3\<rparr>,
     \<lparr>es_name = ''usdt/libc.so.6:libc:setjmp'', es_type = 1, es_flags = 6, es_link = 0, es_info = 0, es_size = 264,
      es_bytes = usdt_elf_4\<rparr>,
     \<lparr>es_name = ''usdt'', es_type = 1, es_flags = 6, es_link = 0, es_info = 0, es_size = 208,
      es_bytes = usdt_elf_5\<rparr>,
     \<lparr>es_name = ''.maps'', es_type = 1, es_flags = 3, es_link = 0, es_info = 0, es_size = 64,
      es_bytes = usdt_elf_6\<rparr>,
     \<lparr>es_name = ''.bss'', es_type = 8, es_flags = 3, es_link = 0, es_info = 0, es_size = 4,
      es_bytes = replicate 4 0\<rparr>,
     \<lparr>es_name = ''license'', es_type = 1, es_flags = 3, es_link = 0, es_info = 0, es_size = 13,
      es_bytes = usdt_elf_8\<rparr>,
     \<lparr>es_name = ''.rodata'', es_type = 1, es_flags = 2, es_link = 0, es_info = 0, es_size = 136,
      es_bytes = take 136 usdt_elf_9\<rparr>,
     \<lparr>es_name = ''.rel.text'', es_type = 9, es_flags = 64, es_link = 2, es_info = 3, es_size = 144,
      es_bytes = usdt_elf_10\<rparr>,
     \<lparr>es_name = ''.relusdt/libc.so.6:libc:setjmp'', es_type = 9, es_flags = 64, es_link = 2, es_info = 4, es_size = 80,
      es_bytes = usdt_elf_11\<rparr>,
     \<lparr>es_name = ''.relusdt'', es_type = 9, es_flags = 64, es_link = 2, es_info = 5, es_size = 64,
      es_bytes = usdt_elf_12\<rparr>,
     \<lparr>es_name = ''.BTF'', es_type = 1, es_flags = 0, es_link = 0, es_info = 0, es_size = 3787,
      es_bytes = take 3787 usdt_elf_13\<rparr>,
     \<lparr>es_name = ''.BTF.ext'', es_type = 1, es_flags = 0, es_link = 0, es_info = 0, es_size = 1756,
      es_bytes = take 1756 usdt_elf_14\<rparr>]"
proof -
  have "le_at usdt_bpf__elf_bytes 60 2 = 15"
    using object_piecesD(4) [OF usdt_elf_pieces] by (simp add: usdt_elf_shdrs_def)
  moreover have "[0..<15] = [0, 1, 2, 3, 4, 5, 6, 7, 8, 9, 10, 11, 12, 13, 14]"
    by (simp add: upt_rec)
  ultimately show ?thesis
    by (simp only: elf_sections_def list.map read_section_def Let_def usdt_elf_headers usdt_elf_flags usdt_elf_contents
        usdt_elf_names elf_section.simps)
qed

lemma usdt_elf_symtab_rows:
  "usdt_elf_2 =
    concat
     [[0, 0, 0, 0, 0, 0, 0, 0, 0, 0, 0, 0, 0, 0, 0, 0, 0, 0, 0, 0, 0, 0, 0, 0],
      [82, 0, 0, 0, 4, 0, 241, 255, 0, 0, 0, 0, 0, 0, 0, 0, 0, 0, 0, 0, 0, 0, 0, 0],
      [0, 0, 0, 0, 3, 0, 3, 0, 0, 0, 0, 0, 0, 0, 0, 0, 0, 0, 0, 0, 0, 0, 0, 0],
      [93, 0, 0, 0, 0, 0, 3, 0, 136, 0, 0, 0, 0, 0, 0, 0, 0, 0, 0, 0, 0, 0, 0, 0],
      [100, 0, 0, 0, 0, 0, 3, 0, 144, 0, 0, 0, 0, 0, 0, 0, 0, 0, 0, 0, 0, 0, 0, 0],
      [107, 0, 0, 0, 0, 0, 3, 0, 16, 1, 0, 0, 0, 0, 0, 0, 0, 0, 0, 0, 0, 0, 0, 0],
      [114, 0, 0, 0, 0, 0, 3, 0, 208, 1, 0, 0, 0, 0, 0, 0, 0, 0, 0, 0, 0, 0, 0, 0],
      [121, 0, 0, 0, 0, 0, 3, 0, 224, 1, 0, 0, 0, 0, 0, 0, 0, 0, 0, 0, 0, 0, 0, 0],
      [128, 0, 0, 0, 0, 0, 3, 0, 8, 5, 0, 0, 0, 0, 0, 0, 0, 0, 0, 0, 0, 0, 0, 0],
      [136, 0, 0, 0, 0, 0, 3, 0, 144, 3, 0, 0, 0, 0, 0, 0, 0, 0, 0, 0, 0, 0, 0, 0],
      [144, 0, 0, 0, 0, 0, 3, 0, 232, 2, 0, 0, 0, 0, 0, 0, 0, 0, 0, 0, 0, 0, 0, 0],
      [152, 0, 0, 0, 0, 0, 3, 0, 128, 4, 0, 0, 0, 0, 0, 0, 0, 0, 0, 0, 0, 0, 0, 0],
      [160, 0, 0, 0, 0, 0, 3, 0, 248, 4, 0, 0, 0, 0, 0, 0, 0, 0, 0, 0, 0, 0, 0, 0],
      [168, 0, 0, 0, 0, 0, 3, 0, 160, 5, 0, 0, 0, 0, 0, 0, 0, 0, 0, 0, 0, 0, 0, 0],
      [175, 0, 0, 0, 0, 0, 3, 0, 168, 5, 0, 0, 0, 0, 0, 0, 0, 0, 0, 0, 0, 0, 0, 0],
      [182, 0, 0, 0, 0, 0, 3, 0, 8, 6, 0, 0, 0, 0, 0, 0, 0, 0, 0, 0, 0, 0, 0, 0],
      [0, 0, 0, 0, 3, 0, 4, 0, 0, 0, 0, 0, 0, 0, 0, 0, 0, 0, 0, 0, 0, 0, 0, 0],
      [189, 0, 0, 0, 0, 0, 4, 0, 248, 0, 0, 0, 0, 0, 0, 0, 0, 0, 0, 0, 0, 0, 0, 0],
      [196, 0, 0, 0, 1, 0, 9, 0, 0, 0, 0, 0, 0, 0, 0, 0, 67, 0, 0, 0, 0, 0, 0, 0],
      [0, 0, 0, 0, 3, 0, 5, 0, 0, 0, 0, 0, 0, 0, 0, 0, 0, 0, 0, 0, 0, 0, 0, 0],
      [225, 0, 0, 0, 1, 0, 9, 0, 67, 0, 0, 0, 0, 0, 0, 0, 69, 0, 0, 0, 0, 0, 0, 0],
      [0, 0, 0, 0, 3, 0, 9, 0, 0, 0, 0, 0, 0, 0, 0, 0, 0, 0, 0, 0, 0, 0, 0, 0],
      [0, 1, 0, 0, 34, 2, 3, 0, 0, 0, 0, 0, 0, 0, 0, 0, 32, 1, 0, 0, 0, 0, 0, 0],
      [17, 1, 0, 0, 16, 0, 0, 0, 0, 0, 0, 0, 0, 0, 0, 0, 0, 0, 0, 0, 0, 0, 0, 0],
      [38, 1, 0, 0, 33, 0, 6, 0, 32, 0, 0, 0, 0, 0, 0, 0, 32, 0, 0, 0, 0, 0, 0, 0],
      [63, 1, 0, 0, 33, 0, 6, 0, 0, 0, 0, 0, 0, 0, 0, 0, 32, 0, 0, 0, 0, 0, 0, 0],
      [80, 1, 0, 0, 34, 2, 3, 0, 32, 1, 0, 0, 0, 0, 0, 0, 248, 3, 0, 0, 0, 0, 0, 0],
      [93, 1, 0, 0, 34, 2, 3, 0, 24, 5, 0, 0, 0, 0, 0, 0, 0, 1, 0, 0, 0, 0, 0, 0],
      [109, 1, 0, 0, 18, 0, 4, 0, 0, 0, 0, 0, 0, 0, 0, 0, 8, 1, 0, 0, 0, 0, 0, 0],
      [126, 1, 0, 0, 17, 0, 7, 0, 0, 0, 0, 0, 0, 0, 0, 0, 4, 0, 0, 0, 0, 0, 0, 0],
      [133, 1, 0, 0, 18, 0, 5, 0, 0, 0, 0, 0, 0, 0, 0, 0, 208, 0, 0, 0, 0, 0, 0, 0],
      [152, 1, 0, 0, 17, 0, 8, 0, 0, 0, 0, 0, 0, 0, 0, 0, 13, 0, 0, 0, 0, 0, 0, 0]]"
  by (simp add: usdt_elf_2_def)

lemma usdt_elf_symbols:
  "elf_symbols usdt_bpf__elf_bytes =
    [\<lparr>sym_name = '''', sym_info = 0, sym_shndx = 0, sym_value = 0, sym_size = 0\<rparr>,
     \<lparr>sym_name = ''usdt.bpf.c'', sym_info = 4, sym_shndx = 65521, sym_value = 0, sym_size = 0\<rparr>,
     \<lparr>sym_name = '''', sym_info = 3, sym_shndx = 3, sym_value = 0, sym_size = 0\<rparr>,
     \<lparr>sym_name = ''LBB0_3'', sym_info = 0, sym_shndx = 3, sym_value = 136, sym_size = 0\<rparr>,
     \<lparr>sym_name = ''LBB0_4'', sym_info = 0, sym_shndx = 3, sym_value = 144, sym_size = 0\<rparr>,
     \<lparr>sym_name = ''LBB0_7'', sym_info = 0, sym_shndx = 3, sym_value = 272, sym_size = 0\<rparr>,
     \<lparr>sym_name = ''LBB1_3'', sym_info = 0, sym_shndx = 3, sym_value = 464, sym_size = 0\<rparr>,
     \<lparr>sym_name = ''LBB1_4'', sym_info = 0, sym_shndx = 3, sym_value = 480, sym_size = 0\<rparr>,
     \<lparr>sym_name = ''LBB1_18'', sym_info = 0, sym_shndx = 3, sym_value = 1288, sym_size = 0\<rparr>,
     \<lparr>sym_name = ''LBB1_13'', sym_info = 0, sym_shndx = 3, sym_value = 912, sym_size = 0\<rparr>,
     \<lparr>sym_name = ''LBB1_12'', sym_info = 0, sym_shndx = 3, sym_value = 744, sym_size = 0\<rparr>,
     \<lparr>sym_name = ''LBB1_15'', sym_info = 0, sym_shndx = 3, sym_value = 1152, sym_size = 0\<rparr>,
     \<lparr>sym_name = ''LBB1_17'', sym_info = 0, sym_shndx = 3, sym_value = 1272, sym_size = 0\<rparr>,
     \<lparr>sym_name = ''LBB2_3'', sym_info = 0, sym_shndx = 3, sym_value = 1440, sym_size = 0\<rparr>,
     \<lparr>sym_name = ''LBB2_4'', sym_info = 0, sym_shndx = 3, sym_value = 1448, sym_size = 0\<rparr>,
     \<lparr>sym_name = ''LBB2_7'', sym_info = 0, sym_shndx = 3, sym_value = 1544, sym_size = 0\<rparr>,
     \<lparr>sym_name = '''', sym_info = 3, sym_shndx = 4, sym_value = 0, sym_size = 0\<rparr>,
     \<lparr>sym_name = ''LBB3_2'', sym_info = 0, sym_shndx = 4, sym_value = 248, sym_size = 0\<rparr>,
     \<lparr>sym_name = ''____usdt_auto_attach.____fmt'', sym_info = 1, sym_shndx = 9, sym_value = 0, sym_size = 67\<rparr>,
     \<lparr>sym_name = '''', sym_info = 3, sym_shndx = 5, sym_value = 0, sym_size = 0\<rparr>,
     \<lparr>sym_name = ''____usdt_manual_attach.____fmt'', sym_info = 1, sym_shndx = 9, sym_value = 67, sym_size = 69\<rparr>,
     \<lparr>sym_name = '''', sym_info = 3, sym_shndx = 9, sym_value = 0, sym_size = 0\<rparr>,
     \<lparr>sym_name = ''bpf_usdt_arg_cnt'', sym_info = 34, sym_shndx = 3, sym_value = 0, sym_size = 288\<rparr>,
     \<lparr>sym_name = ''LINUX_HAS_BPF_COOKIE'', sym_info = 16, sym_shndx = 0, sym_value = 0, sym_size = 0\<rparr>,
     \<lparr>sym_name = ''__bpf_usdt_ip_to_spec_id'', sym_info = 33, sym_shndx = 6, sym_value = 32, sym_size = 32\<rparr>,
     \<lparr>sym_name = ''__bpf_usdt_specs'', sym_info = 33, sym_shndx = 6, sym_value = 0, sym_size = 32\<rparr>,
     \<lparr>sym_name = ''bpf_usdt_arg'', sym_info = 34, sym_shndx = 3, sym_value = 288, sym_size = 1016\<rparr>,
     \<lparr>sym_name = ''bpf_usdt_cookie'', sym_info = 34, sym_shndx = 3, sym_value = 1304, sym_size = 256\<rparr>,
     \<lparr>sym_name = ''usdt_auto_attach'', sym_info = 18, sym_shndx = 4, sym_value = 0, sym_size = 264\<rparr>,
     \<lparr>sym_name = ''my_pid'', sym_info = 17, sym_shndx = 7, sym_value = 0, sym_size = 4\<rparr>,
     \<lparr>sym_name = ''usdt_manual_attach'', sym_info = 18, sym_shndx = 5, sym_value = 0, sym_size = 208\<rparr>,
     \<lparr>sym_name = ''LICENSE'', sym_info = 17, sym_shndx = 8, sym_value = 0, sym_size = 13\<rparr>]"
  by (simp add: elf_symbols_def usdt_elf_sections Let_def read_symbol_rows [OF usdt_elf_symtab_rows] del: upt_rec_numeral)
    (simp add: read_symbol_def elf_eval usdt_elf_1_def)

lemma usdt_elf_programs:
  "elf_programs usdt_bpf__elf_bytes =
    [(''.text'', decode_program usdt_elf_3),
     (''usdt/libc.so.6:libc:setjmp'', decode_program usdt_elf_4),
     (''usdt'', decode_program usdt_elf_5)]"
  by (simp add: elf_programs_def usdt_elf_sections is_program_def bit_numeral_rec bit_0)

end
