(* ===== verification/Skeleton_Tables.thy ===== *)
theory Skeleton_Tables
  imports Skel_Life Obj_Bootstrap Obj_Bootstrap_Legacy Obj_Fentry Obj_Kprobe Obj_Ksyscall Obj_Lsm Obj_Minimal Obj_Minimal_Legacy
    Obj_Minimal_Ns Obj_Sockfilter Obj_Task_Iter Obj_Tc Obj_Uprobe Obj_Usdt
begin

text \<open>
  The fourteen generated skeletons of examples/c/.output. Each header has the functions of \<open>Skeleton\<close>
  over its own tables, and declares a structure with one pointer per map, program and link and one
  per mapped section. The object each header embeds is in the theory of its name. The tables are
  compared with the structure, and with the symbols and sections of the object.
\<close>

section \<open>What a header declares\<close>

text \<open>
  The pointer fields of the structure; the fields of each mapped section with their C types and array
  lengths; and the static assertions at the end of the header: section, field, size.
\<close>

record skel_struct =
  st_maps :: "string list"
  st_progs :: "string list"
  st_links :: "string list"
  st_sections :: "(string \<times> (string \<times> string \<times> nat) list) list"
  st_asserts :: "(string \<times> string \<times> nat) list"

text \<open>The functions of a header.\<close>

record 'k skel_functions =
  sf_destroy :: "addr \<Rightarrow> 'k world \<Rightarrow> crash + 'k world"
  sf_open_opts :: "addr \<Rightarrow> 'k world \<Rightarrow> crash + addr \<times> 'k world"
  sf_open :: "'k world \<Rightarrow> crash + addr \<times> 'k world"
  sf_load :: "addr \<Rightarrow> 'k world \<Rightarrow> crash + int \<times> 'k world"
  sf_open_and_load :: "'k world \<Rightarrow> crash + addr \<times> 'k world"
  sf_attach :: "addr \<Rightarrow> 'k world \<Rightarrow> crash + int \<times> 'k world"
  sf_detach :: "addr \<Rightarrow> 'k world \<Rightarrow> crash + 'k world"
  sf_create_skeleton :: "addr \<Rightarrow> 'k world \<Rightarrow> crash + int \<times> 'k world"

definition skel_functions_of :: "'k libbpf \<Rightarrow> skel_desc \<Rightarrow> 'k skel_functions" where
  "skel_functions_of L d =
     \<lparr>sf_destroy = skel_destroy L, sf_open_opts = skel_open_opts L d, sf_open = skel_open L d,
      sf_load = skel_load L, sf_open_and_load = skel_open_and_load L d, sf_attach = skel_attach L,
      sf_detach = skel_detach L, sf_create_skeleton = create_skeleton L d\<rparr>"

section \<open>The headers\<close>

text \<open>examples/c/.output/bootstrap.skel.h\<close>

definition bootstrap_struct :: skel_struct where
  "bootstrap_struct =
     \<lparr>st_maps = [''exec_start'', ''rb'', ''rodata''],
      st_progs = [''handle_exec'', ''handle_exit''],
      st_links = [''handle_exec'', ''handle_exit''],
      st_sections = [(''rodata'', [(''min_duration_ns'', ''unsigned long long'', 1)])],
      st_asserts = [(''rodata'', ''min_duration_ns'', 8)]\<rparr>"

definition bootstrap_desc :: skel_desc where
  "bootstrap_desc =
     \<lparr>sd_name = ''bootstrap_bpf'',
      sd_maps = [(''exec_start'', ''exec_start'', None),
        (''rb'', ''rb'', None),
        (''bootstra.rodata'', ''rodata'', Some ''rodata'')],
      sd_progs = [(''handle_exec'', ''handle_exec'', ''handle_exec''),
        (''handle_exit'', ''handle_exit'', ''handle_exit'')],
      sd_elf = bootstrap_bpf__elf_bytes\<rparr>"

definition bootstrap_bpf :: "'k libbpf \<Rightarrow> 'k skel_functions" where
  "bootstrap_bpf L = skel_functions_of L bootstrap_desc"

text \<open>examples/c/.output/bootstrap_legacy.skel.h\<close>

definition bootstrap_legacy_struct :: skel_struct where
  "bootstrap_legacy_struct =
     \<lparr>st_maps = [''exec_start'', ''perf_buffer'', ''rodata''],
      st_progs = [''handle_exec'', ''handle_exit''],
      st_links = [''handle_exec'', ''handle_exit''],
      st_sections = [(''rodata'', [(''min_duration_ns'', ''unsigned long long'', 1)])],
      st_asserts = [(''rodata'', ''min_duration_ns'', 8)]\<rparr>"

definition bootstrap_legacy_desc :: skel_desc where
  "bootstrap_legacy_desc =
     \<lparr>sd_name = ''bootstrap_legacy_bpf'',
      sd_maps = [(''exec_start'', ''exec_start'', None),
        (''perf_buffer'', ''perf_buffer'', None),
        (''bootstra.rodata'', ''rodata'', Some ''rodata'')],
      sd_progs = [(''handle_exec'', ''handle_exec'', ''handle_exec''),
        (''handle_exit'', ''handle_exit'', ''handle_exit'')],
      sd_elf = bootstrap_legacy_bpf__elf_bytes\<rparr>"

definition bootstrap_legacy_bpf :: "'k libbpf \<Rightarrow> 'k skel_functions" where
  "bootstrap_legacy_bpf L = skel_functions_of L bootstrap_legacy_desc"

text \<open>examples/c/.output/fentry.skel.h\<close>

definition fentry_struct :: skel_struct where
  "fentry_struct =
     \<lparr>st_maps = [''rodata''],
      st_progs = [''do_unlinkat'', ''do_unlinkat_exit''],
      st_links = [''do_unlinkat'', ''do_unlinkat_exit''],
      st_sections = [],
      st_asserts = []\<rparr>"

definition fentry_desc :: skel_desc where
  "fentry_desc =
     \<lparr>sd_name = ''fentry_bpf'',
      sd_maps = [(''fentry_b.rodata'', ''rodata'', None)],
      sd_progs = [(''do_unlinkat'', ''do_unlinkat'', ''do_unlinkat''),
        (''do_unlinkat_exit'', ''do_unlinkat_exit'', ''do_unlinkat_exit'')],
      sd_elf = fentry_bpf__elf_bytes\<rparr>"

definition fentry_bpf :: "'k libbpf \<Rightarrow> 'k skel_functions" where
  "fentry_bpf L = skel_functions_of L fentry_desc"

text \<open>examples/c/.output/kprobe.skel.h\<close>

definition kprobe_struct :: skel_struct where
  "kprobe_struct =
     \<lparr>st_maps = [''rodata''],
      st_progs = [''do_unlinkat'', ''do_unlinkat_exit''],
      st_links = [''do_unlinkat'', ''do_unlinkat_exit''],
      st_sections = [],
      st_asserts = []\<rparr>"

definition kprobe_desc :: skel_desc where
  "kprobe_desc =
     \<lparr>sd_name = ''kprobe_bpf'',
      sd_maps = [(''kprobe_b.rodata'', ''rodata'', None)],
      sd_progs = [(''do_unlinkat'', ''do_unlinkat'', ''do_unlinkat''),
        (''do_unlinkat_exit'', ''do_unlinkat_exit'', ''do_unlinkat_exit'')],
      sd_elf = kprobe_bpf__elf_bytes\<rparr>"

definition kprobe_bpf :: "'k libbpf \<Rightarrow> 'k skel_functions" where
  "kprobe_bpf L = skel_functions_of L kprobe_desc"

text \<open>examples/c/.output/ksyscall.skel.h\<close>

definition ksyscall_struct :: skel_struct where
  "ksyscall_struct =
     \<lparr>st_maps = [''rodata'', ''kconfig''],
      st_progs = [''tgkill_entry'', ''entry_probe''],
      st_links = [''tgkill_entry'', ''entry_probe''],
      st_sections = [(''kconfig'', [(''LINUX_HAS_SYSCALL_WRAPPER'', ''_Bool'', 1)])],
      st_asserts = [(''kconfig'', ''LINUX_HAS_SYSCALL_WRAPPER'', 1)]\<rparr>"

definition ksyscall_desc :: skel_desc where
  "ksyscall_desc =
     \<lparr>sd_name = ''ksyscall_bpf'',
      sd_maps = [(''ksyscall.rodata'', ''rodata'', None),
        (''ksyscal.kconfig'', ''kconfig'', Some ''kconfig'')],
      sd_progs = [(''tgkill_entry'', ''tgkill_entry'', ''tgkill_entry''),
        (''entry_probe'', ''entry_probe'', ''entry_probe'')],
      sd_elf = ksyscall_bpf__elf_bytes\<rparr>"

definition ksyscall_bpf :: "'k libbpf \<Rightarrow> 'k skel_functions" where
  "ksyscall_bpf L = skel_functions_of L ksyscall_desc"

text \<open>examples/c/.output/lsm.skel.h\<close>

definition lsm_struct :: skel_struct where
  "lsm_struct =
     \<lparr>st_maps = [''rodata''],
      st_progs = [''lsm_bpf''],
      st_links = [''lsm_bpf''],
      st_sections = [],
      st_asserts = []\<rparr>"

definition lsm_desc :: skel_desc where
  "lsm_desc =
     \<lparr>sd_name = ''lsm_bpf'',
      sd_maps = [(''lsm_bpf.rodata'', ''rodata'', None)],
      sd_progs = [(''lsm_bpf'', ''lsm_bpf'', ''lsm_bpf'')],
      sd_elf = lsm_bpf__elf_bytes\<rparr>"

definition lsm_bpf :: "'k libbpf \<Rightarrow> 'k skel_functions" where
  "lsm_bpf L = skel_functions_of L lsm_desc"

text \<open>examples/c/.output/minimal.skel.h\<close>

definition minimal_struct :: skel_struct where
  "minimal_struct =
     \<lparr>st_maps = [''bss'', ''rodata''],
      st_progs = [''handle_tp''],
      st_links = [''handle_tp''],
      st_sections = [(''bss'', [(''my_pid'', ''int'', 1)])],
      st_asserts = [(''bss'', ''my_pid'', 4)]\<rparr>"

definition minimal_bpf :: "'k libbpf \<Rightarrow> 'k skel_functions" where
  "minimal_bpf L = skel_functions_of L minimal_desc"

text \<open>examples/c/.output/minimal_legacy.skel.h\<close>

definition minimal_legacy_struct :: skel_struct where
  "minimal_legacy_struct =
     \<lparr>st_maps = [''my_pid_map'', ''rodata_str1_1''],
      st_progs = [''handle_tp''],
      st_links = [''handle_tp''],
      st_sections = [],
      st_asserts = []\<rparr>"

definition minimal_legacy_desc :: skel_desc where
  "minimal_legacy_desc =
     \<lparr>sd_name = ''minimal_legacy_bpf'',
      sd_maps = [(''my_pid_map'', ''my_pid_map'', None),
        (''.rodata.str1.1'', ''rodata_str1_1'', None)],
      sd_progs = [(''handle_tp'', ''handle_tp'', ''handle_tp'')],
      sd_elf = minimal_legacy_bpf__elf_bytes\<rparr>"

definition minimal_legacy_bpf :: "'k libbpf \<Rightarrow> 'k skel_functions" where
  "minimal_legacy_bpf L = skel_functions_of L minimal_legacy_desc"

text \<open>examples/c/.output/minimal_ns.skel.h\<close>

definition minimal_ns_struct :: skel_struct where
  "minimal_ns_struct =
     \<lparr>st_maps = [''bss'', ''rodata''],
      st_progs = [''handle_tp''],
      st_links = [''handle_tp''],
      st_sections = [(''bss'', [(''my_pid'', ''int'', 1), (''__pad0'', ''char'', 4), (''dev'', ''unsigned long long'', 1), (''ino'', ''unsigned long long'', 1)])],
      st_asserts = [(''bss'', ''my_pid'', 4), (''bss'', ''dev'', 8), (''bss'', ''ino'', 8)]\<rparr>"

definition minimal_ns_desc :: skel_desc where
  "minimal_ns_desc =
     \<lparr>sd_name = ''minimal_ns_bpf'',
      sd_maps = [(''minimal_.bss'', ''bss'', Some ''bss''),
        (''minimal_.rodata'', ''rodata'', None)],
      sd_progs = [(''handle_tp'', ''handle_tp'', ''handle_tp'')],
      sd_elf = minimal_ns_bpf__elf_bytes\<rparr>"

definition minimal_ns_bpf :: "'k libbpf \<Rightarrow> 'k skel_functions" where
  "minimal_ns_bpf L = skel_functions_of L minimal_ns_desc"

text \<open>examples/c/.output/sockfilter.skel.h\<close>

definition sockfilter_struct :: skel_struct where
  "sockfilter_struct =
     \<lparr>st_maps = [''rb''],
      st_progs = [''socket_handler''],
      st_links = [''socket_handler''],
      st_sections = [],
      st_asserts = []\<rparr>"

definition sockfilter_desc :: skel_desc where
  "sockfilter_desc =
     \<lparr>sd_name = ''sockfilter_bpf'',
      sd_maps = [(''rb'', ''rb'', None)],
      sd_progs = [(''socket_handler'', ''socket_handler'', ''socket_handler'')],
      sd_elf = sockfilter_bpf__elf_bytes\<rparr>"

definition sockfilter_bpf :: "'k libbpf \<Rightarrow> 'k skel_functions" where
  "sockfilter_bpf L = skel_functions_of L sockfilter_desc"

text \<open>examples/c/.output/task_iter.skel.h\<close>

definition task_iter_struct :: skel_struct where
  "task_iter_struct =
     \<lparr>st_maps = [''task_info_buf'', ''bss''],
      st_progs = [''get_tasks''],
      st_links = [''get_tasks''],
      st_sections = [],
      st_asserts = []\<rparr>"

definition task_iter_desc :: skel_desc where
  "task_iter_desc =
     \<lparr>sd_name = ''task_iter_bpf'',
      sd_maps = [(''task_info_buf'', ''task_info_buf'', None),
        (''task_ite.bss'', ''bss'', None)],
      sd_progs = [(''get_tasks'', ''get_tasks'', ''get_tasks'')],
      sd_elf = task_iter_bpf__elf_bytes\<rparr>"

definition task_iter_bpf :: "'k libbpf \<Rightarrow> 'k skel_functions" where
  "task_iter_bpf L = skel_functions_of L task_iter_desc"

text \<open>examples/c/.output/tc.skel.h\<close>

definition tc_struct :: skel_struct where
  "tc_struct =
     \<lparr>st_maps = [''rodata''],
      st_progs = [''tc_ingress''],
      st_links = [''tc_ingress''],
      st_sections = [],
      st_asserts = []\<rparr>"

definition tc_desc :: skel_desc where
  "tc_desc =
     \<lparr>sd_name = ''tc_bpf'',
      sd_maps = [(''tc_bpf.rodata'', ''rodata'', None)],
      sd_progs = [(''tc_ingress'', ''tc_ingress'', ''tc_ingress'')],
      sd_elf = tc_bpf__elf_bytes\<rparr>"

definition tc_bpf :: "'k libbpf \<Rightarrow> 'k skel_functions" where
  "tc_bpf L = skel_functions_of L tc_desc"

text \<open>examples/c/.output/uprobe.skel.h\<close>

definition uprobe_struct :: skel_struct where
  "uprobe_struct =
     \<lparr>st_maps = [''rodata''],
      st_progs = [''uprobe_add'', ''uretprobe_add'', ''uprobe_sub'', ''uretprobe_sub''],
      st_links = [''uprobe_add'', ''uretprobe_add'', ''uprobe_sub'', ''uretprobe_sub''],
      st_sections = [],
      st_asserts = []\<rparr>"

definition uprobe_desc :: skel_desc where
  "uprobe_desc =
     \<lparr>sd_name = ''uprobe_bpf'',
      sd_maps = [(''uprobe_b.rodata'', ''rodata'', None)],
      sd_progs = [(''uprobe_add'', ''uprobe_add'', ''uprobe_add''),
        (''uretprobe_add'', ''uretprobe_add'', ''uretprobe_add''),
        (''uprobe_sub'', ''uprobe_sub'', ''uprobe_sub''),
        (''uretprobe_sub'', ''uretprobe_sub'', ''uretprobe_sub'')],
      sd_elf = uprobe_bpf__elf_bytes\<rparr>"

definition uprobe_bpf :: "'k libbpf \<Rightarrow> 'k skel_functions" where
  "uprobe_bpf L = skel_functions_of L uprobe_desc"

text \<open>examples/c/.output/usdt.skel.h\<close>

definition usdt_struct :: skel_struct where
  "usdt_struct =
     \<lparr>st_maps = [''__bpf_usdt_specs'', ''__bpf_usdt_ip_to_spec_id'', ''bss'', ''rodata'', ''kconfig''],
      st_progs = [''usdt_auto_attach'', ''usdt_manual_attach''],
      st_links = [''usdt_auto_attach'', ''usdt_manual_attach''],
      st_sections = [(''bss'', [(''my_pid'', ''pid_t'', 1)]), (''kconfig'', [(''LINUX_HAS_BPF_COOKIE'', ''_Bool'', 1)])],
      st_asserts = [(''bss'', ''my_pid'', 4), (''kconfig'', ''LINUX_HAS_BPF_COOKIE'', 1)]\<rparr>"

definition usdt_desc :: skel_desc where
  "usdt_desc =
     \<lparr>sd_name = ''usdt_bpf'',
      sd_maps = [(''__bpf_usdt_specs'', ''__bpf_usdt_specs'', None),
        (''__bpf_usdt_ip_to_spec_id'', ''__bpf_usdt_ip_to_spec_id'', None),
        (''usdt_bpf.bss'', ''bss'', Some ''bss''),
        (''usdt_bpf.rodata'', ''rodata'', None),
        (''usdt_bp.kconfig'', ''kconfig'', Some ''kconfig'')],
      sd_progs = [(''usdt_auto_attach'', ''usdt_auto_attach'', ''usdt_auto_attach''),
        (''usdt_manual_attach'', ''usdt_manual_attach'', ''usdt_manual_attach'')],
      sd_elf = usdt_bpf__elf_bytes\<rparr>"

definition usdt_bpf :: "'k libbpf \<Rightarrow> 'k skel_functions" where
  "usdt_bpf L = skel_functions_of L usdt_desc"

definition all_skeletons :: "(skel_struct \<times> skel_desc) list" where
  "all_skeletons =
     [(bootstrap_struct, bootstrap_desc),
      (bootstrap_legacy_struct, bootstrap_legacy_desc),
      (fentry_struct, fentry_desc),
      (kprobe_struct, kprobe_desc),
      (ksyscall_struct, ksyscall_desc),
      (lsm_struct, lsm_desc),
      (minimal_struct, minimal_desc),
      (minimal_legacy_struct, minimal_legacy_desc),
      (minimal_ns_struct, minimal_ns_desc),
      (sockfilter_struct, sockfilter_desc),
      (task_iter_struct, task_iter_desc),
      (tc_struct, tc_desc),
      (uprobe_struct, uprobe_desc),
      (usdt_struct, usdt_desc)]"

section \<open>Tables and structures\<close>

text \<open>Sizes of the C types that occur, on the 64-bit target the objects were built for.\<close>

definition c_sizeof :: "string \<Rightarrow> nat option" where
  "c_sizeof t =
     map_of [(''int'', 4), (''pid_t'', 4), (''_Bool'', 1), (''char'', 1), (''unsigned long long'', 8)] t"

definition assert_holds :: "skel_struct \<Rightarrow> string \<times> string \<times> nat \<Rightarrow> bool" where
  "assert_holds st a = (case a of (sec, field, n) \<Rightarrow>
     (case map_of (st_sections st) sec of
        None \<Rightarrow> False
      | Some flds \<Rightarrow>
          (case map_of flds field of
             None \<Rightarrow> False
           | Some (t, k) \<Rightarrow> map_option (\<lambda>b. b * k) (c_sizeof t) = Some n)))"

text \<open>
  The offset of every field of a section is a multiple of its type's size, so the structure has no padding the
  mapped memory does not have.
\<close>

fun fields_aligned :: "nat \<Rightarrow> (string \<times> string \<times> nat) list \<Rightarrow> bool" where
  "fields_aligned off [] = True"
| "fields_aligned off ((f, t, k) # fs) =
     (case c_sizeof t of
        None \<Rightarrow> False
      | Some b \<Rightarrow> off mod b = 0 \<and> fields_aligned (off + b * k) fs)"

text \<open>
  The tables fill the structure: every map pointer, program pointer and link is registered exactly once, in order, every
  mapped section with the map of its name and every program with the link of its name, and the names libbpf looks up are
  distinct.
\<close>

definition section_names :: "skel_struct \<Rightarrow> string list" where
  "section_names st = map fst (st_sections st)"

definition tables_fill :: "skel_struct \<Rightarrow> skel_desc \<Rightarrow> bool" where
  "tables_fill st d \<longleftrightarrow>
     map snd (sd_maps d) = map (\<lambda>f. (f, if f \<in> set (section_names st) then Some f else None)) (st_maps st) \<and>
     map snd (sd_progs d) = zip (st_progs st) (st_links st) \<and> length (st_progs st) = length (st_links st) \<and>
     distinct (st_maps st) \<and> distinct (st_progs st) \<and> st_links st = st_progs st \<and>
     distinct (section_names st) \<and> set (section_names st) \<subseteq> set (st_maps st) \<and>
     distinct (map fst (sd_maps d)) \<and> distinct (map fst (sd_progs d))"

lemmas skel_table_defs =
  bootstrap_struct_def bootstrap_legacy_struct_def fentry_struct_def kprobe_struct_def
  ksyscall_struct_def lsm_struct_def minimal_struct_def minimal_legacy_struct_def
  minimal_ns_struct_def sockfilter_struct_def task_iter_struct_def tc_struct_def uprobe_struct_def
  usdt_struct_def bootstrap_desc_def bootstrap_legacy_desc_def fentry_desc_def kprobe_desc_def
  ksyscall_desc_def lsm_desc_def minimal_desc_def minimal_legacy_desc_def minimal_ns_desc_def
  sockfilter_desc_def task_iter_desc_def tc_desc_def uprobe_desc_def usdt_desc_def

lemma all_tables_fill: "list_all (\<lambda>(st, d). tables_fill st d) all_skeletons"
  by (simp add: all_skeletons_def tables_fill_def section_names_def skel_table_defs)

lemma all_asserts_hold: "list_all (\<lambda>(st, d). list_all (assert_holds st) (st_asserts st)) all_skeletons"
  by (simp add: all_skeletons_def assert_holds_def c_sizeof_def skel_table_defs)

lemma all_fields_aligned:
  "list_all (\<lambda>(st, d). list_all (\<lambda>(sec, flds). fields_aligned 0 flds) (st_sections st)) all_skeletons"
  by (simp add: all_skeletons_def c_sizeof_def skel_table_defs)

section \<open>What an open object holds\<close>

text \<open>
  The skeleton behind an object, as libbpf finds it on the heap, registers the pointers of the structure \<open>st\<close>: the map table
  has one entry for each field of \<open>maps\<close>, in order, with \<open>&obj->maps.F\<close> and, for a mapped section \<open>F\<close>, with \<open>&obj->F\<close>; the
  program table has one entry for each field of \<open>progs\<close>, in order, with \<open>&obj->progs.F\<close> and \<open>&obj->links.F\<close>; the counts and
  entry sizes are those of the tables; and the names libbpf looks up differ.
\<close>

definition registers_struct :: "skel_struct \<Rightarrow> addr \<Rightarrow> 'k world \<Rightarrow> bool" where
  "registers_struct st obj w \<longleftrightarrow>
     (\<exists>ob sk ms ps. heap w obj = Some (B_obj ob) \<and> heap w (o_skeleton ob) = Some (B_skel sk) \<and>
        heap w (sk_maps sk) = Some (B_maps ms) \<and> heap w (sk_progs sk) = Some (B_progs ps) \<and>
        sk_obj sk = Some (obj, ''obj'') \<and>
        sk_map_cnt sk = length (st_maps st) \<and> sk_map_skel_sz sk = sizeof_map_skeleton \<and>
        sk_prog_cnt sk = length (st_progs st) \<and> sk_prog_skel_sz sk = sizeof_prog_skeleton \<and>
        map ms_map ms = map (\<lambda>f. (obj, ''maps.'' @ f)) (st_maps st) \<and>
        map ms_mmaped ms = map (\<lambda>f. if f \<in> set (section_names st) then Some (obj, f) else None) (st_maps st) \<and>
        map ps_prog ps = map (\<lambda>f. (obj, ''progs.'' @ f)) (st_progs st) \<and>
        map ps_link ps = map (\<lambda>f. (obj, ''links.'' @ f)) (st_links st) \<and>
        distinct (map ms_name ms) \<and> distinct (map ps_name ps))"

lemma owned_registers:
  assumes own: "owns d obj H w" and fill: "tables_fill st d"
  shows "registers_struct st obj w"
proof -
  obtain ob maps progs where sep: "distinct [0, obj, o_skeleton ob, maps, progs]"
    and hp: "heap w = H(obj \<mapsto> B_obj ob, o_skeleton ob \<mapsto> B_skel (full_skel d obj maps progs),
                   maps \<mapsto> B_maps (map (map_entry obj) (sd_maps d)),
                   progs \<mapsto> B_progs (map (prog_entry obj) (sd_progs d)))"
    using own unfolding owns_def by blast
  have maps: "map snd (sd_maps d) = map (\<lambda>f. (f, if f \<in> set (section_names st) then Some f else None)) (st_maps st)"
    and progs: "map snd (sd_progs d) = zip (st_progs st) (st_links st)" "length (st_progs st) = length (st_links st)"
    and names: "distinct (map fst (sd_maps d))" "distinct (map fst (sd_progs d))"
    using fill unfolding tables_fill_def by blast+
  have ms: "map ms_map (map (map_entry obj) xs) = map (\<lambda>m. (obj, ''maps.'' @ fst m)) (map snd xs)"
    "map ms_mmaped (map (map_entry obj) xs) = map (\<lambda>m. map_option (Pair obj) (snd m)) (map snd xs)"
    "map ms_name (map (map_entry obj) xs) = map fst xs" for xs
    by (auto simp: map_entry_def)
  have ps: "map ps_prog (map (prog_entry obj) xs) = map (\<lambda>f. (obj, ''progs.'' @ f)) (map fst (map snd xs))"
    "map ps_link (map (prog_entry obj) xs) = map (\<lambda>f. (obj, ''links.'' @ f)) (map snd (map snd xs))"
    "map ps_name (map (prog_entry obj) xs) = map fst xs" for xs
    by (auto simp: prog_entry_def)
  have "length (sd_maps d) = length (st_maps st)" "length (sd_progs d) = length (st_progs st)"
    using arg_cong [OF maps, of length] arg_cong [OF progs(1), of length] progs(2) by simp_all
  moreover have "map ms_map (map (map_entry obj) (sd_maps d)) = map (\<lambda>f. (obj, ''maps.'' @ f)) (st_maps st)"
    "map ms_mmaped (map (map_entry obj) (sd_maps d)) =
       map (\<lambda>f. if f \<in> set (section_names st) then Some (obj, f) else None) (st_maps st)"
    unfolding ms maps by simp_all
  moreover have "map ps_prog (map (prog_entry obj) (sd_progs d)) = map (\<lambda>f. (obj, ''progs.'' @ f)) (st_progs st)"
    "map ps_link (map (prog_entry obj) (sd_progs d)) = map (\<lambda>f. (obj, ''links.'' @ f)) (st_links st)"
    unfolding ps progs(1) using progs(2) by (simp_all del: map_map)
  moreover have "distinct (map ms_name (map (map_entry obj) (sd_maps d)))" "distinct (map ps_name (map (prog_entry obj) (sd_progs d)))"
    unfolding ms ps by (rule names)+
  ultimately show ?thesis
    unfolding registers_struct_def
    by (intro exI [of _ ob] exI [of _ "full_skel d obj maps progs"] exI [of _ "map (map_entry obj) (sd_maps d)"]
        exI [of _ "map (prog_entry obj) (sd_progs d)"])
      (use sep in \<open>simp add: hp full_skel_def\<close>)
qed

section \<open>Property\<close>

text \<open>
  C21: for each of the fourteen skeletons, over every libbpf that meets the contract: when its open function returns an
  object, the tables that libbpf got for it register the application's structure pointer by pointer: every field of \<open>maps\<close>,
  every mapped section with the map of its name, every field of \<open>progs\<close> with its own field of \<open>links\<close>, each exactly once and in order,
  under names of their own and with the right counts. The structure's sections agree with its maps and its links with its
  programs; the static assertions of the header hold; and the fields of the mapped sections lie at aligned offsets.
\<close>

theorem skeleton_tables_fill_structs:
  assumes "(st, d) \<in> set all_skeletons" and "libbpf_env L" and "world_ok w"
    and "skel_open_opts L d opts w = Inr (obj, w')" and "obj \<noteq> 0"
  shows "registers_struct st obj w' \<and>
    distinct (st_maps st) \<and> distinct (st_progs st) \<and> st_links st = st_progs st \<and>
    distinct (section_names st) \<and> set (section_names st) \<subseteq> set (st_maps st) \<and>
    list_all (assert_holds st) (st_asserts st) \<and>
    list_all (\<lambda>(sec, flds). fields_aligned 0 flds) (st_sections st)"
proof -
  have fill: "tables_fill st d"
    using all_tables_fill assms(1) by (auto simp: list_all_iff)
  have "owns d obj (heap w) w'"
    using libbpf_env.open_opts_result [OF assms(2,3), of d opts] assms(4,5) by auto
  from owned_registers [OF this fill] show ?thesis
    using fill all_asserts_hold all_fields_aligned assms(1) by (auto simp: tables_fill_def list_all_iff)
qed

theorem skeleton_tables_fill_structs_witness:
  "\<exists>obj w'. skel_open_opts (plain_libbpf 0 0 0) usdt_desc 0 (empty_world []) = Inr (obj, w') \<and> registers_struct usdt_struct obj w' \<and>
     list_all (assert_holds usdt_struct) (st_asserts usdt_struct)"
proof -
  have "(usdt_struct, usdt_desc) \<in> set all_skeletons"
    by (simp add: all_skeletons_def)
  moreover obtain obj w' where opened: "skel_open_opts (plain_libbpf 0 0 0) usdt_desc 0 (empty_world []) = Inr (obj, w')" "obj \<noteq> 0"
    by (rule plain_opens_any)
  ultimately show ?thesis
    using skeleton_tables_fill_structs [OF _ plain.libbpf_env_axioms world_ok_empty opened] by blast
qed

end
