(* ===== verification/Skeleton_Objects.thy ===== *)
theory Skeleton_Objects
  imports Skeleton_Tables
begin

text \<open>
  The generated tables against the embedded objects. libbpf looks the programs and maps of a skeleton up by the names
  in its tables, and an application reads and writes the mapped sections through the structure of the header; this theory
  compares both with the symbols and sections of the object the same header embeds.
\<close>

section \<open>What an object offers\<close>

definition section_of :: "elf_sec list \<Rightarrow> elf_sym \<Rightarrow> elf_sec option" where
  "section_of ss s = (if sym_shndx s < length ss then Some (ss ! sym_shndx s) else None)"

definition exported :: "elf_sym \<Rightarrow> bool" where
  "exported s = (sym_info s div 16 = 1 \<or> sym_info s div 16 = 2)"

text \<open>Exported functions outside \<open>.text\<close> are programs, exported data in \<open>.maps\<close> are maps.\<close>

definition program_symbols :: "elf_sec list \<Rightarrow> elf_sym list \<Rightarrow> elf_sym list" where
  "program_symbols ss syms =
     filter (\<lambda>s. exported s \<and> sym_info s mod 16 = 2 \<and>
       (case section_of ss s of Some x \<Rightarrow> is_program x \<and> es_name x \<noteq> ''.text'' | None \<Rightarrow> False)) syms"

definition map_symbols :: "elf_sec list \<Rightarrow> elf_sym list \<Rightarrow> elf_sym list" where
  "map_symbols ss syms =
     filter (\<lambda>s. exported s \<and> sym_info s mod 16 = 1 \<and>
       (case section_of ss s of Some x \<Rightarrow> es_name x = ''.maps'' | None \<Rightarrow> False)) syms"

text \<open>Data sections become maps too, and so do the kernel configuration values a program refers to.\<close>

definition data_sections :: "elf_sec list \<Rightarrow> string list" where
  "data_sections ss =
     map es_name (filter (\<lambda>x. take 7 (es_name x) = ''.rodata'' \<or> es_name x = ''.bss'' \<or> es_name x = ''.data'') ss)"

definition extern_symbols :: "elf_sym list \<Rightarrow> string list" where
  "extern_symbols syms = map sym_name (filter (\<lambda>s. exported s \<and> sym_shndx s = 0) syms)"

text \<open>
  Such a map has the name of its section behind the name of the object, cut to the 15 characters of a map name;
  a section with a longer name of its own gives the map its name.
\<close>

definition internal_map_name :: "string \<Rightarrow> string \<Rightarrow> string" where
  "internal_map_name obj sec =
     (if sec \<in> {''.rodata'', ''.bss'', ''.data'', ''.kconfig''} then take (15 - max 7 (length sec)) obj @ sec else sec)"

section \<open>Agreement\<close>

definition same_names :: "string list \<Rightarrow> string list \<Rightarrow> bool" where
  "same_names xs ys = (length xs = length ys \<and> list_all (\<lambda>x. x \<in> set ys) xs \<and> list_all (\<lambda>y. y \<in> set xs) ys)"

text \<open>The programs: every section with instructions, but \<open>.text\<close>, is one program, and the table lists exactly these.\<close>

definition programs_embedded :: "skel_desc \<Rightarrow> elf_sec list \<Rightarrow> elf_sym list \<Rightarrow> bool" where
  "programs_embedded d ss syms =
     (let ps = program_symbols ss syms in
      same_names (map fst (sd_progs d)) (map sym_name ps) \<and>
      length ps = length (filter (\<lambda>x. is_program x \<and> es_name x \<noteq> ''.text'') ss) \<and>
      list_all (\<lambda>s. case section_of ss s of Some x \<Rightarrow> sym_value s = 0 \<and> sym_size s = es_size x | None \<Rightarrow> False) ps)"

definition maps_embedded :: "skel_desc \<Rightarrow> elf_sec list \<Rightarrow> elf_sym list \<Rightarrow> bool" where
  "maps_embedded d ss syms =
     same_names (map fst (sd_maps d))
       (map sym_name (map_symbols ss syms) @
        map (internal_map_name (sd_name d))
          (data_sections ss @ (if extern_symbols syms = [] then [] else [''.kconfig''])))"

text \<open>
  The fields of a mapped section, with the offset and size each has in the structure of the header (padding left out),
  and the offset behind the last one.
\<close>

fun section_fields :: "nat \<Rightarrow> (string \<times> string \<times> nat) list \<Rightarrow> (string \<times> nat \<times> nat) list" where
  "section_fields off [] = []"
| "section_fields off ((f, t, k) # fs) =
     (let n = the (c_sizeof t) * k in
      (if take 5 f = ''__pad'' then [] else [(f, off, n)]) @ section_fields (off + n) fs)"

fun section_end :: "nat \<Rightarrow> (string \<times> string \<times> nat) list \<Rightarrow> nat" where
  "section_end off [] = off"
| "section_end off ((f, t, k) # fs) = section_end (off + the (c_sizeof t) * k) fs"

definition has_variable :: "elf_sec list \<Rightarrow> elf_sym list \<Rightarrow> string \<Rightarrow> string \<times> nat \<times> nat \<Rightarrow> bool" where
  "has_variable ss syms sec v =
     (case v of (f, off, n) \<Rightarrow>
        list_ex (\<lambda>s. sym_name s = f \<and> sym_value s = off \<and> sym_size s = n \<and>
          (case section_of ss s of Some x \<Rightarrow> es_name x = sec | None \<Rightarrow> False)) syms)"

definition variables_embedded :: "skel_struct \<Rightarrow> elf_sec list \<Rightarrow> elf_sym list \<Rightarrow> bool" where
  "variables_embedded st ss syms =
     list_all (\<lambda>(sec, flds).
       if sec = ''kconfig'' then same_names (map fst flds) (extern_symbols syms)
       else list_all (has_variable ss syms (''.'' @ sec)) (section_fields 0 flds) \<and>
            list_ex (\<lambda>x. es_name x = ''.'' @ sec \<and> es_size x = section_end 0 flds) ss) (st_sections st)"

text \<open>The license that allows the helpers the programs call.\<close>

definition gpl_licensed :: "elf_sec list \<Rightarrow> bool" where
  "gpl_licensed ss = list_ex (\<lambda>x. es_name x = ''license'' \<and> c_string (es_bytes x) \<in> {''GPL'', ''Dual BSD/GPL''}) ss"

definition skeleton_embedded :: "skel_struct \<Rightarrow> skel_desc \<Rightarrow> bool" where
  "skeleton_embedded st d =
     (let ss = elf_sections (sd_elf d); syms = elf_symbols (sd_elf d) in
      programs_embedded d ss syms \<and> maps_embedded d ss syms \<and> variables_embedded st ss syms \<and> gpl_licensed ss)"

section \<open>The fourteen skeletons\<close>

lemmas embedded_eval =
  programs_embedded_def maps_embedded_def variables_embedded_def
  program_symbols_def map_symbols_def data_sections_def extern_symbols_def internal_map_name_def same_names_def
  has_variable_def section_of_def exported_def is_program_def bit_numeral_rec bit_0 c_sizeof_def Let_def

lemma bootstrap_license: "c_string (take 13 bootstrap_elf_5) \<in> {''GPL'', ''Dual BSD/GPL''}"
  by (simp add: elf_eval bootstrap_elf_5_def)

lemma bootstrap_programs_embedded:
  "programs_embedded bootstrap_desc (elf_sections bootstrap_bpf__elf_bytes) (elf_symbols bootstrap_bpf__elf_bytes)"
  by (simp add: bootstrap_desc_def bootstrap_elf_sections bootstrap_elf_symbols embedded_eval)

lemma bootstrap_maps_embedded:
  "maps_embedded bootstrap_desc (elf_sections bootstrap_bpf__elf_bytes) (elf_symbols bootstrap_bpf__elf_bytes)"
  by (simp add: bootstrap_desc_def bootstrap_elf_sections bootstrap_elf_symbols embedded_eval)

lemma bootstrap_variables_embedded:
  "variables_embedded bootstrap_struct (elf_sections bootstrap_bpf__elf_bytes) (elf_symbols bootstrap_bpf__elf_bytes)"
  by (simp add: bootstrap_struct_def bootstrap_elf_sections bootstrap_elf_symbols embedded_eval)

lemma bootstrap_embedded: "skeleton_embedded bootstrap_struct bootstrap_desc"
  using bootstrap_license bootstrap_programs_embedded bootstrap_maps_embedded bootstrap_variables_embedded
  by (simp add: skeleton_embedded_def gpl_licensed_def bootstrap_elf_sections bootstrap_desc_def)

lemma bootstrap_legacy_license: "c_string (take 13 bootstrap_legacy_elf_5) \<in> {''GPL'', ''Dual BSD/GPL''}"
  by (simp add: elf_eval bootstrap_legacy_elf_5_def)

lemma bootstrap_legacy_programs_embedded:
  "programs_embedded bootstrap_legacy_desc (elf_sections bootstrap_legacy_bpf__elf_bytes) (elf_symbols bootstrap_legacy_bpf__elf_bytes)"
  by (simp add: bootstrap_legacy_desc_def bootstrap_legacy_elf_sections bootstrap_legacy_elf_symbols embedded_eval)

lemma bootstrap_legacy_maps_embedded:
  "maps_embedded bootstrap_legacy_desc (elf_sections bootstrap_legacy_bpf__elf_bytes) (elf_symbols bootstrap_legacy_bpf__elf_bytes)"
  by (simp add: bootstrap_legacy_desc_def bootstrap_legacy_elf_sections bootstrap_legacy_elf_symbols embedded_eval)

lemma bootstrap_legacy_variables_embedded:
  "variables_embedded bootstrap_legacy_struct (elf_sections bootstrap_legacy_bpf__elf_bytes) (elf_symbols bootstrap_legacy_bpf__elf_bytes)"
  by (simp add: bootstrap_legacy_struct_def bootstrap_legacy_elf_sections bootstrap_legacy_elf_symbols embedded_eval)

lemma bootstrap_legacy_embedded: "skeleton_embedded bootstrap_legacy_struct bootstrap_legacy_desc"
  using bootstrap_legacy_license bootstrap_legacy_programs_embedded bootstrap_legacy_maps_embedded bootstrap_legacy_variables_embedded
  by (simp add: skeleton_embedded_def gpl_licensed_def bootstrap_legacy_elf_sections bootstrap_legacy_desc_def)

lemma fentry_license: "c_string (fentry_elf_5) \<in> {''GPL'', ''Dual BSD/GPL''}"
  by (simp add: elf_eval fentry_elf_5_def)

lemma fentry_programs_embedded:
  "programs_embedded fentry_desc (elf_sections fentry_bpf__elf_bytes) (elf_symbols fentry_bpf__elf_bytes)"
  by (simp add: fentry_desc_def fentry_elf_sections fentry_elf_symbols embedded_eval)

lemma fentry_maps_embedded:
  "maps_embedded fentry_desc (elf_sections fentry_bpf__elf_bytes) (elf_symbols fentry_bpf__elf_bytes)"
  by (simp add: fentry_desc_def fentry_elf_sections fentry_elf_symbols embedded_eval)

lemma fentry_variables_embedded:
  "variables_embedded fentry_struct (elf_sections fentry_bpf__elf_bytes) (elf_symbols fentry_bpf__elf_bytes)"
  by (simp add: fentry_struct_def fentry_elf_sections fentry_elf_symbols embedded_eval)

lemma fentry_embedded: "skeleton_embedded fentry_struct fentry_desc"
  using fentry_license fentry_programs_embedded fentry_maps_embedded fentry_variables_embedded
  by (simp add: skeleton_embedded_def gpl_licensed_def fentry_elf_sections fentry_desc_def)

lemma kprobe_license: "c_string (kprobe_elf_5) \<in> {''GPL'', ''Dual BSD/GPL''}"
  by (simp add: elf_eval kprobe_elf_5_def)

lemma kprobe_programs_embedded:
  "programs_embedded kprobe_desc (elf_sections kprobe_bpf__elf_bytes) (elf_symbols kprobe_bpf__elf_bytes)"
  by (simp add: kprobe_desc_def kprobe_elf_sections kprobe_elf_symbols embedded_eval)

lemma kprobe_maps_embedded:
  "maps_embedded kprobe_desc (elf_sections kprobe_bpf__elf_bytes) (elf_symbols kprobe_bpf__elf_bytes)"
  by (simp add: kprobe_desc_def kprobe_elf_sections kprobe_elf_symbols embedded_eval)

lemma kprobe_variables_embedded:
  "variables_embedded kprobe_struct (elf_sections kprobe_bpf__elf_bytes) (elf_symbols kprobe_bpf__elf_bytes)"
  by (simp add: kprobe_struct_def kprobe_elf_sections kprobe_elf_symbols embedded_eval)

lemma kprobe_embedded: "skeleton_embedded kprobe_struct kprobe_desc"
  using kprobe_license kprobe_programs_embedded kprobe_maps_embedded kprobe_variables_embedded
  by (simp add: skeleton_embedded_def gpl_licensed_def kprobe_elf_sections kprobe_desc_def)

lemma ksyscall_license: "c_string (ksyscall_elf_5) \<in> {''GPL'', ''Dual BSD/GPL''}"
  by (simp add: elf_eval ksyscall_elf_5_def)

lemma ksyscall_programs_embedded:
  "programs_embedded ksyscall_desc (elf_sections ksyscall_bpf__elf_bytes) (elf_symbols ksyscall_bpf__elf_bytes)"
  by (simp add: ksyscall_desc_def ksyscall_elf_sections ksyscall_elf_symbols embedded_eval)

lemma ksyscall_maps_embedded:
  "maps_embedded ksyscall_desc (elf_sections ksyscall_bpf__elf_bytes) (elf_symbols ksyscall_bpf__elf_bytes)"
  by (simp add: ksyscall_desc_def ksyscall_elf_sections ksyscall_elf_symbols embedded_eval)

lemma ksyscall_variables_embedded:
  "variables_embedded ksyscall_struct (elf_sections ksyscall_bpf__elf_bytes) (elf_symbols ksyscall_bpf__elf_bytes)"
  by (simp add: ksyscall_struct_def ksyscall_elf_sections ksyscall_elf_symbols embedded_eval)

lemma ksyscall_embedded: "skeleton_embedded ksyscall_struct ksyscall_desc"
  using ksyscall_license ksyscall_programs_embedded ksyscall_maps_embedded ksyscall_variables_embedded
  by (simp add: skeleton_embedded_def gpl_licensed_def ksyscall_elf_sections ksyscall_desc_def)

lemma lsm_license: "c_string (lsm_elf_4) \<in> {''GPL'', ''Dual BSD/GPL''}"
  by (simp add: elf_eval lsm_elf_4_def)

lemma lsm_programs_embedded:
  "programs_embedded lsm_desc (elf_sections lsm_bpf__elf_bytes) (elf_symbols lsm_bpf__elf_bytes)"
  by (simp add: lsm_desc_def lsm_elf_sections lsm_elf_symbols embedded_eval)

lemma lsm_maps_embedded:
  "maps_embedded lsm_desc (elf_sections lsm_bpf__elf_bytes) (elf_symbols lsm_bpf__elf_bytes)"
  by (simp add: lsm_desc_def lsm_elf_sections lsm_elf_symbols embedded_eval)

lemma lsm_variables_embedded:
  "variables_embedded lsm_struct (elf_sections lsm_bpf__elf_bytes) (elf_symbols lsm_bpf__elf_bytes)"
  by (simp add: lsm_struct_def lsm_elf_sections lsm_elf_symbols embedded_eval)

lemma lsm_embedded: "skeleton_embedded lsm_struct lsm_desc"
  using lsm_license lsm_programs_embedded lsm_maps_embedded lsm_variables_embedded
  by (simp add: skeleton_embedded_def gpl_licensed_def lsm_elf_sections lsm_desc_def)

lemma minimal_license: "c_string (take 13 elf_license) \<in> {''GPL'', ''Dual BSD/GPL''}"
  by (simp add: elf_eval elf_license_def)

lemma minimal_programs_embedded:
  "programs_embedded minimal_desc (elf_sections minimal_bpf__elf_bytes) (elf_symbols minimal_bpf__elf_bytes)"
  by (simp add: minimal_desc_def minimal_elf_sections minimal_elf_symbols embedded_eval)

lemma minimal_maps_embedded:
  "maps_embedded minimal_desc (elf_sections minimal_bpf__elf_bytes) (elf_symbols minimal_bpf__elf_bytes)"
  by (simp add: minimal_desc_def minimal_elf_sections minimal_elf_symbols embedded_eval)

lemma minimal_variables_embedded:
  "variables_embedded minimal_struct (elf_sections minimal_bpf__elf_bytes) (elf_symbols minimal_bpf__elf_bytes)"
  by (simp add: minimal_struct_def minimal_elf_sections minimal_elf_symbols embedded_eval)

lemma minimal_embedded: "skeleton_embedded minimal_struct minimal_desc"
  using minimal_license minimal_programs_embedded minimal_maps_embedded minimal_variables_embedded
  by (simp add: skeleton_embedded_def gpl_licensed_def minimal_elf_sections minimal_desc_def)

lemma minimal_legacy_license: "c_string (take 13 minimal_legacy_elf_4) \<in> {''GPL'', ''Dual BSD/GPL''}"
  by (simp add: elf_eval minimal_legacy_elf_4_def)

lemma minimal_legacy_programs_embedded:
  "programs_embedded minimal_legacy_desc (elf_sections minimal_legacy_bpf__elf_bytes) (elf_symbols minimal_legacy_bpf__elf_bytes)"
  by (simp add: minimal_legacy_desc_def minimal_legacy_elf_sections minimal_legacy_elf_symbols embedded_eval)

lemma minimal_legacy_maps_embedded:
  "maps_embedded minimal_legacy_desc (elf_sections minimal_legacy_bpf__elf_bytes) (elf_symbols minimal_legacy_bpf__elf_bytes)"
  by (simp add: minimal_legacy_desc_def minimal_legacy_elf_sections minimal_legacy_elf_symbols embedded_eval)

lemma minimal_legacy_variables_embedded:
  "variables_embedded minimal_legacy_struct (elf_sections minimal_legacy_bpf__elf_bytes) (elf_symbols minimal_legacy_bpf__elf_bytes)"
  by (simp add: minimal_legacy_struct_def minimal_legacy_elf_sections minimal_legacy_elf_symbols embedded_eval)

lemma minimal_legacy_embedded: "skeleton_embedded minimal_legacy_struct minimal_legacy_desc"
  using minimal_legacy_license minimal_legacy_programs_embedded minimal_legacy_maps_embedded minimal_legacy_variables_embedded
  by (simp add: skeleton_embedded_def gpl_licensed_def minimal_legacy_elf_sections minimal_legacy_desc_def)

lemma minimal_ns_license: "c_string (take 13 minimal_ns_elf_4) \<in> {''GPL'', ''Dual BSD/GPL''}"
  by (simp add: elf_eval minimal_ns_elf_4_def)

lemma minimal_ns_programs_embedded:
  "programs_embedded minimal_ns_desc (elf_sections minimal_ns_bpf__elf_bytes) (elf_symbols minimal_ns_bpf__elf_bytes)"
  by (simp add: minimal_ns_desc_def minimal_ns_elf_sections minimal_ns_elf_symbols embedded_eval)

lemma minimal_ns_maps_embedded:
  "maps_embedded minimal_ns_desc (elf_sections minimal_ns_bpf__elf_bytes) (elf_symbols minimal_ns_bpf__elf_bytes)"
  by (simp add: minimal_ns_desc_def minimal_ns_elf_sections minimal_ns_elf_symbols embedded_eval)

lemma minimal_ns_variables_embedded:
  "variables_embedded minimal_ns_struct (elf_sections minimal_ns_bpf__elf_bytes) (elf_symbols minimal_ns_bpf__elf_bytes)"
  by (simp add: minimal_ns_struct_def minimal_ns_elf_sections minimal_ns_elf_symbols embedded_eval)

lemma minimal_ns_embedded: "skeleton_embedded minimal_ns_struct minimal_ns_desc"
  using minimal_ns_license minimal_ns_programs_embedded minimal_ns_maps_embedded minimal_ns_variables_embedded
  by (simp add: skeleton_embedded_def gpl_licensed_def minimal_ns_elf_sections minimal_ns_desc_def)

lemma sockfilter_license: "c_string (take 13 sockfilter_elf_4) \<in> {''GPL'', ''Dual BSD/GPL''}"
  by (simp add: elf_eval sockfilter_elf_4_def)

lemma sockfilter_programs_embedded:
  "programs_embedded sockfilter_desc (elf_sections sockfilter_bpf__elf_bytes) (elf_symbols sockfilter_bpf__elf_bytes)"
  by (simp add: sockfilter_desc_def sockfilter_elf_sections sockfilter_elf_symbols embedded_eval)

lemma sockfilter_maps_embedded:
  "maps_embedded sockfilter_desc (elf_sections sockfilter_bpf__elf_bytes) (elf_symbols sockfilter_bpf__elf_bytes)"
  by (simp add: sockfilter_desc_def sockfilter_elf_sections sockfilter_elf_symbols embedded_eval)

lemma sockfilter_variables_embedded:
  "variables_embedded sockfilter_struct (elf_sections sockfilter_bpf__elf_bytes) (elf_symbols sockfilter_bpf__elf_bytes)"
  by (simp add: sockfilter_struct_def sockfilter_elf_sections sockfilter_elf_symbols embedded_eval)

lemma sockfilter_embedded: "skeleton_embedded sockfilter_struct sockfilter_desc"
  using sockfilter_license sockfilter_programs_embedded sockfilter_maps_embedded sockfilter_variables_embedded
  by (simp add: skeleton_embedded_def gpl_licensed_def sockfilter_elf_sections sockfilter_desc_def)

lemma task_iter_license: "c_string (take 13 task_iter_elf_4) \<in> {''GPL'', ''Dual BSD/GPL''}"
  by (simp add: elf_eval task_iter_elf_4_def)

lemma task_iter_programs_embedded:
  "programs_embedded task_iter_desc (elf_sections task_iter_bpf__elf_bytes) (elf_symbols task_iter_bpf__elf_bytes)"
  by (simp add: task_iter_desc_def task_iter_elf_sections task_iter_elf_symbols embedded_eval)

lemma task_iter_maps_embedded:
  "maps_embedded task_iter_desc (elf_sections task_iter_bpf__elf_bytes) (elf_symbols task_iter_bpf__elf_bytes)"
  by (simp add: task_iter_desc_def task_iter_elf_sections task_iter_elf_symbols embedded_eval)

lemma task_iter_variables_embedded:
  "variables_embedded task_iter_struct (elf_sections task_iter_bpf__elf_bytes) (elf_symbols task_iter_bpf__elf_bytes)"
  by (simp add: task_iter_struct_def task_iter_elf_sections task_iter_elf_symbols embedded_eval)

lemma task_iter_embedded: "skeleton_embedded task_iter_struct task_iter_desc"
  using task_iter_license task_iter_programs_embedded task_iter_maps_embedded task_iter_variables_embedded
  by (simp add: skeleton_embedded_def gpl_licensed_def task_iter_elf_sections task_iter_desc_def)

lemma tc_license: "c_string (tc_elf_5) \<in> {''GPL'', ''Dual BSD/GPL''}"
  by (simp add: elf_eval tc_elf_5_def)

lemma tc_programs_embedded:
  "programs_embedded tc_desc (elf_sections tc_bpf__elf_bytes) (elf_symbols tc_bpf__elf_bytes)"
  by (simp add: tc_desc_def tc_elf_sections tc_elf_symbols embedded_eval)

lemma tc_maps_embedded:
  "maps_embedded tc_desc (elf_sections tc_bpf__elf_bytes) (elf_symbols tc_bpf__elf_bytes)"
  by (simp add: tc_desc_def tc_elf_sections tc_elf_symbols embedded_eval)

lemma tc_variables_embedded:
  "variables_embedded tc_struct (elf_sections tc_bpf__elf_bytes) (elf_symbols tc_bpf__elf_bytes)"
  by (simp add: tc_struct_def tc_elf_sections tc_elf_symbols embedded_eval)

lemma tc_embedded: "skeleton_embedded tc_struct tc_desc"
  using tc_license tc_programs_embedded tc_maps_embedded tc_variables_embedded
  by (simp add: skeleton_embedded_def gpl_licensed_def tc_elf_sections tc_desc_def)

lemma uprobe_license: "c_string (uprobe_elf_7) \<in> {''GPL'', ''Dual BSD/GPL''}"
  by (simp add: elf_eval uprobe_elf_7_def)

lemma uprobe_programs_embedded:
  "programs_embedded uprobe_desc (elf_sections uprobe_bpf__elf_bytes) (elf_symbols uprobe_bpf__elf_bytes)"
  by (simp add: uprobe_desc_def uprobe_elf_sections uprobe_elf_symbols embedded_eval)

lemma uprobe_maps_embedded:
  "maps_embedded uprobe_desc (elf_sections uprobe_bpf__elf_bytes) (elf_symbols uprobe_bpf__elf_bytes)"
  by (simp add: uprobe_desc_def uprobe_elf_sections uprobe_elf_symbols embedded_eval)

lemma uprobe_variables_embedded:
  "variables_embedded uprobe_struct (elf_sections uprobe_bpf__elf_bytes) (elf_symbols uprobe_bpf__elf_bytes)"
  by (simp add: uprobe_struct_def uprobe_elf_sections uprobe_elf_symbols embedded_eval)

lemma uprobe_embedded: "skeleton_embedded uprobe_struct uprobe_desc"
  using uprobe_license uprobe_programs_embedded uprobe_maps_embedded uprobe_variables_embedded
  by (simp add: skeleton_embedded_def gpl_licensed_def uprobe_elf_sections uprobe_desc_def)

lemma usdt_license: "c_string (usdt_elf_8) \<in> {''GPL'', ''Dual BSD/GPL''}"
  by (simp add: elf_eval usdt_elf_8_def)

lemma usdt_programs_embedded:
  "programs_embedded usdt_desc (elf_sections usdt_bpf__elf_bytes) (elf_symbols usdt_bpf__elf_bytes)"
  by (simp add: usdt_desc_def usdt_elf_sections usdt_elf_symbols embedded_eval)

lemma usdt_maps_embedded:
  "maps_embedded usdt_desc (elf_sections usdt_bpf__elf_bytes) (elf_symbols usdt_bpf__elf_bytes)"
  by (simp add: usdt_desc_def usdt_elf_sections usdt_elf_symbols embedded_eval)

lemma usdt_variables_embedded:
  "variables_embedded usdt_struct (elf_sections usdt_bpf__elf_bytes) (elf_symbols usdt_bpf__elf_bytes)"
  by (simp add: usdt_struct_def usdt_elf_sections usdt_elf_symbols embedded_eval)

lemma usdt_embedded: "skeleton_embedded usdt_struct usdt_desc"
  using usdt_license usdt_programs_embedded usdt_maps_embedded usdt_variables_embedded
  by (simp add: skeleton_embedded_def gpl_licensed_def usdt_elf_sections usdt_desc_def)

section \<open>Property\<close>

text \<open>
  C24: each of the fourteen skeletons fits the object it embeds. The table of programs lists exactly the programs of the
  object, one per section of instructions and filling it; the table of maps lists exactly its maps, its data
  sections and its configuration values, under the names libbpf gives them; each field of a mapped section is a
  variable of the object with the same offset and size, and the structure ends where the section ends; the
  license of the object is one that admits the helpers reserved to the GPL.
\<close>

theorem skeletons_fit_objects: "list_all (\<lambda>(st, d). skeleton_embedded st d) all_skeletons"
  by (simp add: all_skeletons_def bootstrap_embedded bootstrap_legacy_embedded fentry_embedded kprobe_embedded ksyscall_embedded
    lsm_embedded minimal_embedded minimal_legacy_embedded minimal_ns_embedded sockfilter_embedded
    task_iter_embedded tc_embedded uprobe_embedded usdt_embedded)

end
