(* ===== verification/C_Types.thy ===== *)
theory C_Types
  imports HE_Prelude
begin

text \<open>
  The C types that the libbpf headers name, and how a C compiler for a 64-bit little-endian machine (the System V
  ABI that clang and gcc follow on x86-64, and the eBPF target) lays out a structure: sizes, alignments, the offset
  of every member, the padding in between and at the end.
\<close>

section \<open>Types\<close>

datatype c_type =
    C_void | C_bool | C_char | C_int | C_long | C_ulong | C_size_t
  | C_u8 | C_u16 | C_u32 | C_u64 | C_s32 | C_s64 | C_be16 | C_be32 | C_wsum
  | C_enum string | C_struct string | C_union string | C_fun string
  | C_ptr c_type | C_const c_type

text \<open>Incomplete structures and unions have no size here: the headers only use pointers to them.\<close>

fun c_size :: "c_type \<Rightarrow> nat" where
  "c_size C_void = 0"
| "c_size C_bool = 1"
| "c_size C_char = 1"
| "c_size C_u8 = 1"
| "c_size C_u16 = 2"
| "c_size C_be16 = 2"
| "c_size C_int = 4"
| "c_size C_u32 = 4"
| "c_size C_s32 = 4"
| "c_size C_be32 = 4"
| "c_size C_wsum = 4"
| "c_size (C_enum _) = 4"
| "c_size C_long = 8"
| "c_size C_ulong = 8"
| "c_size C_size_t = 8"
| "c_size C_u64 = 8"
| "c_size C_s64 = 8"
| "c_size (C_ptr _) = 8"
| "c_size (C_fun _) = 8"
| "c_size (C_const t) = c_size t"
| "c_size (C_struct _) = 0"
| "c_size (C_union _) = 0"

section \<open>Structure layout\<close>

text \<open>
  A member is a field, an unnamed bit field (of width 0, or as wide as its type: the two forms the headers use), or a
  nested structure or union; an anonymous one has the name \<open>''''\<close>.
\<close>

datatype c_member =
    Field string c_type
  | Bits c_type nat
  | Sub_struct string "c_member list"
  | Sub_union string "c_member list"

definition align_up :: "nat \<Rightarrow> nat \<Rightarrow> nat" where
  "align_up off a = (if a = 0 then off else (off + a - 1) div a * a)"

text \<open>
  \<open>member_align\<close> is 0 for an unnamed bit field, which does not raise the alignment of its structure. The size of a
  scalar is its alignment. \<open>struct_end\<close> is the offset behind the last member, before the padding at the end.
\<close>

fun member_align :: "c_member \<Rightarrow> nat" and members_align :: "c_member list \<Rightarrow> nat" where
  "member_align (Field _ t) = c_size t"
| "member_align (Bits _ _) = 0"
| "member_align (Sub_struct _ ms) = members_align ms"
| "member_align (Sub_union _ ms) = members_align ms"
| "members_align [] = 0"
| "members_align (m # ms) = max (member_align m) (members_align ms)"

fun member_size :: "c_member \<Rightarrow> nat" and struct_end :: "nat \<Rightarrow> c_member list \<Rightarrow> nat"
  and union_end :: "c_member list \<Rightarrow> nat" and member_start :: "nat \<Rightarrow> c_member \<Rightarrow> nat" where
  "member_start off (Bits t _) = align_up off (c_size t)"
| "member_start off (Field _ t) = align_up off (c_size t)"
| "member_start off (Sub_struct _ ms) = align_up off (members_align ms)"
| "member_start off (Sub_union _ ms) = align_up off (members_align ms)"
| "member_size (Field _ t) = c_size t"
| "member_size (Bits t w) = w div 8"
| "member_size (Sub_struct _ ms) = align_up (struct_end 0 ms) (members_align ms)"
| "member_size (Sub_union _ ms) = align_up (union_end ms) (members_align ms)"
| "struct_end off [] = off"
| "struct_end off (m # ms) = struct_end (member_start off m + member_size m) ms"
| "union_end [] = 0"
| "union_end (m # ms) = max (member_size m) (union_end ms)"

definition struct_size :: "c_member list \<Rightarrow> nat" where
  "struct_size ms = align_up (struct_end 0 ms) (members_align ms)"

text \<open>
  The named fields of a structure that starts at \<open>off\<close>, each with the offset of its first byte and of the byte behind
  it; a field of a named nested member is written with a dot, as in \<open>uprobe_multi.pid\<close>.
\<close>

definition qualify :: "string \<Rightarrow> (string \<times> nat \<times> nat) list \<Rightarrow> (string \<times> nat \<times> nat) list" where
  "qualify n fs = (if n = '''' then fs else map (\<lambda>(f, se). (n @ ''.'' @ f, se)) fs)"

fun member_fields :: "nat \<Rightarrow> c_member \<Rightarrow> (string \<times> nat \<times> nat) list"
  and struct_fields :: "nat \<Rightarrow> c_member list \<Rightarrow> (string \<times> nat \<times> nat) list"
  and union_fields :: "nat \<Rightarrow> c_member list \<Rightarrow> (string \<times> nat \<times> nat) list" where
  "member_fields at (Field n t) = [(n, at, at + c_size t)]"
| "member_fields at (Bits _ _) = []"
| "member_fields at (Sub_struct n ms) = qualify n (struct_fields at ms)"
| "member_fields at (Sub_union n ms) = qualify n (union_fields at ms)"
| "struct_fields off [] = []"
| "struct_fields off (m # ms) =
     member_fields (member_start off m) m @ struct_fields (member_start off m + member_size m) ms"
| "union_fields at [] = []"
| "union_fields at (m # ms) = member_fields at m @ union_fields at ms"

text \<open>\<open>offsetofend(struct s, field)\<close> of libbpf_internal.h: the offset of the first byte behind a field.\<close>

definition c_fields :: "c_member list \<Rightarrow> (string \<times> nat \<times> nat) list" where
  "c_fields ms = struct_fields 0 ms"

definition offsetofend :: "c_member list \<Rightarrow> string \<Rightarrow> nat option" where
  "offsetofend ms f = map_option snd (map_of (c_fields ms) f)"

section \<open>Facts\<close>

lemma align_up_ge: "off \<le> align_up off a"
proof (cases "a = 0")
  case False
  have "off + a - 1 < (off + a - 1) div a * a + a"
    using False by (metis add.commute div_mult_mod_eq nat_add_left_cancel_less mod_less_divisor neq0_conv)
  then show ?thesis
    using False by (simp add: align_up_def)
qed (simp add: align_up_def)

end
