(* ===== verification/Bpf_Machine.thy ===== *)
theory Bpf_Machine
  imports Elf Helper_Defs
begin

unbundle bit_operations_syntax

text \<open>
  An abstract eBPF machine, and a checker in the manner of the kernel's verifier that accepts a program only if no run of
  it can go wrong. The machine follows the eBPF instruction set: 64-bit registers 0 to 10, arithmetic on words,
  the stack of 512 bytes below register 10, helper calls by number (the numbers, argument counts and results of
  \<open>Helper_Defs\<close>). Of the content of memory only the stack pointers that a program saves on its stack are modelled; every
  other load gives any number of its size. A helper writes at and above the pointers it is given. A register that
  was not written, or that a call has destroyed, has no value and cannot be read.
\<close>

section \<open>Instructions\<close>

datatype alu = Alu_add | Alu_sub | Alu_and | Alu_lsh | Alu_rsh | Alu_arsh | Alu_mov

datatype cond = J_eq | J_ne | J_gt | J_ge | J_sgt

datatype bpf_ins =
    Alu_imm alu nat int
  | Alu_reg alu nat nat
  | To_be nat nat
  | Ld_imm64 nat
  | Ldx nat nat nat int
  | Stx nat nat int nat
  | Jump int
  | Jcc_imm cond nat int int
  | Jcc_reg cond nat nat int
  | Call_helper int
  | Exit_prog

text \<open>
  An opcode is a class (low three bits), a source bit or a size (next bits) and an operation (high bits). \<open>None\<close> is an
  instruction outside this set, and the second slot of a 64-bit load.
\<close>

definition alu_of :: "nat \<Rightarrow> alu option" where
  "alu_of c = map_of [(0, Alu_add), (1, Alu_sub), (5, Alu_and), (6, Alu_lsh), (7, Alu_rsh), (0xb, Alu_mov), (0xc, Alu_arsh)] c"

definition cond_of :: "nat \<Rightarrow> cond option" where
  "cond_of c = map_of [(1, J_eq), (2, J_gt), (3, J_ge), (5, J_ne), (6, J_sgt)] c"

definition mem_size :: "nat \<Rightarrow> nat" where
  "mem_size op = [4, 2, 1, 8] ! (op div 8 mod 4)"

definition classify :: "insn \<Rightarrow> bpf_ins option" where
  "classify i =
     (let op = i_op i; cls = op mod 8; code = op div 16; by_reg = (op div 8 mod 2 = 1) in
      if op = 0x18 then Some (Ld_imm64 (i_dst i))
      else if op = 0x85 then (if i_src i = 0 then Some (Call_helper (i_imm i)) else None)
      else if op = 0x95 then Some Exit_prog
      else if op = 0x05 then Some (Jump (i_off i))
      else if op = 0xdc then Some (To_be (i_dst i) (nat (i_imm i)))
      else if cls = 7 then
        map_option (\<lambda>a. if by_reg then Alu_reg a (i_dst i) (i_src i) else Alu_imm a (i_dst i) (i_imm i)) (alu_of code)
      else if cls = 5 then
        map_option (\<lambda>c. if by_reg then Jcc_reg c (i_dst i) (i_src i) (i_off i)
                        else Jcc_imm c (i_dst i) (i_imm i) (i_off i)) (cond_of code)
      else if cls = 1 \<and> op div 32 = 3 then Some (Ldx (mem_size op) (i_dst i) (i_src i) (i_off i))
      else if cls = 3 \<and> op div 32 = 3 then Some (Stx (mem_size op) (i_dst i) (i_off i) (i_src i))
      else None)"

section \<open>Values and states\<close>

text \<open>A number, or a pointer into the stack: its distance from register 10.\<close>

datatype rval = V_num u64 | V_fp int

type_synonym regfile = "nat \<Rightarrow> rval option"

definition alu_value :: "alu \<Rightarrow> u64 \<Rightarrow> u64 \<Rightarrow> u64" where
  "alu_value a x y =
     (case a of
        Alu_add \<Rightarrow> x + y
      | Alu_sub \<Rightarrow> x - y
      | Alu_and \<Rightarrow> x AND y
      | Alu_lsh \<Rightarrow> push_bit (unat (y AND 63)) x
      | Alu_rsh \<Rightarrow> drop_bit (unat (y AND 63)) x
      | Alu_arsh \<Rightarrow> signed_drop_bit (unat (y AND 63)) x
      | Alu_mov \<Rightarrow> y)"

text \<open>
  An operation on two values: on numbers as above; a copy keeps a stack pointer, adding a number moves it; everything
  else on stack pointers is an error.
\<close>

definition alu_rval :: "alu \<Rightarrow> rval option \<Rightarrow> rval \<Rightarrow> rval option" where
  "alu_rval a x y =
     (if a = Alu_mov then Some y
      else (case (x, y) of
              (Some (V_num m), V_num n) \<Rightarrow> Some (V_num (alu_value a m n))
            | (Some (V_fp d), V_num n) \<Rightarrow> if a = Alu_add then Some (V_fp (d + sint n)) else None
            | _ \<Rightarrow> None))"

definition cond_holds :: "cond \<Rightarrow> u64 \<Rightarrow> u64 \<Rightarrow> bool" where
  "cond_holds c x y =
     (case c of J_eq \<Rightarrow> x = y | J_ne \<Rightarrow> x \<noteq> y | J_gt \<Rightarrow> y < x | J_ge \<Rightarrow> y \<le> x | J_sgt \<Rightarrow> sint y < sint x)"

text \<open>The stack has 512 bytes: an access through a stack pointer must lie inside.\<close>

definition in_stack :: "int \<Rightarrow> nat \<Rightarrow> bool" where
  "in_stack d sz \<longleftrightarrow> -512 \<le> d \<and> d + int sz \<le> 0"

text \<open>
  The eight-byte slots of the stack where a program has saved a stack pointer: still there (\<open>Saved\<close>), or perhaps
  overwritten in part or in full (\<open>Mixed\<close>). The first entry for an offset counts.
\<close>

datatype slot = Saved int | Mixed

type_synonym slots = "(int \<times> slot) list"

definition overlap :: "int \<Rightarrow> int \<Rightarrow> nat \<Rightarrow> bool" where
  "overlap p d sz \<longleftrightarrow> p < d + int sz \<and> d < p + 8"

definition touch :: "(int \<Rightarrow> bool) \<Rightarrow> slots \<Rightarrow> slots" where
  "touch hit m = map (\<lambda>(p, x). (p, if hit p then Mixed else x)) m"

definition store_num :: "int \<Rightarrow> nat \<Rightarrow> slots \<Rightarrow> slots" where
  "store_num d sz = touch (\<lambda>p. overlap p d sz)"

definition save_ptr :: "int \<Rightarrow> int \<Rightarrow> slots \<Rightarrow> slots" where
  "save_ptr d k m = (d, Saved k) # store_num d 8 m"

text \<open>Pointers given to a helper: it may write every byte from them upwards.\<close>

definition call_slots :: "int list \<Rightarrow> slots \<Rightarrow> slots" where
  "call_slots ptrs = touch (\<lambda>p. list_ex (\<lambda>k. k < p + 8) ptrs)"

text \<open>Reading the stack: \<open>Some None\<close> is a number, \<open>Some (Some k)\<close> the saved pointer \<open>k\<close>, \<open>None\<close> an error.\<close>

definition stack_read :: "slots \<Rightarrow> int \<Rightarrow> nat \<Rightarrow> int option option" where
  "stack_read m d sz =
     (if list_all (\<lambda>(p, x). \<not> overlap p d sz) m then Some None
      else if sz = 8 \<and> list_all (\<lambda>(p, x). overlap p d 8 \<longrightarrow> p = d) m then
        (case map_of m d of Some (Saved k) \<Rightarrow> Some (Some k) | _ \<Rightarrow> None)
      else None)"

text \<open>A load of \<open>sz\<close> bytes gives some number of that size, and so does the network byte order of the low \<open>8 * sz\<close> bits.\<close>

definition fits_bytes :: "nat \<Rightarrow> u64 \<Rightarrow> bool" where
  "fits_bytes sz n \<longleftrightarrow> unat n < 256 ^ sz"

record bpf_conf =
  c_pc :: nat
  c_regs :: regfile
  c_slots :: slots

definition fetch :: "insn list \<Rightarrow> nat \<Rightarrow> bpf_ins option" where
  "fetch P pc = (if pc < length P then classify (P ! pc) else None)"

text \<open>The target of a jump that is taken or not; \<open>None\<close> is a target before the program.\<close>

definition jump_to :: "nat \<Rightarrow> bool \<Rightarrow> int \<Rightarrow> nat option" where
  "jump_to pc taken off =
     (if \<not> taken then Some (Suc pc) else if 0 \<le> int pc + 1 + off then Some (nat (int pc + 1 + off)) else None)"

text \<open>After a call register 0 holds the result and registers 1 to 5 hold nothing.\<close>

definition after_call :: "regfile \<Rightarrow> u64 \<Rightarrow> regfile" where
  "after_call r n = (\<lambda>q. if q = 0 then Some (V_num n) else if q \<le> 5 then None else r q)"

definition helper_arity :: "int \<Rightarrow> nat option" where
  "helper_arity f = map_option (\<lambda>h. length (h_params h)) (helper_of f)"

text \<open>The stack pointers among the arguments 1 to \<open>k\<close>.\<close>

definition ptr_args :: "regfile \<Rightarrow> nat \<Rightarrow> int list" where
  "ptr_args r k = concat (map (\<lambda>q. case r q of Some (V_fp d) \<Rightarrow> [d] | _ \<Rightarrow> []) [1..<Suc k])"

section \<open>Steps\<close>

inductive bpf_step :: "insn list \<Rightarrow> bpf_conf \<Rightarrow> bpf_conf \<Rightarrow> bool" for P where
  step_alu_imm:
    "\<lbrakk>fetch P pc = Some (Alu_imm a d imm); alu_rval a (r d) (V_num (of_int imm)) = Some v\<rbrakk> \<Longrightarrow>
     bpf_step P \<lparr>c_pc = pc, c_regs = r, c_slots = m\<rparr> \<lparr>c_pc = Suc pc, c_regs = r(d \<mapsto> v), c_slots = m\<rparr>"
| step_alu_reg:
    "\<lbrakk>fetch P pc = Some (Alu_reg a d s); r s = Some y; alu_rval a (r d) y = Some v\<rbrakk> \<Longrightarrow>
     bpf_step P \<lparr>c_pc = pc, c_regs = r, c_slots = m\<rparr> \<lparr>c_pc = Suc pc, c_regs = r(d \<mapsto> v), c_slots = m\<rparr>"
| step_be:
    "\<lbrakk>fetch P pc = Some (To_be d bits); r d = Some (V_num x); fits_bytes (bits div 8) n\<rbrakk> \<Longrightarrow>
     bpf_step P \<lparr>c_pc = pc, c_regs = r, c_slots = m\<rparr> \<lparr>c_pc = Suc pc, c_regs = r(d \<mapsto> V_num n), c_slots = m\<rparr>"
| step_ld_imm64:
    "\<lbrakk>fetch P pc = Some (Ld_imm64 d)\<rbrakk> \<Longrightarrow>
     bpf_step P \<lparr>c_pc = pc, c_regs = r, c_slots = m\<rparr> \<lparr>c_pc = Suc (Suc pc), c_regs = r(d \<mapsto> V_num n), c_slots = m\<rparr>"
| step_ldx:
    "\<lbrakk>fetch P pc = Some (Ldx sz d s off); r s = Some (V_num a); fits_bytes sz n\<rbrakk> \<Longrightarrow>
     bpf_step P \<lparr>c_pc = pc, c_regs = r, c_slots = m\<rparr> \<lparr>c_pc = Suc pc, c_regs = r(d \<mapsto> V_num n), c_slots = m\<rparr>"
| step_ldx_stack:
    "\<lbrakk>fetch P pc = Some (Ldx sz d s off); r s = Some (V_fp b); in_stack (b + off) sz;
      stack_read m (b + off) sz = Some None; fits_bytes sz n\<rbrakk> \<Longrightarrow>
     bpf_step P \<lparr>c_pc = pc, c_regs = r, c_slots = m\<rparr> \<lparr>c_pc = Suc pc, c_regs = r(d \<mapsto> V_num n), c_slots = m\<rparr>"
| step_ldx_saved:
    "\<lbrakk>fetch P pc = Some (Ldx sz d s off); r s = Some (V_fp b); in_stack (b + off) sz;
      stack_read m (b + off) sz = Some (Some k)\<rbrakk> \<Longrightarrow>
     bpf_step P \<lparr>c_pc = pc, c_regs = r, c_slots = m\<rparr> \<lparr>c_pc = Suc pc, c_regs = r(d \<mapsto> V_fp k), c_slots = m\<rparr>"
| step_stx:
    "\<lbrakk>fetch P pc = Some (Stx sz d off s); r d = Some (V_num a); r s = Some (V_num n)\<rbrakk> \<Longrightarrow>
     bpf_step P \<lparr>c_pc = pc, c_regs = r, c_slots = m\<rparr> \<lparr>c_pc = Suc pc, c_regs = r, c_slots = m\<rparr>"
| step_stx_stack:
    "\<lbrakk>fetch P pc = Some (Stx sz d off s); r d = Some (V_fp b); in_stack (b + off) sz; r s = Some (V_num n)\<rbrakk> \<Longrightarrow>
     bpf_step P \<lparr>c_pc = pc, c_regs = r, c_slots = m\<rparr> \<lparr>c_pc = Suc pc, c_regs = r, c_slots = store_num (b + off) sz m\<rparr>"
| step_stx_save:
    "\<lbrakk>fetch P pc = Some (Stx 8 d off s); r d = Some (V_fp b); in_stack (b + off) 8; r s = Some (V_fp k)\<rbrakk> \<Longrightarrow>
     bpf_step P \<lparr>c_pc = pc, c_regs = r, c_slots = m\<rparr> \<lparr>c_pc = Suc pc, c_regs = r, c_slots = save_ptr (b + off) k m\<rparr>"
| step_jump:
    "\<lbrakk>fetch P pc = Some (Jump off); jump_to pc True off = Some pc'\<rbrakk> \<Longrightarrow>
     bpf_step P \<lparr>c_pc = pc, c_regs = r, c_slots = m\<rparr> \<lparr>c_pc = pc', c_regs = r, c_slots = m\<rparr>"
| step_jcc_imm:
    "\<lbrakk>fetch P pc = Some (Jcc_imm c d imm off); r d = Some (V_num x);
      jump_to pc (cond_holds c x (of_int imm)) off = Some pc'\<rbrakk> \<Longrightarrow>
     bpf_step P \<lparr>c_pc = pc, c_regs = r, c_slots = m\<rparr> \<lparr>c_pc = pc', c_regs = r, c_slots = m\<rparr>"
| step_jcc_reg:
    "\<lbrakk>fetch P pc = Some (Jcc_reg c d s off); r d = Some (V_num x); r s = Some (V_num y);
      jump_to pc (cond_holds c x y) off = Some pc'\<rbrakk> \<Longrightarrow>
     bpf_step P \<lparr>c_pc = pc, c_regs = r, c_slots = m\<rparr> \<lparr>c_pc = pc', c_regs = r, c_slots = m\<rparr>"
| step_call:
    "\<lbrakk>fetch P pc = Some (Call_helper f); helper_arity f = Some k; \<forall>q \<in> {1..k}. r q \<noteq> None\<rbrakk> \<Longrightarrow>
     bpf_step P \<lparr>c_pc = pc, c_regs = r, c_slots = m\<rparr> \<lparr>c_pc = Suc pc, c_regs = after_call r n, c_slots = call_slots (ptr_args r k) m\<rparr>"

text \<open>A program ends at an exit with a number in register 0.\<close>

definition at_exit :: "insn list \<Rightarrow> bpf_conf \<Rightarrow> bool" where
  "at_exit P c \<longleftrightarrow> fetch P (c_pc c) = Some Exit_prog \<and> (\<exists>n. c_regs c 0 = Some (V_num n))"

text \<open>It starts with the context in register 1 and the frame pointer in register 10.\<close>

definition bpf_init :: "u64 \<Rightarrow> bpf_conf" where
  "bpf_init ctx = \<lparr>c_pc = 0, c_regs = [1 \<mapsto> V_num ctx, 10 \<mapsto> V_fp 0], c_slots = []\<rparr>"

section \<open>The checker\<close>

text \<open>What is known of a register: a number, or a stack pointer at a known distance; \<open>None\<close> is nothing.\<close>

datatype rty = T_num | T_fp int

type_synonym regs_ty = "rty option list"

text \<open>What is known at an instruction: of the registers, and of the saved stack pointers.\<close>

type_synonym known = "regs_ty \<times> slots"

definition reg_ty :: "regs_ty \<Rightarrow> nat \<Rightarrow> rty option" where
  "reg_ty a q = (if q < length a then a ! q else None)"

definition set_ty :: "regs_ty \<Rightarrow> nat \<Rightarrow> rty \<Rightarrow> regs_ty option" where
  "set_ty a q t = (if q < 10 then Some (a[q := Some t]) else None)"

definition alu_ty :: "alu \<Rightarrow> rty option \<Rightarrow> rty \<Rightarrow> rty option" where
  "alu_ty op x y = (if op = Alu_mov then Some y else if x = Some T_num \<and> y = T_num then Some T_num else None)"

text \<open>Adding a constant moves a stack pointer.\<close>

definition alu_imm_ty :: "alu \<Rightarrow> rty option \<Rightarrow> int \<Rightarrow> rty option" where
  "alu_imm_ty op x imm =
     (case x of
        Some (T_fp k) \<Rightarrow> if op = Alu_add then Some (T_fp (k + sint (of_int imm :: u64))) else alu_ty op x T_num
      | _ \<Rightarrow> alu_ty op x T_num)"

definition call_ty :: "regs_ty \<Rightarrow> regs_ty" where
  "call_ty a = [Some T_num, None, None, None, None, None] @ drop 6 a"

definition ptr_args_ty :: "regs_ty \<Rightarrow> nat \<Rightarrow> int list" where
  "ptr_args_ty a k = concat (map (\<lambda>q. case reg_ty a q of Some (T_fp d) \<Rightarrow> [d] | _ \<Rightarrow> []) [1..<Suc k])"

definition goto_next :: "regs_ty option \<Rightarrow> slots \<Rightarrow> (int \<times> known) list option" where
  "goto_next b m = map_option (\<lambda>b. [(1, b, m)]) b"

text \<open>
  The effect of an instruction on what is known: the successors, as distances from the instruction, with what is known
  there. \<open>None\<close> rejects.
\<close>

fun eff :: "bpf_ins \<Rightarrow> known \<Rightarrow> (int \<times> known) list option" where
  "eff (Alu_imm op d imm) (a, m) =
     Option.bind (alu_imm_ty op (reg_ty a d) imm) (\<lambda>t. goto_next (set_ty a d t) m)"
| "eff (Alu_reg op d s) (a, m) =
     Option.bind (reg_ty a s) (\<lambda>y. Option.bind (alu_ty op (reg_ty a d) y) (\<lambda>t. goto_next (set_ty a d t) m))"
| "eff (To_be d bits) (a, m) = (if reg_ty a d = Some T_num then goto_next (set_ty a d T_num) m else None)"
| "eff (Ld_imm64 d) (a, m) = map_option (\<lambda>b. [(2, b, m)]) (set_ty a d T_num)"
| "eff (Ldx sz d s off) (a, m) =
     (case reg_ty a s of
        Some T_num \<Rightarrow> goto_next (set_ty a d T_num) m
      | Some (T_fp b) \<Rightarrow>
          if in_stack (b + off) sz then
            (case stack_read m (b + off) sz of
               Some None \<Rightarrow> goto_next (set_ty a d T_num) m
             | Some (Some k) \<Rightarrow> goto_next (set_ty a d (T_fp k)) m
             | None \<Rightarrow> None)
          else None
      | None \<Rightarrow> None)"
| "eff (Stx sz d off s) (a, m) =
     (case (reg_ty a d, reg_ty a s) of
        (Some T_num, Some T_num) \<Rightarrow> goto_next (Some a) m
      | (Some (T_fp b), Some T_num) \<Rightarrow>
          if in_stack (b + off) sz then goto_next (Some a) (store_num (b + off) sz m) else None
      | (Some (T_fp b), Some (T_fp k)) \<Rightarrow>
          if in_stack (b + off) 8 \<and> sz = 8 then goto_next (Some a) (save_ptr (b + off) k m) else None
      | _ \<Rightarrow> None)"
| "eff (Jump off) (a, m) = Some [(1 + off, a, m)]"
| "eff (Jcc_imm c d imm off) (a, m) = (if reg_ty a d = Some T_num then Some [(1 + off, a, m), (1, a, m)] else None)"
| "eff (Jcc_reg c d s off) (a, m) =
     (if reg_ty a d = Some T_num \<and> reg_ty a s = Some T_num then Some [(1 + off, a, m), (1, a, m)] else None)"
| "eff (Call_helper f) (a, m) =
     (case helper_arity f of
        Some k \<Rightarrow>
          if list_all (\<lambda>q. reg_ty a q \<noteq> None) [1..<Suc k]
          then Some [(1, call_ty a, call_slots (ptr_args_ty a k) m)] else None
      | None \<Rightarrow> None)"
| "eff Exit_prog (a, m) = (if reg_ty a 0 = Some T_num then Some [] else None)"

definition ins_eff :: "insn \<Rightarrow> known \<Rightarrow> (int \<times> known) list option" where
  "ins_eff i a = Option.bind (classify i) (\<lambda>x. eff x a)"

text \<open>
  One pass over the program computes what is known at every instruction; \<open>None\<close> marks an instruction that is not
  reached. A second pass checks the result; only this pass has to be right for the theorems below. Both passes take the
  effect of an instruction as an argument, so that a larger machine can use them with its own.
\<close>

definition merge_known :: "known option \<Rightarrow> known \<Rightarrow> known" where
  "merge_known old new =
     (case (old, new) of
        (None, _) \<Rightarrow> new
      | (Some (a, m), (b, n)) \<Rightarrow>
          (map2 (\<lambda>x y. if x = y then x else None) a b, if m = n then m else touch (\<lambda>_. True) (m @ n)))"

definition flow :: "int \<times> known \<Rightarrow> known option list \<Rightarrow> known option list" where
  "flow s ts =
     (let k = nat (fst s - 1) in if k < length ts then ts[k := Some (merge_known (ts ! k) (snd s))] else ts)"

fun infer :: "('i \<Rightarrow> known \<Rightarrow> (int \<times> known) list option) \<Rightarrow> 'i list \<Rightarrow> known option list \<Rightarrow> known option list" where
  "infer f (i # is) (t # ts) =
     t # infer f is (case Option.bind t (f i) of None \<Rightarrow> ts | Some ss \<Rightarrow> fold flow ss ts)"
| "infer f _ _ = []"

definition regs_below :: "regs_ty \<Rightarrow> regs_ty \<Rightarrow> bool" where
  "regs_below a b = list_all2 (\<lambda>x y. y = None \<or> x = y) a b"

definition slots_below :: "slots \<Rightarrow> slots \<Rightarrow> bool" where
  "slots_below m n =
     (list_all (\<lambda>(p, x). case map_of n p of Some (Saved k) \<Rightarrow> map_of m p = Some (Saved k) | _ \<Rightarrow> True) n \<and>
      list_all (\<lambda>(p, x). map_of n p \<noteq> None) m)"

definition fits_at :: "known option list \<Rightarrow> int \<times> known \<Rightarrow> bool" where
  "fits_at ts s =
     (1 \<le> fst s \<and> nat (fst s - 1) < length ts \<and>
      (case (ts ! nat (fst s - 1), snd s) of
         (Some (b, n), (a, m)) \<Rightarrow> regs_below a b \<and> slots_below m n
       | _ \<Rightarrow> False))"

fun well_typed :: "('i \<Rightarrow> known \<Rightarrow> (int \<times> known) list option) \<Rightarrow> 'i list \<Rightarrow> known option list \<Rightarrow> bool" where
  "well_typed f [] [] = True"
| "well_typed f (i # is) (t # ts) =
     ((case t of
         None \<Rightarrow> True
       | Some a \<Rightarrow> (case f i a of None \<Rightarrow> False | Some ss \<Rightarrow> list_all (fits_at ts) ss)) \<and>
      well_typed f is ts)"
| "well_typed f _ _ = False"

definition init_known :: known where
  "init_known = ([None, Some T_num, None, None, None, None, None, None, None, None, Some (T_fp 0)], [])"

definition bpf_check :: "insn list \<Rightarrow> bool" where
  "bpf_check P = (P \<noteq> [] \<and> well_typed ins_eff P (infer ins_eff P (Some init_known # replicate (length P - 1) None)))"

section \<open>The helpers the programs call\<close>

lemma helper_arities_eq:
  "map (\<lambda>h. length (h_params h)) helper_decls =
    [2, 4, 2, 3, 0, 2, 0, 0, 5, 5, 5, 3, 3, 0, 0, 2, 1, 3, 1, 4, 4, 2, 2, 1, 5, 4, 3, 5, 3, 3, 3, 2, 3, 1, 0,
    3, 2, 3, 2, 2, 1, 0, 3, 2, 3, 1, 1, 2, 5, 4, 3, 4, 4, 2, 4, 3, 5, 2, 2, 4, 2, 2, 4, 3, 2, 5, 4, 5, 4, 4,
    4, 4, 4, 4, 3, 4, 1, 4, 1, 0, 2, 4, 2, 5, 5, 1, 3, 2, 2, 4, 4, 3, 1, 1, 1, 1, 1, 1, 5, 5, 4, 3, 3, 3, 4,
    4, 4, 2, 1, 5, 5, 3, 3, 3, 3, 2, 1, 0, 4, 4, 5, 1, 1, 3, 0, 5, 3, 1, 2, 4, 3, 2, 2, 2, 2, 1, 1, 1, 1, 1,
    4, 4, 4, 3, 4, 2, 3, 3, 5, 4, 1, 4, 2, 1, 2, 4, 2, 0, 2, 0, 3, 1, 5, 4, 5, 3, 4, 1, 3, 2, 3, 1, 1, 1, 1,
    3, 4, 1, 4, 5, 4, 3, 3, 2, 1, 0, 1, 1, 4, 4, 5, 3, 3, 2, 3, 1, 4, 4, 2, 2, 5, 5, 3, 3, 3, 2, 2, 0, 4, 4,
    2]"
  by (simp add: helper_decls_def helper_tables)

lemma helper_arity_nth:
  "helper_arity n =
    (if 1 \<le> n \<and> n \<le> 211 then Some (map (\<lambda>h. length (h_params h)) helper_decls ! (nat n - 1)) else None)"
proof -
  have "length helper_decls = 211"
    using arg_cong [OF helper_decls_ids, of length] by simp
  then show ?thesis
    by (auto simp: helper_arity_def helper_of_def)
qed

lemma helper_arity_values:
  "helper_arity 1 = Some 2"
  "helper_arity 2 = Some 4"
  "helper_arity 3 = Some 2"
  "helper_arity 5 = Some 0"
  "helper_arity 6 = Some 2"
  "helper_arity 14 = Some 0"
  "helper_arity 16 = Some 2"
  "helper_arity 25 = Some 5"
  "helper_arity 26 = Some 4"
  "helper_arity 35 = Some 0"
  "helper_arity 45 = Some 3"
  "helper_arity 112 = Some 3"
  "helper_arity 113 = Some 3"
  "helper_arity 115 = Some 3"
  "helper_arity 120 = Some 4"
  "helper_arity 127 = Some 3"
  "helper_arity 131 = Some 3"
  "helper_arity 132 = Some 2"
  "helper_arity 141 = Some 4"
  "helper_arity 174 = Some 1"
  "helper_arity 177 = Some 4"
  by (simp_all add: helper_arity_nth helper_arities_eq)

end
