(* ===== verification/Bpf_Sound.thy ===== *)
theory Bpf_Sound
  imports Bpf_Machine
begin

text \<open>
  The checker of \<open>Bpf_Machine\<close> is sound: what it knows holds in every run (preservation), a program it accepts can
  always go on until its exit (progress), and since it accepts only forward jumps, the exit comes after fewer
  steps than the program has instructions.
\<close>

section \<open>What is known holds\<close>

definition has_ty :: "rval \<Rightarrow> rty \<Rightarrow> bool" where
  "has_ty v t = (case (v, t) of (V_num _, T_num) \<Rightarrow> True | (V_fp d, T_fp k) \<Rightarrow> d = k | _ \<Rightarrow> False)"

definition regs_ok :: "regs_ty \<Rightarrow> regfile \<Rightarrow> bool" where
  "regs_ok a r \<longleftrightarrow> (\<forall>q t. reg_ty a q = Some t \<longrightarrow> (\<exists>v. r q = Some v \<and> has_ty v t))"

definition slots_ok :: "slots \<Rightarrow> slots \<Rightarrow> bool" where
  "slots_ok m M \<longleftrightarrow>
     (\<forall>p k. map_of m p = Some (Saved k) \<longrightarrow> map_of M p = Some (Saved k)) \<and>
     (\<forall>p. map_of m p = None \<longrightarrow> map_of M p = None)"

lemma has_ty_simps [simp]:
  "has_ty v T_num \<longleftrightarrow> (\<exists>n. v = V_num n)" "has_ty v (T_fp k) \<longleftrightarrow> v = V_fp k"
  by (auto simp: has_ty_def split: rval.split)

lemma regs_okD: "\<lbrakk>regs_ok a r; reg_ty a q = Some t\<rbrakk> \<Longrightarrow> \<exists>v. r q = Some v \<and> has_ty v t"
  by (simp add: regs_ok_def)

lemma regs_ok_num: "\<lbrakk>regs_ok a r; reg_ty a q = Some T_num\<rbrakk> \<Longrightarrow> \<exists>n. r q = Some (V_num n)"
  by (auto dest: regs_okD)

lemma regs_ok_fp: "\<lbrakk>regs_ok a r; reg_ty a q = Some (T_fp k)\<rbrakk> \<Longrightarrow> r q = Some (V_fp k)"
  by (auto dest: regs_okD)

lemma regs_ok_set: "\<lbrakk>regs_ok a r; set_ty a q t = Some b; has_ty v t\<rbrakk> \<Longrightarrow> regs_ok b (r(q \<mapsto> v))"
  by (auto simp: regs_ok_def set_ty_def reg_ty_def nth_list_update split: if_splits)

lemma regs_ok_call: "regs_ok a r \<Longrightarrow> regs_ok (call_ty a) (after_call r n)"
proof (unfold regs_ok_def, intro allI impI)
  fix q t
  assume r: "\<forall>q t. reg_ty a q = Some t \<longrightarrow> (\<exists>v. r q = Some v \<and> has_ty v t)"
    and known: "reg_ty (call_ty a) q = Some t"
  show "\<exists>v. after_call r n q = Some v \<and> has_ty v t"
  proof (cases "q < 6")
    case True
    then have "q = 0 \<or> q = 1 \<or> q = 2 \<or> q = 3 \<or> q = 4 \<or> q = 5"
      by linarith
    then show ?thesis
      using known by (auto simp: reg_ty_def call_ty_def after_call_def)
  next
    case False
    then have "reg_ty a q = Some t"
      using known by (auto simp: reg_ty_def call_ty_def nth_append nth_Cons' split: if_splits)
    then show ?thesis
      using r False by (simp add: after_call_def)
  qed
qed

lemma regs_ok_below: "\<lbrakk>regs_ok a r; regs_below a b\<rbrakk> \<Longrightarrow> regs_ok b r"
  by (fastforce simp: regs_ok_def regs_below_def reg_ty_def list_all2_conv_all_nth split: if_splits)

section \<open>Saved pointers\<close>

lemma map_of_touch: "map_of (touch hit m) p = map_option (\<lambda>x. if hit p then Mixed else x) (map_of m p)"
  by (induction m) (auto simp: touch_def)

lemma slots_ok_touch: "slots_ok m M \<Longrightarrow> slots_ok (touch hit m) (touch hit M)"
  by (auto simp: slots_ok_def map_of_touch split: if_splits)

lemma slots_ok_store [simp]: "slots_ok m M \<Longrightarrow> slots_ok (store_num d sz m) (store_num d sz M)"
  by (simp add: store_num_def slots_ok_touch)

lemma slots_ok_save [simp]: "slots_ok m M \<Longrightarrow> slots_ok (save_ptr d k m) (save_ptr d k M)"
  using slots_ok_store [of m M d 8] by (simp add: slots_ok_def save_ptr_def)

lemma slots_ok_call [simp]: "slots_ok m M \<Longrightarrow> slots_ok (call_slots ps m) (call_slots ps M)"
  by (simp add: call_slots_def slots_ok_touch)

lemma slots_ok_below:
  assumes "slots_ok m M" and "slots_below m n"
  shows "slots_ok n M"
  unfolding slots_ok_def
proof (intro conjI allI impI)
  fix p k
  assume "map_of n p = Some (Saved k)"
  moreover from this have "(p, Saved k) \<in> set n"
    by (rule map_of_SomeD)
  ultimately have "map_of m p = Some (Saved k)"
    using assms(2) by (fastforce simp: slots_below_def list_all_iff)
  then show "map_of M p = Some (Saved k)"
    using assms(1) by (simp add: slots_ok_def)
next
  fix p
  assume n: "map_of n p = None"
  have "map_of m p = None"
  proof (rule ccontr)
    assume "map_of m p \<noteq> None"
    then obtain x where "(p, x) \<in> set m"
      by (auto dest: map_of_SomeD)
    then show False
      using assms(2) n by (auto simp: slots_below_def list_all_iff)
  qed
  then show "map_of M p = None"
    using assms(1) by (simp add: slots_ok_def)
qed

lemma slots_ok_entry: "\<lbrakk>slots_ok m M; (p, x) \<in> set M\<rbrakk> \<Longrightarrow> \<exists>y. (p, y) \<in> set m"
  by (metis map_of_SomeD map_of_eq_None_iff not_None_eq slots_ok_def image_eqI fst_conv)

lemma stack_read_ok:
  assumes "slots_ok m M" and "stack_read m d sz = Some w"
  shows "stack_read M d sz = Some w"
proof -
  have keep: "list_all (\<lambda>(p, x). Q p) M" if "list_all (\<lambda>(p, x). Q p) m" for Q
    using that slots_ok_entry [OF assms(1)] by (fastforce simp: list_all_iff)
  show ?thesis
  proof (cases "list_all (\<lambda>(p, x). \<not> overlap p d sz) m")
    case True
    then show ?thesis
      using assms(2) keep [OF True] by (simp add: stack_read_def)
  next
    case False
    then obtain k where w: "w = Some k" "sz = 8" "map_of m d = Some (Saved k)"
      and only: "list_all (\<lambda>(p, x). overlap p d 8 \<longrightarrow> p = d) m"
      using assms(2) by (auto simp: stack_read_def split: if_splits option.splits slot.splits)
    then have saved: "map_of M d = Some (Saved k)"
      using assms(1) by (simp add: slots_ok_def)
    then have "\<not> list_all (\<lambda>(p, x). \<not> overlap p d sz) M"
      using w(2) map_of_SomeD [OF saved] by (fastforce simp: list_all_iff overlap_def)
    then show ?thesis
      using keep [OF only] w saved by (simp add: stack_read_def)
  qed
qed

lemma ptr_args_known:
  assumes "regs_ok a r" and "list_all (\<lambda>q. reg_ty a q \<noteq> None) [1..<Suc k]"
  shows "ptr_args r k = ptr_args_ty a k" and "\<forall>q \<in> {1..k}. r q \<noteq> None"
proof -
  have reg: "\<exists>t v. reg_ty a q = Some t \<and> r q = Some v \<and> has_ty v t" if "q \<in> set [1..<Suc k]" for q
    using assms that regs_okD [OF assms(1)] by (fastforce simp: list_all_iff)
  have "(case r q of Some (V_fp d) \<Rightarrow> [d] | _ \<Rightarrow> []) = (case reg_ty a q of Some (T_fp d) \<Rightarrow> [d] | _ \<Rightarrow> [])"
    if q: "q \<in> set [1..<Suc k]" for q
  proof -
    obtain t v where "reg_ty a q = Some t" "r q = Some v" "has_ty v t"
      using reg [OF q] by blast
    then show ?thesis
      by (cases t) auto
  qed
  then show "ptr_args r k = ptr_args_ty a k"
    unfolding ptr_args_def ptr_args_ty_def by (metis (mono_tags, lifting) map_eq_conv)
  show "\<forall>q \<in> {1..k}. r q \<noteq> None"
    using reg by fastforce
qed

section \<open>Steps\<close>

text \<open>A configuration is known at an instruction.\<close>

definition conf_ok :: "known \<Rightarrow> bpf_conf \<Rightarrow> bool" where
  "conf_ok k c \<longleftrightarrow> regs_ok (fst k) (c_regs c) \<and> slots_ok (snd k) (c_slots c)"

definition reaches :: "nat \<Rightarrow> bpf_conf \<Rightarrow> int \<times> known \<Rightarrow> bool" where
  "reaches pc c s \<longleftrightarrow> int (c_pc c) = int pc + fst s \<and> conf_ok (snd s) c"

lemma alu_ok:
  assumes "alu_ty op (reg_ty a d) t = Some t'" and "regs_ok a r" and "has_ty y t"
  shows "\<exists>v. alu_rval op (r d) y = Some v"
    and "alu_rval op (r d) y = Some v \<Longrightarrow> has_ty v t'"
  using assms by (auto simp: alu_ty_def alu_rval_def dest!: regs_ok_num split: if_splits)

lemma alu_imm_ok:
  assumes "alu_imm_ty op (reg_ty a d) imm = Some t" and "regs_ok a r"
  shows "\<exists>v. alu_rval op (r d) (V_num (of_int imm)) = Some v"
    and "alu_rval op (r d) (V_num (of_int imm)) = Some v \<Longrightarrow> has_ty v t"
proof -
  have num: "has_ty (V_num (of_int imm)) T_num"
    by simp
  have "(\<exists>v. alu_rval op (r d) (V_num (of_int imm)) = Some v) \<and>
      (\<forall>v. alu_rval op (r d) (V_num (of_int imm)) = Some v \<longrightarrow> has_ty v t)"
  proof (cases "\<exists>k. reg_ty a d = Some (T_fp k) \<and> op = Alu_add")
    case True
    then show ?thesis
      using assms by (auto simp: alu_imm_ty_def alu_rval_def dest!: regs_ok_fp)
  next
    case False
    then have "alu_ty op (reg_ty a d) T_num = Some t"
      using assms(1) by (auto simp: alu_imm_ty_def split: option.splits rty.splits if_splits)
    then show ?thesis
      using alu_ok [OF _ assms(2) num] by blast
  qed
  then show "\<exists>v. alu_rval op (r d) (V_num (of_int imm)) = Some v"
    and "alu_rval op (r d) (V_num (of_int imm)) = Some v \<Longrightarrow> has_ty v t"
    by blast+
qed

lemma goto_next_known:
  "goto_next b m = Some ss \<longleftrightarrow> (\<exists>a. b = Some a \<and> ss = [(1, a, m)])"
  by (auto simp: goto_next_def)

lemmas eff_simps =
  goto_next_known reaches_def conf_ok_def jump_to_def

text \<open>What the acceptance of a load, a store or a call says about the registers and the stack.\<close>

lemma ldx_known:
  assumes "eff (Ldx sz d s off) (a, m) = Some ss" and "regs_ok a r" and "slots_ok m M"
  shows "(\<exists>n b. r s = Some (V_num n) \<and> set_ty a d T_num = Some b \<and> ss = [(1, b, m)]) \<or>
    (\<exists>p w b. r s = Some (V_fp p) \<and> in_stack (p + off) sz \<and> stack_read M (p + off) sz = Some w \<and>
       set_ty a d (case w of None \<Rightarrow> T_num | Some j \<Rightarrow> T_fp j) = Some b \<and> ss = [(1, b, m)])"
proof (cases "reg_ty a s")
  case (Some t)
  show ?thesis
  proof (cases t)
    case T_num
    then show ?thesis
      using assms(1) Some regs_ok_num [OF assms(2), of s] by (auto simp: goto_next_known)
  next
    case (T_fp p)
    then obtain w where w: "in_stack (p + off) sz" "stack_read m (p + off) sz = Some w"
      "goto_next (set_ty a d (case w of None \<Rightarrow> T_num | Some j \<Rightarrow> T_fp j)) m = Some ss"
      using assms(1) Some by (auto split: if_splits option.splits)
    then have "stack_read M (p + off) sz = Some w"
      using stack_read_ok [OF assms(3)] by blast
    moreover have "r s = Some (V_fp p)"
      using regs_ok_fp [OF assms(2)] Some T_fp by blast
    ultimately show ?thesis
      using w by (auto simp: goto_next_known)
  qed
qed (use assms(1) in simp)

lemma stx_known:
  assumes "eff (Stx sz d off s) (a, m) = Some ss" and "regs_ok a r"
  shows "(\<exists>p n. r d = Some (V_num p) \<and> r s = Some (V_num n) \<and> ss = [(1, a, m)]) \<or>
    (\<exists>p n. r d = Some (V_fp p) \<and> in_stack (p + off) sz \<and> r s = Some (V_num n) \<and>
       ss = [(1, a, store_num (p + off) sz m)]) \<or>
    (\<exists>p k. r d = Some (V_fp p) \<and> in_stack (p + off) 8 \<and> sz = 8 \<and> r s = Some (V_fp k) \<and>
       ss = [(1, a, save_ptr (p + off) k m)])"
  using assms(1) regs_ok_num [OF assms(2)] regs_ok_fp [OF assms(2)]
  by (auto simp: goto_next_known split: option.splits rty.splits if_splits)

lemma call_known:
  assumes "eff (Call_helper f) (a, m) = Some ss" and "regs_ok a r"
  obtains k where "helper_arity f = Some k" and "\<forall>q \<in> {1..k}. r q \<noteq> None"
    and "ss = [(1, call_ty a, call_slots (ptr_args r k) m)]"
  using assms ptr_args_known [OF assms(2)] by (auto split: option.splits if_splits)

lemma eff_num_known:
  assumes "regs_ok a r"
  shows "eff (To_be d bits) (a, m) = Some ss \<Longrightarrow>
      (\<exists>n b. r d = Some (V_num n) \<and> set_ty a d T_num = Some b \<and> ss = [(1, b, m)])"
    and "eff (Ld_imm64 d) (a, m) = Some ss \<Longrightarrow> (\<exists>b. set_ty a d T_num = Some b \<and> ss = [(2, b, m)])"
    and "eff (Jcc_imm cc d imm off) (a, m) = Some ss \<Longrightarrow>
      (\<exists>n. r d = Some (V_num n)) \<and> ss = [(1 + off, a, m), (1, a, m)]"
    and "eff (Jcc_reg cc d s off) (a, m) = Some ss \<Longrightarrow>
      (\<exists>n n'. r d = Some (V_num n) \<and> r s = Some (V_num n')) \<and> ss = [(1 + off, a, m), (1, a, m)]"
    and "eff Exit_prog (a, m) = Some ss \<Longrightarrow> \<exists>n. r 0 = Some (V_num n)"
  using regs_ok_num [OF assms] by (auto simp: goto_next_known split: if_splits)

lemma eff_alu_known:
  assumes "regs_ok a r"
  shows "eff (Alu_imm op d imm) (a, m) = Some ss \<Longrightarrow>
      (\<exists>t b. set_ty a d t = Some b \<and> ss = [(1, b, m)] \<and> alu_imm_ty op (reg_ty a d) imm = Some t)"
    and "eff (Alu_reg op d s) (a, m) = Some ss \<Longrightarrow>
      (\<exists>y u t b. r s = Some y \<and> has_ty y u \<and> alu_ty op (reg_ty a d) u = Some t \<and>
        set_ty a d t = Some b \<and> ss = [(1, b, m)])"
  using regs_okD [OF assms] by (fastforce simp: goto_next_known bind_eq_Some_conv)+

text \<open>Preservation: a step from a configuration that is known leads to a successor that the checker considered.\<close>

lemma eff_preserves:
  assumes "bpf_step P c c'" and "fetch P (c_pc c) = Some x" and "eff x k = Some ss" and "conf_ok k c"
  shows "\<exists>s \<in> set ss. reaches (c_pc c) c' s"
proof -
  obtain a m where k: "k = (a, m)"
    by fastforce
  note known = assms(2-4) [unfolded k]
  show ?thesis
    using assms(1)
  proof (cases rule: bpf_step.cases)
    case (step_alu_imm pc op d imm r v M)
    then show ?thesis
      using known eff_alu_known(1) [of a r op d imm m ss] alu_imm_ok(2) regs_ok_set
      by (fastforce simp: reaches_def conf_ok_def)
  next
    case (step_alu_reg pc op d s r y v M)
    then show ?thesis
      using known eff_alu_known(2) [of a r op d s m ss] alu_ok(2) regs_ok_set
      by (fastforce simp: reaches_def conf_ok_def)
  next
    case (step_be pc d bits r y n M)
    then show ?thesis
      using known eff_num_known(1) [of a r d bits m ss] regs_ok_set
      by (fastforce simp: reaches_def conf_ok_def simp del: eff.simps)
  next
    case (step_ld_imm64 pc d r M n)
    then show ?thesis
      using known eff_num_known(2) [of a r d m ss] regs_ok_set
      by (fastforce simp: reaches_def conf_ok_def simp del: eff.simps)
  next
    case (step_ldx pc sz d s off r p n M)
    then show ?thesis
      using known ldx_known [of sz d s off a m ss r M] regs_ok_set
      by (fastforce simp: reaches_def conf_ok_def simp del: eff.simps)
  next
    case (step_ldx_stack pc sz d s off r b M n)
    then show ?thesis
      using known ldx_known [of sz d s off a m ss r M] regs_ok_set
      by (fastforce simp: reaches_def conf_ok_def simp del: eff.simps)
  next
    case (step_ldx_saved pc sz d s off r b M j)
    then show ?thesis
      using known ldx_known [of sz d s off a m ss r M] regs_ok_set
      by (fastforce simp: reaches_def conf_ok_def simp del: eff.simps)
  next
    case (step_stx pc sz d off s r p n M)
    then show ?thesis
      using known stx_known [of sz d off s a m ss r] by (auto simp: reaches_def conf_ok_def simp del: eff.simps)
  next
    case (step_stx_stack pc sz d off s r b n M)
    then show ?thesis
      using known stx_known [of sz d off s a m ss r] by (auto simp: reaches_def conf_ok_def simp del: eff.simps)
  next
    case (step_stx_save pc d off s r b j M)
    then show ?thesis
      using known stx_known [of 8 d off s a m ss r] by (auto simp: reaches_def conf_ok_def simp del: eff.simps)
  next
    case (step_jump pc off pc' r M)
    then show ?thesis
      using known by (auto simp: reaches_def conf_ok_def jump_to_def split: if_splits)
  next
    case (step_jcc_imm pc cc d imm off r y pc' M)
    then show ?thesis
      using known eff_num_known(3) [of a r cc d imm off m ss]
      by (auto simp: reaches_def conf_ok_def jump_to_def simp del: eff.simps split: if_splits)
  next
    case (step_jcc_reg pc cc d s off r y z pc' M)
    then show ?thesis
      using known eff_num_known(4) [of a r cc d s off m ss]
      by (auto simp: reaches_def conf_ok_def jump_to_def simp del: eff.simps split: if_splits)
  next
    case (step_call pc f i r M n)
    then show ?thesis
      using known call_known [of f a m ss r] regs_ok_call
      by (fastforce simp: reaches_def conf_ok_def simp del: eff.simps)
  qed
qed

text \<open>Progress: a configuration that is known can go on, unless it is at its exit.\<close>

lemma eff_progresses:
  assumes "fetch P (c_pc c) = Some x" and "eff x k = Some ss" and "conf_ok k c" and "\<forall>s \<in> set ss. 1 \<le> fst s"
  shows "at_exit P c \<or> (\<exists>c'. bpf_step P c c')"
proof -
  obtain a m where k: "k = (a, m)"
    by fastforce
  obtain pc r M where c: "c = \<lparr>c_pc = pc, c_regs = r, c_slots = M\<rparr>"
    by (cases c)
  have ok: "regs_ok a r" "slots_ok m M" "fetch P pc = Some x" "eff x (a, m) = Some ss"
    using assms(1-3) by (simp_all add: k c conf_ok_def)
  have zero: "fits_bytes sz 0" for sz
    by (simp add: fits_bytes_def)
  have jump: "\<exists>pc'. jump_to pc b off = Some pc'" if "1 \<le> 1 + off" for b off
    using that by (auto simp: jump_to_def)
  note step = bpf_step.intros [where P = P and pc = pc and r = r and m = M]
  have "at_exit P \<lparr>c_pc = pc, c_regs = r, c_slots = M\<rparr> \<or> (\<exists>c'. bpf_step P \<lparr>c_pc = pc, c_regs = r, c_slots = M\<rparr> c')"
  proof (cases x)
    case (Alu_imm op d imm)
    then show ?thesis
      using ok eff_alu_known(1) [OF ok(1)] alu_imm_ok(1) [OF _ ok(1)] step(1) by metis
  next
    case (Alu_reg op d s)
    then show ?thesis
      using ok eff_alu_known(2) [OF ok(1)] alu_ok(1) [OF _ ok(1)] step(2) by metis
  next
    case (To_be d bits)
    then show ?thesis
      using ok eff_num_known(1) [OF ok(1)] step(3) zero by metis
  next
    case (Ld_imm64 d)
    then show ?thesis
      using ok step(4) by metis
  next
    case (Ldx sz d s off)
    with ok ldx_known [OF _ ok(1,2), of sz d s off ss] consider n where "r s = Some (V_num n)"
      | p w where "r s = Some (V_fp p)" "in_stack (p + off) sz" "stack_read M (p + off) sz = Some w"
      by (auto simp del: eff.simps)
    then show ?thesis
    proof cases
      case 1
      then show ?thesis
        using ok(3) Ldx step(5) zero by metis
    next
      case (2 p w)
      then show ?thesis
        using ok(3) Ldx step(6,7) zero by (metis not_None_eq)
    qed
  next
    case (Stx sz d off s)
    with ok stx_known [OF _ ok(1), of sz d off s m ss] consider p n where "r d = Some (V_num p)" "r s = Some (V_num n)"
      | p n where "r d = Some (V_fp p)" "in_stack (p + off) sz" "r s = Some (V_num n)"
      | p j where "r d = Some (V_fp p)" "in_stack (p + off) 8" "sz = 8" "r s = Some (V_fp j)"
      by (auto simp del: eff.simps)
    then show ?thesis
      using ok(3) Stx step(8-10) by cases metis+
  next
    case (Jump off)
    then show ?thesis
      using ok assms(4) jump [of off True] step(11) by fastforce
  next
    case (Jcc_imm cc d imm off)
    then show ?thesis
      using ok assms(4) eff_num_known(3) [OF ok(1)] jump [of off] step(12) by (metis list.set_intros(1) fst_conv)
  next
    case (Jcc_reg cc d s off)
    then show ?thesis
      using ok assms(4) eff_num_known(4) [OF ok(1)] jump [of off] step(13) by (metis list.set_intros(1) fst_conv)
  next
    case (Call_helper f)
    then show ?thesis
      using ok call_known [OF _ ok(1), of f m ss] step(14) by metis
  next
    case Exit_prog
    then show ?thesis
      using ok eff_num_known(5) [OF ok(1)] by (auto simp: at_exit_def)
  qed
  then show ?thesis
    by (simp only: c)
qed

section \<open>Runs of accepted programs\<close>

lemma conf_ok_below:
  "\<lbrakk>conf_ok (a, m) c; regs_below a b; slots_below m n\<rbrakk> \<Longrightarrow> conf_ok (b, n) c"
  by (auto simp: conf_ok_def intro: regs_ok_below slots_ok_below)

text \<open>A successor that fits is a later instruction, and what is known there holds.\<close>

lemma fits_reached:
  assumes "reaches pc c s" and "fits_at (drop (Suc pc) ts) s"
  shows "pc < c_pc c" and "c_pc c < length ts" and "\<exists>k. ts ! c_pc c = Some k \<and> conf_ok k c"
proof -
  obtain d a m where s: "s = (d, a, m)"
    by (cases s)
  have c: "int (c_pc c) = int pc + d" "conf_ok (a, m) c"
    using assms(1) by (simp_all add: s reaches_def)
  have d: "1 \<le> d" "nat (d - 1) < length ts - Suc pc"
    and target: "case drop (Suc pc) ts ! nat (d - 1) of Some (b, n) \<Rightarrow> regs_below a b \<and> slots_below m n | None \<Rightarrow> False"
    using assms(2) by (auto simp: s fits_at_def split: option.splits)
  have pc: "c_pc c = Suc pc + nat (d - 1)"
    using c(1) d(1) by linarith
  then show "pc < c_pc c" and "c_pc c < length ts"
    using d(2) by linarith+
  have "drop (Suc pc) ts ! nat (d - 1) = ts ! c_pc c"
    using d(2) pc by simp
  then show "\<exists>k. ts ! c_pc c = Some k \<and> conf_ok k c"
    using target conf_ok_below [OF c(2)] by (auto split: option.splits)
qed

lemma well_typed_length: "well_typed f P ts \<Longrightarrow> length ts = length P"
  by (induction f P ts rule: well_typed.induct) simp_all

lemma well_typed_at:
  assumes "well_typed f P ts" and "pc < length P" and "ts ! pc = Some k"
  shows "\<exists>ss. f (P ! pc) k = Some ss \<and> (\<forall>s \<in> set ss. fits_at (drop (Suc pc) ts) s)"
  using assms
proof (induction f P ts arbitrary: pc rule: well_typed.induct)
  case (2 f i ins t ts)
  show ?case
  proof (cases pc)
    case 0
    then show ?thesis
      using "2.prems" by (auto simp: list_all_iff split: option.splits)
  next
    case (Suc n)
    then show ?thesis
      using "2.prems" "2.IH" [of n] by simp
  qed
qed simp_all

text \<open>A configuration as the checker expects it: at an instruction that is reached, and known.\<close>

definition tracked :: "insn list \<Rightarrow> known option list \<Rightarrow> bpf_conf \<Rightarrow> bool" where
  "tracked P ts c \<longleftrightarrow> c_pc c < length P \<and> (\<exists>k. ts ! c_pc c = Some k \<and> conf_ok k c)"

lemma tracked_eff:
  assumes "well_typed ins_eff P ts" and "tracked P ts c"
  obtains k x ss where "fetch P (c_pc c) = Some x" and "eff x k = Some ss" and "conf_ok k c"
    and "\<forall>s \<in> set ss. fits_at (drop (Suc (c_pc c)) ts) s"
proof -
  obtain k where k: "c_pc c < length P" "ts ! c_pc c = Some k" "conf_ok k c"
    using assms(2) unfolding tracked_def by blast
  obtain ss where ss: "ins_eff (P ! c_pc c) k = Some ss" "\<forall>s \<in> set ss. fits_at (drop (Suc (c_pc c)) ts) s"
    using well_typed_at [OF assms(1) k(1,2)] by blast
  then obtain x where "classify (P ! c_pc c) = Some x" "eff x k = Some ss"
    unfolding ins_eff_def bind_eq_Some_conv by blast
  then show ?thesis
    using that k ss(2) by (simp add: fetch_def)
qed

lemma tracked_progress:
  assumes "well_typed ins_eff P ts" and "tracked P ts c"
  shows "at_exit P c \<or> (\<exists>c'. bpf_step P c c')"
proof -
  obtain k x ss where "fetch P (c_pc c) = Some x" "eff x k = Some ss" "conf_ok k c"
    and "\<forall>s \<in> set ss. fits_at (drop (Suc (c_pc c)) ts) s"
    by (rule tracked_eff [OF assms])
  then show ?thesis
    by (intro eff_progresses) (simp_all only: fits_at_def, blast)
qed

lemma tracked_step:
  assumes "well_typed ins_eff P ts" and "tracked P ts c" and "bpf_step P c c'"
  shows "tracked P ts c'" and "c_pc c < c_pc c'"
proof -
  obtain k x ss where x: "fetch P (c_pc c) = Some x" "eff x k = Some ss" "conf_ok k c"
    and fits: "\<forall>s \<in> set ss. fits_at (drop (Suc (c_pc c)) ts) s"
    by (rule tracked_eff [OF assms(1,2)])
  obtain s where "s \<in> set ss" and s: "reaches (c_pc c) c' s"
    using eff_preserves [OF assms(3) x] by blast
  note reached = fits_reached [OF s fits [THEN bspec, OF \<open>s \<in> set ss\<close>]]
  then show "tracked P ts c'" and "c_pc c < c_pc c'"
    using well_typed_length [OF assms(1)] by (auto simp: tracked_def)
qed

lemma conf_ok_init: "conf_ok init_known (bpf_init ctx)"
proof -
  have "regs_ok (fst init_known) (c_regs (bpf_init ctx))"
    unfolding regs_ok_def
  proof (intro allI impI)
    fix q t
    assume known: "reg_ty (fst init_known) q = Some t"
    then have "q < 11"
      by (simp add: reg_ty_def init_known_def split: if_splits)
    then have "q = 1 \<and> t = T_num \<or> q = 10 \<and> t = T_fp 0"
      using known by (auto simp: reg_ty_def init_known_def nth_Cons' split: if_splits)
    then show "\<exists>v. c_regs (bpf_init ctx) q = Some v \<and> has_ty v t"
      by (auto simp: bpf_init_def)
  qed
  then show ?thesis
    by (simp add: conf_ok_def bpf_init_def slots_ok_def init_known_def)
qed

lemma tracked_init:
  assumes "well_typed ins_eff P (Some init_known # ts)" and "P \<noteq> []"
  shows "tracked P (Some init_known # ts) (bpf_init ctx)"
  using assms(2) conf_ok_init by (simp add: tracked_def bpf_init_def)

text \<open>A program is safe if every run goes on until it is at an exit, and every run has fewer steps than the program instructions.\<close>

definition never_stuck :: "insn list \<Rightarrow> bool" where
  "never_stuck P \<longleftrightarrow> (\<forall>ctx c. (bpf_step P)\<^sup>*\<^sup>* (bpf_init ctx) c \<longrightarrow> at_exit P c \<or> (\<exists>c'. bpf_step P c c'))"

definition always_exits :: "insn list \<Rightarrow> bool" where
  "always_exits P \<longleftrightarrow>
     (\<forall>ctx c. (bpf_step P)\<^sup>*\<^sup>* (bpf_init ctx) c \<longrightarrow> (\<exists>c'. (bpf_step P)\<^sup>*\<^sup>* c c' \<and> at_exit P c')) \<and>
     (\<forall>ctx n c. ((bpf_step P) ^^ n) (bpf_init ctx) c \<longrightarrow> n < length P)"

lemma check_tracked:
  assumes "bpf_check P"
  obtains ts where "well_typed ins_eff P ts" and "\<And>ctx. tracked P ts (bpf_init ctx)"
proof -
  have P: "P \<noteq> []" and typed: "well_typed ins_eff P (infer ins_eff P (Some init_known # replicate (length P - 1) None))"
    using assms by (simp_all add: bpf_check_def)
  obtain ts where ts: "infer ins_eff P (Some init_known # replicate (length P - 1) None) = Some init_known # ts"
    using P by (cases P) auto
  show ?thesis
    using that [OF typed] tracked_init [OF typed [unfolded ts] P] ts by simp
qed

lemma tracked_run:
  assumes "well_typed ins_eff P ts" and "(bpf_step P)\<^sup>*\<^sup>* c c'" and "tracked P ts c"
  shows "tracked P ts c'"
  using assms(2,3) by induction (auto intro: tracked_step(1) [OF assms(1)])

lemma tracked_exit:
  assumes "well_typed ins_eff P ts" and "tracked P ts c"
  shows "\<exists>c'. (bpf_step P)\<^sup>*\<^sup>* c c' \<and> at_exit P c'"
  using assms(2)
proof (induction "length P - c_pc c" arbitrary: c rule: less_induct)
  case less
  show ?case
  proof (cases "at_exit P c")
    case False
    then obtain c1 where step: "bpf_step P c c1"
      using tracked_progress [OF assms(1) less.prems] by blast
    note t = tracked_step [OF assms(1) less.prems step]
    have "length P - c_pc c1 < length P - c_pc c"
      using t(2) less.prems by (intro diff_less_mono2) (simp_all add: tracked_def)
    then obtain c' where "(bpf_step P)\<^sup>*\<^sup>* c1 c'" "at_exit P c'"
      using less.hyps t(1) by blast
    then show ?thesis
      using step by (meson converse_rtranclp_into_rtranclp)
  qed blast
qed

lemma tracked_steps:
  assumes "well_typed ins_eff P ts" and "tracked P ts c" and "((bpf_step P) ^^ n) c c'"
  shows "tracked P ts c' \<and> c_pc c + n \<le> c_pc c'"
  using assms(3)
proof (induction n arbitrary: c')
  case (Suc n)
  then obtain c1 where c1: "((bpf_step P) ^^ n) c c1" "bpf_step P c1 c'"
    by auto
  with Suc.IH tracked_step [OF assms(1) _ c1(2)] show ?case
    by fastforce
qed (use assms(2) in simp)

lemma check_sound:
  assumes "bpf_check P"
  shows "never_stuck P" and "always_exits P"
proof -
  obtain ts where ts: "well_typed ins_eff P ts" "\<And>ctx. tracked P ts (bpf_init ctx)"
    using check_tracked [OF assms] by blast
  show "never_stuck P"
    using tracked_progress [OF ts(1)] tracked_run [OF ts(1) _ ts(2)] by (auto simp: never_stuck_def)
  have "n < length P" if "((bpf_step P) ^^ n) (bpf_init ctx) c" for ctx n c
    using tracked_steps [OF ts(1) ts(2) that] by (simp add: tracked_def)
  then show "always_exits P"
    using tracked_exit [OF ts(1)] tracked_run [OF ts(1) _ ts(2)] by (auto simp: always_exits_def)
qed

end
