(* ===== verification/Bpf_Init.thy ===== *)
theory Bpf_Init
  imports Bpf_Sound
begin

text \<open>
  Initialised stack bytes. The machine of \<open>Bpf_Machine\<close> gives any number for a byte of the stack that was never written and
  lets a program overwrite its frame pointer. Here its runs are traced together with the set of stack bytes written so far,
  and a second analysis, on top of the types that the checker infers, shows of a program that every load from the stack reads
  written bytes only and that register 10 stays the frame pointer.
\<close>

section \<open>Traced runs\<close>

text \<open>
  The helpers that fill a region of memory, whose address and size they are given: the numbers of these two arguments, by
  the declarations of bpf_helper_defs.h. They are bpf_probe_read, bpf_get_current_comm, bpf_skb_load_bytes,
  bpf_probe_read_user, bpf_probe_read_kernel and bpf_get_ns_current_pid_tgid. A call counts as filling the region whatever it
  returns, as it does for the kernel's verifier. The helpers that copy strings are not in the list.
\<close>

definition helper_out :: "int \<Rightarrow> (nat \<times> nat) option" where
  "helper_out f = map_of [(4, (1, 2)), (16, (1, 2)), (26, (3, 4)), (112, (1, 2)), (113, (1, 2)), (120, (3, 4))] f"

text \<open>The stack bytes, as distances from the frame pointer, that the instruction at hand writes.\<close>

definition filled :: "insn list \<Rightarrow> bpf_conf \<Rightarrow> int set" where
  "filled P c =
     (case fetch P (c_pc c) of
        Some (Stx sz d off s) \<Rightarrow>
          (case c_regs c d of Some (V_fp b) \<Rightarrow> {b + off ..< b + off + int sz} | _ \<Rightarrow> {})
      | Some (Call_helper f) \<Rightarrow>
          (case helper_out f of
             Some (p, z) \<Rightarrow>
               (case (c_regs c p, c_regs c z) of (Some (V_fp b), Some (V_num n)) \<Rightarrow> {b ..< b + uint n} | _ \<Rightarrow> {})
           | None \<Rightarrow> {})
      | _ \<Rightarrow> {})"

text \<open>A run from the start of the program, with the bytes it has written.\<close>

inductive traced :: "insn list \<Rightarrow> u64 \<Rightarrow> bpf_conf \<Rightarrow> int set \<Rightarrow> bool" for P ctx where
  traced_init: "traced P ctx (bpf_init ctx) {}"
| traced_step: "\<lbrakk>traced P ctx c W; bpf_step P c c'\<rbrakk> \<Longrightarrow> traced P ctx c' (W \<union> filled P c)"

definition clean_stack :: "insn list \<Rightarrow> bool" where
  "clean_stack P \<longleftrightarrow>
     (\<forall>ctx c W. traced P ctx c W \<longrightarrow>
        c_regs c 10 = Some (V_fp 0) \<and>
        (\<forall>sz d s off b. fetch P (c_pc c) = Some (Ldx sz d s off) \<and> c_regs c s = Some (V_fp b) \<longrightarrow>
           {b + off ..< b + off + int sz} \<subseteq> W))"

text \<open>Every run is traced.\<close>

lemma run_traced: "(bpf_step P)\<^sup>*\<^sup>* (bpf_init ctx) c \<Longrightarrow> \<exists>W. traced P ctx c W"
  by (induction rule: rtranclp_induct) (auto intro: traced_init traced_step)

section \<open>The analysis\<close>

text \<open>
  What is known at an instruction, beside the types: registers that hold a constant, and intervals of stack bytes that are
  written.
\<close>

type_synonym init_state = "(nat \<times> int) list \<times> (int \<times> int) list"

definition forget :: "nat \<Rightarrow> (nat \<times> int) list \<Rightarrow> (nat \<times> int) list" where
  "forget d C = filter (\<lambda>e. fst e \<noteq> d) C"

fun track_consts :: "bpf_ins \<Rightarrow> (nat \<times> int) list \<Rightarrow> (nat \<times> int) list" where
  "track_consts (Alu_imm op d imm) C = (if op = Alu_mov then (d, imm) # forget d C else forget d C)"
| "track_consts (Alu_reg op d s) C = forget d C"
| "track_consts (To_be d bits) C = forget d C"
| "track_consts (Ld_imm64 d) C = forget d C"
| "track_consts (Ldx sz d s off) C = forget d C"
| "track_consts (Call_helper f) C = filter (\<lambda>e. 5 < fst e) C"
| "track_consts _ C = C"

fun gains :: "bpf_ins \<Rightarrow> regs_ty \<Rightarrow> (nat \<times> int) list \<Rightarrow> (int \<times> int) list" where
  "gains (Stx sz d off s) a C =
     (case reg_ty a d of Some (T_fp b) \<Rightarrow> [(b + off, b + off + int sz)] | _ \<Rightarrow> [])"
| "gains (Call_helper f) a C =
     (case helper_out f of
        Some (p, z) \<Rightarrow>
          (case reg_ty a p of
             Some (T_fp b) \<Rightarrow>
               (case map_of C z of Some n \<Rightarrow> if 0 \<le> n \<and> n \<le> 512 then [(b, b + n)] else [] | None \<Rightarrow> [])
           | _ \<Rightarrow> [])
      | None \<Rightarrow> [])"
| "gains _ a C = []"

text \<open>A new interval is joined with one that it touches.\<close>

fun add_interval :: "int \<times> int \<Rightarrow> (int \<times> int) list \<Rightarrow> (int \<times> int) list" where
  "add_interval (l, h) [] = [(l, h)]"
| "add_interval (l, h) ((a, b) # W) =
     (if h = a then (l, b) # W else if b = l then (a, h) # W else if a \<le> l \<and> h \<le> b then (a, b) # W
      else (a, b) # add_interval (l, h) W)"

definition init_step :: "bpf_ins \<Rightarrow> regs_ty \<Rightarrow> init_state \<Rightarrow> init_state" where
  "init_step x a s = (track_consts x (fst s), fold add_interval (gains x a (fst s)) (snd s))"

text \<open>A load from the stack reads inside one of the intervals.\<close>

fun reads_written :: "bpf_ins \<Rightarrow> regs_ty \<Rightarrow> (int \<times> int) list \<Rightarrow> bool" where
  "reads_written (Ldx sz d s off) a W =
     (case reg_ty a s of
        None \<Rightarrow> False
      | Some T_num \<Rightarrow> True
      | Some (T_fp b) \<Rightarrow> list_ex (\<lambda>i. fst i \<le> b + off \<and> b + off + int sz \<le> snd i) W)"
| "reads_written _ a W = True"

fun succs :: "bpf_ins \<Rightarrow> int list" where
  "succs (Ld_imm64 d) = [2]"
| "succs (Jump off) = [1 + off]"
| "succs (Jcc_imm c d imm off) = [1 + off, 1]"
| "succs (Jcc_reg c d s off) = [1 + off, 1]"
| "succs Exit_prog = []"
| "succs _ = [1]"

definition merge_init :: "init_state option \<Rightarrow> init_state \<Rightarrow> init_state" where
  "merge_init old new =
     (case old of
        None \<Rightarrow> new
      | Some s \<Rightarrow>
          if s = new then new
          else (filter (\<lambda>e. e \<in> set (fst new)) (fst s),
            concat (map (\<lambda>(l, h). concat (map (\<lambda>(l', h'). if max l l' < min h h' then [(max l l', min h h')] else [])
              (snd new))) (snd s))))"

definition flow_init :: "init_state \<Rightarrow> int \<Rightarrow> init_state option list \<Rightarrow> init_state option list" where
  "flow_init s d vs =
     (let k = nat (d - 1) in if k < length vs then vs[k := Some (merge_init (vs ! k) s)] else vs)"

fun infer_init :: "insn list \<Rightarrow> known option list \<Rightarrow> init_state option list \<Rightarrow> init_state option list" where
  "infer_init (i # is) (t # ts) (v # vs) =
     v # infer_init is ts
       (case t of
          None \<Rightarrow> vs
        | Some k \<Rightarrow>
            (case v of
               None \<Rightarrow> vs
             | Some s \<Rightarrow>
                 (case classify i of
                    None \<Rightarrow> vs
                  | Some x \<Rightarrow> fold (flow_init (init_step x (fst k) s)) (succs x) vs)))"
| "infer_init _ _ _ = []"

definition init_below :: "init_state \<Rightarrow> init_state \<Rightarrow> bool" where
  "init_below s s' \<longleftrightarrow>
     (if s = s' then True
      else list_all (\<lambda>e. e \<in> set (fst s)) (fst s') \<and> list_all (\<lambda>i. list_ex (\<lambda>j. fst j \<le> fst i \<and> snd i \<le> snd j) (snd s)) (snd s'))"

definition fits_init :: "init_state option list \<Rightarrow> init_state \<Rightarrow> int \<Rightarrow> bool" where
  "fits_init vs s d \<longleftrightarrow>
     (let k = nat (d - 1) in k < length vs \<and> (case vs ! k of Some s' \<Rightarrow> init_below s s' | None \<Rightarrow> False))"

fun well_init :: "insn list \<Rightarrow> known option list \<Rightarrow> init_state option list \<Rightarrow> bool" where
  "well_init [] [] [] = True"
| "well_init (i # is) (t # ts) (v # vs) =
     ((case t of
         None \<Rightarrow> True
       | Some k \<Rightarrow>
           (case v of
              None \<Rightarrow> False
            | Some s \<Rightarrow>
                (case classify i of
                   None \<Rightarrow> False
                 | Some x \<Rightarrow>
                     reg_ty (fst k) 10 = Some (T_fp 0) \<and> reads_written x (fst k) (snd s) \<and>
                     list_all (fits_init vs (init_step x (fst k) s)) (succs x)))) \<and>
      well_init is ts vs)"
| "well_init _ _ _ = False"

text \<open>Both checks, over the types inferred once.\<close>

definition checked_with :: "insn list \<Rightarrow> known option list \<Rightarrow> bool" where
  "checked_with P ts \<longleftrightarrow>
     well_typed ins_eff P ts \<and> well_init P ts (infer_init P ts (Some ([], []) # replicate (length P - 1) None))"

definition full_check :: "insn list \<Rightarrow> bool" where
  "full_check P \<longleftrightarrow> P \<noteq> [] \<and> checked_with P (infer ins_eff P (Some init_known # replicate (length P - 1) None))"

lemma full_check_types: "full_check P \<Longrightarrow> bpf_check P"
  by (simp add: full_check_def checked_with_def bpf_check_def)

section \<open>Soundness\<close>

definition init_ok :: "init_state \<Rightarrow> bpf_conf \<Rightarrow> int set \<Rightarrow> bool" where
  "init_ok s c W \<longleftrightarrow>
     (\<forall>(q, n) \<in> set (fst s). c_regs c q = Some (V_num (of_int n))) \<and> (\<forall>(l, h) \<in> set (snd s). {l ..< h} \<subseteq> W)"

lemma init_ok_below:
  assumes ok: "init_ok s c W" and le: "init_below s s'"
  shows "init_ok s' c W"
proof (cases "s = s'")
  case False
  with le have "\<forall>e \<in> set (fst s'). e \<in> set (fst s)"
    and inside: "\<forall>i \<in> set (snd s'). \<exists>j \<in> set (snd s). fst j \<le> fst i \<and> snd i \<le> snd j"
    by (simp_all add: init_below_def list_all_iff list_ex_iff)
  note regs = this(1)
  have "{l ..< h} \<subseteq> W" if mem: "(l, h) \<in> set (snd s')" for l h
  proof -
    obtain l' h' where "(l', h') \<in> set (snd s)" "l' \<le> l" "h \<le> h'"
      using bspec [OF inside mem] by auto
    with ok show ?thesis
      by (fastforce simp: init_ok_def)
  qed
  with ok regs show ?thesis
    by (fastforce simp: init_ok_def)
qed (use ok in simp)

lemma add_interval_inside:
  "\<lbrakk>{l ..< h} \<subseteq> V; \<forall>(a, b) \<in> set W. {a ..< b} \<subseteq> V\<rbrakk> \<Longrightarrow> \<forall>(a, b) \<in> set (add_interval (l, h) W). {a ..< b} \<subseteq> V"
proof (induction W)
  case (Cons i W)
  obtain a b where i: "i = (a, b)"
    by fastforce
  have "{l ..< b} \<subseteq> V" if "h = a"
    using Cons.prems that by (force simp: i)
  moreover have "{a ..< h} \<subseteq> V" if "b = l"
    using Cons.prems that by (force simp: i)
  ultimately show ?case
    using Cons by (simp add: i)
qed simp

lemma add_intervals_inside:
  "\<lbrakk>\<forall>(a, b) \<in> set G. {a ..< b} \<subseteq> V; \<forall>(a, b) \<in> set W. {a ..< b} \<subseteq> V\<rbrakk> \<Longrightarrow>
   \<forall>(a, b) \<in> set (fold add_interval G W). {a ..< b} \<subseteq> V"
proof (induction G arbitrary: W)
  case (Cons g G)
  obtain l h where g: "g = (l, h)"
    by fastforce
  have "\<forall>(a, b) \<in> set (add_interval g W). {a ..< b} \<subseteq> V"
    unfolding g by (rule add_interval_inside) (use Cons.prems in \<open>simp_all add: g\<close>)
  then show ?case
    using Cons.IH Cons.prems(1) by simp
qed simp

lemma eff_succs: "eff x k = Some ss \<Longrightarrow> map fst ss = succs x"
proof (cases k)
  case (Pair a m)
  then show "eff x k = Some ss \<Longrightarrow> map fst ss = succs x"
    by (cases x) (auto simp: goto_next_def bind_eq_Some_conv split: if_splits option.splits rty.splits)
qed

text \<open>The gains are bytes that the instruction writes.\<close>

lemma gains_filled:
  assumes "fetch P (c_pc c) = Some x" and "conf_ok k c" and "init_ok s c W" and "(l, h) \<in> set (gains x (fst k) (fst s))"
  shows "{l ..< h} \<subseteq> filled P c"
proof -
  have regs: "regs_ok (fst k) (c_regs c)"
    using assms(2) by (simp add: conf_ok_def)
  show ?thesis
  proof (cases x)
    case (Stx sz d off q)
    with assms(4) obtain t where t: "reg_ty (fst k) d = Some t"
      by (cases "reg_ty (fst k) d") simp_all
    with assms(4) Stx obtain b where b: "reg_ty (fst k) d = Some (T_fp b)" "l = b + off" "h = b + off + int sz"
      by (cases t) simp_all
    have "c_regs c d = Some (V_fp b)"
      by (rule regs_ok_fp [OF regs b(1)])
    with assms(1) Stx b show ?thesis
      by (simp add: filled_def)
  next
    case (Call_helper f)
    then obtain p z b n where out: "helper_out f = Some (p, z)" "reg_ty (fst k) p = Some (T_fp b)" "map_of (fst s) z = Some n"
      and n: "0 \<le> n" "n \<le> 512" "l = b" "h = b + n"
      using assms(4) by (auto split: option.splits rty.splits if_splits dest!: sym [of "Some _"])
    have "c_regs c p = Some (V_fp b)"
      using regs_ok_fp [OF regs out(2)] .
    moreover have "c_regs c z = Some (V_num (of_int n))"
      using assms(3) map_of_SomeD [OF out(3)] by (auto simp: init_ok_def)
    moreover have "uint (of_int n :: u64) = n"
      using n by (simp add: uint_word_of_int_eq take_bit_int_eq_self)
    ultimately show ?thesis
      using assms(1) Call_helper out(1) n by (simp add: filled_def)
  qed (use assms(4) in auto)
qed

lemma consts_step:
  assumes "bpf_step P c c'" and "fetch P (c_pc c) = Some x"
    and "\<forall>(q, n) \<in> set C. c_regs c q = Some (V_num (of_int n))"
  shows "\<forall>(q, n) \<in> set (track_consts x C). c_regs c' q = Some (V_num (of_int n))"
proof -
  show ?thesis
    using assms
  proof (cases rule: bpf_step.cases)
    case (step_alu_imm pc op d imm r v m)
    then show ?thesis
      using assms(2,3) by (cases "op = Alu_mov") (auto simp: forget_def alu_rval_def)
  qed (auto simp: forget_def after_call_def)
qed

lemma well_init_at:
  assumes "well_init P ts vs" and "pc < length P" and "ts ! pc = Some k"
  shows "\<exists>s x. vs ! pc = Some s \<and> classify (P ! pc) = Some x \<and> reg_ty (fst k) 10 = Some (T_fp 0) \<and>
     reads_written x (fst k) (snd s) \<and> list_all (fits_init (drop (Suc pc) vs) (init_step x (fst k) s)) (succs x)"
  using assms
proof (induction P ts vs arbitrary: pc rule: well_init.induct)
  case (2 i ins t ts v vs)
  show ?case
  proof (cases pc)
    case 0
    then show ?thesis
      using "2.prems" by (auto split: option.splits)
  next
    case (Suc n)
    then show ?thesis
      using "2.prems" "2.IH" [of n] by simp
  qed
qed simp_all

text \<open>A configuration of a traced run as the two analyses expect it.\<close>

definition init_tracked :: "insn list \<Rightarrow> known option list \<Rightarrow> init_state option list \<Rightarrow> bpf_conf \<Rightarrow> int set \<Rightarrow> bool" where
  "init_tracked P ts vs c W \<longleftrightarrow> tracked P ts c \<and> (\<exists>s. vs ! c_pc c = Some s \<and> init_ok s c W)"

lemma init_tracked_clean:
  assumes "well_init P ts vs" and "init_tracked P ts vs c W"
  shows "c_regs c 10 = Some (V_fp 0)"
    and "\<lbrakk>fetch P (c_pc c) = Some (Ldx sz d q off); c_regs c q = Some (V_fp b)\<rbrakk> \<Longrightarrow> {b + off ..< b + off + int sz} \<subseteq> W"
proof -
  obtain k where k: "c_pc c < length P" "ts ! c_pc c = Some k" "conf_ok k c"
    using assms(2) unfolding init_tracked_def tracked_def by blast
  obtain s x where s: "vs ! c_pc c = Some s" "classify (P ! c_pc c) = Some x" "reg_ty (fst k) 10 = Some (T_fp 0)"
    "reads_written x (fst k) (snd s)"
    using well_init_at [OF assms(1) k(1,2)] by blast
  have init: "init_ok s c W"
    using assms(2) s(1) by (auto simp: init_tracked_def)
  have regs: "regs_ok (fst k) (c_regs c)"
    using k(3) by (simp add: conf_ok_def)
  show "c_regs c 10 = Some (V_fp 0)"
    by (rule regs_ok_fp [OF regs s(3)])
  show "{b + off ..< b + off + int sz} \<subseteq> W"
    if "fetch P (c_pc c) = Some (Ldx sz d q off)" "c_regs c q = Some (V_fp b)"
  proof -
    have x: "x = Ldx sz d q off"
      using that(1) s(2) k(1) by (simp add: fetch_def)
    show ?thesis
      using s(4) that(2) init regs_okD [OF regs, of q] by (fastforce simp: x init_ok_def list_ex_iff split: option.splits rty.splits)
  qed
qed

lemma init_tracked_start:
  assumes "well_init P ts (Some ([], []) # vs)" and "tracked P ts (bpf_init ctx)"
  shows "init_tracked P ts (Some ([], []) # vs) (bpf_init ctx) {}"
  using assms by (simp add: init_tracked_def init_ok_def bpf_init_def)

lemma init_tracked_step:
  assumes types: "well_typed ins_eff P ts" and inits: "well_init P ts vs"
    and here: "init_tracked P ts vs c W" and step: "bpf_step P c c'"
  shows "init_tracked P ts vs c' (W \<union> filled P c)"
proof -
  have t: "tracked P ts c"
    using here by (simp add: init_tracked_def)
  obtain k where k: "c_pc c < length P" "ts ! c_pc c = Some k" "conf_ok k c"
    using t unfolding tracked_def by blast
  obtain s x where s: "vs ! c_pc c = Some s" "classify (P ! c_pc c) = Some x"
    and next_ok: "list_all (fits_init (drop (Suc (c_pc c)) vs) (init_step x (fst k) s)) (succs x)"
    using well_init_at [OF inits k(1,2)] by blast
  have x: "fetch P (c_pc c) = Some x"
    using s(2) k(1) by (simp add: fetch_def)
  have init: "init_ok s c W"
    using here s(1) by (auto simp: init_tracked_def)
  obtain ss where ss: "eff x k = Some ss"
    using well_typed_at [OF types k(1,2)] s(2) by (auto simp: ins_eff_def)
  obtain e where e: "e \<in> set ss" "reaches (c_pc c) c' e"
    using eff_preserves [OF step x ss k(3)] by blast
  then have "fst e \<in> set (succs x)"
    unfolding eff_succs [OF ss, symmetric] by simp
  then have fits: "fits_init (drop (Suc (c_pc c)) vs) (init_step x (fst k) s) (fst e)"
    using next_ok by (simp add: list_all_iff)
  have after: "tracked P ts c'" "c_pc c < c_pc c'"
    using tracked_step [OF types t step] by simp_all
  have "c_pc c' = Suc (c_pc c) + nat (fst e - 1)"
    using e(2) after(2) unfolding reaches_def by linarith
  then obtain s' where s': "vs ! c_pc c' = Some s'" "init_below (init_step x (fst k) s) s'"
    using fits by (auto simp: fits_init_def Let_def split: option.splits)
  have "init_ok (init_step x (fst k) s) c' (W \<union> filled P c)"
    unfolding init_ok_def init_step_def fst_conv snd_conv
  proof
    show "\<forall>(q, n) \<in> set (track_consts x (fst s)). c_regs c' q = Some (V_num (of_int n))"
      using init unfolding init_ok_def by (intro consts_step [OF step x]) blast
    show "\<forall>(l, h) \<in> set (fold add_interval (gains x (fst k) (fst s)) (snd s)). {l ..< h} \<subseteq> W \<union> filled P c"
      by (rule add_intervals_inside) (use gains_filled [OF x k(3) init] init in \<open>fastforce simp: init_ok_def\<close>)+
  qed
  from init_ok_below [OF this s'(2)] show ?thesis
    using after(1) s'(1) by (simp add: init_tracked_def)
qed

theorem full_check_clean:
  assumes "full_check P"
  shows "clean_stack P"
proof -
  define ts where "ts = infer ins_eff P (Some init_known # replicate (length P - 1) None)"
  define vs where "vs = infer_init P ts (Some ([], []) # replicate (length P - 1) None)"
  have ok: "P \<noteq> []" "well_typed ins_eff P ts" "well_init P ts vs"
    using assms by (simp_all add: full_check_def checked_with_def ts_def vs_def)
  obtain ts' where ts': "ts = Some init_known # ts'"
    using ok(1) by (cases P) (auto simp: ts_def)
  obtain vs' where vs': "vs = Some ([], []) # vs'"
    using ok(1) by (cases P) (auto simp: vs_def ts')
  have "init_tracked P ts vs c W" if "traced P ctx c W" for ctx c W
    using that
  proof induction
    case traced_init
    show ?case
      using init_tracked_start [OF ok(3) [unfolded vs']] tracked_init [OF ok(2) [unfolded ts'] ok(1)] by (simp add: vs' ts')
  next
    case (traced_step c W c')
    then show ?case
      using init_tracked_step [OF ok(2,3)] by blast
  qed
  then show ?thesis
    using init_tracked_clean [OF ok(3)] unfolding clean_stack_def by blast
qed

lemma full_check_sound:
  assumes "full_check P"
  shows "never_stuck P" and "always_exits P" and "clean_stack P"
  using check_sound [OF full_check_types [OF assms]] full_check_clean [OF assms] by simp_all

end
