(* ===== verification/Embedded_Programs.thy ===== *)
theory Embedded_Programs
  imports Bpf_Init Obj_Bootstrap Obj_Bootstrap_Legacy Obj_Fentry Obj_Kprobe Obj_Ksyscall Obj_Lsm Obj_Minimal Obj_Minimal_Legacy Obj_Minimal_Ns Obj_Sockfilter Obj_Task_Iter Obj_Tc Obj_Uprobe
begin

text \<open>
  The programs embedded in thirteen of the fourteen skeletons, run through the checkers of \<open>Bpf_Machine\<close> and \<open>Bpf_Init\<close>:
  every one is accepted, so none can get stuck, all of them exit and none reads a stack byte that was not written. The programs of usdt.skel.h call functions of their own and are
  in \<open>Embedded_Usdt\<close>.
\<close>

section \<open>The checks\<close>

lemmas check_eval =
  bpf_check_def init_known_def ins_eff_def classify_def alu_of_def cond_of_def mem_size_def reg_ty_def set_ty_def
  alu_ty_def alu_imm_ty_def call_ty_def merge_known_def ptr_args_ty_def goto_next_def call_slots_def touch_def
  store_num_def save_ptr_def stack_read_def overlap_def regs_below_def slots_below_def fits_at_def flow_def
  helper_arity_values in_stack_def upt_rec Let_def full_check_def checked_with_def helper_out_def forget_def init_step_def
  merge_init_def flow_init_def init_below_def fits_init_def

lemma bootstrap_elf_3_checked: "full_check (decode_program bootstrap_elf_3)"
  by (simp add: decode_eval bootstrap_elf_3_def) (simp add: check_eval)

lemma bootstrap_elf_4_checked: "full_check (decode_program bootstrap_elf_4)"
  by (simp add: decode_eval bootstrap_elf_4_def) (simp add: check_eval)

lemma bootstrap_legacy_elf_3_checked: "full_check (decode_program bootstrap_legacy_elf_3)"
  by (simp add: decode_eval bootstrap_legacy_elf_3_def) (simp add: check_eval)

lemma bootstrap_legacy_elf_4_checked: "full_check (decode_program bootstrap_legacy_elf_4)"
  by (simp add: decode_eval bootstrap_legacy_elf_4_def) (simp add: check_eval)

lemma fentry_elf_3_checked: "full_check (decode_program fentry_elf_3)"
  by (simp add: decode_eval fentry_elf_3_def) (simp add: check_eval)

lemma fentry_elf_4_checked: "full_check (decode_program fentry_elf_4)"
  by (simp add: decode_eval fentry_elf_4_def) (simp add: check_eval)

lemma kprobe_elf_3_checked: "full_check (decode_program kprobe_elf_3)"
  by (simp add: decode_eval kprobe_elf_3_def) (simp add: check_eval)

lemma kprobe_elf_4_checked: "full_check (decode_program kprobe_elf_4)"
  by (simp add: decode_eval kprobe_elf_4_def) (simp add: check_eval)

lemma ksyscall_elf_3_checked: "full_check (decode_program ksyscall_elf_3)"
  by (simp add: decode_eval ksyscall_elf_3_def) (simp add: check_eval)

lemma ksyscall_elf_4_checked: "full_check (decode_program ksyscall_elf_4)"
  by (simp add: decode_eval ksyscall_elf_4_def) (simp add: check_eval)

lemma lsm_elf_3_checked: "full_check (decode_program lsm_elf_3)"
  by (simp add: decode_eval lsm_elf_3_def) (simp add: check_eval)

lemma elf_handle_tp_checked: "full_check (decode_program elf_handle_tp)"
  by (simp add: decode_eval elf_handle_tp_def) (simp add: check_eval)

lemma minimal_legacy_elf_3_checked: "full_check (decode_program minimal_legacy_elf_3)"
  by (simp add: decode_eval minimal_legacy_elf_3_def) (simp add: check_eval)

lemma minimal_ns_elf_3_checked: "full_check (decode_program minimal_ns_elf_3)"
  by (simp add: decode_eval minimal_ns_elf_3_def) (simp add: check_eval)

lemma sockfilter_elf_3_checked: "full_check (decode_program sockfilter_elf_3)"
  by (simp add: decode_eval sockfilter_elf_3_def) (simp add: check_eval)

lemma task_iter_elf_3_checked: "full_check (decode_program task_iter_elf_3)"
  by (simp add: decode_eval task_iter_elf_3_def) (simp add: check_eval)

lemma tc_elf_3_checked: "full_check (decode_program tc_elf_3)"
  by (simp add: decode_eval tc_elf_3_def) (simp add: check_eval)

lemma uprobe_elf_3_checked: "full_check (decode_program uprobe_elf_3)"
  by (simp add: decode_eval uprobe_elf_3_def) (simp add: check_eval)

lemma uprobe_elf_4_checked: "full_check (decode_program uprobe_elf_4)"
  by (simp add: decode_eval uprobe_elf_4_def) (simp add: check_eval)

lemma uprobe_elf_5_checked: "full_check (decode_program uprobe_elf_5)"
  by (simp add: decode_eval uprobe_elf_5_def) (simp add: check_eval)

lemma uprobe_elf_6_checked: "full_check (decode_program uprobe_elf_6)"
  by (simp add: decode_eval uprobe_elf_6_def) (simp add: check_eval)

section \<open>Properties\<close>

definition embedded_objects :: "(string \<times> byte list) list" where
  "embedded_objects =
     [(''bootstrap'', bootstrap_bpf__elf_bytes),
      (''bootstrap_legacy'', bootstrap_legacy_bpf__elf_bytes),
      (''fentry'', fentry_bpf__elf_bytes),
      (''kprobe'', kprobe_bpf__elf_bytes),
      (''ksyscall'', ksyscall_bpf__elf_bytes),
      (''lsm'', lsm_bpf__elf_bytes),
      (''minimal'', minimal_bpf__elf_bytes),
      (''minimal_legacy'', minimal_legacy_bpf__elf_bytes),
      (''minimal_ns'', minimal_ns_bpf__elf_bytes),
      (''sockfilter'', sockfilter_bpf__elf_bytes),
      (''task_iter'', task_iter_bpf__elf_bytes),
      (''tc'', tc_bpf__elf_bytes),
      (''uprobe'', uprobe_bpf__elf_bytes)]"

lemma embedded_programs_checked:
  "list_all (\<lambda>(obj, elf). elf_programs elf \<noteq> [] \<and> list_all (\<lambda>(sec, P). full_check P) (elf_programs elf)) embedded_objects"
  by (simp add: embedded_objects_def bootstrap_elf_programs bootstrap_legacy_elf_programs fentry_elf_programs
    kprobe_elf_programs ksyscall_elf_programs lsm_elf_programs minimal_elf_programs
    minimal_legacy_elf_programs minimal_ns_elf_programs sockfilter_elf_programs task_iter_elf_programs
    tc_elf_programs uprobe_elf_programs bootstrap_elf_3_checked bootstrap_elf_4_checked
    bootstrap_legacy_elf_3_checked bootstrap_legacy_elf_4_checked fentry_elf_3_checked fentry_elf_4_checked
    kprobe_elf_3_checked kprobe_elf_4_checked ksyscall_elf_3_checked ksyscall_elf_4_checked lsm_elf_3_checked
    elf_handle_tp_checked minimal_legacy_elf_3_checked minimal_ns_elf_3_checked sockfilter_elf_3_checked
    task_iter_elf_3_checked tc_elf_3_checked uprobe_elf_3_checked uprobe_elf_4_checked uprobe_elf_5_checked
    uprobe_elf_6_checked)

lemma embedded_programs_safe:
  "list_all (\<lambda>(obj, elf). elf_programs elf \<noteq> [] \<and>
     list_all (\<lambda>(sec, P). never_stuck P \<and> always_exits P \<and> clean_stack P) (elf_programs elf)) embedded_objects"
  using embedded_programs_checked full_check_sound by (fastforce simp: list_all_iff)

text \<open>
  C11: no program embedded in the skeletons can go wrong. Whatever the context, the memory it reads and the results of the
  helpers, at every point of every run either the program is at an exit with a number in register 0 or its next
  instruction can be executed: it is a known instruction at an instruction boundary, it reads no register that is
  unset or destroyed by a call, its accesses through stack pointers lie in the 512 bytes of the stack, and its
  calls are to helpers of bpf_helper_defs.h with every declared argument set. Moreover, with the stack bytes traced that the
  run has written, by its own stores or by a helper documented to fill the region it is given: whenever the
  next instruction is a load through a stack pointer every byte it reads is among them, and register 10 holds the frame
  pointer at every point.
\<close>

theorem embedded_programs_never_stuck:
  "list_all (\<lambda>(obj, elf). elf_programs elf \<noteq> [] \<and> list_all (\<lambda>(sec, P). never_stuck P \<and> clean_stack P) (elf_programs elf))
     embedded_objects"
  using embedded_programs_safe by (fastforce simp: list_all_iff)

text \<open>
  C12: every program embedded in the skeletons exits. From every point of every run an exit is reached, and no run has as
  many steps as the program has instructions, so the exit comes after fewer steps whatever branches are taken.
\<close>

theorem embedded_programs_always_exit:
  "list_all (\<lambda>(obj, elf). list_all (\<lambda>(sec, P). always_exits P) (elf_programs elf)) embedded_objects"
  using embedded_programs_safe by (fastforce simp: list_all_iff)

end
