(* ===== verification/Bpf_Refine.thy ===== *)
theory Bpf_Refine
  imports Bpf_Bytecode Bpf_Sound
begin

unbundle bit_operations_syntax

text \<open>
  The interpreter of \<open>Bpf_Bytecode\<close>, which knows the sections and the helpers of minimal.skel.h in detail, does nothing that
  the abstract machine of \<open>Bpf_Machine\<close> could not do: pointers become numbers, and every run is a run of the machine.
\<close>

section \<open>Abstraction\<close>

text \<open>Section number \<open>sec\<close> is loaded at address \<open>base sec\<close>.\<close>

definition abs_val :: "(nat \<Rightarrow> u64) \<Rightarrow> bval \<Rightarrow> rval option" where
  "abs_val base v =
     (case v of B_uninit \<Rightarrow> None | B_num n \<Rightarrow> Some (V_num n) | B_ptr sec off \<Rightarrow> Some (V_num (base sec + of_nat off)))"

definition abs_conf :: "(nat \<Rightarrow> u64) \<Rightarrow> bpf_state \<Rightarrow> bpf_conf" where
  "abs_conf base s = \<lparr>c_pc = nat (pc s), c_regs = (\<lambda>q. abs_val base (regs s q)), c_slots = []\<rparr>"

lemma abs_val_simps [simp]:
  "abs_val base B_uninit = None" "abs_val base (B_num n) = Some (V_num n)"
  "abs_val base (B_ptr sec off) = Some (V_num (base sec + of_nat off))"
  by (simp_all add: abs_val_def)

lemma abs_val_None [simp]: "abs_val base v = None \<longleftrightarrow> v = B_uninit"
  by (cases v) simp_all

lemma abs_val_set: "(\<lambda>q. abs_val base ((f(d := v)) q)) = (\<lambda>q. abs_val base (f q))(d := abs_val base v)"
  by auto

lemma call_slots_Nil [simp]: "call_slots ps [] = []"
  by (simp add: call_slots_def touch_def)

lemma num_of_Some [simp]: "num_of v = Some n \<longleftrightarrow> v = B_num n"
  by (cases v) (simp_all add: num_of_def)

lemma le_at_4_fits: "fits_bytes 4 (of_nat (le_at bs off 4))"
proof -
  have step: "unat (b :: byte) + 256 * x < 256 * m" if "x < m" for b x m
  proof -
    have "unat b < 256"
      using unsigned_less [of b, where ?'a = nat] by simp
    with that show ?thesis
      by linarith
  qed
  have bound: "foldr (\<lambda>b acc. unat b + 256 * acc) xs 0 < (256 :: nat) ^ length xs" for xs :: "byte list"
    by (induction xs) (auto intro: step)
  have "le_at bs off 4 < 256 ^ length (take 4 (drop off bs))"
    unfolding le_at_def by (rule bound)
  also have "\<dots> \<le> 256 ^ 4"
    by (intro power_increasing) simp_all
  finally show ?thesis
    by (simp add: fits_bytes_def unsigned_of_nat take_bit_nat_eq_self)
qed

lemma shift_amount: "\<lbrakk>0 \<le> k; k < 64\<rbrakk> \<Longrightarrow> unat ((of_int k :: u64) AND 63) = nat k"
proof -
  assume k: "0 \<le> k" "k < 64"
  have "(of_int k :: u64) AND 63 = of_int (k AND 63)"
    by (rule bit_word_eqI) (auto simp: bit_simps)
  also have "k AND 63 = k"
    using k take_bit_int_eq_self [of k 6] by (simp add: take_bit_eq_mask mask_eq_exp_minus_1)
  finally have masked: "(of_int k :: u64) AND 63 = of_int k" .
  obtain n where n: "k = int n"
    using k(1) by (rule nonneg_int_cases)
  then have "unat (of_nat n :: u64) = n"
    using k(2) by (simp add: unsigned_of_nat take_bit_nat_eq_self)
  then show ?thesis
    unfolding masked by (simp only: n of_int_of_nat_eq nat_int)
qed

section \<open>Simulation\<close>

lemma call_simulated:
  assumes "bpf_call e fn s = Some s'" and "fetch P (nat (pc s)) = Some (Call_helper fn)" and "0 \<le> pc s"
  shows "bpf_step P (abs_conf base s) (abs_conf base (s'\<lparr>pc := pc s + 1\<rparr>))"
proof -
  let ?r = "\<lambda>q. abs_val base (regs s q)"
  note step = step_call [OF assms(2), where r = ?r and m = "[]"]
  have next_pc: "nat (pc s + 1) = Suc (nat (pc s))"
    using assms(3) by simp
  have regs: "(\<lambda>q. abs_val base (if q = 0 then B_num n else if q \<le> 5 then B_uninit else regs s q)) =
      after_call ?r n" for n
    by (auto simp: after_call_def)
  consider "fn = 14" "\<exists>n. s' = s\<lparr>regs := \<lambda>q. if q = 0 then B_num n else if q \<le> 5 then B_uninit else regs s q\<rparr>"
    | "fn = 6" "regs s 1 \<noteq> B_uninit" "regs s 2 \<noteq> B_uninit"
      "\<exists>n cs. s' = s\<lparr>regs := \<lambda>q. if q = 0 then B_num n else if q \<le> 5 then B_uninit else regs s q, calls := cs\<rparr>"
    using assms(1)
    by (auto simp: bpf_call_def bpf_get_current_pid_tgid_id_def bpf_trace_printk_id_def Let_def
        split: if_splits bval.splits)
  then show ?thesis
  proof cases
    case 1
    then show ?thesis
      using step [of 0] by (auto simp: abs_conf_def next_pc regs helper_arity_values)
  next
    case 2
    then have "\<forall>q \<in> {1..2}. ?r q \<noteq> None"
      by (auto simp: numeral_2_eq_2 le_Suc_eq)
    then show ?thesis
      using step [of 2] 2 by (auto simp: abs_conf_def next_pc regs helper_arity_values)
  qed
qed

text \<open>
  One instruction of the interpreter that continues inside the program is a step of the machine. A call with a source
  register is a call of a function of the program, which the interpreter does not distinguish.
\<close>

lemma exec_simulated:
  assumes "bpf_exec e (be_insns e ! nat (pc s)) s = Some (Continue s')"
    and "0 \<le> pc s" and "pc s < int (length (be_insns e))" and "0 \<le> pc s'"
    and "\<forall>i \<in> set (be_insns e). i_op i = 0x85 \<longrightarrow> i_src i = 0"
  shows "bpf_step (be_insns e) (abs_conf base s) (abs_conf base s')"
proof -
  define P where "P = be_insns e"
  define i where "i = P ! nat (pc s)"
  let ?r = "\<lambda>q. abs_val base (regs s q)" and ?pc = "nat (pc s)"
  have len: "?pc < length P"
    using assms(2,3) by (simp add: P_def nat_less_iff)
  then have fetch: "fetch P ?pc = classify i"
    by (simp add: fetch_def i_def)
  have src: "i_op i = 0x85 \<Longrightarrow> i_src i = 0"
    using assms(5) len by (simp add: P_def i_def)
  have exec: "bpf_exec e i s = Some (Continue s')"
    using assms(1) by (simp add: P_def i_def)
  have next_pc: "nat (pc s + 1) = Suc ?pc" "nat (pc s + 2) = Suc (Suc ?pc)"
    using assms(2) by simp_all
  have "bpf_step P (abs_conf base s) (abs_conf base s')"
  proof -
    consider "i_op i = 0x18" | "i_op i = 0x61" | "i_op i = 0x5d" | "i_op i = 0x77" | "i_op i = 0xb7"
      | "i_op i = 0xbf" | "i_op i = 0x85"
      using exec by (auto simp: bpf_exec_def split: if_splits)
    then show ?thesis
    proof cases
      case 1
      then have "fetch P ?pc = Some (Ld_imm64 (i_dst i))"
        by (simp add: fetch classify_def)
      note step_ld_imm64 [OF this, of ?r "[]"]
      moreover obtain sec off where "s' = s\<lparr>regs := (regs s)(i_dst i := B_ptr sec off), pc := pc s + 2\<rparr>"
        using 1 exec by (auto simp: bpf_exec_def split: option.splits)
      ultimately show ?thesis
        by (simp add: abs_conf_def abs_val_set next_pc del: fun_upd_apply)
    next
      case 2
      then have f: "fetch P ?pc = Some (Ldx 4 (i_dst i) (i_src i) (i_off i))"
        by (simp add: fetch classify_def mem_size_def)
      obtain sec off n where "regs s (i_src i) = B_ptr sec off"
        and s': "s' = s\<lparr>regs := (regs s)(i_dst i := B_num (of_nat (le_at (be_secs e sec) n 4))), pc := pc s + 1\<rparr>"
        using 2 exec by (auto simp: bpf_exec_def Let_def split: bval.splits if_splits)
      then show ?thesis
        using step_ldx [OF f, of ?r _ "of_nat (le_at (be_secs e sec) n 4)" "[]"] le_at_4_fits
        by (simp add: abs_conf_def abs_val_set next_pc del: fun_upd_apply)
    next
      case 3
      then have f: "fetch P ?pc = Some (Jcc_reg J_ne (i_dst i) (i_src i) (i_off i))"
        by (simp add: fetch classify_def cond_of_def)
      obtain x y where "regs s (i_dst i) = B_num x" "regs s (i_src i) = B_num y"
        and s': "s' = s\<lparr>pc := if x \<noteq> y then pc s + 1 + i_off i else pc s + 1\<rparr>"
        using 3 exec by (auto simp: bpf_exec_def split: bval.splits if_splits)
      moreover from this assms(2,4)
      have "jump_to ?pc (cond_holds J_ne x y) (i_off i) = Some (nat (pc s'))"
        by (auto simp: jump_to_def cond_holds_def next_pc algebra_simps split: if_splits)
      ultimately show ?thesis
        using step_jcc_reg [OF f, of ?r x y _ "[]"] by (simp add: abs_conf_def)
    next
      case 4
      then have f: "fetch P ?pc = Some (Alu_imm Alu_rsh (i_dst i) (i_imm i))"
        by (simp add: fetch classify_def alu_of_def)
      obtain x where x: "regs s (i_dst i) = B_num x" "0 \<le> i_imm i" "i_imm i < 64"
        and s': "s' = s\<lparr>regs := (regs s)(i_dst i := B_num (drop_bit (nat (i_imm i)) x)), pc := pc s + 1\<rparr>"
        using 4 exec by (auto simp: bpf_exec_def split: bval.splits if_splits)
      have "alu_rval Alu_rsh (?r (i_dst i)) (V_num (of_int (i_imm i))) = Some (V_num (drop_bit (nat (i_imm i)) x))"
        using x by (simp add: alu_rval_def alu_value_def shift_amount)
      then show ?thesis
        using step_alu_imm [OF f, of ?r _ "[]"] s' by (simp add: abs_conf_def abs_val_set next_pc del: fun_upd_apply)
    next
      case 5
      then have f: "fetch P ?pc = Some (Alu_imm Alu_mov (i_dst i) (i_imm i))"
        by (simp add: fetch classify_def alu_of_def)
      show ?thesis
        using step_alu_imm [OF f, of ?r _ "[]"] 5 exec
        by (auto simp: bpf_exec_def alu_rval_def abs_conf_def abs_val_set next_pc simp del: fun_upd_apply)
    next
      case 6
      then have f: "fetch P ?pc = Some (Alu_reg Alu_mov (i_dst i) (i_src i))"
        by (simp add: fetch classify_def alu_of_def)
      obtain v where v: "abs_val base (regs s (i_src i)) = Some v"
        and s': "s' = s\<lparr>regs := (regs s)(i_dst i := regs s (i_src i)), pc := pc s + 1\<rparr>"
        using 6 exec by (cases "regs s (i_src i)") (auto simp: bpf_exec_def)
      then show ?thesis
        using step_alu_reg [OF f, of ?r v v "[]"] by (simp add: alu_rval_def abs_conf_def abs_val_set next_pc del: fun_upd_apply)
    next
      case 7
      then have "fetch P ?pc = Some (Call_helper (i_imm i))"
        using src by (simp add: fetch classify_def)
      moreover obtain s1 where "bpf_call e (i_imm i) s = Some s1" "s' = s1\<lparr>pc := pc s + 1\<rparr>"
        using 7 exec by (auto simp: bpf_exec_def bind_eq_Some_conv)
      ultimately show ?thesis
        using call_simulated [OF _ _ assms(2)] by blast
    qed
  qed
  then show ?thesis
    by (simp only: P_def)
qed

lemma run_simulated:
  assumes "bpf_run k e s = Some (r, cs)" and "\<forall>i \<in> set (be_insns e). i_op i = 0x85 \<longrightarrow> i_src i = 0"
  shows "\<exists>c. (bpf_step (be_insns e))\<^sup>*\<^sup>* (abs_conf base s) c \<and> at_exit (be_insns e) c \<and> c_regs c 0 = Some (V_num r)"
  using assms(1)
proof (induction k arbitrary: s)
  case (Suc k)
  let ?i = "be_insns e ! nat (pc s)"
  have pc: "0 \<le> pc s" "pc s < int (length (be_insns e))"
    using Suc.prems by (auto split: if_splits)
  then obtain out where out: "bpf_exec e ?i s = Some out"
    using Suc.prems by (auto split: option.splits)
  show ?case
  proof (cases out)
    case (Continue s')
    then have run: "bpf_run k e s' = Some (r, cs)"
      using Suc.prems pc out by simp
    then have "0 \<le> pc s'"
      by (cases k) (auto split: if_splits)
    then have "bpf_step (be_insns e) (abs_conf base s) (abs_conf base s')"
      using exec_simulated [OF _ pc _ assms(2)] out Continue by blast
    with Suc.IH [OF run] show ?thesis
      by (meson converse_rtranclp_into_rtranclp)
  next
    case (Exit v vs)
    then have "v = r"
      using Suc.prems pc out by simp
    moreover have "i_op ?i = 0x95" "regs s 0 = B_num v"
      using out Exit by (auto simp: bpf_exec_def bind_eq_Some_conv Let_def split: if_splits option.splits bval.splits)
    moreover have "fetch (be_insns e) (nat (pc s)) = classify ?i"
      using pc by (simp add: fetch_def nat_less_iff)
    ultimately have "at_exit (be_insns e) (abs_conf base s) \<and> c_regs (abs_conf base s) 0 = Some (V_num r)"
      by (simp add: at_exit_def abs_conf_def classify_def)
    then show ?thesis
      by blast
  qed
qed simp

end
