(* ===== verification/Usdt.thy ===== *)
theory Usdt
  imports HE_Prelude
begin

unbundle bit_operations_syntax

text \<open>
  The BPF side of USDT probes, examples/c/.output/bpf/usdt.bpf.h: finding the specification of the
  probe that fired, the number and size of its arguments, fetching an argument from a constant, a
  register or memory and cutting it to its size, the cookie, and the macros that fetch a handler's
  arguments. The maps, the kernel helpers and the register file are parameters (\<open>usdt_env\<close>). A shift
  by a negative amount or by 64 and more is undefined in C (\<open>c_shift\<close>); it makes a function return \<open>None\<close>.
\<close>

section \<open>Data\<close>

definition BPF_USDT_ARG_CONST :: u32 where "BPF_USDT_ARG_CONST = 0"
definition BPF_USDT_ARG_REG :: u32 where "BPF_USDT_ARG_REG = 1"
definition BPF_USDT_ARG_REG_DEREF :: u32 where "BPF_USDT_ARG_REG_DEREF = 2"

lemmas usdt_arg_types = BPF_USDT_ARG_CONST_def BPF_USDT_ARG_REG_def BPF_USDT_ARG_REG_DEREF_def

record usdt_arg_spec =
  val_off :: u64
  arg_type :: u32
  reg_off :: u16
  arg_signed :: bool
  arg_bitshift :: byte

definition BPF_USDT_MAX_ARG_CNT :: nat where
  "BPF_USDT_MAX_ARG_CNT = 12"

record usdt_spec =
  us_args :: "usdt_arg_spec list"
  usdt_cookie :: u64
  arg_cnt :: u16

text \<open>
  \<open>ue_ip_to_spec_id\<close> and \<open>ue_specs\<close> are the two maps. A probe read gives its return code and what it left
  in the destination.
\<close>

record usdt_env =
  ue_has_cookie :: bool
  ue_ip :: u64
  ue_ip_to_spec_id :: "u64 \<Rightarrow> u32 option"
  ue_attach_cookie :: u64
  ue_specs :: "u32 \<Rightarrow> usdt_spec option"
  ue_ctx :: u64
  ue_read_kernel :: "u64 \<Rightarrow> int \<times> u64"
  ue_read_user :: "u64 \<Rightarrow> int \<times> u64"
  ue_big_endian :: bool

section \<open>Operations\<close>

text \<open>The id is an \<open>int\<close>: the cookie is cut to 32 bits.\<close>

definition usdt_spec_id :: "usdt_env \<Rightarrow> u32" where
  "usdt_spec_id e =
     (if \<not> ue_has_cookie e then
        (case ue_ip_to_spec_id e (ue_ip e) of Some i \<Rightarrow> i | None \<Rightarrow> word_of_int (- ESRCH))
      else ucast (ue_attach_cookie e))"

text \<open>The first lines of the four functions: the specification, or nothing.\<close>

definition usdt_lookup :: "usdt_env \<Rightarrow> usdt_spec option" where
  "usdt_lookup e =
     (let spec_id = usdt_spec_id e in
      if sint spec_id < 0 then None else ue_specs e spec_id)"

definition bpf_usdt_arg_cnt :: "usdt_env \<Rightarrow> int" where
  "bpf_usdt_arg_cnt e = (case usdt_lookup e of None \<Rightarrow> - ESRCH | Some spec \<Rightarrow> sint (arg_cnt spec))"

text \<open>
  The bounds check, with its two comparisons as C makes them: \<open>arg_num\<close> is unsigned, so the \<open>short\<close>
  count is converted to an unsigned 64-bit number, and a negative count becomes a large one.
\<close>

definition usdt_arg_spec_at :: "usdt_spec \<Rightarrow> u64 \<Rightarrow> usdt_arg_spec option" where
  "usdt_arg_spec_at spec arg_num =
     (if of_nat BPF_USDT_MAX_ARG_CNT \<le> arg_num then None
      else if (scast (arg_cnt spec) :: u64) \<le> arg_num then None
      else Some (us_args spec ! unat arg_num))"

definition bpf_usdt_arg_size :: "usdt_env \<Rightarrow> u64 \<Rightarrow> int" where
  "bpf_usdt_arg_size e arg_num =
     (case usdt_lookup e of
        None \<Rightarrow> - ESRCH
      | Some spec \<Rightarrow>
          (case usdt_arg_spec_at spec arg_num of
             None \<Rightarrow> - ENOENT
           | Some a \<Rightarrow> sint (word_of_int (64 - sint (arg_bitshift a)) div 8 :: u32)))"

text \<open>The raw value: \<open>Inl\<close> is a negative error the function returns.\<close>

definition usdt_raw_value :: "usdt_env \<Rightarrow> usdt_arg_spec \<Rightarrow> (int + u64) option" where
  "usdt_raw_value e a =
     (if arg_type a = BPF_USDT_ARG_CONST then Some (Inr (val_off a))
      else if arg_type a = BPF_USDT_ARG_REG then
        (let (err, val) = ue_read_kernel e (ue_ctx e + scast (reg_off a)) in
         if err \<noteq> 0 then Some (Inl err) else Some (Inr val))
      else if arg_type a = BPF_USDT_ARG_REG_DEREF then
        (let (err, val) = ue_read_kernel e (ue_ctx e + scast (reg_off a)) in
         if err \<noteq> 0 then Some (Inl err)
         else
           let (err', val') = ue_read_user e (val + val_off a) in
           if err' \<noteq> 0 then Some (Inl err')
           else if ue_big_endian e then map_option Inr (c_shift drop_bit val' (sint (arg_bitshift a)))
           else Some (Inr val'))
      else Some (Inl (- EINVAL)))"

definition usdt_cast_value :: "usdt_arg_spec \<Rightarrow> u64 \<Rightarrow> u64 option" where
  "usdt_cast_value a val =
     Option.bind (c_shift push_bit val (sint (arg_bitshift a))) (\<lambda>v.
       if arg_signed a then c_shift signed_drop_bit v (sint (arg_bitshift a))
       else c_shift drop_bit v (sint (arg_bitshift a)))"

text \<open>The result is the return value and what \<open>*res\<close> holds at the end.\<close>

definition bpf_usdt_arg :: "usdt_env \<Rightarrow> u64 \<Rightarrow> (int \<times> u64) option" where
  "bpf_usdt_arg e arg_num =
     (case usdt_lookup e of
        None \<Rightarrow> Some (- ESRCH, 0)
      | Some spec \<Rightarrow>
          (case usdt_arg_spec_at spec arg_num of
             None \<Rightarrow> Some (- ENOENT, 0)
           | Some a \<Rightarrow>
               (case usdt_raw_value e a of
                  None \<Rightarrow> None
                | Some (Inl err) \<Rightarrow> Some (err, 0)
                | Some (Inr val) \<Rightarrow> map_option (Pair 0) (usdt_cast_value a val))))"

definition bpf_usdt_cookie :: "usdt_env \<Rightarrow> u64" where
  "bpf_usdt_cookie e = (case usdt_lookup e of None \<Rightarrow> 0 | Some spec \<Rightarrow> usdt_cookie spec)"

text \<open>
  \<open>___bpf_usdt_args<n>\<close>: the arguments of the previous macro, then the fetch of argument \<open>n - 1\<close>, whose
  error code the macro drops. The leading \<open>ctx\<close> is left out.
\<close>

fun usdt_args :: "usdt_env \<Rightarrow> nat \<Rightarrow> u64 list option" where
  "usdt_args e 0 = Some []"
| "usdt_args e (Suc n) =
     Option.bind (usdt_args e n) (\<lambda>xs. map_option (\<lambda>(err, x). xs @ [x]) (bpf_usdt_arg e (of_nat n)))"

section \<open>What an argument is\<close>

text \<open>
  User space records an argument of 1, 2, 4 or 8 bytes with the shift \<open>64 - 8 * size\<close>, and at most
  12 of them.
\<close>

definition arg_size_of :: "usdt_arg_spec \<Rightarrow> nat" where
  "arg_size_of a = (64 - unat (arg_bitshift a)) div 8"

definition usdt_arg_ok :: "usdt_arg_spec \<Rightarrow> bool" where
  "usdt_arg_ok a \<longleftrightarrow> arg_bitshift a \<in> {0, 32, 48, 56}"

definition usdt_spec_ok :: "usdt_spec \<Rightarrow> bool" where
  "usdt_spec_ok s \<longleftrightarrow> length (us_args s) = BPF_USDT_MAX_ARG_CNT \<and> list_all usdt_arg_ok (us_args s) \<and>
     sint (arg_cnt s) \<in> {0..12}"

text \<open>The abstract value of an argument: its low bytes, sign- or zero-extended.\<close>

definition cut_extend :: "bool \<Rightarrow> nat \<Rightarrow> u64 \<Rightarrow> u64" where
  "cut_extend sg n v = (if sg then signed_take_bit (8 * n - 1) v else take_bit (8 * n) v)"

lemma cut_extend_whole [simp]: "cut_extend sg 8 v = v"
proof (rule bit_word_eqI)
  fix k
  assume "k < LENGTH(64)"
  then have "k < 63 \<or> k = 63"
    by simp linarith
  then show "bit (cut_extend sg 8 v) k = bit v k"
    by (auto simp: cut_extend_def bit_simps min_def)
qed

lemma take_bit_64 [simp]: "take_bit 64 (v :: u64) = v" "signed_take_bit 63 (v :: u64) = v"
  using cut_extend_whole [of False v] cut_extend_whole [of True v] by (simp_all add: cut_extend_def)

lemma usdt_arg_okE:
  assumes "usdt_arg_ok a"
  obtains "arg_bitshift a = 0" "arg_size_of a = 8" | "arg_bitshift a = 32" "arg_size_of a = 4"
    | "arg_bitshift a = 48" "arg_size_of a = 2" | "arg_bitshift a = 56" "arg_size_of a = 1"
  using assms by (auto simp: usdt_arg_ok_def arg_size_of_def)

lemma usdt_cast_value_ok:
  assumes "usdt_arg_ok a"
  shows "usdt_cast_value a v = Some (cut_extend (arg_signed a) (arg_size_of a) v)"
  using assms
  by (cases a rule: usdt_arg_okE)
    (simp_all add: usdt_cast_value_def c_shift_def cut_extend_def shift_up_down)

lemma bitshift_range:
  assumes "usdt_arg_ok a"
  shows "0 \<le> sint (arg_bitshift a)" "sint (arg_bitshift a) < 64" "nat (sint (arg_bitshift a)) = unat (arg_bitshift a)"
  using assms by (cases a rule: usdt_arg_okE; simp)+

lemma arg_in_range:
  assumes "usdt_spec_ok spec"
  shows "usdt_arg_spec_at spec n =
    (if int (unat n) < sint (arg_cnt spec) then Some (us_args spec ! unat n) else None)"
proof -
  have cnt: "sint (arg_cnt spec) \<in> {0..12}"
    using assms by (simp add: usdt_spec_ok_def)
  define c where "c = nat (sint (arg_cnt spec))"
  have c: "sint (arg_cnt spec) = int c" "c \<le> 12"
    using cnt by (auto simp: c_def)
  have "(of_int (sint (arg_cnt spec)) :: u64) = scast (arg_cnt spec)"
    by (rule of_int_sint)
  then have "(scast (arg_cnt spec) :: u64) = of_nat c"
    by (simp only: c of_int_of_nat_eq)
  then have "unat (scast (arg_cnt spec) :: u64) = c"
    using c by (simp add: unsigned_of_nat take_bit_nat_eq_self)
  then have "(scast (arg_cnt spec) :: u64) \<le> n \<longleftrightarrow> c \<le> unat n"
    by (simp add: word_le_nat_alt)
  moreover have "of_nat BPF_USDT_MAX_ARG_CNT \<le> n \<longleftrightarrow> 12 \<le> unat n"
    by (simp add: word_le_nat_alt BPF_USDT_MAX_ARG_CNT_def)
  moreover have "int (unat n) < sint (arg_cnt spec) \<longleftrightarrow> \<not> c \<le> unat n"
    unfolding c(1) by linarith
  ultimately show ?thesis
    using c(2) by (simp add: usdt_arg_spec_at_def del: of_nat_numeral)
qed

text \<open>What a whole environment of well-formed specifications promises.\<close>

definition usdt_env_ok :: "usdt_env \<Rightarrow> bool" where
  "usdt_env_ok e \<longleftrightarrow> (case usdt_lookup e of None \<Rightarrow> True | Some spec \<Rightarrow> usdt_spec_ok spec)"

text \<open>The abstract fetch: where the value is, then its low bytes, extended.\<close>

definition usdt_fetch :: "usdt_env \<Rightarrow> usdt_arg_spec \<Rightarrow> int \<times> u64" where
  "usdt_fetch e a =
     (let reg = ue_read_kernel e (ue_ctx e + scast (reg_off a));
          mem = ue_read_user e (snd reg + val_off a);
          cut = cut_extend (arg_signed a) (arg_size_of a) in
      if arg_type a = BPF_USDT_ARG_CONST then (0, cut (val_off a))
      else if arg_type a = BPF_USDT_ARG_REG then (if fst reg \<noteq> 0 then (fst reg, 0) else (0, cut (snd reg)))
      else if arg_type a = BPF_USDT_ARG_REG_DEREF then
        (if fst reg \<noteq> 0 then (fst reg, 0)
         else if fst mem \<noteq> 0 then (fst mem, 0)
         else (0, cut (if ue_big_endian e then drop_bit (64 - 8 * arg_size_of a) (snd mem) else snd mem)))
      else (- EINVAL, 0))"

lemma raw_value_ok:
  assumes "usdt_arg_ok a"
  shows "(case usdt_raw_value e a of
      None \<Rightarrow> None
    | Some (Inl err) \<Rightarrow> Some (err, 0)
    | Some (Inr val) \<Rightarrow> map_option (Pair 0) (usdt_cast_value a val)) = Some (usdt_fetch e a)"
proof -
  have "64 - 8 * arg_size_of a = unat (arg_bitshift a)"
    using assms by (cases a rule: usdt_arg_okE) simp_all
  then show ?thesis
    by (simp add: usdt_raw_value_def usdt_fetch_def usdt_cast_value_ok [OF assms] c_shift_def
        bitshift_range [OF assms] Let_def split_beta usdt_arg_types)
qed

lemma arg_ok_at:
  assumes "usdt_spec_ok spec" and "int (unat n) < sint (arg_cnt spec)"
  shows "usdt_arg_ok (us_args spec ! unat n)"
proof -
  have parts: "length (us_args spec) = 12" "list_all usdt_arg_ok (us_args spec)" "sint (arg_cnt spec) \<le> 12"
    using assms(1) by (simp_all add: usdt_spec_ok_def BPF_USDT_MAX_ARG_CNT_def)
  have "unat n < 12"
    using assms(2) parts(3) by linarith
  with parts(1,2) show ?thesis
    by (simp add: list_all_length)
qed

lemma usdt_arg_result:
  assumes "usdt_env_ok e"
  shows "bpf_usdt_arg e n = Some
    (case usdt_lookup e of
       None \<Rightarrow> (- ESRCH, 0)
     | Some spec \<Rightarrow>
         if int (unat n) < sint (arg_cnt spec) then usdt_fetch e (us_args spec ! unat n) else (- ENOENT, 0))"
proof (cases "usdt_lookup e")
  case None
  then show ?thesis
    by (simp add: bpf_usdt_arg_def)
next
  case (Some spec)
  with assms have ok: "usdt_spec_ok spec"
    by (simp add: usdt_env_ok_def)
  from arg_ok_at [OF this, of n] show ?thesis
    by (auto simp: bpf_usdt_arg_def Some arg_in_range [OF ok] raw_value_ok)
qed

lemma usdt_fetch_error: "fst (usdt_fetch e a) \<noteq> 0 \<Longrightarrow> snd (usdt_fetch e a) = 0"
  by (auto simp: usdt_fetch_def Let_def split: if_splits)

lemma arg_error_zero:
  assumes "usdt_env_ok e"
  shows "\<exists>err v. bpf_usdt_arg e n = Some (err, v) \<and> (err \<noteq> 0 \<longrightarrow> v = 0)"
proof (cases "usdt_lookup e")
  case None
  then show ?thesis
    by (simp add: usdt_arg_result [OF assms])
next
  case (Some spec)
  have "\<exists>err v. usdt_fetch e a = (err, v) \<and> (err \<noteq> 0 \<longrightarrow> v = 0)" for a
    using usdt_fetch_error [of e a] by (cases "usdt_fetch e a") auto
  with Some show ?thesis
    by (simp add: usdt_arg_result [OF assms])
qed

section \<open>Properties\<close>

text \<open>
  C14: for the specifications user space writes (sizes 1, 2, 4 or 8, at most 12 arguments), \<open>bpf_usdt_arg\<close>
  never shifts by an undefined amount and computes the abstract fetch: the constant, the register or
  the memory behind the register, cut to the argument's size and sign- or zero-extended, on both byte
  orders; an unknown probe, an argument beyond the count and a failed read give the error code.
\<close>

theorem usdt_arg_fetches:
  assumes "usdt_env_ok e"
  shows "bpf_usdt_arg e n = Some
    (case usdt_lookup e of
       None \<Rightarrow> (- ESRCH, 0)
     | Some spec \<Rightarrow>
         if int (unat n) < sint (arg_cnt spec) then usdt_fetch e (us_args spec ! unat n) else (- ENOENT, 0))"
  using assms by (rule usdt_arg_result)

definition demo_usdt_arg :: "u32 \<Rightarrow> bool \<Rightarrow> byte \<Rightarrow> usdt_arg_spec" where
  "demo_usdt_arg kind sg bits =
     \<lparr>val_off = 0xFF80, arg_type = kind, reg_off = 80, arg_signed = sg, arg_bitshift = bits\<rparr>"

definition demo_usdt_env :: usdt_env where
  "demo_usdt_env =
     \<lparr>ue_has_cookie = True, ue_ip = 0, ue_ip_to_spec_id = Map.empty, ue_attach_cookie = 7,
      ue_specs = [7 \<mapsto> \<lparr>us_args = demo_usdt_arg 0 True 56 # demo_usdt_arg 2 False 48 # replicate 10 (demo_usdt_arg 9 False 0),
                        usdt_cookie = 99, arg_cnt = 3\<rparr>],
      ue_ctx = 1000, ue_read_kernel = (\<lambda>a. (0, a)), ue_read_user = (\<lambda>a. if a = 0 then (- 14, 0) else (0, a)),
      ue_big_endian = False\<rparr>"

lemma demo_usdt_env_ok: "usdt_env_ok demo_usdt_env"
  by (simp add: usdt_env_ok_def usdt_lookup_def usdt_spec_id_def demo_usdt_env_def usdt_spec_ok_def
      usdt_arg_ok_def demo_usdt_arg_def BPF_USDT_MAX_ARG_CNT_def list_all_iff)

lemma demo_usdt_lookup:
  "usdt_lookup demo_usdt_env =
     Some \<lparr>us_args = demo_usdt_arg 0 True 56 # demo_usdt_arg 2 False 48 # replicate 10 (demo_usdt_arg 9 False 0),
           usdt_cookie = 99, arg_cnt = 3\<rparr>"
  by (simp add: usdt_lookup_def usdt_spec_id_def demo_usdt_env_def)

theorem usdt_arg_fetches_witness:
  "bpf_usdt_arg demo_usdt_env 0 = Some (0, - 128) \<and> bpf_usdt_arg demo_usdt_env 2 = Some (- 22, 0) \<and>
   bpf_usdt_arg demo_usdt_env 5 = Some (- ENOENT, 0)"
  by (simp add: usdt_arg_fetches [OF demo_usdt_env_ok] demo_usdt_lookup usdt_fetch_def demo_usdt_arg_def
      arg_size_of_def cut_extend_def usdt_arg_types EINVAL_def Let_def)

text \<open>
  \<open>bpf_usdt_arg_size\<close> and \<open>bpf_usdt_arg_cnt\<close> agree with \<open>bpf_usdt_arg\<close>: the size is positive exactly
  for the arguments below the count, it is then 1, 2, 4 or 8, and the fetched value fits in that many
  bytes (as an unsigned or as a signed number, as the specification says).
\<close>

theorem usdt_size_bounds_value:
  assumes "usdt_env_ok e" and "usdt_lookup e = Some spec"
  shows "if int (unat n) < bpf_usdt_arg_cnt e then
      bpf_usdt_arg_size e n \<in> {1, 2, 4, 8} \<and>
      (\<exists>err v. bpf_usdt_arg e n = Some (err, v) \<and>
         cut_extend (arg_signed (us_args spec ! unat n)) (nat (bpf_usdt_arg_size e n)) v = v)
    else bpf_usdt_arg_size e n = - ENOENT \<and> bpf_usdt_arg e n = Some (- ENOENT, 0)"
proof -
  let ?a = "us_args spec ! unat n"
  have ok: "usdt_spec_ok spec"
    using assms by (simp add: usdt_env_ok_def)
  have cnt: "bpf_usdt_arg_cnt e = sint (arg_cnt spec)"
    by (simp add: bpf_usdt_arg_cnt_def assms(2))
  show ?thesis
  proof (cases "int (unat n) < sint (arg_cnt spec)")
    case False
    then show ?thesis
      by (simp only: cnt if_False usdt_arg_result [OF assms(1)] assms(2) option.case)
        (simp add: bpf_usdt_arg_size_def assms(2) arg_in_range [OF ok])
  next
    case True
    have a: "usdt_arg_ok ?a"
      by (rule arg_ok_at [OF ok True])
    have size: "bpf_usdt_arg_size e n = int (arg_size_of ?a)" and sizes: "arg_size_of ?a \<in> {1, 2, 4, 8}"
      using a True by (cases ?a rule: usdt_arg_okE; simp add: bpf_usdt_arg_size_def assms(2) arg_in_range [OF ok])+
    have "cut_extend sg (arg_size_of ?a) (cut_extend sg (arg_size_of ?a) v) = cut_extend sg (arg_size_of ?a) v" for sg v
      by (simp add: cut_extend_def)
    moreover have "cut_extend sg (arg_size_of ?a) 0 = 0" for sg
      by (simp add: cut_extend_def)
    ultimately have "cut_extend (arg_signed ?a) (arg_size_of ?a) (snd (usdt_fetch e ?a)) = snd (usdt_fetch e ?a)"
      by (simp add: usdt_fetch_def Let_def)
    with size sizes True show ?thesis
      by (simp only: cnt if_True usdt_arg_result [OF assms(1)] assms(2) option.case nat_int)
        (auto intro!: exI [of _ "fst (usdt_fetch e ?a)"] exI [of _ "snd (usdt_fetch e ?a)"])
  qed
qed

theorem usdt_size_bounds_value_witness:
  "bpf_usdt_arg_size demo_usdt_env 1 \<in> {1, 2, 4, 8} \<and> bpf_usdt_arg_size demo_usdt_env 4 = - ENOENT"
  using usdt_size_bounds_value [OF demo_usdt_env_ok demo_usdt_lookup, of 1]
    usdt_size_bounds_value [OF demo_usdt_env_ok demo_usdt_lookup, of 4]
  by (simp add: bpf_usdt_arg_cnt_def demo_usdt_lookup)

text \<open>
  The macro \<open>BPF_USDT\<close> hands a handler with \<open>k\<close> parameters the arguments in order: parameter \<open>i\<close> is
  what \<open>bpf_usdt_arg\<close> stores for argument \<open>i\<close>, and 0 where the fetch fails or the probe has no such
  argument.
\<close>

theorem usdt_args_in_order:
  assumes "usdt_env_ok e"
  shows "\<exists>xs. usdt_args e k = Some xs \<and> length xs = k \<and>
    (\<forall>i < k. \<exists>err. bpf_usdt_arg e (of_nat i) = Some (err, xs ! i) \<and> (err \<noteq> 0 \<longrightarrow> xs ! i = 0))"
proof (induction k)
  case (Suc k)
  then obtain xs where xs: "usdt_args e k = Some xs" "length xs = k"
    "\<forall>i < k. \<exists>err. bpf_usdt_arg e (of_nat i) = Some (err, xs ! i) \<and> (err \<noteq> 0 \<longrightarrow> xs ! i = 0)"
    by blast
  obtain err x where x: "bpf_usdt_arg e (of_nat k) = Some (err, x)" "err \<noteq> 0 \<longrightarrow> x = 0"
    using arg_error_zero [OF assms] by blast
  have "\<exists>err. bpf_usdt_arg e (of_nat i) = Some (err, (xs @ [x]) ! i) \<and> (err \<noteq> 0 \<longrightarrow> (xs @ [x]) ! i = 0)"
    if "i < Suc k" for i
    using xs(2,3) x that by (cases "i = k") (auto simp: nth_append)
  with xs(1,2) x(1) show ?case
    by (intro exI [of _ "xs @ [x]"]) auto
qed simp

theorem usdt_args_in_order_witness:
  "\<exists>xs. usdt_args demo_usdt_env 4 = Some xs \<and> length xs = 4 \<and>
    (\<forall>i < 4. \<exists>err. bpf_usdt_arg demo_usdt_env (of_nat i) = Some (err, xs ! i) \<and> (err \<noteq> 0 \<longrightarrow> xs ! i = 0))"
  by (rule usdt_args_in_order [OF demo_usdt_env_ok])

end
