(* ===== verification/Bpf_Calls.thy ===== *)
theory Bpf_Calls
  imports Bpf_Sound
begin

text \<open>
  Calls between the functions of one object. Clang compiles a function of a BPF source that is not inlined to a
  function of its own in the section .text; the instruction that calls it names no target, a relocation does. This
  theory links such an object, extends the machine of \<open>Bpf_Machine\<close> by a stack of frames, one for each function that
  has been called and not yet returned, and extends the checker by calls and by accesses to the caller's stack. The
  checker stays sound: a linked program it accepts can always go on until its exit, after a number of steps that is
  computed from the program.
\<close>

section \<open>Linked programs\<close>

text \<open>A function: its instructions, each with the number of the function it calls where a relocation gives one.\<close>

type_synonym func = "(insn \<times> nat option) list"

definition local_call :: "insn \<Rightarrow> bool" where
  "local_call i = (i_op i = 0x85 \<and> i_src i = 1)"

text \<open>
  The functions of an object are its symbols of type 2. A relocation of type 10 (\<open>R_BPF_64_32\<close>) at a call says that the
  target is the symbol's value plus eight times the call's immediate, plus one instruction.
\<close>

definition function_symbols :: "byte list \<Rightarrow> elf_sym list" where
  "function_symbols elf = filter (\<lambda>s. sym_info s mod 16 = 2) (elf_symbols elf)"

definition call_relocations :: "byte list \<Rightarrow> nat \<Rightarrow> (nat \<times> elf_sym) list" where
  "call_relocations elf sec =
     (let syms = elf_symbols elf in
      concat (map (\<lambda>s.
        if es_type s = 9 \<and> es_info s = sec then
          concat (map (\<lambda>j. let r = drop (16 * j) (es_bytes s) in
            if le_at r 8 4 = 10 then [(le_at r 0 8, syms ! le_at r 12 4)] else []) [0..<es_size s div 16])
        else []) (elf_sections elf)))"

definition function_at :: "elf_sym list \<Rightarrow> nat \<Rightarrow> int \<Rightarrow> nat option" where
  "function_at fs sec off = find (\<lambda>j. sym_shndx (fs ! j) = sec \<and> int (sym_value (fs ! j)) = off) [0..<length fs]"

definition call_target :: "elf_sym list \<Rightarrow> (nat \<times> elf_sym) list \<Rightarrow> nat \<Rightarrow> insn \<Rightarrow> nat option" where
  "call_target fs rels off i =
     (if local_call i then
        Option.bind (map_of rels off) (\<lambda>s. function_at fs (sym_shndx s) (int (sym_value s) + 8 * (i_imm i + 1)))
      else None)"

definition link_function :: "byte list \<Rightarrow> elf_sym \<Rightarrow> func" where
  "link_function elf s =
     (let P = decode_program (es_bytes (elf_sections elf ! sym_shndx s));
          fs = function_symbols elf; rels = call_relocations elf (sym_shndx s) in
      map (\<lambda>(k, i). (i, call_target fs rels (8 * k) i))
        (enumerate (sym_value s div 8) (take (sym_size s div 8) (drop (sym_value s div 8) P))))"

definition linked_functions :: "byte list \<Rightarrow> func list" where
  "linked_functions elf = map (link_function elf) (function_symbols elf)"

text \<open>The functions that no other function calls: a run can start there, with the context in register 1.\<close>

definition roots :: "func list \<Rightarrow> nat list" where
  "roots F = filter (\<lambda>j. list_all (list_all (\<lambda>(i, c). c \<noteq> Some j)) F) [0..<length F]"

lemma link_function_no_calls:
  assumes "call_relocations elf (sym_shndx s) = []"
  shows "link_function elf s = map (\<lambda>i. (i, None))
    (take (sym_size s div 8) (drop (sym_value s div 8) (decode_program (es_bytes (elf_sections elf ! sym_shndx s)))))"
proof -
  have "call_target (function_symbols elf) (call_relocations elf (sym_shndx s)) off i = None" for off i
    by (simp add: call_target_def assms)
  moreover have "map (\<lambda>(k, i). (i, None)) (enumerate n xs) = map (\<lambda>i. (i, None)) xs" for n and xs :: "insn list"
    by (induction xs arbitrary: n) simp_all
  ultimately show ?thesis
    by (simp add: link_function_def Let_def)
qed

section \<open>Frames\<close>

text \<open>
  The function that runs and its configuration, then the callers, the latest first. Every function has the 512 bytes of
  stack below its own register 10, and the frame of the caller lies directly above: a stack pointer of the caller
  at distance \<open>d\<close> is one of the callee at \<open>d + 512\<close>.
\<close>

type_synonym frames = "(nat \<times> bpf_conf) list"

definition body :: "func list \<Rightarrow> nat \<Rightarrow> insn list" where
  "body F i = (if i < length F then map fst (F ! i) else [])"

definition callee :: "func list \<Rightarrow> nat \<Rightarrow> nat \<Rightarrow> nat option" where
  "callee F i pc =
     (if i < length F \<and> pc < length (F ! i) \<and> local_call (fst (F ! i ! pc)) then snd (F ! i ! pc) else None)"

fun lift_val :: "rval \<Rightarrow> rval" where
  "lift_val (V_num n) = V_num n"
| "lift_val (V_fp d) = V_fp (d + 512)"

text \<open>The callee sees registers 1 to 5 and its own frame pointer.\<close>

definition enter :: "regfile \<Rightarrow> regfile" where
  "enter r = (\<lambda>q. if 1 \<le> q \<and> q \<le> 5 then map_option lift_val (r q) else if q = 10 then Some (V_fp 0) else None)"

definition resume :: "bpf_conf \<Rightarrow> u64 \<Rightarrow> bpf_conf" where
  "resume c n = c\<lparr>c_regs := after_call (c_regs c) n\<rparr>"

text \<open>An access through a stack pointer that lies in the caller's frame.\<close>

definition in_caller :: "int \<Rightarrow> nat \<Rightarrow> bool" where
  "in_caller d sz \<longleftrightarrow> 0 < sz \<and> 0 \<le> d \<and> d + int sz \<le> 512"

text \<open>A helper may have been given a stack pointer, and then it may write the frames above it as well.\<close>

definition disturb :: "insn list \<Rightarrow> bpf_conf \<Rightarrow> frames \<Rightarrow> frames" where
  "disturb P c fs =
     (case fetch P (c_pc c) of
        Some (Call_helper f) \<Rightarrow> map (\<lambda>(j, e). (j, e\<lparr>c_slots := touch (\<lambda>_. True) (c_slots e)\<rparr>)) fs
      | _ \<Rightarrow> fs)"

inductive frames_step :: "func list \<Rightarrow> frames \<Rightarrow> frames \<Rightarrow> bool" for F where
  frame_own:
    "bpf_step (body F i) c c' \<Longrightarrow> frames_step F ((i, c) # fs) ((i, c') # disturb (body F i) c fs)"
| frame_up_load:
    "\<lbrakk>fetch (body F i) pc = Some (Ldx sz d s off); r s = Some (V_fp b); in_caller (b + off) sz;
      stack_read (c_slots e) (b + off - 512) sz = Some None; fits_bytes sz n\<rbrakk> \<Longrightarrow>
     frames_step F ((i, \<lparr>c_pc = pc, c_regs = r, c_slots = m\<rparr>) # (j, e) # fs)
       ((i, \<lparr>c_pc = Suc pc, c_regs = r(d \<mapsto> V_num n), c_slots = m\<rparr>) # (j, e) # fs)"
| frame_up_store:
    "\<lbrakk>fetch (body F i) pc = Some (Stx sz d off s); r d = Some (V_fp b); in_caller (b + off) sz; r s = Some (V_num n)\<rbrakk> \<Longrightarrow>
     frames_step F ((i, \<lparr>c_pc = pc, c_regs = r, c_slots = m\<rparr>) # (j, e) # fs)
       ((i, \<lparr>c_pc = Suc pc, c_regs = r, c_slots = m\<rparr>) #
        (j, e\<lparr>c_slots := store_num (b + off - 512) sz (c_slots e)\<rparr>) # fs)"
| frame_call:
    "\<lbrakk>callee F i pc = Some j; j < length F; length fs < 7\<rbrakk> \<Longrightarrow>
     frames_step F ((i, \<lparr>c_pc = pc, c_regs = r, c_slots = m\<rparr>) # fs)
       ((j, \<lparr>c_pc = 0, c_regs = enter r, c_slots = []\<rparr>) # (i, \<lparr>c_pc = Suc pc, c_regs = r, c_slots = m\<rparr>) # fs)"
| frame_return:
    "\<lbrakk>at_exit (body F i) c; c_regs c 0 = Some (V_num n)\<rbrakk> \<Longrightarrow>
     frames_step F ((i, c) # (j, e) # fs) ((j, resume e n) # fs)"

text \<open>The program ends when its first function is at an exit.\<close>

definition frames_done :: "func list \<Rightarrow> frames \<Rightarrow> bool" where
  "frames_done F fs \<longleftrightarrow> (\<exists>i c. fs = [(i, c)] \<and> at_exit (body F i) c)"

definition frames_init :: "nat \<Rightarrow> u64 \<Rightarrow> frames" where
  "frames_init p ctx = [(p, bpf_init ctx)]"

section \<open>The checker\<close>

text \<open>
  Every function has an entry: what is known of its registers when it is called. A function calls only functions that
  come before it in the object, with registers its entry allows, and while it has saved no stack pointers. A
  function that is always called may also load and store numbers in the frame of its caller.
\<close>

fun lift_ty :: "rty \<Rightarrow> rty" where
  "lift_ty T_num = T_num"
| "lift_ty (T_fp d) = T_fp (d + 512)"

definition enter_ty :: "regs_ty \<Rightarrow> regs_ty" where
  "enter_ty a =
     None # map (map_option lift_ty) (take 5 (drop 1 a)) @ [None, None, None, None, Some (T_fp 0)]"

fun up_eff :: "bpf_ins \<Rightarrow> known \<Rightarrow> (int \<times> known) list option" where
  "up_eff (Ldx sz d s off) (a, m) =
     (case reg_ty a s of
        Some (T_fp b) \<Rightarrow> if in_caller (b + off) sz then goto_next (set_ty a d T_num) m else None
      | _ \<Rightarrow> None)"
| "up_eff (Stx sz d off s) (a, m) =
     (case (reg_ty a d, reg_ty a s) of
        (Some (T_fp b), Some T_num) \<Rightarrow> if in_caller (b + off) sz then goto_next (Some a) m else None
      | _ \<Rightarrow> None)"
| "up_eff _ _ = None"

definition call_eff :: "regs_ty list \<Rightarrow> nat \<Rightarrow> insn \<times> nat option \<Rightarrow> known \<Rightarrow> (int \<times> known) list option" where
  "call_eff E i x k =
     (case if local_call (fst x) then snd x else None of
        Some j \<Rightarrow>
          if snd k = [] \<and> length (fst k) = 11 \<and> regs_below (enter_ty (fst k)) (E ! j)
          then Some [(1, call_ty (fst k), [])] else None
      | None \<Rightarrow>
          (case ins_eff (fst x) k of
             Some ss \<Rightarrow> Some ss
           | None \<Rightarrow> if E ! i \<noteq> fst init_known then Option.bind (classify (fst x)) (\<lambda>y. up_eff y k) else None))"

definition function_types :: "regs_ty list \<Rightarrow> nat \<Rightarrow> func \<Rightarrow> known option list" where
  "function_types E i f = infer (call_eff E i) f (Some (E ! i, []) # replicate (length f - 1) None)"

definition function_check :: "regs_ty list \<Rightarrow> nat \<Rightarrow> func \<Rightarrow> bool" where
  "function_check E i f =
     (f \<noteq> [] \<and> list_all (\<lambda>x. case snd x of None \<Rightarrow> True | Some j \<Rightarrow> j < i) f \<and>
      well_typed (call_eff E i) f (function_types E i f))"

definition functions_check :: "func list \<Rightarrow> regs_ty list \<Rightarrow> bool" where
  "functions_check F E = (length F \<le> 8 \<and> list_all (\<lambda>i. function_check E i (F ! i)) [0..<length F])"

section \<open>The number of steps\<close>

text \<open>An instruction takes one step, a call one and the steps of its callee.\<close>

definition weight :: "nat list \<Rightarrow> insn \<times> nat option \<Rightarrow> nat" where
  "weight W x = (case if local_call (fst x) then snd x else None of None \<Rightarrow> 1 | Some j \<Rightarrow> Suc (W ! j))"

definition run_bounds :: "func list \<Rightarrow> nat list" where
  "run_bounds F = foldl (\<lambda>W f. W @ [sum_list (map (weight W) f)]) [] F"

section \<open>Reading a function\<close>

lemma body_nth [simp]: "\<lbrakk>i < length F; pc < length (F ! i)\<rbrakk> \<Longrightarrow> fetch (body F i) pc = classify (fst (F ! i ! pc))"
  by (simp add: fetch_def body_def)

lemma body_length [simp]: "i < length F \<Longrightarrow> length (body F i) = length (F ! i)"
  by (simp add: body_def)

lemma local_call_unknown [simp]: "local_call i \<Longrightarrow> classify i = None"
  by (simp add: local_call_def classify_def)

lemma bpf_step_fetch: "bpf_step P c c' \<Longrightarrow> \<exists>x. fetch P (c_pc c) = Some x"
  by (auto elim: bpf_step.cases)

section \<open>Registers across calls\<close>

lemma lift_has_ty: "has_ty v t \<Longrightarrow> has_ty (lift_val v) (lift_ty t)"
  by (cases t) auto

lemma regs_ok_enter:
  assumes "regs_ok a r" and "length a = 11"
  shows "regs_ok (enter_ty a) (enter r)"
  unfolding regs_ok_def
proof (intro allI impI)
  fix q t
  assume known: "reg_ty (enter_ty a) q = Some t"
  consider "q = 0" | "1 \<le> q \<and> q \<le> 5" | "q = 6 \<or> q = 7 \<or> q = 8 \<or> q = 9" | "q = 10" | "10 < q"
    by linarith
  then show "\<exists>v. enter r q = Some v \<and> has_ty v t"
  proof cases
    case 2
    then have "reg_ty (enter_ty a) q = map_option lift_ty (a ! q)"
      using assms(2) by (auto simp: reg_ty_def enter_ty_def nth_append nth_Cons' min_def)
    then obtain u where u: "reg_ty a q = Some u" "t = lift_ty u"
      using known assms(2) 2 by (auto simp: reg_ty_def)
    then obtain v where "r q = Some v" "has_ty v u"
      using regs_okD [OF assms(1)] by blast
    then show ?thesis
      using u(2) 2 lift_has_ty by (simp add: enter_def)
  qed (use known assms(2) in \<open>auto simp: reg_ty_def enter_ty_def enter_def nth_append nth_Cons' min_def\<close>)
qed

lemma slots_ok_Nil [simp]: "slots_ok [] m \<longleftrightarrow> m = []"
  using slots_ok_entry [of "[]" m] by (cases m) (auto simp: slots_ok_def)

section \<open>Accesses to the caller's frame\<close>

lemma up_eff_known:
  assumes "up_eff x (a, m) = Some ss" and "regs_ok a r"
  obtains sz d s off b t where "x = Ldx sz d s off" and "r s = Some (V_fp b)" and "in_caller (b + off) sz"
      and "set_ty a d T_num = Some t" and "ss = [(1, t, m)]"
    | sz d s off b n where "x = Stx sz d off s" and "r d = Some (V_fp b)" and "in_caller (b + off) sz"
      and "r s = Some (V_num n)" and "ss = [(1, a, m)]"
  using assms(1) regs_ok_num [OF assms(2)] regs_ok_fp [OF assms(2)]
  by (cases "(x, a, m)" rule: up_eff.cases) (fastforce simp: goto_next_known split: option.splits rty.splits if_splits)+

text \<open>Such an access is outside the function's own frame, so it is not a step of the function on its own.\<close>

lemma in_caller_not_own [simp]: "in_caller d sz \<Longrightarrow> \<not> in_stack d sz"
  by (simp add: in_caller_def in_stack_def)

lemma up_eff_not_own:
  assumes "fetch P (c_pc c) = Some x" and "up_eff x k = Some ss" and "conf_ok k c"
  shows "\<not> bpf_step P c c'"
proof -
  obtain a m where k: "k = (a, m)"
    by fastforce
  show ?thesis
  proof (rule up_eff_known [OF assms(2) [unfolded k], of "c_regs c"])
    show "regs_ok a (c_regs c)"
      using assms(3) by (simp add: conf_ok_def k)
  qed (use assms(1) in \<open>auto elim!: bpf_step.cases\<close>)
qed

section \<open>The invariant of the frames\<close>

text \<open>A function is where the checker expects it; a caller will be, whatever its callee returns.\<close>

definition typed_at :: "func list \<Rightarrow> regs_ty list \<Rightarrow> nat \<Rightarrow> bpf_conf \<Rightarrow> bool" where
  "typed_at F E i c \<longleftrightarrow>
     i < length F \<and> c_pc c < length (F ! i) \<and> (\<exists>k. function_types E i (F ! i) ! c_pc c = Some k \<and> conf_ok k c)"

definition waiting :: "func list \<Rightarrow> regs_ty list \<Rightarrow> nat \<times> bpf_conf \<Rightarrow> bool" where
  "waiting F E f \<longleftrightarrow> c_slots (snd f) = [] \<and> (\<forall>n. typed_at F E (fst f) (resume (snd f) n))"

definition frames_ok :: "func list \<Rightarrow> regs_ty list \<Rightarrow> nat \<Rightarrow> frames \<Rightarrow> bool" where
  "frames_ok F E p fs \<longleftrightarrow>
     fs \<noteq> [] \<and> typed_at F E (fst (hd fs)) (snd (hd fs)) \<and> list_all (waiting F E) (tl fs) \<and>
     sorted_wrt (<) (map fst fs) \<and> fst (last fs) = p"

lemma frames_ok_Cons:
  "frames_ok F E p ((i, c) # fs) \<longleftrightarrow>
     typed_at F E i c \<and> list_all (waiting F E) fs \<and> sorted_wrt (<) (i # map fst fs) \<and> fst (last ((i, c) # fs)) = p"
  by (simp add: frames_ok_def)

lemma checked_length: "functions_check F E \<Longrightarrow> length F \<le> 8"
  by (simp add: functions_check_def)

lemma checked_typed:
  assumes "functions_check F E" and "i < length F"
  shows "well_typed (call_eff E i) (F ! i) (function_types E i (F ! i))" and "F ! i \<noteq> []"
  using assms by (simp_all add: functions_check_def function_check_def list_all_length)

lemma checked_callee:
  assumes "functions_check F E" and "i < length F" and "x \<in> set (F ! i)" and "snd x = Some j"
  shows "j < i"
proof -
  have "function_check E i (F ! i)"
    using assms(1,2) by (simp add: functions_check_def list_all_length)
  then show ?thesis
    using assms(3,4) by (fastforce simp: function_check_def list_all_iff)
qed

lemma typed_at_eff:
  assumes "functions_check F E" and "typed_at F E i c"
  obtains k ss where "i < length F" and "c_pc c < length (F ! i)" and "conf_ok k c"
    and "call_eff E i (F ! i ! c_pc c) k = Some ss"
    and "\<forall>s \<in> set ss. fits_at (drop (Suc (c_pc c)) (function_types E i (F ! i))) s"
  using assms(2) well_typed_at [OF checked_typed(1) [OF assms(1)]] unfolding typed_at_def by blast

text \<open>A successor that the checker considered is again where the checker expects it, and further on.\<close>

lemma typed_at_reached:
  assumes "functions_check F E" and "i < length F" and "reaches pc c s"
    and "fits_at (drop (Suc pc) (function_types E i (F ! i))) s"
  shows "typed_at F E i c" and "pc < c_pc c"
proof -
  have "length (function_types E i (F ! i)) = length (F ! i)"
    by (rule well_typed_length [OF checked_typed(1) [OF assms(1,2)]])
  then show "typed_at F E i c" and "pc < c_pc c"
    using fits_reached [OF assms(3,4)] assms(2) by (auto simp: typed_at_def)
qed

text \<open>Strictly ascending function numbers bound the number of frames.\<close>

lemma frames_bounded:
  assumes "sorted_wrt (<) ns" and "set ns \<subseteq> {..<n :: nat}"
  shows "length ns \<le> n"
proof -
  have "length ns = card (set ns)"
    using assms(1) by (simp add: strict_sorted_iff distinct_card)
  also have "\<dots> \<le> n"
    using card_mono [OF _ assms(2)] by simp
  finally show ?thesis .
qed

lemma frames_ok_bounded:
  assumes "functions_check F E" and "frames_ok F E p ((i, c) # fs)"
  shows "set (map fst ((i, c) # fs)) \<subseteq> {..<length F}" and "length fs < 8"
proof -
  show *: "set (map fst ((i, c) # fs)) \<subseteq> {..<length F}"
    using assms(2) by (auto simp: frames_ok_Cons typed_at_def waiting_def list_all_iff)
  have "length (map fst ((i, c) # fs)) \<le> length F"
    using assms(2) by (intro frames_bounded *) (simp add: frames_ok_Cons)
  then show "length fs < 8"
    using checked_length [OF assms(1)] by simp
qed

lemma disturb_waiting [simp]:
  assumes "list_all (waiting F E) fs"
  shows "disturb P c fs = fs"
proof -
  have "map (\<lambda>(j, e). (j, e\<lparr>c_slots := touch (\<lambda>_. True) (c_slots e)\<rparr>)) fs = fs"
    using assms by (intro map_idI) (auto simp: list_all_iff waiting_def touch_def)
  then show ?thesis
    by (auto simp: disturb_def split: option.split bpf_ins.split)
qed

section \<open>Progress\<close>

lemma call_eff_cases:
  assumes "call_eff E i x (a, m) = Some ss"
  obtains j where "local_call (fst x)" and "snd x = Some j" and "m = []" and "length a = 11"
      and "regs_below (enter_ty a) (E ! j)" and "ss = [(1, call_ty a, [])]"
    | y where "\<not> (local_call (fst x) \<and> snd x \<noteq> None)" and "classify (fst x) = Some y" and "eff y (a, m) = Some ss"
    | y where "\<not> (local_call (fst x) \<and> snd x \<noteq> None)" and "classify (fst x) = Some y" and "eff y (a, m) = None"
      and "E ! i \<noteq> fst init_known" and "up_eff y (a, m) = Some ss"
proof (cases "local_call (fst x) \<and> snd x \<noteq> None")
  case True
  then show ?thesis
    using assms that(1) by (auto simp: call_eff_def split: if_splits)
next
  case False
  then have "(if local_call (fst x) then snd x else None) = None"
    by auto
  then show ?thesis
    using assms that(2,3) [OF False]
    by (auto simp: call_eff_def ins_eff_def bind_eq_Some_conv split: option.splits if_splits)
qed

lemma frames_progress:
  assumes "functions_check F E" and "E ! p = fst init_known" and "frames_ok F E p fs"
  shows "frames_done F fs \<or> (\<exists>fs'. frames_step F fs fs')"
proof -
  obtain i c cs where fs: "fs = (i, c) # cs"
    using assms(3) by (cases fs) (auto simp: frames_ok_def)
  note ok = assms(3) [unfolded fs frames_ok_Cons]
  obtain pc r M where c: "c = \<lparr>c_pc = pc, c_regs = r, c_slots = M\<rparr>"
    by (cases c)
  obtain k ss where at: "i < length F" "c_pc c < length (F ! i)" "conf_ok k c"
    and eff: "call_eff E i (F ! i ! c_pc c) k = Some ss"
    and fits: "\<forall>s \<in> set ss. fits_at (drop (Suc (c_pc c)) (function_types E i (F ! i))) s"
    using typed_at_eff [OF assms(1)] ok by blast
  obtain a m where k: "k = (a, m)"
    by fastforce
  have regs: "regs_ok a r"
    using at(3) by (simp add: k c conf_ok_def)
  show ?thesis
  proof (rule call_eff_cases [OF eff [unfolded k]])
    fix j
    assume call: "local_call (fst (F ! i ! c_pc c))" "snd (F ! i ! c_pc c) = Some j"
    have j: "j < i"
      using checked_callee [OF assms(1) at(1) nth_mem [OF at(2)]] call(2) by blast
    have "length cs < 7"
    proof -
      have "sorted_wrt (<) (j # map fst fs)"
        using ok j by (fastforce simp: fs)
      moreover have "set (j # map fst fs) \<subseteq> {..<length F}"
        using frames_ok_bounded(1) [OF assms(1) assms(3) [unfolded fs]] j at(1) by (auto simp: fs)
      ultimately show ?thesis
        using frames_bounded [of "j # map fst fs" "length F"] checked_length [OF assms(1)] by (simp add: fs)
    qed
    moreover have "callee F i pc = Some j"
      using at call by (simp add: callee_def c)
    ultimately show ?thesis
      using frame_call [of F i pc j cs r M] at(1) j by (auto simp: fs c)
  next
    fix y
    assume y: "classify (fst (F ! i ! c_pc c)) = Some y" "eff y (a, m) = Some ss"
    have "at_exit (body F i) c \<or> (\<exists>c'. bpf_step (body F i) c c')"
      using eff_progresses [of "body F i" c y k ss] at y fits by (auto simp: k fits_at_def)
    then show ?thesis
    proof
      assume exit: "at_exit (body F i) c"
      then obtain n where "c_regs c 0 = Some (V_num n)"
        by (auto simp: at_exit_def)
      with exit show ?thesis
        using frame_return [of F i c n] by (cases cs) (auto simp: fs frames_done_def)
    next
      assume "\<exists>c'. bpf_step (body F i) c c'"
      then show ?thesis
        unfolding fs by (blast intro: frame_own)
    qed
  next
    fix y
    assume y: "classify (fst (F ! i ! c_pc c)) = Some y" "E ! i \<noteq> fst init_known" "up_eff y (a, m) = Some ss"
    have "cs \<noteq> []"
      using ok y(2) assms(2) by auto
    then obtain j e cs' where cs: "cs = (j, e) # cs'"
      by (metis list.exhaust surj_pair)
    have fetch: "fetch (body F i) pc = Some y" and slots: "c_slots e = []"
      using at y(1) ok by (simp_all add: c cs waiting_def)
    show ?thesis
    proof (rule up_eff_known [OF y(3) regs])
      fix sz d s off b t
      assume ld: "y = Ldx sz d s off" "r s = Some (V_fp b)" "in_caller (b + off) sz"
      show ?thesis
        using frame_up_load [of F i pc sz d s off r b e 0] fetch ld by (auto simp: fs c cs slots stack_read_def fits_bytes_def)
    next
      fix sz d s off b n
      assume st: "y = Stx sz d off s" "r d = Some (V_fp b)" "in_caller (b + off) sz" "r s = Some (V_num n)"
      show ?thesis
        using frame_up_store [of F i pc sz d off s r b n M j e] fetch st by (auto simp: fs c cs)
    qed
  qed
qed

section \<open>Preservation\<close>

text \<open>The steps that are left, for one function and for all frames.\<close>

definition remaining :: "func list \<Rightarrow> nat \<Rightarrow> nat \<Rightarrow> nat" where
  "remaining F i pc = sum_list (map (weight (run_bounds F)) (drop pc (F ! i)))"

definition steps_left :: "func list \<Rightarrow> frames \<Rightarrow> nat" where
  "steps_left F fs = sum_list (map (\<lambda>(i, c). remaining F i (c_pc c)) fs)"

lemma steps_left_simps [simp]:
  "steps_left F [] = 0" "steps_left F ((i, c) # fs) = remaining F i (c_pc c) + steps_left F fs"
  by (simp_all add: steps_left_def)

lemma remaining_here:
  "pc < length (F ! i) \<Longrightarrow> remaining F i pc = weight (run_bounds F) (F ! i ! pc) + remaining F i (Suc pc)"
  by (simp add: remaining_def flip: Cons_nth_drop_Suc)

lemma weight_positive: "0 < weight W x"
  by (simp add: weight_def split: option.split)

lemma remaining_antimono: "pc \<le> pc' \<Longrightarrow> remaining F i pc' \<le> remaining F i pc"
proof (induction pc' rule: dec_induct)
  case (step n)
  have "remaining F i (Suc n) \<le> remaining F i n"
    by (cases "n < length (F ! i)") (simp_all add: remaining_here, simp add: remaining_def)
  then show ?case
    using step.IH by linarith
qed simp

lemma remaining_less: "\<lbrakk>pc < pc'; pc < length (F ! i)\<rbrakk> \<Longrightarrow> remaining F i pc' < remaining F i pc"
  using remaining_antimono [of "Suc pc" pc' F i] remaining_here [of pc F i] weight_positive [of "run_bounds F" "F ! i ! pc"]
  by simp

lemma typed_at_left: "typed_at F E i c \<Longrightarrow> 0 < remaining F i (c_pc c)"
  using remaining_less [of "c_pc c" "Suc (c_pc c)" F i] by (simp add: typed_at_def)

lemma run_bounds_snoc [simp]: "run_bounds (F @ [f]) = run_bounds F @ [sum_list (map (weight (run_bounds F)) f)]"
  by (simp add: run_bounds_def)

lemma run_bounds_length [simp]: "length (run_bounds F) = length F"
  by (induction F rule: rev_induct) (simp_all add: run_bounds_def)

lemma run_bounds_take: "run_bounds (take n F) = take n (run_bounds F)"
proof (induction F rule: rev_induct)
  case (snoc f F)
  show ?case
  proof (cases "n \<le> length F")
    case True
    then show ?thesis
      using snoc.IH by simp
  next
    case False
    then show ?thesis
      by simp
  qed
qed (simp add: run_bounds_def)

text \<open>The bound of a function is what is left at its start, since it calls only earlier functions.\<close>

lemma remaining_start:
  assumes "functions_check F E" and "i < length F"
  shows "remaining F i 0 = run_bounds F ! i"
proof -
  have "run_bounds F ! i = run_bounds (take (Suc i) F) ! i"
    using assms(2) by (simp add: run_bounds_take)
  also have "\<dots> = sum_list (map (weight (take i (run_bounds F))) (F ! i))"
    using assms(2) by (simp add: take_Suc_conv_app_nth run_bounds_take nth_append)
  also have "map (weight (take i (run_bounds F))) (F ! i) = map (weight (run_bounds F)) (F ! i)"
    using checked_callee [OF assms] by (auto simp: weight_def split: option.split)
  finally show ?thesis
    by (simp add: remaining_def)
qed

lemma bpf_step_not_call: "bpf_step (body F i) c c' \<Longrightarrow> callee F i (c_pc c) = None"
  using bpf_step_fetch [of "body F i" c c'] by (auto simp: callee_def)

text \<open>An instruction that accesses the caller's frame was checked as such.\<close>

lemma up_access_ok:
  assumes "functions_check F E" and "typed_at F E i \<lparr>c_pc = pc, c_regs = r, c_slots = M\<rparr>"
    and "fetch (body F i) pc = Some y"
    and "(\<exists>sz d s off b. y = Ldx sz d s off \<and> r s = Some (V_fp b) \<and> in_caller (b + off) sz) \<or>
      (\<exists>sz d s off b n. y = Stx sz d off s \<and> r d = Some (V_fp b) \<and> in_caller (b + off) sz \<and> r s = Some (V_num n))"
  obtains a m ss where "regs_ok a r" and "slots_ok m M" and "up_eff y (a, m) = Some ss" and "i < length F"
    and "pc < length (F ! i)" and "\<forall>s \<in> set ss. fits_at (drop (Suc pc) (function_types E i (F ! i))) s"
proof -
  obtain k ss where at: "i < length F" "pc < length (F ! i)" "conf_ok k \<lparr>c_pc = pc, c_regs = r, c_slots = M\<rparr>"
    and eff: "call_eff E i (F ! i ! pc) k = Some ss"
    and fits: "\<forall>s \<in> set ss. fits_at (drop (Suc pc) (function_types E i (F ! i))) s"
    using typed_at_eff [OF assms(1,2)] by auto
  obtain a m where k: "k = (a, m)"
    by fastforce
  have ok: "regs_ok a r" "slots_ok m M"
    using at(3) by (simp_all add: k conf_ok_def)
  have y: "classify (fst (F ! i ! pc)) = Some y"
    using assms(3) at by simp
  show ?thesis
  proof (rule call_eff_cases [OF eff [unfolded k]])
    fix y'
    assume "classify (fst (F ! i ! pc)) = Some y'" "eff y' (a, m) = Some ss"
    then have "eff y (a, m) = Some ss"
      using y by simp
    from assms(4) have False
    proof (elim disjE exE conjE)
      fix sz d s off b
      assume "y = Ldx sz d s off" "r s = Some (V_fp b)" "in_caller (b + off) sz"
      then show False
        using ldx_known [OF _ ok, of sz d s off ss] \<open>eff y (a, m) = Some ss\<close> by (auto simp del: eff.simps)
    next
      fix sz d s off b n
      assume "y = Stx sz d off s" "r d = Some (V_fp b)" "in_caller (b + off) sz" "r s = Some (V_num n)"
      then show False
        using stx_known [OF _ ok(1), of sz d off s m ss] \<open>eff y (a, m) = Some ss\<close> by (auto simp del: eff.simps)
    qed
    then show ?thesis ..
  qed (use y that ok at fits in auto)
qed

lemma frames_preserved:
  assumes "functions_check F E" and "frames_ok F E p fs" and "frames_step F fs fs'"
  shows "frames_ok F E p fs' \<and> steps_left F fs' < steps_left F fs"
  using assms(3)
proof cases
  case (frame_own i c c' cs)
  note ok = assms(2) [unfolded frame_own(1) frames_ok_Cons]
  obtain k ss where at: "i < length F" "c_pc c < length (F ! i)" "conf_ok k c"
    and eff: "call_eff E i (F ! i ! c_pc c) k = Some ss"
    and fits: "\<forall>s \<in> set ss. fits_at (drop (Suc (c_pc c)) (function_types E i (F ! i))) s"
    using typed_at_eff [OF assms(1)] ok by blast
  obtain a m where k: "k = (a, m)"
    by fastforce
  have "\<exists>s \<in> set ss. reaches (c_pc c) c' s"
  proof (rule call_eff_cases [OF eff [unfolded k]])
    fix j
    assume "local_call (fst (F ! i ! c_pc c))" "snd (F ! i ! c_pc c) = Some j"
    then show ?thesis
      using bpf_step_not_call [OF frame_own(3)] at by (simp add: callee_def)
  next
    fix y
    assume "classify (fst (F ! i ! c_pc c)) = Some y" "eff y (a, m) = Some ss"
    then show ?thesis
      using eff_preserves [OF frame_own(3)] at by (simp add: k)
  next
    fix y
    assume "classify (fst (F ! i ! c_pc c)) = Some y" "up_eff y (a, m) = Some ss"
    then show ?thesis
      using up_eff_not_own [of "body F i" c y k ss c'] frame_own(3) at by (simp add: k)
  qed
  then obtain s where s: "s \<in> set ss" "reaches (c_pc c) c' s"
    by blast
  then have "typed_at F E i c'" "c_pc c < c_pc c'"
    using typed_at_reached [OF assms(1) at(1) s(2)] fits by blast+
  then show ?thesis
    using ok at(2) remaining_less by (auto simp: frame_own frames_ok_Cons)
next
  case (frame_up_load i pc sz d s off r b e n m j cs)
  note ok = assms(2) [unfolded frame_up_load(1) frames_ok_Cons]
  obtain a w ss where up: "regs_ok a r" "slots_ok w m" "up_eff (Ldx sz d s off) (a, w) = Some ss" "i < length F"
    "pc < length (F ! i)" "\<forall>s \<in> set ss. fits_at (drop (Suc pc) (function_types E i (F ! i))) s"
    using up_access_ok [OF assms(1) conjunct1 [OF ok] frame_up_load(3)] frame_up_load(4,5) by blast
  obtain t where t: "set_ty a d T_num = Some t" "ss = [(1, t, w)]"
    by (rule up_eff_known [OF up(3,1)]) auto
  have "reaches pc \<lparr>c_pc = Suc pc, c_regs = r(d \<mapsto> V_num n), c_slots = m\<rparr> (1, t, w)"
    using regs_ok_set [OF up(1) t(1)] up(2) by (simp add: reaches_def conf_ok_def)
  then have "typed_at F E i \<lparr>c_pc = Suc pc, c_regs = r(d \<mapsto> V_num n), c_slots = m\<rparr>"
    using typed_at_reached(1) [OF assms(1) up(4)] up(6) t(2) by simp
  then show ?thesis
    using ok up(5) remaining_less [of pc "Suc pc"] by (auto simp: frame_up_load frames_ok_Cons)
next
  case (frame_up_store i pc sz d off s r b n m j e cs)
  note ok = assms(2) [unfolded frame_up_store(1) frames_ok_Cons]
  obtain a w ss where up: "regs_ok a r" "slots_ok w m" "up_eff (Stx sz d off s) (a, w) = Some ss" "i < length F"
    "pc < length (F ! i)" "\<forall>s \<in> set ss. fits_at (drop (Suc pc) (function_types E i (F ! i))) s"
    using up_access_ok [OF assms(1) conjunct1 [OF ok] frame_up_store(3)] frame_up_store(4-6) by blast
  have "ss = [(1, a, w)]"
    by (rule up_eff_known [OF up(3,1)]) auto
  moreover have "reaches pc \<lparr>c_pc = Suc pc, c_regs = r, c_slots = m\<rparr> (1, a, w)"
    using up(1,2) by (simp add: reaches_def conf_ok_def)
  ultimately have "typed_at F E i \<lparr>c_pc = Suc pc, c_regs = r, c_slots = m\<rparr>"
    using typed_at_reached(1) [OF assms(1) up(4)] up(6) by simp
  moreover have "e\<lparr>c_slots := store_num (b + off - 512) sz (c_slots e)\<rparr> = e"
    using ok by (simp add: waiting_def store_num_def touch_def)
  ultimately show ?thesis
    using ok up(5) remaining_less [of pc "Suc pc"] by (auto simp: frame_up_store frames_ok_Cons)
next
  case (frame_call i pc j cs r m)
  note ok = assms(2) [unfolded frame_call(1) frames_ok_Cons]
  obtain k ss where at: "i < length F" "pc < length (F ! i)" "conf_ok k \<lparr>c_pc = pc, c_regs = r, c_slots = m\<rparr>"
    and eff: "call_eff E i (F ! i ! pc) k = Some ss"
    and fits: "\<forall>s \<in> set ss. fits_at (drop (Suc pc) (function_types E i (F ! i))) s"
    using typed_at_eff [OF assms(1) conjunct1 [OF ok]] by auto
  obtain a w where k: "k = (a, w)"
    by fastforce
  have regs: "regs_ok a r" "slots_ok w m"
    using at(3) by (simp_all add: k conf_ok_def)
  have call: "local_call (fst (F ! i ! pc))" "snd (F ! i ! pc) = Some j"
    using frame_call(3) by (auto simp: callee_def split: if_splits)
  have enter: "w = []" "length a = 11" "regs_below (enter_ty a) (E ! j)" "ss = [(1, call_ty a, [])]"
    by (rule call_eff_cases [OF eff [unfolded k]]; use call in simp)+
  have empty: "m = []"
    using regs(2) enter(1) by simp
  have j: "j < i"
    using checked_callee [OF assms(1) at(1) nth_mem [OF at(2)]] call(2) by blast
  have "typed_at F E j \<lparr>c_pc = 0, c_regs = enter r, c_slots = []\<rparr>"
    using checked_typed(2) [OF assms(1) frame_call(4)] regs_ok_below [OF regs_ok_enter [OF regs(1) enter(2)] enter(3)]
    by (cases "F ! j") (auto simp: typed_at_def frame_call(4) function_types_def conf_ok_def slots_ok_def)
  moreover have "waiting F E (i, \<lparr>c_pc = Suc pc, c_regs = r, c_slots = m\<rparr>)"
  proof -
    have "reaches pc (resume \<lparr>c_pc = Suc pc, c_regs = r, c_slots = m\<rparr> n) (1, call_ty a, [])" for n
      using regs_ok_call [OF regs(1)] empty by (simp add: reaches_def conf_ok_def resume_def slots_ok_def)
    then have "typed_at F E i (resume \<lparr>c_pc = Suc pc, c_regs = r, c_slots = m\<rparr> n)" for n
      using fits enter(4) by (intro typed_at_reached(1) [OF assms(1) at(1)]) auto
    then show ?thesis
      by (simp add: waiting_def empty)
  qed
  moreover have "steps_left F fs' < steps_left F fs"
    using remaining_here [OF at(2)] remaining_start [OF assms(1) frame_call(4)] call
    by (simp add: frame_call(1,2) weight_def)
  ultimately show ?thesis
    using ok j by (auto simp: frame_call(1,2) frames_ok_Cons)
next
  case (frame_return i c n j e cs)
  note ok = assms(2) [unfolded frame_return(1) frames_ok_Cons]
  have "typed_at F E j (resume e n)"
    using ok by (simp add: waiting_def)
  moreover have "remaining F j (c_pc (resume e n)) = remaining F j (c_pc e)"
    by (simp add: resume_def)
  moreover have "0 < remaining F i (c_pc c)"
    using ok typed_at_left by blast
  ultimately show ?thesis
    using ok by (auto simp: frame_return(1,2) frames_ok_Cons)
qed

section \<open>Runs\<close>

lemma frames_ok_init:
  assumes "functions_check F E" and "p < length F" and "E ! p = fst init_known"
  shows "frames_ok F E p (frames_init p ctx)"
proof -
  have "conf_ok (E ! p, []) (bpf_init ctx)"
    using conf_ok_init by (simp add: assms(3) init_known_def)
  then show ?thesis
    using checked_typed(2) [OF assms(1,2)] assms(2)
    by (cases "F ! p") (auto simp: frames_ok_def frames_init_def typed_at_def function_types_def bpf_init_def)
qed

text \<open>
  A linked program is safe if every run from its first function goes on until the exit of that function, and no run has
  as many steps as its bound.
\<close>

definition frames_never_stuck :: "func list \<Rightarrow> nat \<Rightarrow> bool" where
  "frames_never_stuck F p \<longleftrightarrow>
     (\<forall>ctx fs. (frames_step F)\<^sup>*\<^sup>* (frames_init p ctx) fs \<longrightarrow> frames_done F fs \<or> (\<exists>fs'. frames_step F fs fs'))"

definition frames_exit_within :: "func list \<Rightarrow> nat \<Rightarrow> nat \<Rightarrow> bool" where
  "frames_exit_within F p N \<longleftrightarrow>
     (\<forall>ctx fs. (frames_step F)\<^sup>*\<^sup>* (frames_init p ctx) fs \<longrightarrow> (\<exists>fs'. (frames_step F)\<^sup>*\<^sup>* fs fs' \<and> frames_done F fs')) \<and>
     (\<forall>ctx n fs. ((frames_step F) ^^ n) (frames_init p ctx) fs \<longrightarrow> n < N)"

lemma frames_run:
  assumes "functions_check F E" and "(frames_step F)\<^sup>*\<^sup>* fs fs'" and "frames_ok F E p fs"
  shows "frames_ok F E p fs'"
  using assms(2,3) by induction (auto dest: frames_preserved [OF assms(1)])

lemma frames_exit:
  assumes "functions_check F E" and "E ! p = fst init_known" and "frames_ok F E p fs"
  shows "\<exists>fs'. (frames_step F)\<^sup>*\<^sup>* fs fs' \<and> frames_done F fs'"
  using assms(3)
proof (induction "steps_left F fs" arbitrary: fs rule: less_induct)
  case less
  show ?case
  proof (cases "frames_done F fs")
    case False
    then obtain fs1 where step: "frames_step F fs fs1"
      using frames_progress [OF assms(1,2) less.prems] by blast
    then obtain fs' where "(frames_step F)\<^sup>*\<^sup>* fs1 fs'" "frames_done F fs'"
      using less.hyps frames_preserved [OF assms(1) less.prems step] by blast
    then show ?thesis
      using step by (meson converse_rtranclp_into_rtranclp)
  qed blast
qed

lemma frames_steps:
  assumes "functions_check F E" and "frames_ok F E p fs" and "((frames_step F) ^^ n) fs fs'"
  shows "frames_ok F E p fs' \<and> steps_left F fs' + n \<le> steps_left F fs"
  using assms(3)
proof (induction n arbitrary: fs')
  case (Suc n)
  then obtain fs1 where "((frames_step F) ^^ n) fs fs1" "frames_step F fs1 fs'"
    by auto
  with Suc.IH frames_preserved [OF assms(1)] show ?case
    by fastforce
qed (use assms(2) in simp)

lemma frames_ok_left: "frames_ok F E p fs \<Longrightarrow> 0 < steps_left F fs"
  by (cases fs) (auto simp: frames_ok_def dest!: typed_at_left)

theorem functions_check_sound:
  assumes "functions_check F E" and "p < length F" and "E ! p = fst init_known"
  shows "frames_never_stuck F p" and "frames_exit_within F p (run_bounds F ! p)"
proof -
  note init = frames_ok_init [OF assms]
  show "frames_never_stuck F p"
    using frames_progress [OF assms(1,3)] frames_run [OF assms(1) _ init] by (auto simp: frames_never_stuck_def)
  have "n < run_bounds F ! p" if "((frames_step F) ^^ n) (frames_init p ctx) fs" for ctx n fs
  proof -
    have "steps_left F (frames_init p ctx) = run_bounds F ! p"
      using remaining_start [OF assms(1,2)] by (simp add: frames_init_def bpf_init_def)
    then show ?thesis
      using frames_steps [OF assms(1) init that] frames_ok_left by fastforce
  qed
  then show "frames_exit_within F p (run_bounds F ! p)"
    using frames_exit [OF assms(1,3)] frames_run [OF assms(1) _ init] by (auto simp: frames_exit_within_def)
qed

end
