(* ===== verification/Embedded_Usdt.thy ===== *)
theory Embedded_Usdt
  imports Bpf_Calls Embedded_Programs Obj_Usdt
begin

text \<open>
  The programs embedded in usdt.skel.h: the two programs call \<open>bpf_usdt_arg\<close>, a function of the section .text, with a
  pointer into their own stack where it leaves its result. The object is linked by its relocations and run through the
  checker of \<open>Bpf_Calls\<close>.
\<close>

section \<open>Linking\<close>

lemma usdt_function_symbols:
  "function_symbols usdt_bpf__elf_bytes =
    [\<lparr>sym_name = ''bpf_usdt_arg_cnt'', sym_info = 34, sym_shndx = 3, sym_value = 0, sym_size = 288\<rparr>,
     \<lparr>sym_name = ''bpf_usdt_arg'', sym_info = 34, sym_shndx = 3, sym_value = 288, sym_size = 1016\<rparr>,
     \<lparr>sym_name = ''bpf_usdt_cookie'', sym_info = 34, sym_shndx = 3, sym_value = 1304, sym_size = 256\<rparr>,
     \<lparr>sym_name = ''usdt_auto_attach'', sym_info = 18, sym_shndx = 4, sym_value = 0, sym_size = 264\<rparr>,
     \<lparr>sym_name = ''usdt_manual_attach'', sym_info = 18, sym_shndx = 5, sym_value = 0, sym_size = 208\<rparr>]"
  by (simp add: function_symbols_def usdt_elf_symbols)

lemma usdt_call_relocations:
  "call_relocations usdt_bpf__elf_bytes 3 = []"
  "call_relocations usdt_bpf__elf_bytes 4 = map (\<lambda>off. (off, elf_symbols usdt_bpf__elf_bytes ! 26)) [32, 80, 128]"
  "call_relocations usdt_bpf__elf_bytes 5 = map (\<lambda>off. (off, elf_symbols usdt_bpf__elf_bytes ! 26)) [32, 80, 128]"
  by (simp_all add: call_relocations_def usdt_elf_sections usdt_elf_symbols usdt_elf_10_def usdt_elf_11_def
    usdt_elf_12_def le_at_def upt_rec Let_def)

text \<open>In the two programs every call is one of function 1, \<open>bpf_usdt_arg\<close>.\<close>

definition usdt_program :: "byte list \<Rightarrow> func" where
  "usdt_program bs = map (\<lambda>i. (i, if local_call i then Some 1 else None)) (decode_program bs)"

definition usdt_text_function :: "nat \<Rightarrow> nat \<Rightarrow> func" where
  "usdt_text_function start len = map (\<lambda>i. (i, None)) (take len (drop start (decode_program usdt_elf_3)))"

lemmas link_eval =
  link_function_def usdt_elf_sections usdt_function_symbols usdt_elf_symbols usdt_call_relocations call_target_def function_at_def decode_eval
  usdt_program_def local_call_def upt_rec Let_def

lemma usdt_programs_linked:
  "link_function usdt_bpf__elf_bytes
     \<lparr>sym_name = ''usdt_auto_attach'', sym_info = 18, sym_shndx = 4, sym_value = 0, sym_size = 264\<rparr> = usdt_program usdt_elf_4"
  "link_function usdt_bpf__elf_bytes
     \<lparr>sym_name = ''usdt_manual_attach'', sym_info = 18, sym_shndx = 5, sym_value = 0, sym_size = 208\<rparr> = usdt_program usdt_elf_5"
  by (simp_all add: usdt_elf_4_def usdt_elf_5_def link_eval)

lemma usdt_linked:
  "linked_functions usdt_bpf__elf_bytes =
     [usdt_text_function 0 36, usdt_text_function 36 127, usdt_text_function 163 32, usdt_program usdt_elf_4,
      usdt_program usdt_elf_5]"
  by (simp add: linked_functions_def usdt_function_symbols usdt_programs_linked)
    (simp add: link_function_no_calls usdt_call_relocations usdt_elf_sections usdt_text_function_def)

section \<open>The checks\<close>

text \<open>
  \<open>bpf_usdt_arg\<close> is called with the context, the number of the argument, and a pointer eight bytes below the caller's
  frame pointer; the other functions start with the context alone.
\<close>

definition usdt_entries :: "regs_ty list" where
  "usdt_entries =
    [fst init_known,
     [None, Some T_num, Some T_num, Some (T_fp 504), None, None, None, None, None, None, Some (T_fp 0)],
     fst init_known, fst init_known, fst init_known]"

lemmas function_check_eval =
  check_eval function_check_def function_types_def call_eff_def local_call_def usdt_entries_def enter_ty_def in_caller_def

lemma usdt_arg_cnt_checked: "function_check usdt_entries 0 (usdt_text_function 0 36)"
  by (simp add: decode_eval usdt_elf_3_def usdt_text_function_def) (simp add: function_check_eval)

lemma usdt_arg_checked: "function_check usdt_entries 1 (usdt_text_function 36 127)"
  by (simp add: decode_eval usdt_elf_3_def usdt_text_function_def) (simp add: function_check_eval)

lemma usdt_cookie_checked: "function_check usdt_entries 2 (usdt_text_function 163 32)"
  by (simp add: decode_eval usdt_elf_3_def usdt_text_function_def) (simp add: function_check_eval)

lemma usdt_auto_attach_checked: "function_check usdt_entries 3 (usdt_program usdt_elf_4)"
  by (simp add: decode_eval usdt_elf_4_def usdt_program_def local_call_def) (simp add: function_check_eval)

lemma usdt_manual_attach_checked: "function_check usdt_entries 4 (usdt_program usdt_elf_5)"
  by (simp add: decode_eval usdt_elf_5_def usdt_program_def local_call_def) (simp add: function_check_eval)

lemma usdt_numbers: "[0..<length (linked_functions usdt_bpf__elf_bytes)] = [0, 1, 2, 3, 4]"
proof -
  have "[0..<5] = [0, 1, 2, 3, 4]"
    by (simp add: upt_rec)
  then show ?thesis
    by (simp add: usdt_linked)
qed

lemma usdt_checked: "functions_check (linked_functions usdt_bpf__elf_bytes) usdt_entries"
  unfolding functions_check_def usdt_numbers
  using usdt_arg_cnt_checked usdt_arg_checked usdt_cookie_checked usdt_auto_attach_checked usdt_manual_attach_checked
  by (simp add: usdt_linked)

text \<open>The calls: none in the section .text, three of function 1 in each program.\<close>

lemma usdt_text_calls:
  "start + len \<le> 195 \<Longrightarrow> sum_list (map (weight W) (usdt_text_function start len)) = len"
  "list_all (\<lambda>(i, c). c \<noteq> Some j) (usdt_text_function start len)"
proof -
  have "map (weight W) (usdt_text_function start len) = map (\<lambda>_. 1) (usdt_text_function start len)"
    by (simp add: usdt_text_function_def weight_def)
  then show "start + len \<le> 195 \<Longrightarrow> sum_list (map (weight W) (usdt_text_function start len)) = len"
    by (simp only: sum_list_triv map_map) (simp add: usdt_text_function_def decode_program_def sum_list_triv)
  show "list_all (\<lambda>(i, c). c \<noteq> Some j) (usdt_text_function start len)"
    by (simp add: usdt_text_function_def list_all_iff)
qed

lemma usdt_program_calls:
  "sum_list (map (weight W) (usdt_program usdt_elf_4)) = 33 + 3 * W ! 1"
  "sum_list (map (weight W) (usdt_program usdt_elf_5)) = 26 + 3 * W ! 1"
  "list_all (\<lambda>(i, c). c \<noteq> Some j) (usdt_program usdt_elf_4) \<longleftrightarrow> j \<noteq> 1"
  "list_all (\<lambda>(i, c). c \<noteq> Some j) (usdt_program usdt_elf_5) \<longleftrightarrow> j \<noteq> 1"
  by (auto simp: decode_eval usdt_elf_4_def usdt_elf_5_def usdt_program_def local_call_def weight_def)

lemma usdt_bounds: "run_bounds (linked_functions usdt_bpf__elf_bytes) = [36, 127, 32, 414, 407]"
  by (simp add: run_bounds_def usdt_linked usdt_program_calls usdt_text_calls)

lemma usdt_roots: "roots (linked_functions usdt_bpf__elf_bytes) = [0, 2, 3, 4]"
  unfolding roots_def usdt_numbers by (simp add: usdt_linked usdt_program_calls usdt_text_calls)

section \<open>Properties\<close>

text \<open>
  C5: the programs embedded in usdt.skel.h cannot go wrong, calls included. Linked by its relocations, the object has four
  functions that a run can start in: the two programs, and the two functions for argument counts and cookies. From
  each of them, whatever the context, the memory and the results of helpers, at every point of every run either the
  first function is at its exit or the next step can be made; in particular a called function gets the arguments it
  reads, stays in its own stack or the caller's, and returns to a caller that can go on. No run has more
  steps than the bound computed from the program: below 36, 32, 414 and 407.
\<close>

theorem usdt_programs_safe:
  "roots (linked_functions usdt_bpf__elf_bytes) = [0, 2, 3, 4] \<and>
   list_all (\<lambda>(p, N). frames_never_stuck (linked_functions usdt_bpf__elf_bytes) p \<and>
       frames_exit_within (linked_functions usdt_bpf__elf_bytes) p N) [(0, 36), (2, 32), (3, 414), (4, 407)]"
proof -
  have "frames_never_stuck (linked_functions usdt_bpf__elf_bytes) p \<and>
      frames_exit_within (linked_functions usdt_bpf__elf_bytes) p ([36, 127, 32, 414, 407] ! p)" if "p \<in> {0, 2, 3, 4}" for p
  proof -
    have "p < length (linked_functions usdt_bpf__elf_bytes)" "usdt_entries ! p = fst init_known"
      using that by (auto simp: usdt_linked usdt_entries_def)
    then show ?thesis
      using functions_check_sound [OF usdt_checked] by (simp add: usdt_bounds)
  qed
  from this [of 0] this [of 2] this [of 3] this [of 4] show ?thesis
    by (simp add: usdt_roots)
qed

end
