(* ===== verification/Usdt_Bytecode.thy ===== *)
theory Usdt_Bytecode
  imports Usdt Embedded_Usdt
begin

unbundle bit_operations_syntax

text \<open>
  The three functions of usdt.bpf.h as clang compiled them into usdt.skel.h: \<open>bpf_usdt_arg_cnt\<close>, \<open>bpf_usdt_arg\<close> and
  \<open>bpf_usdt_cookie\<close>, 195 instructions in the section .text. This theory gives the instructions their meaning on the values
  of \<open>Usdt\<close>: numbers, and pointers to the stack, to the caller's result, to a symbol, and into the two maps. The
  theorems say that the compiled functions compute what the source says.
\<close>

section \<open>Values and memory\<close>

text \<open>
  A number; a place on the stack or in the caller's result, by its offset; the address of a symbol; a place in a value of
  the map from addresses to ids, or of the map of specifications, by its key and its offset.
\<close>

datatype uval = U_num u64 | U_stack int | U_res int | U_sym string | U_id u64 int | U_spec u32 int

type_synonym ustack = "int \<Rightarrow> (nat \<times> u64) option"

record ustate =
  u_pc :: nat
  u_regs :: "uval option list"
  u_stack :: ustack
  u_res :: "u64 option"

definition u_get :: "uval option list \<Rightarrow> nat \<Rightarrow> uval option" where
  "u_get r q = (if q < length r then r ! q else None)"

text \<open>The stack keeps what was stored at an offset with its size; a store destroys what it overlaps.\<close>

definition stack_put :: "int \<Rightarrow> nat \<Rightarrow> u64 \<Rightarrow> ustack \<Rightarrow> ustack" where
  "stack_put d sz v m = (\<lambda>p.
     if p = d then Some (sz, take_bit (8 * sz) v)
     else (case m p of Some (n, w) \<Rightarrow> if p < d + int sz \<and> d < p + int n then None else m p | None \<Rightarrow> None))"

definition stack_get :: "ustack \<Rightarrow> int \<Rightarrow> nat \<Rightarrow> u64 option" where
  "stack_get m d sz = (case m d of Some (n, v) \<Rightarrow> if n = sz then Some v else None | None \<Rightarrow> None)"

text \<open>
  The layout of \<open>struct __bpf_usdt_spec\<close>: twelve argument specifications of 16 bytes, the cookie, the number of
  arguments.
\<close>

definition arg_spec_field :: "usdt_arg_spec \<Rightarrow> int \<Rightarrow> nat \<Rightarrow> u64 option" where
  "arg_spec_field a d sz =
     (if d = 0 \<and> sz = 8 then Some (val_off a)
      else if d = 8 \<and> sz = 4 then Some (ucast (arg_type a))
      else if d = 12 \<and> sz = 2 then Some (ucast (reg_off a))
      else if d = 14 \<and> sz = 1 then Some (if arg_signed a then 1 else 0)
      else if d = 15 \<and> sz = 1 then Some (ucast (arg_bitshift a))
      else None)"

definition spec_field :: "usdt_spec \<Rightarrow> int \<Rightarrow> nat \<Rightarrow> u64 option" where
  "spec_field s d sz =
     (if 0 \<le> d \<and> d < 192 then arg_spec_field (us_args s ! nat (d div 16)) (d mod 16) sz
      else if d = 192 \<and> sz = 8 then Some (usdt_cookie s)
      else if d = 200 \<and> sz = 2 then Some (ucast (arg_cnt s))
      else None)"

text \<open>
  A load. The object was compiled for arm64, where the instruction pointer is at offset 256 of \<open>struct user_pt_regs\<close>; the
  symbol \<open>LINUX_HAS_BPF_COOKIE\<close> is a byte that libbpf fills in.
\<close>

definition u_load :: "usdt_env \<Rightarrow> ustack \<Rightarrow> uval \<Rightarrow> int \<Rightarrow> nat \<Rightarrow> u64 option" where
  "u_load e m v off sz =
     (case v of
        U_num a \<Rightarrow> if a = ue_ctx e \<and> off = 256 \<and> sz = 8 then Some (ue_ip e) else None
      | U_stack d \<Rightarrow> stack_get m (d + off) sz
      | U_res d \<Rightarrow> None
      | U_sym s \<Rightarrow>
          if s = ''LINUX_HAS_BPF_COOKIE'' \<and> off = 0 \<and> sz = 1 then Some (if ue_has_cookie e then 1 else 0) else None
      | U_id k d \<Rightarrow> if d + off = 0 \<and> sz = 4 then map_option ucast (ue_ip_to_spec_id e k) else None
      | U_spec k d \<Rightarrow> Option.bind (ue_specs e k) (\<lambda>s. spec_field s (d + off) sz))"

section \<open>Instructions\<close>

text \<open>An instruction, with the value of a 64-bit load: its immediate, or the address of the symbol of its relocation.\<close>

datatype uins = U_ins bpf_ins | U_ld nat uval

definition symbol_relocations :: "byte list \<Rightarrow> nat \<Rightarrow> (nat \<times> string) list" where
  "symbol_relocations elf i =
     (let s = elf_sections elf ! i; syms = elf_symbols elf in
      map (\<lambda>j. let r = drop (16 * j) (es_bytes s) in (le_at r 0 8 div 8, sym_name (syms ! le_at r 12 4)))
        [0..<es_size s div 16])"

definition imm64 :: "int \<Rightarrow> int \<Rightarrow> u64" where
  "imm64 lo hi = ucast (word_of_int lo :: u32) OR push_bit 32 (word_of_int hi)"

fun u_decode :: "(nat \<times> string) list \<Rightarrow> nat \<Rightarrow> insn list \<Rightarrow> uins option list" where
  "u_decode rels k (i # is) =
     (if i_op i = 0x18 then
        (case (map_of rels k, is) of
           (Some s, _) \<Rightarrow> Some (U_ld (i_dst i) (U_sym s))
         | (None, j # _) \<Rightarrow> Some (U_ld (i_dst i) (U_num (imm64 (i_imm i) (i_imm j))))
         | (None, []) \<Rightarrow> None)
      else map_option U_ins (classify i)) # u_decode rels (Suc k) is"
| "u_decode rels k [] = []"

definition u_alu :: "alu \<Rightarrow> uval option \<Rightarrow> uval \<Rightarrow> uval option" where
  "u_alu a x y =
     (if a = Alu_mov then Some y
      else
        case (x, y) of
          (Some (U_num m), U_num n) \<Rightarrow> Some (U_num (alu_value a m n))
        | (Some (U_stack d), U_num n) \<Rightarrow> if a = Alu_add then Some (U_stack (d + sint n)) else None
        | (Some (U_spec k d), U_num n) \<Rightarrow> if a = Alu_add then Some (U_spec k (d + sint n)) else None
        | _ \<Rightarrow> None)"

text \<open>A pointer into a map is compared with 0 only, and is not 0.\<close>

definition u_cond :: "cond \<Rightarrow> uval option \<Rightarrow> uval \<Rightarrow> bool option" where
  "u_cond c x y =
     (case (x, y) of
        (Some (U_num m), U_num n) \<Rightarrow> Some (cond_holds c m n)
      | (Some (U_id k d), U_num n) \<Rightarrow> if c = J_eq \<and> n = 0 then Some False else None
      | (Some (U_spec k d), U_num n) \<Rightarrow> if c = J_eq \<and> n = 0 then Some False else None
      | _ \<Rightarrow> None)"

text \<open>
  The helpers: 1 looks a key on the stack up in a map, 174 is the cookie of the attachment, 113 and 112 read eight bytes
  of kernel and of user memory to the stack.
\<close>

definition u_call :: "usdt_env \<Rightarrow> int \<Rightarrow> uval option list \<Rightarrow> ustack \<Rightarrow> (uval \<times> ustack) option" where
  "u_call e f r m =
     (if f = 1 then
        (case (u_get r 1, u_get r 2) of
           (Some (U_sym s), Some (U_stack d)) \<Rightarrow>
             if s = ''__bpf_usdt_specs'' then
               map_option (\<lambda>k. (if ue_specs e (ucast k) = None then U_num 0 else U_spec (ucast k) 0, m)) (stack_get m d 4)
             else if s = ''__bpf_usdt_ip_to_spec_id'' then
               map_option (\<lambda>k. (if ue_ip_to_spec_id e k = None then U_num 0 else U_id k 0, m)) (stack_get m d 8)
             else None
         | _ \<Rightarrow> None)
      else if f = 174 then
        (if u_get r 1 = Some (U_num (ue_ctx e)) then Some (U_num (ue_attach_cookie e), m) else None)
      else if f = 113 \<or> f = 112 then
        (case (u_get r 1, u_get r 2, u_get r 3) of
           (Some (U_stack d), Some (U_num n), Some (U_num a)) \<Rightarrow>
             (let (err, v) = (if f = 113 then ue_read_kernel e a else ue_read_user e a) in
              if n = 8 then Some (U_num (of_int err), stack_put d 8 v m) else None)
         | _ \<Rightarrow> None)
      else None)"

text \<open>
  One instruction: the next state, or the result (register 0 and what the caller's result holds). \<open>None\<close> is an error: a
  register or a place without a value, an access outside the model, an instruction outside the set.
\<close>

definition u_next :: "nat \<Rightarrow> ustate \<Rightarrow> nat \<Rightarrow> uval option \<Rightarrow> (ustate + u64 \<times> u64 option) option" where
  "u_next n s d v = map_option (\<lambda>v. Inl (s\<lparr>u_pc := u_pc s + n, u_regs := (u_regs s)[d := Some v]\<rparr>)) v"

definition u_jump :: "ustate \<Rightarrow> int \<Rightarrow> bool \<Rightarrow> (ustate + u64 \<times> u64 option) option" where
  "u_jump s off taken = map_option (\<lambda>p. Inl (s\<lparr>u_pc := p\<rparr>)) (jump_to (u_pc s) taken off)"

fun u_exec :: "usdt_env \<Rightarrow> uins \<Rightarrow> ustate \<Rightarrow> (ustate + u64 \<times> u64 option) option" where
  "u_exec e (U_ld d v) s = u_next 2 s d (Some v)"
| "u_exec e (U_ins (Alu_imm a d imm)) s = u_next 1 s d (u_alu a (u_get (u_regs s) d) (U_num (of_int imm)))"
| "u_exec e (U_ins (Alu_reg a d q)) s =
     u_next 1 s d (Option.bind (u_get (u_regs s) q) (u_alu a (u_get (u_regs s) d)))"
| "u_exec e (U_ins (Ldx sz d q off)) s =
     u_next 1 s d (map_option U_num (Option.bind (u_get (u_regs s) q) (\<lambda>v. u_load e (u_stack s) v off sz)))"
| "u_exec e (U_ins (Stx sz d off q)) s =
     (case (u_get (u_regs s) d, u_get (u_regs s) q) of
        (Some (U_stack b), Some (U_num n)) \<Rightarrow>
          if in_stack (b + off) sz
          then Some (Inl (s\<lparr>u_pc := u_pc s + 1, u_stack := stack_put (b + off) sz n (u_stack s)\<rparr>)) else None
      | (Some (U_res b), Some (U_num n)) \<Rightarrow>
          if b + off = 0 \<and> sz = 8 then Some (Inl (s\<lparr>u_pc := u_pc s + 1, u_res := Some n\<rparr>)) else None
      | _ \<Rightarrow> None)"
| "u_exec e (U_ins (Jump off)) s = u_jump s off True"
| "u_exec e (U_ins (Jcc_imm c d imm off)) s =
     Option.bind (u_cond c (u_get (u_regs s) d) (U_num (of_int imm))) (u_jump s off)"
| "u_exec e (U_ins (Jcc_reg c d q off)) s =
     Option.bind (u_get (u_regs s) q) (\<lambda>y. Option.bind (u_cond c (u_get (u_regs s) d) y) (u_jump s off))"
| "u_exec e (U_ins (Call_helper f)) s =
     map_option (\<lambda>(v, m). Inl (s\<lparr>u_pc := u_pc s + 1,
         u_regs := [Some v, None, None, None, None, None] @ drop 6 (u_regs s), u_stack := m\<rparr>))
       (u_call e f (u_regs s) (u_stack s))"
| "u_exec e (U_ins Exit_prog) s =
     (case u_get (u_regs s) 0 of Some (U_num n) \<Rightarrow> Some (Inr (n, u_res s)) | _ \<Rightarrow> None)"
| "u_exec e (U_ins i) s = None"

text \<open>A run. The functions have no jump backwards; here one is an error, and so a run is a total function.\<close>

function u_run :: "usdt_env \<Rightarrow> uins option list \<Rightarrow> ustate \<Rightarrow> (u64 \<times> u64 option) option" where
  "u_run e code s =
     (if u_pc s < length code then
        (case Option.bind (code ! u_pc s) (\<lambda>i. u_exec e i s) of
           Some (Inl s') \<Rightarrow> if u_pc s < u_pc s' then u_run e code s' else None
         | Some (Inr r) \<Rightarrow> Some r
         | None \<Rightarrow> None)
      else None)"
  by pat_completeness auto
termination
  by (relation "measure (\<lambda>(e, code, s). length code - u_pc s)") (auto split: option.splits)

declare u_run.simps [simp del]

section \<open>The functions\<close>

definition usdt_text :: "uins option list" where
  "usdt_text = u_decode (symbol_relocations usdt_bpf__elf_bytes 10) 0 (decode_program (section_bytes usdt_bpf__elf_bytes 3))"

text \<open>A function is entered with its arguments in registers 1 to 3 and the frame pointer in register 10.\<close>

definition u_enter :: "string \<Rightarrow> uval list \<Rightarrow> ustate" where
  "u_enter name args =
     \<lparr>u_pc = (case find (\<lambda>s. sym_name s = name) (function_symbols usdt_bpf__elf_bytes) of
                Some s \<Rightarrow> sym_value s div 8 | None \<Rightarrow> 0),
      u_regs = None # map Some args @ replicate (9 - length args) None @ [Some (U_stack 0)],
      u_stack = Map.empty, u_res = None\<rparr>"

definition compiled_usdt :: "usdt_env \<Rightarrow> string \<Rightarrow> uval list \<Rightarrow> (u64 \<times> u64 option) option" where
  "compiled_usdt e name args = u_run e usdt_text (u_enter name args)"

section \<open>The code\<close>

lemma usdt_relocations:
  "symbol_relocations usdt_bpf__elf_bytes 10 =
    [(0, ''LINUX_HAS_BPF_COOKIE''), (8, ''__bpf_usdt_ip_to_spec_id''), (27, ''__bpf_usdt_specs''),
     (41, ''LINUX_HAS_BPF_COOKIE''), (49, ''__bpf_usdt_ip_to_spec_id''), (69, ''__bpf_usdt_specs''),
     (163, ''LINUX_HAS_BPF_COOKIE''), (171, ''__bpf_usdt_ip_to_spec_id''), (188, ''__bpf_usdt_specs'')]"
  by (simp add: symbol_relocations_def usdt_elf_sections usdt_elf_symbols usdt_elf_10_def le_at_def upt_rec Let_def)

lemma usdt_text_eq:
  "usdt_text =
    [Some (U_ld 2 (U_sym ''LINUX_HAS_BPF_COOKIE'')), None, Some (U_ins (Ldx 1 2 2 0)),
     Some (U_ins (Jcc_imm J_ne 2 0 13)), Some (U_ins (Ldx 8 1 1 256)), Some (U_ins (Stx 8 10 (- 8) 1)),
     Some (U_ins (Alu_reg Alu_mov 2 10)), Some (U_ins (Alu_imm Alu_add 2 (- 8))),
     Some (U_ld 1 (U_sym ''__bpf_usdt_ip_to_spec_id'')), None, Some (U_ins (Call_helper 1)),
     Some (U_ins (Alu_reg Alu_mov 1 0)), Some (U_ld 0 (U_num 0xfffffffd)), None, Some (U_ins (Jcc_imm J_eq 1 0 3)),
     Some (U_ins (Ldx 4 0 1 0)), Some (U_ins (Jump 1)), Some (U_ins (Call_helper 174)),
     Some (U_ld 6 (U_num 0xfffffffd)), None, Some (U_ins (Stx 4 10 (- 12) 0)), Some (U_ins (Alu_imm Alu_lsh 0 32)),
     Some (U_ins (Alu_imm Alu_arsh 0 32)), Some (U_ins (Alu_imm Alu_mov 1 0)), Some (U_ins (Jcc_reg J_sgt 1 0 9)),
     Some (U_ins (Alu_reg Alu_mov 2 10)), Some (U_ins (Alu_imm Alu_add 2 (- 12))),
     Some (U_ld 1 (U_sym ''__bpf_usdt_specs'')), None, Some (U_ins (Call_helper 1)),
     Some (U_ins (Jcc_imm J_eq 0 0 3)), Some (U_ins (Ldx 2 6 0 200)), Some (U_ins (Alu_imm Alu_lsh 6 48)),
     Some (U_ins (Alu_imm Alu_arsh 6 48)), Some (U_ins (Alu_reg Alu_mov 0 6)), Some (U_ins Exit_prog),
     Some (U_ins (Alu_reg Alu_mov 6 3)), Some (U_ins (Alu_reg Alu_mov 7 2)), Some (U_ins (Alu_reg Alu_mov 8 1)),
     Some (U_ins (Alu_imm Alu_mov 1 0)), Some (U_ins (Stx 8 6 0 1)), Some (U_ld 1 (U_sym ''LINUX_HAS_BPF_COOKIE'')),
     None, Some (U_ins (Ldx 1 1 1 0)), Some (U_ins (Jcc_imm J_ne 1 0 13)), Some (U_ins (Ldx 8 1 8 256)),
     Some (U_ins (Stx 8 10 (- 8) 1)), Some (U_ins (Alu_reg Alu_mov 2 10)), Some (U_ins (Alu_imm Alu_add 2 (- 8))),
     Some (U_ld 1 (U_sym ''__bpf_usdt_ip_to_spec_id'')), None, Some (U_ins (Call_helper 1)),
     Some (U_ins (Alu_reg Alu_mov 1 0)), Some (U_ld 0 (U_num 0xfffffffd)), None, Some (U_ins (Jcc_imm J_eq 1 0 4)),
     Some (U_ins (Ldx 4 0 1 0)), Some (U_ins (Jump 2)), Some (U_ins (Alu_reg Alu_mov 1 8)),
     Some (U_ins (Call_helper 174)), Some (U_ld 9 (U_num 0xfffffffd)), None, Some (U_ins (Stx 4 10 (- 12) 0)),
     Some (U_ins (Alu_imm Alu_lsh 0 32)), Some (U_ins (Alu_imm Alu_arsh 0 32)), Some (U_ins (Alu_imm Alu_mov 1 0)),
     Some (U_ins (Jcc_reg J_sgt 1 0 94)), Some (U_ins (Alu_reg Alu_mov 2 10)),
     Some (U_ins (Alu_imm Alu_add 2 (- 12))), Some (U_ld 1 (U_sym ''__bpf_usdt_specs'')), None,
     Some (U_ins (Call_helper 1)), Some (U_ins (Jcc_imm J_eq 0 0 88)), Some (U_ld 9 (U_num 0xfffffffe)), None,
     Some (U_ins (Jcc_imm J_gt 7 11 85)), Some (U_ins (Ldx 2 1 0 200)), Some (U_ins (Alu_imm Alu_lsh 1 48)),
     Some (U_ins (Alu_imm Alu_arsh 1 48)), Some (U_ins (Jcc_reg J_ge 7 1 81)), Some (U_ins (Alu_reg Alu_mov 1 7)),
     Some (U_ins (Alu_imm Alu_lsh 1 4)), Some (U_ins (Alu_reg Alu_mov 2 0)), Some (U_ins (Alu_reg Alu_add 2 1)),
     Some (U_ins (Ldx 4 1 2 8)), Some (U_ins (Jcc_imm J_eq 1 2 28)), Some (U_ins (Jcc_imm J_eq 1 1 6)),
     Some (U_ld 9 (U_num 0xffffffea)), None, Some (U_ins (Jcc_imm J_ne 1 0 71)), Some (U_ins (Ldx 8 1 2 0)),
     Some (U_ins (Stx 8 10 (- 8) 1)), Some (U_ins (Jump 51)), Some (U_ins (Alu_reg Alu_mov 1 7)),
     Some (U_ins (Alu_imm Alu_lsh 1 4)), Some (U_ins (Alu_reg Alu_mov 2 0)), Some (U_ins (Alu_reg Alu_add 2 1)),
     Some (U_ins (Ldx 2 1 2 12)), Some (U_ins (Alu_imm Alu_lsh 1 48)), Some (U_ins (Alu_imm Alu_arsh 1 48)),
     Some (U_ins (Alu_reg Alu_add 8 1)), Some (U_ins (Alu_reg Alu_mov 1 10)), Some (U_ins (Alu_imm Alu_add 1 (- 8))),
     Some (U_ins (Alu_imm Alu_mov 2 8)), Some (U_ins (Alu_reg Alu_mov 3 8)), Some (U_ins (Alu_reg Alu_mov 8 0)),
     Some (U_ins (Call_helper 113)), Some (U_ins (Alu_reg Alu_mov 9 0)), Some (U_ins (Alu_reg Alu_mov 0 8)),
     Some (U_ins (Alu_reg Alu_mov 1 9)), Some (U_ins (Alu_imm Alu_lsh 1 32)), Some (U_ins (Alu_imm Alu_rsh 1 32)),
     Some (U_ins (Jcc_imm J_eq 1 0 31)), Some (U_ins (Jump 47)), Some (U_ins (Ldx 2 1 2 12)),
     Some (U_ins (Alu_imm Alu_lsh 1 48)), Some (U_ins (Alu_imm Alu_arsh 1 48)), Some (U_ins (Alu_reg Alu_add 8 1)),
     Some (U_ins (Alu_reg Alu_mov 1 10)), Some (U_ins (Alu_imm Alu_add 1 (- 8))), Some (U_ins (Alu_reg Alu_mov 9 2)),
     Some (U_ins (Alu_imm Alu_mov 2 8)), Some (U_ins (Alu_reg Alu_mov 3 8)), Some (U_ins (Alu_reg Alu_mov 8 0)),
     Some (U_ins (Call_helper 113)), Some (U_ins (Alu_reg Alu_mov 2 9)), Some (U_ins (Alu_reg Alu_mov 9 0)),
     Some (U_ins (Alu_reg Alu_mov 1 9)), Some (U_ins (Alu_imm Alu_lsh 1 32)), Some (U_ins (Alu_imm Alu_rsh 1 32)),
     Some (U_ins (Jcc_imm J_ne 1 0 30)), Some (U_ins (Ldx 8 1 2 0)), Some (U_ins (Ldx 8 3 10 (- 8))),
     Some (U_ins (Alu_reg Alu_add 3 1)), Some (U_ins (Alu_reg Alu_mov 1 10)), Some (U_ins (Alu_imm Alu_add 1 (- 8))),
     Some (U_ins (Alu_imm Alu_mov 2 8)), Some (U_ins (Call_helper 112)), Some (U_ins (Alu_reg Alu_mov 9 0)),
     Some (U_ins (Alu_reg Alu_mov 0 8)), Some (U_ins (Alu_reg Alu_mov 1 9)), Some (U_ins (Alu_imm Alu_lsh 1 32)),
     Some (U_ins (Alu_imm Alu_rsh 1 32)), Some (U_ins (Jcc_imm J_ne 1 0 17)), Some (U_ins (Alu_imm Alu_lsh 7 4)),
     Some (U_ins (Alu_reg Alu_add 0 7)), Some (U_ins (Ldx 1 1 0 15)), Some (U_ins (Alu_imm Alu_lsh 1 56)),
     Some (U_ins (Alu_imm Alu_arsh 1 56)), Some (U_ins (Alu_imm Alu_lsh 1 32)), Some (U_ins (Alu_imm Alu_rsh 1 32)),
     Some (U_ins (Ldx 8 2 10 (- 8))), Some (U_ins (Alu_reg Alu_lsh 2 1)), Some (U_ins (Alu_reg Alu_mov 3 2)),
     Some (U_ins (Alu_reg Alu_rsh 3 1)), Some (U_ins (Ldx 1 4 0 14)), Some (U_ins (Jcc_imm J_eq 4 0 2)),
     Some (U_ins (Alu_reg Alu_arsh 2 1)), Some (U_ins (Alu_reg Alu_mov 3 2)), Some (U_ins (Stx 8 6 0 3)),
     Some (U_ins (Alu_imm Alu_mov 9 0)), Some (U_ins (Alu_reg Alu_mov 0 9)), Some (U_ins Exit_prog),
     Some (U_ld 2 (U_sym ''LINUX_HAS_BPF_COOKIE'')), None, Some (U_ins (Ldx 1 2 2 0)),
     Some (U_ins (Jcc_imm J_ne 2 0 13)), Some (U_ins (Ldx 8 1 1 256)), Some (U_ins (Stx 8 10 (- 8) 1)),
     Some (U_ins (Alu_reg Alu_mov 2 10)), Some (U_ins (Alu_imm Alu_add 2 (- 8))),
     Some (U_ld 1 (U_sym ''__bpf_usdt_ip_to_spec_id'')), None, Some (U_ins (Call_helper 1)),
     Some (U_ins (Alu_reg Alu_mov 1 0)), Some (U_ld 0 (U_num 0xfffffffd)), None, Some (U_ins (Jcc_imm J_eq 1 0 3)),
     Some (U_ins (Ldx 4 0 1 0)), Some (U_ins (Jump 1)), Some (U_ins (Call_helper 174)),
     Some (U_ins (Stx 4 10 (- 12) 0)), Some (U_ins (Alu_imm Alu_lsh 0 32)), Some (U_ins (Alu_imm Alu_arsh 0 32)),
     Some (U_ins (Alu_imm Alu_mov 6 0)), Some (U_ins (Jcc_reg J_sgt 6 0 7)), Some (U_ins (Alu_reg Alu_mov 2 10)),
     Some (U_ins (Alu_imm Alu_add 2 (- 12))), Some (U_ld 1 (U_sym ''__bpf_usdt_specs'')), None,
     Some (U_ins (Call_helper 1)), Some (U_ins (Jcc_imm J_eq 0 0 1)), Some (U_ins (Ldx 8 6 0 192)),
     Some (U_ins (Alu_reg Alu_mov 0 6)), Some (U_ins Exit_prog)]"
  by (simp add: usdt_text_def usdt_elf_contents usdt_relocations usdt_elf_3_def decode_eval)
    (simp add: classify_def alu_of_def cond_of_def mem_size_def Let_def imm64_def)

lemma usdt_text_length: "length usdt_text = 195"
  by (simp add: usdt_text_eq)

lemma u_enter_eq:
  "u_enter ''bpf_usdt_arg_cnt'' args =
    \<lparr>u_pc = 0, u_regs = None # map Some args @ replicate (9 - length args) None @ [Some (U_stack 0)],
     u_stack = Map.empty, u_res = None\<rparr>"
  "u_enter ''bpf_usdt_arg'' args =
    \<lparr>u_pc = 36, u_regs = None # map Some args @ replicate (9 - length args) None @ [Some (U_stack 0)],
     u_stack = Map.empty, u_res = None\<rparr>"
  "u_enter ''bpf_usdt_cookie'' args =
    \<lparr>u_pc = 163, u_regs = None # map Some args @ replicate (9 - length args) None @ [Some (U_stack 0)],
     u_stack = Map.empty, u_res = None\<rparr>"
  by (simp_all add: u_enter_def usdt_function_symbols)

text \<open>The instructions by their place, in the blocks the proofs go through.\<close>

lemma cnt_id_code:
  "usdt_text ! 0 = Some (U_ld 2 (U_sym ''LINUX_HAS_BPF_COOKIE''))"
  "usdt_text ! 2 = Some (U_ins (Ldx 1 2 2 0))"
  "usdt_text ! 3 = Some (U_ins (Jcc_imm J_ne 2 0 13))"
  "usdt_text ! 4 = Some (U_ins (Ldx 8 1 1 256))"
  "usdt_text ! 5 = Some (U_ins (Stx 8 10 (- 8) 1))"
  "usdt_text ! 6 = Some (U_ins (Alu_reg Alu_mov 2 10))"
  "usdt_text ! 7 = Some (U_ins (Alu_imm Alu_add 2 (- 8)))"
  "usdt_text ! 8 = Some (U_ld 1 (U_sym ''__bpf_usdt_ip_to_spec_id''))"
  "usdt_text ! 10 = Some (U_ins (Call_helper 1))"
  "usdt_text ! 11 = Some (U_ins (Alu_reg Alu_mov 1 0))"
  "usdt_text ! 12 = Some (U_ld 0 (U_num 0xfffffffd))"
  "usdt_text ! 14 = Some (U_ins (Jcc_imm J_eq 1 0 3))"
  "usdt_text ! 15 = Some (U_ins (Ldx 4 0 1 0))"
  "usdt_text ! 16 = Some (U_ins (Jump 1))"
  "usdt_text ! 17 = Some (U_ins (Call_helper 174))"
  by (simp_all add: usdt_text_eq)

lemma cnt_code:
  "usdt_text ! 18 = Some (U_ld 6 (U_num 0xfffffffd))"
  "usdt_text ! 20 = Some (U_ins (Stx 4 10 (- 12) 0))"
  "usdt_text ! 21 = Some (U_ins (Alu_imm Alu_lsh 0 32))"
  "usdt_text ! 22 = Some (U_ins (Alu_imm Alu_arsh 0 32))"
  "usdt_text ! 23 = Some (U_ins (Alu_imm Alu_mov 1 0))"
  "usdt_text ! 24 = Some (U_ins (Jcc_reg J_sgt 1 0 9))"
  "usdt_text ! 25 = Some (U_ins (Alu_reg Alu_mov 2 10))"
  "usdt_text ! 26 = Some (U_ins (Alu_imm Alu_add 2 (- 12)))"
  "usdt_text ! 27 = Some (U_ld 1 (U_sym ''__bpf_usdt_specs''))"
  "usdt_text ! 29 = Some (U_ins (Call_helper 1))"
  "usdt_text ! 30 = Some (U_ins (Jcc_imm J_eq 0 0 3))"
  "usdt_text ! 31 = Some (U_ins (Ldx 2 6 0 200))"
  "usdt_text ! 32 = Some (U_ins (Alu_imm Alu_lsh 6 48))"
  "usdt_text ! 33 = Some (U_ins (Alu_imm Alu_arsh 6 48))"
  "usdt_text ! 34 = Some (U_ins (Alu_reg Alu_mov 0 6))"
  "usdt_text ! 35 = Some (U_ins Exit_prog)"
  by (simp_all add: usdt_text_eq)

lemma arg_id_code:
  "usdt_text ! 36 = Some (U_ins (Alu_reg Alu_mov 6 3))"
  "usdt_text ! 37 = Some (U_ins (Alu_reg Alu_mov 7 2))"
  "usdt_text ! 38 = Some (U_ins (Alu_reg Alu_mov 8 1))"
  "usdt_text ! 39 = Some (U_ins (Alu_imm Alu_mov 1 0))"
  "usdt_text ! 40 = Some (U_ins (Stx 8 6 0 1))"
  "usdt_text ! 41 = Some (U_ld 1 (U_sym ''LINUX_HAS_BPF_COOKIE''))"
  "usdt_text ! 43 = Some (U_ins (Ldx 1 1 1 0))"
  "usdt_text ! 44 = Some (U_ins (Jcc_imm J_ne 1 0 13))"
  "usdt_text ! 45 = Some (U_ins (Ldx 8 1 8 256))"
  "usdt_text ! 46 = Some (U_ins (Stx 8 10 (- 8) 1))"
  "usdt_text ! 47 = Some (U_ins (Alu_reg Alu_mov 2 10))"
  "usdt_text ! 48 = Some (U_ins (Alu_imm Alu_add 2 (- 8)))"
  "usdt_text ! 49 = Some (U_ld 1 (U_sym ''__bpf_usdt_ip_to_spec_id''))"
  "usdt_text ! 51 = Some (U_ins (Call_helper 1))"
  "usdt_text ! 52 = Some (U_ins (Alu_reg Alu_mov 1 0))"
  "usdt_text ! 53 = Some (U_ld 0 (U_num 0xfffffffd))"
  "usdt_text ! 55 = Some (U_ins (Jcc_imm J_eq 1 0 4))"
  "usdt_text ! 56 = Some (U_ins (Ldx 4 0 1 0))"
  "usdt_text ! 57 = Some (U_ins (Jump 2))"
  "usdt_text ! 58 = Some (U_ins (Alu_reg Alu_mov 1 8))"
  "usdt_text ! 59 = Some (U_ins (Call_helper 174))"
  by (simp_all add: usdt_text_eq)

lemma arg_spec_code:
  "usdt_text ! 60 = Some (U_ld 9 (U_num 0xfffffffd))"
  "usdt_text ! 62 = Some (U_ins (Stx 4 10 (- 12) 0))"
  "usdt_text ! 63 = Some (U_ins (Alu_imm Alu_lsh 0 32))"
  "usdt_text ! 64 = Some (U_ins (Alu_imm Alu_arsh 0 32))"
  "usdt_text ! 65 = Some (U_ins (Alu_imm Alu_mov 1 0))"
  "usdt_text ! 66 = Some (U_ins (Jcc_reg J_sgt 1 0 94))"
  "usdt_text ! 67 = Some (U_ins (Alu_reg Alu_mov 2 10))"
  "usdt_text ! 68 = Some (U_ins (Alu_imm Alu_add 2 (- 12)))"
  "usdt_text ! 69 = Some (U_ld 1 (U_sym ''__bpf_usdt_specs''))"
  "usdt_text ! 71 = Some (U_ins (Call_helper 1))"
  "usdt_text ! 72 = Some (U_ins (Jcc_imm J_eq 0 0 88))"
  by (simp_all add: usdt_text_eq)

lemma arg_bounds_code:
  "usdt_text ! 73 = Some (U_ld 9 (U_num 0xfffffffe))"
  "usdt_text ! 75 = Some (U_ins (Jcc_imm J_gt 7 11 85))"
  "usdt_text ! 76 = Some (U_ins (Ldx 2 1 0 200))"
  "usdt_text ! 77 = Some (U_ins (Alu_imm Alu_lsh 1 48))"
  "usdt_text ! 78 = Some (U_ins (Alu_imm Alu_arsh 1 48))"
  "usdt_text ! 79 = Some (U_ins (Jcc_reg J_ge 7 1 81))"
  "usdt_text ! 80 = Some (U_ins (Alu_reg Alu_mov 1 7))"
  "usdt_text ! 81 = Some (U_ins (Alu_imm Alu_lsh 1 4))"
  "usdt_text ! 82 = Some (U_ins (Alu_reg Alu_mov 2 0))"
  "usdt_text ! 83 = Some (U_ins (Alu_reg Alu_add 2 1))"
  by (simp_all add: usdt_text_eq)

lemma arg_value_code:
  "usdt_text ! 84 = Some (U_ins (Ldx 4 1 2 8))"
  "usdt_text ! 85 = Some (U_ins (Jcc_imm J_eq 1 2 28))"
  "usdt_text ! 86 = Some (U_ins (Jcc_imm J_eq 1 1 6))"
  "usdt_text ! 87 = Some (U_ld 9 (U_num 0xffffffea))"
  "usdt_text ! 89 = Some (U_ins (Jcc_imm J_ne 1 0 71))"
  "usdt_text ! 90 = Some (U_ins (Ldx 8 1 2 0))"
  "usdt_text ! 91 = Some (U_ins (Stx 8 10 (- 8) 1))"
  "usdt_text ! 92 = Some (U_ins (Jump 51))"
  "usdt_text ! 93 = Some (U_ins (Alu_reg Alu_mov 1 7))"
  "usdt_text ! 94 = Some (U_ins (Alu_imm Alu_lsh 1 4))"
  "usdt_text ! 95 = Some (U_ins (Alu_reg Alu_mov 2 0))"
  "usdt_text ! 96 = Some (U_ins (Alu_reg Alu_add 2 1))"
  "usdt_text ! 97 = Some (U_ins (Ldx 2 1 2 12))"
  "usdt_text ! 98 = Some (U_ins (Alu_imm Alu_lsh 1 48))"
  "usdt_text ! 99 = Some (U_ins (Alu_imm Alu_arsh 1 48))"
  "usdt_text ! 100 = Some (U_ins (Alu_reg Alu_add 8 1))"
  "usdt_text ! 101 = Some (U_ins (Alu_reg Alu_mov 1 10))"
  "usdt_text ! 102 = Some (U_ins (Alu_imm Alu_add 1 (- 8)))"
  "usdt_text ! 103 = Some (U_ins (Alu_imm Alu_mov 2 8))"
  "usdt_text ! 104 = Some (U_ins (Alu_reg Alu_mov 3 8))"
  "usdt_text ! 105 = Some (U_ins (Alu_reg Alu_mov 8 0))"
  "usdt_text ! 106 = Some (U_ins (Call_helper 113))"
  "usdt_text ! 107 = Some (U_ins (Alu_reg Alu_mov 9 0))"
  "usdt_text ! 108 = Some (U_ins (Alu_reg Alu_mov 0 8))"
  "usdt_text ! 109 = Some (U_ins (Alu_reg Alu_mov 1 9))"
  "usdt_text ! 110 = Some (U_ins (Alu_imm Alu_lsh 1 32))"
  "usdt_text ! 111 = Some (U_ins (Alu_imm Alu_rsh 1 32))"
  "usdt_text ! 112 = Some (U_ins (Jcc_imm J_eq 1 0 31))"
  "usdt_text ! 113 = Some (U_ins (Jump 47))"
  "usdt_text ! 114 = Some (U_ins (Ldx 2 1 2 12))"
  "usdt_text ! 115 = Some (U_ins (Alu_imm Alu_lsh 1 48))"
  "usdt_text ! 116 = Some (U_ins (Alu_imm Alu_arsh 1 48))"
  "usdt_text ! 117 = Some (U_ins (Alu_reg Alu_add 8 1))"
  "usdt_text ! 118 = Some (U_ins (Alu_reg Alu_mov 1 10))"
  "usdt_text ! 119 = Some (U_ins (Alu_imm Alu_add 1 (- 8)))"
  "usdt_text ! 120 = Some (U_ins (Alu_reg Alu_mov 9 2))"
  "usdt_text ! 121 = Some (U_ins (Alu_imm Alu_mov 2 8))"
  "usdt_text ! 122 = Some (U_ins (Alu_reg Alu_mov 3 8))"
  "usdt_text ! 123 = Some (U_ins (Alu_reg Alu_mov 8 0))"
  "usdt_text ! 124 = Some (U_ins (Call_helper 113))"
  "usdt_text ! 125 = Some (U_ins (Alu_reg Alu_mov 2 9))"
  "usdt_text ! 126 = Some (U_ins (Alu_reg Alu_mov 9 0))"
  "usdt_text ! 127 = Some (U_ins (Alu_reg Alu_mov 1 9))"
  "usdt_text ! 128 = Some (U_ins (Alu_imm Alu_lsh 1 32))"
  "usdt_text ! 129 = Some (U_ins (Alu_imm Alu_rsh 1 32))"
  "usdt_text ! 130 = Some (U_ins (Jcc_imm J_ne 1 0 30))"
  "usdt_text ! 131 = Some (U_ins (Ldx 8 1 2 0))"
  "usdt_text ! 132 = Some (U_ins (Ldx 8 3 10 (- 8)))"
  "usdt_text ! 133 = Some (U_ins (Alu_reg Alu_add 3 1))"
  "usdt_text ! 134 = Some (U_ins (Alu_reg Alu_mov 1 10))"
  "usdt_text ! 135 = Some (U_ins (Alu_imm Alu_add 1 (- 8)))"
  "usdt_text ! 136 = Some (U_ins (Alu_imm Alu_mov 2 8))"
  "usdt_text ! 137 = Some (U_ins (Call_helper 112))"
  "usdt_text ! 138 = Some (U_ins (Alu_reg Alu_mov 9 0))"
  "usdt_text ! 139 = Some (U_ins (Alu_reg Alu_mov 0 8))"
  "usdt_text ! 140 = Some (U_ins (Alu_reg Alu_mov 1 9))"
  "usdt_text ! 141 = Some (U_ins (Alu_imm Alu_lsh 1 32))"
  "usdt_text ! 142 = Some (U_ins (Alu_imm Alu_rsh 1 32))"
  "usdt_text ! 143 = Some (U_ins (Jcc_imm J_ne 1 0 17))"
  by (simp_all add: usdt_text_eq)

lemma arg_cast_code:
  "usdt_text ! 144 = Some (U_ins (Alu_imm Alu_lsh 7 4))"
  "usdt_text ! 145 = Some (U_ins (Alu_reg Alu_add 0 7))"
  "usdt_text ! 146 = Some (U_ins (Ldx 1 1 0 15))"
  "usdt_text ! 147 = Some (U_ins (Alu_imm Alu_lsh 1 56))"
  "usdt_text ! 148 = Some (U_ins (Alu_imm Alu_arsh 1 56))"
  "usdt_text ! 149 = Some (U_ins (Alu_imm Alu_lsh 1 32))"
  "usdt_text ! 150 = Some (U_ins (Alu_imm Alu_rsh 1 32))"
  "usdt_text ! 151 = Some (U_ins (Ldx 8 2 10 (- 8)))"
  "usdt_text ! 152 = Some (U_ins (Alu_reg Alu_lsh 2 1))"
  "usdt_text ! 153 = Some (U_ins (Alu_reg Alu_mov 3 2))"
  "usdt_text ! 154 = Some (U_ins (Alu_reg Alu_rsh 3 1))"
  "usdt_text ! 155 = Some (U_ins (Ldx 1 4 0 14))"
  "usdt_text ! 156 = Some (U_ins (Jcc_imm J_eq 4 0 2))"
  "usdt_text ! 157 = Some (U_ins (Alu_reg Alu_arsh 2 1))"
  "usdt_text ! 158 = Some (U_ins (Alu_reg Alu_mov 3 2))"
  "usdt_text ! 159 = Some (U_ins (Stx 8 6 0 3))"
  by (simp_all add: usdt_text_eq)

lemma arg_return_code:
  "usdt_text ! 160 = Some (U_ins (Alu_imm Alu_mov 9 0))"
  "usdt_text ! 161 = Some (U_ins (Alu_reg Alu_mov 0 9))"
  "usdt_text ! 162 = Some (U_ins Exit_prog)"
  by (simp_all add: usdt_text_eq)

lemma cookie_id_code:
  "usdt_text ! 163 = Some (U_ld 2 (U_sym ''LINUX_HAS_BPF_COOKIE''))"
  "usdt_text ! 165 = Some (U_ins (Ldx 1 2 2 0))"
  "usdt_text ! 166 = Some (U_ins (Jcc_imm J_ne 2 0 13))"
  "usdt_text ! 167 = Some (U_ins (Ldx 8 1 1 256))"
  "usdt_text ! 168 = Some (U_ins (Stx 8 10 (- 8) 1))"
  "usdt_text ! 169 = Some (U_ins (Alu_reg Alu_mov 2 10))"
  "usdt_text ! 170 = Some (U_ins (Alu_imm Alu_add 2 (- 8)))"
  "usdt_text ! 171 = Some (U_ld 1 (U_sym ''__bpf_usdt_ip_to_spec_id''))"
  "usdt_text ! 173 = Some (U_ins (Call_helper 1))"
  "usdt_text ! 174 = Some (U_ins (Alu_reg Alu_mov 1 0))"
  "usdt_text ! 175 = Some (U_ld 0 (U_num 0xfffffffd))"
  "usdt_text ! 177 = Some (U_ins (Jcc_imm J_eq 1 0 3))"
  "usdt_text ! 178 = Some (U_ins (Ldx 4 0 1 0))"
  "usdt_text ! 179 = Some (U_ins (Jump 1))"
  "usdt_text ! 180 = Some (U_ins (Call_helper 174))"
  by (simp_all add: usdt_text_eq)

lemma cookie_code:
  "usdt_text ! 181 = Some (U_ins (Stx 4 10 (- 12) 0))"
  "usdt_text ! 182 = Some (U_ins (Alu_imm Alu_lsh 0 32))"
  "usdt_text ! 183 = Some (U_ins (Alu_imm Alu_arsh 0 32))"
  "usdt_text ! 184 = Some (U_ins (Alu_imm Alu_mov 6 0))"
  "usdt_text ! 185 = Some (U_ins (Jcc_reg J_sgt 6 0 7))"
  "usdt_text ! 186 = Some (U_ins (Alu_reg Alu_mov 2 10))"
  "usdt_text ! 187 = Some (U_ins (Alu_imm Alu_add 2 (- 12)))"
  "usdt_text ! 188 = Some (U_ld 1 (U_sym ''__bpf_usdt_specs''))"
  "usdt_text ! 190 = Some (U_ins (Call_helper 1))"
  "usdt_text ! 191 = Some (U_ins (Jcc_imm J_eq 0 0 1))"
  "usdt_text ! 192 = Some (U_ins (Ldx 8 6 0 192))"
  "usdt_text ! 193 = Some (U_ins (Alu_reg Alu_mov 0 6))"
  "usdt_text ! 194 = Some (U_ins Exit_prog)"
  by (simp_all add: usdt_text_eq)

section \<open>Running the code\<close>

definition ust :: "nat \<Rightarrow> uval option list \<Rightarrow> ustack \<Rightarrow> u64 option \<Rightarrow> ustate" where
  "ust pc r m q = \<lparr>u_pc = pc, u_regs = r, u_stack = m, u_res = q\<rparr>"

lemma ust_simps [simp]:
  "u_pc (ust pc r m q) = pc" "u_regs (ust pc r m q) = r" "u_stack (ust pc r m q) = m" "u_res (ust pc r m q) = q"
  "(ust pc r m q)\<lparr>u_pc := pc'\<rparr> = ust pc' r m q" "(ust pc r m q)\<lparr>u_regs := r'\<rparr> = ust pc r' m q"
  "(ust pc r m q)\<lparr>u_stack := m'\<rparr> = ust pc r m' q" "(ust pc r m q)\<lparr>u_res := q'\<rparr> = ust pc r m q'"
  by (simp_all add: ust_def)

lemma u_go:
  assumes "usdt_text ! pc = Some i"
  shows "u_run e usdt_text (ust pc r m q) =
    (if pc < 195 then
       (case u_exec e i (ust pc r m q) of
          Some (Inl s) \<Rightarrow> if pc < u_pc s then u_run e usdt_text s else None
        | Some (Inr r) \<Rightarrow> Some r
        | None \<Rightarrow> None)
     else None)"
  by (subst u_run.simps) (auto simp: usdt_text_length assms split: option.split sum.split)

lemmas u_eval =
  u_next_def u_jump_def u_get_def u_alu_def u_cond_def u_load_def u_call_def jump_to_def alu_value_def cond_holds_def
  in_stack_def

lemma stack_get_put [simp]: "stack_get (stack_put d sz v m) d sz = Some (take_bit (8 * sz) v)"
  by (simp add: stack_get_def stack_put_def)

text \<open>Widening and narrowing between the sizes of the code.\<close>

lemma extend [simp]:
  fixes x :: u64
  shows "signed_drop_bit 32 (push_bit 32 x) = (scast (ucast x :: u32) :: u64)"
    and "signed_drop_bit 48 (push_bit 48 x) = (scast (ucast x :: u16) :: u64)"
    and "signed_drop_bit 56 (push_bit 56 x) = (scast (ucast x :: byte) :: u64)"
    and "drop_bit 32 (push_bit 32 x) = (ucast (ucast x :: u32) :: u64)"
  by (rule bit_word_eqI; simp add: shift_up_down bit_simps min.commute; auto simp: min_def)+

lemma narrow_widened [simp]:
  fixes x :: u32 and y :: u16 and z :: byte
  shows "sint (scast x :: u64) = sint x" and "sint (scast y :: u64) = sint y" and "sint (scast z :: u64) = sint z"
    and "ucast (ucast x :: u64) = x" and "ucast (ucast y :: u64) = y" and "ucast (ucast z :: u64) = z"
  by (simp_all add: sint_up_scast is_up ucast_down_ucast_id is_down)

lemma ucast_small [simp]:
  fixes x :: u32
  shows "(ucast x :: u64) = 0 \<longleftrightarrow> x = 0" and "(ucast x :: u64) = 1 \<longleftrightarrow> x = 1" and "(ucast x :: u64) = 2 \<longleftrightarrow> x = 2"
  by (simp_all add: word_uint_eq_iff uint_up_ucast is_up)

lemma ucast_low [simp]:
  "ucast (take_bit 32 (x :: u64)) = (ucast x :: u32)" "ucast (word_of_int k :: u64) = (word_of_int k :: u32)"
  by (rule bit_word_eqI; simp add: bit_simps)+

lemma int_zero:
  assumes "err \<in> {- (2 ^ 31)..<2 ^ 31}"
  shows "(word_of_int err :: u32) = 0 \<longleftrightarrow> err = 0"
proof -
  have "(word_of_int err :: u32) = 0 \<longleftrightarrow> 2 ^ 32 dvd err"
    by (simp add: word_of_int_eq_0_iff)
  also have "\<dots> \<longleftrightarrow> err = 0"
    using assms zdvd_imp_le [of "2 ^ 32" err] zdvd_imp_le [of "2 ^ 32" "- err"] by force
  finally show ?thesis .
qed

lemma small_index:
  assumes "(n :: u64) < 12"
  shows "sint (push_bit 4 n) = 16 * int (unat n)"
proof -
  have u: "uint n < 12"
    using assms by (simp add: word_less_def)
  then have "uint (16 * n) = 16 * uint n"
    by (simp add: uint_word_ariths)
  moreover have "- (2 ^ 63) \<le> 16 * uint n"
    by (rule order_trans [of _ 0]) simp_all
  moreover have "16 * uint n < 2 ^ 63"
    using u by simp
  ultimately have "sint (16 * n) = 16 * uint n"
    by (simp add: sint_uint signed_take_bit_int_eq_self)
  then show ?thesis
    by (simp add: push_bit_eq_mult mult.commute)
qed

lemma bitshift_amount:
  assumes "0 \<le> sint b" and "sint (b :: byte) < 64"
  shows "unat ((ucast (ucast (scast b :: u64) :: u32) :: u64) AND 63) = nat (sint b)"
proof -
  define k where "k = nat (sint b)"
  have k: "k < 64" "b = word_of_nat k"
    using assms by (simp_all add: k_def)
  have "(scast b :: u64) = word_of_nat k"
    using assms(1) unfolding k_def by (metis of_int_sint of_int_of_nat_eq nat_0_le)
  then have "(ucast (ucast (scast b :: u64) :: u32) :: u64) = word_of_nat k"
    using k(1) by (simp add: unsigned_of_nat take_bit_nat_eq_self)
  then have "unat ((ucast (ucast (scast b :: u64) :: u32) :: u64) AND 63) = unat (take_bit 6 (word_of_nat k :: u64))"
    by (simp add: take_bit_eq_mask mask_eq_decr_exp)
  also have "\<dots> = k"
    using k(1) by (simp add: unsigned_take_bit_eq unsigned_of_nat take_bit_nat_eq_self)
  finally show ?thesis
    by (simp add: k_def)
qed

text \<open>Fields of argument \<open>k\<close>, and what a known specification says of the environment.\<close>

lemma spec_field_arg:
  "\<lbrakk>k < 12; 0 \<le> d; d < 16\<rbrakk> \<Longrightarrow> spec_field s (16 * int k + d) sz = arg_spec_field (us_args s ! k) d sz"
  by (simp add: spec_field_def)

lemma lookup_known: "usdt_lookup e = Some spec \<Longrightarrow> ue_specs e (usdt_spec_id e) = Some spec"
  by (simp add: usdt_lookup_def Let_def split: if_splits)

lemma arg_spec_known: "usdt_arg_spec_at spec n = Some a \<Longrightarrow> n < 12 \<and> us_args spec ! unat n = a"
  by (auto simp: usdt_arg_spec_at_def BPF_USDT_MAX_ARG_CNT_def split: if_splits)

lemma arg_fields:
  assumes "usdt_arg_spec_at spec n = Some a" and "0 \<le> d" and "d < 16"
  shows "spec_field spec (16 * uint n + d) sz = arg_spec_field a d sz"
  using spec_field_arg [of "unat n" d spec sz] arg_spec_known [OF assms(1)] assms(2,3) by (simp add: word_less_nat_alt)

text \<open>Where the id of the specification comes from: the cookie, or the map, or nowhere.\<close>

lemma spec_id_cases:
  obtains "ue_has_cookie e" and "usdt_spec_id e = ucast (ue_attach_cookie e)"
  | "\<not> ue_has_cookie e" and "ue_ip_to_spec_id e (ue_ip e) = None" and "usdt_spec_id e = ucast (0xfffffffd :: u64)"
  | i where "\<not> ue_has_cookie e" and "ue_ip_to_spec_id e (ue_ip e) = Some i" and "usdt_spec_id e = ucast (ucast i :: u64)"
proof -
  have "ucast (0xfffffffd :: u64) = (- 3 :: u32)"
    by (simp add: word_uint_eq_iff)
  then show ?thesis
    using that by (cases "ue_has_cookie e"; cases "ue_ip_to_spec_id e (ue_ip e)") (simp_all add: usdt_spec_id_def ESRCH_def)
qed

section \<open>The argument function, block by block\<close>

text \<open>
  Its registers from the first call on: the caller's result in register 6, the number of the argument in 7 and the context
  in 8.
\<close>

abbreviation arg_regs :: "usdt_env \<Rightarrow> u64 \<Rightarrow> uval option list \<Rightarrow> uval option \<Rightarrow> uval option list" where
  "arg_regs e n low r9 \<equiv> low @ [Some (U_res 0), Some (U_num n), Some (U_num (ue_ctx e)), r9, Some (U_stack 0)]"

text \<open>The id of the specification, from the cookie or from the map.\<close>

lemma arg_id:
  "\<exists>x m a1 a2 a3 a4 a5. ucast x = usdt_spec_id e \<and>
    u_run e usdt_text (ust 36 [None, Some (U_num (ue_ctx e)), Some (U_num n), Some (U_res 0), None, None, None, None,
        None, None, Some (U_stack 0)] m0 q) =
    u_run e usdt_text (ust 60 (arg_regs e n [Some (U_num x), a1, a2, a3, a4, a5] None) m (Some 0))"
  by (cases rule: spec_id_cases [where e = e])
    (intro exI conjI [rotated], simp add: u_eval arg_id_code [THEN u_go], simp)+

text \<open>The specification, or \<open>-ESRCH\<close>.\<close>

lemma arg_lookup:
  assumes "ucast x = usdt_spec_id e"
  shows "u_run e usdt_text (ust 60 (arg_regs e n [Some (U_num x), a1, a2, a3, a4, a5] r9) m q) =
    (case usdt_lookup e of
       None \<Rightarrow> Some (0xfffffffd, q)
     | Some spec \<Rightarrow>
         u_run e usdt_text (ust 73 (arg_regs e n [Some (U_spec (usdt_spec_id e) 0), None, None, None, None, None]
           (Some (U_num 0xfffffffd))) (stack_put (- 12) 4 x m) q))"
  using assms
  by (simp add: usdt_lookup_def Let_def u_eval arg_spec_code [THEN u_go] arg_return_code [THEN u_go] split: option.split)

text \<open>The two bounds, or \<open>-ENOENT\<close>.\<close>

lemma arg_bounds:
  assumes "usdt_lookup e = Some spec"
  shows "u_run e usdt_text (ust 73 (arg_regs e n [Some (U_spec (usdt_spec_id e) 0), a1, a2, a3, a4, a5] r9) m q) =
    (case usdt_arg_spec_at spec n of
       None \<Rightarrow> Some (0xfffffffe, q)
     | Some a \<Rightarrow>
         u_run e usdt_text (ust 84 (arg_regs e n [Some (U_spec (usdt_spec_id e) 0), Some (U_num (push_bit 4 n)),
           Some (U_spec (usdt_spec_id e) (16 * uint n)), a3, a4, a5] (Some (U_num 0xfffffffe))) m q))"
proof -
  have "spec_field spec 200 2 = Some (ucast (arg_cnt spec))"
    by (simp add: spec_field_def)
  moreover have "(12 :: u64) \<le> n \<longleftrightarrow> \<not> n < 12" "(11 :: u64) < n \<longleftrightarrow> \<not> n < 12"
    by (auto simp: not_less word_less_nat_alt word_le_nat_alt)
  ultimately show ?thesis
    by (simp add: small_index u_eval arg_bounds_code [THEN u_go] arg_return_code [THEN u_go] lookup_known [OF assms]
        usdt_arg_spec_at_def BPF_USDT_MAX_ARG_CNT_def split: option.split)
qed

text \<open>The raw value on the stack, or the error of a failed read or of an unknown kind.\<close>

definition reads_return_int :: "usdt_env \<Rightarrow> bool" where
  "reads_return_int e \<longleftrightarrow>
     (\<forall>a. fst (ue_read_kernel e a) \<in> {- (2 ^ 31)..<2 ^ 31} \<and> fst (ue_read_user e a) \<in> {- (2 ^ 31)..<2 ^ 31})"

lemma read_zero:
  assumes "reads_return_int e"
  shows "ue_read_kernel e a = (err, v) \<Longrightarrow> (word_of_int err :: u32) = 0 \<longleftrightarrow> err = 0"
    and "ue_read_user e a = (err, v) \<Longrightarrow> (word_of_int err :: u32) = 0 \<longleftrightarrow> err = 0"
  using assms int_zero by (metis reads_return_int_def fst_conv)+

definition arg_fetched :: "usdt_env \<Rightarrow> u64 \<Rightarrow> ustate \<Rightarrow> u64 option \<Rightarrow> int + u64 \<Rightarrow> bool" where
  "arg_fetched e n s q w =
     (case w of
        Inl err \<Rightarrow> \<exists>r. ucast r = (word_of_int err :: u32) \<and> u_run e usdt_text s = Some (r, q)
      | Inr v \<Rightarrow> \<exists>a1 a2 a3 a4 a5 a8 a9 m. stack_get m (- 8) 8 = Some v \<and>
          u_run e usdt_text s =
          u_run e usdt_text (ust 144 [Some (U_spec (usdt_spec_id e) 0), a1, a2, a3, a4, a5, Some (U_res 0),
            Some (U_num n), a8, a9, Some (U_stack 0)] m q))"

lemma arg_value:
  assumes "usdt_lookup e = Some spec" and "usdt_arg_spec_at spec n = Some a" and "\<not> ue_big_endian e"
    and "usdt_raw_value e a = Some w" and "reads_return_int e"
  shows "arg_fetched e n (ust 84 (arg_regs e n [Some (U_spec (usdt_spec_id e) 0), a1,
    Some (U_spec (usdt_spec_id e) (16 * uint n)), a3, a4, a5] r9) m q) q w"
proof -
  note field = arg_fields [OF assms(2)] arg_fields [OF assms(2), of 0, simplified]
  note run = u_eval arg_value_code [THEN u_go] arg_return_code [THEN u_go] lookup_known [OF assms(1)] field
    small_index [OF conjunct1 [OF arg_spec_known [OF assms(2)]]] arg_spec_field_def usdt_arg_types
  define addr where "addr = ue_ctx e + scast (reg_off a)"
  obtain err v where reg: "ue_read_kernel e addr = (err, v)"
    by fastforce
  obtain err' v' where mem: "ue_read_user e (v + val_off a) = (err', v')"
    by fastforce
  note zero = read_zero [OF assms(5)]
  note reads = reg [unfolded addr_def] mem zero(1) [OF reg] zero(2) [OF mem]
  note raw = assms(3) reads usdt_raw_value_def usdt_arg_types
  consider "arg_type a = 0" | "arg_type a = 1" "err \<noteq> 0" | "arg_type a = 1" "err = 0"
    | "arg_type a = 2" "err \<noteq> 0" | "arg_type a = 2" "err = 0" "err' \<noteq> 0" | "arg_type a = 2" "err = 0" "err' = 0"
    | "arg_type a \<noteq> 0" "arg_type a \<noteq> 1" "arg_type a \<noteq> 2"
    by blast
  then show ?thesis
  proof cases
    case 1
    then have "w = Inr (val_off a)"
      using assms(4) by (simp add: raw)
    with 1 show ?thesis
      unfolding arg_fetched_def by simp (intro exI conjI [rotated], simp add: run, simp)
  next
    case 2
    then have "w = Inl err"
      using assms(4) by (simp add: raw)
    with 2 show ?thesis
      unfolding arg_fetched_def by simp (intro exI [of _ "of_int err"] conjI; simp add: run reads)
  next
    case 3
    then have "w = Inr v"
      using assms(4) by (simp add: raw)
    with 3 show ?thesis
      unfolding arg_fetched_def by simp (intro exI conjI [rotated], simp add: run reads, simp)
  next
    case 4
    then have "w = Inl err"
      using assms(4) by (simp add: raw)
    with 4 show ?thesis
      unfolding arg_fetched_def by simp (intro exI [of _ "of_int err"] conjI; simp add: run reads)
  next
    case 5
    then have "w = Inl err'"
      using assms(4) by (simp add: raw)
    with 5 show ?thesis
      unfolding arg_fetched_def by simp (intro exI [of _ "of_int err'"] conjI; simp add: run reads)
  next
    case 6
    then have "w = Inr v'"
      using assms(4) by (simp add: raw)
    with 6 show ?thesis
      unfolding arg_fetched_def by simp (intro exI conjI [rotated], simp add: run reads, simp)
  next
    case 7
    then have "w = Inl (- EINVAL)"
      using assms(4) by (simp add: raw)
    with 7 show ?thesis
      unfolding arg_fetched_def
      by simp (intro exI [of _ "0xffffffea"] conjI, simp add: EINVAL_def word_uint_eq_iff, simp add: run)
  qed
qed

text \<open>The cut to the size of the argument.\<close>

lemma arg_cast:
  assumes "usdt_lookup e = Some spec" and "usdt_arg_spec_at spec n = Some a" and "usdt_cast_value a v = Some x"
    and "stack_get m (- 8) 8 = Some v"
  shows "u_run e usdt_text (ust 144 [Some (U_spec (usdt_spec_id e) 0), a1, a2, a3, a4, a5, Some (U_res 0),
    Some (U_num n), a8, a9, Some (U_stack 0)] m q) = Some (0, Some x)"
proof -
  have b: "0 \<le> sint (arg_bitshift a)" "sint (arg_bitshift a) < 64"
    using assms(3) by (auto simp: usdt_cast_value_def c_shift_def bind_eq_Some_conv split: if_splits)
  show ?thesis
    using assms(3) b
    by (cases "arg_signed a")
      (simp_all add: u_eval arg_cast_code [THEN u_go] arg_return_code [THEN u_go] lookup_known [OF assms(1)]
        arg_fields [OF assms(2)] small_index [OF conjunct1 [OF arg_spec_known [OF assms(2)]]] arg_spec_field_def
        assms(4) bitshift_amount [OF b] usdt_cast_value_def c_shift_def)
qed

section \<open>The queries, block by block\<close>

abbreviation query_regs :: "uval option list \<Rightarrow> uval option \<Rightarrow> uval option list" where
  "query_regs low r6 \<equiv> low @ [r6, None, None, None, Some (U_stack 0)]"

lemma cnt_id:
  "\<exists>x m a1 a2 a3 a4 a5. ucast x = usdt_spec_id e \<and>
    u_run e usdt_text (ust 0 (query_regs [None, Some (U_num (ue_ctx e)), None, None, None, None] None) m0 q) =
    u_run e usdt_text (ust 18 (query_regs [Some (U_num x), a1, a2, a3, a4, a5] None) m q)"
  by (cases rule: spec_id_cases [where e = e])
    (intro exI conjI [rotated], simp add: u_eval cnt_id_code [THEN u_go] flip: numeral_2_eq_2, simp)+

lemma cookie_id:
  "\<exists>x m a1 a2 a3 a4 a5. ucast x = usdt_spec_id e \<and>
    u_run e usdt_text (ust 163 (query_regs [None, Some (U_num (ue_ctx e)), None, None, None, None] None) m0 q) =
    u_run e usdt_text (ust 181 (query_regs [Some (U_num x), a1, a2, a3, a4, a5] None) m q)"
  by (cases rule: spec_id_cases [where e = e])
    (intro exI conjI [rotated], simp add: u_eval cookie_id_code [THEN u_go], simp)+

lemma cnt_lookup:
  assumes "ucast x = usdt_spec_id e"
  shows "\<exists>r. u_run e usdt_text (ust 18 (query_regs [Some (U_num x), a1, a2, a3, a4, a5] r6) m q) = Some (r, q) \<and>
    sint (ucast r :: u32) = bpf_usdt_arg_cnt e"
proof -
  have "spec_field s 200 2 = Some (ucast (arg_cnt s))" for s
    by (simp add: spec_field_def)
  moreover have "sint (ucast (scast y :: u64) :: u32) = sint y" for y :: u16
  proof -
    have "(ucast (scast y :: u64) :: u32) = scast y"
      by (rule bit_word_eqI) (simp add: bit_simps)
    then show ?thesis
      by (simp add: sint_up_scast is_up)
  qed
  ultimately show ?thesis
    using assms
    by (simp add: bpf_usdt_arg_cnt_def ESRCH_def usdt_lookup_def Let_def u_eval cnt_code [THEN u_go] split: option.split)
qed

lemma cookie_lookup:
  assumes "ucast x = usdt_spec_id e"
  shows "u_run e usdt_text (ust 181 (query_regs [Some (U_num x), a1, a2, a3, a4, a5] r6) m q) = Some (bpf_usdt_cookie e, q)"
proof -
  have "spec_field s 192 8 = Some (usdt_cookie s)" for s
    by (simp add: spec_field_def)
  with assms show ?thesis
    by (simp add: bpf_usdt_cookie_def usdt_lookup_def Let_def u_eval cookie_code [THEN u_go] split: option.split)
qed

section \<open>The three functions\<close>

lemma compiled_usdt_arg:
  assumes "bpf_usdt_arg e n = Some (err, v)" and "\<not> ue_big_endian e" and "reads_return_int e"
  shows "\<exists>r. compiled_usdt e ''bpf_usdt_arg'' [U_num (ue_ctx e), U_num n, U_res 0] = Some (r, Some v) \<and>
    sint (ucast r :: u32) = err"
proof -
  obtain x m a1 a2 a3 a4 a5 where x: "ucast x = usdt_spec_id e"
    and run: "compiled_usdt e ''bpf_usdt_arg'' [U_num (ue_ctx e), U_num n, U_res 0] =
      u_run e usdt_text (ust 60 (arg_regs e n [Some (U_num x), a1, a2, a3, a4, a5] None) m (Some 0))"
    using arg_id [of e n Map.empty None] by (auto simp: compiled_usdt_def u_enter_eq ust_def eval_nat_numeral)
  note run = run [unfolded arg_lookup [OF x]]
  have int: "sint (word_of_int err :: u32) = err" if "err \<in> {- (2 ^ 31)..<2 ^ 31}" for err
    using that by (simp add: signed_of_int signed_take_bit_int_eq_self)
  show ?thesis
  proof (cases "usdt_lookup e")
    case None
    then show ?thesis
      using assms(1) run by (auto simp: bpf_usdt_arg_def ESRCH_def)
  next
    case spec: (Some spec)
    note run = run [unfolded spec option.case arg_bounds [OF spec]]
    show ?thesis
    proof (cases "usdt_arg_spec_at spec n")
      case None
      then show ?thesis
        using assms(1) run spec by (auto simp: bpf_usdt_arg_def ENOENT_def)
    next
      case a: (Some a)
      obtain w where w: "usdt_raw_value e a = Some w"
        using assms(1) spec a by (auto simp: bpf_usdt_arg_def split: option.splits)
      note run = run [unfolded a option.case]
      note fetched = arg_value [OF spec a assms(2) w assms(3), unfolded arg_fetched_def]
      show ?thesis
      proof (cases w)
        case (Inl k)
        have "k \<in> {- (2 ^ 31)..<2 ^ 31}"
          using w assms(3) Inl
          by (auto simp: usdt_raw_value_def reads_return_int_def EINVAL_def split_beta Let_def split: if_splits option.splits)
        then show ?thesis
          using assms(1) spec a w Inl fetched run int by (fastforce simp: bpf_usdt_arg_def)
      next
        case (Inr u)
        then have "usdt_cast_value a u = Some v" "err = 0"
          using assms(1) spec a w by (auto simp: bpf_usdt_arg_def)
        then show ?thesis
          using fetched run Inr arg_cast [OF spec a] by fastforce
      qed
    qed
  qed
qed

lemma compiled_usdt_queries:
  "(\<exists>r. compiled_usdt e ''bpf_usdt_arg_cnt'' [U_num (ue_ctx e)] = Some (r, None) \<and>
      sint (ucast r :: u32) = bpf_usdt_arg_cnt e) \<and>
   compiled_usdt e ''bpf_usdt_cookie'' [U_num (ue_ctx e)] = Some (bpf_usdt_cookie e, None)"
proof
  obtain x m a1 a2 a3 a4 a5 where "ucast x = usdt_spec_id e"
    and "compiled_usdt e ''bpf_usdt_arg_cnt'' [U_num (ue_ctx e)] =
      u_run e usdt_text (ust 18 (query_regs [Some (U_num x), a1, a2, a3, a4, a5] None) m None)"
    using cnt_id [of e Map.empty None] by (auto simp: compiled_usdt_def u_enter_eq ust_def eval_nat_numeral)
  then show "\<exists>r. compiled_usdt e ''bpf_usdt_arg_cnt'' [U_num (ue_ctx e)] = Some (r, None) \<and>
      sint (ucast r :: u32) = bpf_usdt_arg_cnt e"
    using cnt_lookup by simp
next
  obtain x m a1 a2 a3 a4 a5 where "ucast x = usdt_spec_id e"
    and "compiled_usdt e ''bpf_usdt_cookie'' [U_num (ue_ctx e)] =
      u_run e usdt_text (ust 181 (query_regs [Some (U_num x), a1, a2, a3, a4, a5] None) m None)"
    using cookie_id [of e Map.empty None] by (auto simp: compiled_usdt_def u_enter_eq ust_def eval_nat_numeral)
  then show "compiled_usdt e ''bpf_usdt_cookie'' [U_num (ue_ctx e)] = Some (bpf_usdt_cookie e, None)"
    using cookie_lookup by simp
qed

section \<open>Properties\<close>

text \<open>
  C2: the compiled functions of usdt.skel.h compute what their sources in usdt.bpf.h say. In every environment, running the
  instructions of \<open>bpf_usdt_arg_cnt\<close> ends without an error and the low 32 bits of register 0 are the source's result, errors
  included; \<open>bpf_usdt_cookie\<close> returns the source's cookie; and \<open>bpf_usdt_arg\<close>, for every argument number for which the
  C function has a defined result (no shift by a negative amount or by 64 and more), returns the source's return value
  and leaves the source's value in the caller's result: through both ways to the specification, both bounds, the three
  kinds of arguments, failed reads, signed and unsigned arguments of every size. The object is little-endian, and
  the helpers that read return an \<open>int\<close>.
\<close>

theorem compiled_usdt_refines_source:
  assumes "\<not> ue_big_endian e" and "reads_return_int e"
  shows "(\<forall>n err v. bpf_usdt_arg e n = Some (err, v) \<longrightarrow>
      (\<exists>r. compiled_usdt e ''bpf_usdt_arg'' [U_num (ue_ctx e), U_num n, U_res 0] = Some (r, Some v) \<and>
        sint (ucast r :: u32) = err)) \<and>
    (\<exists>r. compiled_usdt e ''bpf_usdt_arg_cnt'' [U_num (ue_ctx e)] = Some (r, None) \<and>
      sint (ucast r :: u32) = bpf_usdt_arg_cnt e) \<and>
    compiled_usdt e ''bpf_usdt_cookie'' [U_num (ue_ctx e)] = Some (bpf_usdt_cookie e, None)"
  using compiled_usdt_arg [OF _ assms] compiled_usdt_queries by blast

text \<open>The first argument of the environment of \<open>Usdt\<close> is the constant 0x80 of one byte, signed; the third has no kind.\<close>

theorem compiled_usdt_refines_source_witness:
  "(\<exists>r. compiled_usdt demo_usdt_env ''bpf_usdt_arg'' [U_num 1000, U_num 0, U_res 0] = Some (r, Some (- 128)) \<and>
      sint (ucast r :: u32) = 0) \<and>
   (\<exists>r. compiled_usdt demo_usdt_env ''bpf_usdt_arg'' [U_num 1000, U_num 2, U_res 0] = Some (r, Some 0) \<and>
      sint (ucast r :: u32) = - 22) \<and>
   compiled_usdt demo_usdt_env ''bpf_usdt_cookie'' [U_num 1000] = Some (99, None)"
proof -
  have env: "\<not> ue_big_endian demo_usdt_env" "reads_return_int demo_usdt_env" "ue_ctx demo_usdt_env = 1000"
    "bpf_usdt_cookie demo_usdt_env = 99"
    by (simp_all add: demo_usdt_env_def reads_return_int_def bpf_usdt_cookie_def usdt_lookup_def usdt_spec_id_def)
  have "bpf_usdt_arg demo_usdt_env 0 = Some (0, - 128)" "bpf_usdt_arg demo_usdt_env 2 = Some (- 22, 0)"
    by (simp_all add: usdt_arg_result [OF demo_usdt_env_ok] demo_usdt_lookup usdt_fetch_def demo_usdt_arg_def
        arg_size_of_def cut_extend_def usdt_arg_types EINVAL_def Let_def)
  then show ?thesis
    using compiled_usdt_refines_source [OF env(1,2)] by (simp only: env(3,4))
qed

end
