(* ===== verification/Bpf_Endian.thy ===== *)
theory Bpf_Endian
  imports HE_Prelude
begin

unbundle bit_operations_syntax

text \<open>
  The byte order macros of examples/c/.output/bpf/bpf_endian.h. The 16-bit macro is computed in \<open>int\<close>,
  because C promotes its operands before it shifts them, and cut to 16 bits by the outer cast; the
  wider ones are computed in their own type. The compiler's \<open>__builtin_bswap\<close> reverses the bytes.
\<close>

section \<open>The macros\<close>

definition bpf_mvb16 :: "u16 \<Rightarrow> nat \<Rightarrow> nat \<Rightarrow> int" where
  "bpf_mvb16 x n m = push_bit (m * 8) (drop_bit (16 - 8) (push_bit (16 - (n + 1) * 8) (uint x)))"

definition bpf_mvb32 :: "u32 \<Rightarrow> nat \<Rightarrow> nat \<Rightarrow> u32" where
  "bpf_mvb32 x n m = push_bit (m * 8) (drop_bit (32 - 8) (push_bit (32 - (n + 1) * 8) x))"

definition bpf_mvb64 :: "u64 \<Rightarrow> nat \<Rightarrow> nat \<Rightarrow> u64" where
  "bpf_mvb64 x n m = push_bit (m * 8) (drop_bit (64 - 8) (push_bit (64 - (n + 1) * 8) x))"

definition bpf_swab16 :: "u16 \<Rightarrow> u16" where
  "bpf_swab16 x = word_of_int (bpf_mvb16 x 0 1 OR bpf_mvb16 x 1 0)"

definition bpf_swab32 :: "u32 \<Rightarrow> u32" where
  "bpf_swab32 x = bpf_mvb32 x 0 3 OR bpf_mvb32 x 1 2 OR bpf_mvb32 x 2 1 OR bpf_mvb32 x 3 0"

definition bpf_swab64 :: "u64 \<Rightarrow> u64" where
  "bpf_swab64 x =
     bpf_mvb64 x 0 7 OR bpf_mvb64 x 1 6 OR bpf_mvb64 x 2 5 OR bpf_mvb64 x 3 4 OR
     bpf_mvb64 x 4 3 OR bpf_mvb64 x 5 2 OR bpf_mvb64 x 6 1 OR bpf_mvb64 x 7 0"

text \<open>The builtins, by the bytes: byte \<open>j\<close> of the result is byte \<open>n - 1 - j\<close> of the argument.\<close>

definition byte_at :: "'a::len word \<Rightarrow> nat \<Rightarrow> byte" where
  "byte_at x j = ucast (drop_bit (8 * j) x)"

definition builtin_bswap :: "nat \<Rightarrow> 'a::len word \<Rightarrow> 'a word" where
  "builtin_bswap n x = fold (\<lambda>j acc. push_bit 8 acc OR ucast (byte_at x j)) [0..<n] 0"

text \<open>The target's byte order, and whether the argument is a constant for the compiler.\<close>

definition bpf_htons :: "bool \<Rightarrow> bool \<Rightarrow> u16 \<Rightarrow> u16" where
  "bpf_htons big const x = (if big then x else if const then bpf_swab16 x else builtin_bswap 2 x)"

definition bpf_ntohs :: "bool \<Rightarrow> bool \<Rightarrow> u16 \<Rightarrow> u16" where
  "bpf_ntohs big const x = (if big then x else if const then bpf_swab16 x else builtin_bswap 2 x)"

definition bpf_htonl :: "bool \<Rightarrow> bool \<Rightarrow> u32 \<Rightarrow> u32" where
  "bpf_htonl big const x = (if big then x else if const then bpf_swab32 x else builtin_bswap 4 x)"

definition bpf_ntohl :: "bool \<Rightarrow> bool \<Rightarrow> u32 \<Rightarrow> u32" where
  "bpf_ntohl big const x = (if big then x else if const then bpf_swab32 x else builtin_bswap 4 x)"

definition bpf_cpu_to_be64 :: "bool \<Rightarrow> bool \<Rightarrow> u64 \<Rightarrow> u64" where
  "bpf_cpu_to_be64 big const x = (if big then x else if const then bpf_swab64 x else builtin_bswap 8 x)"

definition bpf_be64_to_cpu :: "bool \<Rightarrow> bool \<Rightarrow> u64 \<Rightarrow> u64" where
  "bpf_be64_to_cpu big const x = (if big then x else if const then bpf_swab64 x else builtin_bswap 8 x)"

section \<open>Bits of the swapped words\<close>

lemmas endian_bits =
  bpf_swab16_def bpf_swab32_def bpf_swab64_def bpf_mvb16_def bpf_mvb32_def bpf_mvb64_def

lemma upto_bytes: "[0..<2] = [0, 1]" "[0..<4] = [0, 1, 2, 3]" "[0..<8] = [0, 1, 2, 3, 4, 5, 6, 7]"
  by code_simp+

lemma builtin_bswap_simps:
  "builtin_bswap 2 (x :: u16) = push_bit 8 (ucast (byte_at x 0)) OR ucast (byte_at x 1)"
  "builtin_bswap 4 (y :: u32) =
     push_bit 24 (ucast (byte_at y 0)) OR push_bit 16 (ucast (byte_at y 1)) OR
     push_bit 8 (ucast (byte_at y 2)) OR ucast (byte_at y 3)"
  "builtin_bswap 8 (z :: u64) =
     push_bit 56 (ucast (byte_at z 0)) OR push_bit 48 (ucast (byte_at z 1)) OR
     push_bit 40 (ucast (byte_at z 2)) OR push_bit 32 (ucast (byte_at z 3)) OR
     push_bit 24 (ucast (byte_at z 4)) OR push_bit 16 (ucast (byte_at z 5)) OR
     push_bit 8 (ucast (byte_at z 6)) OR ucast (byte_at z 7)"
  by (simp_all only: builtin_bswap_def upto_bytes fold_simps) (simp_all add: push_bit_or or.assoc push_bit_push_bit)

text \<open>One byte moved, as the macros do it and as the builtin does it.\<close>

lemma mvb16:
  "word_of_int (bpf_mvb16 x 0 (Suc 0)) = (push_bit 8 (ucast (byte_at x 0)) :: u16)"
  "word_of_int (bpf_mvb16 x (Suc 0) 0) = (ucast (byte_at x (Suc 0)) :: u16)"
  by (intro bit_word_eqI; auto simp: bpf_mvb16_def byte_at_def bit_simps dest: bit_imp_le_length)+

text \<open>
  The 16-bit macro does not isolate a byte in general, against its comment: the left shift of the
  promoted operand drops nothing. The two uses above are the ones in which that does no harm.
\<close>

lemma mvb16_keeps_high_byte: "bpf_mvb16 0xABCD 0 0 = 0xABCD"
  by (simp add: bpf_mvb16_def push_bit_eq_mult drop_bit_eq_div)

lemma mvb32:
  assumes "n < 4"
  shows "bpf_mvb32 x n m = push_bit (8 * m) (ucast (byte_at x n))"
proof -
  have "n \<in> {0, 1, 2, 3}"
    using assms by auto
  then show ?thesis
    by (elim insertE emptyE; hypsubst; intro bit_word_eqI)
      (auto simp: bpf_mvb32_def byte_at_def bit_simps mult.commute [of 8 m] dest: bit_imp_le_length)
qed

lemma mvb64:
  assumes "n < 8"
  shows "bpf_mvb64 x n m = push_bit (8 * m) (ucast (byte_at x n))"
proof -
  have "n \<in> {0, 1, 2, 3, 4, 5, 6, 7}"
    using assms by auto
  then show ?thesis
    by (elim insertE emptyE; hypsubst; intro bit_word_eqI)
      (auto simp: bpf_mvb64_def byte_at_def bit_simps mult.commute [of 8 m] dest: bit_imp_le_length)
qed

lemma swab_bswap:
  "bpf_swab16 x = builtin_bswap 2 x" "bpf_swab32 y = builtin_bswap 4 y" "bpf_swab64 z = builtin_bswap 8 z"
  by (simp_all add: bpf_swab16_def bpf_swab32_def bpf_swab64_def mvb16 mvb32 mvb64 builtin_bswap_simps or.assoc
      of_int_or_eq)

text \<open>The bytes of a word, and the word of its bytes.\<close>

lemma byte_at_or: "byte_at (a OR b) j = byte_at a j OR byte_at b j"
  by (rule bit_word_eqI) (auto simp: byte_at_def bit_simps)

lemma byte_at_push:
  "8 * k + 8 \<le> LENGTH('a) \<Longrightarrow>
   byte_at (push_bit (8 * k) (ucast (b :: byte)) :: 'a::len word) j = (if j = k then b else 0)"
  by (rule bit_word_eqI) (auto simp: byte_at_def bit_simps dest: bit_imp_le_length)

lemma bytes_step:
  "take_bit (8 * Suc k) z = take_bit (8 * k) z OR push_bit (8 * k) (ucast (byte_at z k))"
  by (rule bit_word_eqI) (auto simp: byte_at_def bit_simps dest: bit_imp_le_length)

lemmas byte_of_pushes =
  byte_at_push [of 0, simplified] byte_at_push [of 1, simplified] byte_at_push [of 2, simplified]
  byte_at_push [of 3, simplified] byte_at_push [of 4, simplified] byte_at_push [of 5, simplified]
  byte_at_push [of 6, simplified] byte_at_push [of 7, simplified]

lemma bytes_of_bswap:
  "byte_at (builtin_bswap 2 (x :: u16)) j = (if j < 2 then byte_at x (1 - j) else 0)"
  "byte_at (builtin_bswap 4 (y :: u32)) j = (if j < 4 then byte_at y (3 - j) else 0)"
  "byte_at (builtin_bswap 8 (z :: u64)) j = (if j < 8 then byte_at z (7 - j) else 0)"
  by (simp_all add: builtin_bswap_simps byte_at_or byte_of_pushes)
    (auto simp: numeral_eq_Suc less_Suc_eq)

lemma word_of_bytes:
  "ucast (byte_at x 0) OR push_bit 8 (ucast (byte_at x 1)) = (x :: u16)"
  "ucast (byte_at y 0) OR push_bit 8 (ucast (byte_at y 1)) OR push_bit 16 (ucast (byte_at y 2)) OR
     push_bit 24 (ucast (byte_at y 3)) = (y :: u32)"
  "ucast (byte_at z 0) OR push_bit 8 (ucast (byte_at z 1)) OR push_bit 16 (ucast (byte_at z 2)) OR
     push_bit 24 (ucast (byte_at z 3)) OR push_bit 32 (ucast (byte_at z 4)) OR push_bit 40 (ucast (byte_at z 5)) OR
     push_bit 48 (ucast (byte_at z 6)) OR push_bit 56 (ucast (byte_at z 7)) = (z :: u64)"
  using bytes_step [of 0 x] bytes_step [of 1 x]
    bytes_step [of 0 y] bytes_step [of 1 y] bytes_step [of 2 y] bytes_step [of 3 y]
    bytes_step [of 0 z] bytes_step [of 1 z] bytes_step [of 2 z] bytes_step [of 3 z]
    bytes_step [of 4 z] bytes_step [of 5 z] bytes_step [of 6 z] bytes_step [of 7 z]
  by (simp_all add: take_bit_word_eq_self or.assoc)

lemma bswap_involutive:
  "builtin_bswap 2 (builtin_bswap 2 x) = (x :: u16)"
  "builtin_bswap 4 (builtin_bswap 4 y) = (y :: u32)"
  "builtin_bswap 8 (builtin_bswap 8 z) = (z :: u64)"
proof -
  show "builtin_bswap 2 (builtin_bswap 2 x) = x"
    by (subst builtin_bswap_simps) (simp add: bytes_of_bswap or.commute word_of_bytes [simplified])
  show "builtin_bswap 4 (builtin_bswap 4 y) = y"
    by (subst builtin_bswap_simps, subst (5) word_of_bytes(2) [symmetric])
      (simp add: bytes_of_bswap or.commute or.left_commute or.assoc)
  show "builtin_bswap 8 (builtin_bswap 8 z) = z"
    by (subst builtin_bswap_simps, subst (9) word_of_bytes(3) [symmetric])
      (simp add: bytes_of_bswap or.commute or.left_commute or.assoc)
qed

section \<open>Properties\<close>

text \<open>The bytes of a word in memory, from the lowest address, on a target of either byte order.\<close>

definition mem_bytes :: "bool \<Rightarrow> nat \<Rightarrow> 'a::len word \<Rightarrow> byte list" where
  "mem_bytes big n x = map (byte_at x) (if big then rev [0..<n] else [0..<n])"

lemma mem_bytes_swapped:
  "mem_bytes False 2 (builtin_bswap 2 (x :: u16)) = map (byte_at x) [1, 0]"
  "mem_bytes False 4 (builtin_bswap 4 (y :: u32)) = map (byte_at y) [3, 2, 1, 0]"
  "mem_bytes False 8 (builtin_bswap 8 (z :: u64)) = map (byte_at z) [7, 6, 5, 4, 3, 2, 1, 0]"
  by (simp_all add: mem_bytes_def upto_bytes bytes_of_bswap)

text \<open>
  The conversions to network order put the bytes in memory most significant first, on both byte orders
  and whether or not the argument is a constant for the compiler, that is, the hand-written shifts
  agree with the compiler's builtins.
\<close>

theorem network_order_in_memory:
  "mem_bytes big 2 (bpf_htons big const x) = map (byte_at x) [1, 0] \<and>
   mem_bytes big 4 (bpf_htonl big const y) = map (byte_at y) [3, 2, 1, 0] \<and>
   mem_bytes big 8 (bpf_cpu_to_be64 big const z) = map (byte_at z) [7, 6, 5, 4, 3, 2, 1, 0]"
  by (cases big)
    (simp_all add: bpf_htons_def bpf_htonl_def bpf_cpu_to_be64_def swab_bswap mem_bytes_swapped,
     simp_all add: mem_bytes_def upto_bytes)

text \<open>
  Converting to network order and back gives the value again, whichever of the two conversions saw a
  constant.
\<close>

theorem network_order_roundtrip:
  "bpf_ntohs big c1 (bpf_htons big c2 x) = x \<and> bpf_ntohl big c1 (bpf_htonl big c2 y) = y \<and>
   bpf_be64_to_cpu big c1 (bpf_cpu_to_be64 big c2 z) = z"
  by (simp add: bpf_htons_def bpf_htonl_def bpf_cpu_to_be64_def bpf_ntohs_def bpf_ntohl_def bpf_be64_to_cpu_def
      swab_bswap bswap_involutive)

end
