(* ===== verification/Skel_Loader.thy ===== *)
theory Skel_Loader
  imports HE_Prelude
begin

text \<open>
  The user-space half of examples/c/.output/bpf/skel_internal.h, the run time of light skeletons: the
  wrappers of the \<open>bpf\<close> system call, the mapped data regions, and \<open>bpf_load_and_run\<close>, which creates a
  map, fills it, loads a program and runs it, with one exit that closes what was opened. The kernel
  is an oracle that answers each system call; the descriptors of the process are part of the state.
\<close>

section \<open>Data\<close>

datatype bpf_cmd =
    BPF_MAP_CREATE | BPF_MAP_UPDATE_ELEM | BPF_MAP_DELETE_ELEM | BPF_MAP_GET_FD_BY_ID
  | BPF_RAW_TRACEPOINT_OPEN | BPF_LINK_CREATE | BPF_PROG_LOAD | BPF_PROG_RUN

record bpf_loader_ctx =
  lc_sz :: u32
  lc_flags :: u32
  lc_log_level :: u32
  lc_log_size :: u32
  lc_log_buf :: u64

text \<open>Pointers the kernel dereferences are numbers here.\<close>

record bpf_load_and_run_opts =
  lo_ctx :: bpf_loader_ctx
  lo_ctx_ptr :: u64
  lo_data :: u64
  lo_insns :: u64
  lo_data_sz :: u32
  lo_insns_sz :: u32

text \<open>The parts of \<open>union bpf_attr\<close> that the wrappers fill; the rest is zero after the \<open>memset\<close>.\<close>

datatype bpf_attr =
    A_map_create nat "byte list" u32 u32 u32
  | A_map_elem int u64 u64 u64
  | A_map_id u32
  | A_raw_tracepoint u64 int
  | A_link int int nat
  | A_prog_load nat u64 u32 string string int u32 u32 u64 u32
  | A_test int u64 u32

text \<open>\<open>strncpy\<close> into the 16 bytes of \<open>map_name\<close>: cut at 16 bytes, filled with zeros.\<close>

definition c_strncpy :: "nat \<Rightarrow> string \<Rightarrow> byte list" where
  "c_strncpy n s = take n (bytes_of s @ replicate n 0)"

record ld_state =
  ld_fds :: "int list"
  ld_errno :: int
  ld_log :: "(bpf_cmd \<times> bpf_attr) list"
  ld_mem :: "u64 \<rightharpoonup> byte list"

text \<open>
  The answer to a system call: its return value, the \<open>errno\<close> of a failure, and the field \<open>test.retval\<close>.
\<close>

type_synonym bpf_oracle = "bpf_cmd \<Rightarrow> bpf_attr \<Rightarrow> ld_state \<Rightarrow> int \<times> int \<times> u32"

definition opens_fd :: "bpf_cmd \<Rightarrow> bool" where
  "opens_fd c \<longleftrightarrow> c \<in> {BPF_MAP_CREATE, BPF_MAP_GET_FD_BY_ID, BPF_RAW_TRACEPOINT_OPEN, BPF_LINK_CREATE, BPF_PROG_LOAD}"

section \<open>Wrappers\<close>

definition skel_sys_bpf :: "bpf_oracle \<Rightarrow> bpf_cmd \<Rightarrow> bpf_attr \<Rightarrow> ld_state \<Rightarrow> (int \<times> u32) \<times> ld_state" where
  "skel_sys_bpf K c a s =
     (let (r, e, retval) = K c a s;
          s1 = s\<lparr>ld_log := ld_log s @ [(c, a)]\<rparr>
      in if r < 0 then ((-1, retval), s1\<lparr>ld_errno := e\<rparr>)
         else ((r, retval), if opens_fd c then s1\<lparr>ld_fds := r # ld_fds s1\<rparr> else s1))"

definition c_close :: "int \<Rightarrow> ld_state \<Rightarrow> int \<times> ld_state" where
  "c_close fd s =
     (if fd \<in> set (ld_fds s) then (0, s\<lparr>ld_fds := remove1 fd (ld_fds s)\<rparr>)
      else (-1, s\<lparr>ld_errno := 9\<rparr>))"

definition skel_closenz :: "int \<Rightarrow> ld_state \<Rightarrow> int \<times> ld_state" where
  "skel_closenz fd s = (if fd > 0 then c_close fd s else (- EINVAL, s))"

definition skel_map_create :: "bpf_oracle \<Rightarrow> nat \<Rightarrow> string \<Rightarrow> u32 \<Rightarrow> u32 \<Rightarrow> u32 \<Rightarrow> ld_state \<Rightarrow> (int \<times> u32) \<times> ld_state" where
  "skel_map_create K map_type name key_size value_size max_entries =
     skel_sys_bpf K BPF_MAP_CREATE (A_map_create map_type (c_strncpy 16 name) key_size value_size max_entries)"

definition skel_map_update_elem :: "bpf_oracle \<Rightarrow> int \<Rightarrow> u64 \<Rightarrow> u64 \<Rightarrow> u64 \<Rightarrow> ld_state \<Rightarrow> (int \<times> u32) \<times> ld_state" where
  "skel_map_update_elem K fd key val flags = skel_sys_bpf K BPF_MAP_UPDATE_ELEM (A_map_elem fd key val flags)"

definition skel_map_delete_elem :: "bpf_oracle \<Rightarrow> int \<Rightarrow> u64 \<Rightarrow> ld_state \<Rightarrow> (int \<times> u32) \<times> ld_state" where
  "skel_map_delete_elem K fd key = skel_sys_bpf K BPF_MAP_DELETE_ELEM (A_map_elem fd key 0 0)"

definition skel_map_get_fd_by_id :: "bpf_oracle \<Rightarrow> u32 \<Rightarrow> ld_state \<Rightarrow> (int \<times> u32) \<times> ld_state" where
  "skel_map_get_fd_by_id K i = skel_sys_bpf K BPF_MAP_GET_FD_BY_ID (A_map_id i)"

definition skel_raw_tracepoint_open :: "bpf_oracle \<Rightarrow> u64 \<Rightarrow> int \<Rightarrow> ld_state \<Rightarrow> (int \<times> u32) \<times> ld_state" where
  "skel_raw_tracepoint_open K name prog_fd = skel_sys_bpf K BPF_RAW_TRACEPOINT_OPEN (A_raw_tracepoint name prog_fd)"

definition skel_link_create :: "bpf_oracle \<Rightarrow> int \<Rightarrow> int \<Rightarrow> nat \<Rightarrow> ld_state \<Rightarrow> (int \<times> u32) \<times> ld_state" where
  "skel_link_create K prog_fd target_fd attach_type =
     skel_sys_bpf K BPF_LINK_CREATE (A_link prog_fd target_fd attach_type)"

section \<open>Data regions\<close>

text \<open>
  \<open>mmap\<close> is an address (\<open>None\<close> for \<open>MAP_FAILED\<close>) with its region of zeros, or at a fixed address the
  content of the map behind a descriptor. \<open>memcpy\<close> checks that the region is long enough.
\<close>

definition skel_prep_map_data :: "u64 option \<Rightarrow> byte list \<Rightarrow> nat \<Rightarrow> nat \<Rightarrow> ld_state \<Rightarrow> crash + u64 option \<times> ld_state" where
  "skel_prep_map_data mmap_result val mmap_sz val_sz s =
     (case mmap_result of
        None \<Rightarrow> Inr (None, s)
      | Some addr \<Rightarrow>
          if val_sz \<le> length val \<and> val_sz \<le> mmap_sz
          then Inr (Some addr, s\<lparr>ld_mem := (ld_mem s)(addr \<mapsto> take val_sz val @ replicate (mmap_sz - val_sz) 0)\<rparr>)
          else Inl Mem_fault)"

definition skel_finalize_map_data :: "bool \<Rightarrow> u64 \<Rightarrow> byte list \<Rightarrow> ld_state \<Rightarrow> u64 option \<times> ld_state" where
  "skel_finalize_map_data mmap_ok init_val map_content s =
     (if \<not> mmap_ok then (None, s)
      else (Some init_val, s\<lparr>ld_mem := (ld_mem s)(init_val \<mapsto> map_content)\<rparr>))"

definition skel_free_map_data :: "u64 \<Rightarrow> ld_state \<Rightarrow> ld_state" where
  "skel_free_map_data p s = s\<lparr>ld_mem := (ld_mem s)(p := None)\<rparr>"

section \<open>Load and run\<close>

definition BPF_MAP_TYPE_ARRAY :: nat where "BPF_MAP_TYPE_ARRAY = 2"
definition BPF_PROG_TYPE_SYSCALL :: nat where "BPF_PROG_TYPE_SYSCALL = 31"
definition BPF_F_SLEEPABLE :: u32 where "BPF_F_SLEEPABLE = 16"

definition loader_prog_attr :: "bpf_load_and_run_opts \<Rightarrow> int \<Rightarrow> bpf_attr" where
  "loader_prog_attr opts map_fd =
     A_prog_load BPF_PROG_TYPE_SYSCALL (lo_insns opts) (lo_insns_sz opts div 8) ''Dual BSD/GPL'' ''__loader.prog''
       map_fd (lc_log_level (lo_ctx opts)) (lc_log_size (lo_ctx opts)) (lc_log_buf (lo_ctx opts)) BPF_F_SLEEPABLE"

text \<open>The label \<open>out\<close>.\<close>

definition load_and_run_out :: "int \<Rightarrow> int \<Rightarrow> int \<Rightarrow> string option \<Rightarrow> ld_state \<Rightarrow> int \<times> string option \<times> ld_state" where
  "load_and_run_out map_fd prog_fd err errstr s =
     (let s1 = (if 0 \<le> map_fd then snd (c_close map_fd s) else s);
          s2 = (if 0 \<le> prog_fd then snd (c_close prog_fd s1) else s1)
      in (err, errstr, s2))"

text \<open>
  Lines 330 to 366: loading and running the program, with the map in hand. \<open>set_err\<close> is \<open>err = -errno\<close>.
  \<open>errno = -err\<close> negates a number of 32 bits: here it wraps for \<open>INT_MIN\<close>, where C leaves the value undefined.
\<close>

definition load_and_run_prog :: "bpf_oracle \<Rightarrow> bpf_load_and_run_opts \<Rightarrow> int \<Rightarrow> ld_state \<Rightarrow> int \<times> string option \<times> ld_state" where
  "load_and_run_prog K opts map_fd s =
     (let ((prog_fd, _), s1) = skel_sys_bpf K BPF_PROG_LOAD (loader_prog_attr opts map_fd) s in
      if prog_fd < 0 then
        load_and_run_out map_fd prog_fd (- ld_errno s1) (Some ''failed to load loader prog'') s1
      else
      let ((err, retval), s2) = skel_sys_bpf K BPF_PROG_RUN (A_test prog_fd (lo_ctx_ptr opts) (lc_sz (lo_ctx opts))) s1 in
      if err < 0 then
        load_and_run_out map_fd prog_fd (- ld_errno s2) (Some ''failed to execute loader prog'') s2
      else if sint retval < 0 then
        load_and_run_out map_fd prog_fd (sint retval) (Some ''error returned by loader prog'')
          (s2\<lparr>ld_errno := sint (- retval)\<rparr>)
      else load_and_run_out map_fd prog_fd 0 None s2)"

text \<open>\<open>key_ptr\<close> is the address of the local \<open>key\<close>.\<close>

definition bpf_load_and_run ::
    "bpf_oracle \<Rightarrow> u64 \<Rightarrow> bpf_load_and_run_opts \<Rightarrow> ld_state \<Rightarrow> int \<times> string option \<times> ld_state" where
  "bpf_load_and_run K key_ptr opts s =
     (let ((map_fd, _), s1) = skel_map_create K BPF_MAP_TYPE_ARRAY ''__loader.map'' 4 (lo_data_sz opts) 1 s in
      if map_fd < 0 then
        load_and_run_out map_fd (-1) (- ld_errno s1) (Some ''failed to create loader map'') s1
      else
      let ((err, _), s2) = skel_map_update_elem K map_fd key_ptr (lo_data opts) 0 s1 in
      if err < 0 then
        load_and_run_out map_fd (-1) (- ld_errno s2) (Some ''failed to update loader map'') s2
      else load_and_run_prog K opts map_fd s2)"

section \<open>A kernel that behaves\<close>

text \<open>A new descriptor is not open already; a failure sets a positive \<open>errno\<close>.\<close>

definition kernel_ok :: "bpf_oracle \<Rightarrow> bool" where
  "kernel_ok K \<longleftrightarrow>
     (\<forall>c a s. (case K c a s of (r, e, rv) \<Rightarrow> (opens_fd c \<longrightarrow> r \<notin> set (ld_fds s)) \<and> (r < 0 \<longrightarrow> 0 < e)))"

text \<open>One system call: what it leaves of the state it started in.\<close>

lemma sys_bpf_cases [consumes 1]:
  assumes "kernel_ok K"
  obtains (fails) rv s' where "skel_sys_bpf K c a s = ((-1, rv), s')" and "0 < ld_errno s'"
      and "ld_fds s' = ld_fds s" and "ld_mem s' = ld_mem s"
  | (works) r rv s' where "skel_sys_bpf K c a s = ((r, rv), s')" and "0 \<le> r" and "ld_mem s' = ld_mem s"
      and "opens_fd c \<longrightarrow> r \<notin> set (ld_fds s)" and "ld_fds s' = (if opens_fd c then r # ld_fds s else ld_fds s)"
      and "ld_log s' = ld_log s @ [(c, a)]"
proof -
  obtain r e rv where k: "K c a s = (r, e, rv)"
    by (metis prod_cases3)
  then have "opens_fd c \<longrightarrow> r \<notin> set (ld_fds s)" "r < 0 \<longrightarrow> 0 < e"
    using assms by (auto simp: kernel_ok_def) (metis (mono_tags, lifting) case_prod_conv)+
  with k fails works show ?thesis
    by (cases "r < 0") (auto simp: skel_sys_bpf_def Let_def)
qed

text \<open>What holds at the end of a run that started in \<open>s\<close>.\<close>

definition load_and_run_ok :: "ld_state \<Rightarrow> int \<times> string option \<times> ld_state \<Rightarrow> bool" where
  "load_and_run_ok s r = (case r of (err, msg, s') \<Rightarrow>
     ld_fds s' = ld_fds s \<and> ld_mem s' = ld_mem s \<and> err \<le> 0 \<and> (err = 0 \<longleftrightarrow> msg = None) \<and>
     (err < 0 \<and> err \<noteq> - 2147483648 \<longrightarrow> ld_errno s' = - err))"

lemma out_ok:
  assumes "ld_fds s1 = (if 0 \<le> prog_fd then [prog_fd] else []) @ (if 0 \<le> map_fd then [map_fd] else []) @ ld_fds s"
    and "0 \<le> prog_fd \<longrightarrow> 0 \<le> map_fd \<and> prog_fd \<noteq> map_fd" and "ld_mem s1 = ld_mem s"
    and "err \<le> 0" and "err = 0 \<longleftrightarrow> msg = None" and "err < 0 \<and> err \<noteq> - 2147483648 \<longrightarrow> ld_errno s1 = - err"
  shows "load_and_run_ok s (load_and_run_out map_fd prog_fd err msg s1)"
  using assms by (auto simp: load_and_run_out_def load_and_run_ok_def c_close_def Let_def)

text \<open>The negation of a 32-bit number is exact but for the smallest one.\<close>

lemma sint_neg: "sint (x :: u32) \<noteq> - 2147483648 \<Longrightarrow> sint (- x) = - sint x"
proof -
  assume ne: "sint x \<noteq> - 2147483648"
  have "- 2147483648 \<le> sint x" "sint x < 2147483648"
    using sint_ge [of x] sint_lt [of x] by simp_all
  with ne have "signed_take_bit 31 (- sint x) = - sint x"
    by (intro signed_take_bit_int_eq_self) simp_all
  then show ?thesis
    by (simp add: sint_word_ariths(4))
qed

lemma prog_ok:
  assumes K: "kernel_ok K" and s1: "ld_fds s1 = map_fd # ld_fds s" "ld_mem s1 = ld_mem s" and map: "0 \<le> map_fd"
  shows "load_and_run_ok s (load_and_run_prog K opts map_fd s1)"
  using K
proof (cases rule: sys_bpf_cases [where c = BPF_PROG_LOAD and a = "loader_prog_attr opts map_fd" and s = s1])
  case (fails rv s2)
  with s1 map show ?thesis
    by (simp add: load_and_run_prog_def) (rule out_ok; simp)
next
  case (works prog_fd rv s2)
  note load = works
  then have s2: "ld_fds s2 = prog_fd # map_fd # ld_fds s" "ld_mem s2 = ld_mem s" "prog_fd \<noteq> map_fd"
    using s1 by (auto simp: opens_fd_def)
  show ?thesis
    using K
  proof (cases rule: sys_bpf_cases
      [where c = BPF_PROG_RUN and a = "A_test prog_fd (lo_ctx_ptr opts) (lc_sz (lo_ctx opts))" and s = s2])
    case (fails rv s3)
    with load s2 map show ?thesis
      by (simp add: load_and_run_prog_def) (rule out_ok; simp)
  next
    case (works r rv s3)
    with load s2 map show ?thesis
      by (auto simp: load_and_run_prog_def opens_fd_def sint_neg intro!: out_ok)
  qed
qed

lemma load_and_run_result:
  assumes K: "kernel_ok K"
  shows "load_and_run_ok s (bpf_load_and_run K key_ptr opts s)"
  using K
proof (cases rule: sys_bpf_cases [where c = BPF_MAP_CREATE and s = s and
      a = "A_map_create BPF_MAP_TYPE_ARRAY (c_strncpy 16 ''__loader.map'') 4 (lo_data_sz opts) 1"])
  case (fails rv s1)
  then show ?thesis
    by (simp add: bpf_load_and_run_def skel_map_create_def) (rule out_ok; simp)
next
  case (works map_fd rv s1)
  note create = works
  show ?thesis
    using K
  proof (cases rule: sys_bpf_cases
      [where c = BPF_MAP_UPDATE_ELEM and a = "A_map_elem map_fd key_ptr (lo_data opts) 0" and s = s1])
    case (fails rv s2)
    with create show ?thesis
      by (simp add: bpf_load_and_run_def skel_map_create_def skel_map_update_elem_def opens_fd_def)
        (rule out_ok; simp)
  next
    case (works r rv s2)
    with create prog_ok [OF K, of s2 map_fd s] show ?thesis
      by (simp add: bpf_load_and_run_def skel_map_create_def skel_map_update_elem_def opens_fd_def)
  qed
qed

lemma out_log: "load_and_run_out map_fd prog_fd err msg s1 = (err', msg', s') \<Longrightarrow> ld_log s' = ld_log s1 \<and> err' = err"
  by (auto simp: load_and_run_out_def c_close_def Let_def split: if_splits)

lemma prog_log:
  assumes K: "kernel_ok K" and run: "load_and_run_prog K opts map_fd s = (0, msg, s')"
  obtains prog_fd rv s1 r rv' s2
  where "skel_sys_bpf K BPF_PROG_LOAD (loader_prog_attr opts map_fd) s = ((prog_fd, rv), s1)" and "0 \<le> prog_fd"
    and "skel_sys_bpf K BPF_PROG_RUN (A_test prog_fd (lo_ctx_ptr opts) (lc_sz (lo_ctx opts))) s1 = ((r, rv'), s2)"
    and "0 \<le> r" and "0 \<le> sint rv'"
    and "ld_log s' = ld_log s @ [(BPF_PROG_LOAD, loader_prog_attr opts map_fd),
     (BPF_PROG_RUN, A_test prog_fd (lo_ctx_ptr opts) (lc_sz (lo_ctx opts)))]"
  using K
proof (cases rule: sys_bpf_cases [where c = BPF_PROG_LOAD and a = "loader_prog_attr opts map_fd" and s = s])
  case (fails rv s2)
  with run show ?thesis
    by (auto simp: load_and_run_prog_def dest!: out_log)
next
  case (works prog_fd rv s2)
  note load = works
  show ?thesis
    using K
  proof (cases rule: sys_bpf_cases
      [where c = BPF_PROG_RUN and a = "A_test prog_fd (lo_ctx_ptr opts) (lc_sz (lo_ctx opts))" and s = s2])
    case (fails rv s3)
    with load run show ?thesis
      by (auto simp: load_and_run_prog_def dest!: out_log)
  next
    case (works r rv' s3)
    with load run have "0 \<le> sint rv'" "ld_log s' = ld_log s3"
      by (auto simp: load_and_run_prog_def dest!: out_log split: if_splits)
    with that [OF load(1,2) works(1,2)] load works show ?thesis
      by simp
  qed
qed

section \<open>Properties\<close>

text \<open>
  C15: \<open>bpf_load_and_run\<close> leaks no descriptor and closes none that it did not open: on every path, whichever
  system call fails and whatever the loader program returns, the process has the descriptors it had
  before. The result is 0 with no message, or a negative error with a message and with \<open>errno\<close> set to the
  error. The one exception is a loader program that returns \<open>INT_MIN\<close>, whose negation C does not define: of
  \<open>errno\<close> nothing is said then.
\<close>

theorem load_and_run_closes_all:
  assumes "kernel_ok K"
  shows "case bpf_load_and_run K key_ptr opts s of (err, msg, s') \<Rightarrow>
     ld_fds s' = ld_fds s \<and> err \<le> 0 \<and> (err = 0 \<longleftrightarrow> msg = None) \<and>
     (err < 0 \<and> err \<noteq> - 2147483648 \<longrightarrow> ld_errno s' = - err)"
  using load_and_run_result [OF assms, of s key_ptr opts] by (auto simp: load_and_run_ok_def)

text \<open>A kernel that refuses to run the program it loaded.\<close>

definition demo_kernel :: bpf_oracle where
  "demo_kernel c a s =
     (if c = BPF_PROG_RUN then (-1, 1, 0) else if opens_fd c then (fold max (ld_fds s) 2 + 1, 0, 0) else (0, 0, 0))"

lemma fold_max_ge: "(m :: int) \<le> fold max xs m" "x \<in> set xs \<Longrightarrow> x \<le> fold max xs m"
proof (induction xs arbitrary: m)
  case (Cons y ys)
  {
    case 1
    show ?case
      using Cons.IH(1) [of "max y m"] by simp
  next
    case 2
    then show ?case
      using Cons.IH(1) [of "max y m"] Cons.IH(2) [of "max y m"] by auto
  }
qed simp_all

lemma kernel_ok_demo: "kernel_ok demo_kernel"
proof -
  have "fold max xs 2 + 1 \<notin> set xs" and "0 \<le> fold max xs 2 + 1" for xs :: "int list"
    using fold_max_ge(1) [of 2 xs] fold_max_ge(2) [of "fold max xs 2 + 1" xs 2] by auto
  then show ?thesis
    by (simp add: kernel_ok_def demo_kernel_def opens_fd_def not_less [symmetric])
qed

definition demo_opts :: bpf_load_and_run_opts where
  "demo_opts = \<lparr>lo_ctx = \<lparr>lc_sz = 24, lc_flags = 0, lc_log_level = 1, lc_log_size = 0, lc_log_buf = 0\<rparr>,
     lo_ctx_ptr = 100, lo_data = 200, lo_insns = 300, lo_data_sz = 64, lo_insns_sz = 160\<rparr>"

definition demo_ld :: ld_state where
  "demo_ld = \<lparr>ld_fds = [0, 1, 2], ld_errno = 0, ld_log = [], ld_mem = Map.empty\<rparr>"

theorem load_and_run_closes_all_witness:
  "case bpf_load_and_run demo_kernel 8 demo_opts demo_ld of (err, msg, s') \<Rightarrow>
     ld_fds s' = [0, 1, 2] \<and> err \<le> 0 \<and> (err = 0 \<longleftrightarrow> msg = None) \<and> (err < 0 \<and> err \<noteq> - 2147483648 \<longrightarrow> ld_errno s' = - err)"
  using load_and_run_closes_all [OF kernel_ok_demo, where key_ptr = 8 and opts = demo_opts and s = demo_ld]
  by (simp add: demo_ld_def)

text \<open>
  C20: success means that the whole sequence happened, each call on the results of the ones before: when
  \<open>bpf_load_and_run\<close> returns 0, it created a one-element array map of the data's size and got a descriptor
  \<open>map_fd\<close>; stored the data into the map behind \<open>map_fd\<close>; loaded the given instructions as a sleepable system call
  program, with \<open>map_fd\<close> as its descriptor array, and got \<open>prog_fd\<close>; ran the program behind \<open>prog_fd\<close> on
  the given context, which returned no negative number. These are its only system calls, in this order.
\<close>

theorem load_and_run_success:
  assumes "kernel_ok K" and "bpf_load_and_run K key_ptr opts s = (0, msg, s')"
  shows "\<exists>map_fd prog_fd create store load run s1 s2 s3 s4 rv1 r2 rv2 rv3 r4 rv4.
     create = A_map_create 2 (c_strncpy 16 ''__loader.map'') 4 (lo_data_sz opts) 1 \<and>
     store = A_map_elem map_fd key_ptr (lo_data opts) 0 \<and>
     load = A_prog_load 31 (lo_insns opts) (lo_insns_sz opts div 8) ''Dual BSD/GPL'' ''__loader.prog'' map_fd
       (lc_log_level (lo_ctx opts)) (lc_log_size (lo_ctx opts)) (lc_log_buf (lo_ctx opts)) 16 \<and>
     run = A_test prog_fd (lo_ctx_ptr opts) (lc_sz (lo_ctx opts)) \<and>
     skel_sys_bpf K BPF_MAP_CREATE create s = ((map_fd, rv1), s1) \<and> 0 \<le> map_fd \<and>
     skel_sys_bpf K BPF_MAP_UPDATE_ELEM store s1 = ((r2, rv2), s2) \<and> 0 \<le> r2 \<and>
     skel_sys_bpf K BPF_PROG_LOAD load s2 = ((prog_fd, rv3), s3) \<and> 0 \<le> prog_fd \<and>
     skel_sys_bpf K BPF_PROG_RUN run s3 = ((r4, rv4), s4) \<and> 0 \<le> r4 \<and> 0 \<le> sint rv4 \<and>
     ld_log s' = ld_log s @
       [(BPF_MAP_CREATE, create), (BPF_MAP_UPDATE_ELEM, store), (BPF_PROG_LOAD, load), (BPF_PROG_RUN, run)]"
  using assms(1)
proof (cases rule: sys_bpf_cases [where c = BPF_MAP_CREATE and s = s and
      a = "A_map_create BPF_MAP_TYPE_ARRAY (c_strncpy 16 ''__loader.map'') 4 (lo_data_sz opts) 1"])
  case (fails rv s1)
  with assms(2) show ?thesis
    by (auto simp: bpf_load_and_run_def skel_map_create_def dest!: out_log)
next
  case (works map_fd rv s1)
  note create = works
  show ?thesis
    using assms(1)
  proof (cases rule: sys_bpf_cases
      [where c = BPF_MAP_UPDATE_ELEM and a = "A_map_elem map_fd key_ptr (lo_data opts) 0" and s = s1])
    case (fails rv s2)
    with create assms(2) show ?thesis
      by (auto simp: bpf_load_and_run_def skel_map_create_def skel_map_update_elem_def dest!: out_log)
  next
    case (works r rv' s2)
    with create assms(2) have "load_and_run_prog K opts map_fd s2 = (0, msg, s')"
      by (simp add: bpf_load_and_run_def skel_map_create_def skel_map_update_elem_def)
    from prog_log [OF assms(1) this]
    obtain prog_fd rv3 s3 r4 rv4 s4
    where prog: "skel_sys_bpf K BPF_PROG_LOAD (loader_prog_attr opts map_fd) s2 = ((prog_fd, rv3), s3)" "0 \<le> prog_fd"
      "skel_sys_bpf K BPF_PROG_RUN (A_test prog_fd (lo_ctx_ptr opts) (lc_sz (lo_ctx opts))) s3 = ((r4, rv4), s4)"
      "0 \<le> r4" "0 \<le> sint rv4"
      "ld_log s' = ld_log s2 @ [(BPF_PROG_LOAD, loader_prog_attr opts map_fd),
         (BPF_PROG_RUN, A_test prog_fd (lo_ctx_ptr opts) (lc_sz (lo_ctx opts)))]"
      by blast
    have attr: "loader_prog_attr opts map_fd = A_prog_load 31 (lo_insns opts) (lo_insns_sz opts div 8) ''Dual BSD/GPL'' ''__loader.prog'' map_fd
       (lc_log_level (lo_ctx opts)) (lc_log_size (lo_ctx opts)) (lc_log_buf (lo_ctx opts)) 16"
      by (simp add: loader_prog_attr_def BPF_PROG_TYPE_SYSCALL_def BPF_F_SLEEPABLE_def)
    have "ld_log s' = ld_log s @ [(BPF_MAP_CREATE, A_map_create 2 (c_strncpy 16 ''__loader.map'') 4 (lo_data_sz opts) 1),
        (BPF_MAP_UPDATE_ELEM, A_map_elem map_fd key_ptr (lo_data opts) 0), (BPF_PROG_LOAD, loader_prog_attr opts map_fd),
        (BPF_PROG_RUN, A_test prog_fd (lo_ctx_ptr opts) (lc_sz (lo_ctx opts)))]"
      using prog(6) works(6) create(6) by (simp add: BPF_MAP_TYPE_ARRAY_def)
    note calls = create(1,2) [unfolded BPF_MAP_TYPE_ARRAY_def] works(1,2) prog(1) [unfolded attr] prog(2-5) this [unfolded attr]
    show ?thesis
      by (rule exI [of _ map_fd], rule exI [of _ prog_fd], (rule exI)+, intro conjI, (rule refl)+, (rule calls)+)
  qed
qed

definition good_kernel :: bpf_oracle where
  "good_kernel c a s = (if opens_fd c then (fold max (ld_fds s) 2 + 1, 0, 0) else (0, 0, 0))"

lemma kernel_ok_good: "kernel_ok good_kernel"
  using kernel_ok_demo by (fastforce simp: kernel_ok_def demo_kernel_def good_kernel_def opens_fd_def)

theorem load_and_run_success_witness:
  "\<exists>s' map_fd prog_fd. bpf_load_and_run good_kernel 8 demo_opts demo_ld = (0, None, s') \<and> 0 \<le> map_fd \<and> 0 \<le> prog_fd \<and>
   ld_log s' =
    [(BPF_MAP_CREATE, A_map_create 2 (c_strncpy 16 ''__loader.map'') 4 64 1),
     (BPF_MAP_UPDATE_ELEM, A_map_elem map_fd 8 200 0),
     (BPF_PROG_LOAD, A_prog_load 31 300 20 ''Dual BSD/GPL'' ''__loader.prog'' map_fd 1 0 0 16),
     (BPF_PROG_RUN, A_test prog_fd 100 24)]"
proof -
  obtain s' where run: "bpf_load_and_run good_kernel 8 demo_opts demo_ld = (0, None, s')"
    by (simp add: bpf_load_and_run_def skel_map_create_def skel_map_update_elem_def load_and_run_prog_def
        skel_sys_bpf_def good_kernel_def opens_fd_def demo_ld_def load_and_run_out_def Let_def)
  obtain map_fd prog_fd where "0 \<le> map_fd" "0 \<le> prog_fd" "ld_log s' = ld_log demo_ld @
    [(BPF_MAP_CREATE, A_map_create 2 (c_strncpy 16 ''__loader.map'') 4 (lo_data_sz demo_opts) 1),
     (BPF_MAP_UPDATE_ELEM, A_map_elem map_fd 8 (lo_data demo_opts) 0),
     (BPF_PROG_LOAD, A_prog_load 31 (lo_insns demo_opts) (lo_insns_sz demo_opts div 8) ''Dual BSD/GPL'' ''__loader.prog'' map_fd
       (lc_log_level (lo_ctx demo_opts)) (lc_log_size (lo_ctx demo_opts)) (lc_log_buf (lo_ctx demo_opts)) 16),
     (BPF_PROG_RUN, A_test prog_fd (lo_ctx_ptr demo_opts) (lc_sz (lo_ctx demo_opts)))]"
    using load_and_run_success [OF kernel_ok_good run] by blast
  with run show ?thesis
    by (simp add: demo_opts_def demo_ld_def)
qed

end
