(* ===== verification/Hashmap.thy ===== *)
theory Hashmap
  imports HE_Prelude
begin

unbundle bit_operations_syntax

text \<open>
  The inline part of libbpf's hash map, hashmap.h under
  examples/c/.output/bpftool/bootstrap/libbpf/include/bpf: the two hash functions and the four
  iteration macros. Entries live in a store and chain through \<open>next\<close> pointers, so that a loop body
  may free entries; following a pointer to an entry that is gone is a \<open>Mem_fault\<close>. The loops are
  partial functions: on a cyclic chain they do not return, which is the value \<open>None\<close>.
\<close>

section \<open>Hashing\<close>

text \<open>A shift by more than the width is undefined, so more than 64 bits, or a negative number, give \<open>None\<close>.\<close>

definition hash_bits :: "u64 \<Rightarrow> int \<Rightarrow> u64 option" where
  "hash_bits h bits =
     (if bits = 0 then Some 0
      else if 0 < bits \<and> bits \<le> 64 then Some (drop_bit (nat (64 - bits)) (h * 11400714819323198485))
      else None)"

text \<open>\<open>*s\<close> is a signed \<open>char\<close>. A string without a terminating NUL is read past its end.\<close>

fun str_hash_loop :: "u64 \<Rightarrow> byte list \<Rightarrow> crash + u64" where
  "str_hash_loop h [] = Inl Mem_fault"
| "str_hash_loop h (c # s) = (if c = 0 then Inr h else str_hash_loop (h * 31 + scast c) s)"

definition str_hash :: "byte list \<Rightarrow> crash + u64" where
  "str_hash s = str_hash_loop 0 s"

section \<open>Data\<close>

record hashmap_entry =
  he_key :: u64
  he_value :: u64
  he_next :: nat

type_synonym he_store = "nat \<rightharpoonup> hashmap_entry"

text \<open>The address 0 is NULL; an empty list of buckets is the NULL pointer of a map without any.\<close>

record hashmap =
  hm_hash :: "u64 \<Rightarrow> u64"
  hm_equal :: "u64 \<Rightarrow> u64 \<Rightarrow> bool"
  hm_buckets :: "nat list"
  hm_cap :: nat
  hm_cap_bits :: nat

section \<open>Iteration\<close>

text \<open>
  One chain, with the plain step \<open>cur = cur->next\<close> after the body, and with the safe step that read
  \<open>next\<close> before the body. The result is the visited addresses and the store.
\<close>

partial_function (option) chain_loop ::
    "(nat \<Rightarrow> he_store \<Rightarrow> he_store) \<Rightarrow> nat \<Rightarrow> nat list \<Rightarrow> he_store \<Rightarrow> (crash + nat list \<times> he_store) option" where
  "chain_loop body cur acc st =
     (if cur = 0 then Some (Inr (acc, st))
      else if st cur = None then Some (Inl Mem_fault)
      else
        let st' = body cur st in
        (case st' cur of
           None \<Rightarrow> Some (Inl Mem_fault)
         | Some e \<Rightarrow> chain_loop body (he_next e) (acc @ [cur]) st'))"

partial_function (option) chain_loop_safe ::
    "(nat \<Rightarrow> he_store \<Rightarrow> he_store) \<Rightarrow> nat \<Rightarrow> nat list \<Rightarrow> he_store \<Rightarrow> (crash + nat list \<times> he_store) option" where
  "chain_loop_safe body cur acc st =
     (if cur = 0 then Some (Inr (acc, st))
      else
        (case st cur of
           None \<Rightarrow> Some (Inl Mem_fault)
         | Some e \<Rightarrow> chain_loop_safe body (he_next e) (acc @ [cur]) (body cur st)))"

text \<open>The loop over the buckets, from \<open>bkt\<close> on; \<open>map->buckets[bkt]\<close> is checked against the array.\<close>

function buckets_loop ::
    "(nat \<Rightarrow> nat list \<Rightarrow> he_store \<Rightarrow> (crash + nat list \<times> he_store) option) \<Rightarrow> hashmap \<Rightarrow> nat \<Rightarrow> nat list \<Rightarrow> he_store \<Rightarrow>
     (crash + nat list \<times> he_store) option" where
  "buckets_loop loop m bkt acc st =
     (if bkt < hm_cap m then
        (if bkt < length (hm_buckets m) then
           (case loop (hm_buckets m ! bkt) acc st of
              None \<Rightarrow> None
            | Some (Inl c) \<Rightarrow> Some (Inl c)
            | Some (Inr (acc', st')) \<Rightarrow> buckets_loop loop m (Suc bkt) acc' st')
         else Some (Inl Mem_fault))
      else Some (Inr (acc, st)))"
  by pat_completeness auto
termination
  by (relation "measure (\<lambda>(loop, m, bkt, acc, st). hm_cap m - bkt)") auto

declare buckets_loop.simps [simp del]

definition hashmap_for_each_entry :: "hashmap \<Rightarrow> (nat \<Rightarrow> he_store \<Rightarrow> he_store) \<Rightarrow> he_store \<Rightarrow> (crash + nat list \<times> he_store) option" where
  "hashmap_for_each_entry m body st = buckets_loop (chain_loop body) m 0 [] st"

definition hashmap_for_each_entry_safe :: "hashmap \<Rightarrow> (nat \<Rightarrow> he_store \<Rightarrow> he_store) \<Rightarrow> he_store \<Rightarrow> (crash + nat list \<times> he_store) option" where
  "hashmap_for_each_entry_safe m body st = buckets_loop (chain_loop_safe body) m 0 [] st"

text \<open>The chain a key hashes to; NULL when there are no buckets.\<close>

definition hashmap_chain :: "hashmap \<Rightarrow> u64 \<Rightarrow> crash + nat" where
  "hashmap_chain m key =
     (if hm_buckets m = [] then Inr 0
      else
        (case hash_bits (hm_hash m key) (int (hm_cap_bits m)) of
           None \<Rightarrow> Inl Mem_fault
         | Some i \<Rightarrow> if unat i < length (hm_buckets m) then Inr (hm_buckets m ! unat i) else Inl Mem_fault))"

text \<open>The body runs under \<open>if (map->equal_fn(cur->key, key, map->ctx))\<close>.\<close>

definition for_key :: "hashmap \<Rightarrow> u64 \<Rightarrow> (nat \<Rightarrow> he_store \<Rightarrow> he_store) \<Rightarrow> nat \<Rightarrow> he_store \<Rightarrow> he_store" where
  "for_key m key body cur st =
     (case st cur of
        Some e \<Rightarrow> if hm_equal m (he_key e) key then body cur st else st
      | None \<Rightarrow> st)"

definition hashmap_for_each_key_entry_safe ::
    "hashmap \<Rightarrow> u64 \<Rightarrow> (nat \<Rightarrow> he_store \<Rightarrow> he_store) \<Rightarrow> he_store \<Rightarrow> (crash + nat list \<times> he_store) option" where
  "hashmap_for_each_key_entry_safe m key body st =
     (case hashmap_chain m key of
        Inl c \<Rightarrow> Some (Inl c)
      | Inr first \<Rightarrow> chain_loop_safe (for_key m key body) first [] st)"

definition hashmap_for_each_key_entry ::
    "hashmap \<Rightarrow> u64 \<Rightarrow> (nat \<Rightarrow> he_store \<Rightarrow> he_store) \<Rightarrow> he_store \<Rightarrow> (crash + nat list \<times> he_store) option" where
  "hashmap_for_each_key_entry m key body st =
     (case hashmap_chain m key of
        Inl c \<Rightarrow> Some (Inl c)
      | Inr first \<Rightarrow> chain_loop (for_key m key body) first [] st)"

section \<open>Well-formed maps\<close>

text \<open>\<open>xs\<close> is the list of the addresses of the chain that starts at \<open>cur\<close>.\<close>

fun chain :: "he_store \<Rightarrow> nat \<Rightarrow> nat list \<Rightarrow> bool" where
  "chain st cur [] \<longleftrightarrow> cur = 0"
| "chain st cur (x # xs) \<longleftrightarrow> cur = x \<and> x \<noteq> 0 \<and> (case st x of None \<Rightarrow> False | Some e \<Rightarrow> chain st (he_next e) xs)"

text \<open>\<open>xss\<close> are the chains of the buckets; each entry sits in the bucket its key hashes to.\<close>

definition hm_ok :: "hashmap \<Rightarrow> he_store \<Rightarrow> nat list list \<Rightarrow> bool" where
  "hm_ok m st xss \<longleftrightarrow>
     hm_cap m = length (hm_buckets m) \<and> list_all2 (chain st) (hm_buckets m) xss \<and> distinct (concat xss)"

definition hm_placed :: "hashmap \<Rightarrow> he_store \<Rightarrow> nat list list \<Rightarrow> bool" where
  "hm_placed m st xss \<longleftrightarrow>
     (hm_buckets m \<noteq> [] \<longrightarrow> length (hm_buckets m) = 2 ^ hm_cap_bits m \<and> hm_cap_bits m \<le> 64) \<and>
     (\<forall>i < length xss. \<forall>x \<in> set (xss ! i). \<exists>e. st x = Some e \<and>
        hash_bits (hm_hash m (he_key e)) (int (hm_cap_bits m)) = Some (of_nat i)) \<and>
     (\<forall>k k'. hm_equal m k k' \<longrightarrow> hm_hash m k = hm_hash m k')"

text \<open>A loop body may do anything to the entry at hand, freeing included, and nothing to the others.\<close>

definition local_body :: "(nat \<Rightarrow> he_store \<Rightarrow> he_store) \<Rightarrow> bool" where
  "local_body body \<longleftrightarrow> (\<forall>a st x. x \<noteq> a \<longrightarrow> body a st x = st x)"

lemma chain_cong: "(\<And>x. x \<in> set xs \<Longrightarrow> st' x = st x) \<Longrightarrow> chain st' cur xs = chain st cur xs"
  by (induction xs arbitrary: cur) (auto split: option.split)

lemma chain_loop_safe_visits:
  "\<lbrakk>chain st cur xs; distinct xs; local_body body\<rbrakk> \<Longrightarrow>
   chain_loop_safe body cur acc st = Some (Inr (acc @ xs, fold body xs st))"
proof (induction xs arbitrary: cur acc st)
  case Nil
  then show ?case
    by (simp add: chain_loop_safe.simps)
next
  case (Cons x xs)
  then obtain e where e: "st x = Some e" "chain st (he_next e) xs" "cur = x" "x \<noteq> 0"
    by (auto split: option.splits)
  have "body x st y = st y" if "y \<in> set xs" for y
    using that Cons.prems(2,3) unfolding local_body_def by (metis distinct.simps(2))
  then have "chain (body x st) (he_next e) xs = chain st (he_next e) xs"
    by (rule chain_cong)
  with e(2) have "chain (body x st) (he_next e) xs"
    by simp
  with Cons.IH [of "body x st" "he_next e" "acc @ [x]"] Cons.prems(2,3) show ?case
    by (simp add: chain_loop_safe.simps [of body x] e)
qed

lemma fold_local:
  "local_body body \<Longrightarrow> y \<notin> set xs \<Longrightarrow> fold body xs st y = st y"
proof (induction xs arbitrary: st)
  case (Cons x xs)
  then show ?case
    unfolding local_body_def by (metis fold_simps(2) list.set_intros)
qed simp

text \<open>The outer loop visits the buckets one after the other, if the inner loop does its part.\<close>

lemma buckets_loop_visits:
  assumes inner: "\<And>cur xs acc st. \<lbrakk>chain st cur xs; distinct xs\<rbrakk> \<Longrightarrow>
      loop cur acc st = Some (Inr (acc @ xs, fold body xs st))"
    and body: "local_body body" and cap: "hm_cap m = length (hm_buckets m)"
  shows "\<lbrakk>bkt \<le> hm_cap m; list_all2 (chain st) (drop bkt (hm_buckets m)) xss; distinct (concat xss)\<rbrakk> \<Longrightarrow>
    buckets_loop loop m bkt acc st = Some (Inr (acc @ concat xss, fold body (concat xss) st))"
proof (induction xss arbitrary: bkt acc st)
  case Nil
  then have "bkt = hm_cap m"
    using cap by simp
  then show ?case
    by (simp add: buckets_loop.simps)
next
  case (Cons xs xss)
  have bkt: "bkt < length (hm_buckets m)"
    using Cons.prems(2) by (cases "bkt < length (hm_buckets m)") auto
  then have first: "chain st (hm_buckets m ! bkt) xs"
    and rest: "list_all2 (chain st) (drop (Suc bkt) (hm_buckets m)) xss"
    using Cons.prems(2) by (simp_all add: Cons_nth_drop_Suc [symmetric])
  have "distinct xs" and apart: "set xs \<inter> set (concat xss) = {}" and "distinct (concat xss)"
    using Cons.prems(3) by auto
  have "chain (fold body xs st) cur ys = chain st cur ys" if "ys \<in> set xss" for cur ys
    using that apart by (intro chain_cong fold_local [OF body]) auto
  then have "list_all2 (chain (fold body xs st)) (drop (Suc bkt) (hm_buckets m)) xss"
    using rest by (auto simp: list_all2_conv_all_nth)
  from Cons.IH [OF _ this \<open>distinct (concat xss)\<close>, of "acc @ xs"] show ?case
    using bkt cap by (simp add: buckets_loop.simps [of loop m bkt] inner [OF first \<open>distinct xs\<close>])
qed

lemma hash_bits_bound:
  assumes "n \<le> 64"
  shows "\<exists>i. hash_bits h (int n) = Some i \<and> unat i < 2 ^ n"
proof (cases "n = 0")
  case False
  let ?v = "h * 11400714819323198485"
  have "unat (drop_bit (64 - n) ?v) = unat ?v div 2 ^ (64 - n)"
    unfolding unat_drop_bit_eq by (rule drop_bit_eq_div)
  also have "\<dots> < 2 ^ n"
  proof (rule less_mult_imp_div_less)
    have "(2 :: nat) ^ n * 2 ^ (64 - n) = 2 ^ 64"
      using assms by (simp flip: power_add)
    then show "unat ?v < 2 ^ n * 2 ^ (64 - n)"
      using unsigned_less [of ?v] by simp
  qed
  finally show ?thesis
    using False assms by (simp add: hash_bits_def nat_diff_distrib')
qed (simp add: hash_bits_def)

section \<open>Properties\<close>

text \<open>
  C30: The safe iteration over the whole map visits every entry exactly once, bucket by bucket and in chain
  order, with no invalid access, also when the body frees or rewrites the entry at hand, and it returns.
\<close>

theorem for_each_entry_safe_visits_all:
  assumes "hm_ok m st xss" and "local_body body"
  shows "hashmap_for_each_entry_safe m body st = Some (Inr (concat xss, fold body (concat xss) st))"
  using assms buckets_loop_visits [of "chain_loop_safe body" body m 0 st xss "[]"] chain_loop_safe_visits
  by (auto simp: hashmap_for_each_entry_safe_def hm_ok_def)

text \<open>A map of two buckets: the entries 1 and 2 in the first, 3 in the second.\<close>

definition demo_store :: he_store where
  "demo_store = [1 \<mapsto> \<lparr>he_key = 0, he_value = 10, he_next = 2\<rparr>, 2 \<mapsto> \<lparr>he_key = 0, he_value = 20, he_next = 0\<rparr>,
     3 \<mapsto> \<lparr>he_key = 1, he_value = 30, he_next = 0\<rparr>]"

definition demo_map :: hashmap where
  "demo_map = \<lparr>hm_hash = (\<lambda>k. k), hm_equal = (\<lambda>k k'. k = k'), hm_buckets = [1, 3], hm_cap = 2, hm_cap_bits = 1\<rparr>"

definition free_entry :: "nat \<Rightarrow> he_store \<Rightarrow> he_store" where
  "free_entry a st = st(a := None)"

lemma demo_map_ok: "hm_ok demo_map demo_store [[1, 2], [3]]" and free_entry_local: "local_body free_entry"
  by (simp_all add: hm_ok_def demo_map_def demo_store_def local_body_def free_entry_def)

theorem for_each_entry_safe_visits_all_witness:
  "hashmap_for_each_entry_safe demo_map free_entry demo_store = Some (Inr ([1, 2, 3], Map.empty))"
proof -
  have "fold free_entry [1, 2, 3] demo_store = Map.empty"
    by (simp add: free_entry_def demo_store_def)
  then show ?thesis
    by (simp add: for_each_entry_safe_visits_all [OF demo_map_ok free_entry_local])
qed

text \<open>The entries of a key, over all buckets.\<close>

definition key_matches :: "hashmap \<Rightarrow> he_store \<Rightarrow> u64 \<Rightarrow> nat \<Rightarrow> bool" where
  "key_matches m st key x \<longleftrightarrow> (case st x of Some e \<Rightarrow> hm_equal m (he_key e) key | None \<Rightarrow> False)"

lemma for_key_local: "local_body body \<Longrightarrow> local_body (for_key m key body)"
  by (simp add: local_body_def for_key_def split: option.split)

lemma fold_for_key:
  "\<lbrakk>local_body body; distinct xs\<rbrakk> \<Longrightarrow>
   fold (for_key m key body) xs st = fold body (filter (key_matches m st key) xs) st"
proof (induction xs arbitrary: st)
  case (Cons x xs)
  let ?st = "for_key m key body x st"
  have "?st y = st y" if "y \<in> set xs" for y
    using that Cons.prems for_key_local [OF Cons.prems(1)] unfolding local_body_def by (metis distinct.simps(2))
  then have "filter (key_matches m ?st key) xs = filter (key_matches m st key) xs"
    by (intro filter_cong) (auto simp: key_matches_def)
  then have "fold (for_key m key body) xs ?st = fold body (filter (key_matches m st key) xs) ?st"
    using Cons.IH [of ?st] Cons.prems by simp
  moreover have "?st = (if key_matches m st key x then body x st else st)"
    by (simp add: for_key_def key_matches_def split: option.split)
  ultimately show ?case
    by simp
qed simp

lemma placed_filter:
  assumes placed: "hm_placed m st xss" and b: "hash_bits (hm_hash m key) (int (hm_cap_bits m)) = Some b"
    and len: "length xss \<le> 2 ^ 64"
  shows "filter (key_matches m st key) (concat xss) =
    (if unat b < length xss then filter (key_matches m st key) (xss ! unat b) else [])"
proof -
  have other: "filter (key_matches m st key) (xss ! i) = []" if "i < length xss" "i \<noteq> unat b" for i
  proof -
    have "\<not> key_matches m st key x" if x: "x \<in> set (xss ! i)" for x
    proof
      assume match: "key_matches m st key x"
      obtain e where e: "st x = Some e" "hash_bits (hm_hash m (he_key e)) (int (hm_cap_bits m)) = Some (of_nat i)"
        using placed \<open>i < length xss\<close> x unfolding hm_placed_def by blast
      then have "hm_hash m (he_key e) = hm_hash m key"
        using match placed by (auto simp: key_matches_def hm_placed_def)
      with e(2) b have "b = of_nat i"
        by simp
      then have "unat b = i"
        using that(1) \<open>i < length xss\<close> len by (simp add: unsigned_of_nat take_bit_nat_eq_self)
      with \<open>i \<noteq> unat b\<close> show False
        by simp
    qed
    then show ?thesis
      by (simp add: filter_empty_conv)
  qed
  have "filter P (concat yss) = (if k < length yss then filter P (yss ! k) else [])"
    if "\<And>i. i < length yss \<Longrightarrow> i \<noteq> k \<Longrightarrow> filter P (yss ! i) = []" for P :: "nat \<Rightarrow> bool" and yss k
    using that
  proof (induction yss arbitrary: k)
    case (Cons ys yss)
    show ?case
    proof (cases k)
      case 0
      with Cons.IH [of "length yss"] Cons.prems [of "Suc _"] show ?thesis
        by auto
    next
      case (Suc k')
      with Cons.IH [of k'] Cons.prems [of 0] Cons.prems [of "Suc _"] show ?thesis
        by auto
    qed
  qed simp
  with other show ?thesis
    by blast
qed

text \<open>
  C16: on a map whose entries sit in the buckets their keys hash to, the iteration over a key visits exactly the
  entries of one bucket, the one the key hashes to, in chain order and without an access outside the bucket array
  (none when the map has no buckets), and still runs the body on exactly the entries of
  the whole map whose key equals the given one, in order; the body may free the entry at hand.
\<close>

theorem for_each_key_entry_safe_complete:
  assumes "hm_ok m st xss" and "hm_placed m st xss" and "local_body body"
  shows "\<exists>visited. hashmap_for_each_key_entry_safe m key body st =
      Some (Inr (visited, fold body (filter (key_matches m st key) (concat xss)) st)) \<and>
    (if hm_buckets m = [] then visited = []
     else \<exists>b. hash_bits (hm_hash m key) (int (hm_cap_bits m)) = Some b \<and> unat b < length xss \<and> visited = xss ! unat b)"
proof (cases "hm_buckets m = []")
  case True
  then have "xss = []"
    using assms(1) by (simp add: hm_ok_def)
  with True show ?thesis
    by (simp add: hashmap_for_each_key_entry_safe_def hashmap_chain_def chain_loop_safe.simps)
next
  case False
  then have cap: "length (hm_buckets m) = 2 ^ hm_cap_bits m" "hm_cap_bits m \<le> 64"
    using assms(2) by (simp_all add: hm_placed_def)
  have lens: "length xss = length (hm_buckets m)"
    using assms(1) by (auto simp: hm_ok_def dest: list_all2_lengthD)
  obtain b where b: "hash_bits (hm_hash m key) (int (hm_cap_bits m)) = Some b" "unat b < 2 ^ hm_cap_bits m"
    using hash_bits_bound [OF cap(2)] by blast
  have small: "length xss \<le> 2 ^ 64"
    using cap lens by (simp only:) (rule power_increasing; simp)
  have c: "chain st (hm_buckets m ! unat b) (xss ! unat b)" and d: "distinct (xss ! unat b)"
    using assms(1) b(2) cap lens
    by (auto simp: hm_ok_def list_all2_conv_all_nth distinct_concat_iff)
  have "chain_loop_safe (for_key m key body) (hm_buckets m ! unat b) [] st =
      Some (Inr (xss ! unat b, fold body (filter (key_matches m st key) (concat xss)) st))"
    using chain_loop_safe_visits [OF c d for_key_local [OF assms(3)], of m key "[]"] b(2) cap lens
    by (simp add: fold_for_key [OF assms(3) d] placed_filter [OF assms(2) b(1) small])
  then show ?thesis
    using b cap False lens by (simp add: hashmap_for_each_key_entry_safe_def hashmap_chain_def)
qed

definition demo_hash :: "u64 \<Rightarrow> u64" where
  "demo_hash k = (if k = 1 then 1 else 0)"

definition demo_key_map :: hashmap where
  "demo_key_map = demo_map\<lparr>hm_hash := demo_hash\<rparr>"

lemma demo_key_map_ok: "hm_ok demo_key_map demo_store [[1, 2], [3]]" "hm_placed demo_key_map demo_store [[1, 2], [3]]"
proof -
  show "hm_ok demo_key_map demo_store [[1, 2], [3]]"
    using demo_map_ok by (simp add: hm_ok_def demo_key_map_def)
  show "hm_placed demo_key_map demo_store [[1, 2], [3]]"
    by (auto simp: hm_placed_def demo_key_map_def demo_map_def demo_store_def demo_hash_def hash_bits_def less_Suc_eq)
qed

theorem for_each_key_entry_safe_complete_witness:
  "hashmap_for_each_key_entry_safe demo_key_map 0 free_entry demo_store =
     Some (Inr ([1, 2], demo_store(1 := None, 2 := None)))"
proof -
  have "fold free_entry (filter (key_matches demo_key_map demo_store 0) (concat [[1, 2], [3]])) demo_store =
      demo_store(1 := None, 2 := None)"
    by (simp add: key_matches_def demo_key_map_def demo_map_def demo_store_def free_entry_def)
  moreover have "hm_buckets demo_key_map \<noteq> []" "hash_bits (hm_hash demo_key_map 0) (int (hm_cap_bits demo_key_map)) = Some 0"
    by (simp_all add: demo_key_map_def demo_map_def demo_hash_def hash_bits_def)
  ultimately show ?thesis
    using for_each_key_entry_safe_complete [OF demo_key_map_ok free_entry_local, of 0] by simp
qed

end
