(* ===== verification/Libbpf_Internal.thy ===== *)
theory Libbpf_Internal
  imports HE_Prelude "HOL-Library.Sublist"
begin

unbundle bit_operations_syntax

text \<open>
  The inline helpers of libbpf_internal.h under
  examples/c/.output/bpftool/bootstrap/libbpf/include/bpf: strings, option structures, allocation sizes, error
  returns, descriptors. A C string is the memory from its first byte on; reading past that memory is a
  \<open>Mem_fault\<close>.
\<close>

section \<open>Strings\<close>

definition c_text :: "byte list \<Rightarrow> byte list" where
  "c_text = takeWhile (\<lambda>b. b \<noteq> 0)"

definition c_strlen :: "byte list \<Rightarrow> crash + nat" where
  "c_strlen s = (if 0 \<in> set s then Inr (length (c_text s)) else Inl Mem_fault)"

definition str_has_sfx :: "byte list \<Rightarrow> byte list \<Rightarrow> crash + bool" where
  "str_has_sfx str sfx =
     (case (c_strlen str, c_strlen sfx) of
        (Inr str_len, Inr sfx_len) \<Rightarrow>
          if sfx_len > str_len then Inr False
          else Inr (c_text (drop (str_len - sfx_len) str) = c_text sfx)
      | _ \<Rightarrow> Inl Mem_fault)"

text \<open>
  The loop \<open>for (i = 0; i < sz && src[i]; i++) dst[i] = src[i];\<close> and the final NUL; \<open>n\<close> is \<open>sz\<close> after the
  decrement.
\<close>

function strlcpy_loop :: "byte list \<Rightarrow> byte list \<Rightarrow> nat \<Rightarrow> nat \<Rightarrow> crash + byte list" where
  "strlcpy_loop dst src i n =
     (if i < n then
        (if i < length src then
           (if src ! i \<noteq> 0 then
              (if i < length dst then strlcpy_loop (dst[i := src ! i]) src (Suc i) n else Inl Mem_fault)
            else if i < length dst then Inr (dst[i := 0]) else Inl Mem_fault)
         else Inl Mem_fault)
      else if i < length dst then Inr (dst[i := 0]) else Inl Mem_fault)"
  by pat_completeness auto
termination
  by (relation "measure (\<lambda>(dst, src, i, n). n - i)") auto

declare strlcpy_loop.simps [simp del]

definition libbpf_strlcpy :: "byte list \<Rightarrow> byte list \<Rightarrow> nat \<Rightarrow> crash + byte list" where
  "libbpf_strlcpy dst src sz = (if sz = 0 then Inr dst else strlcpy_loop dst src 0 (sz - 1))"

definition str_is_empty :: "byte list option \<Rightarrow> bool" where
  "str_is_empty s = (case s of None \<Rightarrow> True | Some bs \<Rightarrow> bs ! 0 = 0)"

section \<open>Option structures\<close>

function libbpf_is_mem_zeroed :: "byte list \<Rightarrow> nat \<Rightarrow> int \<Rightarrow> crash + bool" where
  "libbpf_is_mem_zeroed mem p len =
     (if len > 0 then
        (if p < length mem then
           (if mem ! p \<noteq> 0 then Inr False else libbpf_is_mem_zeroed mem (Suc p) (len - 1))
         else Inl Mem_fault)
      else Inr True)"
  by pat_completeness auto
termination
  by (relation "measure (\<lambda>(mem, p, len). nat len)") auto

declare libbpf_is_mem_zeroed.simps [simp del]

text \<open>
  \<open>(ssize_t)user_sz - opts_sz\<close> is computed without sign in 64 bits and passed as a signed number.
  \<open>mem\<close> is the caller's structure.
\<close>

definition libbpf_validate_opts :: "byte list \<Rightarrow> u64 \<Rightarrow> u64 \<Rightarrow> crash + bool" where
  "libbpf_validate_opts mem opts_sz user_sz =
     (if user_sz < 8 then Inr False
      else
        (case libbpf_is_mem_zeroed mem (unat opts_sz) (sint (user_sz - opts_sz)) of
           Inl c \<Rightarrow> Inl c
         | Inr zeroed \<Rightarrow> Inr zeroed))"

section \<open>Sizes\<close>

text \<open>The result is the size handed to \<open>realloc\<close>, or nothing when the product overflows.\<close>

definition libbpf_reallocarray :: "u64 \<Rightarrow> u64 \<Rightarrow> u64 option" where
  "libbpf_reallocarray nmemb sz = (if unat nmemb * unat sz < 2 ^ 64 then Some (nmemb * sz) else None)"

definition is_pow_of_2 :: "u64 \<Rightarrow> bool" where
  "is_pow_of_2 x \<longleftrightarrow> x \<noteq> 0 \<and> x AND (x - 1) = 0"

section \<open>Errors and descriptors\<close>

record fd_state =
  fs_errno :: int
  fs_fds :: "int list"

definition libbpf_err :: "int \<Rightarrow> fd_state \<Rightarrow> int \<times> fd_state" where
  "libbpf_err ret s = (ret, if ret < 0 then s\<lparr>fs_errno := - ret\<rparr> else s)"

definition libbpf_err_errno :: "int \<Rightarrow> fd_state \<Rightarrow> int" where
  "libbpf_err_errno ret s = (if ret < 0 then - fs_errno s else ret)"

definition libbpf_err_ptr :: "int \<Rightarrow> fd_state \<Rightarrow> u64 \<times> fd_state" where
  "libbpf_err_ptr err s = (0, s\<lparr>fs_errno := - err\<rparr>)"

text \<open>
  \<open>dup_result\<close> is what \<open>fcntl(fd, F_DUPFD_CLOEXEC, 3)\<close> gives: a new descriptor from 3 on, or the error number
  of a failure. The message of a failure is left out.
\<close>

definition fd_close :: "int \<Rightarrow> fd_state \<Rightarrow> fd_state" where
  "fd_close fd s = (if fd \<in> set (fs_fds s) then s\<lparr>fs_fds := remove1 fd (fs_fds s)\<rparr> else s\<lparr>fs_errno := 9\<rparr>)"

definition ensure_good_fd :: "int + int \<Rightarrow> int \<Rightarrow> fd_state \<Rightarrow> int \<times> fd_state" where
  "ensure_good_fd dup_result old_fd s =
     (if old_fd < 0 then (old_fd, s)
      else if old_fd < 3 then
        let (fd, s1) = (case dup_result of
              Inl e \<Rightarrow> (-1, s\<lparr>fs_errno := e\<rparr>)
            | Inr new \<Rightarrow> (new, s\<lparr>fs_fds := new # fs_fds s\<rparr>));
            saved_errno = fs_errno s1;
            s2 = (fd_close old_fd s1)\<lparr>fs_errno := saved_errno\<rparr>
        in (fd, if fd < 0 then s2\<lparr>fs_errno := saved_errno\<rparr> else s2)
      else (old_fd, s))"

section \<open>Facts\<close>

lemma c_text_drop: "n \<le> length (c_text s) \<Longrightarrow> c_text (drop n s) = drop n (c_text s)"
  unfolding c_text_def by (induction s arbitrary: n) (auto simp: drop_Cons' split: if_splits)

lemma c_text_terminated: "0 \<notin> set xs \<Longrightarrow> c_text (xs @ 0 # ys) = xs"
  by (induction xs) (auto simp: c_text_def)

lemma terminated_longer: "0 \<in> set s \<Longrightarrow> length (c_text s) < length s"
  by (induction s) (auto simp: c_text_def)

lemma strlcpy_loop_value:
  assumes "i \<le> n" and "n < length dst" and "n \<le> length src \<or> 0 \<in> set src" and "i \<le> length (c_text src)"
  shows "strlcpy_loop dst src i n =
    Inr (take i dst @ drop i (take n (c_text src)) @ [0] @ drop (Suc (min n (length (c_text src)))) dst)"
  using assms
proof (induction dst src i n rule: strlcpy_loop.induct)
  case (1 dst src i n)
  have len: "length (c_text src) \<le> length src"
    by (simp add: c_text_def length_takeWhile_le)
  consider (stop) "i = n" | (nul) "i < n" "i = length (c_text src)" | (copy) "i < n" "i < length (c_text src)"
    using "1.prems"(1,4) by linarith
  then show ?case
  proof cases
    case stop
    then show ?thesis
      using "1.prems" by (simp add: strlcpy_loop.simps [of dst src n n] upd_conv_take_nth_drop)
  next
    case nul
    have "i < length src"
      using nul "1.prems"(3) terminated_longer [of src] by auto
    moreover have "src ! i = 0"
      using nul(2) nth_length_takeWhile [of "\<lambda>b. b \<noteq> 0" src] \<open>i < length src\<close> by (simp add: c_text_def)
    ultimately show ?thesis
      using nul "1.prems" by (simp add: strlcpy_loop.simps [of dst src "length (c_text src)" n] upd_conv_take_nth_drop
          min_def)
  next
    case copy
    have "src ! i \<noteq> 0" and c: "c_text src ! i = src ! i"
      using copy(2) unfolding c_text_def
      by (metis (mono_tags, lifting) nth_mem set_takeWhileD takeWhile_nth, simp add: takeWhile_nth)
    moreover have "i < length src"
      using copy(2) len by linarith
    ultimately show ?thesis
      using copy "1.IH" "1.prems"
      by (simp add: strlcpy_loop.simps [of dst src i n] take_Suc_conv_app_nth Cons_nth_drop_Suc [symmetric])
  qed
qed

lemma is_mem_zeroed_value:
  assumes "int p + len \<le> int (length mem)"
  shows "libbpf_is_mem_zeroed mem p len = Inr (\<forall>b \<in> set (take (nat len) (drop p mem)). b = 0)"
  using assms
proof (induction mem p len rule: libbpf_is_mem_zeroed.induct)
  case (1 mem p len)
  show ?case
  proof (cases "len > 0")
    case True
    then have p: "p < length mem"
      using "1.prems" by linarith
    have "take (nat len) (drop p mem) = mem ! p # take (nat (len - 1)) (drop (Suc p) mem)"
      using True p by (simp add: Cons_nth_drop_Suc [symmetric] take_Cons' nat_diff_distrib)
    with True p 1 show ?thesis
      by (simp add: libbpf_is_mem_zeroed.simps [of mem p len])
  qed (simp add: libbpf_is_mem_zeroed.simps)
qed

text \<open>Below \<open>2 ^ 63\<close> the wrapped difference, read as a signed number, is the true one.\<close>

lemma sint_diff_small:
  fixes a b :: u64
  assumes "unat a < 2 ^ 63" and "unat b < 2 ^ 63"
  shows "sint (a - b) = int (unat a) - int (unat b)"
proof -
  have small: "signed_take_bit 63 (int m - int n) = int m - int n" if "m < 2 ^ 63" "n < 2 ^ 63" for m n :: nat
    using that by (intro signed_take_bit_int_eq_self) simp_all
  have "a - b = word_of_int (int (unat a) - int (unat b))"
    by (simp flip: wi_hom_sub)
  then have "sint (a - b) = signed_take_bit 63 (int (unat a) - int (unat b))"
    by (simp only: sint_sbintrunc') simp
  also have "\<dots> = int (unat a) - int (unat b)"
    using assms by (rule small)
  finally show ?thesis .
qed

text \<open>The highest bit of a number that is no power of two survives in \<open>x - 1\<close>.\<close>

lemma and_pred_zero:
  fixes m :: nat
  assumes "0 < m"
  shows "m AND (m - 1) = 0 \<longleftrightarrow> (\<exists>n. m = 2 ^ n)"
proof
  obtain n where n: "2 ^ n \<le> m" "m < 2 ^ (n + 1)"
    using ex_power_ivl1 [of 2 m] assms by auto
  assume zero: "m AND (m - 1) = 0"
  have "m = 2 ^ n"
  proof (rule ccontr)
    assume "m \<noteq> 2 ^ n"
    with n have "2 ^ n \<le> m - 1" "m - 1 < 2 ^ (n + 1)"
      by auto
    have "k div 2 ^ n = 1" if "2 ^ n \<le> k" "k < 2 ^ (n + 1)" for k :: nat
      using that by (auto intro!: div_nat_eqI)
    then have "bit k n" if "2 ^ n \<le> k" "k < 2 ^ (n + 1)" for k :: nat
      using that by (simp add: bit_iff_odd)
    with n \<open>2 ^ n \<le> m - 1\<close> \<open>m - 1 < 2 ^ (n + 1)\<close> have "bit (m AND (m - 1)) n"
      by (simp add: bit_and_iff)
    with zero show False
      by simp
  qed
  then show "\<exists>n. m = 2 ^ n" ..
next
  assume "\<exists>n. m = 2 ^ n"
  then obtain n where "m = 2 ^ n" ..
  then show "m AND (m - 1) = 0"
    using take_bit_eq_mask [of n "2 ^ n :: nat"] by (simp add: mask_eq_exp_minus_1 take_bit_eq_mod)
qed

lemma suffix_by_drop:
  "length xs \<le> length ys \<Longrightarrow> drop (length ys - length xs) ys = xs \<longleftrightarrow> suffix xs ys"
  by (auto simp: suffix_def) (metis append_take_drop_id)

lemma is_pow_of_2_iff: "is_pow_of_2 x \<longleftrightarrow> unat x \<in> (\<lambda>n. 2 ^ n) ` {..<64}"
proof (cases "x = 0")
  case True
  then show ?thesis
    by (auto simp: is_pow_of_2_def)
next
  case False
  then have pos: "0 < unat x"
    by (simp add: unat_gt_0)
  have "unat (x AND (x - 1)) = unat x AND (unat x - 1)"
    by (simp only: unsigned_and_eq unat_minus_one [OF False])
  then have "x AND (x - 1) = 0 \<longleftrightarrow> unat x AND (unat x - 1) = 0"
    by (metis unat_eq_zero)
  also have "\<dots> \<longleftrightarrow> (\<exists>n. unat x = 2 ^ n)"
    by (rule and_pred_zero [OF pos])
  also have "\<dots> \<longleftrightarrow> unat x \<in> (\<lambda>n. 2 ^ n) ` {..<64}"
  proof -
    have "n < 64" if "unat x = 2 ^ n" for n
    proof -
      have "unat x < 2 ^ LENGTH(64)"
        by (rule unsigned_less)
      then have "(2 :: nat) ^ n < 2 ^ 64"
        by (simp add: that)
      then show ?thesis
        by (rule power_less_imp_less_exp [rotated]) simp
    qed
    then show ?thesis
      by (auto simp: image_iff)
  qed
  finally show ?thesis
    using False by (simp add: is_pow_of_2_def)
qed

lemma validate_opts_value:
  assumes "length mem = unat user_sz" and "unat user_sz < 2 ^ 63" and "unat opts_sz < 2 ^ 63"
  shows "libbpf_validate_opts mem opts_sz user_sz =
    Inr (8 \<le> user_sz \<and> (\<forall>b \<in> set (drop (unat opts_sz) mem). b = 0))"
proof (cases "user_sz < 8")
  case True
  then show ?thesis
    by (simp add: libbpf_validate_opts_def not_le [symmetric])
next
  case False
  have len: "sint (user_sz - opts_sz) = int (unat user_sz) - int (unat opts_sz)"
    by (rule sint_diff_small [OF assms(2,3)])
  have "nat (int m - int n) = m - n" for m n :: nat
    by simp
  then have "nat (int (unat user_sz) - int (unat opts_sz)) = length (drop (unat opts_sz) mem)"
    by (simp only: length_drop assms(1))
  with is_mem_zeroed_value [of "unat opts_sz" "sint (user_sz - opts_sz)" mem] False show ?thesis
    by (simp add: libbpf_validate_opts_def len assms(1) not_le [symmetric])
qed

section \<open>Properties\<close>

text \<open>
  C22: \<open>libbpf_strlcpy\<close> with a size no larger than the destination, from a terminated source or one with at
  least \<open>sz - 1\<close> readable bytes, accesses nothing outside the two buffers, leaves a terminated string,
  the source cut to \<open>sz - 1\<close> bytes, and touches no byte behind its NUL; size 0 does nothing.
\<close>

theorem strlcpy_truncates_safely:
  assumes "sz \<le> length dst" and "sz - 1 \<le> length src \<or> 0 \<in> set src"
  shows "\<exists>dst'. libbpf_strlcpy dst src sz = Inr dst' \<and> length dst' = length dst \<and>
    (if sz = 0 then dst' = dst
     else c_text dst' = take (sz - 1) (c_text src) \<and>
       drop (Suc (length (c_text dst'))) dst' = drop (Suc (length (c_text dst'))) dst)"
proof (cases "sz = 0")
  case True
  then show ?thesis
    by (simp add: libbpf_strlcpy_def)
next
  case False
  let ?t = "take (sz - 1) (c_text src)" and ?rest = "drop (Suc (min (sz - 1) (length (c_text src)))) dst"
  have run: "libbpf_strlcpy dst src sz = Inr (?t @ [0] @ ?rest)"
    using False assms strlcpy_loop_value [of 0 "sz - 1" dst src] by (simp add: libbpf_strlcpy_def)
  have "0 \<notin> set ?t"
    by (auto simp: c_text_def dest: in_set_takeD set_takeWhileD)
  then have "c_text (?t @ [0] @ ?rest) = ?t"
    using c_text_terminated [of ?t ?rest] by simp
  moreover have "length (?t @ [0] @ ?rest) = length dst"
    using False assms(1) by (simp add: min_def)
  ultimately show ?thesis
    using run False by (simp add: min_def)
qed

theorem strlcpy_truncates_safely_witness:
  "\<exists>dst'. libbpf_strlcpy [9, 9, 9, 9] (bytes_of ''abcdef'' @ [0]) 3 = Inr dst' \<and> length dst' = 4 \<and>
     c_text dst' = bytes_of ''ab''"
  using strlcpy_truncates_safely [of 3 "[9, 9, 9, 9]" "bytes_of ''abcdef'' @ [0]"]
  by (auto simp: c_text_def bytes_of_def)

text \<open>
  C23: \<open>libbpf_validate_opts\<close> accepts a structure exactly when it is large enough for its own size field and
  every byte beyond the part the library knows is zero, and it reads no byte outside the structure. A
  structure smaller than the library's is accepted: the difference of the sizes, computed without sign,
  comes back as a negative length.
\<close>

theorem validate_opts_accepts:
  assumes "length mem = unat user_sz" and "unat user_sz < 2 ^ 63" and "unat opts_sz < 2 ^ 63"
  shows "libbpf_validate_opts mem opts_sz user_sz =
    Inr (8 \<le> user_sz \<and> (\<forall>b \<in> set (drop (unat opts_sz) mem). b = 0))"
  by (rule validate_opts_value [OF assms])

theorem validate_opts_accepts_witness:
  "libbpf_validate_opts (replicate 16 1 @ [0, 0, 0]) 16 19 = Inr True \<and>
   libbpf_validate_opts (replicate 16 1) 64 16 = Inr True \<and>
   libbpf_validate_opts (replicate 16 1 @ [0, 7]) 16 18 = Inr False"
  using validate_opts_accepts [of "replicate 16 1 @ [0, 0, 0]" 19 16]
    validate_opts_accepts [of "replicate 16 1" 16 64] validate_opts_accepts [of "replicate 16 1 @ [0, 7]" 18 16]
  by simp

text \<open>
  \<open>str_has_sfx\<close> on terminated strings reads inside both and decides whether the second is a suffix of the
  first.
\<close>

theorem str_has_sfx_suffix:
  assumes "0 \<in> set str" and "0 \<in> set sfx"
  shows "str_has_sfx str sfx = Inr (suffix (c_text sfx) (c_text str))"
proof (cases "length (c_text sfx) > length (c_text str)")
  case True
  then have "\<not> suffix (c_text sfx) (c_text str)"
    using suffix_length_le by fastforce
  with True assms show ?thesis
    by (simp add: str_has_sfx_def c_strlen_def)
next
  case False
  then have "c_text (drop (length (c_text str) - length (c_text sfx)) str) =
      drop (length (c_text str) - length (c_text sfx)) (c_text str)"
    by (intro c_text_drop) simp
  then show ?thesis
    using False assms suffix_by_drop [of "c_text sfx" "c_text str"] by (simp add: str_has_sfx_def c_strlen_def)
qed

theorem str_has_sfx_suffix_witness:
  "str_has_sfx (bytes_of ''minimal.bpf.o'' @ [0]) (bytes_of ''.o'' @ [0]) = Inr True"
  by (subst str_has_sfx_suffix) (simp_all add: c_text_def bytes_of_def suffix_def)

text \<open>
  \<open>is_pow_of_2\<close> accepts exactly the 64 powers of two, and \<open>libbpf_reallocarray\<close> asks \<open>realloc\<close> for the exact
  product of its arguments or fails: it never asks for a wrapped one.
\<close>

theorem pow_of_2_and_exact_sizes:
  "(is_pow_of_2 x \<longleftrightarrow> unat x \<in> (\<lambda>n. 2 ^ n) ` {..<64}) \<and>
   (case libbpf_reallocarray n s of Some sz \<Rightarrow> unat sz = unat n * unat s | None \<Rightarrow> 2 ^ 64 \<le> unat n * unat s)"
proof
  show "is_pow_of_2 x \<longleftrightarrow> unat x \<in> (\<lambda>n. 2 ^ n) ` {..<64}"
    by (rule is_pow_of_2_iff)
  show "case libbpf_reallocarray n s of Some sz \<Rightarrow> unat sz = unat n * unat s | None \<Rightarrow> 2 ^ 64 \<le> unat n * unat s"
    by (auto simp: libbpf_reallocarray_def unat_word_ariths not_less)
qed

text \<open>
  \<open>ensure_good_fd\<close> owns the descriptor it is given: a good one comes back as it is; a standard one
  is closed and replaced by a new one from 3 on, or, when that fails, closed with the error of the
  duplication left in \<open>errno\<close>, not that of the \<open>close\<close>. No descriptor is left open besides the result.
\<close>

theorem ensure_good_fd_moves:
  assumes "fd \<in> set (fs_fds s)" and "0 \<le> fd" and "distinct (fs_fds s)"
    and "case dup_result of Inr new \<Rightarrow> 3 \<le> new \<and> new \<notin> set (fs_fds s) | Inl e \<Rightarrow> 0 < e"
  shows "case ensure_good_fd dup_result fd s of (r, s') \<Rightarrow>
    (if 3 \<le> fd then r = fd \<and> s' = s
     else case dup_result of
         Inr new \<Rightarrow> r = new \<and> set (fs_fds s') = insert new (set (fs_fds s) - {fd}) \<and> fs_errno s' = fs_errno s
       | Inl e \<Rightarrow> r = -1 \<and> set (fs_fds s') = set (fs_fds s) - {fd} \<and> fs_errno s' = e)"
proof (cases "3 \<le> fd")
  case True
  with assms(2) show ?thesis
    by (simp add: ensure_good_fd_def)
next
  case False
  with assms show ?thesis
    by (cases dup_result) (simp_all add: ensure_good_fd_def fd_close_def Let_def insert_commute set_remove1_eq)
qed

definition demo_fds :: fd_state where
  "demo_fds = \<lparr>fs_errno = 0, fs_fds = [0, 1, 2]\<rparr>"

theorem ensure_good_fd_moves_witness:
  "case ensure_good_fd (Inr 5) 1 demo_fds of (r, s') \<Rightarrow>
     r = 5 \<and> set (fs_fds s') = insert 5 (set (fs_fds demo_fds) - {1}) \<and> fs_errno s' = fs_errno demo_fds"
  using ensure_good_fd_moves [of 1 demo_fds "Inr 5"] by (simp add: demo_fds_def)

end
