(* ===== verification/Helper_Defs_Old.thy ===== *)
theory Helper_Defs_Old
  imports Helper_Defs
begin

text \<open>
  The declarations of the older copy of bpf_helper_defs.h, in examples/c/.output/bpftool/bootstrap/libbpf/include/bpf,
  which bpftool was built with, and its agreement with the copy the programs are built with.
\<close>

section \<open>The declarations\<close>

definition old_helpers_1_7 :: "helper_decl list" where
  "old_helpers_1_7 =
    [Helper ''bpf_map_lookup_elem'' False (C_ptr C_void) [(C_ptr C_void, ''map''), (C_ptr (C_const C_void), ''key'')] False 1,
     Helper ''bpf_map_update_elem'' False C_long [(C_ptr C_void, ''map''), (C_ptr (C_const C_void), ''key''), (C_ptr (C_const C_void), ''value''), (C_u64, ''flags'')] False 2,
     Helper ''bpf_map_delete_elem'' False C_long [(C_ptr C_void, ''map''), (C_ptr (C_const C_void), ''key'')] False 3,
     Helper ''bpf_probe_read'' False C_long [(C_ptr C_void, ''dst''), (C_u32, ''size''), (C_ptr (C_const C_void), ''unsafe_ptr'')] False 4,
     Helper ''bpf_ktime_get_ns'' False C_u64 [] False 5,
     Helper ''bpf_trace_printk'' False C_long [(C_ptr (C_const C_char), ''fmt''), (C_u32, ''fmt_size'')] True 6,
     Helper ''bpf_get_prandom_u32'' False C_u32 [] False 7]"

definition old_helpers_8_12 :: "helper_decl list" where
  "old_helpers_8_12 =
    [Helper ''bpf_get_smp_processor_id'' False C_u32 [] False 8,
     Helper ''bpf_skb_store_bytes'' False C_long [(C_ptr (C_struct ''__sk_buff''), ''skb''), (C_u32, ''offset''), (C_ptr (C_const C_void), ''from''), (C_u32, ''len''), (C_u64, ''flags'')] False 9,
     Helper ''bpf_l3_csum_replace'' False C_long [(C_ptr (C_struct ''__sk_buff''), ''skb''), (C_u32, ''offset''), (C_u64, ''from''), (C_u64, ''to''), (C_u64, ''size'')] False 10,
     Helper ''bpf_l4_csum_replace'' False C_long [(C_ptr (C_struct ''__sk_buff''), ''skb''), (C_u32, ''offset''), (C_u64, ''from''), (C_u64, ''to''), (C_u64, ''flags'')] False 11,
     Helper ''bpf_tail_call'' False C_long [(C_ptr C_void, ''ctx''), (C_ptr C_void, ''prog_array_map''), (C_u32, ''index'')] False 12]"

definition old_helpers_13_19 :: "helper_decl list" where
  "old_helpers_13_19 =
    [Helper ''bpf_clone_redirect'' False C_long [(C_ptr (C_struct ''__sk_buff''), ''skb''), (C_u32, ''ifindex''), (C_u64, ''flags'')] False 13,
     Helper ''bpf_get_current_pid_tgid'' False C_u64 [] False 14,
     Helper ''bpf_get_current_uid_gid'' False C_u64 [] False 15,
     Helper ''bpf_get_current_comm'' False C_long [(C_ptr C_void, ''buf''), (C_u32, ''size_of_buf'')] False 16,
     Helper ''bpf_get_cgroup_classid'' False C_u32 [(C_ptr (C_struct ''__sk_buff''), ''skb'')] False 17,
     Helper ''bpf_skb_vlan_push'' False C_long [(C_ptr (C_struct ''__sk_buff''), ''skb''), (C_be16, ''vlan_proto''), (C_u16, ''vlan_tci'')] False 18,
     Helper ''bpf_skb_vlan_pop'' False C_long [(C_ptr (C_struct ''__sk_buff''), ''skb'')] False 19]"

definition old_helpers_20_22 :: "helper_decl list" where
  "old_helpers_20_22 =
    [Helper ''bpf_skb_get_tunnel_key'' False C_long [(C_ptr (C_struct ''__sk_buff''), ''skb''), (C_ptr (C_struct ''bpf_tunnel_key''), ''key''), (C_u32, ''size''), (C_u64, ''flags'')] False 20,
     Helper ''bpf_skb_set_tunnel_key'' False C_long [(C_ptr (C_struct ''__sk_buff''), ''skb''), (C_ptr (C_struct ''bpf_tunnel_key''), ''key''), (C_u32, ''size''), (C_u64, ''flags'')] False 21,
     Helper ''bpf_perf_event_read'' False C_u64 [(C_ptr C_void, ''map''), (C_u64, ''flags'')] False 22]"

definition old_helpers_23_26 :: "helper_decl list" where
  "old_helpers_23_26 =
    [Helper ''bpf_redirect'' False C_long [(C_u32, ''ifindex''), (C_u64, ''flags'')] False 23,
     Helper ''bpf_get_route_realm'' False C_u32 [(C_ptr (C_struct ''__sk_buff''), ''skb'')] False 24,
     Helper ''bpf_perf_event_output'' False C_long [(C_ptr C_void, ''ctx''), (C_ptr C_void, ''map''), (C_u64, ''flags''), (C_ptr C_void, ''data''), (C_u64, ''size'')] False 25,
     Helper ''bpf_skb_load_bytes'' False C_long [(C_ptr (C_const C_void), ''skb''), (C_u32, ''offset''), (C_ptr C_void, ''to''), (C_u32, ''len'')] False 26]"

definition old_helpers_27_31 :: "helper_decl list" where
  "old_helpers_27_31 =
    [Helper ''bpf_get_stackid'' False C_long [(C_ptr C_void, ''ctx''), (C_ptr C_void, ''map''), (C_u64, ''flags'')] False 27,
     Helper ''bpf_csum_diff'' False C_s64 [(C_ptr C_be32, ''from''), (C_u32, ''from_size''), (C_ptr C_be32, ''to''), (C_u32, ''to_size''), (C_wsum, ''seed'')] False 28,
     Helper ''bpf_skb_get_tunnel_opt'' False C_long [(C_ptr (C_struct ''__sk_buff''), ''skb''), (C_ptr C_void, ''opt''), (C_u32, ''size'')] False 29,
     Helper ''bpf_skb_set_tunnel_opt'' False C_long [(C_ptr (C_struct ''__sk_buff''), ''skb''), (C_ptr C_void, ''opt''), (C_u32, ''size'')] False 30,
     Helper ''bpf_skb_change_proto'' False C_long [(C_ptr (C_struct ''__sk_buff''), ''skb''), (C_be16, ''proto''), (C_u64, ''flags'')] False 31]"

definition old_helpers_32_38 :: "helper_decl list" where
  "old_helpers_32_38 =
    [Helper ''bpf_skb_change_type'' False C_long [(C_ptr (C_struct ''__sk_buff''), ''skb''), (C_u32, ''type'')] False 32,
     Helper ''bpf_skb_under_cgroup'' False C_long [(C_ptr (C_struct ''__sk_buff''), ''skb''), (C_ptr C_void, ''map''), (C_u32, ''index'')] False 33,
     Helper ''bpf_get_hash_recalc'' False C_u32 [(C_ptr (C_struct ''__sk_buff''), ''skb'')] False 34,
     Helper ''bpf_get_current_task'' False C_u64 [] False 35,
     Helper ''bpf_probe_write_user'' False C_long [(C_ptr C_void, ''dst''), (C_ptr (C_const C_void), ''src''), (C_u32, ''len'')] False 36,
     Helper ''bpf_current_task_under_cgroup'' False C_long [(C_ptr C_void, ''map''), (C_u32, ''index'')] False 37,
     Helper ''bpf_skb_change_tail'' False C_long [(C_ptr (C_struct ''__sk_buff''), ''skb''), (C_u32, ''len''), (C_u64, ''flags'')] False 38]"

definition old_helpers_39_45 :: "helper_decl list" where
  "old_helpers_39_45 =
    [Helper ''bpf_skb_pull_data'' False C_long [(C_ptr (C_struct ''__sk_buff''), ''skb''), (C_u32, ''len'')] False 39,
     Helper ''bpf_csum_update'' False C_s64 [(C_ptr (C_struct ''__sk_buff''), ''skb''), (C_wsum, ''csum'')] False 40,
     Helper ''bpf_set_hash_invalid'' False C_void [(C_ptr (C_struct ''__sk_buff''), ''skb'')] False 41,
     Helper ''bpf_get_numa_node_id'' False C_long [] False 42,
     Helper ''bpf_skb_change_head'' False C_long [(C_ptr (C_struct ''__sk_buff''), ''skb''), (C_u32, ''len''), (C_u64, ''flags'')] False 43,
     Helper ''bpf_xdp_adjust_head'' False C_long [(C_ptr (C_struct ''xdp_md''), ''xdp_md''), (C_int, ''delta'')] False 44,
     Helper ''bpf_probe_read_str'' False C_long [(C_ptr C_void, ''dst''), (C_u32, ''size''), (C_ptr (C_const C_void), ''unsafe_ptr'')] False 45]"

definition old_helpers_46_50 :: "helper_decl list" where
  "old_helpers_46_50 =
    [Helper ''bpf_get_socket_cookie'' False C_u64 [(C_ptr C_void, ''ctx'')] False 46,
     Helper ''bpf_get_socket_uid'' False C_u32 [(C_ptr (C_struct ''__sk_buff''), ''skb'')] False 47,
     Helper ''bpf_set_hash'' False C_long [(C_ptr (C_struct ''__sk_buff''), ''skb''), (C_u32, ''hash'')] False 48,
     Helper ''bpf_setsockopt'' False C_long [(C_ptr C_void, ''bpf_socket''), (C_int, ''level''), (C_int, ''optname''), (C_ptr C_void, ''optval''), (C_int, ''optlen'')] False 49,
     Helper ''bpf_skb_adjust_room'' False C_long [(C_ptr (C_struct ''__sk_buff''), ''skb''), (C_s32, ''len_diff''), (C_u32, ''mode''), (C_u64, ''flags'')] False 50]"

definition old_helpers_51_54 :: "helper_decl list" where
  "old_helpers_51_54 =
    [Helper ''bpf_redirect_map'' False C_long [(C_ptr C_void, ''map''), (C_u64, ''key''), (C_u64, ''flags'')] False 51,
     Helper ''bpf_sk_redirect_map'' False C_long [(C_ptr (C_struct ''__sk_buff''), ''skb''), (C_ptr C_void, ''map''), (C_u32, ''key''), (C_u64, ''flags'')] False 52,
     Helper ''bpf_sock_map_update'' False C_long [(C_ptr (C_struct ''bpf_sock_ops''), ''skops''), (C_ptr C_void, ''map''), (C_ptr C_void, ''key''), (C_u64, ''flags'')] False 53,
     Helper ''bpf_xdp_adjust_meta'' False C_long [(C_ptr (C_struct ''xdp_md''), ''xdp_md''), (C_int, ''delta'')] False 54]"

definition old_helpers_55_58 :: "helper_decl list" where
  "old_helpers_55_58 =
    [Helper ''bpf_perf_event_read_value'' False C_long [(C_ptr C_void, ''map''), (C_u64, ''flags''), (C_ptr (C_struct ''bpf_perf_event_value''), ''buf''), (C_u32, ''buf_size'')] False 55,
     Helper ''bpf_perf_prog_read_value'' False C_long [(C_ptr (C_struct ''bpf_perf_event_data''), ''ctx''), (C_ptr (C_struct ''bpf_perf_event_value''), ''buf''), (C_u32, ''buf_size'')] False 56,
     Helper ''bpf_getsockopt'' False C_long [(C_ptr C_void, ''bpf_socket''), (C_int, ''level''), (C_int, ''optname''), (C_ptr C_void, ''optval''), (C_int, ''optlen'')] False 57,
     Helper ''bpf_override_return'' False C_long [(C_ptr (C_struct ''pt_regs''), ''regs''), (C_u64, ''rc'')] False 58]"

definition old_helpers_59_62 :: "helper_decl list" where
  "old_helpers_59_62 =
    [Helper ''bpf_sock_ops_cb_flags_set'' False C_long [(C_ptr (C_struct ''bpf_sock_ops''), ''bpf_sock''), (C_int, ''argval'')] False 59,
     Helper ''bpf_msg_redirect_map'' False C_long [(C_ptr (C_struct ''sk_msg_md''), ''msg''), (C_ptr C_void, ''map''), (C_u32, ''key''), (C_u64, ''flags'')] False 60,
     Helper ''bpf_msg_apply_bytes'' False C_long [(C_ptr (C_struct ''sk_msg_md''), ''msg''), (C_u32, ''bytes'')] False 61,
     Helper ''bpf_msg_cork_bytes'' False C_long [(C_ptr (C_struct ''sk_msg_md''), ''msg''), (C_u32, ''bytes'')] False 62]"

definition old_helpers_63_67 :: "helper_decl list" where
  "old_helpers_63_67 =
    [Helper ''bpf_msg_pull_data'' False C_long [(C_ptr (C_struct ''sk_msg_md''), ''msg''), (C_u32, ''start''), (C_u32, ''end''), (C_u64, ''flags'')] False 63,
     Helper ''bpf_bind'' False C_long [(C_ptr (C_struct ''bpf_sock_addr''), ''ctx''), (C_ptr (C_struct ''sockaddr''), ''addr''), (C_int, ''addr_len'')] False 64,
     Helper ''bpf_xdp_adjust_tail'' False C_long [(C_ptr (C_struct ''xdp_md''), ''xdp_md''), (C_int, ''delta'')] False 65,
     Helper ''bpf_skb_get_xfrm_state'' False C_long [(C_ptr (C_struct ''__sk_buff''), ''skb''), (C_u32, ''index''), (C_ptr (C_struct ''bpf_xfrm_state''), ''xfrm_state''), (C_u32, ''size''), (C_u64, ''flags'')] False 66,
     Helper ''bpf_get_stack'' False C_long [(C_ptr C_void, ''ctx''), (C_ptr C_void, ''buf''), (C_u32, ''size''), (C_u64, ''flags'')] False 67]"

definition old_helpers_68_72 :: "helper_decl list" where
  "old_helpers_68_72 =
    [Helper ''bpf_skb_load_bytes_relative'' False C_long [(C_ptr (C_const C_void), ''skb''), (C_u32, ''offset''), (C_ptr C_void, ''to''), (C_u32, ''len''), (C_u32, ''start_header'')] False 68,
     Helper ''bpf_fib_lookup'' False C_long [(C_ptr C_void, ''ctx''), (C_ptr (C_struct ''bpf_fib_lookup''), ''params''), (C_int, ''plen''), (C_u32, ''flags'')] False 69,
     Helper ''bpf_sock_hash_update'' False C_long [(C_ptr (C_struct ''bpf_sock_ops''), ''skops''), (C_ptr C_void, ''map''), (C_ptr C_void, ''key''), (C_u64, ''flags'')] False 70,
     Helper ''bpf_msg_redirect_hash'' False C_long [(C_ptr (C_struct ''sk_msg_md''), ''msg''), (C_ptr C_void, ''map''), (C_ptr C_void, ''key''), (C_u64, ''flags'')] False 71,
     Helper ''bpf_sk_redirect_hash'' False C_long [(C_ptr (C_struct ''__sk_buff''), ''skb''), (C_ptr C_void, ''map''), (C_ptr C_void, ''key''), (C_u64, ''flags'')] False 72]"

definition old_helpers_73_77 :: "helper_decl list" where
  "old_helpers_73_77 =
    [Helper ''bpf_lwt_push_encap'' False C_long [(C_ptr (C_struct ''__sk_buff''), ''skb''), (C_u32, ''type''), (C_ptr C_void, ''hdr''), (C_u32, ''len'')] False 73,
     Helper ''bpf_lwt_seg6_store_bytes'' False C_long [(C_ptr (C_struct ''__sk_buff''), ''skb''), (C_u32, ''offset''), (C_ptr (C_const C_void), ''from''), (C_u32, ''len'')] False 74,
     Helper ''bpf_lwt_seg6_adjust_srh'' False C_long [(C_ptr (C_struct ''__sk_buff''), ''skb''), (C_u32, ''offset''), (C_s32, ''delta'')] False 75,
     Helper ''bpf_lwt_seg6_action'' False C_long [(C_ptr (C_struct ''__sk_buff''), ''skb''), (C_u32, ''action''), (C_ptr C_void, ''param''), (C_u32, ''param_len'')] False 76,
     Helper ''bpf_rc_repeat'' False C_long [(C_ptr C_void, ''ctx'')] False 77]"

definition old_helpers_78_83 :: "helper_decl list" where
  "old_helpers_78_83 =
    [Helper ''bpf_rc_keydown'' False C_long [(C_ptr C_void, ''ctx''), (C_u32, ''protocol''), (C_u64, ''scancode''), (C_u32, ''toggle'')] False 78,
     Helper ''bpf_skb_cgroup_id'' False C_u64 [(C_ptr (C_struct ''__sk_buff''), ''skb'')] False 79,
     Helper ''bpf_get_current_cgroup_id'' False C_u64 [] False 80,
     Helper ''bpf_get_local_storage'' False (C_ptr C_void) [(C_ptr C_void, ''map''), (C_u64, ''flags'')] False 81,
     Helper ''bpf_sk_select_reuseport'' False C_long [(C_ptr (C_struct ''sk_reuseport_md''), ''reuse''), (C_ptr C_void, ''map''), (C_ptr C_void, ''key''), (C_u64, ''flags'')] False 82,
     Helper ''bpf_skb_ancestor_cgroup_id'' False C_u64 [(C_ptr (C_struct ''__sk_buff''), ''skb''), (C_int, ''ancestor_level'')] False 83]"

definition old_helpers_84_90 :: "helper_decl list" where
  "old_helpers_84_90 =
    [Helper ''bpf_sk_lookup_tcp'' False (C_ptr (C_struct ''bpf_sock'')) [(C_ptr C_void, ''ctx''), (C_ptr (C_struct ''bpf_sock_tuple''), ''tuple''), (C_u32, ''tuple_size''), (C_u64, ''netns''), (C_u64, ''flags'')] False 84,
     Helper ''bpf_sk_lookup_udp'' False (C_ptr (C_struct ''bpf_sock'')) [(C_ptr C_void, ''ctx''), (C_ptr (C_struct ''bpf_sock_tuple''), ''tuple''), (C_u32, ''tuple_size''), (C_u64, ''netns''), (C_u64, ''flags'')] False 85,
     Helper ''bpf_sk_release'' False C_long [(C_ptr C_void, ''sock'')] False 86,
     Helper ''bpf_map_push_elem'' False C_long [(C_ptr C_void, ''map''), (C_ptr (C_const C_void), ''value''), (C_u64, ''flags'')] False 87,
     Helper ''bpf_map_pop_elem'' False C_long [(C_ptr C_void, ''map''), (C_ptr C_void, ''value'')] False 88,
     Helper ''bpf_map_peek_elem'' False C_long [(C_ptr C_void, ''map''), (C_ptr C_void, ''value'')] False 89,
     Helper ''bpf_msg_push_data'' False C_long [(C_ptr (C_struct ''sk_msg_md''), ''msg''), (C_u32, ''start''), (C_u32, ''len''), (C_u64, ''flags'')] False 90]"

definition old_helpers_91_98 :: "helper_decl list" where
  "old_helpers_91_98 =
    [Helper ''bpf_msg_pop_data'' False C_long [(C_ptr (C_struct ''sk_msg_md''), ''msg''), (C_u32, ''start''), (C_u32, ''len''), (C_u64, ''flags'')] False 91,
     Helper ''bpf_rc_pointer_rel'' False C_long [(C_ptr C_void, ''ctx''), (C_s32, ''rel_x''), (C_s32, ''rel_y'')] False 92,
     Helper ''bpf_spin_lock'' False C_long [(C_ptr (C_struct ''bpf_spin_lock''), ''lock'')] False 93,
     Helper ''bpf_spin_unlock'' False C_long [(C_ptr (C_struct ''bpf_spin_lock''), ''lock'')] False 94,
     Helper ''bpf_sk_fullsock'' False (C_ptr (C_struct ''bpf_sock'')) [(C_ptr (C_struct ''bpf_sock''), ''sk'')] False 95,
     Helper ''bpf_tcp_sock'' False (C_ptr (C_struct ''bpf_tcp_sock'')) [(C_ptr (C_struct ''bpf_sock''), ''sk'')] False 96,
     Helper ''bpf_skb_ecn_set_ce'' False C_long [(C_ptr (C_struct ''__sk_buff''), ''skb'')] False 97,
     Helper ''bpf_get_listener_sock'' False (C_ptr (C_struct ''bpf_sock'')) [(C_ptr (C_struct ''bpf_sock''), ''sk'')] False 98]"

definition old_helpers_99_104 :: "helper_decl list" where
  "old_helpers_99_104 =
    [Helper ''bpf_skc_lookup_tcp'' False (C_ptr (C_struct ''bpf_sock'')) [(C_ptr C_void, ''ctx''), (C_ptr (C_struct ''bpf_sock_tuple''), ''tuple''), (C_u32, ''tuple_size''), (C_u64, ''netns''), (C_u64, ''flags'')] False 99,
     Helper ''bpf_tcp_check_syncookie'' False C_long [(C_ptr C_void, ''sk''), (C_ptr C_void, ''iph''), (C_u32, ''iph_len''), (C_ptr (C_struct ''tcphdr''), ''th''), (C_u32, ''th_len'')] False 100,
     Helper ''bpf_sysctl_get_name'' False C_long [(C_ptr (C_struct ''bpf_sysctl''), ''ctx''), (C_ptr C_char, ''buf''), (C_ulong, ''buf_len''), (C_u64, ''flags'')] False 101,
     Helper ''bpf_sysctl_get_current_value'' False C_long [(C_ptr (C_struct ''bpf_sysctl''), ''ctx''), (C_ptr C_char, ''buf''), (C_ulong, ''buf_len'')] False 102,
     Helper ''bpf_sysctl_get_new_value'' False C_long [(C_ptr (C_struct ''bpf_sysctl''), ''ctx''), (C_ptr C_char, ''buf''), (C_ulong, ''buf_len'')] False 103,
     Helper ''bpf_sysctl_set_new_value'' False C_long [(C_ptr (C_struct ''bpf_sysctl''), ''ctx''), (C_ptr (C_const C_char), ''buf''), (C_ulong, ''buf_len'')] False 104]"

definition old_helpers_105_109 :: "helper_decl list" where
  "old_helpers_105_109 =
    [Helper ''bpf_strtol'' False C_long [(C_ptr (C_const C_char), ''buf''), (C_ulong, ''buf_len''), (C_u64, ''flags''), (C_ptr C_long, ''res'')] False 105,
     Helper ''bpf_strtoul'' False C_long [(C_ptr (C_const C_char), ''buf''), (C_ulong, ''buf_len''), (C_u64, ''flags''), (C_ptr C_ulong, ''res'')] False 106,
     Helper ''bpf_sk_storage_get'' False (C_ptr C_void) [(C_ptr C_void, ''map''), (C_ptr C_void, ''sk''), (C_ptr C_void, ''value''), (C_u64, ''flags'')] False 107,
     Helper ''bpf_sk_storage_delete'' False C_long [(C_ptr C_void, ''map''), (C_ptr C_void, ''sk'')] False 108,
     Helper ''bpf_send_signal'' False C_long [(C_u32, ''sig'')] False 109]"

definition old_helpers_110_115 :: "helper_decl list" where
  "old_helpers_110_115 =
    [Helper ''bpf_tcp_gen_syncookie'' False C_s64 [(C_ptr C_void, ''sk''), (C_ptr C_void, ''iph''), (C_u32, ''iph_len''), (C_ptr (C_struct ''tcphdr''), ''th''), (C_u32, ''th_len'')] False 110,
     Helper ''bpf_skb_output'' False C_long [(C_ptr C_void, ''ctx''), (C_ptr C_void, ''map''), (C_u64, ''flags''), (C_ptr C_void, ''data''), (C_u64, ''size'')] False 111,
     Helper ''bpf_probe_read_user'' False C_long [(C_ptr C_void, ''dst''), (C_u32, ''size''), (C_ptr (C_const C_void), ''unsafe_ptr'')] False 112,
     Helper ''bpf_probe_read_kernel'' False C_long [(C_ptr C_void, ''dst''), (C_u32, ''size''), (C_ptr (C_const C_void), ''unsafe_ptr'')] False 113,
     Helper ''bpf_probe_read_user_str'' False C_long [(C_ptr C_void, ''dst''), (C_u32, ''size''), (C_ptr (C_const C_void), ''unsafe_ptr'')] False 114,
     Helper ''bpf_probe_read_kernel_str'' False C_long [(C_ptr C_void, ''dst''), (C_u32, ''size''), (C_ptr (C_const C_void), ''unsafe_ptr'')] False 115]"

definition old_helpers_116_123 :: "helper_decl list" where
  "old_helpers_116_123 =
    [Helper ''bpf_tcp_send_ack'' False C_long [(C_ptr C_void, ''tp''), (C_u32, ''rcv_nxt'')] False 116,
     Helper ''bpf_send_signal_thread'' False C_long [(C_u32, ''sig'')] False 117,
     Helper ''bpf_jiffies64'' False C_u64 [] False 118,
     Helper ''bpf_read_branch_records'' False C_long [(C_ptr (C_struct ''bpf_perf_event_data''), ''ctx''), (C_ptr C_void, ''buf''), (C_u32, ''size''), (C_u64, ''flags'')] False 119,
     Helper ''bpf_get_ns_current_pid_tgid'' False C_long [(C_u64, ''dev''), (C_u64, ''ino''), (C_ptr (C_struct ''bpf_pidns_info''), ''nsdata''), (C_u32, ''size'')] False 120,
     Helper ''bpf_xdp_output'' False C_long [(C_ptr C_void, ''ctx''), (C_ptr C_void, ''map''), (C_u64, ''flags''), (C_ptr C_void, ''data''), (C_u64, ''size'')] False 121,
     Helper ''bpf_get_netns_cookie'' False C_u64 [(C_ptr C_void, ''ctx'')] False 122,
     Helper ''bpf_get_current_ancestor_cgroup_id'' False C_u64 [(C_int, ''ancestor_level'')] False 123]"

definition old_helpers_124_129 :: "helper_decl list" where
  "old_helpers_124_129 =
    [Helper ''bpf_sk_assign'' False C_long [(C_ptr C_void, ''ctx''), (C_ptr C_void, ''sk''), (C_u64, ''flags'')] False 124,
     Helper ''bpf_ktime_get_boot_ns'' False C_u64 [] False 125,
     Helper ''bpf_seq_printf'' False C_long [(C_ptr (C_struct ''seq_file''), ''m''), (C_ptr (C_const C_char), ''fmt''), (C_u32, ''fmt_size''), (C_ptr (C_const C_void), ''data''), (C_u32, ''data_len'')] False 126,
     Helper ''bpf_seq_write'' False C_long [(C_ptr (C_struct ''seq_file''), ''m''), (C_ptr (C_const C_void), ''data''), (C_u32, ''len'')] False 127,
     Helper ''bpf_sk_cgroup_id'' False C_u64 [(C_ptr C_void, ''sk'')] False 128,
     Helper ''bpf_sk_ancestor_cgroup_id'' False C_u64 [(C_ptr C_void, ''sk''), (C_int, ''ancestor_level'')] False 129]"

definition old_helpers_130_137 :: "helper_decl list" where
  "old_helpers_130_137 =
    [Helper ''bpf_ringbuf_output'' False C_long [(C_ptr C_void, ''ringbuf''), (C_ptr C_void, ''data''), (C_u64, ''size''), (C_u64, ''flags'')] False 130,
     Helper ''bpf_ringbuf_reserve'' False (C_ptr C_void) [(C_ptr C_void, ''ringbuf''), (C_u64, ''size''), (C_u64, ''flags'')] False 131,
     Helper ''bpf_ringbuf_submit'' False C_void [(C_ptr C_void, ''data''), (C_u64, ''flags'')] False 132,
     Helper ''bpf_ringbuf_discard'' False C_void [(C_ptr C_void, ''data''), (C_u64, ''flags'')] False 133,
     Helper ''bpf_ringbuf_query'' False C_u64 [(C_ptr C_void, ''ringbuf''), (C_u64, ''flags'')] False 134,
     Helper ''bpf_csum_level'' False C_long [(C_ptr (C_struct ''__sk_buff''), ''skb''), (C_u64, ''level'')] False 135,
     Helper ''bpf_skc_to_tcp6_sock'' False (C_ptr (C_struct ''tcp6_sock'')) [(C_ptr C_void, ''sk'')] False 136,
     Helper ''bpf_skc_to_tcp_sock'' False (C_ptr (C_struct ''tcp_sock'')) [(C_ptr C_void, ''sk'')] False 137]"

definition old_helpers_138_142 :: "helper_decl list" where
  "old_helpers_138_142 =
    [Helper ''bpf_skc_to_tcp_timewait_sock'' False (C_ptr (C_struct ''tcp_timewait_sock'')) [(C_ptr C_void, ''sk'')] False 138,
     Helper ''bpf_skc_to_tcp_request_sock'' False (C_ptr (C_struct ''tcp_request_sock'')) [(C_ptr C_void, ''sk'')] False 139,
     Helper ''bpf_skc_to_udp6_sock'' False (C_ptr (C_struct ''udp6_sock'')) [(C_ptr C_void, ''sk'')] False 140,
     Helper ''bpf_get_task_stack'' False C_long [(C_ptr (C_struct ''task_struct''), ''task''), (C_ptr C_void, ''buf''), (C_u32, ''size''), (C_u64, ''flags'')] False 141,
     Helper ''bpf_load_hdr_opt'' False C_long [(C_ptr (C_struct ''bpf_sock_ops''), ''skops''), (C_ptr C_void, ''searchby_res''), (C_u32, ''len''), (C_u64, ''flags'')] False 142]"

definition old_helpers_143_148 :: "helper_decl list" where
  "old_helpers_143_148 =
    [Helper ''bpf_store_hdr_opt'' False C_long [(C_ptr (C_struct ''bpf_sock_ops''), ''skops''), (C_ptr (C_const C_void), ''from''), (C_u32, ''len''), (C_u64, ''flags'')] False 143,
     Helper ''bpf_reserve_hdr_opt'' False C_long [(C_ptr (C_struct ''bpf_sock_ops''), ''skops''), (C_u32, ''len''), (C_u64, ''flags'')] False 144,
     Helper ''bpf_inode_storage_get'' False (C_ptr C_void) [(C_ptr C_void, ''map''), (C_ptr C_void, ''inode''), (C_ptr C_void, ''value''), (C_u64, ''flags'')] False 145,
     Helper ''bpf_inode_storage_delete'' False C_int [(C_ptr C_void, ''map''), (C_ptr C_void, ''inode'')] False 146,
     Helper ''bpf_d_path'' False C_long [(C_ptr (C_struct ''path''), ''path''), (C_ptr C_char, ''buf''), (C_u32, ''sz'')] False 147,
     Helper ''bpf_copy_from_user'' False C_long [(C_ptr C_void, ''dst''), (C_u32, ''size''), (C_ptr (C_const C_void), ''user_ptr'')] False 148]"

definition old_helpers_149_155 :: "helper_decl list" where
  "old_helpers_149_155 =
    [Helper ''bpf_snprintf_btf'' False C_long [(C_ptr C_char, ''str''), (C_u32, ''str_size''), (C_ptr (C_struct ''btf_ptr''), ''ptr''), (C_u32, ''btf_ptr_size''), (C_u64, ''flags'')] False 149,
     Helper ''bpf_seq_printf_btf'' False C_long [(C_ptr (C_struct ''seq_file''), ''m''), (C_ptr (C_struct ''btf_ptr''), ''ptr''), (C_u32, ''ptr_size''), (C_u64, ''flags'')] False 150,
     Helper ''bpf_skb_cgroup_classid'' False C_u64 [(C_ptr (C_struct ''__sk_buff''), ''skb'')] False 151,
     Helper ''bpf_redirect_neigh'' False C_long [(C_u32, ''ifindex''), (C_ptr (C_struct ''bpf_redir_neigh''), ''params''), (C_int, ''plen''), (C_u64, ''flags'')] False 152,
     Helper ''bpf_per_cpu_ptr'' False (C_ptr C_void) [(C_ptr (C_const C_void), ''percpu_ptr''), (C_u32, ''cpu'')] False 153,
     Helper ''bpf_this_cpu_ptr'' False (C_ptr C_void) [(C_ptr (C_const C_void), ''percpu_ptr'')] False 154,
     Helper ''bpf_redirect_peer'' False C_long [(C_u32, ''ifindex''), (C_u64, ''flags'')] False 155]"

definition old_helpers_156_162 :: "helper_decl list" where
  "old_helpers_156_162 =
    [Helper ''bpf_task_storage_get'' False (C_ptr C_void) [(C_ptr C_void, ''map''), (C_ptr (C_struct ''task_struct''), ''task''), (C_ptr C_void, ''value''), (C_u64, ''flags'')] False 156,
     Helper ''bpf_task_storage_delete'' False C_long [(C_ptr C_void, ''map''), (C_ptr (C_struct ''task_struct''), ''task'')] False 157,
     Helper ''bpf_get_current_task_btf'' False (C_ptr (C_struct ''task_struct'')) [] False 158,
     Helper ''bpf_bprm_opts_set'' False C_long [(C_ptr (C_struct ''linux_binprm''), ''bprm''), (C_u64, ''flags'')] False 159,
     Helper ''bpf_ktime_get_coarse_ns'' False C_u64 [] False 160,
     Helper ''bpf_ima_inode_hash'' False C_long [(C_ptr (C_struct ''inode''), ''inode''), (C_ptr C_void, ''dst''), (C_u32, ''size'')] False 161,
     Helper ''bpf_sock_from_file'' False (C_ptr (C_struct ''socket'')) [(C_ptr (C_struct ''file''), ''file'')] False 162]"

definition old_helpers_163_166 :: "helper_decl list" where
  "old_helpers_163_166 =
    [Helper ''bpf_check_mtu'' False C_long [(C_ptr C_void, ''ctx''), (C_u32, ''ifindex''), (C_ptr C_u32, ''mtu_len''), (C_s32, ''len_diff''), (C_u64, ''flags'')] False 163,
     Helper ''bpf_for_each_map_elem'' False C_long [(C_ptr C_void, ''map''), (C_ptr C_void, ''callback_fn''), (C_ptr C_void, ''callback_ctx''), (C_u64, ''flags'')] False 164,
     Helper ''bpf_snprintf'' False C_long [(C_ptr C_char, ''str''), (C_u32, ''str_size''), (C_ptr (C_const C_char), ''fmt''), (C_ptr C_u64, ''data''), (C_u32, ''data_len'')] False 165,
     Helper ''bpf_sys_bpf'' False C_long [(C_u32, ''cmd''), (C_ptr C_void, ''attr''), (C_u32, ''attr_size'')] False 166]"

definition old_helpers_167_174 :: "helper_decl list" where
  "old_helpers_167_174 =
    [Helper ''bpf_btf_find_by_name_kind'' False C_long [(C_ptr C_char, ''name''), (C_int, ''name_sz''), (C_u32, ''kind''), (C_int, ''flags'')] False 167,
     Helper ''bpf_sys_close'' False C_long [(C_u32, ''fd'')] False 168,
     Helper ''bpf_timer_init'' False C_long [(C_ptr (C_struct ''bpf_timer''), ''timer''), (C_ptr C_void, ''map''), (C_u64, ''flags'')] False 169,
     Helper ''bpf_timer_set_callback'' False C_long [(C_ptr (C_struct ''bpf_timer''), ''timer''), (C_ptr C_void, ''callback_fn'')] False 170,
     Helper ''bpf_timer_start'' False C_long [(C_ptr (C_struct ''bpf_timer''), ''timer''), (C_u64, ''nsecs''), (C_u64, ''flags'')] False 171,
     Helper ''bpf_timer_cancel'' False C_long [(C_ptr (C_struct ''bpf_timer''), ''timer'')] False 172,
     Helper ''bpf_get_func_ip'' False C_u64 [(C_ptr C_void, ''ctx'')] False 173,
     Helper ''bpf_get_attach_cookie'' False C_u64 [(C_ptr C_void, ''ctx'')] False 174]"

definition old_helpers_175_182 :: "helper_decl list" where
  "old_helpers_175_182 =
    [Helper ''bpf_task_pt_regs'' False C_long [(C_ptr (C_struct ''task_struct''), ''task'')] False 175,
     Helper ''bpf_get_branch_snapshot'' False C_long [(C_ptr C_void, ''entries''), (C_u32, ''size''), (C_u64, ''flags'')] False 176,
     Helper ''bpf_trace_vprintk'' False C_long [(C_ptr (C_const C_char), ''fmt''), (C_u32, ''fmt_size''), (C_ptr (C_const C_void), ''data''), (C_u32, ''data_len'')] False 177,
     Helper ''bpf_skc_to_unix_sock'' False (C_ptr (C_struct ''unix_sock'')) [(C_ptr C_void, ''sk'')] False 178,
     Helper ''bpf_kallsyms_lookup_name'' False C_long [(C_ptr (C_const C_char), ''name''), (C_int, ''name_sz''), (C_int, ''flags''), (C_ptr C_u64, ''res'')] False 179,
     Helper ''bpf_find_vma'' False C_long [(C_ptr (C_struct ''task_struct''), ''task''), (C_u64, ''addr''), (C_ptr C_void, ''callback_fn''), (C_ptr C_void, ''callback_ctx''), (C_u64, ''flags'')] False 180,
     Helper ''bpf_loop'' False C_long [(C_u32, ''nr_loops''), (C_ptr C_void, ''callback_fn''), (C_ptr C_void, ''callback_ctx''), (C_u64, ''flags'')] False 181,
     Helper ''bpf_strncmp'' False C_long [(C_ptr (C_const C_char), ''s1''), (C_u32, ''s1_sz''), (C_ptr (C_const C_char), ''s2'')] False 182]"

definition old_helpers_183_191 :: "helper_decl list" where
  "old_helpers_183_191 =
    [Helper ''bpf_get_func_arg'' False C_long [(C_ptr C_void, ''ctx''), (C_u32, ''n''), (C_ptr C_u64, ''value'')] False 183,
     Helper ''bpf_get_func_ret'' False C_long [(C_ptr C_void, ''ctx''), (C_ptr C_u64, ''value'')] False 184,
     Helper ''bpf_get_func_arg_cnt'' False C_long [(C_ptr C_void, ''ctx'')] False 185,
     Helper ''bpf_get_retval'' False C_int [] False 186,
     Helper ''bpf_set_retval'' False C_int [(C_int, ''retval'')] False 187,
     Helper ''bpf_xdp_get_buff_len'' False C_u64 [(C_ptr (C_struct ''xdp_md''), ''xdp_md'')] False 188,
     Helper ''bpf_xdp_load_bytes'' False C_long [(C_ptr (C_struct ''xdp_md''), ''xdp_md''), (C_u32, ''offset''), (C_ptr C_void, ''buf''), (C_u32, ''len'')] False 189,
     Helper ''bpf_xdp_store_bytes'' False C_long [(C_ptr (C_struct ''xdp_md''), ''xdp_md''), (C_u32, ''offset''), (C_ptr C_void, ''buf''), (C_u32, ''len'')] False 190,
     Helper ''bpf_copy_from_user_task'' False C_long [(C_ptr C_void, ''dst''), (C_u32, ''size''), (C_ptr (C_const C_void), ''user_ptr''), (C_ptr (C_struct ''task_struct''), ''tsk''), (C_u64, ''flags'')] False 191]"

definition old_helpers_192_200 :: "helper_decl list" where
  "old_helpers_192_200 =
    [Helper ''bpf_skb_set_tstamp'' False C_long [(C_ptr (C_struct ''__sk_buff''), ''skb''), (C_u64, ''tstamp''), (C_u32, ''tstamp_type'')] False 192,
     Helper ''bpf_ima_file_hash'' False C_long [(C_ptr (C_struct ''file''), ''file''), (C_ptr C_void, ''dst''), (C_u32, ''size'')] False 193,
     Helper ''bpf_kptr_xchg'' False (C_ptr C_void) [(C_ptr C_void, ''map_value''), (C_ptr C_void, ''ptr'')] False 194,
     Helper ''bpf_map_lookup_percpu_elem'' False (C_ptr C_void) [(C_ptr C_void, ''map''), (C_ptr (C_const C_void), ''key''), (C_u32, ''cpu'')] False 195,
     Helper ''bpf_skc_to_mptcp_sock'' False (C_ptr (C_struct ''mptcp_sock'')) [(C_ptr C_void, ''sk'')] False 196,
     Helper ''bpf_dynptr_from_mem'' False C_long [(C_ptr C_void, ''data''), (C_u32, ''size''), (C_u64, ''flags''), (C_ptr (C_struct ''bpf_dynptr''), ''ptr'')] False 197,
     Helper ''bpf_ringbuf_reserve_dynptr'' False C_long [(C_ptr C_void, ''ringbuf''), (C_u32, ''size''), (C_u64, ''flags''), (C_ptr (C_struct ''bpf_dynptr''), ''ptr'')] False 198,
     Helper ''bpf_ringbuf_submit_dynptr'' False C_void [(C_ptr (C_struct ''bpf_dynptr''), ''ptr''), (C_u64, ''flags'')] False 199,
     Helper ''bpf_ringbuf_discard_dynptr'' False C_void [(C_ptr (C_struct ''bpf_dynptr''), ''ptr''), (C_u64, ''flags'')] False 200]"

definition old_helpers_201_207 :: "helper_decl list" where
  "old_helpers_201_207 =
    [Helper ''bpf_dynptr_read'' False C_long [(C_ptr C_void, ''dst''), (C_u32, ''len''), (C_ptr (C_const (C_struct ''bpf_dynptr'')), ''src''), (C_u32, ''offset''), (C_u64, ''flags'')] False 201,
     Helper ''bpf_dynptr_write'' False C_long [(C_ptr (C_const (C_struct ''bpf_dynptr'')), ''dst''), (C_u32, ''offset''), (C_ptr C_void, ''src''), (C_u32, ''len''), (C_u64, ''flags'')] False 202,
     Helper ''bpf_dynptr_data'' False (C_ptr C_void) [(C_ptr (C_const (C_struct ''bpf_dynptr'')), ''ptr''), (C_u32, ''offset''), (C_u32, ''len'')] False 203,
     Helper ''bpf_tcp_raw_gen_syncookie_ipv4'' False C_s64 [(C_ptr (C_struct ''iphdr''), ''iph''), (C_ptr (C_struct ''tcphdr''), ''th''), (C_u32, ''th_len'')] False 204,
     Helper ''bpf_tcp_raw_gen_syncookie_ipv6'' False C_s64 [(C_ptr (C_struct ''ipv6hdr''), ''iph''), (C_ptr (C_struct ''tcphdr''), ''th''), (C_u32, ''th_len'')] False 205,
     Helper ''bpf_tcp_raw_check_syncookie_ipv4'' False C_long [(C_ptr (C_struct ''iphdr''), ''iph''), (C_ptr (C_struct ''tcphdr''), ''th'')] False 206,
     Helper ''bpf_tcp_raw_check_syncookie_ipv6'' False C_long [(C_ptr (C_struct ''ipv6hdr''), ''iph''), (C_ptr (C_struct ''tcphdr''), ''th'')] False 207]"

definition old_helpers_208_211 :: "helper_decl list" where
  "old_helpers_208_211 =
    [Helper ''bpf_ktime_get_tai_ns'' False C_u64 [] False 208,
     Helper ''bpf_user_ringbuf_drain'' False C_long [(C_ptr C_void, ''map''), (C_ptr C_void, ''callback_fn''), (C_ptr C_void, ''ctx''), (C_u64, ''flags'')] False 209,
     Helper ''bpf_cgrp_storage_get'' False (C_ptr C_void) [(C_ptr C_void, ''map''), (C_ptr (C_struct ''cgroup''), ''cgroup''), (C_ptr C_void, ''value''), (C_u64, ''flags'')] False 210,
     Helper ''bpf_cgrp_storage_delete'' False C_long [(C_ptr C_void, ''map''), (C_ptr (C_struct ''cgroup''), ''cgroup'')] False 211]"

definition old_helper_decls :: "helper_decl list" where
  "old_helper_decls =
     old_helpers_1_7 @ old_helpers_8_12 @ old_helpers_13_19 @ old_helpers_20_22 @ old_helpers_23_26 @
     old_helpers_27_31 @ old_helpers_32_38 @ old_helpers_39_45 @ old_helpers_46_50 @ old_helpers_51_54 @
     old_helpers_55_58 @ old_helpers_59_62 @ old_helpers_63_67 @ old_helpers_68_72 @ old_helpers_73_77 @
     old_helpers_78_83 @ old_helpers_84_90 @ old_helpers_91_98 @ old_helpers_99_104 @ old_helpers_105_109 @
     old_helpers_110_115 @ old_helpers_116_123 @ old_helpers_124_129 @ old_helpers_130_137 @
     old_helpers_138_142 @ old_helpers_143_148 @ old_helpers_149_155 @ old_helpers_156_162 @
     old_helpers_163_166 @ old_helpers_167_174 @ old_helpers_175_182 @ old_helpers_183_191 @
     old_helpers_192_200 @ old_helpers_201_207 @ old_helpers_208_211"

section \<open>Facts\<close>

lemmas old_helper_tables =
  old_helpers_1_7_def old_helpers_8_12_def old_helpers_13_19_def old_helpers_20_22_def old_helpers_23_26_def
  old_helpers_27_31_def old_helpers_32_38_def old_helpers_39_45_def old_helpers_46_50_def
  old_helpers_51_54_def old_helpers_55_58_def old_helpers_59_62_def old_helpers_63_67_def
  old_helpers_68_72_def old_helpers_73_77_def old_helpers_78_83_def old_helpers_84_90_def
  old_helpers_91_98_def old_helpers_99_104_def old_helpers_105_109_def old_helpers_110_115_def
  old_helpers_116_123_def old_helpers_124_129_def old_helpers_130_137_def old_helpers_138_142_def
  old_helpers_143_148_def old_helpers_149_155_def old_helpers_156_162_def old_helpers_163_166_def
  old_helpers_167_174_def old_helpers_175_182_def old_helpers_183_191_def old_helpers_192_200_def
  old_helpers_201_207_def old_helpers_208_211_def

text \<open>What a caller depends on: the number behind a name, the result, the types and the number of the arguments.\<close>

definition call_signature :: "helper_decl \<Rightarrow> string \<times> nat \<times> c_type \<times> c_type list \<times> bool" where
  "call_signature h = (h_name h, h_id h, h_ret h, map fst (h_params h), h_variadic h)"

lemma call_signatures_agree: "map call_signature old_helper_decls = map call_signature helper_decls"
  by (simp add: old_helper_decls_def helper_decls_def old_helper_tables helper_tables call_signature_def)

lemma fastcall_helpers:
  "list_all (\<lambda>h. \<not> h_fastcall h) old_helper_decls"
  "map h_fastcall helper_decls = map (\<lambda>n. n = 8) [1..<212]"
   by (simp add: old_helper_decls_def old_helper_tables) (simp add: helper_decls_def helper_tables upt_rec)

text \<open>
  The two copies of bpf_helper_defs.h are interchangeable for the programs compiled against them. They declare the
  same helpers with the same numbers, results and argument types, so that a call compiled with one copy is the same
  call with the other; the numbers are 1 to 211 without a gap, no helper takes more than the five arguments that
  the calling convention has registers for, and the only helper that became a fast call is
  number 8, \<open>bpf_get_smp_processor_id\<close>.
\<close>

theorem helper_copies_agree:
  "map call_signature old_helper_decls = map call_signature helper_decls \<and>
   map h_id helper_decls = [1..<212] \<and> list_all (\<lambda>h. length (h_params h) \<le> 5) helper_decls \<and>
   list_all (\<lambda>h. \<not> h_fastcall h) old_helper_decls \<and>
   map h_fastcall helper_decls = map (\<lambda>n. n = 8) [1..<212]"
  by (simp only: call_signatures_agree helper_decls_ids helper_arities fastcall_helpers simp_thms)

end
