(* ===== verification/Bpf_Macros.thy ===== *)
theory Bpf_Macros
  imports Bpf_Helpers
begin

unbundle bit_operations_syntax

text \<open>
  The other macros of bpf_helpers.h that compute something: version numbers, \<open>container_of\<close>, the printing macros for
  sequence files and for buffers, and the loops over iterators, \<open>bpf_for_each\<close>, \<open>bpf_for\<close> and \<open>bpf_repeat\<close>.
  The iterators are kernel functions and parameters here.
\<close>

section \<open>Numbers\<close>

definition KERNEL_VERSION :: "nat \<Rightarrow> nat \<Rightarrow> nat \<Rightarrow> nat" where
  "KERNEL_VERSION a b c = push_bit 16 a + push_bit 8 b + (if 255 < c then 255 else c)"

text \<open>The address of a structure from the address of one of its members.\<close>

definition container_of :: "u64 \<Rightarrow> u64 \<Rightarrow> u64" where
  "container_of ptr member_offset = ptr - member_offset"

section \<open>Printing\<close>

text \<open>A call of a printing helper with its arguments: target, format, size of the format, values, their size.\<close>

datatype fmt_call =
    Seq_printf u64 string nat "u64 list" nat
  | Snprintf u64 u32 string "u64 list" nat

definition fill_param :: "(nat \<Rightarrow> u64) \<Rightarrow> u64 list \<Rightarrow> u64 list option" where
  "fill_param junk args =
     (case bpf_narg args of
        Some (T_num n) \<Rightarrow> bpf_fill (map junk [0..<n]) args
      | _ \<Rightarrow> None)"

definition BPF_SEQ_PRINTF :: "(nat \<Rightarrow> u64) \<Rightarrow> u64 \<Rightarrow> string \<Rightarrow> u64 list \<Rightarrow> fmt_call option" where
  "BPF_SEQ_PRINTF junk seq fmt args =
     map_option (\<lambda>param. Seq_printf seq fmt (Suc (length fmt)) param (8 * length param)) (fill_param junk args)"

definition BPF_SNPRINTF :: "(nat \<Rightarrow> u64) \<Rightarrow> u64 \<Rightarrow> u32 \<Rightarrow> string \<Rightarrow> u64 list \<Rightarrow> fmt_call option" where
  "BPF_SNPRINTF junk out_buf out_size fmt args =
     map_option (\<lambda>param. Snprintf out_buf out_size fmt param (8 * length param)) (fill_param junk args)"

section \<open>Loops over iterators\<close>

text \<open>
  An iterator has a state of its own; \<open>it_next\<close> gives the element a pointer refers to, or nothing for a null pointer. The body
  of a loop works on the state of the program and goes on (at its end or with \<open>continue\<close>), breaks, or returns
  from the function around the loop.
\<close>

record ('i, 'e) iter_ops =
  it_next :: "'i \<Rightarrow> 'e option \<times> 'i"
  it_destroy :: "'i \<Rightarrow> 'i"

datatype 'r flow = Go_on | Break | Return 'r

text \<open>
  \<open>for (init; cond; ) body\<close>: the condition steps the iterator and may set variables. A loop need not end: then there
  is no result. The result says whether the function goes on behind the loop (\<open>Go_on\<close>) or returns.
\<close>

partial_function (option) for_loop ::
    "('i \<Rightarrow> 's \<Rightarrow> bool \<times> 'i \<times> 's) \<Rightarrow> ('s \<Rightarrow> 'r flow \<times> 's) \<Rightarrow> 'i \<Rightarrow> 's \<Rightarrow> ('r flow \<times> 'i \<times> 's) option" where
  "for_loop cond body it s =
     (case cond it s of (ok, it1, s1) \<Rightarrow>
        if \<not> ok then Some (Go_on, it1, s1)
        else (case body s1 of (f, s2) \<Rightarrow>
          case f of
            Go_on \<Rightarrow> for_loop cond body it1 s2
          | Break \<Rightarrow> Some (Go_on, it1, s2)
          | Return r \<Rightarrow> Some (Return r, it1, s2)))"

text \<open>The cleanup attribute: the iterator is destroyed when control leaves the loop, on whichever way.\<close>

definition with_cleanup :: "('i \<Rightarrow> 'i) \<Rightarrow> ('r flow \<times> 'i \<times> 's) option \<Rightarrow> ('r flow \<times> 'i \<times> 's) option" where
  "with_cleanup destroy = map_option (\<lambda>(f, it, s). (f, destroy it, s))"

text \<open>\<open>cur\<close> is set at each step, to a null pointer at the last one.\<close>

definition bpf_for_each :: "('i, 'e) iter_ops \<Rightarrow> 'i \<Rightarrow> ('e option \<Rightarrow> 's \<Rightarrow> 's) \<Rightarrow> ('s \<Rightarrow> 'r flow \<times> 's) \<Rightarrow> 's \<Rightarrow> ('r flow \<times> 'i \<times> 's) option" where
  "bpf_for_each I it0 set_cur body s =
     with_cleanup (it_destroy I)
       (for_loop (\<lambda>it s. case it_next I it of (t, it') \<Rightarrow> (t \<noteq> None, it', set_cur t s)) body it0 s)"

text \<open>
  The iterator over numbers is made from the values that \<open>start\<close> and \<open>end\<close> have before the loop; the check in the
  condition evaluates both again at each step. \<open>get_i\<close> and \<open>set_i\<close> read and write the variable \<open>i\<close>.
\<close>

definition bpf_for ::
    "('i, int) iter_ops \<Rightarrow> (int \<Rightarrow> int \<Rightarrow> 'i) \<Rightarrow> ('s \<Rightarrow> int) \<Rightarrow> (int \<Rightarrow> 's \<Rightarrow> 's) \<Rightarrow> ('s \<Rightarrow> int) \<Rightarrow> ('s \<Rightarrow> int) \<Rightarrow>
     ('s \<Rightarrow> 'r flow \<times> 's) \<Rightarrow> 's \<Rightarrow> ('r flow \<times> 'i \<times> 's) option" where
  "bpf_for I new get_i set_i start_e end_e body s =
     with_cleanup (it_destroy I)
       (for_loop (\<lambda>it s. case it_next I it of
            (None, it') \<Rightarrow> (False, it', s)
          | (Some t, it') \<Rightarrow>
              let s' = set_i t s in (start_e s' \<le> get_i s' \<and> get_i s' < end_e s', it', s'))
        body (new (start_e s) (end_e s)) s)"

definition bpf_repeat :: "('i, int) iter_ops \<Rightarrow> (int \<Rightarrow> int \<Rightarrow> 'i) \<Rightarrow> int \<Rightarrow> ('s \<Rightarrow> 'r flow \<times> 's) \<Rightarrow> 's \<Rightarrow> ('r flow \<times> 'i \<times> 's) option" where
  "bpf_repeat I new N body s =
     with_cleanup (it_destroy I)
       (for_loop (\<lambda>it s. case it_next I it of (t, it') \<Rightarrow> (t \<noteq> None, it', s)) body (new 0 N) s)"

section \<open>What a loop is meant to do\<close>

text \<open>The elements an iterator gives before its first null pointer, and the body run over a list of elements.\<close>

fun yields :: "('i, 'e) iter_ops \<Rightarrow> 'i \<Rightarrow> 'e list \<Rightarrow> bool" where
  "yields I it [] \<longleftrightarrow> fst (it_next I it) = None"
| "yields I it (v # vs) \<longleftrightarrow> fst (it_next I it) = Some v \<and> yields I (snd (it_next I it)) vs"

fun run_over :: "('e \<Rightarrow> 's \<Rightarrow> 'r flow \<times> 's) \<Rightarrow> 'e list \<Rightarrow> 's \<Rightarrow> 'r flow \<times> 's" where
  "run_over body [] s = (Go_on, s)"
| "run_over body (v # vs) s =
     (case body v s of
        (Go_on, s') \<Rightarrow> run_over body vs s'
      | (Break, s') \<Rightarrow> (Break, s')
      | (Return r, s') \<Rightarrow> (Return r, s'))"

text \<open>What is behind the loop of this outcome.\<close>

definition after_loop :: "'r flow \<Rightarrow> 'r flow" where
  "after_loop f = (case f of Return r \<Rightarrow> Return r | _ \<Rightarrow> Go_on)"

section \<open>Facts\<close>

lemma narg_many: "12 < length args \<Longrightarrow> bpf_narg args = Some (T_arg (args ! 12))"
  by (simp add: bpf_narg_def nth_many del: list.map)

lemma fill_param_value: "fill_param junk args = (if length args \<le> 12 then Some args else None)"
  by (simp add: fill_param_def narg_few bpf_fill_def fill_n_all narg_many)

lemma for_loop_yields:
  assumes "yields I it vs"
    and "\<And>it s v it'. it_next I it = (Some v, it') \<Longrightarrow> Q v s \<Longrightarrow> cond it s = (True, it', upd v s)"
    and "\<And>it s it'. it_next I it = (None, it') \<Longrightarrow> cond it s = (False, it', fin s)"
    and "\<And>v s s'. v \<in> set vs \<Longrightarrow> P s \<Longrightarrow> body (upd v s) = (Go_on, s') \<Longrightarrow> P s'"
    and "\<And>v s. v \<in> set vs \<Longrightarrow> P s \<Longrightarrow> Q v s" and "P s"
  shows "\<exists>it'. for_loop cond body it s = (case run_over (\<lambda>v s. body (upd v s)) vs s of
    (f, s') \<Rightarrow> Some (after_loop f, it', if f = Go_on then fin s' else s'))"
  using assms
proof (induction vs arbitrary: it s)
  case Nil
  then show ?case
    by (cases "it_next I it") (auto simp: for_loop.simps [of cond] after_loop_def)
next
  case (Cons v vs)
  then obtain it' where step: "it_next I it = (Some v, it')" "yields I it' vs"
    by (cases "it_next I it") auto
  have cond: "cond it s = (True, it', upd v s)"
    using Cons.prems(2) [OF step(1)] Cons.prems(5,6) by simp
  obtain f s2 where body: "body (upd v s) = (f, s2)"
    by fastforce
  show ?case
  proof (cases f)
    case Go_on
    with Cons.prems(4) [of v s s2] body Cons.prems(6) have "P s2"
      by simp
    have "\<exists>it1. for_loop cond body it' s2 = (case run_over (\<lambda>v s. body (upd v s)) vs s2 of
        (f, s') \<Rightarrow> Some (after_loop f, it1, if f = Go_on then fin s' else s'))"
      by (rule Cons.IH [OF step(2) Cons.prems(2,3) _ _ \<open>P s2\<close>]) (blast intro: Cons.prems(4,5) list.set_intros(2))+
    with Go_on body cond show ?thesis
      by (simp add: for_loop.simps [of cond body it s])
  qed (simp_all add: for_loop.simps [of cond body it s] cond body after_loop_def)
qed

text \<open>Only what the body does behind a condition that holds matters.\<close>

lemma for_loop_mono:
  assumes "\<And>it s it1 s1. cond it s = (True, it1, s1) \<Longrightarrow> body s1 = body' s1" and "for_loop cond body it s = Some r"
  shows "for_loop cond body' it s = Some r"
proof -
  let ?same = "\<lambda>cond body. \<forall>it s it1 s1. cond it s = (True, it1, s1) \<longrightarrow> body s1 = body' s1"
  have "?same cond body \<longrightarrow> for_loop cond body' it s = Some r"
  proof (rule for_loop.raw_induct [where P = "\<lambda>cond body it s r. ?same cond body \<longrightarrow> for_loop cond body' it s = Some r", OF _ assms(2)])
    fix loop cond body it s r
    assume *: "\<And>cond body it s r. loop cond body it s = Some r \<Longrightarrow> ?same cond body \<longrightarrow> for_loop cond body' it s = Some r"
      and run: "(case cond it s of (ok, it1, s1) \<Rightarrow>
        if \<not> ok then Some (Go_on, it1, s1)
        else (case body s1 of (f, s2) \<Rightarrow>
          case f of
            Go_on \<Rightarrow> loop cond body it1 s2
          | Break \<Rightarrow> Some (Go_on, it1, s2)
          | Return r \<Rightarrow> Some (Return r, it1, s2))) = Some r"
    obtain ok it1 s1 where c: "cond it s = (ok, it1, s1)"
      by (metis prod_cases3)
    obtain f s2 where b: "body s1 = (f, s2)"
      by fastforce
    show "?same cond body \<longrightarrow> for_loop cond body' it s = Some r"
    proof
      assume same: "?same cond body"
      show "for_loop cond body' it s = Some r"
      proof (cases ok)
        case True
        with same c b have "body' s1 = (f, s2)"
          by (metis)
        with True run c b * [of cond body it1 s2 r] same show ?thesis
          by (cases f) (simp_all add: for_loop.simps [of cond body' it s])
      next
        case False
        with run c show ?thesis
          by (simp add: for_loop.simps [of cond body' it s])
      qed
    qed
  qed
  with assms(1) show ?thesis
    by blast
qed

lemma for_loop_cong:
  assumes "\<And>it s it1 s1. cond it s = (True, it1, s1) \<Longrightarrow> body s1 = body' s1"
  shows "for_loop cond body it s = for_loop cond body' it s"
proof (cases "for_loop cond body it s")
  case None
  then show ?thesis
    using for_loop_mono [of cond body' body it s] assms by (cases "for_loop cond body' it s") auto
next
  case (Some r)
  with for_loop_mono [of cond body body' it s r] assms show ?thesis
    by auto
qed

section \<open>Properties\<close>

text \<open>
  C39: \<open>bpf_for(i, start, end)\<close> runs its body with \<open>i\<close> from \<open>start\<close> up to and without \<open>end\<close>, in order and each once, until
  the body breaks or returns; it ends, and whichever way control leaves the loop, the iterator is destroyed. This needs what the
  header asks for: \<open>start\<close> and \<open>end\<close> keep their values, and an iterator that gives the numbers of the range.
\<close>

theorem bpf_for_runs_range:
  assumes "yields I (new (start_e s) (end_e s)) [start_e s..end_e s - 1]"
    and "\<And>v s. get_i (set_i v s) = v"
    and "\<And>v s. start_e (set_i v s) = start_e s \<and> end_e (set_i v s) = end_e s"
    and "\<And>s s'. body s = (Go_on, s') \<Longrightarrow> start_e s' = start_e s \<and> end_e s' = end_e s"
  shows "\<exists>it'. bpf_for I new get_i set_i start_e end_e body s =
    (case run_over (\<lambda>v s. body (set_i v s)) [start_e s..end_e s - 1] s of (f, s') \<Rightarrow> Some (after_loop f, it_destroy I it', s'))"
proof -
  let ?cond = "\<lambda>it s. case it_next I it of (None, it') \<Rightarrow> (False, it', s)
    | (Some t, it') \<Rightarrow> let s' = set_i t s in (start_e s' \<le> get_i s' \<and> get_i s' < end_e s', it', s')"
  have "\<exists>it'. for_loop ?cond body (new (start_e s) (end_e s)) s =
      (case run_over (\<lambda>v s. body (set_i v s)) [start_e s..end_e s - 1] s of
         (f, s') \<Rightarrow> Some (after_loop f, it', if f = Go_on then s' else s'))"
    by (rule for_loop_yields [where P = "\<lambda>t. start_e t = start_e s \<and> end_e t = end_e s" and
          Q = "\<lambda>v t. start_e t \<le> v \<and> v < end_e t", OF assms(1)])
      (use assms(2-4) in \<open>auto simp: Let_def\<close>)
  then show ?thesis
    by (auto simp: bpf_for_def with_cleanup_def split: prod.splits)
qed

text \<open>An iterator that counts; a loop that adds up the numbers from 2 and breaks when it meets 5.\<close>

definition counting :: "(int \<times> int, int) iter_ops" where
  "counting = \<lparr>it_next = (\<lambda>(a, b). if a < b then (Some a, (a + 1, b)) else (None, (a, b))), it_destroy = (\<lambda>_. (0, 0))\<rparr>"

definition add_up :: "int \<times> int \<Rightarrow> int flow \<times> int \<times> int" where
  "add_up = (\<lambda>(i, acc). if i = 5 then (Break, (i, acc)) else (Go_on, (i, acc + i)))"

theorem bpf_for_runs_range_witness:
  "bpf_for counting Pair fst (\<lambda>v s. (v, snd s)) (\<lambda>_. 2) (\<lambda>_. 8) add_up (0, 0) = Some (Go_on, (0, 0), (5, 9))"
proof -
  have "[2..7] = [2, 3, 4, 5, 6, 7 :: int]"
    by (simp add: upto.simps)
  moreover have "\<exists>it'. bpf_for counting Pair fst (\<lambda>v s. (v, snd s)) (\<lambda>_. 2) (\<lambda>_. 8) add_up (0, 0) =
      (case run_over (\<lambda>v s. add_up (v, snd s)) [2..8 - 1] (0, 0) of (f, s') \<Rightarrow> Some (after_loop f, it_destroy counting it', s'))"
    by (rule bpf_for_runs_range) (simp_all add: counting_def upto.simps)
  ultimately show ?thesis
    by (simp add: add_up_def after_loop_def counting_def split: prod.splits)
qed

text \<open>
  The check in \<open>bpf_for\<close> keeps \<open>i\<close> in the range whatever the iterator gives: it does not matter what the body would do with
  another \<open>i\<close>.
\<close>

theorem bpf_for_in_range:
  "bpf_for I new get_i set_i start_e end_e body s =
   bpf_for I new get_i set_i start_e end_e (\<lambda>s. if start_e s \<le> get_i s \<and> get_i s < end_e s then body s else other s) s"
  unfolding bpf_for_def
  by (intro arg_cong [where f = "with_cleanup (it_destroy I)"] for_loop_cong)
    (auto simp: Let_def split: prod.splits option.splits)

text \<open>\<open>bpf_for_each\<close> and \<open>bpf_repeat\<close>: once for each element of the iterator.\<close>

theorem bpf_for_each_runs_elements:
  assumes "yields I it0 vs"
  shows "\<exists>it'. bpf_for_each I it0 set_cur body s =
    (case run_over (\<lambda>v s. body (set_cur (Some v) s)) vs s of
       (f, s') \<Rightarrow> Some (after_loop f, it_destroy I it', if f = Go_on then set_cur None s' else s'))"
proof -
  let ?cond = "\<lambda>it s. case it_next I it of (t, it') \<Rightarrow> (t \<noteq> None, it', set_cur t s)"
  have "\<exists>it'. for_loop ?cond body it0 s =
      (case run_over (\<lambda>v s. body (set_cur (Some v) s)) vs s of
         (f, s') \<Rightarrow> Some (after_loop f, it', if f = Go_on then set_cur None s' else s'))"
    by (rule for_loop_yields [where P = "\<lambda>_. True" and Q = "\<lambda>_ _. True", OF assms]) auto
  then show ?thesis
    by (auto simp: bpf_for_each_def with_cleanup_def split: prod.splits)
qed

theorem bpf_repeat_runs_times:
  assumes "yields I (new 0 N) [0..N - 1]"
  shows "\<exists>it'. bpf_repeat I new N body s =
    (case run_over (\<lambda>_. body) [0..N - 1] s of (f, s') \<Rightarrow> Some (after_loop f, it_destroy I it', s'))"
proof -
  let ?cond = "\<lambda>it s. case it_next I it of (t, it') \<Rightarrow> (t \<noteq> None, it', s)"
  have "\<exists>it'. for_loop ?cond body (new 0 N) s =
      (case run_over (\<lambda>v s. body s) [0..N - 1] s of (f, s') \<Rightarrow> Some (after_loop f, it', if f = Go_on then s' else s'))"
    by (rule for_loop_yields [where P = "\<lambda>_. True" and Q = "\<lambda>_ _. True" and upd = "\<lambda>_ s. s", OF assms]) auto
  then show ?thesis
    by (auto simp: bpf_repeat_def with_cleanup_def split: prod.splits)
qed

text \<open>
  Version numbers are ordered as their three parts are, the last one cut at 255, as long as the second fits a byte.
\<close>

theorem kernel_version_order:
  assumes "b < 256" and "b' < 256"
  shows "KERNEL_VERSION a b c \<le> KERNEL_VERSION a' b' c' \<longleftrightarrow>
    a < a' \<or> a = a' \<and> (b < b' \<or> b = b' \<and> min c 255 \<le> min c' 255)"
proof -
  have num: "KERNEL_VERSION a b c = 65536 * a + 256 * b + min c 255" for a b c
    by (simp add: KERNEL_VERSION_def push_bit_eq_mult min_def)
  have "min c 255 \<le> 255" "min c' 255 \<le> 255"
    by simp_all
  then show ?thesis
    using assms unfolding num by linarith
qed

text \<open>The printing macros pass an array with exactly the values, and its size in bytes; with more than twelve they do not compile.\<close>

theorem printf_macros_pass_values:
  "BPF_SEQ_PRINTF junk seq fmt args =
     (if length args \<le> 12 then Some (Seq_printf seq fmt (Suc (length fmt)) args (8 * length args)) else None) \<and>
   BPF_SNPRINTF junk out_buf out_size fmt args =
     (if length args \<le> 12 then Some (Snprintf out_buf out_size fmt args (8 * length args)) else None)"
  by (simp add: BPF_SEQ_PRINTF_def BPF_SNPRINTF_def fill_param_value)

end
