(* ===== verification/Libbpf_Api.thy ===== *)
theory Libbpf_Api
  imports Bpf_Macros
begin

text \<open>
  What the API headers of libbpf hold besides structures and prototypes: enumerations, version numbers, the two loops over
  the programs and the maps of an object, and the packing of a traffic control handle. The library's functions that a
  loop calls are parameters. \<open>libbpf_print_level\<close> is in \<open>Apps\<close>.
\<close>

section \<open>Enumerations\<close>

text \<open>An enumerator has a value of its own, the value of an earlier one, or one more than the enumerator before it.\<close>

datatype enum_init = Counted | Value int | Same string

fun enum_values :: "int \<Rightarrow> (string \<times> int) list \<Rightarrow> (string \<times> enum_init) list \<Rightarrow> (string \<times> int) list option" where
  "enum_values n env [] = Some (rev env)"
| "enum_values n env ((x, i) # xs) =
     (case (case i of Counted \<Rightarrow> Some n | Value k \<Rightarrow> Some k | Same y \<Rightarrow> map_of env y) of
        None \<Rightarrow> None
      | Some v \<Rightarrow> enum_values (v + 1) ((x, v) # env) xs)"

definition c_enum :: "(string \<times> enum_init) list \<Rightarrow> (string \<times> int) list option" where
  "c_enum = enum_values 0 []"

definition libbpf_errno :: "(string \<times> enum_init) list" where
  "libbpf_errno =
     [(''__LIBBPF_ERRNO__START'', Value 4000),
      (''LIBBPF_ERRNO__LIBELF'', Same ''__LIBBPF_ERRNO__START''), (''LIBBPF_ERRNO__FORMAT'', Counted),
      (''LIBBPF_ERRNO__KVERSION'', Counted), (''LIBBPF_ERRNO__ENDIAN'', Counted), (''LIBBPF_ERRNO__INTERNAL'', Counted),
      (''LIBBPF_ERRNO__RELOC'', Counted), (''LIBBPF_ERRNO__LOAD'', Counted), (''LIBBPF_ERRNO__VERIFY'', Counted),
      (''LIBBPF_ERRNO__PROG2BIG'', Counted), (''LIBBPF_ERRNO__KVER'', Counted), (''LIBBPF_ERRNO__PROGTYPE'', Counted),
      (''LIBBPF_ERRNO__WRNGPID'', Counted), (''LIBBPF_ERRNO__INVSEQ'', Counted), (''LIBBPF_ERRNO__NLPARSE'', Counted),
      (''__LIBBPF_ERRNO__END'', Counted)]"

definition probe_attach_mode :: "(string \<times> enum_init) list" where
  "probe_attach_mode =
     [(''PROBE_ATTACH_MODE_DEFAULT'', Value 0), (''PROBE_ATTACH_MODE_LEGACY'', Counted),
      (''PROBE_ATTACH_MODE_PERF'', Counted), (''PROBE_ATTACH_MODE_LINK'', Counted)]"

definition bpf_tc_attach_point :: "(string \<times> enum_init) list" where
  "bpf_tc_attach_point =
     [(''BPF_TC_INGRESS'', Value (push_bit 0 1)), (''BPF_TC_EGRESS'', Value (push_bit 1 1)),
      (''BPF_TC_CUSTOM'', Value (push_bit 2 1))]"

definition bpf_tc_flags :: "(string \<times> enum_init) list" where
  "bpf_tc_flags = [(''BPF_TC_F_REPLACE'', Value (push_bit 0 1))]"

definition bpf_perf_event_ret :: "(string \<times> enum_init) list" where
  "bpf_perf_event_ret =
     [(''LIBBPF_PERF_EVENT_DONE'', Value 0), (''LIBBPF_PERF_EVENT_ERROR'', Value (- 1)),
      (''LIBBPF_PERF_EVENT_CONT'', Value (- 2))]"

definition libbpf_tristate :: "(string \<times> enum_init) list" where
  "libbpf_tristate = [(''TRI_NO'', Value 0), (''TRI_YES'', Value 1), (''TRI_MODULE'', Value 2)]"

definition libbpf_strict_mode :: "(string \<times> enum_init) list" where
  "libbpf_strict_mode =
     [(''LIBBPF_STRICT_ALL'', Value 0xffffffff), (''LIBBPF_STRICT_NONE'', Value 0x00),
      (''LIBBPF_STRICT_CLEAN_PTRS'', Value 0x01), (''LIBBPF_STRICT_DIRECT_ERRS'', Value 0x02),
      (''LIBBPF_STRICT_SEC_NAME'', Value 0x04), (''LIBBPF_STRICT_NO_OBJECT_LIST'', Value 0x08),
      (''LIBBPF_STRICT_AUTO_RLIMIT_MEMLOCK'', Value 0x10), (''LIBBPF_STRICT_MAP_DEFINITIONS'', Value 0x20),
      (''__LIBBPF_STRICT_LAST'', Counted)]"

definition btf_endianness :: "(string \<times> enum_init) list" where
  "btf_endianness = [(''BTF_LITTLE_ENDIAN'', Value 0), (''BTF_BIG_ENDIAN'', Value 1)]"

definition btf_fwd_kind :: "(string \<times> enum_init) list" where
  "btf_fwd_kind = [(''BTF_FWD_STRUCT'', Value 0), (''BTF_FWD_UNION'', Value 1), (''BTF_FWD_ENUM'', Value 2)]"

section \<open>Versions\<close>

definition LIBBPF_MAJOR_VERSION :: nat where "LIBBPF_MAJOR_VERSION = 1"

definition LIBBPF_MINOR_VERSION :: nat where "LIBBPF_MINOR_VERSION = 6"

definition old_LIBBPF_MAJOR_VERSION :: nat where "old_LIBBPF_MAJOR_VERSION = 1"

definition old_LIBBPF_MINOR_VERSION :: nat where "old_LIBBPF_MINOR_VERSION = 3"

text \<open>\<open>__LIBBPF_CURRENT_VERSION_GEQ\<close> for a header of version \<open>M.m\<close>, and the mark that depends on it.\<close>

definition CURRENT_VERSION_GEQ :: "nat \<Rightarrow> nat \<Rightarrow> nat \<Rightarrow> nat \<Rightarrow> bool" where
  "CURRENT_VERSION_GEQ M m major minor \<longleftrightarrow> M > major \<or> (M = major \<and> m \<ge> minor)"

definition MARK_DEPRECATED_1_0 :: "nat \<Rightarrow> nat \<Rightarrow> 'a list \<Rightarrow> 'a list" where
  "MARK_DEPRECATED_1_0 M m X = (if CURRENT_VERSION_GEQ M m 1 0 then X else [])"

section \<open>Loops over the programs and the maps of an object\<close>

text \<open>
  \<open>for (pos = next(obj, NULL); pos != NULL; pos = next(obj, pos)) body\<close>. The variable \<open>pos\<close> is part of the state, and what
  \<open>next\<close> gives may depend on the state, since the body can change the object.
\<close>

partial_function (option) next_loop ::
    "('s \<Rightarrow> 'p option) \<Rightarrow> ('p option \<Rightarrow> 's \<Rightarrow> 's) \<Rightarrow> ('s \<Rightarrow> 'p option \<Rightarrow> 'p option) \<Rightarrow> ('s \<Rightarrow> 'r flow \<times> 's) \<Rightarrow>
     's \<Rightarrow> ('r flow \<times> 's) option" where
  "next_loop pos set_pos nxt body s =
     (if pos s = None then Some (Go_on, s)
      else (case body s of (f, s1) \<Rightarrow>
        case f of
          Go_on \<Rightarrow> next_loop pos set_pos nxt body (set_pos (nxt s1 (pos s1)) s1)
        | Break \<Rightarrow> Some (Go_on, s1)
        | Return r \<Rightarrow> Some (Return r, s1)))"

definition bpf_object__for_each_program ::
    "('s \<Rightarrow> 'p option \<Rightarrow> 'p option) \<Rightarrow> ('s \<Rightarrow> 'p option) \<Rightarrow> ('p option \<Rightarrow> 's \<Rightarrow> 's) \<Rightarrow> ('s \<Rightarrow> 'r flow \<times> 's) \<Rightarrow>
     's \<Rightarrow> ('r flow \<times> 's) option" where
  "bpf_object__for_each_program next_program pos set_pos body s =
     next_loop pos set_pos next_program body (set_pos (next_program s None) s)"

definition bpf_object__for_each_map ::
    "('s \<Rightarrow> 'm option \<Rightarrow> 'm option) \<Rightarrow> ('s \<Rightarrow> 'm option) \<Rightarrow> ('m option \<Rightarrow> 's \<Rightarrow> 's) \<Rightarrow> ('s \<Rightarrow> 'r flow \<times> 's) \<Rightarrow>
     's \<Rightarrow> ('r flow \<times> 's) option" where
  "bpf_object__for_each_map next_map pos set_pos body s =
     next_loop pos set_pos next_map body (set_pos (next_map s None) s)"

section \<open>Handles of traffic control\<close>

unbundle bit_operations_syntax

definition BPF_TC_PARENT :: "u32 \<Rightarrow> u32 \<Rightarrow> u32" where
  "BPF_TC_PARENT a b = (push_bit 16 a AND 0xFFFF0000) OR (b AND 0x0000FFFF)"

section \<open>Facts\<close>

text \<open>
  libbpf's own error codes lie behind every \<open>errno\<close> of the system and within the 4095 codes that fit an error pointer. The first one
  has the number of the mark before it.
\<close>

lemma libbpf_errno_values:
  "map_option (map snd) (c_enum libbpf_errno) = Some (4000 # [4000..4014])"
  by (simp add: c_enum_def libbpf_errno_def upto_rec1)

lemma enums_defined:
  "list_all (\<lambda>e. c_enum e \<noteq> None)
     [libbpf_errno, probe_attach_mode, bpf_tc_attach_point, bpf_tc_flags, bpf_perf_event_ret,
      libbpf_tristate, libbpf_strict_mode, btf_endianness, btf_fwd_kind]"
  by (simp add: c_enum_def libbpf_errno_def probe_attach_mode_def bpf_tc_attach_point_def
    bpf_tc_flags_def bpf_perf_event_ret_def libbpf_tristate_def libbpf_strict_mode_def btf_endianness_def btf_fwd_kind_def)

text \<open>The comparison composes, the newer copy is at least as new as the older one, and both deprecate what 1.0 deprecated.\<close>

lemma version_trans: "CURRENT_VERSION_GEQ M m a b \<Longrightarrow> CURRENT_VERSION_GEQ a b c d \<Longrightarrow> CURRENT_VERSION_GEQ M m c d"
  by (auto simp: CURRENT_VERSION_GEQ_def)

lemma deprecated_in_both:
  "MARK_DEPRECATED_1_0 LIBBPF_MAJOR_VERSION LIBBPF_MINOR_VERSION X = X"
  "MARK_DEPRECATED_1_0 old_LIBBPF_MAJOR_VERSION old_LIBBPF_MINOR_VERSION X = X"
  by (simp_all add: MARK_DEPRECATED_1_0_def CURRENT_VERSION_GEQ_def LIBBPF_MAJOR_VERSION_def LIBBPF_MINOR_VERSION_def
    old_LIBBPF_MAJOR_VERSION_def old_LIBBPF_MINOR_VERSION_def)

lemma copies_ordered:
  "CURRENT_VERSION_GEQ LIBBPF_MAJOR_VERSION LIBBPF_MINOR_VERSION old_LIBBPF_MAJOR_VERSION old_LIBBPF_MINOR_VERSION"
  by (simp add: CURRENT_VERSION_GEQ_def LIBBPF_MAJOR_VERSION_def LIBBPF_MINOR_VERSION_def
    old_LIBBPF_MAJOR_VERSION_def old_LIBBPF_MINOR_VERSION_def)

text \<open>A handle keeps the low halves of both numbers.\<close>

lemma tc_parent_halves:
  "drop_bit 16 (BPF_TC_PARENT a b) = take_bit 16 a" "take_bit 16 (BPF_TC_PARENT a b) = take_bit 16 b"
proof -
  have low: "(0x0000FFFF :: u32) = mask 16" and high: "(0xFFFF0000 :: u32) = push_bit 16 (mask 16)"
    by (simp_all add: mask_eq_exp_minus_1)
  show "drop_bit 16 (BPF_TC_PARENT a b) = take_bit 16 a" "take_bit 16 (BPF_TC_PARENT a b) = take_bit 16 b"
    unfolding BPF_TC_PARENT_def low high by (rule bit_word_eqI; auto simp: bit_simps)+
qed

text \<open>What \<open>next\<close> promises: it walks through the list of the object's elements.\<close>

fun next_in :: "'p list \<Rightarrow> 'p option \<Rightarrow> 'p option" where
  "next_in [] _ = None"
| "next_in (x # xs) None = Some x"
| "next_in (x # xs) (Some y) = (if x = y then next_in xs None else next_in xs (Some y))"

lemma next_in_append: "distinct (ys @ x # zs) \<Longrightarrow> next_in (ys @ x # zs) (Some x) = next_in zs None"
  by (induction ys) auto

lemma next_loop_visits:
  assumes nxt: "\<And>s p. Inv s \<Longrightarrow> nxt s p = next_in xs p" and "distinct xs"
    and pos: "\<And>p s. pos (set_pos p s) = p" and set: "\<And>p s. Inv s \<Longrightarrow> Inv (set_pos p s)"
    and body: "\<And>v s s'. v \<in> set xs \<Longrightarrow> Inv s \<Longrightarrow> body (set_pos (Some v) s) = (Go_on, s') \<Longrightarrow> Inv s' \<and> pos s' = Some v"
    and "Inv s"
  shows "next_loop pos set_pos nxt body (set_pos (nxt s None) s) =
    (case run_over (\<lambda>v s. body (set_pos (Some v) s)) xs s of
       (f, s') \<Rightarrow> Some (after_loop f, if f = Go_on then set_pos None s' else s'))"
proof -
  have "next_loop pos set_pos nxt body (set_pos (next_in zs None) s) =
      (case run_over (\<lambda>v s. body (set_pos (Some v) s)) zs s of
         (f, s') \<Rightarrow> Some (after_loop f, if f = Go_on then set_pos None s' else s'))"
    if "xs = ys @ zs" "Inv s" for ys zs s
    using that
  proof (induction zs arbitrary: ys s)
    case Nil
    then show ?case
      by (simp add: next_loop.simps [of pos] pos after_loop_def)
  next
    case (Cons z zs)
    obtain f s1 where b: "body (set_pos (Some z) s) = (f, s1)"
      by fastforce
    show ?case
    proof (cases f)
      case Go_on
      then have "Inv s1" "pos s1 = Some z"
        using body [of z s s1] b Cons.prems by auto
      moreover have "nxt s1 (Some z) = next_in zs None"
        using nxt [OF \<open>Inv s1\<close>] next_in_append [of ys z zs] Cons.prems(1) assms(2) by simp
      ultimately show ?thesis
        using Cons.IH [of "ys @ [z]" s1] Cons.prems(1) Go_on b
        by (simp add: next_loop.simps [of pos set_pos nxt body "set_pos (Some z) s"] pos)
    qed (simp_all add: next_loop.simps [of pos set_pos nxt body "set_pos (Some z) s"] pos b after_loop_def)
  qed
  from this [of "[]" xs s] show ?thesis
    using nxt assms(6) by simp
qed

end
