(* ===== verification/Api_Types.thy ===== *)
theory Api_Types
  imports C_Types Libbpf_Api
begin

text \<open>
  What the prototypes of the two copies of libbpf.h, btf.h and libbpf_legacy.h name beside structures: the types of callbacks, by
  their results and parameters, and the enumerations of the older copy (those of the newer one are in \<open>Libbpf_Api\<close>, but
  for \<open>libbpf_print_level\<close>). \<open>va_list\<close> is a type of the compiler and keeps its name.
\<close>

section \<open>Callbacks\<close>

datatype callback = Callback (cb_name: string) (cb_ret: c_type) (cb_params: "c_type list")

definition print_callbacks :: "callback list" where
  "print_callbacks =
    [Callback ''libbpf_print_fn_t'' C_int [C_enum ''libbpf_print_level'', C_ptr (C_const C_char), C_struct ''va_list'']]"

definition ring_buffer_callbacks :: "callback list" where
  "ring_buffer_callbacks =
    [Callback ''ring_buffer_sample_fn'' C_int [C_ptr C_void, C_ptr C_void, C_size_t]]"

definition perf_buffer_callbacks :: "callback list" where
  "perf_buffer_callbacks =
    [Callback ''perf_buffer_sample_fn'' C_void [C_ptr C_void, C_int, C_ptr C_void, C_u32],
     Callback ''perf_buffer_lost_fn'' C_void [C_ptr C_void, C_int, C_u64]]"

definition perf_event_callbacks :: "callback list" where
  "perf_event_callbacks =
    [Callback ''perf_buffer_event_fn'' (C_enum ''bpf_perf_event_ret'') [C_ptr C_void, C_int, C_ptr (C_struct ''perf_event_header'')]]"

definition handler_callbacks :: "callback list" where
  "handler_callbacks =
    [Callback ''libbpf_prog_setup_fn_t'' C_int [C_ptr (C_struct ''bpf_program''), C_long],
     Callback ''libbpf_prog_prepare_load_fn_t'' C_int [C_ptr (C_struct ''bpf_program''), C_ptr (C_struct ''bpf_prog_load_opts''), C_long],
     Callback ''libbpf_prog_attach_fn_t'' C_int [C_ptr (C_const (C_struct ''bpf_program'')), C_long, C_ptr (C_ptr (C_struct ''bpf_link''))]]"

definition btf_callbacks :: "callback list" where
  "btf_callbacks =
    [Callback ''btf_dump_printf_fn_t'' C_void [C_ptr C_void, C_ptr (C_const C_char), C_struct ''va_list'']]"

definition api_callbacks :: "callback list" where
  "api_callbacks =
     print_callbacks @
     ring_buffer_callbacks @
     perf_buffer_callbacks @
     perf_event_callbacks @
     handler_callbacks @
     btf_callbacks"

definition old_print_callbacks :: "callback list" where
  "old_print_callbacks =
    [Callback ''libbpf_print_fn_t'' C_int [C_enum ''libbpf_print_level'', C_ptr (C_const C_char), C_struct ''va_list'']]"

definition old_ring_buffer_callbacks :: "callback list" where
  "old_ring_buffer_callbacks =
    [Callback ''ring_buffer_sample_fn'' C_int [C_ptr C_void, C_ptr C_void, C_size_t]]"

definition old_perf_buffer_callbacks :: "callback list" where
  "old_perf_buffer_callbacks =
    [Callback ''perf_buffer_sample_fn'' C_void [C_ptr C_void, C_int, C_ptr C_void, C_u32],
     Callback ''perf_buffer_lost_fn'' C_void [C_ptr C_void, C_int, C_u64]]"

definition old_perf_event_callbacks :: "callback list" where
  "old_perf_event_callbacks =
    [Callback ''perf_buffer_event_fn'' (C_enum ''bpf_perf_event_ret'') [C_ptr C_void, C_int, C_ptr (C_struct ''perf_event_header'')]]"

definition old_handler_callbacks :: "callback list" where
  "old_handler_callbacks =
    [Callback ''libbpf_prog_setup_fn_t'' C_int [C_ptr (C_struct ''bpf_program''), C_long],
     Callback ''libbpf_prog_prepare_load_fn_t'' C_int [C_ptr (C_struct ''bpf_program''), C_ptr (C_struct ''bpf_prog_load_opts''), C_long],
     Callback ''libbpf_prog_attach_fn_t'' C_int [C_ptr (C_const (C_struct ''bpf_program'')), C_long, C_ptr (C_ptr (C_struct ''bpf_link''))]]"

definition old_btf_callbacks :: "callback list" where
  "old_btf_callbacks =
    [Callback ''btf_dump_printf_fn_t'' C_void [C_ptr C_void, C_ptr (C_const C_char), C_struct ''va_list'']]"

definition old_api_callbacks :: "callback list" where
  "old_api_callbacks =
     old_print_callbacks @
     old_ring_buffer_callbacks @
     old_perf_buffer_callbacks @
     old_perf_event_callbacks @
     old_handler_callbacks @
     old_btf_callbacks"

section \<open>Enumerations\<close>

definition old_libbpf_errno :: "(string \<times> enum_init) list" where
  "old_libbpf_errno =
     [(''__LIBBPF_ERRNO__START'', Value 4000),
      (''LIBBPF_ERRNO__LIBELF'', Same ''__LIBBPF_ERRNO__START''),
      (''LIBBPF_ERRNO__FORMAT'', Counted), (''LIBBPF_ERRNO__KVERSION'', Counted),
      (''LIBBPF_ERRNO__ENDIAN'', Counted), (''LIBBPF_ERRNO__INTERNAL'', Counted),
      (''LIBBPF_ERRNO__RELOC'', Counted), (''LIBBPF_ERRNO__LOAD'', Counted),
      (''LIBBPF_ERRNO__VERIFY'', Counted), (''LIBBPF_ERRNO__PROG2BIG'', Counted),
      (''LIBBPF_ERRNO__KVER'', Counted), (''LIBBPF_ERRNO__PROGTYPE'', Counted),
      (''LIBBPF_ERRNO__WRNGPID'', Counted), (''LIBBPF_ERRNO__INVSEQ'', Counted),
      (''LIBBPF_ERRNO__NLPARSE'', Counted), (''__LIBBPF_ERRNO__END'', Counted)]"

definition old_libbpf_print_level :: "(string \<times> enum_init) list" where
  "old_libbpf_print_level =
     [(''LIBBPF_WARN'', Counted), (''LIBBPF_INFO'', Counted), (''LIBBPF_DEBUG'', Counted)]"

definition print_level_enum :: "(string \<times> enum_init) list" where
  "print_level_enum =
     [(''LIBBPF_WARN'', Counted), (''LIBBPF_INFO'', Counted), (''LIBBPF_DEBUG'', Counted)]"

definition old_probe_attach_mode :: "(string \<times> enum_init) list" where
  "old_probe_attach_mode =
     [(''PROBE_ATTACH_MODE_DEFAULT'', Value 0), (''PROBE_ATTACH_MODE_LEGACY'', Counted),
      (''PROBE_ATTACH_MODE_PERF'', Counted), (''PROBE_ATTACH_MODE_LINK'', Counted)]"

definition old_bpf_tc_attach_point :: "(string \<times> enum_init) list" where
  "old_bpf_tc_attach_point =
     [(''BPF_TC_INGRESS'', Value (push_bit 0 1)), (''BPF_TC_EGRESS'', Value (push_bit 1 1)),
      (''BPF_TC_CUSTOM'', Value (push_bit 2 1))]"

definition old_bpf_tc_flags :: "(string \<times> enum_init) list" where
  "old_bpf_tc_flags =
     [(''BPF_TC_F_REPLACE'', Value (push_bit 0 1))]"

definition old_bpf_perf_event_ret :: "(string \<times> enum_init) list" where
  "old_bpf_perf_event_ret =
     [(''LIBBPF_PERF_EVENT_DONE'', Value 0), (''LIBBPF_PERF_EVENT_ERROR'', Value (- 1)),
      (''LIBBPF_PERF_EVENT_CONT'', Value (- 2))]"

definition old_libbpf_tristate :: "(string \<times> enum_init) list" where
  "old_libbpf_tristate =
     [(''TRI_NO'', Value 0), (''TRI_YES'', Value 1), (''TRI_MODULE'', Value 2)]"

definition old_btf_endianness :: "(string \<times> enum_init) list" where
  "old_btf_endianness =
     [(''BTF_LITTLE_ENDIAN'', Value 0), (''BTF_BIG_ENDIAN'', Value 1)]"

definition old_btf_fwd_kind :: "(string \<times> enum_init) list" where
  "old_btf_fwd_kind =
     [(''BTF_FWD_STRUCT'', Value 0), (''BTF_FWD_UNION'', Value 1), (''BTF_FWD_ENUM'', Value 2)]"

definition old_libbpf_strict_mode :: "(string \<times> enum_init) list" where
  "old_libbpf_strict_mode =
     [(''LIBBPF_STRICT_ALL'', Value 0xffffffff), (''LIBBPF_STRICT_NONE'', Value 0x00),
      (''LIBBPF_STRICT_CLEAN_PTRS'', Value 0x01), (''LIBBPF_STRICT_DIRECT_ERRS'', Value 0x02),
      (''LIBBPF_STRICT_SEC_NAME'', Value 0x04), (''LIBBPF_STRICT_NO_OBJECT_LIST'', Value 0x08),
      (''LIBBPF_STRICT_AUTO_RLIMIT_MEMLOCK'', Value 0x10),
      (''LIBBPF_STRICT_MAP_DEFINITIONS'', Value 0x20), (''__LIBBPF_STRICT_LAST'', Counted)]"

text \<open>The enumerations by name, in the newer and the older copy.\<close>

definition api_enums :: "(string \<times> (string \<times> enum_init) list) list" where
  "api_enums =
    [(''libbpf_errno'', libbpf_errno),
     (''libbpf_print_level'', print_level_enum),
     (''probe_attach_mode'', probe_attach_mode),
     (''bpf_tc_attach_point'', bpf_tc_attach_point),
     (''bpf_tc_flags'', bpf_tc_flags),
     (''bpf_perf_event_ret'', bpf_perf_event_ret),
     (''libbpf_tristate'', libbpf_tristate),
     (''btf_endianness'', btf_endianness),
     (''btf_fwd_kind'', btf_fwd_kind),
     (''libbpf_strict_mode'', libbpf_strict_mode)]"

definition old_api_enums :: "(string \<times> (string \<times> enum_init) list) list" where
  "old_api_enums =
    [(''libbpf_errno'', old_libbpf_errno),
     (''libbpf_print_level'', old_libbpf_print_level),
     (''probe_attach_mode'', old_probe_attach_mode),
     (''bpf_tc_attach_point'', old_bpf_tc_attach_point),
     (''bpf_tc_flags'', old_bpf_tc_flags),
     (''bpf_perf_event_ret'', old_bpf_perf_event_ret),
     (''libbpf_tristate'', old_libbpf_tristate),
     (''btf_endianness'', old_btf_endianness),
     (''btf_fwd_kind'', old_btf_fwd_kind),
     (''libbpf_strict_mode'', old_libbpf_strict_mode)]"

section \<open>What stays\<close>

text \<open>The types of callbacks that a type names are among the declared ones.\<close>

fun callbacks_of :: "c_type \<Rightarrow> string list" where
  "callbacks_of (C_fun n) = [n]"
| "callbacks_of (C_ptr t) = callbacks_of t"
| "callbacks_of (C_const t) = callbacks_of t"
| "callbacks_of _ = []"

definition callbacks_declared :: "callback list \<Rightarrow> c_type list \<Rightarrow> bool" where
  "callbacks_declared cs ts \<longleftrightarrow> list_all (\<lambda>n. n \<in> cb_name ` set cs) (concat (map callbacks_of ts))"

text \<open>A type of callbacks that both copies name has the same result and parameters in both.\<close>

definition callback_stays :: "callback list \<Rightarrow> callback \<Rightarrow> bool" where
  "callback_stays new c \<longleftrightarrow> c \<in> set new"

text \<open>Every enumerator of an older enumeration has the same value in the newer enumeration of that name.\<close>

definition enum_stays :: "(string \<times> (string \<times> enum_init) list) list \<Rightarrow> string \<times> (string \<times> enum_init) list \<Rightarrow> bool" where
  "enum_stays new e =
     (case map_of new (fst e) of
        None \<Rightarrow> False
      | Some es \<Rightarrow>
          (case (c_enum (snd e), c_enum es) of
             (Some old_values, Some values) \<Rightarrow> list_all (\<lambda>(x, v). map_of values x = Some v) old_values
           | _ \<Rightarrow> False))"

lemmas callback_tables =
  api_callbacks_def print_callbacks_def ring_buffer_callbacks_def perf_buffer_callbacks_def perf_event_callbacks_def
  handler_callbacks_def btf_callbacks_def

lemmas old_callback_tables =
  old_api_callbacks_def old_print_callbacks_def old_ring_buffer_callbacks_def old_perf_buffer_callbacks_def
  old_perf_event_callbacks_def old_handler_callbacks_def old_btf_callbacks_def

lemma callbacks_stay: "list_all (callback_stays api_callbacks) old_api_callbacks"
  by (simp add: callback_stays_def callback_tables old_callback_tables)

lemmas new_enums =
  libbpf_errno_def print_level_enum_def probe_attach_mode_def bpf_tc_attach_point_def bpf_tc_flags_def bpf_perf_event_ret_def
  libbpf_tristate_def btf_endianness_def btf_fwd_kind_def libbpf_strict_mode_def

lemmas old_enums =
  old_libbpf_errno_def old_libbpf_print_level_def old_probe_attach_mode_def old_bpf_tc_attach_point_def old_bpf_tc_flags_def
  old_bpf_perf_event_ret_def old_libbpf_tristate_def old_btf_endianness_def old_btf_fwd_kind_def old_libbpf_strict_mode_def

lemma enums_stay: "list_all (enum_stays api_enums) old_api_enums"
  by (simp add: api_enums_def old_api_enums_def enum_stays_def c_enum_def new_enums old_enums)

end
