(* ===== verification/Api_Decls.thy ===== *)
theory Api_Decls
  imports C_Types
begin

text \<open>
  The functions that libbpf.h, bpf.h, btf.h and libbpf_legacy.h in examples/c/.output/bpf declare: name, result,
  parameters, whether more arguments may follow, and whether the declaration exports the symbol (\<open>LIBBPF_API\<close>). The
  functions themselves are in libbpf, outside the repository. The tables follow the headers from top to bottom and stop
  where a structure, an enumeration or a macro comes between two declarations. \<open>unsigned int\<close> is \<open>__u32\<close> and \<open>pid_t\<close> is
  \<open>int\<close>; a type of callbacks keeps its name. \<open>bpf_enable_stats\<close> is the declaration for C.
\<close>

datatype api_fun = Api
  (a_name: string) (a_ret: c_type) (a_params: "(c_type \<times> string) list") (a_variadic: bool) (a_exported: bool)

section \<open>libbpf.h\<close>

definition libbpf_api_1 :: "api_fun list" where
  "libbpf_api_1 =
    [Api ''libbpf_major_version'' C_u32 [] False True,
     Api ''libbpf_minor_version'' C_u32 [] False True,
     Api ''libbpf_version_string'' (C_ptr (C_const C_char)) [] False True]"

definition libbpf_api_2 :: "api_fun list" where
  "libbpf_api_2 =
    [Api ''libbpf_strerror'' C_int [(C_int, ''err''), (C_ptr C_char, ''buf''), (C_size_t, ''size'')] False True,
     Api ''libbpf_bpf_attach_type_str'' (C_ptr (C_const C_char)) [(C_enum ''bpf_attach_type'', ''t'')] False True,
     Api ''libbpf_bpf_link_type_str'' (C_ptr (C_const C_char)) [(C_enum ''bpf_link_type'', ''t'')] False True,
     Api ''libbpf_bpf_map_type_str'' (C_ptr (C_const C_char)) [(C_enum ''bpf_map_type'', ''t'')] False True,
     Api ''libbpf_bpf_prog_type_str'' (C_ptr (C_const C_char)) [(C_enum ''bpf_prog_type'', ''t'')] False True]"

definition libbpf_api_3 :: "api_fun list" where
  "libbpf_api_3 =
    [Api ''libbpf_set_print'' (C_fun ''libbpf_print_fn_t'') [(C_fun ''libbpf_print_fn_t'', ''fn'')] False True]"

definition libbpf_api_4 :: "api_fun list" where
  "libbpf_api_4 =
    [Api ''bpf_object__open'' (C_ptr (C_struct ''bpf_object'')) [(C_ptr (C_const C_char), ''path'')] False True,
     Api ''bpf_object__open_file'' (C_ptr (C_struct ''bpf_object'')) [(C_ptr (C_const C_char), ''path''), (C_ptr (C_const (C_struct ''bpf_object_open_opts'')), ''opts'')] False True,
     Api ''bpf_object__open_mem'' (C_ptr (C_struct ''bpf_object'')) [(C_ptr (C_const C_void), ''obj_buf''), (C_size_t, ''obj_buf_sz''), (C_ptr (C_const (C_struct ''bpf_object_open_opts'')), ''opts'')] False True]"

definition libbpf_api_5 :: "api_fun list" where
  "libbpf_api_5 =
    [Api ''bpf_object__load'' C_int [(C_ptr (C_struct ''bpf_object''), ''obj'')] False True,
     Api ''bpf_object__close'' C_void [(C_ptr (C_struct ''bpf_object''), ''obj'')] False True,
     Api ''bpf_object__pin_maps'' C_int [(C_ptr (C_struct ''bpf_object''), ''obj''), (C_ptr (C_const C_char), ''path'')] False True,
     Api ''bpf_object__unpin_maps'' C_int [(C_ptr (C_struct ''bpf_object''), ''obj''), (C_ptr (C_const C_char), ''path'')] False True,
     Api ''bpf_object__pin_programs'' C_int [(C_ptr (C_struct ''bpf_object''), ''obj''), (C_ptr (C_const C_char), ''path'')] False True,
     Api ''bpf_object__unpin_programs'' C_int [(C_ptr (C_struct ''bpf_object''), ''obj''), (C_ptr (C_const C_char), ''path'')] False True,
     Api ''bpf_object__pin'' C_int [(C_ptr (C_struct ''bpf_object''), ''object''), (C_ptr (C_const C_char), ''path'')] False True,
     Api ''bpf_object__unpin'' C_int [(C_ptr (C_struct ''bpf_object''), ''object''), (C_ptr (C_const C_char), ''path'')] False True,
     Api ''bpf_object__name'' (C_ptr (C_const C_char)) [(C_ptr (C_const (C_struct ''bpf_object'')), ''obj'')] False True,
     Api ''bpf_object__kversion'' C_u32 [(C_ptr (C_const (C_struct ''bpf_object'')), ''obj'')] False True,
     Api ''bpf_object__set_kversion'' C_int [(C_ptr (C_struct ''bpf_object''), ''obj''), (C_u32, ''kern_version'')] False True,
     Api ''bpf_object__token_fd'' C_int [(C_ptr (C_const (C_struct ''bpf_object'')), ''obj'')] False True,
     Api ''bpf_object__btf'' (C_ptr (C_struct ''btf'')) [(C_ptr (C_const (C_struct ''bpf_object'')), ''obj'')] False True,
     Api ''bpf_object__btf_fd'' C_int [(C_ptr (C_const (C_struct ''bpf_object'')), ''obj'')] False True,
     Api ''bpf_object__find_program_by_name'' (C_ptr (C_struct ''bpf_program'')) [(C_ptr (C_const (C_struct ''bpf_object'')), ''obj''), (C_ptr (C_const C_char), ''name'')] False True,
     Api ''libbpf_prog_type_by_name'' C_int [(C_ptr (C_const C_char), ''name''), (C_ptr (C_enum ''bpf_prog_type''), ''prog_type''), (C_ptr (C_enum ''bpf_attach_type''), ''expected_attach_type'')] False True,
     Api ''libbpf_attach_type_by_name'' C_int [(C_ptr (C_const C_char), ''name''), (C_ptr (C_enum ''bpf_attach_type''), ''attach_type'')] False True,
     Api ''libbpf_find_vmlinux_btf_id'' C_int [(C_ptr (C_const C_char), ''name''), (C_enum ''bpf_attach_type'', ''attach_type'')] False True,
     Api ''bpf_object__next_program'' (C_ptr (C_struct ''bpf_program'')) [(C_ptr (C_const (C_struct ''bpf_object'')), ''obj''), (C_ptr (C_struct ''bpf_program''), ''prog'')] False True]"

definition libbpf_api_6 :: "api_fun list" where
  "libbpf_api_6 =
    [Api ''bpf_object__prev_program'' (C_ptr (C_struct ''bpf_program'')) [(C_ptr (C_const (C_struct ''bpf_object'')), ''obj''), (C_ptr (C_struct ''bpf_program''), ''prog'')] False True,
     Api ''bpf_program__set_ifindex'' C_void [(C_ptr (C_struct ''bpf_program''), ''prog''), (C_u32, ''ifindex'')] False True,
     Api ''bpf_program__name'' (C_ptr (C_const C_char)) [(C_ptr (C_const (C_struct ''bpf_program'')), ''prog'')] False True,
     Api ''bpf_program__section_name'' (C_ptr (C_const C_char)) [(C_ptr (C_const (C_struct ''bpf_program'')), ''prog'')] False True,
     Api ''bpf_program__autoload'' C_bool [(C_ptr (C_const (C_struct ''bpf_program'')), ''prog'')] False True,
     Api ''bpf_program__set_autoload'' C_int [(C_ptr (C_struct ''bpf_program''), ''prog''), (C_bool, ''autoload'')] False True,
     Api ''bpf_program__autoattach'' C_bool [(C_ptr (C_const (C_struct ''bpf_program'')), ''prog'')] False True,
     Api ''bpf_program__set_autoattach'' C_void [(C_ptr (C_struct ''bpf_program''), ''prog''), (C_bool, ''autoattach'')] False True,
     Api ''bpf_program__insns'' (C_ptr (C_const (C_struct ''bpf_insn''))) [(C_ptr (C_const (C_struct ''bpf_program'')), ''prog'')] False True,
     Api ''bpf_program__set_insns'' C_int [(C_ptr (C_struct ''bpf_program''), ''prog''), (C_ptr (C_struct ''bpf_insn''), ''new_insns''), (C_size_t, ''new_insn_cnt'')] False True,
     Api ''bpf_program__insn_cnt'' C_size_t [(C_ptr (C_const (C_struct ''bpf_program'')), ''prog'')] False True,
     Api ''bpf_program__fd'' C_int [(C_ptr (C_const (C_struct ''bpf_program'')), ''prog'')] False True,
     Api ''bpf_program__pin'' C_int [(C_ptr (C_struct ''bpf_program''), ''prog''), (C_ptr (C_const C_char), ''path'')] False True,
     Api ''bpf_program__unpin'' C_int [(C_ptr (C_struct ''bpf_program''), ''prog''), (C_ptr (C_const C_char), ''path'')] False True,
     Api ''bpf_program__unload'' C_void [(C_ptr (C_struct ''bpf_program''), ''prog'')] False True,
     Api ''bpf_link__open'' (C_ptr (C_struct ''bpf_link'')) [(C_ptr (C_const C_char), ''path'')] False True,
     Api ''bpf_link__fd'' C_int [(C_ptr (C_const (C_struct ''bpf_link'')), ''link'')] False True,
     Api ''bpf_link__pin_path'' (C_ptr (C_const C_char)) [(C_ptr (C_const (C_struct ''bpf_link'')), ''link'')] False True,
     Api ''bpf_link__pin'' C_int [(C_ptr (C_struct ''bpf_link''), ''link''), (C_ptr (C_const C_char), ''path'')] False True,
     Api ''bpf_link__unpin'' C_int [(C_ptr (C_struct ''bpf_link''), ''link'')] False True,
     Api ''bpf_link__update_program'' C_int [(C_ptr (C_struct ''bpf_link''), ''link''), (C_ptr (C_struct ''bpf_program''), ''prog'')] False True,
     Api ''bpf_link__disconnect'' C_void [(C_ptr (C_struct ''bpf_link''), ''link'')] False True,
     Api ''bpf_link__detach'' C_int [(C_ptr (C_struct ''bpf_link''), ''link'')] False True,
     Api ''bpf_link__destroy'' C_int [(C_ptr (C_struct ''bpf_link''), ''link'')] False True,
     Api ''bpf_program__attach'' (C_ptr (C_struct ''bpf_link'')) [(C_ptr (C_const (C_struct ''bpf_program'')), ''prog'')] False True]"

definition libbpf_api_7 :: "api_fun list" where
  "libbpf_api_7 =
    [Api ''bpf_program__attach_perf_event'' (C_ptr (C_struct ''bpf_link'')) [(C_ptr (C_const (C_struct ''bpf_program'')), ''prog''), (C_int, ''pfd'')] False True,
     Api ''bpf_program__attach_perf_event_opts'' (C_ptr (C_struct ''bpf_link'')) [(C_ptr (C_const (C_struct ''bpf_program'')), ''prog''), (C_int, ''pfd''), (C_ptr (C_const (C_struct ''bpf_perf_event_opts'')), ''opts'')] False True]"

definition libbpf_api_8 :: "api_fun list" where
  "libbpf_api_8 =
    [Api ''bpf_program__attach_kprobe'' (C_ptr (C_struct ''bpf_link'')) [(C_ptr (C_const (C_struct ''bpf_program'')), ''prog''), (C_bool, ''retprobe''), (C_ptr (C_const C_char), ''func_name'')] False True,
     Api ''bpf_program__attach_kprobe_opts'' (C_ptr (C_struct ''bpf_link'')) [(C_ptr (C_const (C_struct ''bpf_program'')), ''prog''), (C_ptr (C_const C_char), ''func_name''), (C_ptr (C_const (C_struct ''bpf_kprobe_opts'')), ''opts'')] False True]"

definition libbpf_api_9 :: "api_fun list" where
  "libbpf_api_9 =
    [Api ''bpf_program__attach_kprobe_multi_opts'' (C_ptr (C_struct ''bpf_link'')) [(C_ptr (C_const (C_struct ''bpf_program'')), ''prog''), (C_ptr (C_const C_char), ''pattern''), (C_ptr (C_const (C_struct ''bpf_kprobe_multi_opts'')), ''opts'')] False True]"

definition libbpf_api_10 :: "api_fun list" where
  "libbpf_api_10 =
    [Api ''bpf_program__attach_uprobe_multi'' (C_ptr (C_struct ''bpf_link'')) [(C_ptr (C_const (C_struct ''bpf_program'')), ''prog''), (C_int, ''pid''), (C_ptr (C_const C_char), ''binary_path''), (C_ptr (C_const C_char), ''func_pattern''), (C_ptr (C_const (C_struct ''bpf_uprobe_multi_opts'')), ''opts'')] False True]"

definition libbpf_api_11 :: "api_fun list" where
  "libbpf_api_11 =
    [Api ''bpf_program__attach_ksyscall'' (C_ptr (C_struct ''bpf_link'')) [(C_ptr (C_const (C_struct ''bpf_program'')), ''prog''), (C_ptr (C_const C_char), ''syscall_name''), (C_ptr (C_const (C_struct ''bpf_ksyscall_opts'')), ''opts'')] False True]"

definition libbpf_api_12 :: "api_fun list" where
  "libbpf_api_12 =
    [Api ''bpf_program__attach_uprobe'' (C_ptr (C_struct ''bpf_link'')) [(C_ptr (C_const (C_struct ''bpf_program'')), ''prog''), (C_bool, ''retprobe''), (C_int, ''pid''), (C_ptr (C_const C_char), ''binary_path''), (C_size_t, ''func_offset'')] False True,
     Api ''bpf_program__attach_uprobe_opts'' (C_ptr (C_struct ''bpf_link'')) [(C_ptr (C_const (C_struct ''bpf_program'')), ''prog''), (C_int, ''pid''), (C_ptr (C_const C_char), ''binary_path''), (C_size_t, ''func_offset''), (C_ptr (C_const (C_struct ''bpf_uprobe_opts'')), ''opts'')] False True]"

definition libbpf_api_13 :: "api_fun list" where
  "libbpf_api_13 =
    [Api ''bpf_program__attach_usdt'' (C_ptr (C_struct ''bpf_link'')) [(C_ptr (C_const (C_struct ''bpf_program'')), ''prog''), (C_int, ''pid''), (C_ptr (C_const C_char), ''binary_path''), (C_ptr (C_const C_char), ''usdt_provider''), (C_ptr (C_const C_char), ''usdt_name''), (C_ptr (C_const (C_struct ''bpf_usdt_opts'')), ''opts'')] False True]"

definition libbpf_api_14 :: "api_fun list" where
  "libbpf_api_14 =
    [Api ''bpf_program__attach_tracepoint'' (C_ptr (C_struct ''bpf_link'')) [(C_ptr (C_const (C_struct ''bpf_program'')), ''prog''), (C_ptr (C_const C_char), ''tp_category''), (C_ptr (C_const C_char), ''tp_name'')] False True,
     Api ''bpf_program__attach_tracepoint_opts'' (C_ptr (C_struct ''bpf_link'')) [(C_ptr (C_const (C_struct ''bpf_program'')), ''prog''), (C_ptr (C_const C_char), ''tp_category''), (C_ptr (C_const C_char), ''tp_name''), (C_ptr (C_const (C_struct ''bpf_tracepoint_opts'')), ''opts'')] False True]"

definition libbpf_api_15 :: "api_fun list" where
  "libbpf_api_15 =
    [Api ''bpf_program__attach_raw_tracepoint'' (C_ptr (C_struct ''bpf_link'')) [(C_ptr (C_const (C_struct ''bpf_program'')), ''prog''), (C_ptr (C_const C_char), ''tp_name'')] False True,
     Api ''bpf_program__attach_raw_tracepoint_opts'' (C_ptr (C_struct ''bpf_link'')) [(C_ptr (C_const (C_struct ''bpf_program'')), ''prog''), (C_ptr (C_const C_char), ''tp_name''), (C_ptr (C_struct ''bpf_raw_tracepoint_opts''), ''opts'')] False True]"

definition libbpf_api_16 :: "api_fun list" where
  "libbpf_api_16 =
    [Api ''bpf_program__attach_trace'' (C_ptr (C_struct ''bpf_link'')) [(C_ptr (C_const (C_struct ''bpf_program'')), ''prog'')] False True,
     Api ''bpf_program__attach_trace_opts'' (C_ptr (C_struct ''bpf_link'')) [(C_ptr (C_const (C_struct ''bpf_program'')), ''prog''), (C_ptr (C_const (C_struct ''bpf_trace_opts'')), ''opts'')] False True,
     Api ''bpf_program__attach_lsm'' (C_ptr (C_struct ''bpf_link'')) [(C_ptr (C_const (C_struct ''bpf_program'')), ''prog'')] False True,
     Api ''bpf_program__attach_cgroup'' (C_ptr (C_struct ''bpf_link'')) [(C_ptr (C_const (C_struct ''bpf_program'')), ''prog''), (C_int, ''cgroup_fd'')] False True,
     Api ''bpf_program__attach_netns'' (C_ptr (C_struct ''bpf_link'')) [(C_ptr (C_const (C_struct ''bpf_program'')), ''prog''), (C_int, ''netns_fd'')] False True,
     Api ''bpf_program__attach_sockmap'' (C_ptr (C_struct ''bpf_link'')) [(C_ptr (C_const (C_struct ''bpf_program'')), ''prog''), (C_int, ''map_fd'')] False True,
     Api ''bpf_program__attach_xdp'' (C_ptr (C_struct ''bpf_link'')) [(C_ptr (C_const (C_struct ''bpf_program'')), ''prog''), (C_int, ''ifindex'')] False True,
     Api ''bpf_program__attach_freplace'' (C_ptr (C_struct ''bpf_link'')) [(C_ptr (C_const (C_struct ''bpf_program'')), ''prog''), (C_int, ''target_fd''), (C_ptr (C_const C_char), ''attach_func_name'')] False True]"

definition libbpf_api_17 :: "api_fun list" where
  "libbpf_api_17 =
    [Api ''bpf_program__attach_netfilter'' (C_ptr (C_struct ''bpf_link'')) [(C_ptr (C_const (C_struct ''bpf_program'')), ''prog''), (C_ptr (C_const (C_struct ''bpf_netfilter_opts'')), ''opts'')] False True]"

definition libbpf_api_18 :: "api_fun list" where
  "libbpf_api_18 =
    [Api ''bpf_program__attach_tcx'' (C_ptr (C_struct ''bpf_link'')) [(C_ptr (C_const (C_struct ''bpf_program'')), ''prog''), (C_int, ''ifindex''), (C_ptr (C_const (C_struct ''bpf_tcx_opts'')), ''opts'')] False True]"

definition libbpf_api_19 :: "api_fun list" where
  "libbpf_api_19 =
    [Api ''bpf_program__attach_netkit'' (C_ptr (C_struct ''bpf_link'')) [(C_ptr (C_const (C_struct ''bpf_program'')), ''prog''), (C_int, ''ifindex''), (C_ptr (C_const (C_struct ''bpf_netkit_opts'')), ''opts'')] False True,
     Api ''bpf_map__attach_struct_ops'' (C_ptr (C_struct ''bpf_link'')) [(C_ptr (C_const (C_struct ''bpf_map'')), ''map'')] False True,
     Api ''bpf_link__update_map'' C_int [(C_ptr (C_struct ''bpf_link''), ''link''), (C_ptr (C_const (C_struct ''bpf_map'')), ''map'')] False True]"

definition libbpf_api_20 :: "api_fun list" where
  "libbpf_api_20 =
    [Api ''bpf_program__attach_iter'' (C_ptr (C_struct ''bpf_link'')) [(C_ptr (C_const (C_struct ''bpf_program'')), ''prog''), (C_ptr (C_const (C_struct ''bpf_iter_attach_opts'')), ''opts'')] False True,
     Api ''bpf_program__type'' (C_enum ''bpf_prog_type'') [(C_ptr (C_const (C_struct ''bpf_program'')), ''prog'')] False True,
     Api ''bpf_program__set_type'' C_int [(C_ptr (C_struct ''bpf_program''), ''prog''), (C_enum ''bpf_prog_type'', ''type'')] False True,
     Api ''bpf_program__expected_attach_type'' (C_enum ''bpf_attach_type'') [(C_ptr (C_const (C_struct ''bpf_program'')), ''prog'')] False True,
     Api ''bpf_program__set_expected_attach_type'' C_int [(C_ptr (C_struct ''bpf_program''), ''prog''), (C_enum ''bpf_attach_type'', ''type'')] False True,
     Api ''bpf_program__flags'' C_u32 [(C_ptr (C_const (C_struct ''bpf_program'')), ''prog'')] False True,
     Api ''bpf_program__set_flags'' C_int [(C_ptr (C_struct ''bpf_program''), ''prog''), (C_u32, ''flags'')] False True,
     Api ''bpf_program__log_level'' C_u32 [(C_ptr (C_const (C_struct ''bpf_program'')), ''prog'')] False True,
     Api ''bpf_program__set_log_level'' C_int [(C_ptr (C_struct ''bpf_program''), ''prog''), (C_u32, ''log_level'')] False True,
     Api ''bpf_program__log_buf'' (C_ptr (C_const C_char)) [(C_ptr (C_const (C_struct ''bpf_program'')), ''prog''), (C_ptr C_size_t, ''log_size'')] False True,
     Api ''bpf_program__set_log_buf'' C_int [(C_ptr (C_struct ''bpf_program''), ''prog''), (C_ptr C_char, ''log_buf''), (C_size_t, ''log_size'')] False True,
     Api ''bpf_program__set_attach_target'' C_int [(C_ptr (C_struct ''bpf_program''), ''prog''), (C_int, ''attach_prog_fd''), (C_ptr (C_const C_char), ''attach_func_name'')] False True,
     Api ''bpf_object__find_map_by_name'' (C_ptr (C_struct ''bpf_map'')) [(C_ptr (C_const (C_struct ''bpf_object'')), ''obj''), (C_ptr (C_const C_char), ''name'')] False True,
     Api ''bpf_object__find_map_fd_by_name'' C_int [(C_ptr (C_const (C_struct ''bpf_object'')), ''obj''), (C_ptr (C_const C_char), ''name'')] False True,
     Api ''bpf_object__next_map'' (C_ptr (C_struct ''bpf_map'')) [(C_ptr (C_const (C_struct ''bpf_object'')), ''obj''), (C_ptr (C_const (C_struct ''bpf_map'')), ''map'')] False True]"

definition libbpf_api_21 :: "api_fun list" where
  "libbpf_api_21 =
    [Api ''bpf_object__prev_map'' (C_ptr (C_struct ''bpf_map'')) [(C_ptr (C_const (C_struct ''bpf_object'')), ''obj''), (C_ptr (C_const (C_struct ''bpf_map'')), ''map'')] False True,
     Api ''bpf_map__set_autocreate'' C_int [(C_ptr (C_struct ''bpf_map''), ''map''), (C_bool, ''autocreate'')] False True,
     Api ''bpf_map__autocreate'' C_bool [(C_ptr (C_const (C_struct ''bpf_map'')), ''map'')] False True,
     Api ''bpf_map__set_autoattach'' C_int [(C_ptr (C_struct ''bpf_map''), ''map''), (C_bool, ''autoattach'')] False True,
     Api ''bpf_map__autoattach'' C_bool [(C_ptr (C_const (C_struct ''bpf_map'')), ''map'')] False True,
     Api ''bpf_map__fd'' C_int [(C_ptr (C_const (C_struct ''bpf_map'')), ''map'')] False True,
     Api ''bpf_map__reuse_fd'' C_int [(C_ptr (C_struct ''bpf_map''), ''map''), (C_int, ''fd'')] False True,
     Api ''bpf_map__name'' (C_ptr (C_const C_char)) [(C_ptr (C_const (C_struct ''bpf_map'')), ''map'')] False True,
     Api ''bpf_map__type'' (C_enum ''bpf_map_type'') [(C_ptr (C_const (C_struct ''bpf_map'')), ''map'')] False True,
     Api ''bpf_map__set_type'' C_int [(C_ptr (C_struct ''bpf_map''), ''map''), (C_enum ''bpf_map_type'', ''type'')] False True,
     Api ''bpf_map__max_entries'' C_u32 [(C_ptr (C_const (C_struct ''bpf_map'')), ''map'')] False True,
     Api ''bpf_map__set_max_entries'' C_int [(C_ptr (C_struct ''bpf_map''), ''map''), (C_u32, ''max_entries'')] False True,
     Api ''bpf_map__map_flags'' C_u32 [(C_ptr (C_const (C_struct ''bpf_map'')), ''map'')] False True,
     Api ''bpf_map__set_map_flags'' C_int [(C_ptr (C_struct ''bpf_map''), ''map''), (C_u32, ''flags'')] False True,
     Api ''bpf_map__numa_node'' C_u32 [(C_ptr (C_const (C_struct ''bpf_map'')), ''map'')] False True,
     Api ''bpf_map__set_numa_node'' C_int [(C_ptr (C_struct ''bpf_map''), ''map''), (C_u32, ''numa_node'')] False True,
     Api ''bpf_map__key_size'' C_u32 [(C_ptr (C_const (C_struct ''bpf_map'')), ''map'')] False True,
     Api ''bpf_map__set_key_size'' C_int [(C_ptr (C_struct ''bpf_map''), ''map''), (C_u32, ''size'')] False True,
     Api ''bpf_map__value_size'' C_u32 [(C_ptr (C_const (C_struct ''bpf_map'')), ''map'')] False True,
     Api ''bpf_map__set_value_size'' C_int [(C_ptr (C_struct ''bpf_map''), ''map''), (C_u32, ''size'')] False True,
     Api ''bpf_map__btf_key_type_id'' C_u32 [(C_ptr (C_const (C_struct ''bpf_map'')), ''map'')] False True,
     Api ''bpf_map__btf_value_type_id'' C_u32 [(C_ptr (C_const (C_struct ''bpf_map'')), ''map'')] False True,
     Api ''bpf_map__ifindex'' C_u32 [(C_ptr (C_const (C_struct ''bpf_map'')), ''map'')] False True,
     Api ''bpf_map__set_ifindex'' C_int [(C_ptr (C_struct ''bpf_map''), ''map''), (C_u32, ''ifindex'')] False True,
     Api ''bpf_map__map_extra'' C_u64 [(C_ptr (C_const (C_struct ''bpf_map'')), ''map'')] False True,
     Api ''bpf_map__set_map_extra'' C_int [(C_ptr (C_struct ''bpf_map''), ''map''), (C_u64, ''map_extra'')] False True,
     Api ''bpf_map__set_initial_value'' C_int [(C_ptr (C_struct ''bpf_map''), ''map''), (C_ptr (C_const C_void), ''data''), (C_size_t, ''size'')] False True,
     Api ''bpf_map__initial_value'' (C_ptr C_void) [(C_ptr (C_const (C_struct ''bpf_map'')), ''map''), (C_ptr C_size_t, ''psize'')] False True,
     Api ''bpf_map__is_internal'' C_bool [(C_ptr (C_const (C_struct ''bpf_map'')), ''map'')] False True,
     Api ''bpf_map__set_pin_path'' C_int [(C_ptr (C_struct ''bpf_map''), ''map''), (C_ptr (C_const C_char), ''path'')] False True,
     Api ''bpf_map__pin_path'' (C_ptr (C_const C_char)) [(C_ptr (C_const (C_struct ''bpf_map'')), ''map'')] False True,
     Api ''bpf_map__is_pinned'' C_bool [(C_ptr (C_const (C_struct ''bpf_map'')), ''map'')] False True,
     Api ''bpf_map__pin'' C_int [(C_ptr (C_struct ''bpf_map''), ''map''), (C_ptr (C_const C_char), ''path'')] False True]"

definition libbpf_api_22 :: "api_fun list" where
  "libbpf_api_22 =
    [Api ''bpf_map__unpin'' C_int [(C_ptr (C_struct ''bpf_map''), ''map''), (C_ptr (C_const C_char), ''path'')] False True,
     Api ''bpf_map__set_inner_map_fd'' C_int [(C_ptr (C_struct ''bpf_map''), ''map''), (C_int, ''fd'')] False True,
     Api ''bpf_map__inner_map'' (C_ptr (C_struct ''bpf_map'')) [(C_ptr (C_struct ''bpf_map''), ''map'')] False True,
     Api ''bpf_map__lookup_elem'' C_int [(C_ptr (C_const (C_struct ''bpf_map'')), ''map''), (C_ptr (C_const C_void), ''key''), (C_size_t, ''key_sz''), (C_ptr C_void, ''value''), (C_size_t, ''value_sz''), (C_u64, ''flags'')] False True,
     Api ''bpf_map__update_elem'' C_int [(C_ptr (C_const (C_struct ''bpf_map'')), ''map''), (C_ptr (C_const C_void), ''key''), (C_size_t, ''key_sz''), (C_ptr (C_const C_void), ''value''), (C_size_t, ''value_sz''), (C_u64, ''flags'')] False True,
     Api ''bpf_map__delete_elem'' C_int [(C_ptr (C_const (C_struct ''bpf_map'')), ''map''), (C_ptr (C_const C_void), ''key''), (C_size_t, ''key_sz''), (C_u64, ''flags'')] False True,
     Api ''bpf_map__lookup_and_delete_elem'' C_int [(C_ptr (C_const (C_struct ''bpf_map'')), ''map''), (C_ptr (C_const C_void), ''key''), (C_size_t, ''key_sz''), (C_ptr C_void, ''value''), (C_size_t, ''value_sz''), (C_u64, ''flags'')] False True,
     Api ''bpf_map__get_next_key'' C_int [(C_ptr (C_const (C_struct ''bpf_map'')), ''map''), (C_ptr (C_const C_void), ''cur_key''), (C_ptr C_void, ''next_key''), (C_size_t, ''key_sz'')] False True]"

definition libbpf_api_23 :: "api_fun list" where
  "libbpf_api_23 =
    [Api ''bpf_xdp_attach'' C_int [(C_int, ''ifindex''), (C_int, ''prog_fd''), (C_u32, ''flags''), (C_ptr (C_const (C_struct ''bpf_xdp_attach_opts'')), ''opts'')] False True,
     Api ''bpf_xdp_detach'' C_int [(C_int, ''ifindex''), (C_u32, ''flags''), (C_ptr (C_const (C_struct ''bpf_xdp_attach_opts'')), ''opts'')] False True,
     Api ''bpf_xdp_query'' C_int [(C_int, ''ifindex''), (C_int, ''flags''), (C_ptr (C_struct ''bpf_xdp_query_opts''), ''opts'')] False True,
     Api ''bpf_xdp_query_id'' C_int [(C_int, ''ifindex''), (C_int, ''flags''), (C_ptr C_u32, ''prog_id'')] False True]"

definition libbpf_api_24 :: "api_fun list" where
  "libbpf_api_24 =
    [Api ''bpf_tc_hook_create'' C_int [(C_ptr (C_struct ''bpf_tc_hook''), ''hook'')] False True,
     Api ''bpf_tc_hook_destroy'' C_int [(C_ptr (C_struct ''bpf_tc_hook''), ''hook'')] False True,
     Api ''bpf_tc_attach'' C_int [(C_ptr (C_const (C_struct ''bpf_tc_hook'')), ''hook''), (C_ptr (C_struct ''bpf_tc_opts''), ''opts'')] False True,
     Api ''bpf_tc_detach'' C_int [(C_ptr (C_const (C_struct ''bpf_tc_hook'')), ''hook''), (C_ptr (C_const (C_struct ''bpf_tc_opts'')), ''opts'')] False True,
     Api ''bpf_tc_query'' C_int [(C_ptr (C_const (C_struct ''bpf_tc_hook'')), ''hook''), (C_ptr (C_struct ''bpf_tc_opts''), ''opts'')] False True]"

definition libbpf_api_25 :: "api_fun list" where
  "libbpf_api_25 =
    [Api ''ring_buffer__new'' (C_ptr (C_struct ''ring_buffer'')) [(C_int, ''map_fd''), (C_fun ''ring_buffer_sample_fn'', ''sample_cb''), (C_ptr C_void, ''ctx''), (C_ptr (C_const (C_struct ''ring_buffer_opts'')), ''opts'')] False True,
     Api ''ring_buffer__free'' C_void [(C_ptr (C_struct ''ring_buffer''), ''rb'')] False True,
     Api ''ring_buffer__add'' C_int [(C_ptr (C_struct ''ring_buffer''), ''rb''), (C_int, ''map_fd''), (C_fun ''ring_buffer_sample_fn'', ''sample_cb''), (C_ptr C_void, ''ctx'')] False True,
     Api ''ring_buffer__poll'' C_int [(C_ptr (C_struct ''ring_buffer''), ''rb''), (C_int, ''timeout_ms'')] False True,
     Api ''ring_buffer__consume'' C_int [(C_ptr (C_struct ''ring_buffer''), ''rb'')] False True,
     Api ''ring_buffer__consume_n'' C_int [(C_ptr (C_struct ''ring_buffer''), ''rb''), (C_size_t, ''n'')] False True,
     Api ''ring_buffer__epoll_fd'' C_int [(C_ptr (C_const (C_struct ''ring_buffer'')), ''rb'')] False True,
     Api ''ring_buffer__ring'' (C_ptr (C_struct ''ring'')) [(C_ptr (C_struct ''ring_buffer''), ''rb''), (C_u32, ''idx'')] False True,
     Api ''ring__consumer_pos'' C_ulong [(C_ptr (C_const (C_struct ''ring'')), ''r'')] False True,
     Api ''ring__producer_pos'' C_ulong [(C_ptr (C_const (C_struct ''ring'')), ''r'')] False True,
     Api ''ring__avail_data_size'' C_size_t [(C_ptr (C_const (C_struct ''ring'')), ''r'')] False True,
     Api ''ring__size'' C_size_t [(C_ptr (C_const (C_struct ''ring'')), ''r'')] False True,
     Api ''ring__map_fd'' C_int [(C_ptr (C_const (C_struct ''ring'')), ''r'')] False True,
     Api ''ring__consume'' C_int [(C_ptr (C_struct ''ring''), ''r'')] False True,
     Api ''ring__consume_n'' C_int [(C_ptr (C_struct ''ring''), ''r''), (C_size_t, ''n'')] False True]"

definition libbpf_api_26 :: "api_fun list" where
  "libbpf_api_26 =
    [Api ''user_ring_buffer__new'' (C_ptr (C_struct ''user_ring_buffer'')) [(C_int, ''map_fd''), (C_ptr (C_const (C_struct ''user_ring_buffer_opts'')), ''opts'')] False True,
     Api ''user_ring_buffer__reserve'' (C_ptr C_void) [(C_ptr (C_struct ''user_ring_buffer''), ''rb''), (C_u32, ''size'')] False True,
     Api ''user_ring_buffer__reserve_blocking'' (C_ptr C_void) [(C_ptr (C_struct ''user_ring_buffer''), ''rb''), (C_u32, ''size''), (C_int, ''timeout_ms'')] False True,
     Api ''user_ring_buffer__submit'' C_void [(C_ptr (C_struct ''user_ring_buffer''), ''rb''), (C_ptr C_void, ''sample'')] False True,
     Api ''user_ring_buffer__discard'' C_void [(C_ptr (C_struct ''user_ring_buffer''), ''rb''), (C_ptr C_void, ''sample'')] False True,
     Api ''user_ring_buffer__free'' C_void [(C_ptr (C_struct ''user_ring_buffer''), ''rb'')] False True]"

definition libbpf_api_27 :: "api_fun list" where
  "libbpf_api_27 =
    [Api ''perf_buffer__new'' (C_ptr (C_struct ''perf_buffer'')) [(C_int, ''map_fd''), (C_size_t, ''page_cnt''), (C_fun ''perf_buffer_sample_fn'', ''sample_cb''), (C_fun ''perf_buffer_lost_fn'', ''lost_cb''), (C_ptr C_void, ''ctx''), (C_ptr (C_const (C_struct ''perf_buffer_opts'')), ''opts'')] False True]"

definition libbpf_api_28 :: "api_fun list" where
  "libbpf_api_28 =
    [Api ''perf_buffer__new_raw'' (C_ptr (C_struct ''perf_buffer'')) [(C_int, ''map_fd''), (C_size_t, ''page_cnt''), (C_ptr (C_struct ''perf_event_attr''), ''attr''), (C_fun ''perf_buffer_event_fn'', ''event_cb''), (C_ptr C_void, ''ctx''), (C_ptr (C_const (C_struct ''perf_buffer_raw_opts'')), ''opts'')] False True,
     Api ''perf_buffer__free'' C_void [(C_ptr (C_struct ''perf_buffer''), ''pb'')] False True,
     Api ''perf_buffer__epoll_fd'' C_int [(C_ptr (C_const (C_struct ''perf_buffer'')), ''pb'')] False True,
     Api ''perf_buffer__poll'' C_int [(C_ptr (C_struct ''perf_buffer''), ''pb''), (C_int, ''timeout_ms'')] False True,
     Api ''perf_buffer__consume'' C_int [(C_ptr (C_struct ''perf_buffer''), ''pb'')] False True,
     Api ''perf_buffer__consume_buffer'' C_int [(C_ptr (C_struct ''perf_buffer''), ''pb''), (C_size_t, ''buf_idx'')] False True,
     Api ''perf_buffer__buffer_cnt'' C_size_t [(C_ptr (C_const (C_struct ''perf_buffer'')), ''pb'')] False True,
     Api ''perf_buffer__buffer_fd'' C_int [(C_ptr (C_const (C_struct ''perf_buffer'')), ''pb''), (C_size_t, ''buf_idx'')] False True,
     Api ''perf_buffer__buffer'' C_int [(C_ptr (C_struct ''perf_buffer''), ''pb''), (C_int, ''buf_idx''), (C_ptr (C_ptr C_void), ''buf''), (C_ptr C_size_t, ''buf_size'')] False True,
     Api ''bpf_prog_linfo__free'' C_void [(C_ptr (C_struct ''bpf_prog_linfo''), ''prog_linfo'')] False True,
     Api ''bpf_prog_linfo__new'' (C_ptr (C_struct ''bpf_prog_linfo'')) [(C_ptr (C_const (C_struct ''bpf_prog_info'')), ''info'')] False True,
     Api ''bpf_prog_linfo__lfind_addr_func'' (C_ptr (C_const (C_struct ''bpf_line_info''))) [(C_ptr (C_const (C_struct ''bpf_prog_linfo'')), ''prog_linfo''), (C_u64, ''addr''), (C_u32, ''func_idx''), (C_u32, ''nr_skip'')] False True,
     Api ''bpf_prog_linfo__lfind'' (C_ptr (C_const (C_struct ''bpf_line_info''))) [(C_ptr (C_const (C_struct ''bpf_prog_linfo'')), ''prog_linfo''), (C_u32, ''insn_off''), (C_u32, ''nr_skip'')] False True,
     Api ''libbpf_probe_bpf_prog_type'' C_int [(C_enum ''bpf_prog_type'', ''prog_type''), (C_ptr (C_const C_void), ''opts'')] False True,
     Api ''libbpf_probe_bpf_map_type'' C_int [(C_enum ''bpf_map_type'', ''map_type''), (C_ptr (C_const C_void), ''opts'')] False True,
     Api ''libbpf_probe_bpf_helper'' C_int [(C_enum ''bpf_prog_type'', ''prog_type''), (C_enum ''bpf_func_id'', ''helper_id''), (C_ptr (C_const C_void), ''opts'')] False True,
     Api ''libbpf_num_possible_cpus'' C_int [] False True]"

definition libbpf_api_29 :: "api_fun list" where
  "libbpf_api_29 =
    [Api ''bpf_object__open_skeleton'' C_int [(C_ptr (C_struct ''bpf_object_skeleton''), ''s''), (C_ptr (C_const (C_struct ''bpf_object_open_opts'')), ''opts'')] False True,
     Api ''bpf_object__load_skeleton'' C_int [(C_ptr (C_struct ''bpf_object_skeleton''), ''s'')] False True,
     Api ''bpf_object__attach_skeleton'' C_int [(C_ptr (C_struct ''bpf_object_skeleton''), ''s'')] False True,
     Api ''bpf_object__detach_skeleton'' C_void [(C_ptr (C_struct ''bpf_object_skeleton''), ''s'')] False True,
     Api ''bpf_object__destroy_skeleton'' C_void [(C_ptr (C_struct ''bpf_object_skeleton''), ''s'')] False True]"

definition libbpf_api_30 :: "api_fun list" where
  "libbpf_api_30 =
    [Api ''bpf_object__open_subskeleton'' C_int [(C_ptr (C_struct ''bpf_object_subskeleton''), ''s'')] False True,
     Api ''bpf_object__destroy_subskeleton'' C_void [(C_ptr (C_struct ''bpf_object_subskeleton''), ''s'')] False True]"

definition libbpf_api_31 :: "api_fun list" where
  "libbpf_api_31 =
    [Api ''bpf_object__gen_loader'' C_int [(C_ptr (C_struct ''bpf_object''), ''obj''), (C_ptr (C_struct ''gen_loader_opts''), ''opts'')] False True]"

definition libbpf_api_32 :: "api_fun list" where
  "libbpf_api_32 =
    [Api ''bpf_linker__new'' (C_ptr (C_struct ''bpf_linker'')) [(C_ptr (C_const C_char), ''filename''), (C_ptr (C_struct ''bpf_linker_opts''), ''opts'')] False True,
     Api ''bpf_linker__new_fd'' (C_ptr (C_struct ''bpf_linker'')) [(C_int, ''fd''), (C_ptr (C_struct ''bpf_linker_opts''), ''opts'')] False True,
     Api ''bpf_linker__add_file'' C_int [(C_ptr (C_struct ''bpf_linker''), ''linker''), (C_ptr (C_const C_char), ''filename''), (C_ptr (C_const (C_struct ''bpf_linker_file_opts'')), ''opts'')] False True,
     Api ''bpf_linker__add_fd'' C_int [(C_ptr (C_struct ''bpf_linker''), ''linker''), (C_int, ''fd''), (C_ptr (C_const (C_struct ''bpf_linker_file_opts'')), ''opts'')] False True,
     Api ''bpf_linker__add_buf'' C_int [(C_ptr (C_struct ''bpf_linker''), ''linker''), (C_ptr C_void, ''buf''), (C_size_t, ''buf_sz''), (C_ptr (C_const (C_struct ''bpf_linker_file_opts'')), ''opts'')] False True,
     Api ''bpf_linker__finalize'' C_int [(C_ptr (C_struct ''bpf_linker''), ''linker'')] False True,
     Api ''bpf_linker__free'' C_void [(C_ptr (C_struct ''bpf_linker''), ''linker'')] False True]"

definition libbpf_api_33 :: "api_fun list" where
  "libbpf_api_33 =
    [Api ''libbpf_register_prog_handler'' C_int [(C_ptr (C_const C_char), ''sec''), (C_enum ''bpf_prog_type'', ''prog_type''), (C_enum ''bpf_attach_type'', ''exp_attach_type''), (C_ptr (C_const (C_struct ''libbpf_prog_handler_opts'')), ''opts'')] False True,
     Api ''libbpf_unregister_prog_handler'' C_int [(C_int, ''handler_id'')] False True]"

section \<open>bpf.h\<close>

definition bpf_api_1 :: "api_fun list" where
  "bpf_api_1 =
    [Api ''libbpf_set_memlock_rlim'' C_int [(C_size_t, ''memlock_bytes'')] False True]"

definition bpf_api_2 :: "api_fun list" where
  "bpf_api_2 =
    [Api ''bpf_map_create'' C_int [(C_enum ''bpf_map_type'', ''map_type''), (C_ptr (C_const C_char), ''map_name''), (C_u32, ''key_size''), (C_u32, ''value_size''), (C_u32, ''max_entries''), (C_ptr (C_const (C_struct ''bpf_map_create_opts'')), ''opts'')] False True]"

definition bpf_api_3 :: "api_fun list" where
  "bpf_api_3 =
    [Api ''bpf_prog_load'' C_int [(C_enum ''bpf_prog_type'', ''prog_type''), (C_ptr (C_const C_char), ''prog_name''), (C_ptr (C_const C_char), ''license''), (C_ptr (C_const (C_struct ''bpf_insn'')), ''insns''), (C_size_t, ''insn_cnt''), (C_ptr (C_struct ''bpf_prog_load_opts''), ''opts'')] False True]"

definition bpf_api_4 :: "api_fun list" where
  "bpf_api_4 =
    [Api ''bpf_btf_load'' C_int [(C_ptr (C_const C_void), ''btf_data''), (C_size_t, ''btf_size''), (C_ptr (C_struct ''bpf_btf_load_opts''), ''opts'')] False True,
     Api ''bpf_map_update_elem'' C_int [(C_int, ''fd''), (C_ptr (C_const C_void), ''key''), (C_ptr (C_const C_void), ''value''), (C_u64, ''flags'')] False True,
     Api ''bpf_map_lookup_elem'' C_int [(C_int, ''fd''), (C_ptr (C_const C_void), ''key''), (C_ptr C_void, ''value'')] False True,
     Api ''bpf_map_lookup_elem_flags'' C_int [(C_int, ''fd''), (C_ptr (C_const C_void), ''key''), (C_ptr C_void, ''value''), (C_u64, ''flags'')] False True,
     Api ''bpf_map_lookup_and_delete_elem'' C_int [(C_int, ''fd''), (C_ptr (C_const C_void), ''key''), (C_ptr C_void, ''value'')] False True,
     Api ''bpf_map_lookup_and_delete_elem_flags'' C_int [(C_int, ''fd''), (C_ptr (C_const C_void), ''key''), (C_ptr C_void, ''value''), (C_u64, ''flags'')] False True,
     Api ''bpf_map_delete_elem'' C_int [(C_int, ''fd''), (C_ptr (C_const C_void), ''key'')] False True,
     Api ''bpf_map_delete_elem_flags'' C_int [(C_int, ''fd''), (C_ptr (C_const C_void), ''key''), (C_u64, ''flags'')] False True,
     Api ''bpf_map_get_next_key'' C_int [(C_int, ''fd''), (C_ptr (C_const C_void), ''key''), (C_ptr C_void, ''next_key'')] False True,
     Api ''bpf_map_freeze'' C_int [(C_int, ''fd'')] False True]"

definition bpf_api_5 :: "api_fun list" where
  "bpf_api_5 =
    [Api ''bpf_map_delete_batch'' C_int [(C_int, ''fd''), (C_ptr (C_const C_void), ''keys''), (C_ptr C_u32, ''count''), (C_ptr (C_const (C_struct ''bpf_map_batch_opts'')), ''opts'')] False True,
     Api ''bpf_map_lookup_batch'' C_int [(C_int, ''fd''), (C_ptr C_void, ''in_batch''), (C_ptr C_void, ''out_batch''), (C_ptr C_void, ''keys''), (C_ptr C_void, ''values''), (C_ptr C_u32, ''count''), (C_ptr (C_const (C_struct ''bpf_map_batch_opts'')), ''opts'')] False True,
     Api ''bpf_map_lookup_and_delete_batch'' C_int [(C_int, ''fd''), (C_ptr C_void, ''in_batch''), (C_ptr C_void, ''out_batch''), (C_ptr C_void, ''keys''), (C_ptr C_void, ''values''), (C_ptr C_u32, ''count''), (C_ptr (C_const (C_struct ''bpf_map_batch_opts'')), ''opts'')] False True,
     Api ''bpf_map_update_batch'' C_int [(C_int, ''fd''), (C_ptr (C_const C_void), ''keys''), (C_ptr (C_const C_void), ''values''), (C_ptr C_u32, ''count''), (C_ptr (C_const (C_struct ''bpf_map_batch_opts'')), ''opts'')] False True]"

definition bpf_api_6 :: "api_fun list" where
  "bpf_api_6 =
    [Api ''bpf_obj_pin'' C_int [(C_int, ''fd''), (C_ptr (C_const C_char), ''pathname'')] False True,
     Api ''bpf_obj_pin_opts'' C_int [(C_int, ''fd''), (C_ptr (C_const C_char), ''pathname''), (C_ptr (C_const (C_struct ''bpf_obj_pin_opts'')), ''opts'')] False True]"

definition bpf_api_7 :: "api_fun list" where
  "bpf_api_7 =
    [Api ''bpf_obj_get'' C_int [(C_ptr (C_const C_char), ''pathname'')] False True,
     Api ''bpf_obj_get_opts'' C_int [(C_ptr (C_const C_char), ''pathname''), (C_ptr (C_const (C_struct ''bpf_obj_get_opts'')), ''opts'')] False True,
     Api ''bpf_prog_attach'' C_int [(C_int, ''prog_fd''), (C_int, ''attachable_fd''), (C_enum ''bpf_attach_type'', ''type''), (C_u32, ''flags'')] False True,
     Api ''bpf_prog_detach'' C_int [(C_int, ''attachable_fd''), (C_enum ''bpf_attach_type'', ''type'')] False True,
     Api ''bpf_prog_detach2'' C_int [(C_int, ''prog_fd''), (C_int, ''attachable_fd''), (C_enum ''bpf_attach_type'', ''type'')] False True]"

definition bpf_api_8 :: "api_fun list" where
  "bpf_api_8 =
    [Api ''bpf_prog_attach_opts'' C_int [(C_int, ''prog_fd''), (C_int, ''target''), (C_enum ''bpf_attach_type'', ''type''), (C_ptr (C_const (C_struct ''bpf_prog_attach_opts'')), ''opts'')] False True,
     Api ''bpf_prog_detach_opts'' C_int [(C_int, ''prog_fd''), (C_int, ''target''), (C_enum ''bpf_attach_type'', ''type''), (C_ptr (C_const (C_struct ''bpf_prog_detach_opts'')), ''opts'')] False True]"

definition bpf_api_9 :: "api_fun list" where
  "bpf_api_9 =
    [Api ''bpf_link_create'' C_int [(C_int, ''prog_fd''), (C_int, ''target_fd''), (C_enum ''bpf_attach_type'', ''attach_type''), (C_ptr (C_const (C_struct ''bpf_link_create_opts'')), ''opts'')] False True,
     Api ''bpf_link_detach'' C_int [(C_int, ''link_fd'')] False True]"

definition bpf_api_10 :: "api_fun list" where
  "bpf_api_10 =
    [Api ''bpf_link_update'' C_int [(C_int, ''link_fd''), (C_int, ''new_prog_fd''), (C_ptr (C_const (C_struct ''bpf_link_update_opts'')), ''opts'')] False True,
     Api ''bpf_iter_create'' C_int [(C_int, ''link_fd'')] False True]"

definition bpf_api_11 :: "api_fun list" where
  "bpf_api_11 =
    [Api ''bpf_prog_get_next_id'' C_int [(C_u32, ''start_id''), (C_ptr C_u32, ''next_id'')] False True,
     Api ''bpf_map_get_next_id'' C_int [(C_u32, ''start_id''), (C_ptr C_u32, ''next_id'')] False True,
     Api ''bpf_btf_get_next_id'' C_int [(C_u32, ''start_id''), (C_ptr C_u32, ''next_id'')] False True,
     Api ''bpf_link_get_next_id'' C_int [(C_u32, ''start_id''), (C_ptr C_u32, ''next_id'')] False True]"

definition bpf_api_12 :: "api_fun list" where
  "bpf_api_12 =
    [Api ''bpf_prog_get_fd_by_id'' C_int [(C_u32, ''id'')] False True,
     Api ''bpf_prog_get_fd_by_id_opts'' C_int [(C_u32, ''id''), (C_ptr (C_const (C_struct ''bpf_get_fd_by_id_opts'')), ''opts'')] False True,
     Api ''bpf_map_get_fd_by_id'' C_int [(C_u32, ''id'')] False True,
     Api ''bpf_map_get_fd_by_id_opts'' C_int [(C_u32, ''id''), (C_ptr (C_const (C_struct ''bpf_get_fd_by_id_opts'')), ''opts'')] False True,
     Api ''bpf_btf_get_fd_by_id'' C_int [(C_u32, ''id'')] False True,
     Api ''bpf_btf_get_fd_by_id_opts'' C_int [(C_u32, ''id''), (C_ptr (C_const (C_struct ''bpf_get_fd_by_id_opts'')), ''opts'')] False True,
     Api ''bpf_link_get_fd_by_id'' C_int [(C_u32, ''id'')] False True,
     Api ''bpf_link_get_fd_by_id_opts'' C_int [(C_u32, ''id''), (C_ptr (C_const (C_struct ''bpf_get_fd_by_id_opts'')), ''opts'')] False True,
     Api ''bpf_obj_get_info_by_fd'' C_int [(C_int, ''bpf_fd''), (C_ptr C_void, ''info''), (C_ptr C_u32, ''info_len'')] False True,
     Api ''bpf_prog_get_info_by_fd'' C_int [(C_int, ''prog_fd''), (C_ptr (C_struct ''bpf_prog_info''), ''info''), (C_ptr C_u32, ''info_len'')] False True,
     Api ''bpf_map_get_info_by_fd'' C_int [(C_int, ''map_fd''), (C_ptr (C_struct ''bpf_map_info''), ''info''), (C_ptr C_u32, ''info_len'')] False True,
     Api ''bpf_btf_get_info_by_fd'' C_int [(C_int, ''btf_fd''), (C_ptr (C_struct ''bpf_btf_info''), ''info''), (C_ptr C_u32, ''info_len'')] False True,
     Api ''bpf_link_get_info_by_fd'' C_int [(C_int, ''link_fd''), (C_ptr (C_struct ''bpf_link_info''), ''info''), (C_ptr C_u32, ''info_len'')] False True]"

definition bpf_api_13 :: "api_fun list" where
  "bpf_api_13 =
    [Api ''bpf_prog_query_opts'' C_int [(C_int, ''target''), (C_enum ''bpf_attach_type'', ''type''), (C_ptr (C_struct ''bpf_prog_query_opts''), ''opts'')] False True,
     Api ''bpf_prog_query'' C_int [(C_int, ''target_fd''), (C_enum ''bpf_attach_type'', ''type''), (C_u32, ''query_flags''), (C_ptr C_u32, ''attach_flags''), (C_ptr C_u32, ''prog_ids''), (C_ptr C_u32, ''prog_cnt'')] False True]"

definition bpf_api_14 :: "api_fun list" where
  "bpf_api_14 =
    [Api ''bpf_raw_tracepoint_open_opts'' C_int [(C_int, ''prog_fd''), (C_ptr (C_struct ''bpf_raw_tp_opts''), ''opts'')] False True,
     Api ''bpf_raw_tracepoint_open'' C_int [(C_ptr (C_const C_char), ''name''), (C_int, ''prog_fd'')] False True,
     Api ''bpf_task_fd_query'' C_int [(C_int, ''pid''), (C_int, ''fd''), (C_u32, ''flags''), (C_ptr C_char, ''buf''), (C_ptr C_u32, ''buf_len''), (C_ptr C_u32, ''prog_id''), (C_ptr C_u32, ''fd_type''), (C_ptr C_u64, ''probe_offset''), (C_ptr C_u64, ''probe_addr'')] False True]"

definition bpf_api_15 :: "api_fun list" where
  "bpf_api_15 =
    [Api ''bpf_enable_stats'' C_int [(C_enum ''bpf_stats_type'', ''type'')] False True]"

definition bpf_api_16 :: "api_fun list" where
  "bpf_api_16 =
    [Api ''bpf_prog_bind_map'' C_int [(C_int, ''prog_fd''), (C_int, ''map_fd''), (C_ptr (C_const (C_struct ''bpf_prog_bind_opts'')), ''opts'')] False True]"

definition bpf_api_17 :: "api_fun list" where
  "bpf_api_17 =
    [Api ''bpf_prog_test_run_opts'' C_int [(C_int, ''prog_fd''), (C_ptr (C_struct ''bpf_test_run_opts''), ''opts'')] False True]"

definition bpf_api_18 :: "api_fun list" where
  "bpf_api_18 =
    [Api ''bpf_token_create'' C_int [(C_int, ''bpffs_fd''), (C_ptr (C_struct ''bpf_token_create_opts''), ''opts'')] False True]"

section \<open>btf.h\<close>

definition btf_api_1 :: "api_fun list" where
  "btf_api_1 =
    [Api ''btf__free'' C_void [(C_ptr (C_struct ''btf''), ''btf'')] False True,
     Api ''btf__new'' (C_ptr (C_struct ''btf'')) [(C_ptr (C_const C_void), ''data''), (C_u32, ''size'')] False True,
     Api ''btf__new_split'' (C_ptr (C_struct ''btf'')) [(C_ptr (C_const C_void), ''data''), (C_u32, ''size''), (C_ptr (C_struct ''btf''), ''base_btf'')] False True,
     Api ''btf__new_empty'' (C_ptr (C_struct ''btf'')) [] False True,
     Api ''btf__new_empty_split'' (C_ptr (C_struct ''btf'')) [(C_ptr (C_struct ''btf''), ''base_btf'')] False True,
     Api ''btf__distill_base'' C_int [(C_ptr (C_const (C_struct ''btf'')), ''src_btf''), (C_ptr (C_ptr (C_struct ''btf'')), ''new_base_btf''), (C_ptr (C_ptr (C_struct ''btf'')), ''new_split_btf'')] False True,
     Api ''btf__parse'' (C_ptr (C_struct ''btf'')) [(C_ptr (C_const C_char), ''path''), (C_ptr (C_ptr (C_struct ''btf_ext'')), ''btf_ext'')] False True,
     Api ''btf__parse_split'' (C_ptr (C_struct ''btf'')) [(C_ptr (C_const C_char), ''path''), (C_ptr (C_struct ''btf''), ''base_btf'')] False True,
     Api ''btf__parse_elf'' (C_ptr (C_struct ''btf'')) [(C_ptr (C_const C_char), ''path''), (C_ptr (C_ptr (C_struct ''btf_ext'')), ''btf_ext'')] False True,
     Api ''btf__parse_elf_split'' (C_ptr (C_struct ''btf'')) [(C_ptr (C_const C_char), ''path''), (C_ptr (C_struct ''btf''), ''base_btf'')] False True,
     Api ''btf__parse_raw'' (C_ptr (C_struct ''btf'')) [(C_ptr (C_const C_char), ''path'')] False True,
     Api ''btf__parse_raw_split'' (C_ptr (C_struct ''btf'')) [(C_ptr (C_const C_char), ''path''), (C_ptr (C_struct ''btf''), ''base_btf'')] False True,
     Api ''btf__load_vmlinux_btf'' (C_ptr (C_struct ''btf'')) [] False True,
     Api ''btf__load_module_btf'' (C_ptr (C_struct ''btf'')) [(C_ptr (C_const C_char), ''module_name''), (C_ptr (C_struct ''btf''), ''vmlinux_btf'')] False True,
     Api ''btf__load_from_kernel_by_id'' (C_ptr (C_struct ''btf'')) [(C_u32, ''id'')] False True,
     Api ''btf__load_from_kernel_by_id_split'' (C_ptr (C_struct ''btf'')) [(C_u32, ''id''), (C_ptr (C_struct ''btf''), ''base_btf'')] False True,
     Api ''btf__load_into_kernel'' C_int [(C_ptr (C_struct ''btf''), ''btf'')] False True,
     Api ''btf__find_by_name'' C_s32 [(C_ptr (C_const (C_struct ''btf'')), ''btf''), (C_ptr (C_const C_char), ''type_name'')] False True,
     Api ''btf__find_by_name_kind'' C_s32 [(C_ptr (C_const (C_struct ''btf'')), ''btf''), (C_ptr (C_const C_char), ''type_name''), (C_u32, ''kind'')] False True,
     Api ''btf__type_cnt'' C_u32 [(C_ptr (C_const (C_struct ''btf'')), ''btf'')] False True,
     Api ''btf__base_btf'' (C_ptr (C_const (C_struct ''btf''))) [(C_ptr (C_const (C_struct ''btf'')), ''btf'')] False True,
     Api ''btf__type_by_id'' (C_ptr (C_const (C_struct ''btf_type''))) [(C_ptr (C_const (C_struct ''btf'')), ''btf''), (C_u32, ''id'')] False True,
     Api ''btf__pointer_size'' C_size_t [(C_ptr (C_const (C_struct ''btf'')), ''btf'')] False True,
     Api ''btf__set_pointer_size'' C_int [(C_ptr (C_struct ''btf''), ''btf''), (C_size_t, ''ptr_sz'')] False True,
     Api ''btf__endianness'' (C_enum ''btf_endianness'') [(C_ptr (C_const (C_struct ''btf'')), ''btf'')] False True,
     Api ''btf__set_endianness'' C_int [(C_ptr (C_struct ''btf''), ''btf''), (C_enum ''btf_endianness'', ''endian'')] False True,
     Api ''btf__resolve_size'' C_s64 [(C_ptr (C_const (C_struct ''btf'')), ''btf''), (C_u32, ''type_id'')] False True,
     Api ''btf__resolve_type'' C_int [(C_ptr (C_const (C_struct ''btf'')), ''btf''), (C_u32, ''type_id'')] False True,
     Api ''btf__align_of'' C_int [(C_ptr (C_const (C_struct ''btf'')), ''btf''), (C_u32, ''id'')] False True,
     Api ''btf__fd'' C_int [(C_ptr (C_const (C_struct ''btf'')), ''btf'')] False True,
     Api ''btf__set_fd'' C_void [(C_ptr (C_struct ''btf''), ''btf''), (C_int, ''fd'')] False True,
     Api ''btf__raw_data'' (C_ptr (C_const C_void)) [(C_ptr (C_const (C_struct ''btf'')), ''btf''), (C_ptr C_u32, ''size'')] False True,
     Api ''btf__name_by_offset'' (C_ptr (C_const C_char)) [(C_ptr (C_const (C_struct ''btf'')), ''btf''), (C_u32, ''offset'')] False True,
     Api ''btf__str_by_offset'' (C_ptr (C_const C_char)) [(C_ptr (C_const (C_struct ''btf'')), ''btf''), (C_u32, ''offset'')] False True,
     Api ''btf_ext__new'' (C_ptr (C_struct ''btf_ext'')) [(C_ptr (C_const C_u8), ''data''), (C_u32, ''size'')] False True,
     Api ''btf_ext__free'' C_void [(C_ptr (C_struct ''btf_ext''), ''btf_ext'')] False True,
     Api ''btf_ext__raw_data'' (C_ptr (C_const C_void)) [(C_ptr (C_const (C_struct ''btf_ext'')), ''btf_ext''), (C_ptr C_u32, ''size'')] False True,
     Api ''btf_ext__endianness'' (C_enum ''btf_endianness'') [(C_ptr (C_const (C_struct ''btf_ext'')), ''btf_ext'')] False True,
     Api ''btf_ext__set_endianness'' C_int [(C_ptr (C_struct ''btf_ext''), ''btf_ext''), (C_enum ''btf_endianness'', ''endian'')] False True,
     Api ''btf__find_str'' C_int [(C_ptr (C_struct ''btf''), ''btf''), (C_ptr (C_const C_char), ''s'')] False True,
     Api ''btf__add_str'' C_int [(C_ptr (C_struct ''btf''), ''btf''), (C_ptr (C_const C_char), ''s'')] False True,
     Api ''btf__add_type'' C_int [(C_ptr (C_struct ''btf''), ''btf''), (C_ptr (C_const (C_struct ''btf'')), ''src_btf''), (C_ptr (C_const (C_struct ''btf_type'')), ''src_type'')] False True]"

definition btf_api_2 :: "api_fun list" where
  "btf_api_2 =
    [Api ''btf__add_btf'' C_int [(C_ptr (C_struct ''btf''), ''btf''), (C_ptr (C_const (C_struct ''btf'')), ''src_btf'')] False True,
     Api ''btf__add_int'' C_int [(C_ptr (C_struct ''btf''), ''btf''), (C_ptr (C_const C_char), ''name''), (C_size_t, ''byte_sz''), (C_int, ''encoding'')] False True,
     Api ''btf__add_float'' C_int [(C_ptr (C_struct ''btf''), ''btf''), (C_ptr (C_const C_char), ''name''), (C_size_t, ''byte_sz'')] False True,
     Api ''btf__add_ptr'' C_int [(C_ptr (C_struct ''btf''), ''btf''), (C_int, ''ref_type_id'')] False True,
     Api ''btf__add_array'' C_int [(C_ptr (C_struct ''btf''), ''btf''), (C_int, ''index_type_id''), (C_int, ''elem_type_id''), (C_u32, ''nr_elems'')] False True,
     Api ''btf__add_struct'' C_int [(C_ptr (C_struct ''btf''), ''btf''), (C_ptr (C_const C_char), ''name''), (C_u32, ''sz'')] False True,
     Api ''btf__add_union'' C_int [(C_ptr (C_struct ''btf''), ''btf''), (C_ptr (C_const C_char), ''name''), (C_u32, ''sz'')] False True,
     Api ''btf__add_field'' C_int [(C_ptr (C_struct ''btf''), ''btf''), (C_ptr (C_const C_char), ''name''), (C_int, ''field_type_id''), (C_u32, ''bit_offset''), (C_u32, ''bit_size'')] False True,
     Api ''btf__add_enum'' C_int [(C_ptr (C_struct ''btf''), ''btf''), (C_ptr (C_const C_char), ''name''), (C_u32, ''bytes_sz'')] False True,
     Api ''btf__add_enum_value'' C_int [(C_ptr (C_struct ''btf''), ''btf''), (C_ptr (C_const C_char), ''name''), (C_s64, ''value'')] False True,
     Api ''btf__add_enum64'' C_int [(C_ptr (C_struct ''btf''), ''btf''), (C_ptr (C_const C_char), ''name''), (C_u32, ''bytes_sz''), (C_bool, ''is_signed'')] False True,
     Api ''btf__add_enum64_value'' C_int [(C_ptr (C_struct ''btf''), ''btf''), (C_ptr (C_const C_char), ''name''), (C_u64, ''value'')] False True]"

definition btf_api_3 :: "api_fun list" where
  "btf_api_3 =
    [Api ''btf__add_fwd'' C_int [(C_ptr (C_struct ''btf''), ''btf''), (C_ptr (C_const C_char), ''name''), (C_enum ''btf_fwd_kind'', ''fwd_kind'')] False True,
     Api ''btf__add_typedef'' C_int [(C_ptr (C_struct ''btf''), ''btf''), (C_ptr (C_const C_char), ''name''), (C_int, ''ref_type_id'')] False True,
     Api ''btf__add_volatile'' C_int [(C_ptr (C_struct ''btf''), ''btf''), (C_int, ''ref_type_id'')] False True,
     Api ''btf__add_const'' C_int [(C_ptr (C_struct ''btf''), ''btf''), (C_int, ''ref_type_id'')] False True,
     Api ''btf__add_restrict'' C_int [(C_ptr (C_struct ''btf''), ''btf''), (C_int, ''ref_type_id'')] False True,
     Api ''btf__add_type_tag'' C_int [(C_ptr (C_struct ''btf''), ''btf''), (C_ptr (C_const C_char), ''value''), (C_int, ''ref_type_id'')] False True,
     Api ''btf__add_type_attr'' C_int [(C_ptr (C_struct ''btf''), ''btf''), (C_ptr (C_const C_char), ''value''), (C_int, ''ref_type_id'')] False True,
     Api ''btf__add_func'' C_int [(C_ptr (C_struct ''btf''), ''btf''), (C_ptr (C_const C_char), ''name''), (C_enum ''btf_func_linkage'', ''linkage''), (C_int, ''proto_type_id'')] False True,
     Api ''btf__add_func_proto'' C_int [(C_ptr (C_struct ''btf''), ''btf''), (C_int, ''ret_type_id'')] False True,
     Api ''btf__add_func_param'' C_int [(C_ptr (C_struct ''btf''), ''btf''), (C_ptr (C_const C_char), ''name''), (C_int, ''type_id'')] False True,
     Api ''btf__add_var'' C_int [(C_ptr (C_struct ''btf''), ''btf''), (C_ptr (C_const C_char), ''name''), (C_int, ''linkage''), (C_int, ''type_id'')] False True,
     Api ''btf__add_datasec'' C_int [(C_ptr (C_struct ''btf''), ''btf''), (C_ptr (C_const C_char), ''name''), (C_u32, ''byte_sz'')] False True,
     Api ''btf__add_datasec_var_info'' C_int [(C_ptr (C_struct ''btf''), ''btf''), (C_int, ''var_type_id''), (C_u32, ''offset''), (C_u32, ''byte_sz'')] False True,
     Api ''btf__add_decl_tag'' C_int [(C_ptr (C_struct ''btf''), ''btf''), (C_ptr (C_const C_char), ''value''), (C_int, ''ref_type_id''), (C_int, ''component_idx'')] False True,
     Api ''btf__add_decl_attr'' C_int [(C_ptr (C_struct ''btf''), ''btf''), (C_ptr (C_const C_char), ''value''), (C_int, ''ref_type_id''), (C_int, ''component_idx'')] False True]"

definition btf_api_4 :: "api_fun list" where
  "btf_api_4 =
    [Api ''btf__dedup'' C_int [(C_ptr (C_struct ''btf''), ''btf''), (C_ptr (C_const (C_struct ''btf_dedup_opts'')), ''opts'')] False True,
     Api ''btf__relocate'' C_int [(C_ptr (C_struct ''btf''), ''btf''), (C_ptr (C_const (C_struct ''btf'')), ''base_btf'')] False True]"

definition btf_api_5 :: "api_fun list" where
  "btf_api_5 =
    [Api ''btf_dump__new'' (C_ptr (C_struct ''btf_dump'')) [(C_ptr (C_const (C_struct ''btf'')), ''btf''), (C_fun ''btf_dump_printf_fn_t'', ''printf_fn''), (C_ptr C_void, ''ctx''), (C_ptr (C_const (C_struct ''btf_dump_opts'')), ''opts'')] False True,
     Api ''btf_dump__free'' C_void [(C_ptr (C_struct ''btf_dump''), ''d'')] False True,
     Api ''btf_dump__dump_type'' C_int [(C_ptr (C_struct ''btf_dump''), ''d''), (C_u32, ''id'')] False True]"

definition btf_api_6 :: "api_fun list" where
  "btf_api_6 =
    [Api ''btf_dump__emit_type_decl'' C_int [(C_ptr (C_struct ''btf_dump''), ''d''), (C_u32, ''id''), (C_ptr (C_const (C_struct ''btf_dump_emit_type_decl_opts'')), ''opts'')] False True]"

definition btf_api_7 :: "api_fun list" where
  "btf_api_7 =
    [Api ''btf_dump__dump_type_data'' C_int [(C_ptr (C_struct ''btf_dump''), ''d''), (C_u32, ''id''), (C_ptr (C_const C_void), ''data''), (C_size_t, ''data_sz''), (C_ptr (C_const (C_struct ''btf_dump_type_data_opts'')), ''opts'')] False True]"

section \<open>libbpf_legacy.h\<close>

definition legacy_api_1 :: "api_fun list" where
  "legacy_api_1 =
    [Api ''libbpf_set_strict_mode'' C_int [(C_enum ''libbpf_strict_mode'', ''mode'')] False True,
     Api ''libbpf_get_error'' C_long [(C_ptr (C_const C_void), ''ptr'')] False True]"

definition legacy_api_2 :: "api_fun list" where
  "legacy_api_2 =
    [Api ''libbpf_find_kernel_btf'' (C_ptr (C_struct ''btf'')) [] False True,
     Api ''bpf_program__get_type'' (C_enum ''bpf_prog_type'') [(C_ptr (C_const (C_struct ''bpf_program'')), ''prog'')] False True,
     Api ''bpf_program__get_expected_attach_type'' (C_enum ''bpf_attach_type'') [(C_ptr (C_const (C_struct ''bpf_program'')), ''prog'')] False True,
     Api ''bpf_map__get_pin_path'' (C_ptr (C_const C_char)) [(C_ptr (C_const (C_struct ''bpf_map'')), ''map'')] False True,
     Api ''btf__get_raw_data'' (C_ptr (C_const C_void)) [(C_ptr (C_const (C_struct ''btf'')), ''btf''), (C_ptr C_u32, ''size'')] False True,
     Api ''btf_ext__get_raw_data'' (C_ptr (C_const C_void)) [(C_ptr (C_const (C_struct ''btf_ext'')), ''btf_ext''), (C_ptr C_u32, ''size'')] False True]"

section \<open>All functions\<close>

definition api_decls :: "api_fun list" where
  "api_decls =
     libbpf_api_1 @ libbpf_api_2 @ libbpf_api_3 @ libbpf_api_4 @ libbpf_api_5 @ libbpf_api_6 @ libbpf_api_7 @
     libbpf_api_8 @ libbpf_api_9 @ libbpf_api_10 @ libbpf_api_11 @ libbpf_api_12 @ libbpf_api_13 @ libbpf_api_14 @
     libbpf_api_15 @ libbpf_api_16 @ libbpf_api_17 @ libbpf_api_18 @ libbpf_api_19 @ libbpf_api_20 @
     libbpf_api_21 @ libbpf_api_22 @ libbpf_api_23 @ libbpf_api_24 @ libbpf_api_25 @ libbpf_api_26 @
     libbpf_api_27 @ libbpf_api_28 @ libbpf_api_29 @ libbpf_api_30 @ libbpf_api_31 @ libbpf_api_32 @
     libbpf_api_33 @ bpf_api_1 @ bpf_api_2 @ bpf_api_3 @ bpf_api_4 @ bpf_api_5 @ bpf_api_6 @ bpf_api_7 @
     bpf_api_8 @ bpf_api_9 @ bpf_api_10 @ bpf_api_11 @ bpf_api_12 @ bpf_api_13 @ bpf_api_14 @ bpf_api_15 @
     bpf_api_16 @ bpf_api_17 @ bpf_api_18 @ btf_api_1 @ btf_api_2 @ btf_api_3 @ btf_api_4 @ btf_api_5 @
     btf_api_6 @ btf_api_7 @ legacy_api_1 @ legacy_api_2"

end
