(* ===== verification/Opts_Structs.thy ===== *)
theory Opts_Structs
  imports C_Types
begin

text \<open>
  The extensible option structures of libbpf.h, bpf.h and btf.h in examples/c/.output/bpf. Each starts with its own
  size, and a macro \<open><struct>__last_field\<close> names the last field the library of that header knows. The headers grow
  these structures over time; \<open>size_t :0\<close> at the end pads a structure to a multiple of eight bytes.
\<close>

datatype opts_struct = Opts (o_name: string) (o_members: "c_member list") (o_last: string)

section \<open>The structures\<close>

definition bpf_object_open_opts :: opts_struct where
  "bpf_object_open_opts = Opts ''bpf_object_open_opts''
     [Field ''sz'' C_size_t, Field ''object_name'' (C_ptr (C_const C_char)), Field ''relaxed_maps'' C_bool,
      Field ''pin_root_path'' (C_ptr (C_const C_char)), Bits C_u32 32,
      Field ''kconfig'' (C_ptr (C_const C_char)), Field ''btf_custom_path'' (C_ptr (C_const C_char)),
      Field ''kernel_log_buf'' (C_ptr C_char), Field ''kernel_log_size'' C_size_t,
      Field ''kernel_log_level'' C_u32, Field ''bpf_token_path'' (C_ptr (C_const C_char)), Bits C_size_t 0]
     ''bpf_token_path''"

definition bpf_perf_event_opts :: opts_struct where
  "bpf_perf_event_opts = Opts ''bpf_perf_event_opts''
     [Field ''sz'' C_size_t, Field ''bpf_cookie'' C_u64, Field ''force_ioctl_attach'' C_bool, Bits C_size_t 0]
     ''force_ioctl_attach''"

definition bpf_kprobe_opts :: opts_struct where
  "bpf_kprobe_opts = Opts ''bpf_kprobe_opts''
     [Field ''sz'' C_size_t, Field ''bpf_cookie'' C_u64, Field ''offset'' C_size_t, Field ''retprobe'' C_bool,
      Field ''attach_mode'' (C_enum ''probe_attach_mode''), Bits C_size_t 0]
     ''attach_mode''"

definition bpf_kprobe_multi_opts :: opts_struct where
  "bpf_kprobe_multi_opts = Opts ''bpf_kprobe_multi_opts''
     [Field ''sz'' C_size_t, Field ''syms'' (C_ptr (C_ptr (C_const C_char))),
      Field ''addrs'' (C_ptr (C_const C_ulong)), Field ''cookies'' (C_ptr (C_const C_u64)),
      Field ''cnt'' C_size_t, Field ''retprobe'' C_bool, Field ''session'' C_bool,
      Field ''unique_match'' C_bool, Bits C_size_t 0]
     ''unique_match''"

definition bpf_uprobe_multi_opts :: opts_struct where
  "bpf_uprobe_multi_opts = Opts ''bpf_uprobe_multi_opts''
     [Field ''sz'' C_size_t, Field ''syms'' (C_ptr (C_ptr (C_const C_char))),
      Field ''offsets'' (C_ptr (C_const C_ulong)), Field ''ref_ctr_offsets'' (C_ptr (C_const C_ulong)),
      Field ''cookies'' (C_ptr (C_const C_u64)), Field ''cnt'' C_size_t, Field ''retprobe'' C_bool,
      Field ''session'' C_bool, Bits C_size_t 0]
     ''session''"

definition bpf_ksyscall_opts :: opts_struct where
  "bpf_ksyscall_opts = Opts ''bpf_ksyscall_opts''
     [Field ''sz'' C_size_t, Field ''bpf_cookie'' C_u64, Field ''retprobe'' C_bool, Bits C_size_t 0]
     ''retprobe''"

definition bpf_uprobe_opts :: opts_struct where
  "bpf_uprobe_opts = Opts ''bpf_uprobe_opts''
     [Field ''sz'' C_size_t, Field ''ref_ctr_offset'' C_size_t, Field ''bpf_cookie'' C_u64,
      Field ''retprobe'' C_bool, Field ''func_name'' (C_ptr (C_const C_char)),
      Field ''attach_mode'' (C_enum ''probe_attach_mode''), Bits C_size_t 0]
     ''attach_mode''"

definition bpf_usdt_opts :: opts_struct where
  "bpf_usdt_opts = Opts ''bpf_usdt_opts''
     [Field ''sz'' C_size_t, Field ''usdt_cookie'' C_u64, Bits C_size_t 0]
     ''usdt_cookie''"

definition bpf_tracepoint_opts :: opts_struct where
  "bpf_tracepoint_opts = Opts ''bpf_tracepoint_opts''
     [Field ''sz'' C_size_t, Field ''bpf_cookie'' C_u64]
     ''bpf_cookie''"

definition bpf_raw_tracepoint_opts :: opts_struct where
  "bpf_raw_tracepoint_opts = Opts ''bpf_raw_tracepoint_opts''
     [Field ''sz'' C_size_t, Field ''cookie'' C_u64, Bits C_size_t 0]
     ''cookie''"

definition bpf_trace_opts :: opts_struct where
  "bpf_trace_opts = Opts ''bpf_trace_opts''
     [Field ''sz'' C_size_t, Field ''cookie'' C_u64]
     ''cookie''"

definition bpf_netfilter_opts :: opts_struct where
  "bpf_netfilter_opts = Opts ''bpf_netfilter_opts''
     [Field ''sz'' C_size_t, Field ''pf'' C_u32, Field ''hooknum'' C_u32, Field ''priority'' C_s32,
      Field ''flags'' C_u32]
     ''flags''"

definition bpf_tcx_opts :: opts_struct where
  "bpf_tcx_opts = Opts ''bpf_tcx_opts''
     [Field ''sz'' C_size_t, Field ''flags'' C_u32, Field ''relative_fd'' C_u32, Field ''relative_id'' C_u32,
      Field ''expected_revision'' C_u64, Bits C_size_t 0]
     ''expected_revision''"

definition bpf_netkit_opts :: opts_struct where
  "bpf_netkit_opts = Opts ''bpf_netkit_opts''
     [Field ''sz'' C_size_t, Field ''flags'' C_u32, Field ''relative_fd'' C_u32, Field ''relative_id'' C_u32,
      Field ''expected_revision'' C_u64, Bits C_size_t 0]
     ''expected_revision''"

definition bpf_iter_attach_opts :: opts_struct where
  "bpf_iter_attach_opts = Opts ''bpf_iter_attach_opts''
     [Field ''sz'' C_size_t, Field ''link_info'' (C_ptr (C_union ''bpf_iter_link_info'')),
      Field ''link_info_len'' C_u32]
     ''link_info_len''"

definition bpf_xdp_set_link_opts :: opts_struct where
  "bpf_xdp_set_link_opts = Opts ''bpf_xdp_set_link_opts''
     [Field ''sz'' C_size_t, Field ''old_fd'' C_int, Bits C_size_t 0]
     ''old_fd''"

definition bpf_xdp_attach_opts :: opts_struct where
  "bpf_xdp_attach_opts = Opts ''bpf_xdp_attach_opts''
     [Field ''sz'' C_size_t, Field ''old_prog_fd'' C_int, Bits C_size_t 0]
     ''old_prog_fd''"

definition bpf_xdp_query_opts :: opts_struct where
  "bpf_xdp_query_opts = Opts ''bpf_xdp_query_opts''
     [Field ''sz'' C_size_t, Field ''prog_id'' C_u32, Field ''drv_prog_id'' C_u32, Field ''hw_prog_id'' C_u32,
      Field ''skb_prog_id'' C_u32, Field ''attach_mode'' C_u8, Field ''feature_flags'' C_u64,
      Field ''xdp_zc_max_segs'' C_u32, Bits C_size_t 0]
     ''xdp_zc_max_segs''"

definition bpf_tc_hook :: opts_struct where
  "bpf_tc_hook = Opts ''bpf_tc_hook''
     [Field ''sz'' C_size_t, Field ''ifindex'' C_int, Field ''attach_point'' (C_enum ''bpf_tc_attach_point''),
      Field ''parent'' C_u32, Bits C_size_t 0]
     ''parent''"

definition bpf_tc_opts :: opts_struct where
  "bpf_tc_opts = Opts ''bpf_tc_opts''
     [Field ''sz'' C_size_t, Field ''prog_fd'' C_int, Field ''flags'' C_u32, Field ''prog_id'' C_u32,
      Field ''handle'' C_u32, Field ''priority'' C_u32, Bits C_size_t 0]
     ''priority''"

definition ring_buffer_opts :: opts_struct where
  "ring_buffer_opts = Opts ''ring_buffer_opts''
     [Field ''sz'' C_size_t]
     ''sz''"

definition user_ring_buffer_opts :: opts_struct where
  "user_ring_buffer_opts = Opts ''user_ring_buffer_opts''
     [Field ''sz'' C_size_t]
     ''sz''"

definition perf_buffer_opts :: opts_struct where
  "perf_buffer_opts = Opts ''perf_buffer_opts''
     [Field ''sz'' C_size_t, Field ''sample_period'' C_u32, Bits C_size_t 0]
     ''sample_period''"

definition perf_buffer_raw_opts :: opts_struct where
  "perf_buffer_raw_opts = Opts ''perf_buffer_raw_opts''
     [Field ''sz'' C_size_t, Bits C_long 0, Bits C_long 0, Field ''cpu_cnt'' C_int,
      Field ''cpus'' (C_ptr C_int), Field ''map_keys'' (C_ptr C_int)]
     ''map_keys''"

definition gen_loader_opts :: opts_struct where
  "gen_loader_opts = Opts ''gen_loader_opts''
     [Field ''sz'' C_size_t, Field ''data'' (C_ptr (C_const C_char)), Field ''insns'' (C_ptr (C_const C_char)),
      Field ''data_sz'' C_u32, Field ''insns_sz'' C_u32]
     ''insns_sz''"

definition bpf_linker_opts :: opts_struct where
  "bpf_linker_opts = Opts ''bpf_linker_opts''
     [Field ''sz'' C_size_t]
     ''sz''"

definition bpf_linker_file_opts :: opts_struct where
  "bpf_linker_file_opts = Opts ''bpf_linker_file_opts''
     [Field ''sz'' C_size_t]
     ''sz''"

definition libbpf_prog_handler_opts :: opts_struct where
  "libbpf_prog_handler_opts = Opts ''libbpf_prog_handler_opts''
     [Field ''sz'' C_size_t, Field ''cookie'' C_long,
      Field ''prog_setup_fn'' (C_fun ''libbpf_prog_setup_fn_t''),
      Field ''prog_prepare_load_fn'' (C_fun ''libbpf_prog_prepare_load_fn_t''),
      Field ''prog_attach_fn'' (C_fun ''libbpf_prog_attach_fn_t'')]
     ''prog_attach_fn''"

definition bpf_map_create_opts :: opts_struct where
  "bpf_map_create_opts = Opts ''bpf_map_create_opts''
     [Field ''sz'' C_size_t, Field ''btf_fd'' C_u32, Field ''btf_key_type_id'' C_u32,
      Field ''btf_value_type_id'' C_u32, Field ''btf_vmlinux_value_type_id'' C_u32,
      Field ''inner_map_fd'' C_u32, Field ''map_flags'' C_u32, Field ''map_extra'' C_u64,
      Field ''numa_node'' C_u32, Field ''map_ifindex'' C_u32, Field ''value_type_btf_obj_fd'' C_s32,
      Field ''token_fd'' C_u32, Bits C_size_t 0]
     ''token_fd''"

definition bpf_prog_load_opts :: opts_struct where
  "bpf_prog_load_opts = Opts ''bpf_prog_load_opts''
     [Field ''sz'' C_size_t, Field ''attempts'' C_int,
      Field ''expected_attach_type'' (C_enum ''bpf_attach_type''), Field ''prog_btf_fd'' C_u32,
      Field ''prog_flags'' C_u32, Field ''prog_ifindex'' C_u32, Field ''kern_version'' C_u32,
      Field ''attach_btf_id'' C_u32, Field ''attach_prog_fd'' C_u32, Field ''attach_btf_obj_fd'' C_u32,
      Field ''fd_array'' (C_ptr (C_const C_int)), Field ''func_info'' (C_ptr (C_const C_void)),
      Field ''func_info_cnt'' C_u32, Field ''func_info_rec_size'' C_u32,
      Field ''line_info'' (C_ptr (C_const C_void)), Field ''line_info_cnt'' C_u32,
      Field ''line_info_rec_size'' C_u32, Field ''log_level'' C_u32, Field ''log_size'' C_u32,
      Field ''log_buf'' (C_ptr C_char), Field ''log_true_size'' C_u32, Field ''token_fd'' C_u32,
      Field ''fd_array_cnt'' C_u32, Bits C_size_t 0]
     ''fd_array_cnt''"

definition bpf_btf_load_opts :: opts_struct where
  "bpf_btf_load_opts = Opts ''bpf_btf_load_opts''
     [Field ''sz'' C_size_t, Field ''log_buf'' (C_ptr C_char), Field ''log_level'' C_u32,
      Field ''log_size'' C_u32, Field ''log_true_size'' C_u32, Field ''btf_flags'' C_u32,
      Field ''token_fd'' C_u32, Bits C_size_t 0]
     ''token_fd''"

definition bpf_map_batch_opts :: opts_struct where
  "bpf_map_batch_opts = Opts ''bpf_map_batch_opts''
     [Field ''sz'' C_size_t, Field ''elem_flags'' C_u64, Field ''flags'' C_u64]
     ''flags''"

definition bpf_obj_pin_opts :: opts_struct where
  "bpf_obj_pin_opts = Opts ''bpf_obj_pin_opts''
     [Field ''sz'' C_size_t, Field ''file_flags'' C_u32, Field ''path_fd'' C_int, Bits C_size_t 0]
     ''path_fd''"

definition bpf_obj_get_opts :: opts_struct where
  "bpf_obj_get_opts = Opts ''bpf_obj_get_opts''
     [Field ''sz'' C_size_t, Field ''file_flags'' C_u32, Field ''path_fd'' C_int, Bits C_size_t 0]
     ''path_fd''"

definition bpf_prog_attach_opts :: opts_struct where
  "bpf_prog_attach_opts = Opts ''bpf_prog_attach_opts''
     [Field ''sz'' C_size_t, Field ''flags'' C_u32,
      Sub_union '''' [Field ''replace_prog_fd'' C_int, Field ''replace_fd'' C_int],
      Field ''relative_fd'' C_int, Field ''relative_id'' C_u32, Field ''expected_revision'' C_u64,
      Bits C_size_t 0]
     ''expected_revision''"

definition bpf_prog_detach_opts :: opts_struct where
  "bpf_prog_detach_opts = Opts ''bpf_prog_detach_opts''
     [Field ''sz'' C_size_t, Field ''flags'' C_u32, Field ''relative_fd'' C_int, Field ''relative_id'' C_u32,
      Field ''expected_revision'' C_u64, Bits C_size_t 0]
     ''expected_revision''"

definition bpf_link_create_opts :: opts_struct where
  "bpf_link_create_opts = Opts ''bpf_link_create_opts''
     [Field ''sz'' C_size_t, Field ''flags'' C_u32,
      Field ''iter_info'' (C_ptr (C_union ''bpf_iter_link_info'')), Field ''iter_info_len'' C_u32,
      Field ''target_btf_id'' C_u32,
      Sub_union '''' [Sub_struct ''perf_event'' [Field ''bpf_cookie'' C_u64], Sub_struct ''kprobe_multi'' [Field ''flags'' C_u32, Field ''cnt'' C_u32, Field ''syms'' (C_ptr (C_ptr (C_const C_char))), Field ''addrs'' (C_ptr (C_const C_ulong)), Field ''cookies'' (C_ptr (C_const C_u64))], Sub_struct ''uprobe_multi'' [Field ''flags'' C_u32, Field ''cnt'' C_u32, Field ''path'' (C_ptr (C_const C_char)), Field ''offsets'' (C_ptr (C_const C_ulong)), Field ''ref_ctr_offsets'' (C_ptr (C_const C_ulong)), Field ''cookies'' (C_ptr (C_const C_u64)), Field ''pid'' C_u32], Sub_struct ''tracing'' [Field ''cookie'' C_u64], Sub_struct ''netfilter'' [Field ''pf'' C_u32, Field ''hooknum'' C_u32, Field ''priority'' C_s32, Field ''flags'' C_u32], Sub_struct ''tcx'' [Field ''relative_fd'' C_u32, Field ''relative_id'' C_u32, Field ''expected_revision'' C_u64], Sub_struct ''netkit'' [Field ''relative_fd'' C_u32, Field ''relative_id'' C_u32, Field ''expected_revision'' C_u64]],
      Bits C_size_t 0]
     ''uprobe_multi.pid''"

definition bpf_link_update_opts :: opts_struct where
  "bpf_link_update_opts = Opts ''bpf_link_update_opts''
     [Field ''sz'' C_size_t, Field ''flags'' C_u32, Field ''old_prog_fd'' C_u32, Field ''old_map_fd'' C_u32]
     ''old_map_fd''"

definition bpf_get_fd_by_id_opts :: opts_struct where
  "bpf_get_fd_by_id_opts = Opts ''bpf_get_fd_by_id_opts''
     [Field ''sz'' C_size_t, Field ''open_flags'' C_u32, Bits C_size_t 0]
     ''open_flags''"

definition bpf_prog_query_opts :: opts_struct where
  "bpf_prog_query_opts = Opts ''bpf_prog_query_opts''
     [Field ''sz'' C_size_t, Field ''query_flags'' C_u32, Field ''attach_flags'' C_u32,
      Field ''prog_ids'' (C_ptr C_u32), Sub_union '''' [Field ''prog_cnt'' C_u32, Field ''count'' C_u32],
      Field ''prog_attach_flags'' (C_ptr C_u32), Field ''link_ids'' (C_ptr C_u32),
      Field ''link_attach_flags'' (C_ptr C_u32), Field ''revision'' C_u64, Bits C_size_t 0]
     ''revision''"

definition bpf_raw_tp_opts :: opts_struct where
  "bpf_raw_tp_opts = Opts ''bpf_raw_tp_opts''
     [Field ''sz'' C_size_t, Field ''tp_name'' (C_ptr (C_const C_char)), Field ''cookie'' C_u64, Bits C_size_t 0]
     ''cookie''"

definition bpf_prog_bind_opts :: opts_struct where
  "bpf_prog_bind_opts = Opts ''bpf_prog_bind_opts''
     [Field ''sz'' C_size_t, Field ''flags'' C_u32]
     ''flags''"

definition bpf_test_run_opts :: opts_struct where
  "bpf_test_run_opts = Opts ''bpf_test_run_opts''
     [Field ''sz'' C_size_t, Field ''data_in'' (C_ptr (C_const C_void)), Field ''data_out'' (C_ptr C_void),
      Field ''data_size_in'' C_u32, Field ''data_size_out'' C_u32, Field ''ctx_in'' (C_ptr (C_const C_void)),
      Field ''ctx_out'' (C_ptr C_void), Field ''ctx_size_in'' C_u32, Field ''ctx_size_out'' C_u32,
      Field ''retval'' C_u32, Field ''repeat'' C_int, Field ''duration'' C_u32, Field ''flags'' C_u32,
      Field ''cpu'' C_u32, Field ''batch_size'' C_u32]
     ''batch_size''"

definition bpf_token_create_opts :: opts_struct where
  "bpf_token_create_opts = Opts ''bpf_token_create_opts''
     [Field ''sz'' C_size_t, Field ''flags'' C_u32, Bits C_size_t 0]
     ''flags''"

definition btf_dedup_opts :: opts_struct where
  "btf_dedup_opts = Opts ''btf_dedup_opts''
     [Field ''sz'' C_size_t, Field ''btf_ext'' (C_ptr (C_struct ''btf_ext'')),
      Field ''force_collisions'' C_bool, Bits C_size_t 0]
     ''force_collisions''"

definition btf_dump_opts :: opts_struct where
  "btf_dump_opts = Opts ''btf_dump_opts''
     [Field ''sz'' C_size_t]
     ''sz''"

definition btf_dump_emit_type_decl_opts :: opts_struct where
  "btf_dump_emit_type_decl_opts = Opts ''btf_dump_emit_type_decl_opts''
     [Field ''sz'' C_size_t, Field ''field_name'' (C_ptr (C_const C_char)), Field ''indent_level'' C_int,
      Field ''strip_mods'' C_bool, Bits C_size_t 0]
     ''strip_mods''"

definition btf_dump_type_data_opts :: opts_struct where
  "btf_dump_type_data_opts = Opts ''btf_dump_type_data_opts''
     [Field ''sz'' C_size_t, Field ''indent_str'' (C_ptr (C_const C_char)), Field ''indent_level'' C_int,
      Field ''compact'' C_bool, Field ''skip_names'' C_bool, Field ''emit_zeroes'' C_bool, Bits C_size_t 0]
     ''emit_zeroes''"

definition opts_structs :: "opts_struct list" where
  "opts_structs =
     [bpf_object_open_opts, bpf_perf_event_opts, bpf_kprobe_opts, bpf_kprobe_multi_opts, bpf_uprobe_multi_opts,
      bpf_ksyscall_opts, bpf_uprobe_opts, bpf_usdt_opts, bpf_tracepoint_opts, bpf_raw_tracepoint_opts,
      bpf_trace_opts, bpf_netfilter_opts, bpf_tcx_opts, bpf_netkit_opts, bpf_iter_attach_opts,
      bpf_xdp_set_link_opts, bpf_xdp_attach_opts, bpf_xdp_query_opts, bpf_tc_hook, bpf_tc_opts,
      ring_buffer_opts, user_ring_buffer_opts, perf_buffer_opts, perf_buffer_raw_opts, gen_loader_opts,
      bpf_linker_opts, bpf_linker_file_opts, libbpf_prog_handler_opts, bpf_map_create_opts, bpf_prog_load_opts,
      bpf_btf_load_opts, bpf_map_batch_opts, bpf_obj_pin_opts, bpf_obj_get_opts, bpf_prog_attach_opts,
      bpf_prog_detach_opts, bpf_link_create_opts, bpf_link_update_opts, bpf_get_fd_by_id_opts,
      bpf_prog_query_opts, bpf_raw_tp_opts, bpf_prog_bind_opts, bpf_test_run_opts, bpf_token_create_opts,
      btf_dedup_opts, btf_dump_opts, btf_dump_emit_type_decl_opts, btf_dump_type_data_opts]"

lemmas opts_defs =
  bpf_object_open_opts_def bpf_perf_event_opts_def bpf_kprobe_opts_def bpf_kprobe_multi_opts_def
  bpf_uprobe_multi_opts_def bpf_ksyscall_opts_def bpf_uprobe_opts_def bpf_usdt_opts_def bpf_tracepoint_opts_def
  bpf_raw_tracepoint_opts_def bpf_trace_opts_def bpf_netfilter_opts_def bpf_tcx_opts_def bpf_netkit_opts_def
  bpf_iter_attach_opts_def bpf_xdp_set_link_opts_def bpf_xdp_attach_opts_def bpf_xdp_query_opts_def
  bpf_tc_hook_def bpf_tc_opts_def ring_buffer_opts_def user_ring_buffer_opts_def perf_buffer_opts_def
  perf_buffer_raw_opts_def gen_loader_opts_def bpf_linker_opts_def bpf_linker_file_opts_def
  libbpf_prog_handler_opts_def bpf_map_create_opts_def bpf_prog_load_opts_def bpf_btf_load_opts_def
  bpf_map_batch_opts_def bpf_obj_pin_opts_def bpf_obj_get_opts_def bpf_prog_attach_opts_def
  bpf_prog_detach_opts_def bpf_link_create_opts_def bpf_link_update_opts_def bpf_get_fd_by_id_opts_def
  bpf_prog_query_opts_def bpf_raw_tp_opts_def bpf_prog_bind_opts_def bpf_test_run_opts_def
  bpf_token_create_opts_def btf_dedup_opts_def btf_dump_opts_def btf_dump_emit_type_decl_opts_def
  btf_dump_type_data_opts_def

end
