(* ===== verification/Opts_Structs_Old.thy ===== *)
theory Opts_Structs_Old
  imports Opts_Structs
begin

text \<open>
  The same structures in the older copy of the headers, in examples/c/.output/bpftool/bootstrap/libbpf/include/bpf.
\<close>

section \<open>The structures\<close>

definition old_bpf_object_open_opts :: opts_struct where
  "old_bpf_object_open_opts = Opts ''bpf_object_open_opts''
     [Field ''sz'' C_size_t, Field ''object_name'' (C_ptr (C_const C_char)), Field ''relaxed_maps'' C_bool,
      Field ''pin_root_path'' (C_ptr (C_const C_char)), Bits C_u32 32,
      Field ''kconfig'' (C_ptr (C_const C_char)), Field ''btf_custom_path'' (C_ptr (C_const C_char)),
      Field ''kernel_log_buf'' (C_ptr C_char), Field ''kernel_log_size'' C_size_t,
      Field ''kernel_log_level'' C_u32, Bits C_size_t 0]
     ''kernel_log_level''"

definition old_bpf_perf_event_opts :: opts_struct where
  "old_bpf_perf_event_opts = Opts ''bpf_perf_event_opts''
     [Field ''sz'' C_size_t, Field ''bpf_cookie'' C_u64, Field ''force_ioctl_attach'' C_bool, Bits C_size_t 0]
     ''force_ioctl_attach''"

definition old_bpf_kprobe_opts :: opts_struct where
  "old_bpf_kprobe_opts = Opts ''bpf_kprobe_opts''
     [Field ''sz'' C_size_t, Field ''bpf_cookie'' C_u64, Field ''offset'' C_size_t, Field ''retprobe'' C_bool,
      Field ''attach_mode'' (C_enum ''probe_attach_mode''), Bits C_size_t 0]
     ''attach_mode''"

definition old_bpf_kprobe_multi_opts :: opts_struct where
  "old_bpf_kprobe_multi_opts = Opts ''bpf_kprobe_multi_opts''
     [Field ''sz'' C_size_t, Field ''syms'' (C_ptr (C_ptr (C_const C_char))),
      Field ''addrs'' (C_ptr (C_const C_ulong)), Field ''cookies'' (C_ptr (C_const C_u64)),
      Field ''cnt'' C_size_t, Field ''retprobe'' C_bool, Bits C_size_t 0]
     ''retprobe''"

definition old_bpf_uprobe_multi_opts :: opts_struct where
  "old_bpf_uprobe_multi_opts = Opts ''bpf_uprobe_multi_opts''
     [Field ''sz'' C_size_t, Field ''syms'' (C_ptr (C_ptr (C_const C_char))),
      Field ''offsets'' (C_ptr (C_const C_ulong)), Field ''ref_ctr_offsets'' (C_ptr (C_const C_ulong)),
      Field ''cookies'' (C_ptr (C_const C_u64)), Field ''cnt'' C_size_t, Field ''retprobe'' C_bool,
      Bits C_size_t 0]
     ''retprobe''"

definition old_bpf_ksyscall_opts :: opts_struct where
  "old_bpf_ksyscall_opts = Opts ''bpf_ksyscall_opts''
     [Field ''sz'' C_size_t, Field ''bpf_cookie'' C_u64, Field ''retprobe'' C_bool, Bits C_size_t 0]
     ''retprobe''"

definition old_bpf_uprobe_opts :: opts_struct where
  "old_bpf_uprobe_opts = Opts ''bpf_uprobe_opts''
     [Field ''sz'' C_size_t, Field ''ref_ctr_offset'' C_size_t, Field ''bpf_cookie'' C_u64,
      Field ''retprobe'' C_bool, Field ''func_name'' (C_ptr (C_const C_char)),
      Field ''attach_mode'' (C_enum ''probe_attach_mode''), Bits C_size_t 0]
     ''attach_mode''"

definition old_bpf_usdt_opts :: opts_struct where
  "old_bpf_usdt_opts = Opts ''bpf_usdt_opts''
     [Field ''sz'' C_size_t, Field ''usdt_cookie'' C_u64, Bits C_size_t 0]
     ''usdt_cookie''"

definition old_bpf_tracepoint_opts :: opts_struct where
  "old_bpf_tracepoint_opts = Opts ''bpf_tracepoint_opts''
     [Field ''sz'' C_size_t, Field ''bpf_cookie'' C_u64]
     ''bpf_cookie''"

definition old_bpf_trace_opts :: opts_struct where
  "old_bpf_trace_opts = Opts ''bpf_trace_opts''
     [Field ''sz'' C_size_t, Field ''cookie'' C_u64]
     ''cookie''"

definition old_bpf_netfilter_opts :: opts_struct where
  "old_bpf_netfilter_opts = Opts ''bpf_netfilter_opts''
     [Field ''sz'' C_size_t, Field ''pf'' C_u32, Field ''hooknum'' C_u32, Field ''priority'' C_s32,
      Field ''flags'' C_u32]
     ''flags''"

definition old_bpf_tcx_opts :: opts_struct where
  "old_bpf_tcx_opts = Opts ''bpf_tcx_opts''
     [Field ''sz'' C_size_t, Field ''flags'' C_u32, Field ''relative_fd'' C_u32, Field ''relative_id'' C_u32,
      Field ''expected_revision'' C_u64, Bits C_size_t 0]
     ''expected_revision''"

definition old_bpf_iter_attach_opts :: opts_struct where
  "old_bpf_iter_attach_opts = Opts ''bpf_iter_attach_opts''
     [Field ''sz'' C_size_t, Field ''link_info'' (C_ptr (C_union ''bpf_iter_link_info'')),
      Field ''link_info_len'' C_u32]
     ''link_info_len''"

definition old_bpf_xdp_set_link_opts :: opts_struct where
  "old_bpf_xdp_set_link_opts = Opts ''bpf_xdp_set_link_opts''
     [Field ''sz'' C_size_t, Field ''old_fd'' C_int, Bits C_size_t 0]
     ''old_fd''"

definition old_bpf_xdp_attach_opts :: opts_struct where
  "old_bpf_xdp_attach_opts = Opts ''bpf_xdp_attach_opts''
     [Field ''sz'' C_size_t, Field ''old_prog_fd'' C_int, Bits C_size_t 0]
     ''old_prog_fd''"

definition old_bpf_xdp_query_opts :: opts_struct where
  "old_bpf_xdp_query_opts = Opts ''bpf_xdp_query_opts''
     [Field ''sz'' C_size_t, Field ''prog_id'' C_u32, Field ''drv_prog_id'' C_u32, Field ''hw_prog_id'' C_u32,
      Field ''skb_prog_id'' C_u32, Field ''attach_mode'' C_u8, Field ''feature_flags'' C_u64,
      Field ''xdp_zc_max_segs'' C_u32, Bits C_size_t 0]
     ''xdp_zc_max_segs''"

definition old_bpf_tc_hook :: opts_struct where
  "old_bpf_tc_hook = Opts ''bpf_tc_hook''
     [Field ''sz'' C_size_t, Field ''ifindex'' C_int, Field ''attach_point'' (C_enum ''bpf_tc_attach_point''),
      Field ''parent'' C_u32, Bits C_size_t 0]
     ''parent''"

definition old_bpf_tc_opts :: opts_struct where
  "old_bpf_tc_opts = Opts ''bpf_tc_opts''
     [Field ''sz'' C_size_t, Field ''prog_fd'' C_int, Field ''flags'' C_u32, Field ''prog_id'' C_u32,
      Field ''handle'' C_u32, Field ''priority'' C_u32, Bits C_size_t 0]
     ''priority''"

definition old_ring_buffer_opts :: opts_struct where
  "old_ring_buffer_opts = Opts ''ring_buffer_opts''
     [Field ''sz'' C_size_t]
     ''sz''"

definition old_user_ring_buffer_opts :: opts_struct where
  "old_user_ring_buffer_opts = Opts ''user_ring_buffer_opts''
     [Field ''sz'' C_size_t]
     ''sz''"

definition old_perf_buffer_opts :: opts_struct where
  "old_perf_buffer_opts = Opts ''perf_buffer_opts''
     [Field ''sz'' C_size_t, Field ''sample_period'' C_u32, Bits C_size_t 0]
     ''sample_period''"

definition old_perf_buffer_raw_opts :: opts_struct where
  "old_perf_buffer_raw_opts = Opts ''perf_buffer_raw_opts''
     [Field ''sz'' C_size_t, Bits C_long 0, Bits C_long 0, Field ''cpu_cnt'' C_int,
      Field ''cpus'' (C_ptr C_int), Field ''map_keys'' (C_ptr C_int)]
     ''map_keys''"

definition old_gen_loader_opts :: opts_struct where
  "old_gen_loader_opts = Opts ''gen_loader_opts''
     [Field ''sz'' C_size_t, Field ''data'' (C_ptr (C_const C_char)), Field ''insns'' (C_ptr (C_const C_char)),
      Field ''data_sz'' C_u32, Field ''insns_sz'' C_u32]
     ''insns_sz''"

definition old_bpf_linker_opts :: opts_struct where
  "old_bpf_linker_opts = Opts ''bpf_linker_opts''
     [Field ''sz'' C_size_t]
     ''sz''"

definition old_bpf_linker_file_opts :: opts_struct where
  "old_bpf_linker_file_opts = Opts ''bpf_linker_file_opts''
     [Field ''sz'' C_size_t]
     ''sz''"

definition old_libbpf_prog_handler_opts :: opts_struct where
  "old_libbpf_prog_handler_opts = Opts ''libbpf_prog_handler_opts''
     [Field ''sz'' C_size_t, Field ''cookie'' C_long,
      Field ''prog_setup_fn'' (C_fun ''libbpf_prog_setup_fn_t''),
      Field ''prog_prepare_load_fn'' (C_fun ''libbpf_prog_prepare_load_fn_t''),
      Field ''prog_attach_fn'' (C_fun ''libbpf_prog_attach_fn_t'')]
     ''prog_attach_fn''"

definition old_bpf_map_create_opts :: opts_struct where
  "old_bpf_map_create_opts = Opts ''bpf_map_create_opts''
     [Field ''sz'' C_size_t, Field ''btf_fd'' C_u32, Field ''btf_key_type_id'' C_u32,
      Field ''btf_value_type_id'' C_u32, Field ''btf_vmlinux_value_type_id'' C_u32,
      Field ''inner_map_fd'' C_u32, Field ''map_flags'' C_u32, Field ''map_extra'' C_u64,
      Field ''numa_node'' C_u32, Field ''map_ifindex'' C_u32]
     ''map_ifindex''"

definition old_bpf_prog_load_opts :: opts_struct where
  "old_bpf_prog_load_opts = Opts ''bpf_prog_load_opts''
     [Field ''sz'' C_size_t, Field ''attempts'' C_int,
      Field ''expected_attach_type'' (C_enum ''bpf_attach_type''), Field ''prog_btf_fd'' C_u32,
      Field ''prog_flags'' C_u32, Field ''prog_ifindex'' C_u32, Field ''kern_version'' C_u32,
      Field ''attach_btf_id'' C_u32, Field ''attach_prog_fd'' C_u32, Field ''attach_btf_obj_fd'' C_u32,
      Field ''fd_array'' (C_ptr (C_const C_int)), Field ''func_info'' (C_ptr (C_const C_void)),
      Field ''func_info_cnt'' C_u32, Field ''func_info_rec_size'' C_u32,
      Field ''line_info'' (C_ptr (C_const C_void)), Field ''line_info_cnt'' C_u32,
      Field ''line_info_rec_size'' C_u32, Field ''log_level'' C_u32, Field ''log_size'' C_u32,
      Field ''log_buf'' (C_ptr C_char), Field ''log_true_size'' C_u32, Bits C_size_t 0]
     ''log_true_size''"

definition old_bpf_btf_load_opts :: opts_struct where
  "old_bpf_btf_load_opts = Opts ''bpf_btf_load_opts''
     [Field ''sz'' C_size_t, Field ''log_buf'' (C_ptr C_char), Field ''log_level'' C_u32,
      Field ''log_size'' C_u32, Field ''log_true_size'' C_u32, Bits C_size_t 0]
     ''log_true_size''"

definition old_bpf_map_batch_opts :: opts_struct where
  "old_bpf_map_batch_opts = Opts ''bpf_map_batch_opts''
     [Field ''sz'' C_size_t, Field ''elem_flags'' C_u64, Field ''flags'' C_u64]
     ''flags''"

definition old_bpf_obj_pin_opts :: opts_struct where
  "old_bpf_obj_pin_opts = Opts ''bpf_obj_pin_opts''
     [Field ''sz'' C_size_t, Field ''file_flags'' C_u32, Field ''path_fd'' C_int, Bits C_size_t 0]
     ''path_fd''"

definition old_bpf_obj_get_opts :: opts_struct where
  "old_bpf_obj_get_opts = Opts ''bpf_obj_get_opts''
     [Field ''sz'' C_size_t, Field ''file_flags'' C_u32, Field ''path_fd'' C_int, Bits C_size_t 0]
     ''path_fd''"

definition old_bpf_prog_attach_opts :: opts_struct where
  "old_bpf_prog_attach_opts = Opts ''bpf_prog_attach_opts''
     [Field ''sz'' C_size_t, Field ''flags'' C_u32,
      Sub_union '''' [Field ''replace_prog_fd'' C_int, Field ''replace_fd'' C_int],
      Field ''relative_fd'' C_int, Field ''relative_id'' C_u32, Field ''expected_revision'' C_u64,
      Bits C_size_t 0]
     ''expected_revision''"

definition old_bpf_prog_detach_opts :: opts_struct where
  "old_bpf_prog_detach_opts = Opts ''bpf_prog_detach_opts''
     [Field ''sz'' C_size_t, Field ''flags'' C_u32, Field ''relative_fd'' C_int, Field ''relative_id'' C_u32,
      Field ''expected_revision'' C_u64, Bits C_size_t 0]
     ''expected_revision''"

definition old_bpf_link_create_opts :: opts_struct where
  "old_bpf_link_create_opts = Opts ''bpf_link_create_opts''
     [Field ''sz'' C_size_t, Field ''flags'' C_u32,
      Field ''iter_info'' (C_ptr (C_union ''bpf_iter_link_info'')), Field ''iter_info_len'' C_u32,
      Field ''target_btf_id'' C_u32,
      Sub_union '''' [Sub_struct ''perf_event'' [Field ''bpf_cookie'' C_u64], Sub_struct ''kprobe_multi'' [Field ''flags'' C_u32, Field ''cnt'' C_u32, Field ''syms'' (C_ptr (C_ptr (C_const C_char))), Field ''addrs'' (C_ptr (C_const C_ulong)), Field ''cookies'' (C_ptr (C_const C_u64))], Sub_struct ''uprobe_multi'' [Field ''flags'' C_u32, Field ''cnt'' C_u32, Field ''path'' (C_ptr (C_const C_char)), Field ''offsets'' (C_ptr (C_const C_ulong)), Field ''ref_ctr_offsets'' (C_ptr (C_const C_ulong)), Field ''cookies'' (C_ptr (C_const C_u64)), Field ''pid'' C_u32], Sub_struct ''tracing'' [Field ''cookie'' C_u64], Sub_struct ''netfilter'' [Field ''pf'' C_u32, Field ''hooknum'' C_u32, Field ''priority'' C_s32, Field ''flags'' C_u32], Sub_struct ''tcx'' [Field ''relative_fd'' C_u32, Field ''relative_id'' C_u32, Field ''expected_revision'' C_u64]],
      Bits C_size_t 0]
     ''uprobe_multi.pid''"

definition old_bpf_link_update_opts :: opts_struct where
  "old_bpf_link_update_opts = Opts ''bpf_link_update_opts''
     [Field ''sz'' C_size_t, Field ''flags'' C_u32, Field ''old_prog_fd'' C_u32, Field ''old_map_fd'' C_u32]
     ''old_map_fd''"

definition old_bpf_get_fd_by_id_opts :: opts_struct where
  "old_bpf_get_fd_by_id_opts = Opts ''bpf_get_fd_by_id_opts''
     [Field ''sz'' C_size_t, Field ''open_flags'' C_u32, Bits C_size_t 0]
     ''open_flags''"

definition old_bpf_prog_query_opts :: opts_struct where
  "old_bpf_prog_query_opts = Opts ''bpf_prog_query_opts''
     [Field ''sz'' C_size_t, Field ''query_flags'' C_u32, Field ''attach_flags'' C_u32,
      Field ''prog_ids'' (C_ptr C_u32), Sub_union '''' [Field ''prog_cnt'' C_u32, Field ''count'' C_u32],
      Field ''prog_attach_flags'' (C_ptr C_u32), Field ''link_ids'' (C_ptr C_u32),
      Field ''link_attach_flags'' (C_ptr C_u32), Field ''revision'' C_u64, Bits C_size_t 0]
     ''revision''"

definition old_bpf_prog_bind_opts :: opts_struct where
  "old_bpf_prog_bind_opts = Opts ''bpf_prog_bind_opts''
     [Field ''sz'' C_size_t, Field ''flags'' C_u32]
     ''flags''"

definition old_bpf_test_run_opts :: opts_struct where
  "old_bpf_test_run_opts = Opts ''bpf_test_run_opts''
     [Field ''sz'' C_size_t, Field ''data_in'' (C_ptr (C_const C_void)), Field ''data_out'' (C_ptr C_void),
      Field ''data_size_in'' C_u32, Field ''data_size_out'' C_u32, Field ''ctx_in'' (C_ptr (C_const C_void)),
      Field ''ctx_out'' (C_ptr C_void), Field ''ctx_size_in'' C_u32, Field ''ctx_size_out'' C_u32,
      Field ''retval'' C_u32, Field ''repeat'' C_int, Field ''duration'' C_u32, Field ''flags'' C_u32,
      Field ''cpu'' C_u32, Field ''batch_size'' C_u32]
     ''batch_size''"

definition old_btf_dedup_opts :: opts_struct where
  "old_btf_dedup_opts = Opts ''btf_dedup_opts''
     [Field ''sz'' C_size_t, Field ''btf_ext'' (C_ptr (C_struct ''btf_ext'')),
      Field ''force_collisions'' C_bool, Bits C_size_t 0]
     ''force_collisions''"

definition old_btf_dump_opts :: opts_struct where
  "old_btf_dump_opts = Opts ''btf_dump_opts''
     [Field ''sz'' C_size_t]
     ''sz''"

definition old_btf_dump_emit_type_decl_opts :: opts_struct where
  "old_btf_dump_emit_type_decl_opts = Opts ''btf_dump_emit_type_decl_opts''
     [Field ''sz'' C_size_t, Field ''field_name'' (C_ptr (C_const C_char)), Field ''indent_level'' C_int,
      Field ''strip_mods'' C_bool, Bits C_size_t 0]
     ''strip_mods''"

definition old_btf_dump_type_data_opts :: opts_struct where
  "old_btf_dump_type_data_opts = Opts ''btf_dump_type_data_opts''
     [Field ''sz'' C_size_t, Field ''indent_str'' (C_ptr (C_const C_char)), Field ''indent_level'' C_int,
      Field ''compact'' C_bool, Field ''skip_names'' C_bool, Field ''emit_zeroes'' C_bool, Bits C_size_t 0]
     ''emit_zeroes''"

definition old_opts_structs :: "opts_struct list" where
  "old_opts_structs =
     [old_bpf_object_open_opts, old_bpf_perf_event_opts, old_bpf_kprobe_opts, old_bpf_kprobe_multi_opts,
      old_bpf_uprobe_multi_opts, old_bpf_ksyscall_opts, old_bpf_uprobe_opts, old_bpf_usdt_opts,
      old_bpf_tracepoint_opts, old_bpf_trace_opts, old_bpf_netfilter_opts, old_bpf_tcx_opts,
      old_bpf_iter_attach_opts, old_bpf_xdp_set_link_opts, old_bpf_xdp_attach_opts, old_bpf_xdp_query_opts,
      old_bpf_tc_hook, old_bpf_tc_opts, old_ring_buffer_opts, old_user_ring_buffer_opts, old_perf_buffer_opts,
      old_perf_buffer_raw_opts, old_gen_loader_opts, old_bpf_linker_opts, old_bpf_linker_file_opts,
      old_libbpf_prog_handler_opts, old_bpf_map_create_opts, old_bpf_prog_load_opts, old_bpf_btf_load_opts,
      old_bpf_map_batch_opts, old_bpf_obj_pin_opts, old_bpf_obj_get_opts, old_bpf_prog_attach_opts,
      old_bpf_prog_detach_opts, old_bpf_link_create_opts, old_bpf_link_update_opts, old_bpf_get_fd_by_id_opts,
      old_bpf_prog_query_opts, old_bpf_prog_bind_opts, old_bpf_test_run_opts, old_btf_dedup_opts,
      old_btf_dump_opts, old_btf_dump_emit_type_decl_opts, old_btf_dump_type_data_opts]"

lemmas old_opts_defs =
  old_bpf_object_open_opts_def old_bpf_perf_event_opts_def old_bpf_kprobe_opts_def
  old_bpf_kprobe_multi_opts_def old_bpf_uprobe_multi_opts_def old_bpf_ksyscall_opts_def old_bpf_uprobe_opts_def
  old_bpf_usdt_opts_def old_bpf_tracepoint_opts_def old_bpf_trace_opts_def old_bpf_netfilter_opts_def
  old_bpf_tcx_opts_def old_bpf_iter_attach_opts_def old_bpf_xdp_set_link_opts_def old_bpf_xdp_attach_opts_def
  old_bpf_xdp_query_opts_def old_bpf_tc_hook_def old_bpf_tc_opts_def old_ring_buffer_opts_def
  old_user_ring_buffer_opts_def old_perf_buffer_opts_def old_perf_buffer_raw_opts_def old_gen_loader_opts_def
  old_bpf_linker_opts_def old_bpf_linker_file_opts_def old_libbpf_prog_handler_opts_def
  old_bpf_map_create_opts_def old_bpf_prog_load_opts_def old_bpf_btf_load_opts_def old_bpf_map_batch_opts_def
  old_bpf_obj_pin_opts_def old_bpf_obj_get_opts_def old_bpf_prog_attach_opts_def old_bpf_prog_detach_opts_def
  old_bpf_link_create_opts_def old_bpf_link_update_opts_def old_bpf_get_fd_by_id_opts_def
  old_bpf_prog_query_opts_def old_bpf_prog_bind_opts_def old_bpf_test_run_opts_def old_btf_dedup_opts_def
  old_btf_dump_opts_def old_btf_dump_emit_type_decl_opts_def old_btf_dump_type_data_opts_def

end
