(* ===== verification/Opts_Compat.thy ===== *)
theory Opts_Compat
  imports Opts_Structs_Old Libbpf_Internal
begin

text \<open>
  Programs and libraries built from different versions of the libbpf headers, exchanging option structures: how
  \<open>LIBBPF_OPTS\<close> (libbpf_common.h) fills one and how \<open>OPTS_VALID\<close>, \<open>OPTS_HAS\<close>, \<open>OPTS_GET\<close>, \<open>OPTS_SET\<close> and \<open>OPTS_ZEROED\<close>
  (libbpf_internal.h) read it. The caller's structure is the memory of its size; a field is its bytes.
\<close>

section \<open>Filling a structure\<close>

text \<open>
  \<open>LIBBPF_OPTS(TYPE, NAME, .f = v, ...)\<close>: the size field is \<open>sizeof\<close>, a field that is given has its value, every other
  field is zero (a value shorter than its field is filled with zeros). The bytes between the fields and after the
  last one are set by \<open>memset\<close>, but the assignment of the literal may overwrite them: they are whatever the
  compiler leaves, \<open>pad\<close>. Structures with nested unions are not filled here.
\<close>

definition byte_at :: "byte list \<Rightarrow> nat \<Rightarrow> byte" where
  "byte_at bs i = (if i < length bs then bs ! i else 0)"

definition field_bytes :: "opts_struct \<Rightarrow> (string \<Rightarrow> byte list) \<Rightarrow> string \<Rightarrow> byte list" where
  "field_bytes s v f = (if f = ''sz'' then le_bytes 8 (struct_size (o_members s)) else v f)"

definition LIBBPF_OPTS :: "opts_struct \<Rightarrow> (nat \<Rightarrow> byte) \<Rightarrow> (string \<Rightarrow> byte list) \<Rightarrow> byte list" where
  "LIBBPF_OPTS s pad v =
     map (\<lambda>i. case find (\<lambda>(f, a, e). a \<le> i \<and> i < e) (c_fields (o_members s)) of
              Some (f, a, e) \<Rightarrow> byte_at (field_bytes s v f) (i - a)
            | None \<Rightarrow> pad i)
       [0..<struct_size (o_members s)]"

section \<open>Reading a structure\<close>

text \<open>\<open>s\<close> is the structure as the library's own headers declare it; a null pointer is \<open>None\<close>.\<close>

definition opts_sz :: "byte list \<Rightarrow> nat" where
  "opts_sz mem = le_at mem 0 8"

definition OPTS_VALID :: "opts_struct \<Rightarrow> byte list option \<Rightarrow> crash + bool" where
  "OPTS_VALID s opts =
     (case (opts, offsetofend (o_members s) (o_last s)) of
        (Some mem, Some known) \<Rightarrow> libbpf_validate_opts mem (of_nat known) (of_nat (opts_sz mem))
      | _ \<Rightarrow> Inr True)"

definition OPTS_HAS :: "opts_struct \<Rightarrow> byte list option \<Rightarrow> string \<Rightarrow> bool" where
  "OPTS_HAS s opts field =
     (case (opts, offsetofend (o_members s) field) of
        (Some mem, Some e) \<Rightarrow> e \<le> opts_sz mem
      | _ \<Rightarrow> False)"

definition read_field :: "opts_struct \<Rightarrow> byte list \<Rightarrow> string \<Rightarrow> crash + byte list" where
  "read_field s mem field =
     (case map_of (c_fields (o_members s)) field of
        Some (a, e) \<Rightarrow> if e \<le> length mem then Inr (take (e - a) (drop a mem)) else Inl Mem_fault
      | None \<Rightarrow> Inl Mem_fault)"

definition OPTS_GET :: "opts_struct \<Rightarrow> byte list option \<Rightarrow> string \<Rightarrow> byte list \<Rightarrow> crash + byte list" where
  "OPTS_GET s opts field fallback_value =
     (if OPTS_HAS s opts field then read_field s (the opts) field else Inr fallback_value)"

definition OPTS_SET :: "opts_struct \<Rightarrow> byte list \<Rightarrow> string \<Rightarrow> byte list \<Rightarrow> crash + byte list" where
  "OPTS_SET s mem field v =
     (if OPTS_HAS s (Some mem) field then
        (case map_of (c_fields (o_members s)) field of
           Some (a, e) \<Rightarrow>
             if e \<le> length mem then Inr (take a mem @ map (byte_at v) [0..<e - a] @ drop e mem) else Inl Mem_fault
         | None \<Rightarrow> Inl Mem_fault)
      else Inr mem)"

definition OPTS_ZEROED :: "opts_struct \<Rightarrow> byte list option \<Rightarrow> string \<Rightarrow> crash + bool" where
  "OPTS_ZEROED s opts last_nonzero_field =
     (case (opts, offsetofend (o_members s) last_nonzero_field) of
        (Some mem, Some off) \<Rightarrow> libbpf_is_mem_zeroed mem off (sint (of_nat (opts_sz mem) - of_nat off :: u64))
      | _ \<Rightarrow> Inr True)"

section \<open>Versions\<close>

text \<open>The structures that both headers have, as the older and as the newer one declares them.\<close>

definition opts_versions :: "(opts_struct \<times> opts_struct) list" where
  "opts_versions =
     [(old_bpf_object_open_opts, bpf_object_open_opts), (old_bpf_perf_event_opts, bpf_perf_event_opts),
      (old_bpf_kprobe_opts, bpf_kprobe_opts), (old_bpf_kprobe_multi_opts, bpf_kprobe_multi_opts),
      (old_bpf_uprobe_multi_opts, bpf_uprobe_multi_opts), (old_bpf_ksyscall_opts, bpf_ksyscall_opts),
      (old_bpf_uprobe_opts, bpf_uprobe_opts), (old_bpf_usdt_opts, bpf_usdt_opts),
      (old_bpf_tracepoint_opts, bpf_tracepoint_opts), (old_bpf_trace_opts, bpf_trace_opts),
      (old_bpf_netfilter_opts, bpf_netfilter_opts), (old_bpf_tcx_opts, bpf_tcx_opts),
      (old_bpf_iter_attach_opts, bpf_iter_attach_opts), (old_bpf_xdp_set_link_opts, bpf_xdp_set_link_opts),
      (old_bpf_xdp_attach_opts, bpf_xdp_attach_opts), (old_bpf_xdp_query_opts, bpf_xdp_query_opts),
      (old_bpf_tc_hook, bpf_tc_hook), (old_bpf_tc_opts, bpf_tc_opts), (old_ring_buffer_opts, ring_buffer_opts),
      (old_user_ring_buffer_opts, user_ring_buffer_opts), (old_perf_buffer_opts, perf_buffer_opts),
      (old_perf_buffer_raw_opts, perf_buffer_raw_opts), (old_gen_loader_opts, gen_loader_opts),
      (old_bpf_linker_opts, bpf_linker_opts), (old_bpf_linker_file_opts, bpf_linker_file_opts),
      (old_libbpf_prog_handler_opts, libbpf_prog_handler_opts), (old_bpf_map_create_opts, bpf_map_create_opts),
      (old_bpf_prog_load_opts, bpf_prog_load_opts), (old_bpf_btf_load_opts, bpf_btf_load_opts),
      (old_bpf_map_batch_opts, bpf_map_batch_opts), (old_bpf_obj_pin_opts, bpf_obj_pin_opts),
      (old_bpf_obj_get_opts, bpf_obj_get_opts), (old_bpf_prog_attach_opts, bpf_prog_attach_opts),
      (old_bpf_prog_detach_opts, bpf_prog_detach_opts), (old_bpf_link_create_opts, bpf_link_create_opts),
      (old_bpf_link_update_opts, bpf_link_update_opts), (old_bpf_get_fd_by_id_opts, bpf_get_fd_by_id_opts),
      (old_bpf_prog_query_opts, bpf_prog_query_opts), (old_bpf_prog_bind_opts, bpf_prog_bind_opts),
      (old_bpf_test_run_opts, bpf_test_run_opts), (old_btf_dedup_opts, btf_dedup_opts),
      (old_btf_dump_opts, btf_dump_opts), (old_btf_dump_emit_type_decl_opts, btf_dump_emit_type_decl_opts),
      (old_btf_dump_type_data_opts, btf_dump_type_data_opts)]"

text \<open>No nested structure or union: every field has its own bytes.\<close>

definition is_flat :: "c_member \<Rightarrow> bool" where
  "is_flat m = (case m of Sub_struct _ _ \<Rightarrow> False | Sub_union _ _ \<Rightarrow> False | _ \<Rightarrow> True)"

definition opts_flat :: "opts_struct \<Rightarrow> bool" where
  "opts_flat s = list_all is_flat (o_members s)"

text \<open>
  What makes the protocol of the size field work: the size comes first, the last known field ends behind every other
  field, and the structure is a multiple of eight bytes.
\<close>

definition layout_ok :: "opts_struct \<Rightarrow> bool" where
  "layout_ok s =
     (let fs = c_fields (o_members s) in
      (\<exists>rest. fs = (''sz'', 0, 8) # rest) \<and>
      (case offsetofend (o_members s) (o_last s) of
         Some known \<Rightarrow> list_all (\<lambda>(f, a, e). a < e \<and> e \<le> known) fs \<and> known \<le> struct_size (o_members s)
       | None \<Rightarrow> False) \<and>
      struct_size (o_members s) mod 8 = 0 \<and> struct_size (o_members s) < 1000)"

definition version_extends :: "opts_struct \<times> opts_struct \<Rightarrow> bool" where
  "version_extends p =
     (case p of (older, newer) \<Rightarrow>
        o_name older = o_name newer \<and> prefix (c_fields (o_members older)) (c_fields (o_members newer)) \<and>
        struct_size (o_members older) \<le> struct_size (o_members newer))"

section \<open>Facts on layouts\<close>

lemmas layout_simps = layout_ok_def c_fields_def struct_size_def offsetofend_def align_up_def qualify_def Let_def

lemma opts_structs_ok: "list_all layout_ok opts_structs"
  by (simp add: opts_structs_def) (simp add: opts_defs layout_simps)

lemma old_opts_structs_ok: "list_all layout_ok old_opts_structs"
  by (simp add: old_opts_structs_def) (simp add: old_opts_defs layout_simps)

lemma versions_extend: "list_all version_extends opts_versions"
  by (simp add: opts_versions_def) (simp add: opts_defs old_opts_defs layout_simps version_extends_def)

lemma versions_listed:
  "map fst opts_versions = old_opts_structs" "list_all (\<lambda>(p, n). n \<in> set opts_structs) opts_versions"
  by (simp_all only: opts_versions_def old_opts_structs_def opts_structs_def) simp_all

lemma version_facts:
  assumes "(p, n) \<in> set opts_versions"
  shows "layout_ok p" and "layout_ok n" and "prefix (c_fields (o_members p)) (c_fields (o_members n))"
    and "struct_size (o_members p) \<le> struct_size (o_members n)"
proof -
  have "p \<in> set old_opts_structs"
    using assms versions_listed(1) by (metis fst_conv image_eqI list.set_map)
  then show "layout_ok p"
    using old_opts_structs_ok by (simp add: list_all_iff)
  have "n \<in> set opts_structs"
    using assms versions_listed(2) by (auto simp: list_all_iff)
  then show "layout_ok n"
    using opts_structs_ok by (simp add: list_all_iff)
  show "prefix (c_fields (o_members p)) (c_fields (o_members n))"
    and "struct_size (o_members p) \<le> struct_size (o_members n)"
    using assms versions_extend by (auto simp: list_all_iff version_extends_def)
qed

text \<open>The fields of a structure without nested members follow one another.\<close>

abbreviation fields_ordered :: "(string \<times> nat \<times> nat) list \<Rightarrow> bool" where
  "fields_ordered \<equiv> sorted_wrt (\<lambda>(f, a, e) (g, b, d). e \<le> b)"

lemma flat_fields_ordered:
  assumes "list_all is_flat ms"
  shows "(\<forall>(f, a, e) \<in> set (struct_fields off ms). off \<le> a) \<and> fields_ordered (struct_fields off ms)"
  using assms
proof (induction ms arbitrary: off)
  case (Cons m ms)
  have start: "off \<le> member_start off m" "off \<le> member_start off m + member_size m"
    using align_up_ge [of off] by (cases m; simp add: trans_le_add1)+
  have first: "member_fields at m = [] \<or> (\<exists>f. member_fields at m = [(f, at, at + member_size m)])" for at
    using Cons.prems by (cases m) (simp_all add: is_flat_def)
  have "list_all is_flat ms"
    using Cons.prems by simp
  note rest = Cons.IH [OF this, of "member_start off m + member_size m"]
  show ?case
    using first [of "member_start off m"] rest start by (fastforce simp: sorted_wrt_append)
qed simp

lemma find_field:
  assumes "fields_ordered fs" and "(f, a, e) \<in> set fs" and "a \<le> i" and "i < e"
    and "\<forall>(f, a, e) \<in> set fs. a < e"
  shows "find (\<lambda>(f, a, e). a \<le> i \<and> i < e) fs = Some (f, a, e)"
  using assms
proof (induction fs)
  case (Cons x fs)
  show ?case
  proof (cases "x = (f, a, e)")
    case False
    then have mem: "(f, a, e) \<in> set fs"
      using Cons.prems(2) by simp
    then have "\<not> (fst (snd x) \<le> i \<and> i < snd (snd x))"
      using Cons.prems(1,3) by (cases x) auto
    moreover have "find (\<lambda>(f, a, e). a \<le> i \<and> i < e) fs = Some (f, a, e)"
      using Cons mem by simp
    ultimately show ?thesis
      by (cases x) auto
  qed (use Cons.prems in simp)
qed simp

lemma find_no_field:
  "\<forall>(f, a, e) \<in> set fs. \<not> (a \<le> i \<and> i < e) \<Longrightarrow> find (\<lambda>(f, a, e). a \<le> i \<and> i < e) fs = None"
  by (auto simp: find_None_iff)

text \<open>What \<open>layout_ok\<close> says, unpacked.\<close>

definition known_end :: "opts_struct \<Rightarrow> nat" where
  "known_end s = the (offsetofend (o_members s) (o_last s))"

lemma layout_ok_facts:
  assumes "layout_ok s"
  shows "offsetofend (o_members s) (o_last s) = Some (known_end s)"
    and "(f, a, e) \<in> set (c_fields (o_members s)) \<Longrightarrow> a < e \<and> e \<le> known_end s"
    and "known_end s \<le> struct_size (o_members s)" and "struct_size (o_members s) < 1000"
    and "(''sz'', 0, 8) \<in> set (c_fields (o_members s))"
    and "\<exists>f a. (f, a, known_end s) \<in> set (c_fields (o_members s))" and "8 \<le> known_end s"
proof -
  obtain rest where first: "c_fields (o_members s) = (''sz'', 0, 8) # rest"
    using assms unfolding layout_ok_def Let_def by blast
  show known: "offsetofend (o_members s) (o_last s) = Some (known_end s)"
    using assms unfolding layout_ok_def Let_def known_end_def
    by (cases "offsetofend (o_members s) (o_last s)") simp_all
  have body: "list_all (\<lambda>(f, a, e). a < e \<and> e \<le> known_end s) (c_fields (o_members s)) \<and>
      known_end s \<le> struct_size (o_members s)"
    and "struct_size (o_members s) < 1000"
    using assms unfolding layout_ok_def Let_def known by simp_all
  then show "known_end s \<le> struct_size (o_members s)" and "struct_size (o_members s) < 1000"
    by simp_all
  show "(f, a, e) \<in> set (c_fields (o_members s)) \<Longrightarrow> a < e \<and> e \<le> known_end s"
    using body by (auto simp: list_all_iff)
  show "\<exists>f a. (f, a, known_end s) \<in> set (c_fields (o_members s))"
    using known by (auto simp: offsetofend_def dest: map_of_SomeD)
  show "(''sz'', 0, 8) \<in> set (c_fields (o_members s))"
    unfolding first by simp
  show "8 \<le> known_end s"
    using body unfolding first by simp
qed

section \<open>Facts on filled structures\<close>

lemma length_LIBBPF_OPTS [simp]: "length (LIBBPF_OPTS s pad v) = struct_size (o_members s)"
  by (simp add: LIBBPF_OPTS_def)

lemma opts_field_byte:
  assumes "layout_ok s" and "fields_ordered (c_fields (o_members s))"
    and "(f, a, e) \<in> set (c_fields (o_members s))" and "a \<le> i" and "i < e"
  shows "LIBBPF_OPTS s pad v ! i = byte_at (field_bytes s v f) (i - a)"
proof -
  have "i < struct_size (o_members s)"
    using layout_ok_facts(2) [OF assms(1,3)] layout_ok_facts(3) [OF assms(1)] assms(5) by simp
  moreover have "find (\<lambda>(f, a, e). a \<le> i \<and> i < e) (c_fields (o_members s)) = Some (f, a, e)"
    using layout_ok_facts(2) [OF assms(1)] by (intro find_field [OF assms(2-5)]) auto
  ultimately show ?thesis
    by (simp add: LIBBPF_OPTS_def)
qed

lemma opts_pad_byte:
  assumes "i < struct_size (o_members s)" and "\<forall>(f, a, e) \<in> set (c_fields (o_members s)). \<not> (a \<le> i \<and> i < e)"
  shows "LIBBPF_OPTS s pad v ! i = pad i"
  using assms find_no_field [OF assms(2)] by (simp add: LIBBPF_OPTS_def)

lemma opts_field_value:
  assumes "layout_ok s" and "fields_ordered (c_fields (o_members s))" and "(f, a, e) \<in> set (c_fields (o_members s))"
  shows "take (e - a) (drop a (LIBBPF_OPTS s pad v)) = map (byte_at (field_bytes s v f)) [0..<e - a]"
proof (rule nth_equalityI)
  have "e \<le> struct_size (o_members s)" "a < e"
    using layout_ok_facts(2) [OF assms(1,3)] layout_ok_facts(3) [OF assms(1)] by simp_all
  then show "length (take (e - a) (drop a (LIBBPF_OPTS s pad v))) =
      length (map (byte_at (field_bytes s v f)) [0..<e - a])"
    by simp
  fix i
  assume "i < length (take (e - a) (drop a (LIBBPF_OPTS s pad v)))"
  with \<open>a < e\<close> \<open>e \<le> struct_size (o_members s)\<close>
  show "take (e - a) (drop a (LIBBPF_OPTS s pad v)) ! i = map (byte_at (field_bytes s v f)) [0..<e - a] ! i"
    using opts_field_byte [OF assms, where i = "a + i" and pad = pad and v = v] by simp
qed

lemma opts_sz_value:
  assumes "layout_ok s" and "fields_ordered (c_fields (o_members s))"
  shows "opts_sz (LIBBPF_OPTS s pad v) = struct_size (o_members s)"
proof -
  note mem = layout_ok_facts(5) [OF assms(1)] and small = layout_ok_facts(4) [OF assms(1)]
  have "take 8 (LIBBPF_OPTS s pad v) = map (byte_at (le_bytes 8 (struct_size (o_members s)))) [0..<8]"
    using opts_field_value [OF assms mem, of pad v] by (simp add: field_bytes_def)
  also have "\<dots> = le_bytes 8 (struct_size (o_members s))"
    by (intro nth_equalityI) (auto simp: byte_at_def simp del: upt_rec_numeral)
  finally have "le_at (LIBBPF_OPTS s pad v) 0 8 = le_at (le_bytes 8 (struct_size (o_members s))) 0 8"
    by (simp add: le_at_def)
  also have "\<dots> = struct_size (o_members s)"
    by (rule le_at_le_bytes) (use small in simp)
  finally show ?thesis
    by (simp add: opts_sz_def)
qed

text \<open>A library with the headers of \<open>n\<close> looks at a structure filled with the headers of \<open>s\<close>.\<close>

lemma opts_valid_value:
  assumes "layout_ok s" and "fields_ordered (c_fields (o_members s))" and "layout_ok n"
  shows "OPTS_VALID n (Some (LIBBPF_OPTS s pad v)) =
    Inr (\<forall>i. known_end n \<le> i \<and> i < struct_size (o_members s) \<longrightarrow> LIBBPF_OPTS s pad v ! i = 0)"
proof -
  let ?mem = "LIBBPF_OPTS s pad v" and ?sz = "struct_size (o_members s)" and ?known = "known_end n"
  note s = layout_ok_facts(3,4,7) [OF assms(1)] and n = layout_ok_facts(1,3,4) [OF assms(3)]
  have words: "unat (of_nat ?sz :: u64) = ?sz" "unat (of_nat ?known :: u64) = ?known"
    using s n by (simp_all add: unsigned_of_nat take_bit_nat_eq_self)
  have "(8 :: u64) \<le> of_nat ?sz"
    using s words by (simp add: word_le_nat_alt)
  moreover have "(\<forall>b \<in> set (drop ?known ?mem). b = 0) \<longleftrightarrow> (\<forall>i. ?known \<le> i \<and> i < ?sz \<longrightarrow> ?mem ! i = 0)"
    by (auto simp: all_set_conv_all_nth) (metis add_diff_inverse_nat diff_less_mono not_le)
  moreover have "libbpf_validate_opts ?mem (of_nat ?known) (of_nat ?sz) =
      Inr ((8 :: u64) \<le> of_nat ?sz \<and> (\<forall>b \<in> set (drop (unat (of_nat ?known :: u64)) ?mem). b = 0))"
    by (rule validate_opts_value) (use words s n in simp_all)
  ultimately show ?thesis
    by (simp add: OPTS_VALID_def n(1) opts_sz_value [OF assms(1,2)] words)
qed

text \<open>An older structure \<open>p\<close> and the newer one \<open>n\<close>: the fields that \<open>n\<close> adds lie behind those of \<open>p\<close>.\<close>

definition added_fields :: "opts_struct \<Rightarrow> opts_struct \<Rightarrow> (string \<times> nat \<times> nat) list" where
  "added_fields p n = drop (length (c_fields (o_members p))) (c_fields (o_members n))"

lemma version_fields:
  assumes "(p, n) \<in> set opts_versions" and "opts_flat n"
  shows "c_fields (o_members n) = c_fields (o_members p) @ added_fields p n"
    and "fields_ordered (c_fields (o_members n))" and "fields_ordered (c_fields (o_members p))"
    and "(f, a, e) \<in> set (added_fields p n) \<Longrightarrow> known_end p \<le> a"
    and "known_end p \<le> known_end n"
proof -
  show split: "c_fields (o_members n) = c_fields (o_members p) @ added_fields p n"
    using version_facts(3) [OF assms(1)] by (auto simp: prefix_def added_fields_def)
  show n: "fields_ordered (c_fields (o_members n))"
    using flat_fields_ordered [of "o_members n" 0] assms(2) by (simp add: opts_flat_def c_fields_def)
  then show "fields_ordered (c_fields (o_members p))"
    unfolding split by (simp add: sorted_wrt_append)
  obtain g b where last: "(g, b, known_end p) \<in> set (c_fields (o_members p))"
    using layout_ok_facts(6) [OF version_facts(1) [OF assms(1)]] by blast
  then show "known_end p \<le> a" if "(f, a, e) \<in> set (added_fields p n)"
    using n that unfolding split by (fastforce simp: sorted_wrt_append)
  show "known_end p \<le> known_end n"
    using last layout_ok_facts(2) [OF version_facts(2) [OF assms(1)], of g b "known_end p"] unfolding split by simp
qed

lemma opts_byte_behind:
  assumes "layout_ok s" and "known_end s \<le> i" and "i < struct_size (o_members s)"
  shows "LIBBPF_OPTS s pad v ! i = pad i"
proof (rule opts_pad_byte [OF assms(3)], clarify)
  fix f a e
  assume "(f, a, e) \<in> set (c_fields (o_members s))" "a \<le> i" "i < e"
  then show False
    using layout_ok_facts(2) [OF assms(1)] assms(2) by fastforce
qed

lemma old_caller_value:
  assumes "(p, n) \<in> set opts_versions" and "opts_flat n" and "map_of (c_fields (o_members n)) f = Some (a, e)"
  shows "OPTS_GET n (Some (LIBBPF_OPTS p pad v)) f fb =
    Inr (if (f, a, e) \<in> set (c_fields (o_members p)) then map (byte_at (field_bytes p v f)) [0..<e - a]
         else if struct_size (o_members p) < e then fb else map pad [a..<e])"
proof -
  let ?mem = "LIBBPF_OPTS p pad v" and ?sz = "struct_size (o_members p)"
  note ok = version_facts(1) [OF assms(1)] and okn = version_facts(2) [OF assms(1)]
  note vf = version_fields [OF assms(1,2)]
  have sz: "opts_sz ?mem = ?sz"
    by (rule opts_sz_value [OF ok vf(3)])
  have has: "OPTS_HAS n (Some ?mem) f \<longleftrightarrow> e \<le> ?sz"
    by (simp add: OPTS_HAS_def offsetofend_def assms(3) sz)
  have read: "read_field n ?mem f = Inr (take (e - a) (drop a ?mem))" if "e \<le> ?sz"
    using that by (simp add: read_field_def assms(3))
  have mem: "(f, a, e) \<in> set (c_fields (o_members n))"
    using assms(3) by (rule map_of_SomeD)
  show ?thesis
  proof (cases "(f, a, e) \<in> set (c_fields (o_members p))")
    case True
    then have "e \<le> ?sz"
      using layout_ok_facts(2) [OF ok True] layout_ok_facts(3) [OF ok] by simp
    with True show ?thesis
      using opts_field_value [OF ok vf(3) True, of pad v] has read by (simp add: OPTS_GET_def)
  next
    case False
    then have "(f, a, e) \<in> set (added_fields p n)"
      using mem unfolding vf(1) by simp
    then have "known_end p \<le> a"
      by (rule vf(4))
    moreover have "a < e"
      using layout_ok_facts(2) [OF okn mem] by simp
    ultimately have "take (e - a) (drop a ?mem) = map pad [a..<e]" if "e \<le> ?sz"
      using that opts_byte_behind [OF ok, where pad = pad and v = v] by (intro nth_equalityI) auto
    with False show ?thesis
      using has read by (simp add: OPTS_GET_def)
  qed
qed

text \<open>The bytes of a structure that belong to no field.\<close>

definition padding_of :: "opts_struct \<Rightarrow> nat list" where
  "padding_of s = filter (\<lambda>i. list_all (\<lambda>(f, a, e). \<not> (a \<le> i \<and> i < e)) (c_fields (o_members s))) [0..<struct_size (o_members s)]"

lemma padding_behind:
  "layout_ok s \<Longrightarrow> known_end s \<le> i \<Longrightarrow> i < struct_size (o_members s) \<Longrightarrow> i \<in> set (padding_of s)"
  using layout_ok_facts(2) [of s] by (fastforce simp: padding_of_def list_all_iff)

lemma opts_padding_byte: "i \<in> set (padding_of s) \<Longrightarrow> LIBBPF_OPTS s pad v ! i = pad i"
  by (rule opts_pad_byte) (simp_all add: padding_of_def list_all_iff)

lemma new_options_refused:
  assumes "(p, n) \<in> set opts_versions" and "opts_flat n"
  shows "(\<forall>i. known_end p \<le> i \<and> i < struct_size (o_members n) \<longrightarrow> LIBBPF_OPTS n pad v ! i = 0) \<longleftrightarrow>
    (\<forall>(f, a, e) \<in> set (added_fields p n). \<forall>i < e - a. byte_at (field_bytes n v f) i = 0) \<and>
    (\<forall>i \<in> set (padding_of n). known_end p \<le> i \<longrightarrow> pad i = 0)"
proof -
  note ok = version_facts(1) [OF assms(1)] and okn = version_facts(2) [OF assms(1)]
  note vf = version_fields [OF assms(1,2)]
  note field = opts_field_byte [OF okn vf(2), where pad = pad and v = v]
  have added: "(f, a, e) \<in> set (c_fields (o_members n))" "known_end p \<le> a" "e \<le> struct_size (o_members n)"
    if "(f, a, e) \<in> set (added_fields p n)" for f a e
    using that vf(1) vf(4) [OF that] layout_ok_facts(2) [OF okn, of f a e] layout_ok_facts(3) [OF okn] by simp_all
  show ?thesis (is "?mem \<longleftrightarrow> ?fields \<and> ?padding")
  proof
    assume ?mem
    have ?padding
      using \<open>?mem\<close> opts_padding_byte [of _ n pad v] by (auto simp: padding_of_def)
    moreover have ?fields
    proof (clarify)
      fix f a e i
      assume fae: "(f, a, e) \<in> set (added_fields p n)" and i: "i < e - a"
      then have "LIBBPF_OPTS n pad v ! (a + i) = 0"
        using \<open>?mem\<close> added [OF fae] by simp
      then show "byte_at (field_bytes n v f) i = 0"
        using field [OF added(1) [OF fae], of "a + i"] i by simp
    qed
    ultimately show "?fields \<and> ?padding"
      by blast
  next
    assume zero: "?fields \<and> ?padding"
    show ?mem
    proof (clarify)
      fix i
      assume i: "known_end p \<le> i" "i < struct_size (o_members n)"
      show "LIBBPF_OPTS n pad v ! i = 0"
      proof (cases "\<exists>(f, a, e) \<in> set (c_fields (o_members n)). a \<le> i \<and> i < e")
        case True
        then obtain f a e where fae: "(f, a, e) \<in> set (c_fields (o_members n))" "a \<le> i" "i < e"
          by blast
        then have "(f, a, e) \<in> set (added_fields p n)"
          using vf(1) layout_ok_facts(2) [OF ok, of f a e] i(1) by auto
        then show ?thesis
          using zero field [OF fae] fae by fastforce
      next
        case False
        then have "i \<in> set (padding_of n)"
          using i(2) by (auto simp: padding_of_def list_all_iff)
        then show ?thesis
          using zero i(1) opts_padding_byte [of i n pad v] by simp
      qed
    qed
  qed
qed

lemma old_options_accepted:
  assumes "(p, n) \<in> set opts_versions" and "opts_flat n"
  shows "(\<forall>i. known_end n \<le> i \<and> i < struct_size (o_members p) \<longrightarrow> LIBBPF_OPTS p pad v ! i = 0) \<longleftrightarrow>
    (\<forall>i \<in> set (padding_of p). known_end n \<le> i \<longrightarrow> pad i = 0)" (is "?mem \<longleftrightarrow> ?padding")
proof
  note ok = version_facts(1) [OF assms(1)] and le = version_fields(5) [OF assms]
  show "?mem \<Longrightarrow> ?padding"
    using opts_padding_byte [of _ p pad v] by (auto simp: padding_of_def)
  show "?padding \<Longrightarrow> ?mem"
    using padding_behind [OF ok] opts_padding_byte [of _ p pad v] le by (metis order_trans)
qed

text \<open>The options of the newer header that lie in the padding of the older structure.\<close>

definition options_in_padding :: "(string \<times> string) list" where
  "options_in_padding =
     concat (map (\<lambda>(p, n). if opts_flat n
       then concat (map (\<lambda>(f, a, e). if e \<le> struct_size (o_members p) then [(o_name n, f)] else []) (added_fields p n))
       else []) opts_versions)"

lemma options_in_padding_value:
  "options_in_padding =
     [(''bpf_kprobe_multi_opts'', ''session''), (''bpf_kprobe_multi_opts'', ''unique_match''),
      (''bpf_uprobe_multi_opts'', ''session''), (''bpf_prog_load_opts'', ''token_fd''),
      (''bpf_btf_load_opts'', ''btf_flags'')]"
  unfolding options_in_padding_def opts_versions_def
  by (simp add: opts_defs old_opts_defs layout_simps opts_flat_def is_flat_def added_fields_def)

text \<open>Two instances for the witnesses below.\<close>

lemma kprobe_multi_versions:
  "(old_bpf_kprobe_multi_opts, bpf_kprobe_multi_opts) \<in> set opts_versions" "opts_flat bpf_kprobe_multi_opts"
  by (simp add: opts_versions_def) (simp add: opts_flat_def is_flat_def bpf_kprobe_multi_opts_def)

lemma prog_load_versions:
  "(old_bpf_prog_load_opts, bpf_prog_load_opts) \<in> set opts_versions" "opts_flat bpf_prog_load_opts"
  by (simp add: opts_versions_def) (simp add: opts_flat_def is_flat_def bpf_prog_load_opts_def)

lemma kprobe_multi_fields:
  "map_of (c_fields (o_members bpf_kprobe_multi_opts)) ''retprobe'' = Some (40, 41)"
  "map_of (c_fields (o_members bpf_kprobe_multi_opts)) ''session'' = Some (41, 42)"
  by (simp_all add: bpf_kprobe_multi_opts_def layout_simps)

lemma kprobe_multi_added:
  "added_fields old_bpf_kprobe_multi_opts bpf_kprobe_multi_opts = [(''session'', 41, 42), (''unique_match'', 42, 43)]"
  by (simp add: bpf_kprobe_multi_opts_def old_bpf_kprobe_multi_opts_def layout_simps added_fields_def)

lemma kprobe_multi_padding:
  "padding_of old_bpf_kprobe_multi_opts = [41, 42, 43, 44, 45, 46, 47]" "padding_of bpf_kprobe_multi_opts = [43, 44, 45, 46, 47]"
  "known_end old_bpf_kprobe_multi_opts = 41" "known_end bpf_kprobe_multi_opts = 43"
  by (simp_all add: bpf_kprobe_multi_opts_def old_bpf_kprobe_multi_opts_def layout_simps padding_of_def known_end_def offsetofend_def upt_conv_Cons)

lemma prog_load_fields:
  "map_of (c_fields (o_members bpf_prog_load_opts)) ''fd_array_cnt'' = Some (112, 116)"
  by (simp add: bpf_prog_load_opts_def layout_simps)

section \<open>Properties\<close>

text \<open>
  C25: the layout rules that the option structures of libbpf.h, bpf.h and btf.h must follow hold for all 48 of the newer
  and all 44 of the older headers: the size field comes first, the field named as the last one ends behind every
  other, the size is a multiple of eight. Every older structure has a newer version, whose fields start with
  the same fields at the same offsets. Exactly five newer options lie in bytes that the older structures have as padding.
\<close>

theorem option_structures_evolve:
  "list_all layout_ok (opts_structs @ old_opts_structs) \<and>
   map fst opts_versions = old_opts_structs \<and> list_all version_extends opts_versions \<and>
   options_in_padding =
     [(''bpf_kprobe_multi_opts'', ''session''), (''bpf_kprobe_multi_opts'', ''unique_match''),
      (''bpf_uprobe_multi_opts'', ''session''), (''bpf_prog_load_opts'', ''token_fd''),
      (''bpf_btf_load_opts'', ''btf_flags'')]"
proof (intro conjI)
  show "list_all layout_ok (opts_structs @ old_opts_structs)"
    using opts_structs_ok old_opts_structs_ok by simp
qed (simp_all only: versions_listed versions_extend options_in_padding_value)

text \<open>The option structures with a union in their newer version, of which the next two statements do not speak.\<close>

lemma structures_with_unions:
  "map o_name (filter (\<lambda>n. \<not> opts_flat n) (map snd opts_versions)) =
     [''bpf_prog_attach_opts'', ''bpf_link_create_opts'', ''bpf_prog_query_opts'']"
  unfolding opts_versions_def by (simp add: opts_defs opts_flat_def is_flat_def)

text \<open>
  C26: a program built with the older headers calls a library built with the newer ones, with any option structure that
  has no union (all but those of prog_attach, link_create and prog_query). \<open>OPTS_GET\<close> never reads outside
  the caller's structure. For a field that both versions have it gives the caller's value. For a field that only the newer version
  has it gives the fallback when the field ends behind the caller's structure; when the field lies in bytes that are padding
  of the caller's structure it gives these bytes, whatever they are, and not the fallback.
\<close>

theorem old_caller_options_read:
  assumes "(p, n) \<in> set opts_versions" and "opts_flat n" and "map_of (c_fields (o_members n)) f = Some (a, e)"
  shows "OPTS_GET n (Some (LIBBPF_OPTS p pad v)) f fb =
    Inr (if (f, a, e) \<in> set (c_fields (o_members p)) then map (byte_at (field_bytes p v f)) [0..<e - a]
         else if struct_size (o_members p) < e then fb else map pad [a..<e])"
  by (rule old_caller_value [OF assms])

text \<open>A caller that asks for return probes, with a 7 in every byte of padding: the newer library also sees a session.\<close>

theorem old_caller_options_read_witness:
  "OPTS_GET bpf_kprobe_multi_opts (Some (LIBBPF_OPTS old_bpf_kprobe_multi_opts (\<lambda>_. 7) (\<lambda>_. [1]))) ''retprobe'' [0] = Inr [1] \<and>
   OPTS_GET bpf_kprobe_multi_opts (Some (LIBBPF_OPTS old_bpf_kprobe_multi_opts (\<lambda>_. 7) (\<lambda>_. [1]))) ''session'' [0] = Inr [7] \<and>
   OPTS_GET bpf_prog_load_opts (Some (LIBBPF_OPTS old_bpf_prog_load_opts (\<lambda>_. 7) (\<lambda>_. [1]))) ''fd_array_cnt'' [9] = Inr [9]"
  using old_caller_options_read [OF kprobe_multi_versions kprobe_multi_fields(1), of "\<lambda>_. 7" "\<lambda>_. [1]" "[0]"]
    old_caller_options_read [OF kprobe_multi_versions kprobe_multi_fields(2), of "\<lambda>_. 7" "\<lambda>_. [1]" "[0]"]
    old_caller_options_read [OF prog_load_versions prog_load_fields, of "\<lambda>_. 7" "\<lambda>_. [1]" "[9]"]
  by (simp add: opts_defs old_opts_defs layout_simps field_bytes_def byte_at_def)

text \<open>
  C27: which options pass the check of a library of the other version, for the option structures that have no union (all
  but those of prog_attach, link_create and prog_query), whatever is in the padding of the structure. A newer library
  accepts what an older caller fills exactly when the padding behind the last option the newer one knows is zero. An older library
  accepts what a newer caller fills exactly when every option it does not know is zero, and so is the padding behind the
  last option it knows.
\<close>

theorem options_valid_across_versions:
  assumes "(p, n) \<in> set opts_versions" and "opts_flat n"
  shows "OPTS_VALID n (Some (LIBBPF_OPTS p pad v)) = Inr (\<forall>i \<in> set (padding_of p). known_end n \<le> i \<longrightarrow> pad i = 0) \<and>
    OPTS_VALID p (Some (LIBBPF_OPTS n pad v)) =
      Inr ((\<forall>(f, a, e) \<in> set (added_fields p n). \<forall>i < e - a. byte_at (field_bytes n v f) i = 0) \<and>
        (\<forall>i \<in> set (padding_of n). known_end p \<le> i \<longrightarrow> pad i = 0))"
proof
  note ok = version_facts(1) [OF assms(1)] and okn = version_facts(2) [OF assms(1)]
  note vf = version_fields [OF assms]
  show "OPTS_VALID n (Some (LIBBPF_OPTS p pad v)) = Inr (\<forall>i \<in> set (padding_of p). known_end n \<le> i \<longrightarrow> pad i = 0)"
    by (simp only: opts_valid_value [OF ok vf(3) okn] old_options_accepted [OF assms])
  show "OPTS_VALID p (Some (LIBBPF_OPTS n pad v)) =
      Inr ((\<forall>(f, a, e) \<in> set (added_fields p n). \<forall>i < e - a. byte_at (field_bytes n v f) i = 0) \<and>
        (\<forall>i \<in> set (padding_of n). known_end p \<le> i \<longrightarrow> pad i = 0))"
    by (simp only: opts_valid_value [OF okn vf(2) ok] new_options_refused [OF assms])
qed

text \<open>
  Clean padding and an option set that the older library does not know; no option set, but a 7 behind it in the padding; and
  a 7 in the padding of the older structure, which the newer library reads as options.
\<close>

theorem options_valid_across_versions_witness:
  "OPTS_VALID bpf_kprobe_multi_opts (Some (LIBBPF_OPTS old_bpf_kprobe_multi_opts (\<lambda>_. 0) (\<lambda>_. [1]))) = Inr True \<and>
   OPTS_VALID bpf_kprobe_multi_opts (Some (LIBBPF_OPTS old_bpf_kprobe_multi_opts (\<lambda>i. if i = 41 then 7 else 0) (\<lambda>_. [1]))) = Inr True \<and>
   OPTS_VALID old_bpf_kprobe_multi_opts (Some (LIBBPF_OPTS bpf_kprobe_multi_opts (\<lambda>_. 0) (\<lambda>_. []))) = Inr True \<and>
   OPTS_VALID old_bpf_kprobe_multi_opts (Some (LIBBPF_OPTS bpf_kprobe_multi_opts (\<lambda>_. 0) (\<lambda>_. [1]))) = Inr False \<and>
   OPTS_VALID old_bpf_kprobe_multi_opts (Some (LIBBPF_OPTS bpf_kprobe_multi_opts (\<lambda>_. 7) (\<lambda>_. []))) = Inr False"
  using options_valid_across_versions [OF kprobe_multi_versions, of "\<lambda>_. 0" "\<lambda>_. [1]"]
    options_valid_across_versions [OF kprobe_multi_versions, of "\<lambda>_. 0" "\<lambda>_. []"]
    options_valid_across_versions [OF kprobe_multi_versions, of "\<lambda>_. 7" "\<lambda>_. []"]
    options_valid_across_versions [OF kprobe_multi_versions, of "\<lambda>i. if i = 41 then 7 else 0" "\<lambda>_. [1]"]
  by (simp add: kprobe_multi_added kprobe_multi_padding) (simp add: field_bytes_def byte_at_def)

end
