(* ===== verification/Api_Compat.thy ===== *)
theory Api_Compat
  imports Api_Types Api_Decls_Old Helper_Defs_Old Opts_Compat
begin

text \<open>
  A program compiled against the older headers and the declarations of the newer ones. \<open>evolves\<close> relates two lists of
  declarations where the newer one has every function of the older one, in the same order and still callable in the
  same way, and new functions in between. The tables of \<open>Api_Decls\<close> and \<open>Api_Decls_Old\<close> are compared piece by piece.
\<close>

section \<open>Calls that stay valid\<close>

text \<open>
  A value of type \<open>s\<close> goes where type \<open>t\<close> is expected: the types are the same, or a pointer becomes a pointer to \<open>const\<close>.
  A call written for \<open>f\<close> compiles against \<open>g\<close>.
\<close>

definition passes :: "c_type \<Rightarrow> c_type \<Rightarrow> bool" where
  "passes s t \<longleftrightarrow> s = t \<or> (case s of C_ptr u \<Rightarrow> t = C_ptr (C_const u) | _ \<Rightarrow> False)"

definition accepts :: "api_fun \<Rightarrow> api_fun \<Rightarrow> bool" where
  "accepts f g \<longleftrightarrow> a_name f = a_name g \<and> passes (a_ret g) (a_ret f) \<and>
     list_all2 passes (map fst (a_params f)) (map fst (a_params g)) \<and> a_variadic f = a_variadic g"

text \<open>
  What a C compiler accepts as a call: every argument converts to the type of its parameter (of a variadic function more may
  follow), and the result to the type it is used at. \<open>conv\<close> is the conversion of the language, of which only one thing is
  assumed: it allows to add a \<open>const\<close> behind a pointer, on the way in and on the way out.
\<close>

definition adds_const :: "(c_type \<Rightarrow> c_type \<Rightarrow> bool) \<Rightarrow> bool" where
  "adds_const conv \<longleftrightarrow>
     (\<forall>s t t'. conv s t \<and> passes t t' \<longrightarrow> conv s t') \<and> (\<forall>r' r t. passes r' r \<and> conv r t \<longrightarrow> conv r' t)"

definition call_of :: "(c_type \<Rightarrow> c_type \<Rightarrow> bool) \<Rightarrow> api_fun \<Rightarrow> c_type list \<Rightarrow> c_type \<Rightarrow> bool" where
  "call_of conv f args res \<longleftrightarrow>
     (let n = length (a_params f) in
      (if a_variadic f then n \<le> length args else n = length args) \<and>
      list_all2 conv (take n args) (map fst (a_params f)) \<and> conv (a_ret f) res)"

text \<open>The sizes that the calling convention passes.\<close>

definition arg_sizes :: "api_fun \<Rightarrow> nat list" where
  "arg_sizes f = map (c_size \<circ> fst) (a_params f)"

inductive evolves :: "api_fun list \<Rightarrow> api_fun list \<Rightarrow> string list \<Rightarrow> bool" where
  evolves_nil: "evolves [] [] []"
| evolves_keep: "accepts f g \<Longrightarrow> evolves fs gs ns \<Longrightarrow> evolves (f # fs) (g # gs) ns"
| evolves_add: "evolves fs gs ns \<Longrightarrow> evolves fs (g # gs) (a_name g # ns)"

fun evolve :: "api_fun list \<Rightarrow> api_fun list \<Rightarrow> string list option" where
  "evolve [] [] = Some []"
| "evolve (f # fs) [] = None"
| "evolve [] (g # gs) = map_option ((#) (a_name g)) (evolve [] gs)"
| "evolve (f # fs) (g # gs) =
     (if accepts f g then evolve fs gs else map_option ((#) (a_name g)) (evolve (f # fs) gs))"

section \<open>Options\<close>

text \<open>The option structures among the parameters: pointers to a structure whose name ends with \<open>_opts\<close>.\<close>

fun struct_behind :: "c_type \<Rightarrow> string option" where
  "struct_behind (C_ptr t) = struct_behind t"
| "struct_behind (C_const t) = struct_behind t"
| "struct_behind (C_struct s) = Some s"
| "struct_behind _ = None"

fun ends_with :: "string \<Rightarrow> string \<Rightarrow> bool" where
  "ends_with e [] \<longleftrightarrow> e = []"
| "ends_with e (c # cs) \<longleftrightarrow> c # cs = e \<or> ends_with e cs"

definition is_options :: "c_type \<Rightarrow> bool" where
  "is_options t = (case struct_behind t of Some s \<Rightarrow> ends_with ''_opts'' s | None \<Rightarrow> False)"

text \<open>
  An option structure is the last parameter, behind one pointer, and its name is one of \<open>ns\<close>.
\<close>

fun options_last :: "string list \<Rightarrow> c_type list \<Rightarrow> bool" where
  "options_last ns [] \<longleftrightarrow> True"
| "options_last ns (t # ts) \<longleftrightarrow>
     (if is_options t
      then ts = [] \<and> (case struct_behind t of None \<Rightarrow> False
                     | Some s \<Rightarrow> t \<in> {C_ptr (C_struct s), C_ptr (C_const (C_struct s))} \<and> s \<in> set ns)
      else options_last ns ts)"

definition options_declared :: "string list \<Rightarrow> api_fun \<Rightarrow> bool" where
  "options_declared ns f \<longleftrightarrow> options_last ns (map fst (a_params f))"

definition opts_names :: "string list" where
  "opts_names = map o_name opts_structs"

definition old_opts_names :: "string list" where
  "old_opts_names = map o_name old_opts_structs"

section \<open>Facts\<close>

lemma passes_size: "passes s t \<Longrightarrow> c_size s = c_size t"
  by (auto simp: passes_def split: c_type.splits)

lemma accepts_sizes:
  assumes "accepts f g"
  shows "arg_sizes f = arg_sizes g"
proof -
  have "map c_size (map fst (a_params f)) = map c_size (map fst (a_params g))"
    using assms by (auto simp: accepts_def list_all2_conv_all_nth passes_size intro!: nth_equalityI)
  then show ?thesis
    by (simp add: arg_sizes_def comp_def)
qed

lemma accepts_call:
  assumes conv: "adds_const conv" and acc: "accepts f g" and call: "call_of conv f args res"
  shows "call_of conv g args res"
proof -
  have n: "length (a_params g) = length (a_params f)"
    using acc by (auto simp: accepts_def dest: list_all2_lengthD)
  have widen: "conv s t'" if "conv s t" "passes t t'" for s t t'
    using conv that unfolding adds_const_def by blast
  have "list_all2 conv (take (length (a_params f)) args) (map fst (a_params f))"
    and "list_all2 passes (map fst (a_params f)) (map fst (a_params g))"
    using call acc by (simp_all add: call_of_def Let_def accepts_def)
  then have "list_all2 conv (take (length (a_params f)) args) (map fst (a_params g))"
    by (rule list_all2_trans [where ?P1.0 = conv and ?P2.0 = passes and ?P3.0 = conv, rotated]) (rule widen)
  moreover have "conv (a_ret g) res"
    using conv acc call unfolding adds_const_def accepts_def call_of_def Let_def by blast
  moreover have "a_variadic g = a_variadic f"
    using acc by (simp add: accepts_def)
  ultimately show ?thesis
    using call n by (simp add: call_of_def Let_def)
qed

lemma evolve_evolves: "evolve fs gs = Some ns \<Longrightarrow> evolves fs gs ns"
  by (induction fs gs arbitrary: ns rule: evolve.induct) (auto intro: evolves.intros split: if_splits)

lemma evolves_append: "evolves fs gs ns \<Longrightarrow> evolves fs' gs' ns' \<Longrightarrow> evolves (fs @ fs') (gs @ gs') (ns @ ns')"
  by (induction rule: evolves.induct) (auto intro: evolves.intros)

lemma evolves_accepts: "evolves fs gs ns \<Longrightarrow> f \<in> set fs \<Longrightarrow> \<exists>g \<in> set gs. accepts f g"
  by (induction rule: evolves.induct) auto

lemma evolves_order: "evolves fs gs ns \<Longrightarrow> subseq (map a_name fs) (map a_name gs)"
  by (induction rule: evolves.induct) (auto simp: accepts_def)

lemma evolves_length: "evolves fs gs ns \<Longrightarrow> length gs = length fs + length ns"
  by (induction rule: evolves.induct) auto


section \<open>The two copies, piece by piece\<close>

text \<open>The tables that belong together, with the functions that the newer one adds.\<close>

definition api_pieces :: "(api_fun list \<times> api_fun list \<times> string list) list" where
  "api_pieces =
     [(old_libbpf_api_1, libbpf_api_1, []), (old_libbpf_api_2, libbpf_api_2, []),
      (old_libbpf_api_3, libbpf_api_3, []), (old_libbpf_api_4, libbpf_api_4, []),
      (old_libbpf_api_5, libbpf_api_5, [''bpf_object__token_fd'']), (old_libbpf_api_6, libbpf_api_6, []),
      (old_libbpf_api_7, libbpf_api_7, []), (old_libbpf_api_8, libbpf_api_8, []),
      (old_libbpf_api_9, libbpf_api_9, []), (old_libbpf_api_10, libbpf_api_10, []),
      (old_libbpf_api_11, libbpf_api_11, []), (old_libbpf_api_12, libbpf_api_12, []),
      (old_libbpf_api_13, libbpf_api_13, []), (old_libbpf_api_14, libbpf_api_14, []),
      (old_libbpf_api_15, libbpf_api_15, [''bpf_program__attach_raw_tracepoint_opts'']),
      (old_libbpf_api_16, libbpf_api_16, [''bpf_program__attach_sockmap'']), (old_libbpf_api_17, libbpf_api_17, []),
      (old_libbpf_api_18, libbpf_api_18, []), (old_libbpf_api_19, libbpf_api_19, [''bpf_program__attach_netkit'']),
      (old_libbpf_api_20, libbpf_api_20, []),
      (old_libbpf_api_21, libbpf_api_21, [''bpf_map__set_autoattach'', ''bpf_map__autoattach'']),
      (old_libbpf_api_22, libbpf_api_22, []), (old_libbpf_api_23, libbpf_api_23, []),
      (old_libbpf_api_24, libbpf_api_24, []),
      (old_libbpf_api_25, libbpf_api_25, [''ring_buffer__consume_n'', ''ring__consume_n'']),
      (old_libbpf_api_26, libbpf_api_26, []), (old_libbpf_api_27, libbpf_api_27, []),
      (old_libbpf_api_28, libbpf_api_28, []), (old_libbpf_api_29, libbpf_api_29, []),
      (old_libbpf_api_30, libbpf_api_30, []), (old_libbpf_api_31, libbpf_api_31, []),
      (old_libbpf_api_32, libbpf_api_32, [''bpf_linker__new_fd'', ''bpf_linker__add_fd'', ''bpf_linker__add_buf'']),
      (old_libbpf_api_33, libbpf_api_33, []), (old_bpf_api_1, bpf_api_1, []), (old_bpf_api_2, bpf_api_2, []),
      (old_bpf_api_3, bpf_api_3, []), (old_bpf_api_4, bpf_api_4, []), (old_bpf_api_5, bpf_api_5, []),
      (old_bpf_api_6, bpf_api_6, []), (old_bpf_api_7, bpf_api_7, []), (old_bpf_api_8, bpf_api_8, []),
      (old_bpf_api_9, bpf_api_9, []), (old_bpf_api_10, bpf_api_10, []), (old_bpf_api_11, bpf_api_11, []),
      (old_bpf_api_12, bpf_api_12, []), (old_bpf_api_13, bpf_api_13, []),
      (old_bpf_api_14, bpf_api_14, [''bpf_raw_tracepoint_open_opts'']), (old_bpf_api_15, bpf_api_15, []),
      (old_bpf_api_16, bpf_api_16, []), (old_bpf_api_17, bpf_api_17, []), ([], bpf_api_18, [''bpf_token_create'']),
      (old_btf_api_1, btf_api_1, [''btf__distill_base'', ''btf_ext__endianness'', ''btf_ext__set_endianness'']),
      (old_btf_api_2, btf_api_2, []), (old_btf_api_3, btf_api_3, [''btf__add_type_attr'', ''btf__add_decl_attr'']),
      (old_btf_api_4, btf_api_4, [''btf__relocate'']), (old_btf_api_5, btf_api_5, []),
      (old_btf_api_6, btf_api_6, []), (old_btf_api_7, btf_api_7, []), (old_legacy_api_1, legacy_api_1, []),
      (old_legacy_api_2, legacy_api_2, [])]"

definition functions_added :: "string list" where
  "functions_added =
     [''bpf_object__token_fd'', ''bpf_program__attach_raw_tracepoint_opts'', ''bpf_program__attach_sockmap'',
      ''bpf_program__attach_netkit'', ''bpf_map__set_autoattach'', ''bpf_map__autoattach'',
      ''ring_buffer__consume_n'', ''ring__consume_n'', ''bpf_linker__new_fd'', ''bpf_linker__add_fd'',
      ''bpf_linker__add_buf'', ''bpf_raw_tracepoint_open_opts'', ''bpf_token_create'', ''btf__distill_base'',
      ''btf_ext__endianness'', ''btf_ext__set_endianness'', ''btf__add_type_attr'', ''btf__add_decl_attr'',
      ''btf__relocate'']"

lemmas new_tables =
  libbpf_api_1_def libbpf_api_2_def libbpf_api_3_def libbpf_api_4_def libbpf_api_5_def libbpf_api_6_def
  libbpf_api_7_def libbpf_api_8_def libbpf_api_9_def libbpf_api_10_def libbpf_api_11_def libbpf_api_12_def
  libbpf_api_13_def libbpf_api_14_def libbpf_api_15_def libbpf_api_16_def libbpf_api_17_def libbpf_api_18_def
  libbpf_api_19_def libbpf_api_20_def libbpf_api_21_def libbpf_api_22_def libbpf_api_23_def libbpf_api_24_def
  libbpf_api_25_def libbpf_api_26_def libbpf_api_27_def libbpf_api_28_def libbpf_api_29_def libbpf_api_30_def
  libbpf_api_31_def libbpf_api_32_def libbpf_api_33_def bpf_api_1_def bpf_api_2_def bpf_api_3_def bpf_api_4_def
  bpf_api_5_def bpf_api_6_def bpf_api_7_def bpf_api_8_def bpf_api_9_def bpf_api_10_def bpf_api_11_def bpf_api_12_def
  bpf_api_13_def bpf_api_14_def bpf_api_15_def bpf_api_16_def bpf_api_17_def bpf_api_18_def btf_api_1_def
  btf_api_2_def btf_api_3_def btf_api_4_def btf_api_5_def btf_api_6_def btf_api_7_def legacy_api_1_def
  legacy_api_2_def

lemmas old_tables =
  old_libbpf_api_1_def old_libbpf_api_2_def old_libbpf_api_3_def old_libbpf_api_4_def old_libbpf_api_5_def
  old_libbpf_api_6_def old_libbpf_api_7_def old_libbpf_api_8_def old_libbpf_api_9_def old_libbpf_api_10_def
  old_libbpf_api_11_def old_libbpf_api_12_def old_libbpf_api_13_def old_libbpf_api_14_def old_libbpf_api_15_def
  old_libbpf_api_16_def old_libbpf_api_17_def old_libbpf_api_18_def old_libbpf_api_19_def old_libbpf_api_20_def
  old_libbpf_api_21_def old_libbpf_api_22_def old_libbpf_api_23_def old_libbpf_api_24_def old_libbpf_api_25_def
  old_libbpf_api_26_def old_libbpf_api_27_def old_libbpf_api_28_def old_libbpf_api_29_def old_libbpf_api_30_def
  old_libbpf_api_31_def old_libbpf_api_32_def old_libbpf_api_33_def old_bpf_api_1_def old_bpf_api_2_def
  old_bpf_api_3_def old_bpf_api_4_def old_bpf_api_5_def old_bpf_api_6_def old_bpf_api_7_def old_bpf_api_8_def
  old_bpf_api_9_def old_bpf_api_10_def old_bpf_api_11_def old_bpf_api_12_def old_bpf_api_13_def old_bpf_api_14_def
  old_bpf_api_15_def old_bpf_api_16_def old_bpf_api_17_def old_btf_api_1_def old_btf_api_2_def old_btf_api_3_def
  old_btf_api_4_def old_btf_api_5_def old_btf_api_6_def old_btf_api_7_def old_legacy_api_1_def old_legacy_api_2_def

lemma evolves_concat:
  "list_all (\<lambda>(p, n, a). evolve p n = Some a) ps \<Longrightarrow>
   evolves (concat (map fst ps)) (concat (map (fst \<circ> snd) ps)) (concat (map (snd \<circ> snd) ps))"
  by (induction ps) (auto intro!: evolves_append intro: evolve_evolves evolves_nil)

lemma pieces_evolve: "list_all (\<lambda>(p, n, a). evolve p n = Some a) api_pieces"
  by (simp add: api_pieces_def new_tables old_tables accepts_def passes_def)

lemma pieces_complete:
  "concat (map fst api_pieces) = old_api_decls" "concat (map (fst \<circ> snd) api_pieces) = api_decls"
  "concat (map (snd \<circ> snd) api_pieces) = functions_added"
  by (simp_all add: api_pieces_def old_api_decls_def api_decls_def functions_added_def)

lemma api_evolves: "evolves old_api_decls api_decls functions_added"
  using evolves_concat [OF pieces_evolve] by (simp only: pieces_complete)

lemma old_call_accepted:
  "list_all (\<lambda>f. list_ex (\<lambda>g. accepts f g \<and> arg_sizes f = arg_sizes g) api_decls) old_api_decls"
  unfolding list_all_iff list_ex_iff using evolves_accepts [OF api_evolves] accepts_sizes by blast

lemma exported_functions:
  "list_all a_exported api_decls"
  "map a_name (filter (\<lambda>f. \<not> a_exported f) old_api_decls) = [''libbpf_set_memlock_rlim'']"
  unfolding api_decls_def old_api_decls_def list_all_append filter_append map_append
   by (simp add: new_tables) (simp add: old_tables)

lemmas opts_names_eq = opts_names_def [unfolded opts_structs_def, simplified opts_defs, simplified]

lemmas old_opts_names_eq = old_opts_names_def [unfolded old_opts_structs_def, simplified old_opts_defs, simplified]

lemma names_of_options:
  "list_all (\<lambda>s. s \<in> set opts_names) [''bpf_object_open_opts'', ''bpf_perf_event_opts'', ''bpf_kprobe_opts'', ''bpf_kprobe_multi_opts'',
      ''bpf_uprobe_multi_opts'', ''bpf_ksyscall_opts'', ''bpf_uprobe_opts'', ''bpf_usdt_opts'',
      ''bpf_tracepoint_opts'', ''bpf_raw_tracepoint_opts'', ''bpf_trace_opts'', ''bpf_netfilter_opts'',
      ''bpf_tcx_opts'', ''bpf_netkit_opts'', ''bpf_iter_attach_opts'', ''bpf_xdp_attach_opts'',
      ''bpf_xdp_query_opts'', ''bpf_tc_opts'', ''ring_buffer_opts'', ''user_ring_buffer_opts'', ''perf_buffer_opts'',
      ''perf_buffer_raw_opts'', ''gen_loader_opts'', ''bpf_linker_opts'', ''bpf_linker_file_opts'',
      ''libbpf_prog_handler_opts'', ''bpf_map_create_opts'', ''bpf_prog_load_opts'', ''bpf_btf_load_opts'',
      ''bpf_map_batch_opts'', ''bpf_obj_pin_opts'', ''bpf_obj_get_opts'', ''bpf_prog_attach_opts'',
      ''bpf_prog_detach_opts'', ''bpf_link_create_opts'', ''bpf_link_update_opts'', ''bpf_get_fd_by_id_opts'',
      ''bpf_prog_query_opts'', ''bpf_raw_tp_opts'', ''bpf_prog_bind_opts'', ''bpf_test_run_opts'',
      ''bpf_token_create_opts'', ''btf_dedup_opts'', ''btf_dump_opts'', ''btf_dump_emit_type_decl_opts'',
      ''btf_dump_type_data_opts'']"
  "list_all (\<lambda>s. s \<in> set old_opts_names) [''bpf_object_open_opts'', ''bpf_perf_event_opts'', ''bpf_kprobe_opts'', ''bpf_kprobe_multi_opts'',
      ''bpf_uprobe_multi_opts'', ''bpf_ksyscall_opts'', ''bpf_uprobe_opts'', ''bpf_usdt_opts'',
      ''bpf_tracepoint_opts'', ''bpf_trace_opts'', ''bpf_netfilter_opts'', ''bpf_tcx_opts'',
      ''bpf_iter_attach_opts'', ''bpf_xdp_attach_opts'', ''bpf_xdp_query_opts'', ''bpf_tc_opts'',
      ''ring_buffer_opts'', ''user_ring_buffer_opts'', ''perf_buffer_opts'', ''perf_buffer_raw_opts'',
      ''gen_loader_opts'', ''bpf_linker_opts'', ''bpf_linker_file_opts'', ''libbpf_prog_handler_opts'',
      ''bpf_map_create_opts'', ''bpf_prog_load_opts'', ''bpf_btf_load_opts'', ''bpf_map_batch_opts'',
      ''bpf_obj_pin_opts'', ''bpf_obj_get_opts'', ''bpf_prog_attach_opts'', ''bpf_prog_detach_opts'',
      ''bpf_link_create_opts'', ''bpf_link_update_opts'', ''bpf_get_fd_by_id_opts'', ''bpf_prog_query_opts'',
      ''bpf_prog_bind_opts'', ''bpf_test_run_opts'', ''btf_dedup_opts'', ''btf_dump_opts'',
      ''btf_dump_emit_type_decl_opts'', ''btf_dump_type_data_opts'']"
  by (simp_all add: opts_names_eq old_opts_names_eq)

lemmas options_eval =
  options_declared_def is_options_def names_of_options [unfolded list_all_Nil_iff list_all_Cons_iff]

lemma api_options: "list_all (options_declared opts_names) api_decls" "list_all (options_declared old_opts_names) old_api_decls"
  unfolding api_decls_def old_api_decls_def list_all_append
   by (simp add: new_tables options_eval) (simp add: old_tables options_eval)

lemma api_callbacks_declared: "list_all (\<lambda>f. callbacks_declared old_api_callbacks (a_ret f # map fst (a_params f))) old_api_decls"
proof -
  have names: "cb_name ` set old_api_callbacks =
      {''libbpf_print_fn_t'', ''ring_buffer_sample_fn'', ''perf_buffer_sample_fn'', ''perf_buffer_lost_fn'', ''perf_buffer_event_fn'',
       ''libbpf_prog_setup_fn_t'', ''libbpf_prog_prepare_load_fn_t'', ''libbpf_prog_attach_fn_t'', ''btf_dump_printf_fn_t''}"
    by (simp add: old_callback_tables)
  show ?thesis
    unfolding old_api_decls_def list_all_append callbacks_declared_def names by (simp add: old_tables)
qed

lemma old_call_compiles:
  assumes "adds_const conv" and "f \<in> set old_api_decls" and "call_of conv f args res"
  shows "\<exists>g \<in> set api_decls. a_name g = a_name f \<and> call_of conv g args res \<and> arg_sizes g = arg_sizes f \<and>
    c_size (a_ret g) = c_size (a_ret f)"
proof -
  obtain g where g: "g \<in> set api_decls" "accepts f g"
    using evolves_accepts [OF api_evolves assms(2)] by blast
  then have "a_name g = a_name f" "passes (a_ret g) (a_ret f)"
    by (simp_all add: accepts_def)
  with g accepts_call [OF assms(1) g(2) assms(3)] accepts_sizes [OF g(2)] show ?thesis
    using passes_size by metis
qed

text \<open>The declarations of the two copies, side by side.\<close>

theorem copies_compared:
  "evolves old_api_decls api_decls functions_added \<and>
   list_all (\<lambda>f. list_ex (\<lambda>g. accepts f g \<and> arg_sizes f = arg_sizes g) api_decls) old_api_decls \<and>
   list_all a_exported api_decls \<and>
   map a_name (filter (\<lambda>f. \<not> a_exported f) old_api_decls) = [''libbpf_set_memlock_rlim''] \<and>
   list_all (options_declared opts_names) api_decls \<and>
   list_all (options_declared old_opts_names) old_api_decls \<and>
   map call_signature old_helper_decls = map call_signature helper_decls \<and>
   list_all (\<lambda>f. callbacks_declared old_api_callbacks (a_ret f # map fst (a_params f))) old_api_decls \<and>
   list_all (callback_stays api_callbacks) old_api_callbacks \<and> list_all (enum_stays api_enums) old_api_enums"
  by (simp only: old_call_accepted api_evolves exported_functions api_options helper_copies_agree api_callbacks_declared callbacks_stay enums_stay simp_thms)

section \<open>Property\<close>

text \<open>
  C40: a call written against the older headers compiles against the newer ones and is the same call. For every
  conversion between C types that allows to add a \<open>const\<close> behind a pointer: when the arguments of a call convert to the parameters of a
  function that the older copy of libbpf.h, bpf.h, btf.h or libbpf_legacy.h declares, and its result to the type it is used at, then
  the newer copy declares a function of that name for which they do too, that gets arguments of the same sizes and returns a
  result of the same size. The types that such a call names mean the same: every type of callbacks that a function names is
  declared and has the same result and parameters in both copies, every enumerator the same value, and every option structure of the older copy is
  extended by the newer one without moving a field. The newer copy exports all its functions, keeps the order of the
  older ones and adds 19. In both copies an option structure is the last parameter, behind a pointer, and is declared in the same
  headers. The helpers that a BPF program calls have the same numbers, results and parameters in both copies.
\<close>

theorem older_callers_compile:
  assumes "adds_const conv" and "f \<in> set old_api_decls" and "call_of conv f args res"
  shows "(\<exists>g \<in> set api_decls. a_name g = a_name f \<and> call_of conv g args res \<and> arg_sizes g = arg_sizes f \<and>
      c_size (a_ret g) = c_size (a_ret f)) \<and>
    list_all (\<lambda>f. callbacks_declared old_api_callbacks (a_ret f # map fst (a_params f))) old_api_decls \<and>
    list_all (callback_stays api_callbacks) old_api_callbacks \<and>
    list_all (enum_stays api_enums) old_api_enums \<and>
    map fst opts_versions = old_opts_structs \<and> list_all version_extends opts_versions \<and>
    evolves old_api_decls api_decls functions_added \<and> list_all a_exported api_decls \<and>
    list_all (options_declared opts_names) api_decls \<and> list_all (options_declared old_opts_names) old_api_decls \<and>
    map call_signature old_helper_decls = map call_signature helper_decls"
  using old_call_compiles [OF assms]
  by (simp only: api_evolves exported_functions api_options helper_copies_agree api_callbacks_declared callbacks_stay enums_stay versions_listed
      versions_extend simp_thms)

text \<open>
  The one function whose parameters changed: a caller that has a pointer to a map, and uses the result as a pointer to
  anything.
\<close>

definition const_conv :: "c_type \<Rightarrow> c_type \<Rightarrow> bool" where
  "const_conv = passes\<^sup>*\<^sup>*"

lemma const_conv_adds: "adds_const const_conv"
  unfolding adds_const_def const_conv_def by (blast intro: rtranclp.rtrancl_into_rtrancl converse_rtranclp_into_rtranclp)

theorem older_callers_compile_witness:
  "\<exists>g \<in> set api_decls. a_name g = ''bpf_map__initial_value'' \<and>
     call_of const_conv g [C_ptr (C_struct ''bpf_map''), C_ptr C_size_t] (C_ptr (C_const C_void)) \<and> arg_sizes g = [8, 8]"
proof -
  let ?f = "Api ''bpf_map__initial_value'' (C_ptr C_void) [(C_ptr (C_struct ''bpf_map''), ''map''), (C_ptr C_size_t, ''psize'')] False True"
  have declared: "?f \<in> set old_api_decls"
    unfolding old_api_decls_def set_append Un_iff by (simp add: old_libbpf_api_21_def)
  have "const_conv (C_ptr C_void) (C_ptr (C_const C_void))"
    unfolding const_conv_def by (rule r_into_rtranclp) (simp add: passes_def)
  moreover have "const_conv t t" for t
    by (simp add: const_conv_def)
  ultimately have "call_of const_conv ?f [C_ptr (C_struct ''bpf_map''), C_ptr C_size_t] (C_ptr (C_const C_void))"
    by (simp add: call_of_def)
  from older_callers_compile [OF const_conv_adds declared this] obtain g where "g \<in> set api_decls" "a_name g = a_name ?f"
    "call_of const_conv g [C_ptr (C_struct ''bpf_map''), C_ptr C_size_t] (C_ptr (C_const C_void))" "arg_sizes g = arg_sizes ?f"
    by blast
  then show ?thesis
    by (intro bexI [of _ g]) (simp_all add: arg_sizes_def)
qed

end
