(* ===== verification/Btf.thy ===== *)
theory Btf
  imports HE_Prelude
begin

unbundle bit_operations_syntax

text \<open>
  Types in BTF, the debug format of eBPF: the encoding macros of libbpf_internal.h and the inline accessors of btf.h. A type
  is the list of its 32-bit words: name, info, size or type, and then, at \<open>t + 1\<close>, what belongs to its kind. The macros
  that take an info word apart, the bound on the number of members and the older kind numbers come from
  linux/btf.h, which is not in the repository: they are a parameter (\<open>btf_uapi\<close>), and \<open>btf_uapi_ok\<close> states what that
  header documents of them.
\<close>

section \<open>The kernel's header\<close>

record btf_uapi =
  INFO_KIND :: "u32 \<Rightarrow> u32"
  INFO_VLEN :: "u32 \<Rightarrow> u32"
  INFO_KFLAG :: "u32 \<Rightarrow> u32"
  INT_ENCODING :: "u32 \<Rightarrow> u32"
  INT_OFFSET :: "u32 \<Rightarrow> u32"
  INT_BITS :: "u32 \<Rightarrow> u32"
  MEMBER_BIT_OFFSET :: "u32 \<Rightarrow> u32"
  MEMBER_BITFIELD_SIZE :: "u32 \<Rightarrow> u32"
  MAX_VLEN :: u32
  KIND_UNKN :: u16
  KIND_INT :: u16
  KIND_PTR :: u16
  KIND_ARRAY :: u16
  KIND_STRUCT :: u16
  KIND_UNION :: u16
  KIND_ENUM :: u16
  KIND_FWD :: u16
  KIND_TYPEDEF :: u16
  KIND_VOLATILE :: u16
  KIND_CONST :: u16
  KIND_RESTRICT :: u16

definition btf_uapi_ok :: "btf_uapi \<Rightarrow> bool" where
  "btf_uapi_ok U \<longleftrightarrow>
     INFO_KIND U = (\<lambda>w. drop_bit 24 w AND 0x1F) \<and> INFO_VLEN U = (\<lambda>w. w AND 0xFFFF) \<and> INFO_KFLAG U = drop_bit 31 \<and>
     INT_ENCODING U = (\<lambda>w. drop_bit 24 (w AND 0x0F000000)) \<and> INT_OFFSET U = (\<lambda>w. drop_bit 16 (w AND 0x00FF0000)) \<and>
     INT_BITS U = (\<lambda>w. w AND 0xFF) \<and> MEMBER_BIT_OFFSET U = (\<lambda>w. w AND 0xFFFFFF) \<and>
     MEMBER_BITFIELD_SIZE U = drop_bit 24 \<and> MAX_VLEN U = 0xFFFF \<and>
     [KIND_UNKN U, KIND_INT U, KIND_PTR U, KIND_ARRAY U, KIND_STRUCT U, KIND_UNION U, KIND_ENUM U, KIND_FWD U, KIND_TYPEDEF U, KIND_VOLATILE U, KIND_CONST U, KIND_RESTRICT U] = [0, 1, 2, 3, 4, 5, 6, 7, 8, 9, 10, 11]"

section \<open>Kinds\<close>

definition BTF_KIND_FUNC :: u16 where "BTF_KIND_FUNC = 12"
definition BTF_KIND_FUNC_PROTO :: u16 where "BTF_KIND_FUNC_PROTO = 13"
definition BTF_KIND_VAR :: u16 where "BTF_KIND_VAR = 14"
definition BTF_KIND_DATASEC :: u16 where "BTF_KIND_DATASEC = 15"
definition BTF_KIND_FLOAT :: u16 where "BTF_KIND_FLOAT = 16"
definition BTF_KIND_DECL_TAG :: u16 where "BTF_KIND_DECL_TAG = 17"
definition BTF_KIND_TYPE_TAG :: u16 where "BTF_KIND_TYPE_TAG = 18"
definition BTF_KIND_ENUM64 :: u16 where "BTF_KIND_ENUM64 = 19"

lemmas btf_kind_numbers =
  BTF_KIND_FUNC_def BTF_KIND_FUNC_PROTO_def BTF_KIND_VAR_def BTF_KIND_DATASEC_def BTF_KIND_FLOAT_def
  BTF_KIND_DECL_TAG_def BTF_KIND_TYPE_TAG_def BTF_KIND_ENUM64_def

section \<open>Accessors\<close>

type_synonym btf_type = "u32 list"

text \<open>The results are cut to the widths of the C result types.\<close>

definition btf_kind :: "btf_uapi \<Rightarrow> btf_type \<Rightarrow> u16" where
  "btf_kind U t = ucast (INFO_KIND U (t ! 1))"

definition btf_vlen :: "btf_uapi \<Rightarrow> btf_type \<Rightarrow> u16" where
  "btf_vlen U t = ucast (INFO_VLEN U (t ! 1))"

definition btf_kflag :: "btf_uapi \<Rightarrow> btf_type \<Rightarrow> bool" where
  "btf_kflag U t = (INFO_KFLAG U (t ! 1) \<noteq> 0)"

definition btf_is_void :: "btf_uapi \<Rightarrow> btf_type \<Rightarrow> bool" where
  "btf_is_void U t = (btf_kind U t = KIND_UNKN U)"

definition btf_is_int :: "btf_uapi \<Rightarrow> btf_type \<Rightarrow> bool" where
  "btf_is_int U t = (btf_kind U t = KIND_INT U)"

definition btf_is_ptr :: "btf_uapi \<Rightarrow> btf_type \<Rightarrow> bool" where
  "btf_is_ptr U t = (btf_kind U t = KIND_PTR U)"

definition btf_is_array :: "btf_uapi \<Rightarrow> btf_type \<Rightarrow> bool" where
  "btf_is_array U t = (btf_kind U t = KIND_ARRAY U)"

definition btf_is_struct :: "btf_uapi \<Rightarrow> btf_type \<Rightarrow> bool" where
  "btf_is_struct U t = (btf_kind U t = KIND_STRUCT U)"

definition btf_is_union :: "btf_uapi \<Rightarrow> btf_type \<Rightarrow> bool" where
  "btf_is_union U t = (btf_kind U t = KIND_UNION U)"

definition btf_is_enum :: "btf_uapi \<Rightarrow> btf_type \<Rightarrow> bool" where
  "btf_is_enum U t = (btf_kind U t = KIND_ENUM U)"

definition btf_is_enum64 :: "btf_uapi \<Rightarrow> btf_type \<Rightarrow> bool" where
  "btf_is_enum64 U t = (btf_kind U t = BTF_KIND_ENUM64)"

definition btf_is_fwd :: "btf_uapi \<Rightarrow> btf_type \<Rightarrow> bool" where
  "btf_is_fwd U t = (btf_kind U t = KIND_FWD U)"

definition btf_is_typedef :: "btf_uapi \<Rightarrow> btf_type \<Rightarrow> bool" where
  "btf_is_typedef U t = (btf_kind U t = KIND_TYPEDEF U)"

definition btf_is_volatile :: "btf_uapi \<Rightarrow> btf_type \<Rightarrow> bool" where
  "btf_is_volatile U t = (btf_kind U t = KIND_VOLATILE U)"

definition btf_is_const :: "btf_uapi \<Rightarrow> btf_type \<Rightarrow> bool" where
  "btf_is_const U t = (btf_kind U t = KIND_CONST U)"

definition btf_is_restrict :: "btf_uapi \<Rightarrow> btf_type \<Rightarrow> bool" where
  "btf_is_restrict U t = (btf_kind U t = KIND_RESTRICT U)"

definition btf_is_func :: "btf_uapi \<Rightarrow> btf_type \<Rightarrow> bool" where
  "btf_is_func U t = (btf_kind U t = BTF_KIND_FUNC)"

definition btf_is_func_proto :: "btf_uapi \<Rightarrow> btf_type \<Rightarrow> bool" where
  "btf_is_func_proto U t = (btf_kind U t = BTF_KIND_FUNC_PROTO)"

definition btf_is_var :: "btf_uapi \<Rightarrow> btf_type \<Rightarrow> bool" where
  "btf_is_var U t = (btf_kind U t = BTF_KIND_VAR)"

definition btf_is_datasec :: "btf_uapi \<Rightarrow> btf_type \<Rightarrow> bool" where
  "btf_is_datasec U t = (btf_kind U t = BTF_KIND_DATASEC)"

definition btf_is_float :: "btf_uapi \<Rightarrow> btf_type \<Rightarrow> bool" where
  "btf_is_float U t = (btf_kind U t = BTF_KIND_FLOAT)"

definition btf_is_decl_tag :: "btf_uapi \<Rightarrow> btf_type \<Rightarrow> bool" where
  "btf_is_decl_tag U t = (btf_kind U t = BTF_KIND_DECL_TAG)"

definition btf_is_type_tag :: "btf_uapi \<Rightarrow> btf_type \<Rightarrow> bool" where
  "btf_is_type_tag U t = (btf_kind U t = BTF_KIND_TYPE_TAG)"

definition btf_is_composite :: "btf_uapi \<Rightarrow> btf_type \<Rightarrow> bool" where
  "btf_is_composite U t = (let kind = btf_kind U t in kind = KIND_STRUCT U \<or> kind = KIND_UNION U)"

definition btf_is_mod :: "btf_uapi \<Rightarrow> btf_type \<Rightarrow> bool" where
  "btf_is_mod U t =
     (let kind = btf_kind U t in
      kind = KIND_VOLATILE U \<or> kind = KIND_CONST U \<or> kind = KIND_RESTRICT U \<or> kind = BTF_KIND_TYPE_TAG)"

definition btf_is_any_enum :: "btf_uapi \<Rightarrow> btf_type \<Rightarrow> bool" where
  "btf_is_any_enum U t = (btf_is_enum U t \<or> btf_is_enum64 U t)"

definition btf_kind_core_compat :: "btf_uapi \<Rightarrow> btf_type \<Rightarrow> btf_type \<Rightarrow> bool" where
  "btf_kind_core_compat U t1 t2 = (btf_kind U t1 = btf_kind U t2 \<or> btf_is_any_enum U t1 \<and> btf_is_any_enum U t2)"

text \<open>The words behind the type.\<close>

definition btf_int_encoding :: "btf_uapi \<Rightarrow> btf_type \<Rightarrow> byte" where
  "btf_int_encoding U t = ucast (INT_ENCODING U (t ! 3))"

definition btf_int_offset :: "btf_uapi \<Rightarrow> btf_type \<Rightarrow> byte" where
  "btf_int_offset U t = ucast (INT_OFFSET U (t ! 3))"

definition btf_int_bits :: "btf_uapi \<Rightarrow> btf_type \<Rightarrow> byte" where
  "btf_int_bits U t = ucast (INT_BITS U (t ! 3))"

definition btf_enum64_value :: "u32 list \<Rightarrow> u64" where
  "btf_enum64_value e64 = push_bit 32 (ucast (e64 ! 2)) OR ucast (e64 ! 1)"

text \<open>A member is three words: name, type, offset.\<close>

definition btf_members :: "btf_type \<Rightarrow> u32 list" where
  "btf_members t = drop 3 t"

definition btf_member_offset_word :: "btf_type \<Rightarrow> u32 \<Rightarrow> u32" where
  "btf_member_offset_word t member_idx = btf_members t ! (3 * unat member_idx + 2)"

definition btf_member_bit_offset :: "btf_uapi \<Rightarrow> btf_type \<Rightarrow> u32 \<Rightarrow> u32" where
  "btf_member_bit_offset U t member_idx =
     (let offset = btf_member_offset_word t member_idx in if btf_kflag U t then MEMBER_BIT_OFFSET U offset else offset)"

definition btf_member_bitfield_size :: "btf_uapi \<Rightarrow> btf_type \<Rightarrow> u32 \<Rightarrow> u32" where
  "btf_member_bitfield_size U t member_idx =
     (let offset = btf_member_offset_word t member_idx in if btf_kflag U t then MEMBER_BITFIELD_SIZE U offset else 0)"

definition btf_func_linkage :: "btf_uapi \<Rightarrow> btf_type \<Rightarrow> int" where
  "btf_func_linkage U t = uint (btf_vlen U t)"

section \<open>Encodings\<close>

definition BTF_INFO_ENC :: "btf_uapi \<Rightarrow> u32 \<Rightarrow> bool \<Rightarrow> u32 \<Rightarrow> u32" where
  "BTF_INFO_ENC U kind kind_flag vlen = (push_bit 31 (of_bool kind_flag) OR push_bit 24 kind) OR (vlen AND MAX_VLEN U)"

definition BTF_TYPE_ENC :: "u32 \<Rightarrow> u32 \<Rightarrow> u32 \<Rightarrow> u32 list" where
  "BTF_TYPE_ENC name info size_or_type = [name, info, size_or_type]"

definition BTF_INT_ENC :: "u32 \<Rightarrow> u32 \<Rightarrow> u32 \<Rightarrow> u32" where
  "BTF_INT_ENC encoding bits_offset nr_bits = (push_bit 24 encoding OR push_bit 16 bits_offset) OR nr_bits"

definition BTF_TYPE_INT_ENC :: "btf_uapi \<Rightarrow> u32 \<Rightarrow> u32 \<Rightarrow> u32 \<Rightarrow> u32 \<Rightarrow> u32 \<Rightarrow> u32 list" where
  "BTF_TYPE_INT_ENC U name encoding bits_offset bits sz =
     BTF_TYPE_ENC name (BTF_INFO_ENC U (ucast (KIND_INT U)) False 0) sz @ [BTF_INT_ENC encoding bits_offset bits]"

definition BTF_MEMBER_ENC :: "u32 \<Rightarrow> u32 \<Rightarrow> u32 \<Rightarrow> u32 list" where
  "BTF_MEMBER_ENC name ty bits_offset = [name, ty, bits_offset]"

definition BTF_TYPE_FLOAT_ENC :: "btf_uapi \<Rightarrow> u32 \<Rightarrow> u32 \<Rightarrow> u32 list" where
  "BTF_TYPE_FLOAT_ENC U name sz = BTF_TYPE_ENC name (BTF_INFO_ENC U (ucast BTF_KIND_FLOAT) False 0) sz"

definition BTF_TYPE_DECL_TAG_ENC :: "btf_uapi \<Rightarrow> u32 \<Rightarrow> u32 \<Rightarrow> u32 \<Rightarrow> u32 list" where
  "BTF_TYPE_DECL_TAG_ENC U val ty component_idx =
     BTF_TYPE_ENC val (BTF_INFO_ENC U (ucast BTF_KIND_DECL_TAG) False 0) ty @ [component_idx]"

definition BTF_TYPE_TYPE_TAG_ENC :: "btf_uapi \<Rightarrow> u32 \<Rightarrow> u32 \<Rightarrow> u32 list" where
  "BTF_TYPE_TYPE_TAG_ENC U val ty = BTF_TYPE_ENC val (BTF_INFO_ENC U (ucast BTF_KIND_TYPE_TAG) False 0) ty"

text \<open>The function with the same purpose as the first macro; it masks nothing.\<close>

definition btf_type_info :: "u32 \<Rightarrow> u32 \<Rightarrow> u32 \<Rightarrow> u32" where
  "btf_type_info kind vlen kflag = (push_bit 31 kflag OR push_bit 24 kind) OR vlen"

section \<open>Facts\<close>

lemma and_masks:
  fixes w :: u32
  shows "w AND 0x1F = take_bit 5 w" "w AND 0xF = take_bit 4 w" "w AND 0xFF = take_bit 8 w" "w AND 0xFFFF = take_bit 16 w"
    and "w AND 0xFFFFFF = take_bit 24 w"
  by (simp_all add: take_bit_eq_mask mask_numeral)

lemma bit_below: "\<lbrakk>(w :: u32) < 2 ^ n; n < 32; bit w k\<rbrakk> \<Longrightarrow> k < n"
  by (metis bit_take_bit_iff take_bit_eq_mod mod_word_less)

lemma kind_number:
  assumes "btf_uapi_ok U"
  shows "KIND_UNKN U = 0" "KIND_INT U = 1" "KIND_PTR U = 2" "KIND_ARRAY U = 3" "KIND_STRUCT U = 4" "KIND_UNION U = 5"
    "KIND_ENUM U = 6" "KIND_FWD U = 7" "KIND_TYPEDEF U = 8" "KIND_VOLATILE U = 9" "KIND_CONST U = 10" "KIND_RESTRICT U = 11"
  using assms by (simp_all add: btf_uapi_ok_def)

lemma uapi_macros:
  assumes "btf_uapi_ok U"
  shows "INFO_KIND U w = take_bit 5 (drop_bit 24 w)" "INFO_VLEN U w = take_bit 16 w" "INFO_KFLAG U w = drop_bit 31 w"
    "INT_ENCODING U w = take_bit 4 (drop_bit 24 w)" "INT_OFFSET U w = take_bit 8 (drop_bit 16 w)" "INT_BITS U w = take_bit 8 w"
    "MEMBER_BIT_OFFSET U w = take_bit 24 w" "MEMBER_BITFIELD_SIZE U w = drop_bit 24 w" "MAX_VLEN U = 0xFFFF"
  using assms by (simp_all add: btf_uapi_ok_def and_masks)

text \<open>The parts of an info word, and of the word of an integer.\<close>

lemma info_parts:
  assumes "btf_uapi_ok U" and "kind < 2 ^ 5" and "vlen < 2 ^ 16"
  shows "INFO_KIND U (BTF_INFO_ENC U kind kf vlen) = kind" and "INFO_VLEN U (BTF_INFO_ENC U kind kf vlen) = vlen"
    and "INFO_KFLAG U (BTF_INFO_ENC U kind kf vlen) = of_bool kf"
    and "btf_type_info kind vlen (of_bool kf) = BTF_INFO_ENC U kind kf vlen"
proof -
  have kind: "k < 5" if "bit kind k" for k
    using bit_below [OF assms(2) _ that] by simp
  have vlen: "k < 16" if "bit vlen k" for k
    using bit_below [OF assms(3) _ that] by simp
  have cut: "vlen AND MAX_VLEN U = vlen"
    using vlen by (intro bit_word_eqI) (auto simp: uapi_macros [OF assms(1)] and_masks bit_simps)
  show "btf_type_info kind vlen (of_bool kf) = BTF_INFO_ENC U kind kf vlen"
    by (simp add: btf_type_info_def BTF_INFO_ENC_def cut)
  show "INFO_KIND U (BTF_INFO_ENC U kind kf vlen) = kind" and "INFO_VLEN U (BTF_INFO_ENC U kind kf vlen) = vlen"
    and "INFO_KFLAG U (BTF_INFO_ENC U kind kf vlen) = of_bool kf"
    unfolding uapi_macros [OF assms(1)] BTF_INFO_ENC_def cut [unfolded uapi_macros(9) [OF assms(1)]]
    by (rule bit_word_eqI; auto simp: bit_simps dest: kind vlen)+
qed

lemma int_parts:
  assumes "btf_uapi_ok U" and "enc < 2 ^ 4" and "off < 2 ^ 8" and "bits < 2 ^ 8"
  shows "INT_ENCODING U (BTF_INT_ENC enc off bits) = enc" and "INT_OFFSET U (BTF_INT_ENC enc off bits) = off"
    and "INT_BITS U (BTF_INT_ENC enc off bits) = bits"
proof -
  have "k < 4" if "bit enc k" for k
    using bit_below [OF assms(2) _ that] by simp
  moreover have "k < 8" if "bit off k" for k
    using bit_below [OF assms(3) _ that] by simp
  moreover have "k < 8" if "bit bits k" for k
    using bit_below [OF assms(4) _ that] by simp
  ultimately show "INT_ENCODING U (BTF_INT_ENC enc off bits) = enc" and "INT_OFFSET U (BTF_INT_ENC enc off bits) = off"
    and "INT_BITS U (BTF_INT_ENC enc off bits) = bits"
    unfolding uapi_macros [OF assms(1)] BTF_INT_ENC_def
    by - (rule bit_word_eqI; force simp: bit_simps)+
qed

lemma ucast_0_iff: "w < 2 ^ 16 \<Longrightarrow> uint (ucast (w :: u32) :: u16) = uint w"
  by (simp add: unsigned_ucast_eq word_less_def take_bit_int_eq_self)

text \<open>The member list of a composite type.\<close>

definition member_words :: "(u32 \<times> u32 \<times> u32) list \<Rightarrow> u32 list" where
  "member_words ms = concat (map (\<lambda>(name, ty, off). BTF_MEMBER_ENC name ty off) ms)"

lemma member_words_nth: "i < length ms \<Longrightarrow> member_words ms ! (3 * i + 2) = snd (snd (ms ! i))"
proof (induction ms arbitrary: i)
  case (Cons m ms)
  obtain a b c where m: "m = (a, b, c)"
    by (cases m)
  show ?case
  proof (cases i)
    case (Suc j)
    then show ?thesis
      using Cons.IH [of j] Cons.prems by (simp add: member_words_def m BTF_MEMBER_ENC_def)
  qed (simp add: member_words_def m BTF_MEMBER_ENC_def)
qed simp

lemma btf_members_enc: "btf_members (BTF_TYPE_ENC name info sz @ ws) = ws"
  by (simp add: btf_members_def BTF_TYPE_ENC_def)

lemma kind_below_20:
  fixes k :: u16
  assumes "k < 20"
  shows "k = 0 \<or> k = 1 \<or> k = 2 \<or> k = 3 \<or> k = 4 \<or> k = 5 \<or> k = 6 \<or> k = 7 \<or> k = 8 \<or> k = 9 \<or>
    k = 10 \<or> k = 11 \<or> k = 12 \<or> k = 13 \<or> k = 14 \<or> k = 15 \<or> k = 16 \<or> k = 17 \<or> k = 18 \<or> k = 19"
proof -
  have "unat k < 20"
    using assms by (simp add: word_less_nat_alt)
  then have "k \<in> of_nat ` set [0..<20]"
    by (intro image_eqI [of _ _ "unat k"]) simp_all
  then show ?thesis
    by (simp add: upt_rec)
qed

section \<open>Properties\<close>

text \<open>
  C31: what the encoding macros put into a type, the accessors get out: kind, number of members, flag and linkage of an info
  word, the encoding, offset and width of an integer, and the kinds of the macros for integers, floats and tags. The
  function \<open>btf_type_info\<close> agrees with the macro.
\<close>

theorem btf_encoding_roundtrip:
  assumes "btf_uapi_ok U" and "kind < 2 ^ 5" and "vlen < 2 ^ 16" and "enc < 2 ^ 4" and "off < 2 ^ 8" and "bits < 2 ^ 8"
  shows "let t = BTF_TYPE_ENC name (BTF_INFO_ENC U kind kf vlen) sz @ ws; i = BTF_TYPE_INT_ENC U name enc off bits sz in
    btf_kind U t = ucast kind \<and> btf_vlen U t = ucast vlen \<and> btf_kflag U t = kf \<and> btf_func_linkage U t = uint vlen \<and>
    t ! 1 = btf_type_info kind vlen (of_bool kf) \<and>
    btf_is_int U i \<and> \<not> btf_kflag U i \<and>
    btf_int_encoding U i = ucast enc \<and> btf_int_offset U i = ucast off \<and> btf_int_bits U i = ucast bits \<and>
    btf_is_float U (BTF_TYPE_FLOAT_ENC U name sz) \<and> btf_is_decl_tag U (BTF_TYPE_DECL_TAG_ENC U name sz off) \<and>
    btf_is_type_tag U (BTF_TYPE_TYPE_TAG_ENC U name sz)"
proof -
  note info = info_parts [OF assms(1)]
  have small: "INFO_KIND U (BTF_INFO_ENC U k False 0) = k" "INFO_KFLAG U (BTF_INFO_ENC U k False 0) = 0" if "k < 2 ^ 5" for k
    using info(1,3) [OF that, of 0 False] by simp_all
  show ?thesis
    using info [OF assms(2,3), of kf] int_parts [OF assms(1) assms(4-6)] small assms(3)
    by (simp add: Let_def btf_kind_def btf_vlen_def btf_kflag_def btf_func_linkage_def ucast_0_iff BTF_TYPE_ENC_def
        BTF_TYPE_INT_ENC_def btf_is_int_def btf_int_encoding_def btf_int_offset_def btf_int_bits_def kind_number [OF assms(1)]
        BTF_TYPE_FLOAT_ENC_def BTF_TYPE_DECL_TAG_ENC_def BTF_TYPE_TYPE_TAG_ENC_def btf_is_float_def btf_is_decl_tag_def
        btf_is_type_tag_def btf_kind_numbers)
qed

text \<open>
  The accessors of a member read the offset word of that member and no other: without the flag it is the bit offset,
  with the flag its low 24 bits are, and the high 8 bits are the width of the bit field.
\<close>

theorem btf_members_read:
  assumes "btf_uapi_ok U" and "kind < 2 ^ 5" and "length ms < 2 ^ 16" and "i < length ms"
  shows "let t = BTF_TYPE_ENC name (BTF_INFO_ENC U kind kf (of_nat (length ms))) sz @ member_words ms; w = snd (snd (ms ! i)) in
    btf_member_bit_offset U t (of_nat i) = (if kf then take_bit 24 w else w) \<and>
    btf_member_bitfield_size U t (of_nat i) = (if kf then drop_bit 24 w else 0)"
proof -
  have "(of_nat (length ms) :: u32) < 2 ^ 16"
    using assms(3) by (simp add: word_less_nat_alt unsigned_of_nat take_bit_nat_eq_self)
  note info = info_parts [OF assms(1,2) this, of kf]
  have "unat (of_nat i :: u32) = i"
    using assms(3,4) by (simp add: unsigned_of_nat take_bit_nat_eq_self)
  then have "btf_member_offset_word (BTF_TYPE_ENC name info sz @ member_words ms) (of_nat i) = snd (snd (ms ! i))" for info
    using member_words_nth [OF assms(4)] by (simp only: btf_member_offset_word_def btf_members_enc)
  moreover have "btf_kflag U (BTF_TYPE_ENC name (BTF_INFO_ENC U kind kf (of_nat (length ms))) sz @ ws) = kf" for ws
    by (simp add: btf_kflag_def BTF_TYPE_ENC_def info)
  ultimately show ?thesis
    by (simp add: Let_def btf_member_bit_offset_def btf_member_bitfield_size_def uapi_macros [OF assms(1)])
qed

text \<open>
  The predicates on kinds split the types: each type of one of the twenty kinds satisfies exactly one of the twenty,
  any other none; the predicates on groups of kinds are the unions they are named for; and compatibility is
  an equivalence.
\<close>

theorem btf_kinds_partition:
  assumes "btf_uapi_ok U"
  shows "length (filter (\<lambda>p. p U t)
      [btf_is_void, btf_is_int, btf_is_ptr, btf_is_array, btf_is_struct, btf_is_union, btf_is_enum, btf_is_fwd, btf_is_typedef,
       btf_is_volatile, btf_is_const, btf_is_restrict, btf_is_func, btf_is_func_proto, btf_is_var, btf_is_datasec,
       btf_is_float, btf_is_decl_tag, btf_is_type_tag, btf_is_enum64]) = (if btf_kind U t < 20 then 1 else 0) \<and>
    btf_is_composite U t = (btf_is_struct U t \<or> btf_is_union U t) \<and>
    btf_is_mod U t = (btf_is_volatile U t \<or> btf_is_const U t \<or> btf_is_restrict U t \<or> btf_is_type_tag U t) \<and>
    equivp (btf_kind_core_compat U)"
proof -
  note defs = btf_is_void_def btf_is_int_def btf_is_ptr_def btf_is_array_def btf_is_struct_def btf_is_union_def btf_is_enum_def
    btf_is_fwd_def btf_is_typedef_def btf_is_volatile_def btf_is_const_def btf_is_restrict_def btf_is_func_def
    btf_is_func_proto_def btf_is_var_def btf_is_datasec_def btf_is_float_def btf_is_decl_tag_def btf_is_type_tag_def
    btf_is_enum64_def kind_number [OF assms] btf_kind_numbers
  have "length (filter (\<lambda>p. p U t)
      [btf_is_void, btf_is_int, btf_is_ptr, btf_is_array, btf_is_struct, btf_is_union, btf_is_enum, btf_is_fwd, btf_is_typedef,
       btf_is_volatile, btf_is_const, btf_is_restrict, btf_is_func, btf_is_func_proto, btf_is_var, btf_is_datasec,
       btf_is_float, btf_is_decl_tag, btf_is_type_tag, btf_is_enum64]) = (if btf_kind U t < 20 then 1 else 0)"
  proof (cases "btf_kind U t < 20")
    case True
    then show ?thesis
      using kind_below_20 [OF True] by (elim disjE) (simp_all add: defs)
  next
    case False
    then have "btf_kind U t \<noteq> k" if "k < 20" for k
      using that by blast
    then show ?thesis
      using False by (simp add: defs)
  qed
  moreover have "equivp (btf_kind_core_compat U)"
    by (rule equivpI; rule reflpI sympI transpI; auto simp: btf_kind_core_compat_def btf_is_any_enum_def defs)
  ultimately show ?thesis
    by (simp add: btf_is_composite_def btf_is_mod_def btf_is_type_tag_def btf_is_struct_def btf_is_union_def btf_is_volatile_def
        btf_is_const_def btf_is_restrict_def Let_def)
qed

text \<open>The macros as linux/btf.h documents them.\<close>

definition linux_btf :: btf_uapi where
  "linux_btf = \<lparr>INFO_KIND = (\<lambda>w. drop_bit 24 w AND 0x1F), INFO_VLEN = (\<lambda>w. w AND 0xFFFF), INFO_KFLAG = drop_bit 31,
     INT_ENCODING = (\<lambda>w. drop_bit 24 (w AND 0x0F000000)), INT_OFFSET = (\<lambda>w. drop_bit 16 (w AND 0x00FF0000)),
     INT_BITS = (\<lambda>w. w AND 0xFF), MEMBER_BIT_OFFSET = (\<lambda>w. w AND 0xFFFFFF), MEMBER_BITFIELD_SIZE = drop_bit 24,
     MAX_VLEN = 0xFFFF, KIND_UNKN = 0, KIND_INT = 1, KIND_PTR = 2, KIND_ARRAY = 3, KIND_STRUCT = 4, KIND_UNION = 5,
     KIND_ENUM = 6, KIND_FWD = 7, KIND_TYPEDEF = 8, KIND_VOLATILE = 9, KIND_CONST = 10, KIND_RESTRICT = 11\<rparr>"

lemma linux_btf_ok: "btf_uapi_ok linux_btf"
  by (simp add: btf_uapi_ok_def linux_btf_def)

lemma btf_encoding_roundtrip_witness:
  "btf_kind linux_btf [7, 0x84000003, 16] = 4 \<and> btf_vlen linux_btf [7, 0x84000003, 16] = 3 \<and> btf_kflag linux_btf [7, 0x84000003, 16]"
  using btf_encoding_roundtrip [OF linux_btf_ok, of 4 3 1 0 32 7 True 16 "[]"]
  by (simp add: Let_def BTF_TYPE_ENC_def BTF_INFO_ENC_def linux_btf_def)

lemma btf_members_read_witness:
  "btf_member_bit_offset linux_btf [7, 0x84000002, 16, 1, 2, 0x05000000, 8, 2, 0x03000005] 1 = 5 \<and>
   btf_member_bitfield_size linux_btf [7, 0x84000002, 16, 1, 2, 0x05000000, 8, 2, 0x03000005] 1 = 3"
  using btf_members_read [OF linux_btf_ok, of 4 "[(1, 2, 0x05000000), (8, 2, 0x03000005)]" 1 7 True 16]
  by (simp add: Let_def BTF_TYPE_ENC_def BTF_INFO_ENC_def member_words_def BTF_MEMBER_ENC_def linux_btf_def)

lemma btf_kinds_partition_witness:
  "btf_is_composite linux_btf [7, 0x84000002, 16] = (btf_is_struct linux_btf [7, 0x84000002, 16] \<or> btf_is_union linux_btf [7, 0x84000002, 16])"
  using btf_kinds_partition [OF linux_btf_ok] by simp

end
