(* ===== verification/Btf_Ext.thy ===== *)
theory Btf_Ext
  imports "HOL-Library.Sublist" Elf
begin

text \<open>
  The .BTF.ext section of an eBPF object: functions, lines and CO-RE relocations, each kept as a list of sections with
  records of a size the section states. The structures, the layout and the macros that iterate over them
  (\<open>for_each_btf_ext_sec\<close>, \<open>for_each_btf_ext_rec\<close>) are from libbpf_internal.h. A read behind the end of the data is \<open>None\<close>.
\<close>

section \<open>The header\<close>

record btf_ext_header =
  eh_magic :: nat
  eh_version :: nat
  eh_flags :: nat
  eh_hdr_len :: nat
  func_info_off :: nat
  func_info_len :: nat
  line_info_off :: nat
  line_info_len :: nat
  core_relo_off :: nat
  core_relo_len :: nat

definition read_btf_ext_header :: "byte list \<Rightarrow> btf_ext_header" where
  "read_btf_ext_header bs =
     \<lparr>eh_magic = le_at bs 0 2, eh_version = le_at bs 2 1, eh_flags = le_at bs 3 1, eh_hdr_len = le_at bs 4 4,
      func_info_off = le_at bs 8 4, func_info_len = le_at bs 12 4, line_info_off = le_at bs 16 4, line_info_len = le_at bs 20 4,
      core_relo_off = le_at bs 24 4, core_relo_len = le_at bs 28 4\<rparr>"

section \<open>Segments\<close>

text \<open>
  \<open>struct btf_ext_info\<close>: a subsection without its leading record size, and that size. Offsets count from the end of the
  header. A subsection of length zero is absent.
\<close>

record btf_ext_info =
  ei_info :: "byte list"
  ei_rec_size :: nat

definition btf_ext_info_at :: "byte list \<Rightarrow> nat \<Rightarrow> nat \<Rightarrow> nat \<Rightarrow> btf_ext_info option" where
  "btf_ext_info_at bs hdr_len off n =
     (if n = 0 then Some \<lparr>ei_info = [], ei_rec_size = 0\<rparr>
      else if n < 4 \<or> length bs < hdr_len + off + n then None
      else
        let seg = take n (drop (hdr_len + off) bs) in
        Some \<lparr>ei_info = drop 4 seg, ei_rec_size = le_at seg 0 4\<rparr>)"

text \<open>\<open>for_each_btf_ext_rec\<close>: \<open>num_info\<close> records, one behind the other.\<close>

primrec for_each_btf_ext_rec :: "nat \<Rightarrow> nat \<Rightarrow> byte list \<Rightarrow> byte list list option" where
  "for_each_btf_ext_rec rec_size 0 bs = Some []"
| "for_each_btf_ext_rec rec_size (Suc n) bs =
     (if rec_size \<le> length bs
      then map_option (Cons (take rec_size bs)) (for_each_btf_ext_rec rec_size n (drop rec_size bs))
      else None)"

text \<open>
  \<open>for_each_btf_ext_sec\<close> with the inner loop in its body: \<open>bs\<close> is what is left of the segment. \<open>struct btf_ext_info_sec\<close> is
  eight bytes, name and number of records; the product of record size and number is a 32-bit one. The result is the name offset of
  each section with its records.
\<close>

function for_each_btf_ext_sec :: "nat \<Rightarrow> byte list \<Rightarrow> (nat \<times> byte list list) list option" where
  "for_each_btf_ext_sec rec_size bs =
     (if bs = [] then Some []
      else if length bs < 8 then None
      else
        let num_info = le_at bs 4 4; size = 8 + rec_size * num_info mod 2 ^ 32 in
        case for_each_btf_ext_rec rec_size num_info (drop 8 bs) of
          None \<Rightarrow> None
        | Some recs \<Rightarrow> map_option (Cons (le_at bs 0 4, recs)) (for_each_btf_ext_sec rec_size (drop size bs)))"
  by pat_completeness auto

termination
  by (relation "measure (\<lambda>(r, bs). length bs)") auto

declare for_each_btf_ext_sec.simps [simp del]

definition btf_ext_sections :: "btf_ext_info \<Rightarrow> (nat \<times> byte list list) list option" where
  "btf_ext_sections seg = for_each_btf_ext_sec (ei_rec_size seg) (ei_info seg)"

text \<open>All three kinds of records start with the offset of their instruction in the section.\<close>

definition insn_off :: "byte list \<Rightarrow> nat" where
  "insn_off r = le_at r 0 4"

section \<open>What the loops visit\<close>

text \<open>The bytes of a list of sections.\<close>

definition sec_bytes :: "nat \<times> byte list list \<Rightarrow> byte list" where
  "sec_bytes s = le_bytes 4 (fst s) @ le_bytes 4 (length (snd s)) @ concat (snd s)"

definition secs_ok :: "nat \<Rightarrow> (nat \<times> byte list list) list \<Rightarrow> bool" where
  "secs_ok rec_size secs \<longleftrightarrow>
     list_all (\<lambda>(name, recs). name < 2 ^ 32 \<and> rec_size * length recs < 2 ^ 32 \<and> length recs < 2 ^ 32 \<and>
       list_all (\<lambda>r. length r = rec_size) recs) secs"

lemma records_visited:
  "list_all (\<lambda>r. length r = n) rs \<Longrightarrow> for_each_btf_ext_rec n (length rs) (concat rs @ ys) = Some rs"
  by (induction rs) simp_all

lemma length_concat_rows: "list_all (\<lambda>r. length r = n) rs \<Longrightarrow> length (concat rs) = n * length rs"
  by (induction rs) simp_all

lemma le_at_shift: "length xs = n \<Longrightarrow> le_at (xs @ ys) n k = le_at ys 0 k"
  by (simp add: le_at_def)

lemma sections_visited:
  assumes "secs_ok rec_size secs"
  shows "for_each_btf_ext_sec rec_size (concat (map sec_bytes secs)) = Some secs"
  using assms
proof (induction secs)
  case (Cons s secs)
  obtain name recs where s: "s = (name, recs)"
    by fastforce
  have ok: "name < 2 ^ 32" "rec_size * length recs < 2 ^ 32" "length recs < 2 ^ 32" "list_all (\<lambda>r. length r = rec_size) recs"
    using Cons.prems by (simp_all add: secs_ok_def s)
  let ?rest = "concat (map sec_bytes secs)"
  let ?bs = "le_bytes 4 name @ le_bytes 4 (length recs) @ concat recs @ ?rest"
  have bs: "concat (map sec_bytes (s # secs)) = ?bs" "length ?bs \<ge> 8"
    by (simp_all add: s sec_bytes_def)
  have name: "le_at ?bs 0 4 = name"
    using ok(1) le_at_le_bytes [of name 4] by (simp del: le_at_le_bytes)
  have num: "le_at ?bs 4 4 = length recs"
    using ok(3) le_at_le_bytes [of "length recs" 4] by (simp add: le_at_shift del: le_at_le_bytes)
  have data: "drop 8 ?bs = concat recs @ ?rest" "drop (8 + rec_size * length recs) ?bs = ?rest"
    by (simp_all add: length_concat_rows [OF ok(4)])
  have "for_each_btf_ext_sec rec_size ?rest = Some secs"
    using Cons by (simp add: secs_ok_def)
  moreover have "le_bytes 4 name \<noteq> []"
    using length_le_bytes [of 4 name] by (metis list.size(3) zero_neq_numeral)
  ultimately show ?case
    unfolding bs(1) using bs(2) ok(2)
    by (subst for_each_btf_ext_sec.simps)
      (simp add: name num data records_visited [OF ok(4)] s del: drop_append)
qed (simp add: for_each_btf_ext_sec.simps)

section \<open>A whole section\<close>

text \<open>The three subsections, each read with the two loops.\<close>

definition btf_ext_part :: "byte list \<Rightarrow> nat \<Rightarrow> nat \<Rightarrow> nat \<Rightarrow> (nat \<times> byte list list) list option" where
  "btf_ext_part bs hdr_len off n = Option.bind (btf_ext_info_at bs hdr_len off n) btf_ext_sections"

definition read_btf_ext :: "byte list \<Rightarrow> ((nat \<times> byte list list) list \<times> (nat \<times> byte list list) list \<times> (nat \<times> byte list list) list) option" where
  "read_btf_ext bs =
     (let h = read_btf_ext_header bs;
          sub = btf_ext_part bs (eh_hdr_len h) in
      Option.bind (sub (func_info_off h) (func_info_len h)) (\<lambda>f.
        Option.bind (sub (line_info_off h) (line_info_len h)) (\<lambda>l.
          map_option (\<lambda>r. (f, l, r)) (sub (core_relo_off h) (core_relo_len h)))))"

text \<open>
  The bytes of a section: the header, then functions, lines and relocations, with records of 8, 16 and 16 bytes
  (\<open>bpf_func_info_min\<close>, \<open>bpf_line_info_min\<close>, and the four words of a relocation). An empty subsection has no bytes.
\<close>

definition seg_bytes :: "nat \<Rightarrow> (nat \<times> byte list list) list \<Rightarrow> byte list" where
  "seg_bytes rec_size secs = (if secs = [] then [] else le_bytes 4 rec_size @ concat (map sec_bytes secs))"

definition btf_ext_bytes ::
  "(nat \<times> byte list list) list \<Rightarrow> (nat \<times> byte list list) list \<Rightarrow> (nat \<times> byte list list) list \<Rightarrow> byte list" where
  "btf_ext_bytes f l r =
     (let fs = seg_bytes 8 f; ls = seg_bytes 16 l; rs = seg_bytes 16 r in
      le_bytes 2 0xEB9F @ le_bytes 1 1 @ le_bytes 1 0 @ le_bytes 4 32 @
      le_bytes 4 0 @ le_bytes 4 (length fs) @ le_bytes 4 (length fs) @ le_bytes 4 (length ls) @
      le_bytes 4 (length fs + length ls) @ le_bytes 4 (length rs) @ fs @ ls @ rs)"

lemma le_at_skip: "\<lbrakk>length xs = m; m \<le> n\<rbrakk> \<Longrightarrow> le_at (xs @ ys) n k = le_at ys (n - m) k"
  by (simp add: le_at_def)

lemma header_read:
  assumes "length (seg_bytes 8 f) + length (seg_bytes 16 l) < 2 ^ 32" and "length (seg_bytes 16 r) < 2 ^ 32"
  shows "read_btf_ext_header (btf_ext_bytes f l r) =
    \<lparr>eh_magic = 0xEB9F, eh_version = 1, eh_flags = 0, eh_hdr_len = 32, func_info_off = 0,
     func_info_len = length (seg_bytes 8 f), line_info_off = length (seg_bytes 8 f), line_info_len = length (seg_bytes 16 l),
     core_relo_off = length (seg_bytes 8 f) + length (seg_bytes 16 l), core_relo_len = length (seg_bytes 16 r)\<rparr>"
proof -
  have "le_at (le_bytes n x @ ys) 0 n = x" if "x < 256 ^ n" for n x ys
    using that by simp
  then show ?thesis
    using assms by (simp add: read_btf_ext_header_def btf_ext_bytes_def Let_def le_at_skip [OF length_le_bytes] del: le_bytes.simps)
qed

lemma segment_read:
  assumes "secs_ok rec_size secs" and "rec_size < 2 ^ 32" and "length pre = hdr_len + off"
  shows "btf_ext_part (pre @ seg_bytes rec_size secs @ post) hdr_len off (length (seg_bytes rec_size secs)) = Some secs"
proof (cases "secs = []")
  case True
  then show ?thesis
    by (simp add: btf_ext_part_def btf_ext_info_at_def seg_bytes_def btf_ext_sections_def for_each_btf_ext_sec.simps)
next
  case False
  let ?data = "concat (map sec_bytes secs)"
  have seg: "seg_bytes rec_size secs = le_bytes 4 rec_size @ ?data"
    using False by (simp add: seg_bytes_def)
  have "btf_ext_info_at (pre @ seg_bytes rec_size secs @ post) hdr_len off (length (seg_bytes rec_size secs)) =
    Some \<lparr>ei_info = ?data, ei_rec_size = rec_size\<rparr>"
    using assms(2,3) le_at_le_bytes [of rec_size 4] by (simp add: btf_ext_info_at_def seg Let_def)
  then show ?thesis
    by (simp add: btf_ext_part_def btf_ext_sections_def sections_visited [OF assms(1)])
qed

lemma btf_ext_read:
  assumes "secs_ok 8 f" and "secs_ok 16 l" and "secs_ok 16 r" and "length (btf_ext_bytes f l r) < 2 ^ 32"
  shows "read_btf_ext (btf_ext_bytes f l r) = Some (f, l, r)"
proof -
  define pre where "pre = take 32 (btf_ext_bytes f l r)"
  have pre: "length pre = 32" and bytes: "btf_ext_bytes f l r = pre @ seg_bytes 8 f @ seg_bytes 16 l @ seg_bytes 16 r"
    by (simp_all add: pre_def btf_ext_bytes_def Let_def)
  have len: "length (seg_bytes 8 f) + length (seg_bytes 16 l) < 2 ^ 32" "length (seg_bytes 16 r) < 2 ^ 32"
    using assms(4) by (simp_all add: bytes)
  let ?sub = "btf_ext_part (btf_ext_bytes f l r) 32"
  have "?sub 0 (length (seg_bytes 8 f)) = Some f"
    using segment_read [OF assms(1), of pre 32 0] pre by (simp add: bytes)
  moreover have "?sub (length (seg_bytes 8 f)) (length (seg_bytes 16 l)) = Some l"
    using segment_read [OF assms(2), of "pre @ seg_bytes 8 f" 32 "length (seg_bytes 8 f)" "seg_bytes 16 r"] pre by (simp add: bytes)
  moreover have "?sub (length (seg_bytes 8 f) + length (seg_bytes 16 l)) (length (seg_bytes 16 r)) = Some r"
    using segment_read [OF assms(3), of "pre @ seg_bytes 8 f @ seg_bytes 16 l" 32 _ "[]"] pre by (simp add: bytes)
  ultimately show ?thesis
    by (simp add: read_btf_ext_def Let_def header_read [OF len])
qed

section \<open>Whether a .BTF.ext section fits its object\<close>

text \<open>A string of the .BTF section; its header has the length of the header, and the offset of the strings behind it.\<close>

definition btf_string :: "byte list \<Rightarrow> nat \<Rightarrow> string" where
  "btf_string btf off = c_string (drop (le_at btf 4 4 + le_at btf 16 4 + off) btf)"

definition section_named :: "elf_sec list \<Rightarrow> string \<Rightarrow> elf_sec option" where
  "section_named ss n = find (\<lambda>x. es_name x = n) ss"

text \<open>
  The instructions of a program, as the offset of each in the bytes of its section and its opcode. A 64-bit load (0x18) takes two
  slots of eight bytes, so no instruction starts at the second one.
\<close>

fun insn_table :: "nat \<Rightarrow> byte list \<Rightarrow> (nat \<times> nat) list" where
  "insn_table off (op # b1 # b2 # b3 # b4 # b5 # b6 # b7 # bs) =
     (off, unat op) # (if op = 0x18 then insn_table (off + 16) (drop 8 bs) else insn_table (off + 8) bs)"
| "insn_table off bs = []"

text \<open>
  A relocation is written to an immediate or an offset of its instruction: a load or a store (classes 1 to 3), an operation
  with an immediate (classes 4 and 7, source bit 0), or a 64-bit load.
\<close>

definition relocatable :: "nat \<Rightarrow> bool" where
  "relocatable op \<longleftrightarrow> op = 0x18 \<or> op mod 8 \<in> {1, 2, 3} \<or> op mod 8 \<in> {4, 7} \<and> op div 8 mod 2 = 0"

text \<open>The values of the function symbols of a section, in the order of the symbol table.\<close>

definition functions_of :: "elf_sym list \<Rightarrow> nat \<Rightarrow> nat list" where
  "functions_of syms i = map sym_value (filter (\<lambda>y. sym_info y mod 16 = 2 \<and> sym_shndx y = i) syms)"

text \<open>The number of the first section with a name.\<close>

fun section_number :: "nat \<Rightarrow> elf_sec list \<Rightarrow> string \<Rightarrow> nat option" where
  "section_number i [] n = None"
| "section_number i (x # ss) n = (if es_name x = n then Some i else section_number (i + 1) ss n)"

text \<open>
  The records filed under a name, by their offsets, against the program section of that name: function records are at the
  function symbols of the section; line records begin at its first instruction; relocation records are on instructions that can be
  relocated. All of them are at starts of instructions, in strictly ascending order.
\<close>

datatype rec_kind = Func_rec | Line_rec | Relo_rec

definition records_fit :: "rec_kind \<Rightarrow> nat list \<Rightarrow> (nat \<times> nat) list \<Rightarrow> nat list \<Rightarrow> bool" where
  "records_fit kind funcs tab offs \<longleftrightarrow>
     offs \<noteq> [] \<and>
     (case kind of
        Func_rec \<Rightarrow> offs = funcs \<and> subseq offs (map fst tab)
      | Line_rec \<Rightarrow> hd offs = 0 \<and> subseq offs (map fst tab)
      | Relo_rec \<Rightarrow> subseq offs (map fst (filter (\<lambda>(off, op). relocatable op) tab)))"

definition section_fits :: "(nat \<Rightarrow> string) \<Rightarrow> elf_sec list \<Rightarrow> elf_sym list \<Rightarrow> rec_kind \<Rightarrow> nat \<times> byte list list \<Rightarrow> bool" where
  "section_fits name_of ss syms kind s =
     (case s of (name, recs) \<Rightarrow>
        (case section_number 0 ss (name_of name) of
           Some i \<Rightarrow>
             is_program (ss ! i) \<and>
             records_fit kind (functions_of syms i) (insn_table 0 (es_bytes (ss ! i))) (map insn_off recs)
         | None \<Rightarrow> False))"

text \<open>Functions and lines cover exactly the program sections of the object, in its order; relocations any of them.\<close>

definition btf_ext_fits :: "(nat \<Rightarrow> string) \<Rightarrow> elf_sec list \<Rightarrow> elf_sym list \<Rightarrow> byte list \<Rightarrow> bool" where
  "btf_ext_fits name_of ss syms ext =
     (case read_btf_ext ext of
        None \<Rightarrow> False
      | Some (f, l, r) \<Rightarrow>
          map (name_of \<circ> fst) f = map es_name (filter is_program ss) \<and> map fst l = map fst f \<and>
          list_all (section_fits name_of ss syms Func_rec) f \<and> list_all (section_fits name_of ss syms Line_rec) l \<and>
          list_all (section_fits name_of ss syms Relo_rec) r)"

definition object_btf_ext_fits :: "byte list \<Rightarrow> bool" where
  "object_btf_ext_fits elf =
     (let ss = elf_sections elf in
      case (section_named ss ''.BTF'', section_named ss ''.BTF.ext'') of
        (Some btf, Some ext) \<Rightarrow> btf_ext_fits (btf_string (es_bytes btf)) ss (elf_symbols elf) (es_bytes ext)
      | _ \<Rightarrow> False)"

text \<open>What a fitting record list means for one of its offsets.\<close>

lemma records_fit_starts:
  assumes "records_fit kind funcs tab offs" and "k \<in> set offs"
  shows "k \<in> fst ` set tab"
proof -
  have sub: "set xs \<subseteq> set ys" if "subseq xs ys" for xs ys :: "nat list"
    using that by (auto elim: list_emb_set)
  then show ?thesis
    using assms by (fastforce simp: records_fit_def split: rec_kind.splits dest!: sub)
qed

text \<open>Evaluation on a given section.\<close>

lemma le_bytes_step: "0 < n \<Longrightarrow> le_bytes n x = of_nat x # le_bytes (n - 1) (x div 256)"
  by (cases n) simp_all

lemma le_bytes_eval:
  "le_bytes 1 x = [of_nat x]"
  "le_bytes 2 x = [of_nat x, of_nat (x div 256)]"
  "le_bytes 4 x = [of_nat x, of_nat (x div 256), of_nat (x div 256 div 256), of_nat (x div 256 div 256 div 256)]"
  by (simp_all add: le_bytes_step [of 1] le_bytes_step [of 2] le_bytes_step [of 3] le_bytes_step [of 4])

lemma length_count: "length (x # xs) = length xs + 1"
  by simp

lemmas btf_ext_eval = btf_ext_bytes_def seg_bytes_def sec_bytes_def le_bytes_eval length_count

lemmas fits_eval =
  section_fits_def records_fit_def functions_of_def relocatable_def insn_off_def is_program_def le_at_def bit_numeral_rec bit_0

section \<open>Property\<close>

text \<open>
  C32: reading a .BTF.ext section gives back what was written to it. In particular the two loop macros visit every section of a
  subsection and every record of a section exactly once and in order, and end behind the last one, for all lists whose
  names, numbers and sizes fit in 32 bits.
\<close>

theorem btf_ext_roundtrip:
  assumes "secs_ok 8 f" and "secs_ok 16 l" and "secs_ok 16 r" and "length (btf_ext_bytes f l r) < 2 ^ 32"
  shows "read_btf_ext (btf_ext_bytes f l r) = Some (f, l, r)"
  using assms by (rule btf_ext_read)

lemma btf_ext_roundtrip_witness:
  "read_btf_ext (btf_ext_bytes [(5, [[0, 0, 0, 0, 9, 0, 0, 0], [8, 0, 0, 0, 9, 0, 0, 0]])]
     [(5, [[0, 0, 0, 0, 1, 0, 0, 0, 2, 0, 0, 0, 3, 0, 0, 0]])] []) =
   Some ([(5, [[0, 0, 0, 0, 9, 0, 0, 0], [8, 0, 0, 0, 9, 0, 0, 0]])], [(5, [[0, 0, 0, 0, 1, 0, 0, 0, 2, 0, 0, 0, 3, 0, 0, 0]])], [])"
  by (rule btf_ext_roundtrip) (simp_all add: secs_ok_def btf_ext_bytes_def seg_bytes_def sec_bytes_def)

end
