(* ===== verification/Embedded_Btf.thy ===== *)
theory Embedded_Btf
  imports Skeleton_Tables Btf_Ext
begin

text \<open>
  The .BTF.ext sections of the objects in the fourteen skeletons: the functions, lines and relocations each one holds
  (\<open><name>_funcs\<close>, \<open><name>_lines\<close>, \<open><name>_relos\<close>: for each section the offset of its name and its records), that the bytes of
  the section are exactly these, and that they fit the program sections of the object.
\<close>

section \<open>bootstrap\<close>

definition bootstrap_funcs :: "(nat \<times> byte list list) list" where
  "bootstrap_funcs =
    [(9785,
      [[0, 0, 0, 0, 33, 0, 0, 0]]),
     (9813,
      [[0, 0, 0, 0, 58, 1, 0, 0]])]"

definition bootstrap_lines :: "(nat \<times> byte list list) list" where
  "bootstrap_lines =
    [(9785,
      [[0, 0, 0, 0, 184, 33, 0, 0, 243, 33, 0, 0, 0, 104, 0, 0],
       [8, 0, 0, 0, 184, 33, 0, 0, 51, 34, 0, 0, 8, 140, 0, 0],
       [16, 0, 0, 0, 184, 33, 0, 0, 51, 34, 0, 0, 35, 140, 0, 0],
       [24, 0, 0, 0, 184, 33, 0, 0, 51, 34, 0, 0, 6, 140, 0, 0],
       [32, 0, 0, 0, 184, 33, 0, 0, 92, 34, 0, 0, 7, 144, 0, 0],
       [40, 0, 0, 0, 184, 33, 0, 0, 92, 34, 0, 0, 5, 144, 0, 0],
       [56, 0, 0, 0, 184, 33, 0, 0, 0, 0, 0, 0, 0, 0, 0, 0],
       [80, 0, 0, 0, 184, 33, 0, 0, 118, 34, 0, 0, 2, 148, 0, 0],
       [112, 0, 0, 0, 184, 33, 0, 0, 173, 34, 0, 0, 6, 160, 0, 0],
       [136, 0, 0, 0, 184, 33, 0, 0, 173, 34, 0, 0, 6, 160, 0, 0],
       [152, 0, 0, 0, 184, 33, 0, 0, 195, 34, 0, 0, 6, 176, 0, 0],
       [200, 0, 0, 0, 184, 33, 0, 0, 241, 34, 0, 0, 6, 180, 0, 0],
       [208, 0, 0, 0, 184, 33, 0, 0, 250, 34, 0, 0, 31, 196, 0, 0],
       [216, 0, 0, 0, 184, 33, 0, 0, 48, 35, 0, 0, 16, 204, 0, 0],
       [224, 0, 0, 0, 184, 33, 0, 0, 72, 35, 0, 0, 11, 208, 0, 0],
       [232, 0, 0, 0, 184, 33, 0, 0, 72, 35, 0, 0, 9, 208, 0, 0],
       [8, 1, 0, 0, 184, 33, 0, 0, 250, 34, 0, 0, 31, 196, 0, 0],
       [16, 1, 0, 0, 184, 33, 0, 0, 87, 35, 0, 0, 12, 212, 0, 0],
       [72, 1, 0, 0, 184, 33, 0, 0, 250, 34, 0, 0, 31, 196, 0, 0],
       [80, 1, 0, 0, 184, 33, 0, 0, 87, 35, 0, 0, 12, 212, 0, 0],
       [96, 1, 0, 0, 184, 33, 0, 0, 87, 35, 0, 0, 12, 212, 0, 0],
       [104, 1, 0, 0, 184, 33, 0, 0, 87, 35, 0, 0, 10, 212, 0, 0],
       [112, 1, 0, 0, 184, 33, 0, 0, 138, 35, 0, 0, 27, 216, 0, 0],
       [128, 1, 0, 0, 184, 33, 0, 0, 138, 35, 0, 0, 2, 216, 0, 0],
       [144, 1, 0, 0, 184, 33, 0, 0, 188, 35, 0, 0, 19, 224, 0, 0],
       [152, 1, 0, 0, 184, 33, 0, 0, 236, 35, 0, 0, 68, 228, 0, 0],
       [168, 1, 0, 0, 184, 33, 0, 0, 236, 35, 0, 0, 25, 228, 0, 0],
       [184, 1, 0, 0, 184, 33, 0, 0, 236, 35, 0, 0, 2, 228, 0, 0],
       [208, 1, 0, 0, 184, 33, 0, 0, 61, 36, 0, 0, 2, 240, 0, 0],
       [232, 1, 0, 0, 184, 33, 0, 0, 88, 36, 0, 0, 1, 248, 0, 0]]),
     (9813,
      [[0, 0, 0, 0, 184, 33, 0, 0, 90, 36, 0, 0, 7, 36, 1, 0],
       [8, 0, 0, 0, 184, 33, 0, 0, 124, 36, 0, 0, 11, 40, 1, 0],
       [24, 0, 0, 0, 184, 33, 0, 0, 124, 36, 0, 0, 6, 40, 1, 0],
       [32, 0, 0, 0, 184, 33, 0, 0, 141, 36, 0, 0, 8, 44, 1, 0],
       [48, 0, 0, 0, 184, 33, 0, 0, 157, 36, 0, 0, 6, 56, 1, 0],
       [64, 0, 0, 0, 184, 33, 0, 0, 174, 36, 0, 0, 13, 72, 1, 0],
       [104, 0, 0, 0, 184, 33, 0, 0, 226, 36, 0, 0, 6, 76, 1, 0],
       [112, 0, 0, 0, 184, 33, 0, 0, 241, 36, 0, 0, 17, 80, 1, 0],
       [128, 0, 0, 0, 184, 33, 0, 0, 241, 36, 0, 0, 38, 80, 1, 0],
       [136, 0, 0, 0, 184, 33, 0, 0, 241, 36, 0, 0, 36, 80, 1, 0],
       [160, 0, 0, 0, 184, 33, 0, 0, 33, 37, 0, 0, 11, 84, 1, 0],
       [184, 0, 0, 0, 184, 33, 0, 0, 33, 37, 0, 0, 11, 84, 1, 0],
       [200, 0, 0, 0, 184, 33, 0, 0, 0, 0, 0, 0, 0, 0, 0, 0],
       [208, 0, 0, 0, 184, 33, 0, 0, 60, 37, 0, 0, 2, 92, 1, 0],
       [232, 0, 0, 0, 184, 33, 0, 0, 101, 37, 0, 0, 6, 104, 1, 0],
       [0, 1, 0, 0, 184, 33, 0, 0, 101, 37, 0, 0, 22, 104, 1, 0],
       [8, 1, 0, 0, 184, 33, 0, 0, 101, 37, 0, 0, 39, 104, 1, 0],
       [16, 1, 0, 0, 184, 33, 0, 0, 101, 37, 0, 0, 6, 104, 1, 0],
       [24, 1, 0, 0, 184, 33, 0, 0, 195, 34, 0, 0, 6, 120, 1, 0],
       [72, 1, 0, 0, 184, 33, 0, 0, 241, 34, 0, 0, 6, 124, 1, 0],
       [80, 1, 0, 0, 184, 33, 0, 0, 250, 34, 0, 0, 31, 140, 1, 0],
       [104, 1, 0, 0, 184, 33, 0, 0, 156, 37, 0, 0, 16, 148, 1, 0],
       [112, 1, 0, 0, 184, 33, 0, 0, 179, 37, 0, 0, 17, 152, 1, 0],
       [120, 1, 0, 0, 184, 33, 0, 0, 72, 35, 0, 0, 11, 156, 1, 0],
       [128, 1, 0, 0, 184, 33, 0, 0, 72, 35, 0, 0, 9, 156, 1, 0],
       [168, 1, 0, 0, 184, 33, 0, 0, 250, 34, 0, 0, 31, 140, 1, 0],
       [176, 1, 0, 0, 184, 33, 0, 0, 87, 35, 0, 0, 12, 160, 1, 0],
       [224, 1, 0, 0, 184, 33, 0, 0, 250, 34, 0, 0, 31, 140, 1, 0],
       [232, 1, 0, 0, 184, 33, 0, 0, 87, 35, 0, 0, 12, 160, 1, 0],
       [248, 1, 0, 0, 184, 33, 0, 0, 87, 35, 0, 0, 12, 160, 1, 0],
       [0, 2, 0, 0, 184, 33, 0, 0, 87, 35, 0, 0, 10, 160, 1, 0],
       [32, 2, 0, 0, 184, 33, 0, 0, 250, 34, 0, 0, 31, 140, 1, 0],
       [40, 2, 0, 0, 184, 33, 0, 0, 210, 37, 0, 0, 18, 164, 1, 0],
       [64, 2, 0, 0, 184, 33, 0, 0, 210, 37, 0, 0, 18, 164, 1, 0],
       [72, 2, 0, 0, 184, 33, 0, 0, 210, 37, 0, 0, 49, 164, 1, 0],
       [80, 2, 0, 0, 184, 33, 0, 0, 210, 37, 0, 0, 55, 164, 1, 0],
       [88, 2, 0, 0, 184, 33, 0, 0, 210, 37, 0, 0, 15, 164, 1, 0],
       [96, 2, 0, 0, 184, 33, 0, 0, 138, 35, 0, 0, 27, 168, 1, 0],
       [112, 2, 0, 0, 184, 33, 0, 0, 138, 35, 0, 0, 2, 168, 1, 0],
       [128, 2, 0, 0, 184, 33, 0, 0, 61, 36, 0, 0, 2, 180, 1, 0],
       [152, 2, 0, 0, 184, 33, 0, 0, 88, 36, 0, 0, 1, 188, 1, 0]])]"

definition bootstrap_relos :: "(nat \<times> byte list list) list" where
  "bootstrap_relos =
    [(9785,
      [[240, 0, 0, 0, 34, 0, 0, 0, 16, 38, 0, 0, 0, 0, 0, 0],
       [40, 1, 0, 0, 34, 0, 0, 0, 21, 38, 0, 0, 0, 0, 0, 0],
       [144, 1, 0, 0, 23, 0, 0, 0, 26, 38, 0, 0, 0, 0, 0, 0]]),
     (9813,
      [[136, 1, 0, 0, 34, 0, 0, 0, 16, 38, 0, 0, 0, 0, 0, 0],
       [192, 1, 0, 0, 34, 0, 0, 0, 21, 38, 0, 0, 0, 0, 0, 0],
       [8, 2, 0, 0, 34, 0, 0, 0, 30, 38, 0, 0, 0, 0, 0, 0]])]"

lemma bootstrap_btf_ext: "take 1340 bootstrap_elf_11 = btf_ext_bytes bootstrap_funcs bootstrap_lines bootstrap_relos"
  by (simp add: bootstrap_funcs_def bootstrap_lines_def bootstrap_relos_def btf_ext_eval bootstrap_elf_11_def del: list.size(4))

lemma bootstrap_btf_ext_read: "read_btf_ext (take 1340 bootstrap_elf_11) = Some (bootstrap_funcs, bootstrap_lines, bootstrap_relos)"
  unfolding bootstrap_btf_ext
  by (rule btf_ext_read) (simp_all add: bootstrap_funcs_def bootstrap_lines_def bootstrap_relos_def secs_ok_def btf_ext_bytes_def seg_bytes_def sec_bytes_def length_count del: list.size(4))

lemma bootstrap_btf_header: "le_at bootstrap_elf_10_a 4 4 = 24" "le_at bootstrap_elf_10_a 16 4 = 13768"
  by (simp_all add: le_at_def bootstrap_elf_10_a_def)

lemma bootstrap_btf_strings:
  "btf_string (take 23633 bootstrap_elf_10) 9785 = ''tp/sched/sched_process_exec''"
  "btf_string (take 23633 bootstrap_elf_10) 9813 = ''tp/sched/sched_process_exit''"
  by (simp_all add: btf_string_def bootstrap_btf_header c_string_def char_of_def bit_Suc_0_iff bootstrap_elf_10_def bootstrap_elf_10_g_def)

lemma bootstrap_btf_ext_fits: "object_btf_ext_fits bootstrap_bpf__elf_bytes"
  by (simp add: object_btf_ext_fits_def bootstrap_elf_sections section_named_def btf_ext_fits_def bootstrap_btf_ext_read
      is_program_def bit_numeral_rec bit_0)
    (simp add: bootstrap_funcs_def bootstrap_lines_def bootstrap_relos_def fits_eval bootstrap_elf_symbols bootstrap_elf_3_def bootstrap_elf_4_def bootstrap_btf_strings)

section \<open>bootstrap_legacy\<close>

definition bootstrap_legacy_funcs :: "(nat \<times> byte list list) list" where
  "bootstrap_legacy_funcs =
    [(9887,
      [[0, 0, 0, 0, 31, 0, 0, 0]]),
     (9915,
      [[0, 0, 0, 0, 56, 1, 0, 0]])]"

definition bootstrap_legacy_lines :: "(nat \<times> byte list list) list" where
  "bootstrap_legacy_lines =
    [(9887,
      [[0, 0, 0, 0, 204, 33, 0, 0, 14, 34, 0, 0, 0, 108, 0, 0],
       [16, 0, 0, 0, 204, 33, 0, 0, 78, 34, 0, 0, 15, 124, 0, 0],
       [184, 0, 0, 0, 204, 33, 0, 0, 100, 34, 0, 0, 8, 144, 0, 0],
       [192, 0, 0, 0, 204, 33, 0, 0, 100, 34, 0, 0, 35, 144, 0, 0],
       [200, 0, 0, 0, 204, 33, 0, 0, 100, 34, 0, 0, 6, 144, 0, 0],
       [208, 0, 0, 0, 204, 33, 0, 0, 141, 34, 0, 0, 7, 148, 0, 0],
       [216, 0, 0, 0, 204, 33, 0, 0, 141, 34, 0, 0, 5, 148, 0, 0],
       [232, 0, 0, 0, 204, 33, 0, 0, 0, 0, 0, 0, 0, 0, 0, 0],
       [0, 1, 0, 0, 204, 33, 0, 0, 167, 34, 0, 0, 2, 152, 0, 0],
       [32, 1, 0, 0, 204, 33, 0, 0, 222, 34, 0, 0, 6, 164, 0, 0],
       [56, 1, 0, 0, 204, 33, 0, 0, 222, 34, 0, 0, 6, 164, 0, 0],
       [64, 1, 0, 0, 204, 33, 0, 0, 244, 34, 0, 0, 31, 180, 0, 0],
       [72, 1, 0, 0, 204, 33, 0, 0, 42, 35, 0, 0, 15, 188, 0, 0],
       [80, 1, 0, 0, 204, 33, 0, 0, 65, 35, 0, 0, 10, 192, 0, 0],
       [88, 1, 0, 0, 204, 33, 0, 0, 65, 35, 0, 0, 8, 192, 0, 0],
       [120, 1, 0, 0, 204, 33, 0, 0, 244, 34, 0, 0, 31, 180, 0, 0],
       [128, 1, 0, 0, 204, 33, 0, 0, 79, 35, 0, 0, 11, 196, 0, 0],
       [176, 1, 0, 0, 204, 33, 0, 0, 79, 35, 0, 0, 4, 196, 0, 0],
       [192, 1, 0, 0, 204, 33, 0, 0, 79, 35, 0, 0, 11, 196, 0, 0],
       [208, 1, 0, 0, 204, 33, 0, 0, 129, 35, 0, 0, 26, 200, 0, 0],
       [224, 1, 0, 0, 204, 33, 0, 0, 129, 35, 0, 0, 2, 200, 0, 0],
       [240, 1, 0, 0, 204, 33, 0, 0, 177, 35, 0, 0, 19, 208, 0, 0],
       [248, 1, 0, 0, 204, 33, 0, 0, 225, 35, 0, 0, 66, 212, 0, 0],
       [16, 2, 0, 0, 204, 33, 0, 0, 225, 35, 0, 0, 24, 212, 0, 0],
       [32, 2, 0, 0, 204, 33, 0, 0, 225, 35, 0, 0, 2, 212, 0, 0],
       [56, 2, 0, 0, 204, 33, 0, 0, 244, 34, 0, 0, 31, 180, 0, 0],
       [64, 2, 0, 0, 204, 33, 0, 0, 48, 36, 0, 0, 2, 224, 0, 0],
       [120, 2, 0, 0, 204, 33, 0, 0, 125, 36, 0, 0, 1, 232, 0, 0]]),
     (9915,
      [[0, 0, 0, 0, 204, 33, 0, 0, 127, 36, 0, 0, 0, 244, 0, 0],
       [16, 0, 0, 0, 204, 33, 0, 0, 78, 34, 0, 0, 15, 0, 1, 0],
       [184, 0, 0, 0, 204, 33, 0, 0, 195, 36, 0, 0, 7, 20, 1, 0],
       [192, 0, 0, 0, 204, 33, 0, 0, 229, 36, 0, 0, 11, 24, 1, 0],
       [208, 0, 0, 0, 204, 33, 0, 0, 229, 36, 0, 0, 6, 24, 1, 0],
       [216, 0, 0, 0, 204, 33, 0, 0, 246, 36, 0, 0, 8, 28, 1, 0],
       [232, 0, 0, 0, 204, 33, 0, 0, 6, 37, 0, 0, 6, 40, 1, 0],
       [248, 0, 0, 0, 204, 33, 0, 0, 23, 37, 0, 0, 13, 56, 1, 0],
       [32, 1, 0, 0, 204, 33, 0, 0, 75, 37, 0, 0, 6, 60, 1, 0],
       [40, 1, 0, 0, 204, 33, 0, 0, 90, 37, 0, 0, 17, 64, 1, 0],
       [56, 1, 0, 0, 204, 33, 0, 0, 90, 37, 0, 0, 38, 64, 1, 0],
       [64, 1, 0, 0, 204, 33, 0, 0, 90, 37, 0, 0, 36, 64, 1, 0],
       [88, 1, 0, 0, 204, 33, 0, 0, 138, 37, 0, 0, 11, 68, 1, 0],
       [112, 1, 0, 0, 204, 33, 0, 0, 138, 37, 0, 0, 11, 68, 1, 0],
       [128, 1, 0, 0, 204, 33, 0, 0, 0, 0, 0, 0, 0, 0, 0, 0],
       [136, 1, 0, 0, 204, 33, 0, 0, 165, 37, 0, 0, 2, 76, 1, 0],
       [160, 1, 0, 0, 204, 33, 0, 0, 206, 37, 0, 0, 6, 88, 1, 0],
       [184, 1, 0, 0, 204, 33, 0, 0, 206, 37, 0, 0, 22, 88, 1, 0],
       [192, 1, 0, 0, 204, 33, 0, 0, 206, 37, 0, 0, 39, 88, 1, 0],
       [200, 1, 0, 0, 204, 33, 0, 0, 206, 37, 0, 0, 6, 88, 1, 0],
       [208, 1, 0, 0, 204, 33, 0, 0, 244, 34, 0, 0, 31, 104, 1, 0],
       [232, 1, 0, 0, 204, 33, 0, 0, 5, 38, 0, 0, 15, 112, 1, 0],
       [240, 1, 0, 0, 204, 33, 0, 0, 27, 38, 0, 0, 16, 116, 1, 0],
       [248, 1, 0, 0, 204, 33, 0, 0, 65, 35, 0, 0, 10, 120, 1, 0],
       [0, 2, 0, 0, 204, 33, 0, 0, 65, 35, 0, 0, 8, 120, 1, 0],
       [40, 2, 0, 0, 204, 33, 0, 0, 244, 34, 0, 0, 31, 104, 1, 0],
       [48, 2, 0, 0, 204, 33, 0, 0, 79, 35, 0, 0, 11, 124, 1, 0],
       [88, 2, 0, 0, 204, 33, 0, 0, 79, 35, 0, 0, 4, 124, 1, 0],
       [104, 2, 0, 0, 204, 33, 0, 0, 79, 35, 0, 0, 11, 124, 1, 0],
       [144, 2, 0, 0, 204, 33, 0, 0, 244, 34, 0, 0, 31, 104, 1, 0],
       [152, 2, 0, 0, 204, 33, 0, 0, 57, 38, 0, 0, 17, 128, 1, 0],
       [176, 2, 0, 0, 204, 33, 0, 0, 57, 38, 0, 0, 17, 128, 1, 0],
       [184, 2, 0, 0, 204, 33, 0, 0, 57, 38, 0, 0, 48, 128, 1, 0],
       [192, 2, 0, 0, 204, 33, 0, 0, 57, 38, 0, 0, 54, 128, 1, 0],
       [200, 2, 0, 0, 204, 33, 0, 0, 57, 38, 0, 0, 14, 128, 1, 0],
       [208, 2, 0, 0, 204, 33, 0, 0, 129, 35, 0, 0, 26, 132, 1, 0],
       [224, 2, 0, 0, 204, 33, 0, 0, 129, 35, 0, 0, 2, 132, 1, 0],
       [248, 2, 0, 0, 204, 33, 0, 0, 244, 34, 0, 0, 31, 104, 1, 0],
       [0, 3, 0, 0, 204, 33, 0, 0, 48, 36, 0, 0, 2, 144, 1, 0],
       [56, 3, 0, 0, 204, 33, 0, 0, 125, 36, 0, 0, 1, 156, 1, 0]])]"

definition bootstrap_legacy_relos :: "(nat \<times> byte list list) list" where
  "bootstrap_legacy_relos =
    [(9887,
      [[96, 1, 0, 0, 32, 0, 0, 0, 118, 38, 0, 0, 0, 0, 0, 0],
       [152, 1, 0, 0, 32, 0, 0, 0, 123, 38, 0, 0, 0, 0, 0, 0],
       [240, 1, 0, 0, 21, 0, 0, 0, 128, 38, 0, 0, 0, 0, 0, 0]]),
     (9915,
      [[8, 2, 0, 0, 32, 0, 0, 0, 118, 38, 0, 0, 0, 0, 0, 0],
       [64, 2, 0, 0, 32, 0, 0, 0, 123, 38, 0, 0, 0, 0, 0, 0],
       [120, 2, 0, 0, 32, 0, 0, 0, 132, 38, 0, 0, 0, 0, 0, 0]])]"

lemma bootstrap_legacy_btf_ext: "take 1292 bootstrap_legacy_elf_11 = btf_ext_bytes bootstrap_legacy_funcs bootstrap_legacy_lines bootstrap_legacy_relos"
  by (simp add: bootstrap_legacy_funcs_def bootstrap_legacy_lines_def bootstrap_legacy_relos_def btf_ext_eval bootstrap_legacy_elf_11_def del: list.size(4))

lemma bootstrap_legacy_btf_ext_read: "read_btf_ext (take 1292 bootstrap_legacy_elf_11) = Some (bootstrap_legacy_funcs, bootstrap_legacy_lines, bootstrap_legacy_relos)"
  unfolding bootstrap_legacy_btf_ext
  by (rule btf_ext_read) (simp_all add: bootstrap_legacy_funcs_def bootstrap_legacy_lines_def bootstrap_legacy_relos_def secs_ok_def btf_ext_bytes_def seg_bytes_def sec_bytes_def length_count del: list.size(4))

lemma bootstrap_legacy_btf_header: "le_at bootstrap_legacy_elf_10_a 4 4 = 24" "le_at bootstrap_legacy_elf_10_a 16 4 = 13744"
  by (simp_all add: le_at_def bootstrap_legacy_elf_10_a_def)

lemma bootstrap_legacy_btf_strings:
  "btf_string (take 23711 bootstrap_legacy_elf_10) 9887 = ''tp/sched/sched_process_exec''"
  "btf_string (take 23711 bootstrap_legacy_elf_10) 9915 = ''tp/sched/sched_process_exit''"
  by (simp_all add: btf_string_def bootstrap_legacy_btf_header c_string_def char_of_def bit_Suc_0_iff bootstrap_legacy_elf_10_def bootstrap_legacy_elf_10_g_def)

lemma bootstrap_legacy_btf_ext_fits: "object_btf_ext_fits bootstrap_legacy_bpf__elf_bytes"
  by (simp add: object_btf_ext_fits_def bootstrap_legacy_elf_sections section_named_def btf_ext_fits_def bootstrap_legacy_btf_ext_read
      is_program_def bit_numeral_rec bit_0)
    (simp add: bootstrap_legacy_funcs_def bootstrap_legacy_lines_def bootstrap_legacy_relos_def fits_eval bootstrap_legacy_elf_symbols bootstrap_legacy_elf_3_def bootstrap_legacy_elf_4_def bootstrap_legacy_btf_strings)

section \<open>fentry\<close>

definition fentry_funcs :: "(nat \<times> byte list list) list" where
  "fentry_funcs =
    [(607,
      [[0, 0, 0, 0, 5, 0, 0, 0]]),
     (626,
      [[0, 0, 0, 0, 16, 0, 0, 0]])]"

definition fentry_lines :: "(nat \<times> byte list list) list" where
  "fentry_lines =
    [(607,
      [[0, 0, 0, 0, 210, 0, 0, 0, 10, 1, 0, 0, 5, 40, 0, 0],
       [8, 0, 0, 0, 210, 0, 0, 0, 68, 1, 0, 0, 8, 56, 0, 0],
       [16, 0, 0, 0, 210, 0, 0, 0, 109, 1, 0, 0, 2, 60, 0, 0],
       [24, 0, 0, 0, 210, 0, 0, 0, 68, 1, 0, 0, 35, 56, 0, 0],
       [32, 0, 0, 0, 210, 0, 0, 0, 109, 1, 0, 0, 2, 60, 0, 0],
       [72, 0, 0, 0, 210, 0, 0, 0, 10, 1, 0, 0, 5, 40, 0, 0]]),
     (626,
      [[0, 0, 0, 0, 210, 0, 0, 0, 176, 1, 0, 0, 5, 80, 0, 0],
       [16, 0, 0, 0, 210, 0, 0, 0, 68, 1, 0, 0, 8, 96, 0, 0],
       [24, 0, 0, 0, 210, 0, 0, 0, 249, 1, 0, 0, 2, 100, 0, 0],
       [32, 0, 0, 0, 210, 0, 0, 0, 68, 1, 0, 0, 35, 96, 0, 0],
       [40, 0, 0, 0, 210, 0, 0, 0, 249, 1, 0, 0, 2, 100, 0, 0],
       [88, 0, 0, 0, 210, 0, 0, 0, 176, 1, 0, 0, 5, 80, 0, 0]])]"

definition fentry_relos :: "(nat \<times> byte list list) list" where
  "fentry_relos =
    [(607,
      [[16, 0, 0, 0, 6, 0, 0, 0, 75, 2, 0, 0, 0, 0, 0, 0]]),
     (626,
      [[24, 0, 0, 0, 6, 0, 0, 0, 75, 2, 0, 0, 0, 0, 0, 0]])]"

lemma fentry_btf_ext: "take 332 fentry_elf_10 = btf_ext_bytes fentry_funcs fentry_lines fentry_relos"
  by (simp add: fentry_funcs_def fentry_lines_def fentry_relos_def btf_ext_eval fentry_elf_10_def del: list.size(4))

lemma fentry_btf_ext_read: "read_btf_ext (take 332 fentry_elf_10) = Some (fentry_funcs, fentry_lines, fentry_relos)"
  unfolding fentry_btf_ext
  by (rule btf_ext_read) (simp_all add: fentry_funcs_def fentry_lines_def fentry_relos_def secs_ok_def btf_ext_bytes_def seg_bytes_def sec_bytes_def length_count del: list.size(4))

lemma fentry_btf_strings:
  "btf_string (take 1148 fentry_elf_9) 607 = ''fentry/do_unlinkat''"
  "btf_string (take 1148 fentry_elf_9) 626 = ''fexit/do_unlinkat''"
  by (simp_all add: btf_string_def elf_eval fentry_elf_9_def)

lemma fentry_btf_ext_fits: "object_btf_ext_fits fentry_bpf__elf_bytes"
  by (simp add: object_btf_ext_fits_def fentry_elf_sections section_named_def btf_ext_fits_def fentry_btf_ext_read
      is_program_def bit_numeral_rec bit_0)
    (simp add: fentry_funcs_def fentry_lines_def fentry_relos_def fits_eval fentry_elf_symbols fentry_elf_3_def fentry_elf_4_def fentry_btf_strings)

section \<open>kprobe\<close>

definition kprobe_funcs :: "(nat \<times> byte list list) list" where
  "kprobe_funcs =
    [(800,
      [[0, 0, 0, 0, 21, 0, 0, 0]]),
     (819,
      [[0, 0, 0, 0, 31, 0, 0, 0]])]"

definition kprobe_lines :: "(nat \<times> byte list list) list" where
  "kprobe_lines =
    [(800,
      [[0, 0, 0, 0, 139, 1, 0, 0, 195, 1, 0, 0, 5, 44, 0, 0],
       [8, 0, 0, 0, 139, 1, 0, 0, 255, 1, 0, 0, 8, 64, 0, 0],
       [48, 0, 0, 0, 139, 1, 0, 0, 0, 0, 0, 0, 0, 0, 0, 0],
       [56, 0, 0, 0, 139, 1, 0, 0, 40, 2, 0, 0, 13, 68, 0, 0],
       [80, 0, 0, 0, 139, 1, 0, 0, 40, 2, 0, 0, 13, 68, 0, 0],
       [88, 0, 0, 0, 139, 1, 0, 0, 255, 1, 0, 0, 35, 64, 0, 0],
       [96, 0, 0, 0, 139, 1, 0, 0, 79, 2, 0, 0, 2, 72, 0, 0],
       [136, 0, 0, 0, 139, 1, 0, 0, 195, 1, 0, 0, 5, 44, 0, 0]]),
     (819,
      [[0, 0, 0, 0, 139, 1, 0, 0, 149, 2, 0, 0, 5, 92, 0, 0],
       [8, 0, 0, 0, 139, 1, 0, 0, 255, 1, 0, 0, 8, 108, 0, 0],
       [16, 0, 0, 0, 139, 1, 0, 0, 255, 1, 0, 0, 35, 108, 0, 0],
       [24, 0, 0, 0, 139, 1, 0, 0, 195, 2, 0, 0, 2, 112, 0, 0],
       [72, 0, 0, 0, 139, 1, 0, 0, 149, 2, 0, 0, 5, 92, 0, 0]])]"

definition kprobe_relos :: "(nat \<times> byte list list) list" where
  "kprobe_relos =
    [(800,
      [[0, 0, 0, 0, 4, 0, 0, 0, 0, 3, 0, 0, 0, 0, 0, 0],
       [24, 0, 0, 0, 22, 0, 0, 0, 6, 3, 0, 0, 0, 0, 0, 0]]),
     (819,
      [[0, 0, 0, 0, 4, 0, 0, 0, 10, 3, 0, 0, 0, 0, 0, 0]])]"

lemma kprobe_btf_ext: "take 364 kprobe_elf_10 = btf_ext_bytes kprobe_funcs kprobe_lines kprobe_relos"
  by (simp add: kprobe_funcs_def kprobe_lines_def kprobe_relos_def btf_ext_eval kprobe_elf_10_def del: list.size(4))

lemma kprobe_btf_ext_read: "read_btf_ext (take 364 kprobe_elf_10) = Some (kprobe_funcs, kprobe_lines, kprobe_relos)"
  unfolding kprobe_btf_ext
  by (rule btf_ext_read) (simp_all add: kprobe_funcs_def kprobe_lines_def kprobe_relos_def secs_ok_def btf_ext_bytes_def seg_bytes_def sec_bytes_def length_count del: list.size(4))

lemma kprobe_btf_strings:
  "btf_string (take 1793 kprobe_elf_9) 800 = ''kprobe/do_unlinkat''"
  "btf_string (take 1793 kprobe_elf_9) 819 = ''kretprobe/do_unlinkat''"
  by (simp_all add: btf_string_def elf_eval kprobe_elf_9_def)

lemma kprobe_btf_ext_fits: "object_btf_ext_fits kprobe_bpf__elf_bytes"
  by (simp add: object_btf_ext_fits_def kprobe_elf_sections section_named_def btf_ext_fits_def kprobe_btf_ext_read
      is_program_def bit_numeral_rec bit_0)
    (simp add: kprobe_funcs_def kprobe_lines_def kprobe_relos_def fits_eval kprobe_elf_symbols kprobe_elf_3_def kprobe_elf_4_def kprobe_btf_strings)

section \<open>ksyscall\<close>

definition ksyscall_funcs :: "(nat \<times> byte list list) list" where
  "ksyscall_funcs =
    [(843,
      [[0, 0, 0, 0, 21, 0, 0, 0]]),
     (859,
      [[0, 0, 0, 0, 24, 0, 0, 0]])]"

definition ksyscall_lines :: "(nat \<times> byte list list) list" where
  "ksyscall_lines =
    [(843,
      [[0, 0, 0, 0, 125, 1, 0, 0, 183, 1, 0, 0, 5, 36, 0, 0],
       [80, 0, 0, 0, 125, 1, 0, 0, 183, 1, 0, 0, 5, 36, 0, 0],
       [120, 0, 0, 0, 125, 1, 0, 0, 183, 1, 0, 0, 5, 36, 0, 0],
       [136, 0, 0, 0, 125, 1, 0, 0, 183, 1, 0, 0, 5, 36, 0, 0],
       [144, 0, 0, 0, 125, 1, 0, 0, 183, 1, 0, 0, 5, 36, 0, 0],
       [176, 0, 0, 0, 125, 1, 0, 0, 183, 1, 0, 0, 5, 36, 0, 0],
       [192, 0, 0, 0, 125, 1, 0, 0, 183, 1, 0, 0, 5, 36, 0, 0],
       [200, 0, 0, 0, 125, 1, 0, 0, 183, 1, 0, 0, 5, 36, 0, 0],
       [224, 0, 0, 0, 125, 1, 0, 0, 183, 1, 0, 0, 5, 36, 0, 0],
       [232, 0, 0, 0, 125, 1, 0, 0, 246, 1, 0, 0, 21, 48, 0, 0],
       [248, 0, 0, 0, 125, 1, 0, 0, 183, 1, 0, 0, 5, 36, 0, 0],
       [8, 1, 0, 0, 125, 1, 0, 0, 44, 2, 0, 0, 6, 56, 0, 0],
       [24, 1, 0, 0, 125, 1, 0, 0, 0, 0, 0, 0, 0, 0, 0, 0],
       [32, 1, 0, 0, 125, 1, 0, 0, 61, 2, 0, 0, 2, 96, 0, 0],
       [56, 1, 0, 0, 125, 1, 0, 0, 105, 2, 0, 0, 2, 100, 0, 0],
       [136, 1, 0, 0, 125, 1, 0, 0, 183, 1, 0, 0, 5, 36, 0, 0],
       [160, 1, 0, 0, 125, 1, 0, 0, 246, 1, 0, 0, 21, 48, 0, 0],
       [176, 1, 0, 0, 125, 1, 0, 0, 118, 2, 0, 0, 2, 44, 0, 0],
       [192, 1, 0, 0, 125, 1, 0, 0, 44, 2, 0, 0, 6, 56, 0, 0],
       [208, 1, 0, 0, 125, 1, 0, 0, 0, 0, 0, 0, 0, 0, 0, 0],
       [216, 1, 0, 0, 125, 1, 0, 0, 61, 2, 0, 0, 2, 96, 0, 0],
       [240, 1, 0, 0, 125, 1, 0, 0, 105, 2, 0, 0, 2, 100, 0, 0],
       [56, 2, 0, 0, 125, 1, 0, 0, 105, 2, 0, 0, 2, 100, 0, 0],
       [72, 2, 0, 0, 125, 1, 0, 0, 246, 1, 0, 0, 48, 48, 0, 0],
       [80, 2, 0, 0, 125, 1, 0, 0, 105, 2, 0, 0, 2, 100, 0, 0],
       [96, 2, 0, 0, 125, 1, 0, 0, 0, 0, 0, 0, 0, 0, 0, 0],
       [104, 2, 0, 0, 125, 1, 0, 0, 105, 2, 0, 0, 2, 100, 0, 0],
       [144, 2, 0, 0, 125, 1, 0, 0, 183, 1, 0, 0, 5, 36, 0, 0]]),
     (859,
      [[0, 0, 0, 0, 125, 1, 0, 0, 145, 2, 0, 0, 5, 128, 0, 0],
       [80, 0, 0, 0, 125, 1, 0, 0, 145, 2, 0, 0, 5, 128, 0, 0],
       [112, 0, 0, 0, 125, 1, 0, 0, 145, 2, 0, 0, 5, 128, 0, 0],
       [128, 0, 0, 0, 125, 1, 0, 0, 145, 2, 0, 0, 5, 128, 0, 0],
       [136, 0, 0, 0, 125, 1, 0, 0, 145, 2, 0, 0, 5, 128, 0, 0],
       [160, 0, 0, 0, 125, 1, 0, 0, 145, 2, 0, 0, 5, 128, 0, 0],
       [168, 0, 0, 0, 125, 1, 0, 0, 246, 1, 0, 0, 21, 140, 0, 0],
       [184, 0, 0, 0, 125, 1, 0, 0, 145, 2, 0, 0, 5, 128, 0, 0],
       [200, 0, 0, 0, 125, 1, 0, 0, 44, 2, 0, 0, 6, 148, 0, 0],
       [216, 0, 0, 0, 125, 1, 0, 0, 145, 2, 0, 0, 5, 128, 0, 0],
       [232, 0, 0, 0, 125, 1, 0, 0, 246, 1, 0, 0, 21, 140, 0, 0],
       [248, 0, 0, 0, 125, 1, 0, 0, 118, 2, 0, 0, 2, 136, 0, 0],
       [8, 1, 0, 0, 125, 1, 0, 0, 44, 2, 0, 0, 6, 148, 0, 0],
       [24, 1, 0, 0, 125, 1, 0, 0, 0, 0, 0, 0, 0, 0, 0, 0],
       [32, 1, 0, 0, 125, 1, 0, 0, 61, 2, 0, 0, 2, 188, 0, 0],
       [56, 1, 0, 0, 125, 1, 0, 0, 195, 2, 0, 0, 2, 192, 0, 0],
       [112, 1, 0, 0, 125, 1, 0, 0, 246, 1, 0, 0, 48, 140, 0, 0],
       [120, 1, 0, 0, 125, 1, 0, 0, 195, 2, 0, 0, 2, 192, 0, 0],
       [136, 1, 0, 0, 125, 1, 0, 0, 0, 0, 0, 0, 0, 0, 0, 0],
       [144, 1, 0, 0, 125, 1, 0, 0, 195, 2, 0, 0, 2, 192, 0, 0],
       [184, 1, 0, 0, 125, 1, 0, 0, 145, 2, 0, 0, 5, 128, 0, 0]])]"

definition ksyscall_relos :: "(nat \<times> byte list list) list" where
  "ksyscall_relos =
    [(843,
      [[32, 0, 0, 0, 4, 0, 0, 0, 28, 3, 0, 0, 0, 0, 0, 0],
       [40, 0, 0, 0, 22, 0, 0, 0, 34, 3, 0, 0, 0, 0, 0, 0],
       [96, 0, 0, 0, 4, 0, 0, 0, 38, 3, 0, 0, 0, 0, 0, 0],
       [160, 0, 0, 0, 4, 0, 0, 0, 44, 3, 0, 0, 0, 0, 0, 0],
       [136, 1, 0, 0, 4, 0, 0, 0, 38, 3, 0, 0, 0, 0, 0, 0],
       [144, 1, 0, 0, 22, 0, 0, 0, 34, 3, 0, 0, 0, 0, 0, 0],
       [152, 1, 0, 0, 4, 0, 0, 0, 44, 3, 0, 0, 0, 0, 0, 0]]),
     (859,
      [[32, 0, 0, 0, 4, 0, 0, 0, 28, 3, 0, 0, 0, 0, 0, 0],
       [40, 0, 0, 0, 22, 0, 0, 0, 34, 3, 0, 0, 0, 0, 0, 0],
       [96, 0, 0, 0, 4, 0, 0, 0, 38, 3, 0, 0, 0, 0, 0, 0],
       [216, 0, 0, 0, 22, 0, 0, 0, 34, 3, 0, 0, 0, 0, 0, 0],
       [224, 0, 0, 0, 4, 0, 0, 0, 38, 3, 0, 0, 0, 0, 0, 0]])]"

lemma ksyscall_btf_ext: "take 1084 ksyscall_elf_10 = btf_ext_bytes ksyscall_funcs ksyscall_lines ksyscall_relos"
  by (simp add: ksyscall_funcs_def ksyscall_lines_def ksyscall_relos_def btf_ext_eval ksyscall_elf_10_def del: list.size(4))

lemma ksyscall_btf_ext_read: "read_btf_ext (take 1084 ksyscall_elf_10) = Some (ksyscall_funcs, ksyscall_lines, ksyscall_relos)"
  unfolding ksyscall_btf_ext
  by (rule btf_ext_read) (simp_all add: ksyscall_funcs_def ksyscall_lines_def ksyscall_relos_def secs_ok_def btf_ext_bytes_def seg_bytes_def sec_bytes_def length_count del: list.size(4))

lemma ksyscall_btf_strings:
  "btf_string (take 1753 ksyscall_elf_9) 843 = ''ksyscall/tgkill''"
  "btf_string (take 1753 ksyscall_elf_9) 859 = ''ksyscall/kill''"
  by (simp_all add: btf_string_def elf_eval ksyscall_elf_9_def)

lemma ksyscall_btf_ext_fits: "object_btf_ext_fits ksyscall_bpf__elf_bytes"
  by (simp add: object_btf_ext_fits_def ksyscall_elf_sections section_named_def btf_ext_fits_def ksyscall_btf_ext_read
      is_program_def bit_numeral_rec bit_0)
    (simp add: ksyscall_funcs_def ksyscall_lines_def ksyscall_relos_def fits_eval ksyscall_elf_symbols ksyscall_elf_3_def ksyscall_elf_4_def ksyscall_btf_strings)

section \<open>lsm\<close>

definition lsm_funcs :: "(nat \<times> byte list list) list" where
  "lsm_funcs =
    [(300,
      [[0, 0, 0, 0, 5, 0, 0, 0]])]"

definition lsm_lines :: "(nat \<times> byte list list) list" where
  "lsm_lines =
    [(300,
      [[0, 0, 0, 0, 89, 0, 0, 0, 142, 0, 0, 0, 5, 40, 0, 0],
       [32, 0, 0, 0, 89, 0, 0, 0, 223, 0, 0, 0, 9, 60, 0, 0],
       [40, 0, 0, 0, 89, 0, 0, 0, 241, 0, 0, 0, 5, 72, 0, 0],
       [88, 0, 0, 0, 89, 0, 0, 0, 142, 0, 0, 0, 5, 40, 0, 0]])]"

definition lsm_relos :: "(nat \<times> byte list list) list" where
  "lsm_relos =
    []"

lemma lsm_btf_ext: "lsm_elf_8 = btf_ext_bytes lsm_funcs lsm_lines lsm_relos"
  by (simp add: lsm_funcs_def lsm_lines_def lsm_relos_def btf_ext_eval lsm_elf_8_def del: list.size(4))

lemma lsm_btf_ext_read: "read_btf_ext (lsm_elf_8) = Some (lsm_funcs, lsm_lines, lsm_relos)"
  unfolding lsm_btf_ext
  by (rule btf_ext_read) (simp_all add: lsm_funcs_def lsm_lines_def lsm_relos_def secs_ok_def btf_ext_bytes_def seg_bytes_def sec_bytes_def length_count del: list.size(4))

lemma lsm_btf_strings:
  "btf_string (take 580 lsm_elf_7) 300 = ''lsm/bpf''"
  by (simp_all add: btf_string_def elf_eval lsm_elf_7_def)

lemma lsm_btf_ext_fits: "object_btf_ext_fits lsm_bpf__elf_bytes"
  by (simp add: object_btf_ext_fits_def lsm_elf_sections section_named_def btf_ext_fits_def lsm_btf_ext_read
      is_program_def bit_numeral_rec bit_0)
    (simp add: lsm_funcs_def lsm_lines_def lsm_relos_def fits_eval lsm_elf_symbols lsm_elf_3_def lsm_btf_strings)

section \<open>minimal\<close>

definition minimal_funcs :: "(nat \<times> byte list list) list" where
  "minimal_funcs =
    [(272,
      [[0, 0, 0, 0, 4, 0, 0, 0]])]"

definition minimal_lines :: "(nat \<times> byte list list) list" where
  "minimal_lines =
    [(272,
      [[0, 0, 0, 0, 77, 0, 0, 0, 134, 0, 0, 0, 12, 52, 0, 0],
       [8, 0, 0, 0, 77, 0, 0, 0, 134, 0, 0, 0, 39, 52, 0, 0],
       [16, 0, 0, 0, 77, 0, 0, 0, 179, 0, 0, 0, 13, 60, 0, 0],
       [40, 0, 0, 0, 77, 0, 0, 0, 179, 0, 0, 0, 6, 60, 0, 0],
       [48, 0, 0, 0, 77, 0, 0, 0, 199, 0, 0, 0, 2, 72, 0, 0],
       [88, 0, 0, 0, 77, 0, 0, 0, 249, 0, 0, 0, 1, 84, 0, 0]])]"

definition minimal_relos :: "(nat \<times> byte list list) list" where
  "minimal_relos =
    []"

lemma minimal_btf_ext: "elf_btf_ext = btf_ext_bytes minimal_funcs minimal_lines minimal_relos"
  by (simp add: minimal_funcs_def minimal_lines_def minimal_relos_def btf_ext_eval elf_btf_ext_def del: list.size(4))

lemma minimal_btf_ext_read: "read_btf_ext (elf_btf_ext) = Some (minimal_funcs, minimal_lines, minimal_relos)"
  unfolding minimal_btf_ext
  by (rule btf_ext_read) (simp_all add: minimal_funcs_def minimal_lines_def minimal_relos_def secs_ok_def btf_ext_bytes_def seg_bytes_def sec_bytes_def length_count del: list.size(4))

lemma minimal_btf_strings:
  "btf_string (take 596 elf_btf) 272 = ''tp/syscalls/sys_enter_write''"
  by (simp_all add: btf_string_def elf_eval elf_btf_def)

lemma minimal_btf_ext_fits: "object_btf_ext_fits minimal_bpf__elf_bytes"
  by (simp add: object_btf_ext_fits_def minimal_elf_sections section_named_def btf_ext_fits_def minimal_btf_ext_read
      is_program_def bit_numeral_rec bit_0)
    (simp add: minimal_funcs_def minimal_lines_def minimal_relos_def fits_eval minimal_elf_symbols elf_handle_tp_def minimal_btf_strings)

section \<open>minimal_legacy\<close>

definition minimal_legacy_funcs :: "(nat \<times> byte list list) list" where
  "minimal_legacy_funcs =
    [(422,
      [[0, 0, 0, 0, 16, 0, 0, 0]])]"

definition minimal_legacy_lines :: "(nat \<times> byte list list) list" where
  "minimal_legacy_lines =
    [(422,
      [[0, 0, 0, 0, 113, 0, 0, 0, 177, 0, 0, 0, 0, 88, 0, 0],
       [8, 0, 0, 0, 113, 0, 0, 0, 202, 0, 0, 0, 6, 96, 0, 0],
       [16, 0, 0, 0, 113, 0, 0, 0, 218, 0, 0, 0, 14, 100, 0, 0],
       [40, 0, 0, 0, 113, 0, 0, 0, 202, 0, 0, 0, 6, 96, 0, 0],
       [48, 0, 0, 0, 113, 0, 0, 0, 9, 1, 0, 0, 18, 104, 0, 0],
       [88, 0, 0, 0, 113, 0, 0, 0, 68, 1, 0, 0, 14, 112, 0, 0],
       [96, 0, 0, 0, 113, 0, 0, 0, 0, 0, 0, 0, 0, 0, 0, 0],
       [104, 0, 0, 0, 113, 0, 0, 0, 68, 1, 0, 0, 17, 112, 0, 0],
       [112, 0, 0, 0, 113, 0, 0, 0, 68, 1, 0, 0, 6, 112, 0, 0],
       [128, 0, 0, 0, 113, 0, 0, 0, 100, 1, 0, 0, 2, 124, 0, 0],
       [0, 1, 0, 0, 113, 0, 0, 0, 150, 1, 0, 0, 1, 136, 0, 0]])]"

definition minimal_legacy_relos :: "(nat \<times> byte list list) list" where
  "minimal_legacy_relos =
    []"

lemma minimal_legacy_btf_ext: "minimal_legacy_elf_9 = btf_ext_bytes minimal_legacy_funcs minimal_legacy_lines minimal_legacy_relos"
  by (simp add: minimal_legacy_funcs_def minimal_legacy_lines_def minimal_legacy_relos_def btf_ext_eval minimal_legacy_elf_9_def del: list.size(4))

lemma minimal_legacy_btf_ext_read: "read_btf_ext (minimal_legacy_elf_9) = Some (minimal_legacy_funcs, minimal_legacy_lines, minimal_legacy_relos)"
  unfolding minimal_legacy_btf_ext
  by (rule btf_ext_read) (simp_all add: minimal_legacy_funcs_def minimal_legacy_lines_def minimal_legacy_relos_def secs_ok_def btf_ext_bytes_def seg_bytes_def sec_bytes_def length_count del: list.size(4))

lemma minimal_legacy_btf_strings:
  "btf_string (take 866 minimal_legacy_elf_8) 422 = ''tp/syscalls/sys_enter_write''"
  by (simp_all add: btf_string_def elf_eval minimal_legacy_elf_8_def)

lemma minimal_legacy_btf_ext_fits: "object_btf_ext_fits minimal_legacy_bpf__elf_bytes"
  by (simp add: object_btf_ext_fits_def minimal_legacy_elf_sections section_named_def btf_ext_fits_def minimal_legacy_btf_ext_read
      is_program_def bit_numeral_rec bit_0)
    (simp add: minimal_legacy_funcs_def minimal_legacy_lines_def minimal_legacy_relos_def fits_eval minimal_legacy_elf_symbols minimal_legacy_elf_3_def minimal_legacy_btf_strings)

section \<open>minimal_ns\<close>

definition minimal_ns_funcs :: "(nat \<times> byte list list) list" where
  "minimal_ns_funcs =
    [(320,
      [[0, 0, 0, 0, 4, 0, 0, 0]])]"

definition minimal_ns_lines :: "(nat \<times> byte list list) list" where
  "minimal_ns_lines =
    [(320,
      [[0, 0, 0, 0, 104, 0, 0, 0, 164, 0, 0, 0, 30, 72, 0, 0],
       [24, 0, 0, 0, 104, 0, 0, 0, 164, 0, 0, 0, 35, 72, 0, 0],
       [56, 0, 0, 0, 104, 0, 0, 0, 164, 0, 0, 0, 30, 72, 0, 0],
       [64, 0, 0, 0, 104, 0, 0, 0, 164, 0, 0, 0, 2, 72, 0, 0],
       [80, 0, 0, 0, 104, 0, 0, 0, 221, 0, 0, 0, 16, 76, 0, 0],
       [104, 0, 0, 0, 104, 0, 0, 0, 221, 0, 0, 0, 9, 76, 0, 0],
       [112, 0, 0, 0, 104, 0, 0, 0, 221, 0, 0, 0, 6, 76, 0, 0],
       [120, 0, 0, 0, 104, 0, 0, 0, 244, 0, 0, 0, 2, 88, 0, 0],
       [152, 0, 0, 0, 104, 0, 0, 0, 41, 1, 0, 0, 1, 100, 0, 0]])]"

definition minimal_ns_relos :: "(nat \<times> byte list list) list" where
  "minimal_ns_relos =
    []"

lemma minimal_ns_btf_ext: "minimal_ns_elf_9 = btf_ext_bytes minimal_ns_funcs minimal_ns_lines minimal_ns_relos"
  by (simp add: minimal_ns_funcs_def minimal_ns_lines_def minimal_ns_relos_def btf_ext_eval minimal_ns_elf_9_def del: list.size(4))

lemma minimal_ns_btf_ext_read: "read_btf_ext (minimal_ns_elf_9) = Some (minimal_ns_funcs, minimal_ns_lines, minimal_ns_relos)"
  unfolding minimal_ns_btf_ext
  by (rule btf_ext_read) (simp_all add: minimal_ns_funcs_def minimal_ns_lines_def minimal_ns_relos_def secs_ok_def btf_ext_bytes_def seg_bytes_def sec_bytes_def length_count del: list.size(4))

lemma minimal_ns_btf_strings:
  "btf_string (take 716 minimal_ns_elf_8) 320 = ''tp/syscalls/sys_enter_write''"
  by (simp_all add: btf_string_def elf_eval minimal_ns_elf_8_def)

lemma minimal_ns_btf_ext_fits: "object_btf_ext_fits minimal_ns_bpf__elf_bytes"
  by (simp add: object_btf_ext_fits_def minimal_ns_elf_sections section_named_def btf_ext_fits_def minimal_ns_btf_ext_read
      is_program_def bit_numeral_rec bit_0)
    (simp add: minimal_ns_funcs_def minimal_ns_lines_def minimal_ns_relos_def fits_eval minimal_ns_elf_symbols minimal_ns_elf_3_def minimal_ns_btf_strings)

section \<open>sockfilter\<close>

definition sockfilter_funcs :: "(nat \<times> byte list list) list" where
  "sockfilter_funcs =
    [(1452,
      [[0, 0, 0, 0, 24, 0, 0, 0]])]"

definition sockfilter_lines :: "(nat \<times> byte list list) list" where
  "sockfilter_lines =
    [(1452,
      [[0, 0, 0, 0, 224, 1, 0, 0, 28, 2, 0, 0, 0, 128, 0, 0],
       [16, 0, 0, 0, 224, 1, 0, 0, 0, 0, 0, 0, 0, 0, 0, 0],
       [24, 0, 0, 0, 224, 1, 0, 0, 70, 2, 0, 0, 2, 156, 0, 0],
       [48, 0, 0, 0, 224, 1, 0, 0, 111, 2, 0, 0, 10, 160, 0, 0],
       [72, 0, 0, 0, 224, 1, 0, 0, 111, 2, 0, 0, 8, 160, 0, 0],
       [88, 0, 0, 0, 224, 1, 0, 0, 140, 2, 0, 0, 6, 164, 0, 0],
       [104, 0, 0, 0, 224, 1, 0, 0, 0, 0, 0, 0, 0, 0, 0, 0],
       [112, 0, 0, 0, 224, 1, 0, 0, 164, 2, 0, 0, 2, 104, 0, 0],
       [144, 0, 0, 0, 224, 1, 0, 0, 246, 2, 0, 0, 13, 108, 0, 0],
       [152, 0, 0, 0, 224, 1, 0, 0, 25, 3, 0, 0, 18, 112, 0, 0],
       [160, 0, 0, 0, 224, 1, 0, 0, 65, 3, 0, 0, 6, 176, 0, 0],
       [168, 0, 0, 0, 224, 1, 0, 0, 98, 3, 0, 0, 6, 192, 0, 0],
       [216, 0, 0, 0, 224, 1, 0, 0, 144, 3, 0, 0, 6, 196, 0, 0],
       [224, 0, 0, 0, 224, 1, 0, 0, 153, 3, 0, 0, 72, 208, 0, 0],
       [240, 0, 0, 0, 224, 1, 0, 0, 153, 3, 0, 0, 2, 208, 0, 0],
       [16, 1, 0, 0, 224, 1, 0, 0, 238, 3, 0, 0, 9, 216, 0, 0],
       [24, 1, 0, 0, 224, 1, 0, 0, 238, 3, 0, 0, 6, 216, 0, 0],
       [32, 1, 0, 0, 224, 1, 0, 0, 17, 4, 0, 0, 3, 220, 0, 0],
       [72, 1, 0, 0, 224, 1, 0, 0, 102, 4, 0, 0, 71, 224, 0, 0],
       [88, 1, 0, 0, 224, 1, 0, 0, 102, 4, 0, 0, 3, 224, 0, 0],
       [128, 1, 0, 0, 224, 1, 0, 0, 187, 4, 0, 0, 2, 236, 0, 0],
       [168, 1, 0, 0, 224, 1, 0, 0, 236, 4, 0, 0, 36, 240, 0, 0],
       [176, 1, 0, 0, 224, 1, 0, 0, 236, 4, 0, 0, 50, 240, 0, 0],
       [192, 1, 0, 0, 224, 1, 0, 0, 236, 4, 0, 0, 32, 240, 0, 0],
       [200, 1, 0, 0, 224, 1, 0, 0, 236, 4, 0, 0, 62, 240, 0, 0],
       [216, 1, 0, 0, 224, 1, 0, 0, 236, 4, 0, 0, 2, 240, 0, 0],
       [240, 1, 0, 0, 224, 1, 0, 0, 53, 5, 0, 0, 21, 244, 0, 0],
       [248, 1, 0, 0, 224, 1, 0, 0, 53, 5, 0, 0, 14, 244, 0, 0],
       [0, 2, 0, 0, 224, 1, 0, 0, 83, 5, 0, 0, 20, 248, 0, 0],
       [8, 2, 0, 0, 224, 1, 0, 0, 83, 5, 0, 0, 13, 248, 0, 0],
       [16, 2, 0, 0, 224, 1, 0, 0, 111, 5, 0, 0, 2, 252, 0, 0],
       [40, 2, 0, 0, 224, 1, 0, 0, 138, 5, 0, 0, 14, 4, 1, 0],
       [48, 2, 0, 0, 224, 1, 0, 0, 156, 5, 0, 0, 1, 8, 1, 0]])]"

definition sockfilter_relos :: "(nat \<times> byte list list) list" where
  "sockfilter_relos =
    []"

lemma sockfilter_btf_ext: "sockfilter_elf_8 = btf_ext_bytes sockfilter_funcs sockfilter_lines sockfilter_relos"
  by (simp add: sockfilter_funcs_def sockfilter_lines_def sockfilter_relos_def btf_ext_eval sockfilter_elf_8_def del: list.size(4))

lemma sockfilter_btf_ext_read: "read_btf_ext (sockfilter_elf_8) = Some (sockfilter_funcs, sockfilter_lines, sockfilter_relos)"
  unfolding sockfilter_btf_ext
  by (rule btf_ext_read) (simp_all add: sockfilter_funcs_def sockfilter_lines_def sockfilter_relos_def secs_ok_def btf_ext_bytes_def seg_bytes_def sec_bytes_def length_count del: list.size(4))

lemma sockfilter_btf_strings:
  "btf_string (take 2435 sockfilter_elf_7) 1452 = ''socket''"
  by (simp_all add: btf_string_def elf_eval sockfilter_elf_7_def)

lemma sockfilter_btf_ext_fits: "object_btf_ext_fits sockfilter_bpf__elf_bytes"
  by (simp add: object_btf_ext_fits_def sockfilter_elf_sections section_named_def btf_ext_fits_def sockfilter_btf_ext_read
      is_program_def bit_numeral_rec bit_0)
    (simp add: sockfilter_funcs_def sockfilter_lines_def sockfilter_relos_def fits_eval sockfilter_elf_symbols sockfilter_elf_3_def sockfilter_btf_strings)

section \<open>task_iter\<close>

definition task_iter_funcs :: "(nat \<times> byte list list) list" where
  "task_iter_funcs =
    [(9320,
      [[0, 0, 0, 0, 28, 0, 0, 0]])]"

definition task_iter_lines :: "(nat \<times> byte list list) list" where
  "task_iter_lines =
    [(9320,
      [[0, 0, 0, 0, 169, 33, 0, 0, 228, 33, 0, 0, 30, 176, 0, 0],
       [8, 0, 0, 0, 169, 33, 0, 0, 228, 33, 0, 0, 36, 176, 0, 0],
       [16, 0, 0, 0, 169, 33, 0, 0, 12, 34, 0, 0, 34, 180, 0, 0],
       [24, 0, 0, 0, 169, 33, 0, 0, 51, 34, 0, 0, 6, 196, 0, 0],
       [32, 0, 0, 0, 169, 33, 0, 0, 63, 34, 0, 0, 6, 208, 0, 0],
       [72, 0, 0, 0, 169, 33, 0, 0, 112, 34, 0, 0, 6, 212, 0, 0],
       [80, 0, 0, 0, 169, 33, 0, 0, 0, 0, 0, 0, 0, 0, 0, 0],
       [88, 0, 0, 0, 169, 33, 0, 0, 121, 34, 0, 0, 17, 224, 0, 0],
       [96, 0, 0, 0, 169, 33, 0, 0, 121, 34, 0, 0, 9, 224, 0, 0],
       [104, 0, 0, 0, 169, 33, 0, 0, 143, 34, 0, 0, 17, 228, 0, 0],
       [112, 0, 0, 0, 169, 33, 0, 0, 143, 34, 0, 0, 9, 228, 0, 0],
       [128, 0, 0, 0, 169, 33, 0, 0, 164, 34, 0, 0, 6, 112, 0, 0],
       [136, 0, 0, 0, 169, 33, 0, 0, 230, 34, 0, 0, 16, 124, 0, 0],
       [152, 0, 0, 0, 169, 33, 0, 0, 252, 34, 0, 0, 16, 140, 0, 0],
       [160, 0, 0, 0, 169, 33, 0, 0, 20, 35, 0, 0, 11, 232, 0, 0],
       [192, 0, 0, 0, 169, 33, 0, 0, 54, 35, 0, 0, 31, 240, 0, 0],
       [208, 0, 0, 0, 169, 33, 0, 0, 54, 35, 0, 0, 2, 240, 0, 0],
       [232, 0, 0, 0, 169, 33, 0, 0, 118, 35, 0, 0, 36, 248, 0, 0],
       [240, 0, 0, 0, 169, 33, 0, 0, 118, 35, 0, 0, 8, 248, 0, 0],
       [32, 1, 0, 0, 169, 33, 0, 0, 196, 35, 0, 0, 18, 252, 0, 0],
       [48, 1, 0, 0, 169, 33, 0, 0, 196, 35, 0, 0, 16, 252, 0, 0],
       [56, 1, 0, 0, 169, 33, 0, 0, 2, 36, 0, 0, 2, 4, 1, 0],
       [88, 1, 0, 0, 169, 33, 0, 0, 52, 36, 0, 0, 1, 12, 1, 0]])]"

definition task_iter_relos :: "(nat \<times> byte list list) list" where
  "task_iter_relos =
    [(9320,
      [[0, 0, 0, 0, 22, 0, 0, 0, 54, 36, 0, 0, 0, 0, 0, 0],
       [8, 0, 0, 0, 29, 0, 0, 0, 54, 36, 0, 0, 0, 0, 0, 0],
       [16, 0, 0, 0, 22, 0, 0, 0, 60, 36, 0, 0, 0, 0, 0, 0],
       [88, 0, 0, 0, 33, 0, 0, 0, 66, 36, 0, 0, 0, 0, 0, 0],
       [104, 0, 0, 0, 33, 0, 0, 0, 71, 36, 0, 0, 0, 0, 0, 0],
       [120, 0, 0, 0, 56, 1, 0, 0, 76, 36, 0, 0, 2, 0, 0, 0],
       [136, 0, 0, 0, 56, 1, 0, 0, 76, 36, 0, 0, 0, 0, 0, 0],
       [152, 0, 0, 0, 57, 1, 0, 0, 76, 36, 0, 0, 0, 0, 0, 0],
       [168, 0, 0, 0, 33, 0, 0, 0, 80, 36, 0, 0, 0, 0, 0, 0]])]"

lemma task_iter_btf_ext: "take 588 task_iter_elf_9 = btf_ext_bytes task_iter_funcs task_iter_lines task_iter_relos"
  by (simp add: task_iter_funcs_def task_iter_lines_def task_iter_relos_def btf_ext_eval task_iter_elf_9_def del: list.size(4))

lemma task_iter_btf_ext_read: "read_btf_ext (take 588 task_iter_elf_9) = Some (task_iter_funcs, task_iter_lines, task_iter_relos)"
  unfolding task_iter_btf_ext
  by (rule btf_ext_read) (simp_all add: task_iter_funcs_def task_iter_lines_def task_iter_relos_def secs_ok_def btf_ext_bytes_def seg_bytes_def sec_bytes_def length_count del: list.size(4))

lemma task_iter_btf_header: "le_at task_iter_elf_8_a 4 4 = 24" "le_at task_iter_elf_8_a 16 4 = 13696"
  by (simp_all add: le_at_def task_iter_elf_8_a_def)

lemma task_iter_btf_strings:
  "btf_string (take 23050 task_iter_elf_8) 9320 = ''iter/task''"
  by (simp_all add: btf_string_def task_iter_btf_header c_string_def char_of_def bit_Suc_0_iff task_iter_elf_8_def task_iter_elf_8_g_def)

lemma task_iter_btf_ext_fits: "object_btf_ext_fits task_iter_bpf__elf_bytes"
  by (simp add: object_btf_ext_fits_def task_iter_elf_sections section_named_def btf_ext_fits_def task_iter_btf_ext_read
      is_program_def bit_numeral_rec bit_0)
    (simp add: task_iter_funcs_def task_iter_lines_def task_iter_relos_def fits_eval task_iter_elf_symbols task_iter_elf_3_def task_iter_btf_strings)

section \<open>tc\<close>

definition tc_funcs :: "(nat \<times> byte list list) list" where
  "tc_funcs =
    [(932,
      [[0, 0, 0, 0, 18, 0, 0, 0]])]"

definition tc_lines :: "(nat \<times> byte list list) list" where
  "tc_lines =
    [(932,
      [[0, 0, 0, 0, 78, 2, 0, 0, 130, 2, 0, 0, 11, 76, 0, 0],
       [8, 0, 0, 0, 78, 2, 0, 0, 130, 2, 0, 0, 6, 76, 0, 0],
       [16, 0, 0, 0, 78, 2, 0, 0, 173, 2, 0, 0, 35, 60, 0, 0],
       [24, 0, 0, 0, 78, 2, 0, 0, 213, 2, 0, 0, 39, 56, 0, 0],
       [32, 0, 0, 0, 78, 2, 0, 0, 5, 3, 0, 0, 18, 92, 0, 0],
       [48, 0, 0, 0, 78, 2, 0, 0, 5, 3, 0, 0, 6, 92, 0, 0],
       [72, 0, 0, 0, 78, 2, 0, 0, 39, 3, 0, 0, 2, 120, 0, 0],
       [128, 0, 0, 0, 78, 2, 0, 0, 124, 3, 0, 0, 1, 128, 0, 0]])]"

definition tc_relos :: "(nat \<times> byte list list) list" where
  "tc_relos =
    [(932,
      [[0, 0, 0, 0, 2, 0, 0, 0, 126, 3, 0, 0, 0, 0, 0, 0],
       [16, 0, 0, 0, 2, 0, 0, 0, 130, 3, 0, 0, 0, 0, 0, 0],
       [24, 0, 0, 0, 2, 0, 0, 0, 135, 3, 0, 0, 0, 0, 0, 0],
       [72, 0, 0, 0, 19, 0, 0, 0, 140, 3, 0, 0, 0, 0, 0, 0],
       [80, 0, 0, 0, 19, 0, 0, 0, 144, 3, 0, 0, 0, 0, 0, 0]])]"

lemma tc_btf_ext: "take 284 tc_elf_8 = btf_ext_bytes tc_funcs tc_lines tc_relos"
  by (simp add: tc_funcs_def tc_lines_def tc_relos_def btf_ext_eval tc_elf_8_def del: list.size(4))

lemma tc_btf_ext_read: "read_btf_ext (take 284 tc_elf_8) = Some (tc_funcs, tc_lines, tc_relos)"
  unfolding tc_btf_ext
  by (rule btf_ext_read) (simp_all add: tc_funcs_def tc_lines_def tc_relos_def secs_ok_def btf_ext_bytes_def seg_bytes_def sec_bytes_def length_count del: list.size(4))

lemma tc_btf_strings:
  "btf_string (take 2107 tc_elf_7) 932 = ''tc''"
  by (simp_all add: btf_string_def elf_eval tc_elf_7_def)

lemma tc_btf_ext_fits: "object_btf_ext_fits tc_bpf__elf_bytes"
  by (simp add: object_btf_ext_fits_def tc_elf_sections section_named_def btf_ext_fits_def tc_btf_ext_read
      is_program_def bit_numeral_rec bit_0)
    (simp add: tc_funcs_def tc_lines_def tc_relos_def fits_eval tc_elf_symbols tc_elf_3_def tc_btf_strings)

section \<open>uprobe\<close>

definition uprobe_funcs :: "(nat \<times> byte list list) list" where
  "uprobe_funcs =
    [(858,
      [[0, 0, 0, 0, 21, 0, 0, 0]]),
     (865,
      [[0, 0, 0, 0, 22, 0, 0, 0]]),
     (875,
      [[0, 0, 0, 0, 23, 0, 0, 0]]),
     (909,
      [[0, 0, 0, 0, 24, 0, 0, 0]])]"

definition uprobe_lines :: "(nat \<times> byte list list) list" where
  "uprobe_lines =
    [(858,
      [[0, 0, 0, 0, 138, 1, 0, 0, 194, 1, 0, 0, 5, 40, 0, 0],
       [16, 0, 0, 0, 138, 1, 0, 0, 235, 1, 0, 0, 2, 48, 0, 0],
       [48, 0, 0, 0, 138, 1, 0, 0, 194, 1, 0, 0, 5, 40, 0, 0]]),
     (865,
      [[0, 0, 0, 0, 138, 1, 0, 0, 35, 2, 0, 0, 5, 68, 0, 0],
       [8, 0, 0, 0, 138, 1, 0, 0, 77, 2, 0, 0, 2, 76, 0, 0],
       [40, 0, 0, 0, 138, 1, 0, 0, 35, 2, 0, 0, 5, 68, 0, 0]]),
     (875,
      [[0, 0, 0, 0, 138, 1, 0, 0, 128, 2, 0, 0, 5, 96, 0, 0],
       [16, 0, 0, 0, 138, 1, 0, 0, 169, 2, 0, 0, 2, 104, 0, 0],
       [48, 0, 0, 0, 138, 1, 0, 0, 128, 2, 0, 0, 5, 96, 0, 0]]),
     (909,
      [[0, 0, 0, 0, 138, 1, 0, 0, 225, 2, 0, 0, 5, 124, 0, 0],
       [8, 0, 0, 0, 138, 1, 0, 0, 11, 3, 0, 0, 2, 132, 0, 0],
       [40, 0, 0, 0, 138, 1, 0, 0, 225, 2, 0, 0, 5, 124, 0, 0]])]"

definition uprobe_relos :: "(nat \<times> byte list list) list" where
  "uprobe_relos =
    [(858,
      [[0, 0, 0, 0, 4, 0, 0, 0, 62, 3, 0, 0, 0, 0, 0, 0],
       [8, 0, 0, 0, 4, 0, 0, 0, 68, 3, 0, 0, 0, 0, 0, 0]]),
     (865,
      [[0, 0, 0, 0, 4, 0, 0, 0, 68, 3, 0, 0, 0, 0, 0, 0]]),
     (875,
      [[0, 0, 0, 0, 4, 0, 0, 0, 62, 3, 0, 0, 0, 0, 0, 0],
       [8, 0, 0, 0, 4, 0, 0, 0, 68, 3, 0, 0, 0, 0, 0, 0]]),
     (909,
      [[0, 0, 0, 0, 4, 0, 0, 0, 68, 3, 0, 0, 0, 0, 0, 0]])]"

lemma uprobe_btf_ext: "take 460 uprobe_elf_14 = btf_ext_bytes uprobe_funcs uprobe_lines uprobe_relos"
  by (simp add: uprobe_funcs_def uprobe_lines_def uprobe_relos_def btf_ext_eval uprobe_elf_14_def del: list.size(4))

lemma uprobe_btf_ext_read: "read_btf_ext (take 460 uprobe_elf_14) = Some (uprobe_funcs, uprobe_lines, uprobe_relos)"
  unfolding uprobe_btf_ext
  by (rule btf_ext_read) (simp_all add: uprobe_funcs_def uprobe_lines_def uprobe_relos_def secs_ok_def btf_ext_bytes_def seg_bytes_def sec_bytes_def length_count del: list.size(4))

lemma uprobe_btf_strings:
  "btf_string (take 1810 uprobe_elf_13) 858 = ''uprobe''"
  "btf_string (take 1810 uprobe_elf_13) 865 = ''uretprobe''"
  "btf_string (take 1810 uprobe_elf_13) 875 = ''uprobe//proc/self/exe:uprobed_sub''"
  "btf_string (take 1810 uprobe_elf_13) 909 = ''uretprobe//proc/self/exe:uprobed_sub''"
  by (simp_all add: btf_string_def elf_eval uprobe_elf_13_def)

lemma uprobe_btf_ext_fits: "object_btf_ext_fits uprobe_bpf__elf_bytes"
  by (simp add: object_btf_ext_fits_def uprobe_elf_sections section_named_def btf_ext_fits_def uprobe_btf_ext_read
      is_program_def bit_numeral_rec bit_0)
    (simp add: uprobe_funcs_def uprobe_lines_def uprobe_relos_def fits_eval uprobe_elf_symbols uprobe_elf_3_def uprobe_elf_4_def uprobe_elf_5_def uprobe_elf_6_def uprobe_btf_strings)

section \<open>usdt\<close>

definition usdt_funcs :: "(nat \<times> byte list list) list" where
  "usdt_funcs =
    [(2137,
      [[0, 0, 0, 0, 46, 0, 0, 0],
       [32, 1, 0, 0, 48, 0, 0, 0],
       [24, 5, 0, 0, 50, 0, 0, 0]]),
     (2143,
      [[0, 0, 0, 0, 51, 0, 0, 0]]),
     (2170,
      [[0, 0, 0, 0, 52, 0, 0, 0]])]"

definition usdt_lines :: "(nat \<times> byte list list) list" where
  "usdt_lines =
    [(2137,
      [[0, 0, 0, 0, 212, 2, 0, 0, 22, 3, 0, 0, 7, 72, 1, 0],
       [24, 0, 0, 0, 212, 2, 0, 0, 22, 3, 0, 0, 6, 72, 1, 0],
       [32, 0, 0, 0, 212, 2, 0, 0, 52, 3, 0, 0, 13, 76, 1, 0],
       [40, 0, 0, 0, 212, 2, 0, 0, 52, 3, 0, 0, 8, 76, 1, 0],
       [56, 0, 0, 0, 212, 2, 0, 0, 52, 3, 0, 0, 13, 76, 1, 0],
       [64, 0, 0, 0, 212, 2, 0, 0, 81, 3, 0, 0, 17, 88, 1, 0],
       [112, 0, 0, 0, 212, 2, 0, 0, 150, 3, 0, 0, 10, 92, 1, 0],
       [120, 0, 0, 0, 212, 2, 0, 0, 150, 3, 0, 0, 24, 92, 1, 0],
       [136, 0, 0, 0, 212, 2, 0, 0, 196, 3, 0, 0, 9, 104, 1, 0],
       [160, 0, 0, 0, 212, 2, 0, 0, 232, 3, 0, 0, 10, 144, 1, 0],
       [192, 0, 0, 0, 212, 2, 0, 0, 12, 4, 0, 0, 6, 148, 1, 0],
       [208, 0, 0, 0, 212, 2, 0, 0, 30, 4, 0, 0, 9, 160, 1, 0],
       [240, 0, 0, 0, 212, 2, 0, 0, 88, 4, 0, 0, 6, 164, 1, 0],
       [248, 0, 0, 0, 212, 2, 0, 0, 100, 4, 0, 0, 15, 176, 1, 0],
       [16, 1, 0, 0, 212, 2, 0, 0, 123, 4, 0, 0, 1, 180, 1, 0],
       [32, 1, 0, 0, 212, 2, 0, 0, 125, 4, 0, 0, 0, 80, 2, 0],
       [64, 1, 0, 0, 212, 2, 0, 0, 189, 4, 0, 0, 7, 108, 2, 0],
       [72, 1, 0, 0, 212, 2, 0, 0, 22, 3, 0, 0, 7, 72, 1, 0],
       [96, 1, 0, 0, 212, 2, 0, 0, 22, 3, 0, 0, 6, 72, 1, 0],
       [104, 1, 0, 0, 212, 2, 0, 0, 52, 3, 0, 0, 13, 76, 1, 0],
       [112, 1, 0, 0, 212, 2, 0, 0, 52, 3, 0, 0, 8, 76, 1, 0],
       [128, 1, 0, 0, 212, 2, 0, 0, 52, 3, 0, 0, 13, 76, 1, 0],
       [136, 1, 0, 0, 212, 2, 0, 0, 81, 3, 0, 0, 17, 88, 1, 0],
       [184, 1, 0, 0, 212, 2, 0, 0, 150, 3, 0, 0, 10, 92, 1, 0],
       [192, 1, 0, 0, 212, 2, 0, 0, 150, 3, 0, 0, 24, 92, 1, 0],
       [208, 1, 0, 0, 212, 2, 0, 0, 196, 3, 0, 0, 9, 104, 1, 0],
       [240, 1, 0, 0, 212, 2, 0, 0, 232, 3, 0, 0, 10, 116, 2, 0],
       [16, 2, 0, 0, 212, 2, 0, 0, 12, 4, 0, 0, 6, 120, 2, 0],
       [32, 2, 0, 0, 212, 2, 0, 0, 30, 4, 0, 0, 9, 132, 2, 0],
       [64, 2, 0, 0, 212, 2, 0, 0, 88, 4, 0, 0, 6, 136, 2, 0],
       [88, 2, 0, 0, 212, 2, 0, 0, 200, 4, 0, 0, 6, 148, 2, 0],
       [96, 2, 0, 0, 212, 2, 0, 0, 238, 4, 0, 0, 23, 160, 2, 0],
       [120, 2, 0, 0, 212, 2, 0, 0, 238, 4, 0, 0, 6, 160, 2, 0],
       [128, 2, 0, 0, 212, 2, 0, 0, 13, 5, 0, 0, 14, 172, 2, 0],
       [160, 2, 0, 0, 212, 2, 0, 0, 47, 5, 0, 0, 20, 176, 2, 0],
       [168, 2, 0, 0, 212, 2, 0, 0, 47, 5, 0, 0, 2, 176, 2, 0],
       [208, 2, 0, 0, 212, 2, 0, 0, 78, 5, 0, 0, 19, 196, 2, 0],
       [216, 2, 0, 0, 212, 2, 0, 0, 78, 5, 0, 0, 7, 196, 2, 0],
       [232, 2, 0, 0, 212, 2, 0, 0, 105, 5, 0, 0, 74, 228, 2, 0],
       [32, 3, 0, 0, 212, 2, 0, 0, 105, 5, 0, 0, 62, 228, 2, 0],
       [48, 3, 0, 0, 212, 2, 0, 0, 105, 5, 0, 0, 74, 228, 2, 0],
       [56, 3, 0, 0, 212, 2, 0, 0, 105, 5, 0, 0, 9, 228, 2, 0],
       [128, 3, 0, 0, 212, 2, 0, 0, 188, 5, 0, 0, 7, 232, 2, 0],
       [144, 3, 0, 0, 212, 2, 0, 0, 105, 5, 0, 0, 74, 20, 3, 0],
       [168, 3, 0, 0, 212, 2, 0, 0, 105, 5, 0, 0, 62, 20, 3, 0],
       [184, 3, 0, 0, 212, 2, 0, 0, 105, 5, 0, 0, 74, 20, 3, 0],
       [200, 3, 0, 0, 212, 2, 0, 0, 105, 5, 0, 0, 9, 20, 3, 0],
       [16, 4, 0, 0, 212, 2, 0, 0, 188, 5, 0, 0, 7, 24, 3, 0],
       [24, 4, 0, 0, 212, 2, 0, 0, 199, 5, 0, 0, 72, 32, 3, 0],
       [32, 4, 0, 0, 212, 2, 0, 0, 199, 5, 0, 0, 56, 32, 3, 0],
       [40, 4, 0, 0, 212, 2, 0, 0, 199, 5, 0, 0, 60, 32, 3, 0],
       [56, 4, 0, 0, 212, 2, 0, 0, 199, 5, 0, 0, 72, 32, 3, 0],
       [64, 4, 0, 0, 212, 2, 0, 0, 199, 5, 0, 0, 9, 32, 3, 0],
       [120, 4, 0, 0, 212, 2, 0, 0, 188, 5, 0, 0, 7, 36, 3, 0],
       [128, 4, 0, 0, 212, 2, 0, 0, 24, 6, 0, 0, 20, 92, 3, 0],
       [168, 4, 0, 0, 212, 2, 0, 0, 24, 6, 0, 0, 6, 92, 3, 0],
       [200, 4, 0, 0, 212, 2, 0, 0, 57, 6, 0, 0, 6, 96, 3, 0],
       [216, 4, 0, 0, 212, 2, 0, 0, 57, 6, 0, 0, 16, 96, 3, 0],
       [224, 4, 0, 0, 212, 2, 0, 0, 57, 6, 0, 0, 6, 96, 3, 0],
       [248, 4, 0, 0, 212, 2, 0, 0, 84, 6, 0, 0, 7, 112, 3, 0],
       [8, 5, 0, 0, 212, 2, 0, 0, 123, 4, 0, 0, 1, 120, 3, 0],
       [24, 5, 0, 0, 212, 2, 0, 0, 22, 3, 0, 0, 7, 72, 1, 0],
       [48, 5, 0, 0, 212, 2, 0, 0, 22, 3, 0, 0, 6, 72, 1, 0],
       [56, 5, 0, 0, 212, 2, 0, 0, 52, 3, 0, 0, 13, 76, 1, 0],
       [64, 5, 0, 0, 212, 2, 0, 0, 52, 3, 0, 0, 8, 76, 1, 0],
       [80, 5, 0, 0, 212, 2, 0, 0, 52, 3, 0, 0, 13, 76, 1, 0],
       [88, 5, 0, 0, 212, 2, 0, 0, 81, 3, 0, 0, 17, 88, 1, 0],
       [136, 5, 0, 0, 212, 2, 0, 0, 150, 3, 0, 0, 10, 92, 1, 0],
       [144, 5, 0, 0, 212, 2, 0, 0, 150, 3, 0, 0, 24, 92, 1, 0],
       [160, 5, 0, 0, 212, 2, 0, 0, 196, 3, 0, 0, 9, 104, 1, 0],
       [168, 5, 0, 0, 212, 2, 0, 0, 232, 3, 0, 0, 10, 176, 3, 0],
       [200, 5, 0, 0, 212, 2, 0, 0, 12, 4, 0, 0, 6, 180, 3, 0],
       [216, 5, 0, 0, 212, 2, 0, 0, 30, 4, 0, 0, 9, 192, 3, 0],
       [248, 5, 0, 0, 212, 2, 0, 0, 88, 4, 0, 0, 6, 196, 3, 0],
       [0, 6, 0, 0, 212, 2, 0, 0, 97, 6, 0, 0, 15, 208, 3, 0],
       [8, 6, 0, 0, 212, 2, 0, 0, 123, 4, 0, 0, 1, 212, 3, 0]]),
     (2143,
      [[0, 0, 0, 0, 124, 6, 0, 0, 178, 6, 0, 0, 0, 44, 0, 0],
       [16, 0, 0, 0, 124, 6, 0, 0, 0, 0, 0, 0, 0, 0, 0, 0],
       [24, 0, 0, 0, 124, 6, 0, 0, 178, 6, 0, 0, 5, 44, 0, 0],
       [56, 0, 0, 0, 124, 6, 0, 0, 0, 0, 0, 0, 0, 0, 0, 0],
       [64, 0, 0, 0, 124, 6, 0, 0, 178, 6, 0, 0, 5, 44, 0, 0],
       [104, 0, 0, 0, 124, 6, 0, 0, 0, 0, 0, 0, 0, 0, 0, 0],
       [112, 0, 0, 0, 124, 6, 0, 0, 178, 6, 0, 0, 5, 44, 0, 0],
       [144, 0, 0, 0, 124, 6, 0, 0, 243, 6, 0, 0, 14, 52, 0, 0],
       [152, 0, 0, 0, 124, 6, 0, 0, 243, 6, 0, 0, 41, 52, 0, 0],
       [160, 0, 0, 0, 124, 6, 0, 0, 34, 7, 0, 0, 13, 60, 0, 0],
       [184, 0, 0, 0, 124, 6, 0, 0, 34, 7, 0, 0, 6, 60, 0, 0],
       [192, 0, 0, 0, 124, 6, 0, 0, 54, 7, 0, 0, 2, 72, 0, 0],
       [248, 0, 0, 0, 124, 6, 0, 0, 178, 6, 0, 0, 5, 44, 0, 0]]),
     (2170,
      [[0, 0, 0, 0, 124, 6, 0, 0, 148, 7, 0, 0, 0, 96, 0, 0],
       [16, 0, 0, 0, 124, 6, 0, 0, 0, 0, 0, 0, 0, 0, 0, 0],
       [24, 0, 0, 0, 124, 6, 0, 0, 148, 7, 0, 0, 5, 96, 0, 0],
       [56, 0, 0, 0, 124, 6, 0, 0, 0, 0, 0, 0, 0, 0, 0, 0],
       [64, 0, 0, 0, 124, 6, 0, 0, 148, 7, 0, 0, 5, 96, 0, 0],
       [104, 0, 0, 0, 124, 6, 0, 0, 0, 0, 0, 0, 0, 0, 0, 0],
       [112, 0, 0, 0, 124, 6, 0, 0, 148, 7, 0, 0, 5, 96, 0, 0],
       [144, 0, 0, 0, 124, 6, 0, 0, 215, 7, 0, 0, 2, 104, 0, 0],
       [192, 0, 0, 0, 124, 6, 0, 0, 148, 7, 0, 0, 5, 96, 0, 0]])]"

definition usdt_relos :: "(nat \<times> byte list list) list" where
  "usdt_relos =
    [(2137,
      [[32, 0, 0, 0, 35, 0, 0, 0, 49, 8, 0, 0, 0, 0, 0, 0],
       [104, 1, 0, 0, 35, 0, 0, 0, 49, 8, 0, 0, 0, 0, 0, 0],
       [56, 5, 0, 0, 35, 0, 0, 0, 49, 8, 0, 0, 0, 0, 0, 0]])]"

lemma usdt_btf_ext: "take 1756 usdt_elf_14 = btf_ext_bytes usdt_funcs usdt_lines usdt_relos"
  by (simp add: usdt_funcs_def usdt_lines_def usdt_relos_def btf_ext_eval usdt_elf_14_def del: list.size(4))

lemma usdt_btf_ext_read: "read_btf_ext (take 1756 usdt_elf_14) = Some (usdt_funcs, usdt_lines, usdt_relos)"
  unfolding usdt_btf_ext
  by (rule btf_ext_read) (simp_all add: usdt_funcs_def usdt_lines_def usdt_relos_def secs_ok_def btf_ext_bytes_def seg_bytes_def sec_bytes_def length_count del: list.size(4))

lemma usdt_btf_header: "le_at usdt_elf_13_a 4 4 = 24" "le_at usdt_elf_13_a 16 4 = 1588"
  by (simp_all add: le_at_def usdt_elf_13_a_def)

lemma usdt_btf_strings:
  "btf_string (take 3787 usdt_elf_13) 2137 = ''.text''"
  "btf_string (take 3787 usdt_elf_13) 2143 = ''usdt/libc.so.6:libc:setjmp''"
  "btf_string (take 3787 usdt_elf_13) 2170 = ''usdt''"
  by (simp_all add: btf_string_def usdt_btf_header c_string_def char_of_def bit_Suc_0_iff usdt_elf_13_def usdt_elf_13_b_def)

lemma usdt_btf_ext_fits: "object_btf_ext_fits usdt_bpf__elf_bytes"
  by (simp add: object_btf_ext_fits_def usdt_elf_sections section_named_def btf_ext_fits_def usdt_btf_ext_read
      is_program_def bit_numeral_rec bit_0)
    (simp add: usdt_funcs_def usdt_lines_def usdt_relos_def fits_eval usdt_elf_symbols usdt_elf_3_def usdt_elf_4_def usdt_elf_5_def usdt_btf_strings)

section \<open>Property\<close>

text \<open>
  C33: the debug and relocation data embedded in each of the fourteen skeletons fits the programs beside it. Read with the loops
  of libbpf_internal.h, functions and lines cover exactly the program sections of the object, in its order; the function records
  of a section are at exactly its function symbols; the line records begin at its first instruction; every record lies at the
  start of an instruction of the section it is filed under (never in the second half of a 64-bit load), in strictly ascending order;
  and every CO-RE relocation lies on an instruction with an offset or immediate that it can be written to.
\<close>

theorem embedded_btf_ext_fits: "list_all (\<lambda>(st, d). object_btf_ext_fits (sd_elf d)) all_skeletons"
  by (simp add: all_skeletons_def bootstrap_desc_def bootstrap_btf_ext_fits bootstrap_legacy_desc_def bootstrap_legacy_btf_ext_fits fentry_desc_def fentry_btf_ext_fits
    kprobe_desc_def kprobe_btf_ext_fits ksyscall_desc_def ksyscall_btf_ext_fits lsm_desc_def lsm_btf_ext_fits
    minimal_desc_def minimal_btf_ext_fits minimal_legacy_desc_def minimal_legacy_btf_ext_fits minimal_ns_desc_def minimal_ns_btf_ext_fits
    sockfilter_desc_def sockfilter_btf_ext_fits task_iter_desc_def task_iter_btf_ext_fits tc_desc_def tc_btf_ext_fits
    uprobe_desc_def uprobe_btf_ext_fits usdt_desc_def usdt_btf_ext_fits)

end
