(* ===== verification/Core_Read.thy ===== *)
theory Core_Read
  imports HE_Prelude
begin

unbundle bit_operations_syntax

text \<open>
  Bit fields in bpf_core_read.h: \<open>BPF_CORE_READ_BITFIELD\<close>, its variant with a probe read, and
  \<open>BPF_CORE_WRITE_BITFIELD\<close>, on both byte orders. Where the field is, is known only when the program is loaded:
  \<open>__builtin_preserve_field_info\<close> is a parameter, a number for each kind of information. A shift by 64 and more, the
  use of an uninitialised variable and an access outside the object are undefined in C; there the result is
  \<open>None\<close>.
\<close>

section \<open>Information on a field\<close>

datatype bpf_field_info_kind =
    BPF_FIELD_BYTE_OFFSET | BPF_FIELD_BYTE_SIZE | BPF_FIELD_EXISTS
  | BPF_FIELD_SIGNED | BPF_FIELD_LSHIFT_U64 | BPF_FIELD_RSHIFT_U64

type_synonym relo = "bpf_field_info_kind \<Rightarrow> u32"

section \<open>Numbers in memory\<close>

definition c_num :: "bool \<Rightarrow> byte list \<Rightarrow> nat" where
  "c_num be bs = le_at (if be then rev bs else bs) 0 (length bs)"

definition c_bytes :: "bool \<Rightarrow> nat \<Rightarrow> nat \<Rightarrow> byte list" where
  "c_bytes be n x = (if be then rev (le_bytes n x) else le_bytes n x)"

definition c_load :: "bool \<Rightarrow> byte list \<Rightarrow> nat \<Rightarrow> nat \<Rightarrow> u64 option" where
  "c_load be mem off n =
     (if off + n \<le> length mem then Some (of_nat (c_num be (take n (drop off mem)))) else None)"

section \<open>Reading\<close>

text \<open>The end of both reading macros: move the field to the top of the 64 bits, and down again.\<close>

definition bitfield_value :: "relo \<Rightarrow> u64 \<Rightarrow> u64 option" where
  "bitfield_value R val =
     Option.bind (c_shift push_bit val (uint (R BPF_FIELD_LSHIFT_U64))) (\<lambda>v.
       if R BPF_FIELD_SIGNED \<noteq> 0 then c_shift signed_drop_bit v (uint (R BPF_FIELD_RSHIFT_U64))
       else c_shift drop_bit v (uint (R BPF_FIELD_RSHIFT_U64)))"

definition BPF_CORE_READ_BITFIELD :: "bool \<Rightarrow> relo \<Rightarrow> byte list \<Rightarrow> u64 option" where
  "BPF_CORE_READ_BITFIELD be R mem =
     (let p = unat (R BPF_FIELD_BYTE_OFFSET); sz = R BPF_FIELD_BYTE_SIZE in
      Option.bind
        (if sz = 1 then c_load be mem p 1
         else if sz = 2 then c_load be mem p 2
         else if sz = 4 then c_load be mem p 4
         else if sz = 8 then c_load be mem p 8
         else Some 0)
        (bitfield_value R))"

text \<open>The older copy of the header has no \<open>default\<close> in the switch, and \<open>val\<close> may stay without a value.\<close>

definition old_BPF_CORE_READ_BITFIELD :: "bool \<Rightarrow> relo \<Rightarrow> byte list \<Rightarrow> u64 option" where
  "old_BPF_CORE_READ_BITFIELD be R mem =
     (let p = unat (R BPF_FIELD_BYTE_OFFSET); sz = R BPF_FIELD_BYTE_SIZE in
      Option.bind
        (if sz = 1 then c_load be mem p 1
         else if sz = 2 then c_load be mem p 2
         else if sz = 4 then c_load be mem p 4
         else if sz = 8 then c_load be mem p 8
         else None)
        (bitfield_value R))"

text \<open>
  A probe read of \<open>n\<close> bytes at an offset of the object gives its return code and what it leaves in the destination, here
  the 8 bytes of \<open>val\<close>; on a big-endian machine it fills the last ones.
\<close>

type_synonym probe = "nat \<Rightarrow> nat \<Rightarrow> int \<times> byte list"

definition CORE_BITFIELD_PROBE_READ :: "bool \<Rightarrow> relo \<Rightarrow> probe \<Rightarrow> byte list \<Rightarrow> byte list option" where
  "CORE_BITFIELD_PROBE_READ be R probe dst =
     (let sz = R BPF_FIELD_BYTE_SIZE; (err, bs) = probe (unat (R BPF_FIELD_BYTE_OFFSET)) (unat sz) in
      if be then c_store dst (unat (8 - sz)) bs else c_store dst 0 bs)"

definition BPF_CORE_READ_BITFIELD_PROBED :: "bool \<Rightarrow> relo \<Rightarrow> probe \<Rightarrow> u64 option" where
  "BPF_CORE_READ_BITFIELD_PROBED be R probe =
     Option.bind (CORE_BITFIELD_PROBE_READ be R probe (replicate 8 0))
       (\<lambda>val. bitfield_value R (of_nat (c_num be val)))"

section \<open>Writing\<close>

text \<open>\<open>(~0ULL << rshift) >> lshift\<close>, and the new number: the old one outside the mask, the value inside.\<close>

definition bitfield_mask :: "relo \<Rightarrow> u64 option" where
  "bitfield_mask R =
     Option.bind (c_shift push_bit (NOT 0) (uint (R BPF_FIELD_RSHIFT_U64)))
       (\<lambda>m. c_shift drop_bit m (uint (R BPF_FIELD_LSHIFT_U64)))"

definition bitfield_update :: "relo \<Rightarrow> u64 \<Rightarrow> u64 \<Rightarrow> u64 option" where
  "bitfield_update R nval val =
     (let rpad = R BPF_FIELD_RSHIFT_U64 - R BPF_FIELD_LSHIFT_U64 in
      Option.bind (bitfield_mask R) (\<lambda>mask.
        map_option (\<lambda>v. (val AND NOT mask) OR (v AND mask)) (c_shift push_bit nval (uint rpad))))"

definition BPF_CORE_WRITE_BITFIELD :: "bool \<Rightarrow> relo \<Rightarrow> byte list \<Rightarrow> u64 \<Rightarrow> byte list option" where
  "BPF_CORE_WRITE_BITFIELD be R mem new_val =
     (let p = unat (R BPF_FIELD_BYTE_OFFSET); byte_size = R BPF_FIELD_BYTE_SIZE in
      Option.bind
        (if byte_size = 1 then c_load be mem p 1
         else if byte_size = 2 then c_load be mem p 2
         else if byte_size = 4 then c_load be mem p 4
         else if byte_size = 8 then c_load be mem p 8
         else None)
        (\<lambda>val. Option.bind (bitfield_update R new_val val) (\<lambda>val'.
          c_store mem p (c_bytes be (unat byte_size) (unat val')))))"

section \<open>The field as a range of bits\<close>

text \<open>
  What the loader promises of the information on a field: an access of 1, 2, 4 or 8 bytes inside the object, in which the
  field has a width between 1 and 64 bits and a distance from the lowest bit.
\<close>

definition field_width :: "relo \<Rightarrow> nat" where
  "field_width R = 64 - unat (R BPF_FIELD_RSHIFT_U64)"

definition field_low :: "relo \<Rightarrow> nat" where
  "field_low R = unat (R BPF_FIELD_RSHIFT_U64) - unat (R BPF_FIELD_LSHIFT_U64)"

definition field_ok :: "relo \<Rightarrow> nat \<Rightarrow> bool" where
  "field_ok R len \<longleftrightarrow>
     R BPF_FIELD_BYTE_SIZE \<in> {1, 2, 4, 8} \<and>
     unat (R BPF_FIELD_BYTE_OFFSET) + unat (R BPF_FIELD_BYTE_SIZE) \<le> len \<and>
     R BPF_FIELD_LSHIFT_U64 \<le> R BPF_FIELD_RSHIFT_U64 \<and> R BPF_FIELD_RSHIFT_U64 < 64 \<and>
     field_low R + field_width R \<le> 8 * unat (R BPF_FIELD_BYTE_SIZE)"

definition field_of :: "relo \<Rightarrow> u64 \<Rightarrow> u64" where
  "field_of R v = (if R BPF_FIELD_SIGNED \<noteq> 0 then signed_take_bit (field_width R - 1) v else take_bit (field_width R) v)"

definition field_unit :: "bool \<Rightarrow> relo \<Rightarrow> byte list \<Rightarrow> u64" where
  "field_unit be R mem =
     of_nat (c_num be (take (unat (R BPF_FIELD_BYTE_SIZE)) (drop (unat (R BPF_FIELD_BYTE_OFFSET)) mem)))"

definition field_value :: "bool \<Rightarrow> relo \<Rightarrow> byte list \<Rightarrow> u64" where
  "field_value be R mem = field_of R (drop_bit (field_low R) (field_unit be R mem))"

text \<open>Two fields of one unit that share no bit.\<close>

definition fields_apart :: "relo \<Rightarrow> relo \<Rightarrow> bool" where
  "fields_apart R Q \<longleftrightarrow>
     Q BPF_FIELD_BYTE_OFFSET = R BPF_FIELD_BYTE_OFFSET \<and> Q BPF_FIELD_BYTE_SIZE = R BPF_FIELD_BYTE_SIZE \<and>
     (field_low Q + field_width Q \<le> field_low R \<or> field_low R + field_width R \<le> field_low Q)"

section \<open>Facts\<close>

lemma foldr_zero_bytes: "foldr (\<lambda>b acc. unat b + 256 * acc) (replicate k (0 :: byte)) 0 = 0"
  by (induction k) simp_all

lemma le_at_zero_padded [simp]: "le_at (bs @ replicate k 0) 0 (length bs + k) = le_at bs 0 (length bs)"
  by (simp only: le_at_def foldr_append foldr_zero_bytes drop_0 take_all length_append length_replicate order_refl)

lemma le_at_le_bytes_mod [simp]: "le_at (le_bytes n x) 0 n = x mod 256 ^ n"
proof (induction n arbitrary: x)
  case (Suc n)
  have "le_at (le_bytes (Suc n) x) 0 (Suc n) = x mod 256 + 256 * le_at (le_bytes n (x div 256)) 0 n"
    by (simp add: le_at_def unsigned_of_nat take_bit_eq_mod)
  then show ?case
    by (simp add: Suc.IH mod_mult2_eq)
qed (simp add: le_at_def)

lemma length_c_bytes [simp]: "length (c_bytes be n x) = n"
  by (simp add: c_bytes_def)

lemma c_num_c_bytes [simp]: "c_num be (c_bytes be n x) = x mod 256 ^ n"
  by (simp add: c_num_def c_bytes_def)

lemma c_num_padded:
  "length bs \<le> 8 \<Longrightarrow> c_num True (replicate (8 - length bs) 0 @ bs) = c_num True bs"
  "length bs \<le> 8 \<Longrightarrow> c_num False (bs @ replicate (8 - length bs) 0) = c_num False bs"
  using le_at_zero_padded [of "rev bs" "8 - length bs"] le_at_zero_padded [of bs "8 - length bs"]
  by (simp_all add: c_num_def)

lemma c_load_unit:
  "unat (R BPF_FIELD_BYTE_OFFSET) + unat (R BPF_FIELD_BYTE_SIZE) \<le> length mem \<Longrightarrow>
   c_load be mem (unat (R BPF_FIELD_BYTE_OFFSET)) (unat (R BPF_FIELD_BYTE_SIZE)) = Some (field_unit be R mem)"
  by (simp add: c_load_def field_unit_def)

lemma field_shifts:
  assumes "field_ok R len"
  shows "uint (R BPF_FIELD_LSHIFT_U64) = int (unat (R BPF_FIELD_LSHIFT_U64))"
    and "uint (R BPF_FIELD_RSHIFT_U64) = int (unat (R BPF_FIELD_RSHIFT_U64))"
    and "unat (R BPF_FIELD_LSHIFT_U64) \<le> unat (R BPF_FIELD_RSHIFT_U64)"
    and "unat (R BPF_FIELD_RSHIFT_U64) < 64"
    and "uint (R BPF_FIELD_RSHIFT_U64 - R BPF_FIELD_LSHIFT_U64) = int (field_low R)"
proof -
  have le: "R BPF_FIELD_LSHIFT_U64 \<le> R BPF_FIELD_RSHIFT_U64"
    using assms by (simp add: field_ok_def)
  then show "unat (R BPF_FIELD_LSHIFT_U64) \<le> unat (R BPF_FIELD_RSHIFT_U64)"
    by (simp add: word_le_nat_alt)
  show "unat (R BPF_FIELD_RSHIFT_U64) < 64"
    using assms by (simp add: field_ok_def word_less_nat_alt)
  have "unat (R BPF_FIELD_RSHIFT_U64 - R BPF_FIELD_LSHIFT_U64) = field_low R"
    using le by (simp add: unat_sub field_low_def)
  then show "uint (R BPF_FIELD_RSHIFT_U64 - R BPF_FIELD_LSHIFT_U64) = int (field_low R)"
    by (simp only: uint_nat)
qed (simp_all flip: uint_nat)

lemma bitfield_value_ok:
  assumes "field_ok R len"
  shows "bitfield_value R v = Some (field_of R (drop_bit (field_low R) v))"
proof -
  define l r where "l = unat (R BPF_FIELD_LSHIFT_U64)" and "r = unat (R BPF_FIELD_RSHIFT_U64)"
  have lr: "l \<le> r" "r < 64"
    using field_shifts [OF assms] by (simp_all add: l_def r_def)
  have "drop_bit r (push_bit l v) = take_bit (64 - r) (drop_bit (r - l) v)"
    by (rule bit_word_eqI) (use lr in \<open>auto simp: bit_simps dest: bit_imp_le_length\<close>)
  moreover have "signed_drop_bit r (push_bit l v) = signed_take_bit (63 - r) (drop_bit (r - l) v)"
  proof (rule bit_word_eqI)
    fix k
    assume "k < LENGTH(64)"
    then consider "k < 63 - r" | "k = 63 - r" | "63 - r < k" "k < 64"
      by fastforce
    then show "bit (signed_drop_bit r (push_bit l v)) k = bit (signed_take_bit (63 - r) (drop_bit (r - l) v)) k"
      by cases (use lr in \<open>auto simp: bit_simps min_def\<close>)
  qed
  ultimately show ?thesis
    using lr by (simp add: bitfield_value_def field_shifts [OF assms] c_shift_def field_of_def field_low_def
        field_width_def flip: l_def r_def)
qed

lemma field_ends:
  assumes "field_ok R len"
  shows "field_low R + field_width R = 64 - unat (R BPF_FIELD_LSHIFT_U64)" and "field_low R + field_width R \<le> 64"
    and "0 < field_width R"
  using field_shifts(3,4) [OF assms] by (simp_all add: field_low_def field_width_def)

lemma bitfield_update_bits:
  assumes "field_ok R len"
  obtains v where "bitfield_update R nval val = Some v"
    and "\<And>k. k < 64 \<Longrightarrow> bit v k = (if field_low R \<le> k \<and> k < field_low R + field_width R then bit nval (k - field_low R) else bit val k)"
proof -
  define l r where "l = unat (R BPF_FIELD_LSHIFT_U64)" and "r = unat (R BPF_FIELD_RSHIFT_U64)"
  have lr: "l \<le> r" "r < 64" and low: "field_low R = r - l"
    using field_shifts [OF assms] by (simp_all add: l_def r_def field_low_def)
  define m where "m = drop_bit l (push_bit r (NOT 0 :: u64))"
  have mask: "bitfield_mask R = Some m"
    using lr by (simp add: bitfield_mask_def field_shifts [OF assms] c_shift_def m_def flip: l_def r_def)
  have m: "bit m k \<longleftrightarrow> field_low R \<le> k \<and> k < field_low R + field_width R" if "k < 64" for k
  proof -
    have "field_low R + field_width R = 64 - l" "field_low R = r - l"
      using field_ends(1) [OF assms] low by (simp_all add: l_def)
    with that lr show ?thesis
      by (auto simp: m_def bit_simps)
  qed
  define v where "v = (val AND NOT m) OR (push_bit (field_low R) nval AND m)"
  have "bitfield_update R nval val = Some v"
    using lr low by (simp add: bitfield_update_def mask field_shifts(5) [OF assms] c_shift_def v_def del: of_nat_diff)
  moreover have "bit v k = (if field_low R \<le> k \<and> k < field_low R + field_width R then bit nval (k - field_low R) else bit val k)"
    if "k < 64" for k
    using that m [OF that] by (auto simp: v_def bit_simps)
  ultimately show thesis
    by (rule that)
qed

lemma field_bit:
  assumes "0 < field_width R" and "k < 64"
  shows "bit (field_of R v) k =
    (if k < field_width R then bit v k else R BPF_FIELD_SIGNED \<noteq> 0 \<and> bit v (field_width R - 1))"
proof -
  obtain n where "field_width R = Suc n"
    using assms(1) gr0_implies_Suc by blast
  then show ?thesis
    using assms(2) by (cases k n rule: linorder_cases) (simp_all add: field_of_def bit_simps min_def)
qed

lemma field_of_cong:
  assumes "0 < field_width R" and "\<And>k. k < field_width R \<Longrightarrow> bit v k = bit w k"
  shows "field_of R v = field_of R w"
  by (rule bit_word_eqI) (use assms in \<open>simp add: field_bit\<close>)

text \<open>Storing a number and reading the field's unit back; the unit has all bits of the field.\<close>

lemma field_unit_stored:
  assumes "field_ok R (length mem)"
  obtains mem' where
    "c_store mem (unat (R BPF_FIELD_BYTE_OFFSET)) (c_bytes be (unat (R BPF_FIELD_BYTE_SIZE)) (unat v)) = Some mem'"
    and "length mem' = length mem"
    and "field_unit be R mem' = take_bit (8 * unat (R BPF_FIELD_BYTE_SIZE)) v"
    and "\<And>i. \<lbrakk>i < unat (R BPF_FIELD_BYTE_OFFSET) \<or> unat (R BPF_FIELD_BYTE_OFFSET) + unat (R BPF_FIELD_BYTE_SIZE) \<le> i; i < length mem\<rbrakk> \<Longrightarrow>
      mem' ! i = mem ! i"
proof -
  define p n where "p = unat (R BPF_FIELD_BYTE_OFFSET)" and "n = unat (R BPF_FIELD_BYTE_SIZE)"
  have fits: "p + n \<le> length mem"
    using assms by (simp add: field_ok_def p_def n_def)
  define mem' where "mem' = take p mem @ c_bytes be n (unat v) @ drop (p + n) mem"
  have store: "c_store mem p (c_bytes be n (unat v)) = Some mem'" "length mem' = length mem"
    using fits by (simp_all add: c_store_def mem'_def)
  have "take n (drop p mem') = c_bytes be n (unat v)"
    using fits by (simp add: mem'_def)
  then have "field_unit be R mem' = of_nat (unat v mod 256 ^ n)"
    by (simp add: field_unit_def flip: p_def n_def)
  moreover have "unat v mod 256 ^ n = unat (take_bit (8 * n) v)"
    unfolding unsigned_take_bit_eq by (simp add: take_bit_eq_mod power_mult)
  ultimately have "field_unit be R mem' = take_bit (8 * n) v"
    by simp
  moreover note store
  moreover have "mem' ! i = mem ! i" if "i < p \<or> p + n \<le> i" "i < length mem" for i
    using that fits by (auto simp: mem'_def nth_append)
  ultimately show thesis
    using that by (simp add: p_def n_def)
qed

text \<open>The switch over the size loads the field's unit.\<close>

lemma size_switch:
  assumes "field_ok R (length mem)"
  shows "(if R BPF_FIELD_BYTE_SIZE = 1 then c_load be mem (unat (R BPF_FIELD_BYTE_OFFSET)) 1
     else if R BPF_FIELD_BYTE_SIZE = 2 then c_load be mem (unat (R BPF_FIELD_BYTE_OFFSET)) 2
     else if R BPF_FIELD_BYTE_SIZE = 4 then c_load be mem (unat (R BPF_FIELD_BYTE_OFFSET)) 4
     else if R BPF_FIELD_BYTE_SIZE = 8 then c_load be mem (unat (R BPF_FIELD_BYTE_OFFSET)) 8 else other) =
    Some (field_unit be R mem)"
  using assms c_load_unit [of R mem be] by (auto simp: field_ok_def)

lemma read_bitfield_ok:
  assumes "field_ok R (length mem)"
  shows "BPF_CORE_READ_BITFIELD be R mem = Some (field_value be R mem)"
    and "old_BPF_CORE_READ_BITFIELD be R mem = Some (field_value be R mem)"
  using assms by (simp_all add: BPF_CORE_READ_BITFIELD_def old_BPF_CORE_READ_BITFIELD_def size_switch Let_def
      bitfield_value_ok field_value_def)

lemma probe_fills:
  assumes "field_ok R len" and "length (snd (probe (unat (R BPF_FIELD_BYTE_OFFSET)) (unat (R BPF_FIELD_BYTE_SIZE)))) = unat (R BPF_FIELD_BYTE_SIZE)"
  shows "BPF_CORE_READ_BITFIELD_PROBED be R probe =
    Some (field_of R (drop_bit (field_low R)
      (of_nat (c_num be (snd (probe (unat (R BPF_FIELD_BYTE_OFFSET)) (unat (R BPF_FIELD_BYTE_SIZE))))))))"
proof -
  obtain err bs where bs: "probe (unat (R BPF_FIELD_BYTE_OFFSET)) (unat (R BPF_FIELD_BYTE_SIZE)) = (err, bs)"
    by fastforce
  have len: "length bs = unat (R BPF_FIELD_BYTE_SIZE)"
    using assms(2) by (simp add: bs)
  have size: "unat (R BPF_FIELD_BYTE_SIZE) \<le> 8" "unat (8 - R BPF_FIELD_BYTE_SIZE) = 8 - unat (R BPF_FIELD_BYTE_SIZE)"
    using assms(1) by (auto simp: field_ok_def)
  show ?thesis
    using size len c_num_padded [of bs] bitfield_value_ok [OF assms(1)]
    by (cases be) (simp_all add: BPF_CORE_READ_BITFIELD_PROBED_def CORE_BITFIELD_PROBE_READ_def bs c_store_def)
qed

text \<open>
  The macro with a probe read gives the same field when the read succeeds, and 0 when it fails and leaves zeros; the
  result of the read is dropped.
\<close>

lemma probed_bitfield_value:
  assumes "field_ok R (length mem)"
  shows "BPF_CORE_READ_BITFIELD_PROBED be R (\<lambda>off n. (0, take n (drop off mem))) = Some (field_value be R mem)"
    and "BPF_CORE_READ_BITFIELD_PROBED be R (\<lambda>off n. (err, replicate n 0)) = Some 0"
proof -
  have "unat (R BPF_FIELD_BYTE_OFFSET) + unat (R BPF_FIELD_BYTE_SIZE) \<le> length mem"
    using assms by (simp add: field_ok_def)
  then show "BPF_CORE_READ_BITFIELD_PROBED be R (\<lambda>off n. (0, take n (drop off mem))) = Some (field_value be R mem)"
    by (subst probe_fills [OF assms]) (simp_all add: field_value_def field_unit_def)
  have "c_num be (replicate n 0) = 0" for n
    by (simp add: c_num_def le_at_def foldr_zero_bytes del: foldr_replicate)
  then show "BPF_CORE_READ_BITFIELD_PROBED be R (\<lambda>off n. (err, replicate n 0)) = Some 0"
    by (subst probe_fills [OF assms]) (simp_all add: field_of_def)
qed

section \<open>Properties\<close>

text \<open>
  C28: \<open>BPF_CORE_READ_BITFIELD\<close> gives the value of the field, sign- or zero-extended to 64 bits, on both byte orders and
  in both copies of the header, with no undefined shift and no access outside the object: bit \<open>k\<close> of the result is
  bit \<open>low + k\<close> of the unit below the width of the field and, above it, the field's top bit when it is signed and 0 when not.
\<close>

theorem bitfield_read_value:
  assumes "field_ok R (length mem)"
  shows "\<exists>val. BPF_CORE_READ_BITFIELD be R mem = Some val \<and> old_BPF_CORE_READ_BITFIELD be R mem = Some val \<and>
    (\<forall>k < 64. bit val k = (if k < field_width R then bit (field_unit be R mem) (field_low R + k)
       else R BPF_FIELD_SIGNED \<noteq> 0 \<and> bit (field_unit be R mem) (field_low R + field_width R - 1)))"
proof -
  have w: "0 < field_width R"
    by (rule field_ends(3) [OF assms])
  have "bit (field_value be R mem) k = (if k < field_width R then bit (field_unit be R mem) (field_low R + k)
       else R BPF_FIELD_SIGNED \<noteq> 0 \<and> bit (field_unit be R mem) (field_low R + field_width R - 1))" if "k < 64" for k
    using w by (simp add: field_value_def field_bit [OF w that] bit_drop_bit_eq)
  then show ?thesis
    using read_bitfield_ok [OF assms] by blast
qed

text \<open>A signed field of five bits, three bits up in a unit of two bytes, and an unsigned one below it.\<close>

definition example_field :: relo where
  "example_field k = (case k of BPF_FIELD_BYTE_OFFSET \<Rightarrow> 1 | BPF_FIELD_BYTE_SIZE \<Rightarrow> 2 | BPF_FIELD_SIGNED \<Rightarrow> 1
     | BPF_FIELD_EXISTS \<Rightarrow> 1 | BPF_FIELD_LSHIFT_U64 \<Rightarrow> 56 | BPF_FIELD_RSHIFT_U64 \<Rightarrow> 59)"

definition example_low :: relo where
  "example_low k = (case k of BPF_FIELD_BYTE_OFFSET \<Rightarrow> 1 | BPF_FIELD_BYTE_SIZE \<Rightarrow> 2 | BPF_FIELD_SIGNED \<Rightarrow> 0
     | BPF_FIELD_EXISTS \<Rightarrow> 1 | BPF_FIELD_LSHIFT_U64 \<Rightarrow> 61 | BPF_FIELD_RSHIFT_U64 \<Rightarrow> 61)"

definition example_object :: "byte list" where
  "example_object = [0, 0xB5, 0x12, 0]"

lemma example_ok: "field_ok example_field (length example_object)" "field_ok example_low (length example_object)"
  by (simp_all add: field_ok_def field_low_def field_width_def example_field_def example_low_def example_object_def)

lemma bitfield_read_value_witness:
  "\<exists>val. BPF_CORE_READ_BITFIELD False example_field example_object = Some val \<and> bit val 1 \<and> \<not> bit val 3 \<and> bit val 63"
proof -
  have f: "field_width example_field = 5" "field_low example_field = 3" "field_unit False example_field example_object = 0x12B5"
    "example_field BPF_FIELD_SIGNED = 1"
    by (simp_all add: field_unit_def field_low_def field_width_def c_num_def le_at_def example_field_def example_object_def)
  obtain val where "BPF_CORE_READ_BITFIELD False example_field example_object = Some val"
    and bits: "\<forall>k < 64. bit val k = (if k < field_width example_field then bit (field_unit False example_field example_object) (field_low example_field + k)
       else example_field BPF_FIELD_SIGNED \<noteq> 0 \<and> bit (field_unit False example_field example_object) (field_low example_field + field_width example_field - 1))"
    using bitfield_read_value [OF example_ok(1), of False] by blast
  moreover have "bit val 1" "\<not> bit val 3" "bit val 63"
    using bits by (simp_all add: f bit_numeral_word_iff)
  ultimately show ?thesis
    by blast
qed

lemma example_field_values:
  "BPF_CORE_READ_BITFIELD False example_field example_object = Some (- 10) \<and>
   BPF_CORE_READ_BITFIELD False example_low example_object = Some 5"
proof -
  have "field_value False example_field example_object = - 10" "field_value False example_low example_object = 5"
    by (simp_all add: field_value_def field_unit_def field_of_def field_low_def field_width_def c_num_def le_at_def
        example_field_def example_low_def example_object_def)
  then show ?thesis
    using read_bitfield_ok(1) [OF example_ok(1), of False] read_bitfield_ok(1) [OF example_ok(2), of False] by simp
qed

text \<open>
  C29: writing a bit field and reading it back gives the value cut to the width of the field and extended; the write
  succeeds, changes no byte outside the field's unit, and no other field of the same unit that shares no bit with it.
\<close>

theorem bitfield_write_read:
  assumes "field_ok R (length mem)"
  shows "\<exists>mem'. BPF_CORE_WRITE_BITFIELD be R mem new_val = Some mem' \<and> length mem' = length mem \<and>
    BPF_CORE_READ_BITFIELD be R mem' = Some (field_of R new_val) \<and>
    (\<forall>i < length mem. i < unat (R BPF_FIELD_BYTE_OFFSET) \<or> unat (R BPF_FIELD_BYTE_OFFSET) + unat (R BPF_FIELD_BYTE_SIZE) \<le> i \<longrightarrow>
       mem' ! i = mem ! i) \<and>
    (\<forall>Q. field_ok Q (length mem) \<and> fields_apart R Q \<longrightarrow>
       BPF_CORE_READ_BITFIELD be Q mem' = BPF_CORE_READ_BITFIELD be Q mem)"
proof -
  obtain v where v: "bitfield_update R new_val (field_unit be R mem) = Some v"
    and bits: "\<And>k. k < 64 \<Longrightarrow> bit v k = (if field_low R \<le> k \<and> k < field_low R + field_width R
      then bit new_val (k - field_low R) else bit (field_unit be R mem) k)"
    using bitfield_update_bits [OF assms] by blast
  obtain mem' where store: "c_store mem (unat (R BPF_FIELD_BYTE_OFFSET)) (c_bytes be (unat (R BPF_FIELD_BYTE_SIZE)) (unat v)) = Some mem'"
    and len: "length mem' = length mem"
    and unit: "field_unit be R mem' = take_bit (8 * unat (R BPF_FIELD_BYTE_SIZE)) v"
    and rest: "\<And>i. \<lbrakk>i < unat (R BPF_FIELD_BYTE_OFFSET) \<or> unat (R BPF_FIELD_BYTE_OFFSET) + unat (R BPF_FIELD_BYTE_SIZE) \<le> i; i < length mem\<rbrakk> \<Longrightarrow>
      mem' ! i = mem ! i"
    using field_unit_stored [OF assms] by blast
  have wrote: "BPF_CORE_WRITE_BITFIELD be R mem new_val = Some mem'"
    using assms by (simp add: BPF_CORE_WRITE_BITFIELD_def Let_def size_switch v store)
  have ok: "field_ok R (length mem')"
    using assms len by simp
  have inside: "field_low Q + k < 8 * unat (Q BPF_FIELD_BYTE_SIZE) \<and> field_low Q + k < 64"
    if "field_ok Q (length mem)" "k < field_width Q" for Q k
    using that field_ends(2) [of Q "length mem"] by (simp add: field_ok_def)
  have "field_of R (drop_bit (field_low R) (field_unit be R mem')) = field_of R new_val"
    using bits inside [OF assms] by (intro field_of_cong [OF field_ends(3) [OF assms]]) (simp add: unit bit_simps)
  moreover have "BPF_CORE_READ_BITFIELD be Q mem' = BPF_CORE_READ_BITFIELD be Q mem"
    if ok: "field_ok Q (length mem)" and "fields_apart R Q" for Q
  proof -
    have Q: "Q BPF_FIELD_BYTE_OFFSET = R BPF_FIELD_BYTE_OFFSET" "Q BPF_FIELD_BYTE_SIZE = R BPF_FIELD_BYTE_SIZE"
      and apart: "field_low Q + field_width Q \<le> field_low R \<or> field_low R + field_width R \<le> field_low Q"
      using that(2) by (simp_all add: fields_apart_def)
    have same: "field_unit be Q m = field_unit be R m" for m
      by (simp add: field_unit_def Q)
    have "field_of Q (drop_bit (field_low Q) (field_unit be Q mem')) = field_of Q (drop_bit (field_low Q) (field_unit be Q mem))"
      using bits inside [OF ok] apart
      by (intro field_of_cong [OF field_ends(3) [OF ok]]) (auto simp: same unit bit_simps Q)
    then show ?thesis
      using ok len by (simp add: read_bitfield_ok field_value_def)
  qed
  ultimately show ?thesis
    using wrote len rest read_bitfield_ok(1) [OF ok] by (auto simp: field_value_def)
qed

lemma bitfield_write_read_witness:
  "\<exists>mem'. BPF_CORE_WRITE_BITFIELD True example_field example_object 6 = Some mem' \<and>
    BPF_CORE_READ_BITFIELD True example_field mem' = Some 6 \<and>
    BPF_CORE_READ_BITFIELD True example_low mem' = BPF_CORE_READ_BITFIELD True example_low example_object"
proof -
  have "field_of example_field 6 = 6"
    by (simp add: field_of_def field_width_def example_field_def)
  moreover have "fields_apart example_field example_low"
    by (simp add: fields_apart_def field_low_def field_width_def example_field_def example_low_def)
  ultimately show ?thesis
    using bitfield_write_read [OF example_ok(1), of True 6] example_ok(2) by auto
qed

end
