(* ===== verification/Core_Chain.thy ===== *)
theory Core_Chain
  imports Core_Read
begin

text \<open>
  Pointer chains in bpf_core_read.h: the macros \<open>BPF_CORE_READ(src, a, b, ...)\<close> and their variants for user memory, without
  relocations, and for strings. The first half is the preprocessor: the macros that count and cut their arguments and expand
  a chain to a sequence of calls of the reading helpers; a use that does not expand is \<open>None\<close>. The second half runs
  the calls. The helpers, and where a field is in its structure, are parameters.
\<close>

section \<open>Counting and cutting arguments\<close>

datatype ctok = K_unused | K_arg string | K_num nat | K_N

text \<open>\<open>___nth(_1, ..., _10, __11, N, ...)\<close> is its twelfth argument.\<close>

definition core_nth :: "ctok list \<Rightarrow> ctok option" where
  "core_nth ts = (if 11 < length ts then Some (ts ! 11) else None)"

definition core_narg :: "string list \<Rightarrow> ctok option" where
  "core_narg args = core_nth (K_unused # map K_arg args @ map K_num [10, 9, 8, 7, 6, 5, 4, 3, 2, 1, 0])"

definition core_empty :: "string list \<Rightarrow> ctok option" where
  "core_empty args = core_nth (K_unused # map K_arg args @ [K_N, K_N, K_N, K_N, K_N, K_N, K_N, K_N, K_N, K_N, K_num 0])"

text \<open>
  \<open>___apply(fn, n)\<close> pastes the number to the name. \<open>lo\<close> is the smallest and \<open>hi\<close> the largest number for which the header defines a
  macro of the family, and each takes exactly as many arguments as its number says.
\<close>

definition apply_family :: "nat \<Rightarrow> nat \<Rightarrow> (string list \<Rightarrow> 'a) \<Rightarrow> string list \<Rightarrow> 'a option" where
  "apply_family lo hi f args =
     (case core_narg args of
        Some (K_num n) \<Rightarrow> if lo \<le> n \<and> n \<le> hi \<and> length args = n then Some (f args) else None
      | _ \<Rightarrow> None)"

definition core_last :: "string list \<Rightarrow> string option" where
  "core_last = apply_family 1 10 last"

definition core_nolast :: "string list \<Rightarrow> string list option" where
  "core_nolast = apply_family 2 10 butlast"

text \<open>The expression \<open>a->b->c\<close>, as the list of its parts; it stands for the type \<open>typeof(a->b->c)\<close>.\<close>

definition core_arrow :: "string list \<Rightarrow> string list option" where
  "core_arrow = apply_family 1 10 (\<lambda>args. args)"

section \<open>Expansion\<close>

text \<open>
  \<open>___read(fn, dst, type, src, accessor)\<close>: a call of \<open>fn\<close> that reads \<open>((type)src)->accessor\<close>. The source is the first argument of
  the macro or the local pointer \<open>__t\<close>; a pointer read stores to \<open>__t\<close>.
\<close>

datatype rd_src = From_src | From_t

datatype rd_stmt = Read_stmt (rd_type: "string list") (rd_src: rd_src) (rd_acc: string)

definition rd_first :: "string list \<Rightarrow> rd_stmt list option" where
  "rd_first args = (case args of [src, a] \<Rightarrow> map_option (\<lambda>ty. [Read_stmt ty From_src a]) (core_arrow [src]) | _ \<Rightarrow> None)"

definition rd_last :: "string list \<Rightarrow> rd_stmt list option" where
  "rd_last args =
     Option.bind (core_nolast args) (\<lambda>xs. Option.bind (core_arrow xs) (\<lambda>ty.
       map_option (\<lambda>a. [Read_stmt ty From_t a]) (core_last args)))"

text \<open>\<open>___rd_p1\<close> to \<open>___rd_p9\<close>.\<close>

fun rd_p :: "nat \<Rightarrow> string list \<Rightarrow> rd_stmt list option" where
  "rd_p 0 args = None"
| "rd_p (Suc 0) args = rd_first args"
| "rd_p (Suc (Suc n)) args =
     (if n + 2 \<le> 9 then
        Option.bind (core_nolast args) (\<lambda>xs. Option.bind (rd_p (Suc n) xs) (\<lambda>ss. map_option (\<lambda>s. ss @ s) (rd_last args)))
      else None)"

definition read_ptrs :: "string \<Rightarrow> string list \<Rightarrow> rd_stmt list option" where
  "read_ptrs src accs = (case core_narg accs of Some (K_num n) \<Rightarrow> rd_p n (src # accs) | _ \<Rightarrow> None)"

text \<open>The result is the pointer reads and the final one.\<close>

definition core_read0 :: "string \<Rightarrow> string list \<Rightarrow> (rd_stmt list \<times> rd_stmt) option" where
  "core_read0 src accs =
     (case accs of [a] \<Rightarrow> map_option (\<lambda>ty. ([], Read_stmt ty From_src a)) (core_arrow [src]) | _ \<Rightarrow> None)"

definition core_readN :: "string \<Rightarrow> string list \<Rightarrow> (rd_stmt list \<times> rd_stmt) option" where
  "core_readN src accs =
     Option.bind (core_nolast accs) (\<lambda>xs. Option.bind (read_ptrs src xs) (\<lambda>ss. Option.bind (core_arrow (src # xs)) (\<lambda>ty.
       map_option (\<lambda>a. (ss, Read_stmt ty From_t a)) (core_last accs))))"

definition core_read :: "string \<Rightarrow> string list \<Rightarrow> (rd_stmt list \<times> rd_stmt) option" where
  "core_read src accs =
     (case core_empty (tl accs) of
        Some (K_num 0) \<Rightarrow> core_read0 src accs
      | Some K_N \<Rightarrow> core_readN src accs
      | _ \<Rightarrow> None)"

section \<open>Execution\<close>

text \<open>
  A reading function is a helper, for kernel or user memory, for bytes or for a string, called with or without a
  relocated address. A helper gets an address and a size, and gives its result and what it leaves in the destination.
\<close>

datatype read_fn = Read_fn (fn_relocated: bool) (fn_user: bool) (fn_str: bool)

definition bpf_core_read :: read_fn where "bpf_core_read = Read_fn True False False"
definition bpf_core_read_user :: read_fn where "bpf_core_read_user = Read_fn True True False"
definition bpf_core_read_str :: read_fn where "bpf_core_read_str = Read_fn True False True"
definition bpf_core_read_user_str :: read_fn where "bpf_core_read_user_str = Read_fn True True True"
definition bpf_probe_read_kernel :: read_fn where "bpf_probe_read_kernel = Read_fn False False False"
definition bpf_probe_read_user :: read_fn where "bpf_probe_read_user = Read_fn False True False"
definition bpf_probe_read_kernel_str :: read_fn where "bpf_probe_read_kernel_str = Read_fn False False True"
definition bpf_probe_read_user_str :: read_fn where "bpf_probe_read_user_str = Read_fn False True True"

lemmas read_functions =
  bpf_core_read_def bpf_core_read_user_def bpf_core_read_str_def bpf_core_read_user_str_def
  bpf_probe_read_kernel_def bpf_probe_read_user_def bpf_probe_read_kernel_str_def bpf_probe_read_user_str_def

record read_env =
  re_big_endian :: bool
  re_offset :: "bool \<Rightarrow> string list \<Rightarrow> string \<Rightarrow> u64"
  re_probe :: "bool \<Rightarrow> bool \<Rightarrow> u64 \<Rightarrow> nat \<Rightarrow> int \<times> byte list"

definition call_read :: "read_env \<Rightarrow> read_fn \<Rightarrow> nat \<Rightarrow> u64 \<Rightarrow> u64 \<Rightarrow> rd_stmt \<Rightarrow> int \<times> byte list" where
  "call_read e fn n src t s =
     (let base = (case rd_src s of From_src \<Rightarrow> src | From_t \<Rightarrow> t) in
      re_probe e (fn_user fn) (fn_str fn) (base + re_offset e (fn_relocated fn) (rd_type s) (rd_acc s)) n)"

text \<open>A pointer read fills the eight bytes of \<open>__t\<close>.\<close>

definition run_ptr_read :: "read_env \<Rightarrow> read_fn \<Rightarrow> u64 \<Rightarrow> rd_stmt \<Rightarrow> u64 \<Rightarrow> u64" where
  "run_ptr_read e fn src s t = of_nat (c_num (re_big_endian e) (snd (call_read e fn 8 src t s)))"

text \<open>\<open>__t\<close> starts without a value (\<open>junk\<close>). The value of the macro is the result of the last call.\<close>

definition run_reads :: "read_env \<Rightarrow> read_fn \<Rightarrow> read_fn \<Rightarrow> nat \<Rightarrow> u64 \<Rightarrow> u64 \<Rightarrow> rd_stmt list \<times> rd_stmt \<Rightarrow> int \<times> byte list" where
  "run_reads e fn fn_ptr n src junk p =
     (case p of (ss, s) \<Rightarrow> call_read e fn n src (fold (run_ptr_read e fn_ptr src) ss junk) s)"

definition core_read_into :: "read_fn \<Rightarrow> read_fn \<Rightarrow> read_env \<Rightarrow> nat \<Rightarrow> u64 \<Rightarrow> u64 \<Rightarrow> string \<Rightarrow> string list \<Rightarrow> (int \<times> byte list) option" where
  "core_read_into fn fn_ptr e n src junk name accs = map_option (run_reads e fn fn_ptr n src junk) (core_read name accs)"

definition BPF_CORE_READ_INTO where "BPF_CORE_READ_INTO = core_read_into bpf_core_read bpf_core_read"
definition BPF_CORE_READ_USER_INTO where "BPF_CORE_READ_USER_INTO = core_read_into bpf_core_read_user bpf_core_read_user"
definition BPF_PROBE_READ_INTO where "BPF_PROBE_READ_INTO = core_read_into bpf_probe_read_kernel bpf_probe_read_kernel"
definition BPF_PROBE_READ_USER_INTO where "BPF_PROBE_READ_USER_INTO = core_read_into bpf_probe_read_user bpf_probe_read_user"
definition BPF_CORE_READ_STR_INTO where "BPF_CORE_READ_STR_INTO = core_read_into bpf_core_read_str bpf_core_read"
definition BPF_CORE_READ_USER_STR_INTO where "BPF_CORE_READ_USER_STR_INTO = core_read_into bpf_core_read_user_str bpf_core_read_user"
definition BPF_PROBE_READ_STR_INTO where "BPF_PROBE_READ_STR_INTO = core_read_into bpf_probe_read_kernel_str bpf_probe_read_kernel"
definition BPF_PROBE_READ_USER_STR_INTO where "BPF_PROBE_READ_USER_STR_INTO = core_read_into bpf_probe_read_user_str bpf_probe_read_user"

text \<open>The macros with a value declare a local of the type \<open>src->a->...\<close>, of \<open>n\<close> bytes, and drop the result of the call.\<close>

definition core_read_value ::
  "(read_env \<Rightarrow> nat \<Rightarrow> u64 \<Rightarrow> u64 \<Rightarrow> string \<Rightarrow> string list \<Rightarrow> (int \<times> byte list) option) \<Rightarrow>
   read_env \<Rightarrow> nat \<Rightarrow> u64 \<Rightarrow> u64 \<Rightarrow> string \<Rightarrow> string list \<Rightarrow> byte list option" where
  "core_read_value into e n src junk name accs =
     Option.bind (core_arrow (name # accs)) (\<lambda>_. map_option snd (into e n src junk name accs))"

definition BPF_CORE_READ where "BPF_CORE_READ = core_read_value BPF_CORE_READ_INTO"
definition BPF_CORE_READ_USER where "BPF_CORE_READ_USER = core_read_value BPF_CORE_READ_USER_INTO"
definition BPF_PROBE_READ where "BPF_PROBE_READ = core_read_value BPF_PROBE_READ_INTO"
definition BPF_PROBE_READ_USER where "BPF_PROBE_READ_USER = core_read_value BPF_PROBE_READ_USER_INTO"

lemmas core_macros =
  BPF_CORE_READ_INTO_def BPF_CORE_READ_USER_INTO_def BPF_PROBE_READ_INTO_def BPF_PROBE_READ_USER_INTO_def
  BPF_CORE_READ_STR_INTO_def BPF_CORE_READ_USER_STR_INTO_def BPF_PROBE_READ_STR_INTO_def BPF_PROBE_READ_USER_STR_INTO_def
  BPF_CORE_READ_def BPF_CORE_READ_USER_def BPF_PROBE_READ_def BPF_PROBE_READ_USER_def

section \<open>The chain as it is meant\<close>

text \<open>\<open>src->a->b\<close>, read link by link; \<open>ty\<close> is the expression read so far.\<close>

fun follow :: "read_env \<Rightarrow> read_fn \<Rightarrow> string list \<Rightarrow> u64 \<Rightarrow> string list \<Rightarrow> u64" where
  "follow e fn ty p [] = p"
| "follow e fn ty p (a # as) =
     follow e fn (ty @ [a])
       (of_nat (c_num (re_big_endian e) (snd (re_probe e (fn_user fn) (fn_str fn) (p + re_offset e (fn_relocated fn) ty a) 8)))) as"

definition read_chain :: "read_fn \<Rightarrow> read_fn \<Rightarrow> read_env \<Rightarrow> nat \<Rightarrow> u64 \<Rightarrow> string \<Rightarrow> string list \<Rightarrow> int \<times> byte list" where
  "read_chain fn fn_ptr e n src name accs =
     re_probe e (fn_user fn) (fn_str fn)
       (follow e fn_ptr [name] src (butlast accs) + re_offset e (fn_relocated fn) (name # butlast accs) (last accs)) n"

section \<open>Facts\<close>

lemma core_narg_few:
  assumes "length args \<le> 10"
  shows "core_narg args = Some (K_num (length args))"
proof -
  let ?nums = "[10, 9, 8, 7, 6, 5, 4, 3, 2, 1, 0] :: nat list"
  have "?nums = rev [0..<11]"
    by (simp add: upt_rec)
  then have "map K_num ?nums ! (10 - length args) = K_num (length args)"
    using assms by (simp add: rev_nth)
  then show ?thesis
    using assms by (simp add: core_narg_def core_nth_def nth_append del: list.map)
qed

lemma core_narg_many: "10 < length args \<Longrightarrow> core_narg args = Some (K_arg (args ! 10))"
  by (simp add: core_narg_def core_nth_def nth_append)

lemma core_empty_eq:
  "core_empty args = Some (if args = [] then K_num 0 else if length args \<le> 10 then K_N else K_arg (args ! 10))"
proof -
  have ns: "[K_N, K_N, K_N, K_N, K_N, K_N, K_N, K_N, K_N, K_N, K_num 0] = replicate 10 K_N @ [K_num 0]"
    by (simp add: numeral_eq_Suc)
  show ?thesis
    unfolding core_empty_def ns by (cases args) (auto simp: core_nth_def nth_append)
qed

lemma apply_family_eq [simp]:
  "hi \<le> 10 \<Longrightarrow> apply_family lo hi f args = (if lo \<le> length args \<and> length args \<le> hi then Some (f args) else None)"
  by (cases "length args \<le> 10") (auto simp: apply_family_def core_narg_few core_narg_many)

lemmas argument_macros = core_last_def core_nolast_def core_arrow_def

text \<open>The pointer reads a list of accessors expands to.\<close>

definition ptr_reads :: "string \<Rightarrow> string list \<Rightarrow> rd_stmt list" where
  "ptr_reads src accs =
     map (\<lambda>k. Read_stmt (src # take k accs) (if k = 0 then From_src else From_t) (accs ! k)) [0..<length accs]"

lemma ptr_reads_Nil [simp]: "ptr_reads src [] = []"
  by (simp add: ptr_reads_def)

lemma ptr_reads_snoc:
  "ptr_reads src (accs @ [a]) = ptr_reads src accs @ [Read_stmt (src # accs) (if accs = [] then From_src else From_t) a]"
  by (auto simp: ptr_reads_def nth_append)

lemma ptr_reads_single [simp]: "ptr_reads src [a] = [Read_stmt [src] From_src a]"
  using ptr_reads_snoc [of src "[]"] by simp

lemma rd_last_eq: "2 \<le> length accs \<Longrightarrow> length accs \<le> 9 \<Longrightarrow>
  rd_last (src # accs) = Some [Read_stmt (src # butlast accs) From_t (last accs)]"
  by (cases accs rule: rev_cases) (auto simp: rd_last_def argument_macros)

lemma rd_p_eq:
  "\<lbrakk>length accs = n; 1 \<le> n; n \<le> 9\<rbrakk> \<Longrightarrow> rd_p n (src # accs) = Some (ptr_reads src accs)"
proof (induction n arbitrary: accs)
  case (Suc n)
  show ?case
  proof (cases n)
    case 0
    with Suc.prems(1) obtain a where "accs = [a]"
      by (auto simp: length_Suc_conv)
    with 0 show ?thesis
      by (simp add: rd_first_def argument_macros ptr_reads_def)
  next
    case (Suc m)
    obtain xs a where accs: "accs = xs @ [a]" "length xs = n"
      using Suc.prems(1) by (cases accs rule: rev_cases) auto
    have "rd_p n (src # xs) = Some (ptr_reads src xs)"
      using Suc.IH [of xs] Suc.prems(3) accs(2) Suc by simp
    moreover have "rd_last (src # accs) = Some [Read_stmt (src # xs) From_t a]"
      using rd_last_eq [of accs src] Suc.prems Suc by (simp add: accs)
    moreover have "xs \<noteq> []"
      using accs(2) Suc by auto
    ultimately show ?thesis
      using Suc.prems(3) Suc accs by (simp add: core_nolast_def ptr_reads_snoc)
  qed
qed simp

lemma core_read_eq:
  "core_read src accs =
     (if accs \<noteq> [] \<and> length accs \<le> 10
      then Some (ptr_reads src (butlast accs),
        Read_stmt (src # butlast accs) (if length accs = 1 then From_src else From_t) (last accs))
      else None)"
proof (cases accs rule: rev_cases)
  case (snoc xs a)
  have ptrs: "read_ptrs src xs = Some (ptr_reads src xs)" if "xs \<noteq> []" "length xs \<le> 9"
    using that rd_p_eq [of xs "length xs" src] by (cases xs) (simp_all add: read_ptrs_def core_narg_few)
  show ?thesis
  proof (cases "xs = []")
    case True
    with snoc show ?thesis
      by (simp add: core_read_def core_empty_eq core_read0_def core_arrow_def ptr_reads_def)
  next
    case False
    then have "core_empty (tl accs) = Some (if length xs \<le> 10 then K_N else K_arg (tl accs ! 10))"
      using snoc by (simp add: core_empty_eq)
    then show ?thesis
      using snoc False ptrs by (auto simp: core_read_def core_readN_def argument_macros Suc_le_eq)
  qed
qed (simp add: core_read_def core_empty_eq core_read0_def)

lemma follow_snoc:
  "follow e fn ty p (as @ [a]) =
     of_nat (c_num (re_big_endian e)
       (snd (re_probe e (fn_user fn) (fn_str fn) (follow e fn ty p as + re_offset e (fn_relocated fn) (ty @ as) a) 8)))"
  by (induction as arbitrary: ty p) simp_all

lemma run_ptr_reads: "accs \<noteq> [] \<Longrightarrow> fold (run_ptr_read e fn src) (ptr_reads name accs) junk = follow e fn [name] src accs"
proof (induction accs rule: rev_induct)
  case (snoc a accs)
  then show ?case
    by (cases "accs = []") (auto simp: ptr_reads_snoc follow_snoc run_ptr_read_def [of e fn src "Read_stmt _ _ _"] call_read_def)
qed simp

lemma core_read_into_eq:
  "core_read_into fn fn_ptr e n src junk name accs =
     (if accs \<noteq> [] \<and> length accs \<le> 10 then Some (read_chain fn fn_ptr e n src name accs) else None)"
proof (cases "accs \<noteq> [] \<and> length accs \<le> 10")
  case True
  then show ?thesis
  proof (cases "butlast accs = []")
    case False
    with True show ?thesis
      by (cases accs rule: rev_cases)
        (auto simp: core_read_into_def core_read_eq run_reads_def call_read_def run_ptr_reads read_chain_def)
  next
    case one: True
    with True show ?thesis
      by (cases accs rule: rev_cases)
        (auto simp: core_read_into_def core_read_eq run_reads_def call_read_def ptr_reads_def read_chain_def)
  qed
qed (auto simp: core_read_into_def core_read_eq)

lemma follow_null:
  assumes "\<And>ty a. c_num (re_big_endian e) (snd (re_probe e (fn_user fn) (fn_str fn) (re_offset e (fn_relocated fn) ty a) 8)) = 0"
  shows "follow e fn ty 0 as = 0"
  by (induction as arbitrary: ty) (simp_all add: assms)

lemma follow_append: "follow e fn ty p (as @ bs) = follow e fn (ty @ as) (follow e fn ty p as) bs"
  by (induction as arbitrary: ty p) simp_all

lemma c_num_zeros [simp]: "c_num be (replicate n 0) = 0"
  by (simp add: c_num_def le_at_def foldr_zero_bytes del: foldr_replicate)

text \<open>
  What a chain macro promises: to read link by link with the helper \<open>fn_ptr\<close>, and the last link with \<open>fn\<close>. The
  macros with a destination give the result of the last call with the bytes it left; the macros with a value give the bytes.
\<close>

definition reads_into ::
    "read_fn \<Rightarrow> read_fn \<Rightarrow> (read_env \<Rightarrow> nat \<Rightarrow> u64 \<Rightarrow> u64 \<Rightarrow> string \<Rightarrow> string list \<Rightarrow> (int \<times> byte list) option) \<Rightarrow> bool" where
  "reads_into fn fn_ptr macro \<longleftrightarrow>
     (\<forall>e n src junk name accs. macro e n src junk name accs =
        (if accs \<noteq> [] \<and> length accs \<le> 10 then Some (read_chain fn fn_ptr e n src name accs) else None))"

definition reads_value ::
    "read_fn \<Rightarrow> (read_env \<Rightarrow> nat \<Rightarrow> u64 \<Rightarrow> u64 \<Rightarrow> string \<Rightarrow> string list \<Rightarrow> byte list option) \<Rightarrow> bool" where
  "reads_value fn macro \<longleftrightarrow>
     (\<forall>e n src junk name accs. macro e n src junk name accs =
        (if accs \<noteq> [] \<and> length accs \<le> 9 then Some (snd (read_chain fn fn e n src name accs)) else None))"

lemma core_read_into_reads: "reads_into fn fn_ptr (core_read_into fn fn_ptr)"
  by (simp add: reads_into_def core_read_into_eq)

lemma core_read_value_reads: "reads_value fn (core_read_value (core_read_into fn fn))"
  by (auto simp: reads_value_def core_read_value_def core_read_into_eq core_arrow_def)

section \<open>Properties\<close>

text \<open>
  C10: each of the twelve chain macros reads what \<open>src->a->b->...\<close> denotes, link by link from the source, each link at the
  offset of its accessor in the type of the expression before it, with the pointer helper of the variant (kernel or user
  memory, relocated or not), and the last one with its own helper (the string helper for the four string variants). The
  eight macros with a destination expand for one to ten accessors and return the result of the last
  call, the four macros with a value for one to nine, and no use with more or none compiles.
\<close>

theorem core_read_follows_pointers:
  "reads_into (Read_fn True False False) (Read_fn True False False) BPF_CORE_READ_INTO \<and>
   reads_into (Read_fn True True False) (Read_fn True True False) BPF_CORE_READ_USER_INTO \<and>
   reads_into (Read_fn False False False) (Read_fn False False False) BPF_PROBE_READ_INTO \<and>
   reads_into (Read_fn False True False) (Read_fn False True False) BPF_PROBE_READ_USER_INTO \<and>
   reads_into (Read_fn True False True) (Read_fn True False False) BPF_CORE_READ_STR_INTO \<and>
   reads_into (Read_fn True True True) (Read_fn True True False) BPF_CORE_READ_USER_STR_INTO \<and>
   reads_into (Read_fn False False True) (Read_fn False False False) BPF_PROBE_READ_STR_INTO \<and>
   reads_into (Read_fn False True True) (Read_fn False True False) BPF_PROBE_READ_USER_STR_INTO \<and>
   reads_value (Read_fn True False False) BPF_CORE_READ \<and>
   reads_value (Read_fn True True False) BPF_CORE_READ_USER \<and>
   reads_value (Read_fn False False False) BPF_PROBE_READ \<and>
   reads_value (Read_fn False True False) BPF_PROBE_READ_USER"
  by (simp add: core_macros read_functions core_read_into_reads core_read_value_reads)

text \<open>
  A chain that breaks is noticed, although the macro looks at the last call only, under three conditions that the headers do
  not state: the helpers fill the destination with zeros when they fail, nothing can be read in the first page, and every
  field offset stays in it. Then the macro returns an error and zeros as soon as any link of the chain cannot be read.
\<close>

theorem broken_chain_noticed:
  assumes "\<And>user str a m. fst (re_probe e user str a m) < 0 \<Longrightarrow> snd (re_probe e user str a m) = replicate m 0"
    and "\<And>user str a m. a < 4096 \<Longrightarrow> fst (re_probe e user str a m) < 0"
    and "\<And>r ty a. re_offset e r ty a < 4096"
    and "length accs \<le> 10" and "k < length accs - 1"
    and "fst (re_probe e (fn_user fn_ptr) (fn_str fn_ptr)
      (follow e fn_ptr [name] src (take k accs) + re_offset e (fn_relocated fn_ptr) (name # take k accs) (accs ! k)) 8) < 0"
  shows "\<exists>err < 0. core_read_into fn fn_ptr e n src junk name accs = Some (err, replicate n 0)"
proof -
  have null: "follow e fn_ptr ty 0 as = 0" for ty as
    using assms(1-3) by (intro follow_null) simp
  have "k < length (butlast accs)"
    using assms(5) by simp
  from id_take_nth_drop [OF this] have "butlast accs = take k accs @ accs ! k # drop (Suc k) (butlast accs)"
    using assms(5) by (simp add: nth_butlast take_butlast)
  then have "follow e fn_ptr [name] src (butlast accs) =
      follow e fn_ptr ([name] @ take k accs) (follow e fn_ptr [name] src (take k accs)) (accs ! k # drop (Suc k) (butlast accs))"
    by (simp only: flip: follow_append)
  also have "\<dots> = 0"
    using assms(1) [OF assms(6)] null by simp
  finally have chain: "follow e fn_ptr [name] src (butlast accs) = 0" .
  have accs: "accs \<noteq> []"
    using assms(5) by auto
  obtain err bs where r: "re_probe e (fn_user fn) (fn_str fn) (re_offset e (fn_relocated fn) (name # butlast accs) (last accs)) n = (err, bs)"
    by fastforce
  then have "err < 0" "bs = replicate n 0"
    using assms(1-3) by (metis fst_conv, metis fst_conv snd_conv)
  then show ?thesis
    using accs assms(4) r by (simp add: core_read_into_eq read_chain_def chain)
qed

text \<open>A chain of three accessors whose first pointer is null.\<close>

definition null_link :: read_env where
  "null_link = \<lparr>re_big_endian = False, re_offset = (\<lambda>r ty a. 16),
     re_probe = (\<lambda>user str a m. if a < 4096 then (- 14, replicate m 0) else (0, replicate m 0))\<rparr>"

lemma null_link_fields [simp]:
  "re_big_endian null_link = False" "re_offset null_link r ty a = 16"
  "re_probe null_link user str p m = (if p < 4096 then (- 14, replicate m 0) else (0, replicate m 0))"
  by (simp_all add: null_link_def)

lemma broken_chain_example:
  "\<exists>err < 0. core_read_into bpf_core_read bpf_core_read null_link 4 8192 77 ''task'' [''mm'', ''owner'', ''pid''] =
    Some (err, replicate 4 0)"
  by (rule broken_chain_noticed [where k = 1]) (simp_all split: if_splits)

end
