(* ===== verification/Pt_Regs.thy ===== *)
theory Pt_Regs
  imports Core_Chain
begin

text \<open>
  Registers in bpf_tracing.h: which register of \<open>struct pt_regs\<close> holds which argument, for every architecture the
  header knows, and the macros that read them, \<open>PT_REGS_PARM1\<close> to \<open>PT_REGS_IP\<close>, their variants for
  system calls and the reads of a return address. What the macros expand to is an expression; what an expression
  evaluates to depends on where the registers are in memory, which the kernel's headers say: a parameter.
\<close>

section \<open>The architecture\<close>

text \<open>The macros defined when the header is read, with their texts.\<close>

type_synonym macros = "string \<Rightarrow> string option"

datatype bpf_arch =
    Arch_x86 | Arch_s390 | Arch_arm | Arch_arm64 | Arch_mips | Arch_powerpc | Arch_sparc | Arch_riscv | Arch_arc | Arch_loongarch

definition defined :: "macros \<Rightarrow> string \<Rightarrow> bool" where
  "defined D m \<longleftrightarrow> D m \<noteq> None"

text \<open>\<open>bpf_target_<arch>\<close>: what the build names, or else what the compiler says; nothing when neither knows.\<close>

definition bpf_target :: "macros \<Rightarrow> bpf_arch option" where
  "bpf_target D =
     (if defined D ''__TARGET_ARCH_x86'' then Some Arch_x86
      else if defined D ''__TARGET_ARCH_s390'' then Some Arch_s390
      else if defined D ''__TARGET_ARCH_arm'' then Some Arch_arm
      else if defined D ''__TARGET_ARCH_arm64'' then Some Arch_arm64
      else if defined D ''__TARGET_ARCH_mips'' then Some Arch_mips
      else if defined D ''__TARGET_ARCH_powerpc'' then Some Arch_powerpc
      else if defined D ''__TARGET_ARCH_sparc'' then Some Arch_sparc
      else if defined D ''__TARGET_ARCH_riscv'' then Some Arch_riscv
      else if defined D ''__TARGET_ARCH_arc'' then Some Arch_arc
      else if defined D ''__TARGET_ARCH_loongarch'' then Some Arch_loongarch
      else if defined D ''__x86_64__'' then Some Arch_x86
      else if defined D ''__s390__'' then Some Arch_s390
      else if defined D ''__arm__'' then Some Arch_arm
      else if defined D ''__aarch64__'' then Some Arch_arm64
      else if defined D ''__mips__'' then Some Arch_mips
      else if defined D ''__powerpc__'' then Some Arch_powerpc
      else if defined D ''__sparc__'' then Some Arch_sparc
      else if defined D ''__riscv'' \<and> D ''__riscv_xlen'' = Some ''64'' then Some Arch_riscv
      else if defined D ''__arc__'' then Some Arch_arc
      else if defined D ''__loongarch__'' then Some Arch_loongarch
      else None)"

section \<open>The registers of each architecture\<close>

text \<open>
  \<open>pt_cast\<close> is the structure \<open>__PT_REGS_CAST\<close> casts to, where the architecture overrides it. \<open>pt_parm\<close> and
  \<open>pt_syscall\<close> are the texts of \<open>__PT_PARM<n>_REG\<close> and \<open>__PT_PARM<n>_SYSCALL_REG\<close>, from the first on, with the
  macros in them expanded. Where the architecture defines \<open>PT_REGS_PARM1_SYSCALL\<close> itself, \<open>pt_sys1\<close> is the structure
  the register is read from and \<open>pt_sys1_core\<close> says whether the plain macro reads it like the one for CO-RE.
  \<open>pt_sysregs_ctx\<close>: the architecture defines \<open>PT_REGS_SYSCALL_REGS\<close> as the context itself.
\<close>

record pt_regs_tab =
  pt_cast :: "string option"
  pt_parm :: "string list"
  pt_syscall :: "string list"
  pt_sys1 :: "string option"
  pt_sys1_core :: bool
  pt_sysregs_ctx :: bool
  pt_ret :: string
  pt_fp :: string
  pt_rc :: string
  pt_sp :: string
  pt_ip :: string

definition x86_kernel_regs :: pt_regs_tab where
  "x86_kernel_regs =
     \<lparr>pt_cast = None,
       pt_parm = [''di'', ''si'', ''dx'', ''cx'', ''r8'', ''r9''],
       pt_syscall = [''di'', ''si'', ''dx'', ''r10'', ''r8'', ''r9''],
       pt_sys1 = None, pt_sys1_core = False, pt_sysregs_ctx = False,
       pt_ret = ''sp'', pt_fp = ''bp'', pt_rc = ''ax'', pt_sp = ''sp'', pt_ip = ''ip''\<rparr>"

definition x86_i386_regs :: pt_regs_tab where
  "x86_i386_regs =
     \<lparr>pt_cast = None,
       pt_parm = [''eax'', ''edx'', ''ecx''],
       pt_syscall = [''ebx'', ''ecx'', ''edx'', ''esi'', ''edi'', ''ebp''],
       pt_sys1 = None, pt_sys1_core = False, pt_sysregs_ctx = False,
       pt_ret = ''esp'', pt_fp = ''ebp'', pt_rc = ''eax'', pt_sp = ''esp'', pt_ip = ''eip''\<rparr>"

definition x86_64_regs :: pt_regs_tab where
  "x86_64_regs =
     \<lparr>pt_cast = None,
       pt_parm = [''rdi'', ''rsi'', ''rdx'', ''rcx'', ''r8'', ''r9''],
       pt_syscall = [''rdi'', ''rsi'', ''rdx'', ''r10'', ''r8'', ''r9''],
       pt_sys1 = None, pt_sys1_core = False, pt_sysregs_ctx = False,
       pt_ret = ''rsp'', pt_fp = ''rbp'', pt_rc = ''rax'', pt_sp = ''rsp'', pt_ip = ''rip''\<rparr>"

definition s390_regs :: pt_regs_tab where
  "s390_regs =
     \<lparr>pt_cast = Some ''user_pt_regs'',
       pt_parm = [''gprs[2]'', ''gprs[3]'', ''gprs[4]'', ''gprs[5]'', ''gprs[6]''],
       pt_syscall = [''orig_gpr2'', ''gprs[3]'', ''gprs[4]'', ''gprs[5]'', ''gprs[6]'', ''gprs[7]''],
       pt_sys1 = Some ''struct pt_regs___s390'', pt_sys1_core = False, pt_sysregs_ctx = False,
       pt_ret = ''gprs[14]'', pt_fp = ''gprs[11]'', pt_rc = ''gprs[2]'', pt_sp = ''gprs[15]'', pt_ip = ''psw.addr''\<rparr>"

definition arm_regs :: pt_regs_tab where
  "arm_regs =
     \<lparr>pt_cast = None,
       pt_parm = [''uregs[0]'', ''uregs[1]'', ''uregs[2]'', ''uregs[3]''],
       pt_syscall = [''uregs[0]'', ''uregs[1]'', ''uregs[2]'', ''uregs[3]'', ''uregs[4]'', ''uregs[5]'', ''uregs[6]''],
       pt_sys1 = None, pt_sys1_core = False, pt_sysregs_ctx = False,
       pt_ret = ''uregs[14]'', pt_fp = ''uregs[11]'', pt_rc = ''uregs[0]'', pt_sp = ''uregs[13]'', pt_ip = ''uregs[12]''\<rparr>"

definition arm64_regs :: pt_regs_tab where
  "arm64_regs =
     \<lparr>pt_cast = Some ''struct user_pt_regs'',
       pt_parm = [''regs[0]'', ''regs[1]'', ''regs[2]'', ''regs[3]'', ''regs[4]'', ''regs[5]'', ''regs[6]'', ''regs[7]''],
       pt_syscall = [''orig_x0'', ''regs[1]'', ''regs[2]'', ''regs[3]'', ''regs[4]'', ''regs[5]''],
       pt_sys1 = Some ''struct pt_regs___arm64'', pt_sys1_core = False, pt_sysregs_ctx = False,
       pt_ret = ''regs[30]'', pt_fp = ''regs[29]'', pt_rc = ''regs[0]'', pt_sp = ''sp'', pt_ip = ''pc''\<rparr>"

definition mips_regs :: pt_regs_tab where
  "mips_regs =
     \<lparr>pt_cast = None,
       pt_parm = [''regs[4]'', ''regs[5]'', ''regs[6]'', ''regs[7]'', ''regs[8]'', ''regs[9]'', ''regs[10]'', ''regs[11]''],
       pt_syscall = [''regs[4]'', ''regs[5]'', ''regs[6]'', ''regs[7]'', ''regs[8]'', ''regs[9]''],
       pt_sys1 = None, pt_sys1_core = False, pt_sysregs_ctx = False,
       pt_ret = ''regs[31]'', pt_fp = ''regs[30]'', pt_rc = ''regs[2]'', pt_sp = ''regs[29]'', pt_ip = ''cp0_epc''\<rparr>"

definition powerpc_regs :: "bool \<Rightarrow> pt_regs_tab" where
  "powerpc_regs arch64 =
     \<lparr>pt_cast = None,
       pt_parm = [''gpr[3]'', ''gpr[4]'', ''gpr[5]'', ''gpr[6]'', ''gpr[7]'', ''gpr[8]'', ''gpr[9]'', ''gpr[10]''],
       pt_syscall = [''orig_gpr3'', ''gpr[4]'', ''gpr[5]'', ''gpr[6]'', ''gpr[7]'', ''gpr[8]''] @ (if arch64 then [] else [''gpr[9]'']),
       pt_sys1 = None, pt_sys1_core = False, pt_sysregs_ctx = True,
       pt_ret = ''regs[31]'', pt_fp = ''__unsupported__'', pt_rc = ''gpr[3]'', pt_sp = ''sp'', pt_ip = ''nip''\<rparr>"

definition sparc_regs :: "bool \<Rightarrow> pt_regs_tab" where
  "sparc_regs arch64 =
     \<lparr>pt_cast = None,
       pt_parm = [''u_regs[UREG_I0]'', ''u_regs[UREG_I1]'', ''u_regs[UREG_I2]'', ''u_regs[UREG_I3]'', ''u_regs[UREG_I4]'', ''u_regs[UREG_I5]''],
       pt_syscall = [''u_regs[UREG_I0]'', ''u_regs[UREG_I1]'', ''u_regs[UREG_I2]'', ''u_regs[UREG_I3]'', ''u_regs[UREG_I4]'', ''u_regs[UREG_I5]''],
       pt_sys1 = None, pt_sys1_core = False, pt_sysregs_ctx = False,
       pt_ret = ''u_regs[UREG_I7]'', pt_fp = ''__unsupported__'', pt_rc = ''u_regs[UREG_I0]'', pt_sp = ''u_regs[UREG_FP]'', pt_ip = (if arch64 then ''tpc'' else ''pc'')\<rparr>"

definition riscv_regs :: pt_regs_tab where
  "riscv_regs =
     \<lparr>pt_cast = Some ''struct user_regs_struct'',
       pt_parm = [''a0'', ''a1'', ''a2'', ''a3'', ''a4'', ''a5'', ''a6'', ''a7''],
       pt_syscall = [''orig_a0'', ''a1'', ''a2'', ''a3'', ''a4'', ''a5''],
       pt_sys1 = Some ''struct pt_regs___riscv'', pt_sys1_core = False, pt_sysregs_ctx = False,
       pt_ret = ''ra'', pt_fp = ''s0'', pt_rc = ''a0'', pt_sp = ''sp'', pt_ip = ''pc''\<rparr>"

definition arc_regs :: pt_regs_tab where
  "arc_regs =
     \<lparr>pt_cast = Some ''struct user_regs_struct'',
       pt_parm = [''scratch.r0'', ''scratch.r1'', ''scratch.r2'', ''scratch.r3'', ''scratch.r4'', ''scratch.r5'', ''scratch.r6'', ''scratch.r7''],
       pt_syscall = [''scratch.r0'', ''scratch.r1'', ''scratch.r2'', ''scratch.r3'', ''scratch.r4'', ''scratch.r5''],
       pt_sys1 = None, pt_sys1_core = False, pt_sysregs_ctx = True,
       pt_ret = ''scratch.blink'', pt_fp = ''scratch.fp'', pt_rc = ''scratch.r0'', pt_sp = ''scratch.sp'', pt_ip = ''scratch.ret''\<rparr>"

definition loongarch_regs :: pt_regs_tab where
  "loongarch_regs =
     \<lparr>pt_cast = Some ''struct user_pt_regs'',
       pt_parm = [''regs[4]'', ''regs[5]'', ''regs[6]'', ''regs[7]'', ''regs[8]'', ''regs[9]'', ''regs[10]'', ''regs[11]''],
       pt_syscall = [''regs[4]'', ''regs[5]'', ''regs[6]'', ''regs[7]'', ''regs[8]'', ''regs[9]''],
       pt_sys1 = None, pt_sys1_core = False, pt_sysregs_ctx = True,
       pt_ret = ''regs[1]'', pt_fp = ''regs[22]'', pt_rc = ''regs[4]'', pt_sp = ''regs[3]'', pt_ip = ''csr_era''\<rparr>"

definition pt_tab :: "macros \<Rightarrow> pt_regs_tab option" where
  "pt_tab D = map_option (\<lambda>arch. case arch of
       Arch_x86 \<Rightarrow>
         if defined D ''__KERNEL__'' \<or> defined D ''__VMLINUX_H__'' then x86_kernel_regs
         else if defined D ''__i386__'' then x86_i386_regs
         else x86_64_regs
     | Arch_s390 \<Rightarrow> s390_regs
     | Arch_arm \<Rightarrow> arm_regs
     | Arch_arm64 \<Rightarrow> arm64_regs
     | Arch_mips \<Rightarrow> mips_regs
     | Arch_powerpc \<Rightarrow> powerpc_regs (defined D ''__arch64__'')
     | Arch_sparc \<Rightarrow> sparc_regs (defined D ''__arch64__'')
     | Arch_riscv \<Rightarrow> riscv_regs
     | Arch_arc \<Rightarrow> arc_regs
     | Arch_loongarch \<Rightarrow> loongarch_regs) (bpf_target D)"

text \<open>
  The fallbacks: the parameters 4 to 8 and the seventh of a system call are \<open>__unsupported__\<close> where the architecture
  does not define them; any other macro that is not defined stays as it is written.
\<close>

definition unsupported :: string where
  "unsupported = ''__unsupported__''"

definition parm_reg :: "pt_regs_tab \<Rightarrow> nat \<Rightarrow> string" where
  "parm_reg tb n =
     (if n \<le> length (pt_parm tb) then pt_parm tb ! (n - 1)
      else if 4 \<le> n then unsupported
      else ''__PT_PARM'' @ dec_nat n @ ''_REG'')"

definition syscall_reg :: "pt_regs_tab \<Rightarrow> nat \<Rightarrow> string" where
  "syscall_reg tb n =
     (if n \<le> length (pt_syscall tb) then pt_syscall tb ! (n - 1)
      else if n = 7 then unsupported
      else ''__PT_PARM'' @ dec_nat n @ ''_SYSCALL_REG'')"

definition pt_struct :: "pt_regs_tab \<Rightarrow> string" where
  "pt_struct tb = (case pt_cast tb of None \<Rightarrow> ''struct pt_regs'' | Some t \<Rightarrow> t)"

section \<open>The macros\<close>

text \<open>
  \<open>E_arrow t x m\<close> is \<open>((const t *)(x))->m\<close> and \<open>E_core t x m\<close> is \<open>BPF_CORE_READ((const t *)(x), m)\<close>. \<open>E_missing\<close> is
  \<open>({ _Pragma(__BPF_TARGET_MISSING); 0l; })\<close>, which makes the compilation fail: what every macro stands for
  when there is no architecture.
\<close>

datatype c_expr = E_ctx | E_regs | E_arrow string c_expr string | E_core string c_expr string | E_missing

definition no_target :: c_expr where
  "no_target = E_missing"

definition pt_arrow :: "pt_regs_tab option \<Rightarrow> (pt_regs_tab \<Rightarrow> string) \<Rightarrow> c_expr \<Rightarrow> c_expr" where
  "pt_arrow tb reg x = (case tb of None \<Rightarrow> no_target | Some tb \<Rightarrow> E_arrow (pt_struct tb) x (reg tb))"

definition pt_core :: "pt_regs_tab option \<Rightarrow> (pt_regs_tab \<Rightarrow> string) \<Rightarrow> c_expr \<Rightarrow> c_expr" where
  "pt_core tb reg x = (case tb of None \<Rightarrow> no_target | Some tb \<Rightarrow> E_core (pt_struct tb) x (reg tb))"

text \<open>The macros with a number in their name exist for 1 to 8, for system calls for 1 to 7.\<close>

definition PT_REGS_PARM :: "pt_regs_tab option \<Rightarrow> nat \<Rightarrow> c_expr \<Rightarrow> c_expr option" where
  "PT_REGS_PARM tb n x = (if 1 \<le> n \<and> n \<le> 8 then Some (pt_arrow tb (\<lambda>t. parm_reg t n) x) else None)"

definition PT_REGS_RET where "PT_REGS_RET tb = pt_arrow tb pt_ret"
definition PT_REGS_FP where "PT_REGS_FP tb = pt_arrow tb pt_fp"
definition PT_REGS_RC where "PT_REGS_RC tb = pt_arrow tb pt_rc"
definition PT_REGS_SP where "PT_REGS_SP tb = pt_arrow tb pt_sp"
definition PT_REGS_IP where "PT_REGS_IP tb = pt_arrow tb pt_ip"

definition PT_REGS_PARM_CORE :: "pt_regs_tab option \<Rightarrow> nat \<Rightarrow> c_expr \<Rightarrow> c_expr option" where
  "PT_REGS_PARM_CORE tb n x = (if 1 \<le> n \<and> n \<le> 8 then Some (pt_core tb (\<lambda>t. parm_reg t n) x) else None)"

definition PT_REGS_RET_CORE where "PT_REGS_RET_CORE tb = pt_core tb pt_ret"
definition PT_REGS_FP_CORE where "PT_REGS_FP_CORE tb = pt_core tb pt_fp"
definition PT_REGS_RC_CORE where "PT_REGS_RC_CORE tb = pt_core tb pt_rc"
definition PT_REGS_SP_CORE where "PT_REGS_SP_CORE tb = pt_core tb pt_sp"
definition PT_REGS_IP_CORE where "PT_REGS_IP_CORE tb = pt_core tb pt_ip"

text \<open>The first macro for system calls is the one of the architecture, where it has one.\<close>

definition syscall_struct :: "pt_regs_tab \<Rightarrow> nat \<Rightarrow> string" where
  "syscall_struct tb n = (case pt_sys1 tb of Some t \<Rightarrow> if n = 1 then t else pt_struct tb | None \<Rightarrow> pt_struct tb)"

definition PT_REGS_PARM_CORE_SYSCALL :: "pt_regs_tab option \<Rightarrow> nat \<Rightarrow> c_expr \<Rightarrow> c_expr option" where
  "PT_REGS_PARM_CORE_SYSCALL tb n x =
     (if 1 \<le> n \<and> n \<le> 7 then
        Some (case tb of None \<Rightarrow> no_target | Some t \<Rightarrow> E_core (syscall_struct t n) x (syscall_reg t n))
      else None)"

definition PT_REGS_PARM_SYSCALL :: "pt_regs_tab option \<Rightarrow> nat \<Rightarrow> c_expr \<Rightarrow> c_expr option" where
  "PT_REGS_PARM_SYSCALL tb n x =
     (if 1 \<le> n \<and> n \<le> 7 then
        Some (case tb of None \<Rightarrow> no_target
          | Some t \<Rightarrow>
              if pt_sys1 t \<noteq> None \<and> pt_sys1_core t \<and> n = 1 then E_core (syscall_struct t n) x (syscall_reg t n)
              else E_arrow (syscall_struct t n) x (syscall_reg t n))
      else None)"

definition PT_REGS_SYSCALL_REGS :: "pt_regs_tab option \<Rightarrow> c_expr \<Rightarrow> c_expr option" where
  "PT_REGS_SYSCALL_REGS tb ctx =
     (case tb of None \<Rightarrow> PT_REGS_PARM tb 1 ctx | Some t \<Rightarrow> if pt_sysregs_ctx t then Some ctx else PT_REGS_PARM tb 1 ctx)"

text \<open>
  The return address of a probed function: an expression, or what a probe read finds at an expression plus
  a number of bytes.
\<close>

datatype ret_ip = Ip_expr c_expr | Ip_probe c_expr nat

definition BPF_KPROBE_READ_RET_IP :: "bpf_arch option \<Rightarrow> pt_regs_tab option \<Rightarrow> c_expr \<Rightarrow> ret_ip" where
  "BPF_KPROBE_READ_RET_IP arch tb ctx =
     (case arch of
        None \<Rightarrow> Ip_expr no_target
      | Some Arch_powerpc \<Rightarrow> Ip_expr (E_arrow ''struct pt_regs'' ctx ''link'')
      | Some Arch_sparc \<Rightarrow> Ip_expr (PT_REGS_RET tb ctx)
      | Some Arch_arm64 \<Rightarrow> Ip_expr (PT_REGS_RET tb ctx)
      | Some _ \<Rightarrow> Ip_probe (PT_REGS_RET tb ctx) 0)"

definition BPF_KRETPROBE_READ_RET_IP :: "bpf_arch option \<Rightarrow> pt_regs_tab option \<Rightarrow> nat \<Rightarrow> c_expr \<Rightarrow> ret_ip" where
  "BPF_KRETPROBE_READ_RET_IP arch tb sizeof_ip ctx =
     (if arch \<in> {None, Some Arch_powerpc, Some Arch_sparc, Some Arch_arm64} then BPF_KPROBE_READ_RET_IP arch tb ctx
      else Ip_probe (PT_REGS_FP tb ctx) sizeof_ip)"

section \<open>Evaluation\<close>

text \<open>
  \<open>pe_member\<close> gives the size of a member of a structure and whether it is signed, nothing where the structure has no such
  member; \<open>pe_offset\<close> where it is in the structure; \<open>pe_load\<close> the bytes of a direct access. A probe read goes through
  \<open>BPF_CORE_READ\<close>.
\<close>

record probe_env = read_env +
  pe_member :: "string \<Rightarrow> string \<Rightarrow> (nat \<times> bool) option"
  pe_offset :: "string \<Rightarrow> string \<Rightarrow> u64"
  pe_load :: "u64 \<Rightarrow> nat \<Rightarrow> byte list"

text \<open>The conversion of a number of \<open>n\<close> bytes to \<open>unsigned long long\<close>.\<close>

definition to_u64 :: "nat \<times> bool \<Rightarrow> nat \<Rightarrow> u64" where
  "to_u64 m v = (case m of (n, is_signed) \<Rightarrow> if is_signed \<and> 0 < n then signed_take_bit (8 * n - 1) (of_nat v) else of_nat v)"

fun c_type_ok :: "probe_env \<Rightarrow> c_expr \<Rightarrow> bool" where
  "c_type_ok e E_ctx = True"
| "c_type_ok e E_regs = True"
| "c_type_ok e (E_arrow t x m) = (c_type_ok e x \<and> pe_member e t m \<noteq> None)"
| "c_type_ok e (E_core t x m) = (c_type_ok e x \<and> pe_member e t m \<noteq> None)"
| "c_type_ok e E_missing = False"

fun c_eval :: "probe_env \<Rightarrow> u64 \<Rightarrow> u64 \<Rightarrow> c_expr \<Rightarrow> u64 option" where
  "c_eval e ctx regs E_ctx = Some ctx"
| "c_eval e ctx regs E_regs = Some regs"
| "c_eval e ctx regs (E_arrow t x m) =
     Option.bind (c_eval e ctx regs x) (\<lambda>p. map_option (\<lambda>k.
       to_u64 k (c_num (re_big_endian e) (pe_load e (p + pe_offset e t m) (fst k)))) (pe_member e t m))"
| "c_eval e ctx regs (E_core t x m) =
     Option.bind (c_eval e ctx regs x) (\<lambda>p. Option.bind (pe_member e t m) (\<lambda>k.
       map_option (\<lambda>bs. to_u64 k (c_num (re_big_endian e) bs)) (BPF_CORE_READ (read_env.truncate e) (fst k) p 0 t [m])))"
| "c_eval e ctx regs E_missing = None"

section \<open>Facts\<close>

lemmas arch_tables =
  x86_kernel_regs_def x86_i386_regs_def x86_64_regs_def s390_regs_def arm_regs_def arm64_regs_def mips_regs_def
  powerpc_regs_def sparc_regs_def riscv_regs_def arc_regs_def loongarch_regs_def

lemma core_read_one:
  "BPF_CORE_READ env n p junk t [m] = Some (snd (re_probe env False False (p + re_offset env True [t] m) n))"
  by (simp add: core_macros core_read_value_def core_read_into_def core_read_def core_empty_def core_nth_def
      core_read0_def core_arrow_def apply_family_def core_narg_def bpf_core_read_def run_reads_def call_read_def)

text \<open>An expression has a value exactly when it compiles.\<close>

lemma c_eval_defined: "(\<exists>v. c_eval e ctx regs x = Some v) \<longleftrightarrow> c_type_ok e x"
  by (induction x) (auto simp: bind_eq_Some_conv core_read_one)

end
