(* ===== verification/Pt_Regs_Old.thy ===== *)
theory Pt_Regs_Old
  imports Pt_Regs
begin

text \<open>
  The register tables of the older copy of bpf_tracing.h, the one beside bpftool's bootstrap build, and how they
  differ from those of the copy the programs are compiled with.
\<close>

definition old_x86_kernel_regs :: pt_regs_tab where
  "old_x86_kernel_regs =
     \<lparr>pt_cast = None,
       pt_parm = [''di'', ''si'', ''dx'', ''cx'', ''r8'', ''r9''],
       pt_syscall = [''di'', ''si'', ''dx'', ''r10'', ''r8'', ''r9''],
       pt_sys1 = None, pt_sys1_core = False, pt_sysregs_ctx = False,
       pt_ret = ''sp'', pt_fp = ''bp'', pt_rc = ''ax'', pt_sp = ''sp'', pt_ip = ''ip''\<rparr>"

definition old_x86_i386_regs :: pt_regs_tab where
  "old_x86_i386_regs =
     \<lparr>pt_cast = None,
       pt_parm = [''eax'', ''edx'', ''ecx''],
       pt_syscall = [''ebx'', ''ecx'', ''edx'', ''esi'', ''edi'', ''ebp''],
       pt_sys1 = None, pt_sys1_core = False, pt_sysregs_ctx = False,
       pt_ret = ''esp'', pt_fp = ''ebp'', pt_rc = ''eax'', pt_sp = ''esp'', pt_ip = ''eip''\<rparr>"

definition old_x86_64_regs :: pt_regs_tab where
  "old_x86_64_regs =
     \<lparr>pt_cast = None,
       pt_parm = [''rdi'', ''rsi'', ''rdx'', ''rcx'', ''r8'', ''r9''],
       pt_syscall = [''rdi'', ''rsi'', ''rdx'', ''r10'', ''r8'', ''r9''],
       pt_sys1 = None, pt_sys1_core = False, pt_sysregs_ctx = False,
       pt_ret = ''rsp'', pt_fp = ''rbp'', pt_rc = ''rax'', pt_sp = ''rsp'', pt_ip = ''rip''\<rparr>"

definition old_s390_regs :: pt_regs_tab where
  "old_s390_regs =
     \<lparr>pt_cast = Some ''user_pt_regs'',
       pt_parm = [''gprs[2]'', ''gprs[3]'', ''gprs[4]'', ''gprs[5]'', ''gprs[6]''],
       pt_syscall = [''orig_gpr2'', ''gprs[3]'', ''gprs[4]'', ''gprs[5]'', ''gprs[6]'', ''gprs[7]''],
       pt_sys1 = Some ''struct pt_regs___s390'', pt_sys1_core = True, pt_sysregs_ctx = False,
       pt_ret = ''gprs[14]'', pt_fp = ''gprs[11]'', pt_rc = ''gprs[2]'', pt_sp = ''gprs[15]'', pt_ip = ''psw.addr''\<rparr>"

definition old_arm_regs :: pt_regs_tab where
  "old_arm_regs =
     \<lparr>pt_cast = None,
       pt_parm = [''uregs[0]'', ''uregs[1]'', ''uregs[2]'', ''uregs[3]''],
       pt_syscall = [''uregs[0]'', ''uregs[1]'', ''uregs[2]'', ''uregs[3]'', ''uregs[4]'', ''uregs[5]'', ''uregs[6]''],
       pt_sys1 = None, pt_sys1_core = False, pt_sysregs_ctx = False,
       pt_ret = ''uregs[14]'', pt_fp = ''uregs[11]'', pt_rc = ''uregs[0]'', pt_sp = ''uregs[13]'', pt_ip = ''uregs[12]''\<rparr>"

definition old_arm64_regs :: pt_regs_tab where
  "old_arm64_regs =
     \<lparr>pt_cast = Some ''struct user_pt_regs'',
       pt_parm = [''regs[0]'', ''regs[1]'', ''regs[2]'', ''regs[3]'', ''regs[4]'', ''regs[5]'', ''regs[6]'', ''regs[7]''],
       pt_syscall = [''orig_x0'', ''regs[1]'', ''regs[2]'', ''regs[3]'', ''regs[4]'', ''regs[5]''],
       pt_sys1 = Some ''struct pt_regs___arm64'', pt_sys1_core = True, pt_sysregs_ctx = False,
       pt_ret = ''regs[30]'', pt_fp = ''regs[29]'', pt_rc = ''regs[0]'', pt_sp = ''sp'', pt_ip = ''pc''\<rparr>"

definition old_mips_regs :: pt_regs_tab where
  "old_mips_regs =
     \<lparr>pt_cast = None,
       pt_parm = [''regs[4]'', ''regs[5]'', ''regs[6]'', ''regs[7]'', ''regs[8]'', ''regs[9]'', ''regs[10]'', ''regs[11]''],
       pt_syscall = [''regs[4]'', ''regs[5]'', ''regs[6]'', ''regs[7]'', ''regs[8]'', ''regs[9]''],
       pt_sys1 = None, pt_sys1_core = False, pt_sysregs_ctx = False,
       pt_ret = ''regs[31]'', pt_fp = ''regs[30]'', pt_rc = ''regs[2]'', pt_sp = ''regs[29]'', pt_ip = ''cp0_epc''\<rparr>"

definition old_powerpc_regs :: "bool \<Rightarrow> pt_regs_tab" where
  "old_powerpc_regs arch64 =
     \<lparr>pt_cast = None,
       pt_parm = [''gpr[3]'', ''gpr[4]'', ''gpr[5]'', ''gpr[6]'', ''gpr[7]'', ''gpr[8]'', ''gpr[9]'', ''gpr[10]''],
       pt_syscall = [''orig_gpr3'', ''gpr[4]'', ''gpr[5]'', ''gpr[6]'', ''gpr[7]'', ''gpr[8]''] @ (if arch64 then [] else [''gpr[9]'']),
       pt_sys1 = None, pt_sys1_core = False, pt_sysregs_ctx = True,
       pt_ret = ''regs[31]'', pt_fp = ''__unsupported__'', pt_rc = ''gpr[3]'', pt_sp = ''sp'', pt_ip = ''nip''\<rparr>"

definition old_sparc_regs :: "bool \<Rightarrow> pt_regs_tab" where
  "old_sparc_regs arch64 =
     \<lparr>pt_cast = None,
       pt_parm = [''u_regs[UREG_I0]'', ''u_regs[UREG_I1]'', ''u_regs[UREG_I2]'', ''u_regs[UREG_I3]'', ''u_regs[UREG_I4]'', ''u_regs[UREG_I5]''],
       pt_syscall = [''u_regs[UREG_I0]'', ''u_regs[UREG_I1]'', ''u_regs[UREG_I2]'', ''u_regs[UREG_I3]'', ''u_regs[UREG_I4]'', ''u_regs[UREG_I5]''],
       pt_sys1 = None, pt_sys1_core = False, pt_sysregs_ctx = False,
       pt_ret = ''u_regs[UREG_I7]'', pt_fp = ''__unsupported__'', pt_rc = ''u_regs[UREG_I0]'', pt_sp = ''u_regs[UREG_FP]'', pt_ip = (if arch64 then ''tpc'' else ''pc'')\<rparr>"

definition old_riscv_regs :: pt_regs_tab where
  "old_riscv_regs =
     \<lparr>pt_cast = Some ''struct user_regs_struct'',
       pt_parm = [''a0'', ''a1'', ''a2'', ''a3'', ''a4'', ''a5'', ''a6'', ''a7''],
       pt_syscall = [''a0'', ''a1'', ''a2'', ''a3'', ''a4'', ''a5''],
       pt_sys1 = None, pt_sys1_core = False, pt_sysregs_ctx = False,
       pt_ret = ''ra'', pt_fp = ''s0'', pt_rc = ''a0'', pt_sp = ''sp'', pt_ip = ''pc''\<rparr>"

definition old_arc_regs :: pt_regs_tab where
  "old_arc_regs =
     \<lparr>pt_cast = Some ''struct user_regs_struct'',
       pt_parm = [''scratch.r0'', ''scratch.r1'', ''scratch.r2'', ''scratch.r3'', ''scratch.r4'', ''scratch.r5'', ''scratch.r6'', ''scratch.r7''],
       pt_syscall = [''scratch.r0'', ''scratch.r1'', ''scratch.r2'', ''scratch.r3'', ''scratch.r4'', ''scratch.r5''],
       pt_sys1 = None, pt_sys1_core = False, pt_sysregs_ctx = True,
       pt_ret = ''scratch.blink'', pt_fp = ''scratch.fp'', pt_rc = ''scratch.r0'', pt_sp = ''scratch.sp'', pt_ip = ''scratch.ret''\<rparr>"

definition old_loongarch_regs :: pt_regs_tab where
  "old_loongarch_regs =
     \<lparr>pt_cast = Some ''struct user_pt_regs'',
       pt_parm = [''regs[4]'', ''regs[5]'', ''regs[6]'', ''regs[7]'', ''regs[8]'', ''regs[9]'', ''regs[10]'', ''regs[11]''],
       pt_syscall = [''regs[4]'', ''regs[5]'', ''regs[6]'', ''regs[7]'', ''regs[8]'', ''regs[9]''],
       pt_sys1 = None, pt_sys1_core = False, pt_sysregs_ctx = True,
       pt_ret = ''regs[1]'', pt_fp = ''regs[22]'', pt_rc = ''regs[4]'', pt_sp = ''regs[3]'', pt_ip = ''csr_era''\<rparr>"

definition old_pt_tab :: "macros \<Rightarrow> pt_regs_tab option" where
  "old_pt_tab D = map_option (\<lambda>arch. case arch of
       Arch_x86 \<Rightarrow>
         if defined D ''__KERNEL__'' \<or> defined D ''__VMLINUX_H__'' then old_x86_kernel_regs
         else if defined D ''__i386__'' then old_x86_i386_regs
         else old_x86_64_regs
     | Arch_s390 \<Rightarrow> old_s390_regs
     | Arch_arm \<Rightarrow> old_arm_regs
     | Arch_arm64 \<Rightarrow> old_arm64_regs
     | Arch_mips \<Rightarrow> old_mips_regs
     | Arch_powerpc \<Rightarrow> old_powerpc_regs (defined D ''__arch64__'')
     | Arch_sparc \<Rightarrow> old_sparc_regs (defined D ''__arch64__'')
     | Arch_riscv \<Rightarrow> old_riscv_regs
     | Arch_arc \<Rightarrow> old_arc_regs
     | Arch_loongarch \<Rightarrow> old_loongarch_regs) (bpf_target D)"

lemmas old_arch_tables =
  old_x86_kernel_regs_def old_x86_i386_regs_def old_x86_64_regs_def old_s390_regs_def old_arm_regs_def old_arm64_regs_def
  old_mips_regs_def old_powerpc_regs_def old_sparc_regs_def old_riscv_regs_def old_arc_regs_def old_loongarch_regs_def

text \<open>
  The two copies have the same registers for every build except the first one of a system call: on riscv the older one
  takes \<open>a0\<close> and not \<open>orig_a0\<close>, and on s390 and arm64 its plain macro reads it like the one for
  CO-RE.
\<close>

theorem register_copies_agree:
  "old_pt_tab D = map_option (\<lambda>tb.
     if bpf_target D = Some Arch_riscv then tb\<lparr>pt_syscall := ''a0'' # tl (pt_syscall tb), pt_sys1 := None\<rparr>
     else tb\<lparr>pt_sys1_core := pt_sys1 tb \<noteq> None\<rparr>) (pt_tab D)"
proof (cases "bpf_target D")
  case (Some arch)
  then show ?thesis
    by (cases arch) (simp_all add: old_pt_tab_def pt_tab_def arch_tables old_arch_tables)
qed (simp add: old_pt_tab_def pt_tab_def)

end
