(* ===== verification/Probe_Args.thy ===== *)
theory Probe_Args
  imports Pt_Regs
begin

text \<open>
  The entry macros of bpf_tracing.h: \<open>BPF_PROG\<close>, \<open>BPF_PROG2\<close>, \<open>BPF_KPROBE\<close>, \<open>BPF_KRETPROBE\<close> and
  \<open>BPF_KSYSCALL\<close> turn a list of declared arguments into the body's parameters. First the preprocessor: the macros
  that count arguments and the families that a count selects from. Then what the body is called with. A use
  that does not compile is \<open>None\<close>.
\<close>

section \<open>Counting macro arguments\<close>

datatype 'a mtok = M_unused | M_arg 'a | M_num nat

text \<open>\<open>___bpf_nth(_, _1, ..., _9, _a, _b, _c, N, ...)\<close> and \<open>___bpf_nth2(_, _1, ..., _24, N, ...)\<close>.\<close>

definition trc_nth :: "'a mtok list \<Rightarrow> 'a mtok option" where
  "trc_nth ts = (if 13 < length ts then Some (ts ! 13) else None)"

definition trc_narg :: "'a list \<Rightarrow> 'a mtok option" where
  "trc_narg args = trc_nth (M_unused # map M_arg args @ map M_num [12, 11, 10, 9, 8, 7, 6, 5, 4, 3, 2, 1, 0])"

definition trc_nth2 :: "'a mtok list \<Rightarrow> 'a mtok option" where
  "trc_nth2 ts = (if 25 < length ts then Some (ts ! 25) else None)"

definition trc_narg2 :: "'a list \<Rightarrow> 'a mtok option" where
  "trc_narg2 args = trc_nth2 (M_unused # map M_arg args @
     map M_num [12, 12, 11, 11, 10, 10, 9, 9, 8, 8, 7, 7, 6, 6, 5, 5, 4, 4, 3, 3, 2, 2, 1, 1, 0])"

text \<open>
  \<open>fn<n>(x, args...)\<close> is \<open>fn<n-1>(args), f(n)\<close>, and \<open>fn0()\<close> is \<open>c\<close>; \<open>hi\<close> is the last number with a macro. The
  number is pasted to the name.
\<close>

fun pass_args :: "nat \<Rightarrow> 'e \<Rightarrow> (nat \<Rightarrow> 'e option) \<Rightarrow> nat \<Rightarrow> 'a list \<Rightarrow> 'e list option" where
  "pass_args hi c f 0 [] = Some [c]"
| "pass_args hi c f (Suc n) (x # args) =
     (if Suc n \<le> hi then Option.bind (pass_args hi c f n args) (\<lambda>es. map_option (\<lambda>e. es @ [e]) (f (Suc n))) else None)"
| "pass_args hi c f _ _ = None"

definition apply_args :: "nat \<Rightarrow> 'e \<Rightarrow> (nat \<Rightarrow> 'e option) \<Rightarrow> 'a list \<Rightarrow> 'e list option" where
  "apply_args hi c f args = (case trc_narg args of Some (M_num n) \<Rightarrow> pass_args hi c f n args | _ \<Rightarrow> None)"

section \<open>Programs with an array of arguments\<close>

text \<open>The context is an array of \<open>u64\<close>; \<open>C_slot i\<close> is \<open>ctx[i]\<close>. An access outside the array has no value.\<close>

datatype slot_expr = C_ctx | C_slot nat

definition ctx_cast :: "string list \<Rightarrow> slot_expr list option" where
  "ctx_cast = apply_args 12 C_ctx (\<lambda>n. Some (C_slot (n - 1)))"

fun slot_value :: "u64 \<Rightarrow> u64 list \<Rightarrow> slot_expr \<Rightarrow> u64 option" where
  "slot_value ctx slots C_ctx = Some ctx"
| "slot_value ctx slots (C_slot i) = (if i < length slots then Some (slots ! i) else None)"

definition BPF_PROG :: "u64 \<Rightarrow> u64 list \<Rightarrow> string list \<Rightarrow> u64 list option" where
  "BPF_PROG ctx slots args = Option.bind (ctx_cast args) (\<lambda>es. those (map (slot_value ctx slots) es))"

text \<open>\<open>BPF_PROG2\<close> gets types and names by turns; a type is known by its size.\<close>

datatype p2_tok = P_type nat | P_name string

definition treg_cnt :: "nat \<Rightarrow> nat option" where
  "treg_cnt t = (if t = 1 then Some 1 else if t = 2 then Some 1 else if t = 4 then Some 1 else if t = 8 then Some 1
     else if t = 16 then Some 2 else None)"

fun reg_cnt_n :: "nat \<Rightarrow> p2_tok list \<Rightarrow> nat option" where
  "reg_cnt_n 0 [] = Some 0"
| "reg_cnt_n (Suc n) (P_type t # P_name x # args) =
     (if Suc n \<le> 12 then Option.bind (reg_cnt_n n args) (\<lambda>c. map_option ((+) c) (treg_cnt t)) else None)"
| "reg_cnt_n _ _ = None"

definition reg_cnt :: "p2_tok list \<Rightarrow> nat option" where
  "reg_cnt args = (case trc_narg2 args of Some (M_num n) \<Rightarrow> reg_cnt_n n args | _ \<Rightarrow> None)"

text \<open>\<open>___bpf_union_arg(t, x, n)\<close>: the bytes of the first slots of a union are the bytes of the argument.\<close>

definition union_arg :: "bool \<Rightarrow> u64 list \<Rightarrow> nat \<times> nat \<Rightarrow> byte list option" where
  "union_arg be ctx a =
     (case a of (t, n) \<Rightarrow>
        let z = (\<lambda>i w. if i < length ctx then Some (c_bytes be w (unat (ctx ! i))) else None) in
        if t = 1 then z n 1
        else if t = 2 then z n 2
        else if t = 4 then z n 4
        else if t = 8 then z n 8
        else if t = 16 then Option.bind (z n 8) (\<lambda>lo. map_option (\<lambda>hi. lo @ hi) (z (n + 1) 8))
        else None)"

text \<open>The calls of \<open>___bpf_union_arg\<close>, each with its size and its slot: \<open>n\<close> less the registers from here to the end.\<close>

fun ctx_arg_n :: "nat \<Rightarrow> nat \<Rightarrow> p2_tok list \<Rightarrow> (nat \<times> nat) list option" where
  "ctx_arg_n 0 n args = Some []"
| "ctx_arg_n (Suc k) n (P_type t # P_name x # args) =
     (if Suc k \<le> 12 then
        Option.bind (reg_cnt_n (Suc k) (P_type t # P_name x # args)) (\<lambda>c.
          map_option (\<lambda>as. (t, n - c) # as) (ctx_arg_n k n args))
      else None)"
| "ctx_arg_n (Suc k) n _ = None"

definition ctx_arg :: "p2_tok list \<Rightarrow> (nat \<times> nat) list option" where
  "ctx_arg args =
     (case trc_narg2 args of
        Some (M_num k) \<Rightarrow> Option.bind (reg_cnt args) (\<lambda>n. ctx_arg_n k n args)
      | _ \<Rightarrow> None)"

fun ctx_decl_n :: "nat \<Rightarrow> p2_tok list \<Rightarrow> (nat \<times> string) list option" where
  "ctx_decl_n 0 [] = Some []"
| "ctx_decl_n (Suc k) (P_type t # P_name x # args) =
     (if Suc k \<le> 12 then map_option (\<lambda>ds. (t, x) # ds) (ctx_decl_n k args) else None)"
| "ctx_decl_n _ _ = None"

definition ctx_decl :: "p2_tok list \<Rightarrow> (nat \<times> string) list option" where
  "ctx_decl args = (case trc_narg2 args of Some (M_num k) \<Rightarrow> ctx_decl_n k args | _ \<Rightarrow> None)"

text \<open>The body's parameters after \<open>ctx\<close>: the names, and the bytes each is called with.\<close>

definition BPF_PROG2 :: "bool \<Rightarrow> u64 list \<Rightarrow> p2_tok list \<Rightarrow> (string \<times> byte list) list option" where
  "BPF_PROG2 be ctx args =
     Option.bind (ctx_decl args) (\<lambda>ds. Option.bind (ctx_arg args) (\<lambda>as.
       map_option (zip (map snd ds)) (those (map (union_arg be ctx) as))))"

section \<open>Programs with registers\<close>

definition kprobe_args :: "pt_regs_tab option \<Rightarrow> string list \<Rightarrow> c_expr list option" where
  "kprobe_args tb = apply_args 8 E_ctx (\<lambda>n. PT_REGS_PARM tb n E_ctx)"

definition BPF_KPROBE :: "probe_env \<Rightarrow> pt_regs_tab option \<Rightarrow> u64 \<Rightarrow> string list \<Rightarrow> u64 list option" where
  "BPF_KPROBE e tb ctx args = Option.bind (kprobe_args tb args) (\<lambda>es. those (map (c_eval e ctx ctx) es))"

definition kretprobe_args :: "pt_regs_tab option \<Rightarrow> string list \<Rightarrow> c_expr list option" where
  "kretprobe_args tb = apply_args 1 E_ctx (\<lambda>n. Some (PT_REGS_RC tb E_ctx))"

definition BPF_KRETPROBE :: "probe_env \<Rightarrow> pt_regs_tab option \<Rightarrow> u64 \<Rightarrow> string list \<Rightarrow> u64 list option" where
  "BPF_KRETPROBE e tb ctx args = Option.bind (kretprobe_args tb args) (\<lambda>es. those (map (c_eval e ctx ctx) es))"

definition syscall_args :: "pt_regs_tab option \<Rightarrow> string list \<Rightarrow> c_expr list option" where
  "syscall_args tb = apply_args 7 E_ctx (\<lambda>n. PT_REGS_PARM_SYSCALL tb n E_regs)"

definition syswrap_args :: "pt_regs_tab option \<Rightarrow> string list \<Rightarrow> c_expr list option" where
  "syswrap_args tb = apply_args 7 E_ctx (\<lambda>n. PT_REGS_PARM_CORE_SYSCALL tb n E_regs)"

text \<open>
  \<open>wrapper\<close> is the value of \<open>LINUX_HAS_SYSCALL_WRAPPER\<close>, known when the program is loaded; both branches are compiled.
\<close>

definition BPF_KSYSCALL :: "probe_env \<Rightarrow> pt_regs_tab option \<Rightarrow> bool \<Rightarrow> u64 \<Rightarrow> string list \<Rightarrow> u64 list option" where
  "BPF_KSYSCALL e tb wrapper ctx args =
     Option.bind (PT_REGS_PARM tb 1 E_ctx) (\<lambda>inner.
     Option.bind (syswrap_args tb args) (\<lambda>ws.
     Option.bind (syscall_args tb args) (\<lambda>ss.
       if c_type_ok e inner \<and> list_all (c_type_ok e) ws \<and> list_all (c_type_ok e) ss then
         Option.bind (if wrapper then c_eval e ctx ctx inner else Some ctx) (\<lambda>regs.
           if wrapper then those (map (c_eval e ctx regs) ws) else those (map (c_eval e ctx regs) ss))
       else None)))"

section \<open>Counts\<close>

lemma trc_narg_few:
  assumes "length args \<le> 12"
  shows "trc_narg args = Some (M_num (length args))"
proof -
  let ?nums = "[12, 11, 10, 9, 8, 7, 6, 5, 4, 3, 2, 1, 0] :: nat list"
  have "?nums = rev [0..<13]"
    by (simp add: upt_rec)
  then have "map M_num ?nums ! (12 - length args) = (M_num (length args) :: 'a mtok)"
    using assms by (simp add: rev_nth)
  then show ?thesis
    using assms by (simp add: trc_narg_def trc_nth_def nth_append del: list.map)
qed

lemma trc_narg_many: "12 < length args \<Longrightarrow> trc_narg args = Some (M_arg (args ! 12))"
  by (simp add: trc_narg_def trc_nth_def nth_append)

lemma those_snoc: "those (xs @ [y]) = Option.bind (those xs) (\<lambda>es. map_option (\<lambda>e. es @ [e]) y)"
proof (induction xs)
  case Nil
  show ?case
    by (cases y) simp_all
next
  case (Cons x xs)
  then show ?case
    by (cases x; cases y; cases "those xs") simp_all
qed

lemma those_map_Some: "(\<And>x. x \<in> set xs \<Longrightarrow> f x = Some (g x)) \<Longrightarrow> those (map f xs) = Some (map g xs)"
  by (induction xs) simp_all

lemma those_map_None: "x \<in> set xs \<Longrightarrow> f x = None \<Longrightarrow> those (map f xs) = None"
  by (induction xs) (auto split: option.splits)

lemma pass_args_value:
  "length args \<le> hi \<Longrightarrow>
   pass_args hi c f (length args) args = map_option ((#) c) (those (map f [1..<Suc (length args)]))"
proof (induction args)
  case (Cons x args)
  have "pass_args hi c f (length args) args = map_option ((#) c) (those (map f [1..<Suc (length args)]))"
    using Cons by simp
  with Cons.prems show ?case
    by (cases "those (map f [1..<Suc (length args)])"; cases "f (Suc (length args))") (simp_all add: those_snoc)
qed simp

lemma pass_args_beyond: "hi < length args \<Longrightarrow> pass_args hi c f (length args) args = None"
  by (cases args) simp_all

lemma apply_args_value:
  assumes "hi \<le> 12"
  shows "apply_args hi c f args =
    (if length args \<le> hi then map_option ((#) c) (those (map f [1..<Suc (length args)])) else None)"
proof (cases "length args \<le> 12")
  case True
  then show ?thesis
    by (simp add: apply_args_def trc_narg_few pass_args_value pass_args_beyond)
next
  case False
  with assms show ?thesis
    by (simp add: apply_args_def trc_narg_many)
qed

lemma trc_narg2_pairs:
  assumes "length args = 2 * k" and "k \<le> 12"
  shows "trc_narg2 args = Some (M_num k)"
proof -
  let ?nums = "[12, 12, 11, 11, 10, 10, 9, 9, 8, 8, 7, 7, 6, 6, 5, 5, 4, 4, 3, 3, 2, 2, 1, 1, 0] :: nat list"
  have "?nums = map (\<lambda>i. (25 - i) div 2) [0..<25]"
    by (simp add: upt_rec)
  then have "map M_num ?nums ! (24 - 2 * k) = (M_num k :: 'a mtok)"
    using assms by simp
  then show ?thesis
    using assms by (simp add: trc_narg2_def trc_nth2_def nth_append del: list.map)
qed

lemma trc_narg2_many: "24 < length args \<Longrightarrow> trc_narg2 args = Some (M_arg (args ! 24))"
  by (simp add: trc_narg2_def trc_nth2_def nth_append)

section \<open>Arguments from registers\<close>

text \<open>The value of a register read directly and with a probe read.\<close>

definition direct_reg :: "probe_env \<Rightarrow> string \<Rightarrow> string \<Rightarrow> u64 \<Rightarrow> u64" where
  "direct_reg e t m p =
     (let k = the (pe_member e t m) in to_u64 k (c_num (re_big_endian e) (pe_load e (p + pe_offset e t m) (fst k))))"

definition probed_reg :: "probe_env \<Rightarrow> string \<Rightarrow> string \<Rightarrow> u64 \<Rightarrow> u64" where
  "probed_reg e t m p =
     (let k = the (pe_member e t m) in
      to_u64 k (c_num (re_big_endian e) (snd (re_probe e False False (p + re_offset e True [t] m) (fst k)))))"

text \<open>The kernel's headers have the registers of the table, and nothing called \<open>__unsupported__\<close>.\<close>

definition has_registers :: "probe_env \<Rightarrow> pt_regs_tab \<Rightarrow> bool" where
  "has_registers e tb \<longleftrightarrow>
     (\<forall>r\<in>set (pt_parm tb). pe_member e (pt_struct tb) r \<noteq> None) \<and>
     (\<forall>i<length (pt_syscall tb). pe_member e (syscall_struct tb (Suc i)) (pt_syscall tb ! i) \<noteq> None) \<and>
     pe_member e (pt_struct tb) (pt_rc tb) \<noteq> None \<and>
     pe_member e (pt_struct tb) unsupported = None"

lemma register_tables:
  assumes "pt_tab D = Some tb"
  shows "3 \<le> length (pt_parm tb)" and "length (pt_parm tb) \<le> 8" and "length (pt_syscall tb) \<in> {6, 7}"
    and "distinct (pt_parm tb)" and "distinct (pt_syscall tb)" and "\<not> pt_sys1_core tb"
    and "unsupported \<notin> set (pt_parm tb @ pt_syscall tb)"
proof -
  obtain arch where "bpf_target D = Some arch"
    using assms by (auto simp: pt_tab_def)
  note tab = assms [unfolded pt_tab_def this option.map option.inject, symmetric]
  show "3 \<le> length (pt_parm tb)" "length (pt_parm tb) \<le> 8" "length (pt_syscall tb) \<in> {6, 7}" "\<not> pt_sys1_core tb"
    by (cases arch; simp add: tab arch_tables)+
  show "distinct (pt_parm tb)"
    by (cases arch; simp add: tab arch_tables)
  show "distinct (pt_syscall tb)"
    by (cases arch; simp add: tab arch_tables)
  show "unsupported \<notin> set (pt_parm tb @ pt_syscall tb)"
    by (cases arch; simp add: tab arch_tables unsupported_def)
qed

lemma c_eval_arrow:
  assumes "c_eval e ctx regs x = Some p" and "pe_member e t m \<noteq> None"
  shows "c_eval e ctx regs (E_arrow t x m) = Some (direct_reg e t m p)"
  using assms by (auto simp: direct_reg_def)

lemma c_eval_core:
  assumes "c_eval e ctx regs x = Some p" and "pe_member e t m \<noteq> None"
  shows "c_eval e ctx regs (E_core t x m) = Some (probed_reg e t m p)"
  using assms by (auto simp: probed_reg_def core_read_one read_env.defs)

lemma map_upt_Suc_take: "n \<le> length xs \<Longrightarrow> map (\<lambda>i. f (xs ! (i - Suc 0))) [Suc 0..<Suc n] = map f (take n xs)"
  by (intro nth_equalityI) (simp_all del: upt_Suc)

lemma kprobe_args_value:
  assumes "length args \<le> 8"
  shows "kprobe_args tb args = Some (E_ctx # map (\<lambda>n. pt_arrow tb (\<lambda>t. parm_reg t n) E_ctx) [1..<Suc (length args)])"
proof -
  have "those (map (\<lambda>n. PT_REGS_PARM tb n E_ctx) [1..<Suc (length args)]) =
      Some (map (\<lambda>n. pt_arrow tb (\<lambda>t. parm_reg t n) E_ctx) [1..<Suc (length args)])"
    using assms by (intro those_map_Some) (auto simp: PT_REGS_PARM_def)
  with assms show ?thesis
    by (simp add: kprobe_args_def apply_args_value del: upt_Suc)
qed

text \<open>
  \<open>BPF_KPROBE\<close> hands the body the first registers of the architecture's calling convention, in order, each read directly
  from the context; a program with more arguments than the architecture passes in registers does not compile.
\<close>

lemma kprobe_value:
  assumes tab: "pt_tab D = Some tb" and regs: "has_registers e tb"
  shows "BPF_KPROBE e (pt_tab D) ctx args =
    (if length args \<le> length (pt_parm tb)
     then Some (ctx # map (\<lambda>r. direct_reg e (pt_struct tb) r ctx) (take (length args) (pt_parm tb)))
     else None)"
proof -
  note sizes = register_tables [OF tab]
  consider "length args \<le> length (pt_parm tb)" | "length (pt_parm tb) < length args" "length args \<le> 8" | "8 < length args"
    by linarith
  then show ?thesis
  proof cases
    case 1
    have "those (map (\<lambda>n. c_eval e ctx ctx (pt_arrow (Some tb) (\<lambda>t. parm_reg t n) E_ctx)) [1..<Suc (length args)]) =
        Some (map (\<lambda>n. direct_reg e (pt_struct tb) (pt_parm tb ! (n - 1)) ctx) [1..<Suc (length args)])"
      using 1 regs
      by (intro those_map_Some) (auto simp: pt_arrow_def parm_reg_def has_registers_def c_eval_arrow simp del: c_eval.simps(3))
    with 1 sizes show ?thesis
      by (simp add: BPF_KPROBE_def kprobe_args_value tab comp_def
          map_upt_Suc_take [where f = "\<lambda>r. direct_reg e (pt_struct tb) r ctx"] del: upt_Suc)
  next
    case 2
    have "c_eval e ctx ctx (pt_arrow (Some tb) (\<lambda>t. parm_reg t (length args)) E_ctx) = None"
      using 2 sizes regs by (simp add: pt_arrow_def parm_reg_def has_registers_def)
    then have "those (map (\<lambda>n. c_eval e ctx ctx (pt_arrow (Some tb) (\<lambda>t. parm_reg t n) E_ctx)) [1..<Suc (length args)]) = None"
      using 2 by (intro those_map_None [of "length args"]) auto
    with 2 show ?thesis
      by (simp add: BPF_KPROBE_def kprobe_args_value tab comp_def del: upt_Suc)
  next
    case 3
    with sizes show ?thesis
      by (simp add: BPF_KPROBE_def kprobe_args_def apply_args_value)
  qed
qed

lemma syscall_args_value:
  assumes "length args \<le> 7" and "\<not> pt_sys1_core tb"
  shows "syswrap_args (Some tb) args =
      Some (E_ctx # map (\<lambda>n. E_core (syscall_struct tb n) E_regs (syscall_reg tb n)) [1..<Suc (length args)])"
    and "syscall_args (Some tb) args =
      Some (E_ctx # map (\<lambda>n. E_arrow (syscall_struct tb n) E_regs (syscall_reg tb n)) [1..<Suc (length args)])"
proof -
  have "those (map (\<lambda>n. PT_REGS_PARM_CORE_SYSCALL (Some tb) n E_regs) [1..<Suc (length args)]) =
      Some (map (\<lambda>n. E_core (syscall_struct tb n) E_regs (syscall_reg tb n)) [1..<Suc (length args)])"
    using assms by (intro those_map_Some) (auto simp: PT_REGS_PARM_CORE_SYSCALL_def)
  with assms(1) show "syswrap_args (Some tb) args =
      Some (E_ctx # map (\<lambda>n. E_core (syscall_struct tb n) E_regs (syscall_reg tb n)) [1..<Suc (length args)])"
    by (simp add: syswrap_args_def apply_args_value del: upt_Suc)
  have "those (map (\<lambda>n. PT_REGS_PARM_SYSCALL (Some tb) n E_regs) [1..<Suc (length args)]) =
      Some (map (\<lambda>n. E_arrow (syscall_struct tb n) E_regs (syscall_reg tb n)) [1..<Suc (length args)])"
    using assms by (intro those_map_Some) (auto simp: PT_REGS_PARM_SYSCALL_def)
  with assms(1) show "syscall_args (Some tb) args =
      Some (E_ctx # map (\<lambda>n. E_arrow (syscall_struct tb n) E_regs (syscall_reg tb n)) [1..<Suc (length args)])"
    by (simp add: syscall_args_def apply_args_value del: upt_Suc)
qed

text \<open>The registers a system call program reads: those of the context, or those the context's first parameter points to.\<close>

definition syscall_values :: "probe_env \<Rightarrow> pt_regs_tab \<Rightarrow> bool \<Rightarrow> u64 \<Rightarrow> u64 list" where
  "syscall_values e tb wrapper ctx =
     (let read = (if wrapper then probed_reg else direct_reg);
          regs = (if wrapper then direct_reg e (pt_struct tb) (hd (pt_parm tb)) ctx else ctx) in
      map (\<lambda>i. read e (syscall_struct tb (Suc i)) (pt_syscall tb ! i) regs) [0..<length (pt_syscall tb)])"

lemma ksyscall_value:
  assumes tab: "pt_tab D = Some tb" and regs: "has_registers e tb"
  shows "BPF_KSYSCALL e (pt_tab D) wrapper ctx args =
    (if length args \<le> length (pt_syscall tb) then Some (ctx # take (length args) (syscall_values e tb wrapper ctx)) else None)"
proof -
  note sizes = register_tables [OF tab]
  have parms: "pt_parm tb \<noteq> []"
    using sizes(1) by auto
  have inner: "PT_REGS_PARM (Some tb) 1 E_ctx = Some (E_arrow (pt_struct tb) E_ctx (hd (pt_parm tb)))"
    using sizes(1) parms by (simp add: PT_REGS_PARM_def pt_arrow_def parm_reg_def hd_conv_nth)
  have inner_ok: "pe_member e (pt_struct tb) (hd (pt_parm tb)) \<noteq> None"
    using regs parms by (simp add: has_registers_def)
  consider "length args \<le> length (pt_syscall tb)" | "length (pt_syscall tb) = 6" "length args = 7" | "7 < length args"
    using sizes(3) by force
  then show ?thesis
  proof cases
    case 1
    have reg: "pe_member e (syscall_struct tb n) (pt_syscall tb ! (n - 1)) \<noteq> None \<and> syscall_reg tb n = pt_syscall tb ! (n - 1)"
      if "n \<in> set [1..<Suc (length args)]" for n
    proof -
      from that obtain i where "n = Suc i" "i < length args"
        by (cases n rule: nat.exhaust) auto
      with 1 have "i < length (pt_syscall tb)" "syscall_reg tb n = pt_syscall tb ! i"
        by (simp_all add: syscall_reg_def)
      with regs \<open>n = Suc i\<close> show ?thesis
        by (auto simp: has_registers_def)
    qed
    have vals: "map (\<lambda>n. f (syscall_struct tb n) (pt_syscall tb ! (n - 1))) [1..<Suc (length args)] =
        take (length args) (map (\<lambda>i. f (syscall_struct tb (Suc i)) (pt_syscall tb ! i)) [0..<length (pt_syscall tb)])"
      for f :: "string \<Rightarrow> string \<Rightarrow> u64"
      using 1 by (intro nth_equalityI) (simp_all del: upt_Suc)
    have core: "those (map (c_eval e ctx r) (map (\<lambda>n. E_core (syscall_struct tb n) E_regs (syscall_reg tb n)) [1..<Suc (length args)])) =
        Some (map (\<lambda>n. probed_reg e (syscall_struct tb n) (pt_syscall tb ! (n - 1)) r) [1..<Suc (length args)])" for r
      unfolding map_map using reg
      by (intro those_map_Some) (auto simp: c_eval_core [where p = r] simp del: c_eval.simps(4) upt_Suc)
    have arrow: "those (map (c_eval e ctx r) (map (\<lambda>n. E_arrow (syscall_struct tb n) E_regs (syscall_reg tb n)) [1..<Suc (length args)])) =
        Some (map (\<lambda>n. direct_reg e (syscall_struct tb n) (pt_syscall tb ! (n - 1)) r) [1..<Suc (length args)])" for r
      unfolding map_map using reg
      by (intro those_map_Some) (auto simp: c_eval_arrow [where p = r] simp del: c_eval.simps(3) upt_Suc)
    have "c_eval e ctx ctx (E_arrow (pt_struct tb) E_ctx (hd (pt_parm tb))) =
        Some (direct_reg e (pt_struct tb) (hd (pt_parm tb)) ctx)"
      using inner_ok by (intro c_eval_arrow) simp_all
    moreover have "length args \<le> 7"
      using 1 sizes(3) by auto
    ultimately show ?thesis
      using 1 sizes(6) inner_ok reg core arrow
      by (simp add: BPF_KSYSCALL_def tab inner syscall_args_value list_all_iff syscall_values_def Let_def
          vals [where f = "\<lambda>t m. probed_reg e t m (direct_reg e (pt_struct tb) (hd (pt_parm tb)) ctx)"]
          vals [where f = "\<lambda>t m. direct_reg e t m ctx"] del: upt_Suc c_eval.simps(3,4) map_map One_nat_def)
  next
    case 2
    have "\<not> c_type_ok e (E_core (syscall_struct tb 7) E_regs (syscall_reg tb 7))"
      using 2 regs by (simp add: syscall_reg_def syscall_struct_def has_registers_def split: option.splits)
    then have "\<not> list_all (c_type_ok e) (map (\<lambda>n. E_core (syscall_struct tb n) E_regs (syscall_reg tb n)) [1..<Suc (length args)])"
      using 2 by (auto simp: list_all_iff simp del: c_type_ok.simps intro!: bexI [of _ 7])
    with 2 sizes(6) show ?thesis
      by (simp add: BPF_KSYSCALL_def tab inner syscall_args_value del: One_nat_def)
  next
    case 3
    with sizes(3) show ?thesis
      by (auto simp: BPF_KSYSCALL_def tab syswrap_args_def apply_args_value Option.bind_eq_None_conv)
  qed
qed

section \<open>Arguments from an array\<close>

lemma prog_value:
  "BPF_PROG ctx slots args =
     (if length args \<le> 12 \<and> length args \<le> length slots then Some (ctx # take (length args) slots) else None)"
proof -
  let ?n = "length args"
  have slots: "those (map (\<lambda>n. slot_value ctx slots (C_slot (n - 1))) [1..<Suc ?n]) =
      (if ?n \<le> length slots then Some (take ?n slots) else None)"
  proof (cases "?n \<le> length slots")
    case True
    then have "those (map (\<lambda>n. slot_value ctx slots (C_slot (n - 1))) [1..<Suc ?n]) =
        Some (map (\<lambda>n. slots ! (n - 1)) [1..<Suc ?n])"
      by (intro those_map_Some) auto
    also have "map (\<lambda>n. slots ! (n - 1)) [1..<Suc ?n] = take ?n slots"
      using map_upt_Suc_take [OF True, of id] by simp
    finally show ?thesis
      using True by simp
  next
    case False
    then have "those (map (\<lambda>n. slot_value ctx slots (C_slot (n - 1))) [1..<Suc ?n]) = None"
      by (intro those_map_None [of ?n]) auto
    with False show ?thesis
      by simp
  qed
  have "those (map (\<lambda>n. Some (C_slot (n - 1))) [1..<Suc ?n]) = Some (map (\<lambda>n. C_slot (n - 1)) [1..<Suc ?n])"
    by (intro those_map_Some) simp
  then show ?thesis
    using slots by (simp add: BPF_PROG_def ctx_cast_def apply_args_value comp_def del: upt_Suc slot_value.simps(2))
qed

text \<open>The argument list of \<open>BPF_PROG2\<close> for declared types and names.\<close>

definition p2_args :: "(nat \<times> string) list \<Rightarrow> p2_tok list" where
  "p2_args ds = concat (map (\<lambda>(t, x). [P_type t, P_name x]) ds)"

text \<open>
  How the caller lays an argument out in the array: an argument of at most eight bytes is the low bytes of one slot, whatever the
  rest of the slot holds, and one of sixteen bytes is two slots in the order of memory.
\<close>

definition in_slots :: "bool \<Rightarrow> byte list \<Rightarrow> u64 list \<Rightarrow> bool" where
  "in_slots be b ws \<longleftrightarrow>
     (length b \<in> {1, 2, 4, 8} \<and> length ws = 1 \<and> c_num be b = unat (hd ws) mod 256 ^ length b) \<or>
     (length b = 16 \<and> length ws = 2 \<and> c_num be (take 8 b) = unat (ws ! 0) \<and> c_num be (drop 8 b) = unat (ws ! 1))"

lemma p2_args_simps [simp]:
  "p2_args [] = []"
  "p2_args ((t, x) # ds) = P_type t # P_name x # p2_args ds"
  by (simp_all add: p2_args_def)

lemma length_p2_args [simp]: "length (p2_args ds) = 2 * length ds"
  by (induction ds) auto

lemma ctx_decl_value: "length ds \<le> 12 \<Longrightarrow> ctx_decl_n (length ds) (p2_args ds) = Some ds"
  by (induction ds) auto

lemma unat_bounds: "unat (x :: byte) < 256" "unat (w :: u64) < 256 ^ 8"
  by (rule order_less_le_trans [OF unsigned_less]; simp)+

lemma le_bytes_mod: "le_bytes n (x mod 256 ^ n) = le_bytes n x"
proof (induction n arbitrary: x)
  case (Suc n)
  have "x mod 256 ^ Suc n div 256 = x div 256 mod 256 ^ n"
    by (simp add: mod_mult2_eq)
  moreover have "(of_nat (x mod 256 ^ Suc n) :: byte) = of_nat x"
    by (rule word_unat_eq_iff [THEN iffD2]) (simp add: unsigned_of_nat take_bit_eq_mod mod_mod_cancel)
  ultimately show ?case
    using Suc by simp
qed simp

lemma le_bytes_le_at: "le_bytes (length b) (le_at b 0 (length b)) = b"
proof (induction b)
  case (Cons x b)
  have "le_at (x # b) 0 (length (x # b)) = unat x + 256 * le_at b 0 (length b)"
    by (simp add: le_at_def)
  moreover have "(of_nat (unat x + 256 * k) :: byte) = x" for k
  proof -
    have "(256 :: byte) = 0"
      by simp
    then have "256 * (of_nat k :: byte) = 0"
      by (simp only: mult_zero_left)
    then show ?thesis
      by simp
  qed
  moreover have "(unat x + 256 * k) div 256 = k" for k
    using unat_bounds(1) [of x] by simp
  ultimately show ?case
    using Cons by simp
qed simp

lemma c_bytes_c_num: "c_num be b = x mod 256 ^ length b \<Longrightarrow> c_bytes be (length b) x = b"
  using le_bytes_le_at [of b] le_bytes_le_at [of "rev b"] le_bytes_mod [of "length b" x]
  by (simp add: c_num_def c_bytes_def split: if_splits)

lemma union_arg_value:
  assumes "in_slots be b ws"
  shows "union_arg be (pre @ ws @ rest) (length b, length pre) = Some b" and "treg_cnt (length b) = Some (length ws)"
proof -
  have word: "c_bytes be 8 (unat w) = b'" if "length b' = 8" "c_num be b' = unat w" for b' and w :: u64
    using c_bytes_c_num [of be b' "unat w"] that unat_bounds(2) [of w] by simp
  have two: "b = take 8 b @ drop 8 b"
    by simp
  show "union_arg be (pre @ ws @ rest) (length b, length pre) = Some b"
    using assms unfolding in_slots_def
  proof
    assume *: "length b \<in> {1, 2, 4, 8} \<and> length ws = 1 \<and> c_num be b = unat (hd ws) mod 256 ^ length b"
    then obtain w where "ws = [w]"
      by (auto simp: length_Suc_conv)
    with * show ?thesis
      using c_bytes_c_num [of be b "unat w"] by (auto simp: union_arg_def nth_append)
  next
    assume *: "length b = 16 \<and> length ws = 2 \<and> c_num be (take 8 b) = unat (ws ! 0) \<and> c_num be (drop 8 b) = unat (ws ! 1)"
    then obtain v w where "ws = [v, w]"
      by (auto simp: length_Suc_conv numeral_2_eq_2)
    with * show ?thesis
      using two by (simp add: union_arg_def nth_append word [of "take 8 b"] word [of "drop 8 b"])
  qed
  show "treg_cnt (length b) = Some (length ws)"
    using assms by (auto simp: in_slots_def treg_cnt_def)
qed

lemma prog2_slots:
  assumes "list_all2 (in_slots be) bs wss" and "map fst ds = map length bs" and "length ds \<le> 12"
  shows "reg_cnt_n (length ds) (p2_args ds) = Some (length (concat wss)) \<and>
    Option.bind (ctx_arg_n (length ds) (length pre + length (concat wss)) (p2_args ds))
      (\<lambda>as. those (map (union_arg be (pre @ concat wss @ rest)) as)) = Some bs"
  using assms
proof (induction arbitrary: ds pre rule: list_all2_induct)
  case Nil
  then show ?case
    by simp
next
  case (Cons b bs ws wss)
  then obtain x ds' where ds: "ds = (length b, x) # ds'" "map fst ds' = map length bs" "length ds' \<le> 12"
    by (cases ds) auto
  note IH = Cons.IH [of ds' "pre @ ws", OF ds(2,3)]
  then obtain as where "ctx_arg_n (length ds') (length pre + (length ws + length (concat wss))) (p2_args ds') = Some as"
      "those (map (union_arg be (pre @ ws @ concat wss @ rest)) as) = Some bs"
    by (auto simp: bind_eq_Some_conv add.assoc)
  with IH ds Cons.prems show ?case
    using union_arg_value(1) [OF Cons.hyps(1), of pre "concat wss @ rest"] union_arg_value(2) [OF Cons.hyps(1)]
    by (simp add: ac_simps)
qed

lemma prog2_value:
  assumes "length ds \<le> 12"
  shows "BPF_PROG2 be ctx (p2_args ds) =
    Option.bind (reg_cnt_n (length ds) (p2_args ds)) (\<lambda>n. Option.bind (ctx_arg_n (length ds) n (p2_args ds))
      (\<lambda>as. map_option (zip (map snd ds)) (those (map (union_arg be ctx) as))))"
  using assms by (cases "reg_cnt_n (length ds) (p2_args ds)")
    (simp_all add: BPF_PROG2_def ctx_decl_def ctx_arg_def reg_cnt_def trc_narg2_pairs ctx_decl_value)

lemma prog2_words:
  "length xs \<le> 12 \<Longrightarrow> reg_cnt_n (length xs) (p2_args (map (Pair 8) xs)) = Some (length xs)"
  "length xs \<le> 12 \<Longrightarrow>
   ctx_arg_n (length xs) (m + length xs) (p2_args (map (Pair 8) xs)) = Some (map (Pair 8) [m..<m + length xs])"
proof -
  show reg: "reg_cnt_n (length xs) (p2_args (map (Pair 8) xs)) = Some (length xs)" if "length xs \<le> 12" for xs :: "string list"
    using that by (induction xs) (simp_all add: treg_cnt_def)
  show "ctx_arg_n (length xs) (m + length xs) (p2_args (map (Pair 8) xs)) = Some (map (Pair 8) [m..<m + length xs])"
    if "length xs \<le> 12"
    using that
  proof (induction xs arbitrary: m)
    case (Cons x xs)
    from Cons.IH [of "Suc m"] Cons.prems show ?case
      by (simp add: treg_cnt_def reg upt_conv_Cons del: upt_Suc)
  qed simp
qed

section \<open>Properties\<close>

text \<open>
  C34: \<open>BPF_KPROBE\<close> hands the body the context and then the first registers of the calling convention of the architecture the
  program is compiled for, in order, each read directly from the context; with more arguments than the architecture passes in
  registers the program does not compile.
\<close>

theorem kprobe_reads_parameters:
  assumes "pt_tab D = Some tb" and "has_registers e tb"
  shows "BPF_KPROBE e (pt_tab D) ctx args =
    (if length args \<le> length (pt_parm tb)
     then Some (ctx # map (\<lambda>r. direct_reg e (pt_struct tb) r ctx) (take (length args) (pt_parm tb)))
     else None)"
  using assms by (rule kprobe_value)

text \<open>
  The x86 registers as the kernel lays them out, on a machine whose memory holds at every address the address itself, and
  where a probe read finds the address plus one.
\<close>

definition demo_macros :: macros where
  "demo_macros = [''__TARGET_ARCH_x86'' \<mapsto> ''1'', ''__VMLINUX_H__'' \<mapsto> ''1'']"

definition demo_offset :: "string \<Rightarrow> u64" where
  "demo_offset m =
     (case map_of [(''di'', 112), (''si'', 104), (''dx'', 96), (''cx'', 88), (''r8'', 72), (''r9'', 64), (''r10'', 56), (''ax'', 80)] m of
        Some k \<Rightarrow> k | None \<Rightarrow> 0)"

definition demo_env :: probe_env where
  "demo_env = \<lparr>re_big_endian = False, re_offset = (\<lambda>_ _. demo_offset), re_probe = (\<lambda>_ _ p n. (0, le_bytes n (unat p + 1))),
     pe_member = (\<lambda>_ m. if m = unsupported then None else Some (8, False)), pe_offset = (\<lambda>_. demo_offset),
     pe_load = (\<lambda>p n. le_bytes n (unat p))\<rparr>"

lemma demo_env_ok: "pt_tab demo_macros = Some x86_kernel_regs" "has_registers demo_env x86_kernel_regs"
proof -
  show tab: "pt_tab demo_macros = Some x86_kernel_regs"
    by (simp add: pt_tab_def bpf_target_def defined_def demo_macros_def)
  have "pt_rc x86_kernel_regs \<noteq> unsupported"
    by (simp add: x86_kernel_regs_def unsupported_def)
  then show "has_registers demo_env x86_kernel_regs"
    using register_tables(7) [OF tab] by (auto simp: has_registers_def demo_env_def dest: nth_mem)
qed

lemma demo_reads:
  assumes "m \<noteq> unsupported"
  shows "direct_reg demo_env t m p = p + demo_offset m" and "probed_reg demo_env t m p = p + demo_offset m + 1"
proof -
  have word: "(of_nat (c_num False (le_bytes 8 x)) :: u64) = of_nat x" for x
  proof -
    have "c_num False (le_bytes 8 x) = x mod 2 ^ 64"
      using c_num_c_bytes [of False 8 x] by (simp add: c_bytes_def)
    then show ?thesis
      by (simp add: word_unat_eq_iff unsigned_of_nat take_bit_eq_mod)
  qed
  show "direct_reg demo_env t m p = p + demo_offset m" "probed_reg demo_env t m p = p + demo_offset m + 1"
    using assms by (simp_all add: direct_reg_def probed_reg_def demo_env_def to_u64_def word)
qed

theorem kprobe_reads_parameters_witness:
  "BPF_KPROBE demo_env (pt_tab demo_macros) 4096 [''dfd'', ''name''] = Some [4096, 4208, 4200] \<and>
   BPF_KPROBE demo_env (pt_tab demo_macros) 4096 [''a'', ''b'', ''c'', ''d'', ''e'', ''f'', ''g''] = None"
  using kprobe_reads_parameters [OF demo_env_ok, of 4096 "[''dfd'', ''name'']"]
    kprobe_reads_parameters [OF demo_env_ok, of 4096 "[''a'', ''b'', ''c'', ''d'', ''e'', ''f'', ''g'']"]
  by (simp add: x86_kernel_regs_def demo_reads demo_offset_def unsupported_def)

text \<open>
  C35: \<open>BPF_KSYSCALL\<close> hands the body the context and then the system call's arguments in order: the values of the
  registers of the architecture's system call convention, in the structure that \<open>ctx\<close> points to on a kernel without system
  call wrappers and in the one its first parameter register points to on a kernel with them; with more arguments than
  the convention has registers the program does not compile. A successful probe read of memory gives what a direct
  access gives, and a relocated member is at its own offset: which of the two ways a macro takes is not part of this statement.
\<close>

theorem ksyscall_reads_arguments:
  assumes "pt_tab D = Some tb" and "has_registers e tb"
    and "\<And>p n. re_probe e False False p n = (0, pe_load e p n)" and "\<And>t m. re_offset e True [t] m = pe_offset e t m"
  shows "BPF_KSYSCALL e (pt_tab D) wrapper ctx args =
    (let regs = (if wrapper then direct_reg e (pt_struct tb) (pt_parm tb ! 0) ctx else ctx) in
     if length args \<le> length (pt_syscall tb)
     then Some (ctx # map (\<lambda>i. direct_reg e (syscall_struct tb (i + 1)) (pt_syscall tb ! i) regs) [0..<length args])
     else None)"
proof -
  have "probed_reg e = direct_reg e"
    by (intro ext) (simp add: probed_reg_def direct_reg_def assms(3,4))
  moreover have "hd (pt_parm tb) = pt_parm tb ! 0"
    using register_tables(1) [OF assms(1)] by (intro hd_conv_nth) auto
  ultimately show ?thesis
    using ksyscall_value [OF assms(1,2)] by (auto simp: syscall_values_def Let_def take_map)
qed

text \<open>The demonstration machine with a probe read that finds what a direct access finds.\<close>

definition plain_env :: probe_env where
  "plain_env = demo_env\<lparr>re_probe := (\<lambda>_ _ p n. (0, le_bytes n (unat p)))\<rparr>"

lemma plain_env_reads:
  "has_registers plain_env x86_kernel_regs" "direct_reg plain_env = direct_reg demo_env"
  "re_probe plain_env False False p n = (0, pe_load plain_env p n)" "re_offset plain_env True [t] m = pe_offset plain_env t m"
  using demo_env_ok(2)
  by (simp_all add: plain_env_def has_registers_def fun_eq_iff direct_reg_def) (simp_all add: demo_env_def)

theorem ksyscall_reads_arguments_witness:
  "BPF_KSYSCALL plain_env (pt_tab demo_macros) True 4096 [''a'', ''b'', ''c'', ''d''] = Some [4096, 4320, 4312, 4304, 4264] \<and>
   BPF_KSYSCALL plain_env (pt_tab demo_macros) False 4096 [''a'', ''b'', ''c'', ''d''] = Some [4096, 4208, 4200, 4192, 4152]"
  using ksyscall_reads_arguments [OF demo_env_ok(1) plain_env_reads(1,3,4), of True 4096 "[''a'', ''b'', ''c'', ''d'']"]
    ksyscall_reads_arguments [OF demo_env_ok(1) plain_env_reads(1,3,4), of False 4096 "[''a'', ''b'', ''c'', ''d'']"]
  by (simp add: plain_env_reads(2) x86_kernel_regs_def demo_reads demo_offset_def unsupported_def Let_def upt_rec syscall_struct_def)

text \<open>
  C36: \<open>BPF_PROG2\<close> undoes the layout of the arguments in the array: of arguments of 1, 2, 4, 8 and 16 bytes laid
  out one after the other, each name gets exactly the bytes of its argument, at both byte orders and whatever lies in the
  unused part of a slot.
\<close>

theorem prog2_unpacks_arguments:
  assumes "list_all2 (in_slots be) bs wss" and "map fst ds = map length bs" and "length ds \<le> 12"
  shows "BPF_PROG2 be (concat wss @ rest) (p2_args ds) = Some (zip (map snd ds) bs)"
  using prog2_slots [OF assms, of "[]" rest] assms(3) by (auto simp: prog2_value bind_eq_Some_conv)

theorem prog2_unpacks_arguments_witness:
  "BPF_PROG2 False [0xFFFFFFFF00000102, 1, 2, 7] (p2_args [(4, ''a''), (16, ''s'')]) =
     Some [(''a'', [2, 1, 0, 0]), (''s'', [1, 0, 0, 0, 0, 0, 0, 0, 2, 0, 0, 0, 0, 0, 0, 0])]"
proof -
  have "list_all2 (in_slots False) [[2, 1, 0, 0], [1, 0, 0, 0, 0, 0, 0, 0, 2, 0, 0, 0, 0, 0, 0, 0]] [[0xFFFFFFFF00000102], [1, 2]]"
    by (simp add: in_slots_def c_num_def le_at_def)
  from prog2_unpacks_arguments [OF this, of "[(4, ''a''), (16, ''s'')]" "[7]"] show ?thesis
    by simp
qed

text \<open>
  For arguments of eight bytes \<open>BPF_PROG\<close> and \<open>BPF_PROG2\<close> are the same: they hand over the same slots, they
  compile for the same numbers of arguments, and they leave the array in the same cases.
\<close>

theorem prog2_generalises_prog:
  "BPF_PROG2 be slots (p2_args (map (Pair 8) names)) =
     map_option (\<lambda>vs. zip names (map (\<lambda>w. c_bytes be 8 (unat w)) (tl vs))) (BPF_PROG ctx slots names)"
proof (cases "length names \<le> 12")
  case True
  let ?n = "length names"
  have call: "BPF_PROG2 be slots (p2_args (map (Pair 8) names)) =
      map_option (zip names) (those (map (\<lambda>i. union_arg be slots (8, i)) [0..<?n]))"
    using True prog2_value [of "map (Pair 8) names" be slots] prog2_words(2) [of names 0] by (simp add: prog2_words(1) comp_def)
  show ?thesis
  proof (cases "?n \<le> length slots")
    case True
    then have "those (map (\<lambda>i. union_arg be slots (8, i)) [0..<?n]) = Some (map (\<lambda>i. c_bytes be 8 (unat (slots ! i))) [0..<?n])"
      by (intro those_map_Some) (simp add: union_arg_def)
    moreover have "map (\<lambda>i. c_bytes be 8 (unat (slots ! i))) [0..<?n] = map (\<lambda>w. c_bytes be 8 (unat w)) (take ?n slots)"
      using True by (intro nth_equalityI) simp_all
    ultimately show ?thesis
      using True \<open>?n \<le> 12\<close> by (simp add: call prog_value)
  next
    case False
    then have "those (map (\<lambda>i. union_arg be slots (8, i)) [0..<?n]) = None"
      by (intro those_map_None [of "?n - 1"]) (auto simp: union_arg_def)
    with False show ?thesis
      by (simp add: call prog_value)
  qed
next
  case False
  then show ?thesis
    by (simp add: BPF_PROG2_def ctx_decl_def trc_narg2_many prog_value)
qed

end
