(* ===== verification/Skel_Kernel.thy ===== *)
theory Skel_Kernel
  imports Skel_Loader Core_Read
begin

text \<open>
  The kernel half of skel_internal.h: a light skeleton can also be loaded by a kernel module. System calls become calls of
  \<open>kern_sys_bpf\<close>, which returns a negative error itself; the data of a map lives first in a block of \<open>kvmalloc\<close> and
  then in the map. Allocation is a parameter of each call: an address or a failure.
\<close>

section \<open>System calls\<close>

definition kern_skel_sys_bpf :: "bpf_oracle \<Rightarrow> bpf_cmd \<Rightarrow> bpf_attr \<Rightarrow> ld_state \<Rightarrow> (int \<times> u32) \<times> ld_state" where
  "kern_skel_sys_bpf K c a s =
     (let (r, e, retval) = K c a s;
          s1 = s\<lparr>ld_log := ld_log s @ [(c, a)]\<rparr>
      in ((r, retval), if 0 \<le> r \<and> opens_fd c then s1\<lparr>ld_fds := r # ld_fds s1\<rparr> else s1))"

definition kern_close :: "int \<Rightarrow> ld_state \<Rightarrow> int \<times> ld_state" where
  "kern_close fd s = (if fd \<in> set (ld_fds s) then (0, s\<lparr>ld_fds := remove1 fd (ld_fds s)\<rparr>) else (- 9, s))"

section \<open>Load and run\<close>

text \<open>\<open>set_err\<close> is empty here: \<open>err\<close> is the error already.\<close>

definition kern_load_and_run_out :: "int \<Rightarrow> int \<Rightarrow> int \<Rightarrow> string option \<Rightarrow> ld_state \<Rightarrow> int \<times> string option \<times> ld_state" where
  "kern_load_and_run_out map_fd prog_fd err errstr s =
     (let s1 = (if 0 \<le> map_fd then snd (kern_close map_fd s) else s);
          s2 = (if 0 \<le> prog_fd then snd (kern_close prog_fd s1) else s1)
      in (err, errstr, s2))"

definition kern_load_and_run_prog :: "bpf_oracle \<Rightarrow> bpf_load_and_run_opts \<Rightarrow> int \<Rightarrow> ld_state \<Rightarrow> int \<times> string option \<times> ld_state" where
  "kern_load_and_run_prog K opts map_fd s =
     (let ((prog_fd, _), s1) = kern_skel_sys_bpf K BPF_PROG_LOAD (loader_prog_attr opts map_fd) s in
      if prog_fd < 0 then
        kern_load_and_run_out map_fd prog_fd prog_fd (Some ''failed to load loader prog'') s1
      else
      let ((err, retval), s2) = kern_skel_sys_bpf K BPF_PROG_RUN (A_test prog_fd (lo_ctx_ptr opts) (lc_sz (lo_ctx opts))) s1 in
      if err < 0 then
        kern_load_and_run_out map_fd prog_fd err (Some ''failed to execute loader prog'') s2
      else if sint retval < 0 then
        kern_load_and_run_out map_fd prog_fd (sint retval) (Some ''error returned by loader prog'') s2
      else kern_load_and_run_out map_fd prog_fd 0 None s2)"

definition kern_bpf_load_and_run ::
    "bpf_oracle \<Rightarrow> u64 \<Rightarrow> bpf_load_and_run_opts \<Rightarrow> ld_state \<Rightarrow> int \<times> string option \<times> ld_state" where
  "kern_bpf_load_and_run K key_ptr opts s =
     (let ((map_fd, _), s1) = kern_skel_sys_bpf K BPF_MAP_CREATE
            (A_map_create BPF_MAP_TYPE_ARRAY (c_strncpy 16 ''__loader.map'') 4 (lo_data_sz opts) 1) s in
      if map_fd < 0 then
        kern_load_and_run_out map_fd (-1) map_fd (Some ''failed to create loader map'') s1
      else
      let ((err, _), s2) = kern_skel_sys_bpf K BPF_MAP_UPDATE_ELEM (A_map_elem map_fd key_ptr (lo_data opts) 0) s1 in
      if err < 0 then
        kern_load_and_run_out map_fd (-1) err (Some ''failed to update loader map'') s2
      else kern_load_and_run_prog K opts map_fd s2)"

section \<open>Memory\<close>

text \<open>
  The memory of the kernel's allocators, and whatever else its functions keep (\<open>'m\<close>). A map is known by its address, its
  type and the address of its values. The functions that the header calls are a parameter \<open>K\<close>; \<open>bpf_map_get\<close> gives \<open>None\<close>
  for an error pointer.
\<close>

record bpf_map =
  bm_ptr :: u64
  bm_type :: nat
  bm_value :: u64

record 'm kmem =
  k_blocks :: "u64 \<rightharpoonup> byte list"
  k_rest :: 'm

record 'm kern_ops =
  ko_kfree :: "u64 \<Rightarrow> 'm kmem \<Rightarrow> crash + 'm kmem"
  ko_kvfree :: "u64 \<Rightarrow> 'm kmem \<Rightarrow> crash + 'm kmem"
  ko_map_get :: "int \<Rightarrow> 'm kmem \<Rightarrow> (bpf_map \<times> 'm kmem) option"
  ko_map_put :: "bpf_map \<Rightarrow> 'm kmem \<Rightarrow> 'm kmem"

text \<open>In user space the context of a skeleton is a block of \<open>calloc\<close>.\<close>

definition skel_alloc :: "u64 option \<Rightarrow> nat \<Rightarrow> 'm kmem \<Rightarrow> u64 \<times> 'm kmem" where
  "skel_alloc alloc sz m =
     (case alloc of None \<Rightarrow> (0, m) | Some p \<Rightarrow> (p, m\<lparr>k_blocks := (k_blocks m)(p \<mapsto> replicate sz 0)\<rparr>))"

definition skel_free :: "u64 \<Rightarrow> 'm kmem \<Rightarrow> crash + 'm kmem" where
  "skel_free p m =
     (if p = 0 then Inr m
      else if p \<in> dom (k_blocks m) then Inr (m\<lparr>k_blocks := (k_blocks m)(p := None)\<rparr>)
      else Inl Mem_fault)"

text \<open>\<open>flags\<close> is at the bytes 4 to 7 of the context; \<open>BPF_SKEL_KERNEL\<close> is 1.\<close>

definition kern_skel_alloc :: "bool \<Rightarrow> u64 option \<Rightarrow> nat \<Rightarrow> 'm kmem \<Rightarrow> crash + u64 \<times> 'm kmem" where
  "kern_skel_alloc be alloc sz m =
     (case alloc of
        None \<Rightarrow> Inr (0, m)
      | Some ctx \<Rightarrow>
          (case c_store (replicate sz 0) 4 (c_bytes be 4 1) of
             None \<Rightarrow> Inl Mem_fault
           | Some bs \<Rightarrow> Inr (ctx, m\<lparr>k_blocks := (k_blocks m)(ctx \<mapsto> bs)\<rparr>)))"

definition kern_skel_free :: "'m kern_ops \<Rightarrow> u64 \<Rightarrow> 'm kmem \<Rightarrow> crash + 'm kmem" where
  "kern_skel_free K p m = ko_kfree K p m"

definition kern_skel_free_map_data :: "'m kern_ops \<Rightarrow> u64 \<Rightarrow> u64 \<Rightarrow> 'm kmem \<Rightarrow> crash + 'm kmem" where
  "kern_skel_free_map_data K p addr m = (if addr \<noteq> - 1 then ko_kvfree K p m else Inr m)"

definition kern_skel_prep_map_data :: "u64 option \<Rightarrow> byte list \<Rightarrow> nat \<Rightarrow> 'm kmem \<Rightarrow> crash + u64 \<times> 'm kmem" where
  "kern_skel_prep_map_data alloc val val_sz m =
     (case alloc of
        None \<Rightarrow> Inr (0, m)
      | Some addr \<Rightarrow>
          if val_sz \<le> length val then Inr (addr, m\<lparr>k_blocks := (k_blocks m)(addr \<mapsto> take val_sz val)\<rparr>)
          else Inl Mem_fault)"

text \<open>The result, the new value of \<open>*init_val\<close> and the memory.\<close>

definition kern_skel_finalize_map_data :: "'m kern_ops \<Rightarrow> u64 \<Rightarrow> int \<Rightarrow> 'm kmem \<Rightarrow> crash + u64 \<times> u64 \<times> 'm kmem" where
  "kern_skel_finalize_map_data K init_val fd m =
     (case ko_kvfree K init_val m of
        Inl c \<Rightarrow> Inl c
      | Inr m1 \<Rightarrow>
          (case ko_map_get K fd m1 of
             None \<Rightarrow> Inr (0, - 1, m1)
           | Some (k, m2) \<Rightarrow> Inr (if bm_type k \<noteq> BPF_MAP_TYPE_ARRAY then 0 else bm_value k, - 1, ko_map_put K k m2)))"

section \<open>What the kernel's functions promise\<close>

text \<open>
  \<open>kfree\<close> and \<open>kvfree\<close> ignore a null pointer and free the block at the address of a live one; \<open>bpf_map_put\<close> gives back the
  reference that \<open>bpf_map_get\<close> took.
\<close>

locale kern_env =
  fixes K :: "'m kern_ops"
  assumes kfree_null: "ko_kfree K 0 m = Inr m"
    and kfree_block: "\<lbrakk>p \<noteq> 0; k_blocks m p = Some bs\<rbrakk> \<Longrightarrow> ko_kfree K p m = Inr (m\<lparr>k_blocks := (k_blocks m)(p := None)\<rparr>)"
    and kvfree_null: "ko_kvfree K 0 m = Inr m"
    and kvfree_block: "\<lbrakk>p \<noteq> 0; k_blocks m p = Some bs\<rbrakk> \<Longrightarrow> ko_kvfree K p m = Inr (m\<lparr>k_blocks := (k_blocks m)(p := None)\<rparr>)"
    and put_after_get: "ko_map_get K fd m = Some (k, m') \<Longrightarrow> ko_map_put K k m' = m"

text \<open>
  The protocol that the comment of the header describes: the data region is prepared; after a load that works it is
  exchanged for the map's values; at the end it is given back with the pointer and the initial value that are current.
\<close>

definition kern_region_life ::
    "'m kern_ops \<Rightarrow> u64 option \<Rightarrow> byte list \<Rightarrow> nat \<Rightarrow> bool \<Rightarrow> int \<Rightarrow> 'm kmem \<Rightarrow> crash + 'm kmem" where
  "kern_region_life K alloc val val_sz loaded fd m =
     (case kern_skel_prep_map_data alloc val val_sz m of
        Inl c \<Rightarrow> Inl c
      | Inr (p, m1) \<Rightarrow>
          if p \<noteq> 0 \<and> loaded then
            (case kern_skel_finalize_map_data K p fd m1 of
               Inl c \<Rightarrow> Inl c
             | Inr (q, init_val, m2) \<Rightarrow> kern_skel_free_map_data K q init_val m2)
          else kern_skel_free_map_data K p p m1)"

context kern_env
begin

lemma free_fresh_block:
  assumes "a \<noteq> 0" and "k_blocks m a = None"
  shows "ko_kfree K a (m\<lparr>k_blocks := (k_blocks m)(a \<mapsto> bs)\<rparr>) = Inr m"
    and "ko_kvfree K a (m\<lparr>k_blocks := (k_blocks m)(a \<mapsto> bs)\<rparr>) = Inr m"
proof -
  let ?m = "m\<lparr>k_blocks := (k_blocks m)(a \<mapsto> bs)\<rparr>"
  have "?m\<lparr>k_blocks := (k_blocks ?m)(a := None)\<rparr> = m"
    using assms(2) by (cases m) (simp add: fun_upd_idem)
  then show "ko_kfree K a ?m = Inr m" "ko_kvfree K a ?m = Inr m"
    using assms(1) kfree_block [of a ?m bs] kvfree_block [of a ?m bs] by simp_all
qed

lemma region_balanced:
  assumes "val_sz \<le> length val"
    and "\<And>a. alloc = Some a \<Longrightarrow> a \<noteq> 0 \<and> a \<noteq> - 1 \<and> a \<notin> dom (k_blocks m)"
  shows "kern_region_life K alloc val val_sz loaded fd m = Inr m"
proof (cases alloc)
  case None
  then show ?thesis
    by (simp add: kern_region_life_def kern_skel_prep_map_data_def kern_skel_free_map_data_def kvfree_null)
next
  case (Some a)
  with assms(2) have a: "a \<noteq> 0" "a \<noteq> - 1" "k_blocks m a = None"
    by auto
  from a(1,3) have free: "ko_kvfree K a (m\<lparr>k_blocks := (k_blocks m)(a \<mapsto> take val_sz val)\<rparr>) = Inr m"
    by (rule free_fresh_block)
  show ?thesis
    using a free assms(1) Some
    by (auto simp: kern_region_life_def kern_skel_prep_map_data_def kern_skel_finalize_map_data_def
        kern_skel_free_map_data_def put_after_get split: option.splits)
qed

end

section \<open>Facts\<close>

text \<open>The context of a skeleton: zeros, with the flag for the kernel set in the kernel; allocated and freed, nothing is left.\<close>

lemma skel_context:
  assumes "8 \<le> sz" and "a \<noteq> 0" and "k_blocks m a = None"
  shows "\<exists>m'. skel_alloc (Some a) sz m = (a, m') \<and> k_blocks m' a = Some (replicate sz 0) \<and> skel_free a m' = Inr m"
    and "kern_env K \<Longrightarrow> \<exists>m'. kern_skel_alloc False (Some a) sz m = Inr (a, m') \<and>
      k_blocks m' a = Some ([0, 0, 0, 0, 1, 0, 0, 0] @ replicate (sz - 8) 0) \<and> kern_skel_free K a m' = Inr m"
proof -
  have flag: "c_bytes False 4 1 = [1, 0, 0, 0]" and zeros: "replicate 4 (0 :: byte) = [0, 0, 0, 0]"
  proof -
    have four: "4 = Suc (Suc (Suc (Suc 0)))"
      by simp
    show "c_bytes False 4 1 = [1, 0, 0, 0]" "replicate 4 (0 :: byte) = [0, 0, 0, 0]"
      unfolding four by (simp_all add: c_bytes_def)
  qed
  have "c_store (replicate sz 0) 4 (c_bytes False 4 1) = Some (replicate 4 0 @ [1, 0, 0, 0] @ replicate (sz - 8) 0)"
    unfolding flag using assms(1) by (simp add: c_store_def min_def)
  then have "c_store (replicate sz 0) 4 (c_bytes False 4 1) = Some ([0, 0, 0, 0, 1, 0, 0, 0] @ replicate (sz - 8) 0)"
    by (simp only: zeros append.simps)
  then show "\<exists>m'. kern_skel_alloc False (Some a) sz m = Inr (a, m') \<and>
      k_blocks m' a = Some ([0, 0, 0, 0, 1, 0, 0, 0] @ replicate (sz - 8) 0) \<and> kern_skel_free K a m' = Inr m" if "kern_env K"
    using kern_env.free_fresh_block(1) [OF that assms(2,3)] by (simp add: kern_skel_alloc_def kern_skel_free_def)
  show "\<exists>m'. skel_alloc (Some a) sz m = (a, m') \<and> k_blocks m' a = Some (replicate sz 0) \<and> skel_free a m' = Inr m"
    using assms by (cases m) (auto simp: skel_alloc_def skel_free_def fun_upd_idem)
qed

text \<open>An error of a system call is one number: \<open>kern_sys_bpf\<close> returns it negated, \<open>syscall\<close> in \<open>errno\<close>.\<close>

definition same_errors :: "bpf_oracle \<Rightarrow> bool" where
  "same_errors K \<longleftrightarrow>
     (\<forall>c a s. case K c a s of (r, e, rv) \<Rightarrow> (r < 0 \<longrightarrow> e = - r)) \<and> (\<forall>c a s n. K c a (s\<lparr>ld_errno := n\<rparr>) = K c a s)"

definition no_errno :: "ld_state \<Rightarrow> ld_state" where
  "no_errno s = s\<lparr>ld_errno := 0\<rparr>"

definition same_run :: "int \<times> string option \<times> ld_state \<Rightarrow> int \<times> string option \<times> ld_state \<Rightarrow> bool" where
  "same_run x y \<longleftrightarrow> (case x of (err, msg, s) \<Rightarrow> case y of (err', msg', s') \<Rightarrow> err = err' \<and> msg = msg' \<and> no_errno s = no_errno s')"

lemma no_errno_iff: "no_errno s = no_errno t \<longleftrightarrow> ld_fds s = ld_fds t \<and> ld_log s = ld_log t \<and> ld_mem s = ld_mem t"
  by (cases s; cases t) (auto simp: no_errno_def)

lemma sys_alike [consumes 2]:
  assumes K: "same_errors K" and s: "no_errno s = no_errno s'"
  obtains (fails) r rv t t' where "skel_sys_bpf K c a s = ((- 1, rv), t)" and "kern_skel_sys_bpf K c a s' = ((r, rv), t')"
      and "r < 0" and "ld_errno t = - r" and "no_errno t = no_errno t'"
  | (works) r rv t t' where "skel_sys_bpf K c a s = ((r, rv), t)" and "kern_skel_sys_bpf K c a s' = ((r, rv), t')"
      and "0 \<le> r" and "no_errno t = no_errno t'"
proof -
  obtain r e rv where k: "K c a s = (r, e, rv)"
    by (metis prod_cases3)
  have "s' = s\<lparr>ld_errno := ld_errno s'\<rparr>"
    using s by (cases s; cases s') (simp add: no_errno_def)
  then have "K c a s' = (r, e, rv)"
    using K k unfolding same_errors_def by metis
  moreover have "r < 0 \<longrightarrow> e = - r"
    using K k by (auto simp: same_errors_def) (metis (mono_tags, lifting) case_prod_conv)
  ultimately show ?thesis
    using fails works k s
    by (cases "r < 0") (auto simp: skel_sys_bpf_def kern_skel_sys_bpf_def Let_def no_errno_iff)
qed

lemma close_alike: "no_errno s = no_errno s' \<Longrightarrow> no_errno (snd (c_close fd s)) = no_errno (snd (kern_close fd s'))"
  by (simp add: no_errno_iff c_close_def kern_close_def)

lemma out_alike:
  assumes "no_errno s = no_errno s'" and "0 \<le> map_fd \<longleftrightarrow> 0 \<le> map_fd'" and "0 \<le> prog_fd \<longleftrightarrow> 0 \<le> prog_fd'"
    and "0 \<le> map_fd \<Longrightarrow> map_fd = map_fd'" and "0 \<le> prog_fd \<Longrightarrow> prog_fd = prog_fd'"
  shows "same_run (load_and_run_out map_fd prog_fd err msg s) (kern_load_and_run_out map_fd' prog_fd' err msg s')"
  using assms by (auto simp: load_and_run_out_def kern_load_and_run_out_def same_run_def Let_def intro!: close_alike)

lemma prog_alike:
  assumes K: "same_errors K" and s: "no_errno s = no_errno s'" and map: "0 \<le> map_fd"
  shows "same_run (load_and_run_prog K opts map_fd s) (kern_load_and_run_prog K opts map_fd s')"
  using K s
proof (cases rule: sys_alike [where c = BPF_PROG_LOAD and a = "loader_prog_attr opts map_fd"])
  case (fails r rv t t')
  then show ?thesis
    by (simp add: load_and_run_prog_def kern_load_and_run_prog_def) (rule out_alike; simp)
next
  case (works prog_fd rv t t')
  note load = works
  show ?thesis
    using K works(4)
  proof (cases rule: sys_alike [where c = BPF_PROG_RUN and a = "A_test prog_fd (lo_ctx_ptr opts) (lc_sz (lo_ctx opts))"])
    case (fails r rv u u')
    with load show ?thesis
      by (simp add: load_and_run_prog_def kern_load_and_run_prog_def) (rule out_alike; simp)
  next
    case (works r rv u u')
    have "no_errno (u\<lparr>ld_errno := n\<rparr>) = no_errno u'" for n
      using works(4) by (simp add: no_errno_def)
    with works load show ?thesis
      by (auto simp: load_and_run_prog_def kern_load_and_run_prog_def intro!: out_alike)
  qed
qed

lemma load_and_run_alike:
  assumes K: "same_errors K" and s: "no_errno s = no_errno s'"
  shows "same_run (bpf_load_and_run K key_ptr opts s) (kern_bpf_load_and_run K key_ptr opts s')"
  using K s
proof (cases rule: sys_alike [where c = BPF_MAP_CREATE and
      a = "A_map_create BPF_MAP_TYPE_ARRAY (c_strncpy 16 ''__loader.map'') 4 (lo_data_sz opts) 1"])
  case (fails r rv t t')
  then show ?thesis
    by (simp add: bpf_load_and_run_def kern_bpf_load_and_run_def skel_map_create_def) (rule out_alike; simp)
next
  case (works map_fd rv t t')
  note create = works
  show ?thesis
    using K works(4)
  proof (cases rule: sys_alike [where c = BPF_MAP_UPDATE_ELEM and a = "A_map_elem map_fd key_ptr (lo_data opts) 0"])
    case (fails r rv u u')
    with create show ?thesis
      by (simp add: bpf_load_and_run_def kern_bpf_load_and_run_def skel_map_create_def skel_map_update_elem_def)
        (rule out_alike; simp)
  next
    case (works r rv u u')
    with create prog_alike [OF K works(4) create(3)] show ?thesis
      by (simp add: bpf_load_and_run_def kern_bpf_load_and_run_def skel_map_create_def skel_map_update_elem_def)
  qed
qed

section \<open>Properties\<close>

text \<open>
  C37: loading a light skeleton does the same in the kernel as in user space: the same system calls with the same contents in
  the same order, the same result and message and the same descriptors at the end, whichever call fails; the only difference is
  \<open>errno\<close>, which the kernel does not have.
\<close>

theorem kernel_load_matches_user:
  assumes "same_errors K"
  shows "case bpf_load_and_run K key_ptr opts s of (err, msg, t) \<Rightarrow>
    case kern_bpf_load_and_run K key_ptr opts s of (err', msg', t') \<Rightarrow>
      err = err' \<and> msg = msg' \<and> ld_fds t = ld_fds t' \<and> ld_log t = ld_log t' \<and> ld_mem t = ld_mem t'"
  using load_and_run_alike [OF assms refl, of key_ptr opts s] by (simp add: same_run_def no_errno_iff split: prod.splits)

text \<open>A kernel that refuses the store into the map.\<close>

definition full_kernel :: bpf_oracle where
  "full_kernel c a s = (if c = BPF_MAP_UPDATE_ELEM then (- 7, 7, 0) else if opens_fd c then (fold max (ld_fds s) 2 + 1, 0, 0) else (0, 0, 0))"

lemma same_errors_full: "same_errors full_kernel"
proof -
  have "0 \<le> fold max xs 2 + 1" for xs :: "int list"
    using fold_max_ge(1) [of 2 xs] by linarith
  then show ?thesis
    by (auto simp: same_errors_def full_kernel_def not_less [symmetric])
qed

theorem kernel_load_matches_user_witness:
  "bpf_load_and_run full_kernel 8 demo_opts demo_ld = (- 7, Some ''failed to update loader map'', demo_ld\<lparr>ld_errno := 7,
     ld_log := [(BPF_MAP_CREATE, A_map_create 2 (c_strncpy 16 ''__loader.map'') 4 64 1), (BPF_MAP_UPDATE_ELEM, A_map_elem 3 8 200 0)]\<rparr>) \<and>
   fst (kern_bpf_load_and_run full_kernel 8 demo_opts demo_ld) = - 7"
proof -
  have user: "bpf_load_and_run full_kernel 8 demo_opts demo_ld = (- 7, Some ''failed to update loader map'', demo_ld\<lparr>ld_errno := 7,
     ld_log := [(BPF_MAP_CREATE, A_map_create 2 (c_strncpy 16 ''__loader.map'') 4 64 1), (BPF_MAP_UPDATE_ELEM, A_map_elem 3 8 200 0)]\<rparr>)"
    by (simp add: bpf_load_and_run_def skel_map_create_def skel_map_update_elem_def skel_sys_bpf_def full_kernel_def opens_fd_def
        demo_ld_def demo_opts_def load_and_run_out_def c_close_def Let_def BPF_MAP_TYPE_ARRAY_def)
  with kernel_load_matches_user [OF same_errors_full, of 8 demo_opts demo_ld] show ?thesis
    by (auto split: prod.splits)
qed

text \<open>
  A kernel with one kind of block and maps that count their references: type, address of the values, references by address of
  the map, and the map behind each descriptor.
\<close>

record kmaps =
  km_maps :: "u64 \<rightharpoonup> nat \<times> u64 \<times> nat"
  km_fds :: "int \<rightharpoonup> u64"

definition counted_get :: "int \<Rightarrow> kmaps kmem \<Rightarrow> (bpf_map \<times> kmaps kmem) option" where
  "counted_get fd m =
     Option.bind (km_fds (k_rest m) fd) (\<lambda>p. map_option (\<lambda>(t, v, n).
       (\<lparr>bm_ptr = p, bm_type = t, bm_value = v\<rparr>, m\<lparr>k_rest := (k_rest m)\<lparr>km_maps := (km_maps (k_rest m))(p \<mapsto> (t, v, n + 1))\<rparr>\<rparr>))
       (km_maps (k_rest m) p))"

definition counted_put :: "bpf_map \<Rightarrow> kmaps kmem \<Rightarrow> kmaps kmem" where
  "counted_put k m = m\<lparr>k_rest := (k_rest m)\<lparr>km_maps := (km_maps (k_rest m))(bm_ptr k := map_option (\<lambda>(t, v, n). (t, v, n - 1)) (km_maps (k_rest m) (bm_ptr k)))\<rparr>\<rparr>"

definition counting_kernel :: "kmaps kern_ops" where
  "counting_kernel = \<lparr>ko_kfree = skel_free, ko_kvfree = skel_free, ko_map_get = counted_get, ko_map_put = counted_put\<rparr>"

interpretation counting: kern_env counting_kernel
proof
  fix m m' :: "kmaps kmem" and fd k
  assume get: "ko_map_get counting_kernel fd m = Some (k, m')"
  obtain B M F where m: "m = \<lparr>k_blocks = B, k_rest = \<lparr>km_maps = M, km_fds = F\<rparr>\<rparr>"
    by (metis kmem.cases kmaps.cases)
  from get show "ko_map_put counting_kernel k m' = m"
    by (auto simp: m counting_kernel_def counted_get_def counted_put_def bind_eq_Some_conv fun_upd_idem)
qed (auto simp: counting_kernel_def skel_free_def)

text \<open>
  C38: the data region of a map in the kernel half, for every kernel whose \<open>kvfree\<close> frees a live block and ignores a null
  pointer and whose \<open>bpf_map_put\<close> undoes \<open>bpf_map_get\<close>: whatever fails, over the life of a region every block is freed exactly
  once, the map's own values are never freed, and the references to the map are balanced.
\<close>

theorem kernel_region_balanced:
  assumes "kern_env K" and "val_sz \<le> length val"
    and "\<And>a. alloc = Some a \<Longrightarrow> a \<noteq> 0 \<and> a \<noteq> - 1 \<and> a \<notin> dom (k_blocks m)"
  shows "kern_region_life K alloc val val_sz loaded fd m = Inr m"
  using assms by (rule kern_env.region_balanced)

definition demo_kmem :: "kmaps kmem" where
  "demo_kmem = \<lparr>k_blocks = Map.empty, k_rest = \<lparr>km_maps = [16 \<mapsto> (2, 8192, 1)], km_fds = [5 \<mapsto> 16]\<rparr>\<rparr>"

theorem kernel_region_balanced_witness:
  "kern_region_life counting_kernel (Some 4096) [1, 2, 3, 4] 4 True 5 demo_kmem = Inr demo_kmem"
  by (rule kernel_region_balanced [OF counting.kern_env_axioms]) (simp_all add: demo_kmem_def)

end
