(* ===== verification/Spec2Isabelle.thy ===== *)
theory Spec2Isabelle
  imports Gen_Data Tracing Skeleton_Objects Embedded_Programs Bpf_Refine Usdt_Bytecode Bpf_Endian Skel_Loader Hashmap
    Libbpf_Internal Helper_Defs_Old Api_Compat Libbpf_Api Btf Embedded_Btf Pt_Regs_Old Probe_Args Skel_Kernel Bpf_Macros
begin

text \<open>
  A verification library for hello_eBPF.

  The program. The repository has two halves. The first is a storage benchmark: scripts/generate_data.py writes
  a file with a known number of occurrences of "Alpha", and benchmarks/baseline.c reads a file or a device
  through a 64 KiB buffer, counts the occurrences and prints the count and the time. The second half is a
  pair of eBPF examples under examples/c: the kernel programs hello.bpf.c and minimal.bpf.c, and the loaders
  hello.c and minimal.c, which run on generated skeleton headers (examples/c/.output/*.skel.h) and on libbpf, whose
  headers, with the code in them, are in examples/c/.output as well. The loader opens the skeleton, stores its
  process id in the program's global, loads and attaches; from then on the kernel runs the program at
  each write system call, and the program prints when the caller is the loader.

  The benchmark.
  HE_Prelude: bytes and words, checked memory primitives, \<open>size_t\<close> arithmetic with its wrap-around, error
  numbers, decimal printing. Occurrences: counting the occurrences of a pattern, and the locale
  \<open>unbordered_pattern\<close>, which is why jumping over a match and keeping four bytes between two reads is
  right for "Alpha" (interpreted on the pattern of the source in Baseline_Scan).
  Baseline_Scan: \<open>scan_loop\<close> (lines 54 to 61), \<open>chunk_body\<close> (41 to 65) and \<open>read_loop\<close> (40 to 66) of baseline.c
  over the record \<open>bl_state\<close> (the buffer, \<open>offset_bytes\<close>, the 64-bit counter) and an arbitrary script of results of
  \<open>read\<close>. Lemmas: the invariant \<open>bl_inv\<close> (the counter is the count in what was read, and the front of the buffer is
  its last bytes), termination, no access outside the buffer, no failed assertion.
  Baseline_Main: \<open>main\<close>, with every exit, as a list of output events. Lemmas: the refinement to
  \<open>baseline_spec\<close>, the count, exits, the descriptor, the clock. Gen_Data: the script, from its command line to its messages
  (\<open>gen_main\<close>, with \<open>generate\<close> inside), and the agreement of the producer and the consumer.

  The skeletons.
  Skeleton: the eight functions that bpftool writes into each header, over an explicit heap of the blocks they
  allocate, with failing allocations (\<open>alloc_plan\<close>) and \<open>errno\<close>; a use of a freed block is a \<open>Mem_fault\<close>. libbpf is a
  record of five functions. The locale \<open>libbpf_env\<close> states what the generated code relies on, \<open>libbpf_mmap\<close> adds the
  mapped section, \<open>skel_api\<close> is what an application may rely on; the first gives the third (\<open>sublocale\<close>), and
  \<open>plain_libbpf\<close> meets them. Skel_Life: nothing leaks on any error path, a whole life gives the heap back, errors
  arrive in \<open>errno\<close>, nothing works after \<open>destroy\<close>. Minimal_Skel: the tables of minimal.skel.h and its object file,
  byte by byte. Skeleton_Tables: the tables, structures and assertions of all fourteen headers; the link pointer that a header
  registers for a program is a column of its own in the table, next to the program pointer, and an opened object has both in the structure. Elf: sections, symbols,
  relocations and instructions of an ELF object. Obj_<Name>: the object file inside <name>.skel.h as a list of bytes,
  cut at the boundaries of its sections (\<open><name>_elf_<section>\<close>, the bytes of the array \<open>__elf_bytes\<close> in order), with what
  Elf reads from it. Skeleton_Objects: programs, maps, mapped variables and the license of each object
  against the tables and the structure of the header it is in.

  The BPF side.
  Bpf_Helpers: the macros of bpf_helpers.h behind \<open>bpf_printk\<close>. Bpf_Macros: the other macros of that header, with the
  loops over iterators. Bpf_Progs: \<open>handle_tp\<close> of both programs.
  Bpf_Bytecode: a reader of the embedded object file and an interpreter of the eight instructions it uses;
  the embedded bytecode refines the source. Usdt: usdt.bpf.h. Bpf_Endian: bpf_endian.h.

  The embedded programs.
  C_Types and Helper_Defs: C types, and the declarations of all helpers in bpf_helper_defs.h, with number, result and
  parameters; Helper_Defs_Old: the second copy of that header, and that both agree. Bpf_Machine: an abstract eBPF machine as a
  step relation (\<open>bpf_step\<close>) with registers, stack slots, jumps and helper calls, where memory outside the stack and
  the results of helpers are arbitrary, and a checker (\<open>bpf_check\<close>) that infers what is known at each instruction in
  one forward pass. Bpf_Sound: preservation and progress; a program the checker accepts never gets stuck and
  exits. Bpf_Init: which stack bytes a run has written, with the
  helpers documented to fill the region they are given, and a second forward pass over the checked program (intervals of
  written bytes per instruction, registers with a known constant for the sizes), sound for \<open>clean_stack\<close>: a load from the
  stack reads bytes written before, and register 10 keeps the frame pointer. Embedded_Programs: both passes accept the
  programs of thirteen objects. Bpf_Refine: runs of the
  interpreter of Bpf_Bytecode are runs of the machine.
  Bpf_Calls: the programs of usdt.skel.h call functions of their own. Linking by the relocations of the object, a stack of
  frames over the machine (\<open>frames_step\<close>), and a checker that takes the functions in the order of their calls and
  computes a bound on the steps of each. Embedded_Usdt: it accepts the linked programs. Usdt_Bytecode: runs the
  compiled \<open>bpf_usdt_arg_cnt\<close>, \<open>bpf_usdt_arg\<close> and \<open>bpf_usdt_cookie\<close> of that object on symbolic memory, path by path; they compute
  what the functions of Usdt compute.

  The loaders.
  Apps: \<open>main\<close> of hello.c and minimal.c, over \<open>skel_api\<close> and over the functions of minimal.skel.h. Tracing: the running
  system as a labelled step relation (\<open>sys_step\<close>): turns of the loader's loop and write system calls of any
  thread, in any order, with the kernel running the embedded bytecode. The theorem on it goes from the
  first statement of minimal.c to the trace.

  Headers with code of their own.
  Skel_Loader and Skel_Kernel: skel_internal.h, the run time of light skeletons, in user space and in the kernel; the
  functions of the kernel it calls are the record \<open>kern_ops\<close>, with the locale \<open>kern_env\<close> for what it relies on. Hashmap: the hash functions and the iteration macros of
  hashmap.h over a store with \<open>next\<close> pointers. Libbpf_Internal: the inline helpers of libbpf_internal.h.
  Opts_Structs and Opts_Structs_Old: the option structures of libbpf.h, bpf.h and btf.h in the two versions of the
  headers, member by member. Opts_Compat: their layout in C, the macros \<open>LIBBPF_OPTS\<close>, \<open>OPTS_VALID\<close>, \<open>OPTS_HAS\<close>, \<open>OPTS_GET\<close>,
  \<open>OPTS_SET\<close> and \<open>OPTS_ZEROED\<close>, and what happens when a caller and the library were compiled against different versions.
  Api_Decls and Api_Decls_Old: the prototypes of libbpf.h, bpf.h, btf.h and libbpf_legacy.h in the two versions. Api_Types: the
  callback types and enumerations of the two versions. Api_Compat: what makes an
  older call compile against a newer prototype (\<open>accepts\<close>), and the relation \<open>evolves\<close> between two lists of prototypes; a
  call that compiles for any conversion of types that may add \<open>const\<close> (\<open>adds_const\<close>) compiles against the newer copy and
  passes arguments of the same sizes. Libbpf_Api: the enumerations, the version numbers and the
  loops over the programs and maps of an object.

  Access to the kernel's data, in macros.
  Core_Read: the macros of bpf_core_read.h that read and write bit fields, on both byte orders; what the loader fills in
  for a field is a parameter. Core_Chain: \<open>BPF_CORE_READ(src, a, b, ...)\<close> and its variants, first the preprocessor (counting,
  cutting and pasting of arguments, to a list of calls), then the calls; each of the
  twelve macros follows the pointers of the chain with the helpers of its variant; for helpers that fill with zeros when they
  fail, the result shows a failure in the chain (\<open>broken_chain_noticed\<close>). Pt_Regs: the register tables of bpf_tracing.h for ten architectures, and the macros
  \<open>PT_REGS_PARM1\<close> to \<open>PT_REGS_IP\<close> as expressions over \<open>struct pt_regs\<close>, whose layout is a parameter; the reads for
  CO-RE go through Core_Chain. Pt_Regs_Old: the tables of the older copy, and where the two differ. Probe_Args: \<open>BPF_PROG\<close>,
  \<open>BPF_PROG2\<close>, \<open>BPF_KPROBE\<close>, \<open>BPF_KRETPROBE\<close> and \<open>BPF_KSYSCALL\<close>: the values the body of a program is called with,
  and for which numbers of arguments it compiles.

  Type information.
  Btf: the encoding macros of libbpf_internal.h and the accessors of btf.h over the words of a type, each kind with its
  predicate. Btf_Ext: the header, the sections and the two loops over a .BTF.ext section; reading gives back what was written, and
  the loops end. Embedded_Btf: the .BTF.ext sections of the fourteen objects fit the programs beside them: functions at the function
  symbols, lines and relocations at the starts of instructions.

  Bounds and fuel. The loops of the benchmark and of the helpers are total functions with their measures.
  The interpreter \<open>bpf_run\<close> takes fuel; the embedded program has 13 slots and no backward jump and ends within 11
  instructions, and the theorems on it hold for every amount from 11 on. The iteration over a hash map is a partial
  function, and that it returns is part of the theorems on it. Runs of the abstract machine have no fuel: no
  embedded program jumps backwards, and a run has fewer steps than its program has instructions; for linked programs
  \<open>run_bounds\<close> adds the bounds of the functions called, and \<open>usdt_programs_safe\<close> states the sums.

  Not modelled. libbpf and the kernel beyond the headers (they are parameters with stated contracts); hello.skel.h, which
  is not in the repository (a parameter of \<open>hello_main\<close>); the rounding of \<open>double\<close>; the sum of the stack
  depths over the frames of a linked program (each frame has its own 512 bytes); the types in the .BTF sections of the objects (their bytes
  are there); what a helper does, beyond the two the programs of the repository call and the region it fills;
  the macros of bpf_core_read.h that only hand a type or a field to a builtin of the compiler; the conversion of an
  argument to its declared type after an entry macro has read it; the shell scripts around SPDK.
\<close>

end
